(* ===== verification/Prelude.thy ===== *)
theory Prelude
  imports Main "HOL-Library.Word" "HOL-Library.Monad_Syntax"
begin

text \<open>
  What every theory of the firmware's model shares: the C integer types, byte order helpers,
  memory as the processor addresses it, and the generic facts about bytes, words and lists
  that the component proofs use through the simplifier or through a named collection.

  \<^item> \<open>uint8_t\<close> and \<open>uint32_t\<close> values that the code treats bitwise are words.  Lengths and
    offsets (\<open>uint16_t\<close>, \<open>size_t\<close>) are natural numbers, and the wrap-around is written
    out (\<open>mod 65536\<close>) where the code stores them into a narrower variable.
  \<^item> A pointer into a buffer is an index; memory is a total function from addresses to
    bytes, because the part has no memory protection and an out-of-bounds read returns
    whatever is stored there.
\<close>

unbundle bit_operations_syntax

section \<open>Types\<close>

type_synonym u8 = "8 word"
type_synonym u16 = "16 word"
type_synonym u32 = "32 word"
type_synonym u64 = "64 word"

type_synonym mem = "nat \<Rightarrow> u8"

named_theorems append_rules
  \<open>what each CBOR encoder call appends to the output\<close>
named_theorems frame_simps
  \<open>which parts of the state an operation leaves alone\<close>

section \<open>Bytes and words\<close>

lemma u8_lt_256 [simp]: "unat (b :: u8) < 256"
  using unsigned_less [of b, where 'a = nat] by simp

lemma u8_le_255 [simp]: "unat (b :: u8) \<le> 255"
  using u8_lt_256 [of b] by linarith

lemma bit_u8_ge: "8 \<le> n \<Longrightarrow> \<not> bit (b :: u8) n"
  by (auto dest: bit_imp_le_length)

lemma bit_u32_ge: "32 \<le> n \<Longrightarrow> \<not> bit (w :: u32) n"
  by (auto dest: bit_imp_le_length)

lemma u8_cases:
  assumes "\<And>n. n < 256 \<Longrightarrow> P (word_of_nat n)"
  shows "P (b :: u8)"
proof -
  have "b = word_of_nat (unat b)" by simp
  with assms [of "unat b"] show ?thesis by simp
qed

lemma or_disjoint: "a AND b = 0 \<Longrightarrow> a OR b = a + (b :: 'a :: len word)"
  using word_plus_and_or [of a b] by simp

lemma mask8_u32: "(0xFF :: u32) = mask 8"
  by (simp add: mask_eq_exp_minus_1)

lemma hi3_mask: "(0xE0 :: u8) = push_bit 5 (mask 3)"
  by (simp add: mask_eq_exp_minus_1 push_bit_eq_mult)

lemma lo5_mask: "(0x1F :: u8) = mask 5"
  by (simp add: mask_eq_exp_minus_1)

lemma unat_and_lo5: "unat ((b :: u8) AND 0x1F) = unat b mod 32"
  unfolding lo5_mask
  by (simp add: unsigned_take_bit_eq take_bit_eq_mod unat_mod_distrib flip: take_bit_eq_mask)

lemma and_lo5_lt [simp]: "unat ((b :: u8) AND 0x1F) < 32"
  by (simp add: unat_and_lo5)

lemma and_hi3: "(b :: u8) AND 0xE0 = push_bit 5 (drop_bit 5 b)"
  unfolding hi3_mask by (rule bit_word_eqI) (auto simp: bit_simps bit_u8_ge)

lemma small_bits:
  assumes "v < (32 :: u8)" "5 \<le> n"
  shows "\<not> bit v n"
proof
  assume "bit v n"
  then have "bit (unat v) n"
    by (auto simp: bit_unsigned_iff dest: bit_imp_le_length)
  then have "unat v div 2 ^ n \<noteq> 0"
    by (metis bit_iff_odd even_zero)
  moreover have "unat v < 2 ^ 5"
    using assms(1) by (simp add: word_less_nat_alt)
  moreover have "(2 :: nat) ^ 5 \<le> 2 ^ n"
    using assms(2) by (rule power_increasing) simp
  ultimately show False by simp
qed

lemma small_bit_le: "v < (32 :: u8) \<Longrightarrow> bit v n \<Longrightarrow> n < 5"
  using small_bits [of v n] by (meson not_le)

lemma hi3_of_head:
  assumes "v < (32 :: u8)"
  shows "(push_bit 5 m OR v) AND 0xE0 = push_bit 5 m"
  unfolding hi3_mask
  by (rule bit_word_eqI) (auto simp: bit_simps bit_u8_ge small_bits [OF assms] small_bit_le [OF assms])

lemma lo5_of_head:
  assumes "v < (32 :: u8)"
  shows "(push_bit 5 m OR v) AND 0x1F = v"
  unfolding lo5_mask
  by (rule bit_word_eqI) (auto simp: bit_simps bit_u8_ge small_bits [OF assms] small_bit_le [OF assms])

section \<open>Byte order\<close>

text \<open>\<open>(data[1] << 8) | data[2]\<close>, as the length readers write it.\<close>

definition be16 :: "u8 \<Rightarrow> u8 \<Rightarrow> nat" where
  "be16 b1 b2 = unat (push_bit 8 (ucast b1 :: u16) OR ucast b2)"

lemma be16_nat: "be16 a b = 256 * unat a + unat b"
proof -
  have "push_bit 8 (ucast a :: u16) AND ucast b = 0"
    by (rule bit_word_eqI) (auto simp: bit_simps bit_u8_ge)
  then have "push_bit 8 (ucast a :: u16) OR ucast b = push_bit 8 (ucast a) + ucast b"
    by (rule or_disjoint)
  then show ?thesis
    using u8_lt_256 [of a] u8_lt_256 [of b]
    by (simp add: be16_def unat_word_ariths push_bit_eq_mult unsigned_ucast_eq take_bit_eq_mod
        del: u8_lt_256)
qed

lemma be16_lt [simp]: "be16 a b < 65536"
  using u8_lt_256 [of a] u8_lt_256 [of b] by (simp add: be16_nat del: u8_lt_256)

text \<open>\<open>(b[0] << 24) | (b[1] << 16) | (b[2] << 8) | b[3]\<close> and the four byte extractions
  that undo it.\<close>

definition be32_of :: "u8 \<Rightarrow> u8 \<Rightarrow> u8 \<Rightarrow> u8 \<Rightarrow> u32" where
  "be32_of b0 b1 b2 b3 =
     push_bit 24 (ucast b0) OR push_bit 16 (ucast b1) OR push_bit 8 (ucast b2) OR ucast b3"

definition be32_bytes :: "u32 \<Rightarrow> u8 list" where
  "be32_bytes w =
     [ucast (drop_bit 24 w AND 0xFF), ucast (drop_bit 16 w AND 0xFF),
      ucast (drop_bit 8 w AND 0xFF), ucast (w AND 0xFF)]"

lemma length_be32_bytes [simp]: "length (be32_bytes w) = 4"
  by (simp add: be32_bytes_def)

lemma be32_of_bytes:
  "be32_of (ucast (drop_bit 24 w AND 0xFF)) (ucast (drop_bit 16 w AND 0xFF))
     (ucast (drop_bit 8 w AND 0xFF)) (ucast (w AND 0xFF)) = w"
  unfolding be32_of_def mask8_u32
proof (rule bit_word_eqI)
  fix n
  assume "n < LENGTH(32)"
  then consider "n < 8" | "8 \<le> n" "n < 16" | "16 \<le> n" "n < 24" | "24 \<le> n" "n < 32"
    by force
  then show "bit (push_bit 24 (ucast (ucast (drop_bit 24 w AND mask 8) :: u8)) OR
      push_bit 16 (ucast (ucast (drop_bit 16 w AND mask 8) :: u8)) OR
      push_bit 8 (ucast (ucast (drop_bit 8 w AND mask 8) :: u8)) OR
      ucast (ucast (w AND mask 8) :: u8) :: u32) n \<longleftrightarrow> bit w n"
    by cases (auto simp: bit_simps)
qed

lemma be32_bytes_of: "be32_bytes (be32_of a b c d) = [a, b, c, d]"
proof -
  have "ucast (drop_bit 24 (be32_of a b c d) AND mask 8) = a"
    unfolding be32_of_def by (rule bit_word_eqI) (simp add: bit_simps bit_u8_ge)
  moreover have "ucast (drop_bit 16 (be32_of a b c d) AND mask 8) = b"
    unfolding be32_of_def by (rule bit_word_eqI) (simp add: bit_simps bit_u8_ge)
  moreover have "ucast (drop_bit 8 (be32_of a b c d) AND mask 8) = c"
    unfolding be32_of_def by (rule bit_word_eqI) (simp add: bit_simps bit_u8_ge)
  moreover have "ucast (be32_of a b c d AND mask 8) = d"
    unfolding be32_of_def by (rule bit_word_eqI) (simp add: bit_simps bit_u8_ge)
  ultimately show ?thesis unfolding be32_bytes_def mask8_u32 by simp
qed

text \<open>The processor is little endian: a \<open>uint32_t\<close> field in memory.\<close>

definition le32_of :: "u8 \<Rightarrow> u8 \<Rightarrow> u8 \<Rightarrow> u8 \<Rightarrow> u32" where
  "le32_of b0 b1 b2 b3 = be32_of b3 b2 b1 b0"

definition le32_bytes :: "u32 \<Rightarrow> u8 list" where
  "le32_bytes w = rev (be32_bytes w)"

lemma length_le32_bytes [simp]: "length (le32_bytes w) = 4"
  by (simp add: le32_bytes_def)

lemma le32_of_bytes:
  "le32_bytes w = [a, b, c, d] \<Longrightarrow> le32_of a b c d = w"
  using be32_of_bytes [of w] by (auto simp: le32_bytes_def le32_of_def be32_bytes_def)

section \<open>Memory\<close>

text \<open>The \<open>n\<close> bytes at address \<open>a\<close>, as \<open>memcpy\<close> and \<open>memcmp\<close> read them.\<close>

definition bytes :: "mem \<Rightarrow> nat \<Rightarrow> nat \<Rightarrow> u8 list" where
  "bytes m a n = map m [a..<a + n]"

lemma length_bytes [simp]: "length (bytes m a n) = n"
  by (simp add: bytes_def)

lemma bytes_nth [simp]: "i < n \<Longrightarrow> bytes m a n ! i = m (a + i)"
  by (simp add: bytes_def)

lemma bytes_0 [simp]: "bytes m a 0 = []"
  by (simp add: bytes_def)

lemma bytes_Suc: "bytes m a (Suc n) = m a # bytes m (Suc a) n"
  by (simp add: bytes_def upt_conv_Cons del: upt_Suc)

lemma bytes_add: "bytes m a (i + j) = bytes m a i @ bytes m (a + i) j"
  by (rule nth_equalityI) (auto simp: nth_append add.assoc)

lemma bytes_cong: "(\<And>i. i < n \<Longrightarrow> m (a + i) = m' (a + i)) \<Longrightarrow> bytes m a n = bytes m' a n"
  by (rule nth_equalityI) simp_all

text \<open>A memory that holds a given buffer at address 0 and \<open>rest\<close> behind it.\<close>

definition mem_of :: "u8 list \<Rightarrow> mem \<Rightarrow> mem" where
  "mem_of xs rest i = (if i < length xs then xs ! i else rest (i - length xs))"

lemma mem_of_nth [simp]: "i < length xs \<Longrightarrow> mem_of xs rest i = xs ! i"
  by (simp add: mem_of_def)

lemma bytes_mem_of: "a + n \<le> length xs \<Longrightarrow> bytes (mem_of xs rest) a n = take n (drop a xs)"
  by (rule nth_equalityI) simp_all

text \<open>\<open>memcpy\<close> of \<open>ys\<close> into the array \<open>xs\<close> at index \<open>i\<close>.\<close>

definition blit :: "'a list \<Rightarrow> nat \<Rightarrow> 'a list \<Rightarrow> 'a list" where
  "blit xs i ys = take i xs @ ys @ drop (i + length ys) xs"

lemma length_blit [simp]: "i + length ys \<le> length xs \<Longrightarrow> length (blit xs i ys) = length xs"
  by (simp add: blit_def)

lemma take_blit:
  "i \<le> length xs \<Longrightarrow> take (i + length ys) (blit xs i ys) = take i xs @ ys"
  by (simp add: blit_def)

lemma take_drop_blit:
  "i \<le> length xs \<Longrightarrow> take (length ys) (drop i (blit xs i ys)) = ys"
  by (simp add: blit_def)

lemma nth_blit:
  "i + length ys \<le> length xs \<Longrightarrow> n < length xs \<Longrightarrow>
    blit xs i ys ! n = (if i \<le> n \<and> n < i + length ys then ys ! (n - i) else xs ! n)"
  by (auto simp: blit_def nth_append min_absorb2)

end
