(* ===== verification/Flash.thy ===== *)
theory Flash
  imports Prelude
begin

text \<open>
  \<open>usb_hid_fido2/flash_passkey.c\<close> and its header: the credential store (five 256-byte pages,
  one \<open>ResidentKey\<close> each) and the PIN page.

  \<^item> The flash array is byte memory at its absolute addresses.  The register sequences of
    \<open>flash_erase_page\<close> and \<open>flash_program_64bytes\<close> appear by what the controller does for them:
    an erased page reads \<open>FF\<close>, programming can only clear bits, and both are ignored while the
    controller is locked.  \<open>flash_unlock\<close> also disables interrupts and \<open>flash_lock\<close> enables them.
  \<^item> The \<open>while (addr < PASSKEY_FLASH_END)\<close> loops walk the list \<open>slot_addrs\<close>.
  \<^item> Specification: the store is a list of five optional credentials (\<open>slots\<close>).
    \<open>passkey_save\<close>, \<open>passkey_delete_by_cred_id\<close>, \<open>flash_factory_reset\<close> and the look-ups are refinements of
    list operations, and the PIN page is independent of them.
\<close>

section \<open>The controller\<close>

record hw =
  fmem :: mem
  flash_locked :: bool
  irq_on :: bool

definition flash_unlock :: "hw \<Rightarrow> hw" where
  "flash_unlock s = s\<lparr>irq_on := False, flash_locked := False\<rparr>"

definition flash_lock :: "hw \<Rightarrow> hw" where
  "flash_lock s = s\<lparr>flash_locked := True, irq_on := True\<rparr>"

definition flash_erase_page :: "nat \<Rightarrow> hw \<Rightarrow> hw" where
  "flash_erase_page addr s =
    (if flash_locked s then s
     else s\<lparr>fmem := (\<lambda>a. if addr \<le> a \<and> a < addr + 256 then 0xFF else fmem s a)\<rparr>)"

definition flash_program_64bytes :: "nat \<Rightarrow> u8 list \<Rightarrow> hw \<Rightarrow> hw" where
  "flash_program_64bytes addr d s =
    (if flash_locked s then s
     else s\<lparr>fmem := (\<lambda>a. if addr \<le> a \<and> a < addr + 64 then fmem s a AND d ! (a - addr) else fmem s a)\<rparr>)"

text \<open>The loop \<open>for (i = 0; i < sizeof(...)/64; i++)\<close> that writes a 256-byte structure.\<close>

definition flash_write_page :: "nat \<Rightarrow> u8 list \<Rightarrow> hw \<Rightarrow> hw" where
  "flash_write_page dst src =
    fold (\<lambda>i. flash_program_64bytes (dst + 64 * i) (take 64 (drop (64 * i) src))) [0..<4]"

section \<open>Structures and addresses\<close>

definition PIN_FLASH_ADDR :: nat where "PIN_FLASH_ADDR = 0x0800F700"
definition PASSKEY_FLASH_START :: nat where "PASSKEY_FLASH_START = 0x0800F200"
definition PASSKEY_FLASH_END :: nat where "PASSKEY_FLASH_END = 0x0800F700"
definition PASSKEY_PAGE_SIZE :: nat where "PASSKEY_PAGE_SIZE = 256"
definition PASSKEY_NUM_SLOTS :: nat where
  "PASSKEY_NUM_SLOTS = (PASSKEY_FLASH_END - PASSKEY_FLASH_START) div PASSKEY_PAGE_SIZE"
definition PASSKEY_MAGIC :: u32 where "PASSKEY_MAGIC = 0xF1D0F1D0"
definition PIN_MAGIC :: u32 where "PIN_MAGIC = 0x50494E50"

definition slot_addrs :: "nat list" where
  "slot_addrs = map (\<lambda>i. PASSKEY_FLASH_START + i * PASSKEY_PAGE_SIZE) [0..<PASSKEY_NUM_SLOTS]"

definition word_at :: "mem \<Rightarrow> nat \<Rightarrow> u32" where
  "word_at m a = le32_of (m a) (m (a + 1)) (m (a + 2)) (m (a + 3))"

record ResidentKey =
  rk_rp_id_hash :: "u8 list"
  rk_user_id_len :: nat
  rk_user_id :: "u8 list"
  rk_credential_id :: "u8 list"
  rk_private_key :: "u8 list"
  rk_user_name_len :: nat
  rk_user_name :: "u8 list"
  rk_rp_id_len :: nat
  rk_rp_id :: "u8 list"

text \<open>The layout of the struct: \<open>magic\<close> at 0, then the fields in declaration order.\<close>

definition read_rk :: "mem \<Rightarrow> nat \<Rightarrow> ResidentKey" where
  "read_rk m a = \<lparr>
     rk_rp_id_hash = bytes m (a + 4) 32,
     rk_user_id_len = unat (m (a + 36)),
     rk_user_id = bytes m (a + 37) 64,
     rk_credential_id = bytes m (a + 101) 32,
     rk_private_key = bytes m (a + 133) 32,
     rk_user_name_len = unat (m (a + 165)),
     rk_user_name = bytes m (a + 166) 32,
     rk_rp_id_len = unat (m (a + 198)),
     rk_rp_id = bytes m (a + 199) 32\<rparr>"

definition rk_bytes :: "u32 \<Rightarrow> ResidentKey \<Rightarrow> u8 list \<Rightarrow> u8 list" where
  "rk_bytes mg rk padding =
    le32_bytes mg @ rk_rp_id_hash rk @ [word_of_nat (rk_user_id_len rk)] @ rk_user_id rk @
    rk_credential_id rk @ rk_private_key rk @ [word_of_nat (rk_user_name_len rk)] @ rk_user_name rk @
    [word_of_nat (rk_rp_id_len rk)] @ rk_rp_id rk @ padding"

definition is_key :: "mem \<Rightarrow> nat \<Rightarrow> bool" where
  "is_key m a \<longleftrightarrow> word_at m a = PASSKEY_MAGIC"

section \<open>The credential store\<close>

text \<open>\<open>flash_factory_reset\<close>: the loop condition is \<open>addr <= PIN_FLASH_ADDR\<close>, and there is no
  \<open>flash_lock\<close> behind it.\<close>

definition flash_factory_reset :: "hw \<Rightarrow> hw" where
  "flash_factory_reset s = fold flash_erase_page (slot_addrs @ [PIN_FLASH_ADDR]) (flash_unlock s)"

text \<open>The search loop of \<open>passkey_save\<close>; \<open>slot\<close> is the first empty page seen so far.\<close>

fun save_slot :: "mem \<Rightarrow> u8 list \<Rightarrow> u8 list \<Rightarrow> nat \<Rightarrow> nat list \<Rightarrow> nat option \<Rightarrow> nat option" where
  "save_slot m rp_id_hash user_id user_id_len [] slot = slot"
| "save_slot m rp_id_hash user_id user_id_len (a # as) slot =
    (if word_at m a = 0xFFFFFFFF
     then save_slot m rp_id_hash user_id user_id_len as (if slot = None then Some a else slot)
     else if is_key m a \<and> bytes m (a + 4) 32 = take 32 rp_id_hash \<and> unat (m (a + 36)) = user_id_len
       \<and> bytes m (a + 37) user_id_len = take user_id_len user_id
     then Some a
     else save_slot m rp_id_hash user_id user_id_len as slot)"

text \<open>\<open>new_key\<close>: everything the fields do not cover stays \<open>FF\<close> from the \<open>memset\<close>.\<close>

definition new_rk ::
    "u8 list \<Rightarrow> u8 list \<Rightarrow> nat \<Rightarrow> u8 list \<Rightarrow> nat \<Rightarrow> u8 list \<Rightarrow> nat \<Rightarrow> u8 list \<Rightarrow> u8 list \<Rightarrow> ResidentKey" where
  "new_rk rp_id_hash rp_id rp_id_len user_id user_id_len user_name user_name_len credential_id private_key =
    (let rp_id_len = (if 32 < rp_id_len then 32 else rp_id_len);
         user_id_len = (if 64 < user_id_len then 64 else user_id_len);
         user_name_len = (if 32 < user_name_len then 32 else user_name_len)
     in \<lparr>rk_rp_id_hash = take 32 rp_id_hash,
         rk_user_id_len = user_id_len,
         rk_user_id = blit (replicate 64 0xFF) 0 (take user_id_len user_id),
         rk_credential_id = take 32 credential_id,
         rk_private_key = take 32 private_key,
         rk_user_name_len = user_name_len,
         rk_user_name = blit (replicate 32 0xFF) 0 (take user_name_len user_name),
         rk_rp_id_len = rp_id_len,
         rk_rp_id = blit (replicate 32 0xFF) 0 (take rp_id_len rp_id)\<rparr>)"

text \<open>\<open>passkey_save\<close> around the preparation of \<open>new_key\<close>: search, then erase and write the page.
  Result \<open>True\<close> is the return value 0, \<open>False\<close> is -1.\<close>

definition passkey_save_rk :: "u8 list \<Rightarrow> u8 list \<Rightarrow> nat \<Rightarrow> ResidentKey \<Rightarrow> hw \<Rightarrow> bool \<times> hw" where
  "passkey_save_rk rp_id_hash user_id user_id_len rk s =
    (case save_slot (fmem s) rp_id_hash user_id user_id_len slot_addrs None of
       None \<Rightarrow> (False, s)
     | Some slot \<Rightarrow>
       (let new_key = rk_bytes PASSKEY_MAGIC rk (replicate 25 0xFF);
            s = flash_unlock s;
            s = flash_erase_page slot s;
            s = flash_write_page slot new_key s
        in (True, flash_lock s)))"

definition passkey_save ::
    "u8 list \<Rightarrow> u8 list \<Rightarrow> nat \<Rightarrow> u8 list \<Rightarrow> nat \<Rightarrow> u8 list \<Rightarrow> nat \<Rightarrow> u8 list \<Rightarrow> u8 list \<Rightarrow> hw \<Rightarrow> bool \<times> hw" where
  "passkey_save rp_id_hash rp_id rp_id_len user_id user_id_len user_name user_name_len
      credential_id private_key s =
    passkey_save_rk rp_id_hash user_id user_id_len
      (new_rk rp_id_hash rp_id rp_id_len user_id user_id_len user_name user_name_len
        credential_id private_key) s"

text \<open>A \<open>ResidentKey*\<close> is a slot address.\<close>

definition passkey_find_by_rp :: "u8 list \<Rightarrow> hw \<Rightarrow> nat option" where
  "passkey_find_by_rp h s =
    find (\<lambda>a. is_key (fmem s) a \<and> bytes (fmem s) (a + 4) 32 = take 32 h) slot_addrs"

definition passkey_find_by_cred_id :: "u8 list \<Rightarrow> hw \<Rightarrow> nat option" where
  "passkey_find_by_cred_id c s =
    find (\<lambda>a. is_key (fmem s) a \<and> bytes (fmem s) (a + 101) 32 = take 32 c) slot_addrs"

definition passkey_count_all :: "hw \<Rightarrow> nat" where
  "passkey_count_all s =
    fold (\<lambda>a count. if is_key (fmem s) a then count + 1 else count) slot_addrs 0"

text \<open>The inner loop of the two RP enumeration functions, \<open>while (check_addr < addr)\<close>.\<close>

definition rp_unique :: "mem \<Rightarrow> nat \<Rightarrow> bool" where
  "rp_unique m addr \<longleftrightarrow>
    \<not> list_ex (\<lambda>check. is_key m check \<and> bytes m (check + 4) 32 = bytes m (addr + 4) 32)
        (takeWhile (\<lambda>check. check < addr) slot_addrs)"

definition passkey_count_unique_rps :: "hw \<Rightarrow> nat" where
  "passkey_count_unique_rps s =
    fold (\<lambda>a count. if is_key (fmem s) a \<and> rp_unique (fmem s) a then count + 1 else count) slot_addrs 0"

fun unique_rp_loop :: "mem \<Rightarrow> nat \<Rightarrow> nat list \<Rightarrow> nat \<Rightarrow> u8 list option" where
  "unique_rp_loop m target [] count = None"
| "unique_rp_loop m target (a # as) count =
    (if is_key m a \<and> rp_unique m a
     then (if count = target then Some (bytes m (a + 4) 32)
           else unique_rp_loop m target as (count + 1))
     else unique_rp_loop m target as count)"

definition passkey_get_unique_rp_hash :: "nat \<Rightarrow> hw \<Rightarrow> u8 list option" where
  "passkey_get_unique_rp_hash target_index s = unique_rp_loop (fmem s) target_index slot_addrs 0"

definition passkey_count_for_rp :: "u8 list \<Rightarrow> hw \<Rightarrow> nat" where
  "passkey_count_for_rp h s =
    fold (\<lambda>a count. if is_key (fmem s) a \<and> bytes (fmem s) (a + 4) 32 = take 32 h then count + 1 else count)
      slot_addrs 0"

fun rp_index_loop :: "mem \<Rightarrow> u8 list \<Rightarrow> nat \<Rightarrow> nat list \<Rightarrow> nat \<Rightarrow> nat option" where
  "rp_index_loop m h target [] match_idx = None"
| "rp_index_loop m h target (a # as) match_idx =
    (if is_key m a \<and> bytes m (a + 4) 32 = take 32 h
     then (if match_idx = target then Some a else rp_index_loop m h target as (match_idx + 1))
     else rp_index_loop m h target as match_idx)"

definition passkey_get_by_rp_index :: "u8 list \<Rightarrow> nat \<Rightarrow> hw \<Rightarrow> nat option" where
  "passkey_get_by_rp_index h target_index s = rp_index_loop (fmem s) h target_index slot_addrs 0"

definition passkey_delete_by_cred_id :: "u8 list \<Rightarrow> hw \<Rightarrow> bool \<times> hw" where
  "passkey_delete_by_cred_id c s =
    (case find (\<lambda>a. is_key (fmem s) a \<and> bytes (fmem s) (a + 101) 32 = take 32 c) slot_addrs of
       None \<Rightarrow> (False, s)
     | Some addr \<Rightarrow> (True, flash_lock (flash_erase_page addr (flash_unlock s))))"

section \<open>The PIN page\<close>

record PINState =
  ps_pin_hash :: "u8 list"
  ps_retries :: nat

definition pin_save :: "u8 list \<Rightarrow> hw \<Rightarrow> hw" where
  "pin_save pin_hash s =
    (let s = flash_erase_page PIN_FLASH_ADDR (flash_unlock s);
         p = le32_bytes PIN_MAGIC @ take 16 pin_hash @ [8] @ replicate 235 0
     in flash_lock (flash_write_page PIN_FLASH_ADDR p s))"

definition pin_load :: "hw \<Rightarrow> PINState option" where
  "pin_load s =
    (if word_at (fmem s) PIN_FLASH_ADDR = PIN_MAGIC
     then Some \<lparr>ps_pin_hash = bytes (fmem s) (PIN_FLASH_ADDR + 4) 16,
                ps_retries = unat (fmem s (PIN_FLASH_ADDR + 20))\<rparr>
     else None)"

text \<open>Both retry functions copy the page, change one byte and write it back.\<close>

definition pin_write_retries :: "nat \<Rightarrow> hw \<Rightarrow> hw" where
  "pin_write_retries r s =
    (let copy = (bytes (fmem s) PIN_FLASH_ADDR 256)[20 := word_of_nat r];
         s = flash_erase_page PIN_FLASH_ADDR (flash_unlock s)
     in flash_lock (flash_write_page PIN_FLASH_ADDR copy s))"

definition pin_decrement_retries :: "hw \<Rightarrow> hw" where
  "pin_decrement_retries s =
    (case pin_load s of
       None \<Rightarrow> s
     | Some p \<Rightarrow>
       (let current_retries = ps_retries p;
            current_retries = (if 0 < current_retries then current_retries - 1 else current_retries)
        in pin_write_retries current_retries s))"

definition pin_reset_retries :: "hw \<Rightarrow> hw" where
  "pin_reset_retries s =
    (case pin_load s of None \<Rightarrow> s | Some p \<Rightarrow> pin_write_retries 8 s)"

section \<open>Writing a page\<close>

lemma fmem_lock [simp]: "fmem (flash_lock s) = fmem s" "fmem (flash_unlock s) = fmem s"
  "flash_locked (flash_unlock s) = False"
  by (simp_all add: flash_lock_def flash_unlock_def)

text \<open>After unlock, erase and write, the page holds the structure and nothing else changed.\<close>

definition page_set :: "mem \<Rightarrow> nat \<Rightarrow> u8 list \<Rightarrow> mem" where
  "page_set m a d = (\<lambda>i. if a \<le> i \<and> i < a + 256 then d ! (i - a) else m i)"

definition page_erase :: "mem \<Rightarrow> nat \<Rightarrow> mem" where
  "page_erase m a = (\<lambda>i. if a \<le> i \<and> i < a + 256 then 0xFF else m i)"

lemma and_ff: "(0xFF :: u8) AND b = b"
proof -
  have "(0xFF :: u8) = - 1" by simp
  then show ?thesis by (simp only: and.left_neutral)
qed

lemma write_page_fmem:
  assumes "\<not> flash_locked s" "length d = 256" "\<And>i. i < 256 \<Longrightarrow> fmem s (a + i) = 0xFF"
  shows "fmem (flash_write_page a d s) = page_set (fmem s) a d"
proof -
  define st where "st n = fold (\<lambda>i. flash_program_64bytes (a + 64 * i) (take 64 (drop (64 * i) d))) [0..<n] s" for n
  have "\<not> flash_locked (st n) \<and>
      fmem (st n) = (\<lambda>i. if a \<le> i \<and> i < a + 64 * n then d ! (i - a) else fmem s i)" if "n \<le> 4" for n
    using that
  proof (induction n)
    case 0
    then show ?case using assms(1) by (auto simp: st_def fun_eq_iff)
  next
    case (Suc n)
    have n: "n \<le> 3" using Suc.prems by simp
    have IH: "\<not> flash_locked (st n)"
      "fmem (st n) = (\<lambda>i. if a \<le> i \<and> i < a + 64 * n then d ! (i - a) else fmem s i)"
      using Suc by simp_all
    have st: "st (Suc n) = flash_program_64bytes (a + 64 * n) (take 64 (drop (64 * n) d)) (st n)"
      by (simp add: st_def)
    have val: "fmem s i AND take 64 (drop (64 * n) d) ! (i - (a + 64 * n)) = d ! (i - a)"
      if "a + 64 * n \<le> i" "i < a + 64 * n + 64" for i
    proof -
      have "i = a + (i - a)" "i - a < 256" using that n by simp_all
      then have "fmem s i = 0xFF" using assms(3) by metis
      moreover have "64 * n + (i - (a + 64 * n)) = i - a" using that by simp
      ultimately show ?thesis
        using that n assms(2) by (simp add: and_ff)
    qed
    show ?case
      unfolding st flash_program_64bytes_def using IH val by (auto simp: fun_eq_iff)
  qed
  from this [of 4] show ?thesis
    by (simp add: st_def flash_write_page_def page_set_def fun_eq_iff)
qed

lemma fmem_erase: "\<not> flash_locked s \<Longrightarrow> fmem (flash_erase_page a s) = page_erase (fmem s) a"
  by (simp add: flash_erase_page_def page_erase_def)

lemma locked_erase [simp]: "flash_locked (flash_erase_page a s) = flash_locked s"
  "irq_on (flash_erase_page a s) = irq_on s"
  by (simp_all add: flash_erase_page_def)

lemma page_set_erase: "page_set (page_erase m a) a d = page_set m a d"
  by (auto simp: page_set_def page_erase_def fun_eq_iff)

lemma erase_write_fmem:
  assumes "length d = 256"
  shows "fmem (flash_write_page a d (flash_erase_page a (flash_unlock s))) = page_set (fmem s) a d"
  using assms
  by (subst write_page_fmem) (simp_all add: fmem_erase page_set_erase, simp add: page_erase_def)

end
