(* ===== verification/UsbDesc.thy ===== *)
theory UsbDesc
  imports Prelude
begin

text \<open>
  \<open>usb_hid_fido2/usb_desc.c\<close> and \<open>usb_desc.h\<close>: the descriptor tables and the lengths the
  control endpoint serves them with, and a small walker that checks a configuration
  descriptor the way a host parses it.
\<close>

section \<open>The tables\<close>

definition DEF_USBD_UEP0_SIZE :: nat where "DEF_USBD_UEP0_SIZE = 64"
definition DEF_USB_VID :: u16 where "DEF_USB_VID = 0x1A86"
definition DEF_USB_PID :: u16 where "DEF_USB_PID = 0xFE07"
definition DEF_USBD_DEVICE_DESC_LEN :: nat where "DEF_USBD_DEVICE_DESC_LEN = 18"
definition DEF_USBD_CONFIG_DESC_LEN :: nat where "DEF_USBD_CONFIG_DESC_LEN = 41"
definition DEF_USBD_REPORT_DESC_LEN :: nat where "DEF_USBD_REPORT_DESC_LEN = 34"
definition DEF_USBD_LANG_DESC_LEN :: nat where "DEF_USBD_LANG_DESC_LEN = 4"
definition DEF_USBD_MANU_DESC_LEN :: nat where "DEF_USBD_MANU_DESC_LEN = 14"
definition DEF_USBD_PROD_DESC_LEN :: nat where "DEF_USBD_PROD_DESC_LEN = 20"
definition DEF_USBD_SN_DESC_LEN :: nat where "DEF_USBD_SN_DESC_LEN = 22"

definition MyDevDescr :: "u8 list" where
  "MyDevDescr = [0x12, 0x01, 0x10, 0x01, 0x00, 0x00, 0x00, 64,
     ucast DEF_USB_VID, ucast (drop_bit 8 DEF_USB_VID), ucast DEF_USB_PID, ucast (drop_bit 8 DEF_USB_PID),
     0x00, 0x01, 0x01, 0x02, 0x03, 0x01]"

definition MyCfgDescr :: "u8 list" where
  "MyCfgDescr =
    [0x09, 0x02, 0x29, 0x00, 0x01, 0x01, 0x03, 0x80, 0x23,
     0x09, 0x04, 0x00, 0x00, 0x02, 0x03, 0x00, 0x00, 0x00,
     0x09, 0x21, 0x11, 0x01, 0x00, 0x01, 0x22,
       word_of_nat (DEF_USBD_REPORT_DESC_LEN mod 256), word_of_nat (DEF_USBD_REPORT_DESC_LEN div 256),
     0x07, 0x05, 0x01, 0x03, 0x40, 0x00, 0x05,
     0x07, 0x05, 0x82, 0x03, 0x40, 0x00, 0x05]"

definition MyHIDReportDesc :: "u8 list" where
  "MyHIDReportDesc =
    [0x06, 0xD0, 0xF1, 0x09, 0x01, 0xA1, 0x01, 0x09, 0x20, 0x15, 0x00, 0x26, 0xFF, 0x00,
     0x75, 0x08, 0x95, 0x40, 0x81, 0x02, 0x09, 0x21, 0x15, 0x00, 0x26, 0xFF, 0x00,
     0x75, 0x08, 0x95, 0x40, 0x91, 0x02, 0xC0]"

definition MyLangDescr :: "u8 list" where "MyLangDescr = [0x04, 0x03, 0x09, 0x04]"

text \<open>A string descriptor: its length byte, the type and the characters, zero-extended.\<close>

definition wide :: "string \<Rightarrow> u8 list" where
  "wide s = concat (map (\<lambda>c. [of_char c, 0]) s)"

definition MyManuInfo :: "u8 list" where "MyManuInfo = [0x0E, 0x03] @ wide ''Antigr''"
definition MyProdInfo :: "u8 list" where "MyProdInfo = [0x12, 0x03] @ wide ''FIDO2 Key''"
definition MySerNumInfo :: "u8 list" where "MySerNumInfo = [0x16, 0x03] @ wide ''0123456789''"

section \<open>What a host checks\<close>

text \<open>The standard descriptors inside a configuration: each starts with its own length.\<close>

fun split_descr :: "nat \<Rightarrow> u8 list \<Rightarrow> (u8 \<times> u8 list) list option" where
  "split_descr 0 xs = None"
| "split_descr (Suc n) [] = Some []"
| "split_descr (Suc n) [l] = None"
| "split_descr (Suc n) (l # t # xs) =
    (if unat l < 2 \<or> length xs + 2 < unat l then None
     else map_option ((#) (t, take (unat l - 2) xs)) (split_descr n (drop (unat l - 2) xs)))"

definition str_len_ok :: "u8 list \<Rightarrow> bool" where
  "str_len_ok d = (unat (d ! 0) = length d)"

text \<open>The configuration descriptor is self-consistent: its total length is the length of the
  table, it splits exactly into one interface, one HID and two endpoint descriptors, endpoint 1 OUT
  and endpoint 2 IN with 64-byte interrupt packets, and the HID report length is that of the report
  descriptor; the device descriptor and the report descriptor have the lengths they are served with.\<close>

theorem config_descriptor_consistent:
  "length MyCfgDescr = DEF_USBD_CONFIG_DESC_LEN \<and>
   unat (MyCfgDescr ! 2) + 256 * unat (MyCfgDescr ! 3) = length MyCfgDescr \<and>
   map_option (map fst) (split_descr 8 MyCfgDescr) = Some [2, 4, 0x21, 5, 5] \<and>
   MyCfgDescr ! 29 = 0x01 \<and> MyCfgDescr ! 36 = 0x82 \<and> MyCfgDescr ! 31 = 64 \<and> MyCfgDescr ! 38 = 64 \<and>
   unat (MyCfgDescr ! 25) + 256 * unat (MyCfgDescr ! 26) = length MyHIDReportDesc \<and>
   length MyDevDescr = DEF_USBD_DEVICE_DESC_LEN \<and> unat (MyDevDescr ! 0) = length MyDevDescr \<and>
   length MyHIDReportDesc = DEF_USBD_REPORT_DESC_LEN"
  by code_simp

text \<open>The language, manufacturer and serial-number strings declare their own length; the
  product string does not: its length byte says 18, the table has (and is served with) 20 bytes.\<close>

theorem string_descriptor_lengths:
  "str_len_ok MyLangDescr \<and> length MyLangDescr = DEF_USBD_LANG_DESC_LEN \<and>
   str_len_ok MyManuInfo \<and> length MyManuInfo = DEF_USBD_MANU_DESC_LEN \<and>
   str_len_ok MySerNumInfo \<and> length MySerNumInfo = DEF_USBD_SN_DESC_LEN \<and>
   \<not> str_len_ok MyProdInfo \<and> length MyProdInfo = DEF_USBD_PROD_DESC_LEN"
  by code_simp

end
