(* ===== verification/Usb.thy ===== *)
theory Usb
  imports UsbDesc
begin

text \<open>
  The USB full-speed device driver, \<open>usb_hid_fido2/ch32x035_usbfs_device.c\<close>: endpoint set-up,
  and the interrupt handler with its control requests, its bulk of state (the setup request, the
  endpoint buffers and the ring of received packets) in one record.

  \<^item> Endpoint control registers are words, read and written with the masks of the code
    (\<open>ch32x035_usb.h\<close>): \<open>T_RES\<close> bits 0--1, \<open>R_RES\<close> bits 2--3, toggles bits 6 and 7; response code
    0 is ACK, 2 NAK, 3 STALL.
  \<^item> \<open>pUSBFS_Descr\<close> is the rest of the descriptor behind the pointer, \<open>UEP1_DMA\<close> an offset into
    \<open>Data_Buffer\<close>.
  \<^item> \<open>usb_step\<close> is what the controller does before it raises the interrupt: it stores received
    bytes where the DMA register points (when the endpoint acknowledges) and then the handler runs.
  \<^item> Each \<open>switch\<close> of the handler is a definition of its own; the result flag is \<open>errflag == 0xFF\<close>.
\<close>

section \<open>State\<close>

record usb =
  UEP0_CTRL_H :: u8
  UEP1_CTRL_H :: u8
  UEP2_CTRL_H :: u8
  UEP0_TX_LEN :: nat
  UEP2_TX_LEN :: nat
  UEP1_DMA :: nat
  UEP4_1_MOD :: u8
  UEP2_3_MOD :: u8
  DEV_ADDR :: u8
  BASE_CTRL :: u8
  UDEV_CTRL :: u8
  INT_EN :: u8
  INT_FG :: u8
  NVIC_USBFS :: bool
  pUSBFS_Descr :: "u8 list"
  USBFS_SetupReqCode :: u8
  USBFS_SetupReqType :: u8
  USBFS_SetupReqValue :: nat
  USBFS_SetupReqIndex :: nat
  USBFS_SetupReqLen :: nat
  USBFS_DevConfig :: u8
  USBFS_DevAddr :: u8
  USBFS_DevSleepStatus :: u8
  USBFS_DevEnumStatus :: u8
  USBFS_HidIdle :: u8
  USBFS_HidProtocol :: u8
  USBFS_EP0_Buf :: "u8 list"
  USBFS_EP2_Buf :: "u8 list"
  USBFS_Endp_Busy :: "u8 list"
  LoadPtr :: nat
  DealPtr :: nat
  RemainPack :: nat
  PackLen :: "nat list"
  StopFlag :: bool
  Data_Buffer :: "u8 list"
  HID_Report_Buffer :: "u8 list"
  HID_Set_Report_Flag :: bool

definition T_RES_MASK :: u8 where "T_RES_MASK = 3"
definition T_RES_ACK :: u8 where "T_RES_ACK = 0"
definition T_RES_NAK :: u8 where "T_RES_NAK = 2"
definition T_RES_STALL :: u8 where "T_RES_STALL = 3"
definition T_TOG :: u8 where "T_TOG = 0x40"
definition R_RES_MASK :: u8 where "R_RES_MASK = 0x0C"
definition R_RES_ACK :: u8 where "R_RES_ACK = 0"
definition R_RES_NAK :: u8 where "R_RES_NAK = 8"
definition R_RES_STALL :: u8 where "R_RES_STALL = 0x0C"
definition R_TOG :: u8 where "R_TOG = 0x80"

lemmas res_defs = T_RES_MASK_def T_RES_ACK_def T_RES_NAK_def T_RES_STALL_def T_TOG_def
  R_RES_MASK_def R_RES_ACK_def R_RES_NAK_def R_RES_STALL_def R_TOG_def

text \<open>\<open>(reg & ~mask) | res\<close>\<close>

definition set_t_res :: "u8 \<Rightarrow> u8 \<Rightarrow> u8" where
  "set_t_res res reg = (reg AND NOT T_RES_MASK) OR res"

definition set_r_res :: "u8 \<Rightarrow> u8 \<Rightarrow> u8" where
  "set_r_res res reg = (reg AND NOT R_RES_MASK) OR res"

definition RING_BLKS :: nat where "RING_BLKS = 16"
definition PACK_SIZE :: nat where "PACK_SIZE = 64"
definition RING_REMINE :: nat where "RING_REMINE = 4"
definition RING_RESTART :: nat where "RING_RESTART = 10"

section \<open>Initialisation\<close>

definition USBFS_Device_Endp_Init :: "usb \<Rightarrow> usb" where
  "USBFS_Device_Endp_Init u = u\<lparr>
     UEP4_1_MOD := 0x80, UEP2_3_MOD := 0x04,
     UEP1_DMA := 0,
     UEP0_CTRL_H := T_RES_NAK OR R_RES_ACK, UEP1_CTRL_H := R_RES_ACK, UEP2_CTRL_H := T_RES_NAK,
     USBFS_Endp_Busy := replicate 8 0\<rparr>"

definition USBFS_Device_Init :: "bool \<Rightarrow> usb \<Rightarrow> usb" where
  "USBFS_Device_Init sta u =
    (if sta then
       (let u = USBFS_Device_Endp_Init (u\<lparr>BASE_CTRL := 0\<rparr>)
        in u\<lparr>DEV_ADDR := 0, BASE_CTRL := 0x29, INT_FG := 0, UDEV_CTRL := 0x81,
             INT_EN := 0x07, NVIC_USBFS := True\<rparr>)
     else u\<lparr>BASE_CTRL := 0, NVIC_USBFS := False\<rparr>)"

text \<open>Registers and variables before initialisation: the start-up code zeroes static storage.\<close>

definition usb0 :: usb where
  "usb0 = \<lparr>UEP0_CTRL_H = 0, UEP1_CTRL_H = 0, UEP2_CTRL_H = 0, UEP0_TX_LEN = 0, UEP2_TX_LEN = 0,
     UEP1_DMA = 0, UEP4_1_MOD = 0, UEP2_3_MOD = 0, DEV_ADDR = 0, BASE_CTRL = 0, UDEV_CTRL = 0,
     INT_EN = 0, INT_FG = 0, NVIC_USBFS = False, pUSBFS_Descr = [], USBFS_SetupReqCode = 0,
     USBFS_SetupReqType = 0, USBFS_SetupReqValue = 0, USBFS_SetupReqIndex = 0, USBFS_SetupReqLen = 0,
     USBFS_DevConfig = 0, USBFS_DevAddr = 0, USBFS_DevSleepStatus = 0, USBFS_DevEnumStatus = 0,
     USBFS_HidIdle = 0, USBFS_HidProtocol = 0, USBFS_EP0_Buf = replicate 64 0,
     USBFS_EP2_Buf = replicate 64 0, USBFS_Endp_Busy = replicate 8 0, LoadPtr = 0, DealPtr = 0,
     RemainPack = 0, PackLen = replicate 16 0, StopFlag = False, Data_Buffer = replicate 1024 0,
     HID_Report_Buffer = replicate 64 0, HID_Set_Report_Flag = False\<rparr>"

definition usb_boot :: usb where
  "usb_boot = USBFS_Device_Init True (USBFS_Device_Init False usb0)"

section \<open>Data stages\<close>

definition isr_in_ep0 :: "usb \<Rightarrow> usb" where
  "isr_in_ep0 u =
    (let u = (if USBFS_SetupReqLen u = 0
              then u\<lparr>UEP0_CTRL_H := set_r_res R_RES_ACK (UEP0_CTRL_H u) OR R_TOG\<rparr> else u)
     in if USBFS_SetupReqType u AND 0x60 \<noteq> 0 then u
        else if USBFS_SetupReqCode u = 0x06 then
          (let len = (if 64 \<le> USBFS_SetupReqLen u then 64 else USBFS_SetupReqLen u)
           in u\<lparr>USBFS_EP0_Buf := blit (USBFS_EP0_Buf u) 0 (take len (pUSBFS_Descr u)),
                USBFS_SetupReqLen := USBFS_SetupReqLen u - len,
                pUSBFS_Descr := drop len (pUSBFS_Descr u),
                UEP0_TX_LEN := len,
                UEP0_CTRL_H := UEP0_CTRL_H u XOR T_TOG\<rparr>)
        else if USBFS_SetupReqCode u = 0x05 then
          u\<lparr>DEV_ADDR := (DEV_ADDR u AND 0x80) OR USBFS_DevAddr u\<rparr>
        else u)"

definition isr_in_ep2 :: "usb \<Rightarrow> usb" where
  "isr_in_ep2 u =
    (let u = u\<lparr>UEP2_CTRL_H := set_t_res T_RES_NAK (UEP2_CTRL_H u)\<rparr>;
         u = u\<lparr>UEP2_CTRL_H := UEP2_CTRL_H u XOR T_TOG\<rparr>
     in u\<lparr>USBFS_Endp_Busy := (USBFS_Endp_Busy u)[2 := 0]\<rparr>)"

definition isr_out_ep0 :: "u8 \<Rightarrow> usb \<Rightarrow> usb" where
  "isr_out_ep0 intst u =
    (if intst AND 0x40 \<noteq> 0 \<and> USBFS_SetupReqType u AND 0x60 = 0x20 \<and> USBFS_SetupReqCode u = 0x09
     then u\<lparr>HID_Report_Buffer := take 64 (USBFS_EP0_Buf u),
            HID_Set_Report_Flag := True,
            UEP0_TX_LEN := 0,
            UEP0_CTRL_H := T_TOG OR T_RES_ACK OR R_TOG OR R_RES_ACK\<rparr>
     else u)"

definition isr_out_ep1 :: "nat \<Rightarrow> usb \<Rightarrow> usb" where
  "isr_out_ep1 rx_len u =
    (let u = u\<lparr>UEP1_CTRL_H := UEP1_CTRL_H u XOR R_TOG\<rparr>;
         u = u\<lparr>PackLen := (PackLen u)[LoadPtr u := rx_len mod 256]\<rparr>;
         u = u\<lparr>LoadPtr := LoadPtr u + 1\<rparr>;
         u = (if LoadPtr u = RING_BLKS then u\<lparr>LoadPtr := 0\<rparr> else u);
         u = u\<lparr>UEP1_DMA := LoadPtr u * PACK_SIZE\<rparr>;
         u = u\<lparr>RemainPack := (RemainPack u + 1) mod 256\<rparr>
     in if RING_BLKS - RING_REMINE \<le> RemainPack u
        then u\<lparr>UEP1_CTRL_H := set_r_res R_RES_NAK (UEP1_CTRL_H u), StopFlag := True\<rparr>
        else u)"

section \<open>Control requests\<close>

text \<open>The class requests: the state and whether the request is an error.\<close>

definition setup_class :: "usb \<Rightarrow> usb \<times> bool" where
  "setup_class u =
    (let code = USBFS_SetupReqCode u; idx0 = (USBFS_SetupReqIndex u = 0)
     in if code = 0x09 then (u, False)
        else if code = 0x01 then
          (if idx0 then (u\<lparr>USBFS_EP0_Buf := blit (USBFS_EP0_Buf u) 0 (take 64 (HID_Report_Buffer u))\<rparr>, False)
           else (u, True))
        else if code = 0x0A then
          (if idx0 then (u\<lparr>USBFS_HidIdle := USBFS_EP0_Buf u ! 3\<rparr>, False) else (u, True))
        else if code = 0x0B then
          (if idx0 then (u\<lparr>USBFS_HidProtocol := USBFS_EP0_Buf u ! 2\<rparr>, False) else (u, True))
        else if code = 0x02 then
          (if idx0 then (u\<lparr>USBFS_EP0_Buf := (USBFS_EP0_Buf u)[0 := USBFS_HidIdle u]\<rparr>, False) else (u, True))
        else if code = 0x03 then
          (if idx0 then (u\<lparr>USBFS_EP0_Buf := (USBFS_EP0_Buf u)[0 := USBFS_HidProtocol u]\<rparr>, False) else (u, True))
        else (u, True))"

text \<open>\<open>USB_GET_DESCRIPTOR\<close>: choose the table, clip the length, copy the first packet.  On an
  unknown descriptor \<open>pUSBFS_Descr\<close> stays and \<open>len\<close> is 0.\<close>

definition setup_get_descriptor :: "usb \<Rightarrow> usb \<times> bool" where
  "setup_get_descriptor u =
    (let ty = USBFS_SetupReqValue u div 256; ix = USBFS_SetupReqValue u mod 256;
         (descr, len, err) =
           (if ty = 0x01 then (MyDevDescr, DEF_USBD_DEVICE_DESC_LEN, False)
            else if ty = 0x02 then (MyCfgDescr, DEF_USBD_CONFIG_DESC_LEN, False)
            else if ty = 0x22 then
              (if USBFS_SetupReqIndex u = 0 then (MyHIDReportDesc, DEF_USBD_REPORT_DESC_LEN, False)
               else (pUSBFS_Descr u, 0, True))
            else if ty = 0x21 then
              (if USBFS_SetupReqIndex u = 0 then (drop 18 MyCfgDescr, 9, False)
               else (pUSBFS_Descr u, 0, True))
            else if ty = 0x03 then
              (if ix = 0 then (MyLangDescr, DEF_USBD_LANG_DESC_LEN, False)
               else if ix = 1 then (MyManuInfo, DEF_USBD_MANU_DESC_LEN, False)
               else if ix = 2 then (MyProdInfo, DEF_USBD_PROD_DESC_LEN, False)
               else if ix = 3 then (MySerNumInfo, DEF_USBD_SN_DESC_LEN, False)
               else (pUSBFS_Descr u, 0, True))
            else (pUSBFS_Descr u, 0, True));
         u = (if len < USBFS_SetupReqLen u then u\<lparr>USBFS_SetupReqLen := len\<rparr> else u);
         n = (if DEF_USBD_UEP0_SIZE \<le> USBFS_SetupReqLen u then DEF_USBD_UEP0_SIZE else USBFS_SetupReqLen u)
     in (u\<lparr>USBFS_EP0_Buf := blit (USBFS_EP0_Buf u) 0 (take n descr), pUSBFS_Descr := drop n descr\<rparr>, err))"

definition setup_clear_feature :: "usb \<Rightarrow> usb \<times> bool" where
  "setup_clear_feature u =
    (let recip = USBFS_SetupReqType u AND 0x1F; val = USBFS_SetupReqValue u mod 256;
         ep = USBFS_SetupReqIndex u mod 256
     in if recip = 0x00 then
          ((if val = 0x01 then u\<lparr>USBFS_DevSleepStatus := USBFS_DevSleepStatus u AND NOT 0x01\<rparr> else u), False)
        else if recip = 0x02 then
          (if val = 0x00 then
             (if ep = 0x01 then (u\<lparr>UEP1_CTRL_H := R_RES_ACK\<rparr>, False)
              else if ep = 0x82 then (u\<lparr>UEP2_CTRL_H := T_RES_NAK\<rparr>, False)
              else (u, True))
           else (u, True))
        else (u, True))"

definition setup_set_feature :: "usb \<Rightarrow> usb \<times> bool" where
  "setup_set_feature u =
    (let recip = USBFS_SetupReqType u AND 0x1F; val = USBFS_SetupReqValue u mod 256;
         ep = USBFS_SetupReqIndex u mod 256
     in if recip = 0x00 then
          (if val = 0x01 then
             (if MyCfgDescr ! 7 AND 0x20 \<noteq> 0
              then (u\<lparr>USBFS_DevSleepStatus := USBFS_DevSleepStatus u OR 0x01\<rparr>, False)
              else (u, True))
           else (u, True))
        else if recip = 0x02 then
          (if val = 0x00 then
             (if ep = 0x01 then (u\<lparr>UEP1_CTRL_H := set_r_res R_RES_STALL (UEP1_CTRL_H u)\<rparr>, False)
              else if ep = 0x82 then (u\<lparr>UEP2_CTRL_H := set_t_res T_RES_STALL (UEP2_CTRL_H u)\<rparr>, False)
              else (u, True))
           else (u, True))
        else (u, True))"

definition setup_get_status :: "usb \<Rightarrow> usb \<times> bool" where
  "setup_get_status u =
    (let u = u\<lparr>USBFS_EP0_Buf := (USBFS_EP0_Buf u)[0 := 0, 1 := 0]\<rparr>;
         recip = USBFS_SetupReqType u AND 0x1F; ep = USBFS_SetupReqIndex u mod 256;
         (u, err) =
           (if recip = 0x00 then
              ((if USBFS_DevSleepStatus u AND 0x01 \<noteq> 0
                then u\<lparr>USBFS_EP0_Buf := (USBFS_EP0_Buf u)[0 := 2]\<rparr> else u), False)
            else if recip = 0x02 then
              (if ep = 0x01 then
                 ((if UEP1_CTRL_H u AND R_RES_MASK = R_RES_STALL
                   then u\<lparr>USBFS_EP0_Buf := (USBFS_EP0_Buf u)[0 := 1]\<rparr> else u), False)
               else if ep = 0x82 then
                 ((if UEP2_CTRL_H u AND T_RES_MASK = T_RES_STALL
                   then u\<lparr>USBFS_EP0_Buf := (USBFS_EP0_Buf u)[0 := 1]\<rparr> else u), False)
               else (u, True))
            else (u, True))
     in ((if 2 < USBFS_SetupReqLen u then u\<lparr>USBFS_SetupReqLen := 2\<rparr> else u), err))"

definition clip_len :: "nat \<Rightarrow> usb \<Rightarrow> usb" where
  "clip_len n u = (if n < USBFS_SetupReqLen u then u\<lparr>USBFS_SetupReqLen := n\<rparr> else u)"

definition setup_standard :: "usb \<Rightarrow> usb \<times> bool" where
  "setup_standard u =
    (let code = USBFS_SetupReqCode u
     in if code = 0x06 then setup_get_descriptor u
        else if code = 0x05 then
          (u\<lparr>USBFS_DevAddr := word_of_nat (USBFS_SetupReqValue u mod 256)\<rparr>, False)
        else if code = 0x08 then
          (clip_len 1 (u\<lparr>USBFS_EP0_Buf := (USBFS_EP0_Buf u)[0 := USBFS_DevConfig u]\<rparr>), False)
        else if code = 0x09 then
          (u\<lparr>USBFS_DevConfig := word_of_nat (USBFS_SetupReqValue u mod 256), USBFS_DevEnumStatus := 1\<rparr>, False)
        else if code = 0x01 then setup_clear_feature u
        else if code = 0x03 then setup_set_feature u
        else if code = 0x0A then
          (clip_len 1 (u\<lparr>USBFS_EP0_Buf := (USBFS_EP0_Buf u)[0 := 0]\<rparr>), False)
        else if code = 0x0B then (u, False)
        else if code = 0x00 then setup_get_status u
        else (u, True))"

definition setup_finish :: "bool \<Rightarrow> usb \<Rightarrow> usb" where
  "setup_finish err u =
    (if err then u\<lparr>UEP0_CTRL_H := T_TOG OR T_RES_STALL OR R_TOG OR R_RES_STALL\<rparr>
     else if USBFS_SetupReqType u AND 0x80 \<noteq> 0 then
       (let len = (if 64 < USBFS_SetupReqLen u then 64 else USBFS_SetupReqLen u)
        in u\<lparr>USBFS_SetupReqLen := USBFS_SetupReqLen u - len, UEP0_TX_LEN := len,
             UEP0_CTRL_H := set_t_res T_RES_ACK (UEP0_CTRL_H u) OR T_TOG\<rparr>)
     else if USBFS_SetupReqLen u = 0 then
       u\<lparr>UEP0_TX_LEN := 0, UEP0_CTRL_H := set_t_res T_RES_ACK (UEP0_CTRL_H u) OR T_TOG\<rparr>
     else u\<lparr>UEP0_CTRL_H := set_r_res R_RES_ACK (UEP0_CTRL_H u) OR R_TOG\<rparr>)"

text \<open>Storing the setup values from the eight bytes in \<open>USBFS_EP0_Buf\<close> (little endian).\<close>

definition setup_store :: "usb \<Rightarrow> usb" where
  "setup_store u =
    (let b = USBFS_EP0_Buf u in u\<lparr>
       UEP0_CTRL_H := T_TOG OR T_RES_NAK OR R_TOG OR R_RES_NAK,
       USBFS_SetupReqType := b ! 0, USBFS_SetupReqCode := b ! 1,
       USBFS_SetupReqLen := be16 (b ! 7) (b ! 6),
       USBFS_SetupReqValue := be16 (b ! 3) (b ! 2),
       USBFS_SetupReqIndex := be16 (b ! 5) (b ! 4)\<rparr>)"

definition isr_setup :: "usb \<Rightarrow> usb" where
  "isr_setup u =
    (let u = setup_store u;
         (u, err) =
           (if USBFS_SetupReqType u AND 0x60 \<noteq> 0x00
            then (if USBFS_SetupReqType u AND 0x60 = 0x20 then setup_class u else (u, False))
            else setup_standard u)
     in setup_finish err u)"

section \<open>The interrupt handler\<close>

definition isr_transfer :: "u8 \<Rightarrow> nat \<Rightarrow> usb \<Rightarrow> usb" where
  "isr_transfer intst rx_len u =
    (let token = intst AND 0x30; endp = intst AND 0x0F;
         u = (if token = 0x20 then
                (if endp = 0 then isr_in_ep0 u else if endp = 2 then isr_in_ep2 u else u)
              else if token = 0x00 then
                (if endp = 0 then isr_out_ep0 intst u else if endp = 1 then isr_out_ep1 rx_len u else u)
              else if token = 0x30 then isr_setup u
              else u)
     in u\<lparr>INT_FG := INT_FG u AND NOT 0x02\<rparr>)"

definition isr_bus_reset :: "usb \<Rightarrow> usb" where
  "isr_bus_reset u =
    (let u = u\<lparr>USBFS_DevConfig := 0, USBFS_DevAddr := 0, USBFS_DevSleepStatus := 0,
               USBFS_DevEnumStatus := 0, DEV_ADDR := 0\<rparr>;
         u = USBFS_Device_Endp_Init u
     in u\<lparr>INT_FG := INT_FG u AND NOT 0x01\<rparr>)"

definition isr_suspend :: "u8 \<Rightarrow> usb \<Rightarrow> usb" where
  "isr_suspend mis_st u =
    (let u = u\<lparr>INT_FG := INT_FG u AND NOT 0x04\<rparr>
     in if mis_st AND 0x04 \<noteq> 0 then u\<lparr>USBFS_DevSleepStatus := USBFS_DevSleepStatus u OR 0x02\<rparr>
        else u\<lparr>USBFS_DevSleepStatus := USBFS_DevSleepStatus u AND NOT 0x02\<rparr>)"

definition USBFS_IRQHandler :: "u8 \<Rightarrow> nat \<Rightarrow> u8 \<Rightarrow> usb \<Rightarrow> usb" where
  "USBFS_IRQHandler intst rx_len mis_st u =
    (let intflag = INT_FG u
     in if intflag AND 0x02 \<noteq> 0 then isr_transfer intst rx_len u
        else if intflag AND 0x01 \<noteq> 0 then isr_bus_reset u
        else if intflag AND 0x04 \<noteq> 0 then isr_suspend mis_st u
        else u\<lparr>INT_FG := INT_FG u AND NOT intflag\<rparr>)"

text \<open>What happens on the bus.  \<open>Out1 p\<close>: the host sends packet \<open>p\<close> to endpoint 1; the controller
  takes it only if the endpoint answers ACK.  \<open>In2\<close>: the host has read endpoint 2.
  \<open>Setup b\<close>, \<open>Out0 t p\<close>, \<open>In0\<close>: the control endpoint; \<open>Reset\<close>, \<open>Suspend st\<close>: bus conditions.\<close>

datatype usb_event =
    Out1 "u8 list" | In2 | Setup "u8 list" | Out0 bool "u8 list" | In0 | Reset | Suspend bool

fun usb_step :: "usb_event \<Rightarrow> usb \<Rightarrow> usb" where
  "usb_step (Out1 p) u =
    (if UEP1_CTRL_H u AND R_RES_MASK = R_RES_ACK
     then USBFS_IRQHandler 0x01 (length p) 0
            (u\<lparr>Data_Buffer := blit (Data_Buffer u) (UEP1_DMA u) p, INT_FG := 0x02\<rparr>)
     else u)"
| "usb_step In2 u = USBFS_IRQHandler 0x22 0 0 (u\<lparr>INT_FG := 0x02\<rparr>)"
| "usb_step (Setup b) u =
    USBFS_IRQHandler 0x30 8 0 (u\<lparr>USBFS_EP0_Buf := blit (USBFS_EP0_Buf u) 0 b, INT_FG := 0x02\<rparr>)"
| "usb_step (Out0 t p) u =
    (if UEP0_CTRL_H u AND R_RES_MASK = R_RES_ACK
     then USBFS_IRQHandler (if t then 0x40 else 0) (length p) 0
            (u\<lparr>USBFS_EP0_Buf := blit (USBFS_EP0_Buf u) 0 p, INT_FG := 0x02\<rparr>)
     else u)"
| "usb_step In0 u = USBFS_IRQHandler 0x20 0 0 (u\<lparr>INT_FG := 0x02\<rparr>)"
| "usb_step Reset u = USBFS_IRQHandler 0 0 0 (u\<lparr>INT_FG := 0x01\<rparr>)"
| "usb_step (Suspend st) u = USBFS_IRQHandler 0 0 (if st then 0x04 else 0) (u\<lparr>INT_FG := 0x04\<rparr>)"

text \<open>What the main loop and \<open>Process_OOB_Commands\<close> do to the ring: take the packet at
  \<open>DealPtr\<close>, advance, and let the endpoint accept again.\<close>

definition ring_pkt :: "usb \<Rightarrow> u8 list \<times> nat" where
  "ring_pkt u = (take PACK_SIZE (drop (DealPtr u * PACK_SIZE) (Data_Buffer u)), PackLen u ! DealPtr u)"

definition ring_drop :: "usb \<Rightarrow> usb" where
  "ring_drop u =
    (let u = u\<lparr>RemainPack := (RemainPack u + 255) mod 256, DealPtr := DealPtr u + 1\<rparr>
     in if DealPtr u = RING_BLKS then u\<lparr>DealPtr := 0\<rparr> else u)"

definition ring_restart :: "usb \<Rightarrow> usb" where
  "ring_restart u =
    (if RemainPack u < RING_BLKS - RING_RESTART \<and> StopFlag u
     then u\<lparr>StopFlag := False, UEP1_CTRL_H := set_r_res R_RES_ACK (UEP1_CTRL_H u)\<rparr>
     else u)"

end
