(* ===== verification/Device.thy ===== *)
theory Device
  imports Flash Usb
begin

text \<open>
  The whole device: the global variables of \<open>main.c\<close>, \<open>fido2.c\<close> and \<open>pin.c\<close> in one record next
  to the USB driver's and the flash controller's state, and the part of \<open>main.c\<close> that sends:
  \<open>fido2_send_keepalive\<close>, \<open>ctap_send_response\<close> and \<open>Process_OOB_Commands\<close>.

  \<^item> \<open>env\<close> is everything the program does not determine: what the bus does (\<open>slice\<close>), the ADC and
    the timer, the memory behind the request buffer and the depth of the stack, and the results of
    the elliptic curve library.  It is a parameter of the model; the theorems quantify over it.
  \<^item> Bus events are taken in slices: one slice is what happens until the next point where the code
    waits or starts a transmission.  While interrupts are off an event is lost, except that the
    controller still hands the report armed on endpoint 2 to the host.
  \<^item> \<open>sent\<close> is the ghost log of the reports the host has read from endpoint 2.
\<close>

section \<open>Environment and state\<close>

record env =
  slice :: "nat \<Rightarrow> usb_event list \<times> bool"
  adc :: "nat \<Rightarrow> u16"
  systick :: "nat \<Rightarrow> u64"
  adj :: mem
  stk :: nat
  junk :: "nat \<Rightarrow> nat option"
  ecc_make_key :: "(nat \<Rightarrow> u8) \<Rightarrow> u8 list \<times> u8 list \<times> nat \<times> nat"
  ecc_sign :: "u8 list \<Rightarrow> u8 list \<Rightarrow> (nat \<Rightarrow> u8) \<Rightarrow> u8 list \<times> nat \<times> nat"
  ecc_shared_secret :: "u8 list \<Rightarrow> u8 list \<Rightarrow> (nat \<Rightarrow> u8) \<Rightarrow> u8 list \<times> nat \<times> nat"

record dev =
  bus :: usb
  chip :: hw
  sent :: "u8 list list"
  slice_no :: nat
  adc_no :: nat
  tick_no :: nat
  cancel_requested :: bool
  ctap_req_buf :: "u8 list"
  ctap_req_len :: nat
  ctap_expected_len :: nat
  ctap_seq :: u8
  ctap_cid :: u32
  ctap_cmd :: u8
  allocated_cid :: u32
  g_current_cid :: u32
  g_enum_rp_idx :: u32
  g_enum_cred_idx :: u32
  g_enum_rp_hash :: "u8 list"
  g_ga_rp_hash :: "u8 list"
  g_ga_count :: u32
  g_ga_idx :: u32
  g_ga_cdh :: "u8 list"
  touch_adc_init_done :: bool
  touch_baseline :: u32
  g_adc_entropy :: u32
  prng_state :: u32
  call_counter :: u32
  pin_shared_secret :: "u8 list"
  hmac_key :: "u8 list"
  active_pin_protocol :: nat
  g_pin_debug :: "u8 list"
  pin_token :: "u8 list"
  pin_token_len :: nat
  has_pin_token :: bool
  ecdh_private_key :: "u8 list"
  ecdh_public_key :: "u8 list"
  ecdh_key_valid :: bool

text \<open>The state after start-up: static initialisers, USB initialised, the flash as it is.\<close>

definition dev0 :: "hw \<Rightarrow> dev" where
  "dev0 h = \<lparr>bus = usb_boot, chip = h, sent = [], slice_no = 0, adc_no = 0, tick_no = 0,
     cancel_requested = False, ctap_req_buf = replicate 1024 0, ctap_req_len = 0,
     ctap_expected_len = 0, ctap_seq = 0, ctap_cid = 0, ctap_cmd = 0, allocated_cid = 0xCAFEBABE,
     g_current_cid = 0, g_enum_rp_idx = 0, g_enum_cred_idx = 0, g_enum_rp_hash = replicate 32 0,
     g_ga_rp_hash = replicate 32 0, g_ga_count = 0, g_ga_idx = 0, g_ga_cdh = replicate 32 0,
     touch_adc_init_done = False, touch_baseline = 0, g_adc_entropy = 0x13579BDF,
     prng_state = 0x12345678, call_counter = 0,
     pin_shared_secret = replicate 32 0, hmac_key = replicate 32 0, active_pin_protocol = 1,
     g_pin_debug = replicate 32 0, pin_token = replicate 32 0, pin_token_len = 0,
     has_pin_token = False, ecdh_private_key = replicate 32 0, ecdh_public_key = replicate 64 0,
     ecdh_key_valid = False\<rparr>"

section \<open>Time passes on the bus\<close>

definition ep2_armed :: "dev \<Rightarrow> bool" where
  "ep2_armed d \<longleftrightarrow> UEP2_CTRL_H (bus d) AND T_RES_MASK = T_RES_ACK"

definition set_bus :: "(usb \<Rightarrow> usb) \<Rightarrow> dev \<Rightarrow> dev" where
  "set_bus f d = d\<lparr>bus := f (bus d)\<rparr>"

text \<open>One event.  The host gets a report only when endpoint 2 answers ACK.\<close>

definition bus_event :: "usb_event \<Rightarrow> dev \<Rightarrow> dev" where
  "bus_event ev d =
    (if ev = In2
     then (if ep2_armed d
           then (let d = d\<lparr>sent := sent d @ [take (UEP2_TX_LEN (bus d)) (USBFS_EP2_Buf (bus d))]\<rparr>
                 in if irq_on (chip d) then set_bus (usb_step In2) d else d)
           else d)
     else if irq_on (chip d) then set_bus (usb_step ev) d
     else d)"

definition elapse :: "env \<Rightarrow> dev \<Rightarrow> dev" where
  "elapse e d = fold bus_event (fst (slice e (slice_no d))) (d\<lparr>slice_no := slice_no d + 1\<rparr>)"

text \<open>\<open>while ((UEP2_CTRL_H & T_RES_MASK) == ACK && timeout > 0)\<close>: events until the endpoint leaves
  ACK or the slice, at most 50000 polls long, is over.  The slice's flag says that the endpoint
  left ACK only on the last poll, which the code takes for a time-out.\<close>

fun events_until_free :: "usb_event list \<Rightarrow> dev \<Rightarrow> dev" where
  "events_until_free [] d = d"
| "events_until_free (ev # evs) d =
    (if ep2_armed d then events_until_free evs (bus_event ev d) else d)"

definition ep2_nak :: "dev \<Rightarrow> dev" where
  "ep2_nak = set_bus (\<lambda>u. u\<lparr>UEP2_CTRL_H := set_t_res T_RES_NAK (UEP2_CTRL_H u)\<rparr>)"

definition wait_ep2 :: "env \<Rightarrow> dev \<Rightarrow> bool \<times> dev" where
  "wait_ep2 e d =
    (if \<not> ep2_armed d then (True, d)
     else let (evs, late) = slice e (slice_no d);
              d = events_until_free evs (d\<lparr>slice_no := slice_no d + 1\<rparr>)
          in if ep2_armed d \<or> late then (False, ep2_nak d) else (True, d))"

section \<open>Sending reports\<close>

definition ep2_send :: "u8 list \<Rightarrow> dev \<Rightarrow> dev" where
  "ep2_send pkt = set_bus (\<lambda>u. u\<lparr>USBFS_EP2_Buf := pkt, UEP2_TX_LEN := 64,
     UEP2_CTRL_H := set_t_res T_RES_ACK (UEP2_CTRL_H u)\<rparr>)"

definition keepalive_packet :: "u32 \<Rightarrow> u8 \<Rightarrow> u8 list" where
  "keepalive_packet cid status = be32_bytes cid @ [0xBB, 0, 1, status] @ replicate 56 0"

definition fido2_send_keepalive :: "env \<Rightarrow> u32 \<Rightarrow> u8 \<Rightarrow> dev \<Rightarrow> dev" where
  "fido2_send_keepalive e cid status d =
    ep2_send (keepalive_packet cid status) (ep2_nak (elapse e d))"

text \<open>The packets of a message.  A \<open>NULL\<close> payload leaves the packet's payload zero.\<close>

definition init_packet :: "u32 \<Rightarrow> u8 \<Rightarrow> u8 list option \<Rightarrow> nat \<Rightarrow> u8 list" where
  "init_packet cid cmd payload payload_len =
    (let hdr = be32_bytes cid @ [cmd, word_of_nat (payload_len div 256), word_of_nat (payload_len mod 256)];
         to_copy = (if 57 < payload_len then 57 else payload_len);
         buf = blit (replicate 64 0) 0 hdr
     in case payload of None \<Rightarrow> buf | Some p \<Rightarrow> blit buf 7 (take to_copy p))"

definition cont_packet :: "u32 \<Rightarrow> u8 \<Rightarrow> u8 list option \<Rightarrow> nat \<Rightarrow> nat \<Rightarrow> u8 list" where
  "cont_packet cid seq payload offset payload_len =
    (let to_copy = (if 59 < payload_len - offset then 59 else payload_len - offset);
         buf = blit (replicate 64 0) 0 (be32_bytes cid @ [seq])
     in case payload of None \<Rightarrow> buf | Some p \<Rightarrow> blit buf 5 (take to_copy (drop offset p)))"

function send_cont :: "env \<Rightarrow> u32 \<Rightarrow> u8 list option \<Rightarrow> nat \<Rightarrow> u8 \<Rightarrow> nat \<Rightarrow> dev \<Rightarrow> dev" where
  "send_cont e cid payload payload_len seq offset d =
    (if payload_len \<le> offset then d
     else let to_copy = (if 59 < payload_len - offset then 59 else payload_len - offset);
              (ok, d) = wait_ep2 e (ep2_send (cont_packet cid seq payload offset payload_len) d)
          in if ok then send_cont e cid payload payload_len (seq + 1) (offset + to_copy) d else d)"
  by pat_completeness auto
termination by (relation "measure (\<lambda>(e, cid, p, n, s, off, d). n - off)") auto

definition ctap_send_response :: "env \<Rightarrow> u32 \<Rightarrow> u8 \<Rightarrow> u8 list option \<Rightarrow> nat \<Rightarrow> dev \<Rightarrow> dev" where
  "ctap_send_response e cid cmd payload payload_len d =
    (let (ok, d) = wait_ep2 e d
     in if \<not> ok then d
        else let (ok, d) = wait_ep2 e (ep2_send (init_packet cid cmd payload payload_len) d)
             in if \<not> ok then d
                else send_cont e cid payload payload_len 0 (if 57 < payload_len then 57 else payload_len) d)"

section \<open>Out-of-band commands\<close>

text \<open>\<open>CTAPHID_INIT\<close> answers the nonce, the channel and the versions.\<close>

definition init_payload :: "u8 list \<Rightarrow> u32 \<Rightarrow> u8 list" where
  "init_payload nonce resp_cid = nonce @ be32_bytes resp_cid @ [2, 1, 0, 0, 0x04 OR 0x01 OR 0x08]"

definition pkt_cid :: "u8 list \<Rightarrow> u32" where
  "pkt_cid buf = be32_of (buf ! 0) (buf ! 1) (buf ! 2) (buf ! 3)"

definition Process_OOB_Commands :: "env \<Rightarrow> dev \<Rightarrow> dev" where
  "Process_OOB_Commands e d =
    (if RemainPack (bus d) = 0 then d
     else let (buffer, pkg_len) = ring_pkt (bus d)
          in if pkg_len < 5 \<or> buffer ! 4 AND 0x80 = 0 then d
             else let cmd = buffer ! 4; cid = pkt_cid buffer
                  in if cmd = 0x88 \<or> cmd = 0x84 then
                       set_bus ring_drop (ctap_send_response e cid cmd None 0 d)
                     else if cmd = 0x91 then set_bus ring_drop (d\<lparr>cancel_requested := True\<rparr>)
                     else if cmd = 0x86 then
                       (let d = (if 15 \<le> pkg_len then
                                   (let (resp_cid, d) =
                                      (if cid = 0xFFFFFFFF then (allocated_cid d, d)
                                       else let d = d\<lparr>allocated_cid := cid\<rparr>
                                            in (cid, if cid = g_current_cid d
                                                     then d\<lparr>cancel_requested := True\<rparr> else d))
                                    in ctap_send_response e cid cmd
                                         (Some (init_payload (take 8 (drop 7 buffer)) resp_cid)) 17 d)
                                 else d)
                        in set_bus ring_drop d)
                     else d)"

end
