(* ===== verification/Presence.thy ===== *)
theory Presence
  imports Device
begin

text \<open>
  User presence and randomness, the first part of \<open>usb_hid_fido2/fido2.c\<close>: the touch pad read
  through the ADC, \<open>fido2_wait_for_user_presence\<close>, and the generator that mixes ADC noise and the
  timer.

  \<^item> Each ADC conversion takes the next value of \<open>adc\<close>, each timer reading the next of \<open>systick\<close>. A
    conversion is started with interrupts off and leaves them on.
  \<^item> The touch loop's \<open>while (1)\<close> is a recursion on \<open>loops\<close>, which the code bounds by 300.
  \<^item> The elliptic curve library is a parameter: a result as a function of the bytes \<open>rng\<close> will
    produce, how many of them it takes, and how often it calls \<open>uECC_yield\<close>.
\<close>

section \<open>The touch pad\<close>

definition irq_disable :: "dev \<Rightarrow> dev" where
  "irq_disable d = d\<lparr>chip := (chip d)\<lparr>irq_on := False\<rparr>\<rparr>"

definition irq_enable :: "dev \<Rightarrow> dev" where
  "irq_enable d = d\<lparr>chip := (chip d)\<lparr>irq_on := True\<rparr>\<rparr>"

text \<open>The conversion is started with interrupts off; they are on afterwards, whatever they were before.\<close>

fun read_adc :: "env \<Rightarrow> nat \<Rightarrow> u32 \<Rightarrow> dev \<Rightarrow> u32 \<times> dev" where
  "read_adc e 0 acc d = (acc, d)"
| "read_adc e (Suc i) acc d =
    (let d = irq_disable d; d = irq_enable d
     in read_adc e i (acc + ucast (adc e (adc_no d))) (d\<lparr>adc_no := adc_no d + 1\<rparr>))"

definition read_touch_pa2 :: "env \<Rightarrow> dev \<Rightarrow> u32 \<times> dev" where
  "read_touch_pa2 e d = read_adc e 4 0 d"

text \<open>\<open>n\<close> readings in a row, summed; the code waits 2 ms after each.\<close>

fun touch_sum :: "env \<Rightarrow> nat \<Rightarrow> u32 \<Rightarrow> dev \<Rightarrow> u32 \<times> dev" where
  "touch_sum e 0 base_sum d = (base_sum, d)"
| "touch_sum e (Suc i) base_sum d =
    (let (v, d) = read_touch_pa2 e d in touch_sum e i (base_sum + v) d)"

definition init_touch_adc :: "env \<Rightarrow> dev \<Rightarrow> dev" where
  "init_touch_adc e d =
    (if touch_adc_init_done d then d
     else let d = snd (touch_sum e 8 0 d);
              (base_sum, d) = touch_sum e 16 0 d
          in d\<lparr>touch_baseline := base_sum div 16, touch_adc_init_done := True\<rparr>)"

fun stir_entropy :: "env \<Rightarrow> nat \<Rightarrow> dev \<Rightarrow> dev" where
  "stir_entropy e 0 d = d"
| "stir_entropy e (Suc i) d =
    (let (v, d) = read_touch_pa2 e d
     in stir_entropy e i
          (d\<lparr>g_adc_entropy := g_adc_entropy d XOR (v + 0x9E3779B9 + push_bit 3 (g_adc_entropy d))\<rparr>))"

function touch_loop :: "env \<Rightarrow> u32 \<Rightarrow> u32 \<Rightarrow> nat \<Rightarrow> nat \<Rightarrow> dev \<Rightarrow> u8 \<times> dev" where
  "touch_loop e cid base loops confirm d =
    (let delta = base div 4;
         (val, d) = read_touch_pa2 e d;
         touched = (64 < base \<and> val < base - delta);
         confirm = (if touched then confirm + 1 else 0)
     in if touched \<and> 3 \<le> confirm then (0x00, fido2_send_keepalive e cid 1 d)
        else let d = Process_OOB_Commands e (elapse e d)
             in if cancel_requested d then (0x2D, d)
                else let loops = loops + 1;
                         d = (if loops mod 4 = 0 then fido2_send_keepalive e cid 2 d else d)
                     in if 300 < loops then (0x2F, d)
                        else touch_loop e cid base loops confirm d)"
  by pat_completeness auto
termination by (relation "measure (\<lambda>(e, cid, base, loops, confirm, d). 301 - loops)") auto

declare touch_loop.simps [simp del]

definition fido2_wait_for_user_presence :: "env \<Rightarrow> u32 \<Rightarrow> dev \<Rightarrow> u8 \<times> dev" where
  "fido2_wait_for_user_presence e cid d =
    (let d = d\<lparr>cancel_requested := False\<rparr>;
         d = (if \<not> touch_adc_init_done d then init_touch_adc e d else d);
         (base_sum, d) = touch_sum e 16 0 d;
         base = base_sum div 16;
         d = d\<lparr>touch_baseline := base\<rparr>;
         d = stir_entropy e 8 d;
         d = fido2_send_keepalive e cid 2 d
     in touch_loop e cid base 0 0 d)"

section \<open>Random bytes\<close>

definition hardware_rand :: "env \<Rightarrow> dev \<Rightarrow> u32 \<times> dev" where
  "hardware_rand e d =
    (let s = prng_state d XOR (g_adc_entropy d XOR ucast (systick e (tick_no d)) XOR
               (call_counter d * 0x9E3779B9));
         s = s XOR push_bit 13 s;
         s = s XOR drop_bit 17 s;
         s = s XOR push_bit 5 s
     in (s, d\<lparr>prng_state := s, call_counter := call_counter d + 1, tick_no := tick_no d + 1\<rparr>))"

fun rng :: "env \<Rightarrow> nat \<Rightarrow> dev \<Rightarrow> u8 list \<times> dev" where
  "rng e 0 d = ([], d)"
| "rng e (Suc n) d =
    (let (r, d) = hardware_rand e d; (bs, d) = rng e n d in (ucast (drop_bit 24 r) # bs, d))"

section \<open>The elliptic curve library\<close>

definition uECC_yield :: "env \<Rightarrow> dev \<Rightarrow> dev" where
  "uECC_yield e d = (if g_current_cid d \<noteq> 0 then fido2_send_keepalive e (g_current_cid d) 1 d else d)"

text \<open>The bytes \<open>rng\<close> would deliver from here on, and the state after a library call that drew
  \<open>drawn\<close> of them and yielded \<open>yields\<close> times.\<close>

definition rng_stream :: "env \<Rightarrow> dev \<Rightarrow> nat \<Rightarrow> u8" where
  "rng_stream e d n = last (fst (rng e (n + 1) d))"

definition ecc_effect :: "env \<Rightarrow> nat \<Rightarrow> nat \<Rightarrow> dev \<Rightarrow> dev" where
  "ecc_effect e drawn yields d = (uECC_yield e ^^ yields) (snd (rng e drawn d))"

definition uECC_make_key :: "env \<Rightarrow> dev \<Rightarrow> u8 list \<times> u8 list \<times> dev" where
  "uECC_make_key e d =
    (let (public_key, private_key, drawn, yields) = ecc_make_key e (rng_stream e d)
     in (public_key, private_key, ecc_effect e drawn yields d))"

definition uECC_sign :: "env \<Rightarrow> u8 list \<Rightarrow> u8 list \<Rightarrow> dev \<Rightarrow> u8 list \<times> dev" where
  "uECC_sign e private_key message_hash d =
    (let (signature, drawn, yields) = ecc_sign e private_key message_hash (rng_stream e d)
     in (signature, ecc_effect e drawn yields d))"

definition uECC_shared_secret :: "env \<Rightarrow> u8 list \<Rightarrow> u8 list \<Rightarrow> dev \<Rightarrow> u8 list \<times> dev" where
  "uECC_shared_secret e public_key private_key d =
    (let (secret, drawn, yields) = ecc_shared_secret e public_key private_key (rng_stream e d)
     in (secret, ecc_effect e drawn yields d))"

end
