(* ===== verification/Sha256.thy ===== *)
theory Sha256
  imports Prelude
begin

text \<open>
  \<open>usb_hid_fido2/sha256.c\<close>: the streaming SHA-256 interface (\<open>sha256_init\<close>, \<open>sha256_update\<close>,
  \<open>sha256_final\<close>, over \<open>SHA256_CTX\<close>) and \<open>hmac_sha256\<close>.

  The specification is the one-pass definition of FIPS 180-4: pad the whole message, cut it in
  64-byte blocks and fold the compression function over them.  \<open>sha256_streaming_lemma\<close> shows that
  any sequence of \<open>update\<close> calls computes it, whatever the uninitialised context held.  The HMAC
  construction is proved over an abstract hash function (locale \<open>hash_function\<close>) and
  interpreted on the streaming implementation.
\<close>

section \<open>The compression function\<close>

definition ROTRIGHT :: "u32 \<Rightarrow> nat \<Rightarrow> u32" where
  "ROTRIGHT a b = (drop_bit b a OR push_bit (32 - b) a)"

definition CH :: "u32 \<Rightarrow> u32 \<Rightarrow> u32 \<Rightarrow> u32" where
  "CH x y z = ((x AND y) XOR (NOT x AND z))"

definition MAJ :: "u32 \<Rightarrow> u32 \<Rightarrow> u32 \<Rightarrow> u32" where
  "MAJ x y z = ((x AND y) XOR (x AND z) XOR (y AND z))"

definition EP0 :: "u32 \<Rightarrow> u32" where
  "EP0 x = (ROTRIGHT x 2 XOR ROTRIGHT x 13 XOR ROTRIGHT x 22)"

definition EP1 :: "u32 \<Rightarrow> u32" where
  "EP1 x = (ROTRIGHT x 6 XOR ROTRIGHT x 11 XOR ROTRIGHT x 25)"

definition SIG0 :: "u32 \<Rightarrow> u32" where
  "SIG0 x = (ROTRIGHT x 7 XOR ROTRIGHT x 18 XOR drop_bit 3 x)"

definition SIG1 :: "u32 \<Rightarrow> u32" where
  "SIG1 x = (ROTRIGHT x 17 XOR ROTRIGHT x 19 XOR drop_bit 10 x)"

definition K256 :: "u32 list" where
  "K256 = [
    0x428A2F98, 0x71374491, 0xB5C0FBCF, 0xE9B5DBA5, 0x3956C25B, 0x59F111F1, 0x923F82A4, 0xAB1C5ED5,
    0xD807AA98, 0x12835B01, 0x243185BE, 0x550C7DC3, 0x72BE5D74, 0x80DEB1FE, 0x9BDC06A7, 0xC19BF174,
    0xE49B69C1, 0xEFBE4786, 0x0FC19DC6, 0x240CA1CC, 0x2DE92C6F, 0x4A7484AA, 0x5CB0A9DC, 0x76F988DA,
    0x983E5152, 0xA831C66D, 0xB00327C8, 0xBF597FC7, 0xC6E00BF3, 0xD5A79147, 0x06CA6351, 0x14292967,
    0x27B70A85, 0x2E1B2138, 0x4D2C6DFC, 0x53380D13, 0x650A7354, 0x766A0ABB, 0x81C2C92E, 0x92722C85,
    0xA2BFE8A1, 0xA81A664B, 0xC24B8B70, 0xC76C51A3, 0xD192E819, 0xD6990624, 0xF40E3585, 0x106AA070,
    0x19A4C116, 0x1E376C08, 0x2748774C, 0x34B0BCB5, 0x391C0CB3, 0x4ED8AA4A, 0x5B9CCA4F, 0x682E6FF3,
    0x748F82EE, 0x78A5636F, 0x84C87814, 0x8CC70208, 0x90BEFFFA, 0xA4506CEB, 0xBEF9A3F7, 0xC67178F2]"

text \<open>The message schedule \<open>m[64]\<close>: sixteen words from the block, the others from the recurrence.\<close>

definition sha256_schedule :: "u8 list \<Rightarrow> u32 list" where
  "sha256_schedule data =
    fold (\<lambda>i m. m @ [SIG1 (m ! (i - 2)) + m ! (i - 7) + SIG0 (m ! (i - 15)) + m ! (i - 16)])
      [16..<64]
      (map (\<lambda>i. be32_of (data ! (4 * i)) (data ! (4 * i + 1)) (data ! (4 * i + 2)) (data ! (4 * i + 3)))
        [0..<16])"

fun sha256_round :: "u32 list \<Rightarrow> nat \<Rightarrow> u32 list \<Rightarrow> u32 list" where
  "sha256_round m i [a, b, c, d, e, f, g, h] =
    (let t1 = h + EP1 e + CH e f g + K256 ! i + m ! i;
         t2 = EP0 a + MAJ a b c
     in [t1 + t2, a, b, c, d + t1, e, f, g])"
| "sha256_round m i _ = []"

text \<open>What \<open>sha256_transform\<close> does to \<open>ctx->state\<close>.\<close>

definition sha256_compress :: "u32 list \<Rightarrow> u8 list \<Rightarrow> u32 list" where
  "sha256_compress st data =
    map2 (+) st (fold (sha256_round (sha256_schedule data)) [0..<64] st)"

section \<open>The streaming interface\<close>

record SHA256_CTX =
  ctx_data :: "u8 list"
  datalen :: nat
  bitlen :: u64
  ctx_state :: "u32 list"

definition sha256_transform :: "SHA256_CTX \<Rightarrow> u8 list \<Rightarrow> SHA256_CTX" where
  "sha256_transform ctx d = ctx\<lparr>ctx_state := sha256_compress (ctx_state ctx) d\<rparr>"

definition sha256_H0 :: "u32 list" where
  "sha256_H0 = [0x6A09E667, 0xBB67AE85, 0x3C6EF372, 0xA54FF53A,
                0x510E527F, 0x9B05688C, 0x1F83D9AB, 0x5BE0CD19]"

definition sha256_init :: "SHA256_CTX \<Rightarrow> SHA256_CTX" where
  "sha256_init ctx = ctx\<lparr>datalen := 0, bitlen := 0, ctx_state := sha256_H0\<rparr>"

text \<open>The body of the loop in \<open>sha256_update\<close>.\<close>

definition sha256_byte :: "u8 \<Rightarrow> SHA256_CTX \<Rightarrow> SHA256_CTX" where
  "sha256_byte b ctx =
    (let ctx = ctx\<lparr>ctx_data := (ctx_data ctx)[datalen ctx := b], datalen := datalen ctx + 1\<rparr> in
     if datalen ctx = 64
     then (sha256_transform ctx (ctx_data ctx))\<lparr>bitlen := bitlen ctx + 512, datalen := 0\<rparr>
     else ctx)"

definition sha256_update :: "SHA256_CTX \<Rightarrow> u8 list \<Rightarrow> nat \<Rightarrow> SHA256_CTX" where
  "sha256_update ctx d len = fold sha256_byte (take len d) ctx"

text \<open>The eight length bytes, stored at \<open>data[56..63]\<close> from the last one up.\<close>

definition be64_bytes :: "u64 \<Rightarrow> u8 list" where
  "be64_bytes w = [ucast (drop_bit 56 w), ucast (drop_bit 48 w), ucast (drop_bit 40 w),
     ucast (drop_bit 32 w), ucast (drop_bit 24 w), ucast (drop_bit 16 w),
     ucast (drop_bit 8 w), ucast w]"

definition sha256_final :: "SHA256_CTX \<Rightarrow> u8 list" where
  "sha256_final ctx =
    (let n = datalen ctx;
         ctx = (if n < 56
           then ctx\<lparr>ctx_data := blit (ctx_data ctx) n (0x80 # replicate (55 - n) 0)\<rparr>
           else (let ctx = ctx\<lparr>ctx_data := blit (ctx_data ctx) n (0x80 # replicate (63 - n) 0)\<rparr>;
                     ctx = sha256_transform ctx (ctx_data ctx)
                 in ctx\<lparr>ctx_data := blit (ctx_data ctx) 0 (replicate 56 0)\<rparr>));
         ctx = ctx\<lparr>bitlen := bitlen ctx + word_of_nat (n * 8)\<rparr>;
         ctx = ctx\<lparr>ctx_data := blit (ctx_data ctx) 56 (be64_bytes (bitlen ctx))\<rparr>;
         ctx = sha256_transform ctx (ctx_data ctx)
     in concat (map be32_bytes (ctx_state ctx)))"

text \<open>The idiom of the callers: a context on the stack, one \<open>init\<close>, some \<open>update\<close>s, one \<open>final\<close>.\<close>

definition sha256_chunks :: "SHA256_CTX \<Rightarrow> u8 list list \<Rightarrow> u8 list" where
  "sha256_chunks ctx ds = sha256_final (fold (\<lambda>d c. sha256_update c d (length d)) ds (sha256_init ctx))"

definition uninit_ctx :: SHA256_CTX where
  "uninit_ctx = \<lparr>ctx_data = replicate 64 0, datalen = 0, bitlen = 0, ctx_state = []\<rparr>"

definition sha256 :: "u8 list \<Rightarrow> u8 list" where
  "sha256 d = sha256_chunks uninit_ctx [d]"

definition hmac_sha256 :: "u8 list \<Rightarrow> nat \<Rightarrow> u8 list \<Rightarrow> nat \<Rightarrow> u8 list" where
  "hmac_sha256 key key_len d data_len =
    (let (key, key_len) =
           (if 64 < key_len
            then (sha256_final (sha256_update (sha256_init uninit_ctx) key key_len), 32)
            else (key, key_len));
         k_ipad = blit (replicate 64 0) 0 (take key_len key);
         k_opad = blit (replicate 64 0) 0 (take key_len key);
         k_ipad = map (\<lambda>b. b XOR 0x36) k_ipad;
         k_opad = map (\<lambda>b. b XOR 0x5c) k_opad;
         mac = sha256_final (sha256_update (sha256_update (sha256_init uninit_ctx) k_ipad 64) d data_len)
     in sha256_final (sha256_update (sha256_update (sha256_init uninit_ctx) k_opad 64) mac 32))"

section \<open>The one-pass specification\<close>

text \<open>FIPS 180-4: append a one bit, the least number of zero bits that leaves 64 bits to the end
  of a block, and the message length in bits.\<close>

definition pad_zeros :: "nat \<Rightarrow> nat" where
  "pad_zeros n = (if n mod 64 < 56 then 55 - n mod 64 else 119 - n mod 64)"

definition sha256_pad :: "u8 list \<Rightarrow> u8 list" where
  "sha256_pad msg =
    msg @ [0x80] @ replicate (pad_zeros (length msg)) 0 @ be64_bytes (word_of_nat (8 * length msg))"

function digest_blocks :: "u32 list \<Rightarrow> u8 list \<Rightarrow> u32 list" where
  "digest_blocks st xs =
    (if length xs < 64 then st else digest_blocks (sha256_compress st (take 64 xs)) (drop 64 xs))"
  by pat_completeness auto
termination by (relation "measure (\<lambda>(_, xs). length xs)") auto

declare digest_blocks.simps [simp del]

definition sha256_spec :: "u8 list \<Rightarrow> u8 list" where
  "sha256_spec msg = concat (map be32_bytes (digest_blocks sha256_H0 (sha256_pad msg)))"

lemma length_be64_bytes [simp]: "length (be64_bytes w) = 8"
  by (simp add: be64_bytes_def)

lemma length_sha256_pad: "64 dvd length (sha256_pad msg)"
proof -
  define q r where "q = length msg div 64" and "r = length msg mod 64"
  have "length msg = 64 * q + r" "r < 64"
    by (simp_all add: q_def r_def)
  then have "length (sha256_pad msg) = 64 * (q + (if r < 56 then 1 else 2))"
    by (simp add: sha256_pad_def pad_zeros_def r_def [symmetric])
  then show ?thesis by simp
qed

lemma digest_blocks_short: "length xs < 64 \<Longrightarrow> digest_blocks st xs = st"
  by (simp add: digest_blocks.simps)

lemma digest_blocks_one:
  "length xs = 64 \<Longrightarrow> digest_blocks st (xs @ ys) = digest_blocks (sha256_compress st xs) ys"
  by (subst digest_blocks.simps) simp

lemma digest_blocks_append:
  "64 dvd length xs \<Longrightarrow> digest_blocks st (xs @ ys) = digest_blocks (digest_blocks st xs) ys"
proof (induction st xs rule: digest_blocks.induct)
  case (1 st xs)
  show ?case
  proof (cases "length xs < 64")
    case True
    with 1(2) have "xs = []" by (auto dest: dvd_imp_le)
    then show ?thesis by (simp add: digest_blocks_short)
  next
    case False
    have "digest_blocks st (xs @ ys) = digest_blocks st (take 64 xs @ (drop 64 xs @ ys))"
      by (metis append.assoc append_take_drop_id)
    also have "\<dots> = digest_blocks (sha256_compress st (take 64 xs)) (drop 64 xs @ ys)"
      using False by (intro digest_blocks_one) simp
    also have "\<dots> = digest_blocks (digest_blocks (sha256_compress st (take 64 xs)) (drop 64 xs)) ys"
      using 1(2) False by (intro 1(1)) (auto simp: dvd_diff_nat)
    also have "digest_blocks (sha256_compress st (take 64 xs)) (drop 64 xs) = digest_blocks st xs"
      using False by (subst (2) digest_blocks.simps) simp
    finally show ?thesis .
  qed
qed

section \<open>Streaming equals one pass\<close>

text \<open>After the bytes \<open>msg\<close>: \<open>done\<close> blocks are compressed, the rest waits in \<open>data\<close>.\<close>

definition absorbed :: "u8 list \<Rightarrow> SHA256_CTX \<Rightarrow> bool" where
  "absorbed msg ctx \<longleftrightarrow>
    length (ctx_data ctx) = 64 \<and> datalen ctx < 64 \<and>
    (\<exists>pre. msg = pre @ take (datalen ctx) (ctx_data ctx) \<and> 64 dvd length pre \<and>
       bitlen ctx = word_of_nat (8 * length pre) \<and> ctx_state ctx = digest_blocks sha256_H0 pre)"

lemma absorbed_init: "length (ctx_data ctx) = 64 \<Longrightarrow> absorbed [] (sha256_init ctx)"
  by (simp add: absorbed_def sha256_init_def digest_blocks_short)

lemma absorbed_byte:
  assumes "absorbed msg ctx"
  shows "absorbed (msg @ [b]) (sha256_byte b ctx)"
proof -
  obtain pre where pre: "msg = pre @ take (datalen ctx) (ctx_data ctx)" "64 dvd length pre"
      "bitlen ctx = word_of_nat (8 * length pre)" "ctx_state ctx = digest_blocks sha256_H0 pre"
    and len: "length (ctx_data ctx) = 64" "datalen ctx < 64"
    using assms by (auto simp: absorbed_def)
  have t: "take (Suc (datalen ctx)) ((ctx_data ctx)[datalen ctx := b]) = take (datalen ctx) (ctx_data ctx) @ [b]"
    using len by (simp add: take_Suc_conv_app_nth)
  show ?thesis
  proof (cases "datalen ctx = 63")
    case True
    define blk where "blk = (ctx_data ctx)[63 := b]"
    have blk: "length blk = 64" "take (datalen ctx) (ctx_data ctx) @ [b] = blk"
      using t len True by (simp_all add: blk_def)
    have "ctx_state (sha256_byte b ctx) = digest_blocks sha256_H0 (pre @ blk)"
      using True pre(4) blk(1)
      by (simp add: sha256_byte_def Let_def sha256_transform_def digest_blocks_append [OF pre(2)]
          digest_blocks_one [of blk _ "[]", simplified] digest_blocks_short blk_def [symmetric])
    moreover have "bitlen (sha256_byte b ctx) = word_of_nat (8 * length (pre @ blk))"
      using True pre(3) blk(1) by (simp add: sha256_byte_def Let_def algebra_simps)
    ultimately show ?thesis
      using True pre(1,2) blk len
      by (auto simp: absorbed_def sha256_byte_def Let_def sha256_transform_def blk_def [symmetric]
          intro!: exI [of _ "pre @ blk"])
  next
    case False
    then show ?thesis
      using pre len t by (auto simp: absorbed_def sha256_byte_def Let_def)
  qed
qed

lemma absorbed_update:
  "absorbed msg ctx \<Longrightarrow> absorbed (msg @ take len d) (sha256_update ctx d len)"
proof -
  have "absorbed msg ctx \<Longrightarrow> absorbed (msg @ xs) (fold sha256_byte xs ctx)" for xs
  proof (induction xs arbitrary: msg ctx)
    case (Cons x xs)
    from Cons.IH [OF absorbed_byte [OF Cons.prems]] show ?case by simp
  qed simp
  then show "absorbed msg ctx \<Longrightarrow> absorbed (msg @ take len d) (sha256_update ctx d len)"
    by (simp add: sha256_update_def)
qed

lemma blit_suffix:
  "length p = i \<Longrightarrow> length q = length ys \<Longrightarrow> blit (p @ q) i ys = p @ ys"
  by (simp add: blit_def)

lemma absorbed_final:
  assumes "absorbed msg ctx"
  shows "sha256_final ctx = sha256_spec msg"
proof -
  define n where "n = datalen ctx"
  define r where "r = take n (ctx_data ctx)"
  obtain pre where pre: "msg = pre @ r" "64 dvd length pre"
      "bitlen ctx = word_of_nat (8 * length pre)" "ctx_state ctx = digest_blocks sha256_H0 pre"
    and len: "length (ctx_data ctx) = 64" "n < 64"
    using assms by (auto simp: absorbed_def n_def r_def)
  have r: "length r = n" using len by (simp add: r_def)
  have m: "length msg mod 64 = n"
    using pre(1,2) len(2) r by (auto elim!: dvdE)
  let ?L = "be64_bytes (word_of_nat (8 * length msg))"
  have L: "bitlen ctx + word_of_nat (n * 8) = word_of_nat (8 * length msg)"
    using pre(1,3) r by (simp add: algebra_simps)
  show ?thesis
  proof (cases "n < 56")
    case True
    let ?b = "r @ [0x80] @ replicate (55 - n) 0 @ ?L"
    have b: "length ?b = 64" using True r by simp
    have "blit (ctx_data ctx) n (0x80 # replicate (55 - n) 0) =
        (r @ [0x80] @ replicate (55 - n) 0) @ drop 56 (ctx_data ctx)"
      using True by (simp add: blit_def r_def)
    then have "blit (blit (ctx_data ctx) n (0x80 # replicate (55 - n) 0)) 56 ?L = ?b"
      using True len(1) r blit_suffix [of "r @ [0x80] @ replicate (55 - n) 0" 56 "drop 56 (ctx_data ctx)" ?L]
      by simp
    then have "sha256_final ctx = concat (map be32_bytes (sha256_compress (ctx_state ctx) ?b))"
      using True L by (simp add: sha256_final_def Let_def n_def [symmetric] sha256_transform_def)
    moreover have "sha256_pad msg = pre @ ?b"
      using True m pre(1) by (simp add: sha256_pad_def pad_zeros_def)
    ultimately show ?thesis
      using pre(4) digest_blocks_one [OF b, of _ "[]"]
      by (simp add: sha256_spec_def digest_blocks_append [OF pre(2)] digest_blocks_short)
  next
    case False
    let ?b = "r @ [0x80] @ replicate (63 - n) 0"
    let ?c = "replicate 56 0 @ ?L"
    have b: "length ?b = 64" "length ?c = 64" using False r len(2) by simp_all
    have 1: "blit (ctx_data ctx) n (0x80 # replicate (63 - n) 0) = ?b"
      using False len r by (simp add: blit_def r_def [symmetric])
    have 2: "blit (blit ?b 0 (replicate 56 0)) 56 ?L = ?c"
      using b(1) by (simp add: blit_def)
    have "sha256_final ctx =
        concat (map be32_bytes (sha256_compress (sha256_compress (ctx_state ctx) ?b) ?c))"
      using False L 1 2 by (simp add: sha256_final_def Let_def n_def [symmetric] sha256_transform_def)
    moreover have "sha256_pad msg = pre @ ?b @ ?c"
    proof -
      have "pad_zeros (length msg) = (63 - n) + 56"
        using False m len(2) by (simp add: pad_zeros_def)
      then show ?thesis
        using pre(1) by (simp add: sha256_pad_def replicate_add)
    qed
    ultimately show ?thesis
      using pre(4) digest_blocks_one [OF b(1), of _ ?c] digest_blocks_one [OF b(2), of _ "[]"]
      by (simp add: sha256_spec_def digest_blocks_append [OF pre(2)] digest_blocks_short)
  qed
qed

lemma sha256_streaming_lemma:
  assumes "length (ctx_data ctx) = 64"
  shows "sha256_chunks ctx ds = sha256_spec (concat ds)"
proof -
  have "absorbed msg c \<Longrightarrow>
      absorbed (msg @ concat ds) (fold (\<lambda>d c. sha256_update c d (length d)) ds c)" for msg c
  proof (induction ds arbitrary: msg c)
    case (Cons d ds)
    from Cons.IH [OF absorbed_update [OF Cons.prems, of "length d" d]] show ?case by simp
  qed simp
  from absorbed_final [OF this [OF absorbed_init [OF assms]]] show ?thesis
    by (simp add: sha256_chunks_def)
qed

lemma length_digest_blocks: "length st = 8 \<Longrightarrow> length (digest_blocks st xs) = 8"
proof (induction st xs rule: digest_blocks.induct)
  case (1 st xs)
  have round: "length s = 8 \<Longrightarrow> length (sha256_round m i s) = 8" for m i s
    by (cases "(m, i, s)" rule: sha256_round.cases) (simp_all add: Let_def)
  have "length s = 8 \<Longrightarrow> length (fold (sha256_round m) is s) = 8" for m "is" s
    by (induction "is" arbitrary: s) (simp_all add: round)
  then have "length (sha256_compress st (take 64 xs)) = 8"
    using 1(2) by (simp add: sha256_compress_def)
  with 1 show ?case by (subst digest_blocks.simps) simp
qed

lemma length_sha256_spec [simp]: "length (sha256_spec msg) = 32"
proof -
  have "length (concat (map be32_bytes ws)) = 4 * length ws" for ws
    by (induction ws) simp_all
  then show ?thesis by (simp add: sha256_spec_def length_digest_blocks sha256_H0_def)
qed

lemma sha256_eq_spec: "sha256 d = sha256_spec d"
  by (simp add: sha256_def sha256_streaming_lemma uninit_ctx_def)

section \<open>HMAC over a hash function\<close>

text \<open>RFC 2104 with a 64-byte block, for an arbitrary hash.\<close>

definition hmac_spec :: "(u8 list \<Rightarrow> u8 list) \<Rightarrow> u8 list \<Rightarrow> u8 list \<Rightarrow> u8 list" where
  "hmac_spec H key d =
    (let k0 = (if 64 < length key then H key else key);
         k0 = k0 @ replicate (64 - length k0) 0
     in H (map (\<lambda>b. b XOR 0x5c) k0 @ H (map (\<lambda>b. b XOR 0x36) k0 @ d)))"

text \<open>What a client of the hash relies on: only the length of the digest.\<close>

locale hash_function =
  fixes hash :: "u8 list \<Rightarrow> u8 list"
  assumes length_hash: "length (hash d) = 32"
begin

lemma hmac_length: "length (hmac_spec hash key d) = 32"
  by (simp add: hmac_spec_def Let_def length_hash)

lemma hmac_pad_key:
  "length key + n \<le> 64 \<Longrightarrow> hmac_spec hash (key @ replicate n 0) d = hmac_spec hash key d"
proof -
  assume "length key + n \<le> 64"
  then have "64 - length key = n + (64 - (length key + n))" by simp
  then have "replicate (64 - length key) x = replicate n x @ replicate (64 - (length key + n)) x"
    for x :: u8
    by (metis replicate_add)
  then show ?thesis
    using \<open>length key + n \<le> 64\<close> by (simp add: hmac_spec_def Let_def)
qed

lemma hmac_long_key: "64 < length key \<Longrightarrow> hmac_spec hash key d = hmac_spec hash (hash key) d"
  by (simp add: hmac_spec_def Let_def length_hash)

end

interpretation sha: hash_function sha256_spec
  by unfold_locales simp

lemma hmac_sha256_lemma:
  assumes "key_len \<le> length key" "data_len \<le> length d"
  shows "hmac_sha256 key key_len d data_len = hmac_spec sha256_spec (take key_len key) (take data_len d)"
proof -
  have chunks: "sha256_final (sha256_update (sha256_update (sha256_init uninit_ctx) a la) b lb) =
      sha256_spec (take la a @ take lb b)" for a b la lb
    using absorbed_final [OF absorbed_update [OF absorbed_update [OF absorbed_init]], of uninit_ctx]
    by (simp add: uninit_ctx_def)
  have one: "sha256_final (sha256_update (sha256_init uninit_ctx) a la) = sha256_spec (take la a)" for a la
    using absorbed_final [OF absorbed_update [OF absorbed_init], of uninit_ctx]
    by (simp add: uninit_ctx_def)
  have pad: "blit (replicate 64 0) 0 (take n kk) = take n kk @ replicate (64 - length (take n kk)) 0"
    for n and kk :: "u8 list"
    by (simp add: blit_def)
  show ?thesis
  proof (cases "64 < key_len")
    case True
    then show ?thesis
      using assms by (simp add: hmac_sha256_def hmac_spec_def Let_def chunks one pad)
  next
    case False
    then show ?thesis
      using assms by (simp add: hmac_sha256_def hmac_spec_def Let_def chunks pad)
  qed
qed

lemma length_hmac_sha256:
  "key_len \<le> length key \<Longrightarrow> data_len \<le> length d \<Longrightarrow> length (hmac_sha256 key key_len d data_len) = 32"
  by (simp add: hmac_sha256_lemma sha.hmac_length)

section \<open>Properties\<close>

text \<open>C37: any sequence of \<open>sha256_update\<close> calls between \<open>sha256_init\<close> and \<open>sha256_final\<close> gives the
  FIPS 180-4 digest of the concatenated data, whatever the context held before.\<close>

theorem sha256_streaming:
  assumes "length (ctx_data ctx) = 64"
  shows "sha256_final (fold (\<lambda>d c. sha256_update c d (length d)) ds (sha256_init ctx)) =
    sha256_spec (concat ds)"
  using sha256_streaming_lemma [OF assms] by (simp add: sha256_chunks_def)

lemma sha256_streaming_witness:
  "sha256_final (fold (\<lambda>d c. sha256_update c d (length d)) [[1, 2], [], [3]]
     (sha256_init (uninit_ctx\<lparr>ctx_data := replicate 64 0xA5\<rparr>))) = sha256_spec [1, 2, 3]"
  by (subst sha256_streaming) (simp_all add: uninit_ctx_def)

text \<open>C38: \<open>hmac_sha256\<close> is the RFC 2104 construction over SHA-256, for keys shorter than,
  equal to and longer than a block.\<close>

theorem hmac_sha256_rfc2104:
  assumes "key_len \<le> length key" "data_len \<le> length d"
  shows "hmac_sha256 key key_len d data_len = hmac_spec sha256_spec (take key_len key) (take data_len d)"
  by (rule hmac_sha256_lemma [OF assms])

lemma hmac_sha256_rfc2104_witness:
  "hmac_sha256 (replicate 65 7) 65 [1, 2, 3] 2 = hmac_spec sha256_spec (replicate 65 7) [1, 2]"
  by (subst hmac_sha256_rfc2104) simp_all

end
