(* ===== verification/Aes.thy ===== *)
theory Aes
  imports Prelude
begin

text \<open>
  \<open>usb_hid_fido2/aes.c\<close> as the firmware compiles it: AES-256 (\<open>Nk = 8\<close>, \<open>Nr = 14\<close>) in CBC mode.
  The ECB and CTR entry points and the other key sizes are preprocessed away (\<open>aes.h\<close>).

  \<open>state_t\<close> is the 16-byte buffer itself: \<open>(*state)[i][j]\<close> is byte \<open>4 * i + j\<close>.  The main result is
  that \<open>InvCipher\<close> undoes \<open>Cipher\<close> for every key schedule; the CBC round trip is proved once for
  an arbitrary block cipher (locale \<open>block_cipher\<close>) and interpreted on this one.
\<close>

section \<open>Tables and the key schedule\<close>

definition sbox :: "u8 list" where
  "sbox = [
    0x63, 0x7c, 0x77, 0x7b, 0xf2, 0x6b, 0x6f, 0xc5, 0x30, 0x01, 0x67, 0x2b, 0xfe, 0xd7, 0xab, 0x76,
    0xca, 0x82, 0xc9, 0x7d, 0xfa, 0x59, 0x47, 0xf0, 0xad, 0xd4, 0xa2, 0xaf, 0x9c, 0xa4, 0x72, 0xc0,
    0xb7, 0xfd, 0x93, 0x26, 0x36, 0x3f, 0xf7, 0xcc, 0x34, 0xa5, 0xe5, 0xf1, 0x71, 0xd8, 0x31, 0x15,
    0x04, 0xc7, 0x23, 0xc3, 0x18, 0x96, 0x05, 0x9a, 0x07, 0x12, 0x80, 0xe2, 0xeb, 0x27, 0xb2, 0x75,
    0x09, 0x83, 0x2c, 0x1a, 0x1b, 0x6e, 0x5a, 0xa0, 0x52, 0x3b, 0xd6, 0xb3, 0x29, 0xe3, 0x2f, 0x84,
    0x53, 0xd1, 0x00, 0xed, 0x20, 0xfc, 0xb1, 0x5b, 0x6a, 0xcb, 0xbe, 0x39, 0x4a, 0x4c, 0x58, 0xcf,
    0xd0, 0xef, 0xaa, 0xfb, 0x43, 0x4d, 0x33, 0x85, 0x45, 0xf9, 0x02, 0x7f, 0x50, 0x3c, 0x9f, 0xa8,
    0x51, 0xa3, 0x40, 0x8f, 0x92, 0x9d, 0x38, 0xf5, 0xbc, 0xb6, 0xda, 0x21, 0x10, 0xff, 0xf3, 0xd2,
    0xcd, 0x0c, 0x13, 0xec, 0x5f, 0x97, 0x44, 0x17, 0xc4, 0xa7, 0x7e, 0x3d, 0x64, 0x5d, 0x19, 0x73,
    0x60, 0x81, 0x4f, 0xdc, 0x22, 0x2a, 0x90, 0x88, 0x46, 0xee, 0xb8, 0x14, 0xde, 0x5e, 0x0b, 0xdb,
    0xe0, 0x32, 0x3a, 0x0a, 0x49, 0x06, 0x24, 0x5c, 0xc2, 0xd3, 0xac, 0x62, 0x91, 0x95, 0xe4, 0x79,
    0xe7, 0xc8, 0x37, 0x6d, 0x8d, 0xd5, 0x4e, 0xa9, 0x6c, 0x56, 0xf4, 0xea, 0x65, 0x7a, 0xae, 0x08,
    0xba, 0x78, 0x25, 0x2e, 0x1c, 0xa6, 0xb4, 0xc6, 0xe8, 0xdd, 0x74, 0x1f, 0x4b, 0xbd, 0x8b, 0x8a,
    0x70, 0x3e, 0xb5, 0x66, 0x48, 0x03, 0xf6, 0x0e, 0x61, 0x35, 0x57, 0xb9, 0x86, 0xc1, 0x1d, 0x9e,
    0xe1, 0xf8, 0x98, 0x11, 0x69, 0xd9, 0x8e, 0x94, 0x9b, 0x1e, 0x87, 0xe9, 0xce, 0x55, 0x28, 0xdf,
    0x8c, 0xa1, 0x89, 0x0d, 0xbf, 0xe6, 0x42, 0x68, 0x41, 0x99, 0x2d, 0x0f, 0xb0, 0x54, 0xbb, 0x16]"

definition rsbox :: "u8 list" where
  "rsbox = [
    0x52, 0x09, 0x6a, 0xd5, 0x30, 0x36, 0xa5, 0x38, 0xbf, 0x40, 0xa3, 0x9e, 0x81, 0xf3, 0xd7, 0xfb,
    0x7c, 0xe3, 0x39, 0x82, 0x9b, 0x2f, 0xff, 0x87, 0x34, 0x8e, 0x43, 0x44, 0xc4, 0xde, 0xe9, 0xcb,
    0x54, 0x7b, 0x94, 0x32, 0xa6, 0xc2, 0x23, 0x3d, 0xee, 0x4c, 0x95, 0x0b, 0x42, 0xfa, 0xc3, 0x4e,
    0x08, 0x2e, 0xa1, 0x66, 0x28, 0xd9, 0x24, 0xb2, 0x76, 0x5b, 0xa2, 0x49, 0x6d, 0x8b, 0xd1, 0x25,
    0x72, 0xf8, 0xf6, 0x64, 0x86, 0x68, 0x98, 0x16, 0xd4, 0xa4, 0x5c, 0xcc, 0x5d, 0x65, 0xb6, 0x92,
    0x6c, 0x70, 0x48, 0x50, 0xfd, 0xed, 0xb9, 0xda, 0x5e, 0x15, 0x46, 0x57, 0xa7, 0x8d, 0x9d, 0x84,
    0x90, 0xd8, 0xab, 0x00, 0x8c, 0xbc, 0xd3, 0x0a, 0xf7, 0xe4, 0x58, 0x05, 0xb8, 0xb3, 0x45, 0x06,
    0xd0, 0x2c, 0x1e, 0x8f, 0xca, 0x3f, 0x0f, 0x02, 0xc1, 0xaf, 0xbd, 0x03, 0x01, 0x13, 0x8a, 0x6b,
    0x3a, 0x91, 0x11, 0x41, 0x4f, 0x67, 0xdc, 0xea, 0x97, 0xf2, 0xcf, 0xce, 0xf0, 0xb4, 0xe6, 0x73,
    0x96, 0xac, 0x74, 0x22, 0xe7, 0xad, 0x35, 0x85, 0xe2, 0xf9, 0x37, 0xe8, 0x1c, 0x75, 0xdf, 0x6e,
    0x47, 0xf1, 0x1a, 0x71, 0x1d, 0x29, 0xc5, 0x89, 0x6f, 0xb7, 0x62, 0x0e, 0xaa, 0x18, 0xbe, 0x1b,
    0xfc, 0x56, 0x3e, 0x4b, 0xc6, 0xd2, 0x79, 0x20, 0x9a, 0xdb, 0xc0, 0xfe, 0x78, 0xcd, 0x5a, 0xf4,
    0x1f, 0xdd, 0xa8, 0x33, 0x88, 0x07, 0xc7, 0x31, 0xb1, 0x12, 0x10, 0x59, 0x27, 0x80, 0xec, 0x5f,
    0x60, 0x51, 0x7f, 0xa9, 0x19, 0xb5, 0x4a, 0x0d, 0x2d, 0xe5, 0x7a, 0x9f, 0x93, 0xc9, 0x9c, 0xef,
    0xa0, 0xe0, 0x3b, 0x4d, 0xae, 0x2a, 0xf5, 0xb0, 0xc8, 0xeb, 0xbb, 0x3c, 0x83, 0x53, 0x99, 0x61,
    0x17, 0x2b, 0x04, 0x7e, 0xba, 0x77, 0xd6, 0x26, 0xe1, 0x69, 0x14, 0x63, 0x55, 0x21, 0x0c, 0x7d]"

definition Rcon :: "u8 list" where
  "Rcon = [0x8d, 0x01, 0x02, 0x04, 0x08, 0x10, 0x20, 0x40, 0x80, 0x1b, 0x36]"

definition getSBoxValue :: "u8 \<Rightarrow> u8" where
  "getSBoxValue num = sbox ! unat num"

definition getSBoxInvert :: "u8 \<Rightarrow> u8" where
  "getSBoxInvert num = rsbox ! unat num"

definition Nk :: nat where "Nk = 8"
definition Nr :: nat where "Nr = 14"
definition Nb :: nat where "Nb = 4"

text \<open>One turn of the key expansion loop: the four bytes \<open>RoundKey[4 i .. 4 i + 3]\<close>.\<close>

definition expand_word :: "u8 list \<Rightarrow> nat \<Rightarrow> u8 list" where
  "expand_word RoundKey i =
    (let k = (i - 1) * 4;
         tempa = map (\<lambda>j. RoundKey ! (k + j)) [0..<4];
         tempa = (if i mod Nk = 0
           then (let t = [tempa ! 1, tempa ! 2, tempa ! 3, tempa ! 0];
                     t = map getSBoxValue t
                 in t[0 := t ! 0 XOR Rcon ! (i div Nk)])
           else tempa);
         tempa = (if i mod Nk = 4 then map getSBoxValue tempa else tempa);
         k = (i - Nk) * 4
     in map (\<lambda>j. RoundKey ! (k + j) XOR tempa ! j) [0..<4])"

definition KeyExpansion :: "u8 list \<Rightarrow> u8 list" where
  "KeyExpansion Key =
    fold (\<lambda>i RoundKey. RoundKey @ expand_word RoundKey i) [Nk..<Nb * (Nr + 1)] (take (4 * Nk) Key)"

section \<open>The round functions\<close>

definition AddRoundKey :: "nat \<Rightarrow> u8 list \<Rightarrow> u8 list \<Rightarrow> u8 list" where
  "AddRoundKey round RoundKey s =
    map (\<lambda>i. s ! i XOR RoundKey ! (round * Nb * 4 + i)) [0..<16]"

definition SubBytes :: "u8 list \<Rightarrow> u8 list" where
  "SubBytes s = map getSBoxValue s"

definition InvSubBytes :: "u8 list \<Rightarrow> u8 list" where
  "InvSubBytes s = map getSBoxInvert s"

definition ShiftRows :: "u8 list \<Rightarrow> u8 list" where
  "ShiftRows s =
    (let temp = s ! 1; s = s[1 := s ! 5]; s = s[5 := s ! 9]; s = s[9 := s ! 13]; s = s[13 := temp];
         temp = s ! 2; s = s[2 := s ! 10]; s = s[10 := temp];
         temp = s ! 6; s = s[6 := s ! 14]; s = s[14 := temp];
         temp = s ! 3; s = s[3 := s ! 15]; s = s[15 := s ! 11]; s = s[11 := s ! 7]; s = s[7 := temp]
     in s)"

definition InvShiftRows :: "u8 list \<Rightarrow> u8 list" where
  "InvShiftRows s =
    (let temp = s ! 13; s = s[13 := s ! 9]; s = s[9 := s ! 5]; s = s[5 := s ! 1]; s = s[1 := temp];
         temp = s ! 2; s = s[2 := s ! 10]; s = s[10 := temp];
         temp = s ! 6; s = s[6 := s ! 14]; s = s[14 := temp];
         temp = s ! 3; s = s[3 := s ! 7]; s = s[7 := s ! 11]; s = s[11 := s ! 15]; s = s[15 := temp]
     in s)"

definition xtime :: "u8 \<Rightarrow> u8" where
  "xtime x = (push_bit 1 x XOR ((drop_bit 7 x AND 1) * 0x1b))"

fun mix_column :: "u8 list \<Rightarrow> u8 list" where
  "mix_column [s0, s1, s2, s3] =
    (let t = s0; Tmp = s0 XOR s1 XOR s2 XOR s3
     in [s0 XOR (xtime (s0 XOR s1) XOR Tmp), s1 XOR (xtime (s1 XOR s2) XOR Tmp),
         s2 XOR (xtime (s2 XOR s3) XOR Tmp), s3 XOR (xtime (s3 XOR t) XOR Tmp)])"
| "mix_column s = s"

definition column :: "nat \<Rightarrow> u8 list \<Rightarrow> u8 list" where
  "column i s = [s ! (4 * i), s ! (4 * i + 1), s ! (4 * i + 2), s ! (4 * i + 3)]"

definition MixColumns :: "u8 list \<Rightarrow> u8 list" where
  "MixColumns s = concat (map (\<lambda>i. mix_column (column i s)) [0..<4])"

definition Multiply :: "u8 \<Rightarrow> u8 \<Rightarrow> u8" where
  "Multiply x y =
    ((y AND 1) * x) XOR ((drop_bit 1 y AND 1) * xtime x) XOR
    ((drop_bit 2 y AND 1) * xtime (xtime x)) XOR
    ((drop_bit 3 y AND 1) * xtime (xtime (xtime x))) XOR
    ((drop_bit 4 y AND 1) * xtime (xtime (xtime (xtime x))))"

fun inv_mix_column :: "u8 list \<Rightarrow> u8 list" where
  "inv_mix_column [a, b, c, d] =
    [Multiply a 0x0e XOR Multiply b 0x0b XOR Multiply c 0x0d XOR Multiply d 0x09,
     Multiply a 0x09 XOR Multiply b 0x0e XOR Multiply c 0x0b XOR Multiply d 0x0d,
     Multiply a 0x0d XOR Multiply b 0x09 XOR Multiply c 0x0e XOR Multiply d 0x0b,
     Multiply a 0x0b XOR Multiply b 0x0d XOR Multiply c 0x09 XOR Multiply d 0x0e]"
| "inv_mix_column s = s"

definition InvMixColumns :: "u8 list \<Rightarrow> u8 list" where
  "InvMixColumns s = concat (map (\<lambda>i. inv_mix_column (column i s)) [0..<4])"

section \<open>Cipher, inverse cipher and CBC\<close>

text \<open>The loop leaves after \<open>ShiftRows\<close> when \<open>round == Nr\<close>.\<close>

definition Cipher :: "u8 list \<Rightarrow> u8 list \<Rightarrow> u8 list" where
  "Cipher RoundKey s =
    (let s = AddRoundKey 0 RoundKey s;
         s = fold (\<lambda>round s. AddRoundKey round RoundKey (MixColumns (ShiftRows (SubBytes s)))) [1..<Nr] s;
         s = ShiftRows (SubBytes s)
     in AddRoundKey Nr RoundKey s)"

definition inv_round :: "u8 list \<Rightarrow> nat \<Rightarrow> u8 list \<Rightarrow> u8 list" where
  "inv_round RoundKey round s =
    (let s = AddRoundKey round RoundKey (InvSubBytes (InvShiftRows s))
     in if round = 0 then s else InvMixColumns s)"

definition InvCipher :: "u8 list \<Rightarrow> u8 list \<Rightarrow> u8 list" where
  "InvCipher RoundKey s = fold (inv_round RoundKey) (rev [0..<Nr]) (AddRoundKey Nr RoundKey s)"

record AES_ctx =
  RoundKey :: "u8 list"
  Iv :: "u8 list"

definition AES_init_ctx_iv :: "u8 list \<Rightarrow> u8 list \<Rightarrow> AES_ctx" where
  "AES_init_ctx_iv key iv = \<lparr>RoundKey = KeyExpansion key, Iv = take 16 iv\<rparr>"

definition XorWithIv :: "u8 list \<Rightarrow> u8 list \<Rightarrow> u8 list" where
  "XorWithIv buf iv = map (\<lambda>i. buf ! i XOR iv ! i) [0..<16]"

text \<open>The two loops over \<open>n\<close> blocks of \<open>buf\<close>, for any block cipher: the new buffer and the IV
  left in the context.\<close>

fun cbc_enc :: "(u8 list \<Rightarrow> u8 list) \<Rightarrow> nat \<Rightarrow> u8 list \<Rightarrow> u8 list \<Rightarrow> u8 list \<times> u8 list" where
  "cbc_enc E 0 iv buf = (buf, iv)"
| "cbc_enc E (Suc n) iv buf =
    (let c = E (XorWithIv (take 16 buf) iv); (rest, iv') = cbc_enc E n c (drop 16 buf)
     in (c @ rest, iv'))"

fun cbc_dec :: "(u8 list \<Rightarrow> u8 list) \<Rightarrow> nat \<Rightarrow> u8 list \<Rightarrow> u8 list \<Rightarrow> u8 list \<times> u8 list" where
  "cbc_dec D 0 iv buf = (buf, iv)"
| "cbc_dec D (Suc n) iv buf =
    (let storeNextIv = take 16 buf; p = XorWithIv (D (take 16 buf)) iv;
         (rest, iv') = cbc_dec D n storeNextIv (drop 16 buf)
     in (p @ rest, iv'))"

definition blocks :: "nat \<Rightarrow> nat" where
  "blocks len = (len + 15) div 16"

definition AES_CBC_encrypt_buffer :: "AES_ctx \<Rightarrow> u8 list \<Rightarrow> nat \<Rightarrow> u8 list \<times> AES_ctx" where
  "AES_CBC_encrypt_buffer ctx buf len =
    (let (buf, iv) = cbc_enc (Cipher (RoundKey ctx)) (blocks len) (Iv ctx) buf
     in (buf, ctx\<lparr>Iv := iv\<rparr>))"

definition AES_CBC_decrypt_buffer :: "AES_ctx \<Rightarrow> u8 list \<Rightarrow> nat \<Rightarrow> u8 list \<times> AES_ctx" where
  "AES_CBC_decrypt_buffer ctx buf len =
    (let (buf, iv) = cbc_dec (InvCipher (RoundKey ctx)) (blocks len) (Iv ctx) buf
     in (buf, ctx\<lparr>Iv := iv\<rparr>))"

section \<open>Each round function has its inverse\<close>

lemma upt_num: "[0..<4] = [0, 1, 2, 3 :: nat]"
  "[0..<16] = [0, 1, 2, 3, 4, 5, 6, 7, 8, 9, 10, 11, 12, 13, 14, 15 :: nat]"
  by (simp_all add: upt_rec)

lemma sbox_inverse: "getSBoxInvert (getSBoxValue b) = b"
proof -
  have "\<forall>n \<in> set [0..<256]. rsbox ! unat (sbox ! n) = word_of_nat n"
    by code_simp
  then have "rsbox ! unat (sbox ! unat b) = word_of_nat (unat b)"
    using u8_lt_256 [of b] by (simp del: u8_lt_256)
  then show ?thesis by (simp add: getSBoxInvert_def getSBoxValue_def)
qed

lemma list16:
  assumes "length s = 16"
  obtains a0 a1 a2 a3 a4 a5 a6 a7 a8 a9 a10 a11 a12 a13 a14 a15
  where "s = [a0, a1, a2, a3, a4, a5, a6, a7, a8, a9, a10, a11, a12, a13, a14, a15]"
proof -
  have "s = map (\<lambda>i. s ! i) [0..<16]"
    using assms map_nth [of s] by simp
  then show ?thesis
    unfolding upt_num using that by (simp only: list.map)
qed

lemma SubBytes_inverse: "InvSubBytes (SubBytes s) = s"
  by (simp add: SubBytes_def InvSubBytes_def comp_def sbox_inverse)

lemma ShiftRows_inverse: "length s = 16 \<Longrightarrow> InvShiftRows (ShiftRows s) = s"
  by (erule list16) (simp add: ShiftRows_def InvShiftRows_def)

lemma xtime_if: "xtime x = push_bit 1 x XOR (if bit x 7 then 0x1b else 0)"
proof -
  have "drop_bit 7 x AND 1 = of_bool (bit x 7)"
    by (rule bit_word_eqI) (auto simp: bit_simps)
  then show ?thesis by (simp add: xtime_def)
qed

lemma xtime_xor: "xtime (a XOR b) = xtime a XOR xtime b"
  by (cases "bit a 7"; cases "bit b 7") (simp_all add: xtime_if push_bit_xor bit_xor_iff ac_simps)

lemma mult_bits:
  "(0xe :: u8) AND 1 = 0" "drop_bit 1 (0xe :: u8) AND 1 = 1" "drop_bit 2 (0xe :: u8) AND 1 = 1" "drop_bit 3 (0xe :: u8) AND 1 = 1" "drop_bit 4 (0xe :: u8) AND 1 = 0"
  "(0xb :: u8) AND 1 = 1" "drop_bit 1 (0xb :: u8) AND 1 = 1" "drop_bit 2 (0xb :: u8) AND 1 = 0" "drop_bit 3 (0xb :: u8) AND 1 = 1" "drop_bit 4 (0xb :: u8) AND 1 = 0"
  "(0xd :: u8) AND 1 = 1" "drop_bit 1 (0xd :: u8) AND 1 = 0" "drop_bit 2 (0xd :: u8) AND 1 = 1" "drop_bit 3 (0xd :: u8) AND 1 = 1" "drop_bit 4 (0xd :: u8) AND 1 = 0"
  "(0x9 :: u8) AND 1 = 1" "drop_bit 1 (0x9 :: u8) AND 1 = 0" "drop_bit 2 (0x9 :: u8) AND 1 = 0" "drop_bit 3 (0x9 :: u8) AND 1 = 1" "drop_bit 4 (0x9 :: u8) AND 1 = 0"
  by code_simp+

lemma mult_consts:
  "Multiply x 0x0e = xtime x XOR xtime (xtime x) XOR xtime (xtime (xtime x))"
  "Multiply x 0x0b = x XOR xtime x XOR xtime (xtime (xtime x))"
  "Multiply x 0x0d = x XOR xtime (xtime x) XOR xtime (xtime (xtime x))"
  "Multiply x 0x09 = x XOR xtime (xtime (xtime x))"
  unfolding Multiply_def mult_bits by simp_all

lemma xor_cancel: "(a :: u8) XOR (a XOR b) = b"
  by (simp flip: xor.assoc)

lemma mix_column_inverse: "inv_mix_column (mix_column [a, b, c, d]) = [a, b, c, d]"
  by (simp add: mult_consts xtime_xor ac_simps xor_cancel)

lemma column_concat:
  assumes "length c0 = 4" "length c1 = 4" "length c2 = 4" "length c3 = 4"
  shows "column 0 (c0 @ c1 @ c2 @ c3) = c0" "column 1 (c0 @ c1 @ c2 @ c3) = c1"
    "column 2 (c0 @ c1 @ c2 @ c3) = c2" "column 3 (c0 @ c1 @ c2 @ c3) = c3"
  using assms
  by (auto simp: column_def length_Suc_conv numeral_eq_Suc)

lemma length_mix_column: "length (mix_column [a, b, c, d]) = 4"
  by (simp add: Let_def)

lemma MixColumns_inverse: "length s = 16 \<Longrightarrow> InvMixColumns (MixColumns s) = s"
proof (erule list16)
  fix a0 a1 a2 a3 a4 a5 a6 a7 a8 a9 a10 a11 a12 a13 a14 a15
  assume s: "s = [a0, a1, a2, a3, a4, a5, a6, a7, a8, a9, a10, a11, a12, a13, a14, a15]"
  have c: "column 0 s = [a0, a1, a2, a3]" "column 1 s = [a4, a5, a6, a7]"
    "column 2 s = [a8, a9, a10, a11]" "column 3 s = [a12, a13, a14, a15]"
    by (simp_all add: s column_def)
  have "MixColumns s = mix_column [a0, a1, a2, a3] @ mix_column [a4, a5, a6, a7] @
      mix_column [a8, a9, a10, a11] @ mix_column [a12, a13, a14, a15]"
    by (simp add: MixColumns_def upt_num c del: mix_column.simps One_nat_def)
  then show ?thesis
    by (simp add: InvMixColumns_def upt_num column_concat length_mix_column mix_column_inverse s
        del: mix_column.simps inv_mix_column.simps One_nat_def)
qed

lemma AddRoundKey_inverse: "length s = 16 \<Longrightarrow> AddRoundKey r K (AddRoundKey r K s) = s"
  by (rule nth_equalityI) (simp_all add: AddRoundKey_def xor.assoc)

lemma round_length [simp]:
  "length (AddRoundKey r K s) = 16"
  "length (SubBytes s) = length s" "length (InvSubBytes s) = length s"
  "length (ShiftRows s) = length s" "length (InvShiftRows s) = length s"
  by (simp_all add: AddRoundKey_def SubBytes_def InvSubBytes_def ShiftRows_def InvShiftRows_def Let_def)

lemma column_mix_length [simp]:
  "length (mix_column (column i s)) = 4" "length (inv_mix_column (column i s)) = 4"
  by (simp_all add: column_def Let_def)

lemma MixColumns_length [simp]: "length (MixColumns s) = 16" "length (InvMixColumns s) = 16"
  by (simp_all add: MixColumns_def InvMixColumns_def upt_num)

section \<open>The block cipher\<close>

definition mid_round :: "u8 list \<Rightarrow> nat \<Rightarrow> u8 list \<Rightarrow> u8 list" where
  "mid_round K r s = AddRoundKey r K (MixColumns (ShiftRows (SubBytes s)))"

lemma length_mid [simp]: "length (mid_round K r s) = 16"
  by (simp add: mid_round_def)

lemma length_fold_mid: "length s = 16 \<Longrightarrow> length (fold (mid_round K) rs s) = 16"
  by (induction rs arbitrary: s) simp_all

lemma inv_round_mid:
  assumes "length s = 16" "r \<noteq> 0"
  shows "inv_round K r (ShiftRows (SubBytes (mid_round K r s))) = ShiftRows (SubBytes s)"
  using assms
  by (simp add: inv_round_def Let_def ShiftRows_inverse SubBytes_inverse mid_round_def
      AddRoundKey_inverse MixColumns_inverse)

lemma inv_rounds:
  assumes "length s = 16" "0 \<notin> set rs"
  shows "fold (inv_round K) (rev rs) (ShiftRows (SubBytes (fold (mid_round K) rs s))) =
    ShiftRows (SubBytes s)"
  using assms
proof (induction rs rule: rev_induct)
  case (snoc r rs)
  then show ?case by (simp add: inv_round_mid length_fold_mid)
qed simp

lemma Cipher_mid:
  "Cipher K s = AddRoundKey Nr K (ShiftRows (SubBytes (fold (mid_round K) [1..<Nr] (AddRoundKey 0 K s))))"
  by (simp add: Cipher_def mid_round_def [abs_def])

lemma InvCipher_Cipher:
  assumes "length s = 16"
  shows "InvCipher K (Cipher K s) = s"
proof -
  define t where "t = AddRoundKey 0 K s"
  have t: "length t = 16" "length (fold (mid_round K) [1..<Nr] t) = 16"
    by (simp_all add: t_def length_fold_mid)
  have "[0..<Nr] = 0 # [1..<Nr]"
    by (simp add: Nr_def upt_conv_Cons)
  then have "InvCipher K (Cipher K s) = inv_round K 0 (ShiftRows (SubBytes t))"
    using t inv_rounds [OF t(1), of "[1..<Nr]"]
    by (simp add: InvCipher_def Cipher_mid t_def [symmetric] AddRoundKey_inverse)
  also have "\<dots> = s"
    using assms by (simp add: inv_round_def ShiftRows_inverse SubBytes_inverse t_def AddRoundKey_inverse)
  finally show ?thesis .
qed

lemma length_Cipher [simp]: "length (Cipher K s) = 16"
  by (simp add: Cipher_def Let_def)

section \<open>CBC over a block cipher\<close>

locale block_cipher =
  fixes E D :: "u8 list \<Rightarrow> u8 list"
  assumes length_E: "length s = 16 \<Longrightarrow> length (E s) = 16"
    and D_E: "length s = 16 \<Longrightarrow> D (E s) = s"
begin

lemma length_xor: "length (XorWithIv b iv) = 16"
  by (simp add: XorWithIv_def)

lemma xor_twice: "length b = 16 \<Longrightarrow> XorWithIv (XorWithIv b iv) iv = b"
  by (rule nth_equalityI) (simp_all add: XorWithIv_def xor.assoc)

lemma cbc_enc_length:
  "16 * n \<le> length buf \<Longrightarrow> length (fst (cbc_enc E n iv buf)) = length buf"
proof (induction n arbitrary: iv buf)
  case (Suc n)
  then have "length (fst (cbc_enc E n (E (XorWithIv (take 16 buf) iv)) (drop 16 buf))) = length buf - 16"
    by simp
  then show ?case
    using Suc.prems by (simp add: Let_def split_beta length_E length_xor)
qed simp

text \<open>Decryption undoes encryption, and both leave the same IV behind.\<close>

lemma cbc_roundtrip:
  "16 * n \<le> length buf \<Longrightarrow> cbc_dec D n iv (fst (cbc_enc E n iv buf)) = (buf, snd (cbc_enc E n iv buf))"
proof (induction n arbitrary: iv buf)
  case (Suc n)
  define c where "c = E (XorWithIv (take 16 buf) iv)"
  have c: "length c = 16" "D c = XorWithIv (take 16 buf) iv"
    by (simp_all add: c_def length_E D_E length_xor)
  have "cbc_dec D n c (fst (cbc_enc E n c (drop 16 buf))) = (drop 16 buf, snd (cbc_enc E n c (drop 16 buf)))"
    using Suc.prems by (intro Suc.IH) simp
  then show ?case
    using Suc.prems c
    by (simp add: Let_def split_beta c_def [symmetric] xor_twice)
qed simp

text \<open>Block by block with the context in between, as the callers do it.\<close>

lemma cbc_dec_split:
  "cbc_dec D (Suc n) iv buf =
    (let (p, iv') = cbc_dec D 1 iv (take 16 buf) in apfst (\<lambda>r. p @ r) (cbc_dec D n iv' (drop 16 buf)))"
  if "16 \<le> length buf"
  using that by (simp add: Let_def split_beta apfst_def map_prod_def)

end

interpretation aes: block_cipher "Cipher K" "InvCipher K" for K
  by unfold_locales (simp_all add: InvCipher_Cipher)

section \<open>Properties\<close>

text \<open>For every round key array, \<open>InvCipher\<close> is a left inverse of \<open>Cipher\<close> on 16-byte blocks.\<close>

theorem aes_inverse:
  assumes "length s = 16"
  shows "InvCipher K (Cipher K s) = s"
  by (rule InvCipher_Cipher [OF assms])

lemma aes_inverse_witness:
  "InvCipher (KeyExpansion (replicate 32 1)) (Cipher (KeyExpansion (replicate 32 1)) (replicate 16 9)) =
     replicate 16 9"
  by (rule aes_inverse) simp

text \<open>C39: decrypting what \<open>AES_CBC_encrypt_buffer\<close> produced, with a context that starts from the
  same key and IV, restores the buffer; bytes behind the last block are left alone.\<close>

theorem aes_cbc_roundtrip:
  assumes "16 * blocks len \<le> length buf"
  shows "fst (AES_CBC_decrypt_buffer (AES_init_ctx_iv key iv)
      (fst (AES_CBC_encrypt_buffer (AES_init_ctx_iv key iv) buf len)) len) = buf"
  using aes.cbc_roundtrip [OF assms]
  by (simp add: AES_CBC_decrypt_buffer_def AES_CBC_encrypt_buffer_def split_beta)

lemma aes_cbc_roundtrip_witness:
  "fst (AES_CBC_decrypt_buffer (AES_init_ctx_iv (replicate 32 3) (replicate 16 0))
      (fst (AES_CBC_encrypt_buffer (AES_init_ctx_iv (replicate 32 3) (replicate 16 0)) (replicate 40 5) 32)) 32) =
   replicate 40 5"
  by (rule aes_cbc_roundtrip) (simp add: blocks_def)

end
