(* ===== verification/PinCrypto.thy ===== *)
theory PinCrypto
  imports Sha256 Aes
begin

text \<open>
  The key derivation and the two AES wrappers of \<open>usb_hid_fido2/pin.c\<close> (lines 30--64).  The wrappers
  call the CBC routine once per 16-byte block with a context that carries the IV along; the lemmas
  show that this is the same as one call over the whole buffer, so decryption undoes encryption.
\<close>

section \<open>The code\<close>

definition info_hmac :: "u8 list" where "info_hmac = map of_char ''CTAP2 HMAC key'' @ [0x01]"
definition info_aes :: "u8 list" where "info_aes = map of_char ''CTAP2 AES key'' @ [0x01]"

text \<open>\<open>(okm_hmac, okm_aes)\<close>\<close>

definition hkdf_sha256_ctap2 :: "u8 list \<Rightarrow> u8 list \<times> u8 list" where
  "hkdf_sha256_ctap2 ikm =
    (let salt = replicate 32 0;
         prk = hmac_sha256 salt 32 ikm 32
     in (hmac_sha256 prk 32 info_hmac 15, hmac_sha256 prk 32 info_aes 14))"

text \<open>\<open>for (i = 0; i < len; i += 16) AES_CBC_..._buffer(&ctx, buf + i, 16)\<close>\<close>

fun crypt_loop ::
    "(AES_ctx \<Rightarrow> u8 list \<Rightarrow> nat \<Rightarrow> u8 list \<times> AES_ctx) \<Rightarrow> nat \<Rightarrow> AES_ctx \<Rightarrow> u8 list \<Rightarrow> u8 list" where
  "crypt_loop f 0 ctx buf = buf"
| "crypt_loop f (Suc n) ctx buf =
    (let (b, ctx) = f ctx (take 16 buf) 16 in b @ crypt_loop f n ctx (drop 16 buf))"

definition aes_decrypt :: "u8 list \<Rightarrow> u8 list \<Rightarrow> u8 list \<Rightarrow> nat \<Rightarrow> u8 list" where
  "aes_decrypt key iv ciphertext len =
    crypt_loop AES_CBC_decrypt_buffer ((len + 15) div 16) (AES_init_ctx_iv key iv) (take len ciphertext)"

definition aes_encrypt :: "u8 list \<Rightarrow> u8 list \<Rightarrow> u8 list \<Rightarrow> nat \<Rightarrow> u8 list" where
  "aes_encrypt key iv plaintext len =
    crypt_loop AES_CBC_encrypt_buffer ((len + 15) div 16) (AES_init_ctx_iv key iv) (take len plaintext)"

section \<open>Block by block is the same as at once\<close>

lemma crypt_loop_enc:
  "16 * n \<le> length buf \<Longrightarrow>
    crypt_loop AES_CBC_encrypt_buffer n \<lparr>RoundKey = K, Iv = iv\<rparr> buf = fst (cbc_enc (Cipher K) n iv buf)"
  by (induction n arbitrary: iv buf) (auto simp: AES_CBC_encrypt_buffer_def blocks_def split_beta Let_def)

lemma crypt_loop_dec:
  "16 * n \<le> length buf \<Longrightarrow>
    crypt_loop AES_CBC_decrypt_buffer n \<lparr>RoundKey = K, Iv = iv\<rparr> buf = fst (cbc_dec (InvCipher K) n iv buf)"
  by (induction n arbitrary: iv buf) (auto simp: AES_CBC_decrypt_buffer_def blocks_def split_beta Let_def)

lemma length_cbc_enc: "16 * n \<le> length buf \<Longrightarrow> length (fst (cbc_enc (Cipher K) n iv buf)) = length buf"
  by (induction n arbitrary: iv buf) (auto simp: split_beta Let_def)

lemma length_aes_encrypt:
  "16 dvd len \<Longrightarrow> len \<le> length p \<Longrightarrow> length (aes_encrypt key iv p len) = len"
  by (auto simp: aes_encrypt_def AES_init_ctx_iv_def crypt_loop_enc length_cbc_enc elim!: dvdE)

lemma length_cbc_dec: "16 * n \<le> length buf \<Longrightarrow> length (fst (cbc_dec D n iv buf)) = length buf"
  by (induction n arbitrary: iv buf) (auto simp: split_beta Let_def XorWithIv_def)

lemma length_aes_decrypt:
  "16 dvd len \<Longrightarrow> len \<le> length p \<Longrightarrow> length (aes_decrypt key iv p len) = len"
  by (auto simp: aes_decrypt_def AES_init_ctx_iv_def crypt_loop_dec length_cbc_dec elim!: dvdE)

lemma length_hkdf:
  "32 \<le> length x \<Longrightarrow> length (fst (hkdf_sha256_ctap2 x)) = 32 \<and> length (snd (hkdf_sha256_ctap2 x)) = 32"
  by (simp only: hkdf_sha256_ctap2_def Let_def fst_conv snd_conv)
    (simp add: length_hmac_sha256 info_hmac_def info_aes_def)

lemma aes_wrapper_undo:
  assumes "16 dvd len" "len \<le> length p"
  shows "aes_decrypt key iv (aes_encrypt key iv p len) len = take len p"
proof -
  obtain n where n: "len = 16 * n" using assms(1) by (auto elim: dvdE)
  have enc: "aes_encrypt key iv p len = fst (cbc_enc (Cipher (KeyExpansion key)) n (take 16 iv) (take len p))"
    using assms(2) n crypt_loop_enc [of n "take len p"] by (simp add: aes_encrypt_def AES_init_ctx_iv_def)
  have len: "length (aes_encrypt key iv p len) = 16 * n"
    using assms n by (simp add: length_aes_encrypt)
  have "aes_decrypt key iv (aes_encrypt key iv p len) len =
      fst (cbc_dec (InvCipher (KeyExpansion key)) n (take 16 iv) (aes_encrypt key iv p len))"
    using len by (simp add: aes_decrypt_def AES_init_ctx_iv_def n crypt_loop_dec)
  also have "\<dots> = take len p"
    unfolding enc using aes.cbc_roundtrip assms n by simp
  finally show ?thesis .
qed

text \<open>The PIN code's encryption wrapper produces the CBC encryption of the whole buffer, and
  the decryption wrapper with the same key and IV restores every plaintext of whole blocks.\<close>

theorem aes_wrappers_roundtrip:
  assumes "16 dvd len" "len \<le> length p"
  shows "aes_encrypt key iv p len =
      fst (AES_CBC_encrypt_buffer (AES_init_ctx_iv key iv) (take len p) len) \<and>
    aes_decrypt key iv (aes_encrypt key iv p len) len = take len p"
proof -
  obtain n where n: "len = 16 * n" using assms(1) by (auto elim: dvdE)
  have b: "blocks (16 * n) = n" by (simp add: blocks_def)
  have enc: "aes_encrypt key iv p len = fst (cbc_enc (Cipher (KeyExpansion key)) n (take 16 iv) (take len p))"
    using assms(2) n crypt_loop_enc [of n "take len p"] by (simp add: aes_encrypt_def AES_init_ctx_iv_def)
  have 1: "aes_encrypt key iv p len = fst (AES_CBC_encrypt_buffer (AES_init_ctx_iv key iv) (take len p) len)"
    unfolding enc using n b by (simp add: AES_CBC_encrypt_buffer_def AES_init_ctx_iv_def split_beta)
  show ?thesis using 1 aes_wrapper_undo [OF assms, of key iv] by (intro conjI)
qed

lemma aes_wrappers_roundtrip_witness:
  "aes_decrypt (replicate 32 7) (replicate 16 1) (aes_encrypt (replicate 32 7) (replicate 16 1) (replicate 64 2) 64) 64 =
    replicate 64 2"
  using aes_wrappers_roundtrip [of 64 "replicate 64 2" "replicate 32 7" "replicate 16 1", THEN conjunct2]
  by (simp only: length_replicate take_all order_refl) simp

end
