(* ===== verification/Cbor.thy ===== *)
theory Cbor
  imports Prelude
begin

text \<open>
  The CBOR encoder, \<open>usb_hid_fido2/cbor.c\<close> and \<open>cbor.h\<close>: an output buffer with a write
  index and a capacity, and one function per kind of item.  Every function checks the
  capacity before it writes and silently does nothing when the item does not fit.

  The specification side is \<open>head_bytes\<close> (the shortest-form head of RFC 8949 for 32-bit
  arguments) and \<open>appends\<close>: called with enough room, an operation extends the bytes
  produced so far by a given byte string and touches nothing else.  The response builders
  of the other theories are proved against \<open>appends\<close> only.
\<close>

section \<open>The encoder\<close>

record CborEncoder =
  buffer :: "u8 list"
  elength :: nat
  capacity :: nat

definition cbor_init :: "u8 list \<Rightarrow> nat \<Rightarrow> CborEncoder" where
  "cbor_init buf cap = \<lparr>buffer = buf, elength = 0, capacity = cap\<rparr>"

text \<open>\<open>encoder->buffer[encoder->length++] = b\<close>\<close>

definition enc_put :: "u8 \<Rightarrow> CborEncoder \<Rightarrow> CborEncoder" where
  "enc_put b e = e\<lparr>buffer := (buffer e)[elength e := b], elength := elength e + 1\<rparr>"

definition cbor_encode_head :: "u8 \<Rightarrow> u32 \<Rightarrow> CborEncoder \<Rightarrow> CborEncoder" where
  "cbor_encode_head major_type val e =
    (if capacity e \<le> elength e then e
     else if val < 24 then
       enc_put (ucast (push_bit 5 (ucast major_type) OR val)) e
     else if val \<le> 0xFF then
       (if capacity e < elength e + 2 then e
        else enc_put (ucast val) (enc_put (push_bit 5 major_type OR 24) e))
     else if val \<le> 0xFFFF then
       (if capacity e < elength e + 3 then e
        else enc_put (ucast (val AND 0xFF))
              (enc_put (ucast (drop_bit 8 val AND 0xFF))
                (enc_put (push_bit 5 major_type OR 25) e)))
     else
       (if capacity e < elength e + 5 then e
        else enc_put (ucast (val AND 0xFF))
              (enc_put (ucast (drop_bit 8 val AND 0xFF))
                (enc_put (ucast (drop_bit 16 val AND 0xFF))
                  (enc_put (ucast (drop_bit 24 val AND 0xFF))
                    (enc_put (push_bit 5 major_type OR 26) e))))))"

definition cbor_encode_uint :: "u32 \<Rightarrow> CborEncoder \<Rightarrow> CborEncoder" where
  "cbor_encode_uint val e = cbor_encode_head 0 val e"

text \<open>An \<open>int32_t\<close> argument is a word read as two's complement; \<open>-1 - value\<close> does not
  overflow for a negative value.\<close>

definition cbor_encode_int :: "u32 \<Rightarrow> CborEncoder \<Rightarrow> CborEncoder" where
  "cbor_encode_int val e =
    (if 0 \<le> sint val then cbor_encode_head 0 val e
     else cbor_encode_head 1 (- 1 - val) e)"

definition cbor_encode_bool :: "bool \<Rightarrow> CborEncoder \<Rightarrow> CborEncoder" where
  "cbor_encode_bool val e =
    (if capacity e \<le> elength e then e
     else enc_put (if val then 0xF5 else 0xF4) e)"

text \<open>The item functions that copy \<open>len\<close> bytes take the bytes found at the pointer.\<close>

definition enc_copy :: "u8 list \<Rightarrow> nat \<Rightarrow> CborEncoder \<Rightarrow> CborEncoder" where
  "enc_copy data len e =
    (if capacity e < elength e + len then e
     else e\<lparr>buffer := blit (buffer e) (elength e) (take len data),
            elength := elength e + len\<rparr>)"

definition cbor_encode_text_string_len :: "u8 list \<Rightarrow> nat \<Rightarrow> CborEncoder \<Rightarrow> CborEncoder" where
  "cbor_encode_text_string_len str len e =
    enc_copy str len (cbor_encode_head 3 (word_of_nat len) e)"

definition strlen :: "u8 list \<Rightarrow> nat" where
  "strlen str = length (takeWhile (\<lambda>b. b \<noteq> 0) str)"

definition cbor_encode_text_string :: "u8 list \<Rightarrow> CborEncoder \<Rightarrow> CborEncoder" where
  "cbor_encode_text_string str e =
    (let len = strlen str in cbor_encode_text_string_len str len e)"

definition cbor_encode_byte_string :: "u8 list \<Rightarrow> nat \<Rightarrow> CborEncoder \<Rightarrow> CborEncoder" where
  "cbor_encode_byte_string data len e =
    enc_copy data len (cbor_encode_head 2 (word_of_nat len) e)"

definition cbor_encode_map :: "nat \<Rightarrow> CborEncoder \<Rightarrow> CborEncoder" where
  "cbor_encode_map num_pairs e = cbor_encode_head 5 (word_of_nat num_pairs) e"

definition cbor_encode_array :: "nat \<Rightarrow> CborEncoder \<Rightarrow> CborEncoder" where
  "cbor_encode_array num_elements e = cbor_encode_head 4 (word_of_nat num_elements) e"

text \<open>A C string literal, without its terminator.\<close>

definition lit :: "string \<Rightarrow> u8 list" where
  "lit s = map of_char s"

text \<open>A sequence of encoder calls, in the order the code makes them.\<close>

definition encode_all :: "(CborEncoder \<Rightarrow> CborEncoder) list \<Rightarrow> CborEncoder \<Rightarrow> CborEncoder" where
  "encode_all = fold (\<lambda>f. f)"

section \<open>What has been produced\<close>

definition enc_out :: "CborEncoder \<Rightarrow> u8 list" where
  "enc_out e = take (elength e) (buffer e)"

text \<open>How far writes may go: the declared capacity and the real size of the array.  The
  firmware declares 1024 bytes for the 1023 that follow the status byte of its response
  buffer, so the two are kept apart.\<close>

definition enc_limit :: "CborEncoder \<Rightarrow> nat" where
  "enc_limit e = min (capacity e) (length (buffer e))"

definition enc_ok :: "CborEncoder \<Rightarrow> bool" where
  "enc_ok e \<longleftrightarrow> elength e \<le> enc_limit e"

lemma length_enc_out: "enc_ok e \<Longrightarrow> length (enc_out e) = elength e"
  by (simp add: enc_ok_def enc_limit_def enc_out_def)

definition appends :: "(CborEncoder \<Rightarrow> CborEncoder) \<Rightarrow> u8 list \<Rightarrow> bool" where
  "appends f bs \<longleftrightarrow>
    (\<forall>e. enc_ok e \<longrightarrow> elength e + length bs \<le> enc_limit e \<longrightarrow>
       enc_ok (f e) \<and> enc_out (f e) = enc_out e @ bs \<and> elength (f e) = elength e + length bs \<and>
       capacity (f e) = capacity e \<and> length (buffer (f e)) = length (buffer e))"

lemma appendsD:
  assumes "appends f bs" "enc_ok e" "elength e + length bs \<le> enc_limit e"
  shows "enc_ok (f e)" "enc_out (f e) = enc_out e @ bs" "elength (f e) = elength e + length bs"
    "enc_limit (f e) = enc_limit e"
  using assms by (auto simp: appends_def enc_limit_def)

lemma appends_id: "appends (\<lambda>e. e) []"
  by (simp add: appends_def)

lemma appends_comp:
  assumes "appends f xs" "appends g ys"
  shows "appends (\<lambda>e. g (f e)) (xs @ ys)"
  unfolding appends_def
proof (intro allI impI)
  fix e
  assume e: "enc_ok e" "elength e + length (xs @ ys) \<le> enc_limit e"
  then have "elength e + length xs \<le> enc_limit e" by simp
  note f = appendsD [OF assms(1) e(1) this]
  have cap: "capacity (f e) = capacity e" "length (buffer (f e)) = length (buffer e)"
    using assms(1) e by (auto simp: appends_def)
  have "elength (f e) + length ys \<le> enc_limit (f e)"
    using e(2) f by simp
  then show "enc_ok (g (f e)) \<and> enc_out (g (f e)) = enc_out e @ xs @ ys \<and>
      elength (g (f e)) = elength e + length (xs @ ys) \<and>
      capacity (g (f e)) = capacity e \<and> length (buffer (g (f e))) = length (buffer e)"
    using assms(2) f cap by (auto simp: appends_def)
qed

lemma appends_encode_all:
  "list_all2 appends fs bss \<Longrightarrow> appends (encode_all fs) (concat bss)"
proof (induction fs bss rule: list_all2_induct)
  case Nil
  then show ?case using appends_id by (simp add: encode_all_def id_def)
next
  case (Cons f fs bs bss)
  then have "appends (\<lambda>e. encode_all fs (f e)) (bs @ concat bss)"
    by (intro appends_comp)
  then show ?case by (simp add: encode_all_def comp_def)
qed

text \<open>Starting from an empty encoder, the produced bytes are exactly the appended ones.\<close>

lemma appends_init:
  assumes "appends f bs" "length bs \<le> cap" "length bs \<le> length buf"
  shows "enc_out (f (cbor_init buf cap)) = bs" "elength (f (cbor_init buf cap)) = length bs"
proof -
  have "enc_ok (cbor_init buf cap)"
    "elength (cbor_init buf cap) + length bs \<le> enc_limit (cbor_init buf cap)"
    using assms(2,3) by (simp_all add: enc_ok_def cbor_init_def enc_limit_def)
  from appendsD [OF assms(1) this]
  show "enc_out (f (cbor_init buf cap)) = bs" "elength (f (cbor_init buf cap)) = length bs"
    by (simp_all add: enc_out_def cbor_init_def)
qed

section \<open>Every call appends the canonical encoding\<close>

definition head_bytes :: "u8 \<Rightarrow> u32 \<Rightarrow> u8 list" where
  "head_bytes m v =
    (if v < 24 then [push_bit 5 m OR ucast v]
     else if v \<le> 0xFF then [push_bit 5 m OR 24, ucast v]
     else if v \<le> 0xFFFF then
       [push_bit 5 m OR 25, ucast (drop_bit 8 v AND 0xFF), ucast (v AND 0xFF)]
     else (push_bit 5 m OR 26) # be32_bytes v)"

lemma length_head_bytes:
  "length (head_bytes m v) = (if v < 24 then 1 else if v \<le> 0xFF then 2 else if v \<le> 0xFFFF then 3 else 5)"
  by (simp add: head_bytes_def)

lemma head_bytes_ne: "head_bytes m v \<noteq> []"
  using length_head_bytes [of m v] by (auto split: if_splits)

lemma enc_put_appends:
  assumes "enc_ok e" "elength e < enc_limit e"
  shows "enc_ok (enc_put b e)" "enc_out (enc_put b e) = enc_out e @ [b]"
    "elength (enc_put b e) = elength e + 1" "enc_limit (enc_put b e) = enc_limit e"
    "capacity (enc_put b e) = capacity e" "length (buffer (enc_put b e)) = length (buffer e)"
  using assms
  by (auto simp: enc_put_def enc_ok_def enc_limit_def enc_out_def take_Suc_conv_app_nth)

lemma ucast_head: "ucast (push_bit 5 (ucast (m :: u8) :: u32) OR v) = push_bit 5 m OR (ucast v :: u8)"
  by (rule bit_word_eqI) (auto simp: bit_simps)

lemma appends_put: "appends (enc_put b) [b]"
  unfolding appends_def using enc_put_appends by auto

lemma appends_puts: "appends (fold enc_put bs) bs"
proof (induction bs)
  case Nil
  then show ?case using appends_id by (simp add: id_def)
next
  case (Cons b bs)
  from appends_comp [OF appends_put Cons] show ?case by (simp add: comp_def)
qed

lemma appends_cong:
  assumes "appends g bs"
    and "\<And>e. enc_ok e \<Longrightarrow> elength e + length bs \<le> enc_limit e \<Longrightarrow> f e = g e"
  shows "appends f bs"
  using assms by (simp add: appends_def)

lemma cbor_encode_head_puts:
  assumes "elength e + length (head_bytes m v) \<le> capacity e"
  shows "cbor_encode_head m v e = fold enc_put (head_bytes m v) e"
proof -
  consider "v < 24" | "\<not> v < 24" "v \<le> 0xFF" | "\<not> v < 24" "\<not> v \<le> 0xFF" "v \<le> 0xFFFF"
    | "\<not> v < 24" "\<not> v \<le> 0xFF" "\<not> v \<le> 0xFFFF" by blast
  then show ?thesis
    using assms
    by cases
      (simp_all add: cbor_encode_head_def head_bytes_def ucast_head be32_bytes_def
        del: not_less not_le)
qed

lemma appends_head [append_rules]: "appends (cbor_encode_head m v) (head_bytes m v)"
  by (rule appends_cong [OF appends_puts]) (simp add: cbor_encode_head_puts enc_limit_def)

text \<open>Called with too little room for the head, the encoder is unchanged.\<close>

lemma cbor_encode_head_full:
  "capacity e < elength e + length (head_bytes m v) \<Longrightarrow> cbor_encode_head m v e = e"
  by (auto simp: cbor_encode_head_def length_head_bytes split: if_splits)

lemma appends_uint [append_rules]: "appends (cbor_encode_uint v) (head_bytes 0 v)"
  using appends_head by (simp add: cbor_encode_uint_def [abs_def])

lemma appends_int [append_rules]:
  "appends (cbor_encode_int v) (if 0 \<le> sint v then head_bytes 0 v else head_bytes 1 (- 1 - v))"
  using appends_head by (simp add: cbor_encode_int_def [abs_def])

lemma appends_map [append_rules]: "appends (cbor_encode_map n) (head_bytes 5 (word_of_nat n))"
  using appends_head by (simp add: cbor_encode_map_def [abs_def])

lemma appends_array [append_rules]: "appends (cbor_encode_array n) (head_bytes 4 (word_of_nat n))"
  using appends_head by (simp add: cbor_encode_array_def [abs_def])

lemma appends_bool [append_rules]: "appends (cbor_encode_bool b) [if b then 0xF5 else 0xF4]"
  unfolding appends_def
  by (auto simp: cbor_encode_bool_def enc_put_appends enc_limit_def)

lemma appends_copy: "length data = len \<Longrightarrow> appends (enc_copy data len) data"
  unfolding appends_def
  by (auto simp: enc_copy_def enc_ok_def enc_limit_def enc_out_def take_blit)

lemma appends_bytes [append_rules]:
  assumes "length data = len"
  shows "appends (cbor_encode_byte_string data len) (head_bytes 2 (word_of_nat len) @ data)"
  unfolding cbor_encode_byte_string_def
  by (rule appends_comp [OF appends_head appends_copy [OF assms]])

lemma appends_bytes_take:
  assumes "len \<le> length data"
  shows "appends (cbor_encode_byte_string data len) (head_bytes 2 (word_of_nat len) @ take len data)"
proof -
  have "cbor_encode_byte_string data len = cbor_encode_byte_string (take len data) len"
    by (simp add: fun_eq_iff cbor_encode_byte_string_def enc_copy_def)
  then show ?thesis using appends_bytes [of "take len data" len] assms by simp
qed

lemma appends_text_len [append_rules]:
  assumes "length str = len"
  shows "appends (cbor_encode_text_string_len str len) (head_bytes 3 (word_of_nat len) @ str)"
  unfolding cbor_encode_text_string_len_def
  by (rule appends_comp [OF appends_head appends_copy [OF assms]])

lemma appends_text [append_rules]:
  assumes "0 \<notin> set str"
  shows "appends (cbor_encode_text_string str) (head_bytes 3 (word_of_nat (length str)) @ str)"
proof -
  have "takeWhile (\<lambda>b. b \<noteq> 0) str = str"
    using assms by (auto simp: takeWhile_eq_all_conv)
  then have "strlen str = length str"
    by (simp only: strlen_def)
  then show ?thesis
    unfolding cbor_encode_text_string_def Let_def by (simp add: appends_text_len)
qed

section \<open>No call writes past the limit\<close>

text \<open>Whatever the arguments, a call keeps the encoder's invariant when the declared capacity
  is not larger than the array.\<close>

definition enc_safe :: "CborEncoder \<Rightarrow> bool" where
  "enc_safe e \<longleftrightarrow> elength e \<le> capacity e \<and> capacity e \<le> length (buffer e)"

lemma enc_safe_put: "enc_safe e \<Longrightarrow> elength e < capacity e \<Longrightarrow> enc_safe (enc_put b e)"
  by (simp add: enc_safe_def enc_put_def)

lemma put_sel [simp]:
  "elength (enc_put b e) = elength e + 1" "capacity (enc_put b e) = capacity e"
  by (simp_all add: enc_put_def)

lemma enc_safe_head: "enc_safe e \<Longrightarrow> enc_safe (cbor_encode_head m v e)"
  unfolding cbor_encode_head_def by (auto intro!: enc_safe_put)

lemma enc_safe_copy: "enc_safe e \<Longrightarrow> len \<le> length data \<Longrightarrow> enc_safe (enc_copy data len e)"
  by (auto simp: enc_copy_def enc_safe_def)

lemma enc_safe_bool: "enc_safe e \<Longrightarrow> enc_safe (cbor_encode_bool b e)"
  by (auto simp: cbor_encode_bool_def enc_safe_def enc_put_def)

end
