(* ===== verification/CborParse.thy ===== *)
theory CborParse
  imports Cbor
begin

text \<open>
  The request scanner of \<open>usb_hid_fido2/fido2.c\<close> (lines 188--466): \<open>skip_cbor_item\<close>, the map
  look-ups by integer key, and the two look-ups by text key.

  \<^item> \<open>data\<close> pointers are addresses; the functions read the byte memory directly.  \<open>NULL\<close>
    is \<open>None\<close>; a found payload is \<open>Some (address, length, ...)\<close>.
  \<^item> \<open>uint16_t\<close> offsets wrap: every store into one is reduced \<open>mod 65536\<close>.
  \<^item> \<open>skip_cbor_item\<close> calls itself.  The first argument of every function here is the
    number of nested calls the stack has room for; \<open>None\<close> at the outermost level means
    that the call never returned.  \<open>skip_diverges\<close> shows that this happens whatever the
    stack size, and \<open>skip_item_roundtrip\<close> that it does not for well-formed items.
  \<^item> \<open>get_cbor_map_item\<close> has no \<open>return\<close> after its loop: the caller then sees whatever the
    return register holds.  That outcome is a constructor of its own.
\<close>

section \<open>The functions\<close>

text \<open>The length field of an item's head: \<open>count\<close> (or the \<open>vlen\<close> bits) and \<open>header_len\<close>.\<close>

definition item_head :: "mem \<Rightarrow> nat \<Rightarrow> nat \<times> nat" where
  "item_head m p =
    (let vlen = unat (m p AND 0x1F) in
     if vlen = 24 then (unat (m (p + 1)), 2)
     else if vlen = 25 then (be16 (m (p + 1)) (m (p + 2)), 3)
     else (vlen, 1))"

fun skip_loop :: "(nat \<Rightarrow> nat \<Rightarrow> nat option) \<Rightarrow> nat \<Rightarrow> nat \<Rightarrow> nat \<Rightarrow> nat \<Rightarrow> nat option" where
  "skip_loop skip p len 0 offset = Some offset"
| "skip_loop skip p len (Suc n) offset =
    (if len \<le> offset then Some offset
     else case skip (p + offset) (len - offset) of
       None \<Rightarrow> None
     | Some k \<Rightarrow> skip_loop skip p len n ((offset + k) mod 65536))"

fun skip_cbor_item :: "nat \<Rightarrow> mem \<Rightarrow> nat \<Rightarrow> nat \<Rightarrow> nat option" where
  "skip_cbor_item 0 m p len = None"
| "skip_cbor_item (Suc stk) m p len =
    (if len = 0 then Some 0
     else let type = m p AND 0xE0; (count, header_len) = item_head m p in
       if type = 0x00 \<or> type = 0x20 \<or> type = 0xE0 then Some header_len
       else if type = 0x40 \<or> type = 0x60 then Some ((header_len + count) mod 65536)
       else if type = 0x80 then skip_loop (skip_cbor_item stk m) p len count header_len
       else if type = 0xA0 then skip_loop (skip_cbor_item stk m) p len (count * 2) header_len
       else Some header_len)"

text \<open>The walk the four integer-key look-ups share: test the key at \<open>offset\<close>, skip it,
  then either stop at the value or skip that too.  \<open>Some (Some offset)\<close> is the value's
  offset, \<open>Some None\<close> the end of the loop.\<close>

fun map_walk :: "nat \<Rightarrow> mem \<Rightarrow> nat \<Rightarrow> nat \<Rightarrow> (nat \<Rightarrow> bool) \<Rightarrow> nat \<Rightarrow> nat \<Rightarrow> nat option option" where
  "map_walk stk m p len hit 0 offset = Some None"
| "map_walk stk m p len hit (Suc n) offset =
    (if len \<le> offset then Some None
     else case skip_cbor_item stk m (p + offset) (len - offset) of
       None \<Rightarrow> None
     | Some k \<Rightarrow>
       (let offset' = (offset + k) mod 65536 in
        if len \<le> offset' then Some None
        else if hit (p + offset) then Some (Some offset')
        else case skip_cbor_item stk m (p + offset') (len - offset') of
          None \<Rightarrow> None
        | Some v \<Rightarrow> map_walk stk m p len hit n ((offset' + v) mod 65536)))"

definition is_map :: "mem \<Rightarrow> nat \<Rightarrow> nat \<Rightarrow> bool" where
  "is_map m p len \<longleftrightarrow> len \<noteq> 0 \<and> m p AND 0xE0 = 0xA0"

text \<open>\<open>current_key == key && k_type == 0x00\<close>; a key with a 16-bit argument reads as 0.\<close>

definition uint_key :: "mem \<Rightarrow> nat \<Rightarrow> nat \<Rightarrow> bool" where
  "uint_key m key a =
    (let k_type = m a AND 0xE0; k_val = unat (m a AND 0x1F);
         k_len = (if k_val = 24 then 2 else if k_val = 25 then 3 else (1 :: nat));
         current_key = (if k_type = 0x00
                        then (if k_len = 1 then k_val
                              else if k_len = 2 then unat (m (a + 1)) else 0)
                        else 0)
     in current_key = key \<and> k_type = 0x00)"

definition neg_key :: "mem \<Rightarrow> nat \<Rightarrow> nat \<Rightarrow> bool" where
  "neg_key m neg_val a \<longleftrightarrow>
    m a AND 0xE0 = 0x20 \<and> m a = 0x20 OR word_of_nat (neg_val - 1)"

text \<open>The payload behind a value's head, as \<open>get_cbor_map_value\<close> returns it:
  address, length field and major type bits.\<close>

definition value_at :: "mem \<Rightarrow> nat \<Rightarrow> nat \<times> nat \<times> u8" where
  "value_at m a = (let (count, header_len) = item_head m a in (a + header_len, count, m a AND 0xE0))"

definition get_cbor_map_value ::
    "nat \<Rightarrow> mem \<Rightarrow> nat \<Rightarrow> nat \<Rightarrow> nat \<Rightarrow> (nat \<times> nat \<times> u8) option option" where
  "get_cbor_map_value stk m p len key =
    (if \<not> is_map m p len then Some None
     else let (count, offset) = item_head m p in
       map_option (map_option (\<lambda>off. value_at m (p + off)))
         (map_walk stk m p len (uint_key m key) count offset))"

definition get_cbor_map_int :: "nat \<Rightarrow> mem \<Rightarrow> nat \<Rightarrow> nat \<Rightarrow> nat \<Rightarrow> nat option option" where
  "get_cbor_map_int stk m p len key =
    (if \<not> is_map m p len then Some None
     else let (count, offset) = item_head m p in
       map_option (\<lambda>r. case r of
           None \<Rightarrow> None
         | Some off \<Rightarrow>
           (let header = m (p + off); val_vlen = unat (header AND 0x1F) in
            if header AND 0xE0 \<noteq> 0x00 then None
            else if val_vlen < 24 then Some val_vlen
            else if val_vlen = 24 then Some (unat (m (p + off + 1)))
            else if val_vlen = 25 then Some (be16 (m (p + off + 1)) (m (p + off + 2)))
            else None))
         (map_walk stk m p len (uint_key m key) count offset))"

datatype item = Item nat nat | ItemNull | ItemUndef

definition get_cbor_map_item :: "nat \<Rightarrow> mem \<Rightarrow> nat \<Rightarrow> nat \<Rightarrow> nat \<Rightarrow> item option" where
  "get_cbor_map_item stk m p len key =
    (if \<not> is_map m p len then Some ItemNull
     else let (count, offset) = item_head m p in
       case map_walk stk m p len (uint_key m key) count offset of
         None \<Rightarrow> None
       | Some None \<Rightarrow> Some ItemUndef
       | Some (Some off) \<Rightarrow>
           map_option (Item (p + off)) (skip_cbor_item stk m (p + off) (len - off)))"

text \<open>What the caller sees: the pointer (\<open>junk\<close> when the function fell off its end) and
  \<open>*out_len\<close>, which every caller initialises to 0.\<close>

fun item_ptr :: "nat option \<Rightarrow> item \<Rightarrow> nat option \<times> nat" where
  "item_ptr junk (Item a n) = (Some a, n)"
| "item_ptr junk ItemNull = (None, 0)"
| "item_ptr junk ItemUndef = (junk, 0)"

definition get_cbor_map_string ::
    "nat \<Rightarrow> mem \<Rightarrow> nat \<Rightarrow> nat \<Rightarrow> nat \<Rightarrow> (nat \<times> nat) option option" where
  "get_cbor_map_string stk m p len key =
    map_option (\<lambda>r. case r of
        None \<Rightarrow> None
      | Some (val, out_len, val_type) \<Rightarrow>
          if val_type \<noteq> 0x40 \<and> val_type \<noteq> 0x60 then None else Some (val, out_len))
      (get_cbor_map_value stk m p len key)"

definition get_cbor_map_neg_value ::
    "nat \<Rightarrow> mem \<Rightarrow> nat \<Rightarrow> nat \<Rightarrow> nat \<Rightarrow> (nat \<times> nat \<times> u8) option option" where
  "get_cbor_map_neg_value stk m p len neg_val =
    (if \<not> is_map m p len then Some None
     else let (count, offset) = item_head m p in
       map_option (map_option (\<lambda>off. value_at m (p + off)))
         (map_walk stk m p len (neg_key m neg_val) count offset))"

text \<open>The text-key look-up.  \<open>str_head\<close> is the length decoding that truncates to \<open>uint8_t\<close>.\<close>

definition str_head :: "mem \<Rightarrow> nat \<Rightarrow> nat \<times> nat" where
  "str_head m a = (let (n, h) = item_head m a in (n mod 256, a + h))"

definition text_key :: "mem \<Rightarrow> u8 list \<Rightarrow> nat \<Rightarrow> bool" where
  "text_key m key a \<longleftrightarrow>
    m a AND 0xE0 = 0x60 \<and>
    (let (kl, kb) = str_head m a in kl = strlen key \<and> bytes m kb (strlen key) = take (strlen key) key)"

fun text_walk :: "nat \<Rightarrow> mem \<Rightarrow> nat \<Rightarrow> nat \<Rightarrow> u8 list \<Rightarrow> nat \<Rightarrow> nat \<Rightarrow> (nat \<times> nat) option option" where
  "text_walk stk m p len key 0 offset = Some None"
| "text_walk stk m p len key (Suc n) offset =
    (if len \<le> offset + 1 then Some None
     else case skip_cbor_item stk m (p + offset) (len - offset) of
       None \<Rightarrow> None
     | Some key_len \<Rightarrow>
       (if key_len = 0 then Some None
        else if text_key m key (p + offset) then
          (let val = p + offset + key_len in
           if p + len \<le> val then Some None
           else if m val AND 0xE0 = 0x40 \<or> m val AND 0xE0 = 0x60
           then (let (vl, vp) = str_head m val in Some (Some (vp, vl)))
           else Some None)
        else let offset' = (offset + key_len) mod 65536 in
          if len \<le> offset' then Some None
          else case skip_cbor_item stk m (p + offset') (len - offset') of
            None \<Rightarrow> None
          | Some v \<Rightarrow> text_walk stk m p len key n ((offset' + v) mod 65536)))"

definition cbor_map_get_string ::
    "nat \<Rightarrow> mem \<Rightarrow> nat \<Rightarrow> nat \<Rightarrow> u8 list \<Rightarrow> (nat \<times> nat) option option" where
  "cbor_map_get_string stk m p len key =
    (if \<not> is_map m p len then Some None
     else let (count, offset) = item_head m p in text_walk stk m p len key count offset)"

text \<open>The byte-wise search used for the option names.\<close>

fun find_from :: "mem \<Rightarrow> nat \<Rightarrow> nat \<Rightarrow> u8 list \<Rightarrow> nat \<Rightarrow> nat \<Rightarrow> (nat \<times> nat) option" where
  "find_from m p len key 0 i = None"
| "find_from m p len key (Suc n) i =
    (let key_len = strlen key; val_idx = (i + 1 + key_len) mod 65536; header = m (p + val_idx) in
     if m (p + i) = 0x60 OR word_of_nat key_len \<and> bytes m (p + i + 1) key_len = take key_len key
        \<and> val_idx < len \<and> (header AND 0xE0 = 0x40 \<or> header AND 0xE0 = 0x60)
     then (if unat (header AND 0x1F) = 24
           then Some (p + val_idx + 2, unat (m (p + val_idx + 1)))
           else Some (p + val_idx + 1, unat (header AND 0x1F)))
     else if m (p + i) = 0x60 OR word_of_nat key_len \<and> bytes m (p + i + 1) key_len = take key_len key
        \<and> val_idx < len \<and> (header = 0xF4 \<or> header = 0xF5)
     then Some (p + val_idx, 1)
     else find_from m p len key n (i + 1))"

definition find_cbor_string :: "mem \<Rightarrow> nat \<Rightarrow> nat \<Rightarrow> u8 list \<Rightarrow> (nat \<times> nat) option" where
  "find_cbor_string m p len key =
    (if len \<le> strlen key then None else find_from m p len key (len - strlen key) 0)"

end
