(* ===== verification/Pin.thy ===== *)
theory Pin
  imports Presence PinCrypto CborParse
begin

text \<open>
  \<open>process_client_pin\<close> of \<open>usb_hid_fido2/pin.c\<close>: the authenticatorClientPIN command, one definition
  per sub-command.

  \<^item> \<open>req\<close> is the address of the request map in memory \<open>m\<close> (the request buffer, with \<open>adj\<close> behind it);
    the response is the list of the \<open>*resp_len\<close> bytes at \<open>resp\<close>.  \<open>None\<close> means that the call never
    returns, because the item scanner exhausts the stack.
  \<^item> The encoder's buffer is \<open>resp + 1\<close>: 1023 bytes are left of \<open>ctap_resp_buf\<close>, but the code
    declares a capacity of 1024.
\<close>

section \<open>Shared pieces\<close>

definition req_mem :: "env \<Rightarrow> dev \<Rightarrow> mem" where
  "req_mem e d = mem_of (ctap_req_buf d) (adj e)"

definition resp_encoder :: CborEncoder where
  "resp_encoder = cbor_init (replicate 1023 0) 1024"

text \<open>\<open>resp[0] = 0x00\<close>, the encoder calls, \<open>*resp_len = 1 + encoder.length\<close>.\<close>

definition resp_ok :: "(CborEncoder \<Rightarrow> CborEncoder) list \<Rightarrow> u8 list" where
  "resp_ok items = 0x00 # enc_out (encode_all items resp_encoder)"

definition sha256_of :: "u8 list \<Rightarrow> u8 list" where
  "sha256_of d = sha256_final (sha256_update (sha256_init uninit_ctx) d (length d))"

text \<open>\<open>while (pin_len > 0 && new_pin[pin_len - 1] == 0) pin_len--\<close>\<close>

fun pin_trim :: "u8 list \<Rightarrow> nat \<Rightarrow> nat" where
  "pin_trim new_pin 0 = 0"
| "pin_trim new_pin (Suc n) = (if new_pin ! n = 0x00 then pin_trim new_pin n else Suc n)"

definition iv_zero :: "u8 list" where "iv_zero = replicate 16 0"

text \<open>Protocol 2 puts the IV in front of the ciphertext; protocol 1 uses a zero IV.\<close>

definition pin_decrypt :: "dev \<Rightarrow> mem \<Rightarrow> nat \<Rightarrow> nat \<Rightarrow> u8 list" where
  "pin_decrypt d m p n =
    (if active_pin_protocol d = 2
     then aes_decrypt (pin_shared_secret d) (bytes m p 16) (bytes m (p + 16) n) n
     else aes_decrypt (pin_shared_secret d) iv_zero (bytes m p n) n)"

definition pin_mac :: "dev \<Rightarrow> u8 list \<Rightarrow> u8 list" where
  "pin_mac d msg =
    (if active_pin_protocol d = 2 then hmac_sha256 (hmac_key d) 32 msg (length msg)
     else hmac_sha256 (pin_shared_secret d) 32 msg (length msg))"

definition expected_auth_len :: "dev \<Rightarrow> nat" where
  "expected_auth_len d = (if active_pin_protocol d = 2 then 32 else 16)"

section \<open>getPINRetries and getKeyAgreement\<close>

definition pin_retries :: "dev \<Rightarrow> u8 list" where
  "pin_retries d =
    (case pin_load (chip d) of
       None \<Rightarrow> [0x35]
     | Some p \<Rightarrow> resp_ok [cbor_encode_map 1, cbor_encode_uint 3, cbor_encode_uint (word_of_nat (ps_retries p))])"

definition pin_key_agreement :: "env \<Rightarrow> dev \<Rightarrow> u8 list \<times> dev" where
  "pin_key_agreement e d =
    (let (public_key, private_key, d) = uECC_make_key e d;
         d = d\<lparr>ecdh_public_key := public_key, ecdh_private_key := private_key,
               ecdh_key_valid := True, has_pin_token := False\<rparr>
     in (resp_ok [cbor_encode_map 1, cbor_encode_uint 1, cbor_encode_map 5,
           cbor_encode_uint 1, cbor_encode_uint 2,
           cbor_encode_uint 3, cbor_encode_int (- 25),
           cbor_encode_int (- 1), cbor_encode_uint 1,
           cbor_encode_int (- 2), cbor_encode_byte_string (ecdh_public_key d) 32,
           cbor_encode_int (- 3), cbor_encode_byte_string (drop 32 (ecdh_public_key d)) 32], d))"

section \<open>The shared secret\<close>

text \<open>A coordinate of the platform key, right-aligned in 32 bytes.\<close>

definition coordinate :: "mem \<Rightarrow> nat \<Rightarrow> nat \<Rightarrow> u8 list" where
  "coordinate m ptr len =
    (if len = 33 then bytes m (ptr + 1) 32
     else if len = 32 then bytes m ptr 32
     else if len = 31 then 0 # bytes m ptr 31
     else replicate 32 0)"

definition pin_derive_keys :: "u8 list \<Rightarrow> dev \<Rightarrow> dev" where
  "pin_derive_keys shared_secret_x d =
    (if active_pin_protocol d = 2
     then (let (mac, key) = hkdf_sha256_ctap2 shared_secret_x
           in d\<lparr>hmac_key := mac, pin_shared_secret := key\<rparr>)
     else (let h = sha256_of (take 32 shared_secret_x)
           in d\<lparr>pin_shared_secret := h, hmac_key := h\<rparr>))"

text \<open>The part sub-commands 3, 4, 5 and 9 share; \<open>Inl s\<close> is an early return with status \<open>s\<close>.\<close>

definition pin_agree :: "env \<Rightarrow> mem \<Rightarrow> nat \<Rightarrow> nat \<Rightarrow> dev \<Rightarrow> (u8 + dev) option" where
  "pin_agree e m req req_len d =
    (if \<not> ecdh_key_valid d then Some (Inl 0x01)
     else do {
       it \<leftarrow> get_cbor_map_item (stk e) m req req_len 0x03;
       (case item_ptr (junk e 3) it of
          (None, _) \<Rightarrow> Some (Inl 0x01)
        | (Some ka, ka_len) \<Rightarrow> do {
            x \<leftarrow> get_cbor_map_neg_value (stk e) m ka ka_len 2;
            y \<leftarrow> get_cbor_map_neg_value (stk e) m ka ka_len 3;
            (case (x, y) of
               (Some (x_ptr, x_len, _), Some (y_ptr, y_len, _)) \<Rightarrow>
                 (if x_len < 31 \<or> 33 < x_len \<or> y_len < 31 \<or> 33 < y_len then Some (Inl 0x91)
                  else let host_pub = coordinate m x_ptr x_len @ coordinate m y_ptr y_len;
                           (shared_secret_x, d) = uECC_shared_secret e host_pub (ecdh_private_key d) d
                       in Some (Inr (pin_derive_keys shared_secret_x d)))
             | _ \<Rightarrow> Some (Inl 0x91))
          })
     })"

section \<open>setPIN\<close>

text \<open>Decrypt, measure, hash and store the new PIN: the last part of setPIN and changePIN.\<close>

definition store_new_pin :: "env \<Rightarrow> mem \<Rightarrow> nat \<Rightarrow> u32 \<Rightarrow> dev \<Rightarrow> u8 list \<times> dev" where
  "store_new_pin e m new_pin_enc cid d =
    (let new_pin = pin_decrypt d m new_pin_enc 64;
         pin_len = pin_trim new_pin 64
     in if pin_len < 4 then ([0x37], d)
        else let pin_hash = sha256_of (take pin_len new_pin);
                 d = fido2_send_keepalive e cid 1 d
             in ([0x00], d\<lparr>chip := pin_save pin_hash (chip d)\<rparr>))"

definition pin_set :: "env \<Rightarrow> mem \<Rightarrow> nat \<Rightarrow> nat \<Rightarrow> u32 \<Rightarrow> dev \<Rightarrow> (u8 list \<times> dev) option" where
  "pin_set e m req req_len cid d = do {
     pin_auth \<leftarrow> get_cbor_map_string (stk e) m req req_len 0x04;
     new_pin_enc \<leftarrow> get_cbor_map_string (stk e) m req req_len 0x05;
     Some (case pin_auth of
         None \<Rightarrow> ([0x30], d)
       | Some (auth, pin_auth_len) \<Rightarrow>
         if pin_load (chip d) \<noteq> None then ([0x33], d)
         else case new_pin_enc of
           None \<Rightarrow> ([0x01], d)
         | Some (npe, new_pin_enc_len) \<Rightarrow>
           if active_pin_protocol d = 1 \<and> new_pin_enc_len \<noteq> 64 then ([0x01], d)
           else if active_pin_protocol d = 2 \<and> new_pin_enc_len \<noteq> 80 then ([0x01], d)
           else if pin_auth_len \<noteq> expected_auth_len d then ([0x01], d)
           else if take (expected_auth_len d) (pin_mac d (bytes m npe new_pin_enc_len))
                     \<noteq> bytes m auth (expected_auth_len d) then ([0x33], d)
           else store_new_pin e m npe cid d)
   }"

section \<open>changePIN\<close>

definition pin_change :: "env \<Rightarrow> mem \<Rightarrow> nat \<Rightarrow> nat \<Rightarrow> u32 \<Rightarrow> dev \<Rightarrow> (u8 list \<times> dev) option" where
  "pin_change e m req req_len cid d = do {
     pin_auth \<leftarrow> get_cbor_map_string (stk e) m req req_len 0x04;
     new_pin_enc \<leftarrow> get_cbor_map_string (stk e) m req req_len 0x05;
     pin_hash_enc \<leftarrow> get_cbor_map_string (stk e) m req req_len 0x06;
     Some (case (pin_auth, new_pin_enc, pin_hash_enc) of
         (Some (auth, pin_auth_len), Some (npe, new_pin_enc_len), Some (phe, pin_hash_enc_len)) \<Rightarrow>
           if pin_auth_len \<noteq> expected_auth_len d then ([0x01], d)
           else if active_pin_protocol d = 1 \<and> (new_pin_enc_len \<noteq> 64 \<or> pin_hash_enc_len \<noteq> 16) then ([0x01], d)
           else if active_pin_protocol d = 2 \<and> (new_pin_enc_len \<noteq> 80 \<or> pin_hash_enc_len \<noteq> 32) then ([0x01], d)
           else let mac_msg = bytes m npe new_pin_enc_len @ bytes m phe pin_hash_enc_len
             in if take (expected_auth_len d) (pin_mac d mac_msg) \<noteq> bytes m auth (expected_auth_len d)
                then ([0x33], d)
                else let current_hash_enc = pin_decrypt d m phe 16
                  in (case pin_load (chip d) of
                        Some p \<Rightarrow>
                          if current_hash_enc = ps_pin_hash p then store_new_pin e m npe cid d
                          else ([0x31], d\<lparr>chip := pin_decrement_retries (chip d)\<rparr>)
                      | None \<Rightarrow> ([0x31], d\<lparr>chip := pin_decrement_retries (chip d)\<rparr>))
       | _ \<Rightarrow> ([0x01], d))
   }"

section \<open>getPinToken\<close>

text \<open>The token and its encryption, once the PIN hash has matched.\<close>

definition issue_token :: "env \<Rightarrow> nat \<Rightarrow> dev \<Rightarrow> u8 list \<times> dev" where
  "issue_token e sub_cmd d =
    (let d = d\<lparr>chip := pin_reset_retries (chip d)\<rparr>;
         (token, d) = rng e 32 d;
         d = d\<lparr>pin_token := token, has_pin_token := True\<rparr>;
         (iv, d) = (if active_pin_protocol d = 2 then rng e 16 d else (replicate 16 0, d));
         tlen = (if sub_cmd = 0x05 \<and> active_pin_protocol d \<noteq> 2 then 16 else 32);
         d = d\<lparr>pin_token_len := tlen\<rparr>;
         token_enc =
           (if active_pin_protocol d = 2
            then take 16 iv @ aes_encrypt (pin_shared_secret d) iv (pin_token d) 32
            else aes_encrypt (pin_shared_secret d) iv_zero (pin_token d) tlen)
     in (resp_ok [cbor_encode_map 1, cbor_encode_uint 2,
                  cbor_encode_byte_string token_enc (if active_pin_protocol d = 2 then 48 else tlen)], d))"

definition pin_get_token ::
    "env \<Rightarrow> mem \<Rightarrow> nat \<Rightarrow> nat \<Rightarrow> nat \<Rightarrow> dev \<Rightarrow> (u8 list \<times> dev) option" where
  "pin_get_token e m req req_len sub_cmd d = do {
     pin_hash_enc \<leftarrow> get_cbor_map_string (stk e) m req req_len 0x06;
     Some (case pin_hash_enc of
         None \<Rightarrow> ([0x93], d)
       | Some (phe, pin_hash_enc_len) \<Rightarrow>
         if active_pin_protocol d = 1 \<and> pin_hash_enc_len < 16 then ([0x93], d)
         else if active_pin_protocol d = 2 \<and> pin_hash_enc_len < 32 then ([0x93], d)
         else let current_hash_enc = pin_decrypt d m phe 16
           in (case pin_load (chip d) of
                 None \<Rightarrow> ([0x35], d)
               | Some p \<Rightarrow>
                 if ps_retries p = 0 then ([0x32], d)
                 else if ps_pin_hash p \<noteq> current_hash_enc then
                   ([0x31], d\<lparr>g_pin_debug := ps_pin_hash p @ current_hash_enc,
                              chip := pin_decrement_retries (chip d)\<rparr>)
                 else issue_token e sub_cmd d))
   }"

section \<open>The command\<close>

text \<open>Sub-commands after the parameter checks; an unknown one leaves the default error.\<close>

definition pin_dispatch ::
    "env \<Rightarrow> mem \<Rightarrow> nat \<Rightarrow> nat \<Rightarrow> u32 \<Rightarrow> nat \<Rightarrow> dev \<Rightarrow> (u8 list \<times> dev) option" where
  "pin_dispatch e m req req_len cid sub_cmd d =
    (if sub_cmd = 0x01 then Some (pin_retries d, d)
     else if sub_cmd = 0x02 then Some (pin_key_agreement e d)
     else if sub_cmd = 0x03 \<or> sub_cmd = 0x04 \<or> sub_cmd = 0x05 \<or> sub_cmd = 0x09 then do {
       r \<leftarrow> pin_agree e m req req_len d;
       (case r of
          Inl s \<Rightarrow> Some ([s], d)
        | Inr d \<Rightarrow>
            if sub_cmd = 0x03 then pin_set e m req req_len cid d
            else if sub_cmd = 0x04 then pin_change e m req req_len cid d
            else pin_get_token e m req req_len sub_cmd d)
     }
     else Some ([0x01], d))"

definition process_client_pin ::
    "env \<Rightarrow> mem \<Rightarrow> nat \<Rightarrow> nat \<Rightarrow> u32 \<Rightarrow> dev \<Rightarrow> (u8 list \<times> dev) option" where
  "process_client_pin e m req req_len cid d =
    (if req_len < 1 then Some ([], d)
     else do {
       sub \<leftarrow> get_cbor_map_int (stk e) m req req_len 0x02;
       (case sub of
          None \<Rightarrow> Some ([0x01], d)
        | Some sub_cmd \<Rightarrow> do {
            proto \<leftarrow> get_cbor_map_int (stk e) m req req_len 0x01;
            (let d = (case proto of None \<Rightarrow> d | Some v \<Rightarrow> d\<lparr>active_pin_protocol := v\<rparr>)
             in if sub_cmd \<noteq> 0x01 \<and> active_pin_protocol d \<noteq> 1 \<and> active_pin_protocol d \<noteq> 2
                then Some ([0x2B], d)
                else pin_dispatch e m req req_len cid sub_cmd d)
          })
     })"

end
