(* ===== verification/Der.thy ===== *)
theory Der
  imports Prelude
begin

text \<open>
  \<open>ecdsa_sig_to_der\<close> of \<open>usb_hid_fido2/fido2.c\<close> (lines 468--498): a raw 64-byte signature
  \<open>r || s\<close> becomes an ASN.1 DER sequence of two integers.  The specification is a strict DER
  decoder (positive, minimal integers, exact lengths, no trailing bytes): \<open>der_decodes\<close> shows
  that it recovers both numbers from the produced bytes.
\<close>

section \<open>The encoder\<close>

text \<open>\<open>while (r_len > 1 && *r == 0 && (r[1] & 0x80) == 0) { r++; r_len--; }\<close>, the bytes \<open>r\<close>
  points to being the list.\<close>

fun strip_zeros :: "u8 list \<Rightarrow> u8 list" where
  "strip_zeros (a # b # r) = (if a = 0 \<and> b AND 0x80 = 0 then strip_zeros (b # r) else a # b # r)"
| "strip_zeros r = r"

definition ecdsa_sig_to_der :: "u8 list \<Rightarrow> u8 list" where
  "ecdsa_sig_to_der sig_raw =
    (let r = strip_zeros (take 32 sig_raw);
         r_pad = (if hd r AND 0x80 \<noteq> 0 then 1 else 0);
         s = strip_zeros (take 32 (drop 32 sig_raw));
         s_pad = (if hd s AND 0x80 \<noteq> 0 then 1 else 0);
         total_len = 2 + length r + r_pad + 2 + length s + s_pad
     in [0x30, word_of_nat total_len] @
        [0x02, word_of_nat (length r + r_pad)] @ (if r_pad \<noteq> 0 then [0] else []) @ r @
        [0x02, word_of_nat (length s + s_pad)] @ (if s_pad \<noteq> 0 then [0] else []) @ s)"

section \<open>A strict DER decoder\<close>

definition be_val :: "u8 list \<Rightarrow> nat" where
  "be_val = foldl (\<lambda>a b. 256 * a + unat b) 0"

fun der_minimal :: "u8 list \<Rightarrow> bool" where
  "der_minimal [] = False"
| "der_minimal [a] = (a AND 0x80 = 0)"
| "der_minimal (a # b # _) = (a AND 0x80 = 0 \<and> (a = 0 \<longrightarrow> b AND 0x80 \<noteq> 0))"

fun der_integer :: "u8 list \<Rightarrow> (nat \<times> u8 list) option" where
  "der_integer (t # l # xs) =
    (if t = 0x02 \<and> l < 0x80 \<and> unat l \<le> length xs \<and> der_minimal (take (unat l) xs)
     then Some (be_val (take (unat l) xs), drop (unat l) xs) else None)"
| "der_integer _ = None"

fun der_signature :: "u8 list \<Rightarrow> (nat \<times> nat) option" where
  "der_signature (t # l # xs) =
    (if t = 0x30 \<and> l < 0x80 \<and> unat l = length xs
     then (case der_integer xs of
             Some (r, ys) \<Rightarrow> (case der_integer ys of Some (s, []) \<Rightarrow> Some (r, s) | _ \<Rightarrow> None)
           | None \<Rightarrow> None)
     else None)"
| "der_signature _ = None"

section \<open>Decoding what was encoded\<close>

lemma strip_props:
  assumes "xs \<noteq> []"
  shows "strip_zeros xs \<noteq> []" "length (strip_zeros xs) \<le> length xs"
    "be_val (strip_zeros xs) = be_val xs"
    "hd (strip_zeros xs) AND 0x80 = 0 \<Longrightarrow> der_minimal (strip_zeros xs)"
  using assms
  by (induction xs rule: strip_zeros.induct) (auto simp: be_val_def)

definition der_body :: "u8 list \<Rightarrow> u8 list" where
  "der_body r = (if hd r AND 0x80 \<noteq> 0 then 0 # r else r)"

lemma der_body_props:
  assumes "xs \<noteq> []" "length xs \<le> 32"
  shows "der_minimal (der_body (strip_zeros xs))" "be_val (der_body (strip_zeros xs)) = be_val xs"
    "length (der_body (strip_zeros xs)) \<le> 33"
proof -
  note s = strip_props [OF assms(1)]
  show "der_minimal (der_body (strip_zeros xs))"
    using s(1,4) by (cases "strip_zeros xs") (auto simp: der_body_def)
  show "be_val (der_body (strip_zeros xs)) = be_val xs"
    using s(3) by (simp add: der_body_def be_val_def)
  show "length (der_body (strip_zeros xs)) \<le> 33"
    using s(2) assms(2) by (simp add: der_body_def)
qed

lemma der_integer_body:
  assumes "der_minimal b" "length b < 128"
  shows "der_integer (0x02 # word_of_nat (length b) # b @ ys) = Some (be_val b, ys)"
  using assms by (simp add: unat_of_nat word_less_nat_alt)

lemma ecdsa_sig_to_der_bodies:
  "ecdsa_sig_to_der sig =
    (let b = der_body (strip_zeros (take 32 sig)); c = der_body (strip_zeros (take 32 (drop 32 sig)))
     in 0x30 # word_of_nat (4 + length b + length c) #
        (0x02 # word_of_nat (length b) # b @ (0x02 # word_of_nat (length c) # c @ [])))"
  by (simp add: ecdsa_sig_to_der_def der_body_def Let_def)

lemma der_lemma:
  assumes "length sig = 64"
  shows "der_signature (ecdsa_sig_to_der sig) = Some (be_val (take 32 sig), be_val (drop 32 sig))"
    "length (ecdsa_sig_to_der sig) \<le> 72" "8 \<le> length (ecdsa_sig_to_der sig)"
proof -
  define b where "b = der_body (strip_zeros (take 32 sig))"
  define c where "c = der_body (strip_zeros (take 32 (drop 32 sig)))"
  have b: "der_minimal b" "be_val b = be_val (take 32 sig)" "length b \<le> 33"
    unfolding b_def using assms by (auto intro!: der_body_props)
  have c: "der_minimal c" "be_val c = be_val (drop 32 sig)" "length c \<le> 33"
    unfolding c_def using assms der_body_props [of "take 32 (drop 32 sig)"] by auto
  have ne: "b \<noteq> []" "c \<noteq> []" using b(1) c(1) by auto
  have e: "ecdsa_sig_to_der sig =
      0x30 # word_of_nat (4 + length b + length c) #
        (0x02 # word_of_nat (length b) # b @ (0x02 # word_of_nat (length c) # c @ []))"
    by (simp add: ecdsa_sig_to_der_bodies Let_def b_def c_def)
  have l: "unat (word_of_nat (4 + length b + length c) :: u8) = 4 + length b + length c"
    "(word_of_nat (4 + length b + length c) :: u8) < 0x80"
    using b(3) c(3) by (simp_all add: unat_of_nat word_less_nat_alt del: of_nat_add)
  show "der_signature (ecdsa_sig_to_der sig) = Some (be_val (take 32 sig), be_val (drop 32 sig))"
    unfolding e using l der_integer_body [OF b(1)] der_integer_body [OF c(1), of "[]"] b c
    by (simp del: der_integer.simps of_nat_add)
  show "length (ecdsa_sig_to_der sig) \<le> 72" "8 \<le> length (ecdsa_sig_to_der sig)"
    unfolding e using b(3) c(3) ne by (cases b; cases c; simp)+
qed

lemma foldl_zeros: "foldl (\<lambda>a b. 256 * a + unat b) 0 (replicate n (0 :: u8)) = 0"
  by (induction n) simp_all

section \<open>Properties\<close>

text \<open>C40: for every 64-byte raw signature the output fits the callers' 72-byte buffer and a strict
  DER decoder reads back exactly the two 256-bit numbers.\<close>

theorem der_decodes:
  assumes "length sig = 64"
  shows "der_signature (ecdsa_sig_to_der sig) = Some (be_val (take 32 sig), be_val (drop 32 sig)) \<and>
    length (ecdsa_sig_to_der sig) \<le> 72"
  using der_lemma [OF assms] by blast

lemma der_decodes_witness:
  "der_signature (ecdsa_sig_to_der (replicate 31 0 @ [0x85] @ replicate 31 0 @ [7])) = Some (0x85, 7)"
  using der_decodes [of "replicate 31 0 @ [0x85] @ replicate 31 0 @ [7]"]
  by (simp add: be_val_def foldl_zeros)

end
