(* ===== verification/Fido2.thy ===== *)
theory Fido2
  imports Pin Der
begin

text \<open>
  The CTAP2 commands, \<open>fido2_process_cbor\<close> and \<open>ga_build_response\<close> of \<open>usb_hid_fido2/fido2.c\<close>
  (lines 500--1251), one definition per command.

  \<^item> The request is at address 0 of \<open>req_mem\<close>: the command byte, then the parameter map.
  \<^item> A \<open>ResidentKey*\<close> is a flash address; fields are read from flash memory where the code reads
    them, so a length byte larger than its field reads the bytes behind it.
  \<^item> Every early return is a branch with its status byte.
\<close>

section \<open>Building blocks\<close>

definition AAGUID :: "u8 list" where
  "AAGUID = [0x11, 0x22, 0x33, 0x44, 0x55, 0x66, 0x77, 0x88, 0x99, 0xAA, 0xBB, 0xCC, 0xDD, 0xEE, 0xFF, 0x00]"

text \<open>The length left behind a pointer, stored into a \<open>uint16_t\<close>.\<close>

definition search_len :: "nat \<Rightarrow> nat \<Rightarrow> nat" where
  "search_len req_len a = (req_len + 65536 - a mod 65536) mod 65536"

text \<open>An option's name followed by a one-byte value, here CBOR \<open>true\<close> or \<open>false\<close>.\<close>

definition option_is :: "mem \<Rightarrow> nat \<Rightarrow> nat \<Rightarrow> string \<Rightarrow> u8 \<Rightarrow> bool" where
  "option_is m p len name v =
    (case find_cbor_string m p len (lit name) of
       None \<Rightarrow> False
     | Some (a, l) \<Rightarrow> l = 1 \<and> m a = v)"

text \<open>The check of \<open>pinUvAuthParam\<close> against the token, the same text in two commands.\<close>

definition uv_valid :: "dev \<Rightarrow> mem \<Rightarrow> (nat \<times> nat) option \<Rightarrow> nat \<Rightarrow> nat \<Rightarrow> bool" where
  "uv_valid d m cdh pin_auth pin_auth_len =
    (case cdh of
       None \<Rightarrow> False
     | Some (c, cdh_len) \<Rightarrow>
       has_pin_token d \<and> 32 \<le> cdh_len \<and>
       (let mac = hmac_sha256 (pin_token d)
              (if 0 < pin_token_len d then pin_token_len d
               else if active_pin_protocol d = 2 then 32 else 16) (bytes m c 32) 32
        in (active_pin_protocol d = 2 \<and> pin_auth_len = 32 \<and> take 32 mac = bytes m pin_auth 32) \<or>
           (active_pin_protocol d = 1 \<and> pin_auth_len = 16 \<and> take 16 mac = bytes m pin_auth 16)))"

text \<open>\<open>rpIdHash\<close>: the hash of a non-empty relying party id, else zero.\<close>

definition rp_id_hash_of :: "mem \<Rightarrow> (nat \<times> nat) option \<Rightarrow> u8 list" where
  "rp_id_hash_of m rp_id =
    (case rp_id of
       None \<Rightarrow> replicate 32 0
     | Some (p, n) \<Rightarrow> if 0 < n then sha256_of (bytes m p n) else replicate 32 0)"

definition str_bytes :: "mem \<Rightarrow> (nat \<times> nat) option \<Rightarrow> u8 list" where
  "str_bytes m s = (case s of None \<Rightarrow> [] | Some (p, n) \<Rightarrow> bytes m p n)"

definition user_presence :: "env \<Rightarrow> u32 \<Rightarrow> (dev \<Rightarrow> u8 list \<times> dev) \<Rightarrow> dev \<Rightarrow> u8 list \<times> dev" where
  "user_presence e cid k d =
    (let (up_status, d) = fido2_wait_for_user_presence e cid d
     in if up_status \<noteq> 0x00 then ([up_status], d) else k d)"

section \<open>Assertions\<close>

definition assertion_items ::
    "mem \<Rightarrow> nat \<Rightarrow> u8 list \<Rightarrow> u8 list \<Rightarrow> u32 \<Rightarrow> (CborEncoder \<Rightarrow> CborEncoder) list" where
  "assertion_items fm rk authData37 der n_total =
    (let user_id_len = unat (fm (rk + 36)); user_name_len = unat (fm (rk + 165));
         have_user = (0 < user_id_len);
         map_n = 3 + (if have_user then 1 else 0) + (if 1 < n_total then 1 else 0)
     in [cbor_encode_map map_n,
         cbor_encode_uint 1, cbor_encode_map 2,
         cbor_encode_text_string (lit ''id''), cbor_encode_byte_string (bytes fm (rk + 101) 32) 32,
         cbor_encode_text_string (lit ''type''), cbor_encode_text_string (lit ''public-key''),
         cbor_encode_uint 2, cbor_encode_byte_string authData37 37,
         cbor_encode_uint 3, cbor_encode_byte_string der (length der)] @
        (if have_user
         then [cbor_encode_uint 4, cbor_encode_map (if 0 < user_name_len then 2 else 1),
               cbor_encode_text_string (lit ''id''),
               cbor_encode_byte_string (bytes fm (rk + 37) user_id_len) user_id_len] @
              (if 0 < user_name_len
               then [cbor_encode_text_string (lit ''name''),
                     cbor_encode_text_string_len (bytes fm (rk + 166) user_name_len) user_name_len]
               else [])
         else []) @
        (if 1 < n_total then [cbor_encode_uint 6, cbor_encode_uint n_total] else []))"

definition ga_build_response ::
    "env \<Rightarrow> nat \<Rightarrow> u8 list \<Rightarrow> u8 list \<Rightarrow> u32 \<Rightarrow> dev \<Rightarrow> u8 list \<times> dev" where
  "ga_build_response e rk authData37 cdh32 n_total d =
    (let sigHash = sha256_final (sha256_update (sha256_update (sha256_init uninit_ctx) authData37 37) cdh32 32);
         privk = bytes (fmem (chip d)) (rk + 133) 32;
         d = fido2_send_keepalive e (g_current_cid d) 1 d;
         (sig, d) = uECC_sign e privk sigHash d;
         d = fido2_send_keepalive e (g_current_cid d) 1 d;
         der = ecdsa_sig_to_der sig
     in (resp_ok (assertion_items (fmem (chip d)) rk authData37 der n_total), d))"

definition auth_data37 :: "u8 list \<Rightarrow> u8 \<Rightarrow> u8 list" where
  "auth_data37 rpIdHash flags = take 32 rpIdHash @ [flags, 0, 0, 0, 0]"

section \<open>authenticatorGetInfo\<close>

definition cmd_get_info :: "dev \<Rightarrow> u8 list" where
  "cmd_get_info d =
    (let pin_set = (pin_load (chip d) \<noteq> None); txt = (\<lambda>s. cbor_encode_text_string (lit s))
     in resp_ok
       [cbor_encode_map 10,
        cbor_encode_uint 1, cbor_encode_array 2, txt ''FIDO_2_0'', txt ''FIDO_2_1'',
        cbor_encode_uint 3, cbor_encode_byte_string AAGUID 16,
        cbor_encode_uint 4, cbor_encode_map 6,
        txt ''rk'', cbor_encode_bool True,
        txt ''up'', cbor_encode_bool True,
        txt ''clientPin'', cbor_encode_bool pin_set,
        txt ''pinUvAuthToken'', cbor_encode_bool True,
        txt ''credMgmt'', cbor_encode_bool True,
        txt ''makeCredUvNotRqd'', cbor_encode_bool True,
        cbor_encode_uint 5, cbor_encode_uint 1024,
        cbor_encode_uint 6, cbor_encode_array 2, cbor_encode_uint 1, cbor_encode_uint 2,
        cbor_encode_uint 7, cbor_encode_uint (word_of_nat PASSKEY_NUM_SLOTS),
        cbor_encode_uint 8, cbor_encode_uint 32,
        cbor_encode_uint 9, cbor_encode_array 1, txt ''usb'',
        cbor_encode_uint 10, cbor_encode_array 1, cbor_encode_map 2,
        txt ''type'', txt ''public-key'', txt ''alg'', cbor_encode_int (- 7),
        cbor_encode_uint 15, cbor_encode_uint 4])"

section \<open>authenticatorMakeCredential\<close>

text \<open>The checks before user presence: \<open>Inl\<close> the status of an early return, \<open>Inr\<close> the flags.\<close>

definition mc_options ::
    "mem \<Rightarrow> nat \<Rightarrow> dev \<Rightarrow> (nat \<times> nat \<times> u8) option \<Rightarrow> (nat \<times> nat) option \<Rightarrow> u8 option" where
  "mc_options m req_len d options_map pin_auth =
    (case (options_map, pin_auth) of
       (Some (om, _, _), None) \<Rightarrow>
         (let n = search_len req_len om
          in if option_is m om n ''uv'' 0xF5
             then Some (if pin_load (chip d) = None then 0x35 else 0x36)
             else if option_is m om n ''rk'' 0xF5 \<and> pin_load (chip d) \<noteq> None then Some 0x36
             else None)
     | _ \<Rightarrow> None)"

definition mc_precheck ::
    "mem \<Rightarrow> nat \<Rightarrow> dev \<Rightarrow> (nat \<times> nat) option \<Rightarrow> (nat \<times> nat) option \<Rightarrow> (nat \<times> nat \<times> u8) option \<Rightarrow> u8 + u8" where
  "mc_precheck m req_len d cdh pin_auth options_map =
    (case pin_auth of
       Some (pa, pl) \<Rightarrow>
         if pl = 0 then Inl (if pin_load (chip d) = None then 0x35 else 0x33)
         else if uv_valid d m cdh pa pl then Inr (0x41 OR 0x04) else Inl 0x33
     | None \<Rightarrow>
         (case mc_options m req_len d options_map pin_auth of Some s \<Rightarrow> Inl s | None \<Rightarrow> Inr 0x41))"

text \<open>\<open>excludeList\<close>: any 32-byte window of the item that is a credential id of this relying party.\<close>

definition mc_excluded :: "hw \<Rightarrow> mem \<Rightarrow> u8 list \<Rightarrow> nat option \<times> nat \<Rightarrow> bool" where
  "mc_excluded h m rpIdHash ex =
    (case ex of
       (None, _) \<Rightarrow> False
     | (Some ex_item, ex_len) \<Rightarrow>
       32 < ex_len \<and>
       list_ex (\<lambda>j. case passkey_find_by_cred_id (bytes m (ex_item + j) 32) h of
           None \<Rightarrow> False
         | Some a \<Rightarrow> bytes (fmem h) (a + 4) 32 = rpIdHash) [0..<ex_len - 31])"

definition cose_key :: "u8 list \<Rightarrow> u8 list" where
  "cose_key public_key =
    enc_out (encode_all
      [cbor_encode_map 5,
       cbor_encode_uint 1, cbor_encode_uint 2,
       cbor_encode_uint 3, cbor_encode_head 1 6,
       cbor_encode_head 1 0, cbor_encode_uint 1,
       cbor_encode_head 1 1, cbor_encode_byte_string public_key 32,
       cbor_encode_head 1 2, cbor_encode_byte_string (drop 32 public_key) 32]
      (cbor_init (replicate 77 0) 77))"

definition mc_auth_data :: "u8 list \<Rightarrow> u8 \<Rightarrow> u8 list \<Rightarrow> u8 list \<Rightarrow> u8 list" where
  "mc_auth_data rpIdHash flags credential_id public_key =
    auth_data37 rpIdHash flags @ AAGUID @ [0, 32] @ take 32 credential_id @ cose_key public_key"

text \<open>Attestation: sign \<open>authData || clientDataHash\<close> and encode the response.\<close>

definition mc_attest ::
    "env \<Rightarrow> mem \<Rightarrow> u32 \<Rightarrow> (nat \<times> nat) option \<Rightarrow> u8 list \<Rightarrow> u8 list \<Rightarrow> dev \<Rightarrow> u8 list \<times> dev" where
  "mc_attest e m cid cdh authData private_key d =
    (let sha = sha256_update (sha256_init uninit_ctx) authData (length authData);
         sha = (case cdh of None \<Rightarrow> sha | Some (c, _) \<Rightarrow> sha256_update sha (bytes m c 32) 32);
         sigHash = sha256_final sha;
         d = fido2_send_keepalive e cid 1 d;
         (signature, d) = uECC_sign e private_key sigHash d;
         der_sig = ecdsa_sig_to_der signature
     in (resp_ok
          [cbor_encode_map 3,
           cbor_encode_uint 1, cbor_encode_text_string (lit ''packed''),
           cbor_encode_uint 2, cbor_encode_byte_string authData (length authData),
           cbor_encode_uint 3, cbor_encode_map 2,
           cbor_encode_text_string (lit ''alg''), cbor_encode_int (- 7),
           cbor_encode_text_string (lit ''sig''), cbor_encode_byte_string der_sig (length der_sig)], d))"

text \<open>Key generation, storage and attestation, when nothing is excluded.\<close>

definition mc_create ::
    "env \<Rightarrow> mem \<Rightarrow> u32 \<Rightarrow> (nat \<times> nat) option \<Rightarrow> u8 \<Rightarrow> u8 list \<Rightarrow> (nat \<times> nat) option \<Rightarrow>
     (nat \<times> nat) option \<Rightarrow> (nat \<times> nat) option \<Rightarrow> dev \<Rightarrow> u8 list \<times> dev" where
  "mc_create e m cid cdh flags rpIdHash rp_id user_id user_name d =
    (let d = fido2_send_keepalive e cid 1 d;
         (public_key, private_key, d) = uECC_make_key e d;
         d = fido2_send_keepalive e cid 1 d;
         (credential_id, d) = rng e 32 d;
         (saved, h) = passkey_save rpIdHash (str_bytes m rp_id) (length (str_bytes m rp_id))
            (str_bytes m user_id) (length (str_bytes m user_id))
            (str_bytes m user_name) (length (str_bytes m user_name)) credential_id private_key (chip d);
         d = d\<lparr>chip := h\<rparr>
     in if \<not> saved then ([0x28], d)
        else mc_attest e m cid cdh (mc_auth_data rpIdHash (flags OR 0x40) credential_id public_key)
               private_key d)"

definition mc_user :: "env \<Rightarrow> mem \<Rightarrow> nat \<Rightarrow> ((nat \<times> nat) option \<times> (nat \<times> nat) option) option" where
  "mc_user e m req_len = do {
     it \<leftarrow> get_cbor_map_item (stk e) m 1 (req_len - 1) 0x03;
     (case item_ptr (junk e 3) it of
        (None, _) \<Rightarrow> Some (None, None)
      | (Some u, n) \<Rightarrow> do {
          uid \<leftarrow> cbor_map_get_string (stk e) m u n (lit ''id'');
          nm \<leftarrow> cbor_map_get_string (stk e) m u n (lit ''name'');
          nm \<leftarrow> (if nm = None then cbor_map_get_string (stk e) m u n (lit ''displayName'') else Some nm);
          Some (uid, nm)
        })
   }"

definition mc_rp_id :: "env \<Rightarrow> mem \<Rightarrow> nat \<Rightarrow> (nat \<times> nat) option option" where
  "mc_rp_id e m req_len = do {
     it \<leftarrow> get_cbor_map_item (stk e) m 1 (req_len - 1) 0x02;
     (case item_ptr (junk e 2) it of
        (None, _) \<Rightarrow> Some None
      | (Some r, n) \<Rightarrow> cbor_map_get_string (stk e) m r n (lit ''id''))
   }"

definition cmd_make_credential :: "env \<Rightarrow> nat \<Rightarrow> u32 \<Rightarrow> dev \<Rightarrow> (u8 list \<times> dev) option" where
  "cmd_make_credential e req_len cid d =
    (let m = req_mem e d in do {
       cdh \<leftarrow> get_cbor_map_string (stk e) m 1 (req_len - 1) 0x01;
       pin_auth \<leftarrow> get_cbor_map_string (stk e) m 1 (req_len - 1) 0x08;
       options_map \<leftarrow> (case pin_auth of
           Some (pa, pl) \<Rightarrow> if pl = 0 then Some None else get_cbor_map_value (stk e) m 1 (req_len - 1) 0x07
         | None \<Rightarrow> get_cbor_map_value (stk e) m 1 (req_len - 1) 0x07);
       (case mc_precheck m req_len d cdh pin_auth options_map of
          Inl s \<Rightarrow> Some ([s], d)
        | Inr flags \<Rightarrow>
          (let (up_status, d) = fido2_wait_for_user_presence e cid d
           in if up_status \<noteq> 0x00 then Some ([up_status], d)
              else do {
                rp_id \<leftarrow> mc_rp_id e m req_len;
                (let rpIdHash = rp_id_hash_of m rp_id in do {
                   ex \<leftarrow> get_cbor_map_item (stk e) m 1 (req_len - 1) 0x05;
                   (if mc_excluded (chip d) m rpIdHash (item_ptr (junk e 5) ex) then Some ([0x2C], d)
                    else do {
                      (user_id, user_name) \<leftarrow> mc_user e m req_len;
                      Some (mc_create e m cid cdh flags rpIdHash rp_id user_id user_name d)
                    })
                 })
              }))
     })"

section \<open>authenticatorGetAssertion and authenticatorGetNextAssertion\<close>

text \<open>The slot search of the allow-list case: a credential of this relying party whose id occurs
  anywhere in the request.\<close>

definition ga_allowed :: "mem \<Rightarrow> nat \<Rightarrow> hw \<Rightarrow> u8 list \<Rightarrow> nat option" where
  "ga_allowed m req_len h rpIdHash =
    find (\<lambda>a. is_key (fmem h) a \<and> bytes (fmem h) (a + 4) 32 = rpIdHash \<and>
            list_ex (\<lambda>j. bytes m j 32 = bytes (fmem h) (a + 101) 32) [0..<req_len - 31])
      slot_addrs"

text \<open>Which credential to use: \<open>(rk, ga_total)\<close>, and the state for GetNextAssertion.\<close>

definition ga_select ::
    "mem \<Rightarrow> nat \<Rightarrow> u8 list \<Rightarrow> (nat \<times> nat) option \<Rightarrow> (nat \<times> nat \<times> u8) option \<Rightarrow> dev \<Rightarrow> (nat \<times> u32) option \<times> dev" where
  "ga_select m req_len rpIdHash cdh allowList d =
    (if (case allowList of None \<Rightarrow> True | Some (_, n, t) \<Rightarrow> t = 0x80 \<and> n = 0)
     then (let n_creds = passkey_count_for_rp rpIdHash (chip d)
           in case passkey_get_by_rp_index rpIdHash 0 (chip d) of
                None \<Rightarrow> (None, d)
              | Some rk \<Rightarrow>
                if n_creds = 0 then (None, d)
                else (Some (rk, word_of_nat n_creds),
                  d\<lparr>g_ga_rp_hash := rpIdHash, g_ga_count := word_of_nat n_creds, g_ga_idx := 0,
                    g_ga_cdh := (case cdh of
                        Some (c, n) \<Rightarrow> if 32 \<le> n then bytes m c 32 else replicate 32 0
                      | None \<Rightarrow> replicate 32 0)\<rparr>))
     else (map_option (\<lambda>rk. (rk, 1)) (ga_allowed m req_len (chip d) rpIdHash), d\<lparr>g_ga_count := 0\<rparr>))"

text \<open>After the selection: PIN authentication, options, user presence, response.\<close>

definition ga_options ::
    "mem \<Rightarrow> nat \<Rightarrow> dev \<Rightarrow> (nat \<times> nat \<times> u8) option \<Rightarrow> (nat \<times> nat) option \<Rightarrow> u8 + bool" where
  "ga_options m req_len d options_map pin_auth =
    (case options_map of
       None \<Rightarrow> Inr True
     | Some (om, _, _) \<Rightarrow>
       (let n = search_len req_len om
        in if pin_auth = None \<and> option_is m om n ''uv'' 0xF5
           then Inl (if pin_load (chip d) = None then 0x35 else 0x36)
           else Inr (\<not> option_is m om n ''up'' 0xF4)))"

definition ga_uv_flags :: "dev \<Rightarrow> mem \<Rightarrow> (nat \<times> nat) option \<Rightarrow> (nat \<times> nat) option \<Rightarrow> u8 option" where
  "ga_uv_flags d m cdh pin_auth =
    (case pin_auth of
       None \<Rightarrow> Some 0x01
     | Some (pa, pl) \<Rightarrow> if uv_valid d m cdh pa pl then Some (0x01 OR 0x04) else None)"

definition ga_finish ::
    "env \<Rightarrow> mem \<Rightarrow> u8 list \<Rightarrow> u8 \<Rightarrow> (nat \<times> nat) option \<Rightarrow> nat \<Rightarrow> u32 \<Rightarrow> dev \<Rightarrow> u8 list \<times> dev" where
  "ga_finish e m rpIdHash flags cdh rk ga_total d =
    (let cdh_buf = (case cdh of
           Some (c, n) \<Rightarrow> if n = 32 then bytes m c 32 else replicate 32 0
         | None \<Rightarrow> replicate 32 0)
     in ga_build_response e rk (auth_data37 rpIdHash flags) cdh_buf ga_total d)"

definition cmd_get_assertion :: "env \<Rightarrow> nat \<Rightarrow> u32 \<Rightarrow> dev \<Rightarrow> (u8 list \<times> dev) option" where
  "cmd_get_assertion e req_len cid d =
    (let m = req_mem e d in do {
       rp \<leftarrow> get_cbor_map_value (stk e) m 1 (req_len - 1) 0x01;
       cdh \<leftarrow> get_cbor_map_string (stk e) m 1 (req_len - 1) 0x02;
       allowList \<leftarrow> get_cbor_map_value (stk e) m 1 (req_len - 1) 0x03;
       (let rpIdHash = rp_id_hash_of m (map_option (\<lambda>(p, n, _). (p, n)) rp);
            (sel, d) = ga_select m req_len rpIdHash cdh allowList d
        in case sel of
             None \<Rightarrow> Some ([0x2E], d)
           | Some (rk, ga_total) \<Rightarrow> do {
               pin_auth \<leftarrow> get_cbor_map_string (stk e) m 1 (req_len - 1) 0x06;
               (case ga_uv_flags d m cdh pin_auth of
                  None \<Rightarrow> Some ([0x33], d)
                | Some flags \<Rightarrow> do {
                    options_map \<leftarrow> get_cbor_map_value (stk e) m 1 (req_len - 1) 0x05;
                    Some (case ga_options m req_len d options_map pin_auth of
                        Inl s \<Rightarrow> ([s], d)
                      | Inr True \<Rightarrow> user_presence e cid (ga_finish e m rpIdHash flags cdh rk ga_total) d
                      | Inr False \<Rightarrow> ga_finish e m rpIdHash (flags AND NOT 0x01) cdh rk ga_total d)
                  })
             })
     })"

definition cmd_get_next_assertion :: "env \<Rightarrow> u32 \<Rightarrow> dev \<Rightarrow> u8 list \<times> dev" where
  "cmd_get_next_assertion e cid d =
    (if g_ga_count d = 0 \<or> g_ga_count d \<le> g_ga_idx d + 1 then ([0x2E], d)
     else let d = d\<lparr>g_ga_idx := g_ga_idx d + 1\<rparr>
          in case passkey_get_by_rp_index (g_ga_rp_hash d) (unat (g_ga_idx d)) (chip d) of
               None \<Rightarrow> ([0x2E], d)
             | Some nrk \<Rightarrow>
               user_presence e cid (\<lambda>d. ga_build_response e nrk (auth_data37 (g_ga_rp_hash d) 0x01)
                 (g_ga_cdh d) (g_ga_count d) d) d)"

section \<open>authenticatorCredentialManagement\<close>

text \<open>With a PIN set, every sub-command must authenticate.\<close>

definition cm_auth_ok ::
    "env \<Rightarrow> mem \<Rightarrow> nat \<Rightarrow> u8 \<Rightarrow> dev \<Rightarrow> bool option" where
  "cm_auth_ok e m req_len sub_cmd d =
    (if pin_load (chip d) = None then Some True
     else do {
       p \<leftarrow> get_cbor_map_int (stk e) m 1 (req_len - 1) 0x03;
       params \<leftarrow> (if sub_cmd = 0x04 \<or> sub_cmd = 0x05 \<or> sub_cmd = 0x06
                  then map_option (item_ptr (junk e 2)) (get_cbor_map_item (stk e) m 1 (req_len - 1) 0x02)
                  else Some (None, 0));
       pin_auth \<leftarrow> get_cbor_map_string (stk e) m 1 (req_len - 1) 0x04;
       (let cm_proto = (case p of Some v \<Rightarrow> v | None \<Rightarrow> active_pin_protocol d);
            prf = sub_cmd # (case params of
                (Some a, n) \<Rightarrow> if 0 < n \<and> n \<le> 1024 then bytes m a n else []
              | (None, _) \<Rightarrow> []);
            expected = (if cm_proto = 2 then 32 else 16)
        in Some (has_pin_token d \<and>
             (case pin_auth of
                None \<Rightarrow> False
              | Some (a, n) \<Rightarrow>
                n = expected \<and>
                take expected (hmac_sha256 (pin_token d)
                    (if 0 < pin_token_len d then pin_token_len d else 32) prf (length prf)) =
                  bytes m a expected)))
     })"

definition cm_metadata :: "dev \<Rightarrow> u8 list" where
  "cm_metadata d = resp_ok [cbor_encode_map 2,
     cbor_encode_uint 1, cbor_encode_uint (word_of_nat (passkey_count_all (chip d))),
     cbor_encode_uint 2, cbor_encode_uint (word_of_nat PASSKEY_NUM_SLOTS)]"

definition cm_enumerate_rps :: "bool \<Rightarrow> dev \<Rightarrow> u8 list \<times> dev" where
  "cm_enumerate_rps begin d =
    (let d = d\<lparr>g_enum_rp_idx := (if begin then 0 else g_enum_rp_idx d + 1)\<rparr>;
         total_rps = passkey_count_unique_rps (chip d)
     in if total_rps = 0 \<or> total_rps \<le> unat (g_enum_rp_idx d) then ([0x2E], d)
        else let d = (case passkey_get_unique_rp_hash (unat (g_enum_rp_idx d)) (chip d) of
                        None \<Rightarrow> d | Some h \<Rightarrow> d\<lparr>g_enum_rp_hash := h\<rparr>);
                 fm = fmem (chip d);
                 rp_display =
                   (case passkey_get_by_rp_index (g_enum_rp_hash d) 0 (chip d) of
                      Some a \<Rightarrow> if 0 < unat (fm (a + 198)) then bytes fm (a + 199) (unat (fm (a + 198)))
                                else lit ''Passkey RP''
                    | None \<Rightarrow> lit ''Passkey RP'')
             in (resp_ok ([cbor_encode_map (if begin then 3 else 2),
                   cbor_encode_uint 1, cbor_encode_map 2,
                   cbor_encode_text_string (lit ''id''), cbor_encode_text_string_len rp_display (length rp_display),
                   cbor_encode_text_string (lit ''name''), cbor_encode_text_string_len rp_display (length rp_display),
                   cbor_encode_uint 2, cbor_encode_byte_string (g_enum_rp_hash d) 32] @
                   (if begin then [cbor_encode_uint 3, cbor_encode_uint (word_of_nat total_rps)] else [])), d))"

definition cm_enumerate_creds :: "env \<Rightarrow> mem \<Rightarrow> nat \<Rightarrow> bool \<Rightarrow> dev \<Rightarrow> (u8 list \<times> dev) option" where
  "cm_enumerate_creds e m req_len begin d = do {
     rph \<leftarrow> (if begin then do {
               it \<leftarrow> get_cbor_map_item (stk e) m 1 (req_len - 1) 0x02;
               (case item_ptr (junk e 2) it of
                  (None, _) \<Rightarrow> Some None
                | (Some pm, pm_len) \<Rightarrow> get_cbor_map_string (stk e) m pm pm_len 0x01)
             } else Some None);
     (let d = (case rph of Some (p, n) \<Rightarrow> if 32 \<le> n then d\<lparr>g_enum_rp_hash := bytes m p 32\<rparr> else d | None \<Rightarrow> d);
          d = d\<lparr>g_enum_cred_idx := (if begin then 0 else g_enum_cred_idx d + 1)\<rparr>;
          total_creds = passkey_count_for_rp (g_enum_rp_hash d) (chip d);
          fm = fmem (chip d)
      in Some (case passkey_get_by_rp_index (g_enum_rp_hash d) (unat (g_enum_cred_idx d)) (chip d) of
           None \<Rightarrow> ([0x2E], d)
         | Some k \<Rightarrow>
           if total_creds = 0 \<or> total_creds \<le> unat (g_enum_cred_idx d) then ([0x2E], d)
           else (let user_id_len = unat (fm (k + 36)); user_name_len = unat (fm (k + 165))
             in (resp_ok ([cbor_encode_map (if begin then 3 else 2),
                   cbor_encode_uint 1, cbor_encode_map 2,
                   cbor_encode_text_string (lit ''id''),
                   cbor_encode_byte_string (bytes fm (k + 37) user_id_len) user_id_len,
                   cbor_encode_text_string (lit ''name''),
                   (if 0 < user_name_len
                    then cbor_encode_text_string_len (bytes fm (k + 166) user_name_len) user_name_len
                    else cbor_encode_text_string (lit ''Passkey Account'')),
                   cbor_encode_uint 2, cbor_encode_map 2,
                   cbor_encode_text_string (lit ''id''), cbor_encode_byte_string (bytes fm (k + 101) 32) 32,
                   cbor_encode_text_string (lit ''type''), cbor_encode_text_string (lit ''public-key'')] @
                   (if begin then [cbor_encode_uint 3, cbor_encode_uint (word_of_nat total_creds)] else [])), d))))
   }"

definition cm_delete :: "env \<Rightarrow> mem \<Rightarrow> nat \<Rightarrow> dev \<Rightarrow> (u8 list \<times> dev) option" where
  "cm_delete e m req_len d = do {
     it \<leftarrow> get_cbor_map_item (stk e) m 1 (req_len - 1) 0x02;
     target \<leftarrow> (case item_ptr (junk e 2) it of
         (None, _) \<Rightarrow> Some None
       | (Some pm, pm_len) \<Rightarrow> do {
           it2 \<leftarrow> get_cbor_map_item (stk e) m pm pm_len 0x02;
           (case item_ptr (junk e 6) it2 of
              (None, _) \<Rightarrow> Some None
            | (Some cm, cm_len) \<Rightarrow> get_cbor_map_string (stk e) m cm cm_len 0x01)
         });
     Some (case target of
         None \<Rightarrow> ([0x2E], d)
       | Some (t, n) \<Rightarrow>
         if n < 32 then ([0x2E], d)
         else let (found, h) = passkey_delete_by_cred_id (bytes m t 32) (chip d)
              in ([if found then 0x00 else 0x2E], d\<lparr>chip := h\<rparr>))
   }"

definition cmd_cred_mgmt :: "env \<Rightarrow> nat \<Rightarrow> dev \<Rightarrow> (u8 list \<times> dev) option" where
  "cmd_cred_mgmt e req_len d =
    (let m = req_mem e d in do {
       sub \<leftarrow> get_cbor_map_int (stk e) m 1 (req_len - 1) 0x01;
       (let sub_cmd = (case sub of None \<Rightarrow> 0 | Some v \<Rightarrow> (word_of_nat v :: u8)) in do {
          ok \<leftarrow> cm_auth_ok e m req_len sub_cmd d;
          (if \<not> ok then Some ([0x33], d)
           else do {
             _ \<leftarrow> get_cbor_map_value (stk e) m 1 (req_len - 1) 0x02;
             (if sub_cmd = 0x01 then Some (cm_metadata d, d)
              else if sub_cmd = 0x02 \<or> sub_cmd = 0x03 then Some (cm_enumerate_rps (sub_cmd = 0x02) d)
              else if sub_cmd = 0x04 \<or> sub_cmd = 0x05 then cm_enumerate_creds e m req_len (sub_cmd = 0x04) d
              else if sub_cmd = 0x06 then cm_delete e m req_len d
              else Some ([0x01], d))
           })
        })
     })"

section \<open>authenticatorReset, the touch read-out and the dispatcher\<close>

definition cmd_reset :: "env \<Rightarrow> u32 \<Rightarrow> dev \<Rightarrow> u8 list \<times> dev" where
  "cmd_reset e cid d =
    (let late = (48000000 * 10 < systick e (tick_no d)); d = d\<lparr>tick_no := tick_no d + 1\<rparr>
     in if late then ([0x30], d)
        else user_presence e cid (\<lambda>d. ([0x00], d\<lparr>chip := flash_factory_reset (chip d)\<rparr>)) d)"

definition cmd_touch_debug :: "env \<Rightarrow> dev \<Rightarrow> u8 list \<times> dev" where
  "cmd_touch_debug e d =
    (let d = init_touch_adc e d; (val, d) = read_touch_pa2 e d
     in (0x00 # be32_bytes val @ be32_bytes (touch_baseline d), d))"

definition fido2_process_cbor :: "env \<Rightarrow> nat \<Rightarrow> u32 \<Rightarrow> dev \<Rightarrow> (u8 list \<times> dev) option" where
  "fido2_process_cbor e req_len cid d =
    (if req_len = 0 then Some ([0x01], d)
     else let d = d\<lparr>g_current_cid := cid\<rparr>; cmd = req_mem e d 0
          in if cmd = 0x04 then Some (cmd_get_info d, d)
             else if cmd = 0x01 then cmd_make_credential e req_len cid d
             else if cmd = 0x02 then cmd_get_assertion e req_len cid d
             else if cmd = 0x08 then Some (cmd_get_next_assertion e cid d)
             else if cmd = 0x06 then process_client_pin e (req_mem e d) 1 (req_len - 1) cid d
             else if cmd = 0x0A then cmd_cred_mgmt e req_len d
             else if cmd = 0x07 then Some (cmd_reset e cid d)
             else if cmd = 0x55 then Some (cmd_touch_debug e d)
             else Some ([0x01], d))"

end
