(* ===== verification/UsbSpec.thy ===== *)
theory UsbSpec
  imports Usb
begin

text \<open>
  What the USB driver guarantees: the packets of endpoint 1 form a first-in first-out queue
  inside the ring, and the control endpoint answers descriptor requests with the tables of
  \<open>UsbDesc\<close>.

  \<^item> \<open>packet_queue\<close> is the interface between the interrupt handler (producer) and the main
    loop (consumer): what \<open>push\<close> and \<open>pop\<close> do to the queue of pending packets.  Its clients'
    facts are proved in the locale; \<open>ring\<close> interprets it on the driver.
  \<^item> \<open>ring_ok\<close> is the invariant of the ring: the indices agree, the DMA address is that of the
    load index, and from twelve pending packets on the endpoint answers NAK.
  \<^item> \<open>ring_safe\<close> is what survives every event, bus resets and feature requests included: the indices agree
    and the DMA address lies in the ring. \<open>tame\<close> says under which conditions \<open>ring_ok\<close> survives them too.
\<close>

section \<open>The ring as a queue\<close>

definition ring_ok :: "usb \<Rightarrow> bool" where
  "ring_ok u \<longleftrightarrow>
    DealPtr u < 16 \<and> RemainPack u \<le> 12 \<and> LoadPtr u = (DealPtr u + RemainPack u) mod 16 \<and>
    UEP1_DMA u = LoadPtr u * 64 \<and> length (Data_Buffer u) = 1024 \<and> length (PackLen u) = 16 \<and>
    (UEP1_CTRL_H u AND R_RES_MASK = R_RES_ACK \<longrightarrow> RemainPack u < 12)"

definition ring_block :: "usb \<Rightarrow> nat \<Rightarrow> u8 list \<times> nat" where
  "ring_block u i = (take 64 (drop (i * 64) (Data_Buffer u)), PackLen u ! i)"

definition ring_queue :: "usb \<Rightarrow> (u8 list \<times> nat) list" where
  "ring_queue u = map (\<lambda>i. ring_block u ((DealPtr u + i) mod 16)) [0..<RemainPack u]"

text \<open>A packet as it will be found in its block: 64 bytes, the first \<open>length p\<close> of them new.\<close>

definition carries :: "u8 list \<Rightarrow> u8 list \<times> nat \<Rightarrow> bool" where
  "carries p b \<longleftrightarrow> take (length p) (fst b) = p \<and> snd b = length p"

lemma and_or_mask: "(a AND NOT m OR r) AND m = r AND (m :: 'a :: len word)"
  by (rule bit_word_eqI) (auto simp: bit_simps)

lemma set_r_res_and: "set_r_res r a AND R_RES_MASK = r AND R_RES_MASK"
  by (simp add: set_r_res_def and_or_mask)

lemma set_t_res_and: "set_t_res r a AND T_RES_MASK = r AND T_RES_MASK"
  by (simp add: set_t_res_def and_or_mask)

lemma ack_tog: "(set_t_res T_RES_ACK a OR T_TOG) AND T_RES_MASK = T_RES_ACK"
proof -
  have "T_TOG AND T_RES_MASK = 0" "T_RES_ACK AND T_RES_MASK = T_RES_ACK"
    by (simp_all add: res_defs)
  then show ?thesis by (simp only: bit.conj_disj_distrib2 set_t_res_and bit.disj_zero_right)
qed

lemma r_res_tog: "(a XOR R_TOG) AND R_RES_MASK = a AND R_RES_MASK"
proof -
  have "R_TOG AND R_RES_MASK = 0" by (simp add: res_defs)
  then show ?thesis by (simp add: bit.conj_xor_distrib2)
qed

lemma handler_transfer: "INT_FG u AND 0x02 \<noteq> 0 \<Longrightarrow> USBFS_IRQHandler st n m u = isr_transfer st n u"
  by (simp add: USBFS_IRQHandler_def)

lemma out1_transfer:
  "isr_transfer 0x01 n u = (isr_out_ep1 n u)\<lparr>INT_FG := INT_FG (isr_out_ep1 n u) AND NOT 0x02\<rparr>"
  by (simp add: isr_transfer_def Let_def)

lemma blit_other:
  "length ys \<le> 64 \<Longrightarrow> i \<noteq> j \<Longrightarrow> i * 64 + 64 \<le> length xs \<Longrightarrow>
    take 64 (drop (j * 64) (blit xs (i * 64) ys)) = take 64 (drop (j * 64) xs)"
proof (rule nth_equalityI)
  assume a: "length ys \<le> 64" "i \<noteq> j" "i * 64 + 64 \<le> length xs"
  then show "length (take 64 (drop (j * 64) (blit xs (i * 64) ys))) = length (take 64 (drop (j * 64) xs))"
    by simp
  fix k
  assume "k < length (take 64 (drop (j * 64) (blit xs (i * 64) ys)))"
  then have "k < 64" "k < length xs - j * 64" using a by simp_all
  then have k: "k < 64" "j * 64 + k < length xs" by linarith+
  have "Suc i \<le> j \<or> Suc j \<le> i" using a(2) by arith
  then have "Suc i * 64 \<le> j * 64 \<or> Suc j * 64 \<le> i * 64"
    using mult_le_mono1 by blast
  then have "j * 64 + k < i * 64 \<or> i * 64 + length ys \<le> j * 64 + k"
    using k(1) a(1) by auto
  then have "blit xs (i * 64) ys ! (j * 64 + k) = xs ! (j * 64 + k)"
    using a(1,3) k(2) by (subst nth_blit) auto
  then show "take 64 (drop (j * 64) (blit xs (i * 64) ys)) ! k = take 64 (drop (j * 64) xs) ! k"
    using k a by simp
qed

lemma out1_effect:
  assumes "ring_ok u" "length p \<le> 64" "UEP1_CTRL_H u AND R_RES_MASK = R_RES_ACK"
  defines "v \<equiv> usb_step (Out1 p) u"
  shows "ring_ok v" "\<exists>b. ring_queue v = ring_queue u @ [b] \<and> carries p b"
    "DealPtr v = DealPtr u" "RemainPack v = RemainPack u + 1"
proof -
  define l where "l = LoadPtr u"
  have ok: "DealPtr u < 16" "RemainPack u < 12" "l = (DealPtr u + RemainPack u) mod 16"
    "UEP1_DMA u = l * 64" "length (Data_Buffer u) = 1024" "length (PackLen u) = 16" "l < 16"
    using assms by (auto simp: ring_ok_def l_def)
  define w where "w = u\<lparr>Data_Buffer := blit (Data_Buffer u) (l * 64) p, INT_FG := 0x02\<rparr>"
  have v: "v = isr_transfer 0x01 (length p) w"
    using assms(3) by (simp add: v_def handler_transfer w_def ok(4))
  have w: "DealPtr w = DealPtr u" "RemainPack w = RemainPack u" "LoadPtr w = l"
    "PackLen w = PackLen u" "UEP1_CTRL_H w = UEP1_CTRL_H u"
    "Data_Buffer w = blit (Data_Buffer u) (l * 64) p"
    by (simp_all add: w_def l_def)
  have f: "DealPtr v = DealPtr u" "RemainPack v = RemainPack u + 1"
    "LoadPtr v = (l + 1) mod 16" "UEP1_DMA v = LoadPtr v * 64"
    "PackLen v = (PackLen u)[l := length p]" "Data_Buffer v = blit (Data_Buffer u) (l * 64) p"
    "UEP1_CTRL_H v AND R_RES_MASK = R_RES_ACK \<longrightarrow> RemainPack u + 1 < 12"
    using ok assms(2,3)
    by (auto simp: v out1_transfer isr_out_ep1_def Let_def w RING_BLKS_def RING_REMINE_def PACK_SIZE_def
        set_r_res_and r_res_tog mod_Suc) (auto simp: res_defs)
  show "DealPtr v = DealPtr u" "RemainPack v = RemainPack u + 1" by (rule f)+
  have len: "l * 64 + 64 \<le> 1024" using ok(7) by simp
  show "ring_ok v"
    using ok f assms(2) len by (simp add: ring_ok_def mod_Suc_eq)
  have blk: "ring_block v j = ring_block u j" if "j \<noteq> l" for j
    using that ok assms(2) len blit_other [of p l j "Data_Buffer u"]
    by (simp add: ring_block_def f)
  have "ring_block v ((DealPtr u + i) mod 16) = ring_block u ((DealPtr u + i) mod 16)"
    if "i < RemainPack u" for i
  proof (rule blk)
    show "(DealPtr u + i) mod 16 \<noteq> l"
      using that ok(1,2,3) by (auto simp: mod_if split: if_splits)
  qed
  then have "ring_queue v = ring_queue u @ [ring_block v l]"
    by (simp add: ring_queue_def f ok(3))
  moreover have "carries p (ring_block v l)"
  proof -
    have "take (length p) (drop (l * 64) (blit (Data_Buffer u) (l * 64) p)) = p"
      using ok(5) len by (intro take_drop_blit) simp
    then show ?thesis
      using assms(2) ok(6,7) by (simp add: carries_def ring_block_def f min_absorb1)
  qed
  ultimately show "\<exists>b. ring_queue v = ring_queue u @ [b] \<and> carries p b" by blast
qed

lemma drop_effect:
  assumes "ring_ok u" "0 < RemainPack u"
  shows "ring_ok (ring_drop u)" "ring_queue u = ring_pkt u # ring_queue (ring_drop u)"
proof -
  have ok: "DealPtr u < 16" "RemainPack u \<le> 12" "LoadPtr u = (DealPtr u + RemainPack u) mod 16"
    using assms(1) by (auto simp: ring_ok_def)
  obtain n where n: "RemainPack u = Suc n" using assms(2) by (cases "RemainPack u") auto
  have f: "DealPtr (ring_drop u) = Suc (DealPtr u) mod 16" "RemainPack (ring_drop u) = n"
    "LoadPtr (ring_drop u) = LoadPtr u" "UEP1_DMA (ring_drop u) = UEP1_DMA u"
    "Data_Buffer (ring_drop u) = Data_Buffer u" "PackLen (ring_drop u) = PackLen u"
    "UEP1_CTRL_H (ring_drop u) = UEP1_CTRL_H u"
    using ok n by (auto simp: ring_drop_def Let_def RING_BLKS_def mod_if)
  have m: "(Suc (DealPtr u) mod 16 + i) mod 16 = Suc (DealPtr u + i) mod 16" for i
    by (metis add_Suc mod_add_left_eq)
  show "ring_ok (ring_drop u)"
    using assms(1) n m [of n] by (auto simp: ring_ok_def f)
  have b: "ring_block (ring_drop u) j = ring_block u j" for j
    by (simp add: ring_block_def f)
  have "map (\<lambda>i. ring_block u ((DealPtr u + i) mod 16)) [0..<Suc n] =
      ring_block u (DealPtr u mod 16) # map (\<lambda>i. ring_block u (Suc (DealPtr u + i) mod 16)) [0..<n]"
    by (simp add: map_upt_Suc del: upt_Suc)
  then show "ring_queue u = ring_pkt u # ring_queue (ring_drop u)"
    using ok(1) by (simp add: ring_queue_def n f b m ring_pkt_def ring_block_def PACK_SIZE_def)
qed

lemma restart_effect:
  assumes "ring_ok u"
  shows "ring_ok (ring_restart u)" "ring_queue (ring_restart u) = ring_queue u"
  using assms
  by (auto simp: ring_ok_def ring_restart_def ring_queue_def ring_block_def RING_BLKS_def RING_RESTART_def)

locale packet_queue =
  fixes ok :: "'s \<Rightarrow> bool" and queue :: "'s \<Rightarrow> (u8 list \<times> nat) list"
    and accepts :: "'s \<Rightarrow> bool" and push :: "u8 list \<Rightarrow> 's \<Rightarrow> 's"
    and front :: "'s \<Rightarrow> u8 list \<times> nat" and pop :: "'s \<Rightarrow> 's"
  assumes push_ok: "ok s \<Longrightarrow> length p \<le> 64 \<Longrightarrow> ok (push p s)"
    and push_accept: "ok s \<Longrightarrow> length p \<le> 64 \<Longrightarrow> accepts s \<Longrightarrow>
      \<exists>b. queue (push p s) = queue s @ [b] \<and> carries p b"
    and push_refuse: "\<not> accepts s \<Longrightarrow> push p s = s"
    and pop_ok: "ok s \<Longrightarrow> queue s \<noteq> [] \<Longrightarrow> ok (pop s)"
    and pop_queue: "ok s \<Longrightarrow> queue s \<noteq> [] \<Longrightarrow> queue s = front s # queue (pop s)"
begin

text \<open>Packets leave in the order in which they were accepted: popping what was pending
  before a push brings the pushed packet to the front.\<close>

lemma drain_queue:
  "ok s \<Longrightarrow> queue s = xs @ ys \<Longrightarrow> ok ((pop ^^ length xs) s) \<and> queue ((pop ^^ length xs) s) = ys"
proof (induction xs arbitrary: s)
  case (Cons x xs)
  then have ne: "queue s \<noteq> []" by simp
  have "queue (pop s) = xs @ ys" using pop_queue [OF Cons.prems(1) ne] Cons.prems(2) by simp
  with Cons.IH [OF pop_ok [OF Cons.prems(1) ne]] show ?case by (simp add: funpow_swap1)
qed simp

lemma push_then_drain:
  assumes "ok s" "length p \<le> 64" "accepts s"
  shows "carries p (front ((pop ^^ length (queue s)) (push p s)))"
proof -
  obtain b where b: "queue (push p s) = queue s @ [b]" "carries p b"
    using push_accept [OF assms] by blast
  have d: "ok ((pop ^^ length (queue s)) (push p s))" "queue ((pop ^^ length (queue s)) (push p s)) = [b]"
    using drain_queue [OF push_ok [OF assms(1,2)] b(1)] by simp_all
  then show ?thesis using pop_queue [OF d(1)] b(2) by simp
qed

end

interpretation ring: packet_queue ring_ok ring_queue "\<lambda>u. UEP1_CTRL_H u AND R_RES_MASK = R_RES_ACK"
  "\<lambda>p. usb_step (Out1 p)" ring_pkt ring_drop
proof
  fix s p
  show "\<not> UEP1_CTRL_H s AND R_RES_MASK = R_RES_ACK \<Longrightarrow> usb_step (Out1 p) s = s" by simp
  show "ring_ok s \<Longrightarrow> length p \<le> 64 \<Longrightarrow> ring_ok (usb_step (Out1 p) s)"
    using out1_effect(1) [of s p] by (cases "UEP1_CTRL_H s AND R_RES_MASK = R_RES_ACK") simp_all
  show "ring_ok s \<Longrightarrow> length p \<le> 64 \<Longrightarrow> UEP1_CTRL_H s AND R_RES_MASK = R_RES_ACK \<Longrightarrow>
      \<exists>b. ring_queue (usb_step (Out1 p) s) = ring_queue s @ [b] \<and> carries p b"
    by (rule out1_effect(2))
  show "ring_ok s \<Longrightarrow> ring_queue s \<noteq> [] \<Longrightarrow> ring_ok (ring_drop s)"
    using drop_effect(1) [of s] by (cases "RemainPack s") (simp_all add: ring_queue_def)
  show "ring_ok s \<Longrightarrow> ring_queue s \<noteq> [] \<Longrightarrow> ring_queue s = ring_pkt s # ring_queue (ring_drop s)"
    using drop_effect(2) [of s] by (cases "RemainPack s") (simp_all add: ring_queue_def)
qed

section \<open>The other events leave the ring alone\<close>

definition ring_part :: "usb \<Rightarrow> u8 \<times> nat \<times> nat \<times> nat \<times> nat \<times> nat list \<times> u8 list" where
  "ring_part u = (UEP1_CTRL_H u, UEP1_DMA u, LoadPtr u, DealPtr u, RemainPack u, PackLen u, Data_Buffer u)"

lemma ring_part_ok: "ring_part u = ring_part v \<Longrightarrow> ring_ok u = ring_ok v"
  by (simp add: ring_part_def ring_ok_def)

named_theorems ring_frame

lemma class_frame [ring_frame]: "ring_part (fst (setup_class u)) = ring_part u"
  by (simp add: setup_class_def Let_def ring_part_def)

lemma descriptor_frame [ring_frame]: "ring_part (fst (setup_get_descriptor u)) = ring_part u"
  by (simp add: setup_get_descriptor_def Let_def ring_part_def split_beta)

lemma status_frame [ring_frame]: "ring_part (fst (setup_get_status u)) = ring_part u"
  by (simp add: setup_get_status_def Let_def ring_part_def split_beta)

lemma clip_frame [ring_frame]: "ring_part (clip_len n u) = ring_part u"
  by (simp add: clip_len_def ring_part_def)

lemma standard_frame [ring_frame]:
  "USBFS_SetupReqCode u \<noteq> 0x01 \<Longrightarrow> USBFS_SetupReqCode u \<noteq> 0x03 \<Longrightarrow>
    ring_part (fst (setup_standard u)) = ring_part u"
  by (simp add: setup_standard_def Let_def ring_frame) (simp add: ring_part_def)

lemma finish_frame [ring_frame]: "ring_part (setup_finish e u) = ring_part u"
  by (simp add: setup_finish_def Let_def ring_part_def)

lemma store_frame [ring_frame]: "ring_part (setup_store u) = ring_part u"
  by (simp add: setup_store_def Let_def ring_part_def)

lemma setup_frame [ring_frame]:
  assumes "USBFS_EP0_Buf u ! 1 \<noteq> 0x01" "USBFS_EP0_Buf u ! 1 \<noteq> 0x03"
  shows "ring_part (isr_setup u) = ring_part u"
proof -
  have "USBFS_SetupReqCode (setup_store u) = USBFS_EP0_Buf u ! 1"
    by (simp add: setup_store_def Let_def)
  then show ?thesis
    using assms by (simp add: isr_setup_def Let_def split_beta ring_frame)
qed

lemma ep_frame [ring_frame]:
  "ring_part (isr_in_ep0 u) = ring_part u" "ring_part (isr_in_ep2 u) = ring_part u"
  "ring_part (isr_out_ep0 st u) = ring_part u" "ring_part (isr_suspend st u) = ring_part u"
  "ring_part (u\<lparr>INT_FG := f\<rparr>) = ring_part u" "ring_part (u\<lparr>USBFS_EP0_Buf := b\<rparr>) = ring_part u"
  by (simp_all add: isr_in_ep0_def isr_in_ep2_def isr_out_ep0_def isr_suspend_def Let_def ring_part_def)

text \<open>Everything the bus can do that is not a bus reset or a feature request for an endpoint.\<close>

fun quiet :: "usb_event \<Rightarrow> bool" where
  "quiet (Out1 p) = (length p \<le> 64)"
| "quiet (Setup b) = (length b = 8 \<and> b ! 1 \<noteq> 0x01 \<and> b ! 1 \<noteq> 0x03)"
| "quiet Reset = False"
| "quiet _ = True"

lemma transfer_frame:
  assumes "case ev of Out1 _ \<Rightarrow> False | Reset \<Rightarrow> False | _ \<Rightarrow> quiet ev"
  shows "ring_part (usb_step ev u) = ring_part u"
proof (cases ev)
  case (Setup b)
  then have b: "length b = 8" "b ! 1 \<noteq> 0x01" "b ! 1 \<noteq> 0x03" using assms by simp_all
  have "blit (USBFS_EP0_Buf u) 0 b ! 1 = b ! 1" using b(1) by (simp add: blit_def nth_append)
  then show ?thesis
    using Setup b by (simp add: handler_transfer isr_transfer_def Let_def ring_frame)
qed (use assms in \<open>simp_all add: handler_transfer isr_transfer_def Let_def ring_frame USBFS_IRQHandler_def\<close>)

section \<open>Everything that can happen to the ring\<close>

text \<open>
  A bus reset points the DMA at block 0 and lets the endpoint accept again, whatever is pending; CLEAR_FEATURE for
  the endpoint lets it accept again, SET_FEATURE stalls it. Whatever the host does, the indices stay consistent and
  the DMA writes into the ring: \<open>ring_safe\<close>.
\<close>

definition ring_safe :: "usb \<Rightarrow> bool" where
  "ring_safe u \<longleftrightarrow>
    DealPtr u < 16 \<and> RemainPack u < 256 \<and> LoadPtr u = (DealPtr u + RemainPack u) mod 16 \<and>
    (UEP1_DMA u = LoadPtr u * 64 \<or> UEP1_DMA u = 0) \<and> UEP1_DMA u + 64 \<le> length (Data_Buffer u) \<and>
    length (Data_Buffer u) = 1024 \<and> length (PackLen u) = 16"

text \<open>The same of \<open>ring_part\<close> as a state, but for the endpoint's control register.\<close>

definition ring_rest :: "usb \<Rightarrow> nat \<times> nat \<times> nat \<times> nat \<times> nat list \<times> u8 list" where
  "ring_rest u = snd (ring_part u)"

lemma ring_rest_safe: "ring_rest u = ring_rest v \<Longrightarrow> ring_safe u = ring_safe v"
  by (simp add: ring_rest_def ring_part_def ring_safe_def)

lemma part_rest: "ring_part u = ring_part v \<Longrightarrow> ring_rest u = ring_rest v \<and> UEP1_CTRL_H u = UEP1_CTRL_H v"
  by (simp add: ring_rest_def ring_part_def)

definition ctrl_change :: "bool \<Rightarrow> usb \<Rightarrow> usb \<Rightarrow> bool" where
  "ctrl_change clear u v \<longleftrightarrow> ring_rest v = ring_rest u \<and>
    (UEP1_CTRL_H v = UEP1_CTRL_H u \<or> clear \<and> UEP1_CTRL_H v = R_RES_ACK \<or> UEP1_CTRL_H v AND R_RES_MASK = R_RES_STALL)"

lemma ctrl_part: "ring_part v = ring_part u \<Longrightarrow> ctrl_change c u v"
  by (drule part_rest) (simp add: ctrl_change_def)

lemma ctrl_trans: "ctrl_change c u v \<Longrightarrow> ring_part w = ring_part v \<Longrightarrow> ctrl_change c u w"
  by (drule part_rest) (simp add: ctrl_change_def)

lemma feature_ctrl:
  "ctrl_change True u (fst (setup_clear_feature u))" "ctrl_change c u (fst (setup_set_feature u))"
proof -
  show "ctrl_change True u (fst (setup_clear_feature u))"
    by (simp add: setup_clear_feature_def Let_def ctrl_change_def ring_rest_def ring_part_def)
  have "set_r_res R_RES_STALL x AND R_RES_MASK = R_RES_STALL" for x
    by (simp add: set_r_res_and) (simp add: res_defs)
  then show "ctrl_change c u (fst (setup_set_feature u))"
    by (simp add: setup_set_feature_def Let_def ctrl_change_def ring_rest_def ring_part_def)
qed

lemma standard_ctrl: "ctrl_change (USBFS_SetupReqCode u = 0x01) u (fst (setup_standard u))"
proof -
  consider "USBFS_SetupReqCode u = 0x01" | "USBFS_SetupReqCode u = 0x03"
    | "USBFS_SetupReqCode u \<noteq> 0x01" "USBFS_SetupReqCode u \<noteq> 0x03" by blast
  then show ?thesis
  proof cases
    case 1
    then show ?thesis using feature_ctrl(1) [of u] by (simp add: setup_standard_def)
  next
    case 2
    then show ?thesis using feature_ctrl(2) [of False u] by (simp add: setup_standard_def)
  next
    case 3
    then show ?thesis by (intro ctrl_part standard_frame)
  qed
qed

lemma setup_ctrl: "length b = 8 \<Longrightarrow> ctrl_change (b ! 1 = 0x01) u (usb_step (Setup b) u)"
proof -
  assume b: "length b = 8"
  define w where "w = u\<lparr>USBFS_EP0_Buf := blit (USBFS_EP0_Buf u) 0 b, INT_FG := 0x02\<rparr>"
  have "blit (USBFS_EP0_Buf u) 0 b ! 1 = b ! 1" using b by (simp add: blit_def nth_append)
  then have code: "USBFS_SetupReqCode (setup_store w) = b ! 1" by (simp add: setup_store_def Let_def w_def)
  have w: "ring_part (setup_store w) = ring_part u" by (simp add: store_frame) (simp add: w_def ring_part_def)
  have "ctrl_change (b ! 1 = 0x01) (setup_store w) (isr_setup w)"
  proof -
    let ?x = "if USBFS_SetupReqType (setup_store w) AND 0x60 \<noteq> 0x00
        then (if USBFS_SetupReqType (setup_store w) AND 0x60 = 0x20 then setup_class (setup_store w) else (setup_store w, False))
        else setup_standard (setup_store w)"
    have "ctrl_change (b ! 1 = 0x01) (setup_store w) (fst ?x)"
      using standard_ctrl [of "setup_store w"] ctrl_part [OF class_frame] ctrl_part [OF refl] by (simp add: code)
    moreover have "isr_setup w = setup_finish (snd ?x) (fst ?x)" by (simp add: isr_setup_def Let_def split_beta)
    ultimately show ?thesis using ctrl_trans [OF _ finish_frame] by simp
  qed
  then have "ctrl_change (b ! 1 = 0x01) u (isr_setup w)" using part_rest [OF w] by (simp add: ctrl_change_def)
  moreover have "usb_step (Setup b) u = (isr_setup w)\<lparr>INT_FG := INT_FG (isr_setup w) AND NOT 0x02\<rparr>"
    by (simp add: w_def handler_transfer isr_transfer_def Let_def)
  ultimately show ?thesis using ctrl_trans ep_frame(5) by metis
qed

lemma reset_ring:
  "ring_rest (usb_step Reset u) = (0, snd (ring_rest u))" "UEP1_CTRL_H (usb_step Reset u) = R_RES_ACK"
  by (simp_all add: ring_rest_def ring_part_def USBFS_IRQHandler_def isr_bus_reset_def USBFS_Device_Endp_Init_def Let_def)

lemma out1_safe:
  assumes "ring_safe u" "length p \<le> 64"
  shows "ring_safe (usb_step (Out1 p) u)"
proof (cases "UEP1_CTRL_H u AND R_RES_MASK = R_RES_ACK")
  case True
  have ok: "DealPtr u < 16" "RemainPack u < 256" "LoadPtr u = (DealPtr u + RemainPack u) mod 16"
    "length (Data_Buffer u) = 1024" "length (PackLen u) = 16" "UEP1_DMA u + 64 \<le> 1024"
    using assms(1) by (auto simp: ring_safe_def)
  define w where "w = u\<lparr>Data_Buffer := blit (Data_Buffer u) (UEP1_DMA u) p, INT_FG := 0x02\<rparr>"
  have v: "usb_step (Out1 p) u = (isr_out_ep1 (length p) w)\<lparr>INT_FG := INT_FG (isr_out_ep1 (length p) w) AND NOT 0x02\<rparr>"
    using True by (simp add: handler_transfer w_def out1_transfer)
  have l: "(if Suc (LoadPtr u) = 16 then 0 else Suc (LoadPtr u)) = Suc (LoadPtr u) mod 16" "LoadPtr u < 16"
    using ok(3) by (simp_all add: mod_Suc)
  have n: "(DealPtr u + (RemainPack u + 1) mod 256) mod 16 = Suc (LoadPtr u) mod 16"
  proof -
    have "(DealPtr u + (RemainPack u + 1) mod 256) mod 16 = (DealPtr u + (RemainPack u + 1) mod 256 mod 16) mod 16"
      by (rule mod_add_right_eq [symmetric])
    also have "(RemainPack u + 1) mod 256 mod 16 = (RemainPack u + 1) mod 16" by (rule mod_mod_cancel) simp
    also have "(DealPtr u + (RemainPack u + 1) mod 16) mod 16 = Suc (DealPtr u + RemainPack u) mod 16"
      by (subst mod_add_right_eq) simp
    finally show ?thesis unfolding ok(3) by (simp only: mod_Suc_eq)
  qed
  have "DealPtr (usb_step (Out1 p) u) = DealPtr u" "RemainPack (usb_step (Out1 p) u) = (RemainPack u + 1) mod 256"
    "LoadPtr (usb_step (Out1 p) u) = Suc (LoadPtr u) mod 16" "UEP1_DMA (usb_step (Out1 p) u) = Suc (LoadPtr u) mod 16 * 64"
    "length (PackLen (usb_step (Out1 p) u)) = 16" "length (Data_Buffer (usb_step (Out1 p) u)) = 1024"
    unfolding v using l ok assms(2) by (auto simp: isr_out_ep1_def Let_def w_def RING_BLKS_def RING_REMINE_def PACK_SIZE_def)
  moreover have "Suc (LoadPtr u) mod 16 * 64 + 64 \<le> 1024"
    using mod_less_divisor [of 16 "Suc (LoadPtr u)"] by linarith
  ultimately show ?thesis using ok(1) n by (simp add: ring_safe_def)
qed (use assms(1) in simp)

lemma drop_safe:
  assumes "ring_safe u" "0 < RemainPack u"
  shows "ring_safe (ring_drop u)"
proof -
  obtain n where n: "RemainPack u = Suc n" using assms(2) by (cases "RemainPack u") auto
  have "DealPtr (ring_drop u) = Suc (DealPtr u) mod 16" "RemainPack (ring_drop u) = n"
    "LoadPtr (ring_drop u) = LoadPtr u" "UEP1_DMA (ring_drop u) = UEP1_DMA u"
    "Data_Buffer (ring_drop u) = Data_Buffer u" "PackLen (ring_drop u) = PackLen u"
    using assms(1) n by (auto simp: ring_drop_def Let_def RING_BLKS_def ring_safe_def mod_if)
  moreover have "(Suc (DealPtr u) mod 16 + n) mod 16 = (DealPtr u + Suc n) mod 16" by (simp add: mod_add_left_eq)
  ultimately show ?thesis using assms(1) n by (auto simp: ring_safe_def)
qed

lemma restart_safe: "ring_safe u \<Longrightarrow> ring_safe (ring_restart u)"
  by (auto simp: ring_restart_def ring_safe_def)

text \<open>
  Runs of the ring: bus events that \<open>P\<close> admits, packets taken by the main loop, restarts. \<open>any_event\<close> admits every
  event, with packets no longer than the endpoint's and setup packets of eight bytes; \<open>tame\<close> admits a bus reset only
  while the next block to fill is block 0 and less than twelve packets are pending, as at the enumeration after
  start-up, and a CLEAR_FEATURE request only while less than twelve are pending.
\<close>

inductive usb_run :: "(usb_event \<Rightarrow> usb \<Rightarrow> bool) \<Rightarrow> usb \<Rightarrow> usb \<Rightarrow> bool" for P u0 where
  start: "usb_run P u0 u0"
| bus: "usb_run P u0 u \<Longrightarrow> P ev u \<Longrightarrow> usb_run P u0 (usb_step ev u)"
| take_pkt: "usb_run P u0 u \<Longrightarrow> 0 < RemainPack u \<Longrightarrow> usb_run P u0 (ring_drop u)"
| restart: "usb_run P u0 u \<Longrightarrow> usb_run P u0 (ring_restart u)"

fun any_event :: "usb_event \<Rightarrow> usb \<Rightarrow> bool" where
  "any_event (Out1 p) u = (length p \<le> 64)"
| "any_event (Setup b) u = (length b = 8)"
| "any_event _ u = True"

fun tame :: "usb_event \<Rightarrow> usb \<Rightarrow> bool" where
  "tame (Out1 p) u = (length p \<le> 64)"
| "tame (Setup b) u = (length b = 8 \<and> (b ! 1 = 0x01 \<longrightarrow> RemainPack u < 12))"
| "tame Reset u = (LoadPtr u = 0 \<and> RemainPack u < 12)"
| "tame _ u = True"

lemma step_safe:
  assumes "ring_safe u" "any_event ev u"
  shows "ring_safe (usb_step ev u)"
proof (cases ev)
  case (Out1 p)
  then show ?thesis using out1_safe [OF assms(1)] assms(2) by simp
next
  case (Setup b)
  then have "length b = 8" using assms(2) by simp
  then have "ring_rest (usb_step (Setup b) u) = ring_rest u" using setup_ctrl [of b u] unfolding ctrl_change_def by blast
  then show ?thesis unfolding Setup by (rule ring_rest_safe [THEN iffD2]) (rule assms(1))
next
  case Reset
  have "UEP1_DMA (usb_step Reset u) = 0" "ring_safe (usb_step Reset u)"
    using reset_ring(1) [of u] assms(1) unfolding ring_rest_def ring_part_def ring_safe_def prod.inject snd_conv
    by (simp_all del: usb_step.simps)
  then show ?thesis using Reset by simp
qed (use ring_rest_safe [OF conjunct1 [OF part_rest [OF transfer_frame [of ev u]]]] assms in simp_all)

lemma step_ok:
  assumes "ring_ok u" "tame ev u"
  shows "ring_ok (usb_step ev u)"
proof (cases ev)
  case (Out1 p)
  then show ?thesis using ring.push_ok [OF assms(1)] assms(2) by simp
next
  case (Setup b)
  then have "ctrl_change (b ! 1 = 0x01) u (usb_step (Setup b) u)" using setup_ctrl assms(2) by simp
  moreover have "R_RES_STALL \<noteq> R_RES_ACK" by (simp add: res_defs)
  ultimately show ?thesis using assms Setup
    by (auto simp: ctrl_change_def ring_rest_def ring_part_def ring_ok_def simp del: usb_step.simps)
next
  case Reset
  then show ?thesis using reset_ring [of u] assms
    by (auto simp: ring_rest_def ring_part_def ring_ok_def simp del: usb_step.simps)
qed (use ring_part_ok [OF transfer_frame [of ev u]] assms in simp_all)

lemma usb_run_safe: "usb_run any_event u0 u \<Longrightarrow> ring_safe u0 \<Longrightarrow> ring_safe u"
  by (induction rule: usb_run.induct) (simp_all add: step_safe drop_safe restart_safe del: usb_step.simps)

lemma usb_run_ok: "usb_run tame u0 u \<Longrightarrow> ring_ok u0 \<Longrightarrow> ring_ok u"
  by (induction rule: usb_run.induct) (simp_all add: step_ok drop_effect restart_effect del: usb_step.simps)

section \<open>Descriptor requests\<close>

definition descriptor_for :: "nat \<Rightarrow> nat \<Rightarrow> nat \<Rightarrow> u8 list option" where
  "descriptor_for ty ix index =
    (if ty = 1 then Some MyDevDescr else if ty = 2 then Some MyCfgDescr
     else if ty = 3 then (if ix < 4 then Some ([MyLangDescr, MyManuInfo, MyProdInfo, MySerNumInfo] ! ix) else None)
     else if ty = 0x21 \<and> index = 0 then Some (take 9 (drop 18 MyCfgDescr))
     else if ty = 0x22 \<and> index = 0 then Some MyHIDReportDesc
     else None)"

lemma descr_lengths [simp]:
  "length MyDevDescr = 18" "length MyCfgDescr = 41" "length MyHIDReportDesc = 34"
  "length MyLangDescr = 4" "length MyManuInfo = 14" "length MyProdInfo = 20" "length MySerNumInfo = 22"
  by (simp_all add: MyDevDescr_def MyCfgDescr_def MyHIDReportDesc_def MyLangDescr_def MyManuInfo_def
      MyProdInfo_def MySerNumInfo_def wide_def)

lemmas desc_lens = DEF_USBD_DEVICE_DESC_LEN_def DEF_USBD_CONFIG_DESC_LEN_def DEF_USBD_REPORT_DESC_LEN_def
  DEF_USBD_LANG_DESC_LEN_def DEF_USBD_MANU_DESC_LEN_def DEF_USBD_PROD_DESC_LEN_def DEF_USBD_SN_DESC_LEN_def
  DEF_USBD_UEP0_SIZE_def

lemma get_descriptor_effect:
  assumes "length (USBFS_EP0_Buf u) = 64"
  shows "case descriptor_for (USBFS_SetupReqValue u div 256) (USBFS_SetupReqValue u mod 256) (USBFS_SetupReqIndex u) of
      None \<Rightarrow> snd (setup_get_descriptor u)
    | Some d \<Rightarrow> \<not> snd (setup_get_descriptor u) \<and>
        USBFS_SetupReqLen (fst (setup_get_descriptor u)) = min (USBFS_SetupReqLen u) (length d) \<and>
        take (min (USBFS_SetupReqLen u) (length d)) (USBFS_EP0_Buf (fst (setup_get_descriptor u))) =
          take (min (USBFS_SetupReqLen u) (length d)) d \<and>
        USBFS_SetupReqType (fst (setup_get_descriptor u)) = USBFS_SetupReqType u"
proof -
  define ty where "ty = USBFS_SetupReqValue u div 256"
  define ix where "ix = USBFS_SetupReqValue u mod 256"
  consider "ty = 1" | "ty = 2" | "ty = 0x22" | "ty = 0x21"
    | "ty = 3" "ix = 0" | "ty = 3" "ix = 1" | "ty = 3" "ix = 2" | "ty = 3" "ix = 3" | "ty = 3" "4 \<le> ix"
    | "ty \<noteq> 1" "ty \<noteq> 2" "ty \<noteq> 3" "ty \<noteq> 0x21" "ty \<noteq> 0x22"
    by (cases "ty = 3") (auto, linarith)
  then show ?thesis
    unfolding descriptor_for_def setup_get_descriptor_def Let_def ty_def [symmetric] ix_def [symmetric]
    using assms
    by cases (simp_all add: desc_lens blit_def min_def)
qed

section \<open>The driver's promises\<close>

lemma boot_ring: "ring_ok usb_boot" "ring_queue usb_boot = []"
  by (simp_all add: ring_ok_def ring_queue_def usb_boot_def usb0_def USBFS_Device_Init_def
      USBFS_Device_Endp_Init_def Let_def res_defs)

text \<open>C31: the endpoint-1 ring is a first-in first-out queue.  When the endpoint acknowledges a
  packet, the consumer finds exactly its bytes and its length after it has taken the packets that
  were pending before, whatever their number; a packet is refused (and nothing changes) only while
  the endpoint answers NAK, which the invariant guarantees before the ring could overflow.\<close>

theorem ring_is_fifo:
  assumes "ring_ok u" "length p \<le> 64"
  shows "(if UEP1_CTRL_H u AND R_RES_MASK = R_RES_ACK
      then RemainPack u < 12 \<and> ring_ok (usb_step (Out1 p) u) \<and>
        carries p (ring_pkt ((ring_drop ^^ length (ring_queue u)) (usb_step (Out1 p) u)))
      else usb_step (Out1 p) u = u)"
proof (cases "UEP1_CTRL_H u AND R_RES_MASK = R_RES_ACK")
  case True
  then have "RemainPack u < 12" using assms(1) by (simp add: ring_ok_def)
  then show ?thesis
    using True ring.push_ok [OF assms] ring.push_then_drain [OF assms True]
    by (simp del: usb_step.simps)
next
  case False
  then show ?thesis by simp
qed

theorem ring_is_fifo_witness:
  "ring_ok usb_boot \<and> carries [1, 2, 3] (ring_pkt (usb_step (Out1 [1, 2, 3]) usb_boot))"
proof -
  have "UEP1_CTRL_H usb_boot AND R_RES_MASK = R_RES_ACK"
    by (simp add: usb_boot_def USBFS_Device_Init_def USBFS_Device_Endp_Init_def Let_def res_defs)
  then show ?thesis
    using ring_is_fifo [OF boot_ring(1), of "[1, 2, 3]"] boot_ring by (simp del: usb_step.simps)
qed

lemma boot_safe: "ring_safe usb_boot"
  by (simp add: ring_safe_def usb_boot_def usb0_def USBFS_Device_Init_def USBFS_Device_Endp_Init_def Let_def)

text \<open>C32: from initialisation on, in every interleaving of bus events, packet removals and restarts, bus
  resets and feature requests included, the indices of the ring agree and the DMA address lies in the ring, so a
  packet never overwrites other memory.  The address is that of the next block to fill, the flow control agrees with
  the indices and no more than twelve packets are pending, as long as bus resets come only while the next block to
  fill is block 0 and less than twelve packets are pending, and CLEAR_FEATURE requests only while less than twelve
  are.  Without that restriction it fails: \<open>bus_reset_misplaces_packet\<close>.\<close>

theorem ring_invariant:
  "(usb_run any_event usb_boot u \<longrightarrow> ring_safe u) \<and>
   (usb_run tame usb_boot u \<longrightarrow> ring_ok u \<and> length (ring_queue u) \<le> 12)"
  using usb_run_safe [OF _ boot_safe, of u] usb_run_ok [OF _ boot_ring(1), of u]
  by (auto simp: ring_queue_def) (simp add: ring_ok_def)

theorem ring_invariant_witness:
  "ring_ok (ring_restart (usb_step (Out1 [7]) (usb_step Reset usb_boot))) \<and>
   ring_safe (usb_step Reset (usb_step (Out1 [7]) usb_boot))"
proof
  have "LoadPtr usb_boot = 0 \<and> RemainPack usb_boot < 12"
    by (simp add: usb_boot_def usb0_def USBFS_Device_Init_def USBFS_Device_Endp_Init_def Let_def)
  then show "ring_ok (ring_restart (usb_step (Out1 [7]) (usb_step Reset usb_boot)))"
    by (intro ring_invariant [THEN conjunct2, THEN mp, THEN conjunct1] usb_run.intros) simp_all
  show "ring_safe (usb_step Reset (usb_step (Out1 [7]) usb_boot))"
    by (intro ring_invariant [THEN conjunct1, THEN mp] usb_run.intros) simp_all
qed

text \<open>A GET_DESCRIPTOR request is answered from the table it names: the first packet holds
  the beginning of the table, its length the smallest of the requested length, the table's length
  and the packet size; a request for a descriptor that does not exist is stalled.\<close>

theorem get_descriptor_reply:
  assumes "length (USBFS_EP0_Buf u) = 64" "length b = 8" "b ! 0 = 0x80" "b ! 1 = 0x06"
  defines "v \<equiv> usb_step (Setup b) u"
  shows "case descriptor_for (unat (b ! 3)) (unat (b ! 2)) (be16 (b ! 5) (b ! 4)) of
      None \<Rightarrow> UEP0_CTRL_H v AND T_RES_MASK = T_RES_STALL
    | Some d \<Rightarrow> UEP0_CTRL_H v AND T_RES_MASK = T_RES_ACK \<and>
        UEP0_TX_LEN v = min (be16 (b ! 7) (b ! 6)) (length d) \<and>
        take (UEP0_TX_LEN v) (USBFS_EP0_Buf v) = take (UEP0_TX_LEN v) d"
proof -
  define w where "w = setup_store (u\<lparr>USBFS_EP0_Buf := blit (USBFS_EP0_Buf u) 0 b, INT_FG := 0x02\<rparr>)"
  have nth: "blit (USBFS_EP0_Buf u) 0 b ! n = b ! n" if "n < 8" for n
    using that assms(1,2) by (simp add: blit_def nth_append)
  have w: "USBFS_SetupReqType w = 0x80" "USBFS_SetupReqCode w = 0x06"
    "USBFS_SetupReqLen w = be16 (b ! 7) (b ! 6)" "USBFS_SetupReqValue w = be16 (b ! 3) (b ! 2)"
    "USBFS_SetupReqIndex w = be16 (b ! 5) (b ! 4)" "length (USBFS_EP0_Buf w) = 64"
    using assms(1-4) by (simp_all add: w_def setup_store_def Let_def nth)
  have val: "USBFS_SetupReqValue w div 256 = unat (b ! 3)" "USBFS_SetupReqValue w mod 256 = unat (b ! 2)"
    using w(4) by (simp_all add: be16_nat)
  have v: "v = (setup_finish (snd (setup_get_descriptor w)) (fst (setup_get_descriptor w)))
      \<lparr>INT_FG := INT_FG (setup_finish (snd (setup_get_descriptor w)) (fst (setup_get_descriptor w))) AND NOT 2\<rparr>"
    by (simp add: v_def handler_transfer isr_transfer_def isr_setup_def Let_def w_def [symmetric] w
        setup_standard_def split_beta)
  have e: "case descriptor_for (unat (b ! 3)) (unat (b ! 2)) (be16 (b ! 5) (b ! 4)) of
      None \<Rightarrow> snd (setup_get_descriptor w)
    | Some d \<Rightarrow> \<not> snd (setup_get_descriptor w) \<and>
        USBFS_SetupReqLen (fst (setup_get_descriptor w)) = min (USBFS_SetupReqLen w) (length d) \<and>
        take (min (USBFS_SetupReqLen w) (length d)) (USBFS_EP0_Buf (fst (setup_get_descriptor w))) =
          take (min (USBFS_SetupReqLen w) (length d)) d \<and>
        USBFS_SetupReqType (fst (setup_get_descriptor w)) = USBFS_SetupReqType w"
    using get_descriptor_effect [OF w(6)] by (simp add: val w(5))
  show ?thesis
  proof (cases "descriptor_for (unat (b ! 3)) (unat (b ! 2)) (be16 (b ! 5) (b ! 4))")
    case None
    with e have "snd (setup_get_descriptor w)" by simp
    then show ?thesis using None by (simp add: v setup_finish_def res_defs)
  next
    case (Some d)
    then have "length d \<le> 64" by (auto simp: descriptor_for_def nth_Cons' split: if_splits)
    with Some e show ?thesis
      by (simp add: v setup_finish_def w Let_def ack_tog)
  qed
qed

theorem get_descriptor_reply_witness:
  "UEP0_TX_LEN (usb_step (Setup [0x80, 6, 0, 1, 0, 0, 8, 0]) usb_boot) = 8"
  using get_descriptor_reply [of usb_boot "[0x80, 6, 0, 1, 0, 0, 8, 0]"]
  by (simp add: usb_boot_def usb0_def USBFS_Device_Init_def USBFS_Device_Endp_Init_def Let_def
      descriptor_for_def be16_nat del: usb_step.simps)

text \<open>A bus reset leaves the ring inconsistent.  \<open>USBFS_Device_Endp_Init\<close> points the
  DMA register at block 0 and empties nothing, while the indices keep their values: if the next
  block to fill was not block 0, the first packet after the reset is stored in block 0 but the main
  loop reads the old contents of the block at the load index, with the new packet's length.\<close>

theorem bus_reset_misplaces_packet:
  assumes "ring_ok u" "RemainPack u = 0" "LoadPtr u \<noteq> 0" "length p \<le> 64"
  defines "v \<equiv> usb_step (Out1 p) (usb_step Reset u)"
  shows "take (length p) (Data_Buffer v) = p \<and>
    ring_pkt v = (take 64 (drop (LoadPtr u * 64) (Data_Buffer u)), length p)"
proof -
  have ok: "DealPtr u < 16" "LoadPtr u = DealPtr u" "length (Data_Buffer u) = 1024" "length (PackLen u) = 16"
    using assms(1,2) by (simp_all add: ring_ok_def)
  define w where "w = usb_step Reset u"
  have w: "UEP1_CTRL_H w = R_RES_ACK" "UEP1_DMA w = 0" "DealPtr w = DealPtr u" "LoadPtr w = LoadPtr u"
    "Data_Buffer w = Data_Buffer u" "PackLen w = PackLen u" "RemainPack w = 0"
    using assms(2) by (simp_all add: w_def USBFS_IRQHandler_def isr_bus_reset_def Let_def USBFS_Device_Endp_Init_def)
  have v0: "v = usb_step (Out1 p) w" unfolding v_def w_def ..
  have v: "Data_Buffer v = blit (Data_Buffer u) 0 p" "PackLen v = (PackLen u)[DealPtr u := length p]"
    "DealPtr v = DealPtr u"
    unfolding v0 using assms(4)
    by (simp_all add: w handler_transfer out1_transfer isr_out_ep1_def Let_def ok(2) res_defs)
  have "take 64 (drop (DealPtr u * 64) (blit (Data_Buffer u) 0 p)) = take 64 (drop (DealPtr u * 64) (Data_Buffer u))"
    using blit_other [of p 0 "DealPtr u" "Data_Buffer u"] assms(3,4) ok by simp
  then show ?thesis
    using ok take_drop_blit [of 0 "Data_Buffer u" p] by (simp add: v ring_pkt_def PACK_SIZE_def)
qed

theorem bus_reset_misplaces_packet_witness:
  "snd (ring_pkt (usb_step (Out1 [9]) (usb_step Reset (ring_drop (usb_step (Out1 [1, 2]) usb_boot))))) = 1 \<and>
   fst (ring_pkt (usb_step (Out1 [9]) (usb_step Reset (ring_drop (usb_step (Out1 [1, 2]) usb_boot))))) = replicate 64 0"
proof -
  have a: "UEP1_CTRL_H usb_boot AND R_RES_MASK = R_RES_ACK"
    by (simp add: usb_boot_def USBFS_Device_Init_def USBFS_Device_Endp_Init_def Let_def res_defs)
  note o = out1_effect [OF boot_ring(1) _ a, of "[1, 2]"]
  have d: "DealPtr usb_boot = 0" "RemainPack usb_boot = 0" "Data_Buffer usb_boot = replicate 1024 0"
    "LoadPtr usb_boot = 0" "UEP1_DMA usb_boot = 0"
    by (simp_all add: usb_boot_def usb0_def USBFS_Device_Init_def USBFS_Device_Endp_Init_def Let_def)
  define u where "u = ring_drop (usb_step (Out1 [1, 2]) usb_boot)"
  have "ring_ok u" unfolding u_def using o(1,4) by (intro drop_effect) (simp_all del: usb_step.simps)
  moreover have r: "RemainPack u = 0" "DealPtr u = 1"
    using o(3,4) d by (simp_all add: u_def ring_drop_def Let_def RING_BLKS_def del: usb_step.simps)
  moreover have l: "LoadPtr u = 1" using r \<open>ring_ok u\<close> by (simp add: ring_ok_def)
  moreover have "take 64 (drop 64 (Data_Buffer u)) = replicate 64 0"
    by (simp add: u_def ring_drop_def Let_def handler_transfer out1_transfer isr_out_ep1_def d a blit_def
        RING_BLKS_def)
  ultimately show ?thesis
    using bus_reset_misplaces_packet [of u "[9]"] unfolding u_def by (simp del: usb_step.simps)
qed

end
