(* ===== verification/DeviceSpec.thy ===== *)
theory DeviceSpec
  imports Device UsbSpec
begin

text \<open>
  What sending does: the frame of every bus operation, the reports a host reads while the device
  answers, and the packet format as a host decodes it.
\<close>

section \<open>What input and output leave alone\<close>

text \<open>The part of the state that belongs to the protocol, with the bus, the sensors, the random
  number generator and the cancel flag masked out.\<close>

definition core :: "dev \<Rightarrow> dev" where
  "core d = d\<lparr>bus := usb0, sent := [], slice_no := 0, adc_no := 0, tick_no := 0,
     cancel_requested := False, allocated_cid := 0, touch_adc_init_done := False, touch_baseline := 0,
     g_adc_entropy := 0, prng_state := 0, call_counter := 0\<rparr>"

lemma core_fields:
  assumes "core d' = core d"
  shows "chip d' = chip d \<and> ctap_req_buf d' = ctap_req_buf d \<and> ctap_req_len d' = ctap_req_len d \<and>
    ctap_expected_len d' = ctap_expected_len d \<and> ctap_seq d' = ctap_seq d \<and> ctap_cid d' = ctap_cid d \<and>
    ctap_cmd d' = ctap_cmd d \<and> g_current_cid d' = g_current_cid d \<and>
    g_enum_rp_idx d' = g_enum_rp_idx d \<and> g_enum_cred_idx d' = g_enum_cred_idx d \<and>
    g_enum_rp_hash d' = g_enum_rp_hash d \<and> g_ga_rp_hash d' = g_ga_rp_hash d \<and>
    g_ga_count d' = g_ga_count d \<and> g_ga_idx d' = g_ga_idx d \<and> g_ga_cdh d' = g_ga_cdh d \<and>
    pin_shared_secret d' = pin_shared_secret d \<and> hmac_key d' = hmac_key d \<and>
    active_pin_protocol d' = active_pin_protocol d \<and> g_pin_debug d' = g_pin_debug d \<and>
    pin_token d' = pin_token d \<and> pin_token_len d' = pin_token_len d \<and> has_pin_token d' = has_pin_token d \<and>
    ecdh_private_key d' = ecdh_private_key d \<and> ecdh_public_key d' = ecdh_public_key d \<and>
    ecdh_key_valid d' = ecdh_key_valid d"
proof -
  have f: "chip (core x) = chip x" "ctap_req_buf (core x) = ctap_req_buf x" "ctap_req_len (core x) = ctap_req_len x"
    "ctap_expected_len (core x) = ctap_expected_len x" "ctap_seq (core x) = ctap_seq x" "ctap_cid (core x) = ctap_cid x"
    "ctap_cmd (core x) = ctap_cmd x" "g_current_cid (core x) = g_current_cid x"
    "g_enum_rp_idx (core x) = g_enum_rp_idx x" "g_enum_cred_idx (core x) = g_enum_cred_idx x"
    "g_enum_rp_hash (core x) = g_enum_rp_hash x" "g_ga_rp_hash (core x) = g_ga_rp_hash x"
    "g_ga_count (core x) = g_ga_count x" "g_ga_idx (core x) = g_ga_idx x" "g_ga_cdh (core x) = g_ga_cdh x"
    "pin_shared_secret (core x) = pin_shared_secret x" "hmac_key (core x) = hmac_key x"
    "active_pin_protocol (core x) = active_pin_protocol x" "g_pin_debug (core x) = g_pin_debug x"
    "pin_token (core x) = pin_token x" "pin_token_len (core x) = pin_token_len x" "has_pin_token (core x) = has_pin_token x"
    "ecdh_private_key (core x) = ecdh_private_key x" "ecdh_public_key (core x) = ecdh_public_key x"
    "ecdh_key_valid (core x) = ecdh_key_valid x" for x
    by (simp_all add: core_def)
  show ?thesis using assms by (metis f)
qed

lemma core_update [frame_simps]:
  "core (d\<lparr>bus := b\<rparr>) = core d" "core (d\<lparr>sent := l\<rparr>) = core d" "core (d\<lparr>slice_no := n\<rparr>) = core d"
  "core (d\<lparr>adc_no := n\<rparr>) = core d" "core (d\<lparr>tick_no := n\<rparr>) = core d"
  "core (d\<lparr>cancel_requested := c\<rparr>) = core d" "core (d\<lparr>allocated_cid := x\<rparr>) = core d"
  "core (d\<lparr>touch_adc_init_done := c\<rparr>) = core d" "core (d\<lparr>touch_baseline := x\<rparr>) = core d"
  "core (d\<lparr>g_adc_entropy := x\<rparr>) = core d" "core (d\<lparr>prng_state := x\<rparr>) = core d"
  "core (d\<lparr>call_counter := x\<rparr>) = core d"
  by (simp_all add: core_def)

text \<open>The same without what sending and the out-of-band commands change: the bus, the cancel flag and
  the allocated channel.\<close>

definition inner :: "dev \<Rightarrow> dev" where
  "inner d = d\<lparr>bus := usb0, sent := [], slice_no := 0, cancel_requested := False, allocated_cid := 0\<rparr>"

lemma inner_core: "inner d' = inner d \<Longrightarrow> core d' = core d"
proof -
  have "core x = core (inner x)" for x by (simp add: core_def inner_def)
  then show "inner d' = inner d \<Longrightarrow> core d' = core d" by metis
qed

lemma inner_fields:
  assumes "inner d' = inner d"
  shows "adc_no d' = adc_no d \<and> tick_no d' = tick_no d \<and> touch_adc_init_done d' = touch_adc_init_done d \<and>
    touch_baseline d' = touch_baseline d \<and> g_adc_entropy d' = g_adc_entropy d \<and>
    prng_state d' = prng_state d \<and> call_counter d' = call_counter d"
proof -
  have f: "adc_no (inner x) = adc_no x" "tick_no (inner x) = tick_no x"
    "touch_adc_init_done (inner x) = touch_adc_init_done x" "touch_baseline (inner x) = touch_baseline x"
    "g_adc_entropy (inner x) = g_adc_entropy x" "prng_state (inner x) = prng_state x"
    "call_counter (inner x) = call_counter x" for x
    by (simp_all add: inner_def)
  show ?thesis using assms by (metis f)
qed

lemma inner_set_bus [frame_simps]: "inner (set_bus f d) = inner d"
  by (simp add: inner_def set_bus_def)

lemma inner_update [frame_simps]:
  "inner (d\<lparr>bus := b\<rparr>) = inner d" "inner (d\<lparr>sent := l\<rparr>) = inner d" "inner (d\<lparr>slice_no := n\<rparr>) = inner d"
  "inner (d\<lparr>cancel_requested := c\<rparr>) = inner d" "inner (d\<lparr>allocated_cid := x\<rparr>) = inner d"
  by (simp_all add: inner_def)

lemma inner_bus_event [frame_simps]: "inner (bus_event ev d) = inner d"
  by (simp add: bus_event_def Let_def frame_simps)

lemma inner_events [frame_simps]: "inner (fold bus_event evs d) = inner d"
  by (induction evs arbitrary: d) (simp_all add: frame_simps)

lemma inner_elapse [frame_simps]: "inner (elapse e d) = inner d"
  by (simp add: elapse_def frame_simps)

lemma inner_until_free [frame_simps]: "inner (events_until_free evs d) = inner d"
  by (induction evs arbitrary: d) (simp_all add: frame_simps)

lemma inner_nak [frame_simps]: "inner (ep2_nak d) = inner d"
  by (simp add: ep2_nak_def frame_simps)

lemma inner_wait [frame_simps]: "inner (snd (wait_ep2 e d)) = inner d"
  by (simp add: wait_ep2_def Let_def split_beta frame_simps)

lemma inner_ep2_send [frame_simps]: "inner (ep2_send pkt d) = inner d"
  by (simp add: ep2_send_def frame_simps)

lemma inner_keepalive [frame_simps]: "inner (fido2_send_keepalive e cid s d) = inner d"
  by (simp add: fido2_send_keepalive_def frame_simps)

lemma inner_send_cont [frame_simps]: "inner (send_cont e cid p n s off d) = inner d"
proof (induction e cid p n s off d rule: send_cont.induct)
  case (1 e cid p n s off d)
  obtain ok d' where w: "wait_ep2 e (ep2_send (cont_packet cid s p off n) d) = (ok, d')" by fastforce
  have "inner d' = inner d" using inner_wait [of e "ep2_send (cont_packet cid s p off n) d"]
    by (simp add: w frame_simps)
  then show ?case
    using "1.IH" [OF _ refl w [symmetric] refl] by (subst send_cont.simps) (simp add: w Let_def)
qed

lemma inner_send [frame_simps]: "inner (ctap_send_response e cid cmd p n d) = inner d"
proof -
  obtain ok1 d1 where w1: "wait_ep2 e d = (ok1, d1)" by fastforce
  obtain ok2 d2 where w2: "wait_ep2 e (ep2_send (init_packet cid cmd p n) d1) = (ok2, d2)" by fastforce
  have "inner d1 = inner d" using inner_wait [of e d] by (simp add: w1)
  moreover have "inner d2 = inner d1"
    using inner_wait [of e "ep2_send (init_packet cid cmd p n) d1"] by (simp add: w2 frame_simps)
  ultimately show ?thesis by (simp add: ctap_send_response_def w1 w2 frame_simps del: send_cont.simps)
qed

lemma inner_oob [frame_simps]: "inner (Process_OOB_Commands e d) = inner d"
  by (simp add: Process_OOB_Commands_def Let_def split_beta frame_simps)

lemmas core_io [frame_simps] = inner_core [OF inner_set_bus] inner_core [OF inner_bus_event]
  inner_core [OF inner_elapse] inner_core [OF inner_until_free] inner_core [OF inner_nak]
  inner_core [OF inner_wait] inner_core [OF inner_ep2_send] inner_core [OF inner_keepalive]
  inner_core [OF inner_send] inner_core [OF inner_oob]

lemmas oob_inner [simp] = inner_fields [OF inner_oob]
lemmas keepalive_inner [simp] = inner_fields [OF inner_keepalive]
lemmas elapse_inner [simp] = inner_fields [OF inner_elapse]
lemmas oob_fields [simp] = core_fields [OF inner_core [OF inner_oob]]
lemmas keepalive_fields [simp] = core_fields [OF inner_core [OF inner_keepalive]]
lemmas send_fields [simp] = core_fields [OF inner_core [OF inner_send]]
lemmas elapse_fields [simp] = core_fields [OF inner_core [OF inner_elapse]]

section \<open>Reports on endpoint 2\<close>

text \<open>The packets of a message, and the report a host would read next.\<close>

function cont_packets :: "u32 \<Rightarrow> u8 \<Rightarrow> u8 list option \<Rightarrow> nat \<Rightarrow> nat \<Rightarrow> u8 list list" where
  "cont_packets cid seq payload offset n =
    (if n \<le> offset then []
     else cont_packet cid seq payload offset n #
       cont_packets cid (seq + 1) payload (offset + (if 59 < n - offset then 59 else n - offset)) n)"
  by pat_completeness auto
termination by (relation "measure (\<lambda>(cid, s, p, off, n). n - off)") auto

declare cont_packets.simps [simp del] send_cont.simps [simp del]

definition packets :: "u32 \<Rightarrow> u8 \<Rightarrow> u8 list option \<Rightarrow> nat \<Rightarrow> u8 list list" where
  "packets cid cmd payload n =
    init_packet cid cmd payload n # cont_packets cid 0 payload (if 57 < n then 57 else n) n"

definition report :: "dev \<Rightarrow> u8 list" where
  "report d = take (UEP2_TX_LEN (bus d)) (USBFS_EP2_Buf (bus d))"

definition calm :: "env \<Rightarrow> bool" where
  "calm e \<longleftrightarrow> (\<forall>n. list_all quiet (fst (slice e n)))"

text \<open>A host that reads within every slice and in time.\<close>

definition prompt :: "env \<Rightarrow> bool" where
  "prompt e \<longleftrightarrow> (\<forall>n. In2 \<in> set (fst (slice e n)) \<and> \<not> snd (slice e n))"

definition ep2_part :: "usb \<Rightarrow> u8 \<times> nat \<times> u8 list" where
  "ep2_part u = (UEP2_CTRL_H u, UEP2_TX_LEN u, USBFS_EP2_Buf u)"

lemma ep2_frames:
  "ep2_part (isr_in_ep0 u) = ep2_part u" "ep2_part (isr_out_ep0 st u) = ep2_part u"
  "ep2_part (isr_out_ep1 n u) = ep2_part u" "ep2_part (isr_suspend st u) = ep2_part u"
  "ep2_part (u\<lparr>INT_FG := f\<rparr>) = ep2_part u" "ep2_part (u\<lparr>USBFS_EP0_Buf := b\<rparr>) = ep2_part u"
  "ep2_part (u\<lparr>Data_Buffer := x\<rparr>) = ep2_part u"
  by (simp_all add: isr_in_ep0_def isr_out_ep0_def isr_out_ep1_def isr_suspend_def Let_def ep2_part_def)

lemma ep2_setup_frames:
  "ep2_part (fst (setup_class u)) = ep2_part u" "ep2_part (fst (setup_get_descriptor u)) = ep2_part u"
  "ep2_part (fst (setup_get_status u)) = ep2_part u" "ep2_part (clip_len n u) = ep2_part u"
  "ep2_part (setup_finish err u) = ep2_part u" "ep2_part (setup_store u) = ep2_part u"
  by (simp_all add: setup_class_def setup_get_descriptor_def setup_get_status_def clip_len_def
      setup_finish_def setup_store_def Let_def split_beta ep2_part_def)

lemma ep2_standard:
  "USBFS_SetupReqCode u \<noteq> 0x01 \<Longrightarrow> USBFS_SetupReqCode u \<noteq> 0x03 \<Longrightarrow>
    ep2_part (fst (setup_standard u)) = ep2_part u"
  by (simp add: setup_standard_def Let_def ep2_setup_frames) (simp add: ep2_part_def)

lemma ep2_setup:
  assumes "USBFS_EP0_Buf u ! 1 \<noteq> 0x01" "USBFS_EP0_Buf u ! 1 \<noteq> 0x03"
  shows "ep2_part (isr_setup u) = ep2_part u"
proof -
  have "USBFS_SetupReqCode (setup_store u) = USBFS_EP0_Buf u ! 1"
    by (simp add: setup_store_def Let_def)
  then show ?thesis
    using assms by (simp add: isr_setup_def Let_def split_beta ep2_setup_frames ep2_standard)
qed

lemma ep2_quiet:
  assumes "quiet ev" "ev \<noteq> In2"
  shows "ep2_part (usb_step ev u) = ep2_part u"
proof (cases ev)
  case (Setup b)
  then have b: "length b = 8" "b ! 1 \<noteq> 0x01" "b ! 1 \<noteq> 0x03" using assms by simp_all
  have "blit (USBFS_EP0_Buf u) 0 b ! 1 = b ! 1" using b(1) by (simp add: blit_def nth_append)
  then show ?thesis
    using Setup b by (simp add: handler_transfer isr_transfer_def Let_def ep2_frames ep2_setup)
qed (use assms in \<open>simp_all add: handler_transfer isr_transfer_def Let_def ep2_frames USBFS_IRQHandler_def\<close>)

lemma ep2_in2: "UEP2_CTRL_H (usb_step In2 u) AND T_RES_MASK = T_RES_NAK"
proof -
  have "(a XOR T_TOG) AND T_RES_MASK = a AND T_RES_MASK" for a :: u8
    by (simp add: bit.conj_xor_distrib2) (simp add: res_defs)
  then show ?thesis
    by (simp add: handler_transfer isr_transfer_def isr_in_ep2_def Let_def set_t_res_and) (simp add: res_defs)
qed

text \<open>Calm events leave the armed report alone until the host reads it, once.\<close>

lemma events_effect:
  assumes "list_all quiet evs" "irq_on (chip d)" "ep2_armed d"
  defines "d' \<equiv> events_until_free evs d"
  shows "(ep2_armed d' \<and> sent d' = sent d \<and> report d' = report d \<and> In2 \<notin> set evs) \<or>
    (\<not> ep2_armed d' \<and> sent d' = sent d @ [report d] \<and> In2 \<in> set evs)"
  unfolding d'_def using assms(1-3)
proof (induction evs arbitrary: d)
  case (Cons ev evs)
  have irq: "irq_on (chip (bus_event ev d))"
    using core_fields [OF inner_core [OF inner_bus_event [of ev d]]] Cons.prems(2) by simp
  show ?case
  proof (cases "ev = In2")
    case True
    have b: "\<not> ep2_armed (bus_event ev d)" "sent (bus_event ev d) = sent d @ [report d]"
      using Cons.prems(2,3) ep2_in2 [of "bus d"] True
      by (simp_all add: bus_event_def ep2_armed_def set_bus_def report_def T_RES_NAK_def T_RES_ACK_def
          del: usb_step.simps)
    have "events_until_free evs x = x" if "\<not> ep2_armed x" for x
      using that by (cases evs) simp_all
    then show ?thesis using Cons.prems(3) b True by simp
  next
    case False
    have p: "ep2_part (bus (bus_event ev d)) = ep2_part (bus d)" "sent (bus_event ev d) = sent d"
      using False Cons.prems(1,2) ep2_quiet [of ev "bus d"]
      by (simp_all add: bus_event_def set_bus_def del: usb_step.simps)
    then have q: "ep2_armed (bus_event ev d)" "report (bus_event ev d) = report d"
      using Cons.prems(3) by (auto simp: ep2_part_def ep2_armed_def report_def)
    show ?thesis
      using Cons.IH [OF _ irq q(1)] Cons.prems(1,3) False p(2) q(2) by simp
  qed
qed simp

lemma nak_effect: "\<not> ep2_armed (ep2_nak d)" "sent (ep2_nak d) = sent d"
  by (simp_all add: ep2_nak_def ep2_armed_def set_bus_def set_t_res_and) (simp add: res_defs)

lemma wait_effect:
  assumes "calm e" "irq_on (chip d)" "wait_ep2 e d = (ok, d')"
  shows "\<not> ep2_armed d' \<and> irq_on (chip d') \<and>
    (\<exists>k. sent d' = sent d @ take k (if ep2_armed d then [report d] else []) \<and> (ok \<longrightarrow> k = 1)) \<and>
    (prompt e \<longrightarrow> ok)"
proof (cases "ep2_armed d")
  case False
  then show ?thesis using assms(2,3) by (auto simp: wait_ep2_def)
next
  case True
  obtain evs late where s: "slice e (slice_no d) = (evs, late)" by fastforce
  define x where "x = events_until_free evs (d\<lparr>slice_no := slice_no d + 1\<rparr>)"
  have q: "list_all quiet evs" using assms(1) s by (auto simp: calm_def dest: spec [of _ "slice_no d"])
  have a: "ep2_armed (d\<lparr>slice_no := slice_no d + 1\<rparr>)" using True by (simp add: ep2_armed_def)
  note ef = events_effect [OF q _ a, folded x_def]
  have r: "report (d\<lparr>slice_no := slice_no d + 1\<rparr>) = report d" by (simp add: report_def)
  have irq: "irq_on (chip x)"
    using core_fields [OF inner_core [OF inner_until_free [of evs "d\<lparr>slice_no := slice_no d + 1\<rparr>"]]] assms(2)
    by (simp add: x_def)
  have w: "(ok, d') = (if ep2_armed x \<or> late then (False, ep2_nak x) else (True, x))"
    using assms(3) [symmetric] True by (simp add: wait_ep2_def s x_def Let_def)
  have irq': "irq_on (chip (ep2_nak x))" using core_fields [OF inner_core [OF inner_nak [of x]]] irq by simp
  have pr: "prompt e \<Longrightarrow> In2 \<in> set evs \<and> \<not> late"
    using s by (auto simp: prompt_def dest: spec [of _ "slice_no d"])
  from ef assms(2) consider
      "ep2_armed x" "sent x = sent d" "In2 \<notin> set evs" | "\<not> ep2_armed x" "sent x = sent d @ [report d]"
    by (auto simp: r [simplified])
  then show ?thesis
  proof cases
    case 1
    then have "ok = False" "d' = ep2_nak x" using w by simp_all
    then show ?thesis using 1 irq' pr True by (auto simp: nak_effect intro: exI [of _ 0])
  next
    case 2
    then have "ok = (\<not> late)" "d' = (if late then ep2_nak x else x)" using w by (auto split: if_splits)
    then show ?thesis using 2 irq irq' pr True by (auto simp: nak_effect intro!: exI [of _ 1])
  qed
qed

lemma ep2_send_effect:
  "length pkt = 64 \<Longrightarrow> ep2_armed (ep2_send pkt d) \<and> report (ep2_send pkt d) = pkt \<and>
    sent (ep2_send pkt d) = sent d \<and> chip (ep2_send pkt d) = chip d"
  by (simp add: ep2_send_def ep2_armed_def report_def set_bus_def set_t_res_and) (simp add: T_RES_ACK_def)

lemma length_cont_packet [simp]: "length (cont_packet cid s p off n) = 64"
  by (auto simp: cont_packet_def Let_def min_def split: option.splits)

lemma length_init_packet [simp]: "length (init_packet cid cmd p n) = 64"
  by (auto simp: init_packet_def Let_def min_def split: option.splits)

lemma send_wait_effect:
  assumes "calm e" "irq_on (chip d)" "length pkt = 64" "wait_ep2 e (ep2_send pkt d) = (ok, d')"
  shows "irq_on (chip d') \<and> (\<exists>k \<le> 1. sent d' = sent d @ take k [pkt] \<and> (ok \<longrightarrow> k = 1)) \<and> (prompt e \<longrightarrow> ok)"
proof -
  note s = ep2_send_effect [OF assms(3), of d]
  have "irq_on (chip (ep2_send pkt d))" using s assms(2) by simp
  from wait_effect [OF assms(1) this assms(4)] s obtain k where
    "irq_on (chip d')" "sent d' = sent d @ take k [pkt]" "ok \<longrightarrow> k = 1" "prompt e \<longrightarrow> ok" by auto
  then show ?thesis by (intro conjI exI [of _ "min k 1"]) (auto simp: take_Cons' min_def)
qed

lemma send_cont_effect:
  "calm e \<Longrightarrow> irq_on (chip d) \<Longrightarrow>
    \<exists>k. sent (send_cont e cid p n s off d) = sent d @ take k (cont_packets cid s p off n) \<and>
      (prompt e \<longrightarrow> length (cont_packets cid s p off n) \<le> k)"
proof (induction e cid p n s off d rule: send_cont.induct)
  case (1 e cid p n s off d)
  show ?case
  proof (cases "n \<le> off")
    case True
    then show ?thesis by (simp add: send_cont.simps [of e cid p n s off d] cont_packets.simps [of cid s p off n])
  next
    case False
    let ?pkt = "cont_packet cid s p off n"
    obtain ok d' where w: "wait_ep2 e (ep2_send ?pkt d) = (ok, d')" by fastforce
    from send_wait_effect [OF "1.prems" length_cont_packet w] obtain k where
      k: "irq_on (chip d')" "k \<le> 1" "sent d' = sent d @ take k [?pkt]" "ok \<longrightarrow> k = 1" "prompt e \<longrightarrow> ok" by auto
    define c where "c = (if 59 < n - off then 59 else n - off)"
    have cp: "cont_packets cid s p off n = ?pkt # cont_packets cid (s + 1) p (off + c) n"
      using False by (subst cont_packets.simps) (simp add: c_def)
    have sc: "send_cont e cid p n s off d = (if ok then send_cont e cid p n (s + 1) (off + c) d' else d')"
      using False by (subst send_cont.simps) (simp add: w c_def)
    show ?thesis
    proof (cases ok)
      case True
      from "1.IH" [OF False c_def refl w [symmetric] True "1.prems"(1) k(1)] obtain j where
        j: "sent (send_cont e cid p n (s + 1) (off + c) d') = sent d' @ take j (cont_packets cid (s + 1) p (off + c) n)"
        "prompt e \<longrightarrow> length (cont_packets cid (s + 1) p (off + c) n) \<le> j" by auto
      then show ?thesis using True k by (intro exI [of _ "Suc j"]) (simp add: sc cp)
    next
      case no: False
      then show ?thesis using k by (intro exI [of _ k]) (cases k; simp add: sc cp)
    qed
  qed
qed

lemma send_exact:
  assumes "calm e" "irq_on (chip d)"
  shows "\<exists>j k. sent (ctap_send_response e cid cmd payload n d) =
      sent d @ take j (if ep2_armed d then [report d] else []) @ take k (packets cid cmd payload n) \<and>
    (0 < k \<and> ep2_armed d \<longrightarrow> j = 1) \<and> (prompt e \<longrightarrow> j = 1 \<and> length (packets cid cmd payload n) \<le> k)"
proof -
  let ?pend = "if ep2_armed d then [report d] else []"
  let ?pkt = "init_packet cid cmd payload n"
  obtain ok1 d1 where w1: "wait_ep2 e d = (ok1, d1)" by fastforce
  from wait_effect [OF assms w1] obtain j where
    j: "irq_on (chip d1)" "sent d1 = sent d @ take j ?pend" "ok1 \<longrightarrow> j = 1" "prompt e \<longrightarrow> ok1" by auto
  show ?thesis
  proof (cases ok1)
    case False
    then have "ctap_send_response e cid cmd payload n d = d1" by (simp add: ctap_send_response_def w1)
    then show ?thesis using j False by (intro exI [of _ j] exI [of _ 0]) simp
  next
    case True
    obtain ok2 d2 where w2: "wait_ep2 e (ep2_send ?pkt d1) = (ok2, d2)" by fastforce
    from send_wait_effect [OF assms(1) j(1) length_init_packet w2] obtain k where
      k: "irq_on (chip d2)" "k \<le> 1" "sent d2 = sent d1 @ take k [?pkt]" "ok2 \<longrightarrow> k = 1" "prompt e \<longrightarrow> ok2" by auto
    show ?thesis
    proof (cases ok2)
      case False
      then have "ctap_send_response e cid cmd payload n d = d2"
        using True by (simp add: ctap_send_response_def w1 w2)
      then show ?thesis using j k True False
        by (intro exI [of _ j] exI [of _ k]) (cases k; simp add: packets_def)
    next
      case t2: True
      let ?off = "if 57 < n then 57 else n"
      from send_cont_effect [OF assms(1) k(1), of cid payload n 0 ?off] obtain i where
        i: "sent (send_cont e cid payload n 0 ?off d2) = sent d2 @ take i (cont_packets cid 0 payload ?off n)"
        "prompt e \<longrightarrow> length (cont_packets cid 0 payload ?off n) \<le> i" by auto
      then show ?thesis using True t2 j k
        by (intro exI [of _ j] exI [of _ "Suc i"]) (simp add: ctap_send_response_def w1 w2 packets_def)
    qed
  qed
qed

text \<open>C30: while \<open>ctap_send_response\<close> runs, the host reads first the report that was still armed (if
  any), then the packets of the message in order, each once and unaltered, up to the point where it
  stops reading; nothing else is ever sent, and a host that keeps reading gets the whole message.
  (Interrupts on; no bus reset or endpoint feature request meanwhile.)\<close>

theorem send_response_exact:
  assumes "calm e" "irq_on (chip d)"
  shows "\<exists>j k. sent (ctap_send_response e cid cmd payload n d) =
      sent d @ take j (if ep2_armed d then [report d] else []) @ take k (packets cid cmd payload n) \<and>
    (0 < k \<and> ep2_armed d \<longrightarrow> j = 1) \<and> (prompt e \<longrightarrow> j = 1 \<and> length (packets cid cmd payload n) \<le> k)"
  by (rule send_exact [OF assms])

lemma pkt_cid_be32: "take 4 p = be32_bytes cid \<Longrightarrow> pkt_cid p = cid"
proof -
  assume a: "take 4 p = be32_bytes cid"
  have "p ! i = be32_bytes cid ! i" if "i < 4" for i
    using that by (simp flip: a)
  from this [of 0] this [of 1] this [of 2] this [of 3] show ?thesis
    by (simp add: pkt_cid_def be32_bytes_def be32_of_bytes)
qed

definition quiet_env :: env where
  "quiet_env = \<lparr>slice = (\<lambda>_. ([In2], False)), adc = (\<lambda>_. 1000), systick = of_nat, adj = (\<lambda>_. 0), stk = 16,
     junk = (\<lambda>_. None), ecc_make_key = (\<lambda>r. (map r [0..<64], map r [64..<96], 96, 1)),
     ecc_sign = (\<lambda>k h r. (replicate 64 1, 32, 1)), ecc_shared_secret = (\<lambda>p k r. (take 32 p, 0, 1))\<rparr>"

lemma quiet_env: "calm quiet_env" "prompt quiet_env"
  by (simp_all add: quiet_env_def calm_def prompt_def)

lemma irq_dev0 [simp]: "chip (dev0 h) = h" "bus (dev0 h) = usb_boot" "sent (dev0 h) = []"
  by (simp_all add: dev0_def)

lemma dev0_not_armed: "\<not> ep2_armed (dev0 h)"
  by (simp add: ep2_armed_def usb_boot_def USBFS_Device_Init_def USBFS_Device_Endp_Init_def Let_def res_defs)

lemma send_response_exact_witness:
  "sent (ctap_send_response quiet_env 1 0x90 (Some [0]) 1 (dev0 \<lparr>fmem = (\<lambda>_. 0), flash_locked = True, irq_on = True\<rparr>)) =
    [init_packet 1 0x90 (Some [0]) 1]"
  using send_response_exact [OF quiet_env(1), of "dev0 \<lparr>fmem = (\<lambda>_. 0), flash_locked = True, irq_on = True\<rparr>"
      1 "0x90" "Some [0]" 1]
  by (auto simp: quiet_env dev0_not_armed packets_def cont_packets.simps [of 1 0 "Some [0]" "Suc 0" "Suc 0"])

section \<open>The packet format\<close>

text \<open>How a host puts a message together again.\<close>

fun host_collect :: "u32 \<Rightarrow> nat \<Rightarrow> nat \<Rightarrow> u8 list list \<Rightarrow> u8 list option" where
  "host_collect cid seq n [] = (if n = 0 then Some [] else None)"
| "host_collect cid seq n (p # ps) =
    (if n = 0 \<or> pkt_cid p \<noteq> cid \<or> unat (p ! 4) \<noteq> seq \<or> 128 \<le> seq then None
     else map_option ((@) (take (min 59 n) (drop 5 p))) (host_collect cid (seq + 1) (n - 59) ps))"

fun host_message :: "u8 list list \<Rightarrow> (u32 \<times> u8 \<times> u8 list) option" where
  "host_message [] = None"
| "host_message (p # ps) =
    (let n = be16 (p ! 5) (p ! 6)
     in map_option (\<lambda>r. (pkt_cid p, p ! 4, take (min 57 n) (drop 7 p) @ r))
          (host_collect (pkt_cid p) 0 (n - 57) ps))"

lemma cont_packet_fields:
  fixes cid s
  assumes "off \<le> length p"
  defines "q \<equiv> cont_packet cid s (Some p) off (length p)"
  shows "pkt_cid q = cid" "q ! 4 = s"
    "take (min 59 (length p - off)) (drop 5 q) = take 59 (drop off p)"
proof -
  define c where "c = min 59 (length p - off)"
  have q: "q = be32_bytes cid @ [s] @ take c (drop off p) @ replicate (59 - c) 0"
    by (simp add: q_def cont_packet_def Let_def blit_def c_def min_def)
  show "pkt_cid q = cid" by (rule pkt_cid_be32) (simp add: q)
  show "q ! 4 = s" by (simp add: q nth_append)
  have "length (take c (drop off p)) = c" by (simp add: c_def)
  then have "take c (drop 5 q) = take c (drop off p)" by (simp add: q)
  also have "\<dots> = take 59 (drop off p)" by (simp add: c_def min_def)
  finally show "take (min 59 (length p - off)) (drop 5 q) = take 59 (drop off p)" by (simp add: c_def)
qed

lemma collect_packets:
  "off \<le> length p \<Longrightarrow> length p - off \<le> 59 * (128 - s) \<Longrightarrow> s \<le> 128 \<Longrightarrow>
    host_collect cid s (length p - off) (cont_packets cid (word_of_nat s) (Some p) off (length p)) = Some (drop off p)"
proof (induction "length p - off" arbitrary: off s rule: less_induct)
  case less
  show ?case
  proof (cases "length p \<le> off")
    case True
    then show ?thesis by (subst cont_packets.simps) simp
  next
    case False
    define c where "c = (if 59 < length p - off then 59 else length p - off)"
    have s: "s < 128" using less.prems False by (cases "s = 128") auto
    have cp: "cont_packets cid (word_of_nat s) (Some p) off (length p) =
        cont_packet cid (word_of_nat s) (Some p) off (length p) #
        cont_packets cid (word_of_nat (s + 1)) (Some p) (off + c) (length p)"
      using False by (subst cont_packets.simps) (simp add: c_def add.commute)
    have c: "0 < c" "off + c \<le> length p" using False by (auto simp: c_def)
    have "length p - (off + c) \<le> 59 * (128 - (s + 1))"
      using less.prems s by (auto simp: c_def)
    then have IH: "host_collect cid (s + 1) (length p - (off + c))
        (cont_packets cid (word_of_nat (s + 1)) (Some p) (off + c) (length p)) = Some (drop (off + c) p)"
      using less.hyps [of "off + c" "s + 1"] c s by simp
    have n: "length p - off - 59 = length p - (off + c)" by (auto simp: c_def)
    have u: "unat (word_of_nat s :: u8) = s" using s by (simp add: unat_of_nat)
    have "take 59 (drop off p) @ drop (off + c) p = drop off p"
    proof (cases "59 < length p - off")
      case True
      then show ?thesis by (simp add: c_def) (metis add.commute append_take_drop_id drop_drop)
    next
      case f: False
      then show ?thesis using False by (simp add: c_def)
    qed
    note join = this
    note f = cont_packet_fields [OF less.prems(1), of cid "word_of_nat s"]
    have "host_collect cid s (length p - off) (cont_packets cid (word_of_nat s) (Some p) off (length p)) =
        map_option ((@) (take 59 (drop off p)))
          (host_collect cid (s + 1) (length p - off - 59)
             (cont_packets cid (word_of_nat (s + 1)) (Some p) (off + c) (length p)))"
      using False s unfolding cp host_collect.simps by (simp only: f u) simp
    then show ?thesis unfolding n IH using join by simp
  qed
qed

lemma init_packet_fields:
  fixes cid cmd
  assumes "length p < 65536"
  defines "q \<equiv> init_packet cid cmd (Some p) (length p)"
  shows "pkt_cid q = cid" "q ! 4 = cmd" "be16 (q ! 5) (q ! 6) = length p"
    "take (min 57 (length p)) (drop 7 q) = take (min 57 (length p)) p"
proof -
  define c where "c = min 57 (length p)"
  have q: "q = be32_bytes cid @ [cmd, word_of_nat (length p div 256), word_of_nat (length p mod 256)] @
      take c p @ replicate (57 - c) 0"
    by (simp add: q_def init_packet_def Let_def blit_def c_def min_def)
  show "pkt_cid q = cid" by (rule pkt_cid_be32) (simp add: q)
  show "q ! 4 = cmd" by (simp add: q nth_append)
  have hd: "q ! 5 = word_of_nat (length p div 256)" "q ! 6 = word_of_nat (length p mod 256)"
    by (simp_all add: q nth_append)
  have "length p div 256 < 256" using assms(1) by simp
  then show "be16 (q ! 5) (q ! 6) = length p" by (simp add: hd be16_nat unat_of_nat)
  have "length (take c p) = c" by (simp add: c_def)
  then have "take c (drop 7 q) = take c p" by (simp add: q)
  then show "take (min 57 (length p)) (drop 7 q) = take (min 57 (length p)) p" by (simp add: c_def)
qed

text \<open>The packets the device sends for a message carry exactly that message: a host that
  follows the format recovers the channel, the command and the payload, for every payload the
  format can carry (7609 bytes, 128 continuation packets).\<close>

theorem packets_decode:
  assumes "length p \<le> 7609"
  shows "host_message (packets cid cmd (Some p) (length p)) = Some (cid, cmd, p)"
proof -
  define q where "q = init_packet cid cmd (Some p) (length p)"
  note f = init_packet_fields [of p cid cmd, folded q_def]
  have q: "pkt_cid q = cid" "q ! 4 = cmd" "be16 (q ! 5) (q ! 6) = length p"
    "take (min 57 (length p)) (drop 7 q) = take 57 p"
    using f assms by (simp_all add: min_def)
  have off: "length p - (if 57 < length p then 57 else length p) = length p - 57" by simp
  have "host_collect cid 0 (length p - 57)
      (cont_packets cid 0 (Some p) (if 57 < length p then 57 else length p) (length p)) = Some (drop 57 p)"
    using collect_packets [of "if 57 < length p then 57 else length p" p 0 cid] assms
    by (auto simp: off)
  then show ?thesis by (simp add: packets_def q_def [symmetric] q)
qed

lemma packets_decode_witness:
  "host_message (packets 0xCAFEBABE 0x90 (Some (replicate 300 7)) 300) = Some (0xCAFEBABE, 0x90, replicate 300 7)"
proof -
  have "length (replicate 300 (7 :: u8)) = 300" by simp
  then show ?thesis
    using packets_decode [of "replicate 300 7" "0xCAFEBABE" "0x90"] by (simp only:)
qed

end
