(* ===== verification/PresenceSpec.thy ===== *)
theory PresenceSpec
  imports Presence DeviceSpec
begin

text \<open>
  What the presence test promises: it ends, it reports success only after a sustained drop of the
  sensor below the baseline measured at its start, and it changes nothing but sensors, bus, cancel
  flag, allocated channel and the interrupt enable, which it leaves on.  And what it does not deliver: a CANCEL queued behind the request being processed
  is never seen.
\<close>

section \<open>Readings\<close>

text \<open>One reading: four conversions from the \<open>n\<close>-th on.\<close>

definition reading :: "env \<Rightarrow> nat \<Rightarrow> nat" where
  "reading e n = unat (adc e n) + unat (adc e (n + 1)) + unat (adc e (n + 2)) + unat (adc e (n + 3))"

lemma adc_bound: "unat (adc e n) < 65536"
  using unsigned_less [of "adc e n", where 'a = nat] by simp

lemma reading_bound: "reading e n < 262144"
  using adc_bound [of e n] adc_bound [of e "n + 1"] adc_bound [of e "n + 2"] adc_bound [of e "n + 3"]
  unfolding reading_def by linarith

lemma irq_simps [simp]:
  "irq_enable (irq_disable d) = irq_enable d" "irq_enable (irq_enable d) = irq_enable d"
  "irq_enable (d\<lparr>adc_no := n\<rparr>) = (irq_enable d)\<lparr>adc_no := n\<rparr>"
  "irq_enable (d\<lparr>cancel_requested := b\<rparr>) = (irq_enable d)\<lparr>cancel_requested := b\<rparr>"
  "irq_enable (d\<lparr>touch_baseline := x\<rparr>) = (irq_enable d)\<lparr>touch_baseline := x\<rparr>"
  "irq_enable (d\<lparr>touch_adc_init_done := b\<rparr>) = (irq_enable d)\<lparr>touch_adc_init_done := b\<rparr>"
  "irq_on (chip (irq_enable d))" "fmem (chip (irq_enable d)) = fmem (chip d)"
  "flash_locked (chip (irq_enable d)) = flash_locked (chip d)"
  "adc_no (irq_disable d) = adc_no d" "adc_no (irq_enable d) = adc_no d" "bus (irq_enable d) = bus d" "sent (irq_enable d) = sent d"
  "slice_no (irq_enable d) = slice_no d" "cancel_requested (irq_enable d) = cancel_requested d"
  "touch_adc_init_done (irq_enable d) = touch_adc_init_done d" "g_current_cid (irq_enable d) = g_current_cid d"
  by (simp_all add: irq_enable_def irq_disable_def)

lemma irq_enabled: "irq_on (chip d) \<Longrightarrow> irq_enable d = d"
  by (simp add: irq_enable_def)

lemma irq_core: "core d' = core d \<Longrightarrow> core (irq_enable d') = core (irq_enable d)"
proof -
  assume c: "core d' = core d"
  have "core (irq_enable x) = (core x)\<lparr>chip := (chip (core x))\<lparr>irq_on := True\<rparr>\<rparr>" for x
    by (simp add: core_def irq_enable_def)
  then show "core (irq_enable d') = core (irq_enable d)" using c by simp
qed

lemma read_adc_4:
  "read_adc e (Suc (Suc (Suc (Suc 0)))) 0 d =
    (ucast (adc e (adc_no d)) + ucast (adc e (adc_no d + 1)) + ucast (adc e (adc_no d + 2)) +
       ucast (adc e (adc_no d + 3)), (irq_enable d)\<lparr>adc_no := adc_no d + 4\<rparr>)"
  by (simp add: numeral_2_eq_2 numeral_3_eq_3 Let_def)

lemma read_touch:
  "read_touch_pa2 e d = (word_of_nat (reading e (adc_no d)), (irq_enable d)\<lparr>adc_no := adc_no d + 4\<rparr>)"
proof -
  have w: "ucast (adc e n) = (word_of_nat (unat (adc e n)) :: u32)" for n by simp
  have "(4 :: nat) = Suc (Suc (Suc (Suc 0)))" by simp
  then have "read_touch_pa2 e d = read_adc e (Suc (Suc (Suc (Suc 0)))) 0 d"
    unfolding read_touch_pa2_def by (rule arg_cong)
  then show ?thesis unfolding read_adc_4 w reading_def by (simp only: of_nat_add)
qed

lemma reading_val: "unat (word_of_nat (reading e n) :: u32) = reading e n"
  using reading_bound [of e n] by (simp add: unat_of_nat)

lemma touch_sum_val:
  "touch_sum e n acc d =
    (acc + word_of_nat (\<Sum>i < n. reading e (adc_no d + 4 * i)),
     (if n = 0 then d else irq_enable d)\<lparr>adc_no := adc_no d + 4 * n\<rparr>)"
proof (induction n arbitrary: acc d)
  case (Suc n)
  have "(\<Sum>i < Suc n. reading e (adc_no d + 4 * i)) =
      reading e (adc_no d) + (\<Sum>i < n. reading e (adc_no d + 4 + 4 * i))"
    by (simp add: sum.lessThan_Suc_shift add.assoc del: sum.lessThan_Suc)
  then show ?case by (simp add: Suc.IH read_touch add.assoc)
qed simp

text \<open>The baseline: the mean of sixteen readings.\<close>

definition baseline :: "env \<Rightarrow> nat \<Rightarrow> nat" where
  "baseline e n = (\<Sum>i < 16. reading e (n + 4 * i)) div 16"

lemma baseline_val: "unat ((word_of_nat (\<Sum>i < 16. reading e (n + 4 * i)) :: u32) div 16) = baseline e n"
proof -
  have "(\<Sum>i < 16. reading e (n + 4 * i)) \<le> (\<Sum>i < (16 :: nat). 262144)"
    using reading_bound by (intro sum_mono) (simp add: less_imp_le)
  then have "(\<Sum>i < 16. reading e (n + 4 * i)) < 2 ^ 32" by simp
  then have "unat (word_of_nat (\<Sum>i < 16. reading e (n + 4 * i)) :: u32) = (\<Sum>i < 16. reading e (n + 4 * i))"
    by (subst unat_of_nat) simp
  then show ?thesis by (simp add: unat_div baseline_def del: of_nat_sum)
qed

lemma stir_frames:
  "irq_on (chip d) \<Longrightarrow> core (stir_entropy e n d) = core d" "adc_no (stir_entropy e n d) = adc_no d + 4 * n"
  "bus (stir_entropy e n d) = bus d" "sent (stir_entropy e n d) = sent d"
  "slice_no (stir_entropy e n d) = slice_no d" "cancel_requested (stir_entropy e n d) = cancel_requested d"
  by (induction n arbitrary: d) (simp_all add: read_touch irq_enabled frame_simps)

section \<open>The loop\<close>

text \<open>A reading that counts as touched.\<close>

definition drop_at :: "env \<Rightarrow> nat \<Rightarrow> nat \<Rightarrow> bool" where
  "drop_at e base n \<longleftrightarrow> 64 < base \<and> reading e n < base - base div 4"

lemma touched_iff:
  "(64 < (b :: u32) \<and> word_of_nat (reading e n) < b - b div 4) = drop_at e (unat b) n"
proof -
  have "unat (b div 4) \<le> unat b" by (simp add: unat_div)
  then have "unat (b - b div 4) = unat b - unat b div 4"
    by (simp add: unat_sub word_le_nat_alt unat_div)
  then show ?thesis by (simp add: drop_at_def word_less_nat_alt reading_val)
qed

lemma touch_loop_step:
  "touch_loop e cid base loops c d =
    (let t = drop_at e (unat base) (adc_no d);
         c' = (if t then c + 1 else 0);
         d1 = (irq_enable d)\<lparr>adc_no := adc_no d + 4\<rparr>
     in if t \<and> 3 \<le> c' then (0x00, fido2_send_keepalive e cid 1 d1)
        else let d2 = Process_OOB_Commands e (elapse e d1)
             in if cancel_requested d2 then (0x2D, d2)
                else let d3 = (if (loops + 1) mod 4 = 0 then fido2_send_keepalive e cid 2 d2 else d2)
                     in if 300 < loops + 1 then (0x2F, d3)
                        else touch_loop e cid base (loops + 1) c' d3)"
  by (subst touch_loop.simps) (simp only: Let_def read_touch prod.case touched_iff)

text \<open>With \<open>c\<close> drops in a row behind: the loop ends within the readings left, and it ends with success
  only at the third drop in a row.\<close>

definition drops_before :: "env \<Rightarrow> nat \<Rightarrow> nat \<Rightarrow> nat \<Rightarrow> nat \<Rightarrow> bool" where
  "drops_before e base s n c \<longleftrightarrow> s + 4 * c \<le> n \<and> (\<forall>i < c. drop_at e base (n - 4 * (i + 1)))"

lemma drops_before_Suc:
  assumes "drops_before e base s n c"
  shows "drops_before e base s (n + 4) (if drop_at e base n then c + 1 else 0)"
proof (cases "drop_at e base n")
  case True
  have "drop_at e base (n + 4 - 4 * (i + 1))" if "i < c + 1" for i
    using that assms True by (cases i) (auto simp: drops_before_def)
  then show ?thesis using assms True by (simp add: drops_before_def)
next
  case False
  then show ?thesis using assms by (simp add: drops_before_def)
qed

lemma touch_loop_effect:
  fixes base :: u32
  assumes "loops \<le> 300" "c < 3" "drops_before e (unat base) s (adc_no d) c"
    "touch_loop e cid base loops c d = (r, d')" "irq_on (chip d)"
  shows "core d' = core d \<and> r \<in> {0, 0x2D, 0x2F} \<and> adc_no d' \<le> adc_no d + 4 * (301 - loops) \<and>
    (r = 0 \<longrightarrow> drops_before e (unat base) s (adc_no d') 3)"
  using assms
proof (induction "301 - loops" arbitrary: loops c d rule: less_induct)
  case less
  define t where "t = drop_at e (unat base) (adc_no d)"
  define c' where "c' = (if t then c + 1 else 0)"
  define d1 where "d1 = (irq_enable d)\<lparr>adc_no := adc_no d + 4\<rparr>"
  define d2 where "d2 = Process_OOB_Commands e (elapse e d1)"
  define d3 where "d3 = (if (loops + 1) mod 4 = 0 then fido2_send_keepalive e cid 2 d2 else d2)"
  have eq: "(r, d') = (if t \<and> 3 \<le> c' then (0x00, fido2_send_keepalive e cid 1 d1)
       else if cancel_requested d2 then (0x2D, d2)
       else if 300 < loops + 1 then (0x2F, d3)
       else touch_loop e cid base (loops + 1) c' d3)"
    using less.prems(4) [symmetric] unfolding touch_loop_step [of e cid base loops]
    by (simp only: Let_def t_def c'_def d1_def d2_def d3_def)
  have f1: "adc_no d1 = adc_no d + 4" "core d1 = core d" by (simp_all add: d1_def frame_simps irq_enabled less.prems(5))
  have f2: "adc_no d2 = adc_no d + 4" "core d2 = core d"
    using f1 by (simp_all add: d2_def frame_simps)
  have f3: "adc_no d3 = adc_no d + 4" "core d3 = core d"
    using f2 by (auto simp: d3_def frame_simps)
  have h: "drops_before e (unat base) s (adc_no d + 4) c'"
    using drops_before_Suc [OF less.prems(3)] unfolding c'_def t_def .
  consider "t" "3 \<le> c'" | "\<not> (t \<and> 3 \<le> c')" "cancel_requested d2 \<or> 300 < loops + 1"
    | "\<not> (t \<and> 3 \<le> c')" "\<not> cancel_requested d2" "\<not> 300 < loops + 1" by blast
  then show ?case
  proof cases
    case 1
    then have "r = 0" "d' = fido2_send_keepalive e cid 1 d1" "c' = 3"
      using eq less.prems(2) by (auto simp: c'_def)
    then show ?thesis using f1 h less.prems(1) by (simp add: frame_simps)
  next
    case 2
    then have "(r = 0x2D \<and> d' = d2) \<or> (r = 0x2F \<and> d' = d3)" using eq by (auto split: if_splits)
    then show ?thesis using f2 f3 less.prems(1) by auto
  next
    case 3
    then have rec: "touch_loop e cid base (loops + 1) c' d3 = (r, d')"
      using eq by (simp only: if_not_P [OF 3(1)] if_False)
    have c3: "c' < 3" using 3 by (auto simp: c'_def)
    have i3: "irq_on (chip d3)" using core_fields [OF f3(2)] less.prems(5) by simp
    have "core d' = core d3 \<and> r \<in> {0, 0x2D, 0x2F} \<and> adc_no d' \<le> adc_no d3 + 4 * (301 - (loops + 1)) \<and>
        (r = 0 \<longrightarrow> drops_before e (unat base) s (adc_no d') 3)"
      using 3 h f3(1) by (intro less.hyps [OF _ _ c3 _ rec i3]) simp_all
    then show ?thesis using f3 3 by auto
  qed
qed

text \<open>Where the calibration of a wait starts, and everything up to the loop.\<close>

definition calibration :: "dev \<Rightarrow> nat" where
  "calibration d = (if touch_adc_init_done d then adc_no d else adc_no d + 96)"

lemma init_adc_frames:
  "\<not> touch_adc_init_done d \<Longrightarrow> core (init_touch_adc e d) = core (irq_enable d) \<and> adc_no (init_touch_adc e d) = adc_no d + 96 \<and>
    cancel_requested (init_touch_adc e d) = cancel_requested d \<and> bus (init_touch_adc e d) = bus d \<and>
    sent (init_touch_adc e d) = sent d \<and> slice_no (init_touch_adc e d) = slice_no d"
  by (simp add: init_touch_adc_def touch_sum_val frame_simps)

lemma init_adc_irq: "\<not> touch_adc_init_done d \<Longrightarrow> core (irq_enable (init_touch_adc e d)) = core (irq_enable d)"
  using irq_core [of "init_touch_adc e d" "irq_enable d"] init_adc_frames by simp

definition before_loop :: "env \<Rightarrow> u32 \<Rightarrow> dev \<Rightarrow> dev" where
  "before_loop e cid d =
    (let d = d\<lparr>cancel_requested := False\<rparr>;
         d = (if \<not> touch_adc_init_done d then init_touch_adc e d else d);
         (base_sum, d) = touch_sum e 16 0 d;
         d = d\<lparr>touch_baseline := base_sum div 16\<rparr>
     in stir_entropy e 8 d)"

lemma before_loop_frames:
  "core (before_loop e cid d) = core (irq_enable d)" "adc_no (before_loop e cid d) = calibration d + 96"
  "bus (before_loop e cid d) = bus d" "sent (before_loop e cid d) = sent d"
  "slice_no (before_loop e cid d) = slice_no d" "\<not> cancel_requested (before_loop e cid d)"
  by (auto simp: before_loop_def Let_def touch_sum_val stir_frames init_adc_frames init_adc_irq calibration_def frame_simps)

lemma wait_presence:
  "\<exists>base. unat base = baseline e (calibration d) \<and>
    fido2_wait_for_user_presence e cid d =
      touch_loop e cid base 0 0 (fido2_send_keepalive e cid 2 (before_loop e cid d))"
proof -
  let ?base = "(word_of_nat (\<Sum>i < 16. reading e (calibration d + 4 * i)) :: u32) div 16"
  have "fido2_wait_for_user_presence e cid d =
      touch_loop e cid ?base 0 0 (fido2_send_keepalive e cid 2 (before_loop e cid d))"
    by (auto simp: fido2_wait_for_user_presence_def before_loop_def Let_def touch_sum_val calibration_def
        init_adc_frames simp del: of_nat_sum)
  then show ?thesis using baseline_val by blast
qed

lemma wait_presence_effect:
  assumes "fido2_wait_for_user_presence e cid d = (r, d')"
  shows "core d' = core (irq_enable d) \<and> r \<in> {0, 0x2D, 0x2F} \<and> adc_no d' \<le> adc_no d + 1396 \<and>
    (r = 0 \<longrightarrow> drops_before e (baseline e (calibration d)) (calibration d + 96) (adc_no d') 3)"
proof -
  define d1 where "d1 = fido2_send_keepalive e cid 2 (before_loop e cid d)"
  have d1: "core d1 = core (irq_enable d)" "adc_no d1 = calibration d + 96"
    by (simp_all add: d1_def frame_simps before_loop_frames)
  obtain base where b: "unat base = baseline e (calibration d)"
    "touch_loop e cid base 0 0 d1 = (r, d')"
    using wait_presence [of e d cid] assms by (auto simp: d1_def)
  have db: "drops_before e (unat base) (calibration d + 96) (adc_no d1) 0"
    by (simp add: drops_before_def d1)
  have "irq_on (chip d1)" using core_fields [OF d1(1)] by simp
  from touch_loop_effect [OF _ _ db b(2) this] show ?thesis
    using d1 b(1) by (auto simp: calibration_def split: if_splits)
qed

section \<open>A request that blocks the queue\<close>

text \<open>The commands served out of band.\<close>

definition oob_packet :: "u8 list \<times> nat \<Rightarrow> bool" where
  "oob_packet b \<longleftrightarrow> 5 \<le> snd b \<and> fst b ! 4 \<in> {0x84, 0x86, 0x88, 0x91}"

lemma oob_ignores: "\<not> oob_packet (ring_pkt (bus d)) \<Longrightarrow> Process_OOB_Commands e d = d"
  by (auto simp: Process_OOB_Commands_def oob_packet_def Let_def split_beta)

definition front :: "u8 list \<times> nat \<Rightarrow> usb \<Rightarrow> bool" where
  "front b u \<longleftrightarrow> ring_ok u \<and> 0 < RemainPack u \<and> ring_pkt u = b"

lemma ring_part_front: "ring_part u = ring_part v \<Longrightarrow> front b u = front b v"
  using ring_part_ok [of u v] by (simp add: front_def ring_pkt_def) (simp add: ring_part_def)

lemma front_step:
  assumes "front b u" "quiet ev"
  shows "front b (usb_step ev u)"
proof (cases ev)
  case (Out1 p)
  show ?thesis
  proof (cases "UEP1_CTRL_H u AND R_RES_MASK = R_RES_ACK")
    case False
    then show ?thesis using Out1 assms(1) by simp
  next
    case True
    have ok: "ring_ok u" "0 < RemainPack u" "length p \<le> 64" using assms Out1 by (simp_all add: front_def)
    note o = out1_effect [OF ok(1,3) True]
    obtain c where q: "ring_queue (usb_step (Out1 p) u) = ring_queue u @ [c]" using o(2) by blast
    have r: "0 < RemainPack (usb_step (Out1 p) u)" using o(4) by simp
    have "ring_pkt (usb_step (Out1 p) u) = hd (ring_queue (usb_step (Out1 p) u))"
      using drop_effect(2) [OF o(1) r] by simp
    also have "\<dots> = ring_pkt u" using drop_effect(2) [OF ok(1,2)] q by simp
    finally show ?thesis using Out1 o(1) r assms(1) by (simp add: front_def del: usb_step.simps)
  qed
next
  case Reset
  then show ?thesis using assms(2) by simp
qed (use assms ring_part_front [OF transfer_frame [of ev u]] in simp_all)

lemma front_event: "front b (bus d) \<Longrightarrow> quiet ev \<Longrightarrow> front b (bus (bus_event ev d))"
  using front_step [of b "bus d" ev] by (auto simp: bus_event_def Let_def set_bus_def)

lemma front_events: "front b (bus d) \<Longrightarrow> list_all quiet evs \<Longrightarrow> front b (bus (fold bus_event evs d))"
  by (induction evs arbitrary: d) (simp_all add: front_event)

lemma front_elapse: "calm e \<Longrightarrow> front b (bus d) \<Longrightarrow> front b (bus (elapse e d))"
  using front_events [of b "d\<lparr>slice_no := slice_no d + 1\<rparr>" "fst (slice e (slice_no d))"]
  by (simp add: elapse_def calm_def)

lemma front_keepalive: "calm e \<Longrightarrow> front b (bus d) \<Longrightarrow> front b (bus (fido2_send_keepalive e cid s d))"
  using front_elapse [of e b d]
  by (subst ring_part_front [of _ "bus (elapse e d)"])
    (simp_all add: fido2_send_keepalive_def ep2_send_def ep2_nak_def set_bus_def ring_part_def)

lemma cancel_event [simp]: "cancel_requested (bus_event ev d) = cancel_requested d"
  by (simp add: bus_event_def Let_def set_bus_def)

lemma cancel_events [simp]: "cancel_requested (fold bus_event evs d) = cancel_requested d"
  by (induction evs arbitrary: d) simp_all

lemma cancel_elapse [simp]: "cancel_requested (elapse e d) = cancel_requested d"
  by (simp add: elapse_def)

lemma cancel_keepalive [simp]: "cancel_requested (fido2_send_keepalive e cid s d) = cancel_requested d"
  by (simp add: fido2_send_keepalive_def ep2_send_def ep2_nak_def set_bus_def)

lemma touch_loop_blocked:
  assumes "calm e" "\<not> oob_packet b" "front b (bus d)" "\<not> cancel_requested d"
    "touch_loop e cid base loops c d = (r, d')"
  shows "r \<noteq> 0x2D \<and> front b (bus d')"
  using assms(3-5)
proof (induction "301 - loops" arbitrary: loops c d rule: less_induct)
  case less
  define d1 where "d1 = (irq_enable d)\<lparr>adc_no := adc_no d + 4\<rparr>"
  have d1: "front b (bus d1)" "\<not> cancel_requested d1" using less.prems by (simp_all add: d1_def)
  have "\<not> oob_packet (ring_pkt (bus (elapse e d1)))"
    using front_elapse [OF assms(1) d1(1)] assms(2) by (simp add: front_def)
  then have oob: "Process_OOB_Commands e (elapse e d1) = elapse e d1" by (rule oob_ignores)
  define d3 where "d3 = (if (loops + 1) mod 4 = 0 then fido2_send_keepalive e cid 2 (elapse e d1) else elapse e d1)"
  have d3: "front b (bus d3)" "\<not> cancel_requested d3"
    using front_elapse [OF assms(1) d1(1)] front_keepalive [OF assms(1) front_elapse [OF assms(1) d1(1)]] d1(2)
    by (simp_all add: d3_def)
  define t where "t \<longleftrightarrow> drop_at e (unat base) (adc_no d) \<and> 3 \<le> (if drop_at e (unat base) (adc_no d) then c + 1 else 0)"
  define c' where "c' = (if drop_at e (unat base) (adc_no d) then c + 1 else 0)"
  have "(r, d') = (if t then (0x00, fido2_send_keepalive e cid 1 d1)
       else if cancel_requested (elapse e d1) then (0x2D, elapse e d1)
       else if 300 < loops + 1 then (0x2F, d3) else touch_loop e cid base (loops + 1) c' d3)"
    using less.prems(3) [symmetric] unfolding touch_loop_step [of e cid base loops]
    by (simp only: Let_def d1_def [symmetric] oob d3_def [symmetric] t_def c'_def)
  then have eq: "(r, d') = (if t then (0x00, fido2_send_keepalive e cid 1 d1)
       else if 300 < loops + 1 then (0x2F, d3) else touch_loop e cid base (loops + 1) c' d3)"
    using d1(2) by (simp only: cancel_elapse if_False)
  consider "t" | "\<not> t" "300 < loops + 1" | "\<not> t" "\<not> 300 < loops + 1" by blast
  then show ?case
  proof cases
    case 1
    then show ?thesis using eq front_keepalive [OF assms(1) d1(1)] by simp
  next
    case 2
    then show ?thesis using eq d3 by simp
  next
    case 3
    then have "touch_loop e cid base (loops + 1) c' d3 = (r, d')" using eq by simp
    then show ?thesis using 3 d3 by (intro less.hyps [of "loops + 1"]) simp_all
  qed
qed

section \<open>A touch is accepted\<close>

lemma touched_at_once:
  assumes "\<forall>n. fst (slice e n) = []" "RemainPack (bus d) = 0"
    "\<forall>i < 3. drop_at e (baseline e (calibration d)) (calibration d + 96 + 4 * i)"
  shows "fst (fido2_wait_for_user_presence e cid d) = 0x00"
proof -
  have el: "elapse e x = x\<lparr>slice_no := slice_no x + 1\<rparr>" for x using assms(1) by (simp add: elapse_def)
  have oob: "Process_OOB_Commands e x = x" if "RemainPack (bus x) = 0" for x
    using that by (simp add: Process_OOB_Commands_def)
  define d1 where "d1 = fido2_send_keepalive e cid 2 (before_loop e cid d)"
  have d1: "adc_no d1 = calibration d + 96" "RemainPack (bus d1) = 0" "\<not> cancel_requested d1"
    using assms(2) by (simp_all add: d1_def before_loop_frames)
      (simp add: fido2_send_keepalive_def el ep2_send_def ep2_nak_def set_bus_def before_loop_frames)
  obtain base where b: "unat base = baseline e (calibration d)"
    "fido2_wait_for_user_presence e cid d = touch_loop e cid base 0 0 d1"
    using wait_presence [of e d cid] by (auto simp: d1_def)
  define q where "q = calibration d + 96"
  have q: "adc_no d1 = q" by (simp add: d1 q_def)
  have t: "drop_at e (unat base) q" "drop_at e (unat base) (q + 4)" "drop_at e (unat base) (4 + q)"
    "drop_at e (unat base) (q + 8)" "drop_at e (unat base) (8 + q)"
    using assms(3) [rule_format, of 0] assms(3) [rule_format, of 1] assms(3) [rule_format, of 2] b(1)
    by (simp_all add: q_def add.commute add.left_commute)
  show ?thesis unfolding b(2)
    by (subst touch_loop_step, simp add: Let_def q d1(2,3) t el oob)+
qed

text \<open>A pad that reads 1000 while it is calibrated and 0 from the loop on.\<close>

definition blank_chip :: hw where
  "blank_chip = \<lparr>fmem = (\<lambda>_. 0xFF), flash_locked = True, irq_on = True\<rparr>"

definition touch_env :: env where
  "touch_env = quiet_env\<lparr>slice := (\<lambda>_. ([], False)), adc := (\<lambda>n. if n < 192 then 1000 else 0)\<rparr>"

lemma dev0_quiet: "RemainPack usb_boot = 0"
  by (simp add: usb_boot_def usb0_def USBFS_Device_Init_def USBFS_Device_Endp_Init_def Let_def)

lemma dev0_calibration [simp]: "calibration (dev0 h) = 96"
  by (simp add: calibration_def dev0_def)

lemma touch_env_drops:
  "fst (slice touch_env n) = []" "baseline touch_env 96 = 4000"
  "192 \<le> k \<Longrightarrow> drop_at touch_env (baseline touch_env 96) k"
proof -
  have "(\<Sum>i < 16. reading touch_env (96 + 4 * i)) = (\<Sum>i < (16 :: nat). 4000)"
    by (rule sum.cong) (auto simp: reading_def touch_env_def)
  then show b: "baseline touch_env 96 = 4000" by (simp add: baseline_def)
  show "fst (slice touch_env n) = []" by (simp add: touch_env_def)
  show "192 \<le> k \<Longrightarrow> drop_at touch_env (baseline touch_env 96) k"
    by (simp add: drop_at_def b) (simp add: reading_def touch_env_def)
qed

lemma granted_touch:
  assumes "fido2_wait_for_user_presence e cid d = (0x00, d')"
  shows "64 < baseline e (calibration d) \<and> (\<exists>k. calibration d + 96 \<le> k \<and> adc_no d' = k + 12 \<and>
    (\<forall>i < 3. reading e (k + 4 * i) < baseline e (calibration d) - baseline e (calibration d) div 4))"
proof -
  define base where "base = baseline e (calibration d)"
  have h: "drops_before e base (calibration d + 96) (adc_no d') 3"
    using wait_presence_effect [OF assms(1)] by (simp add: base_def)
  then have n: "calibration d + 96 + 12 \<le> adc_no d'"
    and d: "\<And>i. i < 3 \<Longrightarrow> drop_at e base (adc_no d' - 4 * (i + 1))"
    by (auto simp: drops_before_def)
  have "reading e (adc_no d' - 12 + 4 * i) < base - base div 4" if "i < 3" for i
  proof -
    have "2 - i < 3" by simp
    from d [OF this] have "drop_at e base (adc_no d' - 4 * (2 - i + 1))" .
    moreover have "adc_no d' - 4 * (2 - i + 1) = adc_no d' - 12 + 4 * i" using that n by auto
    ultimately show ?thesis by (simp add: drop_at_def)
  qed
  moreover have "64 < base" using d [of 0] by (simp add: drop_at_def)
  ultimately show ?thesis using n unfolding base_def [symmetric] by (intro conjI exI [of _ "adc_no d' - 12"]) auto
qed

text \<open>The same without the state after the call.\<close>

definition user_touched :: "env \<Rightarrow> dev \<Rightarrow> bool" where
  "user_touched e d \<longleftrightarrow> (let base = baseline e (calibration d) in
    64 < base \<and> (\<exists>k \<ge> calibration d + 96. \<forall>i < 3. reading e (k + 4 * i) < base - base div 4))"

lemma granted_touched: "fido2_wait_for_user_presence e cid d = (0x00, d') \<Longrightarrow> user_touched e d"
  by (drule granted_touch) (auto simp: user_touched_def Let_def)

section \<open>Properties\<close>

text \<open>C26: the wait for user presence always ends, after at most 349 readings of the pad, with
  success, cancellation or time-out. It leaves interrupts on, also when they were off before, and changes
  nothing else of the flash, the message being reassembled, the PIN protocol and the enumeration of credentials;
  what it may change besides is the USB driver, the sensor and the random generator, the cancel flag, and the
  channel an INIT command allocates meanwhile.\<close>

theorem presence_terminates:
  "case fido2_wait_for_user_presence e cid d of (r, d') \<Rightarrow>
    core d' = core (irq_enable d) \<and> r \<in> {0x00, 0x2D, 0x2F} \<and> adc_no d' \<le> adc_no d + 4 * 349"
  using wait_presence_effect [of e cid d] by (cases "fido2_wait_for_user_presence e cid d") simp

text \<open>C25: user presence is granted only if three consecutive readings, taken after the
  calibration of this very call, lie more than a quarter below the mean of the sixteen calibration
  readings, and that mean is above 64; the call returns at the third of them.\<close>

theorem presence_needs_touch:
  assumes "fido2_wait_for_user_presence e cid d = (0x00, d')"
  defines "base \<equiv> baseline e (calibration d)"
  shows "64 < base \<and> (\<exists>k. calibration d + 96 \<le> k \<and> adc_no d' = k + 12 \<and>
    (\<forall>i < 3. reading e (k + 4 * i) < base - base div 4))"
  using granted_touch [OF assms(1)] by (simp add: base_def)

lemma presence_needs_touch_witness:
  "64 < baseline touch_env 96 \<and> (\<exists>k \<ge> 192. \<forall>i < 3. reading touch_env (k + 4 * i) < baseline touch_env 96 - baseline touch_env 96 div 4)"
proof -
  obtain r d' where w: "fido2_wait_for_user_presence touch_env 1 (dev0 blank_chip) = (r, d')" by fastforce
  moreover have "r = 0"
    using touched_at_once [of touch_env "dev0 blank_chip" 1] touch_env_drops w by (simp add: dev0_quiet)
  ultimately have "fido2_wait_for_user_presence touch_env 1 (dev0 blank_chip) = (0, d')" by simp
  from presence_needs_touch [OF this] show ?thesis by (auto simp: dev0_calibration)
qed

text \<open>A sensor that always reads the same value, zero and saturation included, never grants
  user presence.\<close>

theorem stuck_sensor_no_presence:
  assumes "\<forall>n. adc e n = v"
  shows "fst (fido2_wait_for_user_presence e cid d) \<noteq> 0x00"
proof
  assume z: "fst (fido2_wait_for_user_presence e cid d) = 0x00"
  obtain r d' where w: "fido2_wait_for_user_presence e cid d = (r, d')" by fastforce
  have r: "reading e n = 4 * unat v" for n using assms by (simp add: reading_def)
  have "drops_before e (baseline e (calibration d)) (calibration d + 96) (adc_no d') 3"
    using wait_presence_effect [OF w] z w by simp
  then have "drop_at e (baseline e (calibration d)) (adc_no d' - 4 * (0 + 1))"
    unfolding drops_before_def by (elim conjE allE [of _ 0] impE) simp_all
  then show False by (simp add: drop_at_def baseline_def r)
qed

lemma stuck_sensor_no_presence_witness:
  "fst (fido2_wait_for_user_presence (quiet_env\<lparr>adc := (\<lambda>_. 0)\<rparr>) 1 (dev0 blank_chip)) \<noteq> 0x00"
  by (rule stuck_sensor_no_presence [where v = 0]) simp

text \<open>C27: a CANCEL cannot interrupt a request that came over endpoint 1.  The packet being
  processed stays at the head of the ring until the main loop returns to it, and
  \<open>Process_OOB_Commands\<close> looks only there; so while that packet is not itself an out-of-band command,
  the wait never ends with \<open>CTAP2_ERR_KEEPALIVE_CANCEL\<close>, whatever the host queues behind it.\<close>

theorem cancel_not_served:
  assumes "calm e" "front b (bus d)" "\<not> oob_packet b"
  shows "fst (fido2_wait_for_user_presence e cid d) \<noteq> 0x2D"
proof -
  obtain r d' where w: "fido2_wait_for_user_presence e cid d = (r, d')" by fastforce
  define d1 where "d1 = fido2_send_keepalive e cid 2 (before_loop e cid d)"
  have d1: "front b (bus d1)" "\<not> cancel_requested d1"
    using front_keepalive [OF assms(1), of b "before_loop e cid d"] assms(2)
    by (simp_all add: d1_def before_loop_frames)
  obtain base where "touch_loop e cid base 0 0 d1 = (r, d')"
    using wait_presence [of e d cid] w by (auto simp: d1_def)
  from touch_loop_blocked [OF assms(1,3) d1 this] show ?thesis using w by simp
qed

lemma cancel_not_served_witness:
  "fst (fido2_wait_for_user_presence (quiet_env\<lparr>slice := (\<lambda>_. ([Out1 [0, 0, 0, 1, 0x91, 0, 0]], False))\<rparr>) 1
     (set_bus (usb_step (Out1 [0, 0, 0, 1, 0x90, 0, 1, 7])) (dev0 blank_chip))) \<noteq> 0x2D"
proof (rule cancel_not_served)
  let ?p = "[0, 0, 0, 1, 0x90, 0, 1, 7] :: u8 list"
  have l: "length ?p = 8" by simp
  show "calm (quiet_env\<lparr>slice := (\<lambda>_. ([Out1 [0, 0, 0, 1, 0x91, 0, 0]], False))\<rparr>)" by (simp add: calm_def)
  have a: "UEP1_CTRL_H usb_boot AND R_RES_MASK = R_RES_ACK"
    by (simp add: usb_boot_def USBFS_Device_Init_def USBFS_Device_Endp_Init_def Let_def res_defs)
  note o = out1_effect [OF boot_ring(1) _ a, of ?p]
  show "front (ring_pkt (usb_step (Out1 ?p) usb_boot)) (bus (set_bus (usb_step (Out1 ?p)) (dev0 blank_chip)))"
    using o(1,4) by (simp add: front_def set_bus_def del: usb_step.simps)
  have "carries ?p (ring_pkt (usb_step (Out1 ?p) usb_boot))"
    using ring.push_then_drain [OF boot_ring(1) _ a, of ?p] boot_ring(2) by (simp del: usb_step.simps)
  then have t: "take 8 (fst (ring_pkt (usb_step (Out1 ?p) usb_boot))) = ?p"
    unfolding carries_def l by (rule conjunct1)
  have "fst (ring_pkt (usb_step (Out1 ?p) usb_boot)) ! 4 = take 8 (fst (ring_pkt (usb_step (Out1 ?p) usb_boot))) ! 4"
    by (simp del: usb_step.simps)
  then have "fst (ring_pkt (usb_step (Out1 ?p) usb_boot)) ! 4 = 0x90" unfolding t by simp
  then show "\<not> oob_packet (ring_pkt (usb_step (Out1 ?p) usb_boot))"
    by (simp add: oob_packet_def del: usb_step.simps)
qed

end
