(* ===== verification/FlashSpec.thy ===== *)
theory FlashSpec
  imports Flash
begin

text \<open>
  What \<open>flash_passkey.c\<close> promises: the five pages are a list of optional credentials and every
  operation is the corresponding list operation.

  \<^item> The contract of the store is the locale \<open>credential_store\<close>: how \<open>save\<close>, \<open>delete\<close> and \<open>lookup\<close>
    act on the list.  Its clients' facts (a saved credential is found, no other account is lost,
    accounts stay unique, a deleted credential is gone) are proved inside the locale;
    \<open>passkeys\<close> interprets it on the firmware's functions.
  \<^item> \<open>store_ok\<close> is the invariant: every slot is erased or holds a credential whose user id length
    is at most 64.
  \<^item> The enumeration functions compute indexing, counting and first occurrences of that list;
    the PIN page and the credential pages do not influence each other.
\<close>

section \<open>The abstract store\<close>

definition rk_slot :: "mem \<Rightarrow> nat \<Rightarrow> ResidentKey option" where
  "rk_slot m a = (if is_key m a then Some (read_rk m a) else None)"

definition slots :: "mem \<Rightarrow> ResidentKey option list" where
  "slots m = map (rk_slot m) slot_addrs"

definition creds :: "mem \<Rightarrow> ResidentKey list" where
  "creds m = map (read_rk m) (filter (is_key m) slot_addrs)"

text \<open>What the firmware itself ever leaves in a slot: a credential, or an erased first word.\<close>

definition store_ok :: "mem \<Rightarrow> bool" where
  "store_ok m \<longleftrightarrow> (\<forall>a \<in> set slot_addrs.
     (word_at m a = 0xFFFFFFFF \<or> is_key m a) \<and> (is_key m a \<longrightarrow> unat (m (a + 36)) \<le> 64))"

definition slot_addr :: "nat \<Rightarrow> nat" where
  "slot_addr i = PASSKEY_FLASH_START + i * PASSKEY_PAGE_SIZE"

lemma num_slots: "PASSKEY_NUM_SLOTS = 5"
  by (simp add: PASSKEY_NUM_SLOTS_def PASSKEY_FLASH_START_def PASSKEY_FLASH_END_def PASSKEY_PAGE_SIZE_def)

lemma slot_addrs_map: "slot_addrs = map slot_addr [0..<5]"
  by (simp add: slot_addrs_def num_slots slot_addr_def)

lemma slot_in: "a \<in> set slot_addrs \<longleftrightarrow> (\<exists>i < 5. a = slot_addr i)"
  by (auto simp: slot_addrs_map)

lemma slot_pages:
  "i \<noteq> j \<Longrightarrow> slot_addr i + 256 \<le> slot_addr j \<or> slot_addr j + 256 \<le> slot_addr i"
  by (auto simp: slot_addr_def PASSKEY_PAGE_SIZE_def)

lemma slot_pin: "i < 5 \<Longrightarrow> slot_addr i + 256 \<le> PIN_FLASH_ADDR"
  by (simp add: slot_addr_def PASSKEY_PAGE_SIZE_def PASSKEY_FLASH_START_def PIN_FLASH_ADDR_def)

text \<open>A slot depends on its own page only.\<close>

lemma slot_frame:
  assumes "\<And>i. i < 256 \<Longrightarrow> m (a + i) = m' (a + i)"
  shows "word_at m a = word_at m' a" "is_key m a = is_key m' a" "read_rk m a = read_rk m' a"
    "rk_slot m a = rk_slot m' a" "m (a + 36) = m' (a + 36)"
proof -
  have b: "bytes m (a + off) n = bytes m' (a + off) n" if "off + n \<le> 256" for off n
    using assms that by (intro bytes_cong) (simp add: add.assoc)
  have "m a = m' a" "m (a + 1) = m' (a + 1)" "m (a + 2) = m' (a + 2)" "m (a + 3) = m' (a + 3)"
    using assms [of 0] assms [of 1] assms [of 2] assms [of 3] by simp_all
  then show w: "word_at m a = word_at m' a" by (simp add: word_at_def)
  then show k: "is_key m a = is_key m' a" by (simp add: is_key_def)
  show r: "read_rk m a = read_rk m' a"
    using assms by (simp add: read_rk_def b)
  show "rk_slot m a = rk_slot m' a" using k r by (simp add: rk_slot_def)
  show "m (a + 36) = m' (a + 36)" using assms by simp
qed

lemma page_set_other: "b + 256 \<le> a \<or> a + 256 \<le> b \<Longrightarrow> i < 256 \<Longrightarrow> page_set m a d (b + i) = m (b + i)"
  "b + 256 \<le> a \<or> a + 256 \<le> b \<Longrightarrow> i < 256 \<Longrightarrow> page_erase m a (b + i) = m (b + i)"
  by (auto simp: page_set_def page_erase_def)

lemma bytes_page_set:
  "off + n \<le> 256 \<Longrightarrow> length d = 256 \<Longrightarrow> bytes (page_set m a d) (a + off) n = take n (drop off d)"
  by (rule nth_equalityI) (auto simp: page_set_def)

definition rk_ok :: "ResidentKey \<Rightarrow> bool" where
  "rk_ok rk \<longleftrightarrow> length (rk_rp_id_hash rk) = 32 \<and> length (rk_user_id rk) = 64 \<and>
     length (rk_credential_id rk) = 32 \<and> length (rk_private_key rk) = 32 \<and>
     length (rk_user_name rk) = 32 \<and> length (rk_rp_id rk) = 32 \<and>
     rk_user_id_len rk \<le> 64 \<and> rk_user_name_len rk \<le> 32 \<and> rk_rp_id_len rk \<le> 32"

lemma word_at_le32:
  "bytes m a 4 = le32_bytes w \<Longrightarrow> word_at m a = w"
proof -
  assume b: "bytes m a 4 = le32_bytes w"
  have "bytes m a 4 = [m a, m (a + 1), m (a + 2), m (a + 3)]"
    by (rule nth_equalityI) (auto simp: less_Suc_eq numeral_eq_Suc)
  with b have "le32_bytes w = [m a, m (a + 1), m (a + 2), m (a + 3)]" by simp
  from le32_of_bytes [OF this] show ?thesis by (simp add: word_at_def)
qed

lemma unat_small_u8: "n < 256 \<Longrightarrow> unat (word_of_nat n :: u8) = n"
  by (simp add: unat_of_nat)

lemma read_back:
  assumes "rk_ok rk" "length pad = 25"
  shows "word_at (page_set m a (rk_bytes mg rk pad)) a = mg"
    "read_rk (page_set m a (rk_bytes mg rk pad)) a = rk"
    "length (rk_bytes mg rk pad) = 256"
proof -
  let ?d = "rk_bytes mg rk pad"
  show len: "length ?d = 256"
    using assms by (simp add: rk_bytes_def rk_ok_def)
  have b: "bytes (page_set m a ?d) (a + off) n = take n (drop off ?d)" if "off + n \<le> 256" for off n
    using that len by (rule bytes_page_set)
  have at: "page_set m a ?d (a + off) = ?d ! off" if "off < 256" for off
    using that by (simp add: page_set_def)
  have "bytes (page_set m a ?d) a 4 = le32_bytes mg"
    using b [of 0 4] assms by (simp add: rk_bytes_def)
  then show "word_at (page_set m a ?d) a = mg" by (rule word_at_le32)
  show "read_rk (page_set m a ?d) a = rk"
    using assms unfolding read_rk_def
    by (simp add: b at) (simp add: rk_bytes_def rk_ok_def nth_append unat_small_u8)
qed

section \<open>What the store promises\<close>

text \<open>What identifies an account, and the comparison \<open>passkey_save\<close> makes.\<close>

definition account :: "ResidentKey \<Rightarrow> u8 list \<times> nat \<times> u8 list" where
  "account k = (rk_rp_id_hash k, rk_user_id_len k, take (rk_user_id_len k) (rk_user_id k))"

definition same_account :: "u8 list \<Rightarrow> u8 list \<Rightarrow> nat \<Rightarrow> ResidentKey \<Rightarrow> bool" where
  "same_account h uid ulen k \<longleftrightarrow> account k = (take 32 h, ulen, take ulen uid)"

definition key_is :: "(ResidentKey \<Rightarrow> bool) \<Rightarrow> ResidentKey option \<Rightarrow> bool" where
  "key_is P x = (case x of Some k \<Rightarrow> P k | None \<Rightarrow> False)"

text \<open>Replace the first entry of the account; otherwise fill the first free slot.\<close>

definition spec_slot :: "(ResidentKey \<Rightarrow> bool) \<Rightarrow> ResidentKey option list \<Rightarrow> nat option" where
  "spec_slot same xs =
    (case find (\<lambda>i. key_is same (xs ! i)) [0..<length xs] of
       Some i \<Rightarrow> Some i
     | None \<Rightarrow> find (\<lambda>i. xs ! i = None) [0..<length xs])"

definition accounts_unique :: "ResidentKey option list \<Rightarrow> bool" where
  "accounts_unique xs \<longleftrightarrow> (\<forall>i < length xs. \<forall>j < length xs. \<forall>k k'.
     i \<noteq> j \<longrightarrow> xs ! i = Some k \<longrightarrow> xs ! j = Some k' \<longrightarrow> account k \<noteq> account k')"

text \<open>The keys in slot order.\<close>

definition present :: "ResidentKey option list \<Rightarrow> ResidentKey list" where
  "present xs = map the (filter (\<lambda>x. x \<noteq> None) xs)"

lemma set_present: "k \<in> set (present xs) \<longleftrightarrow> Some k \<in> set xs"
  by (force simp: present_def)

lemma present_nth: "k \<in> set (present xs) \<longleftrightarrow> (\<exists>i < length xs. xs ! i = Some k)"
  using set_present [of k xs] in_set_conv_nth [of "Some k" xs] by simp

lemma present_append: "present (xs @ ys) = present xs @ present ys"
  by (simp add: present_def)

lemma key_is_simps [simp]: "key_is P (Some k) = P k" "key_is P None = False"
  by (simp_all add: key_is_def)

lemma find_slot_None:
  "find (\<lambda>i. key_is P (xs ! i)) [0..<length xs] = None \<longleftrightarrow> (\<forall>k \<in> set (present xs). \<not> P k)"
proof -
  have "key_is P x \<longleftrightarrow> (\<exists>k. x = Some k \<and> P k)" for x by (cases x) simp_all
  then have "find (\<lambda>i. key_is P (xs ! i)) [0..<length xs] = None \<longleftrightarrow>
      (\<forall>i < length xs. \<forall>k. xs ! i = Some k \<longrightarrow> \<not> P k)"
    by (auto simp: find_None_iff)
  then show ?thesis using present_nth [of _ xs] by metis
qed

lemma find_append:
  "find P (xs @ ys) = (case find P xs of None \<Rightarrow> find P ys | Some x \<Rightarrow> Some x)"
  by (induction xs) auto

lemma spec_slot_Some:
  assumes "spec_slot same xs = Some i"
  shows "i < length xs"
    "case xs ! i of None \<Rightarrow> \<forall>k \<in> set (present xs). \<not> same k | Some k \<Rightarrow> same k"
proof -
  consider "find (\<lambda>i. key_is same (xs ! i)) [0..<length xs] = Some i"
    | "find (\<lambda>i. key_is same (xs ! i)) [0..<length xs] = None"
      "find (\<lambda>i. xs ! i = None) [0..<length xs] = Some i"
    using assms by (auto simp: spec_slot_def split: option.splits)
  then have "i < length xs \<and>
      (case xs ! i of None \<Rightarrow> \<forall>k \<in> set (present xs). \<not> same k | Some k \<Rightarrow> same k)"
  proof cases
    case 1
    then show ?thesis by (cases "xs ! i") (auto simp: find_Some_iff)
  next
    case 2
    have "i < length xs" "xs ! i = None" using 2(2) by (auto simp: find_Some_iff)
    then show ?thesis using 2(1) unfolding find_slot_None by simp
  qed
  then show "i < length xs"
    "case xs ! i of None \<Rightarrow> \<forall>k \<in> set (present xs). \<not> same k | Some k \<Rightarrow> same k"
    by simp_all
qed

text \<open>There is no slot exactly when every slot holds some other account.\<close>

lemma spec_slot_None:
  "spec_slot same xs = None \<longleftrightarrow> None \<notin> set xs \<and> (\<forall>k \<in> set (present xs). \<not> same k)"
proof -
  have "find (\<lambda>i. xs ! i = None) [0..<length xs] = None \<longleftrightarrow> None \<notin> set xs"
    unfolding find_None_iff by (auto simp: in_set_conv_nth)
  then show ?thesis
    using find_slot_None [of same xs] by (auto simp: spec_slot_def split: option.splits)
qed

locale credential_store =
  fixes content :: "'s \<Rightarrow> ResidentKey option list"
    and ok :: "'s \<Rightarrow> bool"
    and save :: "u8 list \<Rightarrow> u8 list \<Rightarrow> nat \<Rightarrow> ResidentKey \<Rightarrow> 's \<Rightarrow> bool \<times> 's"
    and delete :: "u8 list \<Rightarrow> 's \<Rightarrow> bool \<times> 's"
    and lookup :: "u8 list \<Rightarrow> 's \<Rightarrow> ResidentKey option"
  assumes save_ok: "ok s \<Longrightarrow> rk_ok new \<Longrightarrow> ok (snd (save h uid ulen new s))"
    and save_content: "ok s \<Longrightarrow> rk_ok new \<Longrightarrow> ulen < 256 \<Longrightarrow>
      (case spec_slot (same_account h uid ulen) (content s) of
         None \<Rightarrow> \<not> fst (save h uid ulen new s) \<and> content (snd (save h uid ulen new s)) = content s
       | Some i \<Rightarrow> fst (save h uid ulen new s) \<and>
           content (snd (save h uid ulen new s)) = (content s)[i := Some new])"
    and delete_ok: "ok s \<Longrightarrow> length c = 32 \<Longrightarrow> ok (snd (delete c s))"
    and delete_content: "ok s \<Longrightarrow> length c = 32 \<Longrightarrow>
      (case find (\<lambda>i. key_is (\<lambda>k. rk_credential_id k = c) (content s ! i)) [0..<length (content s)] of
         None \<Rightarrow> \<not> fst (delete c s) \<and> content (snd (delete c s)) = content s
       | Some i \<Rightarrow> fst (delete c s) \<and> content (snd (delete c s)) = (content s)[i := None])"
    and lookup_content: "length c = 32 \<Longrightarrow>
      lookup c s = find (\<lambda>k. rk_credential_id k = c) (present (content s))"
begin

text \<open>A credential that was saved under a fresh id is found under it, and no other one is lost
  except the one it replaces.\<close>

lemma lookup_after_save:
  assumes "ok s" "rk_ok new" "ulen < 256" "fst (save h uid ulen new s)"
    and "\<forall>k \<in> set (present (content s)). rk_credential_id k \<noteq> rk_credential_id new"
  shows "lookup (rk_credential_id new) (snd (save h uid ulen new s)) = Some new"
proof -
  obtain i where si: "spec_slot (same_account h uid ulen) (content s) = Some i"
      "content (snd (save h uid ulen new s)) = (content s)[i := Some new]"
    using save_content [OF assms(1-3), of h uid] assms(4) by (auto split: option.splits)
  define xs where "xs = (content s)[i := Some new]"
  have i: "i < length (content s)" by (rule spec_slot_Some [OF si(1)])
  then have split: "xs = take i (content s) @ Some new # drop (Suc i) (content s)"
    by (simp add: upd_conv_take_nth_drop xs_def)
  have "find (\<lambda>k. rk_credential_id k = rk_credential_id new) (present (take i (content s))) = None"
    using assms(5) by (auto simp: find_None_iff set_present dest: in_set_takeD)
  then have "find (\<lambda>k. rk_credential_id k = rk_credential_id new) (present xs) = Some new"
    unfolding split by (auto simp: present_append present_def find_append split: option.splits)
  moreover have "length (rk_credential_id new) = 32" using assms(2) by (simp add: rk_ok_def)
  ultimately show ?thesis by (simp add: lookup_content si(2) xs_def)
qed

lemma save_keeps:
  assumes "ok s" "rk_ok new" "ulen < 256" "Some k \<in> set (content s)" "\<not> same_account h uid ulen k"
  shows "Some k \<in> set (content (snd (save h uid ulen new s)))"
proof (cases "spec_slot (same_account h uid ulen) (content s)")
  case None
  then show ?thesis using save_content [OF assms(1-3), of h uid] assms(4) by simp
next
  case (Some i)
  define xs where "xs = (content s)[i := Some new]"
  have c: "content (snd (save h uid ulen new s)) = xs"
    using save_content [OF assms(1-3), of h uid] Some by (simp add: xs_def)
  have i: "i < length (content s)" "content s ! i \<noteq> Some k"
    using spec_slot_Some [OF Some] assms(5) by (auto split: option.splits)
  obtain j where "j < length (content s)" "content s ! j = Some k"
    using assms(4) by (auto simp: in_set_conv_nth)
  then have "xs ! j = Some k" "j < length xs" using i by (auto simp: nth_list_update xs_def)
  then show ?thesis unfolding c by (metis nth_mem)
qed

text \<open>No account ever occupies two slots.\<close>

lemma save_unique:
  assumes "ok s" "rk_ok new" "ulen < 256" "accounts_unique (content s)"
    and new: "account new = (take 32 h, ulen, take ulen uid)"
  shows "accounts_unique (content (snd (save h uid ulen new s)))"
proof (cases "spec_slot (same_account h uid ulen) (content s)")
  case None
  then show ?thesis using save_content [OF assms(1-3), of h uid] assms(4) by simp
next
  case (Some i)
  define xs where "xs = (content s)[i := Some new]"
  have c: "content (snd (save h uid ulen new s)) = xs"
    using save_content [OF assms(1-3), of h uid] Some by (simp add: xs_def)
  note i = spec_slot_Some [OF Some]
  have other: "account k \<noteq> account new" if "j < length (content s)" "j \<noteq> i" "content s ! j = Some k" for j k
  proof (cases "content s ! i")
    case None
    then have "\<forall>k \<in> set (present (content s)). \<not> same_account h uid ulen k" using i(2) by simp
    then show ?thesis
      using that present_nth [of k "content s"] new by (auto simp: same_account_def)
  next
    case (Some k0)
    then have "account k0 = account new" using i(2) new by (simp add: same_account_def)
    moreover have "account k0 \<noteq> account k"
      using assms(4) that i(1) Some unfolding accounts_unique_def by metis
    ultimately show ?thesis by simp
  qed
  have xs: "xs ! j = (if j = i then Some new else content s ! j)" if "j < length xs" for j
    using that by (simp add: xs_def)
  show ?thesis
    unfolding c accounts_unique_def
  proof (intro allI impI)
    fix j l k k'
    assume a: "j < length xs" "l < length xs" "j \<noteq> l" "xs ! j = Some k" "xs ! l = Some k'"
    have len: "length xs = length (content s)" by (simp add: xs_def)
    consider "j = i" "l \<noteq> i" | "l = i" "j \<noteq> i" | "j \<noteq> i" "l \<noteq> i" using a(3) by blast
    then show "account k \<noteq> account k'"
    proof cases
      case 1
      then show ?thesis using a other [of l k'] by (auto simp: xs len)
    next
      case 2
      then show ?thesis using a other [of j k] by (auto simp: xs len)
    next
      case 3
      then show ?thesis
        using a assms(4) unfolding accounts_unique_def by (simp add: xs len)
    qed
  qed
qed

lemma lookup_after_delete:
  assumes "ok s" "length c = 32"
    and "\<forall>i < length (content s). \<forall>j < length (content s). \<forall>k k'.
      content s ! i = Some k \<longrightarrow> content s ! j = Some k' \<longrightarrow> rk_credential_id k = c \<longrightarrow>
      rk_credential_id k' = c \<longrightarrow> i = j"
  shows "lookup c (snd (delete c s)) = None"
proof (cases "find (\<lambda>i. key_is (\<lambda>k. rk_credential_id k = c) (content s ! i)) [0..<length (content s)]")
  case None
  then have "content (snd (delete c s)) = content s"
    using delete_content [OF assms(1,2)] by simp
  moreover have "\<forall>k \<in> set (present (content s)). rk_credential_id k \<noteq> c"
    using None by (simp only: find_slot_None simp_thms)
  ultimately show ?thesis by (simp add: lookup_content [OF assms(2)] find_None_iff)
next
  case (Some i)
  then have c: "content (snd (delete c s)) = (content s)[i := None]"
    using delete_content [OF assms(1,2)] by simp
  obtain k where k: "i < length (content s)" "content s ! i = Some k" "rk_credential_id k = c"
  proof -
    have "i < length (content s)" "key_is (\<lambda>k. rk_credential_id k = c) (content s ! i)"
      using Some by (auto simp: find_Some_iff)
    then show ?thesis using that by (cases "content s ! i") simp_all
  qed
  have "rk_credential_id k' \<noteq> c" if "k' \<in> set (present ((content s)[i := None]))" for k'
  proof
    assume "rk_credential_id k' = c"
    have "\<exists>j < length ((content s)[i := None]). (content s)[i := None] ! j = Some k'"
      using that unfolding present_nth .
    then obtain j where j: "j < length (content s)" "(content s)[i := None] ! j = Some k'"
      unfolding length_list_update by blast
    have "j \<noteq> i"
    proof
      assume "j = i"
      then show False using j k(1) by simp
    qed
    then have "content s ! j = Some k'" using j(2) by simp
    from assms(3) [rule_format, OF k(1) j(1) k(2) this k(3) \<open>rk_credential_id k' = c\<close>]
    have "i = j" .
    with \<open>j \<noteq> i\<close> show False by simp
  qed
  then show ?thesis by (simp add: lookup_content [OF assms(2)] c find_None_iff)
qed

end

section \<open>The firmware's store keeps the promise\<close>

lemma magic_ne: "PASSKEY_MAGIC \<noteq> 0xFFFFFFFF"
  by (simp add: PASSKEY_MAGIC_def)

lemma length_slots [simp]: "length (slots m) = 5"
  by (simp add: slots_def slot_addrs_map)

lemma slots_nth: "i < 5 \<Longrightarrow> slots m ! i = rk_slot m (slot_addr i)"
  by (simp add: slots_def slot_addrs_map)

lemma slots_eqI: "(\<And>i. i < 5 \<Longrightarrow> rk_slot m (slot_addr i) = xs ! i) \<Longrightarrow> length xs = 5 \<Longrightarrow> slots m = xs"
  by (rule nth_equalityI) (simp_all add: slots_nth)

lemma slots_page_set:
  assumes "i < 5" "rk_ok rk" "length pad = 25"
  shows "slots (page_set m (slot_addr i) (rk_bytes PASSKEY_MAGIC rk pad)) = (slots m)[i := Some rk]"
proof (rule slots_eqI)
  let ?m = "page_set m (slot_addr i) (rk_bytes PASSKEY_MAGIC rk pad)"
  fix j :: nat
  assume j: "j < 5"
  show "rk_slot ?m (slot_addr j) = (slots m)[i := Some rk] ! j"
  proof (cases "j = i")
    case True
    then show ?thesis
      using assms read_back [OF assms(2,3), where mg = PASSKEY_MAGIC] by (simp add: rk_slot_def is_key_def)
  next
    case False
    have "rk_slot ?m (slot_addr j) = rk_slot m (slot_addr j)"
      using slot_pages [OF False] by (intro slot_frame(4) page_set_other)
    then show ?thesis using False j by (simp add: slots_nth)
  qed
qed simp

lemma erased_slot:
  "word_at (page_erase m a) a = 0xFFFFFFFF" "\<not> is_key (page_erase m a) a" "rk_slot (page_erase m a) a = None"
proof -
  have "word_at (page_erase m a) a = le32_of 0xFF 0xFF 0xFF 0xFF"
    by (simp add: word_at_def page_erase_def)
  also have "\<dots> = 0xFFFFFFFF" by code_simp
  finally show w: "word_at (page_erase m a) a = 0xFFFFFFFF" .
  then show k: "\<not> is_key (page_erase m a) a" by (simp add: is_key_def magic_ne)
  then show "rk_slot (page_erase m a) a = None" by (simp add: rk_slot_def)
qed

lemma slots_page_erase:
  assumes "i < 5"
  shows "slots (page_erase m (slot_addr i)) = (slots m)[i := None]"
proof (rule slots_eqI)
  fix j :: nat
  assume j: "j < 5"
  show "rk_slot (page_erase m (slot_addr i)) (slot_addr j) = (slots m)[i := None] ! j"
  proof (cases "j = i")
    case True
    then show ?thesis using assms by (simp add: erased_slot)
  next
    case False
    have "rk_slot (page_erase m (slot_addr i)) (slot_addr j) = rk_slot m (slot_addr j)"
      using slot_pages [OF False] by (intro slot_frame(4) page_set_other)
    then show ?thesis using False j by (simp add: slots_nth)
  qed
qed simp

lemma store_ok_iff:
  "store_ok m \<longleftrightarrow> (\<forall>i < 5. (word_at m (slot_addr i) = 0xFFFFFFFF \<or> is_key m (slot_addr i)) \<and>
     (is_key m (slot_addr i) \<longrightarrow> unat (m (slot_addr i + 36)) \<le> 64))"
  by (auto simp: store_ok_def slot_addrs_map)

lemma store_ok_page_set:
  assumes "store_ok m" "i < 5" "rk_ok rk" "length pad = 25"
  shows "store_ok (page_set m (slot_addr i) (rk_bytes PASSKEY_MAGIC rk pad))"
  unfolding store_ok_iff
proof (intro allI impI)
  let ?m = "page_set m (slot_addr i) (rk_bytes PASSKEY_MAGIC rk pad)"
  fix j :: nat
  assume j: "j < 5"
  show "(word_at ?m (slot_addr j) = 0xFFFFFFFF \<or> is_key ?m (slot_addr j)) \<and>
     (is_key ?m (slot_addr j) \<longrightarrow> unat (?m (slot_addr j + 36)) \<le> 64)"
  proof (cases "j = i")
    case True
    have "unat (?m (slot_addr i + 36)) = rk_user_id_len rk"
      using arg_cong [OF read_back(2) [OF assms(3,4)], of rk_user_id_len] by (simp add: read_rk_def)
    then show ?thesis
      using True assms(3) read_back [OF assms(3,4), where mg = PASSKEY_MAGIC]
      by (simp add: is_key_def rk_ok_def)
  next
    case False
    have f: "?m (slot_addr j + k) = m (slot_addr j + k)" if "k < 256" for k
      using slot_pages [OF False] that by (intro page_set_other)
    show ?thesis
      using assms(1) j slot_frame [of ?m "slot_addr j" m, OF f] unfolding store_ok_iff by simp
  qed
qed

lemma store_ok_page_erase:
  assumes "store_ok m" "i < 5"
  shows "store_ok (page_erase m (slot_addr i))"
  unfolding store_ok_iff
proof (intro allI impI)
  fix j :: nat
  assume j: "j < 5"
  show "(word_at (page_erase m (slot_addr i)) (slot_addr j) = 0xFFFFFFFF \<or>
       is_key (page_erase m (slot_addr i)) (slot_addr j)) \<and>
     (is_key (page_erase m (slot_addr i)) (slot_addr j) \<longrightarrow>
       unat (page_erase m (slot_addr i) (slot_addr j + 36)) \<le> 64)"
  proof (cases "j = i")
    case True
    then show ?thesis by (simp add: erased_slot)
  next
    case False
    have f: "page_erase m (slot_addr i) (slot_addr j + k) = m (slot_addr j + k)" if "k < 256" for k
      using slot_pages [OF False] that by (intro page_set_other)
    show ?thesis
      using assms(1) j slot_frame [of "page_erase m (slot_addr i)" "slot_addr j" m, OF f]
      unfolding store_ok_iff by simp
  qed
qed

lemma find_map: "find P (map f xs) = map_option f (find (\<lambda>x. P (f x)) xs)"
  by (induction xs) auto

lemma find_cong: "(\<And>x. x \<in> set xs \<Longrightarrow> P x = Q x) \<Longrightarrow> find P xs = find Q xs"
  by (induction xs) auto

lemma save_slot_find:
  "save_slot m h uid ulen as slot =
    (case find (\<lambda>a. word_at m a \<noteq> 0xFFFFFFFF \<and> is_key m a \<and> bytes m (a + 4) 32 = take 32 h \<and>
         unat (m (a + 36)) = ulen \<and> bytes m (a + 37) ulen = take ulen uid) as of
       Some a \<Rightarrow> Some a
     | None \<Rightarrow> if slot = None then find (\<lambda>a. word_at m a = 0xFFFFFFFF) as else slot)"
  by (induction as arbitrary: slot) (auto split: option.splits)

lemma take_bytes: "n \<le> k \<Longrightarrow> take n (bytes m a k) = bytes m a n"
  by (rule nth_equalityI) simp_all

lemma save_slot_spec:
  assumes "store_ok m"
  shows "save_slot m h uid ulen slot_addrs None =
    map_option slot_addr (spec_slot (same_account h uid ulen) (slots m))"
proof -
  have st: "word_at m (slot_addr i) = 0xFFFFFFFF \<longleftrightarrow> \<not> is_key m (slot_addr i)"
    "is_key m (slot_addr i) \<Longrightarrow> unat (m (slot_addr i + 36)) \<le> 64" if "i < 5" for i
    using assms that magic_ne unfolding store_ok_iff by (auto simp: is_key_def)
  have same: "(word_at m a \<noteq> 0xFFFFFFFF \<and> is_key m a \<and> bytes m (a + 4) 32 = take 32 h \<and>
         unat (m (a + 36)) = ulen \<and> bytes m (a + 37) ulen = take ulen uid) =
      key_is (same_account h uid ulen) (slots m ! i)" if "i < 5" "a = slot_addr i" for i a
    using st [OF that(1)] that
    by (auto simp: slots_nth rk_slot_def same_account_def account_def read_rk_def take_bytes)
  have "find (\<lambda>a. word_at m a \<noteq> 0xFFFFFFFF \<and> is_key m a \<and> bytes m (a + 4) 32 = take 32 h \<and>
         unat (m (a + 36)) = ulen \<and> bytes m (a + 37) ulen = take ulen uid) slot_addrs =
      map_option slot_addr (find (\<lambda>i. key_is (same_account h uid ulen) (slots m ! i)) [0..<5])"
    unfolding slot_addrs_map find_map
    by (intro arg_cong [where f = "map_option slot_addr"] find_cong same) simp_all
  moreover have "find (\<lambda>a. word_at m a = 0xFFFFFFFF) slot_addrs =
      map_option slot_addr (find (\<lambda>i. slots m ! i = None) [0..<5])"
    unfolding slot_addrs_map find_map
    by (intro arg_cong [where f = "map_option slot_addr"] find_cong) (simp add: slots_nth rk_slot_def st)
  ultimately show ?thesis
    unfolding save_slot_find spec_slot_def by (simp split: option.splits)
qed

lemma passkey_save_rk_cases:
  assumes "store_ok (fmem s)" "rk_ok rk"
  shows "case spec_slot (same_account h uid ulen) (slots (fmem s)) of
      None \<Rightarrow> passkey_save_rk h uid ulen rk s = (False, s)
    | Some i \<Rightarrow> i < 5 \<and> fst (passkey_save_rk h uid ulen rk s) \<and>
        fmem (snd (passkey_save_rk h uid ulen rk s)) =
          page_set (fmem s) (slot_addr i) (rk_bytes PASSKEY_MAGIC rk (replicate 25 0xFF)) \<and>
        irq_on (snd (passkey_save_rk h uid ulen rk s)) \<and>
        flash_locked (snd (passkey_save_rk h uid ulen rk s))"
proof (cases "spec_slot (same_account h uid ulen) (slots (fmem s))")
  case None
  then show ?thesis
    using save_slot_spec [OF assms(1), of h uid ulen] by (simp add: passkey_save_rk_def)
next
  case (Some i)
  have "i < 5" using spec_slot_Some(1) [OF Some] by simp
  moreover have "length (rk_bytes PASSKEY_MAGIC rk (replicate 25 0xFF)) = 256"
    by (rule read_back(3) [OF assms(2)]) simp
  ultimately show ?thesis
    using Some save_slot_spec [OF assms(1), of h uid ulen]
    by (simp add: passkey_save_rk_def Let_def erase_write_fmem flash_lock_def [of "flash_write_page _ _ _"])
qed

definition lookup_cred :: "u8 list \<Rightarrow> hw \<Rightarrow> ResidentKey option" where
  "lookup_cred c s = map_option (read_rk (fmem s)) (passkey_find_by_cred_id c s)"

lemma present_slots: "present (slots m) = creds m"
proof -
  have "present (map (rk_slot m) as) = map (read_rk m) (filter (is_key m) as)" for as
    by (induction as) (simp_all add: present_def rk_slot_def)
  then show ?thesis by (simp add: slots_def creds_def)
qed

lemma find_filter: "find P (filter Q xs) = find (\<lambda>x. Q x \<and> P x) xs"
  by (induction xs) auto

lemma lookup_cred_content:
  "length c = 32 \<Longrightarrow> lookup_cred c s = find (\<lambda>k. rk_credential_id k = c) (present (slots (fmem s)))"
  unfolding present_slots creds_def lookup_cred_def passkey_find_by_cred_id_def find_map find_filter
  by (simp add: read_rk_def)

lemma delete_cases:
  assumes "length c = 32"
  shows "case find (\<lambda>i. key_is (\<lambda>k. rk_credential_id k = c) (slots (fmem s) ! i)) [0..<5] of
      None \<Rightarrow> passkey_delete_by_cred_id c s = (False, s)
    | Some i \<Rightarrow> i < 5 \<and> fst (passkey_delete_by_cred_id c s) \<and>
        fmem (snd (passkey_delete_by_cred_id c s)) = page_erase (fmem s) (slot_addr i) \<and>
        irq_on (snd (passkey_delete_by_cred_id c s)) \<and> flash_locked (snd (passkey_delete_by_cred_id c s))"
proof -
  have "find (\<lambda>a. is_key (fmem s) a \<and> bytes (fmem s) (a + 101) 32 = take 32 c) slot_addrs =
      map_option slot_addr (find (\<lambda>i. key_is (\<lambda>k. rk_credential_id k = c) (slots (fmem s) ! i)) [0..<5])"
    unfolding slot_addrs_map find_map using assms
    by (intro arg_cong [where f = "map_option slot_addr"] find_cong)
      (simp add: slots_nth rk_slot_def read_rk_def)
  note eq = this
  show ?thesis
  proof (cases "find (\<lambda>i. key_is (\<lambda>k. rk_credential_id k = c) (slots (fmem s) ! i)) [0..<5]")
    case None
    then show ?thesis using eq by (simp add: passkey_delete_by_cred_id_def)
  next
    case (Some i)
    then have "i < 5" by (auto simp: find_Some_iff)
    then show ?thesis
      using eq Some by (simp add: passkey_delete_by_cred_id_def fmem_erase
          flash_lock_def [of "flash_erase_page _ _"])
  qed
qed

interpretation passkeys: credential_store "\<lambda>s. slots (fmem s)" "\<lambda>s. store_ok (fmem s)"
  passkey_save_rk passkey_delete_by_cred_id lookup_cred
proof
  fix s :: hw and new h uid ulen
  assume a: "store_ok (fmem s)" "rk_ok new"
  note c = passkey_save_rk_cases [OF a, of h uid ulen]
  show "store_ok (fmem (snd (passkey_save_rk h uid ulen new s)))"
    using c a by (auto simp: store_ok_page_set split: option.splits)
  show "case spec_slot (same_account h uid ulen) (slots (fmem s)) of
      None \<Rightarrow> \<not> fst (passkey_save_rk h uid ulen new s) \<and>
        slots (fmem (snd (passkey_save_rk h uid ulen new s))) = slots (fmem s)
    | Some i \<Rightarrow> fst (passkey_save_rk h uid ulen new s) \<and>
        slots (fmem (snd (passkey_save_rk h uid ulen new s))) = (slots (fmem s))[i := Some new]"
    using c a by (auto simp: slots_page_set split: option.splits)
next
  fix s :: hw and c :: "u8 list"
  assume c: "length c = 32"
  show "store_ok (fmem (snd (passkey_delete_by_cred_id c s)))" if "store_ok (fmem s)"
    using delete_cases [OF c, of s] that by (auto simp: store_ok_page_erase split: option.splits)
  show "case find (\<lambda>i. key_is (\<lambda>k. rk_credential_id k = c) (slots (fmem s) ! i)) [0..<length (slots (fmem s))] of
      None \<Rightarrow> \<not> fst (passkey_delete_by_cred_id c s) \<and>
        slots (fmem (snd (passkey_delete_by_cred_id c s))) = slots (fmem s)
    | Some i \<Rightarrow> fst (passkey_delete_by_cred_id c s) \<and>
        slots (fmem (snd (passkey_delete_by_cred_id c s))) = (slots (fmem s))[i := None]"
    using delete_cases [OF c, of s] by (auto simp: slots_page_erase split: option.splits)
  show "lookup_cred c s = find (\<lambda>k. rk_credential_id k = c) (present (slots (fmem s)))"
    by (rule lookup_cred_content [OF c])
qed

section \<open>The structure that is written\<close>

lemma new_rk_ok:
  assumes "32 \<le> length h" "32 \<le> length c" "32 \<le> length pk"
    and "rl \<le> length rp" "ul \<le> length uid" "nl \<le> length nm"
  shows "rk_ok (new_rk h rp rl uid ul nm nl c pk)"
  using assms by (simp add: rk_ok_def new_rk_def Let_def)

lemma new_rk_account:
  assumes "ul \<le> 64" "ul \<le> length uid"
  shows "account (new_rk h rp rl uid ul nm nl c pk) = (take 32 h, ul, take ul uid)"
  using assms by (simp add: account_def new_rk_def Let_def blit_def)

lemma new_rk_cred [simp]: "rk_credential_id (new_rk h rp rl uid ul nm nl c pk) = take 32 c"
  "rk_rp_id_hash (new_rk h rp rl uid ul nm nl c pk) = take 32 h"
  "rk_private_key (new_rk h rp rl uid ul nm nl c pk) = take 32 pk"
  by (simp_all add: new_rk_def Let_def)

section \<open>The PIN page\<close>

lemma pin_frame:
  assumes "\<And>i. i < 256 \<Longrightarrow> fmem s (PIN_FLASH_ADDR + i) = fmem s' (PIN_FLASH_ADDR + i)"
  shows "pin_load s = pin_load s'"
proof -
  have "bytes (fmem s) (PIN_FLASH_ADDR + 4) 16 = bytes (fmem s') (PIN_FLASH_ADDR + 4) 16"
    using assms by (intro bytes_cong) (simp add: add.assoc)
  moreover have "fmem s (PIN_FLASH_ADDR + 20) = fmem s' (PIN_FLASH_ADDR + 20)" using assms by simp
  moreover have "word_at (fmem s) PIN_FLASH_ADDR = word_at (fmem s') PIN_FLASH_ADDR"
    using assms by (rule slot_frame(1))
  ultimately show ?thesis by (simp add: pin_load_def)
qed

lemma slots_pin_frame:
  assumes "\<And>a. a < PIN_FLASH_ADDR \<Longrightarrow> m a = m' a"
  shows "slots m = slots m'" "store_ok m = store_ok m'"
proof -
  have f: "m (slot_addr i + k) = m' (slot_addr i + k)" if "i < 5" "k < 256" for i k
    using slot_pin [OF that(1)] that(2) by (intro assms) simp
  show "slots m = slots m'"
    using slot_frame(4) [of m _ m', OF f] by (intro slots_eqI) (simp_all add: slots_nth)
  show "store_ok m = store_ok m'"
    using slot_frame(1,2,5) [of m _ m', OF f] unfolding store_ok_iff by metis
qed

lemma page_set_below: "a < b \<Longrightarrow> page_set m b d a = m a" "a < b \<Longrightarrow> page_erase m b a = m a"
  by (simp_all add: page_set_def page_erase_def)

lemma pin_load_page:
  assumes "fmem s = page_set m PIN_FLASH_ADDR d" "length d = 256" "take 4 d = le32_bytes w"
  shows "pin_load s = (if w = PIN_MAGIC
      then Some \<lparr>ps_pin_hash = take 16 (drop 4 d), ps_retries = unat (d ! 20)\<rparr> else None)"
proof -
  have b: "bytes (fmem s) (PIN_FLASH_ADDR + off) n = take n (drop off d)" if "off + n \<le> 256" for off n
    unfolding assms(1) using that assms(2) by (rule bytes_page_set)
  have "word_at (fmem s) PIN_FLASH_ADDR = w"
    using b [of 0 4] assms(3) by (intro word_at_le32) simp
  moreover have "fmem s (PIN_FLASH_ADDR + 20) = d ! 20"
    by (simp add: assms(1) page_set_def)
  ultimately show ?thesis by (simp add: pin_load_def b)
qed

lemma pin_save_effect:
  assumes "16 \<le> length h"
  shows "pin_load (pin_save h s) = Some \<lparr>ps_pin_hash = take 16 h, ps_retries = 8\<rparr>"
    "slots (fmem (pin_save h s)) = slots (fmem s)" "store_ok (fmem (pin_save h s)) = store_ok (fmem s)"
    "irq_on (pin_save h s)" "flash_locked (pin_save h s)"
proof -
  let ?d = "le32_bytes PIN_MAGIC @ take 16 h @ [8] @ replicate 235 0"
  have len: "length ?d = 256" using assms by simp
  have m: "fmem (pin_save h s) = page_set (fmem s) PIN_FLASH_ADDR ?d"
    unfolding pin_save_def Let_def fmem_lock(1) using len by (rule erase_write_fmem)
  show "pin_load (pin_save h s) = Some \<lparr>ps_pin_hash = take 16 h, ps_retries = 8\<rparr>"
    using pin_load_page [OF m len, of PIN_MAGIC] assms by (simp add: nth_append)
  show "slots (fmem (pin_save h s)) = slots (fmem s)" "store_ok (fmem (pin_save h s)) = store_ok (fmem s)"
    unfolding m by (intro slots_pin_frame page_set_below(1), assumption)+
  show "irq_on (pin_save h s)" "flash_locked (pin_save h s)"
    by (simp_all add: pin_save_def Let_def flash_lock_def)
qed

lemma le32_bytes_at:
  "bytes m a 4 = le32_bytes (word_at m a)"
  by (simp add: word_at_def le32_of_def le32_bytes_def be32_bytes_of bytes_Suc numeral_eq_Suc)

lemma pin_write_retries_effect:
  assumes "pin_load s = Some p" "r < 256"
  shows "pin_load (pin_write_retries r s) = Some (p\<lparr>ps_retries := r\<rparr>)"
    "slots (fmem (pin_write_retries r s)) = slots (fmem s)"
    "store_ok (fmem (pin_write_retries r s)) = store_ok (fmem s)"
    "irq_on (pin_write_retries r s)" "flash_locked (pin_write_retries r s)"
proof -
  let ?o = "bytes (fmem s) PIN_FLASH_ADDR 256"
  let ?d = "?o[20 := word_of_nat r]"
  have len: "length ?d = 256" by simp
  have m: "fmem (pin_write_retries r s) = page_set (fmem s) PIN_FLASH_ADDR ?d"
    unfolding pin_write_retries_def Let_def fmem_lock(1) using len by (rule erase_write_fmem)
  have p: "word_at (fmem s) PIN_FLASH_ADDR = PIN_MAGIC"
    "p = \<lparr>ps_pin_hash = bytes (fmem s) (PIN_FLASH_ADDR + 4) 16,
          ps_retries = unat (fmem s (PIN_FLASH_ADDR + 20))\<rparr>"
    using assms(1) by (simp_all add: pin_load_def split: if_splits)
  have "take 4 ?d = bytes (fmem s) PIN_FLASH_ADDR 4"
    by (simp add: take_bytes)
  then have t: "take 4 ?d = le32_bytes PIN_MAGIC"
    using le32_bytes_at [of "fmem s" PIN_FLASH_ADDR] p(1) by simp
  have "take 16 (drop 4 ?d) = bytes (fmem s) (PIN_FLASH_ADDR + 4) 16"
    by (rule nth_equalityI) (simp_all add: add.assoc)
  then show "pin_load (pin_write_retries r s) = Some (p\<lparr>ps_retries := r\<rparr>)"
    using pin_load_page [OF m len t] assms(2) by (simp add: p(2) unat_small_u8)
  show "slots (fmem (pin_write_retries r s)) = slots (fmem s)"
    "store_ok (fmem (pin_write_retries r s)) = store_ok (fmem s)"
    unfolding m by (intro slots_pin_frame page_set_below(1), assumption)+
  show "irq_on (pin_write_retries r s)" "flash_locked (pin_write_retries r s)"
    by (simp_all add: pin_write_retries_def Let_def flash_lock_def)
qed

lemma pin_load_retries_lt: "pin_load s = Some p \<Longrightarrow> ps_retries p < 256"
  by (auto simp: pin_load_def split: if_splits)

lemma pin_decrement_effect:
  assumes "pin_load s = Some p"
  shows "pin_load (pin_decrement_retries s) = Some (p\<lparr>ps_retries := ps_retries p - 1\<rparr>)"
    "slots (fmem (pin_decrement_retries s)) = slots (fmem s)"
    "irq_on (pin_decrement_retries s)" "flash_locked (pin_decrement_retries s)"
proof -
  have e: "pin_decrement_retries s = pin_write_retries (ps_retries p - 1) s"
    using assms by (cases "ps_retries p = 0") (simp_all add: pin_decrement_retries_def)
  have "ps_retries p - 1 < 256" using pin_load_retries_lt [OF assms] by simp
  from pin_write_retries_effect [OF assms this]
  show "pin_load (pin_decrement_retries s) = Some (p\<lparr>ps_retries := ps_retries p - 1\<rparr>)"
    "slots (fmem (pin_decrement_retries s)) = slots (fmem s)"
    "irq_on (pin_decrement_retries s)" "flash_locked (pin_decrement_retries s)"
    unfolding e by simp_all
qed

lemma pin_reset_effect:
  assumes "pin_load s = Some p"
  shows "pin_load (pin_reset_retries s) = Some (p\<lparr>ps_retries := 8\<rparr>)"
    "slots (fmem (pin_reset_retries s)) = slots (fmem s)"
    "irq_on (pin_reset_retries s)" "flash_locked (pin_reset_retries s)"
  using assms pin_write_retries_effect [OF assms, of 8]
  by (simp_all add: pin_reset_retries_def)

lemma pin_load_page_set: "i < 5 \<Longrightarrow> fmem s' = page_set (fmem s) (slot_addr i) d \<Longrightarrow> pin_load s' = pin_load s"
  "i < 5 \<Longrightarrow> fmem s' = page_erase (fmem s) (slot_addr i) \<Longrightarrow> pin_load s' = pin_load s"
  using slot_pin [of i] by (auto intro!: pin_frame simp: page_set_other)

lemma passkey_save_rk_pin:
  assumes "store_ok (fmem s)" "rk_ok rk"
  shows "pin_load (snd (passkey_save_rk h uid ulen rk s)) = pin_load s"
  using passkey_save_rk_cases [OF assms, of h uid ulen] pin_load_page_set(1)
  by (auto split: option.splits)

section \<open>Factory reset\<close>

lemma fmem_erase_fold:
  "\<not> flash_locked s \<Longrightarrow>
    fmem (fold flash_erase_page as s) = (\<lambda>i. if \<exists>a \<in> set as. a \<le> i \<and> i < a + 256 then 0xFF else fmem s i) \<and>
    \<not> flash_locked (fold flash_erase_page as s) \<and> irq_on (fold flash_erase_page as s) = irq_on s"
proof (induction as arbitrary: s)
  case (Cons a as)
  have "\<not> flash_locked (flash_erase_page a s)" using Cons.prems by simp
  from Cons.IH [OF this] show ?case
    using Cons.prems by (auto simp: fmem_erase page_erase_def fun_eq_iff)
qed simp

lemma erased_frame:
  "(\<And>i. i < 256 \<Longrightarrow> m (a + i) = 0xFF) \<Longrightarrow> word_at m a = 0xFFFFFFFF \<and> rk_slot m a = None"
  using slot_frame(1,4) [of m a "page_erase m a"] erased_slot [of m a]
  by (simp add: page_erase_def)

lemma factory_reset_effect:
  "slots (fmem (flash_factory_reset s)) = replicate 5 None"
  "pin_load (flash_factory_reset s) = None"
  "\<not> irq_on (flash_factory_reset s)" "\<not> flash_locked (flash_factory_reset s)"
proof -
  have m: "fmem (flash_factory_reset s) =
      (\<lambda>i. if \<exists>a \<in> set (slot_addrs @ [PIN_FLASH_ADDR]). a \<le> i \<and> i < a + 256 then 0xFF else fmem s i)"
    "\<not> flash_locked (flash_factory_reset s)" "irq_on (flash_factory_reset s) = irq_on (flash_unlock s)"
    using fmem_erase_fold [of "flash_unlock s" "slot_addrs @ [PIN_FLASH_ADDR]"]
    unfolding flash_factory_reset_def by (simp_all cong: if_cong)
  have e: "fmem (flash_factory_reset s) (a + i) = 0xFF"
    if "a \<in> set (slot_addrs @ [PIN_FLASH_ADDR])" "i < 256" for a i
    using that unfolding m(1) by (auto intro!: bexI [of _ a])
  show "slots (fmem (flash_factory_reset s)) = replicate 5 None"
    by (rule slots_eqI) (simp_all add: erased_frame e slot_in exI)
  have "word_at (fmem (flash_factory_reset s)) PIN_FLASH_ADDR = 0xFFFFFFFF"
    using erased_frame [of "fmem (flash_factory_reset s)" PIN_FLASH_ADDR] e by simp
  then show "pin_load (flash_factory_reset s) = None"
    by (simp add: pin_load_def PIN_MAGIC_def)
  show "\<not> irq_on (flash_factory_reset s)" "\<not> flash_locked (flash_factory_reset s)"
    using m by (simp_all add: flash_unlock_def)
qed

section \<open>Enumeration\<close>

lemma fold_count: "fold (\<lambda>a c. if P a then c + 1 else c) as n = n + length (filter P as)"
  by (induction as arbitrary: n) auto

lemma count_all_creds: "passkey_count_all s = length (creds (fmem s))"
  by (simp add: passkey_count_all_def fold_count creds_def)

definition creds_of_rp :: "u8 list \<Rightarrow> mem \<Rightarrow> ResidentKey list" where
  "creds_of_rp h m = filter (\<lambda>k. rk_rp_id_hash k = h) (creds m)"

lemma creds_of_rp_addrs:
  "creds_of_rp h m = map (read_rk m) (filter (\<lambda>a. is_key m a \<and> bytes m (a + 4) 32 = h) slot_addrs)"
  by (simp add: creds_of_rp_def creds_def filter_map comp_def read_rk_def conj_commute)

lemma rp_index_loop_nth:
  "rp_index_loop m h t as n =
    (let ms = filter (\<lambda>a. is_key m a \<and> bytes m (a + 4) 32 = take 32 h) as
     in if n \<le> t \<and> t - n < length ms then Some (ms ! (t - n)) else None)"
  by (induction as arbitrary: n) (auto simp: Let_def nth_Cons' Suc_diff_le)

lemma get_by_rp_index_creds:
  assumes "length h = 32"
  shows "map_option (read_rk (fmem s)) (passkey_get_by_rp_index h i s) =
      (if i < length (creds_of_rp h (fmem s)) then Some (creds_of_rp h (fmem s) ! i) else None)"
    "passkey_count_for_rp h s = length (creds_of_rp h (fmem s))"
  using assms
  by (simp_all add: passkey_get_by_rp_index_def rp_index_loop_nth Let_def creds_of_rp_addrs
      passkey_count_for_rp_def fold_count)

text \<open>The RP hashes in order of first appearance.\<close>

definition rp_hashes :: "mem \<Rightarrow> u8 list list" where
  "rp_hashes m = rev (remdups (rev (map rk_rp_id_hash (creds m))))"

lemma distinct_rp_hashes: "distinct (rp_hashes m)" "set (rp_hashes m) = rk_rp_id_hash ` set (creds m)"
  by (simp_all add: rp_hashes_def)

lemma unique_rp_loop_nth:
  "unique_rp_loop m t as n =
    (let us = filter (\<lambda>a. is_key m a \<and> rp_unique m a) as
     in if n \<le> t \<and> t - n < length us then Some (bytes m (us ! (t - n) + 4) 32) else None)"
  by (induction as arbitrary: n) (auto simp: Let_def nth_Cons' Suc_diff_le)

lemma slot_addrs_prefix:
  assumes "slot_addrs = pre @ a # post"
  shows "takeWhile (\<lambda>c. c < a) slot_addrs = pre"
proof -
  have "sorted_wrt (<) slot_addrs"
    by (simp add: slot_addrs_map sorted_wrt_map slot_addr_def PASSKEY_PAGE_SIZE_def sorted_wrt_upt)
  then have "\<forall>x \<in> set pre. x < a" "\<not> a < a"
    unfolding assms by (simp_all add: sorted_wrt_append)
  then show ?thesis unfolding assms by (simp add: takeWhile_append2)
qed

lemma unique_hashes:
  assumes "slot_addrs = pre @ post"
  shows "map (\<lambda>a. bytes m (a + 4) 32) (filter (\<lambda>a. is_key m a \<and> rp_unique m a) pre) =
    rev (remdups (rev (map (\<lambda>a. bytes m (a + 4) 32) (filter (is_key m) pre))))"
  using assms
proof (induction pre arbitrary: post rule: rev_induct)
  case (snoc a pre)
  have "slot_addrs = pre @ a # post" using snoc.prems by simp
  note tw = slot_addrs_prefix [OF this]
  have "rp_unique m a \<longleftrightarrow> \<not> (\<exists>c \<in> set pre. is_key m c \<and> bytes m (c + 4) 32 = bytes m (a + 4) 32)"
    by (simp only: rp_unique_def tw list_ex_iff)
  then have "rp_unique m a \<longleftrightarrow>
      bytes m (a + 4) 32 \<notin> set (map (\<lambda>a. bytes m (a + 4) 32) (filter (is_key m) pre))"
    by (auto simp: image_iff)
  then show ?case
    using snoc.IH [of "a # post"] snoc.prems by auto
qed simp

lemma unique_rp_hashes:
  "map (\<lambda>a. bytes m (a + 4) 32) (filter (\<lambda>a. is_key m a \<and> rp_unique m a) slot_addrs) = rp_hashes m"
  using unique_hashes [of slot_addrs "[]" m]
  by (simp add: rp_hashes_def creds_def comp_def read_rk_def)

lemma rp_enumeration:
  "passkey_count_unique_rps s = length (rp_hashes (fmem s))"
  "passkey_get_unique_rp_hash i s =
    (if i < length (rp_hashes (fmem s)) then Some (rp_hashes (fmem s) ! i) else None)"
proof -
  have len: "length (filter (\<lambda>a. is_key (fmem s) a \<and> rp_unique (fmem s) a) slot_addrs) =
      length (rp_hashes (fmem s))"
    using arg_cong [OF unique_rp_hashes [of "fmem s"], of length] by simp
  show "passkey_count_unique_rps s = length (rp_hashes (fmem s))"
    using len by (simp add: passkey_count_unique_rps_def fold_count)
  show "passkey_get_unique_rp_hash i s =
    (if i < length (rp_hashes (fmem s)) then Some (rp_hashes (fmem s) ! i) else None)"
    using len unfolding passkey_get_unique_rp_hash_def unique_rp_loop_nth Let_def
    by (simp flip: unique_rp_hashes)
qed

section \<open>The PIN store as an interface\<close>

text \<open>What the PIN commands rely on, whatever the storage.\<close>

locale pin_store =
  fixes load :: "'s \<Rightarrow> PINState option" and save :: "u8 list \<Rightarrow> 's \<Rightarrow> 's"
    and decrement :: "'s \<Rightarrow> 's" and reset :: "'s \<Rightarrow> 's" and others :: "'s \<Rightarrow> 'a"
  assumes load_save: "16 \<le> length h \<Longrightarrow> load (save h s) = Some \<lparr>ps_pin_hash = take 16 h, ps_retries = 8\<rparr>"
    and load_decrement: "load (decrement s) = map_option (\<lambda>p. p\<lparr>ps_retries := ps_retries p - 1\<rparr>) (load s)"
    and load_reset: "load (reset s) = map_option (\<lambda>p. p\<lparr>ps_retries := 8\<rparr>) (load s)"
    and others_save: "16 \<le> length h \<Longrightarrow> others (save h s) = others s"
    and others_decrement: "others (decrement s) = others s"
    and others_reset: "others (reset s) = others s"
begin

text \<open>A run of wrong guesses uses the counter up and leaves it at zero.\<close>

lemma guesses:
  "load s = Some p \<Longrightarrow> load ((decrement ^^ n) s) = Some (p\<lparr>ps_retries := ps_retries p - n\<rparr>)"
  by (induction n) (simp_all add: load_decrement)

lemma blocked_after: "load s = Some p \<Longrightarrow> ps_retries p \<le> n \<Longrightarrow>
    map_option ps_retries (load ((decrement ^^ n) s)) = Some 0"
  by (simp add: guesses)

lemma others_guesses: "others ((decrement ^^ n) s) = others s"
  by (induction n) (simp_all add: others_decrement)

end

interpretation pins: pin_store pin_load pin_save pin_decrement_retries pin_reset_retries "\<lambda>s. slots (fmem s)"
proof
  fix s :: hw and h :: "u8 list"
  show "16 \<le> length h \<Longrightarrow> pin_load (pin_save h s) = Some \<lparr>ps_pin_hash = take 16 h, ps_retries = 8\<rparr>"
    by (rule pin_save_effect(1))
  show "pin_load (pin_decrement_retries s) = map_option (\<lambda>p. p\<lparr>ps_retries := ps_retries p - 1\<rparr>) (pin_load s)"
    using pin_decrement_effect(1) [of s] by (cases "pin_load s") (auto simp: pin_decrement_retries_def)
  show "pin_load (pin_reset_retries s) = map_option (\<lambda>p. p\<lparr>ps_retries := 8\<rparr>) (pin_load s)"
    using pin_reset_effect(1) [of s] by (cases "pin_load s") (auto simp: pin_reset_retries_def)
  show "16 \<le> length h \<Longrightarrow> slots (fmem (pin_save h s)) = slots (fmem s)"
    by (rule pin_save_effect(2))
  show "slots (fmem (pin_decrement_retries s)) = slots (fmem s)"
    using pin_decrement_effect(2) [of s] by (cases "pin_load s") (auto simp: pin_decrement_retries_def)
  show "slots (fmem (pin_reset_retries s)) = slots (fmem s)"
    using pin_reset_effect(2) [of s] by (cases "pin_load s") (auto simp: pin_reset_retries_def)
qed

section \<open>Properties\<close>

definition blank_hw :: hw where
  "blank_hw = \<lparr>fmem = (\<lambda>_. 0xFF), flash_locked = True, irq_on = True\<rparr>"

lemma blank_store: "slots (fmem blank_hw) = replicate 5 None" "store_ok (fmem blank_hw)"
  "pin_load blank_hw = None"
proof -
  have e: "word_at (fmem blank_hw) a = 0xFFFFFFFF \<and> rk_slot (fmem blank_hw) a = None" for a
    by (rule erased_frame) (simp add: blank_hw_def)
  then show "slots (fmem blank_hw) = replicate 5 None"
    by (intro slots_eqI) simp_all
  show "store_ok (fmem blank_hw)"
    unfolding store_ok_iff using e magic_ne by (simp add: is_key_def)
  show "pin_load blank_hw = None"
    using e by (simp add: pin_load_def PIN_MAGIC_def)
qed

lemma save_refines:
  assumes "store_ok (fmem s)" "32 \<le> length h" "32 \<le> length c" "32 \<le> length pk"
    and "rl \<le> length rp" "ul \<le> length uid" "nl \<le> length nm"
  shows "case spec_slot (same_account h uid ul) (slots (fmem s)) of
      None \<Rightarrow> passkey_save h rp rl uid ul nm nl c pk s = (False, s)
    | Some i \<Rightarrow> (let (r, s') = passkey_save h rp rl uid ul nm nl c pk s in
        r \<and> slots (fmem s') = (slots (fmem s))[i := Some (new_rk h rp rl uid ul nm nl c pk)] \<and>
        store_ok (fmem s') \<and> pin_load s' = pin_load s \<and> flash_locked s' \<and> irq_on s')"
proof -
  have rk: "rk_ok (new_rk h rp rl uid ul nm nl c pk)" using assms by (intro new_rk_ok)
  show ?thesis
    using passkey_save_rk_cases [OF assms(1) rk, of h uid ul] rk assms(1)
      passkey_save_rk_pin [OF assms(1) rk, of h uid ul]
    by (auto simp: passkey_save_def split_beta slots_page_set store_ok_page_set split: option.splits)
qed

text \<open>C20: on a well-formed store \<open>passkey_save\<close> puts the new credential into the slot the
  specification names (the slot of the same account, else the first free one), keeps every other
  slot, the PIN page and the invariant, and leaves the controller locked and interrupts enabled;
  it fails without any write exactly when there is no such slot.\<close>

theorem passkey_save_refines:
  assumes "store_ok (fmem s)" "32 \<le> length h" "32 \<le> length c" "32 \<le> length pk"
    and "rl \<le> length rp" "ul \<le> length uid" "nl \<le> length nm"
  shows "case spec_slot (same_account h uid ul) (slots (fmem s)) of
      None \<Rightarrow> passkey_save h rp rl uid ul nm nl c pk s = (False, s)
    | Some i \<Rightarrow> (let (r, s') = passkey_save h rp rl uid ul nm nl c pk s in
        r \<and> slots (fmem s') = (slots (fmem s))[i := Some (new_rk h rp rl uid ul nm nl c pk)] \<and>
        store_ok (fmem s') \<and> pin_load s' = pin_load s \<and> flash_locked s' \<and> irq_on s')"
  by (rule save_refines [OF assms])

lemma passkey_save_refines_witness:
  "slots (fmem (snd (passkey_save (replicate 32 1) [0x61] 1 [7] 1 [] 0 (replicate 32 2) (replicate 32 3) blank_hw))) ! 0
    = Some (new_rk (replicate 32 1) [0x61] 1 [7] 1 [] 0 (replicate 32 2) (replicate 32 3))"
  using passkey_save_refines [of blank_hw "replicate 32 1" "replicate 32 2" "replicate 32 3" 1 "[0x61]" 1 "[7]" 0 "[]"]
  by (simp add: blank_store spec_slot_def upt_rec split_beta)

text \<open>After a successful save under a fresh credential id, \<open>passkey_find_by_cred_id\<close> finds
  a record with exactly the saved contents.\<close>

theorem passkey_found_after_save:
  assumes "store_ok (fmem s)" "32 \<le> length h" "length c = 32" "32 \<le> length pk"
    and "rl \<le> length rp" "ul \<le> length uid" "nl \<le> length nm" "ul < 256"
    and "fst (passkey_save h rp rl uid ul nm nl c pk s)"
    and "\<forall>k \<in> set (creds (fmem s)). rk_credential_id k \<noteq> c"
  shows "map_option (read_rk (fmem (snd (passkey_save h rp rl uid ul nm nl c pk s))))
      (passkey_find_by_cred_id c (snd (passkey_save h rp rl uid ul nm nl c pk s))) =
    Some (new_rk h rp rl uid ul nm nl c pk)"
proof -
  have "rk_ok (new_rk h rp rl uid ul nm nl c pk)" using assms by (intro new_rk_ok) simp_all
  from passkeys.lookup_after_save [OF assms(1) this assms(8), of h uid] show ?thesis
    using assms(3,9,10) by (simp add: passkey_save_def lookup_cred_def present_slots)
qed

lemma passkey_found_after_save_witness:
  "map_option (\<lambda>a. 4 < a) (passkey_find_by_cred_id (replicate 32 2)
     (snd (passkey_save (replicate 32 1) [] 0 [7] 1 [] 0 (replicate 32 2) (replicate 32 3) blank_hw))) \<noteq> None"
proof -
  have "fst (passkey_save (replicate 32 1) [] 0 [7] 1 [] 0 (replicate 32 2) (replicate 32 3) blank_hw)"
    using passkey_save_rk_cases [of blank_hw "new_rk (replicate 32 1) [] 0 [7] 1 [] 0 (replicate 32 2) (replicate 32 3)"
        "replicate 32 1" "[7]" 1]
    by (simp add: passkey_save_def blank_store spec_slot_def upt_rec new_rk_ok)
  then show ?thesis
    using passkey_found_after_save [of blank_hw "replicate 32 1" "replicate 32 2" "replicate 32 3" 0 "[]" 1 "[7]" 0 "[]"]
    by (auto simp: blank_store present_slots [symmetric] present_def)
qed

text \<open>Re-registration never makes an account occupy two slots: if no two slots hold the same
  RP hash and user id, the same is true after \<open>passkey_save\<close> with a user id of at most 64 bytes.\<close>

theorem passkey_accounts_unique:
  assumes "store_ok (fmem s)" "32 \<le> length h" "32 \<le> length c" "32 \<le> length pk"
    and "rl \<le> length rp" "ul \<le> length uid" "nl \<le> length nm" "ul \<le> 64"
    and "accounts_unique (slots (fmem s))"
  shows "accounts_unique (slots (fmem (snd (passkey_save h rp rl uid ul nm nl c pk s))))"
proof -
  have "rk_ok (new_rk h rp rl uid ul nm nl c pk)" using assms by (intro new_rk_ok)
  then show ?thesis
    using assms unfolding passkey_save_def
    by (intro passkeys.save_unique) (simp_all add: new_rk_account)
qed

lemma passkey_accounts_unique_witness:
  "accounts_unique (slots (fmem (snd (passkey_save (replicate 32 1) [] 0 [7] 1 [] 0
     (replicate 32 2) (replicate 32 3) blank_hw))))"
  by (rule passkey_accounts_unique) (simp_all add: blank_store accounts_unique_def)

lemma delete_refines:
  assumes "store_ok (fmem s)" "length c = 32"
  shows "case find (\<lambda>i. key_is (\<lambda>k. rk_credential_id k = c) (slots (fmem s) ! i)) [0..<5] of
      None \<Rightarrow> passkey_delete_by_cred_id c s = (False, s)
    | Some i \<Rightarrow> (let (r, s') = passkey_delete_by_cred_id c s in
        r \<and> slots (fmem s') = (slots (fmem s))[i := None] \<and> store_ok (fmem s') \<and>
        pin_load s' = pin_load s \<and> flash_locked s' \<and> irq_on s')"
proof (cases "find (\<lambda>i. key_is (\<lambda>k. rk_credential_id k = c) (slots (fmem s) ! i)) [0..<5]")
  case None
  then show ?thesis using delete_cases [OF assms(2), of s] by simp
next
  case (Some i)
  define s' where "s' = snd (passkey_delete_by_cred_id c s)"
  have d: "i < 5" "fst (passkey_delete_by_cred_id c s)" "fmem s' = page_erase (fmem s) (slot_addr i)"
    "irq_on s'" "flash_locked s'"
    using delete_cases [OF assms(2), of s] Some by (simp_all add: s'_def)
  have "slots (fmem s') = (slots (fmem s))[i := None]" "store_ok (fmem s')" "pin_load s' = pin_load s"
    using slots_page_erase [OF d(1)] store_ok_page_erase [OF assms(1) d(1)]
      pin_load_page_set(2) [OF d(1,3)]
    by (simp_all add: d(3))
  then show ?thesis
    using Some d by (simp add: split_beta s'_def)
qed

text \<open>C21: \<open>passkey_delete_by_cred_id\<close> empties the first slot with that credential id, keeps the
  others, the PIN page and the invariant; it reports failure and writes nothing when there is none.\<close>

theorem passkey_delete_refines:
  assumes "store_ok (fmem s)" "length c = 32"
  shows "case find (\<lambda>i. key_is (\<lambda>k. rk_credential_id k = c) (slots (fmem s) ! i)) [0..<5] of
      None \<Rightarrow> passkey_delete_by_cred_id c s = (False, s)
    | Some i \<Rightarrow> (let (r, s') = passkey_delete_by_cred_id c s in
        r \<and> slots (fmem s') = (slots (fmem s))[i := None] \<and> store_ok (fmem s') \<and>
        pin_load s' = pin_load s \<and> flash_locked s' \<and> irq_on s')"
  by (rule delete_refines [OF assms])

lemma passkey_delete_refines_witness:
  "passkey_delete_by_cred_id (replicate 32 2) blank_hw = (False, blank_hw)"
  using passkey_delete_refines [of blank_hw "replicate 32 2"] by (simp add: blank_store upt_rec)

text \<open>The enumeration functions: \<open>passkey_count_for_rp\<close> and \<open>passkey_get_by_rp_index\<close> count and
  index the stored credentials of an RP in slot order; \<open>passkey_count_unique_rps\<close> and
  \<open>passkey_get_unique_rp_hash\<close> count and index the distinct RP hashes in order of first
  appearance, so indices below the count, and only these, succeed.\<close>

theorem passkey_enumeration:
  assumes "length h = 32"
  shows "passkey_count_all s = length (creds (fmem s)) \<and>
    passkey_count_for_rp h s = length (creds_of_rp h (fmem s)) \<and>
    map_option (read_rk (fmem s)) (passkey_get_by_rp_index h i s) =
      (if i < length (creds_of_rp h (fmem s)) then Some (creds_of_rp h (fmem s) ! i) else None) \<and>
    passkey_count_unique_rps s = length (rp_hashes (fmem s)) \<and>
    passkey_get_unique_rp_hash i s =
      (if i < length (rp_hashes (fmem s)) then Some (rp_hashes (fmem s) ! i) else None) \<and>
    distinct (rp_hashes (fmem s)) \<and> set (rp_hashes (fmem s)) = rk_rp_id_hash ` set (creds (fmem s))"
  using get_by_rp_index_creds(1) [OF assms, of s i] get_by_rp_index_creds(2) [OF assms, of s]
    rp_enumeration(1) [of s] rp_enumeration(2) [of i s] distinct_rp_hashes [of "fmem s"]
    count_all_creds [of s]
  by simp

lemma passkey_enumeration_witness: "passkey_count_for_rp (replicate 32 1) blank_hw = 0"
proof -
  have "creds (fmem blank_hw) = []"
    by (simp add: present_slots [symmetric] blank_store present_def)
  then show ?thesis
    using passkey_enumeration [of "replicate 32 1" blank_hw 0] by (simp add: creds_of_rp_def)
qed

text \<open>\<open>flash_factory_reset\<close> erases every credential and the PIN, from any state; but it
  returns with the flash controller unlocked and interrupts disabled.\<close>

theorem factory_reset_erases:
  "slots (fmem (flash_factory_reset s)) = replicate 5 None \<and> pin_load (flash_factory_reset s) = None \<and>
    \<not> irq_on (flash_factory_reset s) \<and> \<not> flash_locked (flash_factory_reset s)"
  using factory_reset_effect [of s] by blast

text \<open>The PIN page: \<open>pin_save\<close> stores the first 16 hash bytes with eight retries,
  \<open>pin_decrement_retries\<close> takes one retry away and stops at zero, \<open>pin_reset_retries\<close> restores
  eight; none of them touches a credential.\<close>

theorem pin_page_operations:
  assumes "16 \<le> length h" "pin_load s = Some p"
  shows "pin_load (pin_save h s) = Some \<lparr>ps_pin_hash = take 16 h, ps_retries = 8\<rparr> \<and>
    pin_load (pin_decrement_retries s) = Some (p\<lparr>ps_retries := ps_retries p - 1\<rparr>) \<and>
    pin_load (pin_reset_retries s) = Some (p\<lparr>ps_retries := 8\<rparr>) \<and>
    slots (fmem (pin_save h s)) = slots (fmem s) \<and>
    slots (fmem (pin_decrement_retries s)) = slots (fmem s) \<and>
    slots (fmem (pin_reset_retries s)) = slots (fmem s)"
  using pin_save_effect [OF assms(1), of s] pin_decrement_effect [OF assms(2)] pin_reset_effect [OF assms(2)]
  by blast

lemma pin_page_operations_witness:
  "pin_load (pin_decrement_retries (pin_save (replicate 16 9) blank_hw)) =
     Some \<lparr>ps_pin_hash = replicate 16 9, ps_retries = 7\<rparr>"
  using pin_page_operations [of "replicate 16 9", OF _ pin_save_effect(1) [of "replicate 16 9" blank_hw]]
  by simp

end
