(* ===== verification/CborSpec.thy ===== *)
theory CborSpec
  imports CborParse
begin

text \<open>
  What the request scanner computes, against a datatype of CBOR items (the subset of RFC 8949
  whose arguments fit 16 bits, which is what \<open>skip_cbor_item\<close> decodes).

  \<^item> \<open>enc\<close> is the shortest-form encoding, \<open>holds m p c\<close> says that it stands at address \<open>p\<close>,
    \<open>ok_item d c\<close> bounds the arguments and the nesting depth.
  \<^item> \<open>skip_item_len\<close>: on such an item \<open>skip_cbor_item\<close> returns its length, provided the
    stack has room for its nesting depth.
  \<^item> \<open>get_cbor_map_*_spec\<close>: the look-ups are \<open>map_of\<close> on the decoded map, absent keys included.
  \<^item> \<open>skip_diverges_aux\<close>: four bytes of input on which the scanner never returns.
  \<^item> \<open>lookup_local\<close>: on any input the result depends on no byte more than two places behind
    the end of the buffer, and \<open>map_walk_bound\<close>: a value that is found starts inside it.
\<close>

section \<open>Heads\<close>

lemma bytes_Cons_iff:
  "bytes m p (length (x # xs)) = x # xs \<longleftrightarrow> m p = x \<and> bytes m (Suc p) (length xs) = xs"
  by (simp add: bytes_Suc)

lemma bytes_append_iff:
  "bytes m p (length (xs @ ys)) = xs @ ys \<longleftrightarrow>
     bytes m p (length xs) = xs \<and> bytes m (p + length xs) (length ys) = ys"
  by (simp add: bytes_add)

lemma unat_ucast_u8: "v \<le> 0xFF \<Longrightarrow> unat (ucast (v :: u32) :: u8) = unat v"
  by (simp add: unsigned_ucast_eq word_le_nat_alt take_bit_nat_eq_self)

lemma unat_low_byte: "unat (ucast ((v :: u32) AND 0xFF) :: u8) = unat v mod 256"
  unfolding mask8_u32
  by (simp add: unsigned_ucast_eq unsigned_take_bit_eq take_bit_eq_mod unat_mod_distrib flip: take_bit_eq_mask)

lemma u8_less_32: "unat (b :: u8) < 32 \<Longrightarrow> b < 32"
  by (simp add: word_less_nat_alt)

lemma head_at:
  assumes "bytes m p (length (head_bytes M v)) = head_bytes M v" "v \<le> 0xFFFF"
  shows "item_head m p = (unat v, length (head_bytes M v))" "m p AND 0xE0 = push_bit 5 M"
proof -
  have "item_head m p = (unat v, length (head_bytes M v)) \<and> m p AND 0xE0 = push_bit 5 M"
  proof -
    consider (a) "v < 24" | (b) "\<not> v < 24" "v \<le> 0xFF" | (c) "\<not> v < 24" "\<not> v \<le> 0xFF"
      by blast
    then show ?thesis
    proof cases
      case a
      then have hb: "head_bytes M v = [push_bit 5 M OR ucast v]"
        by (simp add: head_bytes_def)
      have n: "unat (ucast v :: u8) = unat v"
        by (rule unat_ucast_u8) (use a in \<open>simp add: word_le_nat_alt word_less_nat_alt\<close>)
      then have "(ucast v :: u8) < 32"
        using a by (intro u8_less_32) (simp add: word_less_nat_alt)
      note hl = hi3_of_head [OF this] lo5_of_head [OF this]
      have "m p = push_bit 5 M OR ucast v"
        using assms(1) by (simp add: hb bytes_Suc)
      then show ?thesis
        using a n by (simp add: item_head_def hb hl word_less_nat_alt)
    next
      case b
      then have hb: "head_bytes M v = [push_bit 5 M OR 24, ucast v]"
        by (simp add: head_bytes_def)
      note hl = hi3_of_head [of 24] lo5_of_head [of 24]
      have "m p = push_bit 5 M OR 24" "m (Suc p) = ucast v"
        using assms(1) by (simp_all add: hb bytes_Suc)
      then show ?thesis
        using b by (simp add: item_head_def hb hl unat_ucast_u8)
    next
      case c
      then have hb: "head_bytes M v =
          [push_bit 5 M OR 25, ucast (drop_bit 8 v AND 0xFF), ucast (v AND 0xFF)]"
        using assms(2) by (simp add: head_bytes_def)
      note hl = hi3_of_head [of 25] lo5_of_head [of 25]
      have mp: "m p = push_bit 5 M OR 25" "m (Suc p) = ucast (drop_bit 8 v AND 0xFF)"
        "m (Suc (Suc p)) = ucast (v AND 0xFF)"
        using assms(1) by (simp_all add: hb bytes_Suc)
      have "unat v < 65536"
        using assms(2) by (simp add: word_le_nat_alt)
      then have "be16 (m (Suc p)) (m (Suc (Suc p))) = unat v"
        unfolding mp be16_nat unat_low_byte by (simp add: unat_drop_bit_eq drop_bit_eq_div unat_div_distrib)
      then show ?thesis
        using mp by (simp add: item_head_def hb hl)
    qed
  qed
  then show "item_head m p = (unat v, length (head_bytes M v))" "m p AND 0xE0 = push_bit 5 M"
    by auto
qed

section \<open>Items\<close>

datatype cbor =
    CUint nat | CNeg nat | CBytes "u8 list" | CText "u8 list"
  | CArray "cbor list" | CMap "(cbor \<times> cbor) list" | CBool bool

definition head_nat :: "u8 \<Rightarrow> nat \<Rightarrow> u8 list" where
  "head_nat M n = head_bytes M (word_of_nat n)"

fun enc :: "cbor \<Rightarrow> u8 list" where
  "enc (CUint n) = head_nat 0 n"
| "enc (CNeg n) = head_nat 1 n"
| "enc (CBytes b) = head_nat 2 (length b) @ b"
| "enc (CText b) = head_nat 3 (length b) @ b"
| "enc (CArray cs) = head_nat 4 (length cs) @ concat (map enc cs)"
| "enc (CMap kvs) = head_nat 5 (length kvs) @ concat (map (\<lambda>(k, v). enc k @ enc v) kvs)"
| "enc (CBool b) = [if b then 0xF5 else 0xF4]"

fun ok_item :: "nat \<Rightarrow> cbor \<Rightarrow> bool" where
  "ok_item 0 c = False"
| "ok_item (Suc d) c = (case c of
      CUint n \<Rightarrow> n < 65536 | CNeg n \<Rightarrow> n < 65536
    | CBytes b \<Rightarrow> length b < 65536 | CText b \<Rightarrow> length b < 65536
    | CArray cs \<Rightarrow> length cs < 65536 \<and> (\<forall>c \<in> set cs. ok_item d c)
    | CMap kvs \<Rightarrow> length kvs < 65536 \<and> (\<forall>(k, v) \<in> set kvs. ok_item d k \<and> ok_item d v)
    | CBool b \<Rightarrow> True)"

definition flat :: "(cbor \<times> cbor) list \<Rightarrow> cbor list" where
  "flat kvs = concat (map (\<lambda>(k, v). [k, v]) kvs)"

lemma enc_flat: "concat (map (\<lambda>(k, v). enc k @ enc v) kvs) = concat (map enc (flat kvs))"
  by (induction kvs) (auto simp: flat_def)

lemma length_flat: "length (flat kvs) = length kvs * 2"
  by (induction kvs) (auto simp: flat_def)

lemma set_flat: "c \<in> set (flat kvs) \<longleftrightarrow> (\<exists>(k, v) \<in> set kvs. c = k \<or> c = v)"
  by (auto simp: flat_def)

definition holds :: "mem \<Rightarrow> nat \<Rightarrow> cbor \<Rightarrow> bool" where
  "holds m p c \<longleftrightarrow> bytes m p (length (enc c)) = enc c"

lemma head_nat_at:
  assumes "bytes m p (length (head_nat M n)) = head_nat M n" "n < 65536"
  shows "item_head m p = (n, length (head_nat M n))" "m p AND 0xE0 = push_bit 5 M"
proof -
  have "unat (word_of_nat n :: u32) = n" "(word_of_nat n :: u32) \<le> 0xFFFF"
    using assms(2) by (simp_all add: unat_of_nat word_le_nat_alt)
  with head_at [OF assms(1) [unfolded head_nat_def]] show "item_head m p = (n, length (head_nat M n))" "m p AND 0xE0 = push_bit 5 M"
    by (simp_all add: head_nat_def)
qed

lemma head_nat_ne: "head_nat M n \<noteq> []"
  by (simp add: head_nat_def head_bytes_ne)

lemma enc_ne: "enc c \<noteq> []"
  by (cases c) (simp_all add: head_nat_ne)

lemma enc_pos: "0 < length (enc c)"
  using enc_ne by simp

section \<open>Skipping an item\<close>

lemma skip_loop_items:
  assumes "\<And>c q l. c \<in> set cs \<Longrightarrow> holds m q c \<Longrightarrow> length (enc c) \<le> l \<Longrightarrow> l < 65536 \<Longrightarrow>
      skip q l = Some (length (enc c))"
    and "bytes m (p + off) (length (concat (map enc cs))) = concat (map enc cs)"
    and "off + length (concat (map enc cs)) \<le> len" "len < 65536"
  shows "skip_loop skip p len (length cs) off = Some (off + length (concat (map enc cs)))"
  using assms
proof (induction cs arbitrary: off)
  case Nil
  then show ?case by simp
next
  case (Cons c cs)
  have h: "holds m (p + off) c"
    and rest: "bytes m (p + (off + length (enc c))) (length (concat (map enc cs))) = concat (map enc cs)"
    using Cons.prems(2) by (simp_all add: holds_def bytes_add add.assoc)
  have "0 < length (enc c)"
    using enc_ne by simp
  with Cons.prems(3) have pos: "off < len"
    by (simp del: length_greater_0_conv)
  have "skip (p + off) (len - off) = Some (length (enc c))"
    using Cons.prems(3,4) by (intro Cons.prems(1) h) auto
  moreover have "skip_loop skip p len (length cs) (off + length (enc c)) =
      Some (off + length (enc c) + length (concat (map enc cs)))"
    using Cons.prems rest by (intro Cons.IH) auto
  ultimately show ?case
    using Cons.prems(3,4) pos by (simp add: not_le)
qed

lemma skip_item_len:
  assumes "ok_item d c" "d \<le> stk" "holds m p c" "length (enc c) \<le> len" "len < 65536"
  shows "skip_cbor_item stk m p len = Some (length (enc c))"
  using assms
proof (induction d arbitrary: stk c p len)
  case 0
  then show ?case by simp
next
  case (Suc d)
  then obtain stk' where stk: "stk = Suc stk'" "d \<le> stk'"
    by (cases stk) auto
  have "0 < length (enc c)"
    using enc_ne by simp
  with Suc.prems(4) have len: "len \<noteq> 0"
    by linarith
  note IH = Suc.IH [OF _ stk(2)]
  note b = Suc.prems(3) [unfolded holds_def]
  note hn = head_nat_at [of m p]
  show ?case
  proof (cases c)
    case (CUint n)
    then show ?thesis using Suc.prems(1) b len hn [of 0 n] by (simp add: stk)
  next
    case (CNeg n)
    then show ?thesis using Suc.prems(1) b len hn [of 1 n] by (simp add: stk)
  next
    case (CBytes bs)
    then show ?thesis
      using Suc.prems(1,4,5) b len hn [of 2 "length bs"] by (simp add: stk bytes_add)
  next
    case (CText bs)
    then show ?thesis
      using Suc.prems(1,4,5) b len hn [of 3 "length bs"] by (simp add: stk bytes_add)
  next
    case (CArray cs)
    let ?h = "head_nat 4 (length cs)"
    have hd: "item_head m p = (length cs, length ?h)" "m p AND 0xE0 = 0x80"
      using hn [of 4 "length cs"] b Suc.prems(1) CArray by (simp_all add: bytes_add)
    have "skip_loop (skip_cbor_item stk' m) p len (length cs) (length ?h) =
        Some (length ?h + length (concat (map enc cs)))"
      using Suc.prems CArray IH b by (intro skip_loop_items) (auto simp: bytes_add)
    then show ?thesis using len CArray by (simp add: stk hd)
  next
    case (CMap kvs)
    let ?h = "head_nat 5 (length kvs)"
    have hd: "item_head m p = (length kvs, length ?h)" "m p AND 0xE0 = 0xA0"
      using hn [of 5 "length kvs"] b Suc.prems(1) CMap by (simp_all add: bytes_add)
    have "skip_loop (skip_cbor_item stk' m) p len (length (flat kvs)) (length ?h) =
        Some (length ?h + length (concat (map enc (flat kvs))))"
      using Suc.prems CMap IH b
      by (intro skip_loop_items) (auto simp: bytes_add enc_flat set_flat)
    then show ?thesis using len CMap by (simp add: stk hd length_flat enc_flat)
  next
    case (CBool v)
    then show ?thesis using b len by (simp add: stk bytes_Suc item_head_def split: if_splits)
  qed
qed

section \<open>Looking up a key\<close>

lemma map_walk_spec:
  assumes hit: "\<forall>(k, v) \<in> set kvs. \<forall>q. holds m q k \<longrightarrow> (hit q \<longleftrightarrow> k = key)"
    and ok: "\<forall>(k, v) \<in> set kvs. ok_item stk k \<and> ok_item stk v"
    and b: "bytes m (p + off) (length (concat (map enc (flat kvs)))) = concat (map enc (flat kvs))"
    and len: "off + length (concat (map enc (flat kvs))) \<le> len" "len < 65536"
  shows "(case map_of kvs key of
      None \<Rightarrow> map_walk stk m p len hit (length kvs) off = Some None
    | Some v \<Rightarrow> \<exists>o'. map_walk stk m p len hit (length kvs) off = Some (Some o') \<and>
        holds m (p + o') v \<and> o' + length (enc v) \<le> len \<and> ok_item stk v)"
  using assms
proof (induction kvs arbitrary: off)
  case Nil
  then show ?case by simp
next
  case (Cons kv kvs)
  obtain k v where kv: "kv = (k, v)" by (cases kv)
  have h: "holds m (p + off) k" "holds m (p + (off + length (enc k))) v"
    and rest: "bytes m (p + (off + length (enc k) + length (enc v))) (length (concat (map enc (flat kvs)))) =
        concat (map enc (flat kvs))"
    using Cons.prems(3) by (simp_all add: kv flat_def holds_def bytes_add add.assoc)
  have sum: "off + length (enc k) + length (enc v) + length (concat (map enc (flat kvs))) \<le> len"
    using Cons.prems(4) by (simp add: kv flat_def)
  have "0 < length (enc k)" "0 < length (enc v)"
    using enc_ne by simp_all
  with sum have lt: "off < len" "off + length (enc k) < len"
    by linarith+
  have okk: "ok_item stk k" "ok_item stk v"
    using Cons.prems(2) by (auto simp: kv)
  have sk: "skip_cbor_item stk m (p + off) (len - off) = Some (length (enc k))"
    using sum Cons.prems(5) by (intro skip_item_len [OF okk(1) order_refl h(1)]) auto
  have sv: "skip_cbor_item stk m (p + (off + length (enc k))) (len - (off + length (enc k))) =
      Some (length (enc v))"
    using sum Cons.prems(5) by (intro skip_item_len [OF okk(2) order_refl h(2)]) auto
  have hk: "hit (p + off) \<longleftrightarrow> k = key"
    using Cons.prems(1) h(1) by (simp add: kv)
  show ?case
  proof (cases "k = key")
    case True
    then show ?thesis
      using lt sk hk h(2) sum okk Cons.prems(5) by (simp add: kv)
  next
    case False
    have "case map_of kvs key of
        None \<Rightarrow> map_walk stk m p len hit (length kvs) (off + length (enc k) + length (enc v)) = Some None
      | Some v' \<Rightarrow> \<exists>o'. map_walk stk m p len hit (length kvs) (off + length (enc k) + length (enc v)) = Some (Some o') \<and>
          holds m (p + o') v' \<and> o' + length (enc v') \<le> len \<and> ok_item stk v'"
      using Cons.prems sum rest by (intro Cons.IH) (auto simp: kv)
    then show ?thesis
      using False lt sk sv hk sum Cons.prems(5) by (simp add: kv split: option.splits)
  qed
qed

lemma holds_map:
  assumes "holds m p (CMap kvs)" "length kvs < 65536"
  shows "is_map m p len \<longleftrightarrow> len \<noteq> 0"
    "item_head m p = (length kvs, length (head_nat 5 (length kvs)))"
    "bytes m (p + length (head_nat 5 (length kvs))) (length (concat (map enc (flat kvs)))) =
       concat (map enc (flat kvs))"
  using assms head_nat_at [of m p 5 "length kvs"]
  by (auto simp: holds_def is_map_def bytes_add enc_flat)

lemma uint_key_head:
  "uint_key m key a \<longleftrightarrow> m a AND 0xE0 = 0 \<and>
     (if snd (item_head m a) = 3 then 0 else fst (item_head m a)) = key"
  by (auto simp: uint_key_def item_head_def Let_def)

lemma neg_key_type: "neg_key m n a \<Longrightarrow> m a AND 0xE0 = 0x20"
  unfolding neg_key_def by (rule conjunct1)

lemma length_head_nat:
  "n < 65536 \<Longrightarrow> length (head_nat M n) = (if n < 24 then 1 else if n < 256 then 2 else 3)"
  by (auto simp: head_nat_def length_head_bytes word_le_nat_alt word_less_nat_alt unat_of_nat)

fun major :: "cbor \<Rightarrow> u8" where
  "major (CUint _) = 0" | "major (CNeg _) = 1" | "major (CBytes _) = 2" | "major (CText _) = 3"
| "major (CArray _) = 4" | "major (CMap _) = 5" | "major (CBool _) = 7"

lemma holds_major:
  assumes "holds m q c" "ok_item (Suc d) c"
  shows "m q AND 0xE0 = push_bit 5 (major c)"
  using assms
  by (cases c) (auto simp: holds_def bytes_add bytes_Suc head_nat_at(2) split: if_splits)

lemma uint_key_at:
  assumes "holds m q k" "ok_item d k" "0 < key" "key < 256"
  shows "uint_key m key q \<longleftrightarrow> k = CUint key"
proof -
  obtain d' where d: "d = Suc d'" using assms(2) by (cases d) auto
  note mj = holds_major [OF assms(1) assms(2) [unfolded d]]
  show ?thesis
  proof (cases k)
    case (CUint n)
    have n: "n < 65536" using assms(2) CUint d by simp
    have b: "bytes m q (length (head_nat 0 n)) = head_nat 0 n"
      using assms(1) CUint by (simp add: holds_def)
    have "uint_key m key q \<longleftrightarrow> n = key"
      unfolding uint_key_head head_nat_at [OF b n] using assms(3,4) n
      by (auto simp: length_head_nat)
    then show ?thesis by (simp add: CUint)
  qed (use mj in \<open>simp_all add: uint_key_head\<close>)
qed

lemma neg_key_at:
  assumes "holds m q k" "ok_item d k" "0 < j" "j \<le> 24"
  shows "neg_key m j q \<longleftrightarrow> k = CNeg (j - 1)"
proof -
  obtain d' where d: "d = Suc d'" using assms(2) by (cases d) auto
  note mj = holds_major [OF assms(1) assms(2) [unfolded d]]
  show ?thesis
  proof (cases k)
    case (CNeg n)
    have n: "n < 65536" using assms(2) CNeg d by simp
    have b: "bytes m q (length (head_nat 1 n)) = head_nat 1 n"
      using assms(1) CNeg by (simp add: holds_def)
    note hd = head_nat_at [OF b n]
    obtain i where i: "j = Suc i" using assms(3) by (cases j) auto
    have j: "(word_of_nat (j - 1) :: u8) < 32" "unat (word_of_nat (j - 1) :: u8) = j - 1"
      using assms(4) by (simp_all add: i word_less_nat_alt unat_of_nat)
    have "neg_key m j q \<longleftrightarrow> n = j - 1"
    proof
      assume "neg_key m j q"
      then have "m q = push_bit 5 1 OR word_of_nat (j - 1)"
        by (simp add: neg_key_def)
      then have "m q AND 0x1F = word_of_nat (j - 1)"
        using lo5_of_head [OF j(1), of 1] by simp
      then have "item_head m q = (j - 1, 1)"
        using j(2) assms(4) by (simp add: i item_head_def Let_def)
      with hd(1) show "n = j - 1" by (metis fst_conv)
    next
      assume "n = j - 1"
      then have "head_nat 1 n = [push_bit 5 1 OR word_of_nat (j - 1)]"
        using assms(4)
        by (simp add: i head_nat_def head_bytes_def word_less_nat_alt unat_of_nat unsigned_of_nat
            take_bit_nat_eq_self)
      then show "neg_key m j q"
        using b hd(2) by (simp add: neg_key_def bytes_Suc)
    qed
    then show ?thesis by (simp add: CNeg)
  qed (use mj in \<open>auto dest: neg_key_type\<close>)
qed

lemma ok_item_mono: "ok_item d c \<Longrightarrow> d \<le> d' \<Longrightarrow> ok_item d' c"
proof (induction d arbitrary: c d')
  case 0
  then show ?case by simp
next
  case (Suc d)
  then obtain e where e: "d' = Suc e" "d \<le> e" by (cases d') auto
  show ?case
    using Suc.prems(1) Suc.IH [OF _ e(2)] by (auto simp: e(1) split: cbor.splits)
qed

lemma uint_walk:
  assumes "holds m p (CMap kvs)" "ok_item (Suc stk) (CMap kvs)"
    "length (enc (CMap kvs)) \<le> len" "len < 65536" "0 < key" "key < 256"
  shows "(case map_of kvs (CUint key) of
      None \<Rightarrow> map_walk stk m p len (uint_key m key) (length kvs) (length (head_nat 5 (length kvs))) = Some None
    | Some v \<Rightarrow> \<exists>o'. map_walk stk m p len (uint_key m key) (length kvs) (length (head_nat 5 (length kvs))) = Some (Some o') \<and>
        holds m (p + o') v \<and> o' + length (enc v) \<le> len \<and> ok_item stk v)"
proof (rule map_walk_spec)
  show "\<forall>(k, v) \<in> set kvs. \<forall>q. holds m q k \<longrightarrow> (uint_key m key q \<longleftrightarrow> k = CUint key)"
    using assms(2,5,6) uint_key_at by fastforce
  show "\<forall>(k, v) \<in> set kvs. ok_item stk k \<and> ok_item stk v"
    using assms(2) by auto
qed (use assms holds_map [OF assms(1)] in \<open>auto simp: enc_flat\<close>)

lemma neg_walk:
  assumes "holds m p (CMap kvs)" "ok_item (Suc stk) (CMap kvs)"
    "length (enc (CMap kvs)) \<le> len" "len < 65536" "0 < j" "j \<le> 24"
  shows "(case map_of kvs (CNeg (j - 1)) of
      None \<Rightarrow> map_walk stk m p len (neg_key m j) (length kvs) (length (head_nat 5 (length kvs))) = Some None
    | Some v \<Rightarrow> \<exists>o'. map_walk stk m p len (neg_key m j) (length kvs) (length (head_nat 5 (length kvs))) = Some (Some o') \<and>
        holds m (p + o') v \<and> o' + length (enc v) \<le> len \<and> ok_item stk v)"
proof (rule map_walk_spec)
  show "\<forall>(k, v) \<in> set kvs. \<forall>q. holds m q k \<longrightarrow> (neg_key m j q \<longleftrightarrow> k = CNeg (j - 1))"
    using assms(2,5,6) neg_key_at by fastforce
  show "\<forall>(k, v) \<in> set kvs. ok_item stk k \<and> ok_item stk v"
    using assms(2) by auto
qed (use assms holds_map [OF assms(1)] in \<open>auto simp: enc_flat\<close>)

definition map_at :: "nat \<Rightarrow> mem \<Rightarrow> nat \<Rightarrow> nat \<Rightarrow> (cbor \<times> cbor) list \<Rightarrow> bool" where
  "map_at stk m p len kvs \<longleftrightarrow>
     holds m p (CMap kvs) \<and> ok_item (Suc stk) (CMap kvs) \<and>
     length (enc (CMap kvs)) \<le> len \<and> len < 65536"

lemma map_at_head:
  assumes "map_at stk m p len kvs"
  shows "is_map m p len" "item_head m p = (length kvs, length (head_nat 5 (length kvs)))"
proof -
  have h: "holds m p (CMap kvs)" "length kvs < 65536" "length (enc (CMap kvs)) \<le> len"
    using assms by (auto simp: map_at_def)
  have "0 < length (enc (CMap kvs))"
    by (rule enc_pos)
  with h(3) have "len \<noteq> 0" by linarith
  then show "is_map m p len" using holds_map(1) [OF h(1,2)] by simp
  show "item_head m p = (length kvs, length (head_nat 5 (length kvs)))"
    by (rule holds_map(2) [OF h(1,2)])
qed

fun payload :: "cbor \<Rightarrow> u8 list option" where
  "payload (CBytes b) = Some b" | "payload (CText b) = Some b" | "payload _ = None"

lemma value_at_payload:
  assumes "holds m q v" "ok_item d v"
  shows "case payload v of
      Some b \<Rightarrow> \<exists>a t. value_at m q = (a, length b, t) \<and> (t = 0x40 \<or> t = 0x60) \<and> bytes m a (length b) = b
    | None \<Rightarrow> \<exists>a n t. value_at m q = (a, n, t) \<and> t \<noteq> 0x40 \<and> t \<noteq> 0x60"
proof -
  obtain d' where d: "d = Suc d'" using assms(2) by (cases d) auto
  note mj = holds_major [OF assms(1) assms(2) [unfolded d]]
  show ?thesis
  proof (cases v)
    case (CBytes b)
    then show ?thesis
      using assms mj head_nat_at(1) [of m q 2 "length b"] by (simp add: d holds_def bytes_add value_at_def)
  next
    case (CText b)
    then show ?thesis
      using assms mj head_nat_at(1) [of m q 3 "length b"] by (simp add: d holds_def bytes_add value_at_def)
  qed (use mj in \<open>simp_all add: value_at_def split: prod.splits\<close>)
qed

lemma get_cbor_map_string_spec:
  assumes "map_at stk m p len kvs" "0 < key" "key < 256"
  shows "case Option.bind (map_of kvs (CUint key)) payload of
      None \<Rightarrow> get_cbor_map_string stk m p len key = Some None
    | Some b \<Rightarrow> \<exists>a. get_cbor_map_string stk m p len key = Some (Some (a, length b)) \<and>
        bytes m a (length b) = b"
proof -
  note hd = map_at_head [OF assms(1)]
  have w: "holds m p (CMap kvs)" "ok_item (Suc stk) (CMap kvs)"
    "length (enc (CMap kvs)) \<le> len" "len < 65536"
    using assms(1) by (auto simp: map_at_def)
  note uw = uint_walk [OF w assms(2,3)]
  show ?thesis
  proof (cases "map_of kvs (CUint key)")
    case None
    then show ?thesis
      using uw hd by (simp add: get_cbor_map_string_def get_cbor_map_value_def)
  next
    case (Some v)
    then obtain o' where o': "map_walk stk m p len (uint_key m key) (length kvs)
          (length (head_nat 5 (length kvs))) = Some (Some o')"
      "holds m (p + o') v" "ok_item stk v"
      using uw by auto
    show ?thesis
      using Some o'(1) hd value_at_payload [OF o'(2,3)]
      by (auto simp: get_cbor_map_string_def get_cbor_map_value_def split: option.splits)
  qed
qed

lemma uint_decode:
  assumes "item_head m a = (n, length (head_nat 0 n))" "n < 65536"
  shows "(let vl = unat (m a AND 0x1F) in
      if vl < 24 then Some vl else if vl = 24 then Some (unat (m (a + 1)))
      else if vl = 25 then Some (be16 (m (a + 1)) (m (a + 2))) else None) = Some n"
proof -
  define vl where "vl = unat (m a AND 0x1F)"
  have ih: "item_head m a = (if vl = 24 then (unat (m (a + 1)), 2)
     else if vl = 25 then (be16 (m (a + 1)) (m (a + 2)), 3) else (vl, 1))"
    by (simp add: item_head_def vl_def Let_def)
  consider "vl = 24" | "vl = 25" | "vl \<noteq> 24" "vl \<noteq> 25" by blast
  then show ?thesis
  proof cases
    case 1
    then show ?thesis using ih assms(1) by (simp add: vl_def [symmetric])
  next
    case 2
    then show ?thesis using ih assms(1) by (simp add: vl_def [symmetric])
  next
    case 3
    then have "(n, length (head_nat 0 n)) = (vl, 1)"
      using ih assms(1) by (simp only: if_False)
    then have "n = vl" "length (head_nat 0 n) = 1" unfolding prod.inject by blast+
    then have "vl < 24" using assms(2) by (simp add: length_head_nat split: if_splits)
    then show ?thesis using \<open>n = vl\<close> by (simp add: vl_def [symmetric])
  qed
qed

lemma get_cbor_map_int_spec:
  assumes "map_at stk m p len kvs" "0 < key" "key < 256"
  shows "get_cbor_map_int stk m p len key =
    Some (case map_of kvs (CUint key) of Some (CUint n) \<Rightarrow> Some n | _ \<Rightarrow> None)"
proof -
  note hd = map_at_head [OF assms(1)]
  have w: "holds m p (CMap kvs)" "ok_item (Suc stk) (CMap kvs)"
    "length (enc (CMap kvs)) \<le> len" "len < 65536"
    using assms(1) by (auto simp: map_at_def)
  note uw = uint_walk [OF w assms(2,3)]
  show ?thesis
  proof (cases "map_of kvs (CUint key)")
    case None
    then show ?thesis
      using uw hd by (simp add: get_cbor_map_int_def)
  next
    case (Some v)
    then obtain o' where o': "map_walk stk m p len (uint_key m key) (length kvs)
          (length (head_nat 5 (length kvs))) = Some (Some o')"
      "holds m (p + o') v" "ok_item stk v"
      using uw by auto
    obtain d where d: "stk = Suc d" using o'(3) by (cases stk) auto
    note mj = holds_major [OF o'(2) o'(3) [unfolded d]]
    show ?thesis
    proof (cases v)
      case (CUint n)
      then have "item_head m (p + o') = (n, length (head_nat 0 n))" "n < 65536"
        using o'(2,3) head_nat_at(1) [of m "p + o'" 0 n] by (auto simp: d holds_def)
      from uint_decode [OF this] show ?thesis
        using Some o'(1) hd mj CUint by (simp add: get_cbor_map_int_def Let_def)
    qed (use Some o'(1) hd mj in \<open>simp_all add: get_cbor_map_int_def\<close>)
  qed
qed

lemma get_cbor_map_item_spec:
  assumes "map_at stk m p len kvs" "0 < key" "key < 256"
  shows "case map_of kvs (CUint key) of
      None \<Rightarrow> get_cbor_map_item stk m p len key = Some ItemUndef
    | Some v \<Rightarrow> \<exists>a. get_cbor_map_item stk m p len key = Some (Item a (length (enc v))) \<and> holds m a v"
proof -
  note hd = map_at_head [OF assms(1)]
  have w: "holds m p (CMap kvs)" "ok_item (Suc stk) (CMap kvs)"
    "length (enc (CMap kvs)) \<le> len" "len < 65536"
    using assms(1) by (auto simp: map_at_def)
  note uw = uint_walk [OF w assms(2,3)]
  show ?thesis
  proof (cases "map_of kvs (CUint key)")
    case None
    then show ?thesis
      using uw hd by (simp add: get_cbor_map_item_def)
  next
    case (Some v)
    then obtain o' where o': "map_walk stk m p len (uint_key m key) (length kvs)
          (length (head_nat 5 (length kvs))) = Some (Some o')"
      "holds m (p + o') v" "ok_item stk v" "o' + length (enc v) \<le> len"
      using uw by auto
    have "skip_cbor_item stk m (p + o') (len - o') = Some (length (enc v))"
      using o'(4) w(4) by (intro skip_item_len [OF o'(3) order_refl o'(2)]) auto
    then show ?thesis
      using Some o' hd by (simp add: get_cbor_map_item_def)
  qed
qed

lemma get_cbor_map_value_spec:
  assumes "map_at stk m p len kvs" "0 < key" "key < 256"
  shows "case map_of kvs (CUint key) of
      None \<Rightarrow> get_cbor_map_value stk m p len key = Some None
    | Some v \<Rightarrow> \<exists>a. get_cbor_map_value stk m p len key = Some (Some (value_at m a)) \<and> holds m a v \<and> ok_item stk v"
proof -
  note hd = map_at_head [OF assms(1)]
  have w: "holds m p (CMap kvs)" "ok_item (Suc stk) (CMap kvs)"
    "length (enc (CMap kvs)) \<le> len" "len < 65536"
    using assms(1) by (auto simp: map_at_def)
  note uw = uint_walk [OF w assms(2,3)]
  show ?thesis
    using uw hd by (auto simp: get_cbor_map_value_def split: option.splits)
qed

lemma get_cbor_map_neg_value_spec:
  assumes "map_at stk m p len kvs" "0 < j" "j \<le> 24"
  shows "case map_of kvs (CNeg (j - 1)) of
      None \<Rightarrow> get_cbor_map_neg_value stk m p len j = Some None
    | Some v \<Rightarrow> \<exists>a. get_cbor_map_neg_value stk m p len j = Some (Some (value_at m a)) \<and> holds m a v"
proof -
  note hd = map_at_head [OF assms(1)]
  have w: "holds m p (CMap kvs)" "ok_item (Suc stk) (CMap kvs)"
    "length (enc (CMap kvs)) \<le> len" "len < 65536"
    using assms(1) by (auto simp: map_at_def)
  note nw = neg_walk [OF w assms(2,3)]
  show ?thesis
    using nw hd by (auto simp: get_cbor_map_neg_value_def split: option.splits)
qed

section \<open>Text keys\<close>

definition text_keys :: "(cbor \<times> cbor) list \<Rightarrow> bool" where
  "text_keys kvs \<longleftrightarrow> (\<forall>(k, v) \<in> set kvs. case k of CText t \<Rightarrow> length t < 256 | _ \<Rightarrow> True)"

lemma strlen_no_nul: "0 \<notin> set key \<Longrightarrow> strlen key = length key"
  unfolding strlen_def by (rule arg_cong [where f = length]) (auto simp: takeWhile_eq_all_conv)

lemma text_key_at:
  assumes "holds m q k" "ok_item d k" "0 \<notin> set key" "length key < 256"
    "case k of CText t \<Rightarrow> length t < 256 | _ \<Rightarrow> True"
  shows "text_key m key q \<longleftrightarrow> k = CText key"
proof -
  obtain d' where d: "d = Suc d'" using assms(2) by (cases d) auto
  note mj = holds_major [OF assms(1) assms(2) [unfolded d]]
  show ?thesis
  proof (cases k)
    case (CText t)
    have hd: "item_head m q = (length t, length (head_nat 3 (length t)))" "m q AND 0xE0 = 0x60"
      and b: "bytes m (q + length (head_nat 3 (length t))) (length t) = t"
      using assms(1,5) head_nat_at [of m q 3 "length t"] by (auto simp: CText holds_def bytes_add)
    have "text_key m key q \<longleftrightarrow> length t = length key \<and>
        bytes m (q + length (head_nat 3 (length t))) (length key) = key"
      using assms(3,4,5) by (simp add: text_key_def str_head_def hd strlen_no_nul CText)
    also have "\<dots> \<longleftrightarrow> t = key" using b by auto
    finally show ?thesis by (simp add: CText)
  qed (use mj in \<open>simp_all add: text_key_def\<close>)
qed

lemma str_head_payload:
  assumes "holds m q v" "ok_item d v"
  shows "case payload v of
      Some b \<Rightarrow> (m q AND 0xE0 = 0x40 \<or> m q AND 0xE0 = 0x60) \<and>
        (\<exists>a. str_head m q = (length b mod 256, a) \<and> bytes m a (length b) = b)
    | None \<Rightarrow> m q AND 0xE0 \<noteq> 0x40 \<and> m q AND 0xE0 \<noteq> 0x60"
  using value_at_payload [OF assms]
  by (auto simp: value_at_def str_head_def split: option.splits prod.splits)

lemma text_walk_spec:
  assumes "0 \<notin> set key" "length key < 256" "text_keys kvs"
    and ok: "\<forall>(k, v) \<in> set kvs. ok_item stk k \<and> ok_item stk v"
    and b: "bytes m (p + off) (length (concat (map enc (flat kvs)))) = concat (map enc (flat kvs))"
    and len: "off + length (concat (map enc (flat kvs))) \<le> len" "len < 65536"
  shows "case Option.bind (map_of kvs (CText key)) payload of
      None \<Rightarrow> text_walk stk m p len key (length kvs) off = Some None
    | Some s \<Rightarrow> \<exists>a. text_walk stk m p len key (length kvs) off = Some (Some (a, length s mod 256)) \<and>
        bytes m a (length s) = s"
  using assms
proof (induction kvs arbitrary: off)
  case Nil
  then show ?case by simp
next
  case (Cons kv kvs)
  obtain k v where kv: "kv = (k, v)" by (cases kv)
  have h: "holds m (p + off) k" "holds m (p + (off + length (enc k))) v"
    and rest: "bytes m (p + (off + length (enc k) + length (enc v))) (length (concat (map enc (flat kvs)))) =
        concat (map enc (flat kvs))"
    using Cons.prems(5) by (simp_all add: kv flat_def holds_def bytes_add add.assoc)
  have sum: "off + length (enc k) + length (enc v) + length (concat (map enc (flat kvs))) \<le> len"
    using Cons.prems(6) by (simp add: kv flat_def)
  have pos: "0 < length (enc k)" "0 < length (enc v)"
    using enc_ne by simp_all
  with sum have lt: "off + 1 < len" "off + length (enc k) < len"
    by linarith+
  have nle: "(len \<le> Suc off) = False" using lt(1) by simp
  have okk: "ok_item stk k" "ok_item stk v"
    using Cons.prems(4) by (auto simp: kv)
  have sk: "skip_cbor_item stk m (p + off) (len - off) = Some (length (enc k))"
    using sum Cons.prems(7) by (intro skip_item_len [OF okk(1) order_refl h(1)]) auto
  have sv: "skip_cbor_item stk m (p + (off + length (enc k))) (len - (off + length (enc k))) =
      Some (length (enc v))"
    using sum Cons.prems(7) by (intro skip_item_len [OF okk(2) order_refl h(2)]) auto
  have hk: "text_key m key (p + off) \<longleftrightarrow> k = CText key"
    using Cons.prems(3) by (intro text_key_at [OF h(1) okk(1) Cons.prems(1,2)]) (simp add: kv text_keys_def)
  show ?case
  proof (cases "k = CText key")
    case True
    let ?q = "p + (off + length (enc k))"
    have "text_walk stk m p len key (length (kv # kvs)) off =
        (if m ?q AND 0xE0 = 0x40 \<or> m ?q AND 0xE0 = 0x60
         then (let (vl, vp) = str_head m ?q in Some (Some (vp, vl))) else Some None)"
      using lt(2) sk hk pos(1) True by (simp add: nle add.assoc not_le del: enc.simps)
    then show ?thesis
      using True str_head_payload [OF h(2) okk(2)] by (cases "payload v") (auto simp: kv)
  next
    case False
    have "case Option.bind (map_of kvs (CText key)) payload of
        None \<Rightarrow> text_walk stk m p len key (length kvs) (off + length (enc k) + length (enc v)) = Some None
      | Some s \<Rightarrow> \<exists>a. text_walk stk m p len key (length kvs) (off + length (enc k) + length (enc v)) =
          Some (Some (a, length s mod 256)) \<and> bytes m a (length s) = s"
      using Cons.prems sum rest by (intro Cons.IH) (auto simp: kv text_keys_def)
    then show ?thesis
      using False lt(2) sk sv hk sum pos(1) Cons.prems(7) by (simp add: kv nle split: option.splits)
  qed
qed

lemma cbor_map_get_string_spec:
  assumes "map_at stk m p len kvs" "text_keys kvs" "0 \<notin> set key" "length key < 256"
  shows "case Option.bind (map_of kvs (CText key)) payload of
      None \<Rightarrow> cbor_map_get_string stk m p len key = Some None
    | Some s \<Rightarrow> \<exists>a. cbor_map_get_string stk m p len key = Some (Some (a, length s mod 256)) \<and>
        bytes m a (length s) = s"
proof -
  note hd = map_at_head [OF assms(1)]
  have w: "holds m p (CMap kvs)" "ok_item (Suc stk) (CMap kvs)"
    "length (enc (CMap kvs)) \<le> len" "len < 65536"
    using assms(1) by (auto simp: map_at_def)
  have "length kvs < 65536" using w(2) by simp
  note hm = holds_map [OF w(1) this]
  have tw: "case Option.bind (map_of kvs (CText key)) payload of
      None \<Rightarrow> text_walk stk m p len key (length kvs) (length (head_nat 5 (length kvs))) = Some None
    | Some s \<Rightarrow> \<exists>a. text_walk stk m p len key (length kvs) (length (head_nat 5 (length kvs))) =
        Some (Some (a, length s mod 256)) \<and> bytes m a (length s) = s"
    using w hm(3) by (intro text_walk_spec [OF assms(3,4,2)]) (auto simp: enc_flat)
  have "cbor_map_get_string stk m p len key =
      text_walk stk m p len key (length kvs) (length (head_nat 5 (length kvs)))"
    using hd by (simp add: cbor_map_get_string_def)
  then show ?thesis using tw by (simp only:)
qed

section \<open>A request that is never answered\<close>

lemma skip_loop_2:
  "skip_loop f p len 2 off =
    (if len \<le> off then Some off
     else case f (p + off) (len - off) of
       None \<Rightarrow> None
     | Some k \<Rightarrow> skip_loop f p len (Suc 0) ((off + k) mod 65536))"
  using skip_loop.simps(2) [of f p len "Suc 0" off] by (simp only: numeral_2_eq_2)

lemma skip_diverges_aux:
  assumes "bytes m p 4 = [0x82, 0x59, 0xFF, 0xFC]" "4 \<le> len"
  shows "skip_cbor_item stk m p len = None"
proof (induction stk)
  case 0
  show ?case by simp
next
  case (Suc stk)
  have b: "m (p + i) = [0x82, 0x59, 0xFF, 0xFC] ! i" if "i < 4" for i
    using arg_cong [OF assms(1), of "\<lambda>xs. xs ! i"] that by simp
  have m: "m p = 0x82" "m (p + 1) = 0x59" "m (p + 2) = 0xFF" "m (p + 3) = 0xFC"
    using b [of 0] b [of 1] b [of 2] b [of 3] by (simp_all add: nth_Cons')
  have h: "item_head m p = (2, 1)"
    using m(1) by (simp add: item_head_def)
  have "m (p + 1 + 1) = 0xFF" "m (p + 1 + 2) = 0xFC"
    using m(3,4) by (simp_all add: add.assoc numeral_2_eq_2 numeral_3_eq_3)
  then have "item_head m (p + 1) = (be16 0xFF 0xFC, 3)"
    using m(2) unfolding item_head_def by (simp del: add_Suc_right One_nat_def)
  then have h2: "item_head m (p + 1) = (65532, 3)"
    by (simp add: be16_nat)
  have m': "m (Suc p) = 0x59" using m(2) by simp
  show ?case
  proof (cases stk)
    case 0
    then show ?thesis using m(1) h assms(2) by (simp add: skip_loop_2)
  next
    case (Suc k)
    have "skip_cbor_item stk m (p + 1) (len - 1) = Some 65535"
      using m' h2 assms(2) by (simp add: Suc)
    then show ?thesis
      using m(1) h assms(2) Suc.IH by (simp add: skip_loop_2)
  qed
qed

section \<open>The scanners read at most two bytes past the end\<close>

definition same_upto :: "mem \<Rightarrow> mem \<Rightarrow> nat \<Rightarrow> nat \<Rightarrow> bool" where
  "same_upto m m' p n \<longleftrightarrow> (\<forall>i < n. m (p + i) = m' (p + i))"

lemma same_at: "same_upto m m' p n \<Longrightarrow> i < n \<Longrightarrow> m (p + i) = m' (p + i)"
  by (simp add: same_upto_def)

lemma same_shift:
  assumes "same_upto m m' p (len + 2)" "off < len"
  shows "same_upto m m' (p + off) ((len - off) + 2)"
  using assms by (auto simp: same_upto_def add.assoc)

lemma item_head_local: "same_upto m m' p (Suc n + 2) \<Longrightarrow> item_head m p = item_head m' p"
proof -
  assume "same_upto m m' p (Suc n + 2)"
  then have "m p = m' p" "m (p + 1) = m' (p + 1)" "m (p + 2) = m' (p + 2)"
    using same_at [of m m' p "Suc n + 2" 0] same_at [of m m' p "Suc n + 2" 1]
      same_at [of m m' p "Suc n + 2" 2] by simp_all
  then show ?thesis by (simp only: item_head_def)
qed

lemma head_local:
  assumes "same_upto m m' p (len + 2)" "off < len"
  shows "item_head m (p + off) = item_head m' (p + off)" "m (p + off) = m' (p + off)"
    "m (p + off + 1) = m' (p + off + 1)" "m (p + off + 2) = m' (p + off + 2)"
proof -
  obtain k where "len - off = Suc k" using assms(2) by (cases "len - off") auto
  then show "item_head m (p + off) = item_head m' (p + off)"
    using same_shift [OF assms] item_head_local by metis
  show "m (p + off) = m' (p + off)" "m (p + off + 1) = m' (p + off + 1)"
    "m (p + off + 2) = m' (p + off + 2)"
    using assms same_at [OF assms(1), of off] same_at [OF assms(1), of "off + 1"]
      same_at [OF assms(1), of "off + 2"]
    by (auto simp: add.assoc)
qed

lemma skip_loop_cong:
  assumes "\<And>off. off < len \<Longrightarrow> f (p + off) (len - off) = g (p + off) (len - off)"
  shows "skip_loop f p len n off = skip_loop g p len n off"
  using assms by (induction n arbitrary: off) (auto split: option.splits)

lemma skip_local:
  assumes "same_upto m m' p (len + 2)"
  shows "skip_cbor_item stk m p len = skip_cbor_item stk m' p len"
  using assms
proof (induction stk arbitrary: p len)
  case 0
  then show ?case by simp
next
  case (Suc stk)
  have "skip_loop (skip_cbor_item stk m) p len n off = skip_loop (skip_cbor_item stk m') p len n off"
    for n off
    using Suc.IH [OF same_shift [OF Suc.prems]] by (intro skip_loop_cong)
  moreover have "item_head m p = item_head m' p \<and> m p = m' p" if "len \<noteq> 0"
    using head_local [OF Suc.prems, of 0] that by simp
  ultimately show ?case
    by (cases "len = 0") (simp_all add: Let_def split: prod.split cong: if_cong)
qed

lemma map_walk_local:
  assumes "same_upto m m' p (len + 2)"
    "\<And>off. off < len \<Longrightarrow> hit (p + off) = hit' (p + off)"
  shows "map_walk stk m p len hit n off = map_walk stk m' p len hit' n off"
proof (induction n arbitrary: off)
  case (Suc n)
  have "skip_cbor_item stk m (p + o') (len - o') = skip_cbor_item stk m' (p + o') (len - o')"
    if "o' < len" for o'
    using skip_local [OF same_shift [OF assms(1) that]] .
  then show ?case
    using Suc assms(2) by (auto simp: Let_def split: option.splits)
qed simp

lemma map_walk_bound: "map_walk stk m p len hit n off = Some (Some o') \<Longrightarrow> o' < len"
proof (induction n arbitrary: off)
  case (Suc n)
  then show ?case by (auto simp: Let_def split: option.splits if_splits)
qed simp

lemma uint_key_local:
  assumes "same_upto m m' p (len + 2)" "off < len"
  shows "uint_key m key (p + off) = uint_key m' key (p + off)"
  unfolding uint_key_head using head_local [OF assms] by simp

lemma is_map_local: "same_upto m m' p (len + 2) \<Longrightarrow> is_map m p len = is_map m' p len"
  using same_at [of m m' p "len + 2" 0] by (simp add: is_map_def)

lemma lookup_local:
  assumes "same_upto m m' p (len + 2)"
  shows "get_cbor_map_value stk m p len key = get_cbor_map_value stk m' p len key"
    "get_cbor_map_int stk m p len key = get_cbor_map_int stk m' p len key"
    "get_cbor_map_item stk m p len key = get_cbor_map_item stk m' p len key"
proof -
  have w: "map_walk stk m p len (uint_key m key) n off = map_walk stk m' p len (uint_key m' key) n off"
    for n off
    by (rule map_walk_local [OF assms]) (rule uint_key_local [OF assms])
  have im: "is_map m p len = is_map m' p len"
    by (rule is_map_local [OF assms])
  have hd: "is_map m' p len \<Longrightarrow> item_head m p = item_head m' p"
    using head_local [OF assms, of 0] by (simp add: is_map_def)
  have v: "value_at m (p + off) = value_at m' (p + off)" if "off < len" for off
    using head_local [OF assms that] by (simp add: value_at_def)
  have sk: "skip_cbor_item stk m (p + off) (len - off) = skip_cbor_item stk m' (p + off) (len - off)"
    if "off < len" for off
    using skip_local [OF same_shift [OF assms that]] .
  show "get_cbor_map_value stk m p len key = get_cbor_map_value stk m' p len key"
  proof (cases "is_map m' p len")
    case True
    obtain n off where h: "item_head m' p = (n, off)" by fastforce
    show ?thesis
      using True hd im v map_walk_bound [of stk m' p len "uint_key m' key" n off]
      by (cases "map_walk stk m' p len (uint_key m' key) n off")
        (auto simp: get_cbor_map_value_def w h map_option_case split: option.splits)
  qed (simp add: get_cbor_map_value_def im)
  show "get_cbor_map_int stk m p len key = get_cbor_map_int stk m' p len key"
  proof (cases "is_map m' p len")
    case True
    obtain n off where h: "item_head m' p = (n, off)" by fastforce
    show ?thesis
      using True hd im head_local [OF assms] map_walk_bound [of stk m' p len "uint_key m' key" n off]
      by (cases "map_walk stk m' p len (uint_key m' key) n off")
        (auto simp: get_cbor_map_int_def w h Let_def split: option.splits)
  qed (simp add: get_cbor_map_int_def im)
  show "get_cbor_map_item stk m p len key = get_cbor_map_item stk m' p len key"
  proof (cases "is_map m' p len")
    case True
    obtain n off where h: "item_head m' p = (n, off)" by fastforce
    show ?thesis
      using True hd im sk map_walk_bound [of stk m' p len "uint_key m' key" n off]
      by (cases "map_walk stk m' p len (uint_key m' key) n off")
        (auto simp: get_cbor_map_item_def w h split: option.splits)
  qed (simp add: get_cbor_map_item_def im)
qed

section \<open>Properties\<close>

text \<open>C33: \<open>skip_cbor_item\<close> on the encoding of an item whose nesting fits the stack returns
  exactly the length of that encoding, wherever the item stands in memory and whatever follows it.\<close>

theorem skip_item_roundtrip:
  assumes "ok_item d c" "d \<le> stk" "holds m p c" "length (enc c) \<le> len" "len < 65536"
  shows "skip_cbor_item stk m p len = Some (length (enc c))"
  by (rule skip_item_len [OF assms])

lemma holds_mem_of: "holds (mem_of (enc c) rest) 0 c"
  by (simp add: holds_def bytes_mem_of)

lemma map_at_mem_of:
  assumes "ok_item (Suc d) (CMap kvs)" "length (enc (CMap kvs)) \<le> len" "len < 65536"
  shows "map_at d (mem_of (enc (CMap kvs)) rest) 0 len kvs"
  using assms holds_mem_of by (simp only: map_at_def)

lemma skip_item_roundtrip_witness:
  "skip_cbor_item 3 (mem_of (enc (CArray [CText [0x61], CMap [(CUint 1, CUint 500)]])) (\<lambda>_. 0xFF)) 0 20 =
     Some (length (enc (CArray [CText [0x61], CMap [(CUint 1, CUint 500)]])))"
  by (rule skip_item_roundtrip [of "Suc (Suc (Suc 0))", OF _ _ holds_mem_of])
    (simp_all add: length_head_nat)

text \<open>C35: on an encoded map the integer-key look-ups return what the map holds under
  that key: the decoded unsigned integer, the payload bytes of a string, the whole item with
  its encoded length; and they report the key as absent exactly when the map has no such entry
  (for \<open>get_cbor_map_item\<close> this is the path that falls off the end of the function).\<close>

theorem int_key_lookup:
  assumes "map_at stk m p len kvs" "0 < key" "key < 256"
  shows "get_cbor_map_int stk m p len key =
      Some (case map_of kvs (CUint key) of Some (CUint n) \<Rightarrow> Some n | _ \<Rightarrow> None) \<and>
    (case Option.bind (map_of kvs (CUint key)) payload of
      None \<Rightarrow> get_cbor_map_string stk m p len key = Some None
    | Some b \<Rightarrow> \<exists>a. get_cbor_map_string stk m p len key = Some (Some (a, length b)) \<and>
        bytes m a (length b) = b) \<and>
    (case map_of kvs (CUint key) of
      None \<Rightarrow> get_cbor_map_item stk m p len key = Some ItemUndef
    | Some v \<Rightarrow> \<exists>a. get_cbor_map_item stk m p len key = Some (Item a (length (enc v))) \<and>
        bytes m a (length (enc v)) = enc v)"
  using get_cbor_map_int_spec [OF assms] get_cbor_map_string_spec [OF assms]
    get_cbor_map_item_spec [OF assms]
  unfolding holds_def by blast

lemma int_key_lookup_witness:
  "get_cbor_map_int (Suc (Suc 0)) (mem_of (enc (CMap [(CUint 3, CBool True), (CUint 9, CUint 300)])) (\<lambda>_. 0)) 0 7 9 =
     Some (Some 300)"
proof -
  have "map_at (Suc (Suc 0)) (mem_of (enc (CMap [(CUint 3, CBool True), (CUint 9, CUint 300)])) (\<lambda>_. 0)) 0 7
      [(CUint 3, CBool True), (CUint 9, CUint 300)]"
    by (rule map_at_mem_of) (simp_all add: length_head_nat)
  from int_key_lookup [OF this, of 9] show ?thesis by simp
qed

text \<open>The text-key look-up returns the payload of the string stored under that key, with
  its length reduced modulo 256 (it is returned through a \<open>uint8_t\<close>), and \<open>NULL\<close> when the key is
  absent or its value is not a string.\<close>

theorem text_key_lookup:
  assumes "map_at stk m p len kvs" "text_keys kvs" "0 \<notin> set key" "length key < 256"
  shows "case Option.bind (map_of kvs (CText key)) payload of
      None \<Rightarrow> cbor_map_get_string stk m p len key = Some None
    | Some s \<Rightarrow> \<exists>a. cbor_map_get_string stk m p len key = Some (Some (a, length s mod 256)) \<and>
        bytes m a (length s) = s"
  by (rule cbor_map_get_string_spec [OF assms])

lemma text_key_lookup_witness:
  "\<exists>a. cbor_map_get_string (Suc (Suc 0)) (mem_of (enc (CMap [(CText (lit ''id''), CBytes [7, 8])])) (\<lambda>_. 0)) 0 7
     (lit ''id'') = Some (Some (a, 2)) \<and>
     bytes (mem_of (enc (CMap [(CText (lit ''id''), CBytes [7, 8])])) (\<lambda>_. 0)) a 2 = [7, 8]"
proof -
  have "map_at (Suc (Suc 0)) (mem_of (enc (CMap [(CText (lit ''id''), CBytes [7, 8])])) (\<lambda>_. 0)) 0 7
      [(CText (lit ''id''), CBytes [7, 8])]"
    by (rule map_at_mem_of) (simp_all add: length_head_nat lit_def)
  moreover have "text_keys [(CText (lit ''id''), CBytes [7, 8])]" "0 \<notin> set (lit ''id'')"
    "length (lit ''id'') < 256"
    by (simp_all add: text_keys_def lit_def of_char_def)
  ultimately show ?thesis
    using text_key_lookup [of "Suc (Suc 0)"] by (fastforce simp: numeral_2_eq_2)
qed

text \<open>C34: the four bytes 82 59 FF FC make \<open>skip_cbor_item\<close> call itself without end: the
  declared string length wraps the 16-bit offset back to the item's own start.  No stack size is
  enough.\<close>

theorem skip_diverges:
  assumes "bytes m p 4 = [0x82, 0x59, 0xFF, 0xFC]" "4 \<le> len"
  shows "skip_cbor_item stk m p len = None"
  by (rule skip_diverges_aux [OF assms])

lemma skip_diverges_witness:
  "skip_cbor_item 1000 (mem_of [0x82, 0x59, 0xFF, 0xFC] (\<lambda>_. 0)) 0 4 = None"
  by (rule skip_diverges) (simp_all add: bytes_mem_of)

text \<open>C36: on arbitrary, also malformed, input the integer-key look-ups depend only on the
  request bytes and the two bytes behind them.\<close>

theorem lookup_reads:
  assumes "\<forall>i < len + 2. m (p + i) = m' (p + i)"
  shows "get_cbor_map_value stk m p len key = get_cbor_map_value stk m' p len key \<and>
    get_cbor_map_int stk m p len key = get_cbor_map_int stk m' p len key \<and>
    get_cbor_map_item stk m p len key = get_cbor_map_item stk m' p len key"
  using lookup_local [of m m' p len] assms by (simp add: same_upto_def)

lemma lookup_reads_witness:
  "get_cbor_map_value 9 (mem_of [0xA1, 0x01, 0x41, 0, 0] (\<lambda>_. 1)) 0 3 1 =
     get_cbor_map_value 9 (mem_of [0xA1, 0x01, 0x41, 0, 0] (\<lambda>_. 2)) 0 3 1"
proof -
  have "\<forall>i < 3 + 2. mem_of [0xA1, 0x01, 0x41, 0, 0] (\<lambda>_. 1) (0 + i) =
      mem_of [0xA1, 0x01, 0x41, 0, 0] (\<lambda>_. 2) (0 + i)"
    by (simp add: mem_of_def)
  from lookup_reads [OF this] show ?thesis by blast
qed

text \<open>With room for the shortest-form head \<open>cbor_encode_head\<close> appends exactly that head;
  without room it changes nothing; it never leaves the declared capacity.\<close>

theorem encode_head_exact:
  assumes "enc_safe e"
  shows "(if elength e + length (head_bytes m v) \<le> capacity e
      then enc_out (cbor_encode_head m v e) = enc_out e @ head_bytes m v \<and>
        elength (cbor_encode_head m v e) = elength e + length (head_bytes m v)
      else cbor_encode_head m v e = e) \<and> enc_safe (cbor_encode_head m v e)"
proof (cases "elength e + length (head_bytes m v) \<le> capacity e")
  case True
  have "enc_ok e" "elength e + length (head_bytes m v) \<le> enc_limit e"
    using assms True by (simp_all add: enc_safe_def enc_ok_def enc_limit_def)
  from appendsD [OF appends_head this] show ?thesis
    using True enc_safe_head [OF assms] by simp
next
  case False
  then show ?thesis using assms cbor_encode_head_full [of e m v] by simp
qed

lemma encode_head_exact_witness:
  "enc_out (cbor_encode_head 2 300 (cbor_init (replicate 8 0) 8)) = head_bytes 2 300"
  using encode_head_exact [of "cbor_init (replicate 8 0) 8" 2 300]
  by (simp add: enc_safe_def cbor_init_def length_head_bytes) (simp add: enc_out_def)

text \<open>The parser's length decoding inverts the encoder's head for arguments up to
  16 bits.\<close>

theorem head_roundtrip:
  assumes "v \<le> 0xFFFF"
  shows "item_head (mem_of (head_bytes M v @ xs) rest) 0 = (unat v, length (head_bytes M v)) \<and>
    mem_of (head_bytes M v @ xs) rest 0 AND 0xE0 = push_bit 5 M"
  using head_at [of "mem_of (head_bytes M v @ xs) rest" 0 M v] assms
  by (simp add: bytes_mem_of)

lemma head_roundtrip_witness:
  "item_head (mem_of (head_bytes 3 1000 @ []) (\<lambda>_. 0)) 0 = (1000, 3)"
  using head_roundtrip [of 1000 3 "[]" "\<lambda>_. 0"] by (simp add: length_head_bytes)

end
