(* ===== verification/PinSpec.thy ===== *)
theory PinSpec
  imports Pin PresenceSpec FlashSpec CborSpec
begin

text \<open>
  What authenticatorClientPIN promises: a token is issued only against the stored PIN hash, a wrong
  guess costs one retry, the PIN changes only through setPIN (when there is none) and through an
  authenticated changePIN, and no PIN command touches a credential.
\<close>

section \<open>Frames of the random generator and the curve library\<close>

lemma core_rand [frame_simps]: "core (snd (hardware_rand e d)) = core d"
  by (simp add: hardware_rand_def Let_def frame_simps)

lemma core_rng [frame_simps]: "core (snd (rng e n d)) = core d"
proof (induction n arbitrary: d)
  case (Suc n)
  then show ?case by (simp add: split_beta frame_simps)
qed simp

lemma length_rng [simp]: "length (fst (rng e n d)) = n"
  by (induction n arbitrary: d) (simp_all add: split_beta)

lemma core_yields [frame_simps]: "core ((uECC_yield e ^^ n) d) = core d"
  by (induction n) (simp_all add: uECC_yield_def frame_simps)

lemma core_ecc [frame_simps]: "core (ecc_effect e n k d) = core d"
  by (simp add: ecc_effect_def frame_simps)

lemma core_make_key [frame_simps]: "core (snd (snd (uECC_make_key e d))) = core d"
  by (simp add: uECC_make_key_def split_beta frame_simps)

lemma core_sign [frame_simps]: "core (snd (uECC_sign e k h d)) = core d"
  by (simp add: uECC_sign_def split_beta frame_simps)

lemma core_shared [frame_simps]: "core (snd (uECC_shared_secret e p k d)) = core d"
  by (simp add: uECC_shared_secret_def split_beta frame_simps)

lemmas rng_fields [simp] = core_fields [OF core_rng]
lemmas make_key_fields [simp] = core_fields [OF core_make_key]
lemmas sign_fields [simp] = core_fields [OF core_sign]
lemmas shared_fields [simp] = core_fields [OF core_shared]

section \<open>Each sub-command\<close>

lemma length_sha256_of [simp]: "length (sha256_of d) = 32"
proof -
  have "sha256_of d = sha256 d" by (simp add: sha256_of_def sha256_def sha256_chunks_def)
  then show ?thesis by (simp add: sha256_eq_spec)
qed

text \<open>The session keys, as far as they decide what a PIN field decrypts to.\<close>

definition session :: "dev \<Rightarrow> nat \<times> u8 list \<times> u8 list" where
  "session d = (active_pin_protocol d, pin_shared_secret d, hmac_key d)"

lemma session_decrypt: "session d = session d' \<Longrightarrow> pin_decrypt d = pin_decrypt d'"
  by (simp add: session_def pin_decrypt_def fun_eq_iff)

lemma session_mac: "session d = session d' \<Longrightarrow> pin_mac d = pin_mac d' \<and> expected_auth_len d = expected_auth_len d'"
  by (simp add: session_def pin_mac_def expected_auth_len_def fun_eq_iff)

definition token :: "dev \<Rightarrow> bool \<times> u8 list \<times> nat" where
  "token d = (has_pin_token d, pin_token d, pin_token_len d)"

lemma agree_inr:
  assumes "pin_agree e m req len d = Some (Inr d')"
  obtains host_pub s d1 where "ecdh_key_valid d"
    "uECC_shared_secret e host_pub (ecdh_private_key d) d = (s, d1)" "d' = pin_derive_keys s d1"
proof -
  have v: "ecdh_key_valid d" using assms by (simp add: pin_agree_def split: if_splits)
  obtain it where it: "get_cbor_map_item (stk e) m req len 0x03 = Some it"
    using assms v by (auto simp: pin_agree_def bind_eq_Some_conv)
  obtain ka n where ka: "item_ptr (junk e 3) it = (Some ka, n)"
    using assms v it by (auto simp: pin_agree_def split: option.splits prod.splits)
  obtain x y where xy: "get_cbor_map_neg_value (stk e) m ka n 2 = Some x"
      "get_cbor_map_neg_value (stk e) m ka n 3 = Some y"
    using assms v it ka by (auto simp: pin_agree_def bind_eq_Some_conv)
  obtain xp xl xt yp yl yt where p: "x = Some (xp, xl, xt)" "y = Some (yp, yl, yt)"
    using assms v it ka xy by (cases x; cases y; auto simp: pin_agree_def)
  let ?h = "coordinate m xp xl @ coordinate m yp yl"
  obtain s d1 where h: "uECC_shared_secret e ?h (ecdh_private_key d) d = (s, d1)" by fastforce
  have "d' = pin_derive_keys s d1"
    using assms v it ka xy p h by (auto simp: pin_agree_def Let_def split: if_splits)
  with v h show thesis by (rule that)
qed

lemma derive_keys_fields:
  "chip (pin_derive_keys s d) = chip d" "token (pin_derive_keys s d) = token d"
  "active_pin_protocol (pin_derive_keys s d) = active_pin_protocol d"
  by (simp_all add: pin_derive_keys_def token_def Let_def split_beta)

lemma agree_effect:
  assumes "pin_agree e m req len d = Some (Inr d')"
  shows "chip d' = chip d" "token d' = token d" "active_pin_protocol d' = active_pin_protocol d" "ecdh_key_valid d"
proof -
  obtain hp s d1 where a: "ecdh_key_valid d" "uECC_shared_secret e hp (ecdh_private_key d) d = (s, d1)"
    "d' = pin_derive_keys s d1" using assms by (rule agree_inr)
  have d1: "d1 = snd (uECC_shared_secret e hp (ecdh_private_key d) d)" by (simp add: a(2))
  have "chip d1 = chip d" "token d1 = token d" "active_pin_protocol d1 = active_pin_protocol d"
    unfolding d1 token_def by simp_all
  then show "chip d' = chip d" "token d' = token d" "active_pin_protocol d' = active_pin_protocol d" "ecdh_key_valid d"
    using a by (simp_all add: derive_keys_fields)
qed

lemma store_effect:
  assumes "store_new_pin e m npe cid d = (r, d')"
  shows "session d' = session d" "token d' = token d"
    "(r = [0x37] \<and> chip d' = chip d) \<or>
     (r = [0x00] \<and> 4 \<le> pin_trim (pin_decrypt d m npe 64) 64 \<and>
      chip d' = pin_save (sha256_of (take (pin_trim (pin_decrypt d m npe 64) 64) (pin_decrypt d m npe 64))) (chip d))"
  using assms by (auto simp: store_new_pin_def Let_def session_def token_def split: if_splits)

lemma store_chip:
  assumes "store_new_pin e m npe cid d = (r, d')"
  shows "chip d' = chip d \<or> (\<exists>h. length h = 32 \<and> chip d' = pin_save h (chip d))"
  using store_effect(3) [OF assms] length_sha256_of by metis

lemma issue_effect:
  assumes "issue_token e sub d = (r, d')"
  shows "session d' = session d" "chip d' = pin_reset_retries (chip d)" "has_pin_token d'" "hd r = 0x00" "r \<noteq> []"
  using assms by (auto simp: issue_token_def Let_def session_def split_beta resp_ok_def split: if_splits)

text \<open>The PIN page after a sub-command that ran with the session keys of \<open>d'\<close>: untouched; one retry
  less, after an answer PIN_INVALID; changed by a request whose field 6 decrypts to the stored hash; or
  set for the first time.\<close>

definition knows_pin :: "env \<Rightarrow> mem \<Rightarrow> nat \<Rightarrow> nat \<Rightarrow> dev \<Rightarrow> PINState \<Rightarrow> bool" where
  "knows_pin e m req len d p \<longleftrightarrow>
    (\<exists>a n. get_cbor_map_string (stk e) m req len 0x06 = Some (Some (a, n)) \<and>
       pin_decrypt d m a 16 = ps_pin_hash p)"

lemma session_knows: "session d = session d' \<Longrightarrow> knows_pin e m req len d = knows_pin e m req len d'"
  using session_decrypt [of d d'] by (simp add: knows_pin_def fun_eq_iff)

definition pin_step :: "env \<Rightarrow> mem \<Rightarrow> nat \<Rightarrow> nat \<Rightarrow> u8 list \<Rightarrow> dev \<Rightarrow> dev \<Rightarrow> bool" where
  "pin_step e m req len r d d' \<longleftrightarrow>
    chip d' = chip d \<or>
    r = [0x31] \<and> chip d' = pin_decrement_retries (chip d) \<or>
    (\<exists>p. pin_load (chip d) = Some p \<and> knows_pin e m req len d' p \<and>
       (0 < ps_retries p \<and> chip d' = pin_reset_retries (chip d) \<or>
        (\<exists>h. length h = 32 \<and> chip d' = pin_save h (chip d)))) \<or>
    pin_load (chip d) = None \<and> (\<exists>h. length h = 32 \<and> chip d' = pin_save h (chip d))"

lemma set_cases:
  assumes "pin_set e m req len cid d = Some (r, d')"
  shows "d' = d \<or> (pin_load (chip d) = None \<and> (\<exists>p. store_new_pin e m p cid d = (r, d')))"
proof -
  obtain auth npe where a: "get_cbor_map_string (stk e) m req len 4 = Some auth"
    "get_cbor_map_string (stk e) m req len 5 = Some npe"
    using assms by (auto simp: pin_set_def bind_eq_Some_conv)
  show ?thesis using assms a by (auto simp: pin_set_def split: option.splits if_splits prod.splits)
qed

lemma change_cases:
  assumes "pin_change e m req len cid d = Some (r, d')"
  shows "d' = d \<or> (r = [0x31] \<and> d' = d\<lparr>chip := pin_decrement_retries (chip d)\<rparr>) \<or>
      (\<exists>p n. pin_load (chip d) = Some p \<and> knows_pin e m req len d p \<and> store_new_pin e m n cid d = (r, d'))"
proof -
  obtain auth npe phe where a: "get_cbor_map_string (stk e) m req len 4 = Some auth"
    "get_cbor_map_string (stk e) m req len 5 = Some npe" "get_cbor_map_string (stk e) m req len 6 = Some phe"
    using assms by (auto simp: pin_change_def bind_eq_Some_conv)
  show ?thesis
    using assms a by (auto simp: pin_change_def knows_pin_def Let_def split: option.splits if_splits prod.splits)
qed

lemma token_cases:
  assumes "pin_get_token e m req len sub d = Some (r, d')"
  shows "d' = d \<or> (r = [0x31] \<and> (\<exists>g. d' = d\<lparr>g_pin_debug := g, chip := pin_decrement_retries (chip d)\<rparr>)) \<or>
      (\<exists>p. pin_load (chip d) = Some p \<and> 0 < ps_retries p \<and> knows_pin e m req len d p \<and>
        issue_token e sub d = (r, d'))"
proof -
  obtain phe where a: "get_cbor_map_string (stk e) m req len 6 = Some phe"
    using assms by (auto simp: pin_get_token_def bind_eq_Some_conv)
  show ?thesis
    using assms a by (auto simp: pin_get_token_def knows_pin_def Let_def split: option.splits if_splits prod.splits)
qed

lemma set_effect:
  assumes "pin_set e m req len cid d = Some (r, d')"
  shows "session d' = session d \<and> token d' = token d \<and> pin_step e m req len r d d' \<and>
    (pin_load (chip d) \<noteq> None \<longrightarrow> chip d' = chip d)"
  using set_cases [OF assms]
proof
  assume "d' = d"
  then show ?thesis by (simp add: pin_step_def)
next
  assume "pin_load (chip d) = None \<and> (\<exists>p. store_new_pin e m p cid d = (r, d'))"
  then obtain p where p: "pin_load (chip d) = None" "store_new_pin e m p cid d = (r, d')" by blast
  have "pin_step e m req len r d d'" using store_chip [OF p(2)] p(1) unfolding pin_step_def by blast
  with store_effect(1,2) [OF p(2)] p(1) show ?thesis by simp
qed

lemma change_effect:
  assumes "pin_change e m req len cid d = Some (r, d')"
  shows "session d' = session d \<and> token d' = token d \<and> pin_step e m req len r d d'"
proof -
  from change_cases [OF assms] consider "d' = d" | "r = [0x31]" "d' = d\<lparr>chip := pin_decrement_retries (chip d)\<rparr>"
    | p n where "pin_load (chip d) = Some p" "knows_pin e m req len d p" "store_new_pin e m n cid d = (r, d')"
    by blast
  then show ?thesis
  proof cases
    case 3
    note st = store_effect [OF 3(3)]
    have "knows_pin e m req len d' p" using session_knows [OF st(1)] 3(2) by simp
    then have "pin_step e m req len r d d'" using store_chip [OF 3(3)] 3(1) unfolding pin_step_def by blast
    then show ?thesis using st by blast
  qed (simp_all add: pin_step_def session_def token_def)
qed

lemma get_token_effect:
  assumes "pin_get_token e m req len sub d = Some (r, d')"
  shows "session d' = session d \<and> pin_step e m req len r d d' \<and>
    (token d' = token d \<or>
     (\<exists>p. pin_load (chip d) = Some p \<and> 0 < ps_retries p \<and> knows_pin e m req len d' p \<and>
        chip d' = pin_reset_retries (chip d) \<and> hd r = 0x00))"
proof -
  from token_cases [OF assms] consider "d' = d"
    | g where "r = [0x31]" "d' = d\<lparr>g_pin_debug := g, chip := pin_decrement_retries (chip d)\<rparr>"
    | p where "pin_load (chip d) = Some p" "0 < ps_retries p" "knows_pin e m req len d p"
        "issue_token e sub d = (r, d')" by blast
  then show ?thesis
  proof cases
    case 3
    note st = issue_effect [OF 3(4)]
    have "knows_pin e m req len d' p" using session_knows [OF st(1)] 3(3) by simp
    then show ?thesis using st 3(1,2) unfolding pin_step_def by blast
  qed (auto simp add: pin_step_def session_def token_def)
qed

section \<open>The whole command\<close>

definition token_rule :: "env \<Rightarrow> mem \<Rightarrow> nat \<Rightarrow> nat \<Rightarrow> u8 list \<Rightarrow> dev \<Rightarrow> dev \<Rightarrow> bool" where
  "token_rule e m req len r d d' \<longleftrightarrow> token d' = token d \<or> \<not> has_pin_token d' \<or>
    (\<exists>p. pin_load (chip d) = Some p \<and> 0 < ps_retries p \<and> knows_pin e m req len d' p \<and>
       chip d' = pin_reset_retries (chip d) \<and> hd r = 0x00)"

lemma pin_step_cong:
  assumes "chip d1 = chip d" "token d1 = token d"
  shows "pin_step e m req len r d1 d' = pin_step e m req len r d d'"
    "token_rule e m req len r d1 d' = token_rule e m req len r d d'"
  by (simp_all add: pin_step_def token_rule_def assms)

lemma key_agreement_effect:
  assumes "pin_key_agreement e d = (r, d')"
  shows "chip d' = chip d" "\<not> has_pin_token d'" "active_pin_protocol d' = active_pin_protocol d"
  using assms by (auto simp: pin_key_agreement_def split_beta Let_def)

lemma dispatch_cases:
  assumes "pin_dispatch e m req len cid sub d = Some (r, d')"
  obtains "d' = d" | "pin_key_agreement e d = (r, d')"
  | d1 where "pin_agree e m req len d = Some (Inr d1)" "pin_set e m req len cid d1 = Some (r, d')"
  | d1 where "pin_agree e m req len d = Some (Inr d1)" "pin_change e m req len cid d1 = Some (r, d')"
  | d1 where "pin_agree e m req len d = Some (Inr d1)" "pin_get_token e m req len sub d1 = Some (r, d')"
proof -
  consider "sub = 2" | "sub \<in> {3, 4, 5, 9}" | "sub \<notin> {2, 3, 4, 5, 9}" by blast
  then show thesis
  proof cases
    case 1
    then show thesis using assms by (intro that(2)) (simp add: pin_dispatch_def)
  next
    case 2
    then obtain a where a: "pin_agree e m req len d = Some a"
      using assms by (auto simp: pin_dispatch_def bind_eq_Some_conv)
    show thesis
    proof (cases a)
      case (Inl s)
      then show thesis using assms 2 a by (intro that(1)) (auto simp: pin_dispatch_def)
    next
      case (Inr d1)
      then show thesis using 2 assms a that(3-5) [of d1] by (auto simp: pin_dispatch_def)
    qed
  next
    case 3
    then show thesis using assms by (intro that(1)) (auto simp: pin_dispatch_def split: if_splits)
  qed
qed

lemma client_cases:
  assumes "process_client_pin e m req len cid d = Some (r, d')"
  obtains sub d1 where "d1 = d \<or> (\<exists>v. d1 = d\<lparr>active_pin_protocol := v\<rparr>)"
    "d' = d1 \<or> pin_dispatch e m req len cid sub d1 = Some (r, d')"
proof (cases "len < 1 \<or> get_cbor_map_int (stk e) m req len 0x02 = Some None")
  case True
  then show thesis using assms by (intro that [of d]) (auto simp: process_client_pin_def split: if_splits)
next
  case False
  then obtain sub proto where s: "get_cbor_map_int (stk e) m req len 0x02 = Some (Some sub)"
    "get_cbor_map_int (stk e) m req len 0x01 = Some proto"
    using assms by (auto simp: process_client_pin_def bind_eq_Some_conv split: option.splits)
  define d1 where "d1 = (case proto of None \<Rightarrow> d | Some v \<Rightarrow> d\<lparr>active_pin_protocol := v\<rparr>)"
  have "d1 = d \<or> (\<exists>v. d1 = d\<lparr>active_pin_protocol := v\<rparr>)" by (auto simp: d1_def split: option.splits)
  moreover have "d' = d1 \<or> pin_dispatch e m req len cid sub d1 = Some (r, d')"
    using assms s False by (auto simp: process_client_pin_def d1_def Let_def split: if_splits)
  ultimately show thesis by (rule that)
qed

lemma dispatch_effect:
  assumes "pin_dispatch e m req len cid sub d = Some (r, d')"
  shows "pin_step e m req len r d d' \<and> token_rule e m req len r d d'"
  using assms
proof (cases rule: dispatch_cases)
  case 1
  then show ?thesis by (simp add: pin_step_def token_rule_def)
next
  case 2
  from key_agreement_effect [OF this] show ?thesis by (simp add: pin_step_def token_rule_def)
next
  case (3 d1)
  from set_effect [OF 3(2)] show ?thesis
    by (simp add: pin_step_cong [OF agree_effect(1,2) [OF 3(1)], symmetric]) (simp add: token_rule_def)
next
  case (4 d1)
  from change_effect [OF 4(2)] show ?thesis
    by (simp add: pin_step_cong [OF agree_effect(1,2) [OF 4(1)], symmetric]) (simp add: token_rule_def)
next
  case (5 d1)
  from get_token_effect [OF 5(2)] show ?thesis
    by (simp add: pin_step_cong [OF agree_effect(1,2) [OF 5(1)], symmetric]) (simp add: token_rule_def)
qed

lemma client_pin_effect:
  assumes "process_client_pin e m req len cid d = Some (r, d')"
  shows "pin_step e m req len r d d' \<and> token_rule e m req len r d d'"
  using assms
proof (cases rule: client_cases)
  case (1 sub d1)
  then have d1: "chip d1 = chip d" "token d1 = token d" by (auto simp: token_def)
  from 1(2) have "pin_step e m req len r d1 d' \<and> token_rule e m req len r d1 d'"
  proof
    assume "d' = d1"
    then show ?thesis by (simp add: pin_step_def token_rule_def)
  qed (rule dispatch_effect)
  then show ?thesis by (simp add: pin_step_cong [OF d1])
qed

section \<open>Requests that are maps\<close>

lemma enc_member: "(k, v) \<in> set kvs \<Longrightarrow> length (enc v) \<le> length (enc (CMap kvs))"
proof -
  assume "(k, v) \<in> set kvs"
  then have "length (enc v) \<le> length (concat (map (\<lambda>(k, v). enc k @ enc v) kvs))"
    by (induction kvs) auto
  then show ?thesis by simp
qed

lemma sub_map_at:
  assumes "map_at sd m p len kvs" "map_of kvs k = Some (CMap c)" "holds m a (CMap c)"
  shows "map_at sd m a (length (enc (CMap c))) c"
proof -
  have mem: "(k, CMap c) \<in> set kvs" using assms(2) by (rule map_of_SomeD)
  have "ok_item sd (CMap c)" using assms(1) mem by (auto simp: map_at_def)
  then have "ok_item (Suc sd) (CMap c)" by (rule ok_item_mono) simp
  moreover have "length (enc (CMap c)) < 65536"
    using enc_member [OF mem] assms(1) unfolding map_at_def by linarith
  ultimately show ?thesis using assms(3) unfolding map_at_def by blast
qed

lemma string_field:
  assumes "map_at sd m p len kvs" "map_of kvs (CUint key) = Some (CBytes b)" "0 < key" "key < 256"
  obtains a where "get_cbor_map_string sd m p len key = Some (Some (a, length b))" "bytes m a (length b) = b"
  using get_cbor_map_string_spec [OF assms(1,3,4)] assms(2) by (auto intro: that)

lemma neg_field:
  assumes "map_at sd m p len kvs" "map_of kvs (CNeg (j - 1)) = Some (CBytes b)" "0 < j" "j \<le> 24"
  obtains a t where "get_cbor_map_neg_value sd m p len j = Some (Some (a, length b, t))" "bytes m a (length b) = b"
proof -
  obtain q where q: "get_cbor_map_neg_value sd m p len j = Some (Some (value_at m q))" "holds m q (CBytes b)"
    using get_cbor_map_neg_value_spec [OF assms(1,3,4)] assms(2) by auto
  have "(CNeg (j - 1), CBytes b) \<in> set kvs" using assms(2) by (rule map_of_SomeD)
  then have "ok_item sd (CBytes b)" using assms(1) by (auto simp: map_at_def)
  from value_at_payload [OF q(2) this] q(1) show thesis by (auto intro: that)
qed

text \<open>The platform's COSE key: two 32-byte coordinates.\<close>

definition cose_pub :: "(cbor \<times> cbor) list \<Rightarrow> u8 list \<Rightarrow> u8 list \<Rightarrow> bool" where
  "cose_pub ka x y \<longleftrightarrow> map_of ka (CNeg 1) = Some (CBytes x) \<and> map_of ka (CNeg 2) = Some (CBytes y) \<and>
     length x = 32 \<and> length y = 32"

definition agreed :: "env \<Rightarrow> u8 list \<Rightarrow> dev \<Rightarrow> dev" where
  "agreed e host_pub d =
    (case uECC_shared_secret e host_pub (ecdh_private_key d) d of (s, d1) \<Rightarrow> pin_derive_keys s d1)"

lemma agreed_fields [simp]: "chip (agreed e hp d) = chip d" "token (agreed e hp d) = token d"
  "active_pin_protocol (agreed e hp d) = active_pin_protocol d"
proof -
  have "agreed e hp d = pin_derive_keys (fst (uECC_shared_secret e hp (ecdh_private_key d) d))
      (snd (uECC_shared_secret e hp (ecdh_private_key d) d))"
    by (simp add: agreed_def split_beta)
  moreover have "token (snd (uECC_shared_secret e hp (ecdh_private_key d) d)) = token d"
    by (simp add: token_def)
  ultimately show "chip (agreed e hp d) = chip d" "token (agreed e hp d) = token d"
    "active_pin_protocol (agreed e hp d) = active_pin_protocol d"
    by (simp_all add: derive_keys_fields)
qed

lemma agree_ok:
  assumes "map_at (stk e) m req len kvs" "map_of kvs (CUint 3) = Some (CMap ka)" "cose_pub ka x y" "ecdh_key_valid d"
  shows "pin_agree e m req len d = Some (Inr (agreed e (x @ y) d))"
proof -
  obtain a where a: "get_cbor_map_item (stk e) m req len 3 = Some (Item a (length (enc (CMap ka))))" "holds m a (CMap ka)"
    using get_cbor_map_item_spec [OF assms(1), of 3] assms(2) by auto
  note sub = sub_map_at [OF assms(1,2) a(2)]
  have k: "map_of ka (CNeg (2 - 1)) = Some (CBytes x)" "map_of ka (CNeg (3 - 1)) = Some (CBytes y)"
    and l: "length x = 32" "length y = 32"
    using assms(3) by (simp_all add: cose_pub_def)
  obtain xa xt where x: "get_cbor_map_neg_value (stk e) m a (length (enc (CMap ka))) 2 = Some (Some (xa, length x, xt))"
    "bytes m xa (length x) = x" by (rule neg_field [OF sub k(1)]) simp_all
  obtain ya yt where y: "get_cbor_map_neg_value (stk e) m a (length (enc (CMap ka))) 3 = Some (Some (ya, length y, yt))"
    "bytes m ya (length y) = y" by (rule neg_field [OF sub k(2)]) simp_all
  show ?thesis
    using assms(4) x(2) y(2) l
    by (simp add: pin_agree_def a(1) x(1) y(1) coordinate_def agreed_def split_beta Let_def del: enc.simps)
qed

text \<open>What a PIN field decrypts to, as a function of its bytes.\<close>

definition pin_plain :: "dev \<Rightarrow> u8 list \<Rightarrow> nat \<Rightarrow> u8 list" where
  "pin_plain d ct n =
    (if active_pin_protocol d = 2 then aes_decrypt (pin_shared_secret d) (take 16 ct) (take n (drop 16 ct)) n
     else aes_decrypt (pin_shared_secret d) iv_zero (take n ct) n)"

lemma drop_bytes: "drop n (bytes m a len) = bytes m (a + n) (len - n)"
  by (rule nth_equalityI) (auto simp: bytes_def add.assoc)

lemma pin_decrypt_plain:
  assumes "bytes m a (length ct) = ct" "active_pin_protocol d = 2 \<Longrightarrow> n + 16 \<le> length ct" "n \<le> length ct"
  shows "pin_decrypt d m a n = pin_plain d ct n"
proof -
  have "bytes m a n = take n ct" using assms(1,3) take_bytes [of n "length ct" m a] by simp
  moreover have "bytes m a 16 = take 16 ct" "bytes m (a + 16) n = take n (drop 16 ct)"
    if "active_pin_protocol d = 2"
  proof -
    have l: "n + 16 \<le> length ct" using assms(2) that by blast
    show "bytes m a 16 = take 16 ct" using assms(1) l take_bytes [of 16 "length ct" m a] by simp
    have "take n (drop 16 (bytes m a (length ct))) = bytes m (a + 16) n"
      using l by (simp add: drop_bytes take_bytes)
    then show "bytes m (a + 16) n = take n (drop 16 ct)" by (simp add: assms(1))
  qed
  ultimately show ?thesis by (simp add: pin_decrypt_def pin_plain_def)
qed

section \<open>The parameters of a request\<close>

text \<open>A well-formed request for a sub-command that needs the shared secret.\<close>

definition pin_request :: "env \<Rightarrow> mem \<Rightarrow> nat \<Rightarrow> nat \<Rightarrow> (cbor \<times> cbor) list \<Rightarrow> nat \<Rightarrow> nat \<Rightarrow> u8 list \<Rightarrow> bool" where
  "pin_request e m req len kvs proto sub host_pub \<longleftrightarrow>
    map_at (stk e) m req len kvs \<and>
    map_of kvs (CUint 1) = Some (CUint proto) \<and> (proto = 1 \<or> proto = 2) \<and>
    map_of kvs (CUint 2) = Some (CUint sub) \<and> sub \<in> {3, 4, 5, 9} \<and>
    (\<exists>ka x y. map_of kvs (CUint 3) = Some (CMap ka) \<and> cose_pub ka x y \<and> host_pub = x @ y)"

lemma client_pin_step:
  assumes "pin_request e m req len kvs proto sub host_pub" "ecdh_key_valid d"
  defines "d1 \<equiv> agreed e host_pub (d\<lparr>active_pin_protocol := proto\<rparr>)"
  shows "process_client_pin e m req len cid d =
    (if sub = 3 then pin_set e m req len cid d1 else if sub = 4 then pin_change e m req len cid d1
     else pin_get_token e m req len sub d1)"
    "active_pin_protocol d1 = proto" "chip d1 = chip d" "token d1 = token d"
proof -
  obtain ka x y where r: "map_at (stk e) m req len kvs" "map_of kvs (CUint 1) = Some (CUint proto)"
    "proto = 1 \<or> proto = 2" "map_of kvs (CUint 2) = Some (CUint sub)" "sub = 3 \<or> sub = 4 \<or> sub = 5 \<or> sub = 9"
    "map_of kvs (CUint 3) = Some (CMap ka)" "cose_pub ka x y" "host_pub = x @ y"
    using assms(1) unfolding pin_request_def by blast
  have sub: "get_cbor_map_int (stk e) m req len 2 = Some (Some sub)"
    "get_cbor_map_int (stk e) m req len 1 = Some (Some proto)"
    using get_cbor_map_int_spec [OF r(1), of 2] get_cbor_map_int_spec [OF r(1), of 1] r(2,4) by simp_all
  have len: "\<not> len < 1"
    using r(1) enc_pos [of "CMap kvs"] unfolding map_at_def by linarith
  have ag: "pin_agree e m req len (d\<lparr>active_pin_protocol := proto\<rparr>) = Some (Inr d1)"
    unfolding d1_def r(8) using assms(2) by (intro agree_ok [OF r(1,6,7)]) simp
  show "process_client_pin e m req len cid d =
    (if sub = 3 then pin_set e m req len cid d1 else if sub = 4 then pin_change e m req len cid d1
     else pin_get_token e m req len sub d1)"
    using r(3,5) len by (auto simp: process_client_pin_def sub ag pin_dispatch_def Let_def simp del: One_nat_def)
  show "active_pin_protocol d1 = proto" "chip d1 = chip d" by (simp_all add: d1_def)
  have "token d1 = token (d\<lparr>active_pin_protocol := proto\<rparr>)" by (simp add: d1_def)
  then show "token d1 = token d" by (simp add: token_def)
qed

end
