(* ===== verification/PinFlow.thy ===== *)
theory PinFlow
  imports PinSpec
begin

text \<open>
  The outcome of setPIN, changePIN and getPinToken on a well-formed request, as a table: which check
  fails first, and what a success stores and answers.  The platform's view of the answer (it decrypts to
  the token the device keeps) is part of the table.
\<close>

section \<open>The new PIN\<close>

text \<open>The PIN without the zero padding of its 64-byte field.\<close>

definition unpad :: "u8 list \<Rightarrow> u8 list" where
  "unpad p = rev (dropWhile (\<lambda>b. b = 0) (rev p))"

lemma pin_trim_unpad: "n \<le> length p \<Longrightarrow> take (pin_trim p n) p = unpad (take n p)"
proof (induction n)
  case (Suc n)
  then have "take (Suc n) p = take n p @ [p ! n]" by (simp add: take_Suc_conv_app_nth)
  then show ?case using Suc by (simp add: unpad_def)
qed (simp add: unpad_def)

lemma pin_trim_le: "pin_trim p n \<le> n"
  by (induction n) auto

lemma drop_zeros: "dropWhile (\<lambda>b. b = (0 :: u8)) (replicate n 0 @ xs) = dropWhile (\<lambda>b. b = 0) xs"
  by (induction n) auto

lemma unpad_padded: "p \<noteq> [] \<Longrightarrow> last p \<noteq> 0 \<Longrightarrow> unpad (p @ replicate n 0) = p"
  by (cases p rule: rev_cases) (simp_all add: unpad_def drop_zeros)

lemma length_pin_plain: "16 dvd n \<Longrightarrow> n + (if active_pin_protocol d = 2 then 16 else 0) \<le> length ct \<Longrightarrow>
    length (pin_plain d ct n) = n"
  by (auto simp: pin_plain_def length_aes_decrypt split: if_splits)

text \<open>What storing a new PIN amounts to.\<close>

definition new_pin_stored :: "u8 list \<Rightarrow> u8 list \<Rightarrow> dev \<Rightarrow> dev \<Rightarrow> bool" where
  "new_pin_stored pin r d d' \<longleftrightarrow>
    (if length pin < 4 then r = [0x37] \<and> chip d' = chip d
     else r = [0x00] \<and> slots (fmem (chip d')) = slots (fmem (chip d)) \<and>
       pin_load (chip d') = Some \<lparr>ps_pin_hash = take 16 (sha256_of pin), ps_retries = 8\<rparr>)"

lemma store_new_pin_outcome:
  assumes "bytes m a (length ct) = ct" "length ct = (if active_pin_protocol d = 2 then 80 else 64)"
  obtains r d' where "store_new_pin e m a cid d = (r, d')" "session d' = session d" "token d' = token d"
    "new_pin_stored (unpad (pin_plain d ct 64)) r d d'"
proof -
  obtain r d' where s: "store_new_pin e m a cid d = (r, d')" by fastforce
  have p: "pin_decrypt d m a 64 = pin_plain d ct 64"
    using assms by (intro pin_decrypt_plain) (auto split: if_splits)
  let ?p = "pin_plain d ct 64"
  have l: "length ?p = 64" using assms(2) by (intro length_pin_plain) auto
  then have t: "take (pin_trim ?p 64) ?p = unpad ?p" using pin_trim_unpad [of 64 ?p] by simp
  then have n: "length (unpad ?p) = pin_trim ?p 64"
    using pin_trim_le [of ?p 64] l by (metis length_take min.absorb2)
  have "new_pin_stored (unpad ?p) r d d'"
  proof (cases "pin_trim ?p 64 < 4")
    case True
    then have "length (unpad ?p) < 4" by (simp only: n)
    moreover have "r = [0x37] \<and> chip d' = chip d"
      using True s by (auto simp: store_new_pin_def p)
    ultimately show ?thesis by (simp add: new_pin_stored_def)
  next
    case False
    then have "r = [0x00] \<and> chip d' = pin_save (sha256_of (unpad ?p)) (chip d)"
      using s by (auto simp: store_new_pin_def p Let_def t)
    then show ?thesis using False by (simp add: new_pin_stored_def n pins.load_save pins.others_save)
  qed
  with s show thesis using store_effect(1,2) [OF s] by (intro that)
qed

section \<open>The token\<close>

lemma token_answer:
  assumes "length ct = n" "n \<le> 48"
  shows "resp_ok [cbor_encode_map 1, cbor_encode_uint 2, cbor_encode_byte_string ct n] =
    0x00 # enc (CMap [(CUint 2, CBytes ct)])"
proof -
  have "appends (encode_all [cbor_encode_map 1, cbor_encode_uint 2, cbor_encode_byte_string ct n])
    (concat [head_bytes 5 (word_of_nat 1), head_bytes 0 2, head_bytes 2 (word_of_nat n) @ ct])"
    by (rule appends_encode_all) (simp add: append_rules assms(1) appends_map [of 1, simplified])
  then have "enc_out (encode_all [cbor_encode_map 1, cbor_encode_uint 2, cbor_encode_byte_string ct n] resp_encoder) =
      concat [head_bytes 5 (word_of_nat 1), head_bytes 0 2, head_bytes 2 (word_of_nat n) @ ct]"
    unfolding resp_encoder_def using assms by (intro appends_init) (simp_all add: length_head_bytes)
  then show ?thesis by (simp add: resp_ok_def head_nat_def assms(1))
qed

definition token_issued :: "nat \<Rightarrow> u8 list \<Rightarrow> dev \<Rightarrow> dev \<Rightarrow> bool" where
  "token_issued sub r d d' \<longleftrightarrow>
    has_pin_token d' \<and> length (pin_token d') = 32 \<and>
    pin_token_len d' = (if sub = 5 \<and> active_pin_protocol d \<noteq> 2 then 16 else 32) \<and>
    chip d' = pin_reset_retries (chip d) \<and>
    (\<exists>ct. r = 0x00 # enc (CMap [(CUint 2, CBytes ct)]) \<and>
       pin_plain d' ct (pin_token_len d') = take (pin_token_len d') (pin_token d'))"

lemma issue_outcome:
  assumes "issue_token e sub d = (r, d')"
  shows "token_issued sub r d d'"
proof -
  let ?d1 = "d\<lparr>chip := pin_reset_retries (chip d)\<rparr>"
  obtain tok d2 where tok: "rng e 32 ?d1 = (tok, d2)" by fastforce
  define d3 where "d3 = d2\<lparr>pin_token := tok, has_pin_token := True\<rparr>"
  obtain iv d4 where iv: "(if active_pin_protocol d3 = 2 then rng e 16 d3 else (replicate 16 0, d3)) = (iv, d4)"
    by fastforce
  define tlen :: nat where "tlen = (if sub = 5 \<and> active_pin_protocol d4 \<noteq> 2 then 16 else 32)"
  define ct where "ct = (if active_pin_protocol d4 = 2
      then take 16 iv @ aes_encrypt (pin_shared_secret d4) iv (pin_token d4) 32
      else aes_encrypt (pin_shared_secret d4) iv_zero (pin_token d4) tlen)"
  define n where "n = (if active_pin_protocol d4 = 2 then 48 else tlen)"
  have "issue_token e sub d = (resp_ok [cbor_encode_map 1, cbor_encode_uint 2, cbor_encode_byte_string ct n],
      d4\<lparr>pin_token_len := tlen\<rparr>)"
    unfolding issue_token_def Let_def tok prod.case d3_def [symmetric] iv unfolding ct_def n_def tlen_def by simp
  then have rd: "(r, d') = (resp_ok [cbor_encode_map 1, cbor_encode_uint 2, cbor_encode_byte_string ct n],
      d4\<lparr>pin_token_len := tlen\<rparr>)" using assms by simp
  have d2: "d2 = snd (rng e 32 ?d1)" and tl: "length tok = 32"
    using tok length_rng [of e 32 ?d1] by simp_all
  have "core d4 = core d3"
    using iv core_rng [of e 16 d3] by (auto split: if_splits dest: arg_cong [of _ _ snd])
  note f = core_fields [OF this]
  have d4: "pin_token d4 = tok" "has_pin_token d4" "chip d4 = pin_reset_retries (chip d)"
    "active_pin_protocol d4 = active_pin_protocol d"
    using f by (simp_all add: d3_def d2)
  have "length (fst (if active_pin_protocol d3 = 2 then rng e 16 d3 else (replicate 16 0, d3))) = 16" by simp
  then have ivl: "length iv = 16" unfolding iv by simp
  have el: "length (aes_encrypt k v tok 32) = 32" "length (aes_encrypt k v tok tlen) = tlen" for k v
    using tl by (auto simp: tlen_def intro!: length_aes_encrypt)
  have ctl: "length ct = n" "n \<le> 48" using ivl el by (auto simp: ct_def n_def d4 tlen_def)
  have un: "aes_decrypt k v (aes_encrypt k v tok 32) 32 = take 32 tok"
    "aes_decrypt k v (aes_encrypt k v tok tlen) tlen = take tlen tok" for k v
    using tl aes_wrapper_undo [of 32 tok k v] aes_wrapper_undo [of tlen tok k v] by (auto simp: tlen_def)
  have "pin_plain (d4\<lparr>pin_token_len := tlen\<rparr>) ct tlen = take tlen tok"
  proof (cases "active_pin_protocol d4 = 2")
    case True
    then show ?thesis using un(1) el(1) ivl
      by (simp add: pin_plain_def ct_def d4 tlen_def)
  next
    case False
    then show ?thesis using un(2) el(2) by (simp add: pin_plain_def ct_def d4)
  qed
  then show ?thesis
    using rd d4 tl token_answer [OF ctl] by (auto simp: token_issued_def tlen_def)
qed

section \<open>The three sub-commands on a well-formed request\<close>

definition auth_len :: "nat \<Rightarrow> nat" where "auth_len proto = (if proto = 2 then 32 else 16)"

definition field_len :: "nat \<Rightarrow> nat \<Rightarrow> nat" where "field_len proto n = (if proto = 2 then n + 16 else n)"

lemma request_map: "pin_request e m req len kvs proto sub hp \<Longrightarrow> map_at (stk e) m req len kvs"
  by (simp add: pin_request_def)

lemma set_outcome:
  assumes "pin_request e m req len kvs proto 3 hp" "ecdh_key_valid d"
    and "map_of kvs (CUint 4) = Some (CBytes auth)" "length auth = auth_len proto"
    and "map_of kvs (CUint 5) = Some (CBytes npe)" "length npe = field_len proto 64"
  defines "d1 \<equiv> agreed e hp (d\<lparr>active_pin_protocol := proto\<rparr>)"
  obtains r d' where "process_client_pin e m req len cid d = Some (r, d')" "session d' = session d1" "token d' = token d"
    "if pin_load (chip d) \<noteq> None \<or> take (auth_len proto) (pin_mac d1 npe) \<noteq> auth
     then r = [0x33] \<and> chip d' = chip d
     else new_pin_stored (unpad (pin_plain d1 npe 64)) r d d'"
proof -
  note st = client_pin_step [OF assms(1,2), folded d1_def]
  note mp = request_map [OF assms(1)]
  obtain aa where a: "get_cbor_map_string (stk e) m req len 4 = Some (Some (aa, length auth))" "bytes m aa (length auth) = auth"
    by (rule string_field [OF mp assms(3)]) simp_all
  obtain na where n: "get_cbor_map_string (stk e) m req len 5 = Some (Some (na, length npe))" "bytes m na (length npe) = npe"
    by (rule string_field [OF mp assms(5)]) simp_all
  have pr: "proto = 1 \<or> proto = 2" using assms(1) by (simp add: pin_request_def)
  have lens: "length npe = (if active_pin_protocol d1 = 2 then 80 else 64)" "expected_auth_len d1 = auth_len proto"
    using assms(6) st(2) by (simp_all add: field_len_def expected_auth_len_def auth_len_def)
  have ps: "process_client_pin e m req len cid d = Some (
      if pin_load (chip d) \<noteq> None then ([0x33], d1)
      else if take (auth_len proto) (pin_mac d1 npe) \<noteq> auth then ([0x33], d1)
      else store_new_pin e m na cid d1)"
    using pr lens assms(4) n(2) a(2) st(2,3)
    by (simp add: st(1) pin_set_def a(1) n(1) del: One_nat_def)
  show thesis
  proof (cases "pin_load (chip d) \<noteq> None \<or> take (auth_len proto) (pin_mac d1 npe) \<noteq> auth")
    case True
    then have "process_client_pin e m req len cid d = Some ([0x33], d1)" unfolding ps by auto
    then show thesis using True st by (intro that [of "[0x33]" d1]) simp_all
  next
    case False
    obtain r d' where s: "store_new_pin e m na cid d1 = (r, d')" "session d' = session d1" "token d' = token d1"
      "new_pin_stored (unpad (pin_plain d1 npe 64)) r d1 d'"
      using n(2) lens(1) by (rule store_new_pin_outcome)
    have "process_client_pin e m req len cid d = Some (r, d')" unfolding ps using False s(1) by simp
    then show thesis using False s st by (intro that [of r d']) (simp_all add: new_pin_stored_def)
  qed
qed

lemma change_outcome:
  assumes "pin_request e m req len kvs proto 4 hp" "ecdh_key_valid d"
    and "map_of kvs (CUint 4) = Some (CBytes auth)" "length auth = auth_len proto"
    and "map_of kvs (CUint 5) = Some (CBytes npe)" "length npe = field_len proto 64"
    and "map_of kvs (CUint 6) = Some (CBytes phe)" "length phe = field_len proto 16"
  defines "d1 \<equiv> agreed e hp (d\<lparr>active_pin_protocol := proto\<rparr>)"
  obtains r d' where "process_client_pin e m req len cid d = Some (r, d')" "session d' = session d1" "token d' = token d"
    "if take (auth_len proto) (pin_mac d1 (npe @ phe)) \<noteq> auth then r = [0x33] \<and> chip d' = chip d
     else if \<forall>p. pin_load (chip d) = Some p \<longrightarrow> pin_plain d1 phe 16 \<noteq> ps_pin_hash p
     then r = [0x31] \<and> chip d' = pin_decrement_retries (chip d)
     else new_pin_stored (unpad (pin_plain d1 npe 64)) r d d'"
proof -
  note st = client_pin_step [OF assms(1,2), folded d1_def]
  note mp = request_map [OF assms(1)]
  obtain aa where a: "get_cbor_map_string (stk e) m req len 4 = Some (Some (aa, length auth))" "bytes m aa (length auth) = auth"
    by (rule string_field [OF mp assms(3)]) simp_all
  obtain na where n: "get_cbor_map_string (stk e) m req len 5 = Some (Some (na, length npe))" "bytes m na (length npe) = npe"
    by (rule string_field [OF mp assms(5)]) simp_all
  obtain ha where h: "get_cbor_map_string (stk e) m req len 6 = Some (Some (ha, length phe))" "bytes m ha (length phe) = phe"
    by (rule string_field [OF mp assms(7)]) simp_all
  have pr: "proto = 1 \<or> proto = 2" using assms(1) by (simp add: pin_request_def)
  have lens: "length npe = (if active_pin_protocol d1 = 2 then 80 else 64)" "expected_auth_len d1 = auth_len proto"
    "length phe = (if active_pin_protocol d1 = 2 then 32 else 16)"
    using assms(6,8) st(2) by (simp_all add: field_len_def expected_auth_len_def auth_len_def)
  have pd: "pin_decrypt d1 m ha 16 = pin_plain d1 phe 16"
    using h(2) lens(3) by (intro pin_decrypt_plain) (auto split: if_splits)
  have ps: "process_client_pin e m req len cid d = Some (
      if take (auth_len proto) (pin_mac d1 (npe @ phe)) \<noteq> auth then ([0x33], d1)
      else case pin_load (chip d) of
        Some p \<Rightarrow> if pin_plain d1 phe 16 = ps_pin_hash p then store_new_pin e m na cid d1
                  else ([0x31], d1\<lparr>chip := pin_decrement_retries (chip d)\<rparr>)
      | None \<Rightarrow> ([0x31], d1\<lparr>chip := pin_decrement_retries (chip d)\<rparr>))"
    using pr lens assms(4) n(2) a(2) h(2) st(2,3)
    by (simp add: st(1) pin_change_def a(1) n(1) h(1) pd Let_def del: One_nat_def split: option.split)
  let ?mac = "take (auth_len proto) (pin_mac d1 (npe @ phe)) = auth"
  consider "\<not> ?mac" | "?mac" "\<forall>p. pin_load (chip d) = Some p \<longrightarrow> pin_plain d1 phe 16 \<noteq> ps_pin_hash p"
    | p where "?mac" "pin_load (chip d) = Some p" "pin_plain d1 phe 16 = ps_pin_hash p" by blast
  then show thesis
  proof cases
    case 1
    then have "process_client_pin e m req len cid d = Some ([0x33], d1)" unfolding ps by simp
    then show thesis using 1 st by (intro that [of "[0x33]" d1]) simp_all
  next
    case 2
    then have "process_client_pin e m req len cid d = Some ([0x31], d1\<lparr>chip := pin_decrement_retries (chip d)\<rparr>)"
      unfolding ps by (simp split: option.splits)
    then show thesis using 2 st
      by (intro that [of "[0x31]" "d1\<lparr>chip := pin_decrement_retries (chip d)\<rparr>"]) (simp_all add: session_def token_def)
  next
    case 3
    obtain r d' where s: "store_new_pin e m na cid d1 = (r, d')" "session d' = session d1" "token d' = token d1"
      "new_pin_stored (unpad (pin_plain d1 npe 64)) r d1 d'"
      using n(2) lens(1) by (rule store_new_pin_outcome)
    have "process_client_pin e m req len cid d = Some (r, d')" unfolding ps using 3 s(1) by simp
    then show thesis using 3 s st by (intro that [of r d']) (simp_all add: new_pin_stored_def)
  qed
qed

lemma token_outcome:
  assumes "pin_request e m req len kvs proto sub hp" "ecdh_key_valid d" "sub = 5 \<or> sub = 9"
    and "map_of kvs (CUint 6) = Some (CBytes phe)" "length phe = field_len proto 16"
    and "pin_load (chip d) = Some p"
  defines "d1 \<equiv> agreed e hp (d\<lparr>active_pin_protocol := proto\<rparr>)"
  obtains r d' where "process_client_pin e m req len cid d = Some (r, d')" "session d' = session d1"
    "if ps_retries p = 0 then r = [0x32] \<and> chip d' = chip d \<and> token d' = token d
     else if pin_plain d1 phe 16 \<noteq> ps_pin_hash p
     then r = [0x31] \<and> chip d' = pin_decrement_retries (chip d) \<and> token d' = token d
     else token_issued sub r d1 d'"
proof -
  note st = client_pin_step [OF assms(1,2), folded d1_def]
  obtain ha where h: "get_cbor_map_string (stk e) m req len 6 = Some (Some (ha, length phe))" "bytes m ha (length phe) = phe"
    by (rule string_field [OF request_map [OF assms(1)] assms(4)]) simp_all
  have pr: "proto = 1 \<or> proto = 2" using assms(1) by (simp add: pin_request_def)
  have l: "length phe = (if active_pin_protocol d1 = 2 then 32 else 16)"
    using assms(5) st(2) by (simp add: field_len_def)
  have pd: "pin_decrypt d1 m ha 16 = pin_plain d1 phe 16"
    using h(2) l by (intro pin_decrypt_plain) (auto split: if_splits)
  have ps: "process_client_pin e m req len cid d = Some (
      if ps_retries p = 0 then ([0x32], d1)
      else if ps_pin_hash p \<noteq> pin_plain d1 phe 16
      then ([0x31], d1\<lparr>g_pin_debug := ps_pin_hash p @ pin_plain d1 phe 16, chip := pin_decrement_retries (chip d)\<rparr>)
      else issue_token e sub d1)"
    using pr l assms(3,6) st(2,3)
    by (auto simp add: st(1) pin_get_token_def h(1) pd Let_def simp del: One_nat_def)
  consider "ps_retries p = 0" | "ps_retries p \<noteq> 0" "pin_plain d1 phe 16 \<noteq> ps_pin_hash p"
    | "ps_retries p \<noteq> 0" "pin_plain d1 phe 16 = ps_pin_hash p" by blast
  then show thesis
  proof cases
    case 1
    then show thesis using st ps by (intro that [of "[0x32]" d1]) simp_all
  next
    case 2
    let ?d = "d1\<lparr>g_pin_debug := ps_pin_hash p @ pin_plain d1 phe 16, chip := pin_decrement_retries (chip d)\<rparr>"
    have "process_client_pin e m req len cid d = Some ([0x31], ?d)" using 2 unfolding ps by auto
    then show thesis using 2 st by (intro that [of "[0x31]" ?d]) (simp_all add: session_def token_def)
  next
    case 3
    obtain r d' where i: "issue_token e sub d1 = (r, d')" by fastforce
    have "process_client_pin e m req len cid d = Some (r, d')" using 3 i unfolding ps by simp
    then show thesis using 3 issue_outcome [OF i] issue_effect(1) [OF i] by (intro that [of r d']) simp_all
  qed
qed

section \<open>A platform and its requests\<close>

text \<open>Protocol 1 requests with all fields, and what the platform computes with the agreed key.\<close>

definition plat_pub :: "u8 list" where "plat_pub = replicate 32 1 @ replicate 32 2"

definition plat_key :: "u8 list" where "plat_key = sha256_of (replicate 32 1)"

definition pin_kvs :: "nat \<Rightarrow> u8 list \<Rightarrow> u8 list \<Rightarrow> u8 list \<Rightarrow> (cbor \<times> cbor) list" where
  "pin_kvs sub a b c =
    [(CUint 1, CUint 1), (CUint 2, CUint sub),
     (CUint 3, CMap [(CNeg 1, CBytes (replicate 32 1)), (CNeg 2, CBytes (replicate 32 2))]),
     (CUint 4, CBytes a), (CUint 5, CBytes b), (CUint 6, CBytes c)]"

definition pin_mem :: "nat \<Rightarrow> u8 list \<Rightarrow> u8 list \<Rightarrow> u8 list \<Rightarrow> mem" where
  "pin_mem sub a b c = mem_of (enc (CMap (pin_kvs sub a b c))) (\<lambda>_. 0)"

definition pin_dev :: "hw \<Rightarrow> dev" where "pin_dev h = (dev0 h)\<lparr>ecdh_key_valid := True\<rparr>"

lemma pin_dev: "ecdh_key_valid (pin_dev h)" "chip (pin_dev h) = h" "\<not> has_pin_token (pin_dev h)"
  by (simp_all add: pin_dev_def dev0_def)

lemma length_head_le: "length (head_nat M n) \<le> 5"
  by (simp add: head_nat_def length_head_bytes)

lemma pin_kvs_request:
  assumes "sub \<in> {3, 4, 5, 9}" "length a = 16" "length b = 64" "length c = 16"
  shows "pin_request quiet_env (pin_mem sub a b c) 0 1000 (pin_kvs sub a b c) 1 sub plat_pub"
proof -
  let ?k = "pin_kvs sub a b c"
  have "ok_item (Suc (Suc (Suc 0))) (CMap ?k)"
    using assms by (auto simp: pin_kvs_def)
  then have ok: "ok_item (Suc (stk quiet_env)) (CMap ?k)"
    by (rule ok_item_mono) (simp add: quiet_env_def)
  have "length (enc (CMap ?k)) \<le> 1000"
    using assms by (auto simp: pin_kvs_def length_head_nat)
  then have "map_at (stk quiet_env) (pin_mem sub a b c) 0 1000 ?k"
    unfolding pin_mem_def by (rule map_at_mem_of [OF ok]) simp
  then show ?thesis using assms(1)
    by (simp add: pin_request_def) (simp add: pin_kvs_def cose_pub_def plat_pub_def)
qed

lemma pin_kvs_fields: "map_of (pin_kvs sub a b c) (CUint 4) = Some (CBytes a)"
  "map_of (pin_kvs sub a b c) (CUint 5) = Some (CBytes b)" "map_of (pin_kvs sub a b c) (CUint 6) = Some (CBytes c)"
  by (simp_all add: pin_kvs_def)

lemma plat_agreed:
  "active_pin_protocol d = 1 \<Longrightarrow> pin_plain (agreed quiet_env plat_pub d) ct n = aes_decrypt plat_key iv_zero (take n ct) n"
  "active_pin_protocol d = 1 \<Longrightarrow> pin_mac (agreed quiet_env plat_pub d) msg = hmac_sha256 plat_key 32 msg (length msg)"
proof -
  have s: "fst (uECC_shared_secret quiet_env plat_pub (ecdh_private_key d) d) = replicate 32 1"
    by (simp add: uECC_shared_secret_def quiet_env_def plat_pub_def)
  have a: "agreed quiet_env plat_pub d = pin_derive_keys (replicate 32 1)
      (snd (uECC_shared_secret quiet_env plat_pub (ecdh_private_key d) d))"
    by (simp add: agreed_def split_beta s)
  show "active_pin_protocol d = 1 \<Longrightarrow> pin_plain (agreed quiet_env plat_pub d) ct n = aes_decrypt plat_key iv_zero (take n ct) n"
    "active_pin_protocol d = 1 \<Longrightarrow> pin_mac (agreed quiet_env plat_pub d) msg = hmac_sha256 plat_key 32 msg (length msg)"
    by (simp_all add: a pin_derive_keys_def pin_plain_def pin_mac_def plat_key_def Let_def)
qed

text \<open>A device whose PIN hash is what the ciphertext \<open>replicate 16 9\<close> decrypts to under the agreed key.\<close>

definition plat_hash :: "u8 list" where
  "plat_hash = aes_decrypt plat_key iv_zero (replicate 16 9) 16"

definition plat_hw :: hw where "plat_hw = pin_save plat_hash blank_hw"

lemma plat_hash: "length plat_hash = 16"
  unfolding plat_hash_def by (rule length_aes_decrypt) simp_all

lemma plat_hw: "pin_load plat_hw = Some \<lparr>ps_pin_hash = plat_hash, ps_retries = 8\<rparr>"
  by (simp add: plat_hw_def pins.load_save plat_hash)

lemma plat_hw_blocked:
  "pin_load ((pin_decrement_retries ^^ 8) plat_hw) = Some \<lparr>ps_pin_hash = plat_hash, ps_retries = 0\<rparr>"
  using pins.guesses [OF plat_hw, of 8] by simp

definition plat_mac :: "u8 list \<Rightarrow> u8 list" where
  "plat_mac msg = take 16 (hmac_sha256 plat_key 32 msg (length msg))"

lemma length_plat_mac: "length (plat_mac msg) = 16"
  by (simp add: plat_mac_def length_hmac_sha256 plat_key_def)

definition plat_pin :: "u8 list" where
  "plat_pin = aes_encrypt plat_key iv_zero ([0x31, 0x32, 0x33, 0x34] @ replicate 60 0) 64"

lemma plat_pin: "length plat_pin = 64"
  "unpad (aes_decrypt plat_key iv_zero plat_pin 64) = [0x31, 0x32, 0x33, 0x34]"
proof -
  have l: "length ([0x31, 0x32, 0x33, 0x34] @ replicate 60 0 :: u8 list) = 64" by simp
  show "length plat_pin = 64" unfolding plat_pin_def by (rule length_aes_encrypt) (simp_all only: l, simp_all)
  have "aes_decrypt plat_key iv_zero plat_pin 64 = take 64 ([0x31, 0x32, 0x33, 0x34] @ replicate 60 0)"
    unfolding plat_pin_def by (rule aes_wrapper_undo) (simp_all only: l, simp_all)
  also have "\<dots> = [0x31, 0x32, 0x33, 0x34] @ replicate 60 0" using l by simp
  finally show "unpad (aes_decrypt plat_key iv_zero plat_pin 64) = [0x31, 0x32, 0x33, 0x34]"
    by (simp only:) (rule unpad_padded, simp_all)
qed

lemma token_run:
  obtains r d' where
    "process_client_pin quiet_env (pin_mem 9 (replicate 16 0) (replicate 64 0) (replicate 16 9)) 0 1000 1
      (pin_dev plat_hw) = Some (r, d')" "has_pin_token d'"
proof -
  let ?d = "pin_dev plat_hw"
  let ?m = "pin_mem 9 (replicate 16 0) (replicate 64 0) (replicate 16 9)"
  have rq: "pin_request quiet_env ?m 0 1000 (pin_kvs 9 (replicate 16 0) (replicate 64 0) (replicate 16 9)) 1 9 plat_pub"
    by (rule pin_kvs_request) simp_all
  have pl: "pin_plain (agreed quiet_env plat_pub (?d\<lparr>active_pin_protocol := 1\<rparr>)) (replicate 16 9) 16 = plat_hash"
    by (simp add: plat_agreed plat_hash_def del: One_nat_def)
  show ?thesis
    by (rule token_outcome [OF rq pin_dev(1) [of plat_hw] _ pin_kvs_fields(3), where cid = 1])
      (auto simp: field_len_def pin_dev plat_hw token_issued_def pl simp del: One_nat_def intro: that)
qed

section \<open>Properties\<close>

text \<open>C22: getPinToken: PIN_BLOCKED without a try when no retry is left; PIN_INVALID and one retry less
  for a wrong hash; else the retries are reset and the answer is a map whose entry 2 decrypts under the
  session keys to the first 16 or 32 bytes of the token the device keeps.\<close>

theorem get_token_outcome:
  assumes "pin_request e m req len kvs proto sub hp" "ecdh_key_valid d" "sub = 5 \<or> sub = 9"
    and "map_of kvs (CUint 6) = Some (CBytes phe)" "length phe = field_len proto 16"
    and "pin_load (chip d) = Some p"
  defines "d1 \<equiv> agreed e hp (d\<lparr>active_pin_protocol := proto\<rparr>)"
  shows "\<exists>r d'. process_client_pin e m req len cid d = Some (r, d') \<and> session d' = session d1 \<and>
    (if ps_retries p = 0 then r = [0x32] \<and> chip d' = chip d \<and> token d' = token d
     else if pin_plain d1 phe 16 \<noteq> ps_pin_hash p
     then r = [0x31] \<and> chip d' = pin_decrement_retries (chip d) \<and> token d' = token d
     else token_issued sub r d1 d')"
  by (rule token_outcome [OF assms(1-6), of cid, folded d1_def]) (intro exI conjI)

lemma get_token_outcome_witness:
  "\<exists>r d'. process_client_pin quiet_env (pin_mem 9 (replicate 16 0) (replicate 64 0) (replicate 16 9)) 0 1000 1
      (pin_dev plat_hw) = Some (r, d') \<and> has_pin_token d' \<and> hd r = 0x00"
proof -
  let ?d = "pin_dev plat_hw"
  let ?m = "pin_mem 9 (replicate 16 0) (replicate 64 0) (replicate 16 9)"
  have rq: "pin_request quiet_env ?m 0 1000 (pin_kvs 9 (replicate 16 0) (replicate 64 0) (replicate 16 9)) 1 9 plat_pub"
    by (rule pin_kvs_request) simp_all
  have pl: "pin_plain (agreed quiet_env plat_pub (?d\<lparr>active_pin_protocol := 1\<rparr>)) (replicate 16 9) 16 = plat_hash"
    by (simp add: plat_agreed plat_hash_def del: One_nat_def)
  show ?thesis
    using get_token_outcome [OF rq pin_dev(1) [of plat_hw] _ pin_kvs_fields(3), where cid = 1] pl
    by (auto simp: field_len_def pin_dev plat_hw token_issued_def)
qed

text \<open>C5: the only way to a new pinUvAuthToken is getPinToken with the right PIN: whatever the
  request, if the device holds a token after the command that it did not hold before, then a PIN is set,
  it was not blocked, field 6 of the request decrypts under the session keys to the stored PIN hash, the
  retry counter is reset and the answer is a success.\<close>

theorem token_needs_pin:
  assumes "process_client_pin e m req len cid d = Some (r, d')"
    and "has_pin_token d'" and "\<not> has_pin_token d \<or> pin_token d' \<noteq> pin_token d"
  shows "\<exists>p. pin_load (chip d) = Some p \<and> 0 < ps_retries p \<and> knows_pin e m req len d' p \<and>
    pin_load (chip d') = Some (p\<lparr>ps_retries := 8\<rparr>) \<and> hd r = 0x00"
proof -
  have "token d' \<noteq> token d" using assms(2,3) by (auto simp: token_def)
  then show ?thesis using client_pin_effect [OF assms(1)] assms(2) pins.load_reset [of "chip d"]
    by (auto simp: token_rule_def)
qed

lemma token_needs_pin_witness: "\<exists>p. pin_load plat_hw = Some p \<and> 0 < ps_retries p"
proof -
  obtain r d' where "process_client_pin quiet_env (pin_mem 9 (replicate 16 0) (replicate 64 0) (replicate 16 9)) 0 1000 1
      (pin_dev plat_hw) = Some (r, d')" "has_pin_token d'" by (rule token_run)
  from token_needs_pin [OF this] show ?thesis by (auto simp: pin_dev)
qed



text \<open>C23: setPIN on a well-formed request (protocol \<open>proto\<close>, platform key \<open>hp\<close>, PIN field \<open>npe\<close>,
  MAC \<open>auth\<close>): refused with PIN_AUTH_INVALID when a PIN is set or the MAC under the agreed key is wrong;
  with PIN_POLICY_VIOLATION when the decrypted PIN without its zero padding is shorter than four bytes; else
  the first 16 bytes of that PIN's SHA-256 hash are stored with eight retries.  Session and token stay.\<close>

theorem set_pin_outcome:
  assumes "pin_request e m req len kvs proto 3 hp" "ecdh_key_valid d"
    and "map_of kvs (CUint 4) = Some (CBytes auth)" "length auth = auth_len proto"
    and "map_of kvs (CUint 5) = Some (CBytes npe)" "length npe = field_len proto 64"
  defines "d1 \<equiv> agreed e hp (d\<lparr>active_pin_protocol := proto\<rparr>)"
  shows "\<exists>r d'. process_client_pin e m req len cid d = Some (r, d') \<and> session d' = session d1 \<and> token d' = token d \<and>
    (if pin_load (chip d) \<noteq> None \<or> take (auth_len proto) (pin_mac d1 npe) \<noteq> auth
     then r = [0x33] \<and> chip d' = chip d
     else new_pin_stored (unpad (pin_plain d1 npe 64)) r d d')"
  by (rule set_outcome [OF assms(1-6), of cid, folded d1_def]) (intro exI conjI)

lemma set_pin_outcome_witness:
  "\<exists>r d'. process_client_pin quiet_env (pin_mem 3 (plat_mac plat_pin) plat_pin (replicate 16 0)) 0 1000 1
      (pin_dev blank_hw) = Some (r, d') \<and> r = [0x00] \<and>
    pin_load (chip d') = Some \<lparr>ps_pin_hash = take 16 (sha256_of [0x31, 0x32, 0x33, 0x34]), ps_retries = 8\<rparr>"
proof -
  let ?m = "pin_mem 3 (plat_mac plat_pin) plat_pin (replicate 16 0)"
  have rq: "pin_request quiet_env ?m 0 1000 (pin_kvs 3 (plat_mac plat_pin) plat_pin (replicate 16 0)) 1 3 plat_pub"
    by (rule pin_kvs_request) (simp_all add: plat_pin length_plat_mac)
  have mac: "take 16 (pin_mac (agreed quiet_env plat_pub ((pin_dev blank_hw)\<lparr>active_pin_protocol := 1\<rparr>)) plat_pin) = plat_mac plat_pin"
    by (simp add: plat_agreed plat_mac_def del: One_nat_def)
  have pl: "unpad (pin_plain (agreed quiet_env plat_pub ((pin_dev blank_hw)\<lparr>active_pin_protocol := 1\<rparr>)) plat_pin 64) = [0x31, 0x32, 0x33, 0x34]"
    by (simp add: plat_agreed plat_pin del: One_nat_def)
  show ?thesis
    using set_pin_outcome [OF rq pin_dev(1) [of blank_hw] pin_kvs_fields(1) _ pin_kvs_fields(2), where cid = 1] mac pl
    by (auto simp: field_len_def auth_len_def pin_dev length_plat_mac plat_pin(1) blank_store new_pin_stored_def)
qed

text \<open>C24: changePIN: PIN_AUTH_INVALID for a wrong MAC over both fields; PIN_INVALID and one retry less
  when the decrypted old hash is not the stored one (or no PIN is set); else the new PIN is stored with eight
  retries.  The retry counter is not consulted: with zero retries left the command still tests the hash
  and, given the right one, unblocks the device.\<close>

theorem change_pin_outcome:
  assumes "pin_request e m req len kvs proto 4 hp" "ecdh_key_valid d"
    and "map_of kvs (CUint 4) = Some (CBytes auth)" "length auth = auth_len proto"
    and "map_of kvs (CUint 5) = Some (CBytes npe)" "length npe = field_len proto 64"
    and "map_of kvs (CUint 6) = Some (CBytes phe)" "length phe = field_len proto 16"
  defines "d1 \<equiv> agreed e hp (d\<lparr>active_pin_protocol := proto\<rparr>)"
  shows "\<exists>r d'. process_client_pin e m req len cid d = Some (r, d') \<and> session d' = session d1 \<and> token d' = token d \<and>
    (if take (auth_len proto) (pin_mac d1 (npe @ phe)) \<noteq> auth then r = [0x33] \<and> chip d' = chip d
     else if \<forall>p. pin_load (chip d) = Some p \<longrightarrow> pin_plain d1 phe 16 \<noteq> ps_pin_hash p
     then r = [0x31] \<and> chip d' = pin_decrement_retries (chip d)
     else new_pin_stored (unpad (pin_plain d1 npe 64)) r d d')"
  by (rule change_outcome [OF assms(1-8), of cid, folded d1_def]) (intro exI conjI)

lemma change_pin_outcome_witness:
  "\<exists>r d'. process_client_pin quiet_env
      (pin_mem 4 (plat_mac (plat_pin @ replicate 16 9)) plat_pin (replicate 16 9)) 0 1000 1
      (pin_dev ((pin_decrement_retries ^^ 8) plat_hw)) = Some (r, d') \<and> r = [0x00] \<and>
    pin_load (chip d') = Some \<lparr>ps_pin_hash = take 16 (sha256_of [0x31, 0x32, 0x33, 0x34]), ps_retries = 8\<rparr>"
proof -
  let ?mac = "plat_mac (plat_pin @ replicate 16 9)" and ?h = "(pin_decrement_retries ^^ 8) plat_hw"
  let ?m = "pin_mem 4 ?mac plat_pin (replicate 16 9)"
  have rq: "pin_request quiet_env ?m 0 1000 (pin_kvs 4 ?mac plat_pin (replicate 16 9)) 1 4 plat_pub"
    by (rule pin_kvs_request) (simp_all add: plat_pin length_plat_mac)
  have mac: "take 16 (pin_mac (agreed quiet_env plat_pub ((pin_dev ?h)\<lparr>active_pin_protocol := 1\<rparr>)) (plat_pin @ replicate 16 9)) = ?mac"
    by (simp add: plat_agreed plat_mac_def del: One_nat_def)
  have pl: "unpad (pin_plain (agreed quiet_env plat_pub ((pin_dev ?h)\<lparr>active_pin_protocol := 1\<rparr>)) plat_pin 64) = [0x31, 0x32, 0x33, 0x34]"
    "pin_plain (agreed quiet_env plat_pub ((pin_dev ?h)\<lparr>active_pin_protocol := 1\<rparr>)) (replicate 16 9) 16 = plat_hash"
    by (simp_all add: plat_agreed plat_pin plat_hash_def del: One_nat_def)
  show ?thesis
    using change_pin_outcome [OF rq pin_dev(1) [of ?h] pin_kvs_fields(1) _ pin_kvs_fields(2) _ pin_kvs_fields(3), where cid = 1] mac pl
    by (auto simp: field_len_def auth_len_def pin_dev length_plat_mac plat_pin(1) plat_hw_blocked new_pin_stored_def)
qed

end
