(* ===== verification/Fido2Spec.thy ===== *)
theory Fido2Spec
  imports Fido2 PinFlow
begin

text \<open>
  What the CTAP2 commands promise: none of them touches the message reassembly; a credential appears only
  through MakeCredential after user presence and a flash write; the user-verified flag needs a valid token
  MAC; credential management is closed without one when a PIN is set.
\<close>

section \<open>Commands leave the reassembly state alone\<close>

definition hid :: "dev \<Rightarrow> u8 list \<times> nat \<times> nat \<times> u8 \<times> u32 \<times> u8" where
  "hid d = (ctap_req_buf d, ctap_req_len d, ctap_expected_len d, ctap_seq d, ctap_cid d, ctap_cmd d)"

lemma hid_core: "core d' = core d \<Longrightarrow> hid d' = hid d"
  using core_fields [of d' d] by (simp add: hid_def)

lemma hid_update [simp]:
  "hid (d\<lparr>chip := h\<rparr>) = hid d" "hid (d\<lparr>g_current_cid := c\<rparr>) = hid d"
  "hid (d\<lparr>g_enum_rp_idx := i\<rparr>) = hid d" "hid (d\<lparr>g_enum_cred_idx := i\<rparr>) = hid d"
  "hid (d\<lparr>g_enum_rp_hash := l\<rparr>) = hid d" "hid (d\<lparr>g_ga_rp_hash := l\<rparr>) = hid d"
  "hid (d\<lparr>g_ga_count := i\<rparr>) = hid d" "hid (d\<lparr>g_ga_idx := i\<rparr>) = hid d" "hid (d\<lparr>g_ga_cdh := l\<rparr>) = hid d"
  "hid (d\<lparr>pin_shared_secret := l\<rparr>) = hid d" "hid (d\<lparr>hmac_key := l\<rparr>) = hid d"
  "hid (d\<lparr>active_pin_protocol := n\<rparr>) = hid d" "hid (d\<lparr>g_pin_debug := l\<rparr>) = hid d"
  "hid (d\<lparr>pin_token := l\<rparr>) = hid d" "hid (d\<lparr>pin_token_len := n\<rparr>) = hid d" "hid (d\<lparr>has_pin_token := b\<rparr>) = hid d"
  "hid (d\<lparr>ecdh_private_key := l\<rparr>) = hid d" "hid (d\<lparr>ecdh_public_key := l\<rparr>) = hid d"
  "hid (d\<lparr>ecdh_key_valid := b\<rparr>) = hid d" "hid (d\<lparr>tick_no := n\<rparr>) = hid d"
  "hid (d\<lparr>cancel_requested := b\<rparr>) = hid d" "hid (d\<lparr>allocated_cid := c\<rparr>) = hid d"
  by (simp_all add: hid_def)

lemma hid_irq [simp]: "hid (irq_enable d) = hid d"
  by (simp add: irq_enable_def)

text \<open>The flash controller as it was, or with interrupts turned on by a reading of the pad.\<close>

definition kept :: "hw \<Rightarrow> hw \<Rightarrow> bool" where
  "kept s s' \<longleftrightarrow> s' = s \<or> s' = s\<lparr>irq_on := True\<rparr>"

lemma kept_refl [simp]: "kept s s" "kept s (s\<lparr>irq_on := True\<rparr>)"
  by (simp_all add: kept_def)

lemma kept_fmem: "kept s s' \<Longrightarrow> fmem s' = fmem s"
  by (auto simp: kept_def)

lemma pin_load_irq [simp]: "pin_load (s\<lparr>irq_on := b\<rparr>) = pin_load s"
  by (simp add: pin_load_def)

lemma kept_pin: "kept s s' \<Longrightarrow> pin_load s' = pin_load s"
  by (auto simp: kept_def)

lemma chip_irq [simp]: "chip (irq_enable d) = (chip d)\<lparr>irq_on := True\<rparr>"
  by (simp add: irq_enable_def)

lemma core_presence: "core (snd (fido2_wait_for_user_presence e cid d)) = core (irq_enable d)"
  using wait_presence_effect [of e cid d] by (cases "fido2_wait_for_user_presence e cid d") simp

lemma init_done: "touch_adc_init_done d \<Longrightarrow> init_touch_adc e d = d"
  by (simp add: init_touch_adc_def)

lemma core_touch_debug: "core (irq_enable (init_touch_adc e d)) = core (irq_enable d)"
  "core (snd (read_touch_pa2 e d)) = core (irq_enable d)"
  by (cases "touch_adc_init_done d") (simp_all add: init_adc_irq read_touch frame_simps init_done)

lemma hid_presence [simp]: "hid (snd (fido2_wait_for_user_presence e cid d)) = hid d"
  "hid (init_touch_adc e d) = hid d" "hid (snd (read_touch_pa2 e d)) = hid d"
  using hid_core [OF core_presence [of e cid d]] hid_core [OF core_touch_debug(1) [of e d]]
    hid_core [OF core_touch_debug(2) [of e d]] by simp_all

lemma presence_chip_eq: "chip (snd (fido2_wait_for_user_presence e cid d)) = (chip d)\<lparr>irq_on := True\<rparr>"
  using core_fields [OF core_presence [of e cid d]] by simp

lemmas hid_io [simp] = hid_core [OF core_rng] hid_core [OF core_make_key] hid_core [OF core_sign]
  hid_core [OF core_shared] hid_core [OF inner_core [OF inner_keepalive]]
  hid_core [OF inner_core [OF inner_send]] hid_core [OF inner_core [OF inner_set_bus]]
  hid_core [OF inner_core [OF inner_elapse]]

text \<open>Every command, operation by operation.\<close>

lemma hid_presence_cont:
  "(\<And>d. hid (snd (k d)) = hid d) \<Longrightarrow> hid (snd (user_presence e cid k d)) = hid d"
  using hid_presence(1) [of e cid d] by (simp add: user_presence_def split_beta)

lemma hid_build [simp]: "hid (snd (ga_build_response e rk a c n d)) = hid d"
  by (simp add: ga_build_response_def Let_def split_beta)

lemma hid_finish [simp]: "hid (snd (ga_finish e m h f c rk n d)) = hid d"
  by (simp add: ga_finish_def)

lemma hid_attest [simp]: "hid (snd (mc_attest e m cid cdh a k d)) = hid d"
  by (simp add: mc_attest_def Let_def split_beta)

lemma hid_create [simp]: "hid (snd (mc_create e m cid cdh f h rp uid nm d)) = hid d"
  by (simp add: mc_create_def Let_def split_beta)

lemma hid_select [simp]: "hid (snd (ga_select m n h cdh al d)) = hid d"
  by (simp add: ga_select_def Let_def split: option.splits prod.splits)

lemma hid_next [simp]: "hid (snd (cmd_get_next_assertion e cid d)) = hid d"
  by (simp add: cmd_get_next_assertion_def Let_def hid_presence_cont split: option.splits)

lemma hid_reset [simp]: "hid (snd (cmd_reset e cid d)) = hid d"
  by (simp add: cmd_reset_def Let_def hid_presence_cont)

lemma hid_debug [simp]: "hid (snd (cmd_touch_debug e d)) = hid d"
  by (simp add: cmd_touch_debug_def Let_def split_beta)

lemma hid_rps [simp]: "hid (snd (cm_enumerate_rps b d)) = hid d"
  by (simp add: cm_enumerate_rps_def Let_def split: option.splits)

lemma hid_creds: "cm_enumerate_creds e m n b d = Some (r, d') \<Longrightarrow> hid d' = hid d"
  by (auto simp: cm_enumerate_creds_def Let_def bind_eq_Some_conv split: option.splits if_splits)

lemma cm_delete_cases:
  assumes "cm_delete e m n d = Some (r, d')"
  shows "(r = [0x2E] \<and> d' = d) \<or>
    (\<exists>t. let (found, h) = passkey_delete_by_cred_id (bytes m t 32) (chip d)
         in r = [if found then 0x00 else 0x2E] \<and> d' = d\<lparr>chip := h\<rparr>)"
proof -
  obtain target :: "(nat \<times> nat) option" where "(case target of None \<Rightarrow> ([0x2E], d)
      | Some (t, n) \<Rightarrow> if n < 32 then ([0x2E], d)
        else let (found, h) = passkey_delete_by_cred_id (bytes m t 32) (chip d)
             in ([if found then 0x00 else 0x2E], d\<lparr>chip := h\<rparr>)) = (r, d')"
    using assms unfolding cm_delete_def bind_eq_Some_conv option.inject by blast
  then show ?thesis by (auto simp: Let_def split_beta split: option.splits if_splits)
qed

lemma hid_delete: "cm_delete e m n d = Some (r, d') \<Longrightarrow> hid d' = hid d"
  by (drule cm_delete_cases) (auto simp: Let_def split_beta)

text \<open>The sub-commands of credential management, behind the authentication.\<close>

lemma cred_mgmt_cases:
  assumes "cmd_cred_mgmt e n d = Some (r, d')"
  obtains sub ok where "cm_auth_ok e (req_mem e d) n sub d = Some ok" "\<not> ok" "r = [0x33]" "d' = d"
  | sub where "cm_auth_ok e (req_mem e d) n sub d = Some True" "d' = d"
  | sub b where "cm_auth_ok e (req_mem e d) n sub d = Some True" "(r, d') = cm_enumerate_rps b d"
  | sub b where "cm_auth_ok e (req_mem e d) n sub d = Some True" "cm_enumerate_creds e (req_mem e d) n b d = Some (r, d')"
  | v where "get_cbor_map_int (stk e) (req_mem e d) 1 (n - 1) 0x01 = Some (Some v)" "(word_of_nat v :: u8) = 0x06"
      "cm_auth_ok e (req_mem e d) n 0x06 d = Some True" "cm_delete e (req_mem e d) n d = Some (r, d')"
proof -
  let ?m = "req_mem e d"
  obtain s where s: "get_cbor_map_int (stk e) ?m 1 (n - 1) 0x01 = Some s"
    using assms by (auto simp: cmd_cred_mgmt_def Let_def bind_eq_Some_conv)
  define sub :: u8 where "sub = (case s of None \<Rightarrow> 0 | Some v \<Rightarrow> word_of_nat v)"
  obtain ok where ok: "cm_auth_ok e ?m n sub d = Some ok"
    using assms s by (auto simp: cmd_cred_mgmt_def bind_eq_Some_conv sub_def Let_def)
  show thesis
  proof (cases ok)
    case False
    then have "r = [0x33]" "d' = d" using assms s ok by (simp_all add: cmd_cred_mgmt_def Let_def sub_def [symmetric])
    with ok False show thesis by (intro that(1))
  next
    case True
    then have "cm_auth_ok e ?m n sub d = Some True" using ok by simp
    note c = that(2-4) [OF this] and del = that(5)
    obtain x where x: "get_cbor_map_value (stk e) ?m 1 (n - 1) 0x02 = Some x"
      using assms s ok True by (auto simp: cmd_cred_mgmt_def bind_eq_Some_conv sub_def Let_def)
    have "(if sub = 0x01 then Some (cm_metadata d, d)
       else if sub = 0x02 \<or> sub = 0x03 then Some (cm_enumerate_rps (sub = 0x02) d)
       else if sub = 0x04 \<or> sub = 0x05 then cm_enumerate_creds e ?m n (sub = 0x04) d
       else if sub = 0x06 then cm_delete e ?m n d else Some ([0x01], d)) = Some (r, d')"
      using assms s ok True x by (simp add: cmd_cred_mgmt_def Let_def sub_def cong: if_cong)
    moreover have "thesis" if a: "sub = 0x06" and x: "cm_delete e ?m n d = Some (r, d')"
    proof -
      obtain v where v: "s = Some v" "(word_of_nat v :: u8) = 0x06" using a by (auto simp: sub_def split: option.splits)
      have "cm_auth_ok e ?m n 0x06 d = Some True" using ok True a by simp
      then show thesis using del s v x by blast
    qed
    ultimately show thesis using c(1) c(2) [OF sym] c(3) by (simp split: if_splits)
  qed
qed

lemma hid_cred_mgmt: "cmd_cred_mgmt e n d = Some (r, d') \<Longrightarrow> hid d' = hid d"
  by (erule cred_mgmt_cases) (auto simp: hid_creds hid_delete dest: arg_cong [of _ _ snd])

section \<open>MakeCredential and GetAssertion, step by step\<close>

text \<open>MakeCredential either stops without touching the chip, or has waited for the user and then
  creates the credential.\<close>

lemma make_cases:
  assumes "cmd_make_credential e n cid d = Some (r, d')"
  obtains "length r = 1" "kept (chip d) (chip d')" "hid d' = hid d"
  | d1 cdh flags rp_id user_id user_name ex where
    "fido2_wait_for_user_presence e cid d = (0x00, d1)"
    "mc_rp_id e (req_mem e d) n = Some rp_id"
    "mc_user e (req_mem e d) n = Some (user_id, user_name)"
    "get_cbor_map_string (stk e) (req_mem e d) 1 (n - 1) 0x01 = Some cdh"
    "get_cbor_map_item (stk e) (req_mem e d) 1 (n - 1) 0x05 = Some ex"
    "\<not> mc_excluded (chip d1) (req_mem e d) (rp_id_hash_of (req_mem e d) rp_id) (item_ptr (junk e 5) ex)"
    "(r, d') = mc_create e (req_mem e d) cid cdh flags (rp_id_hash_of (req_mem e d) rp_id) rp_id user_id user_name d1"
    "\<exists>pa om. get_cbor_map_string (stk e) (req_mem e d) 1 (n - 1) 0x08 = Some pa \<and>
       mc_precheck (req_mem e d) n d cdh pa om = Inr flags"
proof -
  let ?m = "req_mem e d"
  obtain cdh pa om where cdh: "get_cbor_map_string (stk e) ?m 1 (n - 1) 0x01 = Some cdh"
    and pa: "get_cbor_map_string (stk e) ?m 1 (n - 1) 0x08 = Some pa"
    and om: "(case mc_precheck ?m n d cdh pa om of
          Inl s \<Rightarrow> Some ([s], d)
        | Inr flags \<Rightarrow>
          (let (up_status, d) = fido2_wait_for_user_presence e cid d
           in if up_status \<noteq> 0x00 then Some ([up_status], d)
              else do {
                rp_id \<leftarrow> mc_rp_id e ?m n;
                (let rpIdHash = rp_id_hash_of ?m rp_id in do {
                   ex \<leftarrow> get_cbor_map_item (stk e) ?m 1 (n - 1) 0x05;
                   (if mc_excluded (chip d) ?m rpIdHash (item_ptr (junk e 5) ex) then Some ([0x2C], d)
                    else do {
                      (user_id, user_name) \<leftarrow> mc_user e ?m n;
                      Some (mc_create e ?m cid cdh flags rpIdHash rp_id user_id user_name d)
                    })
                 })
              })) = Some (r, d')"
    using assms unfolding cmd_make_credential_def Let_def bind_eq_Some_conv option.inject by blast
  obtain st d1 where w: "fido2_wait_for_user_presence e cid d = (st, d1)" by fastforce
  have c1: "kept (chip d) (chip d1)" "hid d1 = hid d"
    using hid_presence(1) [of e cid d] presence_chip_eq [of e cid d] by (simp_all add: w)
  show thesis
  proof (cases "mc_precheck ?m n d cdh pa om")
    case (Inl s)
    then show thesis using om by (intro that(1)) auto
  next
    case (Inr flags)
    show thesis
    proof (cases "st = 0x00")
      case False
      then show thesis using om Inr w c1 by (intro that(1)) auto
    next
      case True
      obtain rp where rp: "mc_rp_id e ?m n = Some rp"
        using om Inr w True by (auto simp: bind_eq_Some_conv)
      obtain ex where ex: "get_cbor_map_item (stk e) ?m 1 (n - 1) 0x05 = Some ex"
        using om Inr w True rp by (auto simp: bind_eq_Some_conv Let_def)
      show thesis
      proof (cases "mc_excluded (chip d1) ?m (rp_id_hash_of ?m rp) (item_ptr (junk e 5) ex)")
        case t: True
        then show thesis using om Inr w True rp ex c1 by (intro that(1)) auto
      next
        case False
        obtain u nm where u: "mc_user e ?m n = Some (u, nm)"
          "(r, d') = mc_create e ?m cid cdh flags (rp_id_hash_of ?m rp) rp u nm d1"
          using om Inr w True rp ex False by (auto simp: bind_eq_Some_conv)
        show thesis using w True rp ex False u cdh pa Inr by (intro that(2)) auto
      qed
    qed
  qed
qed

lemma hid_make: "cmd_make_credential e n cid d = Some (r, d') \<Longrightarrow> hid d' = hid d"
proof (erule make_cases)
  fix d1 cdh flags rp_id user_id user_name
  assume w: "fido2_wait_for_user_presence e cid d = (0x00, d1)"
    and c: "(r, d') = mc_create e (req_mem e d) cid cdh flags (rp_id_hash_of (req_mem e d) rp_id) rp_id user_id user_name d1"
  have "hid d1 = hid d" using hid_presence(1) [of e cid d] by (simp add: w)
  then show "hid d' = hid d"
    using hid_create [of e "req_mem e d" cid cdh flags "rp_id_hash_of (req_mem e d) rp_id" rp_id user_id user_name d1]
    by (simp flip: c)
qed

lemma select_chip [simp]: "chip (snd (ga_select m n h cdh al d)) = chip d"
  by (simp add: ga_select_def Let_def split: option.splits prod.splits)

lemma assertion_cases:
  assumes "cmd_get_assertion e n cid d = Some (r, d')"
  obtains "length r = 1" "chip d' = chip d" "hid d' = hid d"
  | d1 rp cdh al rk total_n pa flags om where
    "get_cbor_map_value (stk e) (req_mem e d) 1 (n - 1) 0x01 = Some rp"
    "get_cbor_map_string (stk e) (req_mem e d) 1 (n - 1) 0x02 = Some cdh"
    "get_cbor_map_value (stk e) (req_mem e d) 1 (n - 1) 0x03 = Some al"
    "ga_select (req_mem e d) n (rp_id_hash_of (req_mem e d) (map_option (\<lambda>(p, n, _). (p, n)) rp)) cdh al d = (Some (rk, total_n), d1)"
    "get_cbor_map_string (stk e) (req_mem e d) 1 (n - 1) 0x06 = Some pa"
    "ga_uv_flags d1 (req_mem e d) cdh pa = Some flags"
    "get_cbor_map_value (stk e) (req_mem e d) 1 (n - 1) 0x05 = Some om"
    "(ga_options (req_mem e d) n d1 om pa = Inr True \<and>
       (r, d') = user_presence e cid (ga_finish e (req_mem e d)
         (rp_id_hash_of (req_mem e d) (map_option (\<lambda>(p, n, _). (p, n)) rp)) flags cdh rk total_n) d1) \<or>
     (ga_options (req_mem e d) n d1 om pa = Inr False \<and>
       (r, d') = ga_finish e (req_mem e d)
         (rp_id_hash_of (req_mem e d) (map_option (\<lambda>(p, n, _). (p, n)) rp)) (flags AND NOT 0x01) cdh rk total_n d1)"
proof -
  let ?m = "req_mem e d"
  obtain rp cdh al where rp: "get_cbor_map_value (stk e) ?m 1 (n - 1) 0x01 = Some rp"
    and cdh: "get_cbor_map_string (stk e) ?m 1 (n - 1) 0x02 = Some cdh"
    and al: "get_cbor_map_value (stk e) ?m 1 (n - 1) 0x03 = Some al"
    using assms unfolding cmd_get_assertion_def Let_def bind_eq_Some_conv by blast
  define h where "h = rp_id_hash_of ?m (map_option (\<lambda>(p, n, _). (p, n)) rp)"
  obtain sel d1 where sel: "ga_select ?m n h cdh al d = (sel, d1)" by fastforce
  have d1: "chip d1 = chip d" "hid d1 = hid d"
    using select_chip [of ?m n h cdh al d] hid_select [of ?m n h cdh al d] by (simp_all add: sel)
  show thesis
  proof (cases sel)
    case None
    then show thesis using assms rp cdh al sel d1
      by (intro that(1)) (auto simp: cmd_get_assertion_def h_def Let_def)
  next
    case (Some p)
    then obtain rk tn where s: "sel = Some (rk, tn)" by (cases p) auto
    obtain pa where pa: "get_cbor_map_string (stk e) ?m 1 (n - 1) 0x06 = Some pa"
      using assms rp cdh al sel s by (auto simp: cmd_get_assertion_def h_def Let_def bind_eq_Some_conv)
    show thesis
    proof (cases "ga_uv_flags d1 ?m cdh pa")
      case None
      then show thesis using assms rp cdh al sel s pa d1
        by (intro that(1)) (auto simp: cmd_get_assertion_def h_def Let_def)
    next
      case (Some flags)
      obtain om where om: "get_cbor_map_value (stk e) ?m 1 (n - 1) 0x05 = Some om"
        using assms rp cdh al sel s pa Some by (auto simp: cmd_get_assertion_def h_def Let_def bind_eq_Some_conv)
      have out: "(case ga_options ?m n d1 om pa of Inl s \<Rightarrow> ([s], d1)
          | Inr True \<Rightarrow> user_presence e cid (ga_finish e ?m h flags cdh rk tn) d1
          | Inr False \<Rightarrow> ga_finish e ?m h (flags AND NOT 0x01) cdh rk tn d1) = (r, d')"
        using assms rp cdh al sel s pa Some om unfolding h_def by (simp add: cmd_get_assertion_def Let_def)
      show thesis
      proof (cases "ga_options ?m n d1 om pa")
        case (Inl x)
        then show thesis using out d1 by (intro that(1)) auto
      next
        case (Inr b)
        show thesis
          using that(2) [OF rp cdh al sel [unfolded h_def s] pa Some om] out Inr
          by (cases b) (simp_all add: h_def)
      qed
    qed
  qed
qed

lemma hid_assertion: "cmd_get_assertion e n cid d = Some (r, d') \<Longrightarrow> hid d' = hid d"
proof (erule assertion_cases)
  fix d1 rp cdh al rk tn flags
  let ?h = "rp_id_hash_of (req_mem e d) (map_option (\<lambda>(p, n, _). (p, n)) rp)"
  assume sel: "ga_select (req_mem e d) n ?h cdh al d = (Some (rk, tn), d1)"
  have d1: "hid d1 = hid d" using hid_select [of "req_mem e d" n ?h cdh al d] by (simp add: sel)
  fix om pa
  assume "(ga_options (req_mem e d) n d1 om pa = Inr True \<and>
      (r, d') = user_presence e cid (ga_finish e (req_mem e d) ?h flags cdh rk tn) d1) \<or>
    (ga_options (req_mem e d) n d1 om pa = Inr False \<and>
      (r, d') = ga_finish e (req_mem e d) ?h (flags AND NOT 0x01) cdh rk tn d1)"
  then have "d' = snd (user_presence e cid (ga_finish e (req_mem e d) ?h flags cdh rk tn) d1) \<or>
      d' = snd (ga_finish e (req_mem e d) ?h (flags AND NOT 0x01) cdh rk tn d1)"
    by (metis snd_conv)
  then show "hid d' = hid d" using d1 by (auto simp: hid_presence_cont)
qed

section \<open>The PIN command and the dispatcher\<close>

lemma hid_derive [simp]: "hid (pin_derive_keys s d) = hid d"
  by (simp add: pin_derive_keys_def Let_def split_beta)

lemma hid_store: "store_new_pin e m a cid d = (r, d') \<Longrightarrow> hid d' = hid d"
  by (auto simp: store_new_pin_def Let_def split: if_splits)

lemma hid_issue: "issue_token e s d = (r, d') \<Longrightarrow> hid d' = hid d"
  by (auto simp: issue_token_def Let_def split_beta split: if_splits)

lemma hid_agree: "pin_agree e m q n d = Some (Inr d') \<Longrightarrow> hid d' = hid d"
proof (erule agree_inr)
  fix hp s d1
  assume s: "uECC_shared_secret e hp (ecdh_private_key d) d = (s, d1)" "d' = pin_derive_keys s d1"
  then show "hid d' = hid d" using hid_core [OF core_shared, of e hp "ecdh_private_key d" d] by simp
qed

lemma hid_set: "pin_set e m q n cid d = Some (r, d') \<Longrightarrow> hid d' = hid d"
  by (drule set_cases) (auto simp: hid_store)

lemma hid_change: "pin_change e m q n cid d = Some (r, d') \<Longrightarrow> hid d' = hid d"
  by (drule change_cases) (auto simp: hid_store)

lemma hid_token: "pin_get_token e m q n s d = Some (r, d') \<Longrightarrow> hid d' = hid d"
  by (drule token_cases) (auto simp: hid_issue)

lemma hid_key_agreement [simp]: "hid (snd (pin_key_agreement e d)) = hid d"
  by (simp add: pin_key_agreement_def Let_def split_beta)

lemma hid_dispatch_pin: "pin_dispatch e m q n cid s d = Some (r, d') \<Longrightarrow> hid d' = hid d"
  by (erule dispatch_cases)
    (metis hid_key_agreement snd_conv hid_set hid_change hid_token hid_agree)+

lemma hid_client_pin:
  assumes "process_client_pin e m q n cid d = Some (r, d')"
  shows "hid d' = hid d"
  using assms by (rule client_cases) (auto dest: hid_dispatch_pin)

lemma hid_process:
  assumes "fido2_process_cbor e n cid d = Some (r, d')"
  shows "hid d' = hid d"
proof -
  let ?d = "d\<lparr>g_current_cid := cid\<rparr>"
  have "d' = d \<or> d' = ?d \<or> cmd_make_credential e n cid ?d = Some (r, d') \<or>
      cmd_get_assertion e n cid ?d = Some (r, d') \<or> d' = snd (cmd_get_next_assertion e cid ?d) \<or>
      process_client_pin e (req_mem e ?d) 1 (n - 1) cid ?d = Some (r, d') \<or>
      cmd_cred_mgmt e n ?d = Some (r, d') \<or> d' = snd (cmd_reset e cid ?d) \<or> d' = snd (cmd_touch_debug e ?d)"
    using assms by (auto simp: fido2_process_cbor_def Let_def split: if_splits)
  then have "hid d' = hid d \<or> hid d' = hid ?d"
    using hid_make hid_assertion hid_client_pin hid_cred_mgmt hid_next hid_reset hid_debug by metis
  then show ?thesis by simp
qed

end
