(* ===== verification/Fido2Props.thy ===== *)
theory Fido2Props
  imports Fido2Spec
begin

text \<open>
  The answers of MakeCredential and GetAssertion as the CBOR values a platform decodes, what is signed
  with which key, and the guards: user presence, user verification, relying party, credential management.
\<close>

section \<open>Responses\<close>

lemma resp_enc:
  assumes "list_all2 appends fs bss" "length (concat bss) \<le> 1023"
  shows "resp_ok fs = 0x00 # concat bss"
  using appends_init(1) [OF appends_encode_all [OF assms(1)], of 1024 "replicate 1023 0"] assms(2)
  by (simp add: resp_ok_def resp_encoder_def)

lemma lit_no_nul: "0 \<notin> set (lit ''id'')" "0 \<notin> set (lit ''type'')" "0 \<notin> set (lit ''public-key'')"
  "0 \<notin> set (lit ''name'')" "0 \<notin> set (lit ''packed'')" "0 \<notin> set (lit ''alg'')" "0 \<notin> set (lit ''sig'')"
  by (simp_all add: lit_def of_char_def)

lemma length_lit [simp]: "length (lit s) = length s"
  by (simp add: lit_def)

definition cose_item :: "u8 list \<Rightarrow> cbor" where
  "cose_item pub = CMap [(CUint 1, CUint 2), (CUint 3, CNeg 6), (CNeg 0, CUint 1),
     (CNeg 1, CBytes (take 32 pub)), (CNeg 2, CBytes (take 32 (drop 32 pub)))]"

lemma cose_key_enc:
  assumes "length pub = 64"
  shows "cose_key pub = enc (cose_item pub)" "length (cose_key pub) = 77"
proof -
  let ?bss = "[head_bytes 5 (word_of_nat 5), head_bytes 0 1, head_bytes 0 2, head_bytes 0 3, head_bytes 1 6,
    head_bytes 1 0, head_bytes 0 1, head_bytes 1 1, head_bytes 2 (word_of_nat 32) @ take 32 pub,
    head_bytes 1 2, head_bytes 2 (word_of_nat 32) @ take 32 (drop 32 pub)]"
  have "list_all2 appends
      [cbor_encode_map 5,
       cbor_encode_uint 1, cbor_encode_uint 2,
       cbor_encode_uint 3, cbor_encode_head 1 6,
       cbor_encode_head 1 0, cbor_encode_uint 1,
       cbor_encode_head 1 1, cbor_encode_byte_string pub 32,
       cbor_encode_head 1 2, cbor_encode_byte_string (drop 32 pub) 32] ?bss"
    using assms by (intro list_all2_Cons[THEN iffD2] conjI list_all2_Nil[THEN iffD2] TrueI
        appends_map appends_uint appends_head appends_bytes_take) simp_all
  from appends_encode_all [OF this] have a: "appends (encode_all
      [cbor_encode_map 5,
       cbor_encode_uint 1, cbor_encode_uint 2,
       cbor_encode_uint 3, cbor_encode_head 1 6,
       cbor_encode_head 1 0, cbor_encode_uint 1,
       cbor_encode_head 1 1, cbor_encode_byte_string pub 32,
       cbor_encode_head 1 2, cbor_encode_byte_string (drop 32 pub) 32]) (concat ?bss)" .
  have l: "length (concat ?bss) = 77" using assms by (simp add: length_head_bytes)
  have c: "cose_key pub = concat ?bss"
    unfolding cose_key_def by (rule appends_init(1) [OF a]) (simp_all only: l length_replicate order_refl)
  then show "cose_key pub = enc (cose_item pub)"
    using assms by (simp add: cose_item_def head_nat_def)
  show "length (cose_key pub) = 77" by (simp only: c l)
qed

definition mc_response :: "u8 list \<Rightarrow> u8 list \<Rightarrow> cbor" where
  "mc_response authData der = CMap [(CUint 1, CText (lit ''packed'')), (CUint 2, CBytes authData),
     (CUint 3, CMap [(CText (lit ''alg''), CNeg 6), (CText (lit ''sig''), CBytes der)])]"

lemma mc_items:
  assumes "length a \<le> 200" "length der \<le> 72"
  shows "resp_ok
      [cbor_encode_map 3,
       cbor_encode_uint 1, cbor_encode_text_string (lit ''packed''),
       cbor_encode_uint 2, cbor_encode_byte_string a (length a),
       cbor_encode_uint 3, cbor_encode_map 2,
       cbor_encode_text_string (lit ''alg''), cbor_encode_int (- 7),
       cbor_encode_text_string (lit ''sig''), cbor_encode_byte_string der (length der)] =
    0x00 # enc (mc_response a der)"
proof -
  let ?bss = "[head_bytes 5 (word_of_nat 3), head_bytes 0 1, head_bytes 3 (word_of_nat 6) @ lit ''packed'',
    head_bytes 0 2, head_bytes 2 (word_of_nat (length a)) @ a, head_bytes 0 3, head_bytes 5 (word_of_nat 2),
    head_bytes 3 (word_of_nat 3) @ lit ''alg'', head_bytes 1 6, head_bytes 3 (word_of_nat 3) @ lit ''sig'',
    head_bytes 2 (word_of_nat (length der)) @ der]"
  have i: "appends (cbor_encode_int (- 7)) (head_bytes 1 6)" using appends_int [of "- 7"] by simp
  have t: "appends (cbor_encode_text_string (lit ''packed'')) (head_bytes 3 (word_of_nat 6) @ lit ''packed'')"
    "appends (cbor_encode_text_string (lit ''alg'')) (head_bytes 3 (word_of_nat 3) @ lit ''alg'')"
    "appends (cbor_encode_text_string (lit ''sig'')) (head_bytes 3 (word_of_nat 3) @ lit ''sig'')"
    using appends_text [of "lit ''packed''"] appends_text [of "lit ''alg''"] appends_text [of "lit ''sig''"]
    by (simp_all add: lit_no_nul)
  have hb: "length (head_bytes M v) \<le> 5" for M v by (simp add: length_head_bytes)
  have "length (concat ?bss) \<le> 1023"
    using assms hb [of 2 "word_of_nat (length a)"] hb [of 2 "word_of_nat (length der)"]
    by (simp add: length_head_bytes)
  moreover have "list_all2 appends
      [cbor_encode_map 3,
       cbor_encode_uint 1, cbor_encode_text_string (lit ''packed''),
       cbor_encode_uint 2, cbor_encode_byte_string a (length a),
       cbor_encode_uint 3, cbor_encode_map 2,
       cbor_encode_text_string (lit ''alg''), cbor_encode_int (- 7),
       cbor_encode_text_string (lit ''sig''), cbor_encode_byte_string der (length der)] ?bss"
    by (intro list_all2_Cons[THEN iffD2] conjI list_all2_Nil[THEN iffD2] TrueI
        appends_map appends_uint appends_bytes i t) simp_all
  ultimately have "resp_ok
      [cbor_encode_map 3,
       cbor_encode_uint 1, cbor_encode_text_string (lit ''packed''),
       cbor_encode_uint 2, cbor_encode_byte_string a (length a),
       cbor_encode_uint 3, cbor_encode_map 2,
       cbor_encode_text_string (lit ''alg''), cbor_encode_int (- 7),
       cbor_encode_text_string (lit ''sig''), cbor_encode_byte_string der (length der)] = 0x00 # concat ?bss"
    by (intro resp_enc)
  also have "concat ?bss = enc (mc_response a der)" by (simp add: mc_response_def head_nat_def)
  finally show ?thesis .
qed

section \<open>What is signed\<close>

text \<open>The lengths micro-ecc documents: 64-byte public keys and signatures, 32-byte private keys.\<close>

definition ecc_sizes :: "env \<Rightarrow> bool" where
  "ecc_sizes e \<longleftrightarrow>
    (\<forall>r. length (fst (ecc_make_key e r)) = 64 \<and> length (fst (snd (ecc_make_key e r))) = 32) \<and>
    (\<forall>k h r. length (fst (ecc_sign e k h r)) = 64)"

lemma ecc_sizes_quiet: "ecc_sizes quiet_env"
  by (simp add: ecc_sizes_def quiet_env_def)

lemma make_key_sizes:
  "ecc_sizes e \<Longrightarrow> length (fst (uECC_make_key e d)) = 64 \<and> length (fst (snd (uECC_make_key e d))) = 32"
  by (simp add: ecc_sizes_def uECC_make_key_def split_beta)

lemma sign_size: "ecc_sizes e \<Longrightarrow> length (fst (uECC_sign e k h d)) = 64"
  by (simp add: ecc_sizes_def uECC_sign_def split_beta)

lemma sha256_parts:
  "sha256_final (sha256_update (sha256_init uninit_ctx) a (length a)) = sha256_of a"
  "sha256_final (sha256_update (sha256_update (sha256_init uninit_ctx) a (length a)) b (length b)) = sha256_of (a @ b)"
proof -
  have one: "sha256_of x = sha256_spec x" for x
    using sha256_eq_spec [of x] by (simp add: sha256_of_def sha256_def sha256_chunks_def)
  show "sha256_final (sha256_update (sha256_init uninit_ctx) a (length a)) = sha256_of a"
    by (simp add: sha256_of_def)
  show "sha256_final (sha256_update (sha256_update (sha256_init uninit_ctx) a (length a)) b (length b)) = sha256_of (a @ b)"
    using sha256_streaming_lemma [of uninit_ctx "[a, b]"]
    by (simp add: one sha256_chunks_def uninit_ctx_def)
qed

definition cdh_bytes :: "mem \<Rightarrow> (nat \<times> nat) option \<Rightarrow> u8 list" where
  "cdh_bytes m cdh = (case cdh of None \<Rightarrow> [] | Some (c, _) \<Rightarrow> bytes m c 32)"

lemma attest_response:
  assumes "mc_attest e m cid cdh a k d = (r, d')" "length a \<le> 200" "ecc_sizes e"
  obtains "r = 0x00 # enc (mc_response a (ecdsa_sig_to_der (fst (uECC_sign e k (sha256_of (a @ cdh_bytes m cdh))
      (fido2_send_keepalive e cid 1 d)))))"
    "core d' = core d"
proof -
  let ?ds = "fido2_send_keepalive e cid 1 d"
  let ?h = "sha256_of (a @ cdh_bytes m cdh)"
  let ?der = "ecdsa_sig_to_der (fst (uECC_sign e k ?h ?ds))"
  have h: "sha256_final (case cdh of None \<Rightarrow> sha256_update (sha256_init uninit_ctx) a (length a)
      | Some (c, _) \<Rightarrow> sha256_update (sha256_update (sha256_init uninit_ctx) a (length a)) (bytes m c 32) 32) = ?h"
    using sha256_parts(1) [of a] sha256_parts(2) [of a "bytes m (fst (the cdh)) 32"]
    by (auto simp: cdh_bytes_def split: option.splits)
  have "length ?der \<le> 72" by (rule der_lemma(2)) (simp add: sign_size [OF assms(3)])
  from mc_items [OF assms(2) this] have "r = 0x00 # enc (mc_response a ?der)" "d' = snd (uECC_sign e k ?h ?ds)"
    using assms(1) unfolding mc_attest_def Let_def h by (simp_all add: split_beta del: enc.simps)
  then show thesis by (intro that) (simp_all add: frame_simps)
qed

text \<open>
  The states in which MakeCredential calls the library: to make the key, after a keepalive; and to sign, after the
  credential id has been drawn and the record stored.
\<close>

definition generating :: "env \<Rightarrow> u32 \<Rightarrow> dev \<Rightarrow> dev" where
  "generating e cid d = fido2_send_keepalive e cid 1 d"

definition attesting :: "env \<Rightarrow> u32 \<Rightarrow> hw \<Rightarrow> dev \<Rightarrow> dev" where
  "attesting e cid stored d =
    (let d = snd (snd (uECC_make_key e (generating e cid d)));
         d = snd (rng e 32 (fido2_send_keepalive e cid 1 d))
     in fido2_send_keepalive e cid 1 (d\<lparr>chip := stored\<rparr>))"

lemma auth_data_length:
  assumes "length h = 32" "length c = 32" "length pub = 64"
  shows "length (mc_auth_data h f c pub) = 164" "take 32 (mc_auth_data h f c pub) = h"
    "mc_auth_data h f c pub ! 32 = f"
  using assms cose_key_enc(2) [OF assms(3)]
  by (simp_all add: mc_auth_data_def auth_data37_def AAGUID_def nth_append)

lemma create_effect:
  assumes "mc_create e m cid cdh flags h rp uid nm d = (r, d')" "ecc_sizes e" "length h = 32"
    and "store_ok (fmem (chip d))" "length r \<noteq> 1"
  obtains pub priv cred sig i where
    "spec_slot (same_account h (str_bytes m uid) (length (str_bytes m uid))) (slots (fmem (chip d))) = Some i"
    "slots (fmem (chip d')) = (slots (fmem (chip d)))[i := Some (new_rk h (str_bytes m rp) (length (str_bytes m rp))
       (str_bytes m uid) (length (str_bytes m uid)) (str_bytes m nm) (length (str_bytes m nm)) cred priv)]"
    "store_ok (fmem (chip d'))" "pin_load (chip d') = pin_load (chip d)"
    "length pub = 64" "length priv = 32" "length cred = 32"
    "r = 0x00 # enc (mc_response (mc_auth_data h (flags OR 0x40) cred pub) (ecdsa_sig_to_der sig))"
    "pub = fst (uECC_make_key e (generating e cid d))" "priv = fst (snd (uECC_make_key e (generating e cid d)))"
    "sig = fst (uECC_sign e priv (sha256_of (mc_auth_data h (flags OR 0x40) cred pub @ cdh_bytes m cdh))
       (attesting e cid (chip d') d))"
proof -
  let ?dk = "fido2_send_keepalive e cid 1 d"
  obtain pub priv d2 where k: "uECC_make_key e ?dk = (pub, priv, d2)" by (metis prod_cases3)
  let ?d3 = "fido2_send_keepalive e cid 1 d2"
  obtain cred d4 where c: "rng e 32 ?d3 = (cred, d4)" by fastforce
  let ?rp = "str_bytes m rp" and ?u = "str_bytes m uid" and ?n = "str_bytes m nm"
  obtain saved hw where sv: "passkey_save h ?rp (length ?rp) ?u (length ?u) ?n (length ?n) cred priv (chip d4) = (saved, hw)"
    by fastforce
  have "core d2 = core d" using core_make_key [of e ?dk] by (simp add: k frame_simps)
  moreover have "core d4 = core ?d3" using core_rng [of e 32 ?d3] by (simp add: c)
  ultimately have "core d4 = core d" by (simp add: frame_simps)
  then have ch: "chip d4 = chip d" using core_fields by blast
  have l: "length pub = 64" "length priv = 32" "length cred = 32"
    using make_key_sizes [OF assms(2), of ?dk] length_rng [of e 32 ?d3] by (simp_all add: k c)
  have run: "(r, d') = (if \<not> saved then ([0x28], d4\<lparr>chip := hw\<rparr>)
      else mc_attest e m cid cdh (mc_auth_data h (flags OR 0x40) cred pub) priv (d4\<lparr>chip := hw\<rparr>))"
    using assms(1) by (simp add: mc_create_def Let_def k c sv)
  then have saved: "saved" "mc_attest e m cid cdh (mc_auth_data h (flags OR 0x40) cred pub) priv (d4\<lparr>chip := hw\<rparr>) = (r, d')"
    using assms(5) by (auto split: if_splits)
  have "length (mc_auth_data h (flags OR 0x40) cred pub) \<le> 200" using auth_data_length(1) [OF assms(3) l(3,1)] by simp
  from attest_response [OF saved(2) this assms(2)] have
    r: "r = 0x00 # enc (mc_response (mc_auth_data h (flags OR 0x40) cred pub) (ecdsa_sig_to_der
      (fst (uECC_sign e priv (sha256_of (mc_auth_data h (flags OR 0x40) cred pub @ cdh_bytes m cdh))
        (fido2_send_keepalive e cid 1 (d4\<lparr>chip := hw\<rparr>))))))"
    "core d' = core (d4\<lparr>chip := hw\<rparr>)" by blast+
  have hw: "chip d' = hw" using core_fields [OF r(2)] by simp
  have "case spec_slot (same_account h ?u (length ?u)) (slots (fmem (chip d))) of
      None \<Rightarrow> passkey_save h ?rp (length ?rp) ?u (length ?u) ?n (length ?n) cred priv (chip d) = (False, chip d)
    | Some i \<Rightarrow> (let (r, s') = passkey_save h ?rp (length ?rp) ?u (length ?u) ?n (length ?n) cred priv (chip d) in
        r \<and> slots (fmem s') = (slots (fmem (chip d)))[i := Some (new_rk h ?rp (length ?rp) ?u (length ?u) ?n (length ?n) cred priv)] \<and>
        store_ok (fmem s') \<and> pin_load s' = pin_load (chip d) \<and> flash_locked s' \<and> irq_on s')"
    by (rule save_refines) (simp_all add: assms(3,4) l)
  then obtain i where i: "spec_slot (same_account h ?u (length ?u)) (slots (fmem (chip d))) = Some i"
    "slots (fmem hw) = (slots (fmem (chip d)))[i := Some (new_rk h ?rp (length ?rp) ?u (length ?u) ?n (length ?n) cred priv)]"
    "store_ok (fmem hw)" "pin_load hw = pin_load (chip d)"
    using sv saved(1) by (auto simp: ch split: option.splits)
  have "fido2_send_keepalive e cid 1 (d4\<lparr>chip := hw\<rparr>) = attesting e cid (chip d') d"
    by (simp add: attesting_def generating_def Let_def k c hw)
  note r = r(1) [unfolded this]
  show thesis
    by (rule that [OF i(1) _ _ _ l r]) (use i hw in \<open>simp_all add: generating_def k\<close>)
qed

section \<open>Assertions\<close>

definition ga_response :: "ResidentKey \<Rightarrow> u8 list \<Rightarrow> u8 list \<Rightarrow> nat \<Rightarrow> cbor" where
  "ga_response k authData der n = CMap (
     [(CUint 1, CMap [(CText (lit ''id''), CBytes (rk_credential_id k)),
                      (CText (lit ''type''), CText (lit ''public-key''))]),
      (CUint 2, CBytes authData), (CUint 3, CBytes der)] @
     (if 0 < rk_user_id_len k
      then [(CUint 4, CMap ((CText (lit ''id''), CBytes (take (rk_user_id_len k) (rk_user_id k))) #
             (if 0 < rk_user_name_len k
              then [(CText (lit ''name''), CText (take (rk_user_name_len k) (rk_user_name k)))] else [])))]
      else []) @
     (if 1 < n then [(CUint 6, CUint n)] else []))"

lemma ga_items:
  assumes "length a = 37" "length der \<le> 72" "unat (fm (rk + 36)) \<le> 64" "unat (fm (rk + 165)) \<le> 32"
  shows "resp_ok (assertion_items fm rk a der w) = 0x00 # enc (ga_response (read_rk fm rk) a der (unat w))"
proof -
  define ul nl where "ul = unat (fm (rk + 36))" and "nl = unat (fm (rk + 165))"
  have ulen: "ul \<le> 64" "nl \<le> 32" using assms(3,4) by (simp_all add: ul_def nl_def)
  let ?id = "bytes fm (rk + 37) ul" and ?nm = "bytes fm (rk + 166) nl"
  define map_n where "map_n = 3 + (if 0 < ul then 1 else 0) + (if 1 < w then 1 else (0 :: nat))"
  let ?h = "[head_bytes 5 (word_of_nat map_n), head_bytes 0 1, head_bytes 5 (word_of_nat 2),
    head_bytes 3 (word_of_nat 2) @ lit ''id'', head_bytes 2 (word_of_nat 32) @ bytes fm (rk + 101) 32,
    head_bytes 3 (word_of_nat 4) @ lit ''type'', head_bytes 3 (word_of_nat 10) @ lit ''public-key'',
    head_bytes 0 2, head_bytes 2 (word_of_nat 37) @ a, head_bytes 0 3, head_bytes 2 (word_of_nat (length der)) @ der]"
  let ?u = "if 0 < ul then [head_bytes 0 4, head_bytes 5 (word_of_nat (if 0 < nl then 2 else 1)),
      head_bytes 3 (word_of_nat 2) @ lit ''id'', head_bytes 2 (word_of_nat ul) @ ?id] @
      (if 0 < nl then [head_bytes 3 (word_of_nat 4) @ lit ''name'', head_bytes 3 (word_of_nat nl) @ ?nm] else []) else []"
  let ?n = "if 1 < w then [head_bytes 0 6, head_bytes 0 w] else []"
  have t: "appends (cbor_encode_text_string (lit ''id'')) (head_bytes 3 (word_of_nat 2) @ lit ''id'')"
    "appends (cbor_encode_text_string (lit ''type'')) (head_bytes 3 (word_of_nat 4) @ lit ''type'')"
    "appends (cbor_encode_text_string (lit ''public-key'')) (head_bytes 3 (word_of_nat 10) @ lit ''public-key'')"
    "appends (cbor_encode_text_string (lit ''name'')) (head_bytes 3 (word_of_nat 4) @ lit ''name'')"
    using appends_text [of "lit ''id''"] appends_text [of "lit ''type''"] appends_text [of "lit ''public-key''"]
      appends_text [of "lit ''name''"] by (simp_all add: lit_no_nul)
  have items: "assertion_items fm rk a der w =
      [cbor_encode_map map_n,
         cbor_encode_uint 1, cbor_encode_map 2,
         cbor_encode_text_string (lit ''id''), cbor_encode_byte_string (bytes fm (rk + 101) 32) 32,
         cbor_encode_text_string (lit ''type''), cbor_encode_text_string (lit ''public-key''),
         cbor_encode_uint 2, cbor_encode_byte_string a 37,
         cbor_encode_uint 3, cbor_encode_byte_string der (length der)] @
      (if 0 < ul then [cbor_encode_uint 4, cbor_encode_map (if 0 < nl then 2 else 1),
          cbor_encode_text_string (lit ''id''), cbor_encode_byte_string ?id ul] @
          (if 0 < nl then [cbor_encode_text_string (lit ''name''), cbor_encode_text_string_len ?nm nl] else [])
       else []) @
      (if 1 < w then [cbor_encode_uint 6, cbor_encode_uint w] else [])"
    by (simp only: assertion_items_def Let_def ul_def [symmetric] nl_def [symmetric] map_n_def)
  have h: "list_all2 appends
      [cbor_encode_map map_n,
         cbor_encode_uint 1, cbor_encode_map 2,
         cbor_encode_text_string (lit ''id''), cbor_encode_byte_string (bytes fm (rk + 101) 32) 32,
         cbor_encode_text_string (lit ''type''), cbor_encode_text_string (lit ''public-key''),
         cbor_encode_uint 2, cbor_encode_byte_string a 37,
         cbor_encode_uint 3, cbor_encode_byte_string der (length der)] ?h"
    by (intro list_all2_Cons[THEN iffD2] conjI list_all2_Nil[THEN iffD2] TrueI appends_map appends_uint
        appends_bytes t) (simp_all add: assms(1))
  have u: "list_all2 appends (if 0 < ul then [cbor_encode_uint 4, cbor_encode_map (if 0 < nl then 2 else 1),
          cbor_encode_text_string (lit ''id''), cbor_encode_byte_string ?id ul] @
          (if 0 < nl then [cbor_encode_text_string (lit ''name''), cbor_encode_text_string_len ?nm nl] else [])
       else []) ?u"
    by (cases "0 < ul"; cases "0 < nl"; simp only: if_True if_False append_Cons append_Nil simp_thms;
        intro list_all2_Cons[THEN iffD2] conjI list_all2_Nil[THEN iffD2] TrueI appends_map appends_uint
        appends_bytes appends_text_len t; simp)
  have n: "list_all2 appends (if 1 < w then [cbor_encode_uint 6, cbor_encode_uint w] else []) ?n"
    by (simp add: appends_uint)
  have all: "list_all2 appends (assertion_items fm rk a der w) (?h @ ?u @ ?n)"
    unfolding items by (intro list_all2_appendI h u n)
  have hb: "length (head_bytes M v) \<le> 5" for M v by (simp add: length_head_bytes)
  have "length (concat ?h) \<le> 250"
    using assms(1,2) hb [of 5 "word_of_nat map_n"] hb [of 2 "word_of_nat (length der)"] hb [of 0 1] hb [of 5 2]
      hb [of 3 2] hb [of 2 32] hb [of 3 4] hb [of 3 10] hb [of 0 2] hb [of 2 37] hb [of 0 3]
    by simp
  moreover have "length (concat ?u) \<le> 200"
    using ulen hb [of 2 "word_of_nat ul"] hb [of 3 "word_of_nat nl"] hb [of 0 4] hb [of 5 2] hb [of 5 1] hb [of 3 2] hb [of 3 4]
    by (cases "0 < ul"; cases "0 < nl") simp_all
  moreover have "length (concat ?n) \<le> 20" using hb [of 0 w] hb [of 0 6] by simp
  ultimately have "length (concat (?h @ ?u @ ?n)) \<le> 1023" by (simp only: concat_append length_append)
  from resp_enc [OF all this] have r: "resp_ok (assertion_items fm rk a der w) = 0x00 # concat (?h @ ?u @ ?n)" .
  have w: "1 < w \<longleftrightarrow> 1 < unat w" by (simp add: word_less_nat_alt)
  have id: "take ul (rk_user_id (read_rk fm rk)) = ?id" "take nl (rk_user_name (read_rk fm rk)) = ?nm"
    using ulen by (simp_all add: read_rk_def take_bytes)
  have f: "rk_user_id_len (read_rk fm rk) = ul" "rk_user_name_len (read_rk fm rk) = nl"
    "rk_credential_id (read_rk fm rk) = bytes fm (rk + 101) 32"
    by (simp_all add: read_rk_def ul_def nl_def)
  have "concat (?h @ ?u @ ?n) = enc (ga_response (read_rk fm rk) a der (unat w))"
    using assms(1) unfolding ga_response_def f id w map_n_def
    by (cases "0 < ul"; cases "0 < nl"; cases "1 < unat w") (simp_all add: head_nat_def)
  then show ?thesis using r by simp
qed

definition signed_cdh :: "mem \<Rightarrow> (nat \<times> nat) option \<Rightarrow> u8 list" where
  "signed_cdh m cdh = (case cdh of
     Some (c, n) \<Rightarrow> if n = 32 then bytes m c 32 else replicate 32 0 | None \<Rightarrow> replicate 32 0)"

lemma length_signed_cdh [simp]: "length (signed_cdh m cdh) = 32"
  by (simp add: signed_cdh_def split: option.splits)

lemma length_auth37: "length h = 32 \<Longrightarrow> length (auth_data37 h f) = 37"
  by (simp add: auth_data37_def)

lemma read_key:
  "rk \<in> set slot_addrs \<Longrightarrow> is_key m rk \<Longrightarrow> read_rk m rk \<in> set (creds m)"
  by (auto simp: creds_def)

text \<open>The sizes \<open>passkey_save\<close> keeps to.\<close>

definition sizes_ok :: "mem \<Rightarrow> bool" where
  "sizes_ok m \<longleftrightarrow> (\<forall>k \<in> set (creds m). rk_user_id_len k \<le> 64 \<and> rk_user_name_len k \<le> 32)"

lemma build_effect:
  assumes "ga_build_response e rk a c w d = (r, d')" "ecc_sizes e" "length a = 37" "length c = 32"
    and "read_rk (fmem (chip d)) rk \<in> set (creds (fmem (chip d)))" "sizes_ok (fmem (chip d))"
  obtains "r = 0x00 # enc (ga_response (read_rk (fmem (chip d)) rk) a
      (ecdsa_sig_to_der (fst (uECC_sign e (rk_private_key (read_rk (fmem (chip d)) rk)) (sha256_of (a @ c))
        (fido2_send_keepalive e (g_current_cid d) 1 d)))) (unat w))"
    "core d' = core d"
proof -
  let ?ds = "fido2_send_keepalive e (g_current_cid d) 1 d" and ?k = "read_rk (fmem (chip d)) rk"
  obtain sig d2 where s: "uECC_sign e (rk_private_key ?k) (sha256_of (a @ c)) ?ds = (sig, d2)" by fastforce
  have d2: "core d2 = core d"
    using core_sign [of e "rk_private_key ?k" "sha256_of (a @ c)" ?ds] by (simp add: s frame_simps)
  have h: "sha256_final (sha256_update (sha256_update (sha256_init uninit_ctx) a 37) c 32) = sha256_of (a @ c)"
    using sha256_parts(2) [of a c] assms(3,4) by simp
  have pk: "bytes (fmem (chip d)) (rk + 133) 32 = rk_private_key ?k" by (simp add: read_rk_def)
  let ?d3 = "fido2_send_keepalive e (g_current_cid d2) 1 d2"
  have run: "ga_build_response e rk a c w d =
      (resp_ok (assertion_items (fmem (chip ?d3)) rk a (ecdsa_sig_to_der sig) w), ?d3)"
    unfolding ga_build_response_def Let_def h pk s prod.case ..
  have ch: "chip ?d3 = chip d" using core_fields [OF d2] by simp
  have "length sig = 64" using sign_size [OF assms(2), of "rk_private_key ?k" "sha256_of (a @ c)" ?ds] by (simp add: s)
  then have der: "length (ecdsa_sig_to_der sig) \<le> 72" by (rule der_lemma(2))
  have ul: "unat (fmem (chip d) (rk + 36)) \<le> 64" "unat (fmem (chip d) (rk + 165)) \<le> 32"
    using assms(5,6) by (auto simp: sizes_ok_def read_rk_def)
  from ga_items [OF assms(3) der ul, of w] have "r = 0x00 # enc (ga_response ?k a (ecdsa_sig_to_der sig) (unat w))"
    using assms(1) by (simp only: run ch prod.inject)
  moreover have "d' = ?d3" using assms(1) by (simp only: run prod.inject)
  ultimately show thesis using s d2 by (intro that) (simp_all add: frame_simps)
qed

lemma uv_valid_ga [simp]:
  "uv_valid (d\<lparr>g_ga_rp_hash := l, g_ga_count := c, g_ga_idx := i, g_ga_cdh := g\<rparr>) = uv_valid d"
  "uv_valid (d\<lparr>g_ga_count := c\<rparr>) = uv_valid d"
  by (intro ext, simp add: uv_valid_def split: option.split)+

lemma select_effect:
  assumes "ga_select m n h cdh al d = (Some (rk, w), d1)" "length h = 32"
  shows "rk \<in> set slot_addrs" "is_key (fmem (chip d)) rk" "bytes (fmem (chip d)) (rk + 4) 32 = h"
    "chip d1 = chip d" "uv_valid d1 = uv_valid d" "adc_no d1 = adc_no d" "touch_adc_init_done d1 = touch_adc_init_done d"
proof -
  have idx: "rp_index_loop fm x t as c = Some a \<Longrightarrow> a \<in> set as \<and> is_key fm a \<and> bytes fm (a + 4) 32 = take 32 x"
    for fm x t as c a
    by (induction as arbitrary: c) (auto split: if_splits)
  from assms(1) consider
      "passkey_get_by_rp_index h 0 (chip d) = Some rk"
      "\<exists>c i l g. d1 = d\<lparr>g_ga_rp_hash := l, g_ga_count := c, g_ga_idx := i, g_ga_cdh := g\<rparr>"
    | "ga_allowed m n (chip d) h = Some rk" "d1 = d\<lparr>g_ga_count := 0\<rparr>"
    by (auto simp: ga_select_def Let_def split: if_splits option.splits)
  then have "rk \<in> set slot_addrs \<and> is_key (fmem (chip d)) rk \<and> bytes (fmem (chip d)) (rk + 4) 32 = h \<and>
      chip d1 = chip d \<and> uv_valid d1 = uv_valid d \<and> adc_no d1 = adc_no d \<and> touch_adc_init_done d1 = touch_adc_init_done d"
  proof cases
    case 1
    then show ?thesis using idx [of "fmem (chip d)" h 0 slot_addrs 0 rk] assms(2)
      by (auto simp: passkey_get_by_rp_index_def)
  next
    case 2
    then show ?thesis by (auto simp: ga_allowed_def find_Some_iff)
  qed
  then show "rk \<in> set slot_addrs" "is_key (fmem (chip d)) rk" "bytes (fmem (chip d)) (rk + 4) 32 = h"
    "chip d1 = chip d" "uv_valid d1 = uv_valid d" "adc_no d1 = adc_no d" "touch_adc_init_done d1 = touch_adc_init_done d"
    by simp_all
qed

lemma length_rp_hash [simp]: "length (rp_id_hash_of m rp) = 32"
  by (simp add: rp_id_hash_of_def split: option.splits prod.splits)

lemma precheck_flags:
  "mc_precheck m n d cdh pa om = Inr flags \<Longrightarrow>
    flags = 0x45 \<and> (\<exists>a l. pa = Some (a, l) \<and> uv_valid d m cdh a l) \<or> flags = 0x41 \<and> pa = None"
  by (cases pa) (auto simp: mc_precheck_def split: option.splits if_splits)

lemma flag_bits: "(0x01 :: u8) AND NOT 0x01 = 0" "(0x05 :: u8) AND NOT 0x01 = 0x04"
  by simp_all

lemma presence_run:
  assumes "user_presence e cid k d = (r, d')" "length r \<noteq> 1"
  obtains d1 where "fido2_wait_for_user_presence e cid d = (0x00, d1)" "k d1 = (r, d')"
  using assms by (cases "fido2_wait_for_user_presence e cid d") (auto simp: user_presence_def split: if_splits)

lemma user_touched_ga:
  "adc_no d1 = adc_no d \<Longrightarrow> touch_adc_init_done d1 = touch_adc_init_done d \<Longrightarrow> user_touched e d1 = user_touched e d"
  by (simp add: user_touched_def calibration_def)

lemma selected_allowed:
  assumes "ga_select m n h cdh (Some (a, l, t)) d = (Some (rk, w), d1)" "\<not> (t = 0x80 \<and> l = 0)"
  shows "\<exists>j. j + 32 \<le> n \<and> bytes m j 32 = rk_credential_id (read_rk (fmem (chip d)) rk)"
proof -
  obtain j where "j < n - 31" "bytes m j 32 = rk_credential_id (read_rk (fmem (chip d)) rk)"
    using assms by (auto simp: ga_select_def ga_allowed_def find_Some_iff list_ex_iff read_rk_def)
  then show ?thesis by (intro exI [of _ j]) auto
qed

end
