(* ===== verification/Fido2Guard.thy ===== *)
theory Fido2Guard
  imports Fido2Props
begin

text \<open>
  Which command may change what in flash, and on which evidence; the invariant of the credential store
  that follows; and what a factory reset leaves behind.
\<close>

section \<open>The effect of a request on the flash\<close>

text \<open>The ways a CBOR request can change the chip: \<open>m\<close> is the request, \<open>n\<close> its length.\<close>

definition saves_key :: "hw \<Rightarrow> hw \<Rightarrow> bool" where
  "saves_key s s' \<longleftrightarrow> (\<exists>h rp uid nm c pk. length h = 32 \<and> length c = 32 \<and> length pk = 32 \<and>
     s' = snd (passkey_save h rp (length rp) uid (length uid) nm (length nm) c pk s))"

definition deletes_key :: "hw \<Rightarrow> hw \<Rightarrow> bool" where
  "deletes_key s s' \<longleftrightarrow> (\<exists>c. length c = 32 \<and> s' = snd (passkey_delete_by_cred_id c s))"

definition writes_pin :: "hw \<Rightarrow> hw \<Rightarrow> bool" where
  "writes_pin s s' \<longleftrightarrow> s' = pin_decrement_retries s \<or> s' = pin_reset_retries s \<or>
     (\<exists>h. length h = 32 \<and> s' = pin_save h s)"

lemma core_chip: "core d' = core d \<Longrightarrow> chip d' = chip d"
  using core_fields by blast

lemmas wait_chip [simp] = presence_chip_eq

lemma create_chip:
  assumes "ecc_sizes e" "length h = 32"
  shows "saves_key (chip d) (chip (snd (mc_create e m cid cdh f h rp uid nm d)))"
proof -
  let ?dk = "fido2_send_keepalive e cid 1 d"
  obtain pub priv d2 where k: "uECC_make_key e ?dk = (pub, priv, d2)" by (metis prod_cases3)
  let ?d3 = "fido2_send_keepalive e cid 1 d2"
  obtain c d4 where c: "rng e 32 ?d3 = (c, d4)" by fastforce
  let ?rp = "str_bytes m rp" and ?u = "str_bytes m uid" and ?n = "str_bytes m nm"
  obtain saved hw where sv: "passkey_save h ?rp (length ?rp) ?u (length ?u) ?n (length ?n) c priv (chip d4) = (saved, hw)"
    by fastforce
  have "core d2 = core d" using core_make_key [of e ?dk] by (simp add: k frame_simps)
  moreover have "core d4 = core ?d3" using core_rng [of e 32 ?d3] by (simp add: c)
  ultimately have "core d4 = core d" by (simp add: frame_simps)
  then have ch: "chip d4 = chip d" using core_fields by blast
  have l: "length priv = 32" "length c = 32"
    using make_key_sizes [OF assms(1), of ?dk] length_rng [of e 32 ?d3] by (simp_all add: k c)
  have at: "chip (snd (mc_attest e m cid cdh a k x)) = chip x" for a k x
  proof -
    have "core (snd (mc_attest e m cid cdh a k x)) = core x"
      by (simp add: mc_attest_def Let_def split_beta core_sign frame_simps)
    then show ?thesis using core_fields by blast
  qed
  have "chip (snd (mc_create e m cid cdh f h rp uid nm d)) = hw"
    by (simp add: mc_create_def Let_def k c sv at)
  moreover have "hw = snd (passkey_save h ?rp (length ?rp) ?u (length ?u) ?n (length ?n) c priv (chip d))"
    using sv ch by simp
  ultimately show ?thesis unfolding saves_key_def using assms(2) l by blast
qed

lemma make_chip:
  assumes "cmd_make_credential e n cid d = Some (r, d')" "ecc_sizes e"
  shows "kept (chip d) (chip d') \<or> user_touched e d \<and> saves_key ((chip d)\<lparr>irq_on := True\<rparr>) (chip d')"
  using assms(1)
proof (rule make_cases)
  fix d1 cdh flags rp uid nm
  assume w: "fido2_wait_for_user_presence e cid d = (0x00, d1)"
    and run: "(r, d') = mc_create e (req_mem e d) cid cdh flags (rp_id_hash_of (req_mem e d) rp) rp uid nm d1"
  have "chip d1 = (chip d)\<lparr>irq_on := True\<rparr>" using wait_chip [of e cid d] unfolding w by simp
  moreover have "d' = snd (mc_create e (req_mem e d) cid cdh flags (rp_id_hash_of (req_mem e d) rp) rp uid nm d1)"
    using run by (metis snd_conv)
  ultimately show ?thesis
    using create_chip [OF assms(2) length_rp_hash] granted_touched [OF w] by metis
qed simp

lemma core_build: "core (snd (ga_build_response e rk a c w d)) = core d"
  by (simp add: ga_build_response_def Let_def split_beta core_sign frame_simps)

lemma presence_chip:
  assumes "\<And>d. chip (snd (k d)) = chip d"
  shows "kept (chip d) (chip (snd (user_presence e cid k d)))"
  using assms by (simp add: user_presence_def split_beta)

lemma build_chip [simp]: "chip (snd (ga_build_response e rk a c w d)) = chip d"
  "chip (snd (ga_finish e m h f cdh rk w d)) = chip d"
  using core_chip [OF core_build] by (simp_all add: ga_finish_def)

lemma assertion_chip:
  assumes "cmd_get_assertion e n cid d = Some (r, d')"
  shows "kept (chip d) (chip d')"
  using assms
proof (rule assertion_cases)
  fix d1 and rp :: "(nat \<times> nat \<times> u8) option" and cdh al rk w pa flags om
  let ?h = "rp_id_hash_of (req_mem e d) (map_option (\<lambda>(p, n, _). (p, n)) rp)"
  assume sel: "ga_select (req_mem e d) n ?h cdh al d = (Some (rk, w), d1)"
    and run: "(ga_options (req_mem e d) n d1 om pa = Inr True \<and>
      (r, d') = user_presence e cid (ga_finish e (req_mem e d) ?h flags cdh rk w) d1) \<or>
    (ga_options (req_mem e d) n d1 om pa = Inr False \<and>
      (r, d') = ga_finish e (req_mem e d) ?h (flags AND NOT 0x01) cdh rk w d1)"
  have "chip d1 = chip d" using select_chip [of "req_mem e d" n ?h cdh al d] by (simp add: sel)
  moreover have "d' = snd (user_presence e cid (ga_finish e (req_mem e d) ?h flags cdh rk w) d1) \<or>
      d' = snd (ga_finish e (req_mem e d) ?h (flags AND NOT 0x01) cdh rk w d1)"
    using run by (metis snd_conv)
  moreover have "kept (chip d1) (chip (snd (user_presence e cid (ga_finish e (req_mem e d) ?h flags cdh rk w) d1)))"
    by (rule presence_chip) simp
  ultimately show "kept (chip d) (chip d')" by auto
qed simp

lemma next_chip: "kept (chip d) (chip (snd (cmd_get_next_assertion e cid d)))"
  using presence_chip [where e = e and cid = cid and d = "d\<lparr>g_ga_idx := g_ga_idx d + 1\<rparr>"]
  by (simp add: cmd_get_next_assertion_def Let_def split: option.splits)

lemma debug_chip: "kept (chip d) (chip (snd (cmd_touch_debug e d)))"
  using core_chip [OF core_touch_debug(1) [of e d]] core_chip [OF core_touch_debug(2) [of e "init_touch_adc e d"]]
  by (simp add: cmd_touch_debug_def Let_def split_beta)

lemma creds_chip: "cm_enumerate_creds e m n b d = Some (r, d') \<Longrightarrow> chip d' = chip d"
  by (auto simp: cm_enumerate_creds_def Let_def bind_eq_Some_conv split: option.splits if_splits)

lemma rps_chip: "chip (snd (cm_enumerate_rps b d)) = chip d"
  by (simp add: cm_enumerate_rps_def Let_def split: option.splits)

text \<open>The request names the sub-command deleteCredential.\<close>

definition delete_command :: "env \<Rightarrow> mem \<Rightarrow> nat \<Rightarrow> bool" where
  "delete_command e m n \<longleftrightarrow>
    (\<exists>v. get_cbor_map_int (stk e) m 1 (n - 1) 0x01 = Some (Some v) \<and> (word_of_nat v :: u8) = 0x06)"

lemma cred_mgmt_chip:
  assumes "cmd_cred_mgmt e n d = Some (r, d')"
  shows "chip d' = chip d \<or>
    delete_command e (req_mem e d) n \<and> cm_auth_ok e (req_mem e d) n 0x06 d = Some True \<and> deletes_key (chip d) (chip d')"
  using assms
proof (rule cred_mgmt_cases)
  fix sub b
  assume "(r, d') = cm_enumerate_rps b d"
  then show ?thesis using rps_chip [of b d] by (metis snd_conv)
next
  fix v
  assume c: "get_cbor_map_int (stk e) (req_mem e d) 1 (n - 1) 0x01 = Some (Some v)" "(word_of_nat v :: u8) = 0x06"
    and a: "cm_auth_ok e (req_mem e d) n 0x06 d = Some True" "cm_delete e (req_mem e d) n d = Some (r, d')"
  have "chip d' = chip d \<or> deletes_key (chip d) (chip d')"
    using cm_delete_cases [OF a(2)]
  proof (elim disjE exE)
    fix t
    assume "let (found, h) = passkey_delete_by_cred_id (bytes (req_mem e d) t 32) (chip d)
      in r = [if found then 0x00 else 0x2E] \<and> d' = d\<lparr>chip := h\<rparr>"
    then have "chip d' = snd (passkey_delete_by_cred_id (bytes (req_mem e d) t 32) (chip d))"
      by (simp add: Let_def split_beta)
    then show ?thesis unfolding deletes_key_def by (intro disjI2 exI [of _ "bytes (req_mem e d) t 32"]) simp
  qed simp
  then show ?thesis using a(1) c unfolding delete_command_def by blast
qed (auto simp: creds_chip)

lemma pin_chip:
  assumes "process_client_pin e m req n cid d = Some (r, d')"
  shows "chip d' = chip d \<or> writes_pin (chip d) (chip d')"
  using client_pin_effect [OF assms] unfolding pin_step_def writes_pin_def by blast

lemma reset_irq [simp]: "flash_factory_reset (s\<lparr>irq_on := b\<rparr>) = flash_factory_reset s"
  by (simp add: flash_factory_reset_def flash_unlock_def)

lemma reset_chip:
  "kept (chip d) (chip (snd (cmd_reset e cid d))) \<or>
   user_touched e d \<and> chip (snd (cmd_reset e cid d)) = flash_factory_reset (chip d)"
proof -
  let ?d = "d\<lparr>tick_no := tick_no d + 1\<rparr>"
  obtain st d1 where w: "fido2_wait_for_user_presence e cid ?d = (st, d1)" by fastforce
  have ch: "chip d1 = (chip d)\<lparr>irq_on := True\<rparr>" using wait_chip [of e cid ?d] unfolding w by simp
  have t: "user_touched e ?d = user_touched e d" by (rule user_touched_ga) simp_all
  show ?thesis
  proof (cases "st = 0x00")
    case True
    then have "user_touched e d" using granted_touched [of e cid ?d d1] w t by simp
    then show ?thesis using True ch w by (auto simp: cmd_reset_def Let_def user_presence_def)
  next
    case False
    then show ?thesis using ch w by (auto simp: cmd_reset_def Let_def user_presence_def)
  qed
qed

text \<open>All commands together.\<close>

definition may_change :: "env \<Rightarrow> nat \<Rightarrow> dev \<Rightarrow> hw \<Rightarrow> bool" where
  "may_change e n d s' \<longleftrightarrow> (let m = req_mem e d; s = chip d in
     m 0 = 0x01 \<and> user_touched e d \<and> saves_key (s\<lparr>irq_on := True\<rparr>) s' \<or>
     m 0 = 0x06 \<and> writes_pin s s' \<or>
     m 0 = 0x0A \<and> delete_command e m n \<and> cm_auth_ok e m n 0x06 d = Some True \<and> deletes_key s s' \<or>
     m 0 = 0x07 \<and> user_touched e d \<and> s' = flash_factory_reset s)"

lemma cm_auth_cong:
  assumes "chip d1 = chip d" "active_pin_protocol d1 = active_pin_protocol d" "has_pin_token d1 = has_pin_token d"
    "pin_token d1 = pin_token d" "pin_token_len d1 = pin_token_len d"
  shows "cm_auth_ok e m n sub d1 = cm_auth_ok e m n sub d"
  by (simp only: cm_auth_ok_def assms)

lemma cid_irrelevant [simp]:
  "req_mem e (d\<lparr>g_current_cid := c\<rparr>) = req_mem e d"
  "user_touched e (d\<lparr>g_current_cid := c\<rparr>) = user_touched e d"
  "cm_auth_ok e m n sub (d\<lparr>g_current_cid := c\<rparr>) = cm_auth_ok e m n sub d"
  by (simp add: req_mem_def, rule user_touched_ga, simp, simp, rule cm_auth_cong, simp_all)

lemma process_chip:
  assumes "fido2_process_cbor e n cid d = Some (r, d')" "ecc_sizes e"
  shows "kept (chip d) (chip d') \<or> may_change e n d (chip d')"
proof -
  let ?d = "d\<lparr>g_current_cid := cid\<rparr>"
  have "kept (chip d) (chip d') \<or>
      req_mem e d 0 = 0x01 \<and> cmd_make_credential e n cid ?d = Some (r, d') \<or>
      cmd_get_assertion e n cid ?d = Some (r, d') \<or> d' = snd (cmd_get_next_assertion e cid ?d) \<or>
      req_mem e d 0 = 0x06 \<and> process_client_pin e (req_mem e d) 1 (n - 1) cid ?d = Some (r, d') \<or>
      req_mem e d 0 = 0x0A \<and> cmd_cred_mgmt e n ?d = Some (r, d') \<or>
      req_mem e d 0 = 0x07 \<and> d' = snd (cmd_reset e cid ?d) \<or> d' = snd (cmd_touch_debug e ?d)"
    using assms(1) by (auto simp: fido2_process_cbor_def Let_def split: if_splits)
  then show ?thesis
  proof (elim disjE conjE)
    assume "req_mem e d 0 = 0x01" "cmd_make_credential e n cid ?d = Some (r, d')"
    then show ?thesis using make_chip [OF _ assms(2), of n cid ?d r d'] by (auto simp: may_change_def Let_def)
  next
    assume "req_mem e d 0 = 0x06" "process_client_pin e (req_mem e d) 1 (n - 1) cid ?d = Some (r, d')"
    then show ?thesis using pin_chip [of e "req_mem e d" 1 "n - 1" cid ?d r d'] by (auto simp: may_change_def Let_def)
  next
    assume "req_mem e d 0 = 0x0A" "cmd_cred_mgmt e n ?d = Some (r, d')"
    then show ?thesis using cred_mgmt_chip [of e n ?d r d'] by (auto simp: may_change_def Let_def)
  next
    assume "req_mem e d 0 = 0x07" "d' = snd (cmd_reset e cid ?d)"
    then show ?thesis using reset_chip [where e = e and cid = cid and d = ?d] by (auto simp: may_change_def Let_def)
  qed (use assertion_chip [of e n cid ?d r d'] next_chip [where e = e and cid = cid and d = ?d] debug_chip [where e = e and d = ?d] in auto)
qed

section \<open>Interrupts\<close>

text \<open>Every command but a successful Reset leaves interrupts on.\<close>

lemma save_irq: "irq_on s \<Longrightarrow> irq_on (snd (passkey_save h rp rl u ul nm nl c k s))"
  by (simp add: passkey_save_def passkey_save_rk_def Let_def flash_lock_def split: option.split)

lemma deletes_irq: "irq_on s \<Longrightarrow> deletes_key s s' \<Longrightarrow> irq_on s'"
  by (auto simp: deletes_key_def passkey_delete_by_cred_id_def flash_lock_def split: option.split)

lemma writes_irq: "irq_on s \<Longrightarrow> writes_pin s s' \<Longrightarrow> irq_on s'"
  by (auto simp: writes_pin_def pin_decrement_retries_def pin_reset_retries_def pin_save_def pin_write_retries_def
      Let_def flash_lock_def split: option.splits)

lemma kept_irq: "irq_on s \<Longrightarrow> kept s s' \<Longrightarrow> irq_on s'"
  by (auto simp: kept_def)

lemma create_irq:
  assumes "irq_on (chip d)"
  shows "irq_on (chip (snd (mc_create e m cid cdh f h rp uid nm d)))"
proof -
  let ?dk = "fido2_send_keepalive e cid 1 d"
  obtain pub priv d2 where k: "uECC_make_key e ?dk = (pub, priv, d2)" by (metis prod_cases3)
  let ?d3 = "fido2_send_keepalive e cid 1 d2"
  obtain c d4 where c: "rng e 32 ?d3 = (c, d4)" by fastforce
  have "core d2 = core d" using core_make_key [of e ?dk] by (simp add: k frame_simps)
  moreover have "core d4 = core ?d3" using core_rng [of e 32 ?d3] by (simp add: c)
  ultimately have "core d4 = core d" by (simp add: frame_simps)
  then have ch: "chip d4 = chip d" by (rule core_chip)
  have at: "chip (snd (mc_attest e m cid cdh a k x)) = chip x" for a k x
    by (rule core_chip) (simp add: mc_attest_def Let_def split_beta core_sign frame_simps)
  show ?thesis
    using save_irq [OF assms, folded ch] by (simp add: mc_create_def Let_def k c at split_beta)
qed

lemma make_irq:
  assumes "cmd_make_credential e n cid d = Some (r, d')" "irq_on (chip d)"
  shows "irq_on (chip d')"
  using assms(1)
proof (rule make_cases)
  fix d1 cdh flags rp uid nm
  assume w: "fido2_wait_for_user_presence e cid d = (0x00, d1)"
    and run: "(r, d') = mc_create e (req_mem e d) cid cdh flags (rp_id_hash_of (req_mem e d) rp) rp uid nm d1"
  have "irq_on (chip d1)" using wait_chip [of e cid d] by (simp add: w)
  then show "irq_on (chip d')" using create_irq run by (metis snd_conv)
qed (rule kept_irq [OF assms(2)])

lemma process_irq:
  assumes "fido2_process_cbor e n cid d = Some (r, d')" "irq_on (chip d)"
  shows "irq_on (chip d') \<or> req_mem e d 0 = 0x07 \<and> r = [0x00]"
proof -
  let ?d = "d\<lparr>g_current_cid := cid\<rparr>"
  have on: "irq_on (chip ?d)" using assms(2) by simp
  have reset: "irq_on (chip (snd (cmd_reset e cid ?d))) \<or> fst (cmd_reset e cid ?d) = [0x00]"
    using assms(2) by (simp add: cmd_reset_def Let_def user_presence_def split_beta)
  have "kept (chip d) (chip d') \<or> cmd_make_credential e n cid ?d = Some (r, d') \<or>
      cmd_get_assertion e n cid ?d = Some (r, d') \<or> d' = snd (cmd_get_next_assertion e cid ?d) \<or>
      process_client_pin e (req_mem e d) 1 (n - 1) cid ?d = Some (r, d') \<or> cmd_cred_mgmt e n ?d = Some (r, d') \<or>
      req_mem e d 0 = 0x07 \<and> (r, d') = cmd_reset e cid ?d \<or> d' = snd (cmd_touch_debug e ?d)"
    using assms(1) by (auto simp: fido2_process_cbor_def Let_def split: if_splits)
  then show ?thesis
  proof (elim disjE)
    assume "kept (chip d) (chip d')"
    then show ?thesis using kept_irq [OF assms(2)] by blast
  next
    assume "cmd_make_credential e n cid ?d = Some (r, d')"
    then show ?thesis using make_irq on by blast
  next
    assume "cmd_get_assertion e n cid ?d = Some (r, d')"
    then show ?thesis using kept_irq [OF on] assertion_chip by blast
  next
    assume "d' = snd (cmd_get_next_assertion e cid ?d)"
    then show ?thesis using kept_irq [OF on] next_chip by blast
  next
    assume "process_client_pin e (req_mem e d) 1 (n - 1) cid ?d = Some (r, d')"
    from pin_chip [OF this] show ?thesis using writes_irq [OF on] on by auto
  next
    assume "cmd_cred_mgmt e n ?d = Some (r, d')"
    from cred_mgmt_chip [OF this] show ?thesis using deletes_irq [OF on] on by auto
  next
    assume "req_mem e d 0 = 0x07 \<and> (r, d') = cmd_reset e cid ?d"
    then show ?thesis using reset by (metis fst_conv snd_conv)
  next
    assume "d' = snd (cmd_touch_debug e ?d)"
    then show ?thesis using kept_irq [OF on] debug_chip by blast
  qed
qed

section \<open>The flash invariant\<close>

text \<open>What the firmware keeps of its flash pages: every slot erased or a well-formed record, and at most
  eight PIN retries.\<close>

definition hw_ok :: "hw \<Rightarrow> bool" where
  "hw_ok s \<longleftrightarrow> store_ok (fmem s) \<and> sizes_ok (fmem s) \<and> (\<forall>p. pin_load s = Some p \<longrightarrow> ps_retries p \<le> 8)"

lemma sizes_slots: "sizes_ok m \<longleftrightarrow> (\<forall>k. Some k \<in> set (slots m) \<longrightarrow> rk_user_id_len k \<le> 64 \<and> rk_user_name_len k \<le> 32)"
  by (auto simp: sizes_ok_def present_slots [symmetric] set_present)

lemma new_rk_sizes: "rk_user_id_len (new_rk h rp rl uid ul nm nl c pk) \<le> 64" "rk_user_name_len (new_rk h rp rl uid ul nm nl c pk) \<le> 32"
  by (simp_all add: new_rk_def Let_def)

lemma hw_ok_update:
  assumes "hw_ok s" "slots (fmem s') = (slots (fmem s))[i := x]" "store_ok (fmem s')" "pin_load s' = pin_load s"
    and "\<And>k. x = Some k \<Longrightarrow> rk_user_id_len k \<le> 64 \<and> rk_user_name_len k \<le> 32"
  shows "hw_ok s'"
  using assms set_update_subset_insert [of "slots (fmem s)" i x] unfolding hw_ok_def sizes_slots by auto

lemma saves_ok:
  assumes "hw_ok s" "saves_key s s'"
  shows "hw_ok s'"
proof -
  obtain h rp uid nm c pk where l: "length h = 32" "length c = 32" "length pk = 32"
    and s': "s' = snd (passkey_save h rp (length rp) uid (length uid) nm (length nm) c pk s)"
    using assms(2) unfolding saves_key_def by blast
  have so: "store_ok (fmem s)" using assms(1) by (simp add: hw_ok_def)
  have "case spec_slot (same_account h uid (length uid)) (slots (fmem s)) of
      None \<Rightarrow> passkey_save h rp (length rp) uid (length uid) nm (length nm) c pk s = (False, s)
    | Some i \<Rightarrow> (let (r, s') = passkey_save h rp (length rp) uid (length uid) nm (length nm) c pk s in
        r \<and> slots (fmem s') = (slots (fmem s))[i := Some (new_rk h rp (length rp) uid (length uid) nm (length nm) c pk)] \<and>
        store_ok (fmem s') \<and> pin_load s' = pin_load s \<and> flash_locked s' \<and> irq_on s')"
    using so l by (intro save_refines) simp_all
  then have "s' = s \<or> (\<exists>i. slots (fmem s') = (slots (fmem s))[i := Some (new_rk h rp (length rp) uid (length uid) nm (length nm) c pk)] \<and>
      store_ok (fmem s') \<and> pin_load s' = pin_load s)"
    unfolding s' by (auto simp: Let_def split_beta split: option.splits)
  then show ?thesis using assms(1) hw_ok_update new_rk_sizes by (metis option.inject)
qed

lemma deletes_ok:
  assumes "hw_ok s" "deletes_key s s'"
  shows "hw_ok s'"
proof -
  obtain c where c: "length c = 32" "s' = snd (passkey_delete_by_cred_id c s)"
    using assms(2) unfolding deletes_key_def by blast
  have so: "store_ok (fmem s)" using assms(1) by (simp add: hw_ok_def)
  have "s' = s \<or> (\<exists>i. slots (fmem s') = (slots (fmem s))[i := None] \<and> store_ok (fmem s') \<and> pin_load s' = pin_load s)"
    using delete_refines [OF so c(1)] unfolding c(2) by (auto simp: Let_def split_beta split: option.splits)
  then show ?thesis using assms(1) hw_ok_update by (metis option.distinct(1))
qed

lemma pin_store_ok: "16 \<le> length h \<Longrightarrow> store_ok (fmem (pin_save h s)) = store_ok (fmem s)"
  "store_ok (fmem (pin_decrement_retries s)) = store_ok (fmem s)"
  "store_ok (fmem (pin_reset_retries s)) = store_ok (fmem s)"
proof -
  show "16 \<le> length h \<Longrightarrow> store_ok (fmem (pin_save h s)) = store_ok (fmem s)" by (rule pin_save_effect(3))
  have w: "store_ok (fmem (pin_write_retries r s)) = store_ok (fmem s)" if "pin_load s = Some p" "r < 256" for p r
    by (rule pin_write_retries_effect(3) [OF that])
  show "store_ok (fmem (pin_decrement_retries s)) = store_ok (fmem s)"
    using w pin_load_retries_lt [of s]
    by (auto simp: pin_decrement_retries_def Let_def split: option.splits)
  show "store_ok (fmem (pin_reset_retries s)) = store_ok (fmem s)"
    using w by (auto simp: pin_reset_retries_def split: option.splits)
qed

lemma writes_ok:
  assumes "hw_ok s" "writes_pin s s'"
  shows "hw_ok s'"
proof -
  have sl: "slots (fmem s') = slots (fmem s)"
    using assms(2) pins.others_save pins.others_decrement pins.others_reset by (auto simp: writes_pin_def)
  moreover have "store_ok (fmem s') = store_ok (fmem s)"
    using assms(2) pin_store_ok by (auto simp: writes_pin_def)
  moreover have "ps_retries p \<le> 8" if pl: "pin_load s' = Some p" for p
  proof -
    have b: "\<And>q. pin_load s = Some q \<Longrightarrow> ps_retries q \<le> 8" using assms(1) by (simp add: hw_ok_def)
    from assms(2) consider (dec) "s' = pin_decrement_retries s" | (reset) "s' = pin_reset_retries s"
      | (save) h where "length h = 32" "s' = pin_save h s"
      unfolding writes_pin_def by blast
    then show ?thesis
    proof cases
      case dec
      then obtain q where "pin_load s = Some q" "p = q\<lparr>ps_retries := ps_retries q - 1\<rparr>"
        using pl pins.load_decrement [of s] by auto
      then show ?thesis using b [of q] by simp
    next
      case reset
      then obtain q where "p = q\<lparr>ps_retries := 8\<rparr>" using pl pins.load_reset [of s] by auto
      then show ?thesis by simp
    next
      case save
      then show ?thesis using pl pins.load_save [of h s] by auto
    qed
  qed
  ultimately show ?thesis using assms(1) by (simp add: hw_ok_def sizes_slots)
qed

lemma store_ok_reset: "store_ok (fmem (flash_factory_reset s))"
proof -
  have m: "fmem (flash_factory_reset s) =
      (\<lambda>i. if \<exists>a \<in> set (slot_addrs @ [PIN_FLASH_ADDR]). a \<le> i \<and> i < a + 256 then 0xFF else fmem s i)"
    using fmem_erase_fold [of "flash_unlock s" "slot_addrs @ [PIN_FLASH_ADDR]"]
    unfolding flash_factory_reset_def by (simp cong: if_cong)
  have "word_at (fmem (flash_factory_reset s)) a = 0xFFFFFFFF" if "a \<in> set slot_addrs" for a
  proof -
    have "fmem (flash_factory_reset s) (a + i) = 0xFF" if "i < 256" for i
      using that \<open>a \<in> set slot_addrs\<close> unfolding m by (auto intro!: bexI [of _ a])
    then show ?thesis by (intro erased_frame [THEN conjunct1])
  qed
  then show ?thesis using magic_ne by (auto simp: store_ok_def is_key_def)
qed

lemma reset_ok: "hw_ok (flash_factory_reset s)"
  using factory_reset_effect(1,2) [of s] store_ok_reset [of s] by (simp add: hw_ok_def sizes_slots)

lemma hw_ok_irq [simp]: "hw_ok (s\<lparr>irq_on := b\<rparr>) = hw_ok s"
  by (simp add: hw_ok_def)

lemma kept_ok: "hw_ok s \<Longrightarrow> kept s s' \<Longrightarrow> hw_ok s'"
  by (auto simp: kept_def)

lemma change_ok: "hw_ok (chip d) \<Longrightarrow> may_change e n d s' \<Longrightarrow> hw_ok s'"
  unfolding may_change_def Let_def using saves_ok deletes_ok writes_ok reset_ok hw_ok_irq by metis

section \<open>Credential management\<close>

text \<open>
  What a deleteCredential request authenticates: the sub-command and the encoded \<open>subCommandParams\<close>, as they stand
  in the request. A request carries the token's MAC when its \<open>pinUvAuthParam\<close> is the HMAC of that message under
  the PIN token, cut to the length of the request's PIN protocol.
\<close>

definition delete_message :: "env \<Rightarrow> mem \<Rightarrow> item \<Rightarrow> u8 list" where
  "delete_message e m it = 0x06 # (case item_ptr (junk e 2) it of
     (Some a, len) \<Rightarrow> if 0 < len \<and> len \<le> 1024 then bytes m a len else [] | (None, _) \<Rightarrow> [])"

definition token_mac :: "env \<Rightarrow> mem \<Rightarrow> nat \<Rightarrow> dev \<Rightarrow> bool" where
  "token_mac e m n d \<longleftrightarrow> has_pin_token d \<and>
    (\<exists>proto params a l.
      get_cbor_map_int (stk e) m 1 (n - 1) 0x03 = Some proto \<and>
      get_cbor_map_item (stk e) m 1 (n - 1) 0x02 = Some params \<and>
      get_cbor_map_string (stk e) m 1 (n - 1) 0x04 = Some (Some (a, l)) \<and>
      l = (if (case proto of Some v \<Rightarrow> v | None \<Rightarrow> active_pin_protocol d) = 2 then 32 else 16) \<and>
      bytes m a l = take l (hmac_sha256 (pin_token d) (if 0 < pin_token_len d then pin_token_len d else 32)
        (delete_message e m params) (length (delete_message e m params))))"

lemma auth_ok_mac:
  assumes "cm_auth_ok e m n 0x06 d = Some True" "pin_load (chip d) \<noteq> None"
  shows "token_mac e m n d"
proof -
  define tl where "tl = (if 0 < pin_token_len d then pin_token_len d else 32)"
  obtain p it pin_auth where p: "get_cbor_map_int (stk e) m 1 (n - 1) 0x03 = Some p"
    and it: "get_cbor_map_item (stk e) m 1 (n - 1) 0x02 = Some it"
    and s: "get_cbor_map_string (stk e) m 1 (n - 1) 0x04 = Some pin_auth"
    using assms by (auto simp: cm_auth_ok_def bind_eq_Some_conv)
  define l where "l = (if (case p of Some v \<Rightarrow> v | None \<Rightarrow> active_pin_protocol d) = 2 then 32 else 16 :: nat)"
  have "has_pin_token d \<and> (case pin_auth of None \<Rightarrow> False | Some (a, k) \<Rightarrow> k = l \<and>
      take l (hmac_sha256 (pin_token d) tl (delete_message e m it) (length (delete_message e m it))) = bytes m a l)"
    using assms p it s unfolding cm_auth_ok_def delete_message_def l_def tl_def Let_def by simp
  then obtain a where "has_pin_token d" "pin_auth = Some (a, l)"
    "bytes m a l = take l (hmac_sha256 (pin_token d) tl (delete_message e m it) (length (delete_message e m it)))"
    by (auto split: option.splits)
  then show ?thesis unfolding token_mac_def tl_def [symmetric] using p it s
    by (intro conjI exI [of _ p] exI [of _ it] exI [of _ a] exI [of _ l]) (simp_all add: l_def)
qed

text \<open>The parameters of a deleteCredential request as the protocol defines them.\<close>

definition delete_request :: "env \<Rightarrow> mem \<Rightarrow> nat \<Rightarrow> (cbor \<times> cbor) list \<Rightarrow> bool" where
  "delete_request e m n kvs \<longleftrightarrow> map_at (stk e) m 1 (n - 1) kvs \<and> map_of kvs (CUint 1) = Some (CUint 6) \<and>
    (\<exists>params desc. map_of kvs (CUint 2) = Some (CMap params) \<and> map_of params (CUint 2) = Some (CMap desc) \<and>
      (\<forall>(k, v) \<in> set desc. k = CText (lit ''id'') \<or> k = CText (lit ''type'')))"

lemma delete_not_found:
  assumes "delete_request e m n kvs"
  shows "cm_delete e m n d = Some ([0x2E], d)"
proof -
  obtain params desc where mp: "map_at (stk e) m 1 (n - 1) kvs" and p: "map_of kvs (CUint 2) = Some (CMap params)"
    and q: "map_of params (CUint 2) = Some (CMap desc)"
    and keys: "\<forall>(k, v) \<in> set desc. k = CText (lit ''id'') \<or> k = CText (lit ''type'')"
    using assms unfolding delete_request_def by blast
  obtain a where a: "get_cbor_map_item (stk e) m 1 (n - 1) 2 = Some (Item a (length (enc (CMap params))))" "holds m a (CMap params)"
    using get_cbor_map_item_spec [OF mp, of 2] p by auto
  note mp2 = sub_map_at [OF mp p a(2)]
  obtain b where b: "get_cbor_map_item (stk e) m a (length (enc (CMap params))) 2 = Some (Item b (length (enc (CMap desc))))"
    "holds m b (CMap desc)"
    using get_cbor_map_item_spec [OF mp2, of 2] q by auto
  have "map_of desc (CUint 1) = None" using keys by (force simp: map_of_eq_None_iff)
  then have "get_cbor_map_string (stk e) m b (length (enc (CMap desc))) 1 = Some None"
    using get_cbor_map_string_spec [OF sub_map_at [OF mp2 q b(2)], of 1] by simp
  then show ?thesis using a(1) b(1) by (simp add: cm_delete_def del: enc.simps)
qed

lemma auth_returns:
  assumes "map_at (stk e) m 1 (n - 1) kvs"
  obtains ok where "cm_auth_ok e m n sub d = Some ok"
proof -
  obtain i where i: "get_cbor_map_int (stk e) m 1 (n - 1) 3 = Some i"
    using get_cbor_map_int_spec [OF assms, of 3] by simp
  obtain it where it: "get_cbor_map_item (stk e) m 1 (n - 1) 2 = Some it"
    using get_cbor_map_item_spec [OF assms, of 2] by (cases "map_of kvs (CUint 2)") auto
  obtain s where s: "get_cbor_map_string (stk e) m 1 (n - 1) 4 = Some s"
    using get_cbor_map_string_spec [OF assms, of 4] by (auto split: option.splits)
  show thesis
  proof (cases "pin_load (chip d)")
    case None
    then show thesis by (intro that [of True]) (simp add: cm_auth_ok_def)
  next
    case (Some q)
    then show thesis using that unfolding cm_auth_ok_def Let_def i it s by (cases "sub \<in> {4, 5, 6}") auto
  qed
qed

section \<open>After a reset\<close>

lemma granted_keepalive:
  "touch_loop e cid base loops c d = (0x00, d') \<Longrightarrow> \<exists>x. d' = fido2_send_keepalive e cid 1 x"
proof (induction "301 - loops" arbitrary: loops c d rule: less_induct)
  case less
  define d1 where "d1 = snd (read_touch_pa2 e d)"
  define v where "v = fst (read_touch_pa2 e d)"
  define t where "t \<longleftrightarrow> 64 < base \<and> v < base - base div 4"
  define c' where "c' = (if t then c + 1 else 0)"
  define d2 where "d2 = Process_OOB_Commands e (elapse e d1)"
  define d3 where "d3 = (if (loops + 1) mod 4 = 0 then fido2_send_keepalive e cid 2 d2 else d2)"
  have "(0x00, d') = (if t \<and> 3 \<le> c' then (0x00, fido2_send_keepalive e cid 1 d1)
      else if cancel_requested d2 then (0x2D, d2) else if 300 < loops + 1 then (0x2F, d3)
      else touch_loop e cid base (loops + 1) c' d3)"
    unfolding less.prems [symmetric] by (subst touch_loop.simps)
      (simp only: Let_def split_beta d1_def [symmetric] v_def [symmetric] t_def [symmetric]
        c'_def [symmetric] d2_def [symmetric] d3_def [symmetric])
  then consider "d' = fido2_send_keepalive e cid 1 d1" | "\<not> 300 < loops + 1" "touch_loop e cid base (loops + 1) c' d3 = (0x00, d')"
    by (auto split: if_splits)
  then show ?case
  proof cases
    case 2
    then show ?thesis by (intro less.hyps [of "loops + 1"]) simp_all
  qed blast
qed

lemma deaf_events:
  "\<not> irq_on (chip d) \<Longrightarrow> ep2_armed d \<Longrightarrow>
    ep2_armed (events_until_free evs d) \<and> (\<exists>k. sent (events_until_free evs d) = sent d @ replicate k (report d))"
proof (induction evs arbitrary: d)
  case (Cons ev evs)
  let ?d = "bus_event ev d"
  have b: "\<not> irq_on (chip ?d)" "ep2_armed ?d" "report ?d = report d"
    "sent ?d = sent d \<or> sent ?d = sent d @ [report d]"
    using Cons.prems by (auto simp: bus_event_def Let_def ep2_armed_def report_def)
  from Cons.IH [OF b(1,2)] obtain k where "ep2_armed (events_until_free evs ?d)"
    "sent (events_until_free evs ?d) = sent ?d @ replicate k (report d)" using b(3) by auto
  then show ?case using b(4) Cons.prems(2)
    by (auto intro: exI [of _ k] exI [of _ "Suc k"] simp: replicate_append_same [symmetric])
qed (auto intro: exI [of _ 0])

lemma deaf_send:
  assumes "\<not> irq_on (chip d)" "ep2_armed d"
  shows "\<exists>k. sent (ctap_send_response e cid cmd p n d) = sent d @ replicate k (report d)"
proof -
  obtain evs late where s: "slice e (slice_no d) = (evs, late)" by fastforce
  let ?d = "d\<lparr>slice_no := slice_no d + 1\<rparr>"
  have x: "\<not> irq_on (chip ?d)" "ep2_armed ?d" "report ?d = report d" "sent ?d = sent d"
    using assms by (simp_all add: ep2_armed_def report_def)
  from deaf_events [OF x(1,2), of evs] show ?thesis
    using assms(2) x(3,4) by (simp add: ctap_send_response_def wait_ep2_def s Let_def) (simp add: ep2_nak_def set_bus_def)
qed

lemma granted_armed:
  assumes "fido2_wait_for_user_presence e cid d = (0x00, d1)"
  shows "ep2_armed d1 \<and> report d1 = keepalive_packet cid 1"
proof -
  obtain x where x: "d1 = fido2_send_keepalive e cid 1 x"
    using wait_presence [of e d cid] assms granted_keepalive by (metis prod.inject)
  show ?thesis unfolding x fido2_send_keepalive_def
    by (simp add: ep2_send_effect keepalive_packet_def be32_bytes_def)
qed

lemma reset_unanswered:
  assumes "cmd_reset e cid d = ([0x00], d1)"
  shows "chip d1 = flash_factory_reset (chip d)"
    "\<exists>k. sent (ctap_send_response e c cmd p n d1) = sent d1 @ replicate k (keepalive_packet cid 1)"
proof -
  let ?d = "d\<lparr>tick_no := tick_no d + 1\<rparr>"
  obtain st d0 where w: "fido2_wait_for_user_presence e cid ?d = (st, d0)" by fastforce
  have st: "st = 0x00" "d1 = d0\<lparr>chip := flash_factory_reset (chip d0)\<rparr>"
    using assms w by (auto simp: cmd_reset_def Let_def user_presence_def split: if_splits)
  have a: "ep2_armed d0" "report d0 = keepalive_packet cid 1" using granted_armed w st(1) by blast+
  have "chip d0 = (chip d)\<lparr>irq_on := True\<rparr>" using wait_chip [of e cid ?d] unfolding w by simp
  then show "chip d1 = flash_factory_reset (chip d)" by (simp add: st(2))
  have d1: "\<not> irq_on (chip d1)" "ep2_armed d1" "report d1 = keepalive_packet cid 1"
    using a factory_reset_effect(3) [of "chip d0"] by (simp_all add: st(2) ep2_armed_def report_def)
  from deaf_send [OF d1(1,2), of e c cmd p n]
  show "\<exists>k. sent (ctap_send_response e c cmd p n d1) = sent d1 @ replicate k (keepalive_packet cid 1)"
    by (simp only: d1(3))
qed

end
