(* ===== verification/Fido2Thms.thy ===== *)
theory Fido2Thms
  imports Fido2Guard
begin

text \<open>
  The properties of the CTAP2 commands, each with a concrete run: a platform that registers and asserts
  under the relying party \<open>a.io\<close> on a device whose pad is touched.
\<close>

section \<open>A platform and a device\<close>

lemma map_at_request:
  assumes "ok_item (Suc sd) (CMap kvs)" "length (enc (CMap kvs)) \<le> len" "len < 65536"
  shows "map_at sd (mem_of (c # enc (CMap kvs) @ pad) rest) 1 len kvs"
  using assms bytes_mem_of [of 1 "length (enc (CMap kvs))" "c # enc (CMap kvs) @ pad" rest]
  by (simp add: map_at_def holds_def del: enc.simps)

definition request_dev :: "u8 \<Rightarrow> (cbor \<times> cbor) list \<Rightarrow> hw \<Rightarrow> dev" where
  "request_dev c kvs h = (dev0 h)\<lparr>ctap_req_buf := c # enc (CMap kvs)\<rparr>"

lemma request_dev [simp]: "chip (request_dev c kvs h) = h" "req_mem e (request_dev c kvs h) 0 = c"
  "has_pin_token (request_dev c kvs h) = False" "tick_no (request_dev c kvs h) = 0"
  by (simp_all add: request_dev_def req_mem_def dev0_def)

lemma request_map_at:
  assumes "ok_item (Suc (Suc (Suc (Suc 0)))) (CMap kvs)" "3 \<le> stk e" "length (enc (CMap kvs)) \<le> 1000"
  shows "map_at (stk e) (req_mem e (request_dev c kvs h)) 1 (1001 - 1) kvs"
proof -
  have "ok_item (Suc (stk e)) (CMap kvs)" using assms(1) by (rule ok_item_mono) (use assms(2) in simp)
  from map_at_request [OF this assms(3), of c "[]" "adj e"] show ?thesis
    by (simp add: req_mem_def request_dev_def del: enc.simps)
qed

text \<open>The touched pad, whatever the elliptic curve library does.\<close>

definition touch_like :: "env \<Rightarrow> bool" where
  "touch_like e \<longleftrightarrow> slice e = slice touch_env \<and> adc e = adc touch_env \<and> stk e = stk quiet_env \<and> ecc_sizes e"

lemma touch_granted:
  assumes "touch_like e" "bus d = usb_boot" "adc_no d = 0" "\<not> touch_adc_init_done d"
  obtains d1 where "fido2_wait_for_user_presence e cid d = (0x00, d1)" "chip d1 = (chip d)\<lparr>irq_on := True\<rparr>"
proof -
  have c: "calibration d = 96" using assms by (simp add: calibration_def)
  have rd: "reading e = reading touch_env" using assms(1) by (intro ext) (simp add: reading_def touch_like_def)
  have "fst (fido2_wait_for_user_presence e cid d) = 0x00"
  proof (rule touched_at_once)
    show "\<forall>n. fst (slice e n) = []" using assms(1) by (simp add: touch_like_def touch_env_drops)
    have "drop_at e (baseline e 96) k = drop_at touch_env (baseline touch_env 96) k" for k
      by (simp add: drop_at_def baseline_def rd)
    then show "\<forall>i < 3. drop_at e (baseline e (calibration d)) (calibration d + 96 + 4 * i)"
      unfolding c by (simp add: touch_env_drops(3))
  qed (simp_all add: assms(2) dev0_quiet)
  moreover have "chip (snd (fido2_wait_for_user_presence e cid d)) = (chip d)\<lparr>irq_on := True\<rparr>" by (rule wait_chip)
  ultimately show thesis by (cases "fido2_wait_for_user_presence e cid d") (auto intro: that)
qed

lemma touch_env_sizes: "ecc_sizes touch_env" "stk touch_env = stk quiet_env"
  using ecc_sizes_quiet by (simp_all add: ecc_sizes_def touch_env_def)

lemma touch_like_env: "touch_like touch_env"
  by (simp add: touch_like_def touch_env_sizes)

definition mc_kvs :: "(cbor \<times> cbor) list" where
  "mc_kvs = [(CUint 1, CBytes (replicate 32 5)), (CUint 2, CMap [(CText (lit ''id''), CText (lit ''a.io''))]),
     (CUint 3, CMap [(CText (lit ''id''), CBytes [7])])]"

definition ga_kvs :: "(cbor \<times> cbor) list" where
  "ga_kvs = [(CUint 1, CText (lit ''a.io'')), (CUint 2, CBytes (replicate 32 5))]"

text \<open>The deleteCredential request of CTAP 2.1 for one credential id.\<close>

definition del_kvs :: "u8 list \<Rightarrow> (cbor \<times> cbor) list" where
  "del_kvs cred_id = [(CUint 1, CUint 6), (CUint 2, CMap [(CUint 2,
     CMap [(CText (lit ''id''), CBytes cred_id), (CText (lit ''type''), CText (lit ''public-key''))])])]"

lemma mc_kvs_at:
  "stk e = stk quiet_env \<Longrightarrow> map_at (stk e) (req_mem e (request_dev c mc_kvs h)) 1 (1001 - 1) mc_kvs"
  by (rule request_map_at) (simp_all add: mc_kvs_def touch_env_def quiet_env_def length_head_nat)

lemma ga_kvs_at:
  "stk e = stk quiet_env \<Longrightarrow> map_at (stk e) (req_mem e (request_dev c ga_kvs h)) 1 (1001 - 1) ga_kvs"
  by (rule request_map_at) (simp_all add: ga_kvs_def touch_env_def quiet_env_def length_head_nat)

lemma text_lookup_returns:
  assumes "map_at sd m p len kvs" "text_keys kvs" "0 \<notin> set key" "length key < 256"
  shows "\<exists>x. cbor_map_get_string sd m p len key = Some x"
  using cbor_map_get_string_spec [OF assms] by (auto split: option.splits)

lemma lookup_returns:
  assumes "map_at sd m p len kvs" "0 < key" "key < 256"
  shows "\<exists>x. get_cbor_map_string sd m p len key = Some x" "\<exists>x. get_cbor_map_item sd m p len key = Some x"
  using get_cbor_map_string_spec [OF assms] get_cbor_map_item_spec [OF assms] by (auto split: option.splits)

lemma create_answers:
  assumes "ecc_sizes e" "length h = 32" "store_ok (fmem (chip d))"
    and "spec_slot (same_account h (str_bytes m uid) (length (str_bytes m uid))) (slots (fmem (chip d))) = Some i"
  shows "length (fst (mc_create e m cid cdh f h rp uid nm d)) \<noteq> 1"
proof
  assume one: "length (fst (mc_create e m cid cdh f h rp uid nm d)) = 1"
  let ?dk = "fido2_send_keepalive e cid 1 d"
  obtain pub priv d2 where k: "uECC_make_key e ?dk = (pub, priv, d2)" by (metis prod_cases3)
  let ?d3 = "fido2_send_keepalive e cid 1 d2"
  obtain c d4 where c: "rng e 32 ?d3 = (c, d4)" by fastforce
  let ?rp = "str_bytes m rp" and ?u = "str_bytes m uid" and ?n = "str_bytes m nm"
  obtain saved hw where sv: "passkey_save h ?rp (length ?rp) ?u (length ?u) ?n (length ?n) c priv (chip d4) = (saved, hw)"
    by fastforce
  have "core d2 = core d" using core_make_key [of e ?dk] by (simp add: k frame_simps)
  moreover have "core d4 = core ?d3" using core_rng [of e 32 ?d3] by (simp add: c)
  ultimately have "core d4 = core d" by (simp add: frame_simps)
  then have ch: "chip d4 = chip d" by (rule core_chip)
  have l: "length pub = 64" "length priv = 32" "length c = 32"
    using make_key_sizes [OF assms(1), of ?dk] length_rng [of e 32 ?d3] by (simp_all add: k c)
  have "case spec_slot (same_account h ?u (length ?u)) (slots (fmem (chip d))) of
      None \<Rightarrow> passkey_save h ?rp (length ?rp) ?u (length ?u) ?n (length ?n) c priv (chip d) = (False, chip d)
    | Some i \<Rightarrow> (let (r, s') = passkey_save h ?rp (length ?rp) ?u (length ?u) ?n (length ?n) c priv (chip d) in
        r \<and> slots (fmem s') = (slots (fmem (chip d)))[i := Some (new_rk h ?rp (length ?rp) ?u (length ?u) ?n (length ?n) c priv)] \<and>
        store_ok (fmem s') \<and> pin_load s' = pin_load (chip d) \<and> flash_locked s' \<and> irq_on s')"
    by (rule save_refines) (simp_all add: assms l)
  then have saved: "saved" using sv assms(4) by (simp add: ch)
  obtain r d5 where at: "mc_attest e m cid cdh (mc_auth_data h (f OR 0x40) c pub) priv (d4\<lparr>chip := hw\<rparr>) = (r, d5)"
    by fastforce
  have "length (mc_auth_data h (f OR 0x40) c pub) \<le> 200" using auth_data_length(1) [OF assms(2) l(3,1)] by simp
  from attest_response [OF at this assms(1)] obtain x where r: "r = 0x00 # enc x" by blast
  have "fst (mc_create e m cid cdh f h rp uid nm d) = r"
    using saved by (simp add: mc_create_def Let_def k c sv at)
  then show False using one r enc_pos [of x] by simp
qed

lemma blank_slot: "spec_slot P (slots (fmem blank_hw)) = Some 0"
  by (simp add: blank_store spec_slot_def upt_rec)

lemma blank_irq [simp]: "blank_hw\<lparr>irq_on := True\<rparr> = blank_hw"
  by (simp add: blank_hw_def)

lemma make_run:
  assumes "touch_like e"
  obtains r d' where "cmd_make_credential e 1001 cid (request_dev 1 mc_kvs blank_hw) = Some (r, d')" "length r \<noteq> 1"
proof -
  let ?e = e and ?d = "request_dev 1 mc_kvs blank_hw"
  let ?m = "req_mem ?e ?d"
  have st: "stk ?e = stk quiet_env" using assms by (simp add: touch_like_def)
  note mp = mc_kvs_at [OF st, of 1 blank_hw]
  obtain cdh where cdh: "get_cbor_map_string (stk ?e) ?m 1 (1001 - 1) 1 = Some cdh"
    using lookup_returns(1) [OF mp, of 1] by auto
  have pa: "get_cbor_map_string (stk ?e) ?m 1 (1001 - 1) 8 = Some None"
    using get_cbor_map_string_spec [OF mp, of 8] by (simp add: mc_kvs_def)
  have om: "get_cbor_map_value (stk ?e) ?m 1 (1001 - 1) 7 = Some None"
    using get_cbor_map_value_spec [OF mp, of 7] by (simp add: mc_kvs_def)
  have pre: "mc_precheck ?m 1001 ?d cdh None None = Inr 0x41"
    by (simp add: mc_precheck_def mc_options_def)
  obtain d1 where w: "fido2_wait_for_user_presence ?e cid ?d = (0x00, d1)" "chip d1 = blank_hw"
    by (rule touch_granted [OF assms, of ?d]) (simp_all add: request_dev_def dev0_def)
  have texts: "text_keys [(CText (lit ''id''), v)]" "0 \<notin> set (lit ''displayName'')" for v
    by (simp_all add: text_keys_def) (simp add: lit_def of_char_def)
  obtain a where a: "get_cbor_map_item (stk ?e) ?m 1 (1001 - 1) 2 =
      Some (Item a (length (enc (CMap [(CText (lit ''id''), CText (lit ''a.io''))]))))"
    "holds ?m a (CMap [(CText (lit ''id''), CText (lit ''a.io''))])"
    using get_cbor_map_item_spec [OF mp, of 2] by (auto simp: mc_kvs_def simp del: enc.simps)
  have "map_of mc_kvs (CUint 2) = Some (CMap [(CText (lit ''id''), CText (lit ''a.io''))])" by (simp add: mc_kvs_def)
  note mrp = sub_map_at [OF mp this a(2)]
  obtain rp where rp: "mc_rp_id ?e ?m 1001 = Some rp"
    using text_lookup_returns [OF mrp texts(1), of "lit ''id''"] lit_no_nul a(1)
    by (auto simp: mc_rp_id_def simp del: enc.simps)
  obtain b where b: "get_cbor_map_item (stk ?e) ?m 1 (1001 - 1) 3 =
      Some (Item b (length (enc (CMap [(CText (lit ''id''), CBytes [7])]))))"
    "holds ?m b (CMap [(CText (lit ''id''), CBytes [7])])"
    using get_cbor_map_item_spec [OF mp, of 3] by (auto simp: mc_kvs_def simp del: enc.simps)
  have "map_of mc_kvs (CUint 3) = Some (CMap [(CText (lit ''id''), CBytes [7])])" by (simp add: mc_kvs_def)
  note mu = sub_map_at [OF mp this b(2)]
  obtain i0 n0 dn0 where "cbor_map_get_string (stk ?e) ?m b (length (enc (CMap [(CText (lit ''id''), CBytes [7])]))) (lit ''id'') = Some i0"
    "cbor_map_get_string (stk ?e) ?m b (length (enc (CMap [(CText (lit ''id''), CBytes [7])]))) (lit ''name'') = Some n0"
    "cbor_map_get_string (stk ?e) ?m b (length (enc (CMap [(CText (lit ''id''), CBytes [7])]))) (lit ''displayName'') = Some dn0"
    using text_lookup_returns [OF mu texts(1), of "lit ''id''"] text_lookup_returns [OF mu texts(1), of "lit ''name''"]
      text_lookup_returns [OF mu texts(1) texts(2)] lit_no_nul by auto
  then obtain u nm where u: "mc_user ?e ?m 1001 = Some (u, nm)"
    using b(1) by (cases n0) (auto simp: mc_user_def simp del: enc.simps)
  have ex: "get_cbor_map_item (stk ?e) ?m 1 (1001 - 1) 5 = Some ItemUndef"
    using get_cbor_map_item_spec [OF mp, of 5] by (simp add: mc_kvs_def)
  have nex: "\<not> mc_excluded (chip d1) ?m (rp_id_hash_of ?m rp) (item_ptr (junk ?e 5) ItemUndef)"
    by (simp add: mc_excluded_def split: option.split)
  let ?c = "mc_create ?e ?m cid cdh 0x41 (rp_id_hash_of ?m rp) rp u nm d1"
  have "cmd_make_credential ?e 1001 cid ?d = Some ?c"
    using pre w(1) rp u nex unfolding cmd_make_credential_def Let_def cdh pa om ex by simp
  moreover have "length (fst ?c) \<noteq> 1"
    by (rule create_answers [where i = 0]) (use assms in \<open>simp_all add: touch_like_def w(2) blank_store(2) blank_slot\<close>)
  ultimately show thesis by (cases ?c) (auto intro: that)
qed

text \<open>A device that holds one credential of \<open>a.io\<close>.\<close>

definition stored_hw :: hw where
  "stored_hw = snd (passkey_save (sha256_of (lit ''a.io'')) (lit ''a.io'') 4 [7] 1 [] 0
     (replicate 32 2) (replicate 32 3) blank_hw)"

definition stored_key :: ResidentKey where
  "stored_key = new_rk (sha256_of (lit ''a.io'')) (lit ''a.io'') 4 [7] 1 [] 0 (replicate 32 2) (replicate 32 3)"

lemma stored:
  "slots (fmem stored_hw) = [Some stored_key, None, None, None, None]" "store_ok (fmem stored_hw)"
  "creds (fmem stored_hw) = [stored_key]" "rk_rp_id_hash stored_key = sha256_of (lit ''a.io'')" "sizes_ok (fmem stored_hw)"
  "stored_hw\<lparr>irq_on := True\<rparr> = stored_hw"
proof -
  have "case spec_slot (same_account (sha256_of (lit ''a.io'')) [7] 1) (slots (fmem blank_hw)) of
      None \<Rightarrow> passkey_save (sha256_of (lit ''a.io'')) (lit ''a.io'') 4 [7] 1 [] 0 (replicate 32 2) (replicate 32 3) blank_hw = (False, blank_hw)
    | Some i \<Rightarrow> (let (r, s') = passkey_save (sha256_of (lit ''a.io'')) (lit ''a.io'') 4 [7] 1 [] 0 (replicate 32 2) (replicate 32 3) blank_hw in
        r \<and> slots (fmem s') = (slots (fmem blank_hw))[i := Some (new_rk (sha256_of (lit ''a.io'')) (lit ''a.io'') 4 [7] 1 [] 0 (replicate 32 2) (replicate 32 3))] \<and>
        store_ok (fmem s') \<and> pin_load s' = pin_load blank_hw \<and> flash_locked s' \<and> irq_on s')"
    by (rule save_refines) (simp_all add: blank_store)
  then have s: "slots (fmem stored_hw) = (slots (fmem blank_hw))[0 := Some stored_key] \<and> store_ok (fmem stored_hw)"
    and "irq_on stored_hw" by (simp_all add: blank_slot stored_hw_def stored_key_def split_beta Let_def)
  then show "stored_hw\<lparr>irq_on := True\<rparr> = stored_hw" by (cases stored_hw) simp
  show "slots (fmem stored_hw) = [Some stored_key, None, None, None, None]" "store_ok (fmem stored_hw)"
    using s by (simp_all add: blank_store numeral_eq_Suc)
  then show "creds (fmem stored_hw) = [stored_key]" by (simp add: present_slots [symmetric] present_def)
  show "rk_rp_id_hash stored_key = sha256_of (lit ''a.io'')" by (simp add: stored_key_def new_rk_def Let_def)
  show "sizes_ok (fmem stored_hw)" using s new_rk_sizes by (auto simp: sizes_slots blank_store numeral_eq_Suc stored_key_def)
qed

lemma assertion_run:
  assumes "touch_like e"
  obtains r d' where "cmd_get_assertion e 1001 cid (request_dev 2 ga_kvs stored_hw) = Some (r, d')" "length r \<noteq> 1"
proof -
  let ?e = e and ?d = "request_dev 2 ga_kvs stored_hw"
  let ?m = "req_mem ?e ?d" and ?h = "sha256_of (lit ''a.io'')"
  have st: "stk ?e = stk quiet_env" "ecc_sizes ?e" using assms by (simp_all add: touch_like_def)
  note mp = ga_kvs_at [OF st(1), of 2 stored_hw]
  obtain cdh where cdh: "get_cbor_map_string (stk ?e) ?m 1 (1001 - 1) 2 = Some cdh"
    using lookup_returns(1) [OF mp, of 2] by auto
  obtain a where a: "get_cbor_map_value (stk ?e) ?m 1 (1001 - 1) 1 = Some (Some (value_at ?m a))"
    "holds ?m a (CText (lit ''a.io''))" "ok_item (stk ?e) (CText (lit ''a.io''))"
    using get_cbor_map_value_spec [OF mp, of 1] by (auto simp: ga_kvs_def)
  have rp: "rp_id_hash_of ?m (map_option (\<lambda>(p, n, _). (p, n)) (Some (value_at ?m a))) = ?h"
    using value_at_payload [OF a(2,3)] by (auto simp: rp_id_hash_of_def)
  have al: "get_cbor_map_value (stk ?e) ?m 1 (1001 - 1) 3 = Some None"
    "get_cbor_map_value (stk ?e) ?m 1 (1001 - 1) 5 = Some None"
    using get_cbor_map_value_spec [OF mp, of 3] get_cbor_map_value_spec [OF mp, of 5] by (simp_all add: ga_kvs_def)
  have pa: "get_cbor_map_string (stk ?e) ?m 1 (1001 - 1) 6 = Some None"
    using get_cbor_map_string_spec [OF mp, of 6] by (simp add: ga_kvs_def)
  have cr: "creds_of_rp ?h (fmem stored_hw) = [stored_key]" by (simp add: creds_of_rp_def stored)
  obtain rk where rk: "passkey_get_by_rp_index ?h 0 stored_hw = Some rk"
    using get_by_rp_index_creds(1) [of ?h stored_hw 0] cr by auto
  have n: "passkey_count_for_rp ?h stored_hw = 1" using get_by_rp_index_creds(2) [of ?h stored_hw] cr by simp
  obtain d1 where sel: "ga_select ?m 1001 ?h cdh None ?d = (Some (rk, 1), d1)"
    "bus d1 = bus ?d" "adc_no d1 = adc_no ?d" "touch_adc_init_done d1 = touch_adc_init_done ?d"
    by (simp add: ga_select_def rk n)
  have ch: "chip d1 = stored_hw" using select_chip [of ?m 1001 ?h cdh None ?d] by (simp add: sel(1) del: select_chip)
  obtain d2 where w: "fido2_wait_for_user_presence ?e cid d1 = (0x00, d2)" "chip d2 = stored_hw"
    by (rule touch_granted [OF assms, of d1]) (simp_all add: sel request_dev_def dev0_def ch stored(6))
  let ?c = "ga_finish ?e ?m ?h 0x01 cdh rk 1 d2"
  have run: "cmd_get_assertion ?e 1001 cid ?d = Some ?c"
    unfolding cmd_get_assertion_def Let_def a(1) cdh al(1) bind.bind_lunit rp sel(1) prod.case option.case
      pa ga_uv_flags_def al(2) by (simp add: ga_options_def user_presence_def w)
  obtain r d' where c: "?c = (r, d')" by fastforce
  then have b: "ga_build_response ?e rk (auth_data37 ?h 0x01) (signed_cdh ?m cdh) 1 d2 = (r, d')"
    by (simp add: ga_finish_def signed_cdh_def)
  note s = select_effect [OF sel(1)]
  have "read_rk (fmem (chip d2)) rk \<in> set (creds (fmem (chip d2)))"
    using read_key [OF s(1,2)] by (simp add: w(2))
  then obtain x where r: "r = 0x00 # enc x"
    using build_effect [OF b st(2) length_auth37 length_signed_cdh] stored(5)
    by (metis length_sha256_of w(2))
  have "length r \<noteq> 1" using r enc_pos [of x] by simp
  then show thesis using run c by (intro that) simp_all
qed

text \<open>The end of GetAssertion: the flags it signs, and on which evidence.\<close>

lemma finished:
  assumes "ga_select m n h cdh al d = (Some (rk, w), d1)" "ga_uv_flags d1 m cdh pa = Some flags"
    and "(ga_options m n d1 om pa = Inr True \<and> (r, d') = user_presence e cid (ga_finish e m h flags cdh rk w) d1) \<or>
      (ga_options m n d1 om pa = Inr False \<and> (r, d') = ga_finish e m h (flags AND NOT 0x01) cdh rk w d1)"
    and "length r \<noteq> 1" "length h = 32"
  obtains g d2 where "ga_finish e m h g cdh rk w d2 = (r, d')" "fmem (chip d2) = fmem (chip d)"
    "d2 = (if bit g 0 then snd (fido2_wait_for_user_presence e cid d1) else d1)" "g \<in> {0x00, 0x01, 0x04, 0x05}"
    "bit g 0 \<longrightarrow> user_touched e d" "bit g 2 \<longrightarrow> (\<exists>a l. pa = Some (a, l) \<and> uv_valid d m cdh a l)"
proof -
  note s = select_effect [OF assms(1,5)]
  have f: "flags = 0x01 \<or> flags = 0x05 \<and> (\<exists>a l. pa = Some (a, l) \<and> uv_valid d m cdh a l)"
    using assms(2) by (auto simp: ga_uv_flags_def s(5) split: option.splits if_splits)
  from assms(3) show thesis
  proof (elim disjE conjE)
    assume "(r, d') = user_presence e cid (ga_finish e m h flags cdh rk w) d1"
    from presence_run [OF this [symmetric] assms(4)] obtain d2 where
      d2: "fido2_wait_for_user_presence e cid d1 = (0x00, d2)" "ga_finish e m h flags cdh rk w d2 = (r, d')" .
    have "fmem (chip d2) = fmem (chip d)" using wait_chip [of e cid d1] d2(1) s(4) by simp
    moreover have "user_touched e d" using granted_touched [OF d2(1)] user_touched_ga [OF s(6,7)] by simp
    ultimately show thesis using d2 f by (intro that [of flags d2]) (auto simp: bit_simps)
  next
    assume r: "(r, d') = ga_finish e m h (flags AND NOT 0x01) cdh rk w d1"
    then show thesis using f s(4) flag_bits by (intro that [of "flags AND NOT 0x01" d1]) (auto simp: bit_simps)
  qed
qed

section \<open>Properties\<close>

text \<open>C1: a successful MakeCredential: the user touched the sensor; the slot of the same account, or
  else the first free one, now holds the new key pair's private key under the request's relying party and
  user, everything else in flash is as before; the answer is the \<open>packed\<close> attestation of
  \<open>rpIdHash || flags || counter || AAGUID || id || key\<close>, signed together with the client data hash by the
  new private key; and the user-verified flag is set exactly when the request carried a valid
  \<open>pinUvAuthParam\<close>.\<close>

theorem make_credential_registers:
  assumes "cmd_make_credential e n cid d = Some (r, d')" "length r \<noteq> 1"
    and "store_ok (fmem (chip d))" "ecc_sizes e"
  defines "m \<equiv> req_mem e d"
  shows "\<exists>rp uid nm cdh pub priv cred sig ds i flags.
    fst (fido2_wait_for_user_presence e cid d) = 0x00 \<and>
    mc_rp_id e m n = Some rp \<and> mc_user e m n = Some (uid, nm) \<and>
    get_cbor_map_string (stk e) m 1 (n - 1) 0x01 = Some cdh \<and>
    spec_slot (same_account (rp_id_hash_of m rp) (str_bytes m uid) (length (str_bytes m uid))) (slots (fmem (chip d))) = Some i \<and>
    slots (fmem (chip d')) = (slots (fmem (chip d)))[i := Some (new_rk (rp_id_hash_of m rp)
      (str_bytes m rp) (length (str_bytes m rp)) (str_bytes m uid) (length (str_bytes m uid))
      (str_bytes m nm) (length (str_bytes m nm)) cred priv)] \<and>
    store_ok (fmem (chip d')) \<and> pin_load (chip d') = pin_load (chip d) \<and>
    (\<exists>dk. pub = fst (uECC_make_key e dk) \<and> priv = fst (snd (uECC_make_key e dk))) \<and>
    sig = fst (uECC_sign e priv (sha256_of (mc_auth_data (rp_id_hash_of m rp) flags cred pub @ cdh_bytes m cdh)) ds) \<and>
    r = 0x00 # enc (mc_response (mc_auth_data (rp_id_hash_of m rp) flags cred pub) (ecdsa_sig_to_der sig)) \<and>
    (flags = 0x45 \<and> (\<exists>pa pl. get_cbor_map_string (stk e) m 1 (n - 1) 0x08 = Some (Some (pa, pl)) \<and> uv_valid d m cdh pa pl) \<or>
     flags = 0x41 \<and> get_cbor_map_string (stk e) m 1 (n - 1) 0x08 = Some None)"
  using assms(1)
proof (rule make_cases)
  assume "length r = 1"
  then show ?thesis using assms(2) by simp
next
  fix d1 cdh flags rp uid nm ex
  assume w: "fido2_wait_for_user_presence e cid d = (0x00, d1)"
    and rp: "mc_rp_id e (req_mem e d) n = Some rp" and u: "mc_user e (req_mem e d) n = Some (uid, nm)"
    and cdh: "get_cbor_map_string (stk e) (req_mem e d) 1 (n - 1) 0x01 = Some cdh"
    and run: "(r, d') = mc_create e (req_mem e d) cid cdh flags (rp_id_hash_of (req_mem e d) rp) rp uid nm d1"
    and fl: "\<exists>pa om. get_cbor_map_string (stk e) (req_mem e d) 1 (n - 1) 0x08 = Some pa \<and>
       mc_precheck (req_mem e d) n d cdh pa om = Inr flags"
  let ?h = "rp_id_hash_of m rp"
  have ch: "fmem (chip d1) = fmem (chip d)" "pin_load (chip d1) = pin_load (chip d)"
    using wait_chip [of e cid d] by (simp_all add: w)
  have so: "store_ok (fmem (chip d1))" using assms(3) ch by simp
  from create_effect [OF run [symmetric] assms(4) length_rp_hash so assms(2)] obtain pub priv cred sig i where
    c: "spec_slot (same_account ?h (str_bytes m uid) (length (str_bytes m uid))) (slots (fmem (chip d1))) = Some i"
    "slots (fmem (chip d')) = (slots (fmem (chip d1)))[i := Some (new_rk ?h (str_bytes m rp) (length (str_bytes m rp))
       (str_bytes m uid) (length (str_bytes m uid)) (str_bytes m nm) (length (str_bytes m nm)) cred priv)]"
    "store_ok (fmem (chip d'))" "pin_load (chip d') = pin_load (chip d1)"
    "r = 0x00 # enc (mc_response (mc_auth_data ?h (flags OR 0x40) cred pub) (ecdsa_sig_to_der sig))"
    "pub = fst (uECC_make_key e (generating e cid d1))" "priv = fst (snd (uECC_make_key e (generating e cid d1)))"
    "sig = fst (uECC_sign e priv (sha256_of (mc_auth_data ?h (flags OR 0x40) cred pub @ cdh_bytes m cdh))
       (attesting e cid (chip d') d1))"
    unfolding m_def by metis
  then have k: "\<exists>dk. pub = fst (uECC_make_key e dk) \<and> priv = fst (snd (uECC_make_key e dk))" by blast
  have f: "flags OR 0x40 = 0x45 \<and> (\<exists>pa pl. get_cbor_map_string (stk e) m 1 (n - 1) 0x08 = Some (Some (pa, pl)) \<and> uv_valid d m cdh pa pl) \<or>
     flags OR 0x40 = 0x41 \<and> get_cbor_map_string (stk e) m 1 (n - 1) 0x08 = Some None"
    using fl unfolding m_def by (elim exE conjE) (drule precheck_flags, auto)
  have "fst (fido2_wait_for_user_presence e cid d) = 0x00" by (simp add: w)
  note conjI [OF this conjI [OF rp [folded m_def] conjI [OF u [folded m_def] conjI [OF cdh [folded m_def]
    conjI [OF c(1) [unfolded ch] conjI [OF c(2) [unfolded ch] conjI [OF c(3) conjI [OF c(4) [unfolded ch]
    conjI [OF k conjI [OF c(8) conjI [OF c(5) f]]]]]]]]]]]
  then show ?thesis by (intro exI)
qed

lemma make_credential_registers_witness:
  "\<exists>r d' k. cmd_make_credential touch_env 1001 1 (request_dev 1 mc_kvs blank_hw) = Some (r, d') \<and>
     slots (fmem (chip d')) = [Some k, None, None, None, None] \<and> hd r = 0x00"
proof -
  obtain r d' where r: "cmd_make_credential touch_env 1001 1 (request_dev 1 mc_kvs blank_hw) = Some (r, d')" "length r \<noteq> 1"
    by (rule make_run [OF touch_like_env])
  have "store_ok (fmem (chip (request_dev 1 mc_kvs blank_hw)))" by (simp add: blank_store)
  from make_credential_registers [OF r this touch_env_sizes(1)] obtain k x where
    "slots (fmem (chip d')) = (slots (fmem blank_hw))[0 := Some k]" "r = 0x00 # x"
    unfolding request_dev blank_slot by (elim exE conjE) (simp del: enc.simps)
  then show ?thesis using r(1)
    by (intro exI [of _ r] exI [of _ d'] exI [of _ k]) (simp add: blank_store numeral_eq_Suc)
qed

text \<open>
  A successful GetAssertion, with the state in which it calls the library: \<open>d1\<close> is the state after the selection of
  the credential, and with the user-present bit the wait for the user comes before the call.
\<close>

definition asserting :: "env \<Rightarrow> u32 \<Rightarrow> u8 \<Rightarrow> dev \<Rightarrow> dev" where
  "asserting e cid flags d1 =
    (let d2 = (if bit flags 0 then snd (fido2_wait_for_user_presence e cid d1) else d1)
     in fido2_send_keepalive e (g_current_cid d2) 1 d2)"

lemma get_assertion_proves:
  assumes "cmd_get_assertion e n cid d = Some (r, d')" "length r \<noteq> 1"
    and "ecc_sizes e" "sizes_ok (fmem (chip d))"
  defines "m \<equiv> req_mem e d"
  shows "\<exists>rp cdh al pa k flags rk w d1.
    get_cbor_map_value (stk e) m 1 (n - 1) 0x01 = Some rp \<and>
    get_cbor_map_string (stk e) m 1 (n - 1) 0x02 = Some cdh \<and>
    get_cbor_map_value (stk e) m 1 (n - 1) 0x03 = Some al \<and>
    get_cbor_map_string (stk e) m 1 (n - 1) 0x06 = Some pa \<and>
    k \<in> set (creds (fmem (chip d))) \<and>
    rk_rp_id_hash k = rp_id_hash_of m (map_option (\<lambda>(p, n, _). (p, n)) rp) \<and>
    (\<forall>a l t. al = Some (a, l, t) \<longrightarrow> (t = 0x80 \<and> l = 0) \<or> (\<exists>j. j + 32 \<le> n \<and> bytes m j 32 = rk_credential_id k)) \<and>
    ga_select m n (rk_rp_id_hash k) cdh al d = (Some (rk, w), d1) \<and>
    r = 0x00 # enc (ga_response k (auth_data37 (rk_rp_id_hash k) flags)
      (ecdsa_sig_to_der (fst (uECC_sign e (rk_private_key k)
        (sha256_of (auth_data37 (rk_rp_id_hash k) flags @ signed_cdh m cdh)) (asserting e cid flags d1)))) (unat w)) \<and>
    flags \<in> {0x00, 0x01, 0x04, 0x05} \<and>
    (bit flags 0 \<longrightarrow> user_touched e d) \<and>
    (bit flags 2 \<longrightarrow> (\<exists>a l. pa = Some (a, l) \<and> uv_valid d m cdh a l)) \<and>
    fmem (chip d') = fmem (chip d)"
  using assms(1)
proof (rule assertion_cases)
  assume "length r = 1"
  then show ?thesis using assms(2) by simp
next
  fix d1 cdh al rk w pa flags om and rp :: "(nat \<times> nat \<times> u8) option"
  let ?h = "rp_id_hash_of m (map_option (\<lambda>(p, n, _). (p, n)) rp)"
  assume rp: "get_cbor_map_value (stk e) (req_mem e d) 1 (n - 1) 0x01 = Some rp"
    and cdh: "get_cbor_map_string (stk e) (req_mem e d) 1 (n - 1) 0x02 = Some cdh"
    and al: "get_cbor_map_value (stk e) (req_mem e d) 1 (n - 1) 0x03 = Some al"
    and sel: "ga_select (req_mem e d) n (rp_id_hash_of (req_mem e d) (map_option (\<lambda>(p, n, _). (p, n)) rp)) cdh al d = (Some (rk, w), d1)"
    and pa: "get_cbor_map_string (stk e) (req_mem e d) 1 (n - 1) 0x06 = Some pa"
    and fl: "ga_uv_flags d1 (req_mem e d) cdh pa = Some flags"
    and run: "(ga_options (req_mem e d) n d1 om pa = Inr True \<and>
       (r, d') = user_presence e cid (ga_finish e (req_mem e d)
         (rp_id_hash_of (req_mem e d) (map_option (\<lambda>(p, n, _). (p, n)) rp)) flags cdh rk w) d1) \<or>
     (ga_options (req_mem e d) n d1 om pa = Inr False \<and>
       (r, d') = ga_finish e (req_mem e d)
         (rp_id_hash_of (req_mem e d) (map_option (\<lambda>(p, n, _). (p, n)) rp)) (flags AND NOT 0x01) cdh rk w d1)"
  note s = select_effect [OF sel length_rp_hash, folded m_def]
  let ?k = "read_rk (fmem (chip d)) rk"
  have k: "?k \<in> set (creds (fmem (chip d)))" by (rule read_key [OF s(1,2)])
  have kh: "rk_rp_id_hash ?k = ?h" using s(3) by (simp add: read_rk_def)
  from finished [OF sel fl run assms(2) length_rp_hash, folded m_def] obtain g d2 where g: "ga_finish e m ?h g cdh rk w d2 = (r, d')"
    "fmem (chip d2) = fmem (chip d)" "d2 = (if bit g 0 then snd (fido2_wait_for_user_presence e cid d1) else d1)"
    "g \<in> {0x00, 0x01, 0x04, 0x05}" "bit g 0 \<longrightarrow> user_touched e d"
    "bit g 2 \<longrightarrow> (\<exists>a l. pa = Some (a, l) \<and> uv_valid d m cdh a l)" by metis
  have b: "ga_build_response e rk (auth_data37 ?h g) (signed_cdh m cdh) w d2 = (r, d')"
    using g(1) by (simp add: ga_finish_def signed_cdh_def)
  have "fido2_send_keepalive e (g_current_cid d2) 1 d2 = asserting e cid g d1" by (simp add: asserting_def g(3) Let_def)
  note b' = build_effect [OF b assms(3) length_auth37 [OF length_rp_hash] length_signed_cdh, unfolded this g(2)]
  have r: "r = 0x00 # enc (ga_response ?k (auth_data37 (rk_rp_id_hash ?k) g)
      (ecdsa_sig_to_der (fst (uECC_sign e (rk_private_key ?k)
        (sha256_of (auth_data37 (rk_rp_id_hash ?k) g @ signed_cdh m cdh)) (asserting e cid g d1)))) (unat w))"
    "core d' = core d2"
    by (rule b' [OF k assms(4)], simp only: kh)+
  have al': "\<forall>a l t. al = Some (a, l, t) \<longrightarrow> (t = 0x80 \<and> l = 0) \<or> (\<exists>j. j + 32 \<le> n \<and> bytes m j 32 = rk_credential_id ?k)"
    using selected_allowed sel unfolding m_def by blast
  have ch: "fmem (chip d') = fmem (chip d)" using core_fields [OF r(2)] g(2) by simp
  have sel': "ga_select m n (rk_rp_id_hash ?k) cdh al d = (Some (rk, w), d1)" using sel unfolding kh m_def .
  note conjI [OF rp [folded m_def] conjI [OF cdh [folded m_def] conjI [OF al [folded m_def] conjI [OF pa [folded m_def]
    conjI [OF k conjI [OF kh conjI [OF al' conjI [OF sel' conjI [OF r(1) conjI [OF g(4) conjI [OF g(5) conjI [OF g(6) ch]]]]]]]]]]]]
  then show ?thesis by (intro exI)
qed




text \<open>C29: a deleteCredential request as CTAP 2.1 defines it, with the credential id under the text
  key \<open>id\<close> of the descriptor, never deletes anything: the code looks the id up under the integer key 1,
  and answers \<open>CTAP2_ERR_NO_CREDENTIALS\<close>, or \<open>CTAP2_ERR_PIN_AUTH_INVALID\<close>, whatever is stored.\<close>

theorem delete_credential_fails:
  assumes "delete_request e (req_mem e d) n kvs"
  shows "\<exists>s \<in> {0x2E, 0x33}. cmd_cred_mgmt e n d = Some ([s], d)"
proof -
  have mp: "map_at (stk e) (req_mem e d) 1 (n - 1) kvs" and k: "map_of kvs (CUint 1) = Some (CUint 6)"
    using assms by (auto simp: delete_request_def)
  have sub: "get_cbor_map_int (stk e) (req_mem e d) 1 (n - 1) 1 = Some (Some 6)"
    using get_cbor_map_int_spec [OF mp, of 1] k by simp
  obtain ok where ok: "cm_auth_ok e (req_mem e d) n 6 d = Some ok" by (rule auth_returns [OF mp])
  obtain v where v: "get_cbor_map_value (stk e) (req_mem e d) 1 (n - 1) 2 = Some v"
    using get_cbor_map_value_spec [OF mp, of 2] by (auto split: option.splits)
  show ?thesis
    using ok v delete_not_found [OF assms] by (cases ok) (simp_all add: cmd_cred_mgmt_def sub Let_def del: One_nat_def)
qed

lemma delete_credential_fails_witness:
  "\<exists>r d'. cmd_cred_mgmt touch_env 1001 (request_dev 10 (del_kvs (rk_credential_id stored_key)) stored_hw) = Some (r, d') \<and>
     creds (fmem (chip d')) = [stored_key]"
proof -
  let ?kvs = "del_kvs (rk_credential_id stored_key)"
  have "map_at (stk touch_env) (req_mem touch_env (request_dev 10 ?kvs stored_hw)) 1 (1001 - 1) ?kvs"
    by (rule request_map_at)
      (simp_all add: del_kvs_def stored_key_def new_rk_def Let_def touch_env_def quiet_env_def length_head_nat)
  then have r: "delete_request touch_env (req_mem touch_env (request_dev 10 ?kvs stored_hw)) 1001 ?kvs"
    by (simp add: delete_request_def) (simp add: del_kvs_def)
  obtain s where "cmd_cred_mgmt touch_env 1001 (request_dev 10 ?kvs stored_hw) = Some ([s], request_dev 10 ?kvs stored_hw)"
    using delete_credential_fails [OF r] by blast
  then show ?thesis by (simp add: stored(3))
qed

text \<open>C28: a factory reset erases everything but is never acknowledged: \<open>flash_factory_reset\<close>
  returns with interrupts disabled, so the keepalive armed by the presence check is never completed, the
  response is dropped, and all the host ever reads is that keepalive.\<close>

theorem reset_never_acknowledged:
  assumes "cmd_reset e cid d = ([0x00], d1)"
  shows "slots (fmem (chip d1)) = replicate 5 None \<and> pin_load (chip d1) = None \<and>
    (\<exists>k. sent (ctap_send_response e cid 0x90 (Some [0x00]) 1 d1) = sent d1 @ replicate k (keepalive_packet cid 1))"
  using reset_unanswered(2) [OF assms] by (simp add: reset_unanswered(1) [OF assms] factory_reset_effect)

lemma reset_never_acknowledged_witness:
  "\<exists>d1 k. cmd_reset touch_env 1 (request_dev 7 [] stored_hw) = ([0x00], d1) \<and>
     sent (ctap_send_response touch_env 1 0x90 (Some [0x00]) 1 d1) = sent d1 @ replicate k (keepalive_packet 1 1)"
proof -
  let ?d = "(request_dev 7 [] stored_hw)\<lparr>tick_no := 1\<rparr>"
  obtain d1 where w: "fido2_wait_for_user_presence touch_env 1 ?d = (0x00, d1)" "chip d1 = stored_hw"
    by (rule touch_granted [OF touch_like_env, of ?d]) (simp_all add: request_dev_def dev0_def stored(6))
  have t: "systick touch_env 0 = 0" by (simp add: touch_env_def quiet_env_def)
  have "cmd_reset touch_env 1 (request_dev 7 [] stored_hw) = ([0x00], d1\<lparr>chip := flash_factory_reset stored_hw\<rparr>)"
    using w by (simp add: cmd_reset_def user_presence_def t)
  with reset_never_acknowledged [OF this] show ?thesis by blast
qed

end
