(* ===== verification/Hid.thy ===== *)
theory Hid
  imports Fido2
begin

text \<open>
  The CTAPHID layer and the main loop of \<open>usb_hid_fido2/main.c\<close>: reassembly of a message from an
  initialisation packet and continuation packets, the commands the layer answers itself, and one
  iteration of \<open>while (1)\<close>.

  \<^item> A packet is its 64-byte buffer and the received length; \<open>RX_LEN\<close> is at most 64, the size of an
    endpoint's packet.
  \<^item> \<open>None\<close> means that the iteration never ends (see \<open>skip_cbor_item\<close>).
\<close>

section \<open>ProcessCTAPHID\<close>

text \<open>An initialisation packet starts a message, whatever was in progress.\<close>

definition hid_init_packet :: "u8 list \<Rightarrow> nat \<Rightarrow> u32 \<Rightarrow> dev \<Rightarrow> dev" where
  "hid_init_packet buf len cid d =
    (let payload_len = be16 (buf ! 5) (buf ! 6);
         chunk_len = len - 7;
         n = (if payload_len < chunk_len then payload_len else chunk_len)
     in d\<lparr>ctap_cid := cid, ctap_cmd := buf ! 4, ctap_expected_len := payload_len, ctap_req_len := n,
          ctap_req_buf := blit (ctap_req_buf d) 0 (take n (drop 7 buf)), ctap_seq := 0\<rparr>)"

definition hid_cont_packet :: "u8 list \<Rightarrow> nat \<Rightarrow> dev \<Rightarrow> dev" where
  "hid_cont_packet buf len d =
    (let chunk_len = len - 5; remain = ctap_expected_len d - ctap_req_len d;
         copy_len = (if remain < chunk_len then remain else chunk_len)
     in d\<lparr>ctap_seq := ctap_seq d + 1,
          ctap_req_buf := blit (ctap_req_buf d) (ctap_req_len d) (take copy_len (drop 5 buf)),
          ctap_req_len := ctap_req_len d + copy_len\<rparr>)"

text \<open>The first half of \<open>ProcessCTAPHID\<close>: \<open>True\<close> when control reaches the completeness test.\<close>

definition hid_receive :: "u8 list \<Rightarrow> nat \<Rightarrow> dev \<Rightarrow> bool \<times> dev" where
  "hid_receive buf len d =
    (if len < 5 then (False, d)
     else let cid = pkt_cid buf; d = d\<lparr>g_current_cid := cid\<rparr>
          in if buf ! 4 = 0x91 then (False, d\<lparr>cancel_requested := True\<rparr>)
             else if buf ! 4 AND 0x80 \<noteq> 0 then
               (if len < 7 then (False, d)
                else if 1024 < be16 (buf ! 5) (buf ! 6) then (False, d)
                else (True, hid_init_packet buf len cid d))
             else if cid \<noteq> ctap_cid d \<or> ctap_expected_len d = 0 then (False, d)
             else if buf ! 4 \<noteq> ctap_seq d then (False, d\<lparr>ctap_expected_len := 0\<rparr>)
             else (True, hid_cont_packet buf len d))"

definition hid_init_reply :: "env \<Rightarrow> u32 \<Rightarrow> dev \<Rightarrow> dev" where
  "hid_init_reply e cid d =
    (let (resp_cid, d) = (if cid = 0xFFFFFFFF then (allocated_cid d, d)
                          else (cid, d\<lparr>allocated_cid := cid\<rparr>))
     in ctap_send_response e cid (ctap_cmd d)
          (Some (init_payload (take 8 (ctap_req_buf d)) resp_cid)) 17 d)"

text \<open>The second half: the message is complete.\<close>

definition hid_dispatch :: "env \<Rightarrow> u32 \<Rightarrow> dev \<Rightarrow> dev option" where
  "hid_dispatch e cid d =
    (let cmd = ctap_cmd d
     in map_option (\<lambda>d. d\<lparr>ctap_expected_len := 0, ctap_cmd := 0\<rparr>)
          (if cmd = 0x90 then
             map_option (\<lambda>(resp, d). ctap_send_response e cid cmd (Some resp) (length resp) d)
               (fido2_process_cbor e (ctap_expected_len d) cid d)
           else if cmd = 0x86 then Some (hid_init_reply e cid d)
           else if cmd = 0x81 then
             Some (ctap_send_response e cid cmd (Some (ctap_req_buf d)) (ctap_expected_len d) d)
           else if cmd = 0x88 then Some (ctap_send_response e cid cmd (Some []) 0 d)
           else if cmd = 0x84 then Some (ctap_send_response e cid cmd (Some []) 0 d)
           else Some (ctap_send_response e cid 0xBF (Some [0x01]) 1 d)))"

definition ProcessCTAPHID :: "env \<Rightarrow> u8 list \<Rightarrow> nat \<Rightarrow> dev \<Rightarrow> dev option" where
  "ProcessCTAPHID e buf len d =
    (let (go, d) = hid_receive buf len d
     in if go \<and> ctap_req_len d = ctap_expected_len d \<and> ctap_cmd d AND 0x80 \<noteq> 0
        then hid_dispatch e (pkt_cid buf) d else Some d)"

section \<open>The main loop\<close>

text \<open>One iteration: the packet at \<open>DealPtr\<close> is processed first and removed afterwards.\<close>

definition main_packet :: "env \<Rightarrow> dev \<Rightarrow> dev option" where
  "main_packet e d =
    (if RemainPack (bus d) \<noteq> 0
     then (let (pbuf, pkg_len) = ring_pkt (bus d)
           in map_option (set_bus ring_drop) (ProcessCTAPHID e pbuf pkg_len d))
     else Some d)"

definition main_set_report :: "env \<Rightarrow> dev \<Rightarrow> dev option" where
  "main_set_report e d =
    (if HID_Set_Report_Flag (bus d)
     then map_option (set_bus (\<lambda>u. u\<lparr>HID_Set_Report_Flag := False\<rparr>))
            (ProcessCTAPHID e (HID_Report_Buffer (bus d)) 64 d)
     else Some d)"

definition main_iteration :: "env \<Rightarrow> dev \<Rightarrow> dev option" where
  "main_iteration e d = do {
     d \<leftarrow> main_packet e (elapse e d);
     d \<leftarrow> main_set_report e d;
     Some (set_bus ring_restart d)
   }"

inductive reach :: "env \<Rightarrow> hw \<Rightarrow> dev \<Rightarrow> bool" for e h where
  boot: "reach e h (dev0 h)"
| iterate: "reach e h d \<Longrightarrow> main_iteration e d = Some d' \<Longrightarrow> reach e h d'"

end
