(* ===== verification/HidSpec.thy ===== *)
theory HidSpec
  imports Hid Fido2Spec
begin

text \<open>
  The CTAPHID layer: the reassembly buffer is never written out of bounds and no finished message is
  left behind, in every reachable state; a message sent in packets is handed on as it was; and PING
  comes back as it went.
\<close>

section \<open>The invariant of the reassembly\<close>

definition hid_ok :: "dev \<Rightarrow> bool" where
  "hid_ok d \<longleftrightarrow> length (ctap_req_buf d) = 1024 \<and> ctap_expected_len d \<le> 1024 \<and>
    (ctap_expected_len d = 0 \<or> ctap_req_len d < ctap_expected_len d \<and> ctap_cmd d AND 0x80 \<noteq> 0)"

text \<open>While a packet is being processed the message may be complete.\<close>

definition hid_full :: "dev \<Rightarrow> bool" where
  "hid_full d \<longleftrightarrow> length (ctap_req_buf d) = 1024 \<and> ctap_expected_len d \<le> 1024 \<and>
    ctap_req_len d \<le> ctap_expected_len d \<and> ctap_cmd d AND 0x80 \<noteq> 0"

lemma hid_ok_cong: "hid d' = hid d \<Longrightarrow> hid_ok d' = hid_ok d"
  by (simp add: hid_ok_def hid_def)

lemma hid_bus [simp]: "hid (set_bus f d) = hid d"
  by (rule hid_core) (simp add: frame_simps)

text \<open>The packets that change nothing, and the two that do.\<close>

lemma receive_cases:
  assumes "hid_receive buf len d = (go, d')"
  obtains "\<not> go" "hid d' = hid d" | "\<not> go" "hid d' = hid (d\<lparr>ctap_expected_len := 0\<rparr>)"
  | "go" "d' = hid_init_packet buf len (pkt_cid buf) (d\<lparr>g_current_cid := pkt_cid buf\<rparr>)"
    "be16 (buf ! 5) (buf ! 6) \<le> 1024" "buf ! 4 AND 0x80 \<noteq> 0"
  | "go" "d' = hid_cont_packet buf len (d\<lparr>g_current_cid := pkt_cid buf\<rparr>)" "ctap_expected_len d \<noteq> 0"
proof -
  let ?d = "d\<lparr>g_current_cid := pkt_cid buf\<rparr>" and ?n = "be16 (buf ! 5) (buf ! 6)"
  consider (short) "len < 5" | (cancel) "\<not> len < 5" "buf ! 4 = 0x91"
    | (bad_init) "\<not> len < 5" "buf ! 4 \<noteq> 0x91" "buf ! 4 AND 0x80 \<noteq> 0" "len < 7 \<or> 1024 < ?n"
    | (init) "\<not> len < 5" "buf ! 4 \<noteq> 0x91" "buf ! 4 AND 0x80 \<noteq> 0" "\<not> len < 7" "\<not> 1024 < ?n"
    | (other) "\<not> len < 5" "buf ! 4 \<noteq> 0x91" "buf ! 4 AND 0x80 = 0" "pkt_cid buf \<noteq> ctap_cid d \<or> ctap_expected_len d = 0"
    | (bad_seq) "\<not> len < 5" "buf ! 4 \<noteq> 0x91" "buf ! 4 AND 0x80 = 0" "\<not> (pkt_cid buf \<noteq> ctap_cid d \<or> ctap_expected_len d = 0)"
        "buf ! 4 \<noteq> ctap_seq d"
    | (cont) "\<not> len < 5" "buf ! 4 \<noteq> 0x91" "buf ! 4 AND 0x80 = 0" "\<not> (pkt_cid buf \<noteq> ctap_cid d \<or> ctap_expected_len d = 0)"
        "buf ! 4 = ctap_seq d"
    by argo
  then show thesis
  proof cases
    case short
    then show thesis using assms by (intro that(1)) (auto simp: hid_receive_def)
  next
    case cancel
    then show thesis using assms by (intro that(1)) (auto simp: hid_receive_def Let_def)
  next
    case bad_init
    then have "(go, d') = (False, ?d)" using assms by (simp add: hid_receive_def Let_def split: if_splits)
    then show thesis by (intro that(1)) simp_all
  next
    case init
    then have "(go, d') = (True, hid_init_packet buf len (pkt_cid buf) ?d)"
      using assms by (simp add: hid_receive_def Let_def)
    then show thesis using init by (intro that(3)) simp_all
  next
    case other
    then have "(go, d') = (False, ?d)" using assms by (auto simp: hid_receive_def Let_def)
    then show thesis by (intro that(1)) simp_all
  next
    case bad_seq
    then have "(go, d') = (False, ?d\<lparr>ctap_expected_len := 0\<rparr>)"
      using assms by (simp add: hid_receive_def Let_def)
    then show thesis by (intro that(2)) (simp_all add: hid_def)
  next
    case cont
    then have "(go, d') = (True, hid_cont_packet buf len ?d)"
      using assms by (simp add: hid_receive_def Let_def)
    then show thesis using cont by (intro that(4)) simp_all
  qed
qed

lemma receive_ok:
  assumes "hid_ok d" "hid_receive buf len d = (go, d')"
  shows "if go then hid_full d' else hid_ok d'"
  using assms(2)
proof (cases rule: receive_cases)
  case 1
  then show ?thesis using assms(1) hid_ok_cong [OF 1(2)] by simp
next
  case 2
  then show ?thesis using assms(1) hid_ok_cong [OF 2(2)] by (simp add: hid_ok_def)
next
  case 3
  define n where "n = (if be16 (buf ! 5) (buf ! 6) < len - 7 then be16 (buf ! 5) (buf ! 6) else len - 7)"
  have n: "n \<le> be16 (buf ! 5) (buf ! 6)" by (simp add: n_def)
  have l: "length (ctap_req_buf d) = 1024" using assms(1) by (simp add: hid_ok_def)
  have "length (take n (drop 7 buf)) \<le> n" by simp
  then have "0 + length (take n (drop 7 buf)) \<le> length (ctap_req_buf d)" using n 3(3) l by linarith
  from length_blit [OF this] have "length (blit (ctap_req_buf d) 0 (take n (drop 7 buf))) = 1024"
    using l by simp
  moreover have "d' = (d\<lparr>g_current_cid := pkt_cid buf\<rparr>)\<lparr>ctap_cid := pkt_cid buf, ctap_cmd := buf ! 4,
      ctap_expected_len := be16 (buf ! 5) (buf ! 6), ctap_req_len := n,
      ctap_req_buf := blit (ctap_req_buf d) 0 (take n (drop 7 buf)), ctap_seq := 0\<rparr>"
    unfolding 3(2) hid_init_packet_def Let_def n_def [symmetric] by simp
  ultimately show ?thesis using 3(1,3,4) n by (simp add: hid_full_def)
next
  case 4
  define n where "n = (if ctap_expected_len d - ctap_req_len d < len - 5 then ctap_expected_len d - ctap_req_len d else len - 5)"
  have ok: "ctap_req_len d < ctap_expected_len d" "ctap_expected_len d \<le> 1024" "length (ctap_req_buf d) = 1024"
    "ctap_cmd d AND 0x80 \<noteq> 0" using assms(1) 4(3) by (auto simp: hid_ok_def)
  have n: "n \<le> ctap_expected_len d - ctap_req_len d" by (simp add: n_def)
  have "length (take n (drop 5 buf)) \<le> n" by simp
  then have "ctap_req_len d + length (take n (drop 5 buf)) \<le> length (ctap_req_buf d)" using n ok by linarith
  from length_blit [OF this] have "length (blit (ctap_req_buf d) (ctap_req_len d) (take n (drop 5 buf))) = 1024"
    using ok by simp
  moreover have "d' = (d\<lparr>g_current_cid := pkt_cid buf\<rparr>)\<lparr>ctap_seq := ctap_seq d + 1,
      ctap_req_buf := blit (ctap_req_buf d) (ctap_req_len d) (take n (drop 5 buf)),
      ctap_req_len := ctap_req_len d + n\<rparr>"
    unfolding 4(2) hid_cont_packet_def Let_def by (simp add: n_def)
  ultimately show ?thesis using 4(1) ok n by (simp add: hid_full_def)
qed

lemma init_reply_hid [simp]: "hid (hid_init_reply e cid d) = hid d"
  by (simp add: hid_init_reply_def Let_def)

lemma dispatch_hid:
  assumes "hid_dispatch e cid d = Some d'"
  obtains d1 where "d' = d1\<lparr>ctap_expected_len := 0, ctap_cmd := 0\<rparr>" "hid d1 = hid d"
proof -
  let ?r = "\<lambda>d1. d' = d1\<lparr>ctap_expected_len := 0, ctap_cmd := 0\<rparr>"
  consider "ctap_cmd d = 0x90" | "ctap_cmd d = 0x86" | "ctap_cmd d \<noteq> 0x90" "ctap_cmd d \<noteq> 0x86" by blast
  then have "\<exists>d1. ?r d1 \<and> hid d1 = hid d"
  proof cases
    case 1
    then obtain resp d1 where p: "fido2_process_cbor e (ctap_expected_len d) cid d = Some (resp, d1)"
      "?r (ctap_send_response e cid 0x90 (Some resp) (length resp) d1)"
      using assms by (auto simp: hid_dispatch_def Let_def)
    then show ?thesis using hid_process [OF p(1)] hid_io by (intro exI conjI) (assumption, simp)
  next
    case 2
    then have "?r (hid_init_reply e cid d)" using assms by (simp add: hid_dispatch_def)
    then show ?thesis by (intro exI conjI) (assumption, simp)
  next
    case 3
    then have "\<exists>c p n. ?r (ctap_send_response e cid c p n d)"
      using assms by (auto simp: hid_dispatch_def Let_def split: if_splits)
    then show ?thesis using hid_io by auto
  qed
  then show thesis using that by blast
qed

lemma dispatch_ok:
  assumes "hid_dispatch e cid d = Some d'" "hid_full d"
  shows "hid_ok d'"
  using assms(1)
proof (rule dispatch_hid)
  fix d1
  assume d1: "d' = d1\<lparr>ctap_expected_len := 0, ctap_cmd := 0\<rparr>" "hid d1 = hid d"
  then have "ctap_req_buf d1 = ctap_req_buf d" by (simp add: hid_def)
  then show "hid_ok d'" using d1 assms(2) by (simp add: hid_ok_def hid_full_def)
qed

lemma process_ok:
  assumes "hid_ok d" "ProcessCTAPHID e buf len d = Some d'"
  shows "hid_ok d'"
proof -
  obtain go d1 where r: "hid_receive buf len d = (go, d1)" by fastforce
  note ok = receive_ok [OF assms(1) r]
  show ?thesis
  proof (cases "go \<and> ctap_req_len d1 = ctap_expected_len d1 \<and> ctap_cmd d1 AND 0x80 \<noteq> 0")
    case True
    then show ?thesis using assms(2) r ok dispatch_ok by (auto simp: ProcessCTAPHID_def)
  next
    case False
    then have "d' = d1" using assms(2) r by (auto simp: ProcessCTAPHID_def)
    then show ?thesis using False ok by (auto simp: hid_ok_def hid_full_def split: if_splits)
  qed
qed

lemma iteration_ok:
  assumes "hid_ok d" "main_iteration e d = Some d'"
  shows "hid_ok d'"
proof -
  obtain d1 d2 where d1: "main_packet e (elapse e d) = Some d1" and d2: "main_set_report e d1 = Some d2"
    and d': "d' = set_bus ring_restart d2"
    using assms(2) by (auto simp: main_iteration_def bind_eq_Some_conv)
  have cong: "hid_ok (set_bus f x) = hid_ok x" for f x using hid_ok_cong [of "set_bus f x" x] by simp
  have "hid_ok (elapse e d)" using assms(1) hid_ok_cong [of "elapse e d" d] by simp
  then have "hid_ok d1" using d1 process_ok
    by (auto simp: main_packet_def cong split_beta split: if_splits)
  then have "hid_ok d2" using d2 process_ok by (auto simp: main_set_report_def cong split: if_splits)
  then show ?thesis by (simp add: d' cong)
qed

lemma reach_ok: "reach e h d \<Longrightarrow> hid_ok d"
  by (induction rule: reach.induct) (auto simp: iteration_ok, simp add: hid_ok_def dev0_def)

section \<open>Messages in packets\<close>

text \<open>Packets processed one after the other, and the state without the reassembly.\<close>

primrec deliver :: "env \<Rightarrow> u8 list list \<Rightarrow> dev \<Rightarrow> dev option" where
  "deliver e [] d = Some d"
| "deliver e (p # ps) d = Option.bind (ProcessCTAPHID e p 64 d) (deliver e ps)"

definition rest :: "dev \<Rightarrow> dev" where
  "rest d = d\<lparr>ctap_req_buf := [], ctap_req_len := 0, ctap_expected_len := 0, ctap_seq := 0,
     ctap_cid := 0, ctap_cmd := 0, g_current_cid := 0\<rparr>"

lemma rest_fields:
  assumes "rest d' = rest d"
  shows "chip d' = chip d \<and> bus d' = bus d \<and> sent d' = sent d"
proof -
  have "chip (rest x) = chip x" "bus (rest x) = bus x" "sent (rest x) = sent x" for x
    by (simp_all add: rest_def)
  then show ?thesis using assms by metis
qed

definition assembling :: "u32 \<Rightarrow> u8 \<Rightarrow> u8 list \<Rightarrow> nat \<Rightarrow> nat \<Rightarrow> dev \<Rightarrow> bool" where
  "assembling cid cmd p off s d \<longleftrightarrow>
    ctap_cid d = cid \<and> ctap_cmd d = cmd \<and> ctap_expected_len d = length p \<and> ctap_req_len d = off \<and>
    ctap_seq d = word_of_nat s \<and> take off (ctap_req_buf d) = take off p \<and> length (ctap_req_buf d) = 1024"

lemma small_seq: "s < 128 \<Longrightarrow> (word_of_nat s :: u8) AND 0x80 = 0 \<and> (word_of_nat s :: u8) \<noteq> 0x91"
proof -
  assume s: "s < 128"
  then have "word_of_nat s = take_bit 7 (word_of_nat s :: u8)"
    by (simp add: take_bit_of_nat take_bit_nat_eq_self)
  moreover have "take_bit 7 (x :: u8) AND 0x80 = 0" for x
  proof (rule bit_word_eqI)
    have m: "(0x80 :: u8) = 2 ^ 7" by simp
    show "bit (take_bit 7 x AND 0x80) n = bit (0 :: u8) n" for n
      unfolding m bit_and_iff bit_exp_iff bit_take_bit_iff by auto
  qed
  ultimately have a: "(word_of_nat s :: u8) AND 0x80 = 0" by metis
  then show ?thesis by auto
qed

lemma cont_packet_state: "hid_cont_packet buf 64 d =
    (let n = min 59 (ctap_expected_len d - ctap_req_len d)
     in d\<lparr>ctap_seq := ctap_seq d + 1,
          ctap_req_buf := blit (ctap_req_buf d) (ctap_req_len d) (take n (drop 5 buf)),
          ctap_req_len := ctap_req_len d + n\<rparr>)"
  by (auto simp: hid_cont_packet_def Let_def min_def)

lemma deliver_one: "Option.bind x (deliver e []) = x"
  by (cases x) simp_all

lemma receive_cont:
  assumes "assembling cid cmd p off s d" "off < length p" "length p \<le> 1024" "s < 128"
  defines "c \<equiv> min 59 (length p - off)"
  obtains d' where "hid_receive (cont_packet cid (word_of_nat s) (Some p) off (length p)) 64 d = (True, d')"
    "assembling cid cmd p (off + c) (s + 1) d'" "rest d' = rest d"
proof -
  let ?q = "cont_packet cid (word_of_nat s) (Some p) off (length p)"
  note a = assms(1) [unfolded assembling_def]
  note f = cont_packet_fields [OF less_imp_le [OF assms(2)], of cid "word_of_nat s"]
  have q4: "?q ! 4 AND 0x80 = 0" "?q ! 4 \<noteq> 0x91" "?q ! 4 = ctap_seq d"
    using small_seq [OF assms(4)] a by (simp_all add: f)
  have e0: "ctap_expected_len d \<noteq> 0" using a assms(2) by auto
  define d' where "d' = hid_cont_packet ?q 64 (d\<lparr>g_current_cid := cid\<rparr>)"
  have r: "hid_receive ?q 64 d = (True, d')"
    using q4 e0 a f(1) by (simp add: hid_receive_def Let_def d'_def)
  have cl: "min 59 (ctap_expected_len d - ctap_req_len d) = c" using a by (simp add: c_def)
  have "d' = (d\<lparr>g_current_cid := cid\<rparr>)\<lparr>ctap_seq := ctap_seq d + 1,
      ctap_req_buf := blit (ctap_req_buf d) (ctap_req_len d) (take c (drop 5 ?q)), ctap_req_len := ctap_req_len d + c\<rparr>"
    unfolding d'_def cont_packet_state Let_def using cl by simp
  moreover have t: "take c (drop 5 ?q) = take c (drop off p)"
    using f(3) by (simp add: c_def min_def)
  moreover have l: "length (take c (drop off p)) = c" by (simp add: c_def)
  ultimately have d': "d' = (d\<lparr>g_current_cid := cid\<rparr>)\<lparr>ctap_seq := ctap_seq d + 1,
      ctap_req_buf := blit (ctap_req_buf d) off (take c (drop off p)), ctap_req_len := off + c\<rparr>"
    using a by simp
  have oc: "off + c \<le> 1024" using assms(2,3) by (simp add: c_def)
  have "take (off + c) (blit (ctap_req_buf d) off (take c (drop off p))) = take (off + c) p"
    using take_blit [of off "ctap_req_buf d" "take c (drop off p)"] a oc l by (simp add: take_add)
  moreover have "length (blit (ctap_req_buf d) off (take c (drop off p))) = 1024"
    using a oc l by (subst length_blit) simp_all
  moreover have "ctap_seq d + 1 = word_of_nat (s + 1)" using a by (simp add: add.commute)
  ultimately have "assembling cid cmd p (off + c) (s + 1) d'"
    using a by (simp add: d' assembling_def)
  moreover have "rest d' = rest d" by (simp add: d' rest_def)
  ultimately show thesis using r by (rule that [rotated])
qed

lemma deliver_conts:
  "assembling cid cmd p off s d \<Longrightarrow> off < length p \<Longrightarrow> length p \<le> 1024 \<Longrightarrow> cmd AND 0x80 \<noteq> 0 \<Longrightarrow>
    length p - off \<le> 59 * (128 - s) \<Longrightarrow> s \<le> 128 \<Longrightarrow>
    \<exists>d1 s'. deliver e (cont_packets cid (word_of_nat s) (Some p) off (length p)) d = hid_dispatch e cid d1 \<and>
      assembling cid cmd p (length p) s' d1 \<and> rest d1 = rest d"
proof (induction "length p - off" arbitrary: off s d rule: less_induct)
  case less
  define c where "c = min 59 (length p - off)"
  have s: "s < 128" using less.prems by (cases "s = 128") auto
  have c: "(if 59 < length p - off then 59 else length p - off) = c" by (auto simp: c_def)
  have cp: "cont_packets cid (word_of_nat s) (Some p) off (length p) =
      cont_packet cid (word_of_nat s) (Some p) off (length p) #
      cont_packets cid (word_of_nat (s + 1)) (Some p) (off + c) (length p)"
    using less.prems(2) by (subst cont_packets.simps) (simp add: c add.commute)
  obtain d' where d': "hid_receive (cont_packet cid (word_of_nat s) (Some p) off (length p)) 64 d = (True, d')"
    "assembling cid cmd p (off + c) (s + 1) d'" "rest d' = rest d"
    by (rule receive_cont [OF less.prems(1-3) s, folded c_def])
  have cid: "pkt_cid (cont_packet cid (word_of_nat s) (Some p) off (length p)) = cid"
    using cont_packet_fields(1) [of off p cid "word_of_nat s"] less.prems(2) by simp
  note a = d'(2) [unfolded assembling_def]
  show ?case
  proof (cases "off + c = length p")
    case True
    then have "ProcessCTAPHID e (cont_packet cid (word_of_nat s) (Some p) off (length p)) 64 d = hid_dispatch e cid d'"
      using d'(1) a less.prems(4) by (simp add: ProcessCTAPHID_def cid)
    moreover have "cont_packets cid (word_of_nat (s + 1)) (Some p) (off + c) (length p) = []"
      using True by (subst cont_packets.simps) simp
    ultimately show ?thesis using d'(2,3) True
      by (intro exI [of _ d'] exI [of _ "s + 1"]) (simp add: cp deliver_one del: deliver.simps(1))
  next
    case False
    then have lt: "off + c < length p" using less.prems(2) by (simp add: c_def min_def split: if_splits)
    then have "ctap_req_len d' \<noteq> ctap_expected_len d'" using a by simp
    then have pr: "ProcessCTAPHID e (cont_packet cid (word_of_nat s) (Some p) off (length p)) 64 d = Some d'"
      using d'(1) by (simp add: ProcessCTAPHID_def)
    have "length p - (off + c) \<le> 59 * (128 - (s + 1))"
      using less.prems(5) s lt by (auto simp: c_def min_def split: if_splits)
    moreover have "length p - (off + c) < length p - off" using less.prems(2) by (simp add: c_def)
    ultimately obtain d1 s' where "deliver e (cont_packets cid (word_of_nat (s + 1)) (Some p) (off + c) (length p)) d' =
        hid_dispatch e cid d1" "assembling cid cmd p (length p) s' d1" "rest d1 = rest d'"
      using less.hyps [OF _ d'(2) lt less.prems(3,4)] s by auto
    then show ?thesis using d'(3) by (intro exI [of _ d1] exI [of _ s']) (simp add: cp pr)
  qed
qed

lemma receive_init:
  assumes "length (ctap_req_buf d) = 1024" "length p \<le> 1024" "cmd AND 0x80 \<noteq> 0" "cmd \<noteq> 0x91"
  obtains d' where "hid_receive (init_packet cid cmd (Some p) (length p)) 64 d = (True, d')"
    "assembling cid cmd p (min 57 (length p)) 0 d'" "rest d' = rest d" "pkt_cid (init_packet cid cmd (Some p) (length p)) = cid"
proof -
  let ?q = "init_packet cid cmd (Some p) (length p)"
  define c where "c = min 57 (length p)"
  have f: "pkt_cid ?q = cid" "?q ! 4 = cmd" "be16 (?q ! 5) (?q ! 6) = length p" "take c (drop 7 ?q) = take c p"
    using init_packet_fields [of p cid cmd] assms(2) by (simp_all add: c_def)
  define d' where "d' = hid_init_packet ?q 64 cid (d\<lparr>g_current_cid := cid\<rparr>)"
  have r: "hid_receive ?q 64 d = (True, d')"
    using assms(2-4) f by (simp add: hid_receive_def Let_def d'_def)
  have cl: "(if length p < 64 - 7 then length p else 64 - 7) = c" by (simp add: c_def min_def)
  have d': "d' = (d\<lparr>g_current_cid := cid\<rparr>)\<lparr>ctap_cid := cid, ctap_cmd := cmd, ctap_expected_len := length p,
      ctap_req_len := c, ctap_req_buf := blit (ctap_req_buf d) 0 (take c p), ctap_seq := 0\<rparr>"
    unfolding d'_def hid_init_packet_def Let_def f(2,3) cl f(4) by simp
  have l: "length (take c p) = c" by (simp add: c_def)
  have "take c (blit (ctap_req_buf d) 0 (take c p)) = take c p"
    using take_blit [of 0 "ctap_req_buf d" "take c p"] l by simp
  moreover have "length (blit (ctap_req_buf d) 0 (take c p)) = 1024"
    using assms(1,2) l by (subst length_blit) (simp_all add: c_def)
  ultimately have "assembling cid cmd p c 0 d'" by (simp add: d' assembling_def)
  moreover have "rest d' = rest d" by (simp add: d' rest_def)
  ultimately show thesis using r f(1) unfolding c_def by (intro that)
qed

lemma reassembled:
  assumes "hid_ok d" "length p \<le> 1024" "cmd AND 0x80 \<noteq> 0" "cmd \<noteq> 0x91"
  obtains d1 where "deliver e (packets cid cmd (Some p) (length p)) d = hid_dispatch e cid d1"
    "take (length p) (ctap_req_buf d1) = p" "ctap_expected_len d1 = length p" "ctap_cmd d1 = cmd"
    "rest d1 = rest d" "length (ctap_req_buf d1) = 1024"
proof -
  have l: "length (ctap_req_buf d) = 1024" using assms(1) by (simp add: hid_ok_def)
  obtain d' where d': "hid_receive (init_packet cid cmd (Some p) (length p)) 64 d = (True, d')"
    "assembling cid cmd p (min 57 (length p)) 0 d'" "rest d' = rest d" "pkt_cid (init_packet cid cmd (Some p) (length p)) = cid"
    by (rule receive_init [OF l assms(2-4)])
  note a = d'(2) [unfolded assembling_def]
  have off: "(if 57 < length p then 57 else length p) = min 57 (length p)" by simp
  have "\<exists>d1 s'. deliver e (packets cid cmd (Some p) (length p)) d = hid_dispatch e cid d1 \<and>
      assembling cid cmd p (length p) s' d1 \<and> rest d1 = rest d"
  proof (cases "length p \<le> 57")
    case True
    then have m: "min 57 (length p) = length p" by simp
    have "ProcessCTAPHID e (init_packet cid cmd (Some p) (length p)) 64 d = hid_dispatch e cid d'"
      using d'(1) a assms(3) by (simp add: ProcessCTAPHID_def d'(4) m)
    moreover have "cont_packets cid 0 (Some p) (length p) (length p) = []"
      by (subst cont_packets.simps) simp
    ultimately show ?thesis using d'(2,3) unfolding packets_def off m
      by (intro exI [of _ d'] exI [of _ 0]) (simp add: deliver_one del: deliver.simps(1))
  next
    case False
    then have m: "min 57 (length p) = 57" by simp
    have b: "length p - 57 \<le> 59 * (128 - 0)" using assms(2) by linarith
    have "ProcessCTAPHID e (init_packet cid cmd (Some p) (length p)) 64 d = Some d'"
      using d'(1) a False by (simp add: ProcessCTAPHID_def m)
    moreover obtain d1 s' where "deliver e (cont_packets cid (word_of_nat 0) (Some p) 57 (length p)) d' = hid_dispatch e cid d1"
      "assembling cid cmd p (length p) s' d1" "rest d1 = rest d'"
      using deliver_conts [OF d'(2) [unfolded m] _ assms(2,3), of e] b False by auto
    ultimately show ?thesis using d'(3) unfolding packets_def off m
      by (intro exI [of _ d1] exI [of _ s']) simp
  qed
  then show thesis using that unfolding assembling_def by auto
qed

lemma packets_take: "packets cid cmd (Some b) n = packets cid cmd (Some (take n b)) n"
proof -
  have init: "init_packet cid cmd (Some b) n = init_packet cid cmd (Some (take n b)) n"
    by (simp add: init_packet_def Let_def min_def)
  have cont: "cont_packet cid s (Some b) off n = cont_packet cid s (Some (take n b)) off n" for s off
    by (simp add: cont_packet_def Let_def drop_take min_def)
  have "cont_packets cid s (Some b) off n = cont_packets cid s (Some (take n b)) off n" for s off
  proof (induction "n - off" arbitrary: s off rule: less_induct)
    case less
    show ?case
    proof (cases "n \<le> off")
      case True
      then show ?thesis by (simp add: cont_packets.simps [of cid s _ off n])
    next
      case False
      define c where "c = (if 59 < n - off then 59 else n - off)"
      have "n - (off + c) < n - off" using False by (auto simp: c_def)
      from less.hyps [OF this] show ?thesis
        by (subst (1 2) cont_packets.simps) (simp add: cont c_def [symmetric])
    qed
  qed
  then show ?thesis by (simp add: packets_def init)
qed

lemma ping_back:
  assumes "hid_ok d" "length p \<le> 1024" "calm e" "prompt e" "irq_on (chip d)"
  obtains d' where "deliver e (packets cid 0x81 (Some p) (length p)) d = Some d'"
    "sent d' = sent d @ (if ep2_armed d then [report d] else []) @ packets cid 0x81 (Some p) (length p)"
proof -
  obtain d1 where d1: "deliver e (packets cid 0x81 (Some p) (length p)) d = hid_dispatch e cid d1"
    "take (length p) (ctap_req_buf d1) = p" "ctap_expected_len d1 = length p" "ctap_cmd d1 = 0x81"
    "rest d1 = rest d"
    by (rule reassembled [OF assms(1,2), of "0x81"]) simp_all
  note f = rest_fields [OF d1(5)]
  let ?s = "ctap_send_response e cid 0x81 (Some (ctap_req_buf d1)) (length p) d1"
  have "irq_on (chip d1)" using f assms(5) by simp
  from send_exact [OF assms(3) this, of cid "0x81" "Some (ctap_req_buf d1)" "length p"] assms(4)
  have "sent ?s = sent d1 @ (if ep2_armed d1 then [report d1] else []) @
      packets cid 0x81 (Some (ctap_req_buf d1)) (length p)"
    by auto
  then have s: "sent ?s = sent d @ (if ep2_armed d then [report d] else []) @ packets cid 0x81 (Some p) (length p)"
    using f packets_take [of cid "0x81" "ctap_req_buf d1" "length p"] d1(2)
    by (simp add: ep2_armed_def report_def)
  have "hid_dispatch e cid d1 = Some (?s\<lparr>ctap_expected_len := 0, ctap_cmd := 0\<rparr>)"
    by (simp add: hid_dispatch_def Let_def d1(3,4))
  then show thesis using s d1(1)
    by (intro that [of "?s\<lparr>ctap_expected_len := 0, ctap_cmd := 0\<rparr>"]) simp_all
qed

section \<open>Properties\<close>

text \<open>C9: in every reachable state the request buffer has its 1024 bytes (so every \<open>memcpy\<close> of
  a packet went inside it), a message in progress declares at most that many, has received strictly less
  than it declares and carries a command with the initialisation bit: no finished message is left
  unprocessed between two iterations of the main loop.\<close>

theorem reassembly_invariant:
  assumes "reach e h d"
  shows "length (ctap_req_buf d) = 1024 \<and> ctap_expected_len d \<le> 1024 \<and>
    (ctap_expected_len d \<noteq> 0 \<longrightarrow> ctap_req_len d < ctap_expected_len d \<and> ctap_cmd d AND 0x80 \<noteq> 0)"
  using reach_ok [OF assms] by (auto simp: hid_ok_def)

lemma reassembly_invariant_witness: "ctap_expected_len (dev0 blank_hw) \<le> 1024"
  using reassembly_invariant [OF reach.boot [of quiet_env blank_hw]] by simp

text \<open>C10: the packets of a message of up to 1024 bytes, processed in order, lead to one dispatch
  with exactly that channel, command, length and payload, after the last packet and not before; nothing
  but the reassembly state changes on the way.\<close>

theorem message_reassembled:
  assumes "reach e h d" "length p \<le> 1024" "cmd AND 0x80 \<noteq> 0" "cmd \<noteq> 0x91"
  shows "\<exists>d1. deliver e (packets cid cmd (Some p) (length p)) d = hid_dispatch e cid d1 \<and>
    take (length p) (ctap_req_buf d1) = p \<and> ctap_expected_len d1 = length p \<and> ctap_cmd d1 = cmd \<and>
    rest d1 = rest d"
  by (rule reassembled [OF reach_ok [OF assms(1)] assms(2-4)]) blast

lemma message_reassembled_witness:
  "\<exists>d1. deliver quiet_env (packets 7 0x90 (Some (replicate 100 4)) 100) (dev0 blank_hw) = hid_dispatch quiet_env 7 d1 \<and>
    take 100 (ctap_req_buf d1) = replicate 100 4"
proof -
  have l: "length (replicate 100 (4 :: u8)) = 100" by simp
  have "length (replicate 100 (4 :: u8)) \<le> 1024" "(0x90 :: u8) AND 0x80 \<noteq> 0" "(0x90 :: u8) \<noteq> 0x91" by simp_all
  from message_reassembled [OF reach.boot this, of quiet_env 7 blank_hw, unfolded l] show ?thesis by blast
qed

text \<open>C11: a PING comes back: when its packets have been processed, a host that keeps reading has
  received, behind a report still armed, exactly the packets it sent.\<close>

theorem ping_echoed:
  assumes "reach e h d" "length p \<le> 1024" "calm e" "prompt e" "irq_on (chip d)"
  shows "\<exists>d'. deliver e (packets cid 0x81 (Some p) (length p)) d = Some d' \<and>
    sent d' = sent d @ (if ep2_armed d then [report d] else []) @ packets cid 0x81 (Some p) (length p)"
  by (rule ping_back [OF reach_ok [OF assms(1)] assms(2-5)]) blast

lemma ping_echoed_witness:
  "\<exists>d'. deliver quiet_env (packets 7 0x81 (Some [1, 2, 3]) 3) (dev0 blank_hw) = Some d' \<and>
    sent d' = packets 7 0x81 (Some [1, 2, 3]) 3"
proof -
  have "irq_on (chip (dev0 blank_hw))" "length [1, 2, 3 :: u8] \<le> 1024" by (simp_all add: blank_hw_def)
  moreover have l: "length [1, 2, 3 :: u8] = 3" by simp
  ultimately show ?thesis
    using ping_echoed [OF reach.boot _ quiet_env, of "[1, 2, 3]" blank_hw 7, unfolded l]
    by (simp add: dev0_not_armed)
qed

end
