(* ===== verification/System.thy ===== *)
theory System
  imports Fido2Thms HidSpec
begin

text \<open>
  The whole device: what holds of the flash in every state the main loop reaches, and a CTAPHID message
  from its packets to the packets of the answer.
\<close>

section \<open>The flash through the main loop\<close>

lemma send_chip [simp]: "chip (ctap_send_response e cid c p n d) = chip d"
  by (rule core_chip [OF inner_core [OF inner_send]])

lemma set_bus_chip [simp]: "chip (set_bus f d) = chip d"
  by (simp add: set_bus_def)

lemma elapse_chip [simp]: "chip (elapse e d) = chip d"
  by (rule core_chip [OF inner_core [OF inner_elapse]])

lemma init_reply_chip [simp]: "chip (hid_init_reply e cid d) = chip d"
  by (simp add: hid_init_reply_def Let_def)

lemma receive_chip: "hid_receive buf len d = (go, d') \<Longrightarrow> chip d' = chip d"
  by (auto simp: hid_receive_def hid_init_packet_def hid_cont_packet_def Let_def split: if_splits)

lemma dispatch_chip:
  assumes "hid_dispatch e cid d = Some d'" "ecc_sizes e"
  shows "kept (chip d) (chip d') \<or> ctap_cmd d = 0x90 \<and> may_change e (ctap_expected_len d) d (chip d')"
proof -
  let ?r = "\<lambda>d1. d' = d1\<lparr>ctap_expected_len := 0, ctap_cmd := 0\<rparr>"
  consider "ctap_cmd d = 0x90" | "ctap_cmd d = 0x86" | "ctap_cmd d \<noteq> 0x90" "ctap_cmd d \<noteq> 0x86" by blast
  then show ?thesis
  proof cases
    case 1
    then obtain resp d1 where p: "fido2_process_cbor e (ctap_expected_len d) cid d = Some (resp, d1)"
      "?r (ctap_send_response e cid 0x90 (Some resp) (length resp) d1)"
      using assms(1) by (auto simp: hid_dispatch_def Let_def)
    have "chip d' = chip d1" by (simp add: p(2))
    then show ?thesis using process_chip [OF p(1) assms(2)] 1 by simp
  next
    case 2
    then have "?r (hid_init_reply e cid d)" using assms(1) by (simp add: hid_dispatch_def)
    then show ?thesis by simp
  next
    case 3
    then have "\<exists>c p n. ?r (ctap_send_response e cid c p n d)"
      using assms(1) by (auto simp: hid_dispatch_def Let_def split: if_splits)
    then show ?thesis by auto
  qed
qed

lemma process_hw_ok:
  assumes "ProcessCTAPHID e buf len d = Some d'" "ecc_sizes e" "hw_ok (chip d)"
  shows "hw_ok (chip d')"
proof -
  obtain go d1 where r: "hid_receive buf len d = (go, d1)" by fastforce
  have "d' = d1 \<or> hid_dispatch e (pkt_cid buf) d1 = Some d'"
    using assms(1) r by (auto simp: ProcessCTAPHID_def split: if_splits)
  then show ?thesis
    using dispatch_chip [OF _ assms(2)] receive_chip [OF r] assms(3) change_ok kept_ok by metis
qed

lemma iteration_hw_ok:
  assumes "main_iteration e d = Some d'" "ecc_sizes e" "hw_ok (chip d)"
  shows "hw_ok (chip d')"
proof -
  obtain d1 d2 where d1: "main_packet e (elapse e d) = Some d1" and d2: "main_set_report e d1 = Some d2"
    and d': "d' = set_bus ring_restart d2"
    using assms(1) by (auto simp: main_iteration_def bind_eq_Some_conv)
  have "hw_ok (chip d1)"
    using d1 assms(3) process_hw_ok [OF _ assms(2)] by (auto simp: main_packet_def split_beta split: if_splits)
  then have "hw_ok (chip d2)"
    using d2 process_hw_ok [OF _ assms(2)] by (auto simp: main_set_report_def split: if_splits)
  then show ?thesis by (simp add: d')
qed

lemma reach_hw_ok: "reach e h d \<Longrightarrow> ecc_sizes e \<Longrightarrow> hw_ok h \<Longrightarrow> hw_ok (chip d)"
  by (induction rule: reach.induct) (auto simp: iteration_hw_ok)

section \<open>Properties\<close>

text \<open>C7: from a well-formed flash (an erased one, in particular) every reachable state has a
  well-formed flash: each credential slot is erased or holds a record whose lengths fit its fields, and
  the PIN page never holds more than eight retries.\<close>

theorem flash_invariant:
  assumes "reach e h d" "ecc_sizes e" "hw_ok h"
  shows "store_ok (fmem (chip d)) \<and> (\<forall>k \<in> set (creds (fmem (chip d))). rk_user_id_len k \<le> 64 \<and> rk_user_name_len k \<le> 32) \<and>
    (\<forall>p. pin_load (chip d) = Some p \<longrightarrow> ps_retries p \<le> 8)"
  using reach_hw_ok [OF assms] by (simp add: hw_ok_def sizes_ok_def)

lemma flash_invariant_witness: "store_ok (fmem (chip (dev0 blank_hw)))"
proof -
  have "hw_ok blank_hw" by (simp add: hw_ok_def sizes_slots blank_store)
  from flash_invariant [OF reach.boot ecc_sizes_quiet this] show ?thesis by blast
qed

text \<open>C8: a CBOR request whose packets are handed to \<open>ProcessCTAPHID\<close> one after the other is executed once,
  on exactly the bytes the host sent.  If interrupts were on when the last packet came, a host that keeps reading gets
  exactly the packets of the answer, behind the reports the command itself left armed, unless the request was a Reset
  that succeeded: a Reset leaves interrupts off, and its answer is lost.\<close>

theorem cbor_request_answered:
  assumes "reach e h d" "0 < length p" "length p \<le> 1024" "calm e" "prompt e"
    and "deliver e (packets cid 0x90 (Some p) (length p)) d = Some d'"
  shows "\<exists>d1 r d2. take (length p) (ctap_req_buf d1) = p \<and> rest d1 = rest d \<and>
    fido2_process_cbor e (length p) cid d1 = Some (r, d2) \<and> chip d' = chip d2 \<and>
    (irq_on (chip d) \<and> \<not> (hd p = 0x07 \<and> r = [0x00]) \<longrightarrow>
      sent d' = sent d2 @ (if ep2_armed d2 then [report d2] else []) @ packets cid 0x90 (Some r) (length r))"
proof -
  obtain d1 where d1: "deliver e (packets cid 0x90 (Some p) (length p)) d = hid_dispatch e cid d1"
    "take (length p) (ctap_req_buf d1) = p" "ctap_expected_len d1 = length p" "ctap_cmd d1 = 0x90"
    "rest d1 = rest d"
    by (rule reassembled [OF reach_ok [OF assms(1)] assms(3), of "0x90"]) simp_all
  obtain r d2 where p: "fido2_process_cbor e (length p) cid d1 = Some (r, d2)"
    "d' = (ctap_send_response e cid 0x90 (Some r) (length r) d2)\<lparr>ctap_expected_len := 0, ctap_cmd := 0\<rparr>"
    using assms(6) d1 by (auto simp: hid_dispatch_def Let_def)
  have head: "req_mem e d1 0 = hd p"
    using d1(2) assms(2) by (cases "ctap_req_buf d1"; cases p) (auto simp: req_mem_def mem_of_def)
  have "sent d' = sent d2 @ (if ep2_armed d2 then [report d2] else []) @ packets cid 0x90 (Some r) (length r)"
    if "irq_on (chip d) \<and> \<not> (hd p = 0x07 \<and> r = [0x00])"
  proof -
    have "irq_on (chip d1)" using that rest_fields [OF d1(5)] by simp
    from process_irq [OF p(1) this] have "irq_on (chip d2)" using that head by auto
    from send_exact [OF assms(4) this, of cid "0x90" "Some r" "length r"] show ?thesis using assms(5) p(2) by auto
  qed
  then show ?thesis using d1(2,5) p by (intro exI [of _ d1] exI [of _ r] exI [of _ d2]) simp
qed

lemma get_info_run:
  assumes "take 1 (ctap_req_buf d) = [4]"
  shows "fido2_process_cbor e 1 cid d = Some (cmd_get_info (d\<lparr>g_current_cid := cid\<rparr>), d\<lparr>g_current_cid := cid\<rparr>)"
proof -
  have "req_mem e d 0 = 4" using assms by (cases "ctap_req_buf d") (simp_all add: req_mem_def mem_of_def)
  then show ?thesis by (simp add: fido2_process_cbor_def Let_def)
qed

lemma cbor_request_answered_witness:
  "\<exists>d' r. deliver quiet_env (packets 7 0x90 (Some [4]) 1) (dev0 blank_hw) = Some d' \<and>
     sent d' = packets 7 0x90 (Some r) (length r)"
proof -
  let ?ps = "packets 7 0x90 (Some [4 :: u8]) (length [4 :: u8])"
  have boot: "reach quiet_env blank_hw (dev0 blank_hw)" by (rule reach.boot)
  obtain d1 where d1: "deliver quiet_env ?ps (dev0 blank_hw) = hid_dispatch quiet_env 7 d1"
    "take (length [4 :: u8]) (ctap_req_buf d1) = [4]" "ctap_expected_len d1 = length [4 :: u8]" "ctap_cmd d1 = 0x90"
    by (rule reassembled [OF reach_ok [OF boot], of "[4]" "0x90"]) simp_all
  have t: "take 1 (ctap_req_buf d1) = [4]" using d1(2) by simp
  have "\<exists>d'. hid_dispatch quiet_env 7 d1 = Some d'"
    using get_info_run [OF t, of quiet_env 7] d1(3,4) by (simp add: hid_dispatch_def)
  then obtain d' where d': "deliver quiet_env ?ps (dev0 blank_hw) = Some d'" using d1(1) by auto
  obtain x r d2 where x: "take (length [4 :: u8]) (ctap_req_buf x) = [4]" "rest x = rest (dev0 blank_hw)"
    "fido2_process_cbor quiet_env (length [4 :: u8]) 7 x = Some (r, d2)"
    "irq_on (chip (dev0 blank_hw)) \<and> \<not> (hd [4 :: u8] = 0x07 \<and> r = [0x00]) \<longrightarrow> sent d' = sent d2 @ (if ep2_armed d2 then [report d2] else []) @ packets 7 0x90 (Some r) (length r)"
    using cbor_request_answered [OF boot _ _ quiet_env d'] by auto
  have "take 1 (ctap_req_buf x) = [4]" using x(1) by simp
  then have d2: "d2 = x\<lparr>g_current_cid := 7\<rparr>" using x(3) get_info_run [of x quiet_env 7] by simp
  note f = rest_fields [OF x(2)]
  have "irq_on (chip (dev0 blank_hw))" "sent d2 = []" "\<not> ep2_armed d2"
    using f dev0_not_armed [of blank_hw] by (simp_all add: d2 blank_hw_def ep2_armed_def)
  then show ?thesis using x(4) d' by (intro exI [of _ d'] exI [of _ r]) simp
qed

end
