(* ===== verification/Vectors.thy ===== *)
theory Vectors
  imports Sha256
begin

text \<open>
  A published test vector, evaluated by the kernel on the model: it pins down the constants and
  the byte orders that the structural theorems of \<open>Sha256\<close> leave open.
\<close>

text \<open>The FIPS 180-4 example: SHA-256 of the message \<open>abc\<close>.\<close>

theorem sha256_abc:
  "sha256 [0x61, 0x62, 0x63] =
    [0xba, 0x78, 0x16, 0xbf, 0x8f, 0x01, 0xcf, 0xea, 0x41, 0x41, 0x40, 0xde, 0x5d, 0xae, 0x22, 0x23,
     0xb0, 0x03, 0x61, 0xa3, 0x96, 0x17, 0x7a, 0x9c, 0xb4, 0x10, 0xff, 0x61, 0xf2, 0x00, 0x15, 0xad]"
  by code_simp

end
