(* ===== verification/Vli.thy ===== *)
theory Vli
  imports Prelude "HOL-Library.While_Combinator"
begin

text \<open>
  The multi-word arithmetic of \<open>micro-ecc/uECC.c\<close> in the configuration the firmware compiles: 32-bit
  words, portable C, optimisation level 3, no separate squaring, only the curve secp256r1.

  \<^item> A number is a list of words, the least significant first; its length stands for \<open>num_words\<close>.
  \<^item> A routine that writes a result array returns it; carries and borrows are words, as in the code.
  \<^item> Loops that run until a comparison holds are \<open>while_option\<close>s: not ending would be \<open>None\<close>.
\<close>

type_synonym vli = "u32 list"

section \<open>Comparison and bits\<close>

definition uECC_vli_clear :: "nat \<Rightarrow> vli" where
  "uECC_vli_clear num_words = replicate num_words 0"

definition uECC_vli_isZero :: "vli \<Rightarrow> bool" where
  "uECC_vli_isZero vli = (fold (\<lambda>w bits. bits OR w) vli 0 = 0)"

definition uECC_vli_testBit :: "vli \<Rightarrow> nat \<Rightarrow> bool" where
  "uECC_vli_testBit vli i = (vli ! (i div 32) AND push_bit (i mod 32) 1 \<noteq> 0)"

definition vli_numDigits :: "vli \<Rightarrow> nat" where
  "vli_numDigits vli = length (dropWhile (\<lambda>w. w = 0) (rev vli))"

function digit_bits :: "u32 \<Rightarrow> nat" where
  "digit_bits digit = (if digit = 0 then 0 else Suc (digit_bits (drop_bit 1 digit)))"
  by pat_completeness auto
termination
proof (relation "measure unat")
  show "wf (measure (unat :: u32 \<Rightarrow> nat))" by simp
  fix w :: u32
  assume "w \<noteq> 0"
  then have "0 < unat w" by (simp add: unat_gt_0)
  then show "(drop_bit 1 w, w) \<in> measure unat" by (simp add: drop_bit_eq_div unat_div)
qed

declare digit_bits.simps [simp del]

definition uECC_vli_numBits :: "vli \<Rightarrow> nat" where
  "uECC_vli_numBits vli =
    (let num_digits = vli_numDigits vli
     in if num_digits = 0 then 0 else (num_digits - 1) * 32 + digit_bits (vli ! (num_digits - 1)))"

text \<open>\<open>uECC_vli_cmp_unsafe\<close> runs from the most significant word down.\<close>

fun cmp_words :: "vli \<Rightarrow> vli \<Rightarrow> int" where
  "cmp_words (l # ls) (r # rs) = (if r < l then 1 else if l < r then - 1 else cmp_words ls rs)"
| "cmp_words _ _ = 0"

definition uECC_vli_cmp_unsafe :: "vli \<Rightarrow> vli \<Rightarrow> int" where
  "uECC_vli_cmp_unsafe left right = cmp_words (rev left) (rev right)"

definition uECC_vli_equal :: "vli \<Rightarrow> vli \<Rightarrow> bool" where
  "uECC_vli_equal left right = (fold (\<lambda>(l, r) diff. diff OR (l XOR r)) (rev (zip left right)) 0 = 0)"

section \<open>Addition, subtraction, shift\<close>

fun add_words :: "u32 \<Rightarrow> vli \<Rightarrow> vli \<Rightarrow> vli \<times> u32" where
  "add_words carry (l # ls) (r # rs) =
    (let sum = l + r + carry;
         carry = (if sum \<noteq> l then of_bool (sum < l) else carry);
         (result, carry) = add_words carry ls rs
     in (sum # result, carry))"
| "add_words carry _ _ = ([], carry)"

definition uECC_vli_add :: "vli \<Rightarrow> vli \<Rightarrow> vli \<times> u32" where
  "uECC_vli_add left right = add_words 0 left right"

fun sub_words :: "u32 \<Rightarrow> vli \<Rightarrow> vli \<Rightarrow> vli \<times> u32" where
  "sub_words borrow (l # ls) (r # rs) =
    (let diff = l - r - borrow;
         borrow = (if diff \<noteq> l then of_bool (l < diff) else borrow);
         (result, borrow) = sub_words borrow ls rs
     in (diff # result, borrow))"
| "sub_words borrow _ _ = ([], borrow)"

definition uECC_vli_sub :: "vli \<Rightarrow> vli \<Rightarrow> vli \<times> u32" where
  "uECC_vli_sub left right = sub_words 0 left right"

definition uECC_vli_cmp :: "vli \<Rightarrow> vli \<Rightarrow> int" where
  "uECC_vli_cmp left right =
    (let (tmp, borrow) = uECC_vli_sub left right
     in of_bool (\<not> uECC_vli_isZero tmp) - 2 * of_bool (borrow \<noteq> 0))"

text \<open>\<open>uECC_vli_rshift1\<close> runs from the most significant word down.\<close>

fun rshift_words :: "u32 \<Rightarrow> vli \<Rightarrow> vli" where
  "rshift_words carry [] = []"
| "rshift_words carry (temp # ts) = (drop_bit 1 temp OR carry) # rshift_words (push_bit 31 temp) ts"

definition uECC_vli_rshift1 :: "vli \<Rightarrow> vli" where
  "uECC_vli_rshift1 vli = rev (rshift_words 0 (rev vli))"

section \<open>Multiplication\<close>

fun muladd :: "u32 \<Rightarrow> u32 \<Rightarrow> u32 \<times> u32 \<times> u32 \<Rightarrow> u32 \<times> u32 \<times> u32" where
  "muladd a b (r0, r1, r2) =
    (let p = (ucast a :: u64) * ucast b;
         r01 = push_bit 32 (ucast r1 :: u64) OR ucast r0;
         r01 = r01 + p;
         r2 = r2 + of_bool (r01 < p)
     in (ucast r01, ucast (drop_bit 32 r01), r2))"

fun mult_columns :: "vli \<Rightarrow> vli \<Rightarrow> nat \<Rightarrow> nat list \<Rightarrow> u32 \<times> u32 \<times> u32 \<Rightarrow> vli" where
  "mult_columns left right num_words [] (r0, r1, r2) = [r0]"
| "mult_columns left right num_words (k # ks) r =
    (case fold (\<lambda>i. muladd (left ! i) (right ! (k - i)))
           (if k < num_words then [0..<k + 1] else [k + 1 - num_words..<num_words]) r of
       (r0, r1, r2) \<Rightarrow> r0 # mult_columns left right num_words ks (r1, r2, 0))"

definition uECC_vli_mult :: "vli \<Rightarrow> vli \<Rightarrow> nat \<Rightarrow> vli" where
  "uECC_vli_mult left right num_words =
    mult_columns left right num_words ([0..<num_words] @ [num_words..<num_words * 2 - 1]) (0, 0, 0)"

section \<open>Modular arithmetic\<close>

definition uECC_vli_modAdd :: "vli \<Rightarrow> vli \<Rightarrow> vli \<Rightarrow> vli" where
  "uECC_vli_modAdd left right modulus =
    (let (result, carry) = uECC_vli_add left right
     in if carry \<noteq> 0 \<or> uECC_vli_cmp_unsafe modulus result \<noteq> 1
        then fst (uECC_vli_sub result modulus) else result)"

definition uECC_vli_modSub :: "vli \<Rightarrow> vli \<Rightarrow> vli \<Rightarrow> vli" where
  "uECC_vli_modSub left right modulus =
    (let (result, l_borrow) = uECC_vli_sub left right
     in if l_borrow \<noteq> 0 then fst (uECC_vli_add result modulus) else result)"

text \<open>The generic reduction: \<open>mod_multiple\<close> is the modulus shifted up; each round subtracts it when it
  fits (the code computes the difference into the other of two buffers and swaps them) and halves it,
  lower half first.\<close>

fun shift_up :: "nat \<Rightarrow> u32 \<Rightarrow> vli \<Rightarrow> vli" where
  "shift_up bit_shift carry [] = []"
| "shift_up bit_shift carry (m # ms) =
    (push_bit bit_shift m OR carry) # shift_up bit_shift (drop_bit (32 - bit_shift) m) ms"

definition halve_multiple :: "nat \<Rightarrow> vli \<Rightarrow> vli" where
  "halve_multiple num_words mm =
    (let lo = uECC_vli_rshift1 (take num_words mm);
         lo = lo[num_words - 1 := lo ! (num_words - 1) OR push_bit 31 (mm ! num_words)]
     in lo @ uECC_vli_rshift1 (drop num_words mm))"

definition mmod_round :: "nat \<Rightarrow> vli \<times> vli \<Rightarrow> vli \<times> vli" where
  "mmod_round num_words = (\<lambda>(v, mod_multiple).
    (let (diff, borrow) = uECC_vli_sub v mod_multiple
     in (if borrow = 0 then diff else v, halve_multiple num_words mod_multiple)))"

definition uECC_vli_mmod :: "vli \<Rightarrow> vli \<Rightarrow> nat \<Rightarrow> vli" where
  "uECC_vli_mmod product modulus num_words =
    (let shift = num_words * 2 * 32 - uECC_vli_numBits modulus;
         word_shift = shift div 32;
         bit_shift = shift mod 32;
         mod_multiple = uECC_vli_clear word_shift @
           (if 0 < bit_shift then shift_up bit_shift 0 modulus else modulus)
     in take num_words (fst ((mmod_round num_words ^^ (shift + 1)) (product, mod_multiple))))"

definition uECC_vli_modMult :: "vli \<Rightarrow> vli \<Rightarrow> vli \<Rightarrow> nat \<Rightarrow> vli" where
  "uECC_vli_modMult left right modulus num_words =
    uECC_vli_mmod (uECC_vli_mult left right num_words) modulus num_words"

section \<open>Inversion\<close>

abbreviation EVEN :: "vli \<Rightarrow> bool" where
  "EVEN vli \<equiv> vli ! 0 AND 1 = 0"

definition vli_modInv_update :: "vli \<Rightarrow> vli \<Rightarrow> vli" where
  "vli_modInv_update uv modulus =
    (let (uv, carry) = (if \<not> EVEN uv then uECC_vli_add uv modulus else (uv, 0));
         uv = uECC_vli_rshift1 uv
     in if carry \<noteq> 0 then uv[length uv - 1 := uv ! (length uv - 1) OR 0x80000000] else uv)"

definition modInv_round :: "vli \<Rightarrow> vli \<times> vli \<times> vli \<times> vli \<Rightarrow> vli \<times> vli \<times> vli \<times> vli" where
  "modInv_round modulus = (\<lambda>(a, b, u, v).
    (if EVEN a then (uECC_vli_rshift1 a, b, vli_modInv_update u modulus, v)
     else if EVEN b then (a, uECC_vli_rshift1 b, u, vli_modInv_update v modulus)
     else if 0 < uECC_vli_cmp_unsafe a b then
       (let a = uECC_vli_rshift1 (fst (uECC_vli_sub a b));
            u = (if uECC_vli_cmp_unsafe u v < 0 then fst (uECC_vli_add u modulus) else u);
            u = fst (uECC_vli_sub u v)
        in (a, b, vli_modInv_update u modulus, v))
     else
       (let b = uECC_vli_rshift1 (fst (uECC_vli_sub b a));
            v = (if uECC_vli_cmp_unsafe v u < 0 then fst (uECC_vli_add v modulus) else v);
            v = fst (uECC_vli_sub v u)
        in (a, b, u, vli_modInv_update v modulus))))"

definition uECC_vli_modInv :: "vli \<Rightarrow> vli \<Rightarrow> nat \<Rightarrow> vli option" where
  "uECC_vli_modInv input modulus num_words =
    (if uECC_vli_isZero input then Some (uECC_vli_clear num_words)
     else map_option (\<lambda>(a, b, u, v). u)
       (while_option (\<lambda>(a, b, u, v). uECC_vli_cmp_unsafe a b \<noteq> 0) (modInv_round modulus)
         (input, modulus, (uECC_vli_clear num_words)[0 := 1], uECC_vli_clear num_words)))"

section \<open>The curve secp256r1\<close>

definition curve_p :: vli where
  "curve_p = [0xFFFFFFFF, 0xFFFFFFFF, 0xFFFFFFFF, 0, 0, 0, 1, 0xFFFFFFFF]"

definition curve_n :: vli where
  "curve_n = [0xFC632551, 0xF3B9CAC2, 0xA7179E84, 0xBCE6FAAD, 0xFFFFFFFF, 0xFFFFFFFF, 0, 0xFFFFFFFF]"

definition curve_G :: vli where
  "curve_G = [0xD898C296, 0xF4A13945, 0x2DEB33A0, 0x77037D81, 0x63A440F2, 0xF8BCE6E5, 0xE12C4247, 0x6B17D1F2,
    0x37BF51F5, 0xCBB64068, 0x6B315ECE, 0x2BCE3357, 0x7C0F9E16, 0x8EE7EB4A, 0xFE1A7F9B, 0x4FE342E2]"

definition curve_b :: vli where
  "curve_b = [0x27D2604B, 0x3BCE3C3E, 0xCC53B0F6, 0x651D06B0, 0x769886BC, 0xB3EBBD55, 0xAA3A93E7, 0x5AC635D8]"

text \<open>The fast reduction modulo \<open>curve_p\<close>: the NIST sums, with a signed carry.\<close>

definition mmod_fast_sums :: "vli \<Rightarrow> vli \<times> int" where
  "mmod_fast_sums product =
    (let result = take 8 product;
         tmp = [0, 0, 0, product ! 11, product ! 12, product ! 13, product ! 14, product ! 15];
         (tmp, c) = uECC_vli_add tmp tmp; carry = uint c;
         (result, c) = uECC_vli_add result tmp; carry = carry + uint c;
         tmp = take 3 tmp @ [product ! 12, product ! 13, product ! 14, product ! 15, 0];
         (tmp, c) = uECC_vli_add tmp tmp; carry = carry + uint c;
         (result, c) = uECC_vli_add result tmp; carry = carry + uint c;
         tmp = [product ! 8, product ! 9, product ! 10, 0, 0, 0, product ! 14, product ! 15];
         (result, c) = uECC_vli_add result tmp; carry = carry + uint c;
         tmp = [product ! 9, product ! 10, product ! 11, product ! 13, product ! 14, product ! 15, product ! 13, product ! 8];
         (result, c) = uECC_vli_add result tmp; carry = carry + uint c;
         tmp = [product ! 11, product ! 12, product ! 13, 0, 0, 0, product ! 8, product ! 10];
         (result, c) = uECC_vli_sub result tmp; carry = carry - uint c;
         tmp = [product ! 12, product ! 13, product ! 14, product ! 15, 0, 0, product ! 9, product ! 11];
         (result, c) = uECC_vli_sub result tmp; carry = carry - uint c;
         tmp = [product ! 13, product ! 14, product ! 15, product ! 8, product ! 9, product ! 10, 0, product ! 12];
         (result, c) = uECC_vli_sub result tmp; carry = carry - uint c;
         tmp = [product ! 14, product ! 15, 0, product ! 9, product ! 10, product ! 11, 0, product ! 13];
         (result, c) = uECC_vli_sub result tmp; carry = carry - uint c
     in (result, carry))"

definition vli_mmod_fast_secp256r1 :: "vli \<Rightarrow> vli option" where
  "vli_mmod_fast_secp256r1 product =
    (let (result, carry) = mmod_fast_sums product
     in map_option fst
       (if carry < 0
        then while_option (\<lambda>(result, carry). carry < 0)
          (\<lambda>(result, carry). let (result, c) = uECC_vli_add result curve_p in (result, carry + uint c)) (result, carry)
        else while_option (\<lambda>(result, carry). carry \<noteq> 0 \<or> uECC_vli_cmp_unsafe curve_p result \<noteq> 1)
          (\<lambda>(result, carry). let (result, c) = uECC_vli_sub result curve_p in (result, carry - uint c)) (result, carry)))"

definition uECC_vli_modMult_fast :: "vli \<Rightarrow> vli \<Rightarrow> vli option" where
  "uECC_vli_modMult_fast left right = vli_mmod_fast_secp256r1 (uECC_vli_mult left right 8)"

definition uECC_vli_modSquare_fast :: "vli \<Rightarrow> vli option" where
  "uECC_vli_modSquare_fast left = uECC_vli_modMult_fast left left"

end
