(* ===== verification/Ecc.thy ===== *)
theory Ecc
  imports Vli
begin

text \<open>
  The curve operations and the public functions of \<open>micro-ecc/uECC.c\<close> for secp256r1.

  \<^item> The \<open>curve\<close> argument is fixed to \<open>curve_secp256r1\<close>: eight words, 32 bytes, a group order of
    256 bits, and the functions of \<open>curve-specific.inc\<close> its table points to.
  \<^item> A routine returns the arrays it writes. Whatever multiplies is an \<open>option\<close>: \<open>None\<close> would be a
    reduction or an inversion that never returns.
  \<^item> The random source is \<open>g_rng_function\<close>: \<open>None\<close> for the null pointer, \<open>Some\<close> of the bytes it will
    deliver otherwise; \<open>drawn\<close> counts the bytes taken, \<open>yields\<close> the calls of \<open>uECC_yield\<close>.
\<close>

type_synonym ecc_point = "vli \<times> vli"
type_synonym rng_function = "(nat \<Rightarrow> u8) option"

abbreviation (input) num_words :: nat where "num_words \<equiv> 8"
abbreviation (input) num_bytes :: nat where "num_bytes \<equiv> 32"
abbreviation (input) num_n_bits :: nat where "num_n_bits \<equiv> 256"
abbreviation (input) num_n_words :: nat where "num_n_words \<equiv> 8"
abbreviation (input) uECC_RNG_MAX_TRIES :: nat where "uECC_RNG_MAX_TRIES \<equiv> 64"

definition vli_one :: vli where
  "vli_one = (uECC_vli_clear num_words)[0 := 1]"

section \<open>Points\<close>

definition double_jacobian_default :: "vli \<Rightarrow> vli \<Rightarrow> vli \<Rightarrow> (vli \<times> vli \<times> vli) option" where
  "double_jacobian_default X1 Y1 Z1 =
    (if uECC_vli_isZero Z1 then Some (X1, Y1, Z1)
     else do {
       t4 \<leftarrow> uECC_vli_modSquare_fast Y1;
       t5 \<leftarrow> uECC_vli_modMult_fast X1 t4;
       t4 \<leftarrow> uECC_vli_modSquare_fast t4;
       Y1 \<leftarrow> uECC_vli_modMult_fast Y1 Z1;
       Z1 \<leftarrow> uECC_vli_modSquare_fast Z1;
       let X1 = uECC_vli_modAdd X1 Z1 curve_p;
       let Z1 = uECC_vli_modAdd Z1 Z1 curve_p;
       let Z1 = uECC_vli_modSub X1 Z1 curve_p;
       X1 \<leftarrow> uECC_vli_modMult_fast X1 Z1;
       let Z1 = uECC_vli_modAdd X1 X1 curve_p;
       let X1 = uECC_vli_modAdd X1 Z1 curve_p;
       let X1 = (if uECC_vli_testBit X1 0
          then let (X1, l_carry) = uECC_vli_add X1 curve_p;
                   X1 = uECC_vli_rshift1 X1
               in X1[num_words - 1 := X1 ! (num_words - 1) OR push_bit 31 l_carry]
          else uECC_vli_rshift1 X1);
       Z1 \<leftarrow> uECC_vli_modSquare_fast X1;
       let Z1 = uECC_vli_modSub Z1 t5 curve_p;
       let Z1 = uECC_vli_modSub Z1 t5 curve_p;
       let t5 = uECC_vli_modSub t5 Z1 curve_p;
       X1 \<leftarrow> uECC_vli_modMult_fast X1 t5;
       let t4 = uECC_vli_modSub X1 t4 curve_p;
       Some (Z1, t4, Y1)
     })"

definition x_side_default :: "vli \<Rightarrow> vli option" where
  "x_side_default x = do {
     let three = (uECC_vli_clear num_words)[0 := 3];
     result \<leftarrow> uECC_vli_modSquare_fast x;
     let result = uECC_vli_modSub result three curve_p;
     result \<leftarrow> uECC_vli_modMult_fast result x;
     Some (uECC_vli_modAdd result curve_b curve_p)
   }"

fun sqrt_loop :: "vli \<Rightarrow> vli \<Rightarrow> nat list \<Rightarrow> vli \<Rightarrow> vli option" where
  "sqrt_loop a p1 [] l_result = Some l_result"
| "sqrt_loop a p1 (i # is) l_result = do {
     l_result \<leftarrow> uECC_vli_modSquare_fast l_result;
     l_result \<leftarrow> (if uECC_vli_testBit p1 i then uECC_vli_modMult_fast l_result a else Some l_result);
     sqrt_loop a p1 is l_result
   }"

definition mod_sqrt_default :: "vli \<Rightarrow> vli option" where
  "mod_sqrt_default a =
    (let p1 = fst (uECC_vli_add curve_p vli_one)
     in sqrt_loop a p1 (rev [2..<uECC_vli_numBits p1]) vli_one)"

definition EccPoint_isZero :: "ecc_point \<Rightarrow> bool" where
  "EccPoint_isZero point = uECC_vli_isZero (fst point @ snd point)"

definition apply_z :: "ecc_point \<Rightarrow> vli \<Rightarrow> ecc_point option" where
  "apply_z = (\<lambda>(X1, Y1) Z. do {
     t1 \<leftarrow> uECC_vli_modSquare_fast Z;
     X1 \<leftarrow> uECC_vli_modMult_fast X1 t1;
     t1 \<leftarrow> uECC_vli_modMult_fast t1 Z;
     Y1 \<leftarrow> uECC_vli_modMult_fast Y1 t1;
     Some (X1, Y1)
   })"

definition XYcZ_initial_double :: "ecc_point \<Rightarrow> vli option \<Rightarrow> (ecc_point \<times> ecc_point) option" where
  "XYcZ_initial_double P initial_Z = do {
     let z = (case initial_Z of Some Z \<Rightarrow> Z | None \<Rightarrow> vli_one);
     (X1, Y1) \<leftarrow> apply_z P z;
     (X1, Y1, z) \<leftarrow> double_jacobian_default X1 Y1 z;
     P2 \<leftarrow> apply_z P z;
     Some ((X1, Y1), P2)
   }"

text \<open>\<open>XYcZ_add\<close> also returns \<open>sub\<close>, the difference the next \<open>XYcZ_addC\<close> starts from.\<close>

definition XYcZ_add :: "ecc_point \<Rightarrow> ecc_point \<Rightarrow> (ecc_point \<times> ecc_point \<times> vli) option" where
  "XYcZ_add = (\<lambda>(X1, Y1) (X2, Y2). do {
     let t5 = uECC_vli_modSub X2 X1 curve_p;
     t5 \<leftarrow> uECC_vli_modSquare_fast t5;
     X1 \<leftarrow> uECC_vli_modMult_fast X1 t5;
     X2 \<leftarrow> uECC_vli_modMult_fast X2 t5;
     let Y2 = uECC_vli_modSub Y2 Y1 curve_p;
     t5 \<leftarrow> uECC_vli_modSquare_fast Y2;
     let t5 = uECC_vli_modSub t5 X1 curve_p;
     let t5 = uECC_vli_modSub t5 X2 curve_p;
     let X2 = uECC_vli_modSub X2 X1 curve_p;
     Y1 \<leftarrow> uECC_vli_modMult_fast Y1 X2;
     let sub = uECC_vli_modSub X1 t5 curve_p;
     Y2 \<leftarrow> uECC_vli_modMult_fast Y2 sub;
     let Y2 = uECC_vli_modSub Y2 Y1 curve_p;
     Some ((X1, Y1), (t5, Y2), sub)
   })"

definition XYcZ_addC :: "ecc_point \<Rightarrow> ecc_point \<Rightarrow> vli \<Rightarrow> (ecc_point \<times> ecc_point) option" where
  "XYcZ_addC = (\<lambda>(X1, Y1) (X2, Y2) sub. do {
     t5 \<leftarrow> uECC_vli_modSquare_fast sub;
     X1 \<leftarrow> uECC_vli_modMult_fast X1 t5;
     X2 \<leftarrow> uECC_vli_modMult_fast X2 t5;
     let t5 = uECC_vli_modAdd Y2 Y1 curve_p;
     let Y2 = uECC_vli_modSub Y2 Y1 curve_p;
     let t6 = uECC_vli_modSub X2 X1 curve_p;
     Y1 \<leftarrow> uECC_vli_modMult_fast Y1 t6;
     let t6 = uECC_vli_modAdd X1 X2 curve_p;
     X2 \<leftarrow> uECC_vli_modSquare_fast Y2;
     let X2 = uECC_vli_modSub X2 t6 curve_p;
     let t7 = uECC_vli_modSub X1 X2 curve_p;
     Y2 \<leftarrow> uECC_vli_modMult_fast Y2 t7;
     let Y2 = uECC_vli_modSub Y2 Y1 curve_p;
     t7 \<leftarrow> uECC_vli_modSquare_fast t5;
     let t7 = uECC_vli_modSub t7 t6 curve_p;
     let t6 = uECC_vli_modSub t7 X1 curve_p;
     t6 \<leftarrow> uECC_vli_modMult_fast t6 t5;
     let Y1 = uECC_vli_modSub t6 Y1 curve_p;
     Some ((t7, Y1), (X2, Y2))
   })"

section \<open>The ladder\<close>

text \<open>The two running points are \<open>R ! 0\<close> and \<open>R ! 1\<close>, as \<open>Rx\<close> and \<open>Ry\<close> are indexed in the code.\<close>

definition ladder_addC :: "nat \<Rightarrow> ecc_point list \<Rightarrow> vli \<Rightarrow> ecc_point list option" where
  "ladder_addC nb R sub = do {
     (P, Q) \<leftarrow> XYcZ_addC (R ! (1 - nb)) (R ! nb) sub;
     Some (R[1 - nb := P, nb := Q])
   }"

definition ladder_add :: "nat \<Rightarrow> ecc_point list \<Rightarrow> (ecc_point list \<times> vli) option" where
  "ladder_add nb R = do {
     (P, Q, sub) \<leftarrow> XYcZ_add (R ! nb) (R ! (1 - nb));
     Some (R[nb := P, 1 - nb := Q], sub)
   }"

fun ladder :: "vli \<Rightarrow> nat list \<Rightarrow> ecc_point list \<Rightarrow> vli \<Rightarrow> nat \<Rightarrow> (ecc_point list \<times> vli \<times> nat) option" where
  "ladder scalar [] R sub yields = Some (R, sub, yields)"
| "ladder scalar (i # is) R sub yields = do {
     let yields = (if i AND 15 = 0 then yields + 1 else yields);
     let nb = of_bool (\<not> uECC_vli_testBit scalar i);
     R \<leftarrow> ladder_addC nb R sub;
     (R, sub) \<leftarrow> ladder_add nb R;
     ladder scalar is R sub yields
   }"

definition EccPoint_mult :: "ecc_point \<Rightarrow> vli \<Rightarrow> vli option \<Rightarrow> nat \<Rightarrow> (ecc_point \<times> nat) option" where
  "EccPoint_mult point scalar initial_Z num_bits = do {
     (R1, R0) \<leftarrow> XYcZ_initial_double point initial_Z;
     let sub = uECC_vli_modSub (fst R0) (fst R1) curve_p;
     (R, sub, yields) \<leftarrow> ladder scalar (rev [1..<num_bits - 1]) [R0, R1] sub 0;
     let nb = of_bool (\<not> uECC_vli_testBit scalar 0);
     R \<leftarrow> ladder_addC nb R sub;
     let z = uECC_vli_modSub (fst (R ! 1)) (fst (R ! 0)) curve_p;
     z \<leftarrow> uECC_vli_modMult_fast z (snd (R ! (1 - nb)));
     z \<leftarrow> uECC_vli_modMult_fast z (fst point);
     z \<leftarrow> uECC_vli_modInv z curve_p num_words;
     z \<leftarrow> uECC_vli_modMult_fast z (snd point);
     z \<leftarrow> uECC_vli_modMult_fast z (fst (R ! (1 - nb)));
     (R, sub) \<leftarrow> ladder_add nb R;
     result \<leftarrow> apply_z (R ! 0) z;
     Some (result, yields)
   }"

definition regularize_k :: "vli \<Rightarrow> bool \<times> vli \<times> vli" where
  "regularize_k k =
    (let (k0, c) = uECC_vli_add k curve_n;
         carry = (c \<noteq> 0 \<or> num_n_bits < num_n_words * 4 * 8 \<and> uECC_vli_testBit k0 num_n_bits)
     in (carry, k0, fst (uECC_vli_add k0 curve_n)))"

section \<open>Random numbers and keys\<close>

text \<open>\<open>uECC_set_rng\<close> installs the generator every later call draws from.\<close>

definition uECC_set_rng :: "(nat \<Rightarrow> u8) \<Rightarrow> rng_function" where
  [simp]: "uECC_set_rng rng_function = Some rng_function"

definition native_word :: "(nat \<Rightarrow> u8) \<Rightarrow> nat \<Rightarrow> u32" where
  "native_word r i = ucast (r i) OR push_bit 8 (ucast (r (i + 1))) OR push_bit 16 (ucast (r (i + 2))) OR
    push_bit 24 (ucast (r (i + 3)))"

fun random_tries :: "(nat \<Rightarrow> u8) \<Rightarrow> vli \<Rightarrow> nat \<Rightarrow> nat \<Rightarrow> nat \<Rightarrow> nat \<Rightarrow> vli option \<times> nat" where
  "random_tries r limit n num_bits 0 drawn = (None, drawn)"
| "random_tries r limit n num_bits (Suc tries) drawn =
    (let random = map (\<lambda>i. native_word r (drawn + 4 * i)) [0..<n];
         drawn = drawn + n * 4;
         random = random[n - 1 := random ! (n - 1) AND drop_bit (n * 4 * 8 - num_bits) (- 1)]
     in if \<not> uECC_vli_isZero random \<and> uECC_vli_cmp limit random = 1 then (Some random, drawn)
        else random_tries r limit n num_bits tries drawn)"

definition uECC_generate_random_int :: "rng_function \<Rightarrow> vli \<Rightarrow> nat \<Rightarrow> nat \<Rightarrow> vli option \<times> nat" where
  "uECC_generate_random_int g_rng_function limit n drawn =
    (let num_bits = uECC_vli_numBits limit
     in case g_rng_function of None \<Rightarrow> (None, drawn)
        | Some r \<Rightarrow> random_tries r limit n num_bits uECC_RNG_MAX_TRIES drawn)"

text \<open>The random \<open>initial_Z\<close> of a multiplication: the outer \<open>None\<close> is the failure of the generator,
  the inner one the absence of a generator.\<close>

definition random_Z :: "rng_function \<Rightarrow> nat \<Rightarrow> vli option option \<times> nat" where
  "random_Z g_rng_function drawn =
    (if g_rng_function \<noteq> None
     then (case uECC_generate_random_int g_rng_function curve_p num_words drawn of
        (None, drawn) \<Rightarrow> (None, drawn) | (Some Z, drawn) \<Rightarrow> (Some (Some Z), drawn))
     else (Some None, drawn))"

definition curve_G_point :: ecc_point where
  "curve_G_point = (take num_words curve_G, drop num_words curve_G)"

definition EccPoint_compute_public_key ::
  "rng_function \<Rightarrow> vli \<Rightarrow> nat \<Rightarrow> (ecc_point option \<times> nat \<times> nat) option" where
  "EccPoint_compute_public_key g_rng_function private_key drawn =
    (let (carry, tmp1, tmp2) = regularize_k private_key
     in case random_Z g_rng_function drawn of
        (None, drawn) \<Rightarrow> Some (None, drawn, 0)
      | (Some initial_Z, drawn) \<Rightarrow> do {
          (result, yields) \<leftarrow> EccPoint_mult curve_G_point (if carry then tmp1 else tmp2) initial_Z (num_n_bits + 1);
          Some (if EccPoint_isZero result then None else Some result, drawn, yields)
        })"

definition uECC_vli_nativeToBytes :: "nat \<Rightarrow> vli \<Rightarrow> u8 list" where
  "uECC_vli_nativeToBytes nbytes native =
    map (\<lambda>i. let b = nbytes - 1 - i in ucast (drop_bit (8 * (b mod 4)) (native ! (b div 4)))) [0..<nbytes]"

definition uECC_vli_bytesToNative :: "u8 list \<Rightarrow> nat \<Rightarrow> vli" where
  "uECC_vli_bytesToNative src nbytes =
    fold (\<lambda>i native. let b = nbytes - 1 - i in
        native[b div 4 := native ! (b div 4) OR push_bit (8 * (b mod 4)) (ucast (src ! i))])
      [0..<nbytes] (uECC_vli_clear ((nbytes + 3) div 4))"

definition point_bytes :: "ecc_point \<Rightarrow> u8 list" where
  "point_bytes P = uECC_vli_nativeToBytes num_bytes (fst P) @ uECC_vli_nativeToBytes num_bytes (snd P)"

definition bytes_point :: "u8 list \<Rightarrow> ecc_point" where
  "bytes_point bs = (uECC_vli_bytesToNative bs num_bytes, uECC_vli_bytesToNative (drop num_bytes bs) num_bytes)"

text \<open>The public functions return \<open>None\<close> inside for the C result 0: the output arrays are untouched.\<close>

fun make_key_tries :: "rng_function \<Rightarrow> nat \<Rightarrow> nat \<Rightarrow> nat \<Rightarrow> ((u8 list \<times> u8 list) option \<times> nat \<times> nat) option" where
  "make_key_tries g_rng_function 0 drawn yields = Some (None, drawn, yields)"
| "make_key_tries g_rng_function (Suc tries) drawn yields =
    (case uECC_generate_random_int g_rng_function curve_n num_n_words drawn of
       (None, drawn) \<Rightarrow> Some (None, drawn, yields)
     | (Some private_key, drawn) \<Rightarrow> do {
         (public_key, drawn, y) \<leftarrow> EccPoint_compute_public_key g_rng_function private_key drawn;
         case public_key of
           Some P \<Rightarrow> Some (Some (point_bytes P, uECC_vli_nativeToBytes num_bytes private_key), drawn, yields + y)
         | None \<Rightarrow> make_key_tries g_rng_function tries drawn (yields + y)
       })"

definition uECC_make_key_p256 :: "rng_function \<Rightarrow> ((u8 list \<times> u8 list) option \<times> nat \<times> nat) option" where
  "uECC_make_key_p256 g_rng_function = make_key_tries g_rng_function uECC_RNG_MAX_TRIES 0 0"

text \<open>\<open>uECC_shared_secret\<close> writes the secret before it decides what to return.\<close>

definition uECC_shared_secret_p256 ::
  "rng_function \<Rightarrow> u8 list \<Rightarrow> u8 list \<Rightarrow> (bool \<times> u8 list option \<times> nat \<times> nat) option" where
  "uECC_shared_secret_p256 g_rng_function public_key private_key =
    (let private = uECC_vli_bytesToNative private_key num_bytes;
         public = bytes_point public_key;
         (carry, k0, k1) = regularize_k private
     in case random_Z g_rng_function 0 of
        (None, drawn) \<Rightarrow> Some (False, None, drawn, 0)
      | (Some initial_Z, drawn) \<Rightarrow> do {
          (result, yields) \<leftarrow> EccPoint_mult public (if carry then k0 else k1) initial_Z (num_n_bits + 1);
          Some (\<not> EccPoint_isZero result, Some (uECC_vli_nativeToBytes num_bytes (fst result)), drawn, yields)
        })"

definition uECC_compress :: "u8 list \<Rightarrow> u8 list" where
  "uECC_compress public_key = (2 + (public_key ! (num_bytes * 2 - 1) AND 1)) # take num_bytes public_key"

definition uECC_decompress :: "u8 list \<Rightarrow> u8 list option" where
  "uECC_decompress compressed = do {
     let x = uECC_vli_bytesToNative (drop 1 compressed) num_bytes;
     y \<leftarrow> x_side_default x;
     y \<leftarrow> mod_sqrt_default y;
     let y = (if y ! 0 AND 1 \<noteq> ucast (compressed ! 0 AND 1) then fst (uECC_vli_sub curve_p y) else y);
     Some (point_bytes (x, y))
   }"

definition uECC_valid_point :: "ecc_point \<Rightarrow> bool option" where
  "uECC_valid_point point =
    (if EccPoint_isZero point then Some False
     else if uECC_vli_cmp_unsafe curve_p (fst point) \<noteq> 1 \<or> uECC_vli_cmp_unsafe curve_p (snd point) \<noteq> 1 then Some False
     else do {
       tmp1 \<leftarrow> uECC_vli_modSquare_fast (snd point);
       tmp2 \<leftarrow> x_side_default (fst point);
       Some (uECC_vli_equal tmp1 tmp2)
     })"

definition uECC_valid_public_key :: "u8 list \<Rightarrow> bool option" where
  "uECC_valid_public_key public_key = uECC_valid_point (bytes_point public_key)"

definition uECC_compute_public_key :: "rng_function \<Rightarrow> u8 list \<Rightarrow> (u8 list option \<times> nat \<times> nat) option" where
  "uECC_compute_public_key g_rng_function private_key =
    (let private = uECC_vli_bytesToNative private_key num_bytes
     in if uECC_vli_isZero private then Some (None, 0, 0)
        else if uECC_vli_cmp curve_n private \<noteq> 1 then Some (None, 0, 0)
        else do {
          (public, drawn, yields) \<leftarrow> EccPoint_compute_public_key g_rng_function private 0;
          Some (map_option point_bytes public, drawn, yields)
        })"

section \<open>Signatures\<close>

fun shift_down :: "nat \<Rightarrow> u32 \<Rightarrow> vli \<Rightarrow> vli" where
  "shift_down shift carry [] = []"
| "shift_down shift carry (temp # ts) =
    (drop_bit shift temp OR carry) # shift_down shift (push_bit (32 - shift) temp) ts"

text \<open>The words below the top come back in the order the code visits them, most significant first.\<close>

definition bits2int :: "u8 list \<Rightarrow> nat \<Rightarrow> vli" where
  "bits2int bits bits_size =
    (let bits_size = min bits_size 32;
         low = uECC_vli_bytesToNative bits bits_size;
         native = low @ uECC_vli_clear (num_n_words - length low)
     in if bits_size * 8 \<le> num_n_bits then native
        else (let shift = bits_size * 8 - num_n_bits;
                  native = rev (shift_down shift 0 (rev native))
              in if uECC_vli_cmp_unsafe curve_n native \<noteq> 1 then fst (uECC_vli_sub native curve_n) else native))"

definition uECC_sign_with_k_internal ::
  "rng_function \<Rightarrow> u8 list \<Rightarrow> u8 list \<Rightarrow> nat \<Rightarrow> vli \<Rightarrow> nat \<Rightarrow> (u8 list option \<times> nat \<times> nat) option" where
  "uECC_sign_with_k_internal g_rng_function private_key message_hash hash_size k drawn =
    (if uECC_vli_isZero k \<or> uECC_vli_cmp curve_n k \<noteq> 1 then Some (None, drawn, 0)
     else (let (carry, tmp, s) = regularize_k k
     in case random_Z g_rng_function drawn of
        (None, drawn) \<Rightarrow> Some (None, drawn, 0)
      | (Some initial_Z, drawn) \<Rightarrow> do {
          (p, yields) \<leftarrow> EccPoint_mult curve_G_point (if carry then tmp else s) initial_Z (num_n_bits + 1);
          if uECC_vli_isZero (fst p) then Some (None, drawn, yields)
          else (case (if g_rng_function = None then (Some vli_one, drawn)
                      else uECC_generate_random_int g_rng_function curve_n num_n_words drawn) of
             (None, drawn) \<Rightarrow> Some (None, drawn, yields)
           | (Some tmp, drawn) \<Rightarrow> do {
               let k = uECC_vli_modMult k tmp curve_n num_n_words;
               k \<leftarrow> uECC_vli_modInv k curve_n num_n_words;
               let k = uECC_vli_modMult k tmp curve_n num_n_words;
               let r = uECC_vli_nativeToBytes num_bytes (fst p);
               let tmp = uECC_vli_bytesToNative private_key num_bytes;
               let s = uECC_vli_modMult tmp (fst p) curve_n num_n_words;
               let tmp = bits2int message_hash hash_size;
               let s = uECC_vli_modAdd tmp s curve_n;
               let s = uECC_vli_modMult s k curve_n num_n_words;
               Some (if num_bytes * 8 < uECC_vli_numBits s then None
                     else Some (r @ uECC_vli_nativeToBytes num_bytes s), drawn, yields)
             })
        }))"

definition uECC_sign_with_k ::
  "rng_function \<Rightarrow> u8 list \<Rightarrow> u8 list \<Rightarrow> nat \<Rightarrow> u8 list \<Rightarrow> (u8 list option \<times> nat \<times> nat) option" where
  "uECC_sign_with_k g_rng_function private_key message_hash hash_size k =
    uECC_sign_with_k_internal g_rng_function private_key message_hash hash_size (bits2int k 32) 0"

fun sign_tries ::
  "rng_function \<Rightarrow> u8 list \<Rightarrow> u8 list \<Rightarrow> nat \<Rightarrow> nat \<Rightarrow> nat \<Rightarrow> nat \<Rightarrow> (u8 list option \<times> nat \<times> nat) option" where
  "sign_tries g_rng_function private_key message_hash hash_size 0 drawn yields = Some (None, drawn, yields)"
| "sign_tries g_rng_function private_key message_hash hash_size (Suc tries) drawn yields =
    (case uECC_generate_random_int g_rng_function curve_n num_n_words drawn of
       (None, drawn) \<Rightarrow> Some (None, drawn, yields)
     | (Some k, drawn) \<Rightarrow> do {
         (signature, drawn, y) \<leftarrow> uECC_sign_with_k_internal g_rng_function private_key message_hash hash_size k drawn;
         case signature of
           Some s \<Rightarrow> Some (Some s, drawn, yields + y)
         | None \<Rightarrow> sign_tries g_rng_function private_key message_hash hash_size tries drawn (yields + y)
       })"

definition uECC_sign_p256 ::
  "rng_function \<Rightarrow> u8 list \<Rightarrow> u8 list \<Rightarrow> nat \<Rightarrow> (u8 list option \<times> nat \<times> nat) option" where
  "uECC_sign_p256 g_rng_function private_key message_hash hash_size =
    sign_tries g_rng_function private_key message_hash hash_size uECC_RNG_MAX_TRIES 0 0"

end
