(* ===== verification/VliSpec.thy ===== *)
theory VliSpec
  imports Vli
begin

text \<open>
  The multi-word routines compute on the numbers their arrays stand for: addition and subtraction with
  carry, comparison, halving, the product, the two reductions, modular addition and subtraction, and the
  inverse, whose loop ends.
\<close>

section \<open>The value of an array\<close>

primrec vval :: "vli \<Rightarrow> nat" where
  "vval [] = 0"
| "vval (w # ws) = unat w + 4294967296 * vval ws"

abbreviation radix :: nat where "radix \<equiv> 4294967296"

lemma u32_lt: "unat (w :: u32) < radix"
  using unsigned_less [of w, where 'a = nat] by simp

lemma vval_append: "vval (xs @ ys) = vval xs + radix ^ length xs * vval ys"
  by (induction xs) (simp_all add: algebra_simps)

lemma vval_lt: "vval v < radix ^ length v"
proof (induction v)
  case (Cons w ws)
  have "vval (w # ws) < radix + radix * vval ws" using u32_lt [of w] by simp
  also have "\<dots> \<le> radix * radix ^ length ws" using Cons mult_le_mono2 [of "vval ws + 1" "radix ^ length ws" radix] by simp
  finally show ?case by simp
qed simp

lemma vval_replicate [simp]: "vval (replicate n 0) = 0"
  by (induction n) simp_all

lemma vval_clear [simp]: "vval (uECC_vli_clear n) = 0" "length (uECC_vli_clear n) = n"
  by (simp_all add: uECC_vli_clear_def)

lemma vval_zero: "vval v = 0 \<longleftrightarrow> (\<forall>w \<in> set v. w = 0)"
  by (induction v) (simp_all add: unat_eq_0)

lemma isZero_vval: "uECC_vli_isZero v \<longleftrightarrow> vval v = 0"
proof -
  have "(fold (\<lambda>w bits. bits OR w) v b = 0) \<longleftrightarrow> b = 0 \<and> (\<forall>w \<in> set v. w = 0)" for b
    by (induction v arbitrary: b) (auto simp: or_eq_0_iff)
  then show ?thesis by (simp add: uECC_vli_isZero_def vval_zero)
qed

text \<open>Splitting a sum at the radix is unique.\<close>

lemma split_unique:
  fixes a b :: nat
  assumes "a + radix ^ n * x = b + radix ^ n * y" "a < radix ^ n" "b < radix ^ n"
  shows "a = b" "x = y"
proof -
  have "a = (a + radix ^ n * x) mod radix ^ n" using assms(2) by simp
  also have "\<dots> = b" unfolding assms(1) using assms(3) by simp
  finally show "a = b" .
  then show "x = y" using assms(1) by simp
qed

section \<open>Addition and subtraction\<close>

lemma add_carry_word:
  fixes l r c :: u32
  assumes "unat c \<le> 1"
  defines "s \<equiv> l + r + c"
  shows "unat s + radix * unat (if s \<noteq> l then of_bool (s < l) else c) = unat l + unat r + unat c"
proof -
  have s: "unat s = (unat l + unat r + unat c) mod radix" by (simp add: s_def unat_word_ariths mod_simps)
  show ?thesis
  proof (cases "unat l + unat r + unat c < radix")
    case True
    then have "unat s = unat l + unat r + unat c" by (simp add: s)
    moreover from this have "\<not> s < l" by (simp add: word_less_nat_alt)
    moreover have "s = l \<Longrightarrow> unat r + unat c = 0" using calculation(1) by simp
    ultimately show ?thesis by (auto simp: unat_eq_0)
  next
    case False
    have le: "unat l + unat r + unat c < 2 * radix" using u32_lt [of l] u32_lt [of r] assms(1) by linarith
    then have eq: "unat s = unat l + unat r + unat c - radix" using False by (simp add: s le_mod_geq)
    have "s = l \<Longrightarrow> unat c = 1" using eq False u32_lt [of r] assms(1) by auto
    moreover have "s \<noteq> l \<Longrightarrow> s < l"
      using eq False u32_lt [of r] assms(1) by (auto simp: word_less_nat_alt word_unat_eq_iff)
    ultimately show ?thesis using eq False by auto
  qed
qed

lemma add_words_val:
  assumes "length l = length r" "unat c \<le> 1"
  shows "vval (fst (add_words c l r)) + radix ^ length l * unat (snd (add_words c l r)) = vval l + vval r + unat c \<and>
    length (fst (add_words c l r)) = length l \<and> unat (snd (add_words c l r)) \<le> 1"
  using assms
proof (induction l r arbitrary: c rule: list_induct2)
  case (Cons x xs y ys)
  define s where "s = x + y + c"
  define c' where "c' = (if s \<noteq> x then of_bool (s < x) else c)"
  obtain rs co where rec: "add_words c' xs ys = (rs, co)" by fastforce
  have step: "add_words c (x # xs) (y # ys) = (s # rs, co)"
    by (simp only: add_words.simps Let_def s_def [symmetric] c'_def [symmetric] rec prod.case)
  have w: "unat s + radix * unat c' = unat x + unat y + unat c"
    unfolding s_def c'_def by (rule add_carry_word [OF Cons.prems])
  have "unat c' \<le> 1" using Cons.prems by (simp add: c'_def)
  from Cons.IH [OF this] have ih: "vval rs + radix ^ length xs * unat co = vval xs + vval ys + unat c'"
    "length rs = length xs" "unat co \<le> 1" by (simp_all add: rec)
  have "radix * (vval rs + radix ^ length xs * unat co) = radix * (vval xs + vval ys + unat c')" by (simp only: ih(1))
  then show ?case using w ih(2,3) by (simp only: step fst_conv snd_conv vval.simps list.size power_Suc add_Suc_right)
      (simp add: algebra_simps)
qed simp

lemma sub_words_val:
  assumes "length l = length r" "unat c \<le> 1"
  shows "vval (fst (sub_words c l r)) + vval r + unat c = vval l + radix ^ length l * unat (snd (sub_words c l r)) \<and>
    length (fst (sub_words c l r)) = length l \<and> unat (snd (sub_words c l r)) \<le> 1"
  using assms
proof (induction l r arbitrary: c rule: list_induct2)
  case (Cons x xs y ys)
  define d where "d = x - y - c"
  define c' where "c' = (if d \<noteq> x then of_bool (x < d) else c)"
  obtain rs co where rec: "sub_words c' xs ys = (rs, co)" by fastforce
  have step: "sub_words c (x # xs) (y # ys) = (d # rs, co)"
    by (simp only: sub_words.simps Let_def d_def [symmetric] c'_def [symmetric] rec prod.case)
  have x: "d + y + c = x" by (simp add: d_def)
  have w: "unat x + radix * unat c' = unat d + unat y + unat c"
    using add_carry_word [OF Cons.prems, of d y] unfolding x c'_def by (simp add: eq_commute)
  have "unat c' \<le> 1" using Cons.prems by (simp add: c'_def)
  from Cons.IH [OF this] have ih: "vval rs + vval ys + unat c' = vval xs + radix ^ length xs * unat co"
    "length rs = length xs" "unat co \<le> 1" by (simp_all add: rec)
  have "radix * (vval rs + vval ys + unat c') = radix * (vval xs + radix ^ length xs * unat co)" by (simp only: ih(1))
  then show ?case using w ih(2,3) by (simp only: step fst_conv snd_conv vval.simps list.size power_Suc add_Suc_right)
      (simp add: algebra_simps)
qed simp

lemma vli_add:
  assumes "uECC_vli_add l r = (s, c)" "length l = length r"
  shows "vval s + radix ^ length l * unat c = vval l + vval r" "length s = length l" "unat c \<le> 1"
  using add_words_val [OF assms(2), of 0] assms(1) by (simp_all add: uECC_vli_add_def)

lemma vli_sub:
  assumes "uECC_vli_sub l r = (s, c)" "length l = length r"
  shows "vval s + vval r = vval l + radix ^ length l * unat c" "length s = length l" "unat c \<le> 1"
  using sub_words_val [OF assms(2), of 0] assms(1) by (simp_all add: uECC_vli_sub_def)

lemma carry_bit: "unat (c :: u32) \<le> 1 \<Longrightarrow> c = 0 \<or> c = 1"
  by (metis One_nat_def le_Suc_eq le_zero_eq unat_1 unat_eq_0 word_unat_eq_iff)

text \<open>The borrow decides the comparison.\<close>

lemma vli_sub_borrow:
  assumes "uECC_vli_sub l r = (s, c)" "length l = length r"
  shows "c = 0 \<longleftrightarrow> vval r \<le> vval l" "c = 0 \<Longrightarrow> vval s = vval l - vval r"
    "c \<noteq> 0 \<Longrightarrow> vval s = radix ^ length l + vval l - vval r"
proof -
  note v = vli_sub [OF assms]
  have b: "vval s < radix ^ length l" "vval l < radix ^ length l" "vval r < radix ^ length l"
    using vval_lt [of s] vval_lt [of l] vval_lt [of r] v(2) assms(2) by simp_all
  from carry_bit [OF v(3)] show "c = 0 \<longleftrightarrow> vval r \<le> vval l"
  proof
    assume "c = 0"
    then show ?thesis using v(1) by simp
  next
    assume "c = 1"
    then show ?thesis using v(1) b by simp
  qed
  show "c = 0 \<Longrightarrow> vval s = vval l - vval r" using v(1) by simp
  show "c \<noteq> 0 \<Longrightarrow> vval s = radix ^ length l + vval l - vval r" using v(1) carry_bit [OF v(3)] by auto
qed

lemma vli_cmp:
  assumes "length l = length r"
  shows "uECC_vli_cmp l r = sgn (int (vval l) - int (vval r))"
proof -
  obtain s c where s: "uECC_vli_sub l r = (s, c)" by fastforce
  note b = vli_sub_borrow [OF s assms] and v = vli_sub [OF s assms]
  have "vval s < radix ^ length l" "vval r < radix ^ length l" using vval_lt [of s] vval_lt [of r] v(2) assms by simp_all
  then show ?thesis
    using b v(1) by (cases "c = 0") (auto simp: uECC_vli_cmp_def s isZero_vval sgn_if)
qed

lemma cmp_words_rev:
  assumes "length l = length r"
  shows "cmp_words l r = sgn (int (vval (rev l)) - int (vval (rev r)))"
  using assms
proof (induction l r rule: list_induct2)
  case (Cons x xs y ys)
  have b: "vval (rev xs) < radix ^ length xs" "vval (rev ys) < radix ^ length xs"
    using vval_lt [of "rev xs"] vval_lt [of "rev ys"] Cons.hyps by simp_all
  have v: "vval (rev (x # xs)) = vval (rev xs) + radix ^ length xs * unat x"
    "vval (rev (y # ys)) = vval (rev ys) + radix ^ length xs * unat y"
    using Cons.hyps by (simp_all add: vval_append)
  have lt: "a + radix ^ length xs * i < c + radix ^ length xs * j"
    if "i < j" "a < radix ^ length xs" for a c i j :: nat
  proof -
    have "a + radix ^ length xs * i < radix ^ length xs * (i + 1)" using that(2) by simp
    also have "\<dots> \<le> radix ^ length xs * j" using that(1) by (intro mult_le_mono2) simp
    finally show ?thesis by simp
  qed
  consider "unat x < unat y" | "unat y < unat x" | "x = y" by (metis linorder_neqE_nat word_unat_eq_iff)
  then show ?case
  proof cases
    case 1
    then have "vval (rev (x # xs)) < vval (rev (y # ys))" unfolding v using lt b by blast
    then show ?thesis using 1 by (simp add: word_less_nat_alt sgn_if del: rev.simps)
  next
    case 2
    then have "vval (rev (y # ys)) < vval (rev (x # xs))" unfolding v using lt b by blast
    then show ?thesis using 2 by (simp add: word_less_nat_alt sgn_if del: rev.simps)
  next
    case 3
    then show ?thesis using Cons.IH unfolding v by simp
  qed
qed simp

lemma vli_cmp_unsafe:
  "length l = length r \<Longrightarrow> uECC_vli_cmp_unsafe l r = sgn (int (vval l) - int (vval r))"
  using cmp_words_rev [of "rev l" "rev r"] by (simp add: uECC_vli_cmp_unsafe_def)

section \<open>Halving\<close>

lemma rshift_word:
  fixes t s :: u32
  shows "unat (drop_bit 1 t OR push_bit 31 s) = unat t div 2 + 2147483648 * (unat s mod 2)"
proof -
  have "drop_bit 1 t AND push_bit 31 s = 0"
    by (rule bit_word_eqI) (auto simp: bit_simps dest: bit_imp_le_length)
  then have "drop_bit 1 t OR push_bit 31 s = drop_bit 1 t + push_bit 31 s" by (rule or_disjoint)
  moreover have d: "unat (drop_bit 1 t) = unat t div 2" by (simp add: drop_bit_eq_div unat_div)
  moreover have p: "unat (push_bit 31 s) = 2147483648 * (unat s mod 2)"
  proof -
    have "unat (push_bit 31 s) = (unat s * 2147483648) mod radix"
      by (simp add: push_bit_eq_mult unat_word_ariths)
    also have "\<dots> = 2147483648 * (unat s mod 2)" using mult_mod_right [of 2147483648 "unat s" 2] by (simp add: mult.commute)
    finally show ?thesis .
  qed
  moreover have "unat t div 2 + 2147483648 * (unat s mod 2) < radix"
    using u32_lt [of t] by linarith
  ultimately show ?thesis by (simp add: unat_word_ariths)
qed

lemma regroup: "a + R * m + 2 * (R * (d + q)) = a + R * (2 * d + m) + R * (2 * q)" for a R :: nat
  by (simp only: algebra_simps)

lemma rshift_words_val:
  "vval (rev (rshift_words (push_bit 31 s) ts)) = (vval (rev ts) + radix ^ length ts * (unat s mod 2)) div 2 \<and>
    length (rshift_words (push_bit 31 s) ts) = length ts"
proof (induction ts arbitrary: s)
  case (Cons t ts)
  define R where "R = radix ^ length ts"
  define q where "q = 2147483648 * (unat s mod 2)"
  have "vval (rev (rshift_words (push_bit 31 s) (t # ts))) = (vval (rev ts) + R * (unat t mod 2)) div 2 + R * (unat t div 2 + q)"
    using Cons.IH [of t] by (simp add: vval_append rshift_word [unfolded One_nat_def] R_def q_def)
  also have "\<dots> = (vval (rev ts) + R * (unat t mod 2) + 2 * (R * (unat t div 2 + q))) div 2" by simp
  also have "vval (rev ts) + R * (unat t mod 2) + 2 * (R * (unat t div 2 + q)) =
      vval (rev ts) + R * (2 * (unat t div 2) + unat t mod 2) + R * (2 * q)" by (rule regroup)
  also have "2 * (unat t div 2) + unat t mod 2 = unat t" by simp
  also have "vval (rev ts) + R * unat t + R * (2 * q) = vval (rev (t # ts)) + radix ^ length (t # ts) * (unat s mod 2)"
    by (simp add: vval_append R_def q_def algebra_simps)
  finally show ?case using Cons.IH [of t] by simp
qed simp

lemma vli_rshift1: "vval (uECC_vli_rshift1 v) = vval v div 2" "length (uECC_vli_rshift1 v) = length v"
  using rshift_words_val [of 0 "rev v"] by (simp_all add: uECC_vli_rshift1_def)

text \<open>The highest bit set from a carry.\<close>

lemma vval_update_last:
  assumes "v \<noteq> []" "unat (last v) < 2147483648"
  shows "vval (v[length v - 1 := last v OR 0x80000000]) = vval v + 2147483648 * radix ^ (length v - 1)"
proof -
  obtain w x where v: "v = w @ [x]" using assms(1) by (cases v rule: rev_cases) auto
  have x: "unat x < 2147483648" using assms(2) v by simp
  have "x = take_bit 31 x" using x by (simp add: take_bit_eq_mod word_unat_eq_iff unat_mod)
  then have "\<not> bit x 31" by (metis bit_take_bit_iff less_irrefl)
  then have "x AND 2 ^ 31 = 0" by (rule iffD2 [OF and_exp_eq_0_iff_not_bit])
  then have "x AND 0x80000000 = 0" by simp
  then have "x OR 0x80000000 = x + 0x80000000" by (rule or_disjoint)
  then have "unat (x OR 0x80000000) = unat x + 2147483648" using x by (simp add: unat_word_ariths)
  then show ?thesis by (simp add: v vval_append algebra_simps)
qed

section \<open>Products\<close>

definition acc_val :: "u32 \<times> u32 \<times> u32 \<Rightarrow> nat" where
  "acc_val = (\<lambda>(r0, r1, r2). unat r0 + radix * unat r1 + radix * radix * unat r2)"

lemma unat_u64: "unat (ucast w :: u64) = unat (w :: u32)"
  using u32_lt [of w] by (simp add: unsigned_ucast_eq take_bit_nat_eq_self)

lemma muladd_val:
  assumes "acc_val r + unat a * unat b < radix * radix * radix"
  shows "acc_val (muladd a b r) = acc_val r + unat a * unat b"
proof -
  obtain r0 r1 r2 where r: "r = (r0, r1, r2)" by (cases r) auto
  let ?p = "(ucast a :: u64) * ucast b" and ?q = "push_bit 32 (ucast r1 :: u64) OR ucast r0"
  have ab: "unat a * unat b \<le> (radix - 1) * (radix - 1)"
    using u32_lt [of a] u32_lt [of b] by (intro mult_le_mono) simp_all
  have p: "unat ?p = unat a * unat b"
    using ab by (simp add: unat_word_ariths unat_u64)
  have "push_bit 32 (ucast r1 :: u64) AND ucast r0 = 0"
    by (rule bit_word_eqI) (auto simp: bit_simps dest: bit_imp_le_length)
  then have "?q = push_bit 32 (ucast r1) + ucast r0" by (rule or_disjoint)
  then have q: "unat ?q = unat r0 + radix * unat r1"
    using u32_lt [of r0] u32_lt [of r1] by (simp add: push_bit_eq_mult unat_word_ariths unat_u64)
  define s where "s = ?q + ?p"
  have lt: "unat ?q + unat ?p < 2 * (radix * radix)"
    using q p ab u32_lt [of r0] u32_lt [of r1] by simp
  have s: "unat s + radix * radix * of_bool (s < ?p) = unat ?q + unat ?p"
  proof (cases "unat ?q + unat ?p < radix * radix")
    case True
    then have "unat s = unat ?q + unat ?p" by (simp add: s_def unat_word_ariths)
    then show ?thesis by (simp add: word_less_nat_alt)
  next
    case False
    then have "unat s = unat ?q + unat ?p - radix * radix" using lt by (simp add: s_def unat_word_ariths le_mod_geq)
    moreover have "unat ?q < radix * radix" using unsigned_less [of ?q, where 'a = nat] by simp
    ultimately show ?thesis using False by (simp add: word_less_nat_alt)
  qed
  have lo: "unat (ucast s :: u32) + radix * unat (ucast (drop_bit 32 s) :: u32) = unat s"
  proof -
    have "unat s div radix < radix" using unsigned_less [of s, where 'a = nat] by simp
    then have "unat (ucast (drop_bit 32 s) :: u32) = unat s div radix"
      by (simp add: unsigned_ucast_eq take_bit_eq_mod drop_bit_eq_div unat_div)
    moreover have "unat (ucast s :: u32) = unat s mod radix" by (simp add: unsigned_ucast_eq take_bit_eq_mod)
    ultimately show ?thesis by simp
  qed
  have "unat (r2 + of_bool (s < ?p)) = unat r2 + of_bool (s < ?p)"
  proof (cases "s < ?p")
    case True
    then have "radix * radix * (unat r2 + 1) < radix * radix * radix"
      using s assms p q by (simp add: r acc_val_def)
    then have "unat r2 + 1 < radix" by simp
    then show ?thesis using True by (simp add: unat_word_ariths)
  qed simp
  then have "acc_val (muladd a b r) = unat s + radix * radix * (unat r2 + of_bool (s < ?p))"
    using lo by (simp add: r acc_val_def Let_def s_def [symmetric])
  also have "\<dots> = acc_val r + unat a * unat b" using s p q by (simp add: r acc_val_def algebra_simps)
  finally show ?thesis .
qed

lemma fold_muladd:
  "acc_val r + sum_list (map (\<lambda>i. unat (f i) * unat (g i)) is) < radix * radix * radix \<Longrightarrow>
    acc_val (fold (\<lambda>i. muladd (f i) (g i)) is r) = acc_val r + sum_list (map (\<lambda>i. unat (f i) * unat (g i)) is)"
proof (induction "is" arbitrary: r)
  case (Cons i "is")
  have "acc_val (muladd (f i) (g i) r) = acc_val r + unat (f i) * unat (g i)"
    using Cons.prems by (intro muladd_val) simp
  then show ?case using Cons.IH [of "muladd (f i) (g i) r"] Cons.prems by (simp add: add.assoc)
qed simp

definition column_of :: "nat \<Rightarrow> nat \<Rightarrow> nat list" where
  "column_of n k = (if k < n then [0..<k + 1] else [k + 1 - n..<n])"

definition col :: "vli \<Rightarrow> vli \<Rightarrow> nat \<Rightarrow> nat \<Rightarrow> nat" where
  "col l r n k = sum_list (map (\<lambda>i. unat (l ! i) * unat (r ! (k - i))) (column_of n k))"

lemma col_bound:
  assumes "n \<le> 64"
  shows "col l r n k \<le> 64 * ((radix - 1) * (radix - 1))"
proof -
  have "length (column_of n k) \<le> 64" using assms by (auto simp: column_of_def)
  moreover have "sum_list (map (\<lambda>i. unat (l ! i) * unat (r ! (k - i))) xs) \<le> length xs * ((radix - 1) * (radix - 1))" for xs
  proof (induction xs)
    case (Cons i xs)
    have "unat (l ! i) * unat (r ! (k - i)) \<le> (radix - 1) * (radix - 1)"
      using u32_lt [of "l ! i"] u32_lt [of "r ! (k - i)"] by (intro mult_le_mono) simp_all
    then show ?case using Cons.IH by simp
  qed simp
  ultimately show ?thesis unfolding col_def by (meson le_trans mult_le_mono1)
qed

lemma mult_columns_val:
  assumes "n \<le> 64" "acc_val acc < 1099511627776"
  shows "\<exists>rest. vval (mult_columns l r n ks acc) + radix ^ (length ks + 1) * rest =
      acc_val acc + foldr (\<lambda>k s. col l r n k + radix * s) ks 0 \<and>
    length (mult_columns l r n ks acc) = length ks + 1"
  using assms(2)
proof (induction ks arbitrary: acc)
  case Nil
  obtain r0 r1 r2 where r: "acc = (r0, r1, r2)" by (cases acc) auto
  show ?case by (intro exI [of _ "unat r1 + radix * unat r2"]) (simp add: r acc_val_def algebra_simps)
next
  case (Cons k ks)
  define c where "c = col l r n k"
  have "c \<le> 64 * ((radix - 1) * (radix - 1))" unfolding c_def by (rule col_bound [OF assms(1)])
  then have "c \<le> 1180591620167655489600" by simp
  then have b: "acc_val acc + c < 1099511627776 * radix" using Cons.prems by linarith
  obtain r0 r1 r2 where f: "fold (\<lambda>i. muladd (l ! i) (r ! (k - i))) (column_of n k) acc = (r0, r1, r2)"
    by (rule prod_cases3)
  have v: "acc_val (r0, r1, r2) = acc_val acc + c"
    using fold_muladd [of acc "\<lambda>i. l ! i" "\<lambda>i. r ! (k - i)" "column_of n k"] b by (simp add: f c_def col_def)
  then have nx: "unat r0 + radix * acc_val (r1, r2, 0) = acc_val acc + c" by (simp add: acc_val_def algebra_simps)
  then have "acc_val (r1, r2, 0) < 1099511627776" using b by linarith
  from Cons.IH [OF this] obtain rest where ih:
    "vval (mult_columns l r n ks (r1, r2, 0)) + radix ^ (length ks + 1) * rest =
      acc_val (r1, r2, 0) + foldr (\<lambda>k s. col l r n k + radix * s) ks 0"
    "length (mult_columns l r n ks (r1, r2, 0)) = length ks + 1" by blast
  define V where "V = vval (mult_columns l r n ks (r1, r2, 0))"
  have m: "mult_columns l r n (k # ks) acc = r0 # mult_columns l r n ks (r1, r2, 0)"
    unfolding mult_columns.simps column_of_def [symmetric] f prod.case ..
  have "radix * (V + radix ^ (length ks + 1) * rest) = radix * (acc_val (r1, r2, 0) + foldr (\<lambda>k s. col l r n k + radix * s) ks 0)"
    by (simp only: V_def ih(1))
  then have "unat r0 + radix * V + radix ^ (length (k # ks) + 1) * rest =
      acc_val acc + (c + radix * foldr (\<lambda>k s. col l r n k + radix * s) ks 0)"
    using nx by (simp add: algebra_simps)
  then show ?case using ih(2) by (intro exI [of _ rest]) (simp add: m V_def [symmetric] c_def del: mult_columns.simps)
qed

lemma foldr_columns: "foldr (\<lambda>k s. c k + radix * s) [a..<a + m] 0 = (\<Sum>k < m. radix ^ k * c (a + k))"
proof (induction m arbitrary: a)
  case (Suc m)
  have "[a..<a + Suc m] = a # [Suc a..<Suc a + m]" by (simp add: upt_rec)
  then have "foldr (\<lambda>k s. c k + radix * s) [a..<a + Suc m] 0 = c a + radix * (\<Sum>k < m. radix ^ k * c (Suc a + k))"
    using Suc.IH [of "Suc a"] by simp
  also have "\<dots> = c a + (\<Sum>k < m. radix ^ Suc k * c (a + Suc k))" by (simp add: sum_distrib_left mult.assoc)
  also have "\<dots> = (\<Sum>k < Suc m. radix ^ k * c (a + k))" unfolding sum.lessThan_Suc_shift by simp
  finally show ?case .
qed simp

lemma vval_sum: "vval v = (\<Sum>i < length v. radix ^ i * unat (v ! i))"
proof (induction v)
  case (Cons w ws)
  then show ?case unfolding length_Cons sum.lessThan_Suc_shift by (simp add: sum_distrib_left mult.assoc)
qed simp

lemma convolution:
  fixes f :: "nat \<Rightarrow> nat \<Rightarrow> nat"
  assumes "0 < n"
  shows "(\<Sum>i < n. \<Sum>j < n. f i j) = (\<Sum>k < 2 * n - 1. \<Sum>i \<in> set (column_of n k). f i (k - i))"
proof -
  have "(\<Sum>i < n. \<Sum>j < n. f i j) = (\<Sum>(i, j) \<in> {..<n} \<times> {..<n}. f i j)" by (simp add: sum.cartesian_product)
  also have "\<dots> = (\<Sum>(k, i) \<in> Sigma {..<2 * n - 1} (\<lambda>k. set (column_of n k)). f i (k - i))"
    by (rule sum.reindex_bij_witness [where i = "\<lambda>(k, i). (i, k - i)" and j = "\<lambda>(i, j). (i + j, i)"])
      (auto simp: column_of_def split: if_splits)
  also have "\<dots> = (\<Sum>k < 2 * n - 1. \<Sum>i \<in> set (column_of n k). f i (k - i))"
    by (simp add: sum.Sigma)
  finally show ?thesis .
qed

lemma column_ks: "0 < n \<Longrightarrow> [0..<n] @ [n..<n * 2 - 1] = [0..<0 + (2 * n - 1)]"
proof -
  assume "0 < n"
  then have "0 + (2 * n - 1) = n + (n - 1)" "n * 2 - 1 = n + (n - 1)" by simp_all
  then show ?thesis using upt_add_eq_append [of 0 n "n - 1"] by (simp only: le0)
qed

lemma mult4: "(a * b) * (c * d) = (a * c) * (b * d)" for a b c d :: nat
  by (rule mult.commute [THEN trans]) (simp only: ac_simps)

lemma vli_mult_exact:
  assumes "length l = n" "length r = n" "0 < n" "n \<le> 64"
  shows "vval (uECC_vli_mult l r n) = vval l * vval r" "length (uECC_vli_mult l r n) = 2 * n"
proof -
  have ks: "[0..<n] @ [n..<n * 2 - 1] = [0..<0 + (2 * n - 1)]"
    by (rule column_ks [OF assms(3)])
  have "acc_val (0, 0, 0) < 1099511627776" by (simp add: acc_val_def)
  from mult_columns_val [OF assms(4) this, of l r "[0..<0 + (2 * n - 1)]"] obtain rest where
    m: "vval (uECC_vli_mult l r n) + radix ^ (2 * n) * rest = foldr (\<lambda>k s. col l r n k + radix * s) [0..<0 + (2 * n - 1)] 0"
    "length (uECC_vli_mult l r n) = 2 * n"
    using assms(3) unfolding uECC_vli_mult_def ks by (auto simp: acc_val_def)
  have dist: "distinct (column_of n k)" for k by (simp add: column_of_def)
  have "vval l * vval r = (\<Sum>i < n. \<Sum>j < n. (radix ^ i * unat (l ! i)) * (radix ^ j * unat (r ! j)))"
    by (simp add: vval_sum assms(1,2) sum_product)
  also have "\<dots> = (\<Sum>k < 2 * n - 1. \<Sum>i \<in> set (column_of n k). (radix ^ i * unat (l ! i)) * (radix ^ (k - i) * unat (r ! (k - i))))"
    by (rule convolution [OF assms(3)])
  also have "\<dots> = (\<Sum>k < 2 * n - 1. radix ^ k * col l r n k)"
  proof (rule sum.cong [OF refl])
    fix k
    have "radix ^ i * radix ^ (k - i) = radix ^ k" if "i \<in> set (column_of n k)" for i
      using that by (auto simp: column_of_def power_add [symmetric] split: if_splits)
    then have "(radix ^ i * unat (l ! i)) * (radix ^ (k - i) * unat (r ! (k - i))) = radix ^ k * (unat (l ! i) * unat (r ! (k - i)))"
      if "i \<in> set (column_of n k)" for i
      using that mult4 [of "radix ^ i" "unat (l ! i)" "radix ^ (k - i)" "unat (r ! (k - i))"] by simp
    then have "(\<Sum>i \<in> set (column_of n k). (radix ^ i * unat (l ! i)) * (radix ^ (k - i) * unat (r ! (k - i)))) =
        (\<Sum>i \<in> set (column_of n k). radix ^ k * (unat (l ! i) * unat (r ! (k - i))))"
      by (rule sum.cong [OF refl])
    then show "(\<Sum>i \<in> set (column_of n k). (radix ^ i * unat (l ! i)) * (radix ^ (k - i) * unat (r ! (k - i)))) =
        radix ^ k * col l r n k"
      by (simp add: col_def sum_list_distinct_conv_sum_set [OF dist] sum_distrib_left)
  qed
  also have "\<dots> = vval (uECC_vli_mult l r n) + radix ^ (2 * n) * rest"
    unfolding m(1) foldr_columns by simp
  finally have e: "vval l * vval r = vval (uECC_vli_mult l r n) + radix ^ (2 * n) * rest" .
  have "vval l * vval r < radix ^ n * radix ^ n"
    using vval_lt [of l] vval_lt [of r] assms(1,2) by (intro mult_strict_mono) simp_all
  then have "vval l * vval r < radix ^ (2 * n)" by (simp add: mult_2 power_add)
  then have "rest = 0" using e by (cases rest) auto
  then show "vval (uECC_vli_mult l r n) = vval l * vval r" using e by simp
  show "length (uECC_vli_mult l r n) = 2 * n" by (rule m(2))
qed

end
