(* ===== verification/VliFast.thy ===== *)
theory VliFast
  imports VliSpec
begin

text \<open>
  The fast reduction modulo the prime of secp256r1: the nine sums of the NIST recipe, and the correction
  loop that follows them. Every 16-word product comes out as its remainder, and both loops end.
\<close>

section \<open>Whole numbers of 256 bits\<close>

lemma while_total:
  fixes f :: "'a \<Rightarrow> nat"
  assumes "\<And>s. P s \<Longrightarrow> b s \<Longrightarrow> P (c s) \<and> f (c s) < f s" "P s"
  shows "\<exists>t. while_option b c s = Some t \<and> P t \<and> \<not> b t"
proof -
  obtain t where t: "while_option b c s = Some t" using measure_while_option_Some [of P b c f s] assms by blast
  have "P t" using while_option_rule [of P b c s t] assms t by blast
  then show ?thesis using t while_option_stop [OF t] by blast
qed

lemma vli_add_int:
  assumes "uECC_vli_add l r = (s, c)" "length l = 8" "length r = 8"
  shows "int (vval s) + 2 ^ 256 * uint c = int (vval l) + int (vval r)" "length s = 8"
proof -
  have "int (vval s + radix ^ 8 * unat c) = int (vval l + vval r)" using vli_add(1) [OF assms(1)] assms(2,3) by simp
  then show "int (vval s) + 2 ^ 256 * uint c = int (vval l) + int (vval r)" by simp
  show "length s = 8" using vli_add(2) [OF assms(1)] assms(2,3) by simp
qed

lemma vli_sub_int:
  assumes "uECC_vli_sub l r = (s, c)" "length l = 8" "length r = 8"
  shows "int (vval s) - 2 ^ 256 * uint c = int (vval l) - int (vval r)" "length s = 8"
proof -
  have "int (vval s + vval r) = int (vval l + radix ^ 8 * unat c)" using vli_sub(1) [OF assms(1)] assms(2,3) by simp
  then show "int (vval s) - 2 ^ 256 * uint c = int (vval l) - int (vval r)" by simp
  show "length s = 8" using vli_sub(2) [OF assms(1)] assms(2,3) by simp
qed

abbreviation ival :: "vli \<Rightarrow> int" where "ival v \<equiv> int (vval v)"

lemma ival_lt: "length v = 8 \<Longrightarrow> ival v < 2 ^ 256" "0 \<le> ival v"
proof -
  assume "length v = 8"
  then have "vval v < 2 ^ 256" using vval_lt [of v] by simp
  then have "ival v < int (2 ^ 256)" by (simp only: of_nat_less_iff)
  then show "ival v < 2 ^ 256" by simp
qed simp

lemma low_zero:
  assumes "uECC_vli_add (0 # 0 # 0 # xs) (0 # 0 # 0 # xs) = (s, c)"
  shows "take 3 s = [0, 0, 0]"
  using assms by (auto simp: uECC_vli_add_def Let_def split: prod.splits)

definition curve_p_int :: int where
  "curve_p_int = 115792089210356248762697446949407573530086143415290314195533631308867097853951"

lemma curve_p_val: "ival curve_p = curve_p_int" "length curve_p = 8"
  by (simp_all add: curve_p_def curve_p_int_def)

lemma len8: "length [a, b, c, d, e, f, g, h] = 8" for a b c d e f g h :: u32
  by simp

section \<open>The sums\<close>

definition nist_int :: "(nat \<Rightarrow> u32) \<Rightarrow> int" where
  "nist_int c = ival [c 0, c 1, c 2, c 3, c 4, c 5, c 6, c 7]
    + 2 * ival [0, 0, 0, c 11, c 12, c 13, c 14, c 15]
    + 2 * ival [0, 0, 0, c 12, c 13, c 14, c 15, 0]
    + ival [c 8, c 9, c 10, 0, 0, 0, c 14, c 15]
    + ival [c 9, c 10, c 11, c 13, c 14, c 15, c 13, c 8]
    - ival [c 11, c 12, c 13, 0, 0, 0, c 8, c 10]
    - ival [c 12, c 13, c 14, c 15, 0, 0, c 9, c 11]
    - ival [c 13, c 14, c 15, c 8, c 9, c 10, 0, c 12]
    - ival [c 14, c 15, 0, c 9, c 10, c 11, 0, c 13]"

lemma nist_cong:
  assumes "length product = 16"
  shows "ival product = nist_int ((!) product) + curve_p_int * (1 * uint (product ! 8) + 4294967297 * uint (product ! 9) + 18446744078004518912 * uint (product ! 10) + 79228162532711081667253501951 * uint (product ! 11) + 340282367000166625977638945021017194495 * uint (product ! 12) + 1461501637671185285124623296161210883009696235519 * uint (product ! 13) + 6277101736848182401166692341332123086285927382448418586623 * uint (product ! 14) + 26959946673427741530053695850515137729844644212646842236464328081408 * uint (product ! 15))"
proof -
  have "vval product = (\<Sum>i < 16. radix ^ i * unat (product ! i))" by (simp only: vval_sum assms)
  also have "{..<16} = {0, 1, 2, 3, 4, 5, 6, 7, 8, 9, 10, 11, 12, 13, 14, 15 :: nat}" by (simp add: lessThan_Suc numeral_eq_Suc insert_commute)
  finally show ?thesis by (simp add: nist_int_def curve_p_int_def)
qed

lemma mmod_fast_sums_int:
  assumes "length product = 16"
  shows "case mmod_fast_sums product of (result, carry) \<Rightarrow>
    length result = 8 \<and> ival result + 2 ^ 256 * carry = nist_int ((!) product)"
proof -
  define c where "c = (!) product"
  obtain t1 e1 where t1: "uECC_vli_add [0, 0, 0, c 11, c 12, c 13, c 14, c 15] [0, 0, 0, c 11, c 12, c 13, c 14, c 15] = (t1, e1)" by fastforce
  define r0 where "r0 = take 8 product"
  have r0: "length r0 = 8" "r0 = [c 0, c 1, c 2, c 3, c 4, c 5, c 6, c 7]"
    using assms by (auto simp: r0_def c_def intro!: nth_equalityI simp: less_Suc_eq numeral_eq_Suc)
  obtain r1 f1 where r1: "uECC_vli_add r0 t1 = (r1, f1)" by fastforce
  obtain t2 e2 where t2: "uECC_vli_add [0, 0, 0, c 12, c 13, c 14, c 15, 0] [0, 0, 0, c 12, c 13, c 14, c 15, 0] = (t2, e2)" by fastforce
  obtain r2 f2 where r2: "uECC_vli_add r1 t2 = (r2, f2)" by fastforce
  obtain r3 f3 where r3: "uECC_vli_add r2 [c 8, c 9, c 10, 0, 0, 0, c 14, c 15] = (r3, f3)" by fastforce
  obtain r4 f4 where r4: "uECC_vli_add r3 [c 9, c 10, c 11, c 13, c 14, c 15, c 13, c 8] = (r4, f4)" by fastforce
  obtain r5 f5 where r5: "uECC_vli_sub r4 [c 11, c 12, c 13, 0, 0, 0, c 8, c 10] = (r5, f5)" by fastforce
  obtain r6 f6 where r6: "uECC_vli_sub r5 [c 12, c 13, c 14, c 15, 0, 0, c 9, c 11] = (r6, f6)" by fastforce
  obtain r7 f7 where r7: "uECC_vli_sub r6 [c 13, c 14, c 15, c 8, c 9, c 10, 0, c 12] = (r7, f7)" by fastforce
  obtain r8 f8 where r8: "uECC_vli_sub r7 [c 14, c 15, 0, c 9, c 10, c 11, 0, c 13] = (r8, f8)" by fastforce
  have eq: "mmod_fast_sums product = (r8, uint e1 + uint f1 + uint e2 + uint f2 + uint f3 + uint f4 - uint f5 - uint f6 - uint f7 - uint f8)"
    by (simp only: mmod_fast_sums_def Let_def c_def [symmetric] r0_def [symmetric] t1 r1 low_zero [OF t1] append_Cons append_Nil
      t2 r2 r3 r4 r5 r6 r7 r8 prod.case)
  have v: "ival t1 + 2 ^ 256 * uint e1 = 2 * ival [0, 0, 0, c 11, c 12, c 13, c 14, c 15]" "length t1 = 8"
    using vli_add_int [OF t1] by simp_all
  have w: "ival t2 + 2 ^ 256 * uint e2 = 2 * ival [0, 0, 0, c 12, c 13, c 14, c 15, 0]" "length t2 = 8"
    using vli_add_int [OF t2] by simp_all
  note x1 = vli_add_int [OF r1 r0(1) v(2)]
  note x2 = vli_add_int [OF r2 x1(2) w(2)]
  note x3 = vli_add_int [OF r3 x2(2) len8]
  note x4 = vli_add_int [OF r4 x3(2) len8]
  note x5 = vli_sub_int [OF r5 x4(2) len8]
  note x6 = vli_sub_int [OF r6 x5(2) len8]
  note x7 = vli_sub_int [OF r7 x6(2) len8]
  note x8 = vli_sub_int [OF r8 x7(2) len8]
  show ?thesis unfolding eq prod.case nist_int_def c_def [symmetric] r0(2) [symmetric]
    using v w x1 x2 x3 x4 x5 x6 x7 x8 by simp
qed

lemma cmp_p:
  assumes "length r = 8"
  shows "uECC_vli_cmp_unsafe curve_p r \<noteq> 1 \<longleftrightarrow> curve_p_int \<le> ival r"
  using assms curve_p_val by (simp add: vli_cmp_unsafe sgn_if)

section \<open>The correction\<close>

definition wide_val :: "vli \<times> int \<Rightarrow> int" where
  "wide_val = (\<lambda>(result, carry). ival result + 2 ^ 256 * carry)"

abbreviation fix_up :: "vli \<times> int \<Rightarrow> vli \<times> int" where
  "fix_up \<equiv> \<lambda>(result, carry). let (result, c) = uECC_vli_add result curve_p in (result, carry + uint c)"

abbreviation fix_down :: "vli \<times> int \<Rightarrow> vli \<times> int" where
  "fix_down \<equiv> \<lambda>(result, carry). let (result, c) = uECC_vli_sub result curve_p in (result, carry - uint c)"

abbreviation too_big :: "vli \<times> int \<Rightarrow> bool" where
  "too_big \<equiv> \<lambda>(result, carry). carry \<noteq> 0 \<or> uECC_vli_cmp_unsafe curve_p result \<noteq> 1"

lemma fix_up_val:
  assumes "length result = 8"
  shows "wide_val (fix_up (result, carry)) = wide_val (result, carry) + curve_p_int"
    "length (fst (fix_up (result, carry))) = 8"
proof -
  obtain res k where a: "uECC_vli_add result curve_p = (res, k)" by fastforce
  note l = vli_add_int [OF a assms curve_p_val(2)]
  show "wide_val (fix_up (result, carry)) = wide_val (result, carry) + curve_p_int"
    using l curve_p_val(1) by (simp add: wide_val_def a algebra_simps)
  show "length (fst (fix_up (result, carry))) = 8" using l by (simp add: a)
qed

lemma fix_down_val:
  assumes "length result = 8"
  shows "wide_val (fix_down (result, carry)) = wide_val (result, carry) - curve_p_int"
    "length (fst (fix_down (result, carry))) = 8"
proof -
  obtain res k where a: "uECC_vli_sub result curve_p = (res, k)" by fastforce
  note l = vli_sub_int [OF a assms curve_p_val(2)]
  show "wide_val (fix_down (result, carry)) = wide_val (result, carry) - curve_p_int"
    using l curve_p_val(1) by (simp add: wide_val_def a algebra_simps)
  show "length (fst (fix_down (result, carry))) = 8" using l by (simp add: a)
qed

text \<open>The sign of the carry is the sign of the whole number.\<close>

lemma carry_sign:
  assumes "length (fst s) = 8"
  shows "snd s < 0 \<longleftrightarrow> wide_val s < 0" "too_big s \<longleftrightarrow> snd s < 0 \<or> curve_p_int \<le> wide_val s"
proof -
  obtain result carry where s: "s = (result, carry)" by fastforce
  have b: "ival result < 2 ^ 256" "0 \<le> ival result" using ival_lt assms by (simp_all add: s)
  consider "carry + 1 \<le> 0" | "carry = 0" | "1 \<le> carry" by linarith
  then have "(carry < 0 \<longleftrightarrow> wide_val s < 0) \<and> (too_big s \<longleftrightarrow> carry < 0 \<or> curve_p_int \<le> wide_val s)"
    using b cmp_p [of result] assms by cases (simp_all add: s wide_val_def curve_p_int_def)
  then show "snd s < 0 \<longleftrightarrow> wide_val s < 0" "too_big s \<longleftrightarrow> snd s < 0 \<or> curve_p_int \<le> wide_val s" by (simp_all add: s)
qed

lemma fix_up_loop:
  assumes "length (fst s) = 8" "snd s < 0"
  shows "\<exists>t. while_option (\<lambda>(result, carry). carry < 0) fix_up s = Some t \<and> length (fst t) = 8 \<and>
    ival (fst t) = wide_val s mod curve_p_int"
proof -
  let ?P = "\<lambda>t. length (fst t) = 8 \<and> wide_val t mod curve_p_int = wide_val s mod curve_p_int \<and> wide_val t < curve_p_int"
  have "\<exists>t. while_option (\<lambda>(result, carry). carry < 0) fix_up s = Some t \<and> ?P t \<and> \<not> (case t of (result, carry) \<Rightarrow> carry < 0)"
  proof (rule while_total [where f = "\<lambda>t. nat (curve_p_int - wide_val t)"])
    fix t :: "vli \<times> int" assume t: "?P t" "case t of (result, carry) \<Rightarrow> carry < 0"
    have "wide_val (fix_up t) = wide_val t + curve_p_int" "length (fst (fix_up t)) = 8"
      using t(1) fix_up_val [of "fst t" "snd t"] by (simp_all only: prod.collapse)
    moreover have "wide_val t < 0" using carry_sign(1) [of t] t by (simp add: case_prod_beta)
    moreover have "0 < curve_p_int" by (simp add: curve_p_int_def)
    ultimately show "?P (fix_up t) \<and> nat (curve_p_int - wide_val (fix_up t)) < nat (curve_p_int - wide_val t)"
      using t(1) by (simp del: split_paired_All)
  next
    show "?P s" using assms carry_sign(1) [of s] by (simp add: curve_p_int_def)
  qed
  then obtain t where t: "while_option (\<lambda>(result, carry). carry < 0) fix_up s = Some t" "?P t" "\<not> snd t < 0"
    by (auto simp: case_prod_beta)
  have "0 \<le> wide_val t" using carry_sign(1) [of t] t by simp
  then have v: "wide_val t = wide_val s mod curve_p_int" using t(2) by (metis mod_pos_pos_trivial)
  have "\<not> too_big t" using carry_sign(2) [of t] t by simp
  then have "snd t = 0" by (simp add: case_prod_beta)
  then show ?thesis using t v by (auto simp: wide_val_def case_prod_beta)
qed

lemma fix_down_loop:
  assumes "length (fst s) = 8" "\<not> snd s < 0"
  shows "\<exists>t. while_option too_big fix_down s = Some t \<and> length (fst t) = 8 \<and> ival (fst t) = wide_val s mod curve_p_int"
proof -
  let ?P = "\<lambda>t. length (fst t) = 8 \<and> wide_val t mod curve_p_int = wide_val s mod curve_p_int \<and> 0 \<le> wide_val t"
  have "\<exists>t. while_option too_big fix_down s = Some t \<and> ?P t \<and> \<not> too_big t"
  proof (rule while_total [where f = "\<lambda>t. nat (wide_val t)"])
    fix t :: "vli \<times> int" assume t: "?P t" "too_big t"
    have "wide_val (fix_down t) = wide_val t - curve_p_int" "length (fst (fix_down t)) = 8"
      using t(1) fix_down_val [of "fst t" "snd t"] by (simp_all only: prod.collapse)
    moreover have "curve_p_int \<le> wide_val t" using carry_sign [of t] t by simp
    moreover have "0 < curve_p_int" by (simp add: curve_p_int_def)
    ultimately show "?P (fix_down t) \<and> nat (wide_val (fix_down t)) < nat (wide_val t)"
      using t(1) by (simp del: split_paired_All)
  next
    show "?P s" using assms carry_sign(1) [of s] by simp
  qed
  then obtain t where t: "while_option too_big fix_down s = Some t" "?P t" "\<not> too_big t" by blast
  have "wide_val t < curve_p_int" using carry_sign(2) [of t] t by simp
  then have v: "wide_val t = wide_val s mod curve_p_int" using t(2) by (metis mod_pos_pos_trivial)
  have "snd t = 0" using t(3) by (simp add: case_prod_beta)
  then show ?thesis using t v by (auto simp: wide_val_def case_prod_beta)
qed

lemma mmod_fast_correct:
  assumes "length product = 16"
  shows "\<exists>result. vli_mmod_fast_secp256r1 product = Some result \<and> length result = 8 \<and>
    ival result = ival product mod curve_p_int"
proof -
  obtain r c where sums: "mmod_fast_sums product = (r, c)" by fastforce
  have r: "length r = 8" "wide_val (r, c) = nist_int ((!) product)"
    using mmod_fast_sums_int [OF assms] by (simp_all add: sums wide_val_def)
  have v: "wide_val (r, c) mod curve_p_int = ival product mod curve_p_int"
    unfolding nist_cong [OF assms] r(2) by simp
  show ?thesis
    using fix_up_loop [of "(r, c)"] fix_down_loop [of "(r, c)"] r(1)
    by (cases "c < 0") (auto simp: vli_mmod_fast_secp256r1_def sums v)
qed

end
