(* ===== verification/VliMod.thy ===== *)
theory VliMod
  imports VliFast
begin

section \<open>Modular addition and subtraction\<close>

lemma ival_bound: "0 \<le> ival v \<and> ival v < int radix ^ length v"
  using vval_lt [of v] by (metis of_nat_0_le_iff of_nat_less_iff of_nat_power)

lemma add_wraps: "length l = length r \<Longrightarrow> ival (fst (uECC_vli_add l r)) = (ival l + ival r) mod int radix ^ length l"
proof -
  assume len: "length l = length r"
  obtain s c where s: "uECC_vli_add l r = (s, c)" by fastforce
  note v = vli_add [OF s len]
  have "ival l + ival r = ival s + int radix ^ length l * int (unat c)"
    using v(1) by (metis of_nat_add of_nat_mult of_nat_power)
  then show ?thesis using ival_bound [of s] v(2) by (simp add: s)
qed

lemma sub_wraps: "length l = length r \<Longrightarrow> ival (fst (uECC_vli_sub l r)) = (ival l - ival r) mod int radix ^ length l"
proof -
  assume len: "length l = length r"
  obtain s c where s: "uECC_vli_sub l r = (s, c)" by fastforce
  note v = vli_sub [OF s len]
  have "ival s + ival r = ival l + int radix ^ length l * int (unat c)"
    using v(1) by (metis of_nat_add of_nat_mult of_nat_power)
  then have "ival l - ival r = ival s + int radix ^ length l * (- int (unat c))" by simp
  then show ?thesis using ival_bound [of s] v(2) by (simp only: s fst_conv mod_mult_self2) simp
qed

lemma add_length: "length l = length r \<Longrightarrow> length (fst (uECC_vli_add l r)) = length l"
  using vli_add(2) [of l r] by (metis prod.collapse)

lemma sub_length: "length l = length r \<Longrightarrow> length (fst (uECC_vli_sub l r)) = length l"
  using vli_sub(2) [of l r] by (metis prod.collapse)

lemma add_carry_iff: "length l = length r \<Longrightarrow> snd (uECC_vli_add l r) \<noteq> 0 \<longleftrightarrow> int radix ^ length l \<le> ival l + ival r"
proof -
  assume len: "length l = length r"
  obtain s c where s: "uECC_vli_add l r = (s, c)" by fastforce
  note v = vli_add [OF s len]
  have e: "ival l + ival r = ival s + int radix ^ length l * int (unat c)"
    using v(1) by (metis of_nat_add of_nat_mult of_nat_power)
  show ?thesis using carry_bit [OF v(3)] e ival_bound [of s] v(2) by (auto simp: s)
qed

lemma sub_borrow_iff: "length l = length r \<Longrightarrow> snd (uECC_vli_sub l r) \<noteq> 0 \<longleftrightarrow> ival l < ival r"
  using vli_sub_borrow(1) [of l r] by (metis linorder_not_le of_nat_less_iff prod.collapse)

lemma modAdd_length: "length l = length r \<Longrightarrow> length m = length r \<Longrightarrow> length (uECC_vli_modAdd l r m) = length l"
  by (simp add: uECC_vli_modAdd_def case_prod_beta add_length sub_length)

lemma modSub_length: "length l = length r \<Longrightarrow> length m = length r \<Longrightarrow> length (uECC_vli_modSub l r m) = length l"
  by (simp add: uECC_vli_modSub_def case_prod_beta add_length sub_length)

lemma mod_once: "m \<le> x \<Longrightarrow> x < 2 * m \<Longrightarrow> x mod m = x - m" for x m :: int
  by (metis add.commute diff_ge_0_iff_ge diff_less_eq minus_mod_self2 mod_pos_pos_trivial mult_2)

text \<open>The second summand is reduced; the first one need not be (a hash is not).\<close>

lemma modAdd_sum:
  assumes len: "length l = length m" "length r = length m" and lt: "ival r < ival m"
  shows "ival (uECC_vli_modAdd l r m) = (if ival m \<le> ival l + ival r then ival l + ival r - ival m else ival l + ival r)"
proof -
  define R where "R = int radix ^ length m"
  define s where "s = fst (uECC_vli_add l r)"
  have b: "0 \<le> ival l" "0 \<le> ival r" "ival m < R" "ival l < R"
    using ival_bound [of m] ival_bound [of l] len by (simp_all add: R_def)
  have s: "ival s = (ival l + ival r) mod R" "length s = length m"
    using len by (simp_all add: s_def R_def add_wraps add_length)
  have c: "snd (uECC_vli_add l r) \<noteq> 0 \<longleftrightarrow> R \<le> ival l + ival r"
    using len add_carry_iff [of l r] by (simp add: R_def)
  have d: "ival (fst (uECC_vli_sub s m)) = (ival s - ival m) mod R" using s(2) by (simp add: sub_wraps R_def)
  have cmp: "uECC_vli_cmp_unsafe m s \<noteq> 1 \<longleftrightarrow> ival m \<le> ival s" using s(2) by (simp add: vli_cmp_unsafe sgn_if)
  have ma: "uECC_vli_modAdd l r m = (if R \<le> ival l + ival r \<or> ival m \<le> ival s then fst (uECC_vli_sub s m) else s)"
    unfolding uECC_vli_modAdd_def case_prod_beta Let_def s_def [symmetric] c cmp ..
  have m: "(ival l + ival r - ival m) mod R = ival l + ival r - ival m" if "ival m \<le> ival l + ival r"
    using that b lt by (intro mod_pos_pos_trivial) linarith+
  have sm: "(ival s - ival m) mod R = (ival l + ival r - ival m) mod R" by (simp add: s(1) mod_diff_left_eq)
  consider "R \<le> ival l + ival r" | "ival l + ival r < R" "ival m \<le> ival s" | "ival l + ival r < R" "ival s < ival m"
    by linarith
  then show ?thesis
  proof cases
    case 1
    then show ?thesis using ma d sm m b by simp
  next
    case 2
    then show ?thesis using ma d sm m b s(1) by simp
  next
    case 3
    then show ?thesis using ma s(1) b by simp
  qed
qed

lemma modAdd_val:
  assumes "length l = length m" "length r = length m" "ival l < ival m" "ival r < ival m"
  shows "ival (uECC_vli_modAdd l r m) = (ival l + ival r) mod ival m"
  using assms mod_once [of "ival m" "ival l + ival r"] unfolding modAdd_sum [OF assms(1,2,4)] by simp

lemma modAdd_cong:
  assumes "length l = length m" "length r = length m" "ival r < ival m"
  shows "ival (uECC_vli_modAdd l r m) mod ival m = (ival l + ival r) mod ival m"
  unfolding modAdd_sum [OF assms] by simp

lemma modSub_val:
  assumes len: "length l = length m" "length r = length m" and lt: "ival l < ival m" "ival r < ival m"
  shows "ival (uECC_vli_modSub l r m) = (ival l - ival r) mod ival m"
proof -
  define R where "R = int radix ^ length m"
  define s where "s = fst (uECC_vli_sub l r)"
  have b: "0 \<le> ival l" "0 \<le> ival r" "ival m < R" using ival_bound [of m] by (simp_all add: R_def)
  have s: "ival s = (ival l - ival r) mod R" "length s = length m"
    using len by (simp_all add: s_def R_def sub_wraps sub_length)
  have c: "snd (uECC_vli_sub l r) \<noteq> 0 \<longleftrightarrow> ival l < ival r" using len by (simp add: sub_borrow_iff)
  have d: "ival (fst (uECC_vli_add s m)) = (ival s + ival m) mod R" using s(2) by (simp add: add_wraps R_def)
  have ms: "uECC_vli_modSub l r m = (if ival l < ival r then fst (uECC_vli_add s m) else s)"
    using c by (simp add: uECC_vli_modSub_def case_prod_beta s_def)
  show ?thesis
  proof (cases "ival l < ival r")
    case True
    have "(ival s + ival m) mod R = (ival l - ival r + ival m) mod R" by (simp add: s(1) mod_add_left_eq)
    also have "\<dots> = ival l - ival r + ival m" using True lt b by simp
    also have "\<dots> = (ival l - ival r + ival m) mod ival m"
      using True lt(2) b by (intro mod_pos_pos_trivial [symmetric]) linarith+
    also have "\<dots> = (ival l - ival r) mod ival m" by simp
    finally show ?thesis using ms True d by simp
  next
    case False
    then have "ival s = ival l - ival r" using s(1) b lt by simp
    then show ?thesis using ms False b lt by simp
  qed
qed

section \<open>Inversion\<close>

lemma EVEN_val: "v \<noteq> [] \<Longrightarrow> EVEN v \<longleftrightarrow> even (ival v)"
proof -
  assume "v \<noteq> []"
  then obtain w ws where v: "v = w # ws" by (cases v) auto
  have "w AND 1 = 0 \<longleftrightarrow> even w" by (simp add: and_one_eq even_iff_mod_2_eq_zero)
  also have "\<dots> \<longleftrightarrow> \<not> bit (uint w) 0" unfolding bit_unsigned_iff by (simp add: bit_0 del: bit_0_eq)
  also have "\<dots> \<longleftrightarrow> even (uint w)" by (simp add: bit_0)
  finally show ?thesis by (simp add: v)
qed

lemma rshift_top:
  assumes "s \<noteq> []"
  defines "h \<equiv> uECC_vli_rshift1 s"
  shows "ival (h[length h - 1 := h ! (length h - 1) OR 0x80000000]) = (ival s + int radix ^ length s) div 2"
proof -
  have h: "vval h = vval s div 2" "length h = length s" by (simp_all add: h_def vli_rshift1)
  then have ne: "h \<noteq> []" using assms by auto
  have "int radix ^ length s = 2 * (2147483648 * int radix ^ (length s - 1))"
    using assms by (cases "length s") simp_all
  then have div: "(ival s + int radix ^ length s) div 2 = ival s div 2 + 2147483648 * int radix ^ (length s - 1)"
    by simp
  have lt: "vval h < 2147483648 * radix ^ (length h - 1)"
    using h(1) vval_lt [of s] assms(1) h(2) by (cases "length s") (auto simp: less_mult_imp_div_less)
  have "h = butlast h @ [last h]" using ne by simp
  then have "vval h = vval (butlast h) + radix ^ (length h - 1) * unat (last h)"
    by (metis add.right_neutral length_butlast mult_zero_right vval.simps vval_append)
  then have "radix ^ (length h - 1) * unat (last h) < radix ^ (length h - 1) * 2147483648"
    using lt by linarith
  then have "unat (last h) < 2147483648" unfolding mult_less_cancel1 by simp
  from vval_update_last [OF ne this] show ?thesis
    unfolding div by (simp add: last_conv_nth [OF ne] h zdiv_int)
qed

lemma update_length: "length u = length m \<Longrightarrow> length (vli_modInv_update u m) = length m"
  by (simp add: vli_modInv_update_def Let_def case_prod_beta vli_rshift1(2) add_length)

lemma update_val:
  assumes "length u = length m" "u \<noteq> []"
  shows "ival (vli_modInv_update u m) = (if even (ival u) then ival u div 2 else (ival u + ival m) div 2)"
proof (cases "even (ival u)")
  case True
  then show ?thesis using EVEN_val [OF assms(2)] by (simp add: vli_modInv_update_def vli_rshift1(1) zdiv_int)
next
  case False
  obtain s c where s: "uECC_vli_add u m = (s, c)" by fastforce
  note v = vli_add [OF s assms(1)]
  have sl: "length s = length m" "s \<noteq> []" using v(2) assms by auto
  have e: "ival s + int radix ^ length s * int (unat c) = ival u + ival m"
    using v(1,2) by (metis of_nat_add of_nat_mult of_nat_power)
  have upd: "vli_modInv_update u m = (if c \<noteq> 0 then (uECC_vli_rshift1 s)[length (uECC_vli_rshift1 s) - 1 :=
      uECC_vli_rshift1 s ! (length (uECC_vli_rshift1 s) - 1) OR 0x80000000] else uECC_vli_rshift1 s)"
    using EVEN_val [OF assms(2)] False by (simp add: vli_modInv_update_def s Let_def)
  show ?thesis
  proof (cases "c = 0")
    case True
    then show ?thesis using upd e False by (simp add: vli_rshift1(1) zdiv_int)
  next
    case c: False
    then have "c = 1" using carry_bit [OF v(3)] by simp
    then have "ival u + ival m = ival s + int radix ^ length s" using e by simp
    then show ?thesis using upd c False rshift_top [OF sl(2)] by simp
  qed
qed

lemma update_facts:
  assumes "length u = length m" "u \<noteq> []" "ival u < ival m" "odd (ival m)"
  shows "ival (vli_modInv_update u m) < ival m" "ival m dvd 2 * ival (vli_modInv_update u m) - ival u"
  using assms(3,4) unfolding update_val [OF assms(1,2)] by auto

lemma halve_cong:
  fixes m :: int
  assumes "odd m" "m dvd 2 * w - u" "m dvd u * x - 2 * a"
  shows "m dvd w * x - a"
proof -
  have "m dvd (2 * w - u) * x + (u * x - 2 * a)" using assms(2,3) by simp
  then have "m dvd 2 * (w * x - a)" by (simp add: algebra_simps)
  moreover have "coprime m 2" using assms(1) by simp
  ultimately show ?thesis by (simp only: coprime_dvd_mult_right_iff)
qed

text \<open>The difference of the coefficients, kept below the modulus.\<close>

abbreviation coeff_diff :: "vli \<Rightarrow> vli \<Rightarrow> vli \<Rightarrow> vli" where
  "coeff_diff u v m \<equiv>
    fst (uECC_vli_sub (if uECC_vli_cmp_unsafe u v < 0 then fst (uECC_vli_add u m) else u) v)"

lemma coeff_diff_length: "length u = length m \<Longrightarrow> length v = length m \<Longrightarrow> length (coeff_diff u v m) = length m"
  by (simp add: sub_length add_length)

lemma coeff_diff_val:
  assumes "length u = length m" "length v = length m" "ival u < ival m" "ival v < ival m"
  shows "ival (coeff_diff u v m) = (ival u - ival v) mod ival m"
proof -
  define R where "R = int radix ^ length m"
  have b: "0 \<le> ival u" "0 \<le> ival v" "ival m < R" using ival_bound [of m] by (simp_all add: R_def)
  show ?thesis
  proof (cases "ival u < ival v")
    case True
    then have "ival (coeff_diff u v m) = ((ival u + ival m) mod R - ival v) mod R"
      using assms(1,2) by (simp add: vli_cmp_unsafe sgn_if sub_wraps add_wraps add_length R_def)
    also have "\<dots> = (ival u + ival m - ival v) mod R" by (simp add: mod_diff_left_eq)
    also have "\<dots> = ival u + ival m - ival v" using True b assms(3,4) by simp
    also have "\<dots> = (ival u - ival v + ival m) mod ival m"
      using True b assms(3,4) by (subst mod_pos_pos_trivial) linarith+
    finally show ?thesis by simp
  next
    case False
    then have "ival (coeff_diff u v m) = (ival u - ival v) mod R"
      using assms(1,2) by (simp add: vli_cmp_unsafe sgn_if sub_wraps R_def)
    then show ?thesis using False b assms(3,4) by simp
  qed
qed

lemma diff_cong:
  fixes m :: int
  assumes "m dvd u * x - a" "m dvd v * x - b"
  shows "m dvd ((u - v) mod m) * x - (a - b)"
proof -
  have "m dvd (u * x - a) - (v * x - b)" using assms by (rule dvd_diff)
  then have "m dvd (u - v) * x - (a - b)" by (simp add: algebra_simps)
  moreover have "m dvd ((u - v) mod m - (u - v)) * x" by (simp add: mod_eq_dvd_iff [symmetric])
  ultimately have "m dvd (u - v) * x - (a - b) + ((u - v) mod m - (u - v)) * x" by (rule dvd_add)
  then show ?thesis by (simp add: algebra_simps)
qed

definition coeff_ok :: "int \<Rightarrow> vli \<Rightarrow> vli \<Rightarrow> vli \<Rightarrow> bool" where
  "coeff_ok x m a u \<longleftrightarrow> length a = length m \<and> length u = length m \<and> 0 < ival a \<and> ival u < ival m \<and>
    ival m dvd ival u * x - ival a"

definition inv_state :: "int \<Rightarrow> vli \<Rightarrow> vli \<times> vli \<times> vli \<times> vli \<Rightarrow> bool" where
  "inv_state x m = (\<lambda>(a, b, u, v). coeff_ok x m a u \<and> coeff_ok x m b v \<and> (odd (ival a) \<or> odd (ival b)) \<and>
    gcd (ival a) (ival b) = gcd x (ival m))"

lemma coeff_halve:
  assumes "coeff_ok x m a u" "even (ival a)" "odd (ival m)"
  shows "coeff_ok x m (uECC_vli_rshift1 a) (vli_modInv_update u m)"
proof -
  from assms(1) have a: "length a = length m" "length u = length m" "0 < ival a" "ival u < ival m"
    "ival m dvd ival u * x - ival a" by (simp_all add: coeff_ok_def)
  have ne: "u \<noteq> []" using a(1-3) by auto
  have h: "ival (uECC_vli_rshift1 a) = ival a div 2" by (simp add: vli_rshift1(1) zdiv_int)
  have "ival m dvd ival u * x - 2 * (ival a div 2)" using a(5) assms(2) by simp
  from halve_cong [OF assms(3) update_facts(2) [OF a(2) ne a(4) assms(3)] this] show ?thesis
    using a assms(2,3) update_facts(1) [OF a(2) ne a(4) assms(3)] h
    by (auto simp: coeff_ok_def vli_rshift1(2) update_length elim!: evenE)
qed

lemma coeff_subtract:
  assumes "coeff_ok x m a u" "coeff_ok x m b v" "ival b < ival a"
  shows "coeff_ok x m (fst (uECC_vli_sub a b)) (coeff_diff u v m)" "ival (fst (uECC_vli_sub a b)) = ival a - ival b"
proof -
  from assms(1) have a: "length a = length m" "length u = length m" "0 < ival a" "ival u < ival m"
    "ival m dvd ival u * x - ival a" by (simp_all add: coeff_ok_def)
  from assms(2) have b: "length b = length m" "length v = length m" "0 < ival b" "ival v < ival m"
    "ival m dvd ival v * x - ival b" by (simp_all add: coeff_ok_def)
  show s: "ival (fst (uECC_vli_sub a b)) = ival a - ival b"
  proof -
    have "(ival a - ival b) mod int radix ^ length a = ival a - ival b"
      using assms(3) b(3) ival_bound [of a] by (intro mod_pos_pos_trivial) linarith+
    then show ?thesis using a(1) b(1) by (simp only: sub_wraps)
  qed
  show "coeff_ok x m (fst (uECC_vli_sub a b)) (coeff_diff u v m)"
    unfolding coeff_ok_def coeff_diff_val [OF a(2) b(2) a(4) b(4)] s
    using a b assms(3) diff_cong [OF a(5) b(5)] coeff_diff_length [OF a(2) b(2)]
    by (simp add: sub_length)
qed

lemma gcd_halve: "even a \<Longrightarrow> odd b \<Longrightarrow> gcd (a div 2) b = gcd a b" for a b :: int
  by (elim evenE) (simp add: gcd_mult_left_left_cancel)

lemma gcd_subtract: "odd a \<Longrightarrow> odd b \<Longrightarrow> gcd ((a - b) div 2) b = gcd a b" for a b :: int
  using gcd_halve [of "a - b" b] by (simp add: gcd_diff1)

lemma modInv_round_inv:
  assumes "inv_state x m s" "odd (ival m)" "(\<lambda>(a, b, u, v). uECC_vli_cmp_unsafe a b \<noteq> 0) s"
  shows "inv_state x m (modInv_round m s) \<and>
    (\<lambda>(a, b, u, v). vval a + vval b) (modInv_round m s) < (\<lambda>(a, b, u, v). vval a + vval b) s"
proof -
  obtain a b u v where s: "s = (a, b, u, v)" by (metis prod_cases4)
  from assms(1) have i: "coeff_ok x m a u" "coeff_ok x m b v" "odd (ival a) \<or> odd (ival b)"
    "gcd (ival a) (ival b) = gcd x (ival m)" by (simp_all add: inv_state_def s)
  then have len: "length a = length m" "length b = length m" and pos: "0 < ival a" "0 < ival b"
    by (simp_all add: coeff_ok_def)
  have ne: "a \<noteq> []" "b \<noteq> []" using pos by auto
  have cmp: "uECC_vli_cmp_unsafe a b = sgn (ival a - ival b)" using len by (simp add: vli_cmp_unsafe)
  have neq: "ival a \<noteq> ival b" using assms(3) by (simp add: s cmp sgn_if split: if_splits)
  have half: "vval (uECC_vli_rshift1 w) = vval w div 2" "ival (uECC_vli_rshift1 w) = ival w div 2" for w
    by (simp_all add: vli_rshift1(1) zdiv_int)
  note even_word = EVEN_val [OF ne(1)] EVEN_val [OF ne(2)]
  consider (ea) "even (ival a)" | (eb) "odd (ival a)" "even (ival b)"
    | (gt) "odd (ival a)" "odd (ival b)" "ival b < ival a" | (lt) "odd (ival a)" "odd (ival b)" "ival a < ival b"
    using neq by linarith
  then show ?thesis
  proof cases
    case ea
    have "modInv_round m s = (uECC_vli_rshift1 a, b, vli_modInv_update u m, v)"
      using ea even_word(1) by (simp add: modInv_round_def s)
    then show ?thesis
      using coeff_halve [OF i(1) ea assms(2)] i ea pos gcd_halve [of "ival a" "ival b"]
      by (simp add: inv_state_def s half(1) zdiv_int del: gcd_int_int_eq)
  next
    case eb
    have "modInv_round m s = (a, uECC_vli_rshift1 b, u, vli_modInv_update v m)"
      using eb even_word by (simp add: modInv_round_def s)
    then show ?thesis
      using coeff_halve [OF i(2) eb(2) assms(2)] i eb pos gcd_halve [of "ival b" "ival a"]
      by (simp add: inv_state_def s half(1) zdiv_int gcd.commute del: gcd_int_int_eq)
  next
    case gt
    note sub = coeff_subtract [OF i(1,2) gt(3)]
    have "modInv_round m s = (uECC_vli_rshift1 (fst (uECC_vli_sub a b)), b, vli_modInv_update (coeff_diff u v m) m, v)"
      using gt even_word by (simp add: modInv_round_def s cmp Let_def)
    moreover have "even (ival (fst (uECC_vli_sub a b)))" using gt sub(2) by simp
    moreover from this have "gcd ((ival a - ival b) div 2) (ival b) = gcd (ival a) (ival b)"
      using gt sub(2) gcd_subtract by blast
    moreover have "vval (fst (uECC_vli_sub a b)) div 2 < vval a" using sub(2) pos gt(3) by linarith
    ultimately show ?thesis
      using coeff_halve [OF sub(1) _ assms(2)] i gt by (simp add: inv_state_def s half(1) zdiv_int sub(2) del: gcd_int_int_eq)
  next
    case lt
    note sub = coeff_subtract [OF i(2,1) lt(3)]
    have "modInv_round m s = (a, uECC_vli_rshift1 (fst (uECC_vli_sub b a)), u, vli_modInv_update (coeff_diff v u m) m)"
      using lt even_word by (simp add: modInv_round_def s cmp Let_def)
    moreover have "even (ival (fst (uECC_vli_sub b a)))" using lt sub(2) by simp
    moreover from this have "gcd (ival a) ((ival b - ival a) div 2) = gcd (ival a) (ival b)"
      using gcd_subtract [OF lt(2,1)] by (simp only: gcd.commute)
    moreover have "vval (fst (uECC_vli_sub b a)) div 2 < vval b" using sub(2) pos lt(3) by linarith
    ultimately show ?thesis
      using coeff_halve [OF sub(1) _ assms(2)] i lt by (simp add: inv_state_def s half(1) zdiv_int sub(2) del: gcd_int_int_eq)
  qed
qed

lemma modInv_correct:
  assumes "length x = length m" "odd (ival m)" "1 < ival m"
  shows "\<exists>r. uECC_vli_modInv x m (length m) = Some r \<and> length r = length m \<and> ival r < ival m \<and>
    (ival x \<noteq> 0 \<longrightarrow> ival m dvd ival r * ival x - gcd (ival x) (ival m)) \<and> (ival x = 0 \<longrightarrow> ival r = 0)"
proof (cases "ival x = 0")
  case True
  then show ?thesis using assms by (simp add: uECC_vli_modInv_def isZero_vval)
next
  case False
  let ?s = "(x, m, (uECC_vli_clear (length m))[0 := 1], uECC_vli_clear (length m))"
  let ?b = "\<lambda>(a, b, u, v). uECC_vli_cmp_unsafe a b \<noteq> 0"
  have one: "ival ((uECC_vli_clear (length m))[0 := 1]) = 1"
    using assms(3) by (cases m) (simp_all add: uECC_vli_clear_def)
  have "inv_state (ival x) m ?s"
    using assms False one by (simp add: inv_state_def coeff_ok_def)
  then have "\<exists>t. while_option ?b (modInv_round m) ?s = Some t \<and> inv_state (ival x) m t \<and> \<not> ?b t"
    by (intro while_total [where f = "\<lambda>(a, b, u, v). vval a + vval b"]) (rule modInv_round_inv [OF _ assms(2)])
  then obtain a b u v where t: "while_option ?b (modInv_round m) ?s = Some (a, b, u, v)"
    "inv_state (ival x) m (a, b, u, v)" "uECC_vli_cmp_unsafe a b = 0" by auto
  from t(2) have i: "coeff_ok (ival x) m a u" "coeff_ok (ival x) m b v" "gcd (ival a) (ival b) = gcd (ival x) (ival m)"
    by (simp_all add: inv_state_def)
  then have "ival a = ival b" using t(3) by (simp add: coeff_ok_def vli_cmp_unsafe sgn_if split: if_splits)
  then have "ival a = gcd (ival x) (ival m)" using i(3) by simp
  then show ?thesis using t(1) i(1) False
    by (auto simp: uECC_vli_modInv_def isZero_vval coeff_ok_def)
qed

end
