(* ===== verification/VliDiv.thy ===== *)
theory VliDiv
  imports VliMod
begin

text \<open>
  Bit counts, and the generic reduction: shifting the modulus up and subtracting it where it fits leaves
  the remainder, for the moduli whose top bit is set (both moduli of the curve are).
\<close>

section \<open>Bits\<close>

lemma digit_bits_bounds: "w \<noteq> 0 \<Longrightarrow> 0 < digit_bits w \<and> 2 ^ (digit_bits w - 1) \<le> unat w \<and> unat w < 2 ^ digit_bits w"
proof (induction w rule: digit_bits.induct)
  case (1 w)
  define d where "d = drop_bit 1 w"
  have d: "unat d = unat w div 2" by (simp add: d_def drop_bit_eq_div unat_div)
  have s: "digit_bits w = Suc (digit_bits d)" using 1(2) by (simp add: digit_bits.simps [of w] d_def)
  show ?case
  proof (cases "d = 0")
    case True
    then have "unat w < 2" using d by (simp add: unat_eq_0 [symmetric] div_eq_0_iff)
    moreover have "0 < unat w" using 1(2) by (simp add: unat_gt_0)
    ultimately show ?thesis using True s by (simp add: digit_bits.simps [of 0])
  next
    case False
    from 1(1) [OF 1(2)] False have ih: "0 < digit_bits d" "2 ^ (digit_bits d - 1) \<le> unat d" "unat d < 2 ^ digit_bits d"
      by (simp_all add: d_def)
    have "2 * 2 ^ (digit_bits d - 1) = (2 :: nat) ^ digit_bits d" using ih(1) by (simp flip: power_Suc)
    then have "(2 :: nat) ^ digit_bits d \<le> unat w" using ih(2) d by linarith
    moreover have "unat w < 2 * 2 ^ digit_bits d" using ih(3) d by linarith
    ultimately show ?thesis by (simp add: s)
  qed
qed

definition top_bit :: "vli \<Rightarrow> bool" where
  "top_bit m \<longleftrightarrow> m \<noteq> [] \<and> 2147483648 \<le> unat (last m)"

lemma digit_bits_top: "2147483648 \<le> unat w \<Longrightarrow> digit_bits w = 32"
proof -
  assume top: "2147483648 \<le> unat w"
  then have "w \<noteq> 0" by auto
  note b = digit_bits_bounds [OF this]
  have "(2 :: nat) ^ 31 < 2 ^ digit_bits w" using top b by simp
  then have "31 < digit_bits w" by (simp only: power_strict_increasing_iff)
  moreover have "(2 :: nat) ^ (digit_bits w - 1) < 2 ^ 32" using u32_lt [of w] b by simp
  then have "digit_bits w - 1 < 32" by (simp only: power_strict_increasing_iff)
  ultimately show ?thesis by simp
qed

lemma numBits_top: "top_bit m \<Longrightarrow> uECC_vli_numBits m = 32 * length m"
proof -
  assume t: "top_bit m"
  then obtain ws w where m: "m = ws @ [w]" by (metis append_butlast_last_id top_bit_def)
  have "w \<noteq> 0" using t by (auto simp: top_bit_def m)
  then have "vli_numDigits m = length m" by (simp add: vli_numDigits_def m)
  then show ?thesis using t digit_bits_top [of w] by (simp add: uECC_vli_numBits_def m top_bit_def)
qed

lemma top_bit_val: "top_bit m \<Longrightarrow> radix ^ length m \<le> 2 * vval m"
proof -
  assume t: "top_bit m"
  then obtain ws w where m: "m = ws @ [w]" by (metis append_butlast_last_id top_bit_def)
  have "radix ^ length ws * radix \<le> radix ^ length ws * (2 * unat w)"
    using t by (intro mult_le_mono2) (simp add: top_bit_def m)
  also have "\<dots> \<le> 2 * vval m" by (simp add: m vval_append)
  finally show ?thesis by (simp add: m mult.commute)
qed

section \<open>The generic reduction\<close>

lemma low_bit_or:
  fixes w x :: u32
  assumes "unat w < 2147483648"
  shows "unat (w OR push_bit 31 x) = unat w + 2147483648 * (unat x mod 2)"
proof -
  have "unat (w + w) = 2 * unat w" using assms by (simp add: unat_word_ariths)
  then have "drop_bit 1 (w + w) = w" by (simp add: drop_bit_eq_div word_unat_eq_iff unat_div)
  then show ?thesis using rshift_word [of "w + w" x] \<open>unat (w + w) = _\<close> by simp
qed

lemma halve_multiple_val:
  assumes "length mm = 2 * n" "0 < n"
  shows "vval (halve_multiple n mm) = vval mm div 2" "length (halve_multiple n mm) = 2 * n"
proof -
  define lo where "lo = uECC_vli_rshift1 (take n mm)"
  define hi where "hi = drop n mm"
  have lo: "length lo = n" "vval lo = vval (take n mm) div 2" using assms by (simp_all add: lo_def vli_rshift1)
  have hm: "halve_multiple n mm = lo[n - 1 := lo ! (n - 1) OR push_bit 31 (hi ! 0)] @ uECC_vli_rshift1 hi"
    using assms by (simp add: halve_multiple_def lo_def hi_def Let_def)
  then show "length (halve_multiple n mm) = 2 * n" using assms lo by (simp add: hi_def vli_rshift1)
  obtain ws w where ws: "lo = ws @ [w]" "length ws = n - 1" using lo(1) assms(2) by (cases lo rule: rev_cases) auto
  obtain h hs where h: "hi = h # hs" using assms by (cases hi) (auto simp: hi_def)
  have R: "radix ^ n = 2 * (2147483648 * radix ^ (n - 1))" using assms(2) by (cases n) simp_all
  have odd: "vval hi mod 2 = unat h mod 2" by (simp add: h) presburger
  have "vval (take n mm) < radix ^ n" using vval_lt [of "take n mm"] assms by simp
  then have "vval lo < 2147483648 * radix ^ (n - 1)" using lo(2) R by simp
  moreover have "vval lo = vval ws + radix ^ (n - 1) * unat w" by (simp add: ws vval_append)
  ultimately have "radix ^ (n - 1) * unat w < radix ^ (n - 1) * 2147483648" by linarith
  then have "unat w < 2147483648" unfolding mult_less_cancel1 by simp
  then have "vval (lo[n - 1 := lo ! (n - 1) OR push_bit 31 (hi ! 0)]) = vval lo + radix ^ (n - 1) * (2147483648 * (unat h mod 2))"
    using ws(2) by (simp add: ws h vval_append low_bit_or [unfolded One_nat_def] nth_append list_update_append algebra_simps)
  then have lov: "vval (lo[n - 1 := lo ! (n - 1) OR push_bit 31 (hi ! 0)]) = (vval (take n mm) + radix ^ n * (vval hi mod 2)) div 2"
    unfolding lo(2) R odd mult.assoc by (subst div_mult_self2) (simp_all only: ac_simps)
  have mm: "vval mm = vval (take n mm) + radix ^ n * vval hi"
    using vval_append [of "take n mm" hi] assms by (simp add: hi_def)
  have "vval (halve_multiple n mm) = (vval (take n mm) + radix ^ n * (vval hi mod 2)) div 2 + radix ^ n * (vval hi div 2)"
    unfolding hm vval_append lov using lo(1) by (simp add: vli_rshift1)
  also have "\<dots> = (vval (take n mm) + radix ^ n * (vval hi mod 2) + 2 * (radix ^ n * (vval hi div 2))) div 2" by simp
  also have "\<dots> = (vval (take n mm) + radix ^ n * (2 * (vval hi div 2) + vval hi mod 2) + radix ^ n * (2 * 0)) div 2"
    using regroup [of "vval (take n mm)" "radix ^ n" "vval hi mod 2" "vval hi div 2" 0] by simp
  also have "\<dots> = vval mm div 2" by (simp add: mm)
  finally show "vval (halve_multiple n mm) = vval mm div 2" .
qed

lemma mmod_round_val:
  assumes "length v = 2 * n" "length mm = 2 * n" "0 < n" "vval mm = M * 2 ^ Suc k" "vval v < M * 2 ^ Suc (Suc k)"
  shows "case mmod_round n (v, mm) of (v', mm') \<Rightarrow> length v' = 2 * n \<and> length mm' = 2 * n \<and>
    vval mm' = M * 2 ^ k \<and> vval v' < M * 2 ^ Suc k \<and> vval v' mod M = vval v mod M"
proof -
  obtain d b where d: "uECC_vli_sub v mm = (d, b)" by fastforce
  have len: "length v = length mm" using assms(1,2) by simp
  note s = vli_sub_borrow [OF d len] vli_sub(2) [OF d len]
  define C where "C = M * 2 ^ k"
  have mm: "vval mm = 2 * C" "vval v < 2 * (2 * C)" using assms(4,5) by (simp_all add: C_def)
  have h: "vval (halve_multiple n mm) = C" "length (halve_multiple n mm) = 2 * n"
    using halve_multiple_val [OF assms(2,3)] mm(1) by simp_all
  have eq: "mmod_round n (v, mm) = (if b = 0 then d else v, halve_multiple n mm)" by (simp add: mmod_round_def d)
  have M: "M * 2 ^ Suc k = 2 * C" by (simp add: C_def)
  show ?thesis
  proof (cases "b = 0")
    case True
    then have dv: "vval v = vval d + 2 * C" using s(1,2) mm(1) by linarith
    moreover have "(vval d + 2 * C) mod M = vval d mod M"
      using mod_mult_self2 [of "vval d" M "2 * 2 ^ k"] by (simp add: C_def mult.left_commute)
    ultimately show ?thesis
      unfolding eq M C_def [symmetric] using True h s(4) assms(1) mm(2) by (simp del: mod_add_self1 mod_add_self2)
  next
    case False
    then have "vval v < 2 * C" using s(1) mm(1) by linarith
    then show ?thesis unfolding eq M C_def [symmetric] using False h assms(1) by simp
  qed
qed

lemma mmod_rounds_val:
  assumes "length v = 2 * n" "length mm = 2 * n" "0 < n" "vval mm = M * 2 ^ k" "vval v < M * 2 ^ Suc k"
  shows "case (mmod_round n ^^ k) (v, mm) of (v', mm') \<Rightarrow> length v' = 2 * n \<and> length mm' = 2 * n \<and>
    vval mm' = M \<and> vval v' < M * 2 \<and> vval v' mod M = vval v mod M"
  using assms
proof (induction k arbitrary: v mm)
  case (Suc k)
  obtain v' mm' where r: "mmod_round n (v, mm) = (v', mm')" by fastforce
  have "length v' = 2 * n \<and> length mm' = 2 * n \<and> vval mm' = M * 2 ^ k \<and> vval v' < M * 2 ^ Suc k \<and> vval v' mod M = vval v mod M"
    using mmod_round_val [OF Suc.prems] unfolding r prod.case .
  then show ?case using Suc.IH [of v' mm'] Suc.prems(3) by (simp add: funpow_Suc_right r del: funpow.simps split: prod.splits)
qed (simp add: mult.commute)

text \<open>The last round subtracts the modulus itself.\<close>

lemma mmod_last_val:
  assumes "length v = 2 * n" "length mm = 2 * n" "vval v < vval mm * 2"
  shows "vval (fst (mmod_round n (v, mm))) = vval v mod vval mm \<and> length (fst (mmod_round n (v, mm))) = 2 * n"
proof -
  obtain d b where d: "uECC_vli_sub v mm = (d, b)" by fastforce
  have len: "length v = length mm" using assms(1,2) by simp
  note s = vli_sub_borrow [OF d len] vli_sub(2) [OF d len]
  show ?thesis
  proof (cases "b = 0")
    case True
    then have "vval mm \<le> vval v" "vval d = vval v - vval mm" using s by simp_all
    moreover from this have "vval v mod vval mm = vval v - vval mm" using assms(3) by (simp add: le_mod_geq)
    ultimately show ?thesis using True s(4) assms(1) by (simp add: mmod_round_def d)
  next
    case False
    then show ?thesis using s(1) assms(1) by (simp add: mmod_round_def d)
  qed
qed

lemma mmod_correct:
  assumes "length product = 2 * n" "length m = n" "top_bit m"
  shows "vval (uECC_vli_mmod product m n) = vval product mod vval m \<and> length (uECC_vli_mmod product m n) = n"
proof -
  define mm where "mm = uECC_vli_clear n @ m"
  have n: "0 < n" using assms(2,3) by (auto simp: top_bit_def)
  have mm: "length mm = 2 * n" "vval mm = vval m * 2 ^ (32 * n)"
    using assms(2) by (simp_all add: mm_def vval_append power_mult)
  have R: "radix ^ n = 2 ^ (32 * n)" by (simp add: power_mult)
  have "vval product < radix ^ n * radix ^ n" using vval_lt [of product] assms(1) by (simp add: mult_2 power_add)
  also have "\<dots> \<le> 2 * vval m * radix ^ n" using top_bit_val [OF assms(3)] assms(2) by simp
  finally have lt: "vval product < vval m * 2 ^ Suc (32 * n)" by (simp add: R algebra_simps)
  obtain v w where vw: "(mmod_round n ^^ (32 * n)) (product, mm) = (v, w)" by fastforce
  have i: "length v = 2 * n" "length w = 2 * n" "vval w = vval m" "vval v < vval m * 2" "vval v mod vval m = vval product mod vval m"
    using mmod_rounds_val [OF assms(1) mm(1) n mm(2) lt] unfolding vw by simp_all
  have "vval v < vval w * 2" using i(3,4) by simp
  note l = mmod_last_val [OF i(1,2) this]
  define f where "f = fst (mmod_round n (v, w))"
  have "uECC_vli_mmod product m n = take n f"
    using assms(2) numBits_top [OF assms(3)] vw by (simp add: uECC_vli_mmod_def mm_def f_def Let_def)
  moreover have "vval (take n f) = vval f"
  proof -
    have fl: "length f = 2 * n" "vval f = vval product mod vval m" using l i(3,5) by (simp_all add: f_def)
    have "0 < vval m" using lt by (cases "vval m") simp_all
    then have "vval f < vval m" unfolding fl(2) by (rule mod_less_divisor)
    also have "vval m < radix ^ n" using vval_lt [of m] unfolding assms(2) .
    finally have "vval f < radix ^ n" .
    moreover have "vval f = vval (take n f) + radix ^ n * vval (drop n f)"
      using vval_append [of "take n f" "drop n f"] fl(1) by simp
    ultimately show ?thesis by (cases "vval (drop n f)") simp_all
  qed
  ultimately show ?thesis using l i(3,5) by (simp add: f_def)
qed

lemma modMult_correct:
  assumes "length l = n" "length r = n" "length m = n" "top_bit m" "n \<le> 64"
  shows "ival (uECC_vli_modMult l r m n) = ival l * ival r mod ival m" "length (uECC_vli_modMult l r m n) = n"
proof -
  have "0 < n" using assms(3,4) by (auto simp: top_bit_def)
  note p = vli_mult_exact [OF assms(1,2) this assms(5)]
  note r = mmod_correct [OF p(2) assms(3,4)]
  show "ival (uECC_vli_modMult l r m n) = ival l * ival r mod ival m"
    using r p(1) by (simp add: uECC_vli_modMult_def zmod_int)
  show "length (uECC_vli_modMult l r m n) = n" using r by (simp add: uECC_vli_modMult_def)
qed

end
