(* ===== verification/EccField.thy ===== *)
theory EccField
  imports Ecc VliDiv
begin

text \<open>
  The field operations as integers modulo the prime: \<open>rep w a\<close> says that the words \<open>w\<close> are the reduced
  representation of \<open>a\<close>. Every operation returns when its arguments have eight words, so the curve
  routines unfold to plain expressions.
\<close>

abbreviation pp :: int where "pp \<equiv> curve_p_int"

definition fmul :: "vli \<Rightarrow> vli \<Rightarrow> vli" where
  "fmul l r = the (uECC_vli_modMult_fast l r)"

lemma modMult_fast_spec:
  assumes "length l = 8" "length r = 8"
  shows "uECC_vli_modMult_fast l r = Some (fmul l r) \<and> length (fmul l r) = 8 \<and> ival (fmul l r) = ival l * ival r mod pp"
proof -
  note m = vli_mult_exact [OF assms]
  have "length (uECC_vli_mult l r 8) = 16" using m(2) by simp
  from mmod_fast_correct [OF this] obtain w where w: "vli_mmod_fast_secp256r1 (uECC_vli_mult l r 8) = Some w"
    "length w = 8" "ival w = ival (uECC_vli_mult l r 8) mod pp" by blast
  then show ?thesis using m(1) by (simp add: fmul_def uECC_vli_modMult_fast_def)
qed

lemma curve_p_length [simp]: "length curve_p = 8" "length curve_n = 8" "length curve_b = 8"
  by (simp_all add: curve_p_def curve_n_def curve_b_def)

lemma modMult_fast_some [simp]: "length l = 8 \<Longrightarrow> length r = 8 \<Longrightarrow> uECC_vli_modMult_fast l r = Some (fmul l r)"
  "length l = 8 \<Longrightarrow> uECC_vli_modSquare_fast l = Some (fmul l l)"
  by (simp_all add: modMult_fast_spec uECC_vli_modSquare_fast_def)

lemma fmul_length [simp]: "length l = 8 \<Longrightarrow> length r = 8 \<Longrightarrow> length (fmul l r) = 8"
  by (simp add: modMult_fast_spec)

abbreviation fadd :: "vli \<Rightarrow> vli \<Rightarrow> vli" where "fadd l r \<equiv> uECC_vli_modAdd l r curve_p"
abbreviation fsub :: "vli \<Rightarrow> vli \<Rightarrow> vli" where "fsub l r \<equiv> uECC_vli_modSub l r curve_p"

lemma fadd_length [simp]: "length l = 8 \<Longrightarrow> length r = 8 \<Longrightarrow> length (fadd l r) = 8"
  by (simp add: modAdd_length)

lemma fsub_length [simp]: "length l = 8 \<Longrightarrow> length r = 8 \<Longrightarrow> length (fsub l r) = 8"
  by (simp add: modSub_length)

section \<open>Representation of residues\<close>

definition rep :: "vli \<Rightarrow> int \<Rightarrow> bool" where
  "rep w a \<longleftrightarrow> length w = 8 \<and> ival w = a mod pp"

lemma pp_pos [simp]: "0 < pp"
  by (simp add: curve_p_int_def)

lemma rep_length: "rep w a \<Longrightarrow> length w = 8"
  by (simp add: rep_def)

lemma rep_self: "length w = 8 \<Longrightarrow> ival w < pp \<Longrightarrow> rep w (ival w)"
  by (simp add: rep_def)

lemma rep_lt: "rep w a \<Longrightarrow> ival w < pp"
  by (simp add: rep_def)

lemma rep_cong: "rep w a \<Longrightarrow> a mod pp = b mod pp \<Longrightarrow> rep w b"
  by (simp add: rep_def)

lemma rep_unique: "rep w a \<Longrightarrow> rep w b \<Longrightarrow> a mod pp = b mod pp"
  by (simp add: rep_def)

lemma rep_mul: "rep x a \<Longrightarrow> rep y b \<Longrightarrow> rep (fmul x y) (a * b)"
  by (simp add: rep_def modMult_fast_spec mod_mult_eq)

lemma rep_mul': "length x = 8 \<Longrightarrow> length y = 8 \<Longrightarrow> rep (fmul x y) (ival x * ival y)"
  by (simp add: rep_def modMult_fast_spec)

text \<open>\<open>raw\<close>: the same residue, not necessarily reduced; a product reduces it.\<close>

definition raw :: "vli \<Rightarrow> int \<Rightarrow> bool" where
  "raw w a \<longleftrightarrow> length w = 8 \<and> ival w mod pp = a mod pp"

lemma raw_self: "length w = 8 \<Longrightarrow> raw w (ival w)"
  by (simp add: raw_def)

lemma rep_raw: "rep w a \<Longrightarrow> raw w a"
  by (simp add: raw_def rep_def)

lemma raw_mul: "raw x a \<Longrightarrow> raw y b \<Longrightarrow> rep (fmul x y) (a * b)"
  by (auto simp: rep_def raw_def modMult_fast_spec intro: mod_mult_cong)

lemma rep_add: "rep x a \<Longrightarrow> rep y b \<Longrightarrow> rep (fadd x y) (a + b)"
  using modAdd_val [of x curve_p y] by (simp add: rep_def modAdd_length curve_p_val(1) mod_add_eq)

lemma rep_sub: "rep x a \<Longrightarrow> rep y b \<Longrightarrow> rep (fsub x y) (a - b)"
  using modSub_val [of x curve_p y] by (simp add: rep_def modSub_length curve_p_val(1) mod_diff_eq)

lemmas rep_ops = rep_mul rep_add rep_sub

text \<open>Halving, as \<open>double_jacobian_default\<close> does it.\<close>

definition fhalf :: "vli \<Rightarrow> vli" where
  "fhalf X1 = (if uECC_vli_testBit X1 0
    then let (X1, l_carry) = uECC_vli_add X1 curve_p;
             X1 = uECC_vli_rshift1 X1
         in X1[8 - 1 := X1 ! (8 - 1) OR push_bit 31 l_carry]
    else uECC_vli_rshift1 X1)"

lemma fhalf_length [simp]: "length w = 8 \<Longrightarrow> length (fhalf w) = 8"
  by (simp add: fhalf_def Let_def case_prod_beta vli_rshift1(2) add_length)

lemma testBit_0: "v \<noteq> [] \<Longrightarrow> uECC_vli_testBit v 0 \<longleftrightarrow> \<not> EVEN v"
  by (simp add: uECC_vli_testBit_def)

lemma fhalf_update: "length w = 8 \<Longrightarrow> fhalf w = vli_modInv_update w curve_p"
proof -
  assume len: "length w = 8"
  then have ne: "w \<noteq> []" by auto
  obtain s c where s: "uECC_vli_add w curve_p = (s, c)" by fastforce
  have sl: "length (uECC_vli_rshift1 s) = 8" using vli_add(2) [OF s] len by (simp add: vli_rshift1)
  have "push_bit 31 c = 0x80000000" if "c \<noteq> 0"
    using that carry_bit [OF vli_add(3) [OF s]] len by auto
  then show ?thesis using sl s testBit_0 [OF ne]
    by (auto simp: fhalf_def vli_modInv_update_def Let_def list_update_id)
qed

lemma pp_odd: "odd pp" by (simp add: curve_p_int_def)

lemma rep_half: "rep w a \<Longrightarrow> \<exists>h. rep (fhalf w) h \<and> 2 * h mod pp = a mod pp"
proof -
  assume w: "rep w a"
  then have len: "length w = 8" "w \<noteq> []" "ival w < ival curve_p" by (auto simp: rep_def curve_p_val)
  have "length w = length curve_p" using len by simp
  note u = update_facts [OF this len(2,3)] 
  have "rep (fhalf w) (ival (fhalf w))"
    using len u(1) pp_odd by (intro rep_self) (simp_all add: fhalf_update curve_p_val update_length)
  moreover have "pp dvd 2 * ival (fhalf w) - ival w" using u(2) pp_odd len by (simp add: fhalf_update curve_p_val)
  then have "2 * ival (fhalf w) mod pp = ival w mod pp" by (simp only: mod_eq_dvd_iff)
  then have "2 * ival (fhalf w) mod pp = a mod pp" using w by (simp add: rep_def)
  ultimately show ?thesis by blast
qed

section \<open>Bits\<close>

lemma testBit_cons:
  "uECC_vli_testBit (w # ws) i = (if i < 32 then bit w i else uECC_vli_testBit ws (i - 32))"
proof -
  have a: "x AND push_bit k 1 \<noteq> 0 \<longleftrightarrow> bit x k" for x :: u32 and k
    using and_exp_eq_0_iff_not_bit [of x k] by (simp add: push_bit_eq_mult)
  show ?thesis
  proof (cases "i < 32")
    case False
    then have "i div 32 = Suc ((i - 32) div 32)" "i mod 32 = (i - 32) mod 32" by (simp_all add: le_div_geq le_mod_geq)
    then show ?thesis using False by (simp add: uECC_vli_testBit_def)
  qed (simp add: uECC_vli_testBit_def a [unfolded push_bit_eq_mult mult_1])
qed

lemma bit_vval:
  "i < 32 * length v \<Longrightarrow> uECC_vli_testBit v i \<longleftrightarrow> bit (vval v) i"
proof (induction v arbitrary: i)
  case (Cons w ws)
  have s: "vval (w # ws) = push_bit 32 (vval ws) OR unat w"
  proof -
    have "push_bit 32 (vval ws) + unat w = push_bit 32 (vval ws) OR unat w"
      by (rule disjunctive_add) (auto simp: bit_simps bit_unsigned_iff dest: bit_imp_le_length)
    then show ?thesis by (simp add: push_bit_eq_mult mult.commute add.commute)
  qed
  show ?case unfolding testBit_cons s
    using Cons.IH [of "i - 32"] Cons.prems bit_imp_le_length [of w i] by (auto simp: bit_simps bit_unsigned_iff)
qed simp

lemma fold_bits:
  "k \<le> n \<Longrightarrow> fold (\<lambda>i m. 2 * m + of_bool (bit M i)) (rev [k..<n]) 0 = (M mod 2 ^ n) div 2 ^ k" for M :: nat
proof (induction "n - k" arbitrary: k)
  case (Suc x)
  then have k: "k < n" "Suc k \<le> n" "x = n - Suc k" by simp_all
  have "rev [k..<n] = rev [Suc k..<n] @ [k]" using k(1) by (simp add: upt_conv_Cons)
  then have "fold (\<lambda>i m. 2 * m + of_bool (bit M i)) (rev [k..<n]) 0 = 2 * ((M mod 2 ^ n) div 2 ^ Suc k) + of_bool (bit M k)"
    using Suc.hyps(1) [OF k(3,2)] by simp
  also have "of_bool (bit M k) = (M mod 2 ^ n) div 2 ^ k mod 2"
  proof -
    have "bit (M mod 2 ^ n) k = bit M k" using k(1) by (simp add: bit_take_bit_iff flip: take_bit_eq_mod)
    then have "odd (M mod 2 ^ n div 2 ^ k) = bit M k" by (simp only: bit_iff_odd)
    then show ?thesis by (simp only: mod_2_eq_odd)
  qed
  also have "(M mod 2 ^ n) div 2 ^ Suc k = (M mod 2 ^ n) div 2 ^ k div 2" by (simp add: power_Suc2 div_mult2_eq del: power_Suc)
  finally show ?case by simp
qed simp

lemma fold_testBit:
  "n \<le> 32 * length v \<Longrightarrow> fold (\<lambda>i m. 2 * m + of_bool (uECC_vli_testBit v i)) (rev [k..<n]) m =
    fold (\<lambda>i m. 2 * m + of_bool (bit (vval v) i)) (rev [k..<n]) (m :: nat)"
  by (intro fold_cong refl) (auto simp: bit_vval fun_eq_iff)

section \<open>The curve routines, unfolded\<close>

lemma apply_z_eq:
  "length X = 8 \<Longrightarrow> length Y = 8 \<Longrightarrow> length Z = 8 \<Longrightarrow>
    apply_z (X, Y) Z = Some (fmul X (fmul Z Z), fmul Y (fmul (fmul Z Z) Z))"
  by (simp add: apply_z_def)

lemma apply_z_rep:
  assumes "raw X x" "raw Y y" "rep Z z"
  shows "\<exists>X' Y'. apply_z (X, Y) Z = Some (X', Y') \<and> rep X' (x * z ^ 2) \<and> rep Y' (y * z ^ 3)"
proof -
  have eqs: "x * z ^ 2 = x * (z * z)" "y * z ^ 3 = y * (z * z * z)" by (simp_all add: power2_eq_square power3_eq_cube)
  have len: "length X = 8" "length Y = 8" "length Z = 8" using assms by (simp_all add: raw_def rep_def)
  show ?thesis unfolding eqs
    by (intro exI conjI, rule apply_z_eq [OF len]) (intro raw_mul rep_raw [OF rep_mul] assms rep_raw [OF assms(3)])+
qed

definition coz_x :: "int \<Rightarrow> int \<Rightarrow> int \<Rightarrow> int \<Rightarrow> int" where
  "coz_x x1 y1 x2 y2 = (y2 - y1) ^ 2 - (x2 - x1) ^ 2 * (x1 + x2)"

definition coz_y :: "int \<Rightarrow> int \<Rightarrow> int \<Rightarrow> int \<Rightarrow> int" where
  "coz_y x1 y1 x2 y2 = (y2 - y1) * (x1 * (x2 - x1) ^ 2 - coz_x x1 y1 x2 y2) - y1 * (x2 - x1) ^ 3"

lemma XYcZ_add_eq:
  assumes "length X1 = 8" "length Y1 = 8" "length X2 = 8" "length Y2 = 8"
  defines "A \<equiv> fmul (fsub X2 X1) (fsub X2 X1)"
  defines "B \<equiv> fmul X1 A"
  defines "C \<equiv> fmul X2 A"
  defines "x3 \<equiv> fsub (fsub (fmul (fsub Y2 Y1) (fsub Y2 Y1)) B) C"
  defines "E \<equiv> fmul Y1 (fsub C B)"
  shows "XYcZ_add (X1, Y1) (X2, Y2) = Some ((B, E), (x3, fsub (fmul (fsub Y2 Y1) (fsub B x3)) E), fsub B x3)"
  using assms(1-4) by (simp add: XYcZ_add_def Let_def A_def B_def C_def x3_def E_def)

lemma XYcZ_add_rep:
  assumes "rep X1 x1" "rep Y1 y1" "rep X2 x2" "rep Y2 y2"
  shows "\<exists>X1' Y1' X3 Y3 sub. XYcZ_add (X1, Y1) (X2, Y2) = Some ((X1', Y1'), (X3, Y3), sub) \<and>
    rep X1' (x1 * (x2 - x1) ^ 2) \<and> rep Y1' (y1 * (x2 - x1) ^ 3) \<and>
    rep X3 (coz_x x1 y1 x2 y2) \<and> rep Y3 (coz_y x1 y1 x2 y2) \<and>
    rep sub (x1 * (x2 - x1) ^ 2 - coz_x x1 y1 x2 y2)"
proof -
  let ?A = "(x2 - x1) * (x2 - x1)"
  have eqs: "x1 * (x2 - x1) ^ 2 = x1 * ?A" "y1 * (x2 - x1) ^ 3 = y1 * (x2 * ?A - x1 * ?A)"
    by (simp_all add: power2_eq_square power3_eq_cube algebra_simps)
  have x: "coz_x x1 y1 x2 y2 = (y2 - y1) * (y2 - y1) - x1 * ?A - x2 * ?A"
    by (simp add: coz_x_def power2_eq_square algebra_simps)
  have y: "coz_y x1 y1 x2 y2 = (y2 - y1) * (x1 * ?A - ((y2 - y1) * (y2 - y1) - x1 * ?A - x2 * ?A)) - y1 * (x2 * ?A - x1 * ?A)"
    unfolding coz_y_def eqs x ..
  show ?thesis
    unfolding eqs(2) y unfolding eqs(1) x
    by (intro exI conjI, rule XYcZ_add_eq [OF assms [THEN rep_length]]) (intro rep_ops assms)+
qed

lemma XYcZ_addC_eq:
  assumes "length X1 = 8" "length Y1 = 8" "length X2 = 8" "length Y2 = 8" "length sub = 8"
  defines "A \<equiv> fmul sub sub"
  defines "B \<equiv> fmul X1 A"
  defines "C \<equiv> fmul X2 A"
  defines "E \<equiv> fmul Y1 (fsub C B)"
  defines "x3 \<equiv> fsub (fmul (fsub Y2 Y1) (fsub Y2 Y1)) (fadd B C)"
  defines "x3' \<equiv> fsub (fmul (fadd Y2 Y1) (fadd Y2 Y1)) (fadd B C)"
  shows "XYcZ_addC (X1, Y1) (X2, Y2) sub =
    Some ((x3', fsub (fmul (fsub x3' B) (fadd Y2 Y1)) E), (x3, fsub (fmul (fsub Y2 Y1) (fsub B x3)) E))"
  using assms(1-5) by (simp add: XYcZ_addC_def Let_def A_def B_def C_def x3_def x3'_def E_def)

text \<open>The difference goes with the negated second point.\<close>

lemma XYcZ_addC_rep:
  assumes "rep X1 x1" "rep Y1 y1" "rep X2 x2" "rep Y2 y2" "rep sub s" "s ^ 2 mod pp = (x2 - x1) ^ 2 mod pp"
  shows "\<exists>XD YD XS YS. XYcZ_addC (X1, Y1) (X2, Y2) sub = Some ((XD, YD), (XS, YS)) \<and>
    rep XD (coz_x x1 y1 x2 (- y2)) \<and> rep YD (coz_y x1 y1 x2 (- y2)) \<and>
    rep XS (coz_x x1 y1 x2 y2) \<and> rep YS (coz_y x1 y1 x2 y2)"
proof -
  let ?A = "(x2 - x1) * (x2 - x1)"
  have A: "rep (fmul sub sub) ?A"
    using rep_cong [OF rep_mul [OF assms(5,5)]] assms(6) by (simp add: power2_eq_square)
  have x: "coz_x x1 y1 x2 y2 = (y2 - y1) * (y2 - y1) - (x1 * ?A + x2 * ?A)"
    "coz_x x1 y1 x2 (- y2) = (y2 + y1) * (y2 + y1) - (x1 * ?A + x2 * ?A)"
    by (simp_all add: coz_x_def power2_eq_square algebra_simps)
  have y: "coz_y x1 y1 x2 y2 = (y2 - y1) * (x1 * ?A - ((y2 - y1) * (y2 - y1) - (x1 * ?A + x2 * ?A))) - y1 * (x2 * ?A - x1 * ?A)"
    "coz_y x1 y1 x2 (- y2) = ((y2 + y1) * (y2 + y1) - (x1 * ?A + x2 * ?A) - x1 * ?A) * (y2 + y1) - y1 * (x2 * ?A - x1 * ?A)"
    unfolding coz_y_def x by (simp_all add: power2_eq_square power3_eq_cube algebra_simps)
  show ?thesis
    unfolding y unfolding x
    by (intro exI conjI, rule XYcZ_addC_eq [OF assms(1-5) [THEN rep_length]]) (intro rep_ops assms(1-4) A)+
qed

lemma double_jacobian_eq:
  assumes "length X1 = 8" "length Y1 = 8" "length Z1 = 8" "ival Z1 \<noteq> 0"
  defines "A \<equiv> fmul X1 (fmul Y1 Y1)"
  defines "zz \<equiv> fmul Z1 Z1"
  defines "M \<equiv> fmul (fadd X1 zz) (fsub (fadd X1 zz) (fadd zz zz))"
  defines "B \<equiv> fhalf (fadd M (fadd M M))"
  defines "x3 \<equiv> fsub (fsub (fmul B B) A) A"
  shows "double_jacobian_default X1 Y1 Z1 =
    Some (x3, fsub (fmul B (fsub A x3)) (fmul (fmul Y1 Y1) (fmul Y1 Y1)), fmul Y1 Z1)"
  using assms(1-4) unfolding A_def zz_def M_def B_def x3_def
  by (simp add: double_jacobian_default_def isZero_vval fhalf_def [symmetric] Let_def)

lemma double_jacobian_rep:
  assumes "rep X1 x" "rep Y1 y" "rep Z1 z" "ival Z1 \<noteq> 0"
  shows "\<exists>b X3 Y3 Z3. double_jacobian_default X1 Y1 Z1 = Some (X3, Y3, Z3) \<and>
    2 * b mod pp = 3 * (x ^ 2 - z ^ 4) mod pp \<and> rep X3 (b ^ 2 - 2 * (x * y ^ 2)) \<and>
    rep Y3 (b * (x * y ^ 2 - (b ^ 2 - 2 * (x * y ^ 2))) - y ^ 4) \<and> rep Z3 (y * z)"
proof -
  define M where "M = fmul (fadd X1 (fmul Z1 Z1)) (fsub (fadd X1 (fmul Z1 Z1)) (fadd (fmul Z1 Z1) (fmul Z1 Z1)))"
  let ?m = "(x + z * z) * (x + z * z - (z * z + z * z))"
  have "rep (fadd M (fadd M M)) (?m + (?m + ?m))" unfolding M_def by (intro rep_ops assms)
  from rep_half [OF this] obtain b where b: "rep (fhalf (fadd M (fadd M M))) b" "2 * b mod pp = (?m + (?m + ?m)) mod pp" by blast
  have m: "?m + (?m + ?m) = 3 * (x ^ 2 - z ^ 4)" by (simp add: algebra_simps power2_eq_square power4_eq_xxxx)
  have A: "x * y ^ 2 = x * (y * y)" "y ^ 4 = (y * y) * (y * y)" by (simp_all add: power2_eq_square power4_eq_xxxx)
  have x3: "c ^ 2 - 2 * (x * (y * y)) = c * c - x * (y * y) - x * (y * y)" for c by (simp add: power2_eq_square)
  note eq = double_jacobian_eq [OF assms(1-3) [THEN rep_length] assms(4), folded M_def]
  show ?thesis unfolding A x3 m [symmetric]
    by (intro exI conjI, rule eq, rule b(2)) (intro rep_ops assms b(1))+
qed

end
