(* ===== verification/EccAlg.thy ===== *)
theory EccAlg
  imports EccField
begin

text \<open>
  The algebra behind the co-Z formulas. The two running points of the ladder share their Z coordinate;
  their difference, computed by the same chord formula, stays the input point. All of it is exact over the
  integers; only the curve equation is meant modulo the prime.
\<close>

section \<open>The chord and the tangent stay on the curve\<close>

definition curve_eq :: "int \<Rightarrow> int \<Rightarrow> int \<Rightarrow> int" where
  "curve_eq x y z = y ^ 2 - (x ^ 3 - 3 * x * z ^ 4 + ival curve_b * z ^ 6)"

lemma scale_curve: "curve_eq (x * d ^ 2) (y * d ^ 3) (z * d) = d ^ 6 * curve_eq x y z"
  unfolding curve_eq_def by algebra

lemma chord_curve_core:
  fixes d e x y :: int
  defines "x3 \<equiv> e ^ 2 - d ^ 2 * (2 * x + d)"
  shows "(e * (x * d ^ 2 - x3) - y * d ^ 3) ^ 2 - x3 ^ 3 =
    d ^ 3 * (x3 - x * d ^ 2) * ((y + e) ^ 2 - y ^ 2 - ((x + d) ^ 3 - x ^ 3)) + d ^ 6 * (y ^ 2 - x ^ 3)"
  unfolding x3_def by algebra

lemma chord_curve_lin:
  fixes L d u x1 x2 y1 y2 x3 a b :: int
  assumes "L = d ^ 3 * u * (y2 ^ 2 - y1 ^ 2 - (x2 ^ 3 - x1 ^ 3)) + d ^ 6 * (y1 ^ 2 - x1 ^ 3)"
    and "x2 = x1 + d" "u = x3 - x1 * d ^ 2"
  shows "L - a * d ^ 4 * x3 - b * d ^ 6 =
    d ^ 3 * u * ((y2 ^ 2 - x2 ^ 3 - a * x2 - b) - (y1 ^ 2 - x1 ^ 3 - a * x1 - b)) + d ^ 6 * (y1 ^ 2 - x1 ^ 3 - a * x1 - b)"
  using assms by algebra

lemma chord_curve:
  "curve_eq (coz_x x1 y1 x2 y2) (coz_y x1 y1 x2 y2) (z * (x2 - x1)) =
    (x2 - x1) ^ 3 * (coz_x x1 y1 x2 y2 - x1 * (x2 - x1) ^ 2) * (curve_eq x2 y2 z - curve_eq x1 y1 z) +
    (x2 - x1) ^ 6 * curve_eq x1 y1 z"
proof -
  define d where "d = x2 - x1"
  define e where "e = y2 - y1"
  have x2: "x2 = x1 + d" and y2: "y2 = y1 + e" by (simp_all add: d_def e_def)
  have x3: "coz_x x1 y1 x2 y2 = e ^ 2 - d ^ 2 * (2 * x1 + d)" by (simp add: coz_x_def x2 y2)
  have y3: "coz_y x1 y1 x2 y2 = e * (x1 * d ^ 2 - coz_x x1 y1 x2 y2) - y1 * d ^ 3" by (simp add: coz_y_def d_def e_def)
  define u where "u = coz_x x1 y1 x2 y2 - x1 * d ^ 2"
  have core: "coz_y x1 y1 x2 y2 ^ 2 - coz_x x1 y1 x2 y2 ^ 3 =
      d ^ 3 * u * (y2 ^ 2 - y1 ^ 2 - (x2 ^ 3 - x1 ^ 3)) + d ^ 6 * (y1 ^ 2 - x1 ^ 3)"
    unfolding y3 u_def x3 unfolding x2 y2 by (rule chord_curve_core)
  define a where "a = - 3 * z ^ 4"
  define b where "b = ival curve_b * z ^ 6"
  have E: "curve_eq x y z = y ^ 2 - x ^ 3 - a * x - b" for x y by (simp add: curve_eq_def a_def b_def)
  have E3: "curve_eq x y (z * d) = y ^ 2 - x ^ 3 - a * d ^ 4 * x - b * d ^ 6" for x y
    by (simp add: curve_eq_def a_def b_def power_mult_distrib)
  show ?thesis unfolding d_def [symmetric] E3 E u_def [symmetric] by (rule chord_curve_lin [OF core x2 u_def])
qed

lemma tangent_curve:
  fixes x y z b :: int
  defines "x3 \<equiv> b ^ 2 - 2 * (x * y ^ 2)"
  shows "curve_eq x3 (b * (x * y ^ 2 - x3) - y ^ 4) (y * z) =
    y ^ 6 * curve_eq x y z + y ^ 4 * (b ^ 2 - 3 * x * y ^ 2) * (2 * b - 3 * (x ^ 2 - z ^ 4))"
  unfolding curve_eq_def x3_def by algebra

lemma curve_neg: "curve_eq x (- y) z = curve_eq x y z"
  by (simp add: curve_eq_def)

lemma chord_dvd:
  assumes "pp dvd curve_eq x1 y1 z" "pp dvd curve_eq x2 y2 z"
  shows "pp dvd curve_eq (coz_x x1 y1 x2 y2) (coz_y x1 y1 x2 y2) (z * (x2 - x1))"
  unfolding chord_curve using assms by (intro dvd_add dvd_mult dvd_diff) simp_all

section \<open>The difference\<close>

text \<open>\<open>diff_is\<close>: the second point less the first one is the point with the affine coordinates
  \<open>x\<close> and \<open>y\<close>.\<close>

definition diff_is :: "int \<Rightarrow> int \<Rightarrow> int \<Rightarrow> int \<Rightarrow> int \<Rightarrow> int \<Rightarrow> int \<Rightarrow> bool" where
  "diff_is x y z x0 y0 x1 y1 \<longleftrightarrow>
    coz_x x1 y1 x0 (- y0) = x * (z * (x0 - x1)) ^ 2 \<and> coz_y x1 y1 x0 (- y0) = y * (z * (x0 - x1)) ^ 3"

lemma coz_swap:
  "coz_x x0 y0 x1 (- y1) = coz_x x1 y1 x0 (- y0)" "coz_y x0 y0 x1 (- y1) = coz_y x1 y1 x0 (- y0)"
  unfolding coz_y_def coz_x_def by algebra+

lemma diff_is_swap:
  assumes "diff_is x y z x0 y0 x1 y1"
  shows "coz_x x0 y0 x1 (- y1) = x * (z * (x1 - x0)) ^ 2" "coz_y x0 y0 x1 (- y1) = - y * (z * (x1 - x0)) ^ 3"
proof -
  have "(z * (x1 - x0)) ^ 2 = (z * (x0 - x1)) ^ 2" "- y * (z * (x1 - x0)) ^ 3 = y * (z * (x0 - x1)) ^ 3" by algebra+
  then show "coz_x x0 y0 x1 (- y1) = x * (z * (x1 - x0)) ^ 2" "coz_y x0 y0 x1 (- y1) = - y * (z * (x1 - x0)) ^ 3"
    using assms by (simp_all only: diff_is_def coz_swap [of x0 y0])
qed

text \<open>Adding \<open>D\<close> to \<open>S\<close> gives a point whose difference to \<open>S\<close> is \<open>D\<close> again.\<close>

lemma chord_cancel:
  fixes xs ys xd yd :: int
  defines "d \<equiv> xd - xs"
  defines "w \<equiv> xs * d ^ 2 - coz_x xs ys xd yd"
  shows "coz_x (coz_x xs ys xd yd) (coz_y xs ys xd yd) (xs * d ^ 2) (- (ys * d ^ 3)) = xd * (d * w) ^ 2"
    "coz_y (coz_x xs ys xd yd) (coz_y xs ys xd yd) (xs * d ^ 2) (- (ys * d ^ 3)) = yd * (d * w) ^ 3"
proof -
  define e where "e = yd - ys"
  define t where "t = coz_x xs ys xd yd"
  have t: "t = e ^ 2 - d ^ 2 * (xs + xd)" by (simp add: t_def coz_x_def d_def e_def)
  have ty: "coz_y xs ys xd yd = e * w - ys * d ^ 3" by (simp add: coz_y_def w_def d_def e_def)
  have x: "coz_x t (e * w - ys * d ^ 3) (xs * d ^ 2) (- (ys * d ^ 3)) = xd * (d * w) ^ 2"
  proof -
    have "coz_x t (e * w - ys * d ^ 3) (xs * d ^ 2) (- (ys * d ^ 3)) = w ^ 2 * (e ^ 2 - (t + xs * d ^ 2))"
      by (simp add: coz_x_def w_def t_def power_mult_distrib algebra_simps power2_eq_square)
    also have "e ^ 2 - (t + xs * d ^ 2) = xd * d ^ 2" by (simp add: t algebra_simps)
    finally show ?thesis by (simp add: power_mult_distrib)
  qed
  show "coz_x (coz_x xs ys xd yd) (coz_y xs ys xd yd) (xs * d ^ 2) (- (ys * d ^ 3)) = xd * (d * w) ^ 2"
    using x by (simp add: ty t_def)
  have w: "xs * d ^ 2 - t = w" by (simp add: w_def t_def)
  have "coz_y t (e * w - ys * d ^ 3) (xs * d ^ 2) (- (ys * d ^ 3)) =
      - (e * w) * (t * w ^ 2 - xd * (d * w) ^ 2) - (e * w - ys * d ^ 3) * w ^ 3"
    unfolding coz_y_def x w by simp
  also have "\<dots> = w ^ 3 * (e * (xd * d ^ 2 - t - w) + ys * d ^ 3)" by algebra
  also have "xd * d ^ 2 - t - w = d ^ 3" by (simp add: w [symmetric] d_def) algebra
  also have "e * d ^ 3 + ys * d ^ 3 = yd * d ^ 3" by (simp add: e_def algebra_simps)
  finally show "coz_y (coz_x xs ys xd yd) (coz_y xs ys xd yd) (xs * d ^ 2) (- (ys * d ^ 3)) = yd * (d * w) ^ 3"
    by (simp add: ty t_def power_mult_distrib mult.commute)
qed

text \<open>The doubled point less the point is the point.\<close>

lemma tangent_diff:
  fixes b x y z :: int
  defines "x3 \<equiv> b ^ 2 - 2 * (x * y ^ 2)"
  defines "y3 \<equiv> b * (x * y ^ 2 - x3) - y ^ 4"
  assumes "x = px * z ^ 2" "y = py * z ^ 3"
  shows "diff_is px py (y * z) (x * y ^ 2) (y ^ 4) x3 y3"
proof -
  define w where "w = x * y ^ 2 - x3"
  have X: "coz_x x3 y3 (x * y ^ 2) (- (y ^ 4)) = x * y ^ 2 * w ^ 2"
  proof -
    have "coz_x x3 y3 (x * y ^ 2) (- (y ^ 4)) = w ^ 2 * (b ^ 2 - (x3 + x * y ^ 2))"
      by (simp add: coz_x_def y3_def w_def algebra_simps power2_eq_square)
    then show ?thesis by (simp add: x3_def)
  qed
  have "coz_y x3 y3 (x * y ^ 2) (- (y ^ 4)) = - (b * w) * (x3 * w ^ 2 - x * y ^ 2 * w ^ 2) - y3 * w ^ 3"
    unfolding coz_y_def X by (simp add: y3_def w_def)
  also have "\<dots> = w ^ 3 * (b * w - y3)" unfolding w_def by algebra
  also have "b * w - y3 = y ^ 4" by (simp add: y3_def w_def)
  finally have Y: "coz_y x3 y3 (x * y ^ 2) (- (y ^ 4)) = y ^ 4 * w ^ 3" by simp
  have "x * y ^ 2 * w ^ 2 = px * (y * z * w) ^ 2" using assms(3) by algebra
  moreover have "y ^ 4 * w ^ 3 = py * (y * z * w) ^ 3" using assms(4) by algebra
  ultimately show ?thesis unfolding diff_is_def X Y w_def by simp
qed

end
