(* ===== verification/Digits.thy ===== *)
theory Digits
  imports Main
begin

text \<open>
  Rewriting rules that evaluate sums and products of binary numerals in few steps: addition by groups of four
  digits and multiplication by windows. They serve the certificates about numbers of 256 bits.
\<close>

section \<open>Two digits at a time\<close>

text \<open>The carry is in the name of the function.\<close>

definition add0 :: "num \<Rightarrow> num \<Rightarrow> num" where
  "add0 m n = m + n"

definition add1 :: "num \<Rightarrow> num \<Rightarrow> num" where
  "add1 m n = m + n + num.One"

definition inc :: "num \<Rightarrow> num" where
  "inc m = m + num.One"

lemma add_digits:
  "add0 num.One num.One = num.Bit0 num.One"
  "add0 num.One (num.Bit0 num.One) = num.Bit1 num.One"
  "add0 num.One (num.Bit1 num.One) = num.Bit0 (num.Bit0 num.One)"
  "add0 num.One (num.Bit0 (num.Bit0 n)) = num.Bit1 (num.Bit0 n)"
  "add0 num.One (num.Bit1 (num.Bit0 n)) = num.Bit0 (num.Bit1 n)"
  "add0 num.One (num.Bit0 (num.Bit1 n)) = num.Bit1 (num.Bit1 n)"
  "add0 num.One (num.Bit1 (num.Bit1 n)) = num.Bit0 (num.Bit0 (inc n))"
  "add0 (num.Bit0 num.One) num.One = num.Bit1 num.One"
  "add0 (num.Bit0 num.One) (num.Bit0 num.One) = num.Bit0 (num.Bit0 num.One)"
  "add0 (num.Bit0 num.One) (num.Bit1 num.One) = num.Bit1 (num.Bit0 num.One)"
  "add0 (num.Bit0 num.One) (num.Bit0 (num.Bit0 n)) = num.Bit0 (num.Bit1 n)"
  "add0 (num.Bit0 num.One) (num.Bit1 (num.Bit0 n)) = num.Bit1 (num.Bit1 n)"
  "add0 (num.Bit0 num.One) (num.Bit0 (num.Bit1 n)) = num.Bit0 (num.Bit0 (inc n))"
  "add0 (num.Bit0 num.One) (num.Bit1 (num.Bit1 n)) = num.Bit1 (num.Bit0 (inc n))"
  "add0 (num.Bit1 num.One) num.One = num.Bit0 (num.Bit0 num.One)"
  "add0 (num.Bit1 num.One) (num.Bit0 num.One) = num.Bit1 (num.Bit0 num.One)"
  "add0 (num.Bit1 num.One) (num.Bit1 num.One) = num.Bit0 (num.Bit1 num.One)"
  "add0 (num.Bit1 num.One) (num.Bit0 (num.Bit0 n)) = num.Bit1 (num.Bit1 n)"
  "add0 (num.Bit1 num.One) (num.Bit1 (num.Bit0 n)) = num.Bit0 (num.Bit0 (inc n))"
  "add0 (num.Bit1 num.One) (num.Bit0 (num.Bit1 n)) = num.Bit1 (num.Bit0 (inc n))"
  "add0 (num.Bit1 num.One) (num.Bit1 (num.Bit1 n)) = num.Bit0 (num.Bit1 (inc n))"
  "add0 (num.Bit0 (num.Bit0 m)) num.One = num.Bit1 (num.Bit0 m)"
  "add0 (num.Bit0 (num.Bit0 m)) (num.Bit0 num.One) = num.Bit0 (num.Bit1 m)"
  "add0 (num.Bit0 (num.Bit0 m)) (num.Bit1 num.One) = num.Bit1 (num.Bit1 m)"
  "add0 (num.Bit0 (num.Bit0 m)) (num.Bit0 (num.Bit0 n)) = num.Bit0 (num.Bit0 (add0 m n))"
  "add0 (num.Bit0 (num.Bit0 m)) (num.Bit1 (num.Bit0 n)) = num.Bit1 (num.Bit0 (add0 m n))"
  "add0 (num.Bit0 (num.Bit0 m)) (num.Bit0 (num.Bit1 n)) = num.Bit0 (num.Bit1 (add0 m n))"
  "add0 (num.Bit0 (num.Bit0 m)) (num.Bit1 (num.Bit1 n)) = num.Bit1 (num.Bit1 (add0 m n))"
  "add0 (num.Bit1 (num.Bit0 m)) num.One = num.Bit0 (num.Bit1 m)"
  "add0 (num.Bit1 (num.Bit0 m)) (num.Bit0 num.One) = num.Bit1 (num.Bit1 m)"
  "add0 (num.Bit1 (num.Bit0 m)) (num.Bit1 num.One) = num.Bit0 (num.Bit0 (inc m))"
  "add0 (num.Bit1 (num.Bit0 m)) (num.Bit0 (num.Bit0 n)) = num.Bit1 (num.Bit0 (add0 m n))"
  "add0 (num.Bit1 (num.Bit0 m)) (num.Bit1 (num.Bit0 n)) = num.Bit0 (num.Bit1 (add0 m n))"
  "add0 (num.Bit1 (num.Bit0 m)) (num.Bit0 (num.Bit1 n)) = num.Bit1 (num.Bit1 (add0 m n))"
  "add0 (num.Bit1 (num.Bit0 m)) (num.Bit1 (num.Bit1 n)) = num.Bit0 (num.Bit0 (add1 m n))"
  "add0 (num.Bit0 (num.Bit1 m)) num.One = num.Bit1 (num.Bit1 m)"
  "add0 (num.Bit0 (num.Bit1 m)) (num.Bit0 num.One) = num.Bit0 (num.Bit0 (inc m))"
  "add0 (num.Bit0 (num.Bit1 m)) (num.Bit1 num.One) = num.Bit1 (num.Bit0 (inc m))"
  "add0 (num.Bit0 (num.Bit1 m)) (num.Bit0 (num.Bit0 n)) = num.Bit0 (num.Bit1 (add0 m n))"
  "add0 (num.Bit0 (num.Bit1 m)) (num.Bit1 (num.Bit0 n)) = num.Bit1 (num.Bit1 (add0 m n))"
  "add0 (num.Bit0 (num.Bit1 m)) (num.Bit0 (num.Bit1 n)) = num.Bit0 (num.Bit0 (add1 m n))"
  "add0 (num.Bit0 (num.Bit1 m)) (num.Bit1 (num.Bit1 n)) = num.Bit1 (num.Bit0 (add1 m n))"
  "add0 (num.Bit1 (num.Bit1 m)) num.One = num.Bit0 (num.Bit0 (inc m))"
  "add0 (num.Bit1 (num.Bit1 m)) (num.Bit0 num.One) = num.Bit1 (num.Bit0 (inc m))"
  "add0 (num.Bit1 (num.Bit1 m)) (num.Bit1 num.One) = num.Bit0 (num.Bit1 (inc m))"
  "add0 (num.Bit1 (num.Bit1 m)) (num.Bit0 (num.Bit0 n)) = num.Bit1 (num.Bit1 (add0 m n))"
  "add0 (num.Bit1 (num.Bit1 m)) (num.Bit1 (num.Bit0 n)) = num.Bit0 (num.Bit0 (add1 m n))"
  "add0 (num.Bit1 (num.Bit1 m)) (num.Bit0 (num.Bit1 n)) = num.Bit1 (num.Bit0 (add1 m n))"
  "add0 (num.Bit1 (num.Bit1 m)) (num.Bit1 (num.Bit1 n)) = num.Bit0 (num.Bit1 (add1 m n))"
  "add1 num.One num.One = num.Bit1 num.One"
  "add1 num.One (num.Bit0 num.One) = num.Bit0 (num.Bit0 num.One)"
  "add1 num.One (num.Bit1 num.One) = num.Bit1 (num.Bit0 num.One)"
  "add1 num.One (num.Bit0 (num.Bit0 n)) = num.Bit0 (num.Bit1 n)"
  "add1 num.One (num.Bit1 (num.Bit0 n)) = num.Bit1 (num.Bit1 n)"
  "add1 num.One (num.Bit0 (num.Bit1 n)) = num.Bit0 (num.Bit0 (inc n))"
  "add1 num.One (num.Bit1 (num.Bit1 n)) = num.Bit1 (num.Bit0 (inc n))"
  "add1 (num.Bit0 num.One) num.One = num.Bit0 (num.Bit0 num.One)"
  "add1 (num.Bit0 num.One) (num.Bit0 num.One) = num.Bit1 (num.Bit0 num.One)"
  "add1 (num.Bit0 num.One) (num.Bit1 num.One) = num.Bit0 (num.Bit1 num.One)"
  "add1 (num.Bit0 num.One) (num.Bit0 (num.Bit0 n)) = num.Bit1 (num.Bit1 n)"
  "add1 (num.Bit0 num.One) (num.Bit1 (num.Bit0 n)) = num.Bit0 (num.Bit0 (inc n))"
  "add1 (num.Bit0 num.One) (num.Bit0 (num.Bit1 n)) = num.Bit1 (num.Bit0 (inc n))"
  "add1 (num.Bit0 num.One) (num.Bit1 (num.Bit1 n)) = num.Bit0 (num.Bit1 (inc n))"
  "add1 (num.Bit1 num.One) num.One = num.Bit1 (num.Bit0 num.One)"
  "add1 (num.Bit1 num.One) (num.Bit0 num.One) = num.Bit0 (num.Bit1 num.One)"
  "add1 (num.Bit1 num.One) (num.Bit1 num.One) = num.Bit1 (num.Bit1 num.One)"
  "add1 (num.Bit1 num.One) (num.Bit0 (num.Bit0 n)) = num.Bit0 (num.Bit0 (inc n))"
  "add1 (num.Bit1 num.One) (num.Bit1 (num.Bit0 n)) = num.Bit1 (num.Bit0 (inc n))"
  "add1 (num.Bit1 num.One) (num.Bit0 (num.Bit1 n)) = num.Bit0 (num.Bit1 (inc n))"
  "add1 (num.Bit1 num.One) (num.Bit1 (num.Bit1 n)) = num.Bit1 (num.Bit1 (inc n))"
  "add1 (num.Bit0 (num.Bit0 m)) num.One = num.Bit0 (num.Bit1 m)"
  "add1 (num.Bit0 (num.Bit0 m)) (num.Bit0 num.One) = num.Bit1 (num.Bit1 m)"
  "add1 (num.Bit0 (num.Bit0 m)) (num.Bit1 num.One) = num.Bit0 (num.Bit0 (inc m))"
  "add1 (num.Bit0 (num.Bit0 m)) (num.Bit0 (num.Bit0 n)) = num.Bit1 (num.Bit0 (add0 m n))"
  "add1 (num.Bit0 (num.Bit0 m)) (num.Bit1 (num.Bit0 n)) = num.Bit0 (num.Bit1 (add0 m n))"
  "add1 (num.Bit0 (num.Bit0 m)) (num.Bit0 (num.Bit1 n)) = num.Bit1 (num.Bit1 (add0 m n))"
  "add1 (num.Bit0 (num.Bit0 m)) (num.Bit1 (num.Bit1 n)) = num.Bit0 (num.Bit0 (add1 m n))"
  "add1 (num.Bit1 (num.Bit0 m)) num.One = num.Bit1 (num.Bit1 m)"
  "add1 (num.Bit1 (num.Bit0 m)) (num.Bit0 num.One) = num.Bit0 (num.Bit0 (inc m))"
  "add1 (num.Bit1 (num.Bit0 m)) (num.Bit1 num.One) = num.Bit1 (num.Bit0 (inc m))"
  "add1 (num.Bit1 (num.Bit0 m)) (num.Bit0 (num.Bit0 n)) = num.Bit0 (num.Bit1 (add0 m n))"
  "add1 (num.Bit1 (num.Bit0 m)) (num.Bit1 (num.Bit0 n)) = num.Bit1 (num.Bit1 (add0 m n))"
  "add1 (num.Bit1 (num.Bit0 m)) (num.Bit0 (num.Bit1 n)) = num.Bit0 (num.Bit0 (add1 m n))"
  "add1 (num.Bit1 (num.Bit0 m)) (num.Bit1 (num.Bit1 n)) = num.Bit1 (num.Bit0 (add1 m n))"
  "add1 (num.Bit0 (num.Bit1 m)) num.One = num.Bit0 (num.Bit0 (inc m))"
  "add1 (num.Bit0 (num.Bit1 m)) (num.Bit0 num.One) = num.Bit1 (num.Bit0 (inc m))"
  "add1 (num.Bit0 (num.Bit1 m)) (num.Bit1 num.One) = num.Bit0 (num.Bit1 (inc m))"
  "add1 (num.Bit0 (num.Bit1 m)) (num.Bit0 (num.Bit0 n)) = num.Bit1 (num.Bit1 (add0 m n))"
  "add1 (num.Bit0 (num.Bit1 m)) (num.Bit1 (num.Bit0 n)) = num.Bit0 (num.Bit0 (add1 m n))"
  "add1 (num.Bit0 (num.Bit1 m)) (num.Bit0 (num.Bit1 n)) = num.Bit1 (num.Bit0 (add1 m n))"
  "add1 (num.Bit0 (num.Bit1 m)) (num.Bit1 (num.Bit1 n)) = num.Bit0 (num.Bit1 (add1 m n))"
  "add1 (num.Bit1 (num.Bit1 m)) num.One = num.Bit1 (num.Bit0 (inc m))"
  "add1 (num.Bit1 (num.Bit1 m)) (num.Bit0 num.One) = num.Bit0 (num.Bit1 (inc m))"
  "add1 (num.Bit1 (num.Bit1 m)) (num.Bit1 num.One) = num.Bit1 (num.Bit1 (inc m))"
  "add1 (num.Bit1 (num.Bit1 m)) (num.Bit0 (num.Bit0 n)) = num.Bit0 (num.Bit0 (add1 m n))"
  "add1 (num.Bit1 (num.Bit1 m)) (num.Bit1 (num.Bit0 n)) = num.Bit1 (num.Bit0 (add1 m n))"
  "add1 (num.Bit1 (num.Bit1 m)) (num.Bit0 (num.Bit1 n)) = num.Bit0 (num.Bit1 (add1 m n))"
  "add1 (num.Bit1 (num.Bit1 m)) (num.Bit1 (num.Bit1 n)) = num.Bit1 (num.Bit1 (add1 m n))"
  "inc num.One = num.Bit0 num.One"
  "inc (num.Bit0 num.One) = num.Bit1 num.One"
  "inc (num.Bit1 num.One) = num.Bit0 (num.Bit0 num.One)"
  "inc (num.Bit0 (num.Bit0 m)) = num.Bit1 (num.Bit0 m)"
  "inc (num.Bit1 (num.Bit0 m)) = num.Bit0 (num.Bit1 m)"
  "inc (num.Bit0 (num.Bit1 m)) = num.Bit1 (num.Bit1 m)"
  "inc (num.Bit1 (num.Bit1 m)) = num.Bit0 (num.Bit0 (inc m))"
  by (simp_all only: add0_def add1_def inc_def Num.num_eq_iff nat_of_num_add nat_of_num.simps)

section \<open>Four digits at a time\<close>

text \<open>Composed from the rules for two digits; the last digits fall back to them.\<close>

definition wide0 :: "num \<Rightarrow> num \<Rightarrow> num" where
  "wide0 = add0"

definition wide1 :: "num \<Rightarrow> num \<Rightarrow> num" where
  "wide1 = add1"

lemma two_digits0:
  "wide0 (num.Bit0 (num.Bit0 m)) (num.Bit0 (num.Bit0 n)) = num.Bit0 (num.Bit0 (wide0 m n))"
  "wide0 (num.Bit0 (num.Bit0 m)) (num.Bit0 (num.Bit1 n)) = num.Bit0 (num.Bit1 (wide0 m n))"
  "wide0 (num.Bit0 (num.Bit0 m)) (num.Bit1 (num.Bit0 n)) = num.Bit1 (num.Bit0 (wide0 m n))"
  "wide0 (num.Bit0 (num.Bit0 m)) (num.Bit1 (num.Bit1 n)) = num.Bit1 (num.Bit1 (wide0 m n))"
  "wide0 (num.Bit0 (num.Bit1 m)) (num.Bit0 (num.Bit0 n)) = num.Bit0 (num.Bit1 (wide0 m n))"
  "wide0 (num.Bit0 (num.Bit1 m)) (num.Bit0 (num.Bit1 n)) = num.Bit0 (num.Bit0 (wide1 m n))"
  "wide0 (num.Bit0 (num.Bit1 m)) (num.Bit1 (num.Bit0 n)) = num.Bit1 (num.Bit1 (wide0 m n))"
  "wide0 (num.Bit0 (num.Bit1 m)) (num.Bit1 (num.Bit1 n)) = num.Bit1 (num.Bit0 (wide1 m n))"
  "wide0 (num.Bit1 (num.Bit0 m)) (num.Bit0 (num.Bit0 n)) = num.Bit1 (num.Bit0 (wide0 m n))"
  "wide0 (num.Bit1 (num.Bit0 m)) (num.Bit0 (num.Bit1 n)) = num.Bit1 (num.Bit1 (wide0 m n))"
  "wide0 (num.Bit1 (num.Bit0 m)) (num.Bit1 (num.Bit0 n)) = num.Bit0 (num.Bit1 (wide0 m n))"
  "wide0 (num.Bit1 (num.Bit0 m)) (num.Bit1 (num.Bit1 n)) = num.Bit0 (num.Bit0 (wide1 m n))"
  "wide0 (num.Bit1 (num.Bit1 m)) (num.Bit0 (num.Bit0 n)) = num.Bit1 (num.Bit1 (wide0 m n))"
  "wide0 (num.Bit1 (num.Bit1 m)) (num.Bit0 (num.Bit1 n)) = num.Bit1 (num.Bit0 (wide1 m n))"
  "wide0 (num.Bit1 (num.Bit1 m)) (num.Bit1 (num.Bit0 n)) = num.Bit0 (num.Bit0 (wide1 m n))"
  "wide0 (num.Bit1 (num.Bit1 m)) (num.Bit1 (num.Bit1 n)) = num.Bit0 (num.Bit1 (wide1 m n))"
  by (simp_all only: wide0_def wide1_def add_digits)

lemma two_digits1:
  "wide1 (num.Bit0 (num.Bit0 m)) (num.Bit0 (num.Bit0 n)) = num.Bit1 (num.Bit0 (wide0 m n))"
  "wide1 (num.Bit0 (num.Bit0 m)) (num.Bit0 (num.Bit1 n)) = num.Bit1 (num.Bit1 (wide0 m n))"
  "wide1 (num.Bit0 (num.Bit0 m)) (num.Bit1 (num.Bit0 n)) = num.Bit0 (num.Bit1 (wide0 m n))"
  "wide1 (num.Bit0 (num.Bit0 m)) (num.Bit1 (num.Bit1 n)) = num.Bit0 (num.Bit0 (wide1 m n))"
  "wide1 (num.Bit0 (num.Bit1 m)) (num.Bit0 (num.Bit0 n)) = num.Bit1 (num.Bit1 (wide0 m n))"
  "wide1 (num.Bit0 (num.Bit1 m)) (num.Bit0 (num.Bit1 n)) = num.Bit1 (num.Bit0 (wide1 m n))"
  "wide1 (num.Bit0 (num.Bit1 m)) (num.Bit1 (num.Bit0 n)) = num.Bit0 (num.Bit0 (wide1 m n))"
  "wide1 (num.Bit0 (num.Bit1 m)) (num.Bit1 (num.Bit1 n)) = num.Bit0 (num.Bit1 (wide1 m n))"
  "wide1 (num.Bit1 (num.Bit0 m)) (num.Bit0 (num.Bit0 n)) = num.Bit0 (num.Bit1 (wide0 m n))"
  "wide1 (num.Bit1 (num.Bit0 m)) (num.Bit0 (num.Bit1 n)) = num.Bit0 (num.Bit0 (wide1 m n))"
  "wide1 (num.Bit1 (num.Bit0 m)) (num.Bit1 (num.Bit0 n)) = num.Bit1 (num.Bit1 (wide0 m n))"
  "wide1 (num.Bit1 (num.Bit0 m)) (num.Bit1 (num.Bit1 n)) = num.Bit1 (num.Bit0 (wide1 m n))"
  "wide1 (num.Bit1 (num.Bit1 m)) (num.Bit0 (num.Bit0 n)) = num.Bit0 (num.Bit0 (wide1 m n))"
  "wide1 (num.Bit1 (num.Bit1 m)) (num.Bit0 (num.Bit1 n)) = num.Bit0 (num.Bit1 (wide1 m n))"
  "wide1 (num.Bit1 (num.Bit1 m)) (num.Bit1 (num.Bit0 n)) = num.Bit1 (num.Bit0 (wide1 m n))"
  "wide1 (num.Bit1 (num.Bit1 m)) (num.Bit1 (num.Bit1 n)) = num.Bit1 (num.Bit1 (wide1 m n))"
  by (simp_all only: wide0_def wide1_def add_digits)

lemma carry0:
  "wide0 m n = r \<Longrightarrow> wide0 (num.Bit0 (num.Bit0 m)) (num.Bit0 (num.Bit0 n)) = num.Bit0 (num.Bit0 r)"
  "wide0 m n = r \<Longrightarrow> wide0 (num.Bit0 (num.Bit0 m)) (num.Bit0 (num.Bit1 n)) = num.Bit0 (num.Bit1 r)"
  "wide0 m n = r \<Longrightarrow> wide0 (num.Bit0 (num.Bit0 m)) (num.Bit1 (num.Bit0 n)) = num.Bit1 (num.Bit0 r)"
  "wide0 m n = r \<Longrightarrow> wide0 (num.Bit0 (num.Bit0 m)) (num.Bit1 (num.Bit1 n)) = num.Bit1 (num.Bit1 r)"
  "wide0 m n = r \<Longrightarrow> wide0 (num.Bit0 (num.Bit1 m)) (num.Bit0 (num.Bit0 n)) = num.Bit0 (num.Bit1 r)"
  "wide1 m n = r \<Longrightarrow> wide0 (num.Bit0 (num.Bit1 m)) (num.Bit0 (num.Bit1 n)) = num.Bit0 (num.Bit0 r)"
  "wide0 m n = r \<Longrightarrow> wide0 (num.Bit0 (num.Bit1 m)) (num.Bit1 (num.Bit0 n)) = num.Bit1 (num.Bit1 r)"
  "wide1 m n = r \<Longrightarrow> wide0 (num.Bit0 (num.Bit1 m)) (num.Bit1 (num.Bit1 n)) = num.Bit1 (num.Bit0 r)"
  "wide0 m n = r \<Longrightarrow> wide0 (num.Bit1 (num.Bit0 m)) (num.Bit0 (num.Bit0 n)) = num.Bit1 (num.Bit0 r)"
  "wide0 m n = r \<Longrightarrow> wide0 (num.Bit1 (num.Bit0 m)) (num.Bit0 (num.Bit1 n)) = num.Bit1 (num.Bit1 r)"
  "wide0 m n = r \<Longrightarrow> wide0 (num.Bit1 (num.Bit0 m)) (num.Bit1 (num.Bit0 n)) = num.Bit0 (num.Bit1 r)"
  "wide1 m n = r \<Longrightarrow> wide0 (num.Bit1 (num.Bit0 m)) (num.Bit1 (num.Bit1 n)) = num.Bit0 (num.Bit0 r)"
  "wide0 m n = r \<Longrightarrow> wide0 (num.Bit1 (num.Bit1 m)) (num.Bit0 (num.Bit0 n)) = num.Bit1 (num.Bit1 r)"
  "wide1 m n = r \<Longrightarrow> wide0 (num.Bit1 (num.Bit1 m)) (num.Bit0 (num.Bit1 n)) = num.Bit1 (num.Bit0 r)"
  "wide1 m n = r \<Longrightarrow> wide0 (num.Bit1 (num.Bit1 m)) (num.Bit1 (num.Bit0 n)) = num.Bit0 (num.Bit0 r)"
  "wide1 m n = r \<Longrightarrow> wide0 (num.Bit1 (num.Bit1 m)) (num.Bit1 (num.Bit1 n)) = num.Bit0 (num.Bit1 r)"
  by (simp_all only: wide0_def wide1_def add_digits)

lemma carry1:
  "wide0 m n = r \<Longrightarrow> wide1 (num.Bit0 (num.Bit0 m)) (num.Bit0 (num.Bit0 n)) = num.Bit1 (num.Bit0 r)"
  "wide0 m n = r \<Longrightarrow> wide1 (num.Bit0 (num.Bit0 m)) (num.Bit0 (num.Bit1 n)) = num.Bit1 (num.Bit1 r)"
  "wide0 m n = r \<Longrightarrow> wide1 (num.Bit0 (num.Bit0 m)) (num.Bit1 (num.Bit0 n)) = num.Bit0 (num.Bit1 r)"
  "wide1 m n = r \<Longrightarrow> wide1 (num.Bit0 (num.Bit0 m)) (num.Bit1 (num.Bit1 n)) = num.Bit0 (num.Bit0 r)"
  "wide0 m n = r \<Longrightarrow> wide1 (num.Bit0 (num.Bit1 m)) (num.Bit0 (num.Bit0 n)) = num.Bit1 (num.Bit1 r)"
  "wide1 m n = r \<Longrightarrow> wide1 (num.Bit0 (num.Bit1 m)) (num.Bit0 (num.Bit1 n)) = num.Bit1 (num.Bit0 r)"
  "wide1 m n = r \<Longrightarrow> wide1 (num.Bit0 (num.Bit1 m)) (num.Bit1 (num.Bit0 n)) = num.Bit0 (num.Bit0 r)"
  "wide1 m n = r \<Longrightarrow> wide1 (num.Bit0 (num.Bit1 m)) (num.Bit1 (num.Bit1 n)) = num.Bit0 (num.Bit1 r)"
  "wide0 m n = r \<Longrightarrow> wide1 (num.Bit1 (num.Bit0 m)) (num.Bit0 (num.Bit0 n)) = num.Bit0 (num.Bit1 r)"
  "wide1 m n = r \<Longrightarrow> wide1 (num.Bit1 (num.Bit0 m)) (num.Bit0 (num.Bit1 n)) = num.Bit0 (num.Bit0 r)"
  "wide0 m n = r \<Longrightarrow> wide1 (num.Bit1 (num.Bit0 m)) (num.Bit1 (num.Bit0 n)) = num.Bit1 (num.Bit1 r)"
  "wide1 m n = r \<Longrightarrow> wide1 (num.Bit1 (num.Bit0 m)) (num.Bit1 (num.Bit1 n)) = num.Bit1 (num.Bit0 r)"
  "wide1 m n = r \<Longrightarrow> wide1 (num.Bit1 (num.Bit1 m)) (num.Bit0 (num.Bit0 n)) = num.Bit0 (num.Bit0 r)"
  "wide1 m n = r \<Longrightarrow> wide1 (num.Bit1 (num.Bit1 m)) (num.Bit0 (num.Bit1 n)) = num.Bit0 (num.Bit1 r)"
  "wide1 m n = r \<Longrightarrow> wide1 (num.Bit1 (num.Bit1 m)) (num.Bit1 (num.Bit0 n)) = num.Bit1 (num.Bit0 r)"
  "wide1 m n = r \<Longrightarrow> wide1 (num.Bit1 (num.Bit1 m)) (num.Bit1 (num.Bit1 n)) = num.Bit1 (num.Bit1 r)"
  by (simp_all only: wide0_def wide1_def add_digits)

lemmas four_digits =
  two_digits0 [THEN carry0(1)]
  two_digits0 [THEN carry0(2)]
  two_digits0 [THEN carry0(3)]
  two_digits0 [THEN carry0(4)]
  two_digits0 [THEN carry0(5)]
  two_digits1 [THEN carry0(6)]
  two_digits0 [THEN carry0(7)]
  two_digits1 [THEN carry0(8)]
  two_digits0 [THEN carry0(9)]
  two_digits0 [THEN carry0(10)]
  two_digits0 [THEN carry0(11)]
  two_digits1 [THEN carry0(12)]
  two_digits0 [THEN carry0(13)]
  two_digits1 [THEN carry0(14)]
  two_digits1 [THEN carry0(15)]
  two_digits1 [THEN carry0(16)]
  two_digits0 [THEN carry1(1)]
  two_digits0 [THEN carry1(2)]
  two_digits0 [THEN carry1(3)]
  two_digits1 [THEN carry1(4)]
  two_digits0 [THEN carry1(5)]
  two_digits1 [THEN carry1(6)]
  two_digits1 [THEN carry1(7)]
  two_digits1 [THEN carry1(8)]
  two_digits0 [THEN carry1(9)]
  two_digits1 [THEN carry1(10)]
  two_digits0 [THEN carry1(11)]
  two_digits1 [THEN carry1(12)]
  two_digits1 [THEN carry1(13)]
  two_digits1 [THEN carry1(14)]
  two_digits1 [THEN carry1(15)]
  two_digits1 [THEN carry1(16)]

lemma last_digits:
  "wide0 num.One n = add0 num.One n"
  "wide0 m num.One = add0 m num.One"
  "wide0 (num.Bit0 num.One) n = add0 (num.Bit0 num.One) n"
  "wide0 m (num.Bit0 num.One) = add0 m (num.Bit0 num.One)"
  "wide0 (num.Bit1 num.One) n = add0 (num.Bit1 num.One) n"
  "wide0 m (num.Bit1 num.One) = add0 m (num.Bit1 num.One)"
  "wide0 (num.Bit0 (num.Bit0 num.One)) n = add0 (num.Bit0 (num.Bit0 num.One)) n"
  "wide0 m (num.Bit0 (num.Bit0 num.One)) = add0 m (num.Bit0 (num.Bit0 num.One))"
  "wide0 (num.Bit0 (num.Bit1 num.One)) n = add0 (num.Bit0 (num.Bit1 num.One)) n"
  "wide0 m (num.Bit0 (num.Bit1 num.One)) = add0 m (num.Bit0 (num.Bit1 num.One))"
  "wide0 (num.Bit1 (num.Bit0 num.One)) n = add0 (num.Bit1 (num.Bit0 num.One)) n"
  "wide0 m (num.Bit1 (num.Bit0 num.One)) = add0 m (num.Bit1 (num.Bit0 num.One))"
  "wide0 (num.Bit1 (num.Bit1 num.One)) n = add0 (num.Bit1 (num.Bit1 num.One)) n"
  "wide0 m (num.Bit1 (num.Bit1 num.One)) = add0 m (num.Bit1 (num.Bit1 num.One))"
  "wide0 (num.Bit0 (num.Bit0 (num.Bit0 num.One))) n = add0 (num.Bit0 (num.Bit0 (num.Bit0 num.One))) n"
  "wide0 m (num.Bit0 (num.Bit0 (num.Bit0 num.One))) = add0 m (num.Bit0 (num.Bit0 (num.Bit0 num.One)))"
  "wide0 (num.Bit0 (num.Bit0 (num.Bit1 num.One))) n = add0 (num.Bit0 (num.Bit0 (num.Bit1 num.One))) n"
  "wide0 m (num.Bit0 (num.Bit0 (num.Bit1 num.One))) = add0 m (num.Bit0 (num.Bit0 (num.Bit1 num.One)))"
  "wide0 (num.Bit0 (num.Bit1 (num.Bit0 num.One))) n = add0 (num.Bit0 (num.Bit1 (num.Bit0 num.One))) n"
  "wide0 m (num.Bit0 (num.Bit1 (num.Bit0 num.One))) = add0 m (num.Bit0 (num.Bit1 (num.Bit0 num.One)))"
  "wide0 (num.Bit0 (num.Bit1 (num.Bit1 num.One))) n = add0 (num.Bit0 (num.Bit1 (num.Bit1 num.One))) n"
  "wide0 m (num.Bit0 (num.Bit1 (num.Bit1 num.One))) = add0 m (num.Bit0 (num.Bit1 (num.Bit1 num.One)))"
  "wide0 (num.Bit1 (num.Bit0 (num.Bit0 num.One))) n = add0 (num.Bit1 (num.Bit0 (num.Bit0 num.One))) n"
  "wide0 m (num.Bit1 (num.Bit0 (num.Bit0 num.One))) = add0 m (num.Bit1 (num.Bit0 (num.Bit0 num.One)))"
  "wide0 (num.Bit1 (num.Bit0 (num.Bit1 num.One))) n = add0 (num.Bit1 (num.Bit0 (num.Bit1 num.One))) n"
  "wide0 m (num.Bit1 (num.Bit0 (num.Bit1 num.One))) = add0 m (num.Bit1 (num.Bit0 (num.Bit1 num.One)))"
  "wide0 (num.Bit1 (num.Bit1 (num.Bit0 num.One))) n = add0 (num.Bit1 (num.Bit1 (num.Bit0 num.One))) n"
  "wide0 m (num.Bit1 (num.Bit1 (num.Bit0 num.One))) = add0 m (num.Bit1 (num.Bit1 (num.Bit0 num.One)))"
  "wide0 (num.Bit1 (num.Bit1 (num.Bit1 num.One))) n = add0 (num.Bit1 (num.Bit1 (num.Bit1 num.One))) n"
  "wide0 m (num.Bit1 (num.Bit1 (num.Bit1 num.One))) = add0 m (num.Bit1 (num.Bit1 (num.Bit1 num.One)))"
  "wide1 num.One n = add1 num.One n"
  "wide1 m num.One = add1 m num.One"
  "wide1 (num.Bit0 num.One) n = add1 (num.Bit0 num.One) n"
  "wide1 m (num.Bit0 num.One) = add1 m (num.Bit0 num.One)"
  "wide1 (num.Bit1 num.One) n = add1 (num.Bit1 num.One) n"
  "wide1 m (num.Bit1 num.One) = add1 m (num.Bit1 num.One)"
  "wide1 (num.Bit0 (num.Bit0 num.One)) n = add1 (num.Bit0 (num.Bit0 num.One)) n"
  "wide1 m (num.Bit0 (num.Bit0 num.One)) = add1 m (num.Bit0 (num.Bit0 num.One))"
  "wide1 (num.Bit0 (num.Bit1 num.One)) n = add1 (num.Bit0 (num.Bit1 num.One)) n"
  "wide1 m (num.Bit0 (num.Bit1 num.One)) = add1 m (num.Bit0 (num.Bit1 num.One))"
  "wide1 (num.Bit1 (num.Bit0 num.One)) n = add1 (num.Bit1 (num.Bit0 num.One)) n"
  "wide1 m (num.Bit1 (num.Bit0 num.One)) = add1 m (num.Bit1 (num.Bit0 num.One))"
  "wide1 (num.Bit1 (num.Bit1 num.One)) n = add1 (num.Bit1 (num.Bit1 num.One)) n"
  "wide1 m (num.Bit1 (num.Bit1 num.One)) = add1 m (num.Bit1 (num.Bit1 num.One))"
  "wide1 (num.Bit0 (num.Bit0 (num.Bit0 num.One))) n = add1 (num.Bit0 (num.Bit0 (num.Bit0 num.One))) n"
  "wide1 m (num.Bit0 (num.Bit0 (num.Bit0 num.One))) = add1 m (num.Bit0 (num.Bit0 (num.Bit0 num.One)))"
  "wide1 (num.Bit0 (num.Bit0 (num.Bit1 num.One))) n = add1 (num.Bit0 (num.Bit0 (num.Bit1 num.One))) n"
  "wide1 m (num.Bit0 (num.Bit0 (num.Bit1 num.One))) = add1 m (num.Bit0 (num.Bit0 (num.Bit1 num.One)))"
  "wide1 (num.Bit0 (num.Bit1 (num.Bit0 num.One))) n = add1 (num.Bit0 (num.Bit1 (num.Bit0 num.One))) n"
  "wide1 m (num.Bit0 (num.Bit1 (num.Bit0 num.One))) = add1 m (num.Bit0 (num.Bit1 (num.Bit0 num.One)))"
  "wide1 (num.Bit0 (num.Bit1 (num.Bit1 num.One))) n = add1 (num.Bit0 (num.Bit1 (num.Bit1 num.One))) n"
  "wide1 m (num.Bit0 (num.Bit1 (num.Bit1 num.One))) = add1 m (num.Bit0 (num.Bit1 (num.Bit1 num.One)))"
  "wide1 (num.Bit1 (num.Bit0 (num.Bit0 num.One))) n = add1 (num.Bit1 (num.Bit0 (num.Bit0 num.One))) n"
  "wide1 m (num.Bit1 (num.Bit0 (num.Bit0 num.One))) = add1 m (num.Bit1 (num.Bit0 (num.Bit0 num.One)))"
  "wide1 (num.Bit1 (num.Bit0 (num.Bit1 num.One))) n = add1 (num.Bit1 (num.Bit0 (num.Bit1 num.One))) n"
  "wide1 m (num.Bit1 (num.Bit0 (num.Bit1 num.One))) = add1 m (num.Bit1 (num.Bit0 (num.Bit1 num.One)))"
  "wide1 (num.Bit1 (num.Bit1 (num.Bit0 num.One))) n = add1 (num.Bit1 (num.Bit1 (num.Bit0 num.One))) n"
  "wide1 m (num.Bit1 (num.Bit1 (num.Bit0 num.One))) = add1 m (num.Bit1 (num.Bit1 (num.Bit0 num.One)))"
  "wide1 (num.Bit1 (num.Bit1 (num.Bit1 num.One))) n = add1 (num.Bit1 (num.Bit1 (num.Bit1 num.One))) n"
  "wide1 m (num.Bit1 (num.Bit1 (num.Bit1 num.One))) = add1 m (num.Bit1 (num.Bit1 (num.Bit1 num.One)))"
  by (simp_all only: wide0_def wide1_def)

section \<open>Multiplication by windows of four digits\<close>

text \<open>The odd multiples of the first factor are computed once.\<close>

fun window :: "num \<Rightarrow> num \<Rightarrow> num \<Rightarrow> num \<Rightarrow> num \<Rightarrow> num \<Rightarrow> num \<Rightarrow> num \<Rightarrow> num \<Rightarrow> num" where
  "window m1 m3 m5 m7 m9 m11 m13 m15 num.One = m1"
| "window m1 m3 m5 m7 m9 m11 m13 m15 (num.Bit0 n) = num.Bit0 (window m1 m3 m5 m7 m9 m11 m13 m15 n)"
| "window m1 m3 m5 m7 m9 m11 m13 m15 (num.Bit1 num.One) = m3"
| "window m1 m3 m5 m7 m9 m11 m13 m15 (num.Bit1 (num.Bit0 num.One)) = m5"
| "window m1 m3 m5 m7 m9 m11 m13 m15 (num.Bit1 (num.Bit1 num.One)) = m7"
| "window m1 m3 m5 m7 m9 m11 m13 m15 (num.Bit1 (num.Bit0 (num.Bit0 num.One))) = m9"
| "window m1 m3 m5 m7 m9 m11 m13 m15 (num.Bit1 (num.Bit1 (num.Bit0 num.One))) = m11"
| "window m1 m3 m5 m7 m9 m11 m13 m15 (num.Bit1 (num.Bit0 (num.Bit1 num.One))) = m13"
| "window m1 m3 m5 m7 m9 m11 m13 m15 (num.Bit1 (num.Bit1 (num.Bit1 num.One))) = m15"
| "window m1 m3 m5 m7 m9 m11 m13 m15 (num.Bit1 (num.Bit0 (num.Bit0 (num.Bit0 n)))) = wide0 (num.Bit0 (num.Bit0 (num.Bit0 (num.Bit0 (window m1 m3 m5 m7 m9 m11 m13 m15 n))))) m1"
| "window m1 m3 m5 m7 m9 m11 m13 m15 (num.Bit1 (num.Bit1 (num.Bit0 (num.Bit0 n)))) = wide0 (num.Bit0 (num.Bit0 (num.Bit0 (num.Bit0 (window m1 m3 m5 m7 m9 m11 m13 m15 n))))) m3"
| "window m1 m3 m5 m7 m9 m11 m13 m15 (num.Bit1 (num.Bit0 (num.Bit1 (num.Bit0 n)))) = wide0 (num.Bit0 (num.Bit0 (num.Bit0 (num.Bit0 (window m1 m3 m5 m7 m9 m11 m13 m15 n))))) m5"
| "window m1 m3 m5 m7 m9 m11 m13 m15 (num.Bit1 (num.Bit1 (num.Bit1 (num.Bit0 n)))) = wide0 (num.Bit0 (num.Bit0 (num.Bit0 (num.Bit0 (window m1 m3 m5 m7 m9 m11 m13 m15 n))))) m7"
| "window m1 m3 m5 m7 m9 m11 m13 m15 (num.Bit1 (num.Bit0 (num.Bit0 (num.Bit1 n)))) = wide0 (num.Bit0 (num.Bit0 (num.Bit0 (num.Bit0 (window m1 m3 m5 m7 m9 m11 m13 m15 n))))) m9"
| "window m1 m3 m5 m7 m9 m11 m13 m15 (num.Bit1 (num.Bit1 (num.Bit0 (num.Bit1 n)))) = wide0 (num.Bit0 (num.Bit0 (num.Bit0 (num.Bit0 (window m1 m3 m5 m7 m9 m11 m13 m15 n))))) m11"
| "window m1 m3 m5 m7 m9 m11 m13 m15 (num.Bit1 (num.Bit0 (num.Bit1 (num.Bit1 n)))) = wide0 (num.Bit0 (num.Bit0 (num.Bit0 (num.Bit0 (window m1 m3 m5 m7 m9 m11 m13 m15 n))))) m13"
| "window m1 m3 m5 m7 m9 m11 m13 m15 (num.Bit1 (num.Bit1 (num.Bit1 (num.Bit1 n)))) = wide0 (num.Bit0 (num.Bit0 (num.Bit0 (num.Bit0 (window m1 m3 m5 m7 m9 m11 m13 m15 n))))) m15"

lemma nat_of_wide: "nat_of_num (wide0 m n) = nat_of_num m + nat_of_num n"
  by (simp add: wide0_def add0_def nat_of_num_add)

lemma window:
  assumes "nat_of_num m3 = 3 * nat_of_num m1" "nat_of_num m5 = 5 * nat_of_num m1" "nat_of_num m7 = 7 * nat_of_num m1"
    "nat_of_num m9 = 9 * nat_of_num m1" "nat_of_num m11 = 11 * nat_of_num m1" "nat_of_num m13 = 13 * nat_of_num m1"
    "nat_of_num m15 = 15 * nat_of_num m1"
  shows "nat_of_num (window m1 m3 m5 m7 m9 m11 m13 m15 n) = nat_of_num m1 * nat_of_num n"
  using assms by (induction m1 m3 m5 m7 m9 m11 m13 m15 n rule: window.induct) (simp_all add: nat_of_wide algebra_simps)

definition odd_multiples :: "num \<Rightarrow> num \<Rightarrow> num \<Rightarrow> num \<Rightarrow> num \<Rightarrow> num \<Rightarrow> num" where
  "odd_multiples m m3 m5 m7 m9 n = window m m3 m5 m7 m9 (wide0 m3 (num.Bit0 (num.Bit0 (num.Bit0 m))))
    (wide0 m5 (num.Bit0 (num.Bit0 (num.Bit0 m)))) (wide0 m7 (num.Bit0 (num.Bit0 (num.Bit0 m)))) n"

definition multiples :: "num \<Rightarrow> num \<Rightarrow> num \<Rightarrow> num" where
  "multiples m m3 n = odd_multiples m m3 (wide0 m (num.Bit0 (num.Bit0 m))) (wide0 m3 (num.Bit0 (num.Bit0 m)))
    (wide0 m (num.Bit0 (num.Bit0 (num.Bit0 m)))) n"

lemma multiples: "multiples m (wide0 m (num.Bit0 m)) n = m * n"
  unfolding Num.num_eq_iff nat_of_num_mult multiples_def odd_multiples_def
  by (subst window) (simp_all add: nat_of_wide)

lemma mult_windows:
  "m * num.One = m" "m * num.Bit0 n = num.Bit0 (m * n)" "m * num.Bit1 n = multiples m (wide0 m (num.Bit0 m)) (num.Bit1 n)"
  by (simp_all only: multiples) (simp_all add: Num.num_eq_iff nat_of_num_mult distrib_left)

text \<open>A multiplication by few digits only shifts and adds.\<close>

definition sparse :: "nat \<Rightarrow> nat \<Rightarrow> nat" where
  "sparse m n = m * n"

definition shifts :: "num \<Rightarrow> num \<Rightarrow> num" where
  "shifts m n = m * n"

lemma shifts_digits:
  "shifts m num.One = m" "shifts m (num.Bit0 num.One) = num.Bit0 m"
  "shifts m (num.Bit0 (num.Bit0 num.One)) = num.Bit0 (num.Bit0 m)"
  "shifts m (num.Bit0 (num.Bit1 n)) = num.Bit0 (shifts m (num.Bit1 n))"
  "shifts m (num.Bit0 (num.Bit0 (num.Bit1 n))) = num.Bit0 (num.Bit0 (shifts m (num.Bit1 n)))"
  "shifts m (num.Bit0 (num.Bit0 (num.Bit0 n))) = num.Bit0 (num.Bit0 (num.Bit0 (shifts m n)))"
  "shifts m (num.Bit1 n) = wide0 (num.Bit0 (shifts m n)) m"
  by (simp_all add: shifts_def Num.num_eq_iff nat_of_num_mult nat_of_wide distrib_left)

lemma numeral_digits:
  "numeral m + numeral n = (numeral (wide0 m n) :: nat)" "numeral m + 1 = (numeral (inc m) :: nat)"
  "1 + numeral m = (numeral (inc m) :: nat)"
  "sparse 0 k = 0" "sparse 1 k = k" "sparse k 0 = 0"
  by (simp_all only: wide0_def add0_def inc_def sparse_def numeral_plus_numeral numeral_plus_one
      add.commute [of 1 "numeral m"] mult_zero_left mult_zero_right mult_1)

lemma sparse_digits: "sparse (numeral m) (numeral n) = numeral (shifts m n)"
  by (simp only: sparse_def shifts_def numeral_times_numeral)

lemmas digits_eval_core = add_digits four_digits last_digits window.simps multiples_def odd_multiples_def mult_windows
  numeral_digits numeral_times_numeral one_add_one mult_1 mult_1_right mult_zero_right mult_zero_left
  add_0_left add_0_right simp_thms numeral_One

lemmas digits_eval = digits_eval_core shifts_digits sparse_digits

end
