(* ===== verification/Primality.thy ===== *)
theory Primality
  imports Digits
begin

text \<open>
  A primality criterion after Pocklington and a checker for its power certificates. The certificates are
  evaluated by rewriting on binary numerals: a chain of squarings, each with its quotient and remainder.
\<close>

section \<open>Primes\<close>

definition pprime :: "nat \<Rightarrow> bool" where
  "pprime n \<longleftrightarrow> 1 < n \<and> (\<forall>d. d dvd n \<longrightarrow> d = 1 \<or> d = n)"

lemma pprime_coprime: "pprime q \<Longrightarrow> \<not> q dvd t \<Longrightarrow> coprime t q"
proof -
  assume q: "pprime q" "\<not> q dvd t"
  have "gcd t q = 1 \<or> gcd t q = q" using q(1) gcd_dvd2 [of t q] by (simp only: pprime_def)
  moreover have "gcd t q \<noteq> q" using q(2) gcd_dvd1 [of t q] by metis
  ultimately show ?thesis by (simp add: coprime_iff_gcd_eq_1)
qed

lemma least_factor:
  assumes "1 < n" "\<not> pprime n"
  shows "\<exists>d. pprime d \<and> d dvd n \<and> d * d \<le> n"
proof -
  define d where "d = (LEAST d. 1 < d \<and> d dvd n)"
  have d: "1 < d \<and> d dvd n" unfolding d_def by (rule LeastI [of _ n]) (use assms(1) in simp)
  have least: "d \<le> e" if "1 < e" "e dvd n" for e unfolding d_def using that by (intro Least_le) simp
  have "e = 1 \<or> e = d" if "e dvd d" for e
  proof (cases "e \<le> 1")
    case True
    then show ?thesis using that d by (cases e) auto
  next
    case False
    then have "d \<le> e" using least d dvd_trans [OF that] by simp
    then show ?thesis using dvd_imp_le [OF that] d by simp
  qed
  then have p: "pprime d" using d by (auto simp: pprime_def)
  from d obtain m where m: "n = d * m" by (auto elim: dvdE)
  have "1 < m"
  proof (rule ccontr)
    assume "\<not> 1 < m"
    then have "n = d" using m assms(1) by (cases m) auto
    then show False using p assms(2) by simp
  qed
  then have "d \<le> m" using least m by simp
  then show ?thesis using p d m by auto
qed

section \<open>Fermat\<close>

lemma mult_mod_inj:
  assumes "pprime d" "\<not> d dvd a" "i < d" "j < d" "(a * i) mod d = (a * j) mod d"
  shows "i = j"
proof -
  have *: "x = y" if "x \<le> y" "y < d" "(a * x) mod d = (a * y) mod d" for x y
  proof -
    have "d dvd a * y - a * x" using that by (simp add: mod_eq_dvd_iff_nat [symmetric] mult_le_mono2)
    then have "d dvd (y - x) * a" by (simp add: diff_mult_distrib2 mult.commute)
    then have "d dvd y - x"
      using pprime_coprime [OF assms(1,2)] by (simp add: coprime_dvd_mult_left_iff coprime_commute)
    then show "x = y" using that by (metis diff_is_0_eq' dvd_imp_le le_antisym less_imp_diff_less not_le zero_less_diff)
  qed
  show ?thesis using * [of i j] * [of j i] assms(3-5) by (cases "i \<le> j") auto
qed

lemma fermat:
  assumes "pprime d" "\<not> d dvd a"
  shows "a ^ (d - 1) mod d = 1"
proof -
  let ?A = "{1..<d}" and ?f = "\<lambda>i. (a * i) mod d"
  have d: "1 < d" using assms(1) by (simp add: pprime_def)
  have inj: "inj_on ?f ?A"
    by (rule inj_onI, rule mult_mod_inj [OF assms]) simp_all
  have "?f i \<in> ?A" if "i \<in> ?A" for i
  proof -
    have "?f i \<noteq> 0" using mult_mod_inj [OF assms, of i 0] that by auto
    then show ?thesis using d by simp
  qed
  then have img: "?f ` ?A = ?A" using inj by (intro endo_inj_surj) auto
  have "(\<Prod>i \<in> ?A. i) = (\<Prod>i \<in> ?A. ?f i)" using prod.reindex [OF inj, of "\<lambda>i. i"] unfolding img comp_def .
  then have "(\<Prod>i \<in> ?A. i) mod d = (\<Prod>i \<in> ?A. a * i) mod d" by (simp add: mod_prod_eq)
  also have "(\<Prod>i \<in> ?A. a * i) = a ^ (d - 1) * (\<Prod>i \<in> ?A. i)" by (simp add: prod.distrib)
  finally have eq: "(a ^ (d - 1) * (\<Prod>i \<in> ?A. i)) mod d = (1 * (\<Prod>i \<in> ?A. i)) mod d" by simp
  have cop: "coprime (\<Prod>i \<in> ?A. i) d"
    by (rule prod_coprime_left) (use pprime_coprime [OF assms(1)] nat_dvd_not_less in auto)
  have ge: "1 \<le> a ^ (d - 1)" using assms(2) by (cases a) auto
  have "d dvd a ^ (d - 1) * (\<Prod>i \<in> ?A. i) - 1 * (\<Prod>i \<in> ?A. i)"
    using eq ge by (subst mod_eq_dvd_iff_nat [symmetric]) auto
  then have "d dvd (a ^ (d - 1) - 1) * (\<Prod>i \<in> ?A. i)" by (simp only: diff_mult_distrib)
  then have "d dvd a ^ (d - 1) - 1" using cop by (simp add: coprime_dvd_mult_left_iff coprime_commute)
  then have "a ^ (d - 1) mod d = 1 mod d" by (simp only: mod_eq_dvd_iff_nat [OF ge])
  then show ?thesis using d by simp
qed

lemma pow_one_gcd:
  assumes "1 < (d :: nat)" "a ^ x mod d = 1" "a ^ y mod d = 1"
  shows "a ^ gcd x y mod d = 1"
  using assms(2,3)
proof (induction x y rule: gcd_nat_induct)
  case (step x y)
  have "a ^ x = (a ^ y) ^ (x div y) * a ^ (x mod y)" by (simp flip: power_mult power_add)
  then have "a ^ x mod d = ((a ^ y mod d) ^ (x div y) * a ^ (x mod y)) mod d" by (metis mod_mult_left_eq power_mod)
  then have "a ^ (x mod y) mod d = 1" using step.prems by simp
  then show ?case using step.IH step.prems(2) using step.hyps by (simp add: gcd_non_0_nat)
qed simp

section \<open>The criterion\<close>

definition pow_is :: "nat \<Rightarrow> nat \<Rightarrow> nat \<Rightarrow> nat \<Rightarrow> bool" where
  "pow_is N a e v \<longleftrightarrow> a ^ e mod N = v mod N"


lemma pock_factor:
  assumes "pprime q" "q * c = M" "M + 1 = N" "1 < N" "pow_is N a M 1"
    and h: "pow_is N a c h" "h' + 1 = h" "u * h' = v * N + 1"
    and d: "pprime d" "d dvd N"
  shows "q dvd d - 1"
proof (rule ccontr)
  assume nq: "\<not> q dvd d - 1"
  have d1: "1 < d" using d(1) by (simp add: pprime_def)
  have down: "x mod d = y mod d" if "x mod N = y mod N" for x y
    using that d(2) by (metis mod_mod_cancel)
  have one: "a ^ M mod d = 1" using down [of "a ^ M" 1] assms(5) d1 by (simp add: pow_is_def)
  have "\<not> d dvd a"
  proof
    assume "d dvd a"
    then have "a ^ M mod d = 0" using assms(3,4) by (cases M) (auto simp: dvd_mult2)
    then show False using one by simp
  qed
  from fermat [OF d(1) this] have "a ^ gcd M (d - 1) mod d = 1" by (rule pow_one_gcd [OF d1 one])
  moreover have "gcd M (d - 1) dvd c"
  proof -
    have "\<not> q dvd gcd M (d - 1)" using nq dvd_trans by blast
    from coprime_dvd_mult_right_iff [OF pprime_coprime [OF assms(1) this]] show ?thesis
      using gcd_dvd1 [of M "d - 1"] unfolding assms(2) [symmetric] by blast
  qed
  then obtain m where "c = gcd M (d - 1) * m" by (auto elim: dvdE)
  ultimately have "a ^ c mod d = 1" using d1 by (metis power_mult power_mod power_one mod_less)
  then have "h mod d = 1 mod d" using down [of "a ^ c" h] h(1) d1 by (simp add: pow_is_def)
  moreover have "1 \<le> h" using h(2) by simp
  ultimately have "d dvd h - 1" by (simp only: mod_eq_dvd_iff_nat)
  then have "d dvd h'" using h(2) by (metis add_diff_cancel_right')
  then have "d dvd v * N + 1" unfolding h(3) [symmetric] by simp
  moreover have "d dvd v * N" using d(2) by simp
  ultimately have "d dvd 1" using dvd_add_right_iff by blast
  then show False using d1 by simp
qed

text \<open>
  It is enough that \<open>F\<close> exceeds the cube root: with \<open>N = F (s F + r) + 1\<close>, a factorisation
  \<open>N = (a F + 1) (b F + 1)\<close> forces \<open>s = a b\<close> and \<open>r = a + b\<close>, so \<open>r * r - 4 * s\<close> would be a square.
\<close>

lemma digits_bound:
  assumes "r < F" "s < (F :: nat)"
  shows "s * F + r < F * F"
proof -
  have "s * F + r < (s + 1) * F" using assms(1) by simp
  also have "\<dots> \<le> F * F" using assms(2) by (intro mult_le_mono) simp_all
  finally show ?thesis .
qed

lemma split_digits:
  fixes a b s r F :: nat
  assumes eq: "a * b * F + (a + b) = s * F + r" and "r < F" "s < F" "0 < a" "0 < b"
  shows "s = a * b \<and> r = a + b"
proof -
  have bound: "a * b * F + (a + b) < F * F" unfolding eq by (rule digits_bound [OF assms(2,3)])
  then have "a * b * F < F * F" by linarith
  then have ab: "a * b < F" by simp
  obtain a' b' where "a = Suc a'" "b = Suc b'" using assms(4,5) by (metis Suc_pred')
  then have le: "a + b \<le> a * b + 1" by simp
  have "a + b \<noteq> F"
  proof
    assume F: "a + b = F"
    then have "a * b + 1 = F" using ab le by linarith
    then have "a * b * F + (a + b) = F * F" using F by (metis add.commute add_mult_distrib mult_1)
    then show False using bound by simp
  qed
  then have lt: "a + b < F" using le ab by linarith
  have "(a * b * F + (a + b)) div F = a * b" "(a * b * F + (a + b)) mod F = a + b" using lt by simp_all
  moreover have "(s * F + r) div F = s" "(s * F + r) mod F = r" using assms(2) by simp_all
  ultimately show ?thesis using eq by metis
qed

lemma no_square_between: "t * t < y * y \<Longrightarrow> y * y < (t + 1) * (t + 1) \<Longrightarrow> False" for t y :: nat
  by (metis Suc_eq_plus1 less_Suc_eq_le mult_le_mono not_less)

lemma square_split: "\<exists>y. (a + b) * (a + b) = y * y + 4 * (a * b)" for a b :: nat
proof -
  have "(a + b) * (a + b) = (b - a) * (b - a) + 4 * (a * b)" if "a \<le> b" for a b :: nat
    using that by (auto simp: algebra_simps elim!: less_eqE)
  from this [of a b] this [of b a] show ?thesis by (metis add.commute mult.commute nat_le_linear)
qed

lemma cofactor:
  assumes "N = d * e" "F dvd d - 1" "F dvd N - 1" "0 < d" "0 < e"
  shows "F dvd e - (1 :: nat)"
proof -
  obtain d' e' where d: "d = Suc d'" "e = Suc e'" using assms(4,5) by (metis Suc_pred')
  have "N - 1 = d' * e + e'" unfolding assms(1) d by simp
  then show ?thesis using assms(2,3) unfolding d by (simp add: dvd_add_right_iff)
qed

lemma pocklington_third:
  assumes f: "\<And>d. pprime d \<Longrightarrow> d dvd N \<Longrightarrow> F dvd d - 1" and N: "F * (s * F + r) + 1 = N" and "1 < N" "r < F" "s < F"
    and sq: "s = 0 \<or> r * r < 4 * s \<or> t * t + 4 * s < r * r \<and> r * r < (t + 1) * (t + 1) + 4 * s"
  shows "pprime N"
proof (rule ccontr)
  assume "\<not> pprime N"
  from least_factor [OF assms(3) this] obtain d where d: "pprime d" "d dvd N" "d * d \<le> N" by blast
  then obtain e where e: "N = d * e" by (elim dvdE)
  have d1: "1 < d" using d(1) by (simp add: pprime_def)
  have e1: "1 < e" using d(3) d1 unfolding e by simp
  have F: "0 < F" using assms(4) by simp
  have fd: "F dvd d - 1" by (rule f [OF d(1,2)])
  have "F dvd N - 1" using N by (metis add_diff_cancel_right' dvd_triv_left)
  from cofactor [OF e fd this] have fe: "F dvd e - 1" using d1 e1 by simp
  from fd fe obtain a b where a: "d = F * a + 1" and b: "e = F * b + 1"
    using d1 e1 by (metis dvdE le_add_diff_inverse2 less_imp_le)
  have pos: "0 < a" "0 < b" using a d1 b e1 by (auto intro: Nat.gr0I)
  have "F * (a * b * F + (a + b)) + 1 = d * e" unfolding a b by (simp add: algebra_simps)
  also have "\<dots> = F * (s * F + r) + 1" using N e by simp
  finally have "a * b * F + (a + b) = s * F + r" using F by simp
  from split_digits [OF this assms(4,5) pos] have sr: "s = a * b" "r = a + b" by simp_all
  then obtain y where "r * r = y * y + 4 * s" using square_split by metis
  moreover have "0 < s" using sr pos by simp
  ultimately have "t * t < y * y" "y * y < (t + 1) * (t + 1)" using sq by auto
  then show False by (rule no_square_between)
qed

section \<open>Small primes\<close>

fun trial :: "nat \<Rightarrow> nat list \<Rightarrow> bool" where
  "trial n [] = True"
| "trial n (k # ks) = (n mod k \<noteq> 0 \<and> trial n ks)"

lemma small_prime:
  assumes "1 < n" "n < b * b" "trial n [2..<b]"
  shows "pprime n"
proof (rule ccontr)
  assume "\<not> pprime n"
  from least_factor [OF assms(1) this] obtain d where d: "pprime d" "d dvd n" "d * d \<le> n" by blast
  have t: "n mod k \<noteq> 0" if "k \<in> set ks" "trial n ks" for k ks using that by (induction ks) auto
  have "d < b"
  proof (rule ccontr)
    assume "\<not> d < b"
    then have "b * b \<le> d * d" by (intro mult_le_mono) simp_all
    then show False using d(3) assms(2) by simp
  qed
  moreover have "1 < d" using d(1) by (simp add: pprime_def)
  ultimately show False using t [OF _ assms(3), of d] d(2) by simp
qed

section \<open>Power certificates\<close>

text \<open>
  A step squares, multiplies by the base when the bit is set, and names quotient and remainder. The modulus
  is \<open>B - A\<close>, so that a sparse modulus multiplies cheaply.
\<close>

definition square :: "nat \<Rightarrow> nat" where
  "square v = v * v"

fun chain :: "nat \<Rightarrow> nat \<Rightarrow> nat \<Rightarrow> nat \<Rightarrow> nat \<Rightarrow> (bool \<times> nat \<times> nat) list \<Rightarrow> nat \<Rightarrow> nat \<Rightarrow> bool" where
  "chain B A a e v [] e' w = (e = e' \<and> v = w)"
| "chain B A a e v ((b, k, r) # ss) e' w =
    ((if b then v * a else square v) + sparse k A = sparse k B + r \<and> chain B A a (if b then e + 1 else e + e) r ss e' w)"

lemma chain_next:
  "pow_is N a e v \<Longrightarrow> N + A = B \<Longrightarrow> chain B A a e v ss e' w \<Longrightarrow> pow_is N a e' w"
proof (induction ss arbitrary: e v)
  case (Cons s ss)
  obtain b k r where s: "s = (b, k, r)" by (rule prod_cases3)
  let ?e = "if b then e + 1 else e + e" and ?v = "if b then v * a else square v"
  have "?v + k * A = k * (N + A) + r" using Cons.prems(2,3) unfolding s chain.simps sparse_def by simp
  then have v: "?v = k * N + r" by (simp only: distrib_left add.left_commute add.commute add.assoc add_left_cancel add_right_cancel)
  have p: "a ^ e mod N = v mod N" using Cons.prems(1) by (simp only: pow_is_def)
  have "(a ^ e * a ^ e) mod N = (v * v) mod N" "(a ^ e * a) mod N = (v * a) mod N"
    using mod_mult_cong [OF p p] mod_mult_cong [OF p refl] .
  then have "a ^ ?e mod N = ?v mod N" by (simp add: power_add square_def mult.commute)
  also have "\<dots> = r mod N" unfolding v by simp
  finally have "pow_is N a ?e r" by (simp only: pow_is_def)
  then show ?case using Cons.IH Cons.prems(2,3) unfolding s chain.simps by blast
qed simp

text \<open>A power of a power.\<close>

lemma pow_is_mult: "pow_is N a c h \<Longrightarrow> pow_is N h q w \<Longrightarrow> q * c = M \<Longrightarrow> pow_is N a M w"
  unfolding pow_is_def by (metis mult.commute power_mod power_mult)

lemma pow_start: "pow_is N a 1 a"
  by (simp add: pow_is_def)

lemma square_one: "square 1 = 1"
  by (simp add: square_def)

lemma square_numeral: "square (numeral k) = numeral (k * k)"
  by (simp add: square_def)

lemma chain_step:
  "chain B A a e v ((True, k, r) # ss) e' w = (v * a + sparse k A = sparse k B + r \<and> chain B A a (e + 1) r ss e' w)"
  "chain B A a e v ((False, k, r) # ss) e' w = (square v + sparse k A = sparse k B + r \<and> chain B A a (e + e) r ss e' w)"
  by simp_all

lemmas chain_eval = chain.simps(1) chain_step square_numeral square_one digits_eval

text \<open>The same for a modulus that is not sparse.\<close>

lemma sparse_dense: "sparse (numeral m) (numeral n) = numeral (m * n)"
  by (simp add: sparse_def)

lemmas chain_eval_dense = chain.simps(1) chain_step square_numeral square_one sparse_dense digits_eval_core

end
