(* ===== verification/PrimeCert.thy ===== *)
theory PrimeCert
  imports Primality
begin

text \<open>
  Certificates: the primes below the two 256-bit ones of secp256r1, down to trial division.
\<close>

lemma prime_704251: "pprime 704251"
  by (rule small_prime [where b = 840]) (simp_all add: upt_rec)

text \<open>The prime 46076956964474543, with base 2.\<close>

lemma prime_56_part_0: "pow_is 46076956964474543 2 31197 40792398397752486"
  by (rule chain_next [OF pow_start, where B = 46076956964474543 and A = 0 and ss = "[(False, 0, 4),
    (True, 0, 8),
    (False, 0, 64),
    (True, 0, 128),
    (False, 0, 16384),
    (True, 0, 32768),
    (False, 0, 1073741824),
    (False, 25, 997580494983401),
    (False, 21597928976486, 4211768472930903),
    (True, 0, 8423536945861806),
    (False, 1539944895514825, 4167044457981661),
    (True, 0, 8334088915963322),
    (False, 1507413740728022, 43267867743531738),
    (True, 1, 40458778522588933),
    (False, 35525626416735107, 32143329018197388),
    (False, 22423216905766699, 45312993847378987),
    (True, 1, 44549030730283431),
    (False, 43071771005578381, 12863654127476878),
    (True, 0, 25727308254953756),
    (False, 14364976197445808, 16901242260441792),
    (True, 0, 33802484520883584),
    (False, 24797817283496566, 9734072145765718),
    (False, 2056389283954367, 20396199198876243),
    (True, 0, 40792398397752486)]"]; simp only: chain_eval_dense)

lemma prime_56_part_1: "pow_is 46076956964474543 2 1022295250 4095184227292878"
  by (rule chain_next [OF prime_56_part_0, where B = 46076956964474543 and A = 0 and ss = "[(False, 36113924978247224, 308475810761564),
    (True, 0, 616951621523128),
    (False, 8260730056316, 3276446900540796),
    (True, 0, 6552893801081592),
    (False, 931928234786874, 33992618037705882),
    (True, 1, 21908279110937221),
    (False, 10416761983062128, 20336397359795337),
    (True, 0, 40672794719590674),
    (False, 35902462733756797, 25872500648055505),
    (True, 1, 5668044331636467),
    (False, 697240630933290, 2758185708005619),
    (False, 165106137666858, 32358000579777267),
    (False, 22723727227215476, 24417319952361821),
    (True, 1, 2757682940249099),
    (False, 165045951380952, 32651148271206865),
    (True, 1, 19225339577939187),
    (False, 8021659984448366, 24876368965274231),
    (False, 13430438415748274, 32807952463452579),
    (True, 1, 19538947962430615),
    (False, 8285496973528819, 16730443886923508),
    (False, 6074788160800328, 5290122180975960),
    (False, 607361998997257, 6358400194593049),
    (True, 0, 12716800389186098),
    (False, 3509715545301482, 4095184227292878)]"]; simp only: chain_eval_dense)

lemma prime_56_part_2: "pow_is 46076956964474543 2 65426896042 14924512230972257"
  by (rule chain_next [OF prime_56_part_1, where B = 46076956964474543 and A = 0 and ss = "[(False, 363967912820251, 38641224965152591),
    (True, 1, 31205492965830639),
    (False, 21133834684249973, 42315869224210982),
    (False, 38861784852265934, 8846867240286162),
    (True, 0, 17693734480572324),
    (False, 6794464315652841, 36384313024634313),
    (False, 28730591633801718, 929844056317095),
    (True, 0, 1859688112634190),
    (False, 75057905385101, 14924512230972257)]"]; simp only: chain_eval_dense)

lemma prime_56_full_0: "pow_is 46076956964474543 14924512230972257 22007 43186381257681452"
  by (rule chain_next [OF pow_start, where B = 46076956964474543 and A = 0 and ss = "[(False, 4834109715712659, 39615520795334212),
    (False, 34060180864278014, 479722200063342),
    (True, 155383955755462, 28670286212499028),
    (False, 17839400986058274, 42163605713426002),
    (False, 38582618381850063, 16064613323257795),
    (True, 5203393058566210, 14209385879001285),
    (False, 4381944042312335, 45049687069263320),
    (False, 44045319802765640, 17306006722319880),
    (True, 5605485388188473, 1015511865026321),
    (False, 22381346684945, 41057491128939906),
    (True, 13298686998782070, 8555301586343832),
    (False, 1588498678194600, 7960512424376424),
    (True, 2578442086225722, 2613100648073922),
    (False, 148193271578871, 23677825880281131),
    (True, 7669343316780752, 25291484605186331),
    (False, 13882409683164539, 42088725683410884),
    (True, 13632708030879949, 5249274636206881),
    (False, 598018749970180, 37112982812620421),
    (False, 29892891891967115, 17407464015563796),
    (True, 5638347814739506, 11168935376211814),
    (False, 2707321091845855, 42701836965601331),
    (True, 13831297248415590, 10809619143948697),
    (False, 2535928449600353, 45679646375684130),
    (True, 14795821728548906, 43186381257681452)]"]; simp only: chain_eval_dense)

lemma prime_56_full_1: "pow_is 46076956964474543 14924512230972257 704251 1"
  by (rule chain_next [OF prime_56_full_0, where B = 46076956964474543 and A = 0 and ss = "[(False, 40477141916550365, 10157284970109),
    (True, 3289985575365, 27323129502832818),
    (False, 16202315756315414, 18522094576315322),
    (True, 5999381149683423, 39507750673421065),
    (False, 33875118195774770, 10862454959054115),
    (False, 2560779519976811, 36460505338610852),
    (True, 11809704757479364, 8552902305302312),
    (False, 1587607834007920, 29368821212164784),
    (True, 9512679661726209, 1)]"]; simp only: chain_eval_dense)

lemma prime_56_factor: "pprime d \<Longrightarrow> d dvd 46076956964474543 \<Longrightarrow> 704251 dvd d - 1"
  by (rule pock_factor [OF prime_704251 _ _ _ pow_is_mult [OF prime_56_part_2 prime_56_full_1] prime_56_part_2, where h' = 14924512230972256 and u = 14499061334772664 and v = 4696304454204081]; (simp only: chain_eval | simp)?)

lemma prime_56: "pprime 46076956964474543"
  by (rule pocklington_third [where F = 704251 and s = 92902 and r = 569640 and t = 569639], erule prime_56_factor, assumption, simp_all)

text \<open>The prime 774023187263532362759620327192479577272145303, with base 2.\<close>

lemma prime_150_part_0: "pow_is 774023187263532362759620327192479577272145303 2 111162 51726397302534718808018895241061087469910715"
  by (rule chain_next [OF pow_start, where B = 774023187263532362759620327192479577272145303 and A = 0 and ss = "[(False, 0, 4),
    (True, 0, 8),
    (False, 0, 64),
    (False, 0, 4096),
    (True, 0, 8192),
    (False, 0, 67108864),
    (True, 0, 134217728),
    (False, 0, 18014398509481984),
    (False, 0, 324518553658426726783156020576256),
    (False, 136058316341757623753, 434818276751220609076941586549038704490795377),
    (True, 1, 95613366238908855394262845905597831709445451),
    (False, 11810906900419715098510847946896820751679087, 400768612284886720613760649881437818054215040),
    (False, 207507324374339395331423212792013036881134922, 484001531868916959803455810155250078230630234),
    (False, 302649179903315203916896056842067228522756404, 112749277468702447020299683119849916873124344),
    (False, 16423796830502767993686490187738617111926001, 325526338916940611333221261167748664629707033),
    (True, 0, 651052677833881222666442522335497329259414066),
    (False, 547618722913467808540736714790478752895633587, 587333969207430715410987148868758056727560495),
    (True, 1, 400644751151329068062353970545036536182975687),
    (False, 207379080196029444810071015976741728104775883, 16420818334875982505652712075421226606994420),
    (True, 0, 32841636669751965011305424150842453213988840),
    (False, 1393463551087099664499272429622397120196491, 569508351404506165922817602941813755181813827),
    (False, 419031067358774399300978945422863614643990825, 125374988711337352089243443145791892489540954),
    (True, 0, 250749977422674704178486886291583784979081908),
    (False, 81232128716661532089778685553451871250663283, 51726397302534718808018895241061087469910715)]"]; simp only: chain_eval_dense)

lemma prime_150_part_1: "pow_is 774023187263532362759620327192479577272145303 2 29140730689 138297246956000103386495941819795604899862808"
  by (rule chain_next [OF prime_150_part_0, where B = 774023187263532362759620327192479577272145303 and A = 0 and ss = "[(True, 0, 103452794605069437616037790482122174939821430),
    (False, 13827080231841686434285802811477785834595250, 713519533413213498957669069300107678093634150),
    (False, 657745314274251474093277932155595692004059067, 31840289362946223073448525439660763027610199),
    (False, 1309785085767689852945488222039426637034738, 110766855399678847088025205373978081294283987),
    (False, 15851329077763176568679327886037977005776432, 582744772586064221674215759631507635167717273),
    (True, 1, 391466357908596080588811192070535693063289243),
    (False, 197986199762314451328635190504047621096056881, 487223394928707677470701707840471397294533106),
    (False, 306691893049235243323889535355943166568265844, 9418851166583297077365090018719748230076504),
    (False, 114615115875130422903375615430282419853555, 316244199460498112380527653051264327751759851),
    (False, 129208524160608494707683437670199819233745842, 496866230891550498521802919549831603579462075),
    (False, 318951751656402849059389200321088088327368782, 203442140371403931094624072715780991993174679),
    (True, 0, 406884280742807862189248145431561983986349358),
    (False, 213888705971317999895999608267880828171568283, 106649637493613437061010459022300206664787415),
    (True, 0, 213299274987226874122020918044600413329574830),
    (False, 58779351134071861772030445776612204381208592, 525698557708634447988073436961681624793485524),
    (False, 357042241271831921942733744388359122328468376, 11555667053002695404270856221989185085116648),
    (True, 0, 23111334106005390808541712443978370170233296),
    (False, 690074629479479662155678027756371695092297, 58831329561222490098220749096934529286992625),
    (False, 4471604203715874997650325736578287123240532, 77865764342143585602053436343071759881369429),
    (False, 7833198483396257990878927381238989161230002, 240156503310238767518122019643157483628805435),
    (False, 74513460360411678254333535358018998300036691, 361760379881010467105241628997756807902226852),
    (False, 169078361740467320885448859055163359223709406, 589542442673096904948285204948140917390009886),
    (False, 449030852604971883104339449010297630536427464, 69148623478000051693247970909897802449931404),
    (True, 0, 138297246956000103386495941819795604899862808)]"]; simp only: chain_eval_dense)

lemma prime_150_part_2: "pow_is 774023187263532362759620327192479577272145303 2 3819533852942700 596088241764009549888254272293320798722511450"
  by (rule chain_next [OF prime_150_part_1, where B = 774023187263532362759620327192479577272145303 and A = 0 and ss = "[(False, 24710020100595500482240564920304841059035665, 738005752974760907981671217563253330282413369),
    (True, 1, 701988318685989453203722107934027083292681435),
    (False, 636657412439767721250894045145919410271777382, 485236386683235273471823756400749050420722479),
    (False, 304195474807186718069812587144540960591042514, 198084196404639156572948400123100402277493699),
    (False, 50692730542079335808040992304626669925589417, 660847285964019423878505251027119620641644250),
    (True, 1, 547671384664506484997390174861759664011143197),
    (False, 387512868497847270869373788340503108931379755, 584114984410880723429330099383999802206840044),
    (False, 440801155091440510869435956162543815646108470, 89042989782460390362912153964621859462905526),
    (False, 10243432186353701041578117532357872487619043, 518632507193563281508051357630903934795531647),
    (False, 347508552642753994117337358032601020516031991, 440333577437715869290497501107876647830144336),
    (False, 250501099462646680951457954237011512120490381, 539693594311555867841429076328614538347050453),
    (True, 1, 305364001359579372923237825464749499421955603),
    (False, 120470775114628762543360698822172653732500444, 406125474690862201103948996785254722623079077),
    (False, 213091679819046041568015833393059734916287230, 118457715870759486488867177078736346351791239),
    (True, 0, 236915431741518972977734354157472692703582478),
    (False, 72515814410815669526092097183139173223955173, 641949470015819517637726296450205266934118065),
    (True, 1, 509875752768106672515832265707930956596090827),
    (False, 335872732934459370690266224147350310561937476, 428853190925548364739620967801255271360468701),
    (False, 237609237543948556813597199881338179163601102, 222493549462779143296827217819843263925703495),
    (True, 0, 444987098925558286593654435639686527851406990),
    (False, 255823754983669188476260453179898741901208756, 291949330459137002112069284950541857652987032),
    (True, 0, 583898660918274004224138569901083715305974064),
    (False, 440474719404076687513248534904302329330319196, 426267962045226324146417492118890051158539708),
    (False, 234753142355573205557116286749114969702654138, 596088241764009549888254272293320798722511450)]"]; simp only: chain_eval_dense)

lemma prime_150_part_3: "pow_is 774023187263532362759620327192479577272145303 2 1001267882345811219722 639569620663936429939460883215853295191358792"
  by (rule chain_next [OF prime_150_part_2, where B = 774023187263532362759620327192479577272145303 and A = 0 and ss = "[(False, 459057555143153323692825199596548397246782517, 422904611074787878732291010872251692517034849),
    (False, 231063245922405365081581128315182214493353974, 659019909406787858392996204503460244339968679),
    (True, 1, 544016631550043354026372081814440911407792055),
    (False, 382358177730264651655148226073627432342199982, 692475992280937415632211173043170942333138479),
    (False, 619520200138662348778880646749107436626090497, 240922878629263637219534368674295217178947850),
    (False, 74989786355390748538717535248558277084147738, 80085583880035813069314099080919064364847886),
    (False, 8286186836444957404431228093095351112993554, 142732356722348342604646639993927711928292134),
    (True, 0, 285464713444696685209293279987855423856584268),
    (False, 105281216329140518028143415171660360275266662, 356013286177246056238505592110143753049307238),
    (False, 163748918663296527860691971413983485514089488, 120810040170513290805250547196585061238313780),
    (True, 0, 241620080341026581610501094393170122476627560),
    (False, 75424437128816090430168725313530629865335753, 358658586606785562066138409089799342254635441),
    (False, 166191380133655211394845739672400190403723855, 58979393036396187317038609778310395965961416),
    (True, 0, 117958786072792374634077219556620791931922832),
    (False, 17976561220289891181785303854683674741824953, 287561249415689905129037706872828109195754465),
    (False, 106833326864352164108954179720040363928107665, 38857842693000593504608943283730344859388730),
    (False, 1950758018105589060580459953365328150592882, 298261168387342642949359739397986785749479654),
    (False, 114931601574223338914003294432227982786231152, 401002084624241947465362178496844166670880660),
    (False, 207749166328578049992479076008643624565148856, 43077439582287814326261877885325389305812232),
    (True, 0, 86154879164575628652523755770650778611624464),
    (False, 9589716853450576322739786230681852538790077, 675316971730409085585745652656422695204728965),
    (False, 589198127151011781626561430818465111432713750, 482739157180997007805833280633766901503954975),
    (True, 1, 191455127098461652852046234075054225735764647),
    (False, 47356547317242219393462360993932748874703039, 639569620663936429939460883215853295191358792)]"]; simp only: chain_eval_dense)

lemma prime_150_part_4: "pow_is 774023187263532362759620327192479577272145303 2 262476367749660336383017060 223384120822450107231170384709688258307046416"
  by (rule chain_next [OF prime_150_part_3, where B = 774023187263532362759620327192479577272145303 and A = 0 and ss = "[(False, 528471635484664314185683981342981494953521510, 148978929759354735789187277824737115019731734),
    (True, 0, 297957859518709471578374555649474230039463468),
    (False, 114697967076203858206601811377605240655920302, 614584984011535134128546669079051041974945518),
    (True, 1, 455146780759537905497473010965622506677745733),
    (False, 267638741893709438073816615779670453138244774, 612457267914003182303783991388437551691310767),
    (False, 484615850265184771409712189400521564045512150, 420988221428875471785471951319173450718196839),
    (True, 1, 67953255594218580811323575445867324164248375),
    (False, 5965770821644681773603318300804205542492340, 328302050295435099934055226102198491445661605),
    (False, 139249363587204376848962381046827519440320603, 283755160617062646014244728377241004250598316),
    (False, 104024004063073795883454428160490823452261547, 300795467605351061914788673682837200238472115),
    (False, 116893027005813334251824370279087654656190836, 337161642390522478602966483741700161743529917),
    (False, 146866366499135023750189665330249502444577651, 430225240564197957104648266730757558935603636),
    (False, 239132057881753052830553867344560612988006423, 263502441708385124240452816678106125343139327),
    (False, 89704724520921622350578671720025624185177779, 644479625869934597692853421618541529959190892),
    (False, 536616983826913354086859980266846712516520941, 564495975476800400010656425133470462301465541),
    (True, 1, 354968763690068437261692523074461347330785779),
    (False, 162789468415182445112734118682739907583325024, 22809089650375337426204198562497023184674569),
    (True, 0, 45618179300750674852408397124994046369349138),
    (False, 2688573568542089663595487595129505313227664, 200637042223526432902561872607756901214080852),
    (False, 52007773635984624830843115927056647688622043, 255810333028184965639646902562849808648331875),
    (False, 84543883905264520725666917839087167186388610, 576989869874292578602831994980624864396816795),
    (True, 1, 379956552485052794446043662768770151521488287),
    (False, 186515060726693610307934584734562350594151149, 264674088108136638837485767246971240005791222),
    (False, 90504230452753714273590637410190138406193356, 223384120822450107231170384709688258307046416)]"]; simp only: chain_eval_dense)

lemma prime_150_part_5: "pow_is 774023187263532362759620327192479577272145303 2 16798487535978261528513091914 239904036708680826588713273592995675716678834"
  by (rule chain_next [OF prime_150_part_4, where B = 774023187263532362759620327192479577272145303 and A = 0 and ss = "[(True, 0, 446768241644900214462340769419376516614092832),
    (False, 257875816935335978445417520944351431137225325, 85147835877578913603177696271565284662381749),
    (False, 9366843363268196869855105433160517793838893, 434461736120868508344059530312523575339629422),
    (False, 243864787591812693684132531282665564968620748, 557158705437409333027599612718080369331507440),
    (True, 1, 340294223611286303295578898243681161390869577),
    (False, 149608126124239145860540795845944643436040223, 733441407777606067535821801811503021615636360),
    (False, 694987317556476478335089874280950289488060395, 514956799448069252351116993293176421674474915),
    (True, 1, 255890411632606141942613659393873266076804527),
    (False, 84596823251511471855172242340971591071183465, 239904036708680826588713273592995675716678834)]"]; simp only: chain_eval_dense)

lemma prime_150_full_0: "pow_is 774023187263532362759620327192479577272145303 239904036708680826588713273592995675716678834 83813 1295145514798491210489618866064724193698886"
  by (rule chain_next [OF pow_start, where B = 774023187263532362759620327192479577272145303 and A = 0 and ss = "[(False, 74356876869018956304737472191396132438729484, 180836970888392937109762415412400018745385904),
    (False, 42249393271671320342316886269777324778759365, 243183204269241263732066299054259209529884621),
    (True, 75373236001106252478287741119718815850563312, 513322048639056445280604907601721794067888378),
    (False, 340428465134964895048841608283573266688366379, 396905583784263125828608720171882138079503047),
    (False, 203526257392972596421053394208778435486868763, 130090798985951700960814789255876603454414020),
    (False, 21864481916407103095032379975814558610524583, 400853877064979514990127694584026358943076751),
    (False, 207595629435992003814647200009818296244011098, 468346277402043939758521319158783766076143307),
    (True, 145161235961758441872528120920500669928161180, 532837199756195093123012285017253092913726498),
    (False, 366804878866449766713279668156836306992695816, 450345874981661500179215806459281691515191756),
    (True, 139582114723417326152508710393998550119575079, 12950063513236845703204038826796591870788567),
    (False, 216665531157750517896349358898550558798485, 467706795098939392427271868303897044401647534),
    (True, 144963032098562917279675380292192556014388933, 338439033845167259999918773546032742814963657),
    (False, 147981328614968741156537666870529456283256121, 143714622903002175568491969184907942354663986),
    (False, 26683816681476324057338374179847386965790144, 210929417556808435433802975623887869592114564),
    (True, 65376360250123166194129163204252542078378369, 241887359025303191941068912219020977341787569),
    (False, 75591397543385410167978107866400251083931948, 199665641243772463214157490996149833903089517),
    (True, 61885217542067674349897565166844475159108296, 110766790945911079730407655412476546616449490),
    (False, 15851310630411173206651586066549402687881843, 287732758439669583440823442691750024129826671),
    (False, 106960801228702229080801246159679146827470083, 624822365063853111543706003224896947041472092),
    (False, 504381515060563782493746137996242274677653574, 519826977403666199119172818775108725189593542),
    (True, 161117382943144427773270752532468649273687573, 259611095042883804821869910630250123133070409),
    (False, 87074808324079596445599921920514046466527548, 107984025925653568225698392108251932843120237),
    (False, 15064858581739288625981785214850779523989232, 663780661055272976944396163616690392727558873),
    (True, 205734999540910139775416709419055104241198532, 1295145514798491210489618866064724193698886)]"]; simp only: chain_eval_dense)

lemma prime_150_full_1: "pow_is 774023187263532362759620327192479577272145303 239904036708680826588713273592995675716678834 2746400652 290708388684213874407891556880678996330010823"
  by (rule chain_next [OF prime_150_full_0, where B = 774023187263532362759620327192479577272145303 and A = 0 and ss = "[(False, 2167121001158770579936570733795668644963, 679779800922692099200407571126910064382582207),
    (False, 597011285122086539768021594461113226860032051, 55247594773297384865582089673578053003884396),
    (True, 17123674358410165334851874501966379718975663, 124259953424114524931468442670833128739313375),
    (False, 19948415343410194274085968241550266514717045, 166979677567385571702690901826889877283100990),
    (True, 51754391025873491812307733582776591933734767, 407950128917574817300460114580406992330596259),
    (False, 215010752161360796082631602243391035952948470, 174228554134884876609207739979283497353258671),
    (True, 54001138641140938321487027181015060429230455, 10683600782770387431271522215829668199866749),
    (False, 147462411415784779781166086030141826391875, 403381867336468153408295490651052116137215876),
    (True, 125025890569549445312812154934233750819682031, 45075884828769655415942873684759006327818191),
    (False, 2625031687073640062082246801501208554721729, 53119572202821180488164109335601488331123594),
    (True, 16464105997584552163888700288647825994930450, 72222297984364957355408593252168939478633046),
    (False, 6738894146806082548414527740850583405823787, 633546644803170964400996833632403195245515655),
    (True, 196364140031599846757097386494796403361999303, 643943462759250887642917308314226278353422461),
    (False, 535724497732900593495277469265040647967333923, 520479420946794203775333670322990756362282852),
    (True, 161319604068165622778129773108884836964901211, 365135437974502483289255617137177668516892635),
    (False, 172247925202580329712256845076505946256707489, 516208399514307605030917603997742827740969058),
    (False, 344267608663249716968686136104964498975387394, 83865554728773377082658862459776747030896982),
    (False, 9086848282711980244728155857698614820626409, 260786711815411935000921945260721073769601397),
    (False, 87865208922144846329194724339625976512473974, 301916852588118562619876853584877161330507487),
    (True, 93577392613186279258065854644620555723202938, 114103229666656399800599645312980045718929944),
    (False, 16820616274288641428155690566981975213593402, 677635551494967384142218289859802404273752330),
    (True, 210029243175122516324407903563124235500377904, 264122995258262077506412993277521877370598308),
    (False, 90127734894903551450719717928419077808388725, 748508404265978378922727127154997487385554189),
    (False, 723834686706933825546252177364629100071552366, 290708388684213874407891556880678996330010823)]"]; simp only: chain_eval_dense)

lemma prime_150_full_2: "pow_is 774023187263532362759620327192479577272145303 239904036708680826588713273592995675716678834 179988113142478 268766097057310162588418118724378802928513994"
  by (rule chain_next [OF prime_150_full_1, where B = 774023187263532362759620327192479577272145303 and A = 0 and ss = "[(False, 109184542067986277357929146980032298750235027, 600107229582482798753667272105741747553009148),
    (False, 465268602960532994580283949675390311385887979, 451628346748218089554723845236140512802673267),
    (False, 263516864795270649972253137534824254351330096, 647711553680570290322151489102828592127514201),
    (True, 200754472098152954062338242904804159112493675, 162648415029006040597663013185383854622663109),
    (False, 34177925605787838716253647514320123076127996, 100811214664004952297235929966305681771343093),
    (True, 31245856379191199293539511832930084590320364, 4529131834650322936260844183729603177343270),
    (False, 26501835491730441994910311088990225183535, 738798488680055663848858242146132949051106795),
    (False, 705176816221265764658707104240688499690612284, 212197608569440898030936846364947860210469973),
    (False, 58173741851042239646450001698711533096441325, 611662598012171365201966882200068091920774254),
    (True, 189581305549284835315651478436540138224514453, 107490929922674541028182685979138013894375577),
    (False, 14927588999614072558127950741905451881707810, 428514384118415798799327133172829012624166499),
    (False, 237233949083060710740815391442271919533153588, 123112171513004749905655622436907816722119837),
    (True, 38157909736992746380796764625010268234719861, 14570351318222915415050510440971613097467175),
    (False, 274274906785395738688881389296428539558162, 307353622189253784146515789467733022718867539),
    (True, 95262488092791474867901955311445415396557672, 179424857306776720527791497966625525847554910),
    (False, 41592138257992926315286455922942538770747198, 12760254733867435581323976898175335728997106),
    (False, 210360753466355049724361386048940519736466, 608934423554622959591554371304870260536656038),
    (False, 479056878774813708404709476938199859036976079, 49609428510534586306200199002045736898650507),
    (True, 15376157141447303379347305615426658806473513, 242407917038261564931085190143643492973409399),
    (False, 75917103272543291283073317297195941725099485, 188618252588007745745347610616623087011072246),
    (True, 58461142944280090962733286447667500942231335, 409488997346431755417402532522990225193371659),
    (False, 216635937665644392017399376959692676635721344, 748975556399951343441387078282558254717965049),
    (True, 232140667531839708688479699428116217630422586, 58879420444759787673844649935737846485059308),
    (False, 4478917697759430441239599853650325971029290, 268766097057310162588418118724378802928513994)]"]; simp only: chain_eval_dense)

lemma prime_150_full_3: "pow_is 774023187263532362759620327192479577272145303 239904036708680826588713273592995675716678834 46076956964474543 1"
  by (rule chain_next [OF prime_150_full_2, where B = 774023187263532362759620327192479577272145303 and A = 0 and ss = "[(False, 93324355285529034915745795087183870489155607, 579427088523412077373256988916526363172668115),
    (True, 179590094718695945094742859491662647106404918, 115849632421622726957554667016336624677377756),
    (False, 17339451263306396451828362663695449448113131, 442467904078768740334507190777508594509321843),
    (False, 252935376305725370389869640063269160234737299, 421102461554465227200839842547965567395160052),
    (True, 130518286864295823529913109778191514141565069, 468258671804389894967266956674505999713518461),
    (False, 283281156595839260678979641206572268414954562, 772206593973023659184065814045438259181086235),
    (False, 770394264135131650515562670869554878284373416, 729956662500632008214574148879767999044010177),
    (True, 226245870715336404259589178463437068849777386, 98183791710502837171872621037358553140975660),
    (False, 12454480838917357758651120372162369028547845, 439595611907087558110647116537180562784913565),
    (True, 136250132491220349533911549745355548272618455, 374293936137183831703995803249810610515616345),
    (False, 180997097934958446917283059752176422828759418, 54522974439528009768619437895106080305445371),
    (True, 16899082452104291993705535593226727741553592, 124612552733726421171192149611473185353399038),
    (False, 20061786977873594423513588038715798426393906, 750928370779272975393467306452587285313601926),
    (True, 232745931121162272499654054834623669917963661, 1)]"]; simp only: chain_eval_dense)

lemma prime_150_factor: "pprime d \<Longrightarrow> d dvd 774023187263532362759620327192479577272145303 \<Longrightarrow> 46076956964474543 dvd d - 1"
  by (rule pock_factor [OF prime_56 _ _ _ pow_is_mult [OF prime_150_part_5 prime_150_full_3] prime_150_part_5, where h' = 239904036708680826588713273592995675716678833 and u = 632032488684931311808149900400938671518447982 and v = 195894836048269483691189999882415607806979835]; (simp only: chain_eval | simp)?)

lemma prime_150: "pprime 774023187263532362759620327192479577272145303"
  by (rule pocklington_third [where F = 46076956964474543 and s = 364574586575 and r = 20888052176031689 and t = 20888052176031688], erule prime_150_factor, assumption, simp_all)

text \<open>The prime 835945042244614951780389953367877943453916927241, with base 2.\<close>

lemma prime_160_part_0: "pow_is 835945042244614951780389953367877943453916927241 2 1080 759074791811550622595041579907670563367995104130"
  by (rule chain_next [OF pow_start, where B = 835945042244614951780389953367877943453916927241 and A = 0 and ss = "[(False, 0, 4),
    (False, 0, 16),
    (False, 0, 256),
    (False, 0, 65536),
    (False, 0, 4294967296),
    (True, 0, 8589934592),
    (False, 0, 73786976294838206464),
    (True, 0, 147573952589676412928),
    (False, 0, 21778071482940061661655974875633165533184),
    (True, 0, 43556142965880123323311949751266331066368),
    (False, 2269452528805172966045566416101430, 805823710150059538628971481374239012783834656794),
    (False, 776787730083807680699469844070614449979033824724, 79596761110565130706274406104070922645915451952),
    (False, 7579020221569101565058498396507708743902252814, 759074791811550622595041579907670563367995104130)]"]; simp only: chain_eval_dense)

lemma prime_160_full_0: "pow_is 835945042244614951780389953367877943453916927241 759074791811550622595041579907670563367995104130 142164 157918907641518890592038701400444629932553485772"
  by (rule chain_next [OF pow_start, where B = 835945042244614951780389953367877943453916927241 and A = 0 and ss = "[(False, 689273230231255300807902159637831919060980321952, 647332857910852564228259594691936466030803962468),
    (False, 501276767915099666124679438404411616115335513061, 609148362356661693887757724387713610316610456323),
    (False, 443882921256948393968160602109980930362556787879, 436757161973802191269863693825462981655576968490),
    (False, 228193013769427511907738116315774183577158868152, 596444357120076490495737815832728594089156751468),
    (True, 541597656937372359647364887434502833423023606618, 316043291769354130845930427120401550911078281902),
    (False, 119485560921816137504584673779819700390984854678, 275589276963661954737246149169473066293496254206),
    (False, 90854596581397733795547587471059079239476902889, 263875934029315002438032681578314154386736991187),
    (True, 239610930820938268821426528462617801628757888627, 185665639081793809088332295594383557676216914203),
    (False, 41236837104853328082743962635371621669352534453, 641018156373988747879660530665291676346116391036),
    (False, 491544606446590218543531916967213651334576801238, 567307618039865189591249462325854946709496428938),
    (True, 515140218907723779851143994755275389647032561972, 177423908061995549065010396671303620700307834688),
    (False, 37657072607866446549388512560053428712173705534, 524690383641730182272913870911035657565099005650),
    (True, 476441899408770166796739774148608731049027209344, 665678341561495004856004881427591008301484994596),
    (False, 530091850576935433839066240625364265483014989975, 214838863787470782343808955705843151755729794241),
    (False, 55213841892712958272253213826159678544887684840, 383893162169974580530391210946492573508978039641),
    (True, 348591842078035220070706056017109013507512331851, 227463855420172958768259354356817233852448964239),
    (False, 61893788356805878464087155812289728684174252496, 67416258205039176704293947084047439751506205585),
    (False, 5436902715715328592151909170826501447545889138, 339907948133192792819225193221318990902086983967),
    (True, 308651337020303703628259449253080270777186440643, 306245340566852185055598742519732271213409227747),
    (False, 112191835443009278818673527170654222114343432276, 52570207609332042227369953051976162659611665493),
    (False, 3305990930537246660859939134952055755704839767, 507990240330464985125284966481296682260424540202),
    (True, 461277436236426553872463868640283629799647447523, 3431830406959465402298739682291141893404560217),
    (False, 14088796926778398834334666628864335114247235, 250498950120037442038507953334232201939198658454),
    (False, 75064413137435808366258676665287377236875492184, 157918907641518890592038701400444629932553485772)]"]; simp only: chain_eval_dense)

lemma prime_160_full_1: "pow_is 835945042244614951780389953367877943453916927241 759074791811550622595041579907670563367995104130 2329241303 748986048453348613894226106838220100068956586361"
  by (rule chain_next [OF prime_160_full_0, where B = 835945042244614951780389953367877943453916927241 and A = 0 and ss = "[(True, 143397299922039993400474333466455359706103234304, 352906505932503467145107947320762888258070163096),
    (False, 148984676785778729844679450642469118953044272536, 164042735181433108288676384334726976220753752040),
    (True, 148958004131097307980159620155848649901444838260, 355844824024740234031765643006791719808566884540),
    (False, 151475913350946187213446936293675669254368492768, 768154269686866053021272481893275217546600318512),
    (False, 705860974369530856050779382733414305760180560066, 278980004266679184413256334003311688918697736238),
    (False, 93104018622628185781903405222091136373870200515, 56359567567527867684532460713841031080482663529),
    (True, 51176961230654187903208265500900596273603417508, 564452529305987826342840239523796765146326739342),
    (False, 381133497705099247152975304159865182351552380993, 679043157652678338982411182791235100861718262651),
    (True, 616600993460327187193481224933411564389131947966, 835173363493474799772361215689400333946014906824),
    (False, 834402397095497676599449854366326147406804465546, 792271537932866468478953450596193423663828428390),
    (False, 750879732635381862667867606282177385646444585600, 677811290657704475305923364208934766603761662500),
    (True, 615482404156611115415131904144940871469510979101, 747258594715876583420527798254489847950127534659),
    (False, 667981002527853444936881986114133658518888127952, 174058040725675054229895908684701527382563905849),
    (True, 158052341182862384420772690754928380244544925092, 311686835228906278551658655994347560141111825198),
    (False, 116214198715929032789328020134349281568780481847, 273761680958807296675109787308227934065287445077),
    (False, 89653570718182678938858201378762948267480640907, 614892554540437282630655415201340934723524288342),
    (True, 558349429970869242787957979916038856529073161971, 827865149579084092876773537338883878442219900449),
    (False, 819863353752684191715723674094635547071587542048, 610758637226382637681087381870282590959426272033),
    (False, 446232819259274764556167649189820148752750636814, 495492096457910395944039279993881095823263902915),
    (True, 449928572999417152210846361949436964622335860831, 573820185242335762782248789720630557385506741679),
    (False, 393889057715348441126965447249454247825466691797, 289562231141614406790506055955137907671415196964),
    (True, 262935216088034613877568610355839086822996622867, 737167322465446685760450072925769474722884041373),
    (False, 650061467978490747869529947886368868885371548318, 570157925079570220366435090834617134648053794491),
    (True, 517728422812795783396258915658539222102390084309, 748986048453348613894226106838220100068956586361)]"]; simp only: chain_eval_dense)

lemma prime_160_full_2: "pow_is 835945042244614951780389953367877943453916927241 759074791811550622595041579907670563367995104130 610596632166762 660224537606018701526560894060862550956595567177"
  by (rule chain_next [OF prime_160_full_1, where B = 835945042244614951780389953367877943453916927241 and A = 0 and ss = "[(False, 671072944306794993428075860613461477610981460782, 465259158276193927397285559589569340179062259859),
    (False, 258947745869315152799205560193194637118479882517, 236985835279983406465034953525485765820725754284),
    (False, 67184184707344877954692315759676512075684085259, 384359126575010384730399264377805214229600712237),
    (True, 349014958211117860677073161180211120854311161334, 193100513721356317636394386299178116557489739316),
    (False, 44605573949370381195885470509127337529470568837, 104159419365833819840041759014623575586225159139),
    (False, 12978346774443743532117860252459826384046704129, 175314511450581548099153136823194489276727943232),
    (False, 36766983918737488900476559301016989362017568342, 265659706986245529533183947292171377353655601402),
    (False, 84425502095825686693497444762180405773465927364, 742788501189777689611001576597303579332925442880),
    (False, 660013194190710059314440133017385620094091591193, 624657554290882774982960760640289184301245305887),
    (False, 466773580096773113871830304734218895236354931476, 411756571059470584692158761919229938109164119053),
    (False, 202816531282257300642113498029459967477670106208, 478593873395191755738961195270044280800079204681),
    (True, 434584244718127049134736730921707889664275020923, 239415178374848078396105116502030063513034769087),
    (False, 68568655521121452624021556601374263566720681080, 2783336594275442524620851784272271391085513289),
    (False, 9267310894303858488790191589654956831559377, 341196879384141658483863354415769897898315308664),
    (True, 309821743173256415166195751489438282155543618936, 396820573082061128693035623672217826007629346744),
    (False, 188369521037361946479824758607414875772097347059, 190943101927107648375831080395739199790955067317),
    (True, 173384717916370433191693832671534033807267070662, 585450273931736673116220269398984303732315015668),
    (False, 410017412539961113317490338314702922168974057295, 32034636986014111317438489994373723032005213129),
    (False, 1227614155196353791737414771777364423902071958, 76648404891202770045442245206631129164081562763),
    (True, 69600116090468961809881711188825937636422403775, 181273836013918285318462870059733522904316776415),
    (False, 39309047799323340096644401385006834890669874677, 672262121094082744150628365099352261106702876068),
    (False, 540629271805250048985333326095753843299342846570, 57759172915127296361487890612555477554450727254),
    (True, 52447864321358190628378931933038304466852129821, 513300866846812495742450126985035411525215605159),
    (False, 315185528462755137291357672935646441991371869544, 660224537606018701526560894060862550956595567177)]"]; simp only: chain_eval_dense)

lemma prime_160_full_3: "pow_is 835945042244614951780389953367877943453916927241 759074791811550622595041579907670563367995104130 80032121771361943582 535345709169065105339753001039093665603529482224"
  by (rule chain_next [OF prime_160_full_2, where B = 835945042244614951780389953367877943453916927241 and A = 0 and ss = "[(False, 521441503961367850635430136244013866450245996495, 269285288879827549683361456394909120113863729034),
    (True, 244522862466542886711197308614136965089414044262, 505691823725781412561075090842561709899126769278),
    (False, 305910326229647691435222785694186256774312322097, 45364811515137873090623982944223298180139096907),
    (True, 41193240124925620331186880961832130566141931663, 419269199244106576770637843182106563422460794127),
    (False, 210284950028276495208633733898422061225364990762, 299452994987774276737283280228423195032086544487),
    (True, 271916463811236096195816519168441164047909374280, 497369096813225019131333128712092287448845669830),
    (False, 295923782023478787748894583165005680568252164801, 701308864140019032534475910905747977625113984859),
    (False, 588357006820363141117657733071801514090241356430, 631055663394195986503095464571308967532623740251),
    (False, 476384487229673670356044742562573731627422244252, 199434584434129326957875703946493112444703074269),
    (False, 47579866448654782379223731598763553898856352901, 346695347110725233600332262054970864425893608220),
    (False, 143786562075278045172010718581130543983630575805, 728439919888066655979673740257810194949731564395),
    (False, 634760289338806928550229458313966116156796106322, 340593042732093551794369219356501281138657598423),
    (False, 138769434466674695205334917423385925280589178616, 195028714185513651960965066825761738983107008473),
    (False, 45500837297536826416983720702884056570936773093, 462997367278627840240681332910379370464686265316),
    (False, 256436190507620087673813011955486246223068483087, 203096061982307161182349797210549279169926506889),
    (False, 49342969104721508968683289160129803085495344854, 76104359370346897542014823570380730960042690507),
    (True, 69106098876884203153040816225393233924233835611, 417918677199221242204855024534899164660185714659),
    (False, 208932420106199865606894761032805267756616213746, 183625108313638248198621749800178322510581431495),
    (True, 166739658495111181189743437157695383291997202559, 90615099562224732666720365108361206297844564631),
    (False, 9822531211650111011824486175814428274653314329, 773054108212952157384444143082827760453740429872),
    (True, 701967063139898311494601625937681324880717485869, 801916553462973055928244680064753970662283913931),
    (False, 769273249101652767219962443662232932944296105035, 35700651635166786255554125903264771632427114326),
    (True, 32417758749708637060444964710459556789615414023, 443083719347173428748762152761909438581602665837),
    (False, 234851781432153636513739320476855161772513602545, 535345709169065105339753001039093665603529482224)]"]; simp only: chain_eval_dense)

lemma prime_160_full_4: "pow_is 835945042244614951780389953367877943453916927241 759074791811550622595041579907670563367995104130 5244985132407976334608113 208118064125825794661693257140368730153868934083"
  by (rule chain_next [OF prime_160_full_3, where B = 835945042244614951780389953367877943453916927241 and A = 0 and ss = "[(False, 342839557438113923986869047074969212506399307156, 516407691258597853069633576868076172346669349580),
    (False, 319012483015600083335577509819370325174607150658, 592940444063132732412167710579252338234534901822),
    (True, 538415950078888397230186330899388248372170362512, 446341605677506210825105173848353398490118735468),
    (False, 238318093763487235945537696001306643860595948141, 21816562882403064602017452252431082533654970043),
    (False, 569370463306809810552154688469349180376134789, 383352420446525479862706219016304116563905534700),
    (False, 175799928028290591710702520613038058329215493955, 58316461385305536966271546090344506111293761845),
    (False, 4068221589510526649747823776076456939448001921, 284142038100475319092827425728631831934192574064),
    (True, 258013442889603311835634222901389741119063405767, 824790778821942388142346033681906477549418485473),
    (False, 813785350054916916519645018640146226660110530579, 70751243106348381243495717479684278599263431190),
    (True, 64245234336403252163323279580508125109886476205, 737017226894047307568954424071425807750277014295),
    (False, 649796775252172143427147449036200649166111425737, 624082941709431190584511549521833959259030545408),
    (False, 465915219841363040445276979494479447658682027996, 207288146806698675962273933175913866551292847428),
    (True, 188226736125858696668221152724700608853630864550, 543987977307325234056889089812215126776786471090),
    (False, 353998055494564170799414078973126307128965138812, 286647515653516396100504838087124114703336610408),
    (True, 260288526484640232155319200532166914668361335806, 515368766303806080173551581399884541783531693794),
    (False, 317730175859797172802491144650413359339968301131, 325832126205371414891481345082759626968073104865),
    (True, 295869872857602282468263428938967814599617638871, 780944039646905092831676380212867722420164207539),
    (False, 729561827919263072981394761018131892297658400582, 372450585818671040388311259468254255223738382259),
    (True, 338201480484010873345053659085857005365755278707, 87577820914376687981510211250399105421454072283),
    (False, 9175094448214060386204253358876784942756926965, 78313096165577157556056461929715111803532878524),
    (False, 7336536161003164677356946298419202697712619136, 765824786768160045942324226696472091582084134800),
    (False, 701586317748481004687034281865826497294267143347, 604464229516883857019612968353436091807454824373),
    (False, 437082566796924808482688830084062076154752472269, 89261412908316244805153485804143610939731663300),
    (True, 81053281012650789165493822265147351378173507037, 208118064125825794661693257140368730153868934083)]"]; simp only: chain_eval_dense)

lemma prime_160_full_5: "pow_is 835945042244614951780389953367877943453916927241 759074791811550622595041579907670563367995104130 343735345637489137064877343515 811558457879687660981202475031740823899973194570"
  by (rule chain_next [OF prime_160_full_4, where B = 835945042244614951780389953367877943453916927241 and A = 0 and ss = "[(False, 51813368614736054530083775177370711907605828036, 76766074522284710629886725700001148714029122213),
    (True, 69706965280549963696961808999805983571338043828, 236875041698712025712538513652300362335885921142),
    (False, 67121380646154568225440142019434515991000086567, 513058867335660987616799994938729843352202112517),
    (True, 465879972042379345004408217394118245726163749977, 428733464043627810994879705088254312137766971753),
    (False, 219885726814396686868737797473375912993577801800, 578344416868948984047691096155137418068581059209),
    (False, 400124706314853837531860282561012543803263392552, 770109746594542931579311447416611094843358396649),
    (False, 709459344608884904458958072050050650431464614915, 219051863844034281614356631823864499933876029686),
    (False, 57400566578758770284741594681769330235459102431, 165668742366468668679834627278703220683360035725),
    (False, 32832460042577847060618767481815989096545587996, 256815195454800963515795749744902207253381276589),
    (True, 233199470267151421081041082252091289484543186915, 583809984261869384347508540071259765943067961055),
    (False, 407723092428017550998959340134008655453068266731, 163551941056459280667429163463842665493688793854),
    (True, 148512341522420905755352766327179212248326421628, 140246818418290753412295156587253799982069248672),
    (False, 23529262191254684382013851209291676807799842146, 708940596382443202209440608767265276509406464398),
    (False, 601231831998859972871332421003449589604617272968, 426802816292294444577223472218520191003349381116),
    (False, 217909832332889220067033187800449774188115426764, 151341764967842010177455992682308196515965327332),
    (False, 27399324915045367995535504170612188197547113609, 235573586345044503579001477553026763091892315455),
    (True, 213911156804060731301381653497796290257546461996, 766497940191954204661432737400615780594229696114),
    (False, 702820236532473227662048144443121928356485012309, 126203190864149307616911472608267153965444291527),
    (True, 114598036940238387000468935906324118615938969076, 98345090498220001976472064046520866225200707194),
    (False, 11569847700912525274730492962914789854897546201, 601853664079505181470525224650299559248970392195),
    (False, 433315367231917200479340497053945254263423487740, 258213557849115608790275059752777047684081392685),
    (True, 234469244701713932679263567540602899810023694158, 504000976525410158170077421949244201909072530972),
    (False, 303868043354262007261738599908531907886456652429, 489136642194024723730740899070521374923080346395),
    (True, 444157541557836848215061164738149424490228237580, 811558457879687660981202475031740823899973194570)]"]; simp only: chain_eval_dense)

lemma prime_160_full_6: "pow_is 835945042244614951780389953367877943453916927241 759074791811550622595041579907670563367995104130 22527039611698488086683801584658200 532415197670739791457110759671397444795966672649"
  by (rule chain_next [OF prime_160_full_5, where B = 835945042244614951780389953367877943453916927241 and A = 0 and ss = "[(False, 787883290494267610282336853152850663533202864940, 393486261282271016523084990560177911868347654360),
    (True, 357302797157021331674190739367928191057947410915, 375307805266122484295790108040153017141064271285),
    (False, 168499053855811167094930279568595372533039484501, 336546474274809936634720614240327325347511359484),
    (True, 305598971206421309619797249713626711165035609960, 493579638377115024391236952310797072285068148560),
    (False, 291431669678106775305693996190942543596189213170, 823500078665955044553265012550883094070301109630),
    (True, 747774218615724060217325561755752802691482365179, 297711088177804081715916790927087546355660830761),
    (False, 106025979633810301817657250653266871798171640407, 179251365744274142893560633739037413150849212034),
    (False, 38436799666772019389063665557729083120719717959, 701633607286105444995380538752689081929246396037),
    (False, 588902013882939689785736404949046802293337654062, 91369198728291083395481851139194217846567202427),
    (True, 82967243057553443650507754134653554274258340818, 311247715898150467290075661022113198845167300372),
    (False, 115886973133657392757221348642272338803976143559, 209361165748660005031486220461825675724097547665),
    (True, 190109128319447704796614376432598477834333740201, 498788136027042228777312941671869452730599641009),
    (False, 297614785743929509790778614743431951023837593664, 426990051736328341574113833298831966697263937057),
    (True, 387725709523991841053379444187953544967253845001, 89651430555780134794480892858389562488072173169),
    (False, 9614721775389109019033840206050921298458188217, 197651752525302828246827991316509880533650983264),
    (False, 46732994756959110816758183268517930545749685639, 624253171474282327323059124113756523637422501697),
    (False, 466169427896035924643981710952742813649893181785, 721005885392010804471646689637031432938136374624),
    (False, 621870410731856004756508116219174556294190691694, 784085314136085290314027057525700294017210105122),
    (True, 711983882328213281171577856842978599772753769417, 133370069964579362137652717018371214793756365363),
    (False, 21278403080895093765465448157791575999681572905, 336819747101604700791829825354772135793024116664),
    (True, 305847114928345902206354360599251479099467964865, 374161351346742659646230753179666666933398834855),
    (False, 167471196988874115852853642919651149799402864484, 141751384479317804391058475319053573440751862381),
    (False, 24036813410424673076711576236314170681496136964, 464172567138561452482026386374356379009404352837),
    (False, 257739637411421324290324191745108626941096527120, 532415197670739791457110759671397444795966672649)]"]; simp only: chain_eval_dense)

lemma prime_160_full_7: "pow_is 835945042244614951780389953367877943453916927241 759074791811550622595041579907670563367995104130 5905328271969088460995638482608639352966 237974186079129634398286145778573131494868911126"
  by (rule chain_next [OF prime_160_full_6, where B = 835945042244614951780389953367877943453916927241 and A = 0 and ss = "[(False, 339096385989241718298249192640608507719292865521, 434093120461639153355300911184612486254170119640),
    (True, 394175607712766192531345162029120000025463346432, 97912942912193647774198506100970797969837159088),
    (False, 11468390749688963926447296029106038630302719227, 667025092471518295303574720486256657716010229037),
    (False, 532238905074388776303084453662597021249667884597, 149082332837939991670766673947974664586364340492),
    (True, 135373302122683398018751579387286529022324613999, 476485132061903049755387944691225119204822385201),
    (False, 271594506340302108759175293782805529715439098998, 738803566664145402712534234949303269185061805883),
    (False, 652950472258367544558842448939311436425889950524, 241689502734565808750073633887757158001575585405),
    (True, 219464677341304686757492504967520178817600098587, 381118870174985666043432125222943368628977314183),
    (False, 173757347508682195719794307475299732018903657960, 582731136332626314907122235724972418042222469129),
    (False, 406217586194077841722604132997620025306903070275, 397554952997396800119973186996160773292673157366),
    (False, 189067382023558518158137616993027331626920324434, 236253730732713758639926119694254553571307551362),
    (False, 66769730621588809067288450364809414647793222293, 476704553013257556431297564087281591459647871431),
    (False, 271844701959572607123003179724691361991690729856, 346312904782434624944383483840979074428967580465),
    (False, 143469512896223198058537962729041199772502359076, 71765941288199625458349242613004164794701626909),
    (True, 65166624825270947662738720085951100417134908245, 638543572790337134565929942265034103130989032125),
    (False, 487756818626523976603352311245899379748377699926, 526979466841310943920119650633722763947208931459),
    (False, 332207674474238195636279694657959807118325293978, 467877159046211237196323025426778671318798413983),
    (False, 261870128889521300369985576435959943598551319716, 45909684936122493339320685306034651544149140733),
    (False, 2521337007125016066434136329949659402498898337, 408395726415461315009164001266860965443554879072),
    (False, 199519180000839041178982644861834304238328826790, 481053347700316604830749658109522745107221994794),
    (True, 436817555344762958754248859433447400214868766670, 233182933372020718932618184348901474334552041750),
    (False, 65045281290237266036681871801255944565139247493, 557743765087541078440963197608359550780170405687),
    (True, 506455820625740339620941284472386454240385450712, 182972415758533001690012092561058990298013541718),
    (False, 40049169785873112687469591893552121416758771678, 237974186079129634398286145778573131494868911126)]"]; simp only: chain_eval_dense)

lemma prime_160_full_8: "pow_is 835945042244614951780389953367877943453916927241 759074791811550622595041579907670563367995104130 193505796815883090689905081798119894318036325 199353010362806648490774473175262884484522449436"
  by (rule chain_next [OF prime_160_full_7, where B = 835945042244614951780389953367877943453916927241 and A = 0 and ss = "[(True, 216091006735918226038080672137322011673925429659, 605854722994094937206122215282778140128119109561),
    (False, 439095785996469985780442101542743532051672244288, 40137418706345807568919153960898167848247763313),
    (False, 1927174992368819555695470563826473508084766805, 140599811892416248330392687370353273421631700964),
    (True, 127670800767484970968858209829587870189779947293, 534685861821373211666891132573486426558705472707),
    (False, 341994935533103541961051693256127732845706934879, 88548626639598598295497660259241061072153769010),
    (True, 80406039793203907605068707419950617956249985546, 703926592309887669296269496795243611915933352714),
    (False, 592757444951762118570923918638283810190498870912, 88841430143470534101253843891902768653775852004),
    (False, 9441768670275284744641288724071360827910915103, 739018444218422952870733066720789305717931795193),
    (True, 671061186251815630838989466107833741142716125291, 176438508138095114675217012505258985453581494959),
    (False, 37239944710249515099386852004066991367149026357, 414471060129623550077917369112182433746982120644),
    (False, 205499465878410914103577968904549738087380751859, 247652797471706519497042416711620986961792483717),
    (True, 224879610718924296872281147143231378540164448129, 302196766375133183759668950805246803342532869121),
    (False, 109245083100646998404862604587224175705522950129, 5527542932537274611991009905941311703150748552),
    (False, 36549927718935038298669076813730024237570312, 693072022110437333455954000863347947427204427512),
    (True, 629339818179033711621991677101797598006746425974, 539175858322916918519562921151812605098526266826),
    (False, 347762821127164710900031176417874870980757596319, 757802197547174614211978011994808738278575688397),
    (True, 688117658779215847332282373395470002019869966799, 585376404572727195020205464330081697957679108051),
    (False, 409913950934375069568226846549711913309582311335, 123398511569150020213746997628201664009128441866),
    (False, 18215542754574836357914965423112370910766108445, 59551680309611154810999083649505313303160911711),
    (False, 4242387296389249430334234642487317133990935839, 792164469475591668977333215472024027259874657322),
    (True, 719320110007585570567601121598299870474868189946, 307171646748745417739346585143116005173607220874),
    (False, 112871559490301959686038128019004629947274215134, 765036918376563629349245891964054940338562258582),
    (False, 700143498557699816896859768683404376414200158412, 816016135123465239042949409827216795034554549432),
    (True, 740978469374612458641702996937429120294722429364, 199353010362806648490774473175262884484522449436)]"]; simp only: chain_eval_dense)

lemma prime_160_full_9: "pow_is 835945042244614951780389953367877943453916927241 759074791811550622595041579907670563367995104130 774023187263532362759620327192479577272145303 1"
  by (rule chain_next [OF prime_160_full_8, where B = 835945042244614951780389953367877943453916927241 and A = 0 and ss = "[(False, 47540951536720840331481429009114141124026719064, 644799085676566343788562791794823309147541095672),
    (True, 585505872976987283277729582881091774552669320882, 605925974814297474496688051396989196144256378798),
    (False, 439199072188793479940178158621264770397258265664, 31038845376211832288414026560135646620327371780),
    (True, 28184634038567004694859909001647680984861329039, 1)]"]; simp only: chain_eval_dense)

lemma prime_160_factor: "pprime d \<Longrightarrow> d dvd 835945042244614951780389953367877943453916927241 \<Longrightarrow> 774023187263532362759620327192479577272145303 dvd d - 1"
  by (rule pock_factor [OF prime_150 _ _ _ pow_is_mult [OF prime_160_part_0 prime_160_full_9] prime_160_part_0, where h' = 759074791811550622595041579907670563367995104129 and u = 829816007257442285709994915664332448456883264405 and v = 753509359011803945872605034392251507628474740084]; (simp only: chain_eval | simp)?)

lemma prime_160: "pprime 835945042244614951780389953367877943453916927241"
  by (rule pocklington_third [where F = 774023187263532362759620327192479577272145303 and s = 0 and r = 1080 and t = 0], erule prime_160_factor, assumption, simp_all)

lemma prime_155317: "pprime 155317"
  by (rule small_prime [where b = 395]) (simp_all add: upt_rec)

text \<open>The prime 191039911, with base 2.\<close>

lemma prime_28_part_0: "pow_is 191039911 2 1230 76243073"
  by (rule chain_next [OF pow_start, where B = 191039911 and A = 0 and ss = "[(False, 0, 4),
    (False, 0, 16),
    (False, 0, 256),
    (True, 0, 512),
    (False, 0, 262144),
    (True, 0, 524288),
    (False, 1438, 162514926),
    (False, 138249128, 63837868),
    (False, 21332052, 75258052),
    (True, 0, 150516104),
    (False, 118588296, 49857160),
    (True, 0, 99714320),
    (False, 52046431, 66954759),
    (True, 0, 133909518),
    (False, 93863941, 76243073)]"]; simp only: chain_eval_dense)

lemma prime_28_full_0: "pow_is 191039911 76243073 38829 61465008"
  by (rule chain_next [OF pow_start, where B = 191039911 and A = 0 and ss = "[(False, 30428229, 20435710),
    (False, 2186026, 30720414),
    (False, 4940034, 180634422),
    (True, 72090294, 73134972),
    (False, 27997940, 163657444),
    (False, 140199808, 134076048),
    (True, 53509080, 34323624),
    (False, 6166832, 128061424),
    (True, 51108673, 157267849),
    (False, 129466016, 154922225),
    (True, 61828685, 30350390),
    (False, 4821747, 55407583),
    (True, 22112889, 48909680),
    (False, 12521764, 117579396),
    (False, 72366629, 194797),
    (True, 77742, 97130219),
    (False, 49383814, 11587407),
    (False, 702826, 184495163),
    (True, 73631096, 154083443),
    (False, 124276164, 96752845),
    (True, 38613576, 101860949),
    (False, 54311441, 76258850),
    (False, 30440823, 86635747),
    (True, 34575893, 61465008)]"]; simp only: chain_eval_dense)

lemma prime_28_full_1: "pow_is 191039911 76243073 155317 1"
  by (rule chain_next [OF prime_28_full_0, where B = 191039911 and A = 0 and ss = "[(False, 19775696, 4637008),
    (False, 112551, 110169103),
    (True, 43967938, 1)]"]; simp only: chain_eval_dense)

lemma prime_28_factor: "pprime d \<Longrightarrow> d dvd 191039911 \<Longrightarrow> 155317 dvd d - 1"
  by (rule pock_factor [OF prime_155317 _ _ _ pow_is_mult [OF prime_28_part_0 prime_28_full_1] prime_28_part_0, where h' = 76243072 and u = 69522358 and v = 27746025]; (simp only: chain_eval | simp)?)

lemma prime_28: "pprime 191039911"
  by (rule pocklington_third [where F = 155317 and s = 0 and r = 1230 and t = 0], erule prime_28_factor, assumption, simp_all)

text \<open>The prime 208150935158385979, with base 2.\<close>

lemma prime_58_part_0: "pow_is 208150935158385979 2 133003 128129294126319618"
  by (rule chain_next [OF pow_start, where B = 208150935158385979 and A = 0 and ss = "[(False, 0, 4),
    (False, 0, 16),
    (False, 0, 256),
    (False, 0, 65536),
    (False, 0, 4294967296),
    (False, 88, 129461779771585464),
    (False, 80520187953386932, 124462424665468868),
    (True, 1, 40773914172551757),
    (False, 7987050722042541, 163848705107854410),
    (True, 1, 119546475057322841),
    (False, 68658637962671397, 186526388431168618),
    (True, 1, 164901841703951257),
    (False, 130638939367068525, 7679982539669074),
    (True, 0, 15359965079338148),
    (False, 1133449278327598, 125585291636121462),
    (False, 75770332058939447, 14138243402203831),
    (False, 960312411509754, 80022974415737395),
    (False, 30764581621836497, 28288365246110462),
    (True, 0, 56576730492220924),
    (False, 15377910412719287, 2294699736803),
    (False, 25297253, 13195472290245122),
    (True, 0, 26390944580490244),
    (False, 3346042886238013, 64064647063159809),
    (True, 0, 128129294126319618)]"]; simp only: chain_eval_dense)

lemma prime_58_part_1: "pow_is 208150935158385979 2 1089567798 89709188498985666"
  by (rule chain_next [OF prime_58_part_0, where B = 208150935158385979 and A = 0 and ss = "[(False, 78871209494287542, 204517432644492306),
    (True, 1, 200883930130598633),
    (False, 193870632164149747, 123660191560271376),
    (True, 1, 39169447962156773),
    (False, 7370832384167147, 29631055152541616),
    (True, 0, 59262110305083232),
    (False, 16872360987182242, 100262282596980906),
    (False, 48294403788806924, 58975752228862240),
    (False, 16709698413382421, 83474928446342441),
    (False, 33476014286555374, 127691321189137335),
    (False, 78332934198064471, 49078595346450116),
    (True, 0, 98157190692900232),
    (False, 46287729033698804, 87376042442984708),
    (True, 0, 174752084885969416),
    (False, 146712245845813268, 138284296584011684),
    (False, 91868656113335250, 202614886522056106),
    (True, 1, 197078837885726233),
    (False, 186595694671437434, 125751510503032403),
    (True, 1, 43352085847678827),
    (False, 9029041094215797, 89709188498985666)]"]; simp only: chain_eval_dense)

lemma prime_58_full_0: "pow_is 208150935158385979 89709188498985666 186562 197290510986058846"
  by (rule chain_next [OF pow_start, where B = 208150935158385979 and A = 0 and ss = "[(False, 38662994691918466, 182968091247875342),
    (False, 160831957778221415, 68403140478076679),
    (True, 29480483565452550, 51229439360086764),
    (False, 12608425012127902, 71670934976505638),
    (True, 30888842324025734, 56667563029401322),
    (False, 15427327757368464, 202982491100981428),
    (False, 197942380908395664, 13238548238924128),
    (True, 5705568502562226, 35749554960119994),
    (False, 6139922834716848, 5181791720285844),
    (True, 2233256025700242, 141740337589005186),
    (False, 96518054480793227, 171869456179930363),
    (False, 141911973372150052, 127291454208390861),
    (False, 77843101219591502, 183015074923970863),
    (False, 160914567229496506, 16161647893075395),
    (True, 6965370182895974, 174461904865139524),
    (False, 146225411987762336, 85309554380259632),
    (True, 36766834070862226, 17370506687305658),
    (False, 1449594748849603, 62356355023896627),
    (False, 18680266840538313, 7807666190463702),
    (False, 292862731052947, 174029606068114691),
    (False, 145501646510392859, 132889431482701520),
    (False, 84840363490839461, 132012496847993081),
    (True, 56894935182236881, 205533089479085447),
    (False, 202948167581729097, 197290510986058846)]"]; simp only: chain_eval_dense)

lemma prime_58_full_1: "pow_is 208150935158385979 89709188498985666 191039911 1"
  by (rule chain_next [OF prime_58_full_0, where B = 208150935158385979 and A = 0 and ss = "[(False, 186996737225910346, 165609903457412982),
    (False, 131763232782520048, 101238916212525332),
    (True, 43632093274199028, 131231057839262700),
    (False, 82736070959795009, 18445662471511189),
    (True, 7949738060923608, 56916321372324642),
    (False, 15563070308056827, 119019145908399531),
    (False, 68054256311584941, 9134552999077722),
    (True, 3936822749437568, 172721609590873780),
    (False, 143322701850759954, 12941146683203434),
    (False, 804576147345932, 145933806537904928),
    (False, 102313621000249747, 9010687143587871),
    (True, 3883438865429207, 159573380234568433),
    (False, 122332689306009471, 178308904112468380),
    (True, 76847827168786765, 27239248481473145),
    (False, 3564608812690910, 196755381951440135),
    (True, 84797916637947671, 1)]"]; simp only: chain_eval_dense)

lemma prime_58_factor: "pprime d \<Longrightarrow> d dvd 208150935158385979 \<Longrightarrow> 191039911 dvd d - 1"
  by (rule pock_factor [OF prime_28 _ _ _ pow_is_mult [OF prime_58_part_1 prime_58_full_1] prime_58_part_1, where h' = 89709188498985665 and u = 133855595432530999 and v = 57689276452991746]; (simp only: chain_eval | simp)?)

lemma prime_58: "pprime 208150935158385979"
  by (rule pocklington_third [where F = 191039911 and s = 5 and r = 134368243 and t = 134368242], erule prime_58_factor, assumption, simp_all)

text \<open>The prime 2624747550333869278416773953, with base 2.\<close>

lemma prime_92_part_0: "pow_is 2624747550333869278416773953 2 24051 529237450799738284911078394"
  by (rule chain_next [OF pow_start, where B = 2624747550333869278416773953 and A = 0 and ss = "[(False, 0, 4),
    (False, 0, 16),
    (True, 0, 32),
    (False, 0, 1024),
    (True, 0, 2048),
    (False, 0, 4194304),
    (True, 0, 8388608),
    (False, 0, 70368744177664),
    (False, 1, 2327012606807651821179722943),
    (True, 1, 2029277663281434363942671933),
    (False, 1568900534517748503626959165, 2545597497581822252699327244),
    (True, 1, 2466447444829775226981880535),
    (False, 2317694514024223059878159389, 285028267039813876094291508),
    (True, 0, 570056534079627752188583016),
    (False, 123807888497902263574609542, 1935862829777395012672796730),
    (True, 1, 1246978109220920746928819507),
    (False, 592420556665874982058309022, 1930368136082018476989219083),
    (True, 1, 1235988721830167675561664213),
    (False, 582024781886948104706645549, 173122457038306045338324172),
    (False, 11418768683932192379569231, 1191569996521927962518445441),
    (False, 540943092386413747399670082, 1822501072414583392322710335),
    (True, 1, 1020254594495297506228646717),
    (False, 396578877635816231083540364, 264618725399869142455539197),
    (True, 0, 529237450799738284911078394)]"]; simp only: chain_eval_dense)

lemma prime_92_part_1: "pow_is 2624747550333869278416773953 2 1576228536 2408864718986512998379022346"
  by (rule chain_next [OF prime_92_part_0, where B = 2624747550333869278416773953 and A = 0 and ss = "[(False, 106712083336691757470174459, 2220781642780403141136552809),
    (False, 1878988744758744316813847576, 2260971868294631060256802553),
    (True, 1, 1897196186255392842096831153),
    (False, 1371314116926851724570516713, 2016937216576625232461732920),
    (False, 1549876952964260558500177103, 626060485508423972994328241),
    (True, 0, 1252120971016847945988656482),
    (False, 597317226131232431365555329, 916499631098394474893070787),
    (False, 320019947707598901027052287, 1304650793812398379002118858),
    (True, 0, 2609301587624796758004237716),
    (False, 2593946520424505534176178039, 1361340824206899252491078489),
    (True, 1, 97934098079929226565383025),
    (False, 3654099063930626777301917, 643306656626685568335582724),
    (False, 157669812629242467330219274, 1808697909017717213465490054),
    (True, 1, 992648267701565148514206155),
    (False, 375407754260245344808765580, 1159339253362931350012946285),
    (False, 512074962872963927982562650, 410786833748270455584645775),
    (True, 0, 821573667496540911169291550),
    (False, 257161223386172331722945674, 1696571825508860987544173178),
    (True, 1, 768396100683852696671572403),
    (False, 224948325971785802938736551, 1644138177077870041285338306),
    (True, 1, 663528803821870804153902659),
    (False, 167738216745941937954894166, 295065344245047575186812083),
    (False, 33170259503003974455603694, 1617264094696110297805016507),
    (False, 996493225285811103097740751, 2408864718986512998379022346)]"]; simp only: chain_eval_dense)

lemma prime_92_part_2: "pow_is 2624747550333869278416773953 2 12609828288 9274061155462587152010873"
  by (rule chain_next [OF prime_92_part_1, where B = 2624747550333869278416773953 and A = 0 and ss = "[(False, 2210738032173751233595808104, 2323863321893184295033828604),
    (False, 2057470532034023342225242312, 868487945714315943693489480),
    (False, 287369088792988448444817159, 9274061155462587152010873)]"]; simp only: chain_eval_dense)

lemma prime_92_full_0: "pow_is 2624747550333869278416773953 9274061155462587152010873 378624 2089271074582529665731717157"
  by (rule chain_next [OF pow_start, where B = 2624747550333869278416773953 and A = 0 and ss = "[(False, 32768183859937222229010, 1266270720206729203541245599),
    (False, 610893621616642736643597567, 2301912954953465256297096450),
    (True, 8133384681538056888314734, 2248013503723782665532377348),
    (False, 1925352673357733513259338827, 1744970194356041017568339973),
    (True, 6165530203031861069162693, 2586300114703274451494791000),
    (False, 2548415859065506250561530057, 2125449728315673936096794679),
    (True, 7509884430886917589095944, 1205592157378993366379398135),
    (False, 553749426206286234238603375, 2261404752786767841043586850),
    (False, 1948359359465288477016106084, 2618731767255041984196892448),
    (False, 2612729772034040065014346855, 570795146607013269607964889),
    (False, 124128927884389847886394812, 1569309312985778391540850485),
    (True, 5544864891336245550150785, 1945408099571766959976820300),
    (False, 1441895878099983068586000044, 656293638469207707696036068),
    (True, 2318892473422931250605386, 1811330392256897828969856506),
    (False, 1249993657293324409116514205, 342365288667786725432025671),
    (True, 1209684574887508643586091, 1711089712534083060165233060),
    (False, 1115470325505228009763417017, 392859456549103533154405399),
    (False, 58801294082710933979758475, 1796976253660493349629347526),
    (False, 1230260660995361439381823403, 1541403170023242006466098617),
    (False, 905200857223575938899369381, 270072481182505760642779596),
    (False, 27789013493048895425255432, 119607449558026110604560520),
    (False, 5450406835490154869849046, 499952733341149846927971562),
    (False, 95229248063682454127648071, 438275756352106332737225181),
    (False, 73182519431850685798005668, 2089271074582529665731717157)]"]; simp only: chain_eval_dense)

lemma prime_92_full_1: "pow_is 2624747550333869278416773953 9274061155462587152010873 24813525099 236853469163531064126857453"
  by (rule chain_next [OF prime_92_full_0, where B = 2624747550333869278416773953 and A = 0 and ss = "[(False, 1663037507181214857999219573, 594690445107688101493980580),
    (False, 134739329676636853031987444, 1172847950609207098934890268),
    (True, 4144041821707837114488927, 220122418689522986117365533),
    (False, 18460396011632547031511721, 1422387307400468750809370976),
    (False, 770811521281963021075082414, 1001771725499119877307630034),
    (True, 3539575546955120250146399, 1684413776997049903489414435),
    (False, 1080961013479779298782860173, 1237603900470860282238895356),
    (True, 4372845021893946564305708, 473708283672591566997582064),
    (False, 85493760339537698436594211, 1023550909498223475239114013),
    (False, 399145610861272355925818259, 1249836059932912608649956342),
    (False, 595139207391555969073642092, 97791538487145979715991288),
    (False, 3643468492223761182200318, 1243493290078641444721181890),
    (False, 589114012992951359164582900, 113812231862709445634768400),
    (True, 402134520860947056301868, 2214314123698948036549168996),
    (False, 1868060430340796835383124170, 1385652440399406108346904006),
    (True, 4895947220084256684051340, 1025612775772757717772510218),
    (False, 400755328143653704152545037, 260560584930054652833386263),
    (False, 25866037444422549740564498, 1801306570209216981074184575),
    (True, 6364584392023492508820696, 59551806837762223168752687),
    (False, 1351146207257546452092672, 1980211498511513267337947553),
    (False, 1493948466906247579637940583, 1497276532918083971022653210),
    (True, 5290350354324558483521342, 1825390753317626536163147404),
    (False, 1269475002223986604037211289, 1431867353030928513419183799),
    (True, 5059239086376152471376658, 236853469163531064126857453)]"]; simp only: chain_eval_dense)

lemma prime_92_full_2: "pow_is 2624747550333869278416773953 9274061155462587152010873 813089590462444 1164904945113448648556351772"
  by (rule chain_next [OF prime_92_full_1, where B = 2624747550333869278416773953 and A = 0 and ss = "[(False, 21373318682653448403526821, 1319738745945808147051953796),
    (True, 4663053343007435897861379, 2006269439336149971713762721),
    (False, 1533525409977882455548902960, 1169575476923793452436722961),
    (False, 521157471333774724992658304, 1426004741806567079328251809),
    (False, 774737183161158906676228974, 284822503722270259484658259),
    (False, 30907299491070544304551952, 1272846396464331381088004825),
    (True, 4497367878605641302714488, 1141185193560933527482331161),
    (False, 496163391346741749509997679, 397405532393289735173952834),
    (True, 1404159120165949527918611, 1200583986277270953788424799),
    (False, 549158302070641134165695720, 1550843275262010035458609241),
    (True, 5479618554358991057346648, 1945642750205248456912017849),
    (False, 1442243735381226270346797377, 2572839912983993615192265520),
    (True, 9090655096789596985755397, 1133268645975879057044224619),
    (False, 489303370828420788859382762, 2272276034778875232066896975),
    (True, 8028668092651727927538299, 1819589292675422172137683228),
    (False, 1261418529030684979357115770, 319942862389716505130961174),
    (True, 1130459068979245724251336, 2210494923517753540118593694),
    (False, 1861622008667546208832276508, 1664769056706905366028369512),
    (False, 1055894313270725339590243421, 2211815924756194424408704931),
    (True, 7815043449876076756042978, 1904451270433438909781762729),
    (False, 1381822278867996831712282539, 512854580548257692021620774),
    (True, 1812077029373228047812356, 814210471709097850118312434),
    (False, 252572363447458205201652578, 1971920158561455040973303522),
    (False, 1481464040702283410173107304, 1164904945113448648556351772)]"]; simp only: chain_eval_dense)

lemma prime_92_full_3: "pow_is 2624747550333869278416773953 9274061155462587152010873 208150935158385979 1"
  by (rule chain_next [OF prime_92_full_2, where B = 2624747550333869278416773953 and A = 0 and ss = "[(True, 4115976677417496047312234, 879208981799728139767375954),
    (False, 294507726496968291365643166, 535204821654236048096154918),
    (False, 109132095803082761759788779, 973640035823397928386713337),
    (False, 361168036612741933803736339, 422886813856537914838897502),
    (True, 1494192526456645723895674, 1946225211733846219023959924),
    (False, 1443107385434704120405196894, 2212115574176144386702383794),
    (True, 7816102205810704204402111, 707819287696565783903977379),
    (False, 190878602390369032352443863, 2473375982634366783750609202),
    (True, 8739217651802639540525813, 1880464607385245832295304557),
    (False, 1347233237413155015828225293, 1293431710853162151046773020),
    (False, 637381522816446081262324101, 2543631188804192631858979147),
    (True, 8987451459440909264620979, 1961453858274210751559705344),
    (False, 1465779532835227861145406199, 1262578066725016388754223689),
    (True, 4461086630165291582268032, 1)]"]; simp only: chain_eval_dense)

lemma prime_92_factor: "pprime d \<Longrightarrow> d dvd 2624747550333869278416773953 \<Longrightarrow> 208150935158385979 dvd d - 1"
  by (rule pock_factor [OF prime_58 _ _ _ pow_is_mult [OF prime_92_part_2 prime_92_full_3] prime_92_part_2, where h' = 9274061155462587152010872 and u = 2035673288804527262494271578 and v = 7192675947259547095846255]; (simp only: chain_eval | simp)?)

lemma prime_92: "pprime 2624747550333869278416773953"
  by (rule pocklington_third [where F = 208150935158385979 and s = 0 and r = 12609828288 and t = 0], erule prime_92_factor, assumption, simp_all)

end
