(* ===== verification/PrimeP256.thy ===== *)
theory PrimeP256
  imports PrimeCert
begin

text \<open>
  The certificate of the prime of secp256r1, through the large prime factor of its predecessor.
\<close>

text \<open>The prime 115792089210356248762697446949407573530086143415290314195533631308867097853951, with base 2.\<close>

lemma prime_256_part_0: "pow_is 115792089210356248762697446949407573530086143415290314195533631308867097853951 2 894 86844066597727799882528697790841123085229325249475718990136478243060579303418"
  by (rule chain_next [OF pow_start, where B = 115792089237316195429848086744074588617105774088927458618074203789970708103168 and A = 26959946667150639794667015087019630673637144422540572481103610249217 and ss = "[(False, 0, 4),
    (True, 0, 8),
    (False, 0, 64),
    (False, 0, 4096),
    (True, 0, 8192),
    (False, 0, 67108864),
    (True, 0, 134217728),
    (False, 0, 18014398509481984),
    (True, 0, 36028797018963968),
    (False, 0, 1298074214633706907132624082305024),
    (True, 0, 2596148429267413814265248164610048),
    (False, 0, 6739986666787659948666753771754907668409286105635143120275902562304),
    (True, 0, 13479973333575319897333507543509815336818572211270286240551805124608),
    (False, 1569275434212045600291673085333030771571481845612104646655, 86844066907767186576730911514326441539191971679705562490946363540664756469759),
    (True, 1, 57896044605178124390764376079245309548297799944120810786359095772462415085567),
    (False, 28948022302589062200090014341893416166541899416286291633569625676743996080121, 86844066597727799882528697790841123085229325249475718990136478243060579303418)]"]; simp only: chain_eval)

lemma prime_256_part_1: "pow_is 115792089210356248762697446949407573530086143415290314195533631308867097853951 2 3666498 71309289999291770617030553863222833092567467304158116702692212365320312620901"
  by (rule chain_next [OF prime_256_part_0, where B = 115792089237316195429848086744074588617105774088927458618074203789970708103168 and A = 26959946667150639794667015087019630673637144422540572481103610249217 and ss = "[(True, 1, 57896043985099351002359948632274672640372507083661123784739325177254060752885),
    (False, 28948021682510292132272406057371184035276482887658093174820167126395392094961, 28947997472478208058545590268994253644350031124880719080956946622619934782314),
    (False, 7236993160597162976647285314669727912743611717768931684319769692067399117643, 71334287514266602186450962611705214715589843055351223290600570536270285837103),
    (False, 43945839563562672186681062537139365004762776105209244240480280038235197068495, 105024912957414421630718415544740397544680024493136381424373183208888598058864),
    (True, 1, 94257736704472594498739384140073221559273905570982448653212735108910098263777),
    (False, 76728220288947542565323233435462008071344883470806601023115118951569240036906, 383076626384959739493696848832405924511928158277572602809822728729232390123),
    (False, 1267337887097706550623213516429058979729003966561094269425874321227806778, 98839392962354574637834944546850569990832380676699931430792234207912976075251),
    (False, 84368678964063496578130476036020885702758098100313747192922766717246120368406, 112170038348753104748164249554201645750301404165654592564966088721247512040895),
    (True, 1, 108547987487149960733631052158995717970516664916018870934398546133627926227839),
    (False, 101757086065743451066261777345222271290853669161037673646541587726311977161772, 47334118857401918126891387623520697253178088558057719475475250125890582248749),
    (False, 19349498081309890137675302123294495747946732898608970038036840466783170766486, 78983805000892770290497080188987887293344165840284402323096213285655358578815),
    (False, 53876231916723186033880294753058113825177141626620236821840570173954673170288, 12278416660549992198107253705988641543602597643703264925331943968094190196337),
    (False, 1301984589087006006337255812425941008540147197136961450252960660956333887233, 79361575684359366305099337305117287381026931429166927733343563813650670709986),
    (False, 54392832343342796492539808318726455721095523525356716312719786465023331521117, 92752025574341251892377615718504984481306548492175019376785429928722181736929),
    (True, 1, 69711961938326255022057784487602395432526953569059724558037228548577265619907),
    (False, 41969686102321400738969372066078871919024513500400950574559049416217534333148, 71309289999291770617030553863222833092567467304158116702692212365320312620901)]"]; simp only: chain_eval)

lemma prime_256_part_2: "pow_is 115792089210356248762697446949407573530086143415290314195533631308867097853951 2 7508988529 13253936333960129116838406471613717790946278508815755220235231180432751777439"
  by (rule chain_next [OF prime_256_part_1, where B = 115792089237316195429848086744074588617105774088927458618074203789970708103168 and A = 26959946667150639794667015087019630673637144422540572481103610249217 and ss = "[(False, 43915045275375325016505660598248499252525435434119172424088585569575030899584, 73458465672962289674550203811096096908072505615572173354096588862668363395417),
    (False, 46602027960845850799496212300495745869940629461251804243350523750456136126221, 6931374092042012695119389787954771799513600708478170585540899767589537054718),
    (True, 0, 13862748184084025390238779575909543599027201416956341171081799535179074109436),
    (False, 1659662490985930547396356331729107459607114403478758509458615302680820942973, 64060204549377441586222576684910992926327708738050710058771825727512050501773),
    (False, 35440329601903835363644779369874591150069645604732072047626465621389904111029, 9573235470803055040565856513903673503354246931857227517268711885062745817950),
    (False, 791477535334469573177449543177905966248814141464144058793323411651274810785, 58758795416889589344423154527771698758182363107685068226801514765197452540965),
    (True, 1, 1725501623422929926148862106135823986278582800079822258069398221527807227979),
    (False, 25712946996113763889453381823767775857625920178119518293632266181225398313, 47034127464945470598639493681390068941734790230952868893852000296258604639778),
    (True, 0, 94068254929890941197278987362780137883469580461905737787704000592517209279556),
    (False, 76420044287131891332112492500656870543662745026619527777061348290255752418485, 76580034905391196343394220980710339692734607639967927475500537781714996872901),
    (True, 1, 37367980600426143924090995012013105855383071864645540755467444254562895891851),
    (False, 12059251920198845699720269319536619204982051746301942114305270500500864922906, 52944426466722564662795605054235550717758932534835948934266947051607025704595),
    (False, 24208150254529539711841391183542234539233312024509695930073268287342721380177, 38279631727767543106042288544843381194284488137181487228188298021454711584698),
    (False, 12654838644041417644167459944471904244944637185731174118048279860085921467158, 3121052873332021368469833587870691366939214640333922541217561269543300709946),
    (False, 84124667795205914932780525706678776716935005407034291456318686653617161771, 64523012772158188939767926710510645660516210962053034707884431244649924815695),
    (True, 1, 13253936333960129116838406471613717790946278508815755220235231180432751777439)]"]; simp only: chain_eval)

lemma prime_256_part_3: "pow_is 115792089210356248762697446949407573530086143415290314195533631308867097853951 2 1922301063679 35612264057099511145403203348888610423459895911475661783871984699571849926805"
  by (rule chain_next [OF prime_256_part_2, where B = 115792089237316195429848086744074588617105774088927458618074203789970708103168 and A = 26959946667150639794667015087019630673637144422540572481103610249217 and ss = "[(False, 1517088339476623961141775926338704038122888912061772321724585774675270275366, 82554939754060018616377463522056401610998360190645352692992338507854368327655),
    (True, 1, 49317790297763788470057480094705229691910576966000391190451045706841638801359),
    (False, 21005272954662849587464362157907831908977949754780502949755281112595791495012, 46119040293908725296737757517206740204180319560008606361220264925851139254469),
    (True, 0, 92238080587817450593475515034413480408360639120017212722440529851702278508938),
    (False, 73475343337736214526071773443294254122692232760258856060220166941903196710674, 54532407177766905045163479349545773584287297901429450347633175588152891114870),
    (True, 0, 109064814355533810090326958699091547168574595802858900695266351176305782229740),
    (False, 102728379905102992178707661501743120910325589882840149793214965089989538728976, 21894412811152705516495264699444642786507491178626704748372114961276320683424),
    (True, 0, 43788825622305411032990529398889285573014982357253409496744229922552641366848),
    (False, 16559518551369020244855611456889386945478173850956052681173927122064811653844, 35129336327646797387935575773592475637354458101643698096244579130478233717460),
    (True, 0, 70258672655293594775871151547184951274708916203287396192489158260956467434920),
    (False, 42630555480487930172689870276883032966578825094751602636030617892981281655561, 20604216744134921099184814289015709811309210800659480718098219724016970434889),
    (True, 0, 41208433488269842198369628578031419622618421601318961436196439448033940869778),
    (False, 14665380011169891484404168069872222718707749532703082255822266023451163463326, 58279906445339198386084741455746500315484628343221528422022499617211861068258),
    (True, 1, 767723680322148009472035962085427100883113271152742648511367925556624282565),
    (False, 5090154719089987731781574036244473581671041629308089269308634839326635697, 75702176633727879954050325149148091976773019663382987989702808004219473890378),
    (True, 1, 35612264057099511145403203348888610423459895911475661783871984699571849926805)]"]; simp only: chain_eval)

lemma prime_256_part_4: "pow_is 115792089210356248762697446949407573530086143415290314195533631308867097853951 2 492109072302079 39553444776334473142220880454188182257302797537750140290826263780999410016962"
  by (rule chain_next [OF prime_256_part_3, where B = 115792089237316195429848086744074588617105774088927458618074203789970708103168 and A = 26959946667150639794667015087019630673637144422540572481103610249217 and ss = "[(False, 10952676991332436258372004245433158069303509861116357681945772197686409271480, 34694201886224940552702716696213897554835566253803058018866349757506507890545),
    (True, 0, 69388403772449881105405433392427795109671132507606116037732699515013015781090),
    (False, 41580997552792352045314878346568297175373669308758418745823474188572127209008, 105886077184271788392693301091577950967618858265288642008886738887570765997492),
    (True, 1, 95980065158187328022689155233748328405151573115286969822239846466274434141033),
    (False, 79557878008698748834051291070895262340944602264592369811585276682819279986571, 7087001929928577242939434002723382772582353204583274982072422929802335015068),
    (True, 0, 14174003859857154485878868005446765545164706409166549964144845859604670030136),
    (False, 1735026864005120170587157250483614265316234560743482318178157305361091807962, 92910891897268839991894095039480341332900350022703001483692890878534333220634),
    (True, 1, 70029694584181431221090743129553109135714556630115688771852150448201568587317),
    (False, 42353136185706807895115033140995145088578202067773305648041723578354684007125, 78885602606547236936563856507248595184682249911069068302149263838142359857614),
    (True, 1, 41979116002738225110430266065089616839278356406847822408764896367417621861277),
    (False, 15219055052801830084237088744999124982141249448566883520137881010532648503894, 28118273247087485387263374931084728864609883500704679126865521835767565285535),
    (True, 0, 56236546494174970774526749862169457729219767001409358253731043671535130571070),
    (False, 27312307629635981592892189211778422250184097265088584496802125960987997909310, 17540355682260107841257199978197568584765153050528361821605911722928597761090),
    (True, 0, 35080711364520215682514399956395137169530306101056723643211823445857195522180),
    (False, 10628155327650051523944403903794950131029617176298178386850289980027246636369, 19776722388167236571110440227094091128651398768875070145413131890499705008481),
    (True, 0, 39553444776334473142220880454188182257302797537750140290826263780999410016962)]"]; simp only: chain_eval)

lemma prime_256_part_5: "pow_is 115792089210356248762697446949407573530086143415290314195533631308867097853951 2 125979922509332479 13052224098019038327404731332412262078785912998741174386528438644516398400513"
  by (rule chain_next [OF prime_256_part_4, where B = 115792089237316195429848086744074588617105774088927458618074203789970708103168 and A = 26959946667150639794667015087019630673637144422540572481103610249217 and ss = "[(False, 13511069748749440654601162081404290235598703366233552784674405718534829013571, 6189566243789827306859165966782539867821876236613404497517992139840772740423),
    (True, 0, 12379132487579654613718331933565079735643752473226808995035984279681545480846),
    (False, 1323431697191834239852531836525126199160107510692426454993516055818724229931, 85145614279156108095037831822471412207286219171409254597757496725750172068335),
    (True, 1, 54499139347955967427378216695535250884486294927528194999981362142633246282719),
    (False, 25650769494901527699854815128071608318888097275687272358034169250830616031813, 47311963643280928110942661432481735095451991059469190246830315977083834289798),
    (True, 0, 94623927286561856221885322864963470190903982118938380493660631954167668579596),
    (False, 77325555451950017345329083476320011828643389658161495252866332960477555815844, 109216645035882182727753911509097247543868667978060088688986781779588823723572),
    (True, 1, 102641200861408116692810376068786921557651192540829863182439932250310549593193),
    (False, 90983902148383331804972215522062594865149302929591275337003131479781743834682, 13820545712801132303545432044684919192426886422806068990670949355150267406667),
    (True, 0, 27641091425602264607090864089369838384853772845612137981341898710300534813334),
    (False, 6598291303048442506342916214841391747373367646588015563545856754169111523717, 95733636683125799518928075633528559153776786551720349444621066122307885539689),
    (True, 1, 75675184155895350275158704317649544777467429688150384693708500935748673225427),
    (False, 49457035761960198681008406067272900154038069813782416723751728886656154834661, 38008308959841960537683848631008365710075789628893473320302602793141228736718),
    (True, 0, 76016617919683921075367697262016731420151579257786946640605205586282457473436),
    (False, 49904326274392750204173652881240566062540312797445828418985430110419329166064, 64422156654187643545051089140909917804436028207015744291031034976691748127232),
    (True, 1, 13052224098019038327404731332412262078785912998741174386528438644516398400513)]"]; simp only: chain_eval)

lemma prime_256_part_6: "pow_is 115792089210356248762697446949407573530086143415290314195533631308867097853951 2 64501720324778229756 48646612214079607345598193567088848797987038651246115085888976763096665143247"
  by (rule chain_next [OF prime_256_part_5, where B = 115792089237316195429848086744074588617105774088927458618074203789970708103168 and A = 26959946667150639794667015087019630673637144422540572481103610249217 and ss = "[(False, 1471262459004601314463596819022905057369034115762103182091503697848757967713, 55817216210966847087542253626281046275409412772462078728035829017630311179106),
    (True, 0, 111634432421933694175084507252562092550818825544924157456071658035260622358212),
    (False, 107626061392911446792413852430069447228188679091323813309393641141744640699920, 91697009419452440440838196738156788361556559046943048364055634123781466453024),
    (True, 1, 67601929628548632118978946526906003193026974678595782532577636938695835052097),
    (False, 39467470711241873451420161019002544183246494346330158140747291565596060373474, 17548766260956347237729335015816524670095094697975157267023519727297737601635),
    (True, 0, 35097532521912694475458670031633049340190189395950314534047039454595475203270),
    (False, 10638350145741613089196680992919485611302647046814860623775208307295170369052, 37011954208960475392341975300508036435792316652582095225619302341533952368448),
    (True, 0, 74023908417920950784683950601016072871584633305164190451238604683067904736896),
    (False, 47322222570060230764318800965355206034707905319594518844203051181055160616233, 9567747476353737509046812552583274714252962853224322434500480375665989928233),
    (True, 0, 19135494952707475018093625105166549428505925706448644869000960751331979856466),
    (False, 3162281375024571877246122448461073974401228663425857038483046592968522037040, 7645063334485066896235316187710478228201271439434725464542443897551029664116),
    (True, 0, 15290126668970133792470632375420956456402542878869450929084887795102059328232),
    (False, 2019032346229073118157596772654396376040871911956886059069899216498523209118, 79669638910549427313246127431931654614003223539815482844285889828183716720606),
    (True, 1, 43547188610742605863794807914455735697920303664340651493038148347500335587261),
    (False, 16377264188182412597340432874829949793487990520147766424116966988887723478301, 18322757563589145645898826718736561431559358696621727960170774781095529864870),
    (False, 2899364257295365451833692765721623202068327127191498471837334000365629301803, 48646612214079607345598193567088848797987038651246115085888976763096665143247)]"]; simp only: chain_eval)

lemma prime_256_part_7: "pow_is 115792089210356248762697446949407573530086143415290314195533631308867097853951 2 264199046450291629082637 17944475805346438035339562814428968908305941901638479878748601689344725000149"
  by (rule chain_next [OF prime_256_part_6, where B = 115792089237316195429848086744074588617105774088927458618074203789970708103168 and A = 26959946667150639794667015087019630673637144422540572481103610249217 and ss = "[(False, 20437431400066526422840946778562353066488775306259555654207279114808152912968, 7974340395010739489082242255998695609449834822023109932506550784160951766441),
    (True, 0, 15948680790021478978164484511997391218899669644046219865013101568321903532882),
    (False, 2196699452239009958623438864389749527899414556396974275311157403122427751055, 104550621805809799969437537030241536310829697981796550345208083037075079057619),
    (False, 94400512112047084922550924865077014606424184218432342526254172596120850063972, 14593136065746350248656458757234219223630374945565821659750489406994858995789),
    (False, 1839155176192641985505206319927154961239220212526436521117638622916856558951, 20747996756975292490361890735046069265687129118001806308272156092986899967120),
    (False, 3717692394731883869716712521739852480072005983951906576393005999140634770092, 61971262412029467989346311742706265568001230874759322911400735458791602260908),
    (False, 33166664416632135241044787085046555024347379573683152247859828042585952567120, 34267518456922693902624229135925628111139714714697712551867990833826020293344),
    (False, 10141131654186557353053258438779390460861748475852282345488240004240328398256, 37428376865499470713210013865123672283317643677411407343725263096848959592880),
    (False, 12098265126220413174436040064838164284191721484497366385015093094597235795293, 5853687037222053503966555401323074017185935112871595991462679263696299441757),
    (False, 295923945784345005211690621216547226225926740441872982422696610431227929387, 59105830418763754409707557126960662971652673148693658808517216331908768289012),
    (True, 1, 2419571627171260056717667304513752413219202882097003421500801354950438724073),
    (False, 50558953542817482708509640303436123752765120484663841541860143390894942441, 32055104119565259367837412114453582368552494625431897501713674369621460274938),
    (True, 0, 64110208239130518735674824228907164737104989250863795003427348739242920549876),
    (False, 35495678750540037484927240359817752705776489538326667701572423368529611531297, 28689158107635476999230309691627082683466428019333331501071210620726632010929),
    (False, 7108152193624058311728605358545126817469904870399090719585294161146546204041, 66868282507851343399018504881918271219196042658464397037141116499105911427050),
    (True, 1, 17944475805346438035339562814428968908305941901638479878748601689344725000149)]"]; simp only: chain_eval)

lemma prime_256_part_8: "pow_is 115792089210356248762697446949407573530086143415290314195533631308867097853951 2 135269911782549314090310523 49661793777554847569049491446555001557746054268595907365547553733617922828073"
  by (rule chain_next [OF prime_256_part_7, where B = 115792089237316195429848086744074588617105774088927458618074203789970708103168 and A = 26959946667150639794667015087019630673637144422540572481103610249217 and ss = "[(False, 2780882650313767578215233606505802424456988936709724267238536607543332648142, 111138813242270870354315199216226846627741068527867806663273741871286062513159),
    (True, 1, 106485537274185491945932951483046119725395993640445299131013852433705027172367),
    (False, 97926980382678781485346585423156909453594538021323348822429859178480336402244, 103664559590482587657770811487945520141143660199932511914930520607490827716645),
    (False, 92807211514822386266204573584839501924629128370291755739524834721849420606342, 6722690399705704438436861503264869860919899590073018272733481589039029698783),
    (True, 0, 13445380799411408876873723006529739721839799180146036545466963178078059397566),
    (False, 1561231566629445303663206454616557837543389329865011441622484402502172029642, 53652533757837825341336986484003780037862657454618667538983825789570687908814),
    (True, 0, 107305067515675650682673972968007560075725314909237335077967651579141375817628),
    (False, 99440105045741616126093385667015110149356837061498896977080898643693511483249, 112249549491624604197303894130227892349978147896384632116913224033402730579585),
    (True, 1, 108707009772892959631910341311048211169870152377478950038292816757938363305219),
    (False, 102055451752803625801644606871186584561909681232077859576452831877790952546427, 62146281931608974279678459534821833761301288702804222978676014020595759754884),
    (True, 1, 8500474652861699796659472120236093992516433990318131761818396732324421655817),
    (False, 624032866292575676781141387383451522643154137063830409504066587070366622821, 84111082985031863031415548380605781094626911746094752473939928108175448321718),
    (False, 61098079576598309337402976269224004542454884027977770881303364300970102782080, 57456717867865703830305366215981470663553618842315122163821462288200210473444),
    (True, 0, 114913435735731407660610732431962941327107237684630244327642924576400420946888),
    (False, 114041449658972303115729049683681518612199074032662421445434712601103597922132, 82726941493955548165873469197981287543916098841943110780540592521242510341012),
    (True, 1, 49661793777554847569049491446555001557746054268595907365547553733617922828073)]"]; simp only: chain_eval)

lemma prime_256_part_9: "pow_is 115792089210356248762697446949407573530086143415290314195533631308867097853951 2 138516389665330497628477975950 49835480456766173544607506164699712169824023691580347094409044481755491731278"
  by (rule chain_next [OF prime_256_part_8, where B = 115792089237316195429848086744074588617105774088927458618074203789970708103168 and A = 26959946667150639794667015087019630673637144422540572481103610249217 and ss = "[(False, 21299328633098056503760802930608988898836918046296017591218468664353138248450, 25654198806960641093593699160212141291066192816057659874055333028724264767379),
    (False, 5683789980086118334591339631534124480850078800684797826528825523874790669163, 78365767409440217222650425367078838044261142916113981133159582025960449116628),
    (True, 1, 40939445608524185682603403784750102558436142416937648070785532743053800379305),
    (False, 14474548461497214332601909842090855197542673130496757100233293731553392650560, 97530949625031163420501959070469998930065515250339063536601454689530213920465),
    (True, 1, 79269810039706078078306471191532424330044887085387812877669278070193329986979),
    (False, 54267116403052884675798181020075669130544286000201753230559999703962454685678, 30503699335663496299687278202488183873825318175163869052117209071822254132663),
    (False, 8035744751700511280302392902687226041950248740155673391028776455053434219020, 354626717653769480501081091688754230493990064231197309032532322592697123549),
    (False, 1086085497994785009219871696345638817174807311710688084209093118009144717, 78318047510469982548108653672770494929984895257795342696749929409554881128534),
    (False, 52971810144208402346537049492210737413539868085671967021503569712567065063334, 19244372208698465247406227708408662211734507769468849558755087163666131856522),
    (True, 0, 38488744417396930494812455416817324423469015538937699117510174327332263713044),
    (False, 12793477144509548677985441818848979705279662689525061522336918786842824378085, 41802995109468382328226687003291401334150644790508815467914299620695840682101),
    (True, 0, 83605990218936764656453374006582802668301289581017630935828599241391681364202),
    (False, 60366486589515474506887416162073951193461335577767180402204569340306284037790, 3765420679261792590048181320362410998009976466243416055508008899983782288514),
    (True, 0, 7530841358523585180096362640724821996019952932486832111016017799967564577028),
    (False, 489787963530214912387912795203782825022867742497783589067581846768027647806, 49835480456766173544607506164699712169824023691580347094409044481755491731278)]"]; simp only: chain_eval)

lemma prime_256_full_0: "pow_is 115792089210356248762697446949407573530086143415290314195533631308867097853951 49835480456766173544607506164699712169824023691580347094409044481755491731278 4684 106740602738331188596261631687916461420097739637945631406243582803447036182945"
  by (rule chain_next [OF pow_start, where B = 115792089237316195429848086744074588617105774088927458618074203789970708103168 and A = 26959946667150639794667015087019630673637144422540572481103610249217 and ss = "[(False, 21448573294544170472655412528810831098693183198980888702170054916863537234831, 93113400196744933169596744545737750910068619147406646832811164272688935346003),
    (False, 74876490745826700175428160032438036345155585077531259588882631235768349046012, 112003738346499202821954465974961657099273101764124776941024808540969973082597),
    (False, 108339330338890430214693724279211726791503850837409467813881267972039429350232, 84130139020408375770667120702234023794294777483307623079878411925877020297777),
    (True, 36208569407188811051844550611062306190611803008716252305086001570462526354207, 16346905657406051443772244718933393580989117033493703202305667065823044347149),
    (False, 2307768401057869049033309135123235413591482885653443070215356069943334613975, 61337360029647253300638896715041560784000029629514201073812665489506110862976),
    (False, 32491612864603856485014642652131876530273391378890038849427686569677890237923, 99644022771642597367978176980665984720801634133652959190709128229945351992803),
    (False, 85747924075175954760895717507042556377688908473550011068836150817310585861143, 105270755088114387843990745859018791812199033886542520759285535394984783870816),
    (True, 45307228616732911237235742741243393044361984343699143335432606118045844158430, 92559402320388686490308619144853973188016603973281120713519121476587493125918),
    (False, 73988154254162423644368117613006722947767236311343173159432618032318594512805, 33142648805271654093525409952314163349313098883146954568247641231123114000169),
    (False, 9486271275700692818139365060269083635650301225777645916509126509341719957386, 69373413200539461397798810990584993008136956260076958254163223466984760296475),
    (False, 41563033294526183268656270273123492419021146255399092825194162417801973393748, 14725008382126762008721452554584300285548535853423826493454175617838776927277),
    (True, 6337461155226863420469739776728166905562560328043614364466895801068903078813, 99712949985582419183957345880312879965244343946945906913280940783172915829843),
    (False, 85866594709805142326815908693010423644084991661556727362196407046179452585081, 32077698738105582900875619855098485126926957283139269605460652244598989899618),
    (True, 13805844073309258225767446762927104118798401228125871846235082535840023067148, 33682893403183782337971845921566021128463925347947773878072398208070680750056),
    (False, 9798055426300836299463576348505536855781043019203967911226586798240291600375, 90163839108564592042454296612235149291024517714823036645986757318864937171511),
    (False, 70207886723819743186775238241776900995647592939950142631859040255410331584976, 106740602738331188596261631687916461420097739637945631406243582803447036182945)]"]; simp only: chain_eval)

lemma prime_256_full_1: "pow_is 115792089210356248762697446949407573530086143415290314195533631308867097853951 49835480456766173544607506164699712169824023691580347094409044481755491731278 9596178 35995447062781632245280591162231610376561336165413101578947259825763121796100"
  by (rule chain_next [OF prime_256_full_0, where B = 115792089237316195429848086744074588617105774088927458618074203789970708103168 and A = 26959946667150639794667015087019630673637144422540572481103610249217 and ss = "[(True, 45939832833016899399396592741068699958709872273384339395326313534781249311287, 73584430746550582421469543324906080093916079548032300834541481128372324808773),
    (False, 46761989400305421812644003799163447131202353630055861080981055108494996715379, 20971854721007271915654671957779531142749880703661512524125828057926160153100),
    (True, 9026026416987919219114221490589466900627402219430168300883606268280654350732, 78212725842336451567463347567907317486783962539190005264838377906488072719668),
    (False, 52829433559795978199145516942699259993636962819839621689223097964303658692282, 64454621570206209341624298131441620123699973031594320878628269068828827124042),
    (False, 35878083469167850522915543142614979757925268891988454583103211249461916164294, 1116370257583757544051529311212647305050879059752379335350941144127921392170),
    (True, 480471926309750713389958210724011821571568383067769987191149612576366061256, 65732466738261353030761595034184240685705317071310742572481075174737085670804),
    (False, 37314787331000103410517824808644404553340765725667404550511857873628197628424, 61997097017394545743969605186078911924648342864177821369847905618024539703192),
    (False, 33194323246051795140912862749207237132654909670127159622360090837179829936053, 10594167377580439941814940833080784933801630698616637101132616406049591593461),
    (False, 969292316855022109437698916587575552133806280299256230933329327665451755290, 34629165642460833764918311599882756714387078742049676995139639257116086307731),
    (False, 10356312950830990762870066394031648792056950134064950008432323979844153924190, 79229218018699382661798617269254754283177450778295308711072634958152284393671),
    (True, 34099273733655190812242032932923039842952075959671344333111735605560305737305, 78719579221955249691855020906976812825612603910862622364100223627526033599483),
    (False, 53516368822261994785995586006923516504319310068886159945409393928089585524341, 94405583468800599396674739500207361691015466012151821239811224009885084345998),
    (False, 76969111196307577726703401771388484631491407276129240640665741886116628269879, 86238883739782847545826868768636129878684168035392381767328445654608424174075),
    (False, 64228438396796943978316654526134642367283071197985994350051059948200000853150, 25172645846970865608672510045347535936077499139265135472506030396111803809975),
    (True, 10833994867065695962941524512302768800761034463097472903744743965422868077890, 59819354489464390897308805586596641166292903142703745348832039346685963654660),
    (False, 30903278418575779006245842980098606992596106363539661963643946430303822144500, 35995447062781632245280591162231610376561336165413101578947259825763121796100)]"]; simp only: chain_eval)

lemma prime_256_full_2: "pow_is 115792089210356248762697446949407573530086143415290314195533631308867097853951 49835480456766173544607506164699712169824023691580347094409044481755491731278 9826486746 38897640320159468466872147705236990859582817250081523122473256431599285106526"
  by (rule chain_next [OF prime_256_full_1, where B = 115792089237316195429848086744074588617105774088927458618074203789970708103168 and A = 26959946667150639794667015087019630673637144422540572481103610249217 and ss = "[(False, 11189643593835701372204138363905077822868379384718104410695506233904189847656, 85266826129279451092986020299828316631009937934296316494240973585090747521144),
    (False, 62788673110066985663714308585467197086574128812545423356352776692071213442739, 45234362175057882114678355163763017004339055703579203404223468998331403656947),
    (True, 19468308996947966419791266427716002684632758514590985027336517368843333017741, 8547466787125708624371946270313145314037749009470428773732095444507711943575),
    (False, 630951466332838164300100965135227976152658871082718915198778441165589158140, 12525448468190481371063681401714328956338422547257577458782041076957220969485),
    (True, 5390797822248033987687477051133567507431076935373663113483657759296555173794, 12142320210972766631619099326004767608187692107373118028579311728985023491736),
    (False, 1273281630128937259522237808219015426428798070178808266729455937091541790231, 42404285887488068564299044889779890527939780620932513550101339796648943741015),
    (True, 18250279229265628158363988974659223017966530622499935512714821482719570151237, 53888963088259672647858293054688037337443277845255679715780820621645198979783),
    (False, 25079609173059836316930608699323533055952942792943268770450417182407406355758, 15217296879123290294740662157250219059567331272749971392965699689264610827231),
    (False, 1999844081634072009469716579545880516062023739657975281818832169232017901201, 96451672218247868816883835997708398542560388648744341089608577369271885632210),
    (True, 41511604623720737293271404630975171202160343381829250300597690237240802119242, 91590497669958691634924006381607320011579796142173512739279921835355458439238),
    (False, 72447257154078766757468273667237625018823077023682181817867164527599268342755, 77998020868994800150623806549123901243977023181557405362723361824882139045639),
    (True, 33569381735756587863069311600892142556016239397355962778782793183742042895187, 24544249943758801822031343734293778362447745222740175411918821663496238962805),
    (False, 5202602435191440533846071316376079013217529047035069165662217353765927237884, 9729055371390716335107179259139951256304063218966754676611849408948707188341),
    (False, 817452375763169226964039663777009078789494068208747630963918661122960693119, 94399386946593052303872208112815128420296126414523216755897031079073253669112),
    (True, 40628326471951149759763069573061185836953918972174839890977414927756774726582, 74678783810389891989124886061264596317547742349567568055622603957283639459654),
    (False, 48163227638699182125039113690335108328909432589949550632663134902720437317690, 38897640320159468466872147705236990859582817250081523122473256431599285106526)]"]; simp only: chain_eval)

lemma prime_256_full_3: "pow_is 115792089210356248762697446949407573530086143415290314195533631308867097853951 49835480456766173544607506164699712169824023691580347094409044481755491731278 20124644859011 6159462503583904173575313033415314526548245647057193520437885198746834247990"
  by (rule chain_next [OF prime_256_full_2, where B = 115792089237316195429848086744074588617105774088927458618074203789970708103168 and A = 26959946667150639794667015087019630673637144422540572481103610249217 and ss = "[(True, 16741062426708961301842321644252806026494688229223963360040821464254534122986, 67335370800874809036429006211322145411285326192409727917453632731987896102542),
    (False, 39156838708164407653441577503906943625692839529074446989796461716694952025597, 112406301014692398892490621099678634514194268826417421213806873035614659278017),
    (True, 48378279169472496694125079917957432205055959983789299880498806406273716875509, 57986702283224612543641536006196476045026128787086276926861403780121925929667),
    (False, 29038750959703678658443949335514997946471504409833733242709839503405520911884, 79748654587429413846576862488450159345936468987127219484619411793293258477205),
    (False, 54924718535403301499861657754842619487440425600690220363754916049563857089385, 25287361143905975527518200368893384078257654139092592970420194262804822201890),
    (False, 5522403455910132617199385587905069200093888747860803492136777261217602669458, 57116581366385384694054524119591533803698727109874005576263080039027307243542),
    (True, 24582268908463685755126433444855519794807087905460133919874452753498980955919, 14696119337392869370339922458537940632164065576737879198946643049192133920707),
    (False, 1865204480303790116592572740284164621542271384562142134788944226883566633886, 45440676137362746025072947036647890160528022346206832270198102892984247796263),
    (False, 17832436238968999847047197951290724193293934742627016661724578261259701710566, 6416368683192118510561625949366057902468722439502379919391554202389615218903),
    (False, 355549220671341032350642960795311721003166279726116575030110308082457382678, 28156253336685269610411906897945216029662303084126433587219050318322447262631),
    (False, 6846535090315098640150181769092922735766332420590056532483714868547162323671, 81595031872871992242007145571799700602621285586558467045762758740258540868040),
    (False, 57497444529565828536537008344873257457281816379878075431736918698344102761392, 22899664415629573992289071117748766196972065259867147316676017171260475981808),
    (False, 4528760418130104772686374035157421017635301403325758820695490598269270823256, 9409431630324875505085281716988029583971704627204820831713082911944924664408),
    (True, 4049702784707964991928260443258722755132378746626207347039085116149106527295, 57518248150792607597819836248436815706315551939492445948813898143302361860879),
    (False, 28571458489931660131578017042962567188824120765620828358453038241888817201023, 67092204275733451309582113341735114564313508715391535044977734471433888860768),
    (True, 28875653404184669205626603305126154782134502735049224623004880996810461108214, 6159462503583904173575313033415314526548245647057193520437885198746834247990)]"]; simp only: chain_eval)

lemma prime_256_full_4: "pow_is 115792089210356248762697446949407573530086143415290314195533631308867097853951 49835480456766173544607506164699712169824023691580347094409044481755491731278 10303818167814123 101754790422484487997628686688382562605790764842643730878100804981412610204782"
  by (rule chain_next [OF prime_256_full_3, where B = 115792089237316195429848086744074588617105774088927458618074203789970708103168 and A = 26959946667150639794667015087019630673637144422540572481103610249217 and ss = "[(False, 327647411768634870019908807765455431421335637772788430055152609426841949219, 3059443734082896351046986971991211824934910420967619686509003255732198525831),
    (True, 1316746674649578314341526523241363753082859558878631938967844716215326932171, 66511370764292553489567364448806455402153629281013344475601127152934952284397),
    (False, 38204358096593842048532788602811824934847194583108214332202735706725386350997, 51498617238709613836325641549625232381370407560752286319363032070323240414462),
    (True, 22164366758145122312005647897255660016043755905537222823764940544691796875604, 9563348912510295691093332796353715796634117396751513245533344440679342031032),
    (False, 789843615795404771571270586747954252860892313549023496167508040489567822909, 92207283716321632971453554977227507850344266812843002287271409666825737021565),
    (True, 39684872403228511389867051862167761196607796878134973815402619814240002630185, 77317977741812208077487069790672292841970546903730115905584075245472076899135),
    (False, 51627617420592317857246543774694839454432010694406112681050311224776062302763, 105222560753139898588472290594609018084882987845524808453205717560848445981612),
    (True, 45286486372119078067609230847642929281930201754487505858618304111616072807801, 71199570054112927167344366622187686471769342110985876192239312805098041788385),
    (False, 43780009588402327784495219269728705700208511617663126082352382440205242833600, 25591310128064608451566881694663576744573591190897214215296742326346925354625),
    (False, 5655957661157803012467326695965685482085772219918383247339041465015983998155, 9995338555143672067836262901490411821543412706517760549666911728924765430220),
    (True, 4301869865381724860599792699170260808702922445424338675332623327669383708535, 105852879624554335934854489404282093698137956579677389662471174209492118249375),
    (False, 96766818883929846590990262709383068893754590403972012048086514731895648262096, 86058010168089234852449926697402671725453263397221963169563070410530310749329),
    (False, 63959301232027271355734237693261873410250778612321267221068486700601349128261, 46483712298167536155035983176764097097037228424599011527212314955467729341030),
    (True, 20006013809672953267027140866592056770292238095409250184394677111924272952885, 9656484558450878962812088598203562176883563975672133049454034491735545637705),
    (False, 805302803183728640151170155034462195649643686374138432148001978559374749356, 64522946372748719618122437047001592046775345544211930673997354009888998361469),
    (True, 27769876637518160709473883676519617813414455363193396131341540208395344352600, 101754790422484487997628686688382562605790764842643730878100804981412610204782)]"]; simp only: chain_eval)

lemma prime_256_full_5: "pow_is 115792089210356248762697446949407573530086143415290314195533631308867097853951 49835480456766173544607506164699712169824023691580347094409044481755491731278 21102219607683324967 21305311941584572552022681814475988272738092341924565215920747179241574976055"
  by (rule chain_next [OF prime_256_full_4, where B = 115792089237316195429848086744074588617105774088927458618074203789970708103168 and A = 26959946667150639794667015087019630673637144422540572481103610249217 and ss = "[(False, 89419212007772403882740583402489795678046349118252376980408179083308387661803, 108388139477649143106053465177408472577687728487818282000772504382895900333871),
    (True, 46648912231566526614881521411480450513027527236683687410765525961154999781244, 17199332338816805296750950910631214482584621311557462067630183693193152422094),
    (False, 2554725758196374111892535980911703446240928013511748479018965960903566917099, 53551428589800227558186282862076103955601681509007748298822906275114712736687),
    (False, 24766419913183378188961934114372255871025820279434011490156298277643958176684, 38535261954121369514251329249084158944593507017086516536977315672325710257485),
    (False, 12824420251845158207926527743159561281014622806774254686500058849618391844572, 41209145977291244321589576712330399858833989785967246213776317766763450421253),
    (False, 14665887140982819131120189718091872308624861416080767946832226772967199591527, 75942245450580099616155623823649132398562896826181048943588713664037651016832),
    (False, 49806724132932761802139768884508341340990645593443068298134847805430177000910, 60994619816023500964482698483652165365386060710469688084773411821345173220814),
    (True, 26251328605766763146251000502347668169127076940781093240232799830544604953090, 59027102946620766548529766348815357469500085611013613013818422830148218261702),
    (False, 30090128833769631313839797968615730970146444775633961868299822132187892788509, 104803121258956794025177619826078107004778489039980791067671649428939546887745),
    (False, 94857034712154053220703623478080909021734505961209061174904748351908467201988, 90573440013091544130588216197390792839667035656524770467474587657651190330437),
    (False, 70847223603522138557503727555111181452193997560062236863062536858818822658547, 32905076845003001521837245736145929157131205060761227195241293246093100741772),
    (True, 14161937358764502512453786985421569087921140022369699855779375262030332852716, 65132432664402522771345331464259961935253701481644184889197605120338931863700),
    (False, 36636646024031756492749694231461245397575954393644232509545902314647234119353, 48606257638834221207287948385574024183641678723808765827329333998303681076297),
    (True, 20919531024577251508953182868851506468514518524616718724851863349956491512910, 11852023126320210104305366262151240654864305798271858908736032043380728310156),
    (False, 1213126502378244049850553256494872663444019447835276873098446557545422033486, 78438364009683393645460649414846880141676804383224523434417652441942273341150),
    (True, 33758899967370762251826711267074426441046573871608050520614065277464972853395, 21305311941584572552022681814475988272738092341924565215920747179241574976055)]"]; simp only: chain_eval)

lemma prime_256_full_6: "pow_is 115792089210356248762697446949407573530086143415290314195533631308867097853951 49835480456766173544607506164699712169824023691580347094409044481755491731278 10804336439133862383606 8924743888537371270313144705235740991824381941853219526216388040432521270320"
  by (rule chain_next [OF prime_256_full_5, where B = 115792089237316195429848086744074588617105774088927458618074203789970708103168 and A = 26959946667150639794667015087019630673637144422540572481103610249217 and ss = "[(False, 3920097823812550057951708692996388289921619905790573326163634324182945633396, 111512680563143207947094057377319457428193649703181401927875724546595827215429),
    (True, 47993675999664906569657661231006747735145896098212029204585281646754074043267, 72702957408214224029875833343595873153647192261520593999370910445035862590345),
    (False, 45648369002982508191046763354220107993687057487072309447839607036457013583428, 22000237812563605257995218259113290594145404524476283669233171959378189294997),
    (True, 9468629757257737224338282463355693841790119251460827409662849571956503015673, 3128046580474756285620083440318150349824629831406211978565272894371775842143),
    (False, 84502106114039188779671462949929383387388964587042897074700210835292972181, 103213963269926483315509250572564551208195070063044527106014404428639410895318),
    (True, 44422010903174528130595696645343308930337012603773175547508569015172049569469, 23548175857684211713764786478534126591549113575178712821718507067048453734385),
    (False, 4788898706344669128446020306626240591647881102279998527184810220202994754568, 18675508301727001965413235784797434453400159214714005668185251752629377230057),
    (True, 8037707371356850350949255128923839348900054615784475976099428333247754063494, 27206579165651047947518742583990945481375706529125787948464477037427835858052),
    (False, 6392474260932806613690687940057544006771690434152072570835284806400803387212, 73576244092090371164128275246416362519457122610100501868951466573274216160092),
    (True, 31666303799669962328705535462995393072697918829563746447802969198018996671392, 34915575739461385685762276360103417594424383506959106004141949048094735887784),
    (False, 10528330886260842041352088711537819588787019057646281864211872506170196252884, 7717171135999692811330770790570966732480721881369926947137278594004545885972),
    (False, 514324689609109452103641187852179339477087769987294558014088214303591603657, 113544376387051498111313129344028036500030101777761249918513076936743162885977),
    (True, 48868092708241051395361445146699728677395207825577458883964551343690117647227, 20356359695453732860192892925619842802618854347145601352948142500073652344729),
    (False, 3578667445043660386260844690397411141026612071579617304066919792182960868393, 6858148908823025313711627899967910160867485769954085304791710307497808012698),
    (True, 2951662313427487471759461422347159075982800406634938841331947755191827687822, 78164723199025455517027301890149354959461945671477786003096301821434050483322),
    (False, 52764605893593505142369496692205208076039354960688888476103787876639291607564, 8924743888537371270313144705235740991824381941853219526216388040432521270320)]"]; simp only: chain_eval)

lemma prime_256_full_7: "pow_is 115792089210356248762697446949407573530086143415290314195533631308867097853951 49835480456766173544607506164699712169824023691580347094409044481755491731278 11063640513673075080813989 17584444145389920229919272054566610396977763538157814566247408310854203404412"
  by (rule chain_next [OF prime_256_full_6, where B = 115792089237316195429848086744074588617105774088927458618074203789970708103168 and A = 26959946667150639794667015087019630673637144422540572481103610249217 and ss = "[(True, 3841099186239297358944384414749946728122675214903800557475496168537824035701, 45692936729085080829289415916302928799869897198407316793690908533013529164309),
    (False, 18030976737411169577663260850720617224812613254663736367794662256202054652371, 27545491390229246816072905069717692396969680424122285442193975505190485579660),
    (False, 6552728265838491154033969474987705574748108423111108979852538955077024170955, 7855308032894021032126927904690488789099051412732437790569298975970759522395),
    (True, 3380827244976901509198046646955274425816630542075112580128880584839671147173, 54459867806506163605739210421587286251188498394660247333595154867520382440287),
    (False, 25613815431847855590602406017116196320187617036842485386505365236321688375877, 108335992044676180878279571413245970012539271393709659724472632901123783102342),
    (True, 46626468622555608523042088617789715554965943879841291993694794354300662631720, 62072791974306230313535760894905643025826803931518667277162757129647576527356),
    (False, 33275429519937250877225675675602487962913925894920651880441262185510798507531, 54604667644106217258313527228081269595712105237122263234503587465952404745755),
    (False, 25750202357145352599892030817474050739187305469082218520617060147633203949316, 70000995263039682613273734539666183619124413866518581768833560196444816172509),
    (True, 30127561003307185136524772854144501216681971355183059610986138382172054628576, 111639483961410939709924864934269731236110070614374367906309619695691919932726),
    (False, 107635801928819739296007726538424450292187946064714197420340286584673689430845, 105658204551861574702362946351929937079060551073493323399378222084382241272481),
    (False, 96411216562837208413017960510578471147809872976830958240103555992992568040536, 78241231485437274099941284994328178022332971901779091523416487866779312137625),
    (False, 52867949322830487444180935056756516051125727915947161034680652861678245789478, 103007722317963988101971631136082903537075235505322563676544974806971404113047),
    (True, 44333247352909537108973716397808815514812672689921548924833748301113742655785, 87119662952619473373146233617004011199613887423843651418333684046587262527531),
    (False, 65547100192568214772215806841113550422086928751764568140021393189104537755637, 52172693292652119223024712886956311496120748525568858769668930589401779984174),
    (False, 23507563806575633071001852632090449515781302733163619810319063436463216939323, 28440945665301537130626448930097415937235102245243478152100378534135807647103),
    (True, 12240630612512658209616236652839860677714290458968007435155421453208017861322, 17584444145389920229919272054566610396977763538157814566247408310854203404412)]"]; simp only: chain_eval)

lemma prime_256_full_8: "pow_is 115792089210356248762697446949407573530086143415290314195533631308867097853951 49835480456766173544607506164699712169824023691580347094409044481755491731278 5664583943000614441376762862 41721341230721261120043215969946741985142337925427694930864809641963062927820"
  by (rule chain_next [OF prime_256_full_7, where B = 115792089237316195429848086744074588617105774088927458618074203789970708103168 and A = 26959946667150639794667015087019630673637144422540572481103610249217 and ss = "[(False, 2670412789086133726053621646077492511869151535760254116624456135451434906571, 43592142000806683930425532828456200056501714099621030209487680609766532853723),
    (True, 18761517782127368627572875656351079410510179597998661070960421672611201514960, 63856821307023458796180262764336637979213532499526882708912958100239176241034),
    (False, 35215649490780784444936293805900235338028902266426675019070793065487631447914, 45495178149830725520417728462154242021537684816716621530071101742905829780942),
    (True, 19580560960810467897347244389346908336832141361990857972004804161309298872582, 81398091567917631081208187706358223155467135719982074590387200812727075432394),
    (False, 57220224249192633761147207411215128012680150692074661791775664488968637850783, 88178124883184954359919069561369781324534737111430625076708384325273799577603),
    (True, 37950772365347590456840539431537874438966914004026550275578022038669552579804, 85203545390975558756674976677821028834514036942081897732605212474071519161030),
    (False, 62695510519752692038516348062886078091126293182108651985685516370353399866115, 8093239777239085868922986688232800625575756023761609152172095049547846890535),
    (True, 3483230119613800750483929524969910690833361278121623775026406389849934787795, 111849726940930410437641472923405341987419659420361430934408716468213014325685),
    (False, 108041589905450885401308781684105286144657302232154332547045033004218587266118, 20918873020386965025262524873751034513282399079767379027529093607101315987007),
    (False, 3779180870016943503290055584245654259114656581516221290465672733113376938582, 83557916615801108848866695611546383807425031724609671574208214250216059780567),
    (True, 35962291974453978883819709965515770436004813356055550399559838649935283996558, 78265006498687690792762967073329806293323192915820945438061153593951339773968),
    (False, 52900083969568622685982710473528203197976309441832671515591914197051687920886, 47292424853076657428166411703215956226005677710546675205104873071045659944438),
    (True, 20354073672830775621102222035612516563408851663744595138867018504322821231098, 94130875371147577589452805068804159867001511658925003862736749706626283363566),
    (False, 76521822505868031037788214718044264888458588790347987098481659314457014756587, 71112058050295926319547853048454683350505863742876759239104284601016195011119),
    (True, 30605748660150986653083510603275659276688322506950702142399947691101286566113, 78578584152576701662084540412631277796673296147066797832029524249711390317619),
    (False, 53324833583461529921631110033339518428451261992298886578087053310205831081891, 41721341230721261120043215969946741985142337925427694930864809641963062927820)]"]; simp only: chain_eval)

lemma prime_256_full_9: "pow_is 115792089210356248762697446949407573530086143415290314195533631308867097853951 49835480456766173544607506164699712169824023691580347094409044481755491731278 5800533957632629187969805171830 68798071648341857715442129791208124076281942069945909519586355635287819830981"
  by (rule chain_next [OF prime_256_full_8, where B = 115792089237316195429848086744074588617105774088927458618074203789970708103168 and A = 26959946667150639794667015087019630673637144422540572481103610249217 and ss = "[(True, 17956348311122119154651926981321724385040364559959082373405774443717655591460, 54855546909140491044872692218925142090624204480562840010000664082489747495500),
    (False, 25987362757004139856970839459814968428051687779843999674541332140502506192057, 13243248990841361190897088466586726376763654692476044293565424922808777982793),
    (False, 1514642710304727059794098434128550205877053824957404418635842161367445879872, 36220689218697079354959843419338486713203954531125115397636565175566057506577),
    (False, 11330120532621854569058735753028100540047926700327262241739261154871251286623, 98467892401194457859630202247178164994619505155354914675410179481319504259456),
    (False, 83735649819038087069648873389015072451361146047991536542676129017688246552686, 36904384577976503389134576425023116107446789421660457764188418204322510653550),
    (True, 15883189853009757600583821600432955470922061938810057696979412264878367749795, 39077645287139152688385871713930889307000370196221235219792446517075336546855),
    (False, 13187967948426056677588554166780749013301717098979405559618344858839693002008, 10339832370350452752693504662939181535490744315639373561272202921226076657417),
    (True, 4450135734944071942235904946593966671992479541031280531085494692485048497570, 97304657732503622476507710811652864477048542147182704660669112971408791189856),
    (False, 81768940184152558874639358093730085566216429667072800224586237943036985579391, 49589683889968284621963345970001492977432641741333064524880728517813803776895),
    (True, 21342785497773846287210827972315952091328056440468788855555246762760520929399, 88026898029129039678343162944886907989480857143825522437460799227285921016361),
    (False, 66919379635285553406415496634046540032374181124304715127054479840843749885565, 63493336538642458500626319688989168266161395872428139150048301586093896565006),
    (False, 34815882607365094090154822369705875803492962226931000251464432391681063571340, 20537131317832980199950320428342594564808003535981156290004363277808194415696),
    (True, 8838926850767693812910985237069672592017943510180179035804100964950895144456, 71854672666193232600536719068040837400873480492752125684074573803158921993832),
    (False, 44589349921704309987696770433727969019961792513856243987201139494062415102835, 11554848999760679191085838496637805153938711641733592048940165619178769993139),
    (True, 4973063837395164728639823508050266261782025220241358770586817834818736452113, 100159784739848429763411770435707278838736993228749829408499262041501312353179),
    (False, 86637891651716832697409169521654981148571148280570791638702503446688500238060, 68798071648341857715442129791208124076281942069945909519586355635287819830981)]"]; simp only: chain_eval)

lemma prime_256_full_10: "pow_is 115792089210356248762697446949407573530086143415290314195533631308867097853951 49835480456766173544607506164699712169824023691580347094409044481755491731278 2969873386307906144240540247977399 41722823871434861483623452890322696192587853770316482894908878103708117133182"
  by (rule chain_next [OF prime_256_full_9, where B = 115792089237316195429848086744074588617105774088927458618074203789970708103168 and A = 26959946667150639794667015087019630673637144422540572481103610249217 and ss = "[(False, 40876494195831925594671294679989769475189883490149945482027511632339857061867, 57193596974312679764294372063677027559175652023160897617050991912963470035844),
    (True, 24615415471842070721750075427188028075190065332859236577404717867325811587886, 3056443355678070558211962723928452487463751397167241722809539860942047091046),
    (False, 80677756573659831784974802320881688714551671322263823203582304162549199999, 46923264168330033461085605369755626288798040787927229979458794591645822028067),
    (True, 20195191488257052827037698996124796347502292111866026542338759881962372127284, 41465215239280007219121623380879203606653368332489422550948214033591923480542),
    (False, 14848717961347932301794321742497668997886975479721168029766698569167752412120, 39935803325730635339513725653527876339859681823729983943215992965599730327644),
    (False, 13773552218874687520044276634692446714877477012849092435960901337910442884456, 90361985237310692469423471485404393550036813250918604422836662624223734505080),
    (True, 38890678802311729555182052893887260640974924604840127675419634513804347743213, 114495432071262960606986325140686435791416342042385620697501860104193360407677),
    (False, 113213295092811278842046705516400248552900113193619183113402690230866297973261, 57737502962190702623796833518270092053966185364613681449695316458301759332118),
    (True, 24849505869675474777062693103793222349412738750766964715411871474950565748009, 101118482909306627999439708412601761858974251304032414972287714649189859553245),
    (False, 88304370839223398236070001067364501497129691188395633523311184666983251410140, 98991747611908501479481283801550909870319755131755361075924055855702469566885),
    (False, 84628977351445471316874992822738177282552385985275039281639548441126335253958, 74484672330370180160306919635247013587237516834677522066787730709263109915167),
    (True, 32057280057408292337059608293163456311537684112272803684597340359318426029716, 85318354711573165458440069797578285316077113408949491577550940809043586485510),
    (False, 62864585139886893751904531425655798723601057397786486395348513923343128461774, 24326438284938559286491669048649102757645940698490099272234503900370301591026),
    (True, 10469797617429603950094390237112492461865090614942538848835715664362535384984, 90074867795933620323668087997526654991828422258085648761623079968304657839444),
    (False, 70069396482823487356577813059781884854821739598044981249905917151546393598657, 65012253557666414317917424532808888845387265080113817952807030953637386485329),
    (True, 27980468387072154471033247251460916145949300711667562786246758832699653731280, 41722823871434861483623452890322696192587853770316482894908878103708117133182)]"]; simp only: chain_eval)

lemma prime_256_full_11: "pow_is 115792089210356248762697446949407573530086143415290314195533631308867097853951 49835480456766173544607506164699712169824023691580347094409044481755491731278 24329202780634367133618505711430856709 40261213722415956002709728437481862883666932303654234360513387139383651656607"
  by (rule chain_next [OF prime_256_full_10, where B = 115792089237316195429848086744074588617105774088927458618074203789970708103168 and A = 26959946667150639794667015087019630673637144422540572481103610249217 and ss = "[(False, 15033790681886073497603497771865299217251332751256140561426889087627000591136, 62325780679655915184980789577546400037799026035353764981789416172860332266788),
    (True, 26824243747524408439372656025199379078531648007041002984383237060302347016187, 40693098457891914149453313239224640872617524016637167969535283013756341290227),
    (False, 14300875590001720569293780799228659672938344591731629937527113122546456559985, 97407956255925097665205066435165884134532795714617356494665209361803644960794),
    (False, 81942643980791038059061350045850453227754683468079016071373554915908334106822, 88758724412531479357261739400316502106590606183599427546740451240735208356714),
    (False, 68036695883669284877059919163793716192105269413472819881229720612223158225652, 101766743743560344671521878070257193201046041282189875319372309119738071126744),
    (False, 89440221718024009620647620756696152260143105603571774414375863168861039424752, 70958042641568202408549320320493771759732918455668196208933995451494961646384),
    (False, 43483487083263417852267483010533256845581550777418274334650246050853112272796, 20550112645271455156512091494061196842174081726745971181411468120488181858460),
    (False, 3647115555244471123658054635196393442623789219537887666894849588202567386553, 110502177171577325465426631608586117879704826723019176610804847656890518250697),
    (False, 105453932500308992153457367438089291052375870684559562904129860789515834477839, 91420427131174948602249054955457462473970577902241075199139207809313372893920),
    (False, 72178458423556715412522519010593014060504937526668492646084746154224903166672, 16641041290832893110575784526166857396865123559322104333852438605720306245328),
    (False, 2391564545831146848488809775049057880929315930042792552124817099910616907662, 96158170960517972015424737675496557645665933580732081813745505488304792955022),
    (False, 79853415768969647078179905169541107845761977320215882968079345605715976301859, 47818676102878492716327944048259740322127896610120105242388815154330643225575),
    (True, 20580565690149887335405741798468405775363000581714176463156575522330373330673, 95212726242736584972065763130516854764417633837117196502599107576796654495827),
    (False, 78290868576568530023003365354603379282886091686814791088005296892546747947833, 47102102604521881421033767586811476152295682450265997920156808351263959475746),
    (False, 19160273252660842819750817732677912957094313809158327614151771431743843720768, 100042551718800283693092237238705984474427235281324464863611942150243472702148),
    (True, 43057074667423661321817214289720793693228545755383405756232954975119303974887, 40261213722415956002709728437481862883666932303654234360513387139383651656607)]"]; simp only: chain_eval)

lemma prime_256_full_12: "pow_is 115792089210356248762697446949407573530086143415290314195533631308867097853951 49835480456766173544607506164699712169824023691580347094409044481755491731278 24913103647369591944825349848505197270331 69178324482884029716513385180255703574111342980090659243425967881627862553466"
  by (rule chain_next [OF prime_256_full_11, where B = 115792089237316195429848086744074588617105774088927458618074203789970708103168 and A = 26959946667150639794667015087019630673637144422540572481103610249217 and ss = "[(False, 13998929818575883167669354992008367590469819738517323603647324674299712058980, 85998207106306811061566012826854482364734558932376314398664032404501908722469),
    (False, 63870439474182845453733960620308147107004907206829887137806814261928850826089, 114868312274874868679062986889134238825235260126241398754909989077078242928322),
    (True, 49437898309932638357449471755280582906878738776366088021652338252523857660859, 53367925263645178660176783331177972890132265179649344113712765935618568251607),
    (False, 24596977793291986749702186330946233434212554553619495189867782037380103611388, 15632525616797115942984276927001593604687866410558740971567457581581173688461),
    (False, 2110471093719254584438779130586373175644199425009097479075780548119617010731, 53744314373118629224403954193784520738181150618977430774432237244479646800340),
    (False, 24945152532736817315642162876093728532670064942495947997362666932044202734968, 51742847736828538033281175205689616357519961880664290035148255890882199457032),
    (True, 22269480538360630592784372427127456456032626298283425859040889303832468927424, 71884594981801130587268487250139953863028209933364751650580965742376080794672),
    (False, 44626494183986320291477912382331154091573970870523950345386957292576683928230, 107401468592318558440225569185759096014664739093156436765688135260857517650854),
    (True, 46224261308014879187305060641864011975346680015766045292297769843860662220463, 95351097189061267086041430734993856899713216921736511954838174061962257612099),
    (False, 78518591357661153633246005502575192570581802406256735414353522498491888690344, 86079558193582497626318005418423745260230486651490182961914832790419175236657),
    (True, 37047575264750238220962614409968851397657218141528827787748757109824468432363, 28151602362488757841427732128755201006772640197551242458154154072559803241433),
    (False, 6844273395360774041274805363949455179867740009376602607100861495089435777526, 27004727722570505942382264306765728638007986729982198604236327958660011788263),
    (False, 6297971859246362585580968430110824022500392657353845765813448594973891744766, 89021753274887329207074232218748275561413362120276380995661403864929507886703),
    (True, 38313859572031279506164817510825653896253889948864701410755637792069726177873, 4362670284183359197785983536380213342288858623580865270248633622920543570211),
    (False, 164371263514556592080177752032073388310414927424248509317477104064927222896, 74327606029928710509974548649988194788439699128395728657068211632694455322425),
    (True, 31989680667852003470300373438986232130542775653831226060056406081286255513884, 69178324482884029716513385180255703574111342980090659243425967881627862553466)]"]; simp only: chain_eval)

lemma prime_256_full_13: "pow_is 115792089210356248762697446949407573530086143415290314195533631308867097853951 49835480456766173544607506164699712169824023691580347094409044481755491731278 102044072539625848606004632979477288019276968 7164265050850129805490162217351050517287174953960035424672348729424297917245"
  by (rule chain_next [OF prime_256_full_12, where B = 115792089237316195429848086744074588617105774088927458618074203789970708103168 and A = 26959946667150639794667015087019630673637144422540572481103610249217 and ss = "[(False, 41329598687568825316740650892673100018368924477486600885924701559762293427473, 56762938125844509892826739738379236248670853714906122121286707801055143617333),
    (False, 27826004061685754790544146981844480872437992593069559172264846368982850781866, 102235235561027813401551352914859195807920267536282571208779783592497310780323),
    (True, 44000778624338049456948378262933993733224594242395381283291177513662793110373, 88873672713801783519465768767797980057178931055339114031370074983499828909071),
    (False, 68213033856664575364472111852385340810027124875139825383562697632622614103735, 50991411342848575260372905116356973553140065361724588922814047328862192476056),
    (False, 22455109398812329593494139960643631980539962260368444211114213558467128714202, 54777293812716233751215850609467963881374932554635423463631613026131917803034),
    (False, 25913272123397147343602659186806384166169505754458314683846340879879585902966, 75612269491005770657300585176466960916590848083621121560858077240946093886490),
    (True, 32542583903682913924135064687251706781739723084235809369604040186290307110043, 30222426915494128612996337030174060154190123663335069458755409430859615304327),
    (False, 7888233944920405115024718345252534197970368868976571647119391314775620052998, 4264924650847319098157553224646248205816890188210762271129152219274141227831),
    (False, 157088298531004320282337782121348795893497823187960273136336111703603161070, 33457376898540980102486956983301040922351909595134694962732931656751460076991),
    (True, 14399640458450013070349602173013640715199604151704557994127322102235025773086, 43397137597308600875577173611519796160176819810118936664503002635184468261712),
    (False, 16264596005504109355609364235877726018987419649297541851855785967703586653585, 83068338027519114109375013051870222883113711325585465342973539629927764606609),
    (False, 59592575189817221229289881187527139010769590208311296953253306888052616352558, 24004964419074422366998481722940899398883804778489786079516254660581517222223),
    (True, 10331439248832171370991891517268358956117027247564726414944751224083816934270, 112577199809091590152931888625242148119181186618620531032127314713958698990224),
    (False, 109451569647666603113992072928007002021733101539469573700715173861074003256337, 31315498595747283182195894252734948165753757487356750813129046918318806332689),
    (False, 8469148963351992542138097158399431038058190709959411796456537758649303013861, 3054904276306423461650114753697763851525169549995671522035890837819843355910),
    (False, 80596526075639674952584365223142752175948847220320481273657700787557646105, 7164265050850129805490162217351050517287174953960035424672348729424297917245)]"]; simp only: chain_eval)

lemma prime_256_full_14: "pow_is 115792089210356248762697446949407573530086143415290314195533631308867097853951 49835480456766173544607506164699712169824023691580347094409044481755491731278 417972521122307475890194976683938971726958463620 75493890547426188694351583354783890502956385050628441825396994900476212108283"
  by (rule chain_next [OF prime_256_full_13, where B = 115792089237316195429848086744074588617105774088927458618074203789970708103168 and A = 26959946667150639794667015087019630673637144422540572481103610249217 and ss = "[(False, 443265978434751657170072765381968039755513140967649073215135489683386635024, 31209029460410358791040779761486560116851066257473205260336802709339175010201),
    (True, 13431979579567127044244001987082021859828402092815577971824171464433852510956, 84841866130392968929241222520318378548180530307834948327831052552786485379722),
    (False, 62164369755958526518295248353162610627230236088296777690281219615552733388319, 17206799949001675803704789637201150880491090440126091150233278668988897398915),
    (False, 2556944662662531164004764673020739635178834889114611078646527223793496788376, 4469311686486172735608363450803935036307183872224517647906709822012240703649),
    (True, 1923536372182130969634726865506558595772230075412105553998848085643278550722, 54658313070214774521339934226174119475280086270884381734498285042088240430800),
    (False, 25800822906427112903775981223669175782999186594731582382036653530031311450396, 51498632788710889440331202906682986279739497192735481980265274387304799525404),
    (False, 22904061902609562369704840440964340853216429632083217908034625741881893105882, 74185186528882707237917509481026247583538030020121967868531879511039426323434),
    (True, 31928385079272143100080373259022425588805464792028610268597232536970542134129, 19926031798188344465829606593786486185758220895505622089032912020799547574973),
    (False, 3428962599518429267235581151543716853068790756261327745201803439215827398422, 12539401793679842528987883751046552580652162220769440619058068104661412085407),
    (False, 1357921758002776208456239174078887499929470051311845547434833397125314397344, 98512385366649598609019448514182342994473382615437330311513570873291368049505),
    (False, 83811339244402431013538067112560384170486449279133532692398936180441277316140, 77182155496932373127372364899974680858297397429464497573517303880097155675885),
    (False, 51446391267114787626665038387933520169718175151893524780909026287322775488414, 99380815687506378087218018210101497624808451812753782912779684195905905909511),
    (False, 85295520566795094904836115824058419480539136635917681580087552107125619917076, 25202760300917492189045044023706384878041808473093680232688773501849941291845),
    (True, 10846955754906633785251267965494954380662780091272897752946847869448855377622, 36663106313997414308809054083084190675566873677160953577789535118237003143388),
    (False, 11608594108268802004511433468145891436752127934137683496056708755875793097711, 3650793420634556216856096640879927797995094682782934240577397020486337712383),
    (False, 115105381473301060001745190579932106216455367550584183873903482446375091706, 75493890547426188694351583354783890502956385050628441825396994900476212108283)]"]; simp only: chain_eval)

lemma prime_256_full_15: "pow_is 115792089210356248762697446949407573530086143415290314195533631308867097853951 49835480456766173544607506164699712169824023691580347094409044481755491731278 835945042244614951780389953367877943453916927241 1"
  by (rule chain_next [OF prime_256_full_14, where B = 115792089237316195429848086744074588617105774088927458618074203789970708103168 and A = 26959946667150639794667015087019630673637144422540572481103610249217 and ss = "[(False, 49220353038392427798455277156483673351313041405781239446509285820813652056368, 68351857066626478185001724009312225267813128310767721512238689371828833698121),
    (True, 29417792357466858386615067944415702685759566487735277712132864115524964129987, 1)]"]; simp only: chain_eval)

lemma prime_256_factor: "pprime d \<Longrightarrow> d dvd 115792089210356248762697446949407573530086143415290314195533631308867097853951 \<Longrightarrow> 835945042244614951780389953367877943453916927241 dvd d - 1"
  by (rule pock_factor [OF prime_160 _ _ _ pow_is_mult [OF prime_256_part_9 prime_256_full_15] prime_256_part_9, where h' = 49835480456766173544607506164699712169824023691580347094409044481755491731277 and u = 35893950584104763925847036954507472337811148100266109799856099637894785463246 and v = 15448311581982382821756396509525202587693568224294205004967363464185155815691]; (simp only: chain_eval | simp)?)

lemma prime_256: "pprime 115792089210356248762697446949407573530086143415290314195533631308867097853951"
  by (rule pocklington_third [where F = 835945042244614951780389953367877943453916927241 and s = 0 and r = 138516389665330497628477975950 and t = 0], erule prime_256_factor, assumption, simp_all)

end
