(* ===== verification/Fp.thy ===== *)
theory Fp
  imports EccField PrimeP256
begin

text \<open>
  The prime field of secp256r1 as a type of the class \<open>field\<close>, and the words of the library as its elements.
\<close>

section \<open>The modulus is prime\<close>

definition prime_modulus :: "int \<Rightarrow> bool" where
  "prime_modulus m \<longleftrightarrow> 1 < m \<and> (\<forall>a. \<not> m dvd a \<longrightarrow> coprime a m)"

lemma pprime_modulus: "pprime m \<Longrightarrow> prime_modulus (int m)"
proof -
  assume m: "pprime m"
  have "coprime a (int m)" if "\<not> int m dvd a" for a
    using pprime_coprime [OF m, of "nat \<bar>a\<bar>"] that coprime_int_iff [of "nat \<bar>a\<bar>" m] by (simp add: int_dvd_int_iff [symmetric])
  then show ?thesis using m by (simp add: prime_modulus_def pprime_def)
qed

lemma prime_modulus_p: "prime_modulus pp"
  using pprime_modulus [OF prime_256] by (simp add: curve_p_int_def)

section \<open>The field\<close>

typedef fp = "{0..<pp}" morphisms residue of_residue
  by (intro exI [of _ 0]) (simp add: curve_p_int_def)

setup_lifting type_definition_fp

instantiation fp :: equal
begin

lift_definition equal_fp :: "fp \<Rightarrow> fp \<Rightarrow> bool" is "(=)" .

instance by standard (transfer, rule refl)

end

instantiation fp :: comm_ring_1
begin

lift_definition zero_fp :: fp is 0 by simp
lift_definition one_fp :: fp is 1 by (simp add: curve_p_int_def)
lift_definition plus_fp :: "fp \<Rightarrow> fp \<Rightarrow> fp" is "\<lambda>a b. (a + b) mod pp" by simp
lift_definition minus_fp :: "fp \<Rightarrow> fp \<Rightarrow> fp" is "\<lambda>a b. (a - b) mod pp" by simp
lift_definition uminus_fp :: "fp \<Rightarrow> fp" is "\<lambda>a. (- a) mod pp" by simp
lift_definition times_fp :: "fp \<Rightarrow> fp \<Rightarrow> fp" is "\<lambda>a b. (a * b) mod pp" by simp

instance
  by standard (transfer; simp add: mod_simps ac_simps algebra_simps)+

end

text \<open>The inverse through the extended Euclidean algorithm.\<close>

lemma bezw_inverse:
  assumes "0 < a" "a < pp"
  shows "a * (fst (bezw (nat a) (nat pp)) mod pp) mod pp = 1"
proof -
  have "\<not> pp dvd a" using assms zdvd_not_zless by blast
  then have "gcd (int (nat a)) (int (nat pp)) = 1" using prime_modulus_p assms by (simp add: prime_modulus_def)
  then have "gcd (nat a) (nat pp) = 1" by (metis gcd_int_int_eq of_nat_eq_1_iff)
  then have "a * fst (bezw (nat a) (nat pp)) + pp * snd (bezw (nat a) (nat pp)) = 1"
    using bezw_aux [of "nat a" "nat pp"] assms by (simp add: mult.commute)
  then have "a * fst (bezw (nat a) (nat pp)) mod pp = 1 mod pp" by (metis mod_mult_self2)
  then show ?thesis by (simp add: mod_mult_right_eq curve_p_int_def)
qed

instantiation fp :: field
begin

lift_definition inverse_fp :: "fp \<Rightarrow> fp" is "\<lambda>a. fst (bezw (nat a) (nat pp)) mod pp" by simp

definition divide_fp :: "fp \<Rightarrow> fp \<Rightarrow> fp" where
  "divide_fp a b = a * inverse b"

instance
proof
  show "inverse a * a = 1" if "a \<noteq> 0" for a :: fp
    using that by transfer (simp add: bezw_inverse mult.commute)
  show "inverse 0 = (0 :: fp)"
    by transfer (simp add: curve_p_int_def bezw.simps)
qed (simp add: divide_fp_def)

end

section \<open>Integers and words in the field\<close>

lemma residue_of_int: "residue (of_int a) = a mod pp"
proof (induction a rule: int_induct [where k = 0])
  case base
  show ?case by (simp add: zero_fp.rep_eq)
next
  case (step1 i)
  then show ?case by (simp add: plus_fp.rep_eq one_fp.rep_eq mod_simps)
next
  case (step2 i)
  then show ?case by (simp add: minus_fp.rep_eq one_fp.rep_eq mod_simps)
qed

lemma of_int_eq: "(of_int a :: fp) = of_int b \<longleftrightarrow> a mod pp = b mod pp"
  by (simp add: residue_inject [symmetric] residue_of_int)

lemma of_int_zero: "(of_int a :: fp) = 0 \<longleftrightarrow> pp dvd a"
  using of_int_eq [of a 0] by (simp add: dvd_eq_mod_eq_0)

lemma of_int_residue: "of_int (residue a) = a"
  using residue [of a] by (simp add: residue_inject [symmetric] residue_of_int)

lemma two_nonzero [simp]: "(2 :: fp) \<noteq> 0"
  using of_int_zero [of 2] by (simp add: curve_p_int_def)

text \<open>The element that words stand for.\<close>

definition felt :: "vli \<Rightarrow> fp" where
  "felt w = of_int (ival w)"

lemma felt_rep: "rep w a \<Longrightarrow> felt w = of_int a"
  by (simp add: felt_def of_int_eq rep_def)

lemma felt_zero: "ival w < pp \<Longrightarrow> felt w = 0 \<longleftrightarrow> ival w = 0"
  using zdvd_not_zless [of "ival w" pp] unfolding felt_def of_int_zero by auto

lemma residue_felt: "ival w < pp \<Longrightarrow> residue (felt w) = ival w"
  unfolding felt_def residue_of_int by simp

end
