(* ===== verification/EccGroup.thy ===== *)
theory EccGroup
  imports EccAlg Fp
begin

text \<open>
  The reference: points of secp256r1 in affine coordinates, the chord and tangent law, multiples by doubling
  and adding. The co-Z formulas of the library compute it.
\<close>

section \<open>The law\<close>

type_synonym ec_point = "(fp \<times> fp) option"

abbreviation infinity :: ec_point where "infinity \<equiv> None"

definition b_coeff :: fp where
  "b_coeff = of_int (ival curve_b)"

definition on_ec :: "fp \<times> fp \<Rightarrow> bool" where
  "on_ec = (\<lambda>(x, y). y ^ 2 = x ^ 3 - 3 * x + b_coeff)"

definition line_point :: "fp \<Rightarrow> fp \<times> fp \<Rightarrow> fp \<Rightarrow> fp \<times> fp" where
  "line_point l = (\<lambda>(x1, y1) x2. let x3 = l ^ 2 - x1 - x2 in (x3, l * (x1 - x3) - y1))"

definition chord :: "fp \<times> fp \<Rightarrow> fp \<times> fp \<Rightarrow> fp \<times> fp" where
  "chord P Q = line_point ((snd Q - snd P) / (fst Q - fst P)) P (fst Q)"

definition tangent :: "fp \<times> fp \<Rightarrow> fp \<times> fp" where
  "tangent P = line_point (3 * (fst P ^ 2 - 1) / (2 * snd P)) P (fst P)"

fun ec_add :: "ec_point \<Rightarrow> ec_point \<Rightarrow> ec_point" where
  "ec_add None Q = Q"
| "ec_add P None = P"
| "ec_add (Some P) (Some Q) =
    (if fst P \<noteq> fst Q then Some (chord P Q) else if snd P + snd Q = 0 then None else Some (tangent P))"

function ec_mul :: "nat \<Rightarrow> ec_point \<Rightarrow> ec_point" where
  "ec_mul k P =
    (if k = 0 then None else if k = 1 then P
     else if even k then ec_add (ec_mul (k div 2) P) (ec_mul (k div 2) P)
     else ec_add (ec_mul (k div 2) P) (ec_mul (k div 2 + 1) P))"
  by pat_completeness auto

termination by (relation "measure fst") (auto elim: oddE)

declare ec_mul.simps [simp del]

lemma ec_mul_simps:
  "ec_mul 0 P = None" "ec_mul 1 P = P"
  "0 < j \<Longrightarrow> ec_mul (2 * j) P = ec_add (ec_mul j P) (ec_mul j P)"
  "0 < j \<Longrightarrow> ec_mul (2 * j + 1) P = ec_add (ec_mul j P) (ec_mul (j + 1) P)"
  by (subst ec_mul.simps, simp)+

section \<open>Lines\<close>

lemma line_pointD: "line_point l (x1, y1) x2 = (x3, y3) \<Longrightarrow> x3 = l ^ 2 - x1 - x2 \<and> y3 = l * (x1 - x3) - y1"
  by (auto simp: line_point_def Let_def)

lemma chord_sym: "fst P \<noteq> fst Q \<Longrightarrow> chord P Q = chord Q P"
proof -
  assume ne: "fst P \<noteq> fst Q"
  obtain x1 y1 x2 y2 where P: "P = (x1, y1)" "Q = (x2, y2)" by fastforce
  define l where "l = (y2 - y1) / (x2 - x1)"
  have l: "(y1 - y2) / (x1 - x2) = l" "l * (x2 - x1) = y2 - y1" using ne by (simp_all add: l_def P field_simps)
  have "l * (x1 - x3) - y1 = l * (x2 - x3) - y2" for x3 using l(2) by (simp add: algebra_simps)
  then show ?thesis by (simp add: chord_def line_point_def P l l_def [symmetric] Let_def algebra_simps)
qed

lemma ec_add_comm: "ec_add P Q = ec_add Q P" if "\<And>A B. P = Some A \<Longrightarrow> Q = Some B \<Longrightarrow> fst A = fst B \<Longrightarrow> snd A = snd B \<or> snd A + snd B = 0"
proof (cases P; cases Q)
  fix A B assume *: "P = Some A" "Q = Some B"
  show ?thesis
  proof (cases "fst A = fst B")
    case True
    then show ?thesis using that [OF *] * by (cases A; cases B) (auto simp: add.commute)
  qed (simp add: * chord_sym)
qed simp_all

text \<open>The chord through the sum and the difference of two points meets the curve where a tangent does.\<close>

lemma sum_plus_difference:
  assumes on: "on_ec (x1, y1)" "on_ec (x2, y2)" and ne: "x1 \<noteq> x2"
    and S: "chord (x1, y1) (x2, y2) = (xs, ys)" and D: "chord (x1, y1) (x2, - y2) = (xd, yd)" and sd: "xs \<noteq> xd"
  shows "y1 \<noteq> 0 \<and> chord (xs, ys) (xd, yd) = tangent (x1, y1)"
proof -
  define d where "d = x2 - x1"
  define l where "l = (y2 - y1) / d"
  define m where "m = (- y2 - y1) / d"
  have d: "d \<noteq> 0" using ne by (simp add: d_def)
  have ld: "l * d = y2 - y1" "m * d = - y2 - y1" using d by (simp_all add: l_def m_def)
  have xs: "xs = l ^ 2 - x1 - x2" "ys = l * (x1 - xs) - y1"
    using line_pointD [of l x1 y1 x2 xs ys] S by (simp_all add: chord_def l_def d_def)
  have xd: "xd = m ^ 2 - x1 - x2" "yd = m * (x1 - xd) - y1"
    using line_pointD [of m x1 y1 x2 xd yd] D by (simp_all add: chord_def m_def d_def)
  have y1: "2 * y1 = - (l + m) * d" using ld by algebra
  have "xs - xd = (l - m) * (l + m)" using xs(1) xd(1) by algebra
  then have lm: "l - m \<noteq> 0" "l + m \<noteq> 0" using sd by auto
  then have "2 * y1 \<noteq> 0" using d unfolding y1 by (metis mult_eq_0_iff neg_equal_0_iff_equal)
  then have y0: "y1 \<noteq> 0" by simp
  have "(l * m) * d ^ 2 = y1 ^ 2 - y2 ^ 2" using ld by algebra
  also have "\<dots> = - (x1 ^ 2 + x1 * x2 + x2 ^ 2 - 3) * d" using on unfolding on_ec_def d_def prod.case by algebra
  finally have lmd: "l * m * d = - (x1 ^ 2 + x1 * x2 + x2 ^ 2 - 3)" using d by (simp add: power2_eq_square mult.assoc)
  define t where "t = 3 * (x1 ^ 2 - 1) / (2 * y1)"
  have t: "t * (2 * y1) = 3 * (x1 ^ 2 - 1)" using y0 by (simp add: t_def)
  have "t * (l + m) * d = (2 * x1 + x2 + l * m) * d"
    using t y1 lmd unfolding d_def by algebra
  then have tlm: "t * (l + m) = 2 * x1 + x2 + l * m" using d by simp
  define k where "k = t - (l + m)"
  have "(xd - xs) * k = yd - ys" using tlm xs xd unfolding k_def by algebra
  then have k: "(yd - ys) / (xd - xs) = k" using sd by (simp add: field_simps)
  have x5: "k ^ 2 - xs - xd = t ^ 2 - x1 - x1" using tlm xs(1) xd(1) unfolding k_def by algebra
  have "(l + m) * (k * (xs - (t ^ 2 - x1 - x1)) - ys) = (l + m) * (t * (x1 - (t ^ 2 - x1 - x1)) - y1)"
    using tlm xs y1 unfolding k_def d_def by algebra
  then have "k * (xs - (t ^ 2 - x1 - x1)) - ys = t * (x1 - (t ^ 2 - x1 - x1)) - y1" using lm by simp
  then have "line_point k (xs, ys) xd = line_point t (x1, y1) x1"
    unfolding line_point_def Let_def prod.case x5 by simp
  then show ?thesis using y0 unfolding chord_def tangent_def fst_conv snd_conv k t_def by simp
qed

section \<open>Jacobian coordinates\<close>

definition jac :: "int \<Rightarrow> int \<Rightarrow> int \<Rightarrow> fp \<times> fp \<Rightarrow> bool" where
  "jac z x y P \<longleftrightarrow> of_int x = fst P * of_int z ^ 2 \<and> of_int y = snd P * of_int z ^ 3"

lemma jac_neg: "jac z x y P \<Longrightarrow> jac z x (- y) (fst P, - snd P)"
  by (simp add: jac_def)

lemma jac_scale: "jac z x y P \<Longrightarrow> jac (z * d) (x * d ^ 2) (y * d ^ 3) P"
  by (simp add: jac_def power_mult_distrib)

lemma jac_unique: "jac z x y P \<Longrightarrow> jac z x y Q \<Longrightarrow> (of_int z :: fp) \<noteq> 0 \<Longrightarrow> P = Q"
  by (simp add: jac_def prod_eq_iff)

lemma jac_curve: "jac z x y P \<Longrightarrow> (of_int z :: fp) \<noteq> 0 \<Longrightarrow> pp dvd curve_eq x y z \<longleftrightarrow> on_ec P"
proof -
  assume j: "jac z x y P" and z: "(of_int z :: fp) \<noteq> 0"
  have poly: "(v * w ^ 3) ^ 2 - ((u * w ^ 2) ^ 3 - 3 * (u * w ^ 2) * w ^ 4 + c * w ^ 6) = w ^ 6 * (v ^ 2 - (u ^ 3 - 3 * u + c))"
    for u v w c :: fp by algebra
  have "(of_int (curve_eq x y z) :: fp) = of_int z ^ 6 * (snd P ^ 2 - (fst P ^ 3 - 3 * fst P + b_coeff))"
    using j poly unfolding jac_def curve_eq_def b_coeff_def by simp
  then show ?thesis using z unfolding of_int_zero [symmetric] by (auto simp: on_ec_def split_beta)
qed

lemma jac_x: "jac z x1 y1 P \<Longrightarrow> jac z x2 y2 Q \<Longrightarrow> (of_int z :: fp) \<noteq> 0 \<Longrightarrow>
    (of_int (x2 - x1) :: fp) = 0 \<longleftrightarrow> fst P = fst Q"
  by (auto simp: jac_def)

lemma jac_chord:
  assumes P: "jac z x1 y1 P" and Q: "jac z x2 y2 Q" and z: "(of_int z :: fp) \<noteq> 0" and ne: "fst P \<noteq> fst Q"
  shows "jac (z * (x2 - x1)) (coz_x x1 y1 x2 y2) (coz_y x1 y1 x2 y2) (chord P Q)"
proof -
  define l where "l = (snd Q - snd P) / (fst Q - fst P)"
  have l: "l * (fst Q - fst P) = snd Q - snd P" using ne by (simp add: l_def)
  define s where "s = l ^ 2 - fst P - fst Q"
  have c: "chord P Q = (s, l * (fst P - s) - snd P)"
    by (simp add: chord_def line_point_def l_def [symmetric] s_def Let_def split_beta)
  show ?thesis
    unfolding jac_def c fst_conv snd_conv coz_y_def coz_x_def
    using P Q l unfolding jac_def s_def by simp algebra
qed

lemma jac_tangent:
  assumes P: "jac z x y P" and z: "(of_int z :: fp) \<noteq> 0" and v: "snd P \<noteq> 0"
    and b: "2 * b mod pp = 3 * (x ^ 2 - z ^ 4) mod pp"
  shows "jac (y * z) (b ^ 2 - 2 * (x * y ^ 2)) (b * (x * y ^ 2 - (b ^ 2 - 2 * (x * y ^ 2))) - y ^ 4) (tangent P)"
proof -
  define t where "t = 3 * (fst P ^ 2 - 1) / (2 * snd P)"
  have t: "t * (2 * snd P) = 3 * (fst P ^ 2 - 1)" using v by (simp add: t_def)
  define s where "s = t ^ 2 - fst P - fst P"
  have c: "tangent P = (s, t * (fst P - s) - snd P)"
    unfolding tangent_def t_def [symmetric] line_point_def s_def by (simp add: Let_def split_beta)
  have "(of_int (2 * b) :: fp) = of_int (3 * (x ^ 2 - z ^ 4))" using b by (simp only: of_int_eq)
  then have "2 * (of_int b :: fp) = 3 * (of_int x ^ 2 - of_int z ^ 4)" by simp
  also have "\<dots> = 2 * (t * snd P * of_int z ^ 4)" using P t unfolding jac_def by algebra
  finally have bb: "(of_int b :: fp) = t * snd P * of_int z ^ 4" by simp
  have poly: "(r * v * w ^ 4) ^ 2 - 2 * (u * w ^ 2 * (v * w ^ 3) ^ 2) = (r ^ 2 - u - u) * (v * w ^ 3 * w) ^ 2"
    "r * v * w ^ 4 * (u * w ^ 2 * (v * w ^ 3) ^ 2 - ((r * v * w ^ 4) ^ 2 - 2 * (u * w ^ 2 * (v * w ^ 3) ^ 2))) -
      (v * w ^ 3) ^ 4 = (r * (u - (r ^ 2 - u - u)) - v) * (v * w ^ 3 * w) ^ 3" for r u v w :: fp by algebra+
  show ?thesis
    unfolding jac_def c fst_conv snd_conv s_def using P bb poly
    by (simp only: jac_def of_int_diff of_int_mult of_int_power of_int_numeral simp_thms)
qed

section \<open>What a step of the ladder computes\<close>

fun apart :: "ec_point \<Rightarrow> ec_point \<Rightarrow> bool" where
  "apart (Some P) (Some Q) = (fst P \<noteq> fst Q)"
| "apart _ _ = False"

text \<open>The formulas of the library divide by zero in no step of the computation of \<open>k P\<close>.\<close>

fun proper :: "nat \<Rightarrow> fp \<times> fp \<Rightarrow> bool" where
  "proper k P = (if k \<le> 1 then snd P \<noteq> 0
     else proper (k div 2) P \<and> apart (ec_mul (k div 2) (Some P)) (ec_mul (k div 2 + 1) (Some P)) \<and>
       apart (ec_mul (2 * (k div 2) + 1) (Some P)) (Some P))"

declare proper.simps [simp del]

text \<open>\<open>track\<close>: unless the common \<open>z\<close> vanished, the two running points are \<open>j P\<close> and \<open>(j + 1) P\<close>.\<close>

definition track :: "fp \<times> fp \<Rightarrow> nat \<Rightarrow> bool \<Rightarrow> int \<Rightarrow> int \<Rightarrow> int \<Rightarrow> int \<Rightarrow> int \<Rightarrow> bool" where
  "track P j good z x0 y0 x1 y1 \<longleftrightarrow> ((of_int z :: fp) \<noteq> 0 \<longleftrightarrow> good) \<and>
    (good \<longrightarrow> (\<exists>A B. ec_mul j (Some P) = Some A \<and> ec_mul (j + 1) (Some P) = Some B \<and> jac z x0 y0 A \<and> jac z x1 y1 B))"

text \<open>Between the two additions: the sum, and what the second addition will give.\<close>

definition track_sum :: "fp \<times> fp \<Rightarrow> fp \<times> fp \<Rightarrow> nat \<Rightarrow> nat \<Rightarrow> bool \<Rightarrow> int \<Rightarrow> int \<Rightarrow> int \<Rightarrow> bool" where
  "track_sum P D j j' good z xs ys \<longleftrightarrow> ((of_int z :: fp) \<noteq> 0 \<longleftrightarrow> good) \<and>
    (good \<longrightarrow> (\<exists>S. ec_mul (2 * j + 1) (Some P) = Some S \<and> jac z xs ys S \<and>
      (fst S \<noteq> fst D \<longrightarrow> ec_mul j' (Some P) = Some (chord S D))))"

lemma mult_nonzero: "(of_int (a * b) :: fp) \<noteq> 0 \<longleftrightarrow> of_int a \<noteq> (0 :: fp) \<and> of_int b \<noteq> (0 :: fp)"
  by simp

text \<open>The sum and the difference of \<open>A\<close> and \<open>B\<close>; the doubled point is \<open>A\<close>.\<close>

lemma sum_step:
  assumes A: "jac z xa ya A" "on_ec A" and B: "jac z xb yb B" "on_ec B"
    and D: "jac (z * (xb - xa)) (coz_x xa ya xb (- yb)) (coz_y xa ya xb (- yb)) D"
    and z: "(of_int z :: fp) \<noteq> 0" and ne: "fst A \<noteq> fst B"
  shows "jac (z * (xb - xa)) (coz_x xa ya xb yb) (coz_y xa ya xb yb) (chord A B)"
    "fst (chord A B) \<noteq> fst D \<Longrightarrow> ec_add (Some A) (Some A) = Some (chord (chord A B) D)"
proof -
  show "jac (z * (xb - xa)) (coz_x xa ya xb yb) (coz_y xa ya xb yb) (chord A B)"
    by (rule jac_chord [OF A(1) B(1) z ne])
  have nz: "(of_int (z * (xb - xa)) :: fp) \<noteq> 0" unfolding mult_nonzero using z ne jac_x [OF A(1) B(1) z] by simp
  have "jac (z * (xb - xa)) (coz_x xa ya xb (- yb)) (coz_y xa ya xb (- yb)) (chord A (fst B, - snd B))"
    using jac_chord [OF A(1) jac_neg [OF B(1)] z] ne by simp
  then have d: "D = chord A (fst B, - snd B)" using jac_unique [OF D _ nz] by simp
  assume "fst (chord A B) \<noteq> fst D"
  then have "snd A \<noteq> 0 \<and> chord (chord A B) D = tangent A"
    using sum_plus_difference [of "fst A" "snd A" "fst B" "snd B" "fst (chord A B)" "snd (chord A B)" "fst D" "snd D"]
      A(2) B(2) ne d by simp
  moreover from this have "snd A + snd A \<noteq> 0" using two_nonzero by (metis mult_2 mult_eq_0_iff)
  ultimately show "ec_add (Some A) (Some A) = Some (chord (chord A B) D)" by simp
qed

lemma track_sum_step:
  assumes z: "(of_int z :: fp) \<noteq> 0 \<longleftrightarrow> good"
    and AB: "good \<Longrightarrow> \<exists>A B. ec_mul ja (Some P) = Some A \<and> ec_mul jb (Some P) = Some B \<and> jac z xa ya A \<and> jac z xb yb B"
    and on: "pp dvd curve_eq xa ya z" "pp dvd curve_eq xb yb z"
    and D: "coz_x xa ya xb (- yb) = dx * (z * (xb - xa)) ^ 2" "coz_y xa ya xb (- yb) = dy * (z * (xb - xa)) ^ 3"
    and j: "ja = j \<and> jb = j + 1 \<or> ja = j + 1 \<and> jb = j" "0 < j"
  shows "track_sum P (of_int dx, of_int dy) j (2 * ja) (good \<and> apart (ec_mul j (Some P)) (ec_mul (j + 1) (Some P)))
    (z * (xb - xa)) (coz_x xa ya xb yb) (coz_y xa ya xb yb)"
proof (cases good)
  case True
  then obtain A B where AB: "ec_mul ja (Some P) = Some A" "ec_mul jb (Some P) = Some B" "jac z xa ya A" "jac z xb yb B"
    using AB by blast
  have nz: "(of_int z :: fp) \<noteq> 0" using z True by simp
  note ec = on(1) [unfolded jac_curve [OF AB(3) nz]] on(2) [unfolded jac_curve [OF AB(4) nz]]
  have ap: "apart (ec_mul j (Some P)) (ec_mul (j + 1) (Some P)) \<longleftrightarrow> fst A \<noteq> fst B" using j(1) AB(1,2) by auto
  have zz: "(of_int (z * (xb - xa)) :: fp) \<noteq> 0 \<longleftrightarrow> fst A \<noteq> fst B"
    unfolding mult_nonzero using nz jac_x [OF AB(3,4) nz] by simp
  show ?thesis
  proof (cases "fst A = fst B")
    case ne: False
    have "jac (z * (xb - xa)) (coz_x xa ya xb (- yb)) (coz_y xa ya xb (- yb)) (of_int dx, of_int dy)"
      unfolding D by (simp add: jac_def)
    note s = sum_step [OF AB(3) ec(1) AB(4) ec(2) this nz ne]
    have "ec_mul (2 * j + 1) (Some P) = Some (chord A B)"
      unfolding ec_mul_simps(4) [OF j(2)] using j(1) AB(1,2) ne chord_sym [OF ne] by auto
    moreover have "0 < ja" using j by auto
    then have "ec_mul (2 * ja) (Some P) = ec_add (Some A) (Some A)" by (simp only: ec_mul_simps(3) AB(1))
    ultimately show ?thesis using zz True ap ne s unfolding track_sum_def by simp
  qed (use zz ap in \<open>simp add: track_sum_def\<close>)
qed (use z in \<open>simp add: track_sum_def\<close>)

lemma track_add_step:
  assumes s: "track_sum P (of_int px, of_int dy) j j' good z xs ys" and P: "fst P = of_int px"
  defines "xd \<equiv> px * z ^ 2" and "yd \<equiv> dy * z ^ 3"
  defines "d \<equiv> xd - xs"
  defines "good' \<equiv> good \<and> apart (ec_mul (2 * j + 1) (Some P)) (Some P)"
  shows "(of_int (z * d) :: fp) \<noteq> 0 \<longleftrightarrow> good'"
    "good' \<Longrightarrow> \<exists>S T. ec_mul (2 * j + 1) (Some P) = Some S \<and> ec_mul j' (Some P) = Some T \<and>
      jac (z * d) (xs * d ^ 2) (ys * d ^ 3) S \<and> jac (z * d) (coz_x xs ys xd yd) (coz_y xs ys xd yd) T"
proof -
  let ?D = "(of_int px, of_int dy) :: fp \<times> fp"
  have D: "jac z xd yd ?D" by (simp add: jac_def xd_def yd_def)
  show "(of_int (z * d) :: fp) \<noteq> 0 \<longleftrightarrow> good'"
  proof (cases good)
    case True
    then obtain S where S: "(of_int z :: fp) \<noteq> 0" "ec_mul (2 * j + 1) (Some P) = Some S" "jac z xs ys S"
      using s unfolding track_sum_def by blast
    then show ?thesis unfolding mult_nonzero d_def good'_def using True jac_x [OF S(3) D S(1)] P by simp
  next
    case False
    then show ?thesis using s unfolding track_sum_def mult_nonzero good'_def by simp
  qed
  assume good'
  then obtain S where S: "(of_int z :: fp) \<noteq> 0" "ec_mul (2 * j + 1) (Some P) = Some S" "jac z xs ys S"
    "ec_mul j' (Some P) = Some (chord S ?D)" "fst S \<noteq> fst ?D"
    using s P unfolding track_sum_def good'_def by auto
  then show "\<exists>S T. ec_mul (2 * j + 1) (Some P) = Some S \<and> ec_mul j' (Some P) = Some T \<and>
      jac (z * d) (xs * d ^ 2) (ys * d ^ 3) S \<and> jac (z * d) (coz_x xs ys xd yd) (coz_y xs ys xd yd) T"
    using jac_scale [OF S(3), of d] jac_chord [OF S(3) D S(1,5)] unfolding d_def by blast
qed

end
