(* ===== verification/CubeCert.thy ===== *)
theory CubeCert
  imports PrimeP256
begin

text \<open>
  Certificates that the cubic of secp256r1 has no root: a square root of its discriminant up to a constant,
  and a power showing that the number a root would make a cube is none.
\<close>

section \<open>The power\<close>

lemma cube_power_0: "pow_is 115792089210356248762697446949407573530086143415290314195533631308867097853951 104365044870446813599959508293411955044557453795746568337280127806261069026255 2730 39329084910547663151331630701054172663706428561891578868883060426342144459144"
  by (rule chain_next [OF pow_start, where B = 115792089237316195429848086744074588617105774088927458618074203789970708103168 and A = 26959946667150639794667015087019630673637144422540572481103610249217 and ss = "[(False, 94065688468778479297873568719545496469134120587395403847278141716120199008783, 44249770008948031194435790168780408110643411979381707415647528886957179073392),
    (False, 16909982013431645245670614369684247371741863876845364076731706554010080209267, 73029114400455761480090885198082540829092095623430759167174827250775039621747),
    (True, 65822171905081131487838895732194850279581284151350581757409057754314353956291, 640703080966283116513340379602927237221185662375114819202399627600256311744),
    (False, 3545150974985371222921394939564490565132715609959091607324165764536060686, 85004665198254625246420734109014742608469067826561070060022118072528011451150),
    (False, 62403167217584828960530194556837835051557252963915098224869979949088332299255, 83088307089965983314952123775364523995503006993565685891530206987960820215995),
    (True, 74888664301586833481459331575031369404995231263453148608843807757756628621302, 38509262064919003343829804872741935082544924910869916796052424159065342484523),
    (False, 12807120718674934256310308875699063460917972858222729829724712991164252917765, 86707381069268696130731216143962919222032847076473641943760106037416911198014),
    (False, 64928182772774109734730405339089974273695513010279448606221726703791952175078, 43120547824288504018085620662691231075500541243502285986553641046508291511018),
    (True, 38865158571796631807443617994210427957477653644891060720187909251425450312841, 73887312539002521304588191959835514729546772065562583898717119116939185892799),
    (False, 47147736874480415883979964606781393788703898567055161370310708577597723195502, 3182962168626846017343531291239155380522363414885781056623918181136503925999),
    (False, 87495166863295466194548889064366823297620715045212068820661558681954358724, 98199861228124621860939818398069248704100982427213568680548089859029653429477),
    (True, 88508921405904265281898445330171613817497147713208967887171924001203913628545, 105792638876223734478654171919513888403520894492013048467802442951950829287340),
    (False, 96656710460269375009033189159236139239955550143389016639584444407391568348725, 51861310514986437206284738927978521806507402132413416356334655131907997213125),
    (False, 23227800333110233909247125735707263885261447989923969089439895506713002670737, 40925076468036880760106874593731553637402983546107181456011563933382504733738),
    (True, 36886349240610574054701452100375922810844546440783453962497894824585529174775, 43574916596821046786779978587100621862374389411953015374722521920805203005165),
    (False, 16398126757782752207061251621364541595499132624652098069450549039742257625631, 39329084910547663151331630701054172663706428561891578868883060426342144459144)]"]; simp only: chain_eval)

lemma cube_power_1: "pow_is 115792089210356248762697446949407573530086143415290314195533631308867097853951 104365044870446813599959508293411955044557453795746568337280127806261069026255 5592404 111872382356381715573091668512146803881577121195674715204037781748659809716820"
  by (rule chain_next [OF cube_power_0, where B = 115792089237316195429848086744074588617105774088927458618074203789970708103168 and A = 26959946667150639794667015087019630673637144422540572481103610249217 and ss = "[(False, 13358226200505645386533715757734436574137803953497177172308385083026072691425, 47861140653719954364709306704721356125343402826278181233931579996596145142561),
    (True, 43137921821256007951484257320675492877441337498890898697722999534658407211419, 36767778140635680190544815810053263536170455447478740017131933087771185472586),
    (False, 11674972950380949097310048797193610893381690289137030352846078301665389788678, 83328870968074470011414018984991986122975697307411661741725733213088960160618),
    (False, 59966969973221377910679629121188273865241056078671284442319300674471862037856, 82002488469281423785147099611256629203035531253031512954207102437297236972868),
    (True, 73910000648122193863221849699967908498509032952679335211954483922109466451585, 48370668681052994086319815866553791363957287632839902528547193865648072187005),
    (False, 20206230016298386763530205679360724763744246172779526857105694242328935566573, 17893070937213152364577866767858230776161223047773403234066966729839099290102),
    (False, 2764972890181751826063181481954465316976814446954048299244237454607037546694, 38204564807810903613086008963168103588374365653257545498146320853633000282410),
    (True, 34434313670423591276285311849691984373065313017729663519650164171693874477939, 96879447512469230813783255319140066384493736045406914331667680757641311187561),
    (False, 81055859811551323026403430094411202766591590539287340694714657251130407252758, 82661741623391649619973482101730646991256411115002249728239821473792695181863),
    (False, 59010624774194253364515587982407672121416619346558109093906995045281155554632, 114490490162087043856927966535436667369643237075342547104921070248004306599737),
    (True, 103191895271002527824877275055051092987851530880384195953710975935086220177682, 1836774612463719885055165797581019902073387374777611974076599785472523373353),
    (False, 29136195745309228577039443624553112508017134999296812675445248452552868387, 85375047221215512168478142783943619143960714541980614311792140553161579515572),
    (False, 62948157665445004908204393106948351592962927424437152130798720910356191487239, 43635472622175933915259264857669911522853530657188264703004754281930288255895),
    (True, 39329267562340874873670967737833035016357232547052447352607943309297795611519, 52028668194173192467268659144728934325190956415174191240983576752819318261656),
    (False, 23377955545319422782051870508644743611982608270444554566366804244939363246273, 44258331793495197019791641903261014657423813884549581955245718455246680787713),
    (False, 16916526392270293602577505234580525075571640623098687133484427438646281532499, 111872382356381715573091668512146803881577121195674715204037781748659809716820)]"]; simp only: chain_eval)

lemma cube_power_2: "pow_is 115792089210356248762697446949407573530086143415290314195533631308867097853951 104365044870446813599959508293411955044557453795746568337280127806261069026255 11453246120 59594780235405950795269406896007813781499567076111123501242207860183904300650"
  by (rule chain_next [OF cube_power_1, where B = 115792089237316195429848086744074588617105774088927458618074203789970708103168 and A = 26959946667150639794667015087019630673637144422540572481103610249217 and ss = "[(True, 100832157740732060905654866092309202931002621625000722998390180419208493772863, 67109574961486097017118002471580618320401183162264573787971487659130153977387),
    (False, 38894669594652402265087462580933833963540042415375235072036317648646645411113, 87556621390389856170728673026621720659342774032619761503930590600311280990306),
    (False, 66206266780221683243873583594296616808271424741210793802575742540674832879359, 67635746401162303824720802261232893808055230088668700759612013546121081476227),
    (True, 60961053178511417674656816665382277119160878689101464667601650739747269429709, 73430552515813320455092521945292862858890815190538687828494273303239278909626),
    (False, 46566618493099634658391538987380570088694736902239638580684009061928289427146, 46680119621633384391383378400917883596572950803828581769870318845107712706030),
    (False, 18818501183888415603020634521560281007019773183095735641115614009121515037340, 42392946223590037986045015240183977735617296094484486554960229361015566830560),
    (True, 38209360976101184850902893519844505985271509573544886871496781010522790005654, 55087491568738269972634824713528733576452227934461487857549663799561220113846),
    (False, 26207591106011391039349957191846434786961622871464296973652621402180786908839, 90996293775508948420826866551703938569591401827458249228092606702585227938827),
    (False, 71510286560561947905056602438167524973665580908154158637309802270813649992769, 20236102135313545097168611118939383433012952684230379311369734272452286055610),
    (True, 18239084567497847808450412358495142921614730836005852060783851163193421759523, 68199531521643320614827639325783704085499487457207739802711449459997782615177),
    (False, 40168340786406914341870871416573322083953383373124820065050555804626794672569, 19726506429337746575615171420109378457815764400452969001046938326953642771210),
    (False, 3360635934288850108209718850834928252069595863070523575784143874276176479265, 48473830561678658746825987526351194924653293859619449951919116724664055038085),
    (True, 43690147885850247267030897761576158293466209418403566340121905528441117485480, 5000435839399130865894337545135328670417070922289566560308308334608486790195),
    (False, 215941855393269326389928073523124628337426785208423170067868932082589210402, 99919645327440710011691613519636362883888911075623461070046400854732142139723),
    (False, 86222950034384540610223687267940592266237978596979174151772963675914574095851, 101652301589280462242555575219550686530697204990209783675611190817594581459428),
    (False, 89239174185949899093822259781834200761100666106761682908481661290692313062234, 59594780235405950795269406896007813781499567076111123501242207860183904300650)]"]; simp only: chain_eval)

lemma cube_power_3: "pow_is 115792089210356248762697446949407573530086143415290314195533631308867097853951 104365044870446813599959508293411955044557453795746568337280127806261069026255 750599937720320 97607653386914906325388267157974574466444984230959626604099660186034894434383"
  by (rule chain_next [OF cube_power_2, where B = 115792089237316195429848086744074588617105774088927458618074203789970708103168 and A = 26959946667150639794667015087019630673637144422540572481103610249217 and ss = "[(False, 30671679348097367352684281322429966122002824019998361669702407764886379827403, 78511553880781473310391597142783141527665781846923791526911354982966508803247),
    (False, 53233896502003428291605238892256781382118219542693568894921435471314038870608, 110222740717987012492803328740081904727715749560124278980040597915555587170801),
    (False, 104921265815609805829151733358497713096943209183601931900421063692297982245456, 84633986536760957866650379881584426452426051705042512547489115098261825584945),
    (False, 61860112603132791219826815356332826740654993296012704598660136436471726110502, 27319969747675538936419590017030541509344351625980567844685482830854927359623),
    (False, 6445869938990198460302830028923788887379686588020741758207151694029545847654, 2626840961087696700029308709675212993907237707902713139598200892007782721175),
    (False, 59592097196834958788440779862049509938286909084743256898315867937803002533, 53742074639489206540072332155637898966728001771495061610194132342719276322742),
    (False, 24943073453917025063117593667384274081953037112359688108926730155167092653585, 104277985604330423307372795698912095686983354686879834105645359065722379834229),
    (False, 93908818433551503049365095502652488138932711612848566122519005849050264238183, 24949165070642898169601361897716263348192517073423857623878890848756308413408),
    (False, 5375676714765725158775611491437041455000904789428208239760815618738434445977, 60691254992037850591852564645342496476230268266574289215925218135573888669337),
    (False, 31810708811177747591250450878935433208098428036311094317743588113601155036979, 110816850795400636891025449038375941913219776382896911329643792332067577765540),
    (False, 106055383437297466394420362842594521574685832113910679407858683151911259761790, 22699443584386520019667335024356886251220842195118462896358448194370741159310),
    (False, 4449913137888714563316029775533010045037661476601855687882846103901670760867, 111246128837535545871381966883448690583383638627852747678767870779381787540583),
    (False, 106878641414397210691958177597795797752179886798956227138513950274087311452952, 34567777274441405558861259683406708832362239493999193674894147188392968166537),
    (False, 10319627479253695509408929681578645398846895405736823024222853116682954104783, 85061498173896714309253858620170295173538326722602538225169829739085682024736),
    (False, 62486638948567367983806801358833621866636578349106436234227138397167186053502, 112048144136385831023967459999822328374249213234595173435987091805739247783294),
    (False, 108425253314156590857914586012476480832781604332271732353728070280222305904203, 97607653386914906325388267157974574466444984230959626604099660186034894434383)]"]; simp only: chain_eval)

lemma cube_power_4: "pow_is 115792089210356248762697446949407573530086143415290314195533631308867097853951 104365044870446813599959508293411955044557453795746568337280127806261069026255 24595658759219445761 73646170438707868890637448873391559714741921188111808313909933536908282483240"
  by (rule chain_next [OF cube_power_3, where B = 115792089237316195429848086744074588617105774088927458618074203789970708103168 and A = 26959946667150639794667015087019630673637144422540572481103610249217 and ss = "[(False, 82278971427765028078708685366288605815079017280093504078645215488971908208401, 112193472219519042342340708032300336953181248909728635605717838689041123348338),
    (False, 108706693993618672388758487562812736061376865421530055172520192037263835914840, 91657709329543698855781721764033607028650002536013093038855073082565693829404),
    (False, 72553623799610471463095991126863976461034609550052449256358416535075331812637, 102782480681166008417290097183223037179439090226514540610863742828980332816429),
    (False, 91234542938270226108221087644055257872082593917647835870545866003078104915770, 80477972707719555433456535026736687866680207617330057130821413531424795604771),
    (False, 55933908225616402170114074647901670661724196997499015124163123414862695974149, 38153929120265827146747459329573420003332489580063854949839025231994364449742),
    (False, 12571863218304133783010245045249983657325860986858091907399034295288702501476, 96297907850216341793535138524077407458802141227891371630506160101585433934888),
    (False, 80085670096877145082596609149882655024967780598613005153163127189912091878021, 114704052159749244342389531186170535175178313947327207669853134249300658661573),
    (False, 113626238818132782169111065704010908048630140192968617269897250031604768463663, 1229003652168525691461928908697686563629807804934223389649837468437122351816),
    (False, 13044500598824003180408074159250973353630890594674079111709517458196460455, 88320591020737411763269478220937183368686735855996247438229389877676141490151),
    (False, 67366664263923618648072132485020347005951636160532508754029791903940829254000, 89992938866466442482506052839142681033403177602578039810944899726894547448801),
    (False, 69941989138056158219053622371665156459900062745250004406162824908608035078856, 17662636029566137862302442114534790846901234768812874662737648049413060177545),
    (False, 2694214377168573520646824203479003812287454312659144406285320917902456133048, 77281072831764891303578349650719642186354765163497096164368993581667993754377),
    (False, 51578344071318400857303856401410174395640117136509183247819225769551372525107, 78322562225666851275271582817627522359507687050291842919160117437856240010372),
    (False, 52977917536743118533263494228800730817628898597153837802359013319173189987456, 10843592155293922774369055253525956932747415929558269548835756223944457539728),
    (False, 1015470846343753789958665037916916669466617018857498200928031525225763704856, 35664081870402677919652487752047171527411725047697423990525238133402140827928),
    (True, 32144540529932569389825494970532508671654426543226865837826601899726775486400, 73646170438707868890637448873391559714741921188111808313909933536908282483240)]"]; simp only: chain_eval)

lemma cube_power_5: "pow_is 115792089210356248762697446949407573530086143415290314195533631308867097853951 104365044870446813599959508293411955044557453795746568337280127806261069026255 50371909138881424919210 52470498563355555987582539457848765323608011890496027201236066398837596782225"
  by (rule chain_next [OF cube_power_4, where B = 115792089237316195429848086744074588617105774088927458618074203789970708103168 and A = 26959946667150639794667015087019630673637144422540572481103610249217 and ss = "[(False, 46840491930619013230302569399457740951994233523665217076494869515839414605964, 101077660996509594673707122906202089434955918685793072826844214557112195333836),
    (False, 88233087615898661779338595341402831782433133369621777892739974735685398139943, 10879481755129715907396314804474357392495425662990164801922174562989013010103),
    (True, 9805830512986103316953877480543950254591376099977006413050162052408819654081, 77235702711889075378538661303866739393572500438132232493464332722491408130234),
    (False, 51517800689840030221336611234667918217897293895791426184242095198562167812188, 30540074662506684077967393192117875561559126041434802711971671645532283139968),
    (False, 8054921253705680483734492819344418302529293731057059334487420816485355633407, 32792333472633196483641205792960391648613092246081125771626977311955496499967),
    (True, 29556193152890510588240180765878022703126184845283651537758017523251289412837, 67913093479560330333709864177302289978647936868214679347428028782875759064598),
    (False, 39831635281963575906366643699276132879359525234555571966774926940830804410301, 47979868728356993443192258351830604744529617158721899384341093624540758952353),
    (False, 19881045578236930899037809587569443679633486884393941573602635268023208635541, 1451465911438726279550918129673457823450076524370183356727419527182118364118),
    (True, 1308226719184874399763417381224129228425338437078390039331165311102023095670, 3262349008365258826693464776949491760377698803823164671821873046545231425920),
    (False, 91914060148332678449514342663666803548223721196412638684817657608505155265, 88171603978456816306587628818273280221173354016445687926974248775354899144385),
    (False, 67139575778882377474595221853888740180753614421691792439854438727073812069907, 46437571348126733890660673909839053032518899856873289134235663290164188875668),
    (True, 41854838706791057620909372349452510349750228745509307372489963344003036759648, 54812096959994456654835373591368459015884693876288876228965333748802228494092),
    (False, 25946210951370658417940421804427199071061590808248083408177519306257866177699, 109036518229456270296970243835929795775745197780771667005479102777767963665715),
    (False, 102675082457526129944691328098908090836232074743951350634641632658249530445882, 53828349544506473948676404274370892434210703330089873359202453434701921081443),
    (True, 48516251445371339627725738859025925365907461727940204151614400434480008363381, 92074511924259956782776283117006572723183799938380943523266098119983685717634),
    (False, 73214982162464138363055390930276305155425782124697940577681829251357689840781, 52470498563355555987582539457848765323608011890496027201236066398837596782225)]"]; simp only: chain_eval)

lemma cube_power_6: "pow_is 115792089210356248762697446949407573530086143415290314195533631308867097853951 104365044870446813599959508293411955044557453795746568337280127806261069026255 103161669916429158234543444 7601445518058471380869759474268289202682645205529339031022993674849303053241"
  by (rule chain_next [OF cube_power_5, where B = 115792089237316195429848086744074588617105774088927458618074203789970708103168 and A = 26959946667150639794667015087019630673637144422540572481103610249217 and ss = "[(False, 23776695267027448140213455378185784470810365748195622628552751249063595246813, 37650699250006336627222909952648337943728754001371177529878562457637603742462),
    (True, 33935106823162571509314718194710289580806841737638570983217123541449463503073, 51695505378253712703715262834128389579051008382218667437740186169201142648387),
    (False, 23079515142508037031121873060324812726061284902438480403243963896750110404955, 38949457494267454778732563635358755549456824050434127610543077207340256974564),
    (False, 13101587936130475252317762180389453449081546231846790088366584786271552585324, 101944234760092908054389089650120172040080534128954445380372156988160324974972),
    (True, 91883778136968694069909115424763597335446804489442838850515025018254719432421, 67980698802493919236651715531840370394930470172819379062343220474431413544489),
    (False, 39910977003617879093515380688573430467900883497312436066253466581794656236449, 75006553087941829365487043643040484555454050428842962971107807863856057411122),
    (False, 48586937540384732659151454776798878466057068978599986921205675361939490503969, 67841334745203512825251491746979067025326776418988222592700733147037581467365),
    (True, 61146352855691632370921388370832182311820168461347068249259389647644846646426, 64929296827881899211844063099576099452475541110052830255248689016730726538949),
    (False, 36408476738894000516449348503060047303986911014601417245686190950791305670149, 102288485933608156547830220740906706549011421148993757725421426344928631615902),
    (False, 90359664688165644910398464056758824637368674023729440847640781440949138837778, 80976340051720883286520497279321589860802106730507349404439250225909533912726),
    (True, 72985118591215101686050256180714438972441093262642841054508726880590082652858, 96307810026531658176670115080708850927309677965909048953448866381392255879172),
    (False, 80102141133808596054115336699016669760165203061593798716183222107592091899132, 73460178095077452277416013652051143658521615579236996270187173316869503735052),
    (False, 46604200706293607916952903179968653805382871913730272965088059129163108922472, 71237843902076672664232201754993951954149184909999697245843671442647375555832),
    (True, 64207674513995790452746121284310601064376813880632996126988632881940325868797, 110539491297827815303819556583557407970667147637583098154121678128861332302213),
    (False, 105525163417551554672850584246709774209513766379194144102017316377806813756790, 3926024836255196359375405161621294111010119055389947149575015465793710120079),
    (False, 133115060968379769941521974017709656864558365568855785072265562010847063000, 7601445518058471380869759474268289202682645205529339031022993674849303053241)]"]; simp only: chain_eval)

lemma cube_power_7: "pow_is 115792089210356248762697446949407573530086143415290314195533631308867097853951 104365044870446813599959508293411955044557453795746568337280127806261069026255 105637549994423458032172488021 108747230344190506385095120885341373598264682501622538400578690225499454027352"
  by (rule chain_next [OF cube_power_6, where B = 115792089237316195429848086744074588617105774088927458618074203789970708103168 and A = 26959946667150639794667015087019630673637144422540572481103610249217 and ss = "[(True, 6851290170015133683578123686746081911614651496730547110061935272607543550135, 67216619979119860389662790642405289787056301728912895136059356465196015509070),
    (False, 39018848629715597860744363786328355823806282296169093377607019649354324830845, 10694151337750828617059740968056454393350244988399689981643676009720662346305),
    (False, 987674318812525893568453364955779871280525311766878381540465799155895845931, 97456095175495751540715973311110136661283592824753593107795327828181911529644),
    (True, 87838554561458516466341786719149318940000333448305668384269760844351205293804, 103851052166611384786146232976648913188583197573652539165140604283037809583616),
    (False, 93141432283161908398809273977339837620955279066931588285271115051878234555785, 98329658601965248936372185087189664773447989286490234569362287401432003478921),
    (False, 83500710857838847426659882132791132846571746868138055458191457444140346512767, 48342760742357252652229058505800024511805597124034050245990923932074568431824),
    (True, 43572012807124882429853089275465396451563894267590694755485212636589928296957, 58544272251678305796891868910367514866575643955334104157791425821271089812013),
    (False, 29599878859186234776696269363976886200910380358178354328102529265300759907189, 21243468768876093566959732932837089686232098304254244870051742218159842158430),
    (False, 3897373027913653067430585530287353185139879993974256397875417718711167848356, 77018583868296200907305846773944419262062060594833121541808962517123416610344),
    (True, 69417937063649549420506148506756236539748083167018643945922471551906428542601, 95706093233667757244313784781497881370771214985443862109207719226941160915169),
    (False, 79104335576944414342679673891188024173447789078553973210052555509846692825459, 41512680492115533755566168379602008070202819858178288468226678287542097760052),
    (False, 14882732088111769884644818975972606731080228135691621684194181343770075394173, 44404053864888905954600097071276343097040931662207243705611437156517056615181),
    (True, 40022000687974374397691627953341191308957053353611541496891426357244513364541, 64940485794594143854566938198444622844586297248920738971904170919170280425664),
    (False, 36421026030340409349550469453419686669437179358514470881881172732646109242380, 63163895206238762344980096121766114069087342994926035946947519138708530197516),
    (False, 34455528739763701189283974648378922451133128665298162571842669284739285651355, 77651431869135780092361224404378506662852195191230387016615798037374277316651),
    (True, 69988331901968850542288754339508865516320884624651902981156793488106550022803, 108747230344190506385095120885341373598264682501622538400578690225499454027352)]"]; simp only: chain_eval)

lemma cube_power_8: "pow_is 115792089210356248762697446949407573530086143415290314195533631308867097853951 104365044870446813599959508293411955044557453795746568337280127806261069026255 216345702388579242049889255467690 99622503303536665156078286151255630197319951320904072384646233412114035479913"
  by (rule chain_next [OF cube_power_7, where B = 115792089237316195429848086744074588617105774088927458618074203789970708103168 and A = 26959946667150639794667015087019630673637144422540572481103610249217 and ss = "[(False, 102130984838252098455579986568981577089856429957799254252431036485523428893564, 97216331805230745655861320621375717784067603263623258458927819585841568260540),
    (False, 81620560040982801669455545164150024764817288173653930872090330436875924262061, 96970066746563817611265781017339216003033252779673992033910082667614892838589),
    (True, 87400490276240857986411785098017078104155131671043419610420551151782082354672, 20103879858792746622021032229722321759228900349984875328617452514567079645123),
    (False, 3490445574762327918975190645617754164977501910317389594730026851930142304371, 99100260901030982679850741593021669845947645553186240666566020798695670765308),
    (False, 84814617109214822264544463692972028263765937119294555162287460515298429610402, 50499631968180606388573021108209468096086341525747477482100979956211189936562),
    (True, 45516031295761817704330128379065747518505202241261117471533393601579379065806, 7802238151954654180653262115107168685359161122613817676171972461578756335804),
    (False, 525726071573223046762960034264511881022849844166253028572069133629601833679, 35386930831445972003770190791013149084120601467501147977912668079597077310687),
    (False, 10814511442095508375366426372397517547066817767006236158546841317505289767454, 25769367716992965576512073504141753283114876771397527898814219201457079301215),
    (True, 23226294960281942381439405951050302066761545314287538802454262994119969193171, 28528316011657136427556100702557017048857707691866827495568037733708823831204),
    (False, 7028673720382119592472475568652680300775913644056181908396318545206439735300, 57154427962525044575614227638220652253277911464667333800621819602874184919316),
    (False, 28211155511574472687127504984344025043407797227443876322408671869782425924589, 2207092094428828954435002782756538383782964235078991684132260705772568206717),
    (True, 1989283266578038884258810111244632201702999081944224501835746439763179916112, 108122998111241475207336756678187730843704362140396306918812279695959332596323),
    (False, 100961842905568212637656290316010117490491515555655976787444713238398787414586, 80942450356907531259211783676526855265050452115889596432274680141639757991043),
    (False, 56581415142084412135906752999283706394433658313962507002490194757407428174187, 38303373975087827751897574668629975657415155932374071891953564249653354065012),
    (True, 34523371767974052995822452814682187457977100691919440744292647819229074907520, 13567820731944688978364066987490259404740227623119531659726110985813013278540),
    (False, 1589795647263645680615001088957702665929864561850795350774109153258895480537, 99622503303536665156078286151255630197319951320904072384646233412114035479913)]"]; simp only: chain_eval)

lemma cube_power_9: "pow_is 115792089210356248762697446949407573530086143415290314195533631308867097853951 104365044870446813599959508293411955044557453795746568337280127806261069026255 443075998491810287718173195197830484 68057082993018509926796377765066456189279622693597749335629887647582191580482"
  by (rule chain_next [OF cube_power_8, where B = 115792089237316195429848086744074588617105774088927458618074203789970708103168 and A = 26959946667150639794667015087019630673637144422540572481103610249217 and ss = "[(False, 85710891237426005878215276503383239000369729193918854933587083915825350805743, 62820072757747864106364630524683111958005299060435498046672784565504240446976),
    (True, 56620618531345335894134686756069779759622635040561919495322615889687918150719, 27050800023532744266743576054158619423712687133101717031424041148024811714111),
    (False, 6319479913552790545382282046957057754698820753172160450540048633465663537812, 63252462455305999271596331967410692205711347468832831185796028634110454425109),
    (False, 34552222297255723342510522592964642892402328309342217592307511406031470196301, 65811160233680626721006414379756900549837582672569465682283525748145891226630),
    (True, 59316527904480947008345272096895695658400862463246235199285029440205071434828, 7112149778064488557173147072451494975302564275093884812804154485430466365222),
    (False, 436840502754299772345966857364918465142781847412682888736195471298204335668, 40127516065156338860434525083018933434373318230362909490236043765833847085016),
    (False, 13906110137059042964322926302506559374275339461326520899373614829904522918204, 83901959189414540848642257831276063890282865055705415237547160234496020496252),
    (True, 75622020426750236627139654194155502292805112739590139901527161984165079256501, 41541893585477368413647340592470702447022544112233260060050113605187751810809),
    (False, 14903685860024878535993026766789733583029146162406275672174414638836772398936, 87811559067801835534084470172338342826892024740672752917565080963222893438345),
    (False, 66592372229418273547397035881139169881297846345707024314203446970757800711748, 102274952350001296002808736307873668975828766482772847128091881594025162422677),
    (True, 92181858570145194191523918448760179397027150370511086909683355587063608152756, 57889310077315762565262771291306464289518346103288760668130584484986134245679),
    (False, 28941288166410327798690875664227790619853637641550170689036095384397571314408, 76651064428704095558160460450430781717945844665751760691412858409235244145033),
    (False, 50740821053670579681649093119679490925297942003693438966637659668785296168046, 54605844523102189350454101596594066646315767277563560238508518301676677521343),
    (True, 49217018647008734415846722422291550569297917652602521278613663408343940216057, 51636693000087026373251899671930298021086736405564684271323037004196018769258),
    (False, 23027031312487648281403368169341141553783728276277153548560634128014984734013, 80153911037655262419944066552575926503352692624301450624293854528722189735201),
    (False, 55484355610519067460241474057956848627116367478331989190077068492536656922369, 68057082993018509926796377765066456189279622693597749335629887647582191580482)]"]; simp only: chain_eval)

lemma cube_power_10: "pow_is 115792089210356248762697446949407573530086143415290314195533631308867097853951 104365044870446813599959508293411955044557453795746568337280127806261069026255 453709822455613734623409351882578416981 11761051607231701704259130860399803868552068879572340317214114727900732657625"
  by (rule chain_next [OF cube_power_9, where B = 115792089237316195429848086744074588617105774088927458618074203789970708103168 and A = 26959946667150639794667015087019630673637144422540572481103610249217 and ss = "[(True, 61340809797590549302709545128314877129955813718100390797792255825714785372375, 111868042142769477405522831477846809023643055411298744246224249990366303551285),
    (False, 108076976054225781775458496619479620964395059622181946360991629349164822394990, 24831610968115566364870180492075415323397061833264033567579066186109571045735),
    (False, 5325138422467368667634572413376036515318520068146226762395876215477612878307, 58978691995245294876576854378607613278831043600743618235110834663101639549268),
    (True, 53158327813758080474234380627915872526798576860979613111565986718548179074173, 53930970428526825171285137422902602179995340919697960068458031331139507923817),
    (False, 25118724354983821559971021567397199732537319627556103107270293263104544037746, 81469722426676567867633444219362038463298415488234225984994187007800936615043),
    (False, 57320976912523801513777497521858164294119496085902590957831275924601310087360, 7725956810156944637565293494131969116231540331049909476681825005594442732489),
    (True, 6963513955554813313022464292236431255072836549973280676929807475227500314626, 95296950037489928168906516946387351922952348723843128136992551625882785311369),
    (False, 78429439768978767448223105507601990438517098936510723433255635168966356278515, 14709780639169651798545294923964970219274145275966003287073203578430931491396),
    (False, 1868673826753424523219110731350066504895608674006526392175859719266668237684, 37823318704163167898783865545421388925831107759975318753907612999089235539332),
    (True, 34090691174403195485794299214455065263619767347667619242562996030678055966545, 40540475240967987267236723448596213511488574191473668912420510857904441092365),
    (False, 14193803255227420388241067616194216366992374420742645530206209563028760349147, 70764029394120628209163159621727686154949072057988234295596438455149287863428),
    (False, 43246027342981058038908083064825633050754819268521135413723072046887666044486, 571752215140410233506919081156889781458920798688670741279070013913683046998),
    (True, 515328344059011982229131679420122986387595417111539459834281916967963961654, 8438756031911207073393256888336122178965541257341555619025373688377804537536),
    (False, 615004046060070971091358260639833634818259570713322423871036513642986731141, 20354580911918650319150650196018269068195500087479326805370884136461111363205),
    (False, 3578042048685895727688424305299234475088093948321501031772420619509984435836, 58783290962213121504582621860971757871350210648559704766344742017966369283989),
    (True, 52982210103824658570441534287165684236293150504768293535980155163845774047070, 11761051607231701704259130860399803868552068879572340317214114727900732657625)]"]; simp only: chain_eval)

lemma cube_power_11: "pow_is 115792089210356248762697446949407573530086143415290314195533631308867097853951 104365044870446813599959508293411955044557453795746568337280127806261069026255 929197716389096928508742352655520597977770 11003722914042012759068421947903909742735590713723160844703086495643929637870"
  by (rule chain_next [OF cube_power_10, where B = 115792089237316195429848086744074588617105774088927458618074203789970708103168 and A = 26959946667150639794667015087019630673637144422540572481103610249217 and ss = "[(False, 1194574999477564292804968550793298542714891434509093796127282449753293862719, 20078609906311465684472602596796742399656905346958713737222503053091364887856),
    (False, 3481676326242257822960145479612045260549267419626152592528070143195424381081, 26343238942199233101649782210098236685086555704032161943578561082901950775705),
    (True, 23743533198031553266554640511567634325819616462661361297428500617926446512623, 69748831418569293919002076132626460418396335412669244034741200336454929211302),
    (False, 42014091959409008348917280855702879973654562373875442806757752999778826018742, 74847695867379289648308374659682361766598085982753101074596789202470259785562),
    (False, 48381349838833873460910501210170492833111503981583337578641334337192863757479, 50930810696561522617471224708039859476176332080986768016285750730851197706315),
    (True, 45904658771451511006679356836908276136771511109456360200026738000501144214465, 14800563852540135633210949170557801275256825246467712842156686275585322699110),
    (False, 1891810501451127125837700875574520137447039933025075856288000441829553945374, 107776357719916910800562669436565638149724197247779192415751885240035110719426),
    (False, 100315516911258917400602308178428064585744671035517136915275688680073273408173, 5540661730605471640954573631391720012128576179185666590519037156127330027953),
    (True, 4993876646237156883866718287149006078956830371855832226956269142143682402430, 77047462239321698146921728953297838498170302546165182846064957029134693405085),
    (False, 51266986181891683862650929697490894201022201646763173423037056584597609351670, 97110333205592783036006404027278800780014467165494434771537664225286445909055),
    (False, 81442669180700953674317558301556345230007202280719716839083088092416483745772, 49829043446980775079787835543795064665700833096706740215738130131970261247853),
    (True, 44911620393584507829941827565307061875774949593823655536785114579807912037512, 106769314044514217152737758754927431353550235511376668537278577880108909970603),
    (False, 98449613434529275009849439888243300808430014242396650759373474532196354039666, 47624215798354529796083451908725562157825768301428611006889799507748195363243),
    (False, 19587399673633224334297612219857701663612756489300843640540300083725805551429, 112986873307051374853613239766105866398106099981113456036500790885516654131070),
    (True, 101836664170036067267839368933120556698849478488570362471345575582278306131519, 84394223309453882306754271047760755091290190368226590922397138288538381461281),
    (False, 61510116766845199372442430262270574853389869345566990756588121485389756916141, 11003722914042012759068421947903909742735590713723160844703086495643929637870)]"]; simp only: chain_eval)

lemma cube_power_12: "pow_is 115792089210356248762697446949407573530086143415290314195533631308867097853951 104365044870446813599959508293411955044557453795746568337280127806261069026255 1902996923164870509585904338238506184658474324 35775901776885598954482003729583107646807750445601490645566537221646841361589"
  by (rule chain_next [OF cube_power_11, where B = 115792089237316195429848086744074588617105774088927458618074203789970708103168 and A = 26959946667150639794667015087019630673637144422540572481103610249217 and ss = "[(False, 1045683852797984430948267675988905890332763404906320125007066046971588988325, 6856777127579798674073985788017834798272100404724352114672256282358644014825),
    (True, 6180110035725276019002669610318663054112301216321483412652142979769786654538, 41318631642400096376128048230363127429697826198954797840486759699526918850737),
    (False, 14743920180064034811586505267664233225029494014535155340359689555615246970622, 106632813772256883821302441427876516018006669373954984733354628330810741815647),
    (False, 98198046606899411213560033596408335741743239498506506365585547649655782109967, 77169454004289947084928264436137335497544859323423120260158532411749746598992),
    (True, 69553918447351791798380336833835419350110950296648105972665375307785331007681, 80571785176422788683310716990998758869988005327749283339537140787468007337329),
    (False, 56064387565562693764333945058286691001371838200967541455025681687293868978883, 103875764094438146251362504211024085313992569179934948860063818406559359737508),
    (False, 93185764587088132743705161129341267839725170746686532799839536335468735012087, 88440465275783582137780061473887970541087729234889485511352708007684916344327),
    (True, 79712640041430593231668721287814727847481903143989743487205436255065817635773, 52743381712919700416354975047918715439615988518068364622190918106687316316262),
    (False, 24024649123145340298687893161229772991373687309226169405402357084922400783924, 12748284987195141836571239748957402156754014269207317028896326444745144968920),
    (False, 1403539492404370863777642232340570234632076127239052417282603260748826114426, 93663442062767758208847174504038133428397574423197510130783219397537203769274),
    (True, 84420182762597361688387854285781520472493760949236277872167743220949502648383, 1741025597290347453265333979421276192898722563979705145494820106188627977637),
    (False, 26177696171571523659965276277569241048231806277765826745333197553773228146, 16513285100016301414116997825601933655485067698349317399146568975510461598923),
    (False, 2354984581883091056926851262279700072666075835285673758511309542309135623783, 25118977692330963872788465384610086439646819555550806823943737256982698643296),
    (True, 22640089248216165738373530474751406960259146584188943809055097863898387871741, 17859747236688840356178403609712986243978660952915932757660453220168965637789),
    (False, 2754683619007424215039648299538194406803112812214631664979170484394893149521, 37105973835339388733214362793016903682095555527027607039643059671833081201050),
    (False, 11890737127711725184657795422414503912228720534340161372625749241834355794961, 35775901776885598954482003729583107646807750445601490645566537221646841361589)]"]; simp only: chain_eval)

lemma cube_power_13: "pow_is 115792089210356248762697446949407573530086143415290314195533631308867097853951 104365044870446813599959508293411955044557453795746568337280127806261069026255 1948668849320827401815966042356230333090277709142 108532046677828019503917404953281750956392395626873412708478581567868439248706"
  by (rule chain_next [OF cube_power_12, where B = 115792089237316195429848086744074588617105774088927458618074203789970708103168 and A = 26959946667150639794667015087019630673637144422540572481103610249217 and ss = "[(True, 32245325390427646002164667319933665438002438481581309930528078663077328061274, 85938841776668843881494102954397999275956287464308218398120115614621758525621),
    (False, 63782289241696978701237969814402921723365333034743115307563468429639982317070, 45856996157388490116232772082032461027460011453133625160082422533414279192071),
    (False, 18160688790738790274496285356728657943257590502587099719336905639597573763351, 13760647060540139709429698603446841244657595040082937394476070092925674919240),
    (True, 12402665481841989620229729673581084581650669124726534569686690878680307044704, 12272468933341175896518581568631179352165394410640720397730972394077144620696),
    (False, 1300723518738909525945322783582714530884371945113105328034134347648193956711, 75424302357267930861288342824127271250542507321910436656552773157214217209255),
    (False, 49129654926130945256264902483386264974504359170941373151695524184969521141856, 61390257998414197830539852453022670087191341433519446951759968715539816581969),
    (True, 55331906301244741350068894709709236552182726632100135242624446749556570455297, 45093744055906011275224212107448492297627426751456800799164690614389540267648),
    (False, 17561180274461191539229390609784883998085333055899344219627652268213059492734, 98927674524898051997100544006081872139100537079309336385606276009735397759870),
    (False, 84519459434961628369420677947286758184832511804290050805315760461344871067033, 24450636953473869031689276969859266329100563259565240226966920192708417519517),
    (True, 22037704304000738014598666058252979972935483764292004314016170267877698400115, 45274155784648296574532115900192732915709878325071114613503028171343016314470),
    (False, 17701979435649363102154668489674693883589736683638512107711179260939007225115, 8228995075159282515004741243851875951453825105245643043430754310881882201535),
    (False, 584809898575863064223053401928881913877558304149339063291198003618994290655, 72658595878847355102505843492405553188714146819373204617090641456346322228320),
    (True, 65488218330215203232492718697693897379930832282353914765257168924757684718457, 67848400641209685743698692122795606456782640513555036157886836292431844467993),
    (False, 39755785571907464041474968818119325167357034486233272096394631348518526219450, 5982457413891658498089965049367431001263983485147655254137479797736925901099),
    (True, 5392073333283449306823550890133049533261435061288150159877262348343207914402, 71286869854070594959573181461243217066889864505187194439647975650031658851943),
    (False, 43887435214673454324951952043078042524837949213059680191707226811076989514193, 108532046677828019503917404953281750956392395626873412708478581567868439248706)]"]; simp only: chain_eval)

lemma cube_power_14: "pow_is 115792089210356248762697446949407573530086143415290314195533631308867097853951 104365044870446813599959508293411955044557453795746568337280127806261069026255 3990873803409054518919098454745559722168888748324180 28960168223331901892775799795845218317978587962379610705430587399441469845068"
  by (rule chain_next [OF cube_power_13, where B = 115792089237316195429848086744074588617105774088927458618074203789970708103168 and A = 26959946667150639794667015087019630673637144422540572481103610249217 and ss = "[(False, 101727201196614456142845320279586468194522751802545819517768172732756031347414, 33970352070347085324528414171260028867313051723850950187262072790679409141722),
    (True, 30617957947420489089502275522411259565829702057754715669307891020119575422167, 75397222880525141403238884675663731287344263150204226000434290037817299979293),
    (False, 49094383362997048802612672315954604367994346899335007113586725258120639217065, 42495874871372124972140561845901363315675121700957851650746992236947871906034),
    (False, 15596051452207498736374541569159042047270805212153577357223331009746264212279, 112421423434993028166469178585286351611842809873246171262572259857973722744827),
    (True, 101327016216779518538347990073926290059260853113191452267901837582383158718489, 89674463012723722274192094885352330373272566036539423868025811312903483032846),
    (False, 69447829911865308344084571522910435834917467580855378242685914074613411881889, 43050844629533783048878076529091819387362991716183798903026184984610130866277),
    (False, 16006060828121710945000181870142740924665249518420746026194915654677924865705, 23062328248140387031312063936667334701697997921227236691432105833097077190274),
    (True, 20786402066393283435195433180227696493594046123097512091451490833259618897822, 45002624934895638494550331429461230436438942370184070497623120289824388649148),
    (False, 17490281631862610553372734733055629437281089808392023023273766645523923846606, 43234080762937058745969489088656964511419824865997896985549724319248726085598),
    (False, 16142603110135328952703530511768191559490929621249275403027174779228065148991, 102953459322814715993153407551520131426167481567072838154127467872792450004163),
    (True, 92793406484562220456229965751727300528721237322171932664462269274447104590228, 54666291798281416125365315546233107335866380461142609619851296204265060508737),
    (False, 25808355988343047100702213134537827417234106712211278522439234694685093462045, 77130548114318743004171414963829409041608307478816205719901990438836881545374),
    (False, 51377615629748558280082069094377546191684754114173804873807005900381879442791, 43731071837880411324582234562839123756391486248086803474598331771494642982635),
    (True, 39415432485217877106200704643228706851492389155608482379631739045300983028269, 81497892596909625388397403843907705207217864812466204922850857700665257741106),
    (False, 57360624054992660342570009295282462852004241990919449282670900562495439177683, 55496784484064182367093435854807240714272691031203877173123326943280249527703),
    (False, 26598475846441559357149681332384618786200864791327659505570252101563932581691, 28960168223331901892775799795845218317978587962379610705430587399441469845068)]"]; simp only: chain_eval)

lemma cube_power_15: "pow_is 115792089210356248762697446949407573530086143415290314195533631308867097853951 104365044870446813599959508293411955044557453795746568337280127806261069026255 4086654774690871827373156817659453155500942078283961685 21271776911275236133569165076152850336732789683465045407354179023603807825438"
  by (rule chain_next [OF cube_power_14, where B = 115792089237316195429848086744074588617105774088927458618074203789970708103168 and A = 26959946667150639794667015087019630673637144422540572481103610249217 and ss = "[(True, 26102208507465127888910891633127251481077371043306154591237547770547818332790, 54581750618861032666150661720863766083297625575175649277951194818624739907050),
    (False, 25728592695200157215702973199180877372121696503833756623907386038258245472181, 35782672601359056319224742727261658770247518850478318105974011654134868265369),
    (False, 11057747271231852971329678677958901390187661137322908102037157524464285672493, 87597869029206426823900441266325490763625476098849130400317571248765872636318),
    (True, 78953196147798610194363901251941075698338698356703989424608653305169353689704, 87834395542996923543714244435573301227330570738521332967186666158868044108586),
    (False, 66627013062941020895727502090534580980597113938125634303782143563874773611253, 58162358401340012647200488752505778558984009017009677943842442279420714808793),
    (False, 29214948602061926320122372133274952304137659027539886572406992422736641635552, 43976258365424149399642718722219997773722436607209252984116066175636684850897),
    (True, 39636422564274526854717802873986910858218219663985760992309663561980699502330, 89812640470559941641189689427884552747732160584463997093230899669832929094905),
    (False, 69662016147236285697634608529263595523002610849772191988736903659226281461822, 44596487548300761609910134387890401652442172214929954841865450209511158600303),
    (False, 17176015349655387229801334132671146683656359083474745161201325346550132854160, 37564509119004583515985961000987627770405498072121909046305140761647648905649),
    (True, 33857422441174728995797157069252023752746159564696329796974893429208010409925, 73736413003251770626456813891359983479899498521389464160725225377465507950820),
    (False, 46955354546792610003021776521503909909641267270337775742690840513162166935275, 32591932853748751528817101808080128961767658211823640439089462434872318650875),
    (False, 9173632623672039395268051612081155990746270332613910306922319451988376533753, 86424307537505129629976358188977770233114337422893293652184077026625722357522),
    (True, 77895448605847531200934738724397159994007483488316402536787876844131671712314, 43169964632592102810436283765201699752461761945028873689899904416728654487496),
    (False, 16094759660080230035082709802741872677092930921627326819283800520641771759484, 86498586273989744214323253728972918191944370581196650992106631853124689228732),
    (False, 64615860016192445215923613185901910777534758436949760691687329638148274024415, 100493582401863552641124707327718993243086670468748569468929231628856336114159),
    (True, 90576284684777959824028529329102317297636372217599678272006547474098121588957, 21271776911275236133569165076152850336732789683465045407354179023603807825438)]"]; simp only: chain_eval)

lemma cube_power_16: "pow_is 115792089210356248762697446949407573530086143415290314195533631308867097853951 104365044870446813599959508293411955044557453795746568337280127806261069026255 8369468978566905502460225162566560062465929376325553531562 102447528465708136482098889234411091468410830295799966581017083113614539610294"
  by (rule chain_next [OF cube_power_15, where B = 115792089237316195429848086744074588617105774088927458618074203789970708103168 and A = 26959946667150639794667015087019630673637144422540572481103610249217 and ss = "[(False, 3907766895379519753134832593057644856967317988745298201398905883248932489411, 81203825095424117744675536138826305621812410270890886765689063540208147878983),
    (False, 56947424086536561386326683811279722220712271931443125845690202758760290075232, 68893202584178112589608433106745955145288365772612184651782846237210074672657),
    (True, 62094416190250981942772177650086829795648908970074404831513811086528592812949, 34132109174857402860727384598416679703785262803133556442849941408400599998036),
    (False, 10061143940567134951459273341507650680374584287181809259932570831649908828092, 29378149419037680267768613796611126521535931155923101690094150083060621865804),
    (False, 7453666905684537575169302249731001302510754502830539292086266495359409139495, 35987787280480150619086400814094687020242729549237717490909059326068088671671),
    (True, 32436300786422701728131583863493531444728552205841338417459893756576468626067, 86324080263774236307650750817444733653629632260323599396258387043367176181388),
    (False, 64355405314856829069399544555093486301146376237861204602030270410059597694279, 106959468145839041473333561431646862224449346428081511908791449894924787360215),
    (False, 98800599454228976936472694351017691074909250566862488150316619772440755109577, 40944370396943470040379597024129493057114804613358280726544230513273617457498),
    (True, 36903739131144506203771185953986791022746431796218807916939229192634873358225, 85260538869229263680083518937296018363333928415815334310026779058809754013015),
    (False, 62779413842903482753998311056014204352752073268440908318735832569373369101950, 49099428818761434682092975839294551280917535566185572636961913582439660085775),
    (False, 20819677119298467046434859038547541013659362503753981307476722151363362825154, 28369502022540922226592213441484628883961067347057048903235967194074516267171),
    (True, 25569832721093242269930683146322177911353119923531309942698765827304627372909, 83091463604598371802556547150995136298934220015861088085909715853365497561146),
    (False, 59625760024172675891650630163253310800991927825940869447276785941175252242980, 69219283038365152818612278854093541541941237718465907723074397760616803819336),
    (False, 41378553379765594123247059001450498229977642809488038294943362966286678862086, 51230829661129093951822069479532803358932854361244851193600533025591628279110),
    (True, 46175070100175331355725713023773885946208173625538466588068156554779520301805, 33108538092013539967835875708934102017616711773854482495042586166817726351495),
    (False, 9466754612216388887870510485066656100235559614096194564235756879446926139781, 102447528465708136482098889234411091468410830295799966581017083113614539610294)]"]; simp only: chain_eval)

lemma cube_power_17: "pow_is 115792089210356248762697446949407573530086143415290314195533631308867097853951 104365044870446813599959508293411955044557453795746568337280127806261069026255 17140672468105022469038541132936315007930223362714733632640340 7147794460420720659554225503523458774646264689917786097975998672254478758700"
  by (rule chain_next [OF cube_power_16, where B = 115792089237316195429848086744074588617105774088927458618074203789970708103168 and A = 26959946667150639794667015087019630673637144422540572481103610249217 and ss = "[(False, 90640873312728685863840522193884189955993037129033577003051248883820267339427, 94234032889066194648730812923671189606175366693759788672867746132053200740359),
    (True, 84934464330495487279417247249724426183533997742713016314533886340037843850566, 19908940239313136290310650729748685774315247832318008587154712216548272439279),
    (False, 3423082735233103507736373358303439528057249351474470107109549291282898759726, 111706995961000413079535568399606010175311117593886050067344124408130553262415),
    (False, 107766022979011167708785183405837638064311253353968921651000624391022370399089, 55316320569798376068313321123380051233000395412338313011236482672100546181586),
    (True, 49857380739086726245565118656916656127923184575973680460707449088837429046069, 99629720701475193628260064746019364055659115641493665631316023773652418871811),
    (False, 85723310761079029026815093666467523946392915642953490754777513772550830442400, 84291095481254692474874012304927012914138946600420725685579843233218132497321),
    (False, 61359880678226307090793175038223601043546246275084467542052581287207346525738, 67725112505885189784377306899597642085714707009371049369230796240880485686203),
    (True, 61041600110455598175910987944995441232794699358960622319719244860837033138719, 41470772077048216459932880830452244100487451844129058341391187965368113030996),
    (False, 14852698041764530196003512673686260276432959082033114831552075344453326375008, 69575880567174542361139778888474596803117579175846544695965568352239016295408),
    (False, 41805992013008630173122892105035749875430838672482148589402284879234946018289, 30496999392718776862545929080171851078943828811943890089114357508840024976625),
    (True, 27487376138908272392665139020402966677301255366249806974123771787328646453671, 6623637762043815997383284013791432335400081926702316251609363175637040485254),
    (False, 378890971757757369112514796339714324766192404776413663638091660105052035194, 45932887327475031243996823779579605714460693439047820916899026070749467493022),
    (False, 18220848700688411763556343278184785493487238362803442080768826693415320332901, 76402922350592956131768889658778650230732398928903986373719942265009620550633),
    (True, 68863032645236483961402371722559961016270546762201021728328371179781208784414, 55105212002119991665670679146127093614843917587492383469638024364745416749701),
    (False, 26224454628175084387017628867884207778663299937472894418369266884533104101137, 100487389752512262186621044549815879746213093297089058242773683154433724547114),
    (False, 87205573093418058761993830554579575622686824412195566627118367605406071041096, 7147794460420720659554225503523458774646264689917786097975998672254478758700)]"]; simp only: chain_eval)

lemma cube_power_18: "pow_is 115792089210356248762697446949407573530086143415290314195533631308867097853951 104365044870446813599959508293411955044557453795746568337280127806261069026255 17552048607339543008295466120126786568120548723419887239823709525 76424646791699379038839157302973287415317498930310057294479434850109995605422"
  by (rule chain_next [OF cube_power_17, where B = 115792089237316195429848086744074588617105774088927458618074203789970708103168 and A = 26959946667150639794667015087019630673637144422540572481103610249217 and ss = "[(True, 6442408066680089764866218695528826216644620324533101557963842042443962853337, 24700543102599419946045973215469941222781398487433788872339747195914850684013),
    (False, 5269071779635909365153375562582844727227861024391193572451923436605361200554, 74726879117148531628227427321578781468573401225729453686697122975479661495315),
    (False, 48225284651738508102148719596522779736538721106846240288914865619532346887870, 52395920648612678043163054079826823771865947562248558652110385679251133474855),
    (True, 47225183057080181895109361514653624665328205526517864953719352253929866635341, 74679562733844518781969493116789484115678384517473986215898470419611184235734),
    (False, 48164232359488494696104534694833230832718408439488954057530910220422432593968, 25184921529419010719225397019087754505821754009891452328869250069146734951188),
    (False, 5477751345264303655179414457830728066529690280926247927970621749020361274641, 55726359552948585528252785735380252815176582342175945474346951572226724654753),
    (True, 50226954663928533104757685772535421337885914500635277810696209477242176633039, 51979396054106172816970683941024666648877492425062487864261152198171024252926),
    (False, 23333697773094319383186525323277610933665354232746018550536420823373176148367, 77637982979424887902701066906619326742120594388443637739121224681170746413459),
    (False, 52055856684330082823816157274115210029758981033536248334478766610049034326438, 102348464811863100344920656358466866021056150608825091523155244628789194288143),
    (True, 92248116389941557601530623868203415882903531289429717685071769237029497367519, 67380028785311118021791229521149073312991080680581139210845802417572068976896),
    (False, 39208794919154967841139797130608731624306771109639566590110619534427557320055, 68356291601154610991080644659702120428348571465725737677852834156104828507511),
    (False, 40353210943223680260546252434586597146420675816515175917687281507157589178263, 55940244037411192977627328143439596430199988246126546769071426980234905548008),
    (True, 50419731769603520469313550527863357414754688400923675802228116840273621092416, 76598203059088272348724581772635854797294726527729907834291776030703873214424),
    (False, 50670859744333552758223644795917650138597225021805985660034360933003276810147, 56690895718359752346198915116718170884666924461278616906677721818305720810979),
    (False, 27755416447417360388793711096882619619396089452395589399933726832792004802129, 97242511420319779527002369389540623513566051776163939678918661700715151076762),
    (True, 87646048507335561704948596855894312612865842835941862875738279138080573493288, 76424646791699379038839157302973287415317498930310057294479434850109995605422)]"]; simp only: chain_eval)

lemma cube_power_19: "pow_is 115792089210356248762697446949407573530086143415290314195533631308867097853951 104365044870446813599959508293411955044557453795746568337280127806261069026255 35946595547831384080989114614019658891510883785563929067158957107882 26367998030487856222087760306519762523908488465911534692006034260774806051433"
  by (rule chain_next [OF cube_power_18, where B = 115792089237316195429848086744074588617105774088927458618074203789970708103168 and A = 26959946667150639794667015087019630673637144422540572481103610249217 and ss = "[(False, 50441499735144440856097959173005791010905661099165157851201547256763810659864, 66338300972545437107727167469101941748938254807527737242229732051180706275420),
    (False, 38005793020361406864306309290239775649340843426989092123521169805278580459028, 14401699344470240005111741042468899394413370026778786005800014461305612756772),
    (True, 12980454956346812672086034875837151013149587349108708287035111183798481448243, 69223357634312046967965033236936345206131012024554285799137924540380417490767),
    (False, 41383425023643937426106134684093808598680249315498692037341919252143736142894, 41520149837700336337165103016348284053296360996722410439938320598878851774095),
    (False, 14888088247663317231057253424873891863383028114167700643132907282794752843822, 101347492095195386715251275354836094102245247850781685572500622792418444428303),
    (True, 91345925547704161773715185647027186156182771838876393843480600517372006515991, 30369726605032980227304767054258613632152998287898858670378586050309908064824),
    (False, 7965313523179416462928022521002985238314374226928076593931818952385396564702, 55082004107303671349240049492864849185605641430935771867885915301764668313374),
    (False, 26202370102893525281546589837051970057885600059522608694062782302153645253147, 75247826117885164692287934716600635124834436831824713589142929874716038130079),
    (True, 67821928101926708441369894124127747139302375559401110005710085941461314260442, 90676540469114591768230504143428041057664570499397175318639969671924663517803),
    (False, 71008607302264596402711780965088051601794191582157192373999169346866869295165, 65250963813721534667217253944936161023759417642911585967358009422231417499894),
    (False, 36770113637769968831557768643126675527012911180132508753891947844788832597914, 53603373304812292909947075605892555913948180790625642401523785859368010753022),
    (True, 48313477184101964232985259068481103737652939947087730534729831701928022892333, 52735176509829526400059217874014886200648953138837878623009146145478606934927),
    (False, 24017174752505873544766797460680735243728620596121817571749919717282498755873, 23260581971797450785197875538144851161038685361787688768683422277911854991106),
    (False, 4672639360395248555208538717917965195762536591550681117491682498389442367092, 8898811262899346675658271399632495366323846109250076150762454851852594522744),
    (True, 8020624233309577526840440111443223895799858331176538087111397033668823433027, 31596712905263878739988959384955969067429817446680493558458454363270454804043),
    (False, 8621938452150995485935630991206050258981199732642999106807933694180582191216, 26367998030487856222087760306519762523908488465911534692006034260774806051433)]"]; simp only: chain_eval)

lemma cube_power_20: "pow_is 115792089210356248762697446949407573530086143415290314195533631308867097853951 104365044870446813599959508293411955044557453795746568337280127806261069026255 73618627681958674597865706729512261409814289992834926729541544156943700 114399067980660947386021222361223652189168272203742091611378198133020342323329"
  by (rule chain_next [OF cube_power_19, where B = 115792089237316195429848086744074588617105774088927458618074203789970708103168 and A = 26959946667150639794667015087019630673637144422540572481103610249217 and ss = "[(False, 6004480313613924956175669621145563420314210735090922577608707555659491072049, 95105156530141870272695237861396551058025870850676964330230903326664421037890),
    (True, 85719620367566443075016199068078536175209522444341765886926109855931309541023, 54108769147821358315701682738136970637168808058189069134797707281144662670077),
    (False, 25284619343670764986931857946109739940482982276561442473018207964678355991952, 14433249027539914738896400442253563612055557069051484240173425571425923783577),
    (False, 1799075212405358552305123520744557515332235805437246489977379536275237703567, 13599335029665973520730380028663272281197810374496841110797719889199937171712),
    (True, 12257272670855213401861039677134254236141057798445551368827391588237918013724, 3172736764828848674545189292625397057631219380024733394693678001665605675036),
    (False, 86933905826757635400506799784810484763494445315836515562654668878599618045, 66807357939804214446390268330483427415949269713615601211689091295141439455501),
    (False, 38545146782772946839653202473560213961862689245114520913575535661761992499148, 86730525744325160338531517603613246782429193863156481236934614229429363227253),
    (True, 78171447399140414936302682087745815768077983091168806855400377470997110713524, 34370561126841011487622762345738060204478378723951111634104465751434235994191),
    (False, 10202212260181395995283930722954541125513366591408851554612408858097894552606, 10010361337617250612748834217441658447327463029740915090868360448890311298175),
    (False, 865407428029201292810125592275372690141338959345717308359792900277038680015, 76001007003594303040607298549166477273833158834817300065039070035629465841360),
    (True, 68500780668355458315788955553885202103657610660626986349700432349642950707864, 106577792890678115351883229285029339137605488166048745335402413353488765736136),
    (False, 98096735406621926918976890165015174638491859917157304604295315080113567479069, 95685874731066253707907775568617871329133846066713328312198902125210964758877),
    (False, 79070916549542879555109566295658627191072980854432857488498836774902311941487, 106136912908542884484050149847518258094510850655604320371641939610292766535992),
    (True, 95662698148467961680978158420259988279521433104851775381107351173031309723336, 16360864542374952832812245593049844296698605799751643057826796650035705969424),
    (False, 2311711364734589457756799997271029262489861675153858495194463386212860326505, 42313082536726739667388669944493222412231099109409920615420286522712958620521),
    (False, 15462169876797760590868823917843368443918917995400044250107685641034079225712, 114399067980660947386021222361223652189168272203742091611378198133020342323329)]"]; simp only: chain_eval)

lemma cube_power_21: "pow_is 115792089210356248762697446949407573530086143415290314195533631308867097853951 104365044870446813599959508293411955044557453795746568337280127806261069026255 75385474746325682788214483691020555683649832952662964971050541216710350165 3651859969418359924733306152110217986341221075605508721863218643007704444913"
  by (rule chain_next [OF cube_power_20, where B = 115792089237316195429848086744074588617105774088927458618074203789970708103168 and A = 26959946667150639794667015087019630673637144422540572481103610249217 and ss = "[(True, 103109495168096056287740877462298620428926888111232868287569147338708571727289, 47177568853007314997418536518618280535825346121350830487001298079621276834056),
    (False, 19221719014300167229722814300705283914337510056944626674518347766783641963427, 112315784543066670817888247383915325848727511781180619388306500647146831961059),
    (False, 108943845331329633923449442849578443405557018592329998205971361844673621355196, 115422638273589893884229052894269893483035108029598481963928481656415789422085),
    (True, 104032053524872225814646739729978648966846159017094813772505335964861579228299, 14562029622388355908801652899397851658629890317932067037219334618038553682326),
    (False, 1831322918252953740414858931825527606544497422341489477388386151527073152138, 71295611878897458158141289673296339984363646756333999878922541157845397373038),
    (False, 43898199849837096350140446550172922396197192580349169100009076091932711221283, 105027186520764335230618188411500458941966146794457446615530356236045752510311),
    (True, 94662486086968438202513400320852369490299653547281525705031580804474347676796, 80876106458518523078929262527901458460753488393113571400980608813160457594309),
    (False, 56488700052789189429367421437773594287318580073226556121483529039923160113008, 48735382295802296246436519593059162391933662999534780340868339610032189892873),
    (False, 20512087688504817243154800584695313160894954366354401918792294488251565176114, 4713258723166155267557335478274181613518012037871027002499264725920450467715),
    (True, 4248126633553011278331189780085893025450028682925372541200229738846187448939, 33046662265989121586665629643074553793198156720008719998147422036072949336),
    (False, 9431403253622919396960542168559923638445749610814768468259340354688402, 7102809670242998815617051843502133183958452457810287373257530237262113264594),
    (False, 435693885098199811359156811123273798457687549670867189651085786345728388609, 58253162538697954768381716715072365561889460330789107697643066161322999940677),
    (True, 52504397870842586546544859472390259553989555562596335474308234073435792548217, 104604833834019459352320512969794090684572523920732282956673068124168764019268),
    (False, 94498435394532746020757824306193267892053981552046206132758672608812826561505, 34421040538947771960856462269100111478282047140159684986242480800133866499569),
    (False, 10232201870297705066856995917882359215893185442991282107107530243420577945188, 104235961474445279202104897260535062217805144839595109174865270418220969947973),
    (True, 93949343781437568121762872688692527997484121947753187111565639299440184843302, 3651859969418359924733306152110217986341221075605508721863218643007704444913)]"]; simp only: chain_eval)

lemma cube_power_22: "pow_is 115792089210356248762697446949407573530086143415290314195533631308867097853951 104365044870446813599959508293411955044557453795746568337280127806261069026255 38597363070118749587565815649802524510028714471763438065177877102955699284650 80768483248157236106747038522432628956378793144262492973261479290122044592944"
  by (rule chain_next [OF cube_power_21, where B = 115792089237316195429848086744074588617105774088927458618074203789970708103168 and A = 26959946667150639794667015087019630673637144422540572481103610249217 and ss = "[(False, 115172645447418942656044833944051523016576200660231037264627280731188523878, 111086031792836773720056262055681418907990881010685661504286828997204131435591),
    (False, 106571239396684658914172276184776746509191356611731919874672856256745863647583, 64316410199064126360382048642086848777184368329116095672934143271158313368848),
    (True, 57969288593948663749566464350969653110744683245296780223548898513850205429845, 39174369045848226261653340459833582904144730425726787154524318882209024536645),
    (False, 13253333631042705542814874685711269941689035977832439351884548335466286577333, 66912146026657300295190767360672984540372577232411836132441865019055646763342),
    (False, 38666158598788577537807648873659432938277890386667806940980139998124304364468, 24965703825560441101974441318102165899238265888058806827610185357494817195896),
    (True, 22501941348026609422835988066635341373265189656155118829371172835654938101429, 18797206036056675025948243423194671633080758066828029410751693280970035853501),
    (False, 3051460226441477976037656122312630385411246084480443280309360544765495874235, 7735192853332249047121738548573169306600459332471548427601615155900440104516),
    (False, 516729673730516984871138605660682963197974481011372907449398791911290788725, 42817054666716767018056212091771909060216520388169236045885799011023356091781),
    (True, 38591615903866126575606883248376155210032797804304594696265181159053078748116, 27505886576180188690562986561078374932470821662605123461548754910598794303839),
    (False, 6533898831095819121473395404824034297138957102499956415051244966222046197380, 6571224158590799268069496973046589571548987213931176793677502357854491289541),
    (False, 372918281697134481935488127319278137356301588381582996871972400837555063015, 79725128081452745384065667617819932507177709855743602765687236449340024268416),
    (True, 71857383576586872037561456600516228544102251784018743647152977935295341693774, 35023605962199012655950408426974944573707350271027821222272152018745053261006),
    (False, 10593581849680215098905660868735784864857125565726641034173848608653248355692, 80768483248157236106747038522432628956378793144262492973261479290122044592944)]"]; simp only: chain_eval)

section \<open>The square root\<close>

lemma cube_sqrt: "18204275045333271803850252468056031438057061776906233838328249308827409745899 * 18204275045333271803850252468056031438057061776906233838328249308827409745899 + 4 + 11696771438334242607892924344037118620632429817236698987971357448820809358276 * 115792089210356248762697446949407573530086143415290314195533631308867097853951 = (41058363725152142129326129780047268409114441015993725554835256314039467401291 * 41058363725152142129326129780047268409114441015993725554835256314039467401291 :: nat)"
  by (simp only: chain_eval)

lemma cube_half: "2 * 104365044870446813599959508293411955044557453795746568337280127806261069026255 + 41058363725152142129326129780047268409114441015993725554835256314039467401291 = (18204275045333271803850252468056031438057061776906233838328249308827409745899 + 2 * 115792089210356248762697446949407573530086143415290314195533631308867097853951 :: nat)"
  by (simp only: chain_eval)

end
