(* ===== verification/EccLaw.thy ===== *)
theory EccLaw
  imports EccGroup CubeCert
begin

text \<open>
  The chord and tangent law is a commutative group: closure, cancellation, and associativity. Generic sums are
  associative by a short calculation with slopes; a sum with equal summands is reduced to generic ones through
  an auxiliary point.
\<close>

section \<open>The cubic has no root\<close>

text \<open>
  A root \<open>x\<close> would be \<open>u + 1 / u\<close> with \<open>u\<close> in the field, because the discriminant is a square, and the cube of
  \<open>u\<close> would be a number that is not a cube.
\<close>

abbreviation (input) p_nat :: nat where
  "p_nat \<equiv> 115792089210356248762697446949407573530086143415290314195533631308867097853951"

lemma p_nat_zero: "(of_nat p_nat :: fp) = 0"
proof -
  have "(of_nat p_nat :: fp) = of_int pp" by (simp only: curve_p_int_def of_nat_numeral of_int_numeral)
  then show ?thesis by (simp only: of_int_zero dvd_refl)
qed

lemma fp_cert: "a + k * p_nat = b + m * p_nat \<Longrightarrow> (of_nat a :: fp) = of_nat b"
proof -
  assume "a + k * p_nat = b + m * p_nat"
  then have "(of_nat (a + k * p_nat) :: fp) = of_nat (b + m * p_nat)" by (simp only:)
  then show ?thesis unfolding of_nat_add of_nat_mult p_nat_zero mult_zero_right add_0_right .
qed

lemma fp_eq_nat: "(of_nat a :: fp) = of_nat b \<longleftrightarrow> a mod p_nat = b mod p_nat"
proof -
  have p: "pp = int p_nat" by (simp only: curve_p_int_def of_nat_numeral)
  have "(of_int (int a) :: fp) = of_int (int b) \<longleftrightarrow> a mod p_nat = b mod p_nat"
    unfolding of_int_eq p by (simp only: zmod_int [symmetric] of_nat_eq_iff)
  then show ?thesis by (simp only: of_int_of_nat_eq)
qed

lemma fp_as_nat: obtains m where "(a :: fp) = of_nat m"
proof
  have "0 \<le> residue a" using residue [of a] by simp
  then show "a = of_nat (nat (residue a))" by (metis of_int_of_nat_eq of_int_residue nat_0_le)
qed

lemma fermat_fp: "(a :: fp) \<noteq> 0 \<Longrightarrow> a ^ (p_nat - 1) = 1"
proof -
  assume a: "a \<noteq> 0"
  obtain m where m: "a = of_nat m" by (rule fp_as_nat)
  have "\<not> p_nat dvd m"
  proof
    assume "p_nat dvd m"
    then have "m mod p_nat = 0 mod p_nat" by (simp only: dvd_eq_mod_eq_0 mod_0)
    then have "(of_nat m :: fp) = of_nat 0" by (simp only: fp_eq_nat)
    then show False using a m by simp
  qed
  from fermat [OF prime_256 this] have "m ^ (p_nat - 1) mod p_nat = 1 mod p_nat" by (simp only: one_mod_numeral) simp
  then have "(of_nat (m ^ (p_nat - 1)) :: fp) = of_nat 1" by (simp only: fp_eq_nat)
  then show ?thesis by (simp only: m of_nat_power of_nat_1)
qed

abbreviation (input) root_w :: nat where "root_w \<equiv> 104365044870446813599959508293411955044557453795746568337280127806261069026255"
abbreviation (input) root_s :: nat where "root_s \<equiv> 18204275045333271803850252468056031438057061776906233838328249308827409745899"

lemma b_coeff_nat: "b_coeff = of_nat 41058363725152142129326129780047268409114441015993725554835256314039467401291"
proof -
  have "vval curve_b = 41058363725152142129326129780047268409114441015993725554835256314039467401291" by (simp add: curve_b_def)
  then show ?thesis by (simp only: b_coeff_def of_int_of_nat_eq)
qed

lemma discriminant: "(of_nat root_s :: fp) ^ 2 = b_coeff ^ 2 - 4" "2 * (of_nat root_w :: fp) = of_nat root_s - b_coeff"
proof -
  have "(of_nat (root_s * root_s + 4) :: fp) = of_nat (41058363725152142129326129780047268409114441015993725554835256314039467401291 * 41058363725152142129326129780047268409114441015993725554835256314039467401291)"
    by (rule fp_cert [where k = 11696771438334242607892924344037118620632429817236698987971357448820809358276 and m = 0])
      (simp only: mult_zero_left add_0_right cube_sqrt)
  then have "of_nat root_s * of_nat root_s + 4 = b_coeff * b_coeff"
    unfolding of_nat_add of_nat_mult b_coeff_nat by (simp only: of_nat_numeral)
  then show "(of_nat root_s :: fp) ^ 2 = b_coeff ^ 2 - 4" by (simp only: power2_eq_square eq_diff_eq)
  have "(of_nat (2 * root_w + 41058363725152142129326129780047268409114441015993725554835256314039467401291) :: fp) = of_nat root_s"
    by (rule fp_cert [where k = 0 and m = 2]) (simp only: mult_zero_left add_0_right cube_half)
  then have "2 * of_nat root_w + b_coeff = (of_nat root_s :: fp)"
    unfolding of_nat_add of_nat_mult b_coeff_nat by (simp only: of_nat_numeral)
  then show "2 * (of_nat root_w :: fp) = of_nat root_s - b_coeff" by (simp only: eq_diff_eq)
qed

lemma root_s_nonzero: "(of_nat root_s :: fp) \<noteq> 0"
proof -
  have "root_s mod p_nat \<noteq> 0 mod p_nat" by simp
  then have "(of_nat root_s :: fp) \<noteq> of_nat 0" by (simp only: fp_eq_nat not_False_eq_True)
  then show ?thesis by simp
qed

lemma not_a_cube: "u ^ 3 \<noteq> (of_nat root_w :: fp)"
proof
  assume u: "u ^ 3 = (of_nat root_w :: fp)"
  define e where "e = (38597363070118749587565815649802524510028714471763438065177877102955699284650 :: nat)"
  have "root_w ^ e mod p_nat = 80768483248157236106747038522432628956378793144262492973261479290122044592944 mod p_nat" using cube_power_22 by (simp only: pow_is_def e_def)
  then have "(of_nat (root_w ^ e) :: fp) = of_nat 80768483248157236106747038522432628956378793144262492973261479290122044592944" by (simp only: fp_eq_nat)
  then have c: "(u ^ 3) ^ e = of_nat 80768483248157236106747038522432628956378793144262492973261479290122044592944" by (simp only: u of_nat_power)
  have "3 * e = p_nat - 1" by (simp add: e_def)
  then have p: "(u ^ 3) ^ e = u ^ (p_nat - 1)" by (simp only: power_mult [symmetric])
  have "(80768483248157236106747038522432628956378793144262492973261479290122044592944 :: nat) mod p_nat \<noteq> 1 mod p_nat" "(80768483248157236106747038522432628956378793144262492973261479290122044592944 :: nat) mod p_nat \<noteq> 0 mod p_nat" by simp_all
  then have ne: "(of_nat 80768483248157236106747038522432628956378793144262492973261479290122044592944 :: fp) \<noteq> of_nat 1" "(of_nat 80768483248157236106747038522432628956378793144262492973261479290122044592944 :: fp) \<noteq> of_nat 0" by (simp_all only: fp_eq_nat not_False_eq_True)
  show False
  proof (cases "u = 0")
    case True
    then have "(u ^ 3) ^ e = 0" by (simp add: e_def)
    then show False using c ne(2) by (simp only: semiring_1_class.of_nat_0 simp_thms)
  next
    case False
    then have "(u ^ 3) ^ e = 1" unfolding p by (rule fermat_fp)
    then show False using c ne(1) by (simp only: of_nat_1 simp_thms)
  qed
qed

lemma cubic_nonzero: "x ^ 3 - 3 * x + b_coeff \<noteq> 0"
proof
  assume r: "x ^ 3 - 3 * x + b_coeff = 0"
  define s where "s = (of_nat root_s :: fp)"
  have s: "s ^ 2 = b_coeff ^ 2 - 4" "s \<noteq> 0" by (simp_all only: s_def discriminant(1) root_s_nonzero not_False_eq_True)
  define w where "w = (of_nat root_w :: fp)"
  have w: "2 * w = s - b_coeff" by (simp only: s_def w_def discriminant(2))
  have sq: "(x ^ 2 - 4) * (x ^ 2 - 1) ^ 2 = s ^ 2" using r s(1) by algebra
  then have x1: "x ^ 2 - 1 \<noteq> 0" using s(2) by auto
  define v where "v = s / (x ^ 2 - 1)"
  have v: "v * (x ^ 2 - 1) = s" using x1 by (simp add: v_def)
  then have "(x ^ 2 - 1) ^ 2 * v ^ 2 = s ^ 2" by (simp only: power_mult_distrib [symmetric] mult.commute)
  then have "(x ^ 2 - 1) ^ 2 * (v ^ 2 - (x ^ 2 - 4)) = 0" using sq by (simp only: right_diff_distrib mult.commute diff_self)
  then have v2: "v ^ 2 = x ^ 2 - 4" using x1 by simp
  define u where "u = (x + v) / 2"
  have u: "2 * u = x + v" by (simp add: u_def)
  have "8 * u ^ 3 = 4 * (s - b_coeff)" using u v v2 r by algebra
  also have "\<dots> = 8 * w" using w by algebra
  finally have "8 * (u ^ 3 - w) = 0" by (simp only: right_diff_distrib) simp
  moreover have "(8 :: fp) = 2 * (2 * 2)" by simp
  then have "(8 :: fp) \<noteq> 0" using two_nonzero by (metis mult_eq_0_iff)
  ultimately have "u ^ 3 = w" by simp
  then show False using not_a_cube unfolding w_def by simp
qed

section \<open>Points of the curve\<close>

definition curve :: "ec_point \<Rightarrow> bool" where
  "curve P \<longleftrightarrow> (case P of None \<Rightarrow> True | Some A \<Rightarrow> on_ec A)"

definition ec_neg :: "ec_point \<Rightarrow> ec_point" where
  "ec_neg = map_option (\<lambda>(x, y). (x, - y))"

lemma chord_slope:
  assumes "x1 \<noteq> x2"
  obtains l where "l * (x2 - x1) = y2 - y1" "chord (x1, y1) (x2, y2) = (l ^ 2 - x1 - x2, l * (x1 - (l ^ 2 - x1 - x2)) - y1)"
proof -
  have "(y2 - y1) / (x2 - x1) * (x2 - x1) = y2 - y1" using assms by simp
  moreover have "chord (x1, y1) (x2, y2) = (((y2 - y1) / (x2 - x1)) ^ 2 - x1 - x2,
      (y2 - y1) / (x2 - x1) * (x1 - (((y2 - y1) / (x2 - x1)) ^ 2 - x1 - x2)) - y1)"
    unfolding chord_def line_point_def Let_def fst_conv snd_conv prod.case ..
  ultimately show ?thesis by (rule that)
qed

lemma tangent_slope:
  assumes "y1 \<noteq> 0"
  obtains l where "l * (2 * y1) = 3 * (x1 ^ 2 - 1)" "tangent (x1, y1) = (l ^ 2 - x1 - x1, l * (x1 - (l ^ 2 - x1 - x1)) - y1)"
proof -
  have "3 * (x1 ^ 2 - 1) / (2 * y1) * (2 * y1) = 3 * (x1 ^ 2 - 1)" using assms by simp
  moreover have "tangent (x1, y1) = ((3 * (x1 ^ 2 - 1) / (2 * y1)) ^ 2 - x1 - x1,
      3 * (x1 ^ 2 - 1) / (2 * y1) * (x1 - ((3 * (x1 ^ 2 - 1) / (2 * y1)) ^ 2 - x1 - x1)) - y1)"
    unfolding tangent_def line_point_def Let_def fst_conv snd_conv prod.case ..
  ultimately show ?thesis by (rule that)
qed

lemma chord_on_ec:
  assumes "on_ec (x1, y1)" "on_ec (x2, y2)" "x1 \<noteq> x2"
  shows "on_ec (chord (x1, y1) (x2, y2))"
proof -
  obtain l where l: "l * (x2 - x1) = y2 - y1" and
    c: "chord (x1, y1) (x2, y2) = (l ^ 2 - x1 - x2, l * (x1 - (l ^ 2 - x1 - x2)) - y1)" by (rule chord_slope [OF assms(3)])
  define x3 where "x3 = l ^ 2 - x1 - x2"
  define d where "d = x2 - x1"
  have y2: "y2 = y1 + l * d" and x2: "x2 = x1 + d" using l by (simp_all add: d_def)
  have e1: "y1 ^ 2 = x1 ^ 3 - 3 * x1 + b_coeff" using assms(1) by (simp add: on_ec_def)
  have e2: "y2 ^ 2 = x2 ^ 3 - 3 * x2 + b_coeff" using assms(2) by (simp add: on_ec_def)
  have "d * (2 * l * y1 + l ^ 2 * d) = d * (3 * x1 ^ 2 + 3 * x1 * d + d ^ 2 - 3)"
    using e1 e2 unfolding x2 y2 by algebra
  then have "2 * l * y1 + l ^ 2 * d = 3 * x1 ^ 2 + 3 * x1 * d + d ^ 2 - 3" using assms(3) by (simp add: d_def)
  moreover have "x3 = l ^ 2 - 2 * x1 - d" by (simp add: x3_def x2)
  ultimately have "(l * (x1 - x3) - y1) ^ 2 = x3 ^ 3 - 3 * x3 + b_coeff" using e1 by algebra
  then show ?thesis unfolding c on_ec_def prod.case x3_def .
qed

lemma tangent_on_ec:
  assumes "on_ec (x1, y1)" "y1 \<noteq> 0"
  shows "on_ec (tangent (x1, y1))"
proof -
  obtain l where l: "l * (2 * y1) = 3 * (x1 ^ 2 - 1)" and
    c: "tangent (x1, y1) = (l ^ 2 - x1 - x1, l * (x1 - (l ^ 2 - x1 - x1)) - y1)" by (rule tangent_slope [OF assms(2)])
  define x3 where "x3 = l ^ 2 - x1 - x1"
  have "y1 ^ 2 = x1 ^ 3 - 3 * x1 + b_coeff" using assms(1) by (simp add: on_ec_def)
  then have "(l * (x1 - x3) - y1) ^ 2 = x3 ^ 3 - 3 * x3 + b_coeff" using l x3_def by algebra
  then show ?thesis unfolding c on_ec_def prod.case x3_def .
qed

lemma y_nonzero: "on_ec (x, y) \<Longrightarrow> y \<noteq> 0"
  using cubic_nonzero [of x] by (auto simp: on_ec_def)

lemma double_nonzero: "on_ec (x, y) \<Longrightarrow> y + y \<noteq> 0"
  using y_nonzero [of x y] two_nonzero by (metis mult_2 mult_eq_0_iff)

lemma same_x: "on_ec (x, y1) \<Longrightarrow> on_ec (x, y2) \<Longrightarrow> y1 = y2 \<or> y1 = - y2"
  by (simp add: on_ec_def power2_eq_iff [symmetric])

lemma neg_simps [simp]: "ec_neg None = None" "ec_neg (Some (x, y)) = Some (x, - y)" "ec_neg (ec_neg P) = P"
  "ec_neg P = None \<longleftrightarrow> P = None"
  by (simp_all add: ec_neg_def option.map_comp comp_def case_prod_beta option.map_ident)

lemma neg_on_ec [simp]: "on_ec (x, - y) = on_ec (x, y)"
  by (simp add: on_ec_def)

lemma curve_simps [simp]: "curve None" "curve (Some A) = on_ec A"
  by (simp_all add: curve_def)

lemma curve_neg_iff [simp]: "curve (ec_neg P) = curve P"
  by (cases P) auto

lemma neg_inj: "ec_neg P = ec_neg Q \<longleftrightarrow> P = Q"
  by (metis neg_simps(3))

lemma neg_distinct: "curve (Some A) \<Longrightarrow> ec_neg (Some A) \<noteq> Some A"
proof (cases A)
  case (Pair x y)
  assume "curve (Some A)"
  then have "y + y \<noteq> 0" using double_nonzero Pair by simp
  then show ?thesis using Pair by (auto simp: neg_eq_iff_add_eq_0)
qed

text \<open>The three cases of a sum of finite points.\<close>

lemma add_cases [consumes 2, case_names chord tangent opposite]:
  assumes "on_ec A" "on_ec B"
  obtains "fst A \<noteq> fst B" "ec_add (Some A) (Some B) = Some (chord A B)"
    | "B = A" "snd A \<noteq> 0" "ec_add (Some A) (Some B) = Some (tangent A)"
    | "Some B = ec_neg (Some A)" "ec_add (Some A) (Some B) = None"
proof (cases "fst A = fst B")
  case True
  obtain x y1 y2 where A: "A = (x, y1)" "B = (x, y2)" using True by (cases A; cases B) auto
  have "y1 + y1 \<noteq> 0" "y1 \<noteq> 0" using assms(1) double_nonzero y_nonzero unfolding A by blast+
  then show ?thesis using same_x [of x y1 y2] assms that(2,3) unfolding A by auto
qed (use that(1) in simp)

lemma curve_add: "curve P \<Longrightarrow> curve Q \<Longrightarrow> curve (ec_add P Q)"
proof (cases P; cases Q)
  fix A B assume *: "P = Some A" "Q = Some B" "curve P" "curve Q"
  then have on: "on_ec A" "on_ec B" by simp_all
  from on show ?thesis
  proof (cases rule: add_cases)
    case chord
    then show ?thesis using chord_on_ec [of "fst A" "snd A" "fst B" "snd B"] * by simp
  next
    case tangent
    then show ?thesis using tangent_on_ec [of "fst A" "snd A"] * by simp
  qed (simp add: *)
qed simp_all

lemma add_comm: "curve P \<Longrightarrow> curve Q \<Longrightarrow> ec_add P Q = ec_add Q P"
proof (rule ec_add_comm)
  fix A B assume "curve P" "curve Q" "P = Some A" "Q = Some B" "fst A = fst B"
  then show "snd A = snd B \<or> snd A + snd B = 0"
    using same_x [of "fst A" "snd A" "snd B"] by (cases A; cases B) auto
qed

lemma add_neg: "curve P \<Longrightarrow> ec_add P (ec_neg P) = None"
  by (cases P) auto

lemma add_None [simp]: "ec_add P None = P"
  by (cases P) simp_all

lemma neg_chord: "fst A \<noteq> fst B \<Longrightarrow> chord (fst A, - snd A) (fst B, - snd B) = (fst (chord A B), - snd (chord A B))"
proof -
  have "(- snd B - - snd A) / (fst B - fst A) = - ((snd B - snd A) / (fst B - fst A))" by (simp add: minus_divide_left)
  then show ?thesis by (simp add: chord_def line_point_def Let_def split_beta)
qed

lemma neg_tangent: "tangent (fst A, - snd A) = (fst (tangent A), - snd (tangent A))"
proof -
  have "3 * (fst A ^ 2 - 1) / (2 * - snd A) = - (3 * (fst A ^ 2 - 1) / (2 * snd A))" by simp
  then show ?thesis unfolding tangent_def fst_conv snd_conv by (simp add: line_point_def Let_def split_beta del: mult_minus_right)
qed

lemma neg_add: "curve P \<Longrightarrow> curve Q \<Longrightarrow> ec_neg (ec_add P Q) = ec_add (ec_neg P) (ec_neg Q)"
proof (cases P; cases Q)
  fix A B assume *: "P = Some A" "Q = Some B" "curve P" "curve Q"
  have n: "ec_neg (Some C) = Some (fst C, - snd C)" for C by (cases C) simp
  from * have on: "on_ec A" "on_ec B" by simp_all
  from on show ?thesis
  proof (cases rule: add_cases)
    case chord
    then show ?thesis using neg_chord [OF chord(1)] by (simp add: * n)
  next
    case tangent
    then have "snd A + snd A \<noteq> 0" using on(1) double_nonzero by (metis prod.collapse)
    then show ?thesis using tangent neg_tangent [of A] by (simp add: * n minus_add_distrib [symmetric] del: minus_add_distrib)
  next
    case opposite
    then show ?thesis using add_neg [of "ec_neg (Some A)"] * by simp
  qed
qed simp_all

text \<open>The line through two points, by its slope.\<close>

lemma chord_eq:
  assumes "x1 \<noteq> x2" "l * (x2 - x1) = y2 - y1"
  shows "chord (x1, y1) (x2, y2) = (l ^ 2 - x1 - x2, l * (x1 - (l ^ 2 - x1 - x2)) - y1)"
proof -
  have "(y2 - y1) / (x2 - x1) = l" using assms by (simp add: divide_eq_eq)
  then show ?thesis by (simp add: chord_def line_point_def Let_def)
qed

lemma tangent_eq:
  assumes "y1 \<noteq> 0" "l * (2 * y1) = 3 * (x1 ^ 2 - 1)"
  shows "tangent (x1, y1) = (l ^ 2 - x1 - x1, l * (x1 - (l ^ 2 - x1 - x1)) - y1)"
proof -
  have "3 * (x1 ^ 2 - 1) / (2 * y1) = l" using assms(1) by (simp only: assms(2) [symmetric]) simp
  then show ?thesis unfolding tangent_def fst_conv snd_conv by (simp add: line_point_def Let_def)
qed

lemma cancel_chord:
  assumes "on_ec (x1, y1)" "on_ec (x2, y2)" "x1 \<noteq> x2"
  shows "ec_add (Some (chord (x1, y1) (x2, y2))) (Some (x2, - y2)) = Some (x1, y1)"
proof -
  obtain l where l: "l * (x2 - x1) = y2 - y1" and
    c: "chord (x1, y1) (x2, y2) = (l ^ 2 - x1 - x2, l * (x1 - (l ^ 2 - x1 - x2)) - y1)" by (rule chord_slope [OF assms(3)])
  define x3 where "x3 = l ^ 2 - x1 - x2"
  define y3 where "y3 = l * (x1 - x3) - y1"
  note c = c [folded x3_def, folded y3_def]
  have x1: "l ^ 2 - x3 - x2 = x1" by (simp add: x3_def)
  show ?thesis
  proof (cases "x3 = x2")
    case False
    have "- l * (x2 - x3) = - y2 - y3" using l unfolding y3_def by algebra
    from chord_eq [OF False this] have "chord (x3, y3) (x2, - y2) = (x1, - l * (x3 - x1) - y3)" by (simp add: x1)
    also have "- l * (x3 - x1) - y3 = y1" by (simp add: y3_def algebra_simps)
    finally show ?thesis using False by (simp add: c)
  next
    case True
    have y3: "y3 = - y2" using l True unfolding y3_def by algebra
    have "(x1 - x2) * (2 * l * y2 + l ^ 2 * (x1 - x2) - (x1 ^ 2 + x1 * x2 + x2 ^ 2 - 3)) = 0"
      using assms(1,2) l unfolding on_ec_def prod.case by algebra
    then have "2 * l * y2 + l ^ 2 * (x1 - x2) = x1 ^ 2 + x1 * x2 + x2 ^ 2 - 3" using assms(3) by simp
    moreover have "l ^ 2 = x1 + 2 * x2" using True by (simp add: x3_def algebra_simps)
    ultimately have "- l * (2 * - y2) = 3 * (x2 ^ 2 - 1)" by algebra
    moreover have "- y2 \<noteq> 0" using y_nonzero [OF assms(2)] by simp
    ultimately have "tangent (x2, - y2) = (l ^ 2 - x2 - x2, - l * (x2 - (l ^ 2 - x2 - x2)) + y2)"
      using tangent_eq [of "- y2" "- l" x2] by simp
    also have "\<dots> = (x1, y1)" using l x1 True by (simp add: algebra_simps)
    finally show ?thesis using True y3 double_nonzero [of x2 "- y2"] assms(2) by (simp add: c)
  qed
qed

lemma cancel_tangent:
  assumes "on_ec (x1, y1)"
  shows "ec_add (Some (tangent (x1, y1))) (Some (x1, - y1)) = Some (x1, y1)"
proof -
  obtain l where l: "l * (2 * y1) = 3 * (x1 ^ 2 - 1)" and
    c: "tangent (x1, y1) = (l ^ 2 - x1 - x1, l * (x1 - (l ^ 2 - x1 - x1)) - y1)"
    by (rule tangent_slope [OF y_nonzero [OF assms]])
  define x3 where "x3 = l ^ 2 - x1 - x1"
  define y3 where "y3 = l * (x1 - x3) - y1"
  note c = c [folded x3_def, folded y3_def]
  show ?thesis
  proof (cases "x3 = x1")
    case False
    have "- l * (x1 - x3) = - y1 - y3" unfolding y3_def by algebra
    from chord_eq [OF False this] have "chord (x3, y3) (x1, - y1) = (x1, - l * (x3 - x1) - y3)" by (simp add: x3_def)
    also have "- l * (x3 - x1) - y3 = y1" by (simp add: y3_def algebra_simps)
    finally show ?thesis using False by (simp add: c)
  next
    case True
    then have C: "tangent (x1, y1) = (x1, - y1)" by (simp add: c y3_def)
    have "y1 + y1 \<noteq> 0" "- y1 + - y1 \<noteq> 0" using double_nonzero [of x1 y1] double_nonzero [of x1 "- y1"] assms by simp_all
    then show ?thesis using neg_tangent [of "(x1, y1)"] by (simp add: C)
  qed
qed

lemma cancel:
  assumes "curve P" "curve Q"
  shows "ec_add (ec_add P Q) (ec_neg Q) = P"
proof (cases P; cases Q)
  fix A B assume *: "P = Some A" "Q = Some B"
  obtain x1 y1 x2 y2 where A: "A = (x1, y1)" "B = (x2, y2)" by fastforce
  have on: "on_ec A" "on_ec B" using * assms by simp_all
  from on show ?thesis
  proof (cases rule: add_cases)
    case chord
    then show ?thesis unfolding * chord(2) unfolding A using cancel_chord [of x1 y1 x2 y2] on unfolding A by simp
  next
    case tangent
    then show ?thesis unfolding * tangent(3) using cancel_tangent [of x1 y1] on A by simp
  next
    case opposite
    then show ?thesis unfolding * opposite(2) by simp
  qed
qed (use assms add_neg in auto)

lemmas cancel' = cancel [OF _ iffD2 [OF curve_neg_iff], unfolded neg_simps]

lemma add_right_inj: "curve P \<Longrightarrow> curve Q \<Longrightarrow> curve R \<Longrightarrow> ec_add P R = ec_add Q R \<longleftrightarrow> P = Q"
  using cancel by metis

lemma add_left_inj: "curve P \<Longrightarrow> curve Q \<Longrightarrow> curve R \<Longrightarrow> ec_add R P = ec_add R Q \<longleftrightarrow> P = Q"
  using add_right_inj [of P Q R] add_comm [of R P] add_comm [of R Q] by simp

lemma add_move: "curve P \<Longrightarrow> curve Q \<Longrightarrow> curve R \<Longrightarrow> ec_add P Q = R \<longleftrightarrow> P = ec_add R (ec_neg Q)"
  using cancel [of P Q] cancel' [of R Q] by auto

section \<open>Associativity\<close>

text \<open>Three points whose sums are all chords. The slopes \<open>l\<close>, \<open>m\<close> of the inner and \<open>u\<close>, \<open>v\<close> of the outer chords
  satisfy \<open>u + l = v + m\<close>.\<close>

lemma slope_relation:
  assumes "on_ec (x1, y1)" "on_ec (x2, y2)" "x1 \<noteq> x2" "l * (x2 - x1) = y2 - y1"
  shows "l * (2 * y2) + (x1 - x2) * (l ^ 2 - x1 - 2 * x2) = 3 * x2 ^ 2 - 3"
proof -
  have "(x1 - x2) * (l * (2 * y2) + (x1 - x2) * (l ^ 2 - x1 - 2 * x2) - (3 * x2 ^ 2 - 3)) = 0"
    using assms(1,2,4) unfolding on_ec_def prod.case by algebra
  then show ?thesis using assms(3) by simp
qed

lemma slopes_sum:
  fixes d1 d3 e f l m t v :: fp
  assumes t: "l * t + d1 * e = m * t + d3 * f" and s: "l ^ 2 - e - d1 = m ^ 2 - f - d3"
    and v: "v * (d1 - f) = t + m * f + l * d1" and ne: "d1 \<noteq> f"
  shows "(v + m - l) * (d3 - e) = t + m * d3 + l * e" "(m - l) * (v + m) = d3 - d1"
proof -
  have "(d1 - f) * ((v + m - l) * (d3 - e)) = (t + m * d1 + l * f) * (d3 - e)" using v by algebra
  also have "\<dots> = (d1 - f) * (t + m * d3 + l * e)" using t s by algebra
  finally show "(v + m - l) * (d3 - e) = t + m * d3 + l * e" using ne by simp
  have "(d1 - f) * ((m - l) * (v + m)) = (d1 - f) * (d3 - d1)" using t s v by algebra
  then show "(m - l) * (v + m) = d3 - d1" using ne by simp
qed

lemma assoc_chords:
  assumes on: "on_ec (x1, y1)" "on_ec (x2, y2)" "on_ec (x3, y3)"
    and ne: "x1 \<noteq> x2" "x2 \<noteq> x3" "fst (chord (x1, y1) (x2, y2)) \<noteq> x3" "x1 \<noteq> fst (chord (x2, y2) (x3, y3))"
  shows "chord (chord (x1, y1) (x2, y2)) (x3, y3) = chord (x1, y1) (chord (x2, y2) (x3, y3))"
proof -
  obtain l where l: "l * (x2 - x1) = y2 - y1" and
    L: "chord (x1, y1) (x2, y2) = (l ^ 2 - x1 - x2, l * (x1 - (l ^ 2 - x1 - x2)) - y1)" by (rule chord_slope [OF ne(1)])
  obtain m where m: "m * (x3 - x2) = y3 - y2" and
    M: "chord (x2, y2) (x3, y3) = (m ^ 2 - x2 - x3, m * (x2 - (m ^ 2 - x2 - x3)) - y2)" by (rule chord_slope [OF ne(2)])
  define x12 where "x12 = l ^ 2 - x1 - x2"
  define y12 where "y12 = l * (x1 - x12) - y1"
  define x23 where "x23 = m ^ 2 - x2 - x3"
  define y23 where "y23 = m * (x2 - x23) - y2"
  note L = L [folded x12_def, folded y12_def] and M = M [folded x23_def, folded y23_def]
  have ne': "x12 \<noteq> x3" "x1 \<noteq> x23" using ne(3,4) by (simp_all add: L M)
  define v where "v = (y23 - y1) / (x23 - x1)"
  have v: "v * (x23 - x1) = y23 - y1" using ne'(2) by (simp add: v_def)
  have m': "m * (x2 - x3) = y2 - y3" using m by algebra
  have "l * (2 * y2) + (x1 - x2) * (x12 - x2) = 3 * x2 ^ 2 - 3"
    using slope_relation [OF on(1,2) ne(1) l] unfolding x12_def by (simp add: algebra_simps)
  moreover have "m * (2 * y2) + (x3 - x2) * (x23 - x2) = 3 * x2 ^ 2 - 3"
    using slope_relation [OF on(3,2) ne(2) [symmetric] m'] unfolding x23_def by (simp add: algebra_simps)
  ultimately have t: "l * (2 * y2) + (x1 - x2) * (x12 - x2) = m * (2 * y2) + (x3 - x2) * (x23 - x2)" by simp
  have s: "l ^ 2 - (x12 - x2) - (x1 - x2) = m ^ 2 - (x23 - x2) - (x3 - x2)" by (simp add: x12_def x23_def)
  have v': "v * ((x1 - x2) - (x23 - x2)) = 2 * y2 + m * (x23 - x2) + l * (x1 - x2)" using v l unfolding y23_def by algebra
  have "x1 - x2 \<noteq> x23 - x2" using ne'(2) by simp
  note sum = slopes_sum [OF t s v' this]
  define u where "u = v + m - l"
  have u: "u * (x3 - x12) = y3 - y12" using sum(1) l m unfolding u_def y12_def by algebra
  have K: "(m - l) * (v + m) = x3 - x1" using sum(2) by simp
  have X: "u ^ 2 - x12 - x3 = v ^ 2 - x1 - x23" using K unfolding u_def x12_def x23_def by algebra
  define X where "X = v ^ 2 - x1 - x23"
  have "u * (x12 - X) - y12 = u * (x3 - X) - y3" using u by algebra
  also have "\<dots> = v * (x1 - X) - y1" using K l m unfolding u_def X_def x23_def by algebra
  finally have Y: "u * (x12 - X) - y12 = v * (x1 - X) - y1" .
  show ?thesis unfolding L M chord_eq [OF ne'(1) u] chord_eq [OF ne'(2) v] X using Y unfolding X_def by simp
qed

lemma apart_iff: "curve P \<Longrightarrow> curve Q \<Longrightarrow> apart P Q \<longleftrightarrow> P \<noteq> None \<and> Q \<noteq> None \<and> P \<noteq> Q \<and> P \<noteq> ec_neg Q"
proof (cases P; cases Q)
  fix A B assume *: "P = Some A" "Q = Some B" "curve P" "curve Q"
  obtain x1 y1 x2 y2 where A: "A = (x1, y1)" "B = (x2, y2)" by fastforce
  show ?thesis using same_x [of x1 y1 y2] * A by auto
qed simp_all

lemma assoc_apart:
  assumes "curve P" "curve Q" "curve R" "apart P Q" "apart Q R" "apart (ec_add P Q) R" "apart P (ec_add Q R)"
  shows "ec_add (ec_add P Q) R = ec_add P (ec_add Q R)"
proof -
  have ex: "\<exists>x y. S = Some (x, y)" if "S \<noteq> None" for S :: ec_point using that by (cases S) auto
  have "P \<noteq> None" "Q \<noteq> None" "R \<noteq> None" using assms(1-5) apart_iff by blast+
  then obtain x1 y1 x2 y2 x3 y3 where *: "P = Some (x1, y1)" "Q = Some (x2, y2)" "R = Some (x3, y3)" using ex by metis
  then show ?thesis using assms assoc_chords [of x1 y1 x2 y2 x3 y3] by simp
qed

text \<open>The double of a point through an auxiliary one.\<close>

lemma double_as_sum:
  assumes "curve P" "curve T" "apart P T"
  shows "apart (ec_add P T) (ec_add P (ec_neg T))" "ec_add (ec_add P T) (ec_add P (ec_neg T)) = ec_add P P"
proof -
  have fin: "P \<noteq> None" "T \<noteq> None" "P \<noteq> T" "P \<noteq> ec_neg T" using assms apart_iff by blast+
  then obtain x1 y1 x2 y2 where *: "P = Some (x1, y1)" "T = Some (x2, y2)" by (metis not_None_eq surj_pair)
  have on: "on_ec (x1, y1)" "on_ec (x2, y2)" "x1 \<noteq> x2" using assms * by simp_all
  have c: "curve (ec_add P T)" "curve (ec_add P (ec_neg T))" using assms(1,2) by (simp_all add: curve_add)
  have "ec_add P T \<noteq> ec_add P (ec_neg T)"
    using add_left_inj [of T "ec_neg T" P] assms(1,2) neg_distinct [of "(x2, y2)"] on(2) unfolding *(2) by simp
  moreover have "ec_neg (ec_add P (ec_neg T)) = ec_add (ec_neg P) T" using assms(1,2) by (simp add: neg_add)
  then have "ec_add P T \<noteq> ec_neg (ec_add P (ec_neg T))"
    using add_right_inj [of P "ec_neg P" T] assms neg_distinct [of "(x1, y1)"] * by auto
  moreover have "ec_add P T \<noteq> None" "ec_add P (ec_neg T) \<noteq> None" using on(3) unfolding * by simp_all
  ultimately show ap: "apart (ec_add P T) (ec_add P (ec_neg T))" unfolding apart_iff [OF c] by blast
  have "chord (chord (x1, y1) (x2, y2)) (chord (x1, y1) (x2, - y2)) = tangent (x1, y1)"
    using sum_plus_difference [OF on, of "fst (chord (x1, y1) (x2, y2))" "snd (chord (x1, y1) (x2, y2))"
        "fst (chord (x1, y1) (x2, - y2))" "snd (chord (x1, y1) (x2, - y2))"] ap * on(3) by simp
  then show "ec_add (ec_add P T) (ec_add P (ec_neg T)) = ec_add P P"
    using ap * on double_nonzero [of x1 y1] by simp
qed

lemma double_step:
  assumes c: "curve P" "curve R" "curve T" and fin: "P \<noteq> None" "R \<noteq> None" "T \<noteq> None"
    and PR: "P \<noteq> R" "P \<noteq> ec_neg R" "ec_add P P \<noteq> R" "ec_add P P \<noteq> ec_neg R"
    and T: "apart P T" "ec_add P (ec_neg R) \<noteq> T" "ec_add P R \<noteq> T" "ec_add P R \<noteq> ec_neg T"
    and c1: "ec_add P T \<noteq> ec_add (ec_add P (ec_neg T)) R"
  shows "ec_add (ec_add P P) R = ec_add P (ec_add P R)"
proof -
  define A where "A = ec_add P T"
  define B where "B = ec_add P (ec_neg T)"
  define X where "X = ec_add P R"
  note cs = curve_add c
  have cA: "curve A" "curve B" "curve X" "curve (ec_neg T)" unfolding A_def B_def X_def by (simp_all add: cs)
  note d = double_as_sum [OF c(1,3) T(1), folded A_def B_def]
  have PT: "P \<noteq> T" "P \<noteq> ec_neg T" using T(1) c apart_iff by blast+
  have Xn: "X \<noteq> None" using PR(2) add_move [of P R None] c by (simp add: X_def)
  have Bn: "B \<noteq> None" using PT(1) add_move [of P "ec_neg T" None] c by (simp add: B_def)
  have BT: "B = Y \<longleftrightarrow> P = ec_add T Y" if "curve Y" for Y
    using that add_move [of P "ec_neg T" Y] c add_comm [of Y T] by (simp add: B_def)
  have BR: "B \<noteq> R"
    using BT [of R] add_move [of T R P] T(2) c by auto
  have BR': "B \<noteq> ec_neg R"
    using BT [of "ec_neg R"] add_move [of T "ec_neg R" P] T(3) c by (auto simp: X_def)
  have PX: "P \<noteq> X" using add_left_inj [of None R P] c fin(2) by (simp add: X_def)
  have PX': "P \<noteq> ec_neg X"
  proof
    assume "P = ec_neg X"
    then have "X = ec_neg P" by simp
    then have "ec_add R P = ec_neg P" using add_comm [OF c(1,2)] by (simp add: X_def)
    then have "R = ec_add (ec_neg P) (ec_neg P)" using add_move [of R P "ec_neg P"] c by simp
    then have "ec_add P P = ec_neg R" using c by (simp add: neg_add)
    then show False using PR(4) by simp
  qed
  have 3: "apart B R" using cA c Bn fin BR BR' by (simp add: apart_iff)
  have tp: "ec_add (ec_neg T) P = B" using add_comm [of "ec_neg T" P] c by (simp add: B_def)
  have 4: "ec_add B R = ec_add X (ec_neg T)"
  proof -
    have "ec_add (ec_add (ec_neg T) P) R = ec_add (ec_neg T) (ec_add P R)"
    proof (rule assoc_apart [OF cA(4) c(1,2)])
      show "apart (ec_neg T) P" using c fin PT by (auto simp: apart_iff)
      show "apart P R" using c fin PR by (simp add: apart_iff)
      show "apart (ec_add (ec_neg T) P) R" unfolding tp by (rule 3)
      show "apart (ec_neg T) (ec_add P R)" using c cA fin T(3,4) Xn unfolding X_def [symmetric] by (auto simp: apart_iff neg_inj)
    qed
    then show ?thesis unfolding tp X_def [symmetric] using add_comm [of X "ec_neg T"] cA by simp
  qed
  have XT: "ec_add X (ec_neg T) \<noteq> None" using add_move [of X "ec_neg T" None] c cA T(3) by (simp add: X_def)
  have cXT: "curve (ec_add X (ec_neg T))" using c cA by (simp add: curve_add)
  have An: "A \<noteq> None" using PT(2) add_move [of P T None] c by (simp add: A_def)
  have A1: "A \<noteq> ec_add X (ec_neg T)" using c1 unfolding A_def [symmetric] B_def [symmetric] 4 .
  have A2: "A \<noteq> ec_neg (ec_add X (ec_neg T))"
  proof
    assume "A = ec_neg (ec_add X (ec_neg T))"
    then have "ec_add P T = ec_add (ec_neg X) T" using c cA by (simp add: A_def neg_add)
    then show False using add_right_inj [of P "ec_neg X" T] c cA PX' by simp
  qed
  have 6: "apart A (ec_add X (ec_neg T))" using cA cXT An XT A1 A2 by (simp add: apart_iff)
  have 5: "apart (ec_add A B) R"
  proof -
    have "ec_add P P \<noteq> None" using add_move [of P P None] neg_distinct c fin by auto
    then show ?thesis unfolding d(2) using c fin PR by (simp add: apart_iff curve_add)
  qed
  have "ec_add (ec_add P P) R = ec_add A (ec_add X (ec_neg T))"
    using assoc_apart [OF cA(1,2) c(2) d(1) 3 5] 6 unfolding d(2) 4 .
  also have "\<dots> = ec_add P X"
  proof (cases "T = ec_add X (ec_neg T)")
    case False
    have TX: "ec_add T (ec_add X (ec_neg T)) = X"
      using cancel' [of X T] add_comm [OF c(3) cXT] cA c by simp
    have "T \<noteq> ec_neg (ec_add X (ec_neg T))"
    proof
      assume "T = ec_neg (ec_add X (ec_neg T))"
      then have "ec_add None T = ec_add (ec_neg X) T" using c cA by (simp add: neg_add)
      then show False using add_right_inj [of None "ec_neg X" T] c cA Xn by auto
    qed
    then have "apart T (ec_add X (ec_neg T))" using c cXT fin XT False by (simp add: apart_iff)
    moreover have "apart P X" using c cA fin Xn PX PX' by (simp add: apart_iff)
    ultimately show ?thesis using assoc_apart [OF c(1,3) cXT T(1)] 6 unfolding A_def [symmetric] TX by simp
  next
    case True
    have TP: "ec_add (ec_neg T) A = P"
      using cancel [of P T] add_comm [of "ec_neg T" A] c cA by (simp add: A_def)
    have "ec_neg T \<noteq> A"
    proof
      assume "ec_neg T = A"
      then have "P = ec_add (ec_neg T) (ec_neg T)" using TP by simp
      moreover have "X = ec_add T T" using True cancel' [of X T] c cA by simp
      ultimately show False using PX' c by (simp add: neg_add)
    qed
    moreover have "ec_neg T \<noteq> ec_neg A"
    proof
      assume "ec_neg T = ec_neg A"
      then have "ec_add None T = ec_add P T" by (simp add: neg_inj A_def)
      then show False using add_right_inj [of None P T] c fin by auto
    qed
    ultimately have "apart (ec_neg T) A" using cA c fin An by (simp add: apart_iff)
    moreover have "apart X (ec_neg T)" using c cA fin Xn T(3,4) by (simp add: apart_iff X_def)
    moreover have "apart (ec_add X (ec_neg T)) A" using 6 cA cXT by (auto simp: apart_iff)
    moreover have "apart X P" using c cA fin Xn PX PX' by (auto simp: apart_iff)
    ultimately have "ec_add (ec_add X (ec_neg T)) A = ec_add X P"
      using assoc_apart [OF cA(3,4,1)] unfolding TP by simp
    then show ?thesis using add_comm [OF cXT cA(1)] add_comm [OF c(1) cA(3)] by simp
  qed
  finally show ?thesis unfolding X_def .
qed

text \<open>Four points with different first coordinates, so that one of them avoids three given points.\<close>

lemma small_point:
  assumes "y * y + (3 * x + 0 * p_nat) = x * (x * x) + 41058363725152142129326129780047268409114441015993725554835256314039467401291 + k * p_nat"
  shows "on_ec (of_nat x, of_nat y)"
proof -
  have "(of_nat (y * y + 3 * x) :: fp) = of_nat (x * (x * x) + 41058363725152142129326129780047268409114441015993725554835256314039467401291)"
    by (rule fp_cert [where k = 0 and m = k]) (use assms in \<open>simp only: mult_zero_left add_0_right add.assoc\<close>)
  then have "of_nat y * of_nat y + 3 * of_nat x = (of_nat x * (of_nat x * of_nat x) + b_coeff :: fp)"
    unfolding of_nat_add of_nat_mult b_coeff_nat by (simp only: of_nat_numeral)
  then show ?thesis unfolding on_ec_def prod.case by algebra
qed

lemma small_points: "\<exists>y. on_ec (of_nat 5, y)" "\<exists>y. on_ec (of_nat 6, y)" "\<exists>y. on_ec (of_nat 8, y)" "\<exists>y. on_ec (of_nat 9, y)"
proof -
  have "on_ec (of_nat 5, of_nat 31468013646237722594854082025316614106172411895747863909393730389177298123724)"
    by (rule small_point [where k = 8551843995498429138253737279425323387534507233058307853289950121593724778025]) simp
  then show "\<exists>y. on_ec (of_nat 5, y)" by blast
  have "on_ec (of_nat 6, of_nat 24739918328848417526480033809572464882617473122143770809273908485596236620747)"
    by (rule small_point [where k = 5285884062478319511392287661014471364448788078168491229213617046946205482520]) simp
  then show "\<exists>y. on_ec (of_nat 6, y)" by blast
  have "on_ec (of_nat 8, of_nat 82784132184742902406611976374283817475915538652053173371854007222633983132083)"
    by (rule small_point [where k = 59185498666760785283221526508948540514670687999198524248660400353127710457610]) simp
  then show "\<exists>y. on_ec (of_nat 8, y)" by blast
  have "on_ec (of_nat 9, of_nat 64265364456294082747112527522981594904960689488638802860996194286474266915479)"
    by (rule small_point [where k = 35667696272388557183004093119088569374176114059951227040131977453518599097848]) simp
  then show "\<exists>y. on_ec (of_nat 9, y)" by blast
qed

lemma auxiliary:
  obtains T where "curve T" "T \<noteq> None" "apart T A \<or> A = None" "apart T B \<or> B = None" "apart T C \<or> C = None"
proof -
  define X where "X = (\<lambda>S :: ec_point. case S of None \<Rightarrow> 0 | Some D \<Rightarrow> fst D)"
  have ap: "apart (Some (x, y)) S \<or> S = None" if "x \<noteq> X S" for x y S using that by (cases S) (auto simp: X_def)
  have d: "(of_nat 5 :: fp) \<noteq> of_nat 6" "(of_nat 5 :: fp) \<noteq> of_nat 8" "(of_nat 5 :: fp) \<noteq> of_nat 9"
    "(of_nat 6 :: fp) \<noteq> of_nat 8" "(of_nat 6 :: fp) \<noteq> of_nat 9" "(of_nat 8 :: fp) \<noteq> of_nat 9" by (simp_all only: fp_eq_nat) simp_all
  then have "\<exists>x \<in> {of_nat 5, of_nat 6, of_nat 8, of_nat 9}. x \<noteq> X A \<and> x \<noteq> X B \<and> x \<noteq> X C"
    by (simp only: bex_simps ball_simps) metis
  then obtain x y where "on_ec (x, y)" "x \<noteq> X A" "x \<noteq> X B" "x \<noteq> X C" using small_points by auto
  then show ?thesis using that [of "Some (x, y)"] ap by simp
qed

end
