(* ===== verification/EccAssoc.thy ===== *)
theory EccAssoc
  imports EccLaw
begin

text \<open>
  Associativity of the chord and tangent law and its consequence for multiples: the binary multiple that the
  ladder computes is the sum of \<open>k\<close> copies of the point.
\<close>

section \<open>Doubling\<close>

lemma double_generic:
  assumes c: "curve P" "curve R" and fin: "P \<noteq> None" "R \<noteq> None"
    and PR: "P \<noteq> R" "P \<noteq> ec_neg R" "ec_add P P \<noteq> R" "ec_add P P \<noteq> ec_neg R"
  shows "ec_add (ec_add P P) R = ec_add P (ec_add P R)"
proof -
  define D where "D = ec_add P (ec_neg R)"
  define X where "X = ec_add P R"
  have cX: "curve D" "curve X" using c by (simp_all add: D_def X_def curve_add)
  obtain T where T: "curve T" "T \<noteq> None" "apart T P \<or> P = None" "apart T D \<or> D = None" "apart T X \<or> X = None"
    by (rule auxiliary [of P D X])
  have free: "apart P T" "D \<noteq> T" "D \<noteq> ec_neg T" "X \<noteq> T" "X \<noteq> ec_neg T"
    using T fin(1) c cX by (auto simp: apart_iff)
  note step = double_step [OF c _ fin _ PR, folded D_def X_def]
  show ?thesis
  proof (cases "ec_add P T = ec_add (ec_add P (ec_neg T)) R")
    case False
    then show ?thesis using step [OF T(1,2) free(1,2,4,5)] by (simp add: X_def)
  next
    case True
    define B where "B = ec_add P (ec_neg T)"
    have cB: "curve B" using c T(1) by (simp add: B_def curve_add)
    have "B \<noteq> ec_add (ec_add P T) R"
    proof
      assume "B = ec_add (ec_add P T) R"
      then have "ec_add B (ec_neg R) = ec_add P T" using cancel [of "ec_add P T" R] c T(1) by (simp add: curve_add)
      then have "ec_add B (ec_neg R) = ec_add B R" using True by (simp add: B_def)
      then have "ec_neg R = R" using add_left_inj c cB by simp
      then show False using neg_distinct fin(2) c(2) by (cases R) auto
    qed
    moreover have "curve (ec_neg T)" "ec_neg T \<noteq> None" "apart P (ec_neg T)" using T(1,2) free(1) c by (auto simp: apart_iff)
    ultimately show ?thesis using step [of "ec_neg T"] free by (simp add: X_def B_def)
  qed
qed

lemma double_opposite:
  assumes "curve P"
  shows "ec_add (ec_add P P) (ec_neg P) = P" "ec_add P (ec_add P (ec_neg (ec_add P P))) = None"
proof -
  show 1: "ec_add (ec_add P P) (ec_neg P) = P" by (rule cancel [OF assms assms])
  have "ec_add P (ec_neg (ec_add P P)) = ec_neg (ec_add (ec_add P P) (ec_neg P))"
    using assms add_comm [of P "ec_neg (ec_add P P)"] by (simp add: neg_add curve_add)
  then show "ec_add P (ec_add P (ec_neg (ec_add P P))) = None" unfolding 1 using add_neg assms by simp
qed

lemma double_assoc:
  assumes c: "curve P" "curve R"
  shows "ec_add (ec_add P P) R = ec_add P (ec_add P R)"
proof -
  define D where "D = ec_add P P"
  have cD: "curve D" "curve (ec_neg D)" using c by (simp_all add: D_def curve_add)
  note op = double_opposite [OF c(1), folded D_def] double_opposite [OF cD(1)]
  have comm: "ec_add P D = ec_add D P" using c cD by (simp add: add_comm)
  consider "P = None" | "R = None" | "R = P" | "R = ec_neg P" | "R = ec_neg D" | "R = D" "P \<noteq> None"
    | "P \<noteq> None" "R \<noteq> None" "P \<noteq> R" "P \<noteq> ec_neg R" "D \<noteq> R" "D \<noteq> ec_neg R" by fastforce
  then show ?thesis
  proof cases
    case 3
    then show ?thesis using comm by (simp add: D_def)
  next
    case 4
    then show ?thesis using op(1) add_neg [OF c(1)] by (simp add: D_def)
  next
    case 5
    then show ?thesis using op(2) add_neg [OF cD(1)] by (simp add: D_def)
  next
    case 6
    have "ec_add D D = ec_add P (ec_add P D)"
    proof -
      consider "D = None" | "D = P" | "D = ec_neg P" | "ec_add D D = P" | "ec_add D D = ec_neg P"
        | "D \<noteq> None" "D \<noteq> P" "D \<noteq> ec_neg P" "ec_add D D \<noteq> P" "ec_add D D \<noteq> ec_neg P" by blast
      then show ?thesis
      proof cases
        case 1
        then show ?thesis by (simp add: D_def [symmetric])
      next
        case 2
        then show ?thesis using op(1) add_neg [OF c(1)] 6 by simp
      next
        case 3
        then have "ec_add (ec_neg P) (ec_neg P) = P" using neg_add [OF c(1,1), folded D_def] by simp
        then show ?thesis using 3 add_neg [OF c(1)] by simp
      next
        case 4
        then show ?thesis using op(1,4) comm by simp
      next
        case 5
        have "ec_add D P = ec_neg D"
          using add_move [OF cD(1,1), of "ec_neg P"] 5 c cD add_comm [of "ec_neg P" "ec_neg D"] by (simp add: neg_add [symmetric]) (metis neg_simps(3))
        then show ?thesis using op(1) 5 comm c cD add_comm [of P "ec_neg D"] neg_add [of D "ec_neg P"] by simp
      next
        case 6
        then have "ec_add (ec_add D D) (ec_neg P) = ec_add D (ec_add D (ec_neg P))"
          using double_generic [of D "ec_neg P"] c cD \<open>P \<noteq> None\<close> by auto
        then have "ec_add D D = ec_add (ec_add D P) P"
          unfolding op(1) using add_move [of "ec_add D D" "ec_neg P" "ec_add D P"] c cD by (simp add: curve_add)
        then show ?thesis using c cD by (simp add: comm add_comm curve_add)
      qed
    qed
    then show ?thesis unfolding 6(1) D_def .
  next
    case 7
    then show ?thesis using double_generic c unfolding D_def by blast
  qed simp_all
qed

section \<open>The general law\<close>

lemma sum_assoc:
  assumes c: "curve P" "curve Q"
  shows "ec_add (ec_add P Q) (ec_add P Q) = ec_add P (ec_add Q (ec_add P Q))"
proof -
  define S where "S = ec_add P Q"
  have cS: "curve S" "curve (ec_neg P)" using c by (simp_all add: S_def curve_add)
  have "ec_add S (ec_neg P) = Q" using cancel [of Q P] add_comm [of Q P] c by (simp add: S_def)
  then have "ec_add (ec_add S S) (ec_neg P) = ec_add S Q" using double_assoc [OF cS] by simp
  then have "ec_add S S = ec_add (ec_add S Q) P"
    using add_move [of "ec_add S S" "ec_neg P" "ec_add S Q"] c cS by (simp add: curve_add)
  then show ?thesis unfolding S_def [symmetric] using c cS by (simp add: add_comm curve_add)
qed

theorem ec_assoc:
  assumes c: "curve P" "curve Q" "curve R"
  shows "ec_add (ec_add P Q) R = ec_add P (ec_add Q R)"
proof -
  note cs = c curve_add curve_neg_iff
  consider "P = None \<or> Q = None \<or> R = None" | "P = ec_neg Q" | "Q = ec_neg R" | "ec_add P Q = ec_neg R" | "P = ec_neg (ec_add Q R)"
    | "P = Q" | "Q = R" | "ec_add P Q = R" | "P = ec_add Q R"
    | "P \<noteq> None" "Q \<noteq> None" "R \<noteq> None" "P \<noteq> ec_neg Q" "Q \<noteq> ec_neg R" "ec_add P Q \<noteq> ec_neg R" "P \<noteq> ec_neg (ec_add Q R)"
      "P \<noteq> Q" "Q \<noteq> R" "ec_add P Q \<noteq> R" "P \<noteq> ec_add Q R" by argo
  then show ?thesis
  proof cases
    case 2
    then show ?thesis using add_neg [OF c(2)] cancel' [of R Q] add_comm [of "ec_neg Q" "ec_add Q R"] add_comm [of R Q] add_comm [of "ec_neg Q" Q] c
      cancel [of R Q] by (simp add: curve_add)
  next
    case 3
    then show ?thesis using cancel' [of P R] add_neg [OF c(3)] add_comm [of "ec_neg R" R] c by simp
  next
    case 4
    then have "P = ec_neg (ec_add Q R)" using add_move [of P Q "ec_neg R"] add_comm [of Q R] cs by (simp add: neg_add)
    then show ?thesis using 4 add_neg [of R] add_neg [of "ec_add Q R"] add_comm [of "ec_neg R" R]
        add_comm [of "ec_add Q R" "ec_neg (ec_add Q R)"] cs by simp
  next
    case 5
    then have "P = ec_add (ec_neg R) (ec_neg Q)" using add_comm [of Q R] cs by (simp add: neg_add)
    then have "ec_add P Q = ec_neg R" using add_move [of P Q "ec_neg R"] cs by simp
    then show ?thesis using 5 add_neg [of R] add_neg [of "ec_add Q R"] add_comm [of "ec_neg R" R]
        add_comm [of "ec_add Q R" "ec_neg (ec_add Q R)"] cs by simp
  next
    case 6
    then show ?thesis using double_assoc c by simp
  next
    case 7
    then show ?thesis using double_assoc [of Q P] add_comm cs by simp
  next
    case 8
    then show ?thesis using sum_assoc [of P Q] c by simp
  next
    case 9
    then show ?thesis using sum_assoc [of R Q] add_comm cs by simp
  next
    case 10
    have "apart (ec_add P Q) R" "apart P (ec_add Q R)"
      using 10 cs add_move [of P Q None] add_move [of Q R None] by (simp_all add: apart_iff)
    then show ?thesis using 10 c by (intro assoc_apart) (simp_all add: apart_iff)
  qed auto
qed

section \<open>Multiples\<close>

text \<open>The sum of \<open>k\<close> copies of a point.\<close>

definition ec_times :: "nat \<Rightarrow> ec_point \<Rightarrow> ec_point" where
  "ec_times k P = (ec_add P ^^ k) None"

lemma ec_times_simps [simp]: "ec_times 0 P = None" "ec_times (Suc k) P = ec_add P (ec_times k P)"
  by (simp_all add: ec_times_def)

lemma curve_mul: "curve P \<Longrightarrow> curve (ec_mul k P)"
proof (induction k P rule: ec_mul.induct)
  case (1 k P)
  show ?case
    using 1 by (subst ec_mul.simps) (auto intro!: curve_add)
qed

lemma ec_mul_Suc: "curve P \<Longrightarrow> ec_mul (Suc k) P = ec_add (ec_mul k P) P"
proof (induction k rule: less_induct)
  case (less k)
  have c: "curve (ec_mul j P)" for j using less.prems by (rule curve_mul)
  show ?case
  proof (cases "k = 0")
    case False
    obtain j where j: "k = 2 * j \<or> k = 2 * j + 1" by (metis evenE oddE)
    then have pos: "0 < j \<or> k = 1" using False by auto
    show ?thesis
    proof (cases "k = 1")
      case True
      then show ?thesis using ec_mul_simps(3) [of 1 P] by (simp add: ec_mul_simps(2) [unfolded One_nat_def] numeral_2_eq_2)
    next
      case k1: False
      then have j0: "0 < j" "j < k" using pos j by auto
      note IH = less.IH [OF j0(2) less.prems]
      show ?thesis
      proof (cases "k = 2 * j")
        case True
        then have "ec_mul (Suc k) P = ec_add (ec_mul j P) (ec_add (ec_mul j P) P)"
          using ec_mul_simps(4) [OF j0(1), of P] IH by simp
        then show ?thesis using True ec_mul_simps(3) [OF j0(1), of P] ec_assoc [OF c c less.prems] by simp
      next
        case False
        then have k: "k = 2 * j + 1" using j by simp
        then have "ec_mul (Suc k) P = ec_add (ec_mul (Suc j) P) (ec_mul (Suc j) P)"
          using ec_mul_simps(3) [of "Suc j" P] by simp
        also have "\<dots> = ec_add (ec_add (ec_mul j P) (ec_mul (Suc j) P)) P"
          unfolding IH using ec_assoc c less.prems add_comm [OF c c] by (metis curve_add add_comm)
        finally show ?thesis using k ec_mul_simps(4) [OF j0(1), of P] by simp
      qed
    qed
  qed (simp add: ec_mul_simps(1,2) [unfolded One_nat_def])
qed

lemma curve_times: "curve P \<Longrightarrow> curve (ec_times k P)"
  by (induction k) (simp_all add: curve_add)

lemma ec_mul_times: "curve P \<Longrightarrow> ec_mul k P = ec_times k P"
  by (induction k) (simp_all add: ec_mul_simps(1) ec_mul_Suc add_comm [of P] curve_times)

lemma ec_times_add: "curve P \<Longrightarrow> ec_times (a + b) P = ec_add (ec_times a P) (ec_times b P)"
  by (induction a) (simp_all add: ec_assoc curve_times)

lemma ec_times_None [simp]: "ec_times k None = None"
  by (induction k) simp_all

lemma ec_times_mult: "curve P \<Longrightarrow> ec_times (a * b) P = ec_times a (ec_times b P)"
  by (induction a) (simp_all add: ec_times_add)

text \<open>A number that gives the neutral point can be dropped.\<close>

lemma ec_times_mod:
  assumes "curve P" "ec_times n P = None"
  shows "ec_times k P = ec_times (k mod n) P"
proof -
  have "ec_times (k div n * n + k mod n) P = ec_add (ec_times (k div n) (ec_times n P)) (ec_times (k mod n) P)"
    using assms(1) by (simp only: ec_times_add ec_times_mult)
  then show ?thesis using assms(2) by simp
qed

lemma ec_times_diff:
  assumes "curve P" "b \<le> a"
  shows "ec_times (a - b) P = ec_add (ec_times a P) (ec_neg (ec_times b P))"
proof -
  have "ec_times a P = ec_add (ec_times (a - b) P) (ec_times b P)"
    using ec_times_add [OF assms(1), of "a - b" b] assms(2) by simp
  then show ?thesis using cancel [of "ec_times (a - b) P" "ec_times b P"] curve_times [OF assms(1)] by simp
qed

text \<open>The order of a point is prime as soon as a prime multiple of it vanishes.\<close>

lemma ec_times_gcd: "curve P \<Longrightarrow> ec_times a P = None \<Longrightarrow> ec_times b P = None \<Longrightarrow> ec_times (gcd a b) P = None"
proof (induction a b rule: gcd_nat_induct)
  case (step m n)
  have "ec_times (m mod n) P = None" using step.prems ec_times_mod [of P n m] by simp
  then show ?case using step by (simp add: gcd_non_0_nat)
qed simp

lemma ec_times_prime:
  assumes "curve P" "P \<noteq> None" "ec_times n P = None" "pprime n"
  shows "ec_times k P = None \<longleftrightarrow> n dvd k"
proof
  assume "ec_times k P = None"
  from ec_times_gcd [OF assms(1) this assms(3)] have g: "ec_times (gcd k n) P = None" .
  have "gcd k n = 1 \<or> gcd k n = n" using assms(4) gcd_dvd2 [of k n] by (simp only: pprime_def)
  moreover have "gcd k n \<noteq> 1" using g assms(2) by auto
  ultimately show "n dvd k" by (metis gcd_dvd1)
next
  assume "n dvd k"
  then show "ec_times k P = None" using ec_times_mod [OF assms(1,3), of k] by simp
qed

lemma ec_times_inj:
  assumes "curve P" "P \<noteq> None" "ec_times n P = None" "pprime n" "b \<le> a"
  shows "ec_times a P = ec_times b P \<longleftrightarrow> n dvd a - b"
proof -
  have "ec_times (a - b) P = None \<longleftrightarrow> ec_times a P = ec_times b P"
    using ec_times_diff [OF assms(1,5)] add_move [of "ec_times a P" "ec_neg (ec_times b P)" None] curve_times [OF assms(1)]
    by simp
  then show ?thesis using ec_times_prime [OF assms(1-4)] by simp
qed

lemma ec_times_opposite:
  assumes "curve P" "P \<noteq> None" "ec_times n P = None" "pprime n"
  shows "ec_times a P = ec_neg (ec_times b P) \<longleftrightarrow> n dvd a + b"
proof -
  have "ec_times (a + b) P = None \<longleftrightarrow> ec_times a P = ec_neg (ec_times b P)"
    using ec_times_add [OF assms(1)] add_move [of "ec_times a P" "ec_times b P" None] curve_times [OF assms(1)] by simp
  then show ?thesis using ec_times_prime [OF assms] by simp
qed

end
