(* ===== verification/EccPoint.thy ===== *)
theory EccPoint
  imports EccGroup
begin

text \<open>
  The ladder of \<open>EccPoint_mult\<close>: it returns for every point, scalar and initial Z, and on a point of the
  curve it computes the multiple, or the zero point where one of its formulas divides by zero.
\<close>

section \<open>The invariant\<close>

abbreviation pt :: "int \<Rightarrow> int \<Rightarrow> fp \<times> fp" where
  "pt px py \<equiv> (of_int px, of_int py)"

definition linv :: "bool \<Rightarrow> int \<Rightarrow> int \<Rightarrow> nat \<Rightarrow> int \<Rightarrow> ecc_point list \<Rightarrow> vli \<Rightarrow> bool" where
  "linv on px py j z R sub \<longleftrightarrow> (\<exists>X0 Y0 X1 Y1 x0 y0 x1 y1 s. R = [(X0, Y0), (X1, Y1)] \<and>
    rep X0 x0 \<and> rep Y0 y0 \<and> rep X1 x1 \<and> rep Y1 y1 \<and> rep sub s \<and> s ^ 2 = (x0 - x1) ^ 2 \<and>
    diff_is px py z x0 y0 x1 y1 \<and> (on \<longrightarrow> pp dvd curve_eq x0 y0 z \<and> pp dvd curve_eq x1 y1 z \<and>
      track (pt px py) j (proper j (pt px py)) z x0 y0 x1 y1))"

text \<open>Between the two additions: the difference \<open>D\<close> at \<open>1 - nb\<close> and the sum \<open>S\<close> at \<open>nb\<close>.\<close>

definition lmid :: "bool \<Rightarrow> int \<Rightarrow> int \<Rightarrow> nat \<Rightarrow> int \<Rightarrow> nat \<Rightarrow> ecc_point list \<Rightarrow> int \<Rightarrow> int \<Rightarrow> bool" where
  "lmid on px py j z nb R xs ys \<longleftrightarrow> (\<exists>XD YD XS YS.
    R = (if nb = 0 then [(XS, YS), (XD, YD)] else [(XD, YD), (XS, YS)]) \<and>
    rep XD (px * z ^ 2) \<and> rep YD ((if nb = 0 then py else - py) * z ^ 3) \<and> rep XS xs \<and> rep YS ys \<and>
    (on \<longrightarrow> pp dvd curve_eq (px * z ^ 2) ((if nb = 0 then py else - py) * z ^ 3) z \<and> pp dvd curve_eq xs ys z \<and>
      track_sum (pt px py) (pt px (if nb = 0 then py else - py)) j (2 * (if nb = 0 then j + 1 else j))
        (proper j (pt px py) \<and> apart (ec_mul j (Some (pt px py))) (ec_mul (j + 1) (Some (pt px py)))) z xs ys))"

lemma lmidI:
  assumes "R = (if nb = 0 then [(XS, YS), (XD, YD)] else [(XD, YD), (XS, YS)])"
    and "rep XD (px * z ^ 2)" "rep YD ((if nb = 0 then py else - py) * z ^ 3)" "rep XS xs" "rep YS ys"
    and "on \<longrightarrow> pp dvd curve_eq (px * z ^ 2) ((if nb = 0 then py else - py) * z ^ 3) z \<and> pp dvd curve_eq xs ys z"
    and "on \<longrightarrow> track_sum (pt px py) (pt px (if nb = 0 then py else - py)) j (2 * (if nb = 0 then j + 1 else j))
        (proper j (pt px py) \<and> apart (ec_mul j (Some (pt px py))) (ec_mul (j + 1) (Some (pt px py)))) z xs ys"
  shows "lmid on px py j z nb R xs ys"
  unfolding lmid_def using assms by blast

lemma proper_step:
  assumes "0 < j" "b = 0 \<or> b = 1"
  shows "proper (2 * j + b) P \<longleftrightarrow> (proper j P \<and> apart (ec_mul j (Some P)) (ec_mul (j + 1) (Some P))) \<and>
    apart (ec_mul (2 * j + 1) (Some P)) (Some P)"
proof -
  have "\<not> 2 * j + b \<le> 1" "(2 * j + b) div 2 = j" using assms by auto
  then show ?thesis by (subst proper.simps) simp
qed

lemma addC_step:
  assumes "linv on px py j z R sub" "nb = 0 \<or> nb = 1" "0 < j"
  shows "\<exists>R' z' xs ys. ladder_addC nb R sub = Some R' \<and> lmid on px py j z' nb R' xs ys"
proof -
  from assms(1) obtain X0 Y0 X1 Y1 x0 y0 x1 y1 s where R: "R = [(X0, Y0), (X1, Y1)]"
    and r: "rep X0 x0" "rep Y0 y0" "rep X1 x1" "rep Y1 y1" "rep sub s" "s ^ 2 = (x0 - x1) ^ 2"
    and d: "diff_is px py z x0 y0 x1 y1" and c: "on \<longrightarrow> pp dvd curve_eq x0 y0 z \<and> pp dvd curve_eq x1 y1 z"
      "on \<longrightarrow> track (pt px py) j (proper j (pt px py)) z x0 y0 x1 y1"
    unfolding linv_def by blast
  let ?ap = "proper j (pt px py) \<and> apart (ec_mul j (Some (pt px py))) (ec_mul (j + 1) (Some (pt px py)))"
  from assms(2) show ?thesis
  proof
    assume nb: "nb = 0"
    have "s ^ 2 mod pp = (x0 - x1) ^ 2 mod pp" by (simp only: r(6))
    from XYcZ_addC_rep [OF r(3,4,1,2,5) this] obtain XD YD XS YS where
      a: "XYcZ_addC (X1, Y1) (X0, Y0) sub = Some ((XD, YD), (XS, YS))"
      "rep XD (px * (z * (x0 - x1)) ^ 2)" "rep YD (py * (z * (x0 - x1)) ^ 3)"
      "rep XS (coz_x x1 y1 x0 y0)" "rep YS (coz_y x1 y1 x0 y0)"
      using d by (auto simp: diff_is_def)
    have cv: "on \<longrightarrow> pp dvd curve_eq (px * (z * (x0 - x1)) ^ 2) (py * (z * (x0 - x1)) ^ 3) (z * (x0 - x1)) \<and>
        pp dvd curve_eq (coz_x x1 y1 x0 y0) (coz_y x1 y1 x0 y0) (z * (x0 - x1))"
      using c(1) chord_dvd [of x1 y1 z x0 "- y0"] chord_dvd [of x1 y1 z x0 y0] d by (simp add: curve_neg diff_is_def)
    have tr: "on \<longrightarrow> track_sum (pt px py) (pt px py) j (2 * (j + 1)) ?ap (z * (x0 - x1)) (coz_x x1 y1 x0 y0) (coz_y x1 y1 x0 y0)"
    proof
      assume on
      then show "track_sum (pt px py) (pt px py) j (2 * (j + 1)) ?ap (z * (x0 - x1)) (coz_x x1 y1 x0 y0) (coz_y x1 y1 x0 y0)"
        using c d assms(3) by (intro track_sum_step [where jb = j]) (auto simp: track_def diff_is_def)
    qed
    have "lmid on px py j (z * (x0 - x1)) nb [(XS, YS), (XD, YD)] (coz_x x1 y1 x0 y0) (coz_y x1 y1 x0 y0)"
      using nb by (intro lmidI [OF _ a(2) _ a(4,5), where YD = YD]) (simp_all add: a(3) cv tr [simplified])
    moreover have "ladder_addC nb R sub = Some [(XS, YS), (XD, YD)]" using a(1) by (simp add: ladder_addC_def R nb)
    ultimately show ?thesis by blast
  next
    assume nb: "nb = 1"
    have "s ^ 2 = (x1 - x0) ^ 2" using r(6) by (simp add: power2_commute)
    then have "s ^ 2 mod pp = (x1 - x0) ^ 2 mod pp" by simp
    from XYcZ_addC_rep [OF r(1-5) this] obtain XD YD XS YS where
      a: "XYcZ_addC (X0, Y0) (X1, Y1) sub = Some ((XD, YD), (XS, YS))"
      "rep XD (px * (z * (x1 - x0)) ^ 2)" "rep YD (- py * (z * (x1 - x0)) ^ 3)"
      "rep XS (coz_x x0 y0 x1 y1)" "rep YS (coz_y x0 y0 x1 y1)"
      unfolding diff_is_swap [OF d] by blast
    have cv: "on \<longrightarrow> pp dvd curve_eq (px * (z * (x1 - x0)) ^ 2) (- py * (z * (x1 - x0)) ^ 3) (z * (x1 - x0)) \<and>
        pp dvd curve_eq (coz_x x0 y0 x1 y1) (coz_y x0 y0 x1 y1) (z * (x1 - x0))"
      using c(1) chord_dvd [of x0 y0 z x1 "- y1"] chord_dvd [of x0 y0 z x1 y1] diff_is_swap [OF d] by (simp add: curve_neg)
    have tr: "on \<longrightarrow> track_sum (pt px py) (pt px (- py)) j (2 * j) ?ap (z * (x1 - x0)) (coz_x x0 y0 x1 y1) (coz_y x0 y0 x1 y1)"
    proof
      assume on
      then show "track_sum (pt px py) (pt px (- py)) j (2 * j) ?ap (z * (x1 - x0)) (coz_x x0 y0 x1 y1) (coz_y x0 y0 x1 y1)"
        using c diff_is_swap [OF d] assms(3) by (intro track_sum_step [where jb = "j + 1"]) (auto simp: track_def)
    qed
    have "nb \<noteq> 0" using nb by simp
    then have "lmid on px py j (z * (x1 - x0)) nb [(XD, YD), (XS, YS)] (coz_x x0 y0 x1 y1) (coz_y x0 y0 x1 y1)"
      by (intro lmidI [OF _ a(2) _ a(4,5), where YD = YD]) (simp_all add: a(3) cv tr [simplified] del: mult_minus_left)
    moreover have "ladder_addC nb R sub = Some [(XD, YD), (XS, YS)]" using a(1) by (simp add: ladder_addC_def R nb)
    ultimately show ?thesis by blast
  qed
qed

lemma add_step:
  assumes "lmid on px py j z nb R xs ys" "nb = 0 \<or> nb = 1" "0 < j"
  shows "\<exists>R' sub. ladder_add nb R = Some (R', sub) \<and> linv on px py (2 * j + (1 - nb)) (z * (px * z ^ 2 - xs)) R' sub"
proof -
  define xd where "xd = px * z ^ 2"
  define yd where "yd = (if nb = 0 then py else - py) * z ^ 3"
  define d where "d = xd - xs"
  define t where "t = coz_x xs ys xd yd"
  define ty where "ty = coz_y xs ys xd yd"
  define w where "w = xs * d ^ 2 - t"
  from assms(1) obtain XD YD XS YS where R: "R = (if nb = 0 then [(XS, YS), (XD, YD)] else [(XD, YD), (XS, YS)])"
    and r: "rep XS xs" "rep YS ys" "rep XD xd" "rep YD yd"
    and c: "on \<longrightarrow> pp dvd curve_eq xd yd z \<and> pp dvd curve_eq xs ys z"
    and tr: "on \<longrightarrow> track_sum (pt px py) (pt px (if nb = 0 then py else - py)) j (2 * (if nb = 0 then j + 1 else j))
        (proper j (pt px py) \<and> apart (ec_mul j (Some (pt px py))) (ec_mul (j + 1) (Some (pt px py)))) z xs ys"
    unfolding lmid_def xd_def yd_def by blast
  let ?P = "pt px py"
  let ?k = "2 * j + (1 - nb)"
  have k: "proper ?k ?P \<longleftrightarrow> (proper j ?P \<and> apart (ec_mul j (Some ?P)) (ec_mul (j + 1) (Some ?P))) \<and>
      apart (ec_mul (2 * j + 1) (Some ?P)) (Some ?P)"
    using assms(2) by (intro proper_step assms(3)) auto
  have trz: "(of_int (z * d) :: fp) \<noteq> 0 \<longleftrightarrow> proper ?k ?P" if on
    unfolding k d_def xd_def by (rule track_add_step(1) [OF tr [rule_format, OF that]]) simp
  have trp: "\<exists>S T. ec_mul (2 * j + 1) (Some ?P) = Some S \<and> ec_mul (2 * (if nb = 0 then j + 1 else j)) (Some ?P) = Some T \<and>
      jac (z * d) (xs * d ^ 2) (ys * d ^ 3) S \<and> jac (z * d) t ty T" if on "proper ?k ?P"
    unfolding d_def t_def ty_def xd_def yd_def
    by (rule track_add_step(2) [OF tr [rule_format, OF that(1)]]) (use that(2) k in simp_all)
  from XYcZ_add_rep [OF r] obtain X1' Y1' X3 Y3 sub where
    a: "XYcZ_add (XS, YS) (XD, YD) = Some ((X1', Y1'), (X3, Y3), sub)"
      "rep X1' (xs * d ^ 2)" "rep Y1' (ys * d ^ 3)" "rep X3 t" "rep Y3 ty" "rep sub w"
    unfolding d_def t_def ty_def w_def by blast
  have cc: "coz_x t ty (xs * d ^ 2) (- (ys * d ^ 3)) = xd * (d * w) ^ 2"
    "coz_y t ty (xs * d ^ 2) (- (ys * d ^ 3)) = yd * (d * w) ^ 3"
    unfolding t_def ty_def d_def w_def by (rule chord_cancel)+
  have on: "on \<longrightarrow> pp dvd curve_eq (xs * d ^ 2) (ys * d ^ 3) (z * d) \<and> pp dvd curve_eq t ty (z * d)"
    using c chord_dvd [of xs ys z xd yd] by (simp add: scale_curve t_def ty_def d_def)
  have px: "xd * (d * w) ^ 2 = px * (z * d * w) ^ 2" unfolding xd_def by algebra
  from assms(2) show ?thesis
  proof
    assume nb: "nb = 0"
    have "yd * (d * w) ^ 3 = py * (z * d * w) ^ 3" unfolding yd_def using nb by (simp add: power_mult_distrib)
    then have "diff_is px py (z * d) (xs * d ^ 2) (ys * d ^ 3) t ty"
      unfolding diff_is_def using cc px by (simp add: w_def)
    moreover have "on \<longrightarrow> track ?P ?k (proper ?k ?P) (z * d) (xs * d ^ 2) (ys * d ^ 3) t ty"
      using trz trp nb by (auto simp: track_def)
    moreover have "ladder_add nb R = Some ([(X1', Y1'), (X3, Y3)], sub)" using a(1) by (simp add: ladder_add_def R nb)
    moreover have "w ^ 2 = (xs * d ^ 2 - t) ^ 2" by (simp add: w_def)
    ultimately show ?thesis using a(2-6) on unfolding linv_def xd_def [symmetric] d_def [symmetric] by blast
  next
    assume nb: "nb = 1"
    have "yd * (d * w) ^ 3 = py * (z * d * (- w)) ^ 3" unfolding yd_def using nb by (simp add: power_mult_distrib)
    moreover have "px * (z * d * w) ^ 2 = px * (z * d * (- w)) ^ 2" by simp
    moreover have "- w = t - xs * d ^ 2" by (simp add: w_def)
    ultimately have "diff_is px py (z * d) t ty (xs * d ^ 2) (ys * d ^ 3)"
      unfolding diff_is_def using cc px by (simp only: coz_swap [of "xs * d ^ 2" "ys * d ^ 3"])
    moreover have "on \<longrightarrow> track ?P ?k (proper ?k ?P) (z * d) t ty (xs * d ^ 2) (ys * d ^ 3)"
      using trz trp nb by (auto simp: track_def)
    moreover have "ladder_add nb R = Some ([(X3, Y3), (X1', Y1')], sub)" using a(1) by (simp add: ladder_add_def R nb)
    moreover have "w ^ 2 = (t - xs * d ^ 2) ^ 2" by (simp add: w_def power2_commute)
    ultimately show ?thesis using a(2-6) on unfolding linv_def xd_def [symmetric] d_def [symmetric] by blast
  qed
qed

abbreviation ladder_scalar :: "vli \<Rightarrow> nat list \<Rightarrow> nat \<Rightarrow> nat" where
  "ladder_scalar scalar is j \<equiv> fold (\<lambda>i m. 2 * m + of_bool (uECC_vli_testBit scalar i)) is j"

lemma ladder_inv:
  "linv on px py j z R sub \<Longrightarrow> 0 < j \<Longrightarrow>
    \<exists>R' sub' z'. ladder scalar is R sub y = Some (R', sub', y + length (filter (\<lambda>i. i AND 15 = 0) is)) \<and>
      linv on px py (ladder_scalar scalar is j) z' R' sub' \<and> 0 < ladder_scalar scalar is j"
proof (induction "is" arbitrary: R sub y z j)
  case (Cons i "is")
  define nb :: nat where "nb = of_bool (\<not> uECC_vli_testBit scalar i)"
  have nb: "nb = 0 \<or> nb = 1" "1 - nb = of_bool (uECC_vli_testBit scalar i)" by (simp_all add: nb_def)
  from addC_step [OF Cons.prems(1) nb(1) Cons.prems(2)] obtain R1 z1 xs ys where
    1: "ladder_addC nb R sub = Some R1" "lmid on px py j z1 nb R1 xs ys" by blast
  from add_step [OF 1(2) nb(1) Cons.prems(2)] obtain R2 sub2 where 2: "ladder_add nb R1 = Some (R2, sub2)"
    "linv on px py (2 * j + (1 - nb)) (z1 * (px * z1 ^ 2 - xs)) R2 sub2" by blast
  note IH = Cons.IH [OF 2(2) [unfolded nb(2)]]
  show ?case using IH [of y] IH [of "Suc y"] Cons.prems(2) 1(1) 2(1) by (simp add: Let_def nb_def)
qed auto

section \<open>The start\<close>

definition z_ok :: "vli option \<Rightarrow> bool" where
  "z_ok initial_Z \<longleftrightarrow> (case initial_Z of None \<Rightarrow> True | Some Z \<Rightarrow> length Z = 8 \<and> ival Z < pp \<and> ival Z \<noteq> 0)"

lemma vli_one_eq: "vli_one = [1, 0, 0, 0, 0, 0, 0, 0]"
  by (simp add: vli_one_def uECC_vli_clear_def numeral_eq_Suc)

lemma one_rep: "rep vli_one 1" "ival vli_one = 1"
  by (simp_all add: vli_one_eq rep_def curve_p_int_def)

lemma initial_track:
  assumes "(of_int z :: fp) \<noteq> 0" "x = px * z ^ 2" "y = py * z ^ 3" "2 * b mod pp = 3 * (x ^ 2 - z ^ 4) mod pp"
  shows "track (pt px py) 1 (proper 1 (pt px py)) (y * z) (x * y ^ 2) (y ^ 4) (b ^ 2 - 2 * (x * y ^ 2))
    (b * (x * y ^ 2 - (b ^ 2 - 2 * (x * y ^ 2))) - y ^ 4)"
proof -
  let ?P = "pt px py"
  have p: "proper 1 ?P \<longleftrightarrow> snd ?P \<noteq> 0" by (subst proper.simps) simp
  have nz: "(of_int (y * z) :: fp) \<noteq> 0 \<longleftrightarrow> snd ?P \<noteq> 0" using assms(1,3) by simp
  have j: "jac z x y ?P" using assms(2,3) by (simp add: jac_def)
  have sh: "x * y ^ 2 = px * (y * z) ^ 2" "y ^ 4 = py * (y * z) ^ 3" using assms(2,3) by algebra+
  have "jac (y * z) (x * y ^ 2) (y ^ 4) ?P" unfolding jac_def sh by simp
  moreover have "ec_mul (1 + 1) (Some ?P) = Some (tangent ?P)" if "snd ?P \<noteq> 0"
  proof -
    have "snd ?P + snd ?P \<noteq> 0" using that two_nonzero by (metis mult_2 mult_eq_0_iff)
    then show ?thesis unfolding ec_mul_simps(3) [of 1 "Some ?P", unfolded mult_2 ec_mul_simps(2), OF zero_less_one] by simp
  qed
  ultimately show ?thesis
    unfolding track_def p nz using jac_tangent [OF j assms(1) _ assms(4)] ec_mul_simps(2) by blast
qed

lemma initial_inv:
  assumes "length PX = 8" "length PY = 8" "z_ok initial_Z"
    and on: "on \<longrightarrow> pp dvd curve_eq (ival PX) (ival PY) 1"
  shows "\<exists>R1 R0 z. XYcZ_initial_double (PX, PY) initial_Z = Some (R1, R0) \<and>
    linv on (ival PX) (ival PY) 1 z [R0, R1] (fsub (fst R0) (fst R1))"
proof -
  define Z where "Z = (case initial_Z of Some Z \<Rightarrow> Z | None \<Rightarrow> vli_one)"
  define z where "z = ival Z"
  define px where "px = ival PX"
  define py where "py = ival PY"
  have Z: "rep Z z" "ival Z \<noteq> 0" "ival Z < pp" using assms(3) one_rep curve_p_int_def
    by (auto simp: Z_def z_def z_ok_def intro: rep_self split: option.splits)
  note P = raw_self [OF assms(1), folded px_def] raw_self [OF assms(2), folded py_def]
  define x where "x = px * z ^ 2"
  define y where "y = py * z ^ 3"
  from apply_z_rep [OF P Z(1)] obtain X Y where a: "apply_z (PX, PY) Z = Some (X, Y)" "rep X x" "rep Y y"
    unfolding x_def y_def by blast
  from double_jacobian_rep [OF a(2,3) Z(1,2)] obtain b X3 Y3 Z3 where
    dj: "double_jacobian_default X Y Z = Some (X3, Y3, Z3)" "2 * b mod pp = 3 * (x ^ 2 - z ^ 4) mod pp"
      "rep X3 (b ^ 2 - 2 * (x * y ^ 2))" "rep Y3 (b * (x * y ^ 2 - (b ^ 2 - 2 * (x * y ^ 2))) - y ^ 4)" "rep Z3 (y * z)" by blast
  from apply_z_rep [OF P dj(5)] obtain X2 Y2 where
    e: "apply_z (PX, PY) Z3 = Some (X2, Y2)" "rep X2 (px * (y * z) ^ 2)" "rep Y2 (py * (y * z) ^ 3)" by blast
  have sh: "px * (y * z) ^ 2 = x * y ^ 2" "py * (y * z) ^ 3 = y ^ 4" by (simp_all add: x_def y_def) algebra+
  have diff: "diff_is px py (y * z) (x * y ^ 2) (y ^ 4) (b ^ 2 - 2 * (x * y ^ 2))
      (b * (x * y ^ 2 - (b ^ 2 - 2 * (x * y ^ 2))) - y ^ 4)"
    by (rule tangent_diff) (simp_all add: x_def y_def)
  have c: "pp dvd curve_eq (x * y ^ 2) (y ^ 4) (y * z) \<and> pp dvd curve_eq (b ^ 2 - 2 * (x * y ^ 2))
      (b * (x * y ^ 2 - (b ^ 2 - 2 * (x * y ^ 2))) - y ^ 4) (y * z)" if "pp dvd curve_eq px py 1"
  proof
    show "pp dvd curve_eq (x * y ^ 2) (y ^ 4) (y * z)"
      using that scale_curve [of px "y * z" py 1] unfolding sh by simp
    have "pp dvd curve_eq x y z" using that scale_curve [of px z py 1] by (simp add: x_def y_def)
    moreover have "pp dvd 2 * b - 3 * (x ^ 2 - z ^ 4)" using dj(2) by (simp only: mod_eq_dvd_iff)
    ultimately show "pp dvd curve_eq (b ^ 2 - 2 * (x * y ^ 2)) (b * (x * y ^ 2 - (b ^ 2 - 2 * (x * y ^ 2))) - y ^ 4) (y * z)"
      unfolding tangent_curve by (intro dvd_add dvd_mult)
  qed
  have "(of_int z :: fp) \<noteq> 0" using felt_zero [OF Z(3)] Z(2) by (simp add: felt_def z_def)
  note tr = initial_track [OF this x_def y_def dj(2)]
  have "XYcZ_initial_double (PX, PY) initial_Z = Some ((X3, Y3), (X2, Y2))"
    using a(1) dj(1) e(1) by (simp add: XYcZ_initial_double_def Z_def [symmetric] Let_def)
  moreover have "rep (fsub X2 X3) (x * y ^ 2 - (b ^ 2 - 2 * (x * y ^ 2)))"
    using rep_sub [OF e(2) dj(3)] unfolding sh .
  moreover have "linv on px py 1 (y * z) [(X2, Y2), (X3, Y3)] (fsub X2 X3)"
    unfolding linv_def
    by (intro exI conjI impI, rule refl, rule e(2) [unfolded sh], rule e(3) [unfolded sh], rule dj(3), rule dj(4),
        rule calculation(2), rule refl, rule diff) (use c on tr in \<open>simp_all add: px_def py_def\<close>)
  ultimately show ?thesis unfolding px_def py_def by (metis fst_conv)
qed

section \<open>The end\<close>

lemma pow_cong: "a mod c = b mod c \<Longrightarrow> a ^ n mod c = b ^ n mod c" for a b c :: int
  by (metis power_mod)

lemma curve_cong:
  assumes "x mod pp = x' mod pp" "y mod pp = y' mod pp" "z mod pp = z' mod pp"
  shows "pp dvd curve_eq x y z \<longleftrightarrow> pp dvd curve_eq x' y' z'"
proof -
  have "curve_eq x y z mod pp = curve_eq x' y' z' mod pp"
    unfolding curve_eq_def by (intro mod_diff_cong mod_add_cong mod_mult_cong pow_cong assms refl)
  then show ?thesis by (simp only: dvd_eq_mod_eq_0)
qed

text \<open>The scaling factor is zero, or the inverse of the common Z coordinate.\<close>

definition final_z :: "ecc_point \<Rightarrow> nat \<Rightarrow> ecc_point list \<Rightarrow> vli option" where
  "final_z point nb R = do {
     let z = uECC_vli_modSub (fst (R ! 1)) (fst (R ! 0)) curve_p;
     z \<leftarrow> uECC_vli_modMult_fast z (snd (R ! (1 - nb)));
     z \<leftarrow> uECC_vli_modMult_fast z (fst point);
     z \<leftarrow> uECC_vli_modInv z curve_p num_words;
     z \<leftarrow> uECC_vli_modMult_fast z (snd point);
     uECC_vli_modMult_fast z (fst (R ! (1 - nb)))
   }"

lemma final_z_rep:
  assumes "lmid on (ival PX) (ival PY) j z nb R xs ys" "nb = 0 \<or> nb = 1" "length PX = 8" "length PY = 8"
  defines "zz \<equiv> z * (ival PX * z ^ 2 - xs)"
  shows "\<exists>Z zeta. final_z (PX, PY) nb R = Some Z \<and> rep Z zeta \<and>
    (of_int zeta :: fp) = (if felt PX = 0 \<or> felt PY = 0 \<or> of_int zz = (0 :: fp) then 0 else inverse (of_int zz))"
proof -
  define xd where "xd = ival PX * z ^ 2"
  define sg :: int where "sg = (if nb = 0 then 1 else - 1)"
  from assms(1) obtain XD YD XS YS where R: "R = (if nb = 0 then [(XS, YS), (XD, YD)] else [(XD, YD), (XS, YS)])"
    and r: "rep XD xd" "rep YD (sg * ival PY * z ^ 3)" "rep XS xs"
    unfolding lmid_def xd_def sg_def by (auto split: if_splits)
  have el: "R ! (1 - nb) = (XD, YD)" "rep (fsub (fst (R ! 1)) (fst (R ! 0))) (sg * (xd - xs))"
    using assms(2) rep_sub [OF r(1,3)] rep_sub [OF r(3,1)] by (auto simp: R sg_def)
  define q where "q = fmul (fmul (fsub (fst (R ! 1)) (fst (R ! 0))) YD) PX"
  have q: "rep q (sg * (xd - xs) * (sg * ival PY * z ^ 3) * ival PX)"
    unfolding q_def by (intro raw_mul rep_raw [OF rep_mul] el(2) r(2) raw_self assms(3))
  have len: "length (fsub (fst (R ! 1)) (fst (R ! 0))) = 8" "length YD = 8" "length XD = 8" "length q = 8"
    using el(2) r(1,2) q by (simp_all add: rep_def)
  have "length q = length curve_p" "odd (ival curve_p)" "1 < ival curve_p"
    using len(4) pp_odd by (simp_all add: curve_p_val curve_p_int_def)
  from modInv_correct [OF this] obtain i where i: "uECC_vli_modInv q curve_p 8 = Some i" "length i = 8"
    "ival q \<noteq> 0 \<Longrightarrow> pp dvd ival i * ival q - gcd (ival q) pp" "ival q = 0 \<Longrightarrow> ival i = 0"
    by (auto simp: curve_p_val)
  define zeta where "zeta = ival i * ival PY * xd"
  have "rep (fmul (fmul i PY) XD) zeta"
    unfolding zeta_def by (intro raw_mul rep_raw [OF raw_mul] raw_self i(2) assms(4) rep_raw [OF r(1)])
  moreover have "final_z (PX, PY) nb R = Some (fmul (fmul i PY) XD)"
    using len assms(3,4) i(1,2) el(1) by (simp add: final_z_def Let_def q_def [symmetric] del: One_nat_def)
  moreover have "(of_int zeta :: fp) = (if felt PX = 0 \<or> felt PY = 0 \<or> of_int zz = (0 :: fp) then 0 else inverse (of_int zz))"
  proof -
    have sg: "of_int sg * of_int sg = (1 :: fp)" by (simp add: sg_def)
    have "felt q = of_int sg * (of_int xd - of_int xs) * (of_int sg * felt PY * of_int z ^ 3) * felt PX"
      using felt_rep [OF q] by (simp add: felt_def del: of_int_of_nat_eq)
    then have fq: "felt q = felt PX * felt PY * of_int z ^ 2 * of_int zz" unfolding zz_def xd_def [symmetric] using sg by simp algebra
    have ze: "(of_int zeta :: fp) = felt i * felt PY * (felt PX * of_int z ^ 2)"
      unfolding zeta_def xd_def felt_def by simp
    have zz: "of_int zz = (0 :: fp)" if "of_int z = (0 :: fp)" using that by (simp add: zz_def)
    show ?thesis
    proof (cases "ival q = 0")
      case True
      then have "felt q = 0" by (simp add: felt_def)
      then show ?thesis using i(4) [OF True] fq zz unfolding ze by (auto simp: felt_def)
    next
      case False
      have qp: "ival q < pp" using q by (simp add: rep_def)
      then have "felt q \<noteq> 0" using False by (simp add: felt_zero)
      moreover have "\<not> pp dvd ival q" using False qp zdvd_not_zless [of "ival q" pp] by auto
      then have "gcd (ival q) pp = 1" using prime_modulus_p by (simp add: prime_modulus_def)
      then have "(of_int (ival i * ival q) :: fp) = of_int 1" using i(3) [OF False] by (simp only: of_int_eq mod_eq_dvd_iff)
      then have "felt i * felt q = 1" by (simp add: felt_def)
      then have "of_int zeta * of_int zz = (1 :: fp)" unfolding fq ze by (simp add: ac_simps)
      then have "of_int zeta = inverse (of_int zz :: fp)" by (metis inverse_unique mult.commute)
      ultimately show ?thesis unfolding fq by auto
    qed
  qed
  ultimately show ?thesis by blast
qed

lemma EccPoint_mult_unfold:
  assumes "XYcZ_initial_double point initial_Z = Some (R1, R0)"
    "ladder scalar (rev [1..<num_bits - 1]) [R0, R1] (fsub (fst R0) (fst R1)) 0 = Some (R, sub, y)"
    "ladder_addC (of_bool (\<not> uECC_vli_testBit scalar 0)) R sub = Some R'"
    "final_z point (of_bool (\<not> uECC_vli_testBit scalar 0)) R' = Some z"
    "ladder_add (of_bool (\<not> uECC_vli_testBit scalar 0)) R' = Some (R'', sub')"
    "apply_z (R'' ! 0) z = Some result"
  shows "EccPoint_mult point scalar initial_Z num_bits = Some (result, y)"
  using assms by (cases result) (auto simp: EccPoint_mult_def final_z_def Let_def bind_eq_Some_conv)

definition reduced :: "ecc_point \<Rightarrow> bool" where
  "reduced P \<longleftrightarrow> length (fst P) = 8 \<and> length (snd P) = 8 \<and> ival (fst P) < pp \<and> ival (snd P) < pp"

definition on_curve :: "ecc_point \<Rightarrow> bool" where
  "on_curve P \<longleftrightarrow> pp dvd curve_eq (ival (fst P)) (ival (snd P)) 1"

definition at_infinity :: "ecc_point \<Rightarrow> bool" where
  "at_infinity P \<longleftrightarrow> ival (fst P) = 0 \<and> ival (snd P) = 0"

definition affine :: "ecc_point \<Rightarrow> fp \<times> fp" where
  "affine P = (felt (fst P), felt (snd P))"

lemma on_curve_affine: "on_curve P \<longleftrightarrow> on_ec (affine P)"
  unfolding on_curve_def affine_def felt_def using jac_curve [of 1 "ival (fst P)" "ival (snd P)"] by (simp add: jac_def)

lemma proper_snd: "proper k P \<Longrightarrow> snd P \<noteq> 0"
proof (induction k rule: less_induct)
  case (less k)
  have "k div 2 < k" if "\<not> k \<le> 1" using that by simp
  then show ?case using less.prems proper.simps [of k P] less.IH [of "k div 2"] by metis
qed

text \<open>The first step doubles the point: the scalar has an implicit leading bit.\<close>

definition mult_scalar :: "vli \<Rightarrow> nat \<Rightarrow> nat" where
  "mult_scalar scalar num_bits = ladder_scalar scalar (rev [1..<num_bits - 1] @ [0]) 1"

text \<open>The last scaling: the result is the running point, or zero.\<close>

lemma final_point:
  assumes "rep X (x0 * zeta ^ 2)" "rep Y (y0 * zeta ^ 3)" "jac zz x0 y0 P \<or> \<not> good"
    and "(of_int zeta :: fp) = (if good then inverse (of_int zz) else 0)" "good \<Longrightarrow> (of_int zz :: fp) \<noteq> 0"
  shows "if good then affine (X, Y) = P else at_infinity (X, Y)"
proof -
  have f: "felt X = of_int x0 * of_int zeta ^ 2" "felt Y = of_int y0 * of_int zeta ^ 3"
    using assms(1,2) [THEN felt_rep] by simp_all
  show ?thesis
  proof (cases good)
    case True
    then have "felt X = fst P" "felt Y = snd P"
      using assms(3-5) unfolding f by (auto simp: jac_def power_inverse)
    then show ?thesis using True by (simp add: affine_def)
  next
    case False
    then have "felt X = 0" "felt Y = 0" using assms(4) unfolding f by simp_all
    then show ?thesis using False assms(1,2) felt_zero [of X] felt_zero [of Y] by (simp add: at_infinity_def rep_def)
  qed
qed

theorem EccPoint_mult_correct:
  assumes "length PX = 8" "length PY = 8" "z_ok initial_Z"
  shows "\<exists>P. EccPoint_mult (PX, PY) scalar initial_Z num_bits =
      Some (P, length (filter (\<lambda>i. i AND 15 = 0) (rev [1..<num_bits - 1]))) \<and> reduced P \<and>
    (on_curve (PX, PY) \<longrightarrow>
      (if felt PX \<noteq> 0 \<and> proper (mult_scalar scalar num_bits) (affine (PX, PY))
       then on_curve P \<and> ec_mul (mult_scalar scalar num_bits) (Some (affine (PX, PY))) = Some (affine P)
       else at_infinity P))"
proof -
  define on where "on = on_curve (PX, PY)"
  define nb :: nat where "nb = of_bool (\<not> uECC_vli_testBit scalar 0)"
  have nb: "nb = 0 \<or> nb = 1" by (simp add: nb_def)
  let ?px = "ival PX" and ?py = "ival PY"
  have Q: "affine (PX, PY) = pt ?px ?py" by (simp add: affine_def felt_def)
  have "on \<longrightarrow> pp dvd curve_eq ?px ?py 1" by (simp add: on_def on_curve_def)
  from initial_inv [OF assms this] obtain R1 R0 z0 where
    1: "XYcZ_initial_double (PX, PY) initial_Z = Some (R1, R0)"
      "linv on ?px ?py 1 z0 [R0, R1] (fsub (fst R0) (fst R1))" by blast
  define j where "j = ladder_scalar scalar (rev [1..<num_bits - 1]) 1"
  from ladder_inv [OF 1(2) zero_less_one, of scalar "rev [1..<num_bits - 1]" 0, folded j_def] obtain R sub z1 where
    2: "ladder scalar (rev [1..<num_bits - 1]) [R0, R1] (fsub (fst R0) (fst R1)) 0 =
        Some (R, sub, length (filter (\<lambda>i. i AND 15 = 0) (rev [1..<num_bits - 1])))"
      "linv on ?px ?py j z1 R sub" "0 < j" unfolding add_0 by blast
  from addC_step [OF 2(2) nb 2(3)] obtain R' z xs ys where
    3: "ladder_addC nb R sub = Some R'" "lmid on ?px ?py j z nb R' xs ys" by blast
  define zz where "zz = z * (?px * z ^ 2 - xs)"
  from final_z_rep [OF 3(2) nb assms(1,2), folded zz_def] obtain Z zeta where
    4: "final_z (PX, PY) nb R' = Some Z" "rep Z zeta"
      "(of_int zeta :: fp) = (if felt PX = 0 \<or> felt PY = 0 \<or> of_int zz = (0 :: fp) then 0 else inverse (of_int zz))"
    by (elim exE conjE) (rule that)
  define k where "k = mult_scalar scalar num_bits"
  have k: "2 * j + (1 - nb) = k" by (simp add: k_def mult_scalar_def j_def nb_def)
  from add_step [OF 3(2) nb 2(3), folded zz_def, unfolded k] obtain R'' sub' where
    5: "ladder_add nb R' = Some (R'', sub')" "linv on ?px ?py k zz R'' sub'" by blast
  from 5(2) obtain X0 Y0 x0 y0 x1 y1 where
    6: "R'' ! 0 = (X0, Y0)" "rep X0 x0" "rep Y0 y0" "on \<longrightarrow> pp dvd curve_eq x0 y0 zz"
      "on \<longrightarrow> track (pt ?px ?py) k (proper k (pt ?px ?py)) zz x0 y0 x1 y1"
    unfolding linv_def by (metis nth_Cons_0)
  from apply_z_rep [OF rep_raw [OF 6(2)] rep_raw [OF 6(3)] 4(2)] obtain X Y where
    7: "apply_z (R'' ! 0) Z = Some (X, Y)" "rep X (x0 * zeta ^ 2)" "rep Y (y0 * zeta ^ 3)" unfolding 6(1) by blast
  define good where "good \<longleftrightarrow> felt PX \<noteq> 0 \<and> proper k (affine (PX, PY))"
  have main: "if good then on_curve (X, Y) \<and> ec_mul k (Some (affine (PX, PY))) = Some (affine (X, Y)) else at_infinity (X, Y)" if o: on
  proof -
    have zg: "(of_int zz :: fp) \<noteq> 0 \<longleftrightarrow> proper k (affine (PX, PY))" using 6(5) o by (simp add: track_def Q)
    have g: "\<not> (felt PX = 0 \<or> felt PY = 0 \<or> of_int zz = (0 :: fp)) \<longleftrightarrow> good"
      using zg proper_snd [of k "affine (PX, PY)"] by (auto simp: good_def affine_def)
    obtain A where A: "good \<longrightarrow> ec_mul k (Some (affine (PX, PY))) = Some A \<and> jac zz x0 y0 A"
      using 6(5) o by (auto simp: track_def Q good_def)
    have "if good then affine (X, Y) = A else at_infinity (X, Y)"
      using A 4(3) g zg by (intro final_point [OF 7(2,3)]) (auto simp: good_def)
    moreover have "on_ec A" if good using jac_curve [of zz x0 y0 A] 6(4) A that zg o by (simp add: good_def)
    ultimately show ?thesis using A by (auto simp: on_curve_affine)
  qed
  moreover have "reduced (X, Y)" using 7(2,3) by (simp add: reduced_def rep_def)
  ultimately show ?thesis
    using EccPoint_mult_unfold [OF 1(1) 2(1) 3(1) [unfolded nb_def] 4(1) [unfolded nb_def] 5(1) [unfolded nb_def] 7(1)]
    unfolding on_def k_def good_def by blast
qed

end
