(* ===== verification/EccSpec.thy ===== *)
theory EccSpec
  imports EccPoint
begin

text \<open>
  The public functions: random numbers stay in their range, bytes and words convert back and forth, every
  call returns, and what it returns.
\<close>

section \<open>Random numbers\<close>

lemma curve_n_top: "top_bit curve_n" "top_bit curve_p"
  by (simp_all add: top_bit_def curve_n_def curve_p_def)

lemma random_tries_spec:
  assumes "length limit = n" "0 < n"
  shows "case random_tries r limit n num_bits tries drawn of
    (None, d) \<Rightarrow> True | (Some w, d) \<Rightarrow> length w = n \<and> ival w \<noteq> 0 \<and> ival w < ival limit"
proof (induction tries arbitrary: drawn)
  case (Suc tries)
  define w where "w = (map (\<lambda>i. native_word r (drawn + 4 * i)) [0..<n])[n - 1 :=
      map (\<lambda>i. native_word r (drawn + 4 * i)) [0..<n] ! (n - 1) AND drop_bit (n * 4 * 8 - num_bits) (- 1)]"
  have len: "length w = n" by (simp add: w_def)
  have "uECC_vli_cmp limit w = sgn (ival limit - ival w)" using len assms(1) by (simp add: vli_cmp)
  then have "uECC_vli_cmp limit w = 1 \<Longrightarrow> ival w < ival limit" by (simp add: sgn_if split: if_splits)
  moreover have "random_tries r limit n num_bits (Suc tries) drawn = (if \<not> uECC_vli_isZero w \<and> uECC_vli_cmp limit w = 1
      then (Some w, drawn + n * 4) else random_tries r limit n num_bits tries (drawn + n * 4))"
    by (simp only: random_tries.simps Let_def w_def)
  ultimately show ?case using Suc.IH len by (simp add: isZero_vval)
qed simp

lemma random_int_spec:
  assumes "length limit = n" "0 < n"
  shows "case uECC_generate_random_int g limit n drawn of
    (None, d) \<Rightarrow> True | (Some w, d) \<Rightarrow> length w = n \<and> ival w \<noteq> 0 \<and> ival w < ival limit"
  using random_tries_spec [OF assms] by (simp add: uECC_generate_random_int_def Let_def split: option.split)

lemma random_Z_ok: "random_Z g drawn = (Some Z, d) \<Longrightarrow> z_ok Z"
  using random_int_spec [of curve_p 8 g drawn]
  by (auto simp: random_Z_def z_ok_def curve_p_val split: if_splits prod.splits option.splits)

text \<open>The generator gave up: 64 numbers in a row were zero or not below the limit, or there is none.\<close>

definition starved :: "rng_function \<Rightarrow> bool" where
  "starved g \<longleftrightarrow> (\<exists>drawn. fst (uECC_generate_random_int g curve_n 8 drawn) = None \<or>
    fst (uECC_generate_random_int g curve_p 8 drawn) = None)"

lemma starvedI: "uECC_generate_random_int g curve_n 8 drawn = (None, d) \<Longrightarrow> starved g"
  by (auto simp: starved_def intro!: exI [of _ drawn])

lemma random_Z_starved: "random_Z g drawn = (None, d) \<Longrightarrow> g \<noteq> None \<and> starved g"
  by (auto simp: random_Z_def starved_def intro!: exI [of _ drawn] split: if_splits prod.splits option.splits)

section \<open>Bytes\<close>

lemma word_of_bytes:
  fixes a b c d :: u8
  defines "w \<equiv> push_bit 24 (ucast a :: u32) OR push_bit 16 (ucast b) OR push_bit 8 (ucast c) OR ucast d"
  shows "ucast (drop_bit 24 w) = a" "ucast (drop_bit 16 w) = b" "ucast (drop_bit 8 w) = c" "ucast w = d"
proof -
  have bits: "bit w (i + k) \<longleftrightarrow> (if k = 24 then bit a i else if k = 16 then bit b i else if k = 8 then bit c i else bit d i)"
    if "i < 8" "k = 24 \<or> k = 16 \<or> k = 8 \<or> k = 0" for i k
    using that by (auto simp: w_def bit_simps bit_u8_ge)
  show "ucast (drop_bit 24 w) = a" using bits [of _ 24] by (intro bit_word_eqI) (simp add: bit_simps add.commute)
  show "ucast (drop_bit 16 w) = b" using bits [of _ 16] by (intro bit_word_eqI) (simp add: bit_simps add.commute)
  show "ucast (drop_bit 8 w) = c" using bits [of _ 8] by (intro bit_word_eqI) (simp add: bit_simps add.commute)
  show "ucast w = d" using bits [of _ 0] by (intro bit_word_eqI) (simp add: bit_simps)
qed

lemma bytes_of_word:
  fixes w :: u32
  shows "push_bit 24 (ucast (ucast (drop_bit 24 w) :: u8)) OR push_bit 16 (ucast (ucast (drop_bit 16 w) :: u8)) OR
    push_bit 8 (ucast (ucast (drop_bit 8 w) :: u8)) OR ucast (ucast w :: u8) = w" (is "?l = w")
proof (rule bit_word_eqI)
  fix n assume "n < LENGTH(32)"
  then consider "n < 8" | "8 \<le> n" "n < 16" | "16 \<le> n" "n < 24" | "24 \<le> n" "n < 32" by fastforce
  then show "bit ?l n \<longleftrightarrow> bit w n" by cases (auto simp: bit_simps)
qed

lemma upt_32: "[0..<32] = [0, 1, 2, 3, 4, 5, 6, 7, 8, 9, 10, 11, 12, 13, 14, 15, 16, 17, 18, 19, 20, 21, 22, 23, 24, 25,
    26, 27, 28, 29, 30, 31]"
  by (simp add: upt_rec)

text \<open>The words of 32 big-endian bytes, the least significant word first.\<close>

definition be_word :: "u8 list \<Rightarrow> nat \<Rightarrow> u32" where
  "be_word bs i = push_bit 24 (ucast (bs ! i)) OR push_bit 16 (ucast (bs ! (i + 1))) OR
    push_bit 8 (ucast (bs ! (i + 2))) OR ucast (bs ! (i + 3))"

lemma be_word_bytes:
  "ucast (drop_bit 24 (be_word bs i)) = bs ! i" "ucast (drop_bit 16 (be_word bs i)) = bs ! (i + 1)"
  "ucast (drop_bit 8 (be_word bs i)) = bs ! (i + 2)" "ucast (be_word bs i) = bs ! (i + 3)"
  unfolding be_word_def by (rule word_of_bytes)+

lemma bytesToNative_eq:
  "uECC_vli_bytesToNative bs 32 =
    [be_word bs 28, be_word bs 24, be_word bs 20, be_word bs 16, be_word bs 12, be_word bs 8, be_word bs 4, be_word bs 0]"
proof -
  have "uECC_vli_clear 8 = [0, 0, 0, 0, 0, 0, 0, 0]" by (simp add: uECC_vli_clear_def numeral_eq_Suc)
  then show ?thesis
    by (simp add: uECC_vli_bytesToNative_def upt_32 Let_def be_word_def or.assoc numeral_2_eq_2)
qed

lemma bytesToNative_length [simp]: "length (uECC_vli_bytesToNative bs 32) = 8"
  by (simp add: bytesToNative_eq)

lemma nativeToBytes_length [simp]: "length (uECC_vli_nativeToBytes n w) = n"
  by (simp add: uECC_vli_nativeToBytes_def)

lemma length_8E:
  assumes "length w = 8"
  obtains a b c d e f g h where "w = [a, b, c, d, e, f, g, h]"
  using assms by (auto simp: numeral_eq_Suc length_Suc_conv)

lemma bytes_native_roundtrip:
  assumes "length w = 8"
  shows "uECC_vli_bytesToNative (uECC_vli_nativeToBytes 32 w) 32 = w"
proof -
  obtain a b c d e f g h where w: "w = [a, b, c, d, e, f, g, h]" using length_8E [OF assms] .
  show ?thesis
    by (simp add: bytesToNative_eq be_word_def uECC_vli_nativeToBytes_def w Let_def bytes_of_word)
qed

lemma native_bytes_roundtrip:
  assumes "length bs = 32"
  shows "uECC_vli_nativeToBytes 32 (uECC_vli_bytesToNative bs 32) = bs"
proof (rule nth_equalityI)
  fix i assume "i < length (uECC_vli_nativeToBytes 32 (uECC_vli_bytesToNative bs 32))"
  then have "i \<in> set [0..<32]" by simp
  then have "uECC_vli_nativeToBytes 32 (uECC_vli_bytesToNative bs 32) ! i = bs ! i"
    unfolding upt_32 by (auto simp: uECC_vli_nativeToBytes_def bytesToNative_eq be_word_bytes numeral_2_eq_2)
  then show "uECC_vli_nativeToBytes 32 (uECC_vli_bytesToNative bs 32) ! i = bs ! i" .
qed (simp add: assms)

section \<open>Validation\<close>

lemma vval_inj: "length l = length r \<Longrightarrow> vval l = vval r \<Longrightarrow> l = r"
proof (induction l r rule: list_induct2)
  case (Cons x xs y ys)
  have "unat x = unat y" "vval xs = vval ys"
    using split_unique [of "unat x" 1 "vval xs" "unat y" "vval ys"] Cons.prems u32_lt [of x] u32_lt [of y] by simp_all
  then show ?case using Cons.IH by (simp add: word_unat_eq_iff)
qed simp

lemma vli_equal_iff: "length l = length r \<Longrightarrow> uECC_vli_equal l r \<longleftrightarrow> l = r"
proof -
  assume len: "length l = length r"
  have xz: "a XOR b = 0 \<longleftrightarrow> a = b" for a b :: u32
    by (auto simp: bit_eq_iff bit_simps)
  have "(fold (\<lambda>(l, r) diff. diff OR (l XOR r)) xs b = 0) \<longleftrightarrow> b = 0 \<and> (\<forall>(l, r) \<in> set xs. l = r)" for xs and b :: u32
    by (induction xs arbitrary: b) (auto simp: or_eq_0_iff xz)
  then have "uECC_vli_equal l r \<longleftrightarrow> (\<forall>(a, b) \<in> set (zip l r). a = b)" by (simp add: uECC_vli_equal_def)
  also have "\<dots> \<longleftrightarrow> l = r" using len by (induction l r rule: list_induct2) auto
  finally show ?thesis .
qed

lemma rep_eq_iff: "rep v a \<Longrightarrow> rep w b \<Longrightarrow> v = w \<longleftrightarrow> a mod pp = b mod pp"
  using vval_inj [of v w] by (auto simp: rep_def)

lemma curve_b_rep: "rep curve_b (ival curve_b)"
  by (rule rep_self) (simp_all add: curve_b_def curve_p_int_def)

lemma x_side_spec:
  assumes "length x = 8"
  shows "\<exists>w. x_side_default x = Some w \<and> rep w (ival x ^ 3 - 3 * ival x + ival curve_b)"
proof -
  have "(uECC_vli_clear 8)[0 := 3] = [3, 0, 0, 0, 0, 0, 0, 0]" by (simp add: uECC_vli_clear_def numeral_eq_Suc)
  then have three: "rep ((uECC_vli_clear 8)[0 := 3]) 3" by (simp add: rep_def curve_p_int_def)
  define w where "w = fadd (fmul (fsub (fmul x x) ((uECC_vli_clear 8)[0 := 3])) x) curve_b"
  have "rep w ((ival x * ival x - 3) * ival x + ival curve_b)"
    unfolding w_def by (intro rep_add rep_sub raw_mul rep_raw [OF rep_sub] raw_self assms three curve_b_rep)
  moreover have "(ival x * ival x - 3) * ival x + ival curve_b = ival x ^ 3 - 3 * ival x + ival curve_b"
    by (simp add: power3_eq_cube algebra_simps)
  moreover have "x_side_default x = Some w"
    using assms rep_length [OF three] by (simp add: x_side_default_def w_def Let_def)
  ultimately show ?thesis by simp
qed

lemma on_curve_side:
  "on_curve P \<longleftrightarrow> (ival (snd P) * ival (snd P)) mod pp = (ival (fst P) ^ 3 - 3 * ival (fst P) + ival curve_b) mod pp"
proof -
  have "curve_eq (ival (fst P)) (ival (snd P)) 1 =
      ival (snd P) * ival (snd P) - (ival (fst P) ^ 3 - 3 * ival (fst P) + ival curve_b)"
    by (simp add: curve_eq_def power2_eq_square)
  then show ?thesis by (simp only: on_curve_def mod_eq_dvd_iff)
qed

lemma isZero_point: "EccPoint_isZero P \<longleftrightarrow> at_infinity P"
  by (simp add: EccPoint_isZero_def isZero_vval vval_append at_infinity_def)

lemma valid_point_spec:
  assumes "length (fst P) = 8" "length (snd P) = 8"
  shows "uECC_valid_point P = Some (\<not> at_infinity P \<and> reduced P \<and> on_curve P)"
proof -
  from x_side_spec [OF assms(1)] obtain w where w: "x_side_default (fst P) = Some w"
    "rep w (ival (fst P) ^ 3 - 3 * ival (fst P) + ival curve_b)" by blast
  have s: "rep (fmul (snd P) (snd P)) (ival (snd P) * ival (snd P))" by (intro raw_mul raw_self assms)
  have "uECC_vli_equal (fmul (snd P) (snd P)) w \<longleftrightarrow> on_curve P"
    using rep_eq_iff [OF s w(2)] rep_length [OF s] rep_length [OF w(2)] by (simp add: vli_equal_iff on_curve_side)
  moreover have "uECC_vli_cmp_unsafe curve_p v \<noteq> 1 \<longleftrightarrow> pp \<le> ival v" if "length v = 8" for v
    using cmp_p [OF that] .
  ultimately show ?thesis
    using assms w(1) by (auto simp: uECC_valid_point_def isZero_point reduced_def)
qed

lemma valid_key_bytes:
  assumes "length (fst P) = 8" "length (snd P) = 8"
  shows "uECC_valid_public_key (point_bytes P) = Some (\<not> at_infinity P \<and> reduced P \<and> on_curve P)"
    "bytes_point (point_bytes P) = P"
proof -
  have tail: "uECC_vli_bytesToNative (xs @ ys) 32 = uECC_vli_bytesToNative xs 32" if "length xs = 32" for xs ys
    using that by (simp add: bytesToNative_eq be_word_def nth_append)
  show "bytes_point (point_bytes P) = P"
    using assms by (simp add: bytes_point_def point_bytes_def tail bytes_native_roundtrip)
  then show "uECC_valid_public_key (point_bytes P) = Some (\<not> at_infinity P \<and> reduced P \<and> on_curve P)"
    using valid_point_spec [OF assms] by (simp add: uECC_valid_public_key_def)
qed

section \<open>Keys\<close>

lemma ladder_scalar_start:
  "ladder_scalar v is a = a * 2 ^ length is + ladder_scalar v is 0"
proof (induction "is" arbitrary: a)
  case (Cons i "is")
  show ?case using Cons.IH [of "2 * a + of_bool (uECC_vli_testBit v i)"] Cons.IH [of "of_bool (uECC_vli_testBit v i)"]
    by (simp add: algebra_simps)
qed simp

lemma scalar_257:
  assumes "length v = 8"
  shows "mult_scalar v (256 + 1) = 2 ^ 256 + vval v"
proof -
  have "[0..<256] = 0 # [1..<256]" using upt_conv_Cons [of 0 256] by simp
  then have r: "rev [1..<256] @ [0] = rev [0..<256]" by (simp only: rev.simps)
  have "ladder_scalar v (rev [0..<256]) 0 = vval v mod 2 ^ 256 div 2 ^ 0"
    unfolding fold_bits [OF le0, symmetric] by (rule fold_testBit) (simp add: assms)
  also have "\<dots> = vval v" using vval_lt [of v] assms by simp
  finally show ?thesis unfolding mult_scalar_def add_diff_cancel_right' r by (subst ladder_scalar_start) simp
qed

text \<open>The group order; \<open>regular\<close> is the scalar that \<open>regularize_k\<close> makes of \<open>k\<close>, a number of 257 bits that is
  congruent to \<open>k\<close>.\<close>

abbreviation order :: nat where "order \<equiv> vval curve_n"

definition regular :: "nat \<Rightarrow> nat" where
  "regular k = (if 2 ^ 256 \<le> k + order then k + order else k + 2 * order)"

lemma regular_mod: "regular k mod order = k mod order"
  by (simp add: regular_def)

lemma regularize_correct:
  assumes "length k = 8" "regularize_k k = (carry, k0, k1)"
  shows "mult_scalar (if carry then k0 else k1) (256 + 1) = regular (vval k)"
proof -
  obtain s c where s: "uECC_vli_add k curve_n = (s, c)" by fastforce
  obtain t c' where t: "uECC_vli_add s curve_n = (t, c')" by fastforce
  have len: "length k = length curve_n" "length s = length curve_n"
    using assms(1) vli_add(2) [OF s] by simp_all
  note S = vli_add [OF s len(1)]
  note T = vli_add [OF t len(2)]
  have k: "carry = (c \<noteq> 0)" "k0 = s" "k1 = t" using assms(2) s t by (simp_all add: regularize_k_def)
  have R: "(4294967296 :: nat) ^ 8 = 2 ^ 256" by simp
  have sl: "length s = 8" "length t = 8" using S(2) T(2) assms(1) by simp_all
  have b: "vval s < 2 ^ 256" "vval t < 2 ^ 256" using vval_lt [of s] vval_lt [of t] unfolding sl R by simp_all
  have n: "2 ^ 255 < order" "order < 2 ^ 256" by (simp_all add: curve_n_def)
  have c: "unat c = 0 \<or> unat c = 1" "unat c' = 0 \<or> unat c' = 1" using S(3) T(3) by auto
  have s': "vval s + 2 ^ 256 * unat c = vval k + order" "vval t + 2 ^ 256 * unat c' = vval s + order"
    using S(1) T(1) unfolding len assms(1) sl R by simp_all
  have c0: "c = 0 \<longleftrightarrow> unat c = 0" by (simp add: unat_eq_0)
  show ?thesis
  proof (cases "c = 0")
    case True
    then have s0: "vval s = vval k + order" using s'(1) c0 by simp
    have "unat c' \<noteq> 0"
    proof
      assume "unat c' = 0"
      then have "vval t = vval k + order + order" using s'(2) s0 by simp
      moreover have "2 ^ 256 \<le> order + order" using n(1) by simp
      ultimately show False using b(2) by linarith
    qed
    then have "unat c' = 1" using c by simp
    then show ?thesis using True s' s0 b scalar_257 [OF sl(2)] by (simp add: k regular_def)
  next
    case False
    then have "unat c = 1" using c c0 by simp
    then show ?thesis using False s' scalar_257 [OF sl(1)] by (simp add: k regular_def)
  qed
qed

lemma regularize_length:
  assumes "length k = 8"
  shows "case regularize_k k of (carry, k0, k1) \<Rightarrow> length k0 = 8 \<and> length k1 = 8"
  using assms add_length [of k curve_n] by (simp add: regularize_k_def Let_def case_prod_beta add_length)

lemma sixteenths: "length (filter (\<lambda>i. i mod 16 = 0) [1..<16 * (k + 1)]) = k"
proof (induction k)
  case 0
  show ?case by (simp add: upt_rec)
next
  case (Suc k)
  have "[1..<16 * (Suc k + 1)] = [1..<16 * (k + 1)] @ [16 * (k + 1)..<16 * (k + 1) + 16]"
    using upt_add_eq_append [of 1 "16 * (k + 1)" 16] by (simp add: algebra_simps)
  moreover have "length (filter (\<lambda>i. i mod 16 = 0) [16 * (k + 1)..<16 * (k + 1) + 16]) = 1"
  proof -
    have "[16 * (k + 1)..<16 * (k + 1) + 16] = map (\<lambda>i. i + 16 * (k + 1)) [0..<16]" by (simp add: map_add_upt add.commute)
    moreover have "(\<lambda>i. (i + 16 * (k + 1)) mod 16 = 0) = (\<lambda>i. i mod 16 = 0)" by (simp only: mod_mult_self2)
    ultimately show ?thesis by (simp only: filter_map length_map comp_def) (simp add: upt_rec)
  qed
  ultimately show ?case using Suc.IH by (simp only: filter_append length_append)
qed

lemma yields_15: "length (filter (\<lambda>i. i AND 15 = 0) (rev [1..<(256 + 1) - 1])) = 15"
proof -
  have "i AND 15 = i mod 16" for i :: nat using take_bit_eq_mask [of 4 i] by (simp add: take_bit_eq_mod mask_eq_exp_minus_1)
  then show ?thesis using sixteenths [of 15] by (simp add: rev_filter [symmetric])
qed

text \<open>The base point solves the equation; the quotient by \<open>p\<close> is given.\<close>

lemma G_equation:
  "36134250956749795798585127919587881956611106672985015071877198253568414405109 * 36134250956749795798585127919587881956611106672985015071877198253568414405109 + (3 * 48439561293906451759052585252797914202762949526041747995844080717082404635286 + 981570988164258562257936101525215858910690391106138407341175333813841188485201771743408849884010754226965632845910189239885256093057339116530079505515608 * 115792089210356248762697446949407573530086143415290314195533631308867097853951) =
    (48439561293906451759052585252797914202762949526041747995844080717082404635286 * (48439561293906451759052585252797914202762949526041747995844080717082404635286 * 48439561293906451759052585252797914202762949526041747995844080717082404635286) + 41058363725152142129326129780047268409114441015993725554835256314039467401291 :: nat)"
  by (simp only: chain_eval)

lemma G_coordinates:
  "ival (fst curve_G_point) = 48439561293906451759052585252797914202762949526041747995844080717082404635286"
  "ival (snd curve_G_point) = 36134250956749795798585127919587881956611106672985015071877198253568414405109"
  by (simp_all add: curve_G_point_def curve_G_def)

lemma G_on_curve: "on_curve curve_G_point" "length (fst curve_G_point) = 8" "length (snd curve_G_point) = 8"
proof -
  show "length (fst curve_G_point) = 8" "length (snd curve_G_point) = 8" by (simp_all add: curve_G_point_def curve_G_def)
  have b: "ival curve_b = 41058363725152142129326129780047268409114441015993725554835256314039467401291" by (simp add: curve_b_def)
  have shift: "a mod q = (c ^ 3 - 3 * c + d) mod q" if "a + (3 * c + k * q) = c * (c * c) + d" for a c d k q :: int
  proof -
    have "c ^ 3 - 3 * c + d = a + k * q" using that by (simp add: power3_eq_cube)
    then show ?thesis by simp
  qed
  show "on_curve curve_G_point"
    unfolding on_curve_side G_coordinates b curve_p_int_def
    by (rule shift, rule G_equation [THEN arg_cong [of _ _ int], unfolded of_nat_add of_nat_mult of_nat_numeral])
qed

lemma zero_off_curve: "at_infinity P \<Longrightarrow> \<not> on_curve P"
  by (simp add: at_infinity_def on_curve_side curve_b_def curve_p_int_def)

text \<open>A multiplication as the callers do it.\<close>

definition computable :: "nat \<Rightarrow> ecc_point \<Rightarrow> bool" where
  "computable k Q \<longleftrightarrow> felt (fst Q) \<noteq> 0 \<and> proper (regular k) (affine Q)"

lemma regular_mult:
  assumes "length (fst Q) = 8" "length (snd Q) = 8" "z_ok Z" "length k = 8" "regularize_k k = (carry, k0, k1)"
  shows "\<exists>P. EccPoint_mult Q (if carry then k0 else k1) Z (256 + 1) = Some (P, 15) \<and> reduced P \<and>
    (on_curve Q \<longrightarrow> (if computable (vval k) Q
       then on_curve P \<and> \<not> at_infinity P \<and> ec_mul (regular (vval k)) (Some (affine Q)) = Some (affine P)
       else at_infinity P))"
proof -
  from EccPoint_mult_correct [OF assms(1-3), of "if carry then k0 else k1" "256 + 1",
      unfolded yields_15 regularize_correct [OF assms(4,5)] prod.collapse, folded computable_def]
  obtain P where P: "EccPoint_mult Q (if carry then k0 else k1) Z (256 + 1) = Some (P, 15)" "reduced P"
    "on_curve Q \<longrightarrow> (if computable (vval k) Q
       then on_curve P \<and> ec_mul (regular (vval k)) (Some (affine Q)) = Some (affine P) else at_infinity P)" by blast
  then show ?thesis using zero_off_curve [of P] by (intro exI [of _ P]) (auto split: if_splits)
qed

abbreviation base_point :: ec_point where
  "base_point \<equiv> Some (affine curve_G_point)"

lemma public_key_spec:
  assumes "length private_key = 8"
  shows "case EccPoint_compute_public_key g private_key drawn of
      None \<Rightarrow> False
    | Some (None, d, y) \<Rightarrow> y \<le> 15 \<and> (g \<noteq> None \<and> starved g \<or> y = 15 \<and> \<not> computable (vval private_key) curve_G_point)
    | Some (Some P, d, y) \<Rightarrow> reduced P \<and> on_curve P \<and> \<not> at_infinity P \<and> y = 15 \<and>
        computable (vval private_key) curve_G_point \<and> ec_mul (regular (vval private_key)) base_point = Some (affine P)"
proof -
  obtain carry k0 k1 where k: "regularize_k private_key = (carry, k0, k1)" by (rule prod_cases3)
  obtain Zo d where z: "random_Z g drawn = (Zo, d)" by fastforce
  show ?thesis
  proof (cases Zo)
    case None
    then show ?thesis using random_Z_starved [of g drawn d] z by (simp add: EccPoint_compute_public_key_def k)
  next
    case (Some Z)
    then have "z_ok Z" using random_Z_ok z by simp
    from regular_mult [OF G_on_curve(2,3) this assms k]
    obtain P where P: "EccPoint_mult curve_G_point (if carry then k0 else k1) Z (256 + 1) = Some (P, 15)" "reduced P"
      "if computable (vval private_key) curve_G_point then on_curve P \<and> \<not> at_infinity P \<and>
        ec_mul (regular (vval private_key)) (Some (affine curve_G_point)) = Some (affine P) else at_infinity P"
      using G_on_curve(1) by blast
    then show ?thesis by (auto simp: EccPoint_compute_public_key_def k z Some isZero_point split: if_splits)
  qed
qed

end
