(* ===== verification/OrderCert.thy ===== *)
theory OrderCert
  imports EccAssoc EccSpec
begin

text \<open>
  The base point of secp256r1 has order \<open>n\<close>: a chain of doublings and additions from the base point to its multiple
  by \<open>n - 1\<close>, which is its negative. A step names the slope, the new coordinates and the quotients by \<open>p\<close>, which
  is written as a difference of two sparse numbers.
\<close>

section \<open>Checking a step\<close>

abbreviation (input) p_up :: nat where "p_up \<equiv> 115792089237316195429848086744074588617105774088927458618074203789970708103168"
abbreviation (input) p_down :: nat where "p_down \<equiv> 26959946667150639794667015087019630673637144422540572481103610249217"

definition thrice :: "nat \<Rightarrow> nat" where
  "thrice m = 3 * m"

definition times_p :: "nat \<Rightarrow> nat \<Rightarrow> nat \<Rightarrow> bool" where
  "times_p q u v \<longleftrightarrow> u + sparse q p_down = v + sparse q p_up"

lemma times_p: "times_p q u v \<Longrightarrow> (of_nat u :: fp) = of_nat v"
proof (rule fp_cert [where k = 0 and m = q])
  assume "times_p q u v"
  then have "u + q * p_down = v + q * (p_nat + p_down)" unfolding times_p_def sparse_def by simp
  then show "u + 0 * p_nat = v + q * p_nat" by (simp only: distrib_left mult_zero_left add_0_right add.assoc [symmetric] add_right_cancel)
qed

lemma balanced:
  assumes "u + (sparse a1 p_down + sparse a2 p_up) = v + (sparse a1 p_up + sparse a2 p_down)"
  shows "(of_nat u :: fp) = of_nat v"
proof (rule fp_cert [where k = a2 and m = a1])
  have up: "sparse q p_up = q * p_nat + sparse q p_down" for q by (simp add: sparse_def)
  show "u + a2 * p_nat = v + a1 * p_nat" using assms unfolding up by linarith
qed

lemma thrice_fp: "of_nat (thrice m) = 3 * (of_nat m :: fp)"
  by (simp add: thrice_def)

abbreviation (input) gx :: nat where "gx \<equiv> 48439561293906451759052585252797914202762949526041747995844080717082404635286"
abbreviation (input) gy :: nat where "gy \<equiv> 36134250956749795798585127919587881956611106672985015071877198253568414405109"

lemma affine_G: "affine curve_G_point = (of_nat gx, of_nat gy)"
  unfolding affine_def felt_def G_coordinates by simp

lemma curve_base: "curve base_point"
  using G_on_curve(1) by (simp add: on_curve_affine)

definition multiple :: "nat \<Rightarrow> nat \<Rightarrow> nat \<Rightarrow> bool" where
  "multiple k x y \<longleftrightarrow> ec_times k base_point = Some (of_nat x, of_nat y)"

lemma multiple_curve: "multiple k x y \<Longrightarrow> on_ec (of_nat x, of_nat y)"
  using curve_times [OF curve_base, of k] by (simp add: multiple_def)

lemma shifted: "d + x3 = x + p_nat \<Longrightarrow> (of_nat d :: fp) = of_nat x - of_nat x3"
proof -
  assume "d + x3 = x + p_nat"
  then have "(of_nat (d + x3) :: fp) = of_nat (x + p_nat)" by (simp only:)
  then show ?thesis unfolding of_nat_add p_nat_zero by (simp only: eq_diff_eq add_0_right)
qed

lemma double_cert:
  assumes "multiple k x y"
    and l: "l * (y + y) + 3 + (sparse a1 p_down + sparse a2 p_up) = thrice (x * x) + (sparse a1 p_up + sparse a2 p_down)"
    and s: "times_p c (l * l) (x3 + (x + x))" "dx + x3 = x + p_nat" "times_p d (l * dx) (y3 + y)"
  shows "multiple (k + k) x3 y3"
proof -
  let ?X = "of_nat x :: fp" and ?Y = "of_nat y :: fp" and ?L = "of_nat l :: fp"
  have on: "on_ec (?X, ?Y)" by (rule multiple_curve [OF assms(1)])
  have "?L * (?Y + ?Y) + 3 = 3 * (?X * ?X)" using balanced [OF l] by (simp add: thrice_fp)
  then have e: "?L * (2 * ?Y) = 3 * (?X ^ 2 - 1)" by algebra
  have x3: "?L ^ 2 - ?X - ?X = of_nat x3" using times_p [OF s(1)] by (simp add: power2_eq_square)
  have y3: "?L * (?X - of_nat x3) - ?Y = of_nat y3" using times_p [OF s(3)] by (simp add: shifted [OF s(2)])
  have "tangent (?X, ?Y) = (of_nat x3, of_nat y3)"
    using tangent_eq [OF y_nonzero [OF on] e] unfolding x3 y3 .
  then show ?thesis
    using assms(1) double_nonzero [OF on] ec_times_add [OF curve_base, of k k] by (simp add: multiple_def)
qed

lemma chord_cert:
  assumes P: "ec_times k base_point = Some (of_nat x1, of_nat y1)" and Q: "ec_add (ec_times k base_point) (Some (of_nat x2, Y2)) = ec_times m base_point"
    and ne: "x1 mod p_nat \<noteq> x2 mod p_nat"
    and l: "dx + x1 = x2 + p_nat" "of_nat dy = Y2 - (of_nat y1 :: fp)" "times_p q (l * dx) dy"
    and s: "times_p r (l * l) (x3 + (x1 + x2))" "ex + x3 = x1 + p_nat" "times_p t (l * ex) (y3 + y1)"
  shows "multiple m x3 y3"
proof -
  let ?X = "of_nat x1 :: fp" and ?Y = "of_nat y1 :: fp" and ?L = "of_nat l :: fp"
  have ne: "?X \<noteq> of_nat x2" using ne by (simp only: fp_eq_nat not_False_eq_True)
  have e: "?L * (of_nat x2 - ?X) = Y2 - ?Y" using times_p [OF l(3)] by (simp add: shifted [OF l(1)] l(2))
  have x3: "?L ^ 2 - ?X - of_nat x2 = of_nat x3" using times_p [OF s(1)] by (simp add: power2_eq_square)
  have y3: "?L * (?X - of_nat x3) - ?Y = of_nat y3" using times_p [OF s(3)] by (simp add: shifted [OF s(2)])
  have "chord (?X, ?Y) (of_nat x2, Y2) = (of_nat x3, of_nat y3)"
    using chord_eq [OF ne e] unfolding x3 y3 .
  then show ?thesis using P Q ne by (simp add: multiple_def)
qed

lemma reduced_mod: "x < p_nat \<Longrightarrow> y < p_nat \<Longrightarrow> x \<noteq> y \<Longrightarrow> x mod p_nat \<noteq> y mod p_nat"
  by (simp only: mod_less not_False_eq_True)

lemma add_cert:
  assumes "multiple k x1 y1" "multiple j x2 y2" "k + j = m" "x1 < p_nat" "x2 < p_nat" "x1 \<noteq> x2"
    and l: "dx + x1 = x2 + p_nat" "dy + y1 = y2 + p_nat" "times_p q (l * dx) dy"
    and s: "times_p r (l * l) (x3 + (x1 + x2))" "ex + x3 = x1 + p_nat" "times_p t (l * ex) (y3 + y1)"
  shows "multiple m x3 y3"
  using assms(2) unfolding multiple_def
  by (intro chord_cert [OF assms(1) [unfolded multiple_def] _ reduced_mod [OF assms(4-6)] l(1) shifted [OF l(2)] l(3) s, unfolded multiple_def])
    (simp only: ec_times_add [OF curve_base] assms(3) [symmetric])

lemma sub_cert:
  assumes "multiple k x1 y1" "multiple j x2 y2" "m + j = k" "x1 < p_nat" "x2 < p_nat" "x1 \<noteq> x2"
    and l: "dx + x1 = x2 + p_nat" "dy + (y1 + y2) = p_nat + p_nat" "times_p q (l * dx) dy"
    and s: "times_p r (l * l) (x3 + (x1 + x2))" "ex + x3 = x1 + p_nat" "times_p t (l * ex) (y3 + y1)"
  shows "multiple m x3 y3"
proof -
  have "(of_nat dy :: fp) = of_nat p_nat - of_nat (y1 + y2)" using shifted [OF l(2)] .
  then have dy: "of_nat dy = - of_nat y2 - (of_nat y1 :: fp)" unfolding p_nat_zero by simp
  have "m = k - j" "j \<le> k" using assms(3) by simp_all
  then have "ec_times m base_point = ec_add (ec_times k base_point) (ec_neg (ec_times j base_point))"
    using ec_times_diff [OF curve_base] by simp
  then show ?thesis
    using assms(2) unfolding multiple_def
    by (intro chord_cert [OF assms(1) [unfolded multiple_def] _ reduced_mod [OF assms(4-6)] l(1) dy l(3) s, unfolded multiple_def])
      (simp only: neg_simps)
qed

fun climb :: "nat \<Rightarrow> nat \<Rightarrow> nat \<Rightarrow> (nat \<times> nat \<times> nat \<times> nat \<times> nat \<times> nat \<times> nat \<times> nat) list \<Rightarrow> nat \<Rightarrow> nat \<Rightarrow> nat \<Rightarrow> bool" where
  "climb k x y [] k' x' y' = (k = k' \<and> x = x' \<and> y = y')"
| "climb k x y ((l, x3, y3, dx, a1, a2, c, d) # ss) k' x' y' =
    (l * (y + y) + 3 + (sparse a1 p_down + sparse a2 p_up) = thrice (x * x) + (sparse a1 p_up + sparse a2 p_down) \<and>
     times_p c (l * l) (x3 + (x + x)) \<and> dx + x3 = x + p_nat \<and> times_p d (l * dx) (y3 + y) \<and>
     climb (k + k) x3 y3 ss k' x' y')"

lemma climb: "multiple k x y \<Longrightarrow> climb k x y ss k' x' y' \<Longrightarrow> multiple k' x' y'"
proof (induction ss arbitrary: k x y)
  case (Cons s ss)
  obtain l x3 y3 dx a1 a2 c d where s: "s = (l, x3, y3, dx, a1, a2, c, d)" by (metis surj_pair)
  show ?case
    using Cons.IH [OF double_cert [OF Cons.prems(1), of l a1 a2 c x3 dx d y3]] Cons.prems(2) unfolding s climb.simps by blast
qed simp

lemma thrice_numeral: "thrice (numeral m) = numeral (wide0 m (num.Bit0 m))"
  by (simp only: thrice_def numeral_times_numeral numeral_eq_iff Num.num_eq_iff nat_of_num_mult nat_of_wide nat_of_num.simps)
    simp

lemmas order_eval = climb.simps times_p_def thrice_numeral digits_eval rel_simps

section \<open>The table\<close>

lemma multiple_1: "multiple 1 gx gy"
  by (simp add: multiple_def affine_G)

lemma multiple_2: "multiple 2 56515219790691171413109057904011688695424810155802929973526481321309856242040 3377031843712258259223711451491452598088675519751548567112458094635497583569"
  by (rule climb [OF multiple_1, where ss = "[(73404963663004311880882944372748989162084677934852963787452504780932599885725, 56515219790691171413109057904011688695424810155802929973526481321309856242040, 3377031843712258259223711451491452598088675519751548567112458094635497583569, 107716430713571529108640974298193799037424282785529132217851230704639646247197, 0, 14977763592705361599069626339595274245038754281486362765233116488694613306585, 46534169364352948997359741750105301721628942037719297803569804305146118019163, 68285499781197989585719486999227194864630654594358475924934958553370135935997)]"]; simp only: order_eval)

lemma multiple_3: "multiple 3 42877656971275811310262564894490210024759287182177196162425349131675946712428 61154801112014214504178281461992570017247172004704277041681093927569603776562"
  by (rule add_cert [OF multiple_1 multiple_2, where l = 18455939157588970446784565569990294768680858463148985486203132144235521409158 and dx = 123867747707140968416753919600621348022748004045051496173216031913094549460705 and dy = 83034870097318711223336030481311144171563712262056847690768891149934181032411 and ex = 121353993532986889211487467307715277708089805759154866028952362894273555776809 and q = 19743107071135822308435281671320913079881927145082111157840057764127512209429 and r = 2941666330675042762889183906650239212143982893806235985461506855374670074710 and t = 19342443308941836252578406433626955156558145064021443745060333424394507841201]; simp only: order_eval)

lemma multiple_5: "multiple 5 36794669340896883012101473439538929759152396476648692591795318194054580155373 101659946828913883886577915207667153874746613498030835602133042203824767462820"
  by (rule add_cert [OF multiple_3 multiple_2, where l = 45229245990036066278898881853970566932697869456466709605070982115897306836058 and dx = 129429652029771608865543939958929052200751666388916048006634763498501007383563 and dy = 58014319942054292517742876938906456110927646930337585720964995475932991660958 and ex = 121875076840735177060858538404358853795693034120818817766163662246488464411006 and q = 50556178837264977703636652155165813852157146579063932653768587029816931394496 and r = 17666877821945637713878235916195157302812061222665651353973403770779329936173 and t = 47605305924397696813182290842684910025387897703229112282957614772959899664266]; simp only: order_eval)

lemma multiple_7: "multiple 7 64375483017717711348634889601793836329966447963510648681625681211348943876771 52431391916983504423217627849020916729601969409053901192561322805962577543348"
  by (rule add_cert [OF multiple_5 multiple_2, where l = 11197636974780486841668754940655430369965752546452475387009965951100762576596 and dx = 135512639660150537163705031413880332466358557094444551577264794436122373940618 and dy = 17509174225154623135343243193231872253428205437011027160513047199677827974700 and ex = 88211275533535420426164030787152666959272091928428358105703268291572734132553 and q = 13104706502461920179113385025953278760254811372243972613819896434893485741028 and r = 1082863904382827953489035411444668187609890978690690981252240914964227776632 and t = 8530443204219534443501786009480505612265779606658457313716631406593833064420]; simp only: order_eval)

lemma multiple_9: "multiple 9 106026447472237217594103756757091873528548576106367144586170196380839010672352 19066521425813101412078385704618669688199787690556935461623958781864528857338"
  by (rule add_cert [OF multiple_7 multiple_2, where l = 112905361965775697020764939955394442687635879085669462346132785593690039136694 and dx = 107931825983329708827171615251625425895544505607582595487434431418828010219220 and dy = 66737729137085002598703530551878109398572849525987961570084766597540017894172 and ex = 74141124755836742517228579794109536331504015272433818290989116139377031058370 and q = 105241057168740096096669441029058289084730276739502965466044607219271915127908 and r = 110090601590792471084679374850169386806032749017577021947908282144429420297623 and t = 72292767011917760881235695223545234606476858291665678564220256869887928441794]; simp only: order_eval)

lemma multiple_11: "multiple 11 28412803729898893058558238221310261427084375743576167377786533380249859400145 65403602826180996396520286939226973026599920614829401631985882360676038096704"
  by (rule add_cert [OF multiple_9 multiple_2, where l = 10342296889730205269156926254005033044891314055308115805447676168380257016047 and dx = 66280861528810202581702748096327388696962377464726099582889916249337943423639 and dy = 100102599628255405609842772696280356439975031244484927301022130621638066580182 and ex = 193405732952694573298242965485189185631550343778081291403917294309456249126158 and q = 5920062006936675441990140746609042158991048019797312176620201113382473895901 and r = 923751403785505567647238720753903673701386699380151600718627097593468267272 and t = 17274578289530887269281096991170488459732006573298730333302087212056415596584]; simp only: order_eval)

lemma multiple_13: "multiple 13 10623191994993397449217730442198332685419647040822028787120372345201232391169 45109985299617300571846506882481132822837374452436097494820998411881657384920"
  by (rule add_cert [OF multiple_11 multiple_2, where l = 109654858471390377999729441808865619329709378381445581814383853004396063251697 and dx = 143894505271148527117248266632109000798426577827517076791273579249927094695846 and dy = 53765518227887510625400871461672053101574898320212461130660207042826557340816 and ex = 133581700945261744372037954728519502271750872118044452786199792343915724862927 and q = 136267785804034921771436657854696228722368883877587642214399639543720456483146 and r = 103842914212702806079363838499599957497874894859605260515264427757766062361705 and t = 126501582374162647014751154388955654373962281450542764516280216626941108562745]; simp only: order_eval)

lemma multiple_15: "multiple 15 108677532895904936863904823330600106055145041255062888673713681538132314135903 82195926338128401624329850334826772981689991100719104119047727086732126146358"
  by (rule add_cert [OF multiple_13 multiple_2, where l = 42291975560176651383997292756130501194152068262977065713179696038496575570125 and dx = 161684117006054022726588774411220929540091306530271215381939740284975721704822 and dy = 74059135754451206450074651518417893305337444482605765267825090991620938052600 and ex = 17737748309444709348010354061005800160360749201049454308940322115936016109217 and q = 59053608683633674021052003138558346917883983648002617564469371654825961622650 and r = 15446747778540028475970652572181189894465909385954549157317026517323900927663 and t = 6478546359352733096615478328327560566584290962215540367567020284382249457697]; simp only: order_eval)

section \<open>The chain\<close>

lemma order_0: "multiple 4096 104524345245415168844760228505523029502954337505467828479846741403274911766335 24068680205777287268608992964267617520729588536215884430823708440404643944657"
  by (rule climb [OF multiple_1, where ss = "[(73404963663004311880882944372748989162084677934852963787452504780932599885725, 56515219790691171413109057904011688695424810155802929973526481321309856242040, 3377031843712258259223711451491452598088675519751548567112458094635497583569, 107716430713571529108640974298193799037424282785529132217851230704639646247197, 0, 14977763592705361599069626339595274245038754281486362765233116488694613306585, 46534169364352948997359741750105301721628942037719297803569804305146118019163, 68285499781197989585719486999227194864630654594358475924934958553370135935997),
    (87876972767636602721277556159866268705790392400063007550586851983819265240629, 102369864249653057322725350723741461599905180004905897298779971437827381725266, 101744491111635190512325668403432589740384530506764148840112137220732283181254, 69937444751394362853081154129677800625605773566187346870280141192349572370725, 0, 77625195248966972021901033047669487927741899854888268926558226865316902967245, 66691622851496750087600276706916432343928564453529296610258552421876053353545, 53076949986551359155712414637642380075012279143865775298674923289236871928302),
    (27703172120280106276542475014640964877769784128290397894053506393076766133776, 44710890534849379681007195543719586089737754824560621976448707498688874787731, 78410552107786285403689301656392479612049391334024095564584156230482213311870, 173451062925159926404415602129429449040253568595635589517864895248005604791486, 0, 222825904570151469936480686775614624055051021359099650389769339990524761084407, 6627963540165782931308659620073212613948216025968493060238854333066827531063, 41498039144382903444175645563350445407857744415460811564658674347848334720612),
    (50497038961444600098837179579397293704748998380821210436411903751412026535562, 53672045248057889115442990650974246956111433509949227817154447498898850675822, 76677617734363509249014819591226621404800471122547084603525198673829417472272, 106830934497147739328261651842152912663712464729901708354827891308657121965860, 16597076928125735250226123237987612538985573517653716085827390343461446696800, 0, 22021806163642400483717190451476557770507115257556917290677183797878973792560, 46589070966581345452705754757829563382754396570518333569098896202412046071078),
    (105685889379630057297744864244456376859903278774705175695258468745067094181512, 16042583733306269684101352870536626105169720449307277134008003609085624635617, 32399114438360517224045093278977987173122871862196854131348009719644938621618, 153421550725107868194039084729845194381027856475932264878680075198680323894156, 65336234796337407025248441044385020687227937174940292024505107894696099273929, 0, 96461746999590534112006022212998027193724610493481035814559290617886424113533, 140031094947502293703101920996728432787634866666055870334385817484284817226082),
    (92257190264489947509697648432172604104304826414879497996841292444775804499812, 4534198767316794591643245143622298809742628679895448054572722918996032022405, 38538856030597174617352966265796180312895426960288118979288294421866280361154, 127300474176345723855155554676321900825513235184702143274968911998956690467163, 44959971680825098776515824657108850627804435872902947115857376474966051985968, 0, 73505791402000668709596716232138503076716027744443316273520761027301321894455, 101426480400670746530581786094657736560521126793864423651308141937443184343784),
    (114115874858064772752367312727904859571072396233825359945061815555709499712488, 78814614752662803446552508042186487658791282954521013490681246482080340428022, 12674104618141790467894299044247475822858341166545530384190000277770750348115, 41511673225010239907788184050843384681037489140664748759425107745782789448334, 75429277838398552245894917142250254921442338664204684675837316965166654993832, 0, 112463925501542771450808808645601266753909095737329742300008684812291248574912, 40910747350696085046405709713876409565228817621427963157622325334106325462373),
    (66938769057372856527559482745200173897135108467541782981739920156071062623541, 23807964934059478435436331776350117849069612297768742934782236087921044112411, 86241443812278992969236146751152550194975751834835207077668085446343782543686, 170798739028959573773813623215243943339807814072042584751432641703026394169562, 0, 146283331506134193396004853082631394126302199286169472695383348598074993244469, 38696933732460392563169672272683321552658660804026443300653503963144404832526, 98737810373037706984158235131706362264731398722572431149110226657939628092791),
    (40698697603971872279271710726172391355387150554621642216296652002170646586249, 2156549495952774314111151774178377948559693241906339406709973036473601988830, 22115702523015271602572671974768413662894969172470766522001632807566541942422, 137443504648462952884022626951579313430596062471152717723605894360314539977532, 45938987185246977891851292681816748788720556879245675782702518124335605690268, 0, 14304811304081744068290486989514160968243291545772291687252387477996422095299, 48308754695287064474768507247391809893980282172277792234486375572150072199360),
    (95311599245426418654495727586828151183612009396925129991073108083275900131681, 10213448892841498040343822488579379905132019463394398194763674400840732494343, 104774171927457593387914541038977971788686657480131065027322895015444410926119, 107735189813467525036464776235006571573513817193802255407479929944499967348438, 36287572521388701097253658692656678664997931871163049640256568545098492413917, 0, 78453554233895672156824341487293340950739631837171792224120838748662570214658, 88679747521238901864778539960091987213036310983573798632860017418818815602087),
    (12675700153287740156474934495044206495520278534961625499302018441846204697920, 79653716915665900061201781630580858916862475427086596591346770818198939780544, 56231866189639730753959129374618610980738706597653232502602271548117074579564, 46351821187531846741839487807406094518355687451598115798950534891508890567750, 20236515080110588983533344567758194443730789710590231192117095084458367916816, 0, 1387602343750513176200707216336407679493195190551953201187047017429890910670, 5074109906287230261672556106184926832620663565796713008312026351301930939667),
    (73677156909817085348988077401502627256997272658967852540903805428873672422557, 104524345245415168844760228505523029502954337505467828479846741403274911766335, 24068680205777287268608992964267617520729588536215884430823708440404643944657, 90921460880606979979139000074465402943994281336909082307033660723791125868160, 0, 92822712428527245942899152595046491245568478779117448659915443180394346894459, 46879916299396966144743825280548329020876923651256009597404729251716001643126, 57852265948848117985470982184226479650871625278890169712945197118394951132349)]"]; simp only: order_eval)

lemma order_1: "multiple 16777216 112607987952473600112633811304579709354947280056396786048007260552010776369157 103808385594532261808417197518044123929568276946600525334048096014844982592250"
  by (rule climb [OF order_0, where ss = "[(67875135776635817957545939771801546118056421901876765181535992042648937710865, 40863224036474936141631142071715333457001814331027501250884046861033018586291, 3386129191566091291470497666167764336438333215168340315524161147129268811747, 179453210419296481465826533383215269576038666589730641424496325851108991033995, 0, 254841989416716614681802414679130815784414851681478510254401264638426743460162, 39787122661957309625360111875254611813632994137985764921480720387306683496464, 105192082687403059374447463036219198698629272820416043004857115950902124531321),
    (66282883146782992045710058728844105453481577034815386844747305309170508801098, 42025154672100618091302854432090563247905244644296387999148687757182615160575, 94723202283272416307777814951919253088047486446376176713972625696391150511635, 114630158574730566813025734589032343739182713102021427447268990412717501279667, 0, 39385457642373822395793430330125253554318489092803202096638183759458747353028, 37942320828745774842795907533735901068191282919841987207985914988049214999297, 65617759017224094918839419622804657642948186396320953487691698629130725424184),
    (21431968312620642128788201606615470948139103105573672958570419277457591832216, 51404187157962378176336921896360819578142209723616955715127248788275781410748, 89443666980066831661724560541201252349280700609614168942421156125843984449387, 106413056724494488677663379485137317199849178335969746479555070277773931603778, 0, 10692712641038568185941626500161408066799613265824784672709327564654991275152, 3966844962255795113391674924964053485284848580916152097254199399503904289658, 19696002337649264227761321257736651821821244980769366945431852937051281013326),
    (101306383912587663547390020465441668084273096745480984708637300272370785708914, 72412835798008492899815071849086056607001213471145009021285164652312939848644, 102554733615261634604727271955114922528443021960973746229359109862289549224144, 94783440570310134039219296996682336501227139667762260889375715444829939416055, 88047962763938646717181643364860531448138882108655525742175899996563688343777, 0, 88632854726371900279487972404740449649139863013130641876129270295461532968056, 82925938071017841150215686549209882030246376807911655628901769883080131344189),
    (19766169040874654221922818942482627621010133804969109414518357107283128205630, 92944812916383591202226840127989918871695072688526711036159737013721541185837, 60553895363376070190549143159633388307375388321283848599920050874556475421615, 95260112091981150460285678670503711265392284197908612180659058947458496516758, 0, 100841327273689259430398208465672646640333372126379034935253224948325234170515, 3374163478842283222678202936039116010371998160266211123277641034684447215025, 16261279084809545489328955753270156169385700092998220230851901299110416844331),
    (107643709564164152698703452733094107815106753189282039550341495345545121162198, 6952618527003531675296994356776297463183372546461849043464102571127989153562, 112471650221151969856728932103620803121465996982724043976638783413918408814746, 201784283599736308289627292720621194938597843557355176188229265751460649886226, 0, 111231457874797697677801361312043125967805769209706778610781457617353223814364, 100068737750158741754812492893186269909057351981485357503594807355338145012368, 187584566152557808760086533362160019797955553387481655659092059315658396562237),
    (83052415994172762920099391894576162135828269823844400836314597982615477592668, 32161590388091230361947227126565844676608389367196975631576458973464081232315, 15471909706627164928854461425101131289995033829824593821518099868480843627020, 90583117349268550076047214179618026316661126594555187607421274906531005775198, 160089242509603070216592578863761240521984393372638486631712566807268982641977, 0, 59569732695108888261901716599076264158404504659076084910940510207087856205535, 64971163362233920952701061968130091650156485489255731040722185210455808434398),
    (1978492935384150496586660162836772214089456480670725909912700956879815233882, 6684372531644321906066043092760334574549429214674163067658680787578763272177, 96855569752147665018863380411147536628722905149448873330403642614010621941036, 141269307066803157218578630983213083632145103567813126759451409494752415814089, 0, 26270201889570011199290127049589336382387393505568621806811252513050456525992, 33805714380485432370706923479098974261713698888089833630936427131963158467, 2413811927259761863505176623010094474512126844434839296178409093028850054542),
    (28696822018140526596358174856571398460797524418450815763082584593846790534031, 32325296723778932716908442300219159473750757983906220472533718577210510587849, 20736800745816317547941100211167809857392517429255853975351510004630564684767, 90151165018221637951855047741948748630884814646058256790658593519235350538279, 46849932684135044335442063008371601334409893787297558810618943973136573174648, 0, 7111950389329202969015393713435996619737656172826276450757378600723957427658, 22342216596127718495116220373660519844090505684045798874067107643667157870146),
    (79783194831804012717082298577301539485505011095582063432572450902672107348967, 24080838673251189267224641055261777485302758319343856506760599936121160768910, 70782045015843204772139723009081065570680123181450092687981893546901991795586, 124036547260883992212381248194364955518534143079852678161306749949956447672890, 1503746970366364752119692653734651944061941866230031851719898472472491162878, 0, 54972306147839084395262989010731057096050543397278730028319361228994453050031, 85463800539962012523674433729957520420336049927821848915167287579491488847627),
    (91107262081107037533870170166398668093208034828978329237959331267974622557247, 100267549038796000079648997458834901227245220848193549513967878156264533967000, 5009797542289624972333303858064459697507098334052838364352435118597123504984, 39605378844811437950273090545834449788143680886440621188326353088723724655861, 96361127554220654650066214576592918342100754276344602460958133238026779113037, 0, 71684803862863013119843201058841925753516708028634264171108623457761938265139, 31162211985661662516424465612599549662156464828188597770253293114041431458447),
    (40164012498358870159469040550151384009269135136777649463223107925134138354231, 112607987952473600112633811304579709354947280056396786048007260552010776369157, 103808385594532261808417197518044123929568276946600525334048096014844982592250, 103451650296678648729712633103662765402384084207087077661494248913120855451794, 0, 256997841834215841762446253601777998783231918466424063327623055286228245336339, 13931417171666769695848794078460921629319199987757131801290056387840070402404, 35883568591143730766074071935622292639107452972590650431923989649813280232180)]"]; simp only: order_eval)

lemma order_2: "multiple 4294967296 57845546284519137759868071879580864747474048681904255205518830050186748385603 104300214627605143922035278089265480928211230602089785806215194357861799731457"
  by (rule climb [OF order_1, where ss = "[(90046739475501331108200754562683651664404557931781745380429797588667984874036, 72865994191103900368418452717911508270166796327302686479698375787037649393830, 47739020510692012294675537081390407274995880016472573531102395326084814450736, 155534082971725948506912805536075774614866627144384413763842516073840224829278, 0, 167079320168070164863590891554945062895375361659735438494201424191811368611144, 70025641176906986658044906609243243941110891101240085160934977516363240926752, 120952451453509145897402281302389687148154783316584599973604776163825903151122),
    (16404100494775509928361681595121949705948261840673203432255118892108257537640, 114337602657105746566520026766062898895613036501521397712923213318745566291214, 22031670490518099985769479050822638414518110334638301895014522352320470045858, 74320480744354402564595872901256182904639903241071602962308793777159180956567, 0, 124033757801222533719070748074798849375416371643664482186719471898503016530967, 2323945572428852688629426950866608009852482291072432870547476731857749888026, 10528876741619220622809473104493848438844853558956276929806349844807714270586),
    (11569599537348033977467371435938979685232707537551743222071909195454674093916, 16615211420998207844953991634261826615548584246702138675453794230699003829763, 96151858191390696272824414073643418914225141229386506707267472495832706137165, 213514480446463787484263482081208645810150595670109573233003050396913660315402, 0, 334301481203711374494318556992420660162444503577171944394138238167603774589479, 1155999812832049844618696707865729903252354019713195539679516730633793273615, 21333728850015220900213020033345251174292471939604212417113219795518736483159),
    (62413738309988737011728987891352272028280215314959104236530144913945818652447, 49374035672028068292423893253679785830248540621612537385650116037466511257021, 79256956600639487529482899901486295393487541625893452108323742222982335905023, 83033264959326388315227545329989614315386187040379915485337309502099590426693, 96502258097787240401943040773798303655371145594038723565997742563327668968306, 0, 33641976376736374227788405890909901705022812488941609684519797355712952591362, 44756222169725289152365371590703328153828006342678488632740532128621026805233),
    (111615304651364738675655952626219126063231495712489021685077446618122530036017, 94621550900186240532768349089227166281668476405190589251681615248255539160074, 23612451419535512356446731195296399189245073635318629801499671275538232646231, 70544573982198076522352991113860193078666207631712262329502132098078069950898, 89636456070475163838470531021619701982786448405227884241068313930571749773562, 0, 107589182623563395634620847814325858640774297446162789663260401655706998924323, 67999931344356058922452892727866488648165484998533435496713201464135236524612),
    (12813714215384421541252168839617386849896304419704425444912218135839687442474, 79605922378474623973159959507572628590432813470264327202418311886589301128670, 45965289954538637928972426711663391846762557009143098280278750794428678321058, 130807717732067865322305836531062111221321806350216576244796934670533335885355, 0, 226739041107933375190225563235815240093945175205321111580534322580342224466787, 1417983500541760774168042429857188798301058757817845260538761321429710847758, 14475364626510948164846460341963090504528784125806701587579960928011453303531),
    (104794485565060306380424063343557915522290778923280060870536098554596864346151, 59803630658580911635110414367064981923647105428749033779659313567020126510931, 68101072679436867230445935848898376370573937333418965600767120482840390450091, 135594380930249961100746992089915220196871851456805607618292629628436272471690, 0, 80985591225303259083405840824000562382274427906462224542249709424076051723731, 94841403067658198521205474356432238538480042237444845495853287857945098528030, 122716011879570530113060777935889636130887623631237102988758392907009844459591),
    (102822934285599741640305051773127442245923842686338691116417439709937025311912, 57845546284519137759868071879580864747474048681904255205518830050186748385603, 104300214627605143922035278089265480928211230602089785806215194357861799731457, 117750173584418022637939789436891690706259200162135092769674114825700475979279, 28285883295526253499490739113390693667826105593938434736586994986190042936904, 0, 91306374098613045216376811121247396173922639510103170695676167379305673058729, 104561705753433369160487691678304249508847664382540266411602804828471670834900)]"]; simp only: order_eval)

lemma order_3: "multiple 4294967295 44108279191020672269676524384472390185586184123633809521374507952858875764961 23676630656755336655456153975661343253619113743149438738258592382338839638964"
  by (rule sub_cert [OF order_2 multiple_1, where l = 2994969309152970952502738985577851916860332913377843180479771831863260849910 and dx = 106386104219743562761881960322624622985375044259427806985858881975762754103634 and dy = 91149712836357557804774487889961784175349949555505827512974870006303981571336 and ex = 129529356303854714252888994444516048091974007973560759879677953406194970474593 and q = 2751682945107309048553710197557685378353584262818964126042655994757062175804 and r = 77465060212126966812493413284291907548472698462849927644604635587252209750 and t = 3350284543701698720475626577079038807581415203113584153673404506117920588159]; simp only: order_eval)

lemma order_4: "multiple 17592186040320 72342589446985402753496997161418147704170448219882976411605258380462336020572 25791285396232910393089942617186822175000397164375953868408569618717762179868"
  by (rule climb [OF order_3, where ss = "[(104555946567286389792370838099024471843493796523862752548186056154541801728560, 50271846599454448975144713609506691020608617970830134670325605460086221329114, 10615135060133790210180862747282964019463459519911184734795781022150333763121, 109628521801922472057229257724373272695063709568093989046582533801639752289798, 0, 7647809327355218429361035156918944165323108212196156577580014567542352994880, 94410127990017402898394857109889870762976662225351447025355399364830412196764, 98990474616526973032823962705930970283896860357457813676671198531016719951045),
    (87185003277022714453495554820469931908587951283074689584489200932141184851951, 44109023820821091345170039262269601200468903241413810240452062323332655289663, 76554489819432333607505496186608996966913110691938446592159342207793218141761, 121954911988989606392672121296644663350225858144706638625407174445620663893402, 0, 49492280091247189915020630380838114291864513277130007959878639352403683129493, 65645458582283017991477918106024331914429196436769525751699074136478159469010, 91825266077487012491364986172073248753834992454060660591127369219568353813420),
    (102290578275991145773391791415444759461835579959628886621704647429177874408299, 59402945882855424932067929216004413462781881265103648159143107640294340869956, 110162713540023283015914563531572245379175160543013362116704757393975953863190, 100498167148321915175799556995672761267773165391600476276842585991905412273658, 84848526235507468015061027659131685680955118652052730311629391430417844396074, 0, 90363361395338277345914447805938118536670564656452545435585924563312677026569, 88779947778674654990640523571347682432091311963284319083092583070530987610841),
    (112058027311960515046957215189281606908195305841796123406856696715282189535735, 58003150546413965859488506553980510840318188674178848497324586537865544306394, 74163700890997423830400652609941328384259476849670702973047187618920299233675, 117191884546797707835276869611431476152549836006215113857352152411295894417513, 121796772843006225419927424500575873301480942322284229129912831006316779170745, 0, 108444381396695722999270477004452124952811723865594595511193576310288645636369, 113412682065249851475809483700978301834817033326742447470907388298210495204690),
    (35597195622703133496610498550630992986555911464123311226053898227580347407769, 111155643948026081040720255676778684523171664393891393556069851515555107490510, 52475110367517866012668008749546493462951080893459840787622866113123492276020, 62639595808744133581465697826609399847232667695577769136788366331177534669835, 0, 41566370512109739283811050250767793502967493120456975534380068022269380927805, 10943410252309900020819116722336785574057217247450545081804811587996269437713, 19256876362944932660083987328858978935880396810413901200716011117312284229420),
    (37869522475180083744938178272296846089239575967476808962076767218307516246816, 112964688848395258285085121004533841032311333317152719310081744011772704813768, 87603246520117426545061451348596507725681540761082294324827606250115647188637, 113983044309987071518332581621652417020946474492028988441521738812649500530693, 0, 285790825843746621165467238668038182367358456279921041619248786518293546798007, 12385135653722240212312953615154867860546731836828667689129677620015758394468, 37277878719718650520165699679138389827811501565621972272305867111979267128881),
    (83665229526843910575576259414031858276995819118225592631556002006018963361327, 31511349996118506443592282086796124059285959791624935300140437408083211520210, 111936869487092448000634194913520992445475310869736187536567428787207923968583, 197245428062633000604190285867145290503111516940818098205474937912556591147509, 0, 204024052818685260260141709543955302193727162604649035895966880544897756402921, 60452062653978070978824313963665376982410227933052176739914146611141943312833, 142519097155255454002145491161560599047983003662173971138250133055388999728873),
    (60335182151704775867089127284386192061139166715645380060226108072711830090806, 103817874206734827844627162088329706521366971021532622441363907509633155054147, 19962044775018710164234618236985895632537262333325993624943561665202571815657, 43485564999739927361662566947873991068005132185382627054310161207317154320014, 90926481731667069216249868922650475600073665708984140907881496784903315764949, 0, 31438539800988487635987814663235922224788355641294501114582176384005823910019, 22658797359314302964104055694515221608831654933886118013293506965978293693244),
    (103914240160845356833661375718184690407466683369452206669011007329267126096205, 17111165451048185899299265152879960625793240541940868567264508466901325473556, 100928983825072775243101092301857043207529835910434985414547433998687834195564, 202498797966042890708025343884857319425659873894882068069633030351598927434542, 0, 243417074317626849331253159136684868684715683517101672322158177737424596171154, 93254810253825837683926306987819709198264353470164173093804637862178324941425, 181726652205908016344061287641305968744704736340665987056758042842411127987839),
    (65177613485238411505762066086254442864014828079625793539882825440000903374575, 91974608471562545271475921516141678373067024499893309021107780383882796526233, 50491406920779056608656182445374555482732865964385990460261086113111396246889, 40928646189841889390520790586145855782812359457337873741690359391885626801274, 106036990340781976356360623394087732588761487583977836849361822974877689757445, 0, 36687491594643300051429012185511296775010756033910177523959488741408500901280, 23038115125372502639518737063222581691515008777639203284944380924718615550447),
    (15529539772737545434017552474622856700691243879508790136671089732285884757818, 99633791315747451497266590072531235831636146438317873647621835346023056070344, 24841090262206137448056182599223411477544946045714134575537074584066662285964, 108132906366171342536906778393018016071517021476865749569019576346726838309840, 0, 205625180001042250865487972633112769630824017069612987517384786954001468187460, 2082755455900935248639021199785946816686830294183614945292199110768455693014, 14502322927298673584852035760255227279366151258546847147840355768299457084117),
    (52041590357320812188780314911592952939662222567637978561852086839904097670844, 72342589446985402753496997161418147704170448219882976411605258380462336020572, 25791285396232910393089942617186822175000397164375953868408569618717762179868, 143083291079118297506467039860520661657551841633725211431550208274427817903723, 0, 234861790769965000503569909166050736529159922823194859726235860613289240221923, 23389569575854568305769964452738431779226845538082161105681124584146646950876, 64307346659833709089735781767615620514125781904487879306931678565196533935380)]"]; simp only: order_eval)

lemma order_5: "multiple 72057594021150720 7690195626924280219141676818823802701060672047962918421873905533607323042181 104978779999530073743226932601723490068452467623743198387753045600485776241297"
  by (rule climb [OF order_4, where ss = "[(44208027075984209832175850560514316244267756793042514067404579604156518742204, 100167923127484467222047698791899395565782238156687390681339245458166911922201, 25347285043409663358662108720605268300681409580504450448815933055421706794187, 87966755529857184294146745318926325668474353478485899925799644231162521952322, 0, 115897270262248528765108829963788541298602598426808342340667131034320234311155, 16878093065585341170400356984428408669683521721390355376807538556005456496321, 33584649320781053295668772330993431202079017779001688404837913830270867580783),
    (91093543835830246575737305470707600378346057465014691389200772227128643497335, 42360615162796062003400818699839346271468296672655177627497115105920050747435, 89946788344587197468954787961902623304239207887905232208750063985821738377483, 173599397175044653981344327041467622824400084899322527249375761661113959028717, 0, 220074537063448381823342102251558534441111286700506442632478121329404976450410, 71663217972477558513978957708149617858628079624775432468087668776568827947788, 136570506709747469686839819129099474306221116937326223985624154061117554511275),
    (96683468364239097603522744161141487774024498519916973672659108720986278946101, 92436084190914332638017440988540685763581573218263973411479329197754309683740, 113797033096506060617053043314459112281335601107924567506385309633908303989341, 65716620182237978128080824660706234037972866869681518411551417217032838917646, 103715805300212020021661641587560691510287039493739573224004290343731546253594, 0, 80728252842533395960637377732393077719100180638734939254891983205934318091641, 54871717158946096695251561895891909342427227162220614497203440826661394619522),
    (23424920283899733890826474375399335232920754552102446296160244673594752008246, 109588424816090538885093160628364655428517118218400121296829432697232479719971, 52307477765675135970886943883631864339115510512956737803804564363777923625000, 98639748585180042515621727309583603865150598415154166310183527809388927817720, 0, 175330769678985379665451885080237824125824362469531202011731947268311441589775, 4738897916507926551362992178635660697036712186540901131429854676962265389815, 19954975017629229981798254205682200800093653770151885515466297797917651250229),
    (103057569772381732661025303597141168486015349579815696774445108851019854064039, 28507408262797487773703289164497911121056046583564286633585116045336982177675, 108933553066396748688589657796862547600416271741208154315112610660000048265342, 196873105763649299874087318413274317837547215050126148858777947960762595396247, 0, 218041712989931516277044509509655715420781652223493118302463396089704770818520, 91723560390163657258539572935006226725030047568875528673246985376190600315104, 175221502366054023063466271448812725705552576818859351096850920514430575874341),
    (32975383636534723128906115342500812559913042624456542940875743952368152630286, 19510306823260676765939850953948515728563374518935626104351537066459957903729, 43542444911136400606724186793815459892622894485680595212825830481453629506018, 124789190649893059770460885159956968922578815479918974724767210287744122127897, 40989280539732708199161187790809206286363005695066324156207407589944169288352, 0, 9390761781672637063391849377575431459193975502869536447495589166576072368067, 35537586923553490769700133795324722686379039445111971972377099869389050753282),
    (29312306033421374657803998337941799041079746503331297541325847752927339010044, 48024023114285252335131709023017757611415238849659378755924716794880505389595, 51273173166149811835313253465009836338545238188441291260287959239950343117094, 87278372919331673193505588880338331647234279084566561543960451580446550368085, 12183066511401674103718307784240510428289143427522275628365948051833227340464, 0, 7420293483400632154161536047987004497989100025669080576279700902221463479533, 22094172361489041824966539852303952454374942351498099361349495151442707112028),
    (3523718244520710252896370731850737877054156053434087436586265151161315077219, 78208608724974480842407778188750847998926756402002902139159947701302628353731, 73988098736098046396854178358009983000556949869930332776449473311236254835031, 85607503599667020255421377783674483142574625862946790812298400402444974889815, 0, 56632331288635652704251870441811203524680501742281167154470039111776335623900, 107231766448321386048594069121076992382118516559609182867681423694004133040, 2605158300184114728154008542200909591526342244870296492675165522258603750360),
    (10215548111160415768543568451557008487575725124175585253488311092553151410495, 673183353453110751270172398206776944390467425905641199787775611159932452337, 61757823062347853414740174812732800818469939905700108020722266215828156367715, 193327514581877618853835052739951644584622432391387575134905803399009793755345, 0, 145416682489555587409646970650518145305461639919511143789083172100090241944890, 901248297039100204460004668594757926734057364929752641553660381738790657526, 17055971093451881222422732025062085046952020362032371380006588417601178875979),
    (81951577729929157413203110387132521967274481918326146261944899706543581191259, 96451039166739156969775739895361661137175127102590053457520074703796562355080, 12270156519667199335860504791356275283771998151283694464787763426023457929220, 20014233397070202544191879452252689337301483738605901937801332216230467951208, 87406165790668920749672481034072434936102582647229784559966930840917876155966, 0, 58001035633995171717337947896986024582254307811816496960005040914052926396177, 14165026429096041049500961123701919876165711806280521002581597250742700210287),
    (32330744057940606064883101145198740754467600677463422165236783067803903418122, 16467985071580005539123182691631331089833955982235988067627638570778365326412, 96981512729597488525485644459110356910317484675011613198049323289925443891556, 195775143305515400193350004153137903577427314535644379585426067441885294882619, 0, 234169730194573341464163892128541729442444017892061048129732755588854612094867, 9027188458799947085048328778331676341846777892906130135561902705890308017912, 54663112949093916611234342222391601346830024393614445182602301591416090274842),
    (28019081833753191097233379250830650051986537991593640338327899565622963395353, 7690195626924280219141676818823802701060672047962918421873905533607323042181, 104978779999530073743226932601723490068452467623743198387753045600485776241297, 124569878655011974082678952822215101918859427349563383841287364346038140138182, 39908445539100698237045643959647718984806789105637920999033665645182091077157, 0, 6779987753570499063800355018555922369281761948714044152414455398679430373804, 30143109497875057431493617444255383206252072923971320937759993795991293840543)]"]; simp only: order_eval)

lemma order_6: "multiple 18446744069414584320 84041367703766922683263680459842169399376850029774048213069167463771334610940 2830808800414915975004431760676318280831403386617798368107884754347407977600"
  by (rule climb [OF order_5, where ss = "[(89073244518576954847657416195273430640272266786978618995219003673095284251163, 50498957442012085598108750136028887707254956476946102713331923422939597784303, 55582294512669170151617380606174223815923950855717109643223759329516384307184, 72983327395268443383730373632202488523891858986307129904075613419534823111829, 159977973282152410992256972890616158935431278260353833724286083861464669310642, 0, 68519731729277686664497187273043601741846729704466735079482706071345420323104, 56142537985027357885904603893475360629568893652031248235213777948490781471946),
    (61962211466796988958615311639724952805368054717702688142287617637155752899609, 49618341088287185580854515875379956566855727315900180981749759218733807418272, 112019989045167547172420702890084738694979479232639663218943140446389918421635, 116672705564081148779951681210056504670485372576336235927115795513072888219982, 0, 6584476889416543198286065800067706466104570613368380759481437866791794902912, 33156977096088930079603872856163700710738583657728133522429693930719763536653, 62433443457710421388908382504779323444295402856867132233818160579272702515669),
    (109477984708084453533422284642717023519009230078173916074978835741701855302480, 88298940019903033142155865936825464724261380811061524787070062359029771760744, 76227667970566833061061532662406092933447426423974982453858456670212467019023, 77111490278740401201396096887962065372680489920128970390213328168571133511479, 148036934951333005577759139376357659002713773876334029953133706432083204892701, 0, 103508186245521312563128475208742830751773957252725703437479357901182202540712, 72906626101349464914008812241321723137471916330706317921439897048557947947362),
    (109452255664203710773423680945220055600392358242962580174716429819394862407820, 47118411775629542920941300145989581640989794609406317145088010178105943451656, 47010132789345087951641648676581304781324577731332533920106308782578998501473, 156972617454629738983912012740243456613357729616945521837515683489790926163039, 0, 57892797900348457372801631301872431642474155001064075786164963428488976222635, 103459539867346659433657971156490215013330701204157315173522185704682761258056, 148378072933040575027542679715887845933398000388908645858273558518652915042684),
    (82754585743683568612252483626513796518135231100551169733965403856424916827099, 64810385384869839406054656391643375453076020146840603235331326422760307514098, 56322194540710761291833677713864650080405650623887698679680001922924370349080, 98100115601115952277584090703753779717999917877856028105290315064212733791509, 9674010999726190155735870229105776605238547867393477919324599987729833190599, 0, 59143258475693635203072345269099282933698820082817620822805614433537881046441, 70110440906111045902413917501380861034504308988326255499676296197097140036738),
    (67467466162534937075719469219853157409778592346670008836075920744190097616240, 82999416329026471939723998944700329384662564685497423159024452629157503936127, 59937591077865103198529743586718629737616255362494417906121638236065057197018, 97603058266199616229028104396350619598499598876633494271840505102469901431922, 0, 43192299979751237997828162077460038365696254694371034484922906480638940274359, 39310621489206933949988910134861912204539092093343773650108094338948486646627, 56869437936920775798300411279811986236633992747039636725204474590732027403282),
    (43314266832197949953767785670930736362857644574701903714992563013025113651964, 40625212253489655727532768157138954451015653608220529798041117959987956214746, 115149189501108840792858477450199361508285886131625511182698933058013041024777, 158166293285893064974888677736968948463733054492567207556516965978036645575332, 0, 133639558729384783419308136865423096428976831146771699440141128578721065157680, 16202537876335734320816094063067765962512748485388638222380152975588601041096, 59165156082459925195912513171348470175267997797494272642223560420535695788403),
    (104465835838017961645031401180052788226065802478212439140119661152745229563397, 84041367703766922683263680459842169399376850029774048213069167463771334610940, 2830808800414915975004431760676318280831403386617798368107884754347407977600, 72375933760078981806966534646704358581724946993736795780505581805083719457757, 165012041608237526586355987468550960933281651910228351752046270501880548646543, 0, 94247464846326200732928178717468910355135951072555612404767842904071445957527, 65296450442898189784833503262442723041262818471574340071072869784636901597752)]"]; simp only: order_eval)

lemma order_7: "multiple 18446744069414584321 91220225823035717424739362658670991020441035575623707780399007786568124033817 53480023909095335691194159785934346974495350580405813703884195324229153115358"
  by (rule add_cert [OF order_6 multiple_1, where l = 50645762160737310933319485682265360135870427551653978352038613184642587338497 and dx = 80190282800495777838486351742363318333472242911558013978308544562178167878297 and dy = 149095531366691128586278143108319137205865846701657530899302944808088104281460 and ex = 108613231091087454021221764750578751909021957869440654628203790986070308431074 and q = 35074054005003110681889905895293585045379183399375808071073836659357710427099 and r = 22151713837568124255869574625239537473203083038521516231395744821713273188266 and t = 47505834870595218272526313499427896456198184649387656103933827084816116573820]; simp only: order_eval)

lemma order_8: "multiple 75557863708322137378816 82687940522132131773955097176721783366834754559125835422583886391440519581978 107990419989135832800494824275589091723460975222288617078543229883515266618935"
  by (rule climb [OF order_7, where ss = "[(90802364444515316525280761695526433080319952044221989360366015861672961906481, 11346422072564865833083620917077167864745940189867905340850329009101511989656, 82722173846171152427337325349982239864535206483987820175756794561078834230677, 195665892960827100354353188691001396685781238801046116635082310086333709898112, 0, 131711619149736560955907785885338472139413520525436010951608967519403605399468, 71205809005967518855221265278729708439875424313925093774682430489245183318121, 153438165276678526678030629160479486997960842868346871328085264893833799379187),
    (77633277860688202901452183647691958440788296841755022847162149722801758531588, 55997489040798216998370778324278767623455685279023777179198265331310626848506, 12580847288041906770088864842576491592624281527053213172885488776140526067834, 71141022242122897597410289542205973771376398326134442357185694986657982995101, 107587342263959741996202007482926376152907875001788792153281094627426847166997, 0, 52049547361097125910464533610699847879357973671609665577324998829926780531226, 47696788137079115420590536155235716307265622044722712780120648692576832355227),
    (347557321428515333293919895426518637253103381077403848722842928772197299593, 3529972330822217142556329188741637171682271002388408301325781341984754226883, 12612259708555616064157700062835580068383305213509771133314940249552472533238, 168259605920332248618511896084944703981859557691925683073406115298192970475574, 0, 81166263339282638518845798234663243919472209173440517438354760778350796415531, 1043215408775615436355559089878743773802591816411302981722432480159748454, 505041910350624343095726163779384352377798613526682831444987248595813340810),
    (50277991940594865714425012846024624792373613765317720793567815831602385637030, 20959902802935538845008892091024825208937725750433618184054978168005273112600, 39841294966754384307802557826978445848650154517327933623247520357532529682234, 98362158738242927060244884047124385492830688667245104312804434482846578968234, 10629880489967877985625510929703966640377258234162377203004706636814080656016, 0, 21831167317364831441975050422192816437524844155335210375148333471306624330234, 42709755545705948617618378026317032049718356981215246880389659072121757544948),
    (49495241397520030547463682115727318672846602877498612412423951022878275933076, 29501205248630786855288357517030920825399220542048688820829010251856628699533, 52155457369533686420079348623681061594894838062564415820274792968308912725149, 107250786764661000752417981523401477913624648623675243558759599225015742267018, 22678202503476720954848186560127504336475799186896014151783217443452354760621, 0, 21156703689388795484003921334994921744589114499305720442923392525842060059693, 45844268094577810776199574974604339837905235228894952511459621905763087326735),
    (98079251080182984759139710401579616013700153452050441491458480835677846001627, 63446901975542263542889475235654758809292611525858102062259108302358370223919, 49446023553783970841313402381937033757599643973791971659633362993829533454851, 81846392483444772075096329230783735546192752431480900954103533258365356329565, 65805644545271121760775597952946283570016575273018138531065993181196066286682, 0, 83075964498524825201299180774659500080271082756905107565739895524197188015344, 69326263418632757135969613937364508439172320846872155490404720101236624127505),
    (54378972434762300943800150669241006745492307930847743815785805959795554327836, 105678335362555523490882283769653170564274761121316093059530162503765608732179, 93558113087236537296949132360291316832904840505092093413825957706016478272011, 73560655823342988814704638415409161775103993819832323198262577107459859345691, 0, 57852658613257129092454599871119591200654600234948874984190870660227773419208, 25537777781076279162842056116114327025778277815325220430674602265304942463329, 34545994485285082905286243082081503216699284419824896481709955289928603647514),
    (40883868693217063044874656343599184622800666526282939220242490283549825534556, 29009774005509710553864916771062748922409450527742375970544339530923217004895, 24448431323649535723152766740817444779958817164272091288953403837111019410324, 192460650567402061699714813947997995171951454008864031284519454281709489581235, 0, 223276880571237555437801409887969583585526210449881201672333089880944774202288, 14435275593720948056716592409003115010924336267459465839779082748726796092533, 67954002903551112134257117058080134694581359799948738566805204652548479328075),
    (42982577790872767947012096177310411935136957596889162151079614707811262263899, 104235680540785776602333137563847723931557995259993472116545089433028024647303, 68635870643400205559075131873185822480940084161109820786702808593363526681679, 40566182675080182714229226156622598520937598683039218049532881406762290211543, 0, 3652993602323362787994959385201525627070818509006272401811423927231340742520, 15955338625872133072699466470615525314151580259178157308478772370136984118508, 15058361192039369279381734115939394052828755759535840045598836048604689620854),
    (23589032498620911277108558351190746087008144832045369150393776714979444432539, 34696692828219164393934661774869230223513753415021215548063786913879673278832, 92083393813180327469187771909802097711073616856966209229733848109468946223960, 185331076922922860971095922738386067238130385260262570764014933828015449222422, 0, 253533068858558702721921598042850408061364289171695793798066142426233993345562, 4805530826981799028733024781203831096705690756138868735537806572279070317733, 37755435853628545449978724538639994626119100722066429689657577185730786621269),
    (43038130720315712253620504585239308209082619079873832473933094769045742641495, 95263214638029694301379793972002227139238710841712992668642874813850310063278, 77436341596262602123241036807094570119366065801673416354240879410537251191689, 55225567400545718855252314752274576614361185988598537074954543408896461069505, 37261723404250096465844656710689998262598514646725486567124362631400591252781, 0, 15996608304855753426703278731185558459121203488881084198841360974160423668733, 20526490238641580677462741112396074430067236157926614993302957901293387671626),
    (62514508434951702300000459917666653648912750387620662890721456225253133867978, 82687940522132131773955097176721783366834754559125835422583886391440519581978, 107990419989135832800494824275589091723460975222288617078543229883515266618935, 128367363326253811290122143744688017302490099697877471441592619731276888335251, 0, 151508195847995537155849538091832937361049062869250297008455444041222879831915, 33750697405277638923828961844179700668465101716542957175556503963397367922450, 69303720765009541964638946910931293126993241400118811796108850035616273743554)]"]; simp only: order_eval)

lemma order_9: "multiple 309485009749287474703630336 7561596499501850307777151596194245195700564184090309010584107346992776475360 39406167335301139501478106397219716412798254017369262319116177460085054088460"
  by (rule climb [OF order_8, where ss = "[(4426912461633982634284532815994178216921084561518936702357145581500698877384, 74608066088544941066057149834084466060144796221362474835694343800878097948880, 88812075653005706671978824062802766701997490690210294086406613236882699668433, 123871963643943439470595394292044890836776101753053674782423173899429519487049, 0, 168886824521100041158839759814844112790935145629565524975383019183692780685319, 169247779158452870072634668216672194725827065578430086074571055267509671620, 4735818683660122930172923528210697761115564360647018518621959010765315662848),
    (108886877038813747396121499591447799884129143442627256455591532236343673928031, 61029490381294466370799321300387459255989794844606869165055245327841400318683, 105222282517456285360796596420786673732912461049670854324762719534514171106390, 129370664917606723457955275483104580334241144792045919866172729781903795484148, 22815449345281885896861183334297641442384600076647438890859504039891313861599, 0, 102393454268940959696291355643352500787573144358834952453725220983512958319418, 121655700137873685122970471244634075190606876846342026706566427199776612943515),
    (28520979899711351047377141633113564868684945851017901962902549513894669368948, 24269995727895962498798313850959314850166066422494704915484445911614823313805, 63432852488625375601123245523218607577579369842014822671883114381672884002033, 152551583863754752634698454398835717935909871837402478445104430725093674858829, 0, 44663766881708121609028941383396706229539957109152608291157891287315333173224, 7025059310934219211337275359706990874026084390716586521292875297942744277683, 37575284172851255483672367611219440330808158446515186722462193410853884728419),
    (28842031274702692618057490600764836157072129121449800091938591396401989296641, 47892735458402630751728003269870727389241719652444033420477573455912615199828, 109839947325503427863794096374748306549811190420612592356725757197985308084414, 92169349479849580509767757530496160991010490185340985690540503764569305967928, 16339342053909431633819574110823589021732156641000274060193349200914475718934, 0, 7184107081267930244211130180039551928314227789680117653426697853494406538093, 22957969567657351772180104563216890397076844659047334072471663005322415736951),
    (64814685635120337695168026431342224411818618541361010869934711798486304928810, 6017763048157227802769850620726567557272237140095217934465951857171238152384, 3884953430589903671596844404771465245368361692014214229720569937838450898391, 157667061620601651711655599598551733362055625927639129681545252907608474901395, 63539236862113073278095844649538203210489126749761591809506591508390928720981, 0, 36280055940157865020617251410801757873041470518171974047245174081584774077060, 88254224478043706313906743855712635694974677976874371324003597353330720971895),
    (30790650411522795280137010413943495062797092610666851871563828111299523170653, 111142807972796438428379519374710307219060501848586625910553089960842921108387, 55664974547474853443656559709167699908466634587299706898152943513244143425979, 10667044285717038137087778195423833868297878706798906219446493205195414897948, 1127884214474467459287239176284757274914031026921374777971061896870471205831, 0, 8187641826224305026214752766591810844277544697038014971776921494505882564954, 2836508381233781346588541567847849877912798726853828428809970597426305718374),
    (77012308646371364568774816116626250946061839956853617169911884742586583751505, 57427024048454253731373045362227613914417071889350537446542850827974315701542, 19823912062538293771763810475059126635823067521651271229686694233803019225569, 169507873134698433459703920961890266834729573374526402659543870441735703260796, 0, 245996035525378838699343559301810200590004864806321667215540577821642859433214, 51220214813375319534448575963636698415808997558109698186962566211341236243659, 112738208049119573017640945664065943207577802720535613475164589207950924520032),
    (51134631446271610367643184978140150930777458583514051031569125246747232245535, 71357967312441126823734198950091132459931328862099476857568366750367046980984, 22370432468006492003816699993641378410065926986726417980700409477932357932543, 101861145946369375670336293361544054984571886442541374784508115386474366574509, 0, 67933936182915864907439179092183676669260116689789911248623114854548394773909, 22581426339029821861312839109976796485796613779379306933312032035366318549507, 44982625256895616948788992949110989535693379916074025181239556493471179439853),
    (101189852437204166968956041333504865683641539956980622815904621964735952204575, 84110109393853973974568320875318138970968444830889070093770968284534164850241, 32493561835971097745099422175732355078146876589008369984383061970605422768524, 103039947128943401611863325024180567019049027446500720959331029774699979984694, 0, 92826349791267781366198482100286367607016078728701916827211244703934671074565, 88429065457671703276935781608633930117750533496476295941344707058676166415216, 90045849558629129186127436821346149997667032722422350565355227739538151173633),
    (101472251291397328280796960784805138812882089022373060740152804858981082806173, 44335764783474653841499891633110620716721686017264418601208118744984340357365, 49018608323704058458418637479046478071920553532925668224444200039933095203484, 155566433820735568895765876191615091784332902228914965688096480848416922346827, 0, 126339734109274604122857218004352928809240528774220918876004987833357058119736, 88923326734686592601165533411295089603420142782402033875376718774455160379182, 136327761013853160798066638316827310066812656384748787289512743873172784924713),
    (91617844798388085893746479785190861019753210194360239171525341082686028191505, 37731479236225835505263367474843641969543894004942677971570158514107194607524, 4324380484367905637665138475454714662590163593303967392794348175639344747965, 122396374757605067098933971107674552277263935427612054825171591539744243603792, 26642393305962531981821206450363208604424101231366084821988413384897612283568, 0, 72490526276390882531119465928458561783065221414568509073591580452530779699821, 96843334833142232894407600880422662705194032142345002759369928110112764119561),
    (52606527844788967961515245700939435537383646447585204339864557980283534956472, 7561596499501850307777151596194245195700564184090309010584107346992776475360, 39406167335301139501478106397219716412798254017369262319116177460085054088460, 145961971947080233960183662828056970303929473236142683156519682475981515986115, 0, 32955725363967281475413783352455685599839030670007316673690591285321508688515, 23900136794811724118179268621558787936928639959392186667630053750578955251176, 66313274023106802875977930271290610963015881819249657204659484464370699635105)]"]; simp only: order_eval)

lemma order_10: "multiple 1267650599933081496386069856256 90446098017022400986713022535961003749191286027885671181420214821612706886879 63131974550647982422323375078757955479099869525758948540942423804217774131507"
  by (rule climb [OF order_9, where ss = "[(19366929234972693113864654641894508039496395502891914646719270432177671640055, 20861852004831176337075602205759570947168361291273225676255431900186258398545, 47088645727715050414263043602675304196176908744989654749317332131423936718276, 102491833705026922733398996339842247778618346308107397529862306755673615930766, 11700451151575996971336651306560393384143687469949286526771377377520371402453, 0, 3239236380915853156574996084355712875535329890287674997119685305785101101760, 17142380831576832653245358375504828060869493994976093931054963479457750054094),
    (34872235117393217650033923982292069639581382538948677367944031083316488444395, 72053336071085652254441646426239979211057542179537663830588599290258111687692, 73533193923144120240520999024037774485647571275020208709941140498701477865806, 64600605144101772845331402728927165266196962527025876041200463918795244564804, 17086849858493048016692715142461816456407407832421422722100934953250167471368, 0, 10502209523774524537996243331321879896751339252490506643847316438521583003893, 19455279774928830539551371239688906021981497854858126174532667327350947967398),
    (100281488077880824668697027586292623512269255487901671211358908003695888986738, 1960332620543277600255802984164432004471664423042762052481952689300083264205, 75549980553084846010247217975396801748537159065784304747806568753745700027370, 185885092660898623416883290391483120736672021171785215973640277909825126277438, 0, 7142227963012865708007332079466343307604434354652521978570661280012830171083, 86848565559992751433409577951252740594581617262569823403556547108609148086305, 160985381908650051554997022481333794541903599440785603369636542886085833325468),
    (100963173681148023846252067403298616324597949724336231895652229551746076154115, 46991591819098838341970801919031042536528339219294536051223459314194228301515, 80254630162409300410021616608594831458309838243082737062628990590134781651125, 70760830011800688020982448014540962998029468619038540196792124683972952816641, 131649778567636603409040028395476150597109437547453712166867118616421760818428, 0, 88033323427227410346593937411945957977885278687574551883301574102998124318300, 61698843323613301422408817240398406460111300871672543006687756759374577080220),
    (20988116518948833198748170992174700112003339230457180661004640346423240036495, 73764652098676077941222759090857347257014330418235222139921912318338589505827, 106025776037623075707173048312191227262468068914907679159248478048488385436166, 89019028930779009163445489777581268809600152216349628106835178304722736649639, 0, 28118000713295790211812566162652156926482616219950150409054317242480557235022, 3804241187951337350014089825461687483195831620358631119965588255137943332568, 16135314289119551373967280306844340278002185162150384652246905829301766617714),
    (48434647533428210695777113428293724226374333978839107448465486150207771465884, 73151031342768991780175241565099731694148790447467729288275617758218267207038, 98848014599607997841671603218071263404535595603288981097025014726531003136274, 116405709966263334923744964475165189092951683386057807047179925868987420152740, 0, 52274983164340676040128405983415972880443505031119934783824927286556800911096, 20259718066107825042801848413630832711945587037304655920615643197030861174964, 48691318824483017513597467063335526934786060011264800552133730649436988455720),
    (87608628089179130212936641726630114466553147919983310777679306198189809944217, 103465789334234981893687781764921550243725811360482031318178016153756045893559, 91128146876654477273752141678537560812504850988280019935466647559038910067294, 85477331218890258649184906749585754980509122502276012165631232913329319167430, 10939069723391864035451564564743222664356019035908276062348602725165682978437, 0, 66284940258091855603180820415525814510542076363067387782364713149553582777154, 64672394909526979016468788620564303618231205205959962709801805286839945122842),
    (88170258225192799646354650550267781488834883942430828503594756203833004394074, 3414753254379199030119738725231823795219601845886950848197695696739939915069, 97888941727107545247703503344013314544895312591550389105546194316228384420416, 215843125290212031626265489989097299978592352929885394665513951765883203832441, 0, 138575306082636219949361469951496329993188607798494723507196532295636975932328, 67137526306951594548893059126552817686766189650013283411064702302317187071239, 164354440987740135667148978379379024879680063141465521482778034373908609327124),
    (111193606922647648117217740669272761966976958631675461914872052946480582110266, 25068623845148972366566904901386275101248222099779857245954621904992679330977, 36505162258123495637408575790969799935255967690895405749161577975471470961815, 94138218619586475426250280773253122224057523161397407797776705100614358438043, 187700796710792565941758217941662684577372434971604027221474521587335776660632, 0, 106777745395084019960772270315135500939833626260575154155468191459663337075191, 90399682300994072061385530357498629295097841587627341007879328561928943792057),
    (26274860071163260749615133054271884927804015276385823352986988723626456487386, 31120573594272901967866481500921015782406223112098935624201640007811180030522, 96266692100427362868173501559153039150179738630162557879245746791842015306661, 109740139461232319161397870349872832848928142402971235817286613206048597154406, 285238449112819327172041940943427902058614257032344229739663996795837493396, 0, 5962136761389948738270950984502160426304621118286148354943860336759073666520, 24901587217202863464808193687486348188682766725344707453238065641113058406240),
    (23720654499626500396395447526871556256473058984366188370620218978231351836634, 38028361647128609697655240990314388555911747559192750097858032426159532424730, 5465360319165453775748489449815304953905001125968360250466755527021641785627, 108884301157500541032908687460014200756580618968196499721877238890518745459743, 14349404999025175014115239642340690961119733260447258417822136468462901122149, 0, 4859308211189324799266713853206347450607129216696592699006692380261419650282, 22305555636864269403976349412642233918259170620941722691959403470640067760474),
    (57470355732538388758995838115001252140695245554849769207783841318305033062498, 90446098017022400986713022535961003749191286027885671181420214821612706886879, 63131974550647982422323375078757955479099869525758948540942423804217774131507, 63374352840462457473639665403760958336806604946597393111971448913413923391802, 0, 32042572946897734608973862485781025151537356496450861836371987513239706613955, 28523898398830405206362719755808651069085969427987085153391197020911975574415, 31454191965084905618568595642604660816934054121319996067390786212326716494362)]"]; simp only: order_eval)

lemma order_11: "multiple 5192296857325901809197342131224576 89639015277789900407773149960346082758378873428017545076929657750707474288999 39014625053672323628662407946745208263716693429241616955457724404755166127518"
  by (rule climb [OF order_10, where ss = "[(108343604294981942430261877733429651198545204790308269047839181393396975895708, 29648081211618947533056593140318657960849119340673546831420181730084782637010, 12304376350995785985430499998999569416821667988988886669223854525172263304196, 176590106015759702216353876345049919318428310102502438545533664400395022103820, 0, 93802596320979728890471190569794967578935150132786977592579733254970572226408, 101374253385332066505742817777429834442894476090428756914628074095323477191296, 165230705301664158377075477649362077844543626439330234089966528170871358751207),
    (99508994037266235739230390729180739518880670454000388020754250430950440557957, 85533409631222310069842019026219909018182126237563826334042151256306318528754, 82884192917055578239821267620871282606423832518833337360965464918717228443388, 59906760790752886225912021063506322472753136518400034692911661782645561962207, 0, 1625619971009066933420647479463843471405797295148084516653086125641044798303, 85515685586430074926901025256285446564457425563809935143548770322150883027325, 51482459147008796928218921081149189787240174016047448081099881588901041161765),
    (115507340288663354263139735151229144236423652887808132854146422317619200190023, 85688026140246490312079650394599108692973106316348970005711488731309348313139, 62061855725511502121992551486838083438508553703279068468404135455024574072277, 115637472701332068520459815581028373855295163336505170523864293833864068069566, 0, 24184960793796918493217133187427678275509492715715781841546438585256190706047, 115223291604343826150094033617915428615506478698125820137032269414456335290982, 115353104003232346889618371915075411205841389361719168517376075502921208937503),
    (59304813097069976343214002321551163437830554827851747760863134459641638202804, 4230456414305431836226096797795650032160832741938590713521989525268440309086, 49124671838347938685251928951248943949999001030374102572576162459989134225383, 197249658936297307238551000546211032190898416989700693487723130514908005858004, 0, 126659602248591396000024991419154749450377693012876767952646152768116096681744, 30373930382144297819455014067660560406248973306961091385334757531488631801652, 101024640253504244910125652100957139833723032373292580737060930633421117789356),
    (35056005185323807681652989613787198637006230991696224114560869946632208535561, 95677274588411128461077212191429186703074086273332927965903142005059258442263, 64620605763212530462287791958507288453317382888459518576246647700373090974875, 24345271036250552137846331555774036859172889883895976943152478829076279720774, 29281268177184366071756770739678108309194914980097521979326393965838596214091, 0, 10613190485931199960772860920271099675956436634371789213839817342081687059586, 7370520330922416092129410790648061474603242881622411562367538634028299007756),
    (98897333783922943994835103476271383982315527019141781880955897211883774363092, 51485439819982094742687125470358034971798110047766160377311461149155550397487, 18036417108397236940060345452196517401558243184952749071772801566024296182937, 159983923978785282481087533670478725261362119640857081784125312164770805898727, 0, 126785961658926437952084316805496797843270122349399839141979957099931382125704, 84467623792506014887078860052248350248493579486571404585650944663923235639501, 136641316671023414159270524065802252240841509421552921352482673153793130621672),
    (41220376228299866737234508747014754604254533707955159547276311460245235504166, 40532141946012609775405371882941540142132614550203482425511073545955435426933, 77930225168048875526569554335812728207882471590125005456198748831574684447411, 126745387084325733729979200536824068359751638912852992147334018912067212824505, 0, 55835556525699079027756755096678942145949481323534033465927893020539751105420, 14673881678702990173349354127831759379070152404871730039048598117060382967599, 45119598207837981116788295892587301798802261945494707897742181535393373658582),
    (58552796289129011635996253672923327005524424428906090693634268017665104542721, 98729553519205330458216801508876081733327108434992497936384326187460401352484, 59808571903455204439454823212555601744759859196738774540015001008567115681539, 57594677637163528079886017323473031938891649530501298684660378667362131928400, 36250331386981131995404395313526904415605558542480882825784459929237935844098, 0, 29608498962721947112564900155071216931892455775015813553698107742646362390541, 29124005361890256441930359646597266393207527643899594026794104202046300494950),
    (29458518765219075118969103711623186045184169775367905607900439242527722094429, 9514670409778489749051137444194536549303601285139588854249195020622795235723, 104280355764289449184024157443938216313822608582864953642618504067499713881338, 205006972319783089471863111014089118714109650565143223277668762475704703970712, 0, 222112153897702204005471354626657851938057378574058422206144222678466354653953, 7494504449818230154152701269087169081407257244208662494569188240581140387850, 52155564186356710555959652440937684902390854098544261817731135674266971847621),
    (7790094209811479071829632396875557814577807854782032912120693697899492398472, 104223779095033372029505211171634650166332860292032208050294082456427074162129, 3983482666076870988866918342339735832766953592986441376532113015967762951308, 21082980525101366482243373221967459913056884408397694999488743873062818927545, 11685778721848821372157350607277656395135776984034706347302191354136840345288, 0, 524090792484904209646258056925591635159106063774026846329065756973321173159, 1418390544934317726372143998776275365281062041149993564503021971557531167294),
    (32123787782240191116168204876212203373869358406320597214059424789414464123810, 86688943700361195860218292290867655083349532041256895917922367292518793836824, 52310278531824374803547070041871650755344857372754542306061055199091791579492, 133326924605028424931984365830174568613069471666065626327905346472775378179256, 0, 279223386532183475081352922194839313824991607771632203219995928323658317658960, 8911988275845958299325443706690848394308679014473217009547765456184336228918, 36988414846630213577141204229927565634394065361859608997018614466800389042560),
    (72245567588294866902707386709589576785964560801647988390895982995412367871467, 89639015277789900407773149960346082758378873428017545076929657750707474288999, 39014625053672323628662407946745208263716693429241616955457724404755166127518, 112842017632927544215142589279929145855056802028529665036526340850678417401776, 0, 129426349031155679599578115846897435234450621507475115482844883513174615510747, 45075808474902839092191703709130667212616777884108363640063025516910938328542, 70404944476725936187804275150635221232722196295308932137482457739895081914482)]"]; simp only: order_eval)

lemma order_12: "multiple 21267647927606893810472313369495863296 68981906162506851843537331849192488074339864123154335748001700029423908724865 71721998213580782298038851992558023938519432691726469350233070098445206957362"
  by (rule climb [OF order_11, where ss = "[(62280076875236549515788742325851186263226877518904122402917040193041941832827, 34087821512077494211901943519689388677783178170888714145743211569355798270325, 67587717092835668233453454104976312413856622508569350024270465293607118182099, 171343282976068654958568653390064267610681838672419145126720077490218773872625, 0, 166209899276882190067061251284267628693287685280895807443701236129075203018628, 33498039477799320851932951424788518555885711396265448924390868005980300484906, 92158910928869786550500344726988638704093603205750447953443114839998452277158),
    (102051502466195033443574600068870085621910028158726600791113686316046784749758, 80505560338217407398877438783527462104591790307204585189947851333135953508517, 34567918126833807258708707667026115476875964640471449813788818411475547443391, 69374350384216335575721951685569500103277531278974443151328991545086942615759, 89029548556830522426014086792167367420224767856749743501144653627929869589812, 0, 89941456507344500831257623206465904975685965464983262686955523441635077508747, 61141972112308431022742794399732260680882744479734566128923886213276452904432),
    (68976075888803653050058052760989161489062298434400074505050103827180538607611, 1713266181454556100469455342928389815541094106753002614508201916407446584852, 102456689743170302549024318863414650725312072532491609098144150817887256756860, 194584383367119100061105430390006645819136839615741896770973280725595604777616, 0, 126733329954717916386387391985410301818694177212867887776868682478081672780162, 41088290896753938992929397154908572667222279691545891989991482404553693519685, 115911780203945565502557273240496169103298729100650064226384190681339253028875),
    (102467130659206982500242509757589130823016991523920214179288808242067532623557, 2915868060972977861300881990202130639315769135008296603182709959278693839731, 80681650462024878089475639753249421008244740881478628617657139790778209398028, 114589487330837827001866020302133832706311468387035020206859123265995850599072, 181256598181698931842735066400695188405252916706412198714077490401479446311381, 0, 90675562874220399628569399408577090084394566796335172279914152416359868992514, 101402920100783093324664229010853503212948926354501663721118850280667207271016),
    (39440625305978123012462131571854276764062877112121969036032568130251758227952, 26455648116383492342157367366264922666177894422505159292500904165821433699913, 57500585127909923193172049028807351422707119763432920586240682032860443110370, 92252309154945734281840961573344781503224018127793451506215437102324357993769, 54742622518182396666650565431202369163509364624838970167281583240414675763832, 0, 13434103617394917774173772009563863774806629500090308186319492629599646712879, 31422602215782887132132947577766646738009860342094235265501405220542388472190),
    (22595131696645573734891197331922826777971349576156241304422801297080922823624, 8810717373309339227652252131930345863221250682191574959789846519862327973254, 81669236606953251268465446041951459374472476291094227886432111942440142486383, 133437019953430401877202562183742150333042787155603898528244688954826203580610, 4307398189515388830673344594077333312595971453915324494951817319877926507856, 0, 4409109291233823345620825477243686964261248894724989340983837934144993691096, 26038281713514710726467577351932137588682244232365938656697244810654152972737),
    (43654091144470787883305764636504584494278630391929888250226957898324066698812, 50391823580012492624663367380465115680471441888998120025980874454570227874037, 81395872682549358015049102608512632439401721762432013407307494309345069453469, 74210983003653095365686331700872803712835952208483769129342603374159197953168, 59568027679775799957865944567985634902562712834406095878459958220567355635297, 0, 16457770877488598709764998661122370111045762795716820020446240771129900107249, 27977844065641914583142169126953862841818883497095809578563936935730841778764),
    (16604867754736997266040113778167069130924087196993796134284020148789298653192, 80744802822452416715448040711225943811190050382078969694390973408790257038340, 12786597033004645628299202062629220819255276600481361940328231095893887820932, 85439109967916324671912773618646745399367534922209464527123532354647068689648, 0, 42445665168700036207139695465344238049566907069794500190816130396437504674408, 2381178498743629300631696166695539456243842594377925926272101371197806699950, 12252176567281381741912948800341650473180019661575953090381739700855590735265),
    (101866702726638664488287172846562481877917259222520468198596557154063820022992, 14690529042253793483072708394373713301438572406235262909031205069669201151918, 69917150327045782207959620669130543614024988735136827564236742481199637244685, 181846362990554871995072779266259804039837621391134020980893399647988153740373, 0, 146418574070438343217156401610579381297625293906143493645593043045198921176659, 89616010861899945930071190921117290110584981476404294214367262372098810627766, 159977158431152281658778752701021932574951898272584229635190949804342705886849),
    (51418838074910736040069276496803729058306546522073472552483733323873927323490, 64966246754806102194241763402092870738487723241006490396253365842050448073851, 36017113553670191414998090967394495751701107324368929149509346107264632727528, 65516371497803940051528391941688416093036992580519086708311470536485850932018, 56503707434981194266326618287729796714044825920065086548466774679394724500181, 0, 22833139353507962582330887132484195610505804220211846470362982520348403028563, 29093314752973471316666685408230646633277473214915283663987947876898421525457),
    (51273008092398321760977536000291995584788820495131289915300860347438431040520, 28659280975637957423159676889091067372985184527572542826752484008156219581081, 95830137637859201561034769186029885269686720678351698140301276444367314411948, 152099054989524393533779533462409376895588682128724261765034513142761326346721, 0, 77452857133634135659242017673816910197965829110934497684922677616505669895480, 22703807978343459295037579923224949883170692110535185490190739193702028421967, 67349817509178598567578027814034398585170619248887812794108931182948406101644),
    (38211411312461472692516527507744255454963128689008896786858234506388858174824, 68981906162506851843537331849192488074339864123154335748001700029423908724865, 71721998213580782298038851992558023938519432691726469350233070098445206957362, 75469464023487354342319791989306152828731463819708521274284415287599408710167, 41967862276585862062254574277160023911463464653691508621117579149894528903824, 0, 12609772951220908289357007002003158217526873372331548448457463219021657942899, 24904937383879304728909851069351362400084820307627785276522687465261848984198)]"]; simp only: order_eval)

lemma order_13: "multiple 680564733683420601935114027823867625472 111747222656577826096768437001239166806291912231396592332301989863406574020945 12751995964236152804475266244966402987981808253170741844809732708931813881735"
  by (rule climb [OF order_12, where ss = "[(28022019948526551619125544805951531503134777171303193444308159298769304614437, 26908266071619723731703438214151418453950135615545892308060648810871915543496, 69617885243824217062040100106313937405601463475364681690896020353751022864960, 157865729301243376874531340584448643150475871922898757635474682527419091035320, 0, 88571850408785417023789188021471260097144277076209299592370444237572207322484, 6781409743537039803130202152397664475802263820408145073708535061585529281393, 38203962341777012566561721004886814259990371087225095399663709279068336691418),
    (110629316199463629359338114452891626773792545320746821403708195959949051452485, 28102616694693401246822739468542763078818209201990794484686350991998685931882, 6782991328221331070134689780585529067722275417280802832533259154203863352363, 114597738587282571247578145695016228905218069828845412018907929127740327465565, 114268546502979651418952216205949366077790690248775788682890991258524535545405, 0, 105696733569829087593094596942270575779410441207604373694630751686228684322401, 109488217583538261204060045202782240843445043382074308326214256311871996243802),
    (83217004190969843374193191095118813325924866579114174260764206067023888231035, 68641870178042385803113647022377494834964364054026374419319309149971767822678, 80050680957998976002137090971916654394452043810044399060968385172224349008544, 75252835727007264206406539395572841773939988563254734260900673150894015963155, 0, 10711878230622966475931521666495506336793867899181561440508917069074900368809, 59806069946102379664875913660126119931446808073312417627470880825276776924433, 54082412613698982702436150292409983214238916513641584165762566435259752853418),
    (88813823835677382280179254336941464613133652423602579003844922575027168159404, 32988046113972663081497773833483120398536107531986028056172367624150239391943, 8841079872792554268923910920271026243152737206099605277348016560868161807562, 151445913274425971484313320138301947966514399937330660558680572834688626284686, 726259704054763502281053722886026918538669085375694698761956866443024266153, 0, 68121193408860748867747806831470827518127144052268012502317358629026066743267, 116160704534426466394609962178064610894684030334720354627410910375494175015938),
    (109921202568042472204998598877020502213184714948739950636003006614414941118659, 111747222656577826096768437001239166806291912231396592332301989863406574020945, 12751995964236152804475266244966402987981808253170741844809732708931813881735, 37032912667751085747426783781651527122330338715879749919404009069610763224949, 0, 11408286222541588308743822410788684903289382097027206963182908267157896256428, 104347981424312821992046820947638683252855165529453456989985572060529148900950, 35155271165730175921128217715154538427396486370117881752379205764811050847794)]"]; simp only: order_eval)

lemma order_14: "multiple 680564733683420601935114027823867625471 59715494592568337617998230517963914890089137342001589285474092675270085503742 103248081541419968115413136789512170920759093939791632641827068605516056268164"
  by (rule sub_cert [OF order_13 multiple_1, where l = 32444572134634888252444246182773711668530653060063924216466442954654777822627 and dx = 52484427847684874424981595200966320926557180709935469859075722162542928468292 and dy = 182697931499726548922334499734260862115579371904424871474380331655233967421058 and ex = 167823817274365737241467653432682825446288918304685317242361528497003586371154 and q = 14705968403037962914486996428976354729300603652288159117509052400952692534326 and r = 9090865085672704220177148458728416875600797078000349722014666932109026844956 and t = 47023695509770236641141910670789886734313035822392821759556169200692887121109]; simp only: order_eval)

lemma order_15: "multiple 21778071477869459261923648890363764015072 31011374663953588627871182897143162902296100450918725488367055451660553555798 71886669321128268452007143281111939594754863272062885125447362111247915266149"
  by (rule climb [OF order_14, where ss = "[(6842696983610121476693140985605401006067463571831801628639890206183594301001, 38851617495767757948606793656928168047206701382113264731450193296510603295165, 109060114616936503763906300554744073822437511033854449968541111503911495344027, 136655966307156828432088883810443320372968579375178638749557530687626580062528, 0, 80185358726740574556854741470071434395368990246369087209946607396732912494911, 404367019619500307093737671188342918899790448206388695240868746982518238952, 8075641218836174792861352334309991085896887165828157759910685505561720414687),
    (89227009677593734455092424151312429785196538269746284633723438410284525574923, 105624090677811704054097071126803041643901983792118086847971994964877819037878, 5427078572776845782191287129496306548983054778416302048862335363451116868674, 49019616028312302657207169479532699933390861005285492079011829640499882111238, 128971429399528861546916235155833894820902437882371835792034098097862926841670, 0, 68756504095388119863064768535894241109209578635874084981553384542976027257271, 37773510984884785149763368411668652535102051160673529586662956293158338836123),
    (15608391251109210066449225394677403571667418833624371554699694641019705847240, 4558130807572250247260183981313574366954813660728958114141778064502220397656, 23848045404405918043764071129082291499163104920532335034776358659872736188936, 216858049080595702569534334094897040807033313546679442929363848209242696494173, 0, 287583805510408337847743355263568869851428422114391289090177821528571651897079, 2103959597836787307146399745413291941130734110420373181076485813276363571588, 29231748896533860764500722924928992633068784403341432531275900097487905205410),
    (91950504905441156282777727053786773531820023393478492692333648283753565947619, 109533849267987767987002476274068782107220198585063631883534802111787395096041, 62812984984708334535897801875367748356799334031238801383021431163387118300554, 10816370749940731022955154656652365789820758490955640426140607261581923155566, 37337179007583954232484561628398760262426756819010043041971752072784375222413, 0, 73017901395714402516609166337461598541888275268758999280034997158428991056208, 8589280653660947151791919670519416900887776413927636097297023702234927405064),
    (46857756024315682655766693369821032479638327892443183151133995021127577940481, 31011374663953588627871182897143162902296100450918725488367055451660553555798, 71886669321128268452007143281111939594754863272062885125447362111247915266149, 194314563814390428121828740326333192735010241549435220590701377968993939394194, 0, 260004302198471683650452848415773333412788265958393930049750339504384364734692, 18961997443931752530629333190112021875831596658603172986843471014884204341031, 78633561975421016152269114921006950102193028364471219319914939068657277389661)]"]; simp only: order_eval)

lemma order_16: "multiple 21778071477869459261923648890363764015087 66827101318121659170057782378262461596266649010307114516519833757843859750706 90216966678358220751574164274222553643345454109376375427333429677810987761411"
  by (rule add_cert [OF order_15 multiple_15, where l = 20364200950734647142183286799092409942304017226395573545144486138992245711675 and dx = 193458247442307596998731087382864516682935084219434477380880257395338858434056 and dy = 126101346227356381935020154003122406917021271243946533189133996284351308734160 and ex = 79976362556188178220510847468288274836115594855901925167380853002683791659043 and q = 34023245053771305441805467255908837096191086672409526538564197803231732091640 and r = 3581424976351594998097953964024793315347352887813671809494729100607791447118 and t = 14065336669453253184856311391899840919278212116097315509873068551078482800215]; simp only: order_eval)

lemma order_17: "multiple 696898287291822696381556764491640448482784 69772226555635035912042848591167235042891287926327278870863973289637356469005 49190775799841757328701480394073995514552807263348326089073364578249622567619"
  by (rule climb [OF order_16, where ss = "[(46722349102476586499288377892754313083828035907015456683646369440675137900695, 19378816521208344164099446972924406908083895207941136734982162124601673922102, 48663376917223552999910950467857833835733863001026790499828349407553462207286, 163240374007269563768655782354745628218268897217656291977071302942109283682555, 0, 42898329422988996086626879992808457307827315515969431625809003344724350387265, 18852565149661820191888136633701820509170060893703867143929540275700627143561, 65867830816410813677718987812886532430685710623431778189106925983979659216428),
    (107817413956952308000485590521940549430748221876636176457153376876707234427934, 105853777011672967675855679115378402953884542974593149045994099841856990452658, 10940731957105796982200997855649318758239847809448198547728357947518016031426, 29317128719891625250941214806953577484285495648638301884521693591611781323395, 80894155912071120605828466587434195232835509820043825767278772381753018927489, 0, 100391959689463226589939293575809227123665339930052313780105701278635102295194, 27298039311472284770953669720643571424778979492536544266395813030391094761118),
    (92981736123359439935143501970256591664663013732531879702586262052379832131327, 41885964108922255396539241561193087463494231322448130236872720903169140554435, 28691116636683714549340325897185027728334062934536099602711058305703768513791, 179759902113106961042013884503592889020476455067435333004655010247554947752174, 0, 272734433194961417591059951026853873905796525392588767115208313381999384842035, 74664886966568331217810204710724631284950680730786553485109914108913211863078, 144348270230078272427199186674275122191779473384284317837058420763133730797231),
    (48184601575792623666675705235740075464112475146830941912171332241598321209485, 42037797018490517383301288918703524339577267633270593806618908629204423300477, 74329285140242091418847120018859465433004551291100437566565880708166432153327, 115640256300787986775935399591897136654003107104467850625787443582831815107909, 0, 21576274659460247756155369206501705614352967730143379061194905623196178759502, 20051074687839927793221825949863145859527865188991377524164367854251355282778, 48121419295349015226789444941604767271057003238641696857621933760870405391597),
    (16222126515868900720395676491744722142949606753485660951733283664198249519371, 69772226555635035912042848591167235042891287926327278870863973289637356469005, 49190775799841757328701480394073995514552807263348326089073364578249622567619, 88057659673211730233955887276943862826772123122233629131288566648434164685423, 0, 24958276678945642410054030723589588547878614362988451928235342269509019310450, 2272671565833709199233781318068347659895140942353675371363240053441684176782, 12336615615554560250211229609952944155998379914019817962925402610517617401837)]"]; simp only: order_eval)

lemma order_18: "multiple 696898287291822696381556764491640448482791 110723170517206161955401843018985184464928817881072135464898325905614217467471 65051628327530910348266162792748627053189521590887678187984114165609970770003"
  by (rule add_cert [OF order_17 multiple_7, where l = 66890156036016685260293110230954500331001971461112158383799323989721397328700 and dx = 110395345672438924199289487960034174817161303452473684006295339230578685261717 and dy = 119032705327497995857213594404354494745135305560995889299021589536580052829680 and ex = 74841145248785122719338452521589624108048613460545457601499278692890236855485 and q = 63772594035024925617966216484815136445773955768040611294551164940433685129220 and r = 38640748301849330401703163267369236287508741113747619139795908262446888209903 and t = 43233833310589280821021841166870824379132194816655092040761778497310367608778]; simp only: order_eval)

lemma order_19: "multiple 22300745193338326284209816463732494351449312 74166401301233705934627808758930209610381288478094275079332915537240538004462 55747505697827773780809055220929790582848981823986220547749757982554303463722"
  by (rule climb [OF order_18, where ss = "[(79287123822375383354093906045904910561466342133298098142721228520519570063186, 23870553108326916053415960908424515357368309854634076709410024597747048073513, 22426454969933244970367085442902779281067233440853783952308558344097525413594, 202644706619235494664683329059968242637646651441728372951021932616734267247909, 0, 228541937782705864642439867851194372806107448735228893845838736465459145902604, 54290824588234795712364887344702448766671040791510269473811809257222728482691, 138758321533343932673620021816588738643626693732369141167615759381318943327827),
    (78400895777110603117168578481903086034393874045114718378124233596354887060896, 6943341278297371255362779384920989657654247524289708458903052192935400505045, 45299423983505134542031042700609878495300558237282219628305298686374662765729, 132719301040385793560750628472911099229800205745634682446040603713678745422419, 15606406385157524896730569198442357840237766657886293826854296552954948388144, 0, 53083941230966309397587097722137361273147447600434294737025669623748353715495, 89862029085382630005283413768729384350343617492122986849664978975031742826651),
    (32675901099753495025630240846587627568888473791209307200609765835956424331558, 100794503529846178782495843870992941316362611741088934105871115283634504338279, 70051732946359259508220342747470330200960886363480422922158709827369584402570, 21940926958807441235564382463335621871377779198491088548565568218167994020717, 24317455974782329125663637328636032283591021579091421356390411537227550832092, 0, 9220962502379455160289010556353969506323072156846180927297909373136005691245, 6191610879742079250844892941645924857230625440925338038971967967548258352637),
    (78812263234310300638047200992759836189020801952218303465007044168952467967370, 113619647750638628597047450323986237971447010969250379446141434517159726920902, 115651212152670638598836121989484620906904271277531625480525319904494962574590, 102966944989563798948145840496414276875001744187128868855263312075341875271328, 0, 167858829770298217105057781657272554114892152768496195616676408456480673369720, 53642462783707027552787214563109402245067537442666992457267929540941315931440, 70083008505078887065710850946733495371756904269119456900755126178353222800200),
    (39787657255574255076276929450385089044813557137887113208750512079153358434904, 74166401301233705934627808758930209610381288478094275079332915537240538004462, 55747505697827773780809055220929790582848981823986220547749757982554303463722, 155245335659761171425117088514463601891151865906446418562342150288786286770391, 0, 254985393956019801739776259191311942629688161007696223374237337673273321098039, 13671552872762785083303671408156061293370729614531442283978898733668425115450, 53344302256571689369339171556307596605896221383373480303220479333616384818752)]"]; simp only: order_eval)

lemma order_20: "multiple 22300745193338326284209816463732494351449319 77943297217249664808216603611167933421830419294617349190303166090332352729277 33649547453656831794867055761010849091504049056032909083281343800434501739049"
  by (rule add_cert [OF order_19 multiple_7, where l = 34022497122533964293701486145653149673789451673087963353786035624580248854316 and dx = 106001170926840254176704527792271200249671302900706687797826396982975503726260 and dy = 112475975429511979405106019577498699676839131000357994840345196132275371933577 and ex = 112015193294340289889108652097169849718637012598767240084563380755775283129136 and q = 31145690154117203246076543700752615858339645612113266892709629626698092334233 and r = 9996626871028978079026337865657543163919336424780081740107382244918499315646 and t = 32912754381807333806777324291621832555936892509989315119145087645037171975955]; simp only: order_eval)

lemma order_21: "multiple 11417981538989223057515426029431037107942051328 28612986520971764681124138476238932323119847582524774023140589228147896409658 7505164919124068019382127866662610017742425569575878417587854449540817837900"
  by (rule climb [OF order_20, where ss = "[(2610935159657224209666110194610020771003224998930801502123070427592678148672, 13609185070731414693127441981385352285420596834978546423373624049111733085628, 27207936705389321849448110228545085328690310710373447463075531422928549698248, 180126201356874498877786608579190154666495965874929116962463173350087717497600, 0, 155880762608855358536102548918248932634341302182379498539406028045370550666728, 58872609125741514721224860598856969158092367542171042998741963328276936502, 4061571351768111914428552020997862397854841735591391238648767942591466765553),
    (114843212608504082247028920794979308078988151240372226873642150116435919425164, 11571023683212179257549641024410850523631930758117237649449251751096428549522, 93576623733395514631324069856098350198123908361040765268901243278016587587729, 117830250597875484198275247906382075291874809492151622969458003606882402390057, 49171441705138591007739905406901025924809469695273796461101364729664387054445, 0, 113902111726147803259142084832432401292099353035607418023331907465045429585018, 116864671959946378340279475076717421005153202303281401364186890165378367645421),
    (78035022417009340961555550402925110498930426424616728277309326562134236307246, 79925954712667626420023236313744404523997596552276916817850037678364959724637, 47671489580812370043333635485464600263316885559650622197134253883958668523885, 47437158180900801600223851660074019529720477621130635027132845381598566678836, 122658138315933287340096228919431792249795595313233039845246859580178287690669, 0, 52589643775755614684033172554690655307357347565004122270294742191938094945085, 31969020744767190635204169562540031987633412424453598946174765571569679423142),
    (76277218112591092080226741792829670898853568281292358704777258319162595946138, 36357094388771090262484026725094169063709097035469217303735689783219565457424, 53165538030534971635689230976739324883923137953567068078596268870191407821798, 159360949534252784920236656538057808990374642932098013709647979204012492121164, 0, 102701122108392816133460324849684372112350325979991405663138597090720284919244, 50247076831181515086936735597581115428583730188078961099696721162077292356646, 104977896064825854089862058850998191810387872743656771540983798297780807167899),
    (112936761040037711991100505146373571724985170975336824781017709783867579208250, 11712218789061277550973177656591160962752096049713554893476571591079516272442, 29774012501548185192618752920557139816311111551134718735329143181840065744817, 140436964810066061474208296017910581631043144401045976605792749501007147038933, 69462192503024048978242913344996663964914966551421200344264108952331821065925, 0, 110151842679368636328201485333498273864290391085248866275637746021685368070710, 136973916302082577655645626466019604891882328271251446484705388882091288684885),
    (34756818619144200491681050125139530734587177680489271172823314166930530383840, 85008970026389524299931542945034160298528213926118802093266572604921848061386, 16040785503600037263257404709446421716822716478837748554340131235653546998790, 42495337973028002013739081660964574194310025538885066995743630295024766065007, 14320250274265369961823986084951985909635663385085121473897583463547163076521, 0, 10432806323491434423917089845247132924646648827323110652796199232536681760830, 12755644743610555726426378655470268241557387694266581614943859497241230422423),
    (46591525912387939552179522876129977915569801265459649290018772015413990781863, 59164844088236585054860638180951169674654413952665981054556797530625125629891, 105114315941863154158923953719665871863043718861959067282832963696821031855183, 141636215148509188007768351713490564153959943388743135234243406383163820285446, 0, 174319728969407033383406296392484837956807454591267487319092328364863235361195, 18747138095946599410948439712332898672004269919771172838365688500786272994406, 56990485561030117466212788178709964727696820790748019882060649724774001645675),
    (40974864532686033458648527971705014540415612415939642084008078336104820708132, 32394695830853440086342208772293776159467343517929939251662071172741555507080, 12201783062439538210573924085439566706440198878893838748025557596921441140753, 142562237467739393731215876358064967045273213850026355998428357666750667976762, 0, 16299443498249138913115215361284295375257156525196555304613662587087114093728, 14499604721889846699724997901883802816969516520785889039363993195449691697662, 50447905444604308814195619516959926227751231177211045603742632341659123093048),
    (114706369145184633181850512363309996783116536867843672216285437626601086872840, 28612986520971764681124138476238932323119847582524774023140589228147896409658, 7505164919124068019382127866662610017742425569575878417587854449540817837900, 119573798520237924167915517245462417366433639350695479424055113253460756951373, 0, 3014061598864589538145859535531922995835360713371916202470656991932240679507, 113630829292391557432827982709778052795946256651841046106780913427894807407882, 118452619403360921314008468231933374221389506884511753848839198606256754838517)]"]; simp only: order_eval)

lemma order_22: "multiple 11417981538989223057515426029431037107942051317 48349571732148234660625587039391731199245835217098538624203809361767528578632 8668535375159511448845255394847448098216184107204417776821077112903024001350"
  by (rule sub_cert [OF order_21 multiple_11, where l = 86795717980148211663526433837599252104067471335598982105199701989976888088393 and dx = 115591906419283377140131546694478902634050671576341707550179575460969060844438 and dy = 158675410675407433109492479092925564015829940646175348341493525807517339773298 and ex = 96055503999179778783195998386254774653960155780716549594470411175247465684977 and q = 86645664473065571470880301391304767248670341747454245989944743853158134622636 and r = 65060546977466923075102310443287976489897643271766561931644148676775395363714 and t = 72001520072824984692107332269744962640020907253881016392196337068197819276761]; simp only: order_eval)

lemma order_23: "multiple 365375409247655137840493632941793187454145642144 109404755993932274248753517142817201341570511814969544916040365357036515957895 33504300041296913675234393249974127033860265996008113957411554179779475836362"
  by (rule climb [OF order_22, where ss = "[(45600249122893859364452937197636300452519698076589744228163916002717878942574, 64013508600005317564552419160335769683065889394460509461461635264018556669036, 71563074721519401398873709629229810709646501108229514663677404501838140287734, 100128152342499165858770614828463535046266089237928343358275805406616069763547, 0, 53738286934839518016775721006233389945685142141113207129006734943722130669419, 17957899665256283449923423242343580475570642349669982654514971090643474113976, 39431611625370576168405811868268713661268376030463203818478797571031111714594),
    (23860765095911696355536101961972812137820573795768394392290577904457982995407, 12254306777069054230939214332966840220298146864791198845774110389196427359084, 43624782209247380720329724956063811698161970482900786844818676961293974840153, 167551291033292512096310651776776502992853885944959624811221156183689227163903, 0, 76672668050557304279105571512056312232005222777309154913096001768323490264359, 4916882619916986907874328056139794207005291733055080666942981297353875708643, 34526555519688842086044283435154275597845698758045321666616192153563310146334),
    (34539455051005631554264108310703996343025041527434392226244322494984072053670, 90185984937076924271027458590278569350449214010426044653169312338127515238785, 67253275707362427781318466574441597014539003456720836655721802238345511155389, 37860411050348378722609202692095844399935076269655468388138429359936009974250, 22134917179330276340641672048151425627442884710670806230384428089504960951105, 0, 10302724161520188374678607681986653351740052124640587559367780939436302063797, 11293327330077642562741868110208949002667186457408568651683311107547570912858),
    (94900678929376923241853690969987127142299596658118822496115467359666862321042, 112516409423849081417429946551783387678709019949298585332972466703995259328517, 53572976359397798967650597995050657786415710180342019772019099897606647244711, 93461664723584091616294958987902755201826337476417773515730476942999353764219, 0, 100488493357841417268063844352348528684431959579394724288749266969843180443796, 77778533254508299271378792500508963140404275958307624696276796578149969753027, 76599148496447091045549391824512379867642546135304136460022764282640816903998),
    (92037426768966464872893729471909546588101263300752707635108047531341090080315, 109404755993932274248753517142817201341570511814969544916040365357036515957895, 33504300041296913675234393249974127033860265996008113957411554179779475836362, 118903742640273055931373876358373759867224651549619354612465732655825841224573, 0, 242835150343271885331720527329790245021062975484690559631425935674881534675634, 73156015959467142130003384465748340535718358174650368720100381808873584655096, 94510726772787082989452605001903295645410512950616825734793257051006775087522)]"]; simp only: order_eval)

lemma order_24: "multiple 365375409247655137840493632941793187454145642155 2902243681987472661198183038412811740456646520691454790377351361937818932009 29437300211838344816107134732065332641381869818156836362897750205809585030851"
  by (rule add_cert [OF order_23 multiple_11, where l = 7004125085586301789444320326851082133611547132268844884606600976063953955251 and dx = 34800136946322867572502168027900633615600007343896936657279799332080441296201 and dy = 147691391995240331483983340638660419522825798034111601870107959489763660114293 and ex = 222294601522301050350252781053811963131200008709568404321196645303965794879837 and q = 2105018691948591084012364456986857431387840582756930443552921190305850558058 and r = 423671155336159834041216617779853280687055672262671516207921003611787902552 and t = 13446334767172558352466830767316221621492192736507967214879626836790914589574]; simp only: order_eval)

lemma order_25: "multiple 11692013095924964410895796254137381998532660548960 94937715998893275126630254551878803046492791519751639679071495161277359138383 104754397796814936891083259899370334603713483612848440855726142602605847770157"
  by (rule climb [OF order_24, where ss = "[(103389442367378709500129540027961840949701588261070988894123721595032406336618, 67123205449380100723445123172412910353664454852848371725016381713853503794277, 114805265278087448205311457112731190880171867659713300378156680318412363901650, 51571127442963620700450506815407474916878335083133397260894600956951412991683, 52350234748982407984648482347406921111824279322146624007406944517106981561396, 0, 92315259755080780562921664454959579641138741032537260529978654211529634682579, 46047274429073456851923141797179648462621608720508748633784198393965329430743),
    (107557261614453713906057672803816336172929968943345861743745810883526585690919, 90281968339016514103295703738668216927165599301631772613558726957820476953388, 19681835988910705614590977281551155038265614848813267595875448502728686942913, 92633326320719835382846866383152266956584998966506913306991286064900124694840, 96549823492303448381656404086700665180278101488688434269879822013970679826316, 0, 99908073210284260731796377336797119638436926910214284764918830852632592600069, 86045488782869425458511154894142241826598833473115418167014353194756489012747),
    (67679832001188510318827307642734598497146048188092782930194143014200901977708, 27751671417801850189302619191734588353718090447413620485189507422142306253366, 60410480951455436475038691712658405051458535807391886143961169600106019171382, 178322386131570912676690531496341202103533652269508466323902850844545268553973, 0, 188168076624909713022225504096636917622197871385351078591727600204246879203371, 39558485307124269789082611522991393993104829137106378868944625872389710996222, 104228442700525793616004322854531651342504557751146692315764252533789003440539),
    (63251488169749578380719786992373295361390400433202956768466105679009718215660, 43321853362336742331948728753737422257842208289981705443606418783767262703380, 67180690789494163636238689207783326932228188091407208748367215334145700722232, 100221907265821356620051337387404739625962025572722229237116719947242141403937, 46044940370053866078474578275701896222473710113041634734635763741727786025625, 0, 34551157881087359141158481930830434787054181753994823639438594902385035067888, 54746268290035075021694070975939948764258804733113413720098593692494842191106),
    (78335824054696604532226436047750144034875168763362273405998864036043442063307, 94937715998893275126630254551878803046492791519751639679071495161277359138383, 104754397796814936891083259899370334603713483612848440855726142602605847770157, 64176226573799715968015921151266192741435560185520379960068554931357001418948, 42273704915899938102037941705792444014042549776003186873310632914885401870301, 0, 52995859839616270324344316893493578886762466351741272092314067217477493377406, 43416589403154893990039546318794180374302791344828094325213919267648557685497)]"]; simp only: order_eval)

lemma order_26: "multiple 11692013095924964410895796254137381998532660548973 111792248668900045421724025312080508439871425250500515128344905410687335951280 38503318178101189870212606703471388236878937159380587131883744033551966893574"
  by (rule add_cert [OF order_25 multiple_13, where l = 52799965372186232799646837124890275292989338707812879028627196112036790781976 and dx = 31477565206456371085284922839727103169012998936360703303582508492790971106737 and dy = 56147676713158612443460693932518371749210034254877970834628487118142907468714 and ex = 98937556540349478467603676189205868136707509684541438746260221059457121041054 and q = 14353436095986623103582208156780302509663629589196795381591454833130350836498 and r = 24076224570397732302176948063225915560059004807322647315613254200632976554944 and t = 45114477119840698531591636026833599632756192360654041736413243550228996193123]; simp only: order_eval)

lemma order_27: "multiple 374144419069598861148665480132396223953045137567136 39579771734992767879327780619984660190760100288857429870878956469509982389874 22421961861532864798134390746581766104718411480641522342692844870390267127168"
  by (rule climb [OF order_26, where ss = "[(10190335659228560594655225070484631712737660236026892490421339568374730423976, 51182928363477738217724720594948866970130010272013665903480528727826321898790, 106646909312872668048545950835505660105114731038602490119583103721594310640026, 176401409515778555966696751666539214999827558393777163420398007991728111906441, 0, 317014723244207713787579255712823248607317926257821038210185289048971538793699, 896805140626633114665071010142620270317055191617194255226361625091905619526, 15524286555199706852191900645008387578429751183368717398855663581743259762616),
    (20858386030135550732706536658360988526219833157296531524461690045786227812773, 102932359207707823403848660967222977071893986401444394659927917876546322255141, 31917541238349963606816662766320751993951324440779832675202236345891040790967, 64042658366126163576573506577133463428322167285859585439086242160147097497600, 0, 29450299101608875292132450080464281707008689779140805677420794673529541066651, 3757357439088695288773912217949085992324559362171592536314513228134798525208, 11536422735839846658066018972401903012949488937395524675420448573979691768657),
    (34719946098369098079110893759984119410080239870564230614132225195399315314060, 69501660506798747232298039905937386350245585658779261521189123685384621239943, 82399012276431468283724375457440411401894922622380510208767177290175618313881, 149222787911265324934248068010693164251734544157955447334272425500028798869149, 0, 255361668444386479044040712036293063700757079097835763396506287743797604077600, 10410682329806688904879442138192786301409673317371704676390104276712398914625, 44744051068249621059238450357693734538693279544536953772997664776069856696692),
    (115475610393120487491608557829847560328603133049876071461183496314928101344068, 16014578801549152218396601893137644944336027569747110878248984635255550773764, 77568592004392936306940935557958271432198150582867614816437153681348729453648, 169279170915605843776598884962207314935995701504322464838473770358996168320130, 39197064913217266309229870635975066022034727036979691826568868119389189081672, 0, 115159996564524640909509156045597059132957522872590169858775592584384512572674, 168816503110237066356752909621039387688429648761401314423328621271426357195361),
    (50204203953573721707819492642043249689908017950104775288342941857141757252922, 39579771734992767879327780619984660190760100288857429870878956469509982389874, 22421961861532864798134390746581766104718411480641522342692844870390267127168, 92226896276912633101766268222560558283662070696179995202903659474612666237841, 60618464284167344701241127503780827774334339067135881651154291332157592861677, 0, 21767135490863925438853455899440121645730983659541345935252645611519020861782, 39986996886114526404247692162489817155594580442741636193042044120133041040886)]"]; simp only: order_eval)

lemma order_28: "multiple 374144419069598861148665480132396223953045137567143 94703641072739546673642392909775703517117816126078559554590631629293671112084 44030134307828451019369041256269027862022696881353797329118104720094176288368"
  by (rule add_cert [OF order_27 multiple_7, where l = 97936862186813045200202239793777635223574239814745592881704678116637504903368 and dx = 140587800493081192232004555931216749669292491089943533006280356050706059340848 and dy = 145801519265806888387780684051846724154969701343702693045402109244439408270131 and ex = 60668219872609469968382834659616530203728427578069184511821956149083409131741 and q = 118909056187981864658436314779360246818995232109048195934428984721746694428083 and r = 82834924565303998375438986653582676512808688451688049927692676089246920931945 and t = 51313134854912131183076915474658342408150011288034087840424489524417907367752]; simp only: order_eval)

lemma order_29: "multiple 11972621410227163556757295364236679166497444402148576 50201712855563618133270846182688680939487088954989307469325000702469671911844 15579085223548652425015073928469859409889213656826379427705716843967722641568"
  by (rule climb [OF order_28, where ss = "[(22847216734594786264978517006548715017438690114164923016774000228003579908888, 22739588806242651429204469846316242276108403729134931553018783395597146953821, 6705556537799946665595597080830555504880362561235752804291405835655903688609, 187756141476853144007135370012867034771095555812233942197105479542563622012214, 0, 214992293724913466741131024431649016098948674446217793680600800026829091748947, 4508039504920355730347010520685315604524144678861045011215890296889927188805, 37046617664700028671595602311434006820671334145387358503552882488201465026305),
    (57006326771675166938253274640014290410987321212691641769744593278470657399320, 2388785505977331696610556228432343965197430584959823802490486904325367084301, 14261066068100113581721581065675384705888465812630082482862409986280453365529, 136142892510621568495291360567291471840997116559465421946061927800138877723471, 0, 6794491819231203106295128253219831551843029374830767793003163976218135686360, 28065140841317156928391606970158618647889982620943017598659044921107175932807, 67025357872266541869515427609798261758511595540745983882549852932660778041682),
    (61188191400965538014465498456641756873627144923558166504983091519199122563709, 71307863332701605371246599781737469089299173799409895277820631312976944145246, 21298390111741816690016579560289018642212033722767363305173602567109100742323, 46873011383631975088061403396102448405984400200840242720203486900215520793006, 14924152448733857080102954931121779678581556084484281256373106409385927681422, 0, 32333769884051253868490216943003402336146001016070764782438885917411641039983, 24769177338798668389720498958675074259149977093299909418057028819157509228502),
    (38427815707571053659690979624415076731817891185380229328471569875188852606809, 28434735480408717921152489428650385727912027016096339587763641486344167024725, 107121548380684912990053149914624912086634619603780607541321738831745488632283, 158665217062649136212791557302494656891473290198603869885590621135499874974472, 0, 117603309448223383415470371489869574649901115564304703569937394032942789471981, 12753004372970336851629261735081964716542580242971859660446594750950303314464, 52656081793365895591217489095471632401809280217093386265660259525911939654342),
    (2050179186439216872169262185460404555471211775106433292226032184401252573439, 50201712855563618133270846182688680939487088954989307469325000702469671911844, 15579085223548652425015073928469859409889213656826379427705716843967722641568, 94025111835201348550579090195369278318511081476397346313972272092741592966832, 0, 17154589931402173866088540030437995444805437804157704539953112459962747387298, 36299843324120962208221911669387242521762507986777964799299655898769331277, 1664779766923046492901435500846461249535506500064132961562194331431313000747)]"]; simp only: order_eval)

lemma order_30: "multiple 11972621410227163556757295364236679166497444402148579 26222292964199251774213597219786189685292624369124394331817105886746630751163 59772181889066202597113347597052566907871307462178742257307999490709171027937"
  by (rule add_cert [OF order_29 multiple_3, where l = 31754036291609666058080974690101233931146822373463096280908654073128767127941 and dx = 108468033326068441939689165661209102615358341642478202888633979738073372654535 and dy = 161367805098821810841860654482930284137444101763168211809509008392468978988945 and ex = 139771509101720615121754695912310064784280608001155227333041526124590139014632 and q = 29745536937832984879766830272080053832035978474419854460437253288911564562990 and r = 8708011295806910976272499515898678593733452855726788460786441246352098407346 and t = 38329989577147488422486960066906510506866261106991478356551926210277596088057]; simp only: order_eval)

lemma order_31: "multiple 766247770254538467632466903311147466655836441737509056 9053109412564447566022281292259855270473779248682614292427567808763631233130 60720706138950612821723355218155468760192830942305570379906351907386025651729"
  by (rule climb [OF order_30, where ss = "[(52524019538592188868477812813467909898291329999360184176578821563283047813276, 8251833254490457205048571302743877617168344944783857820470824598153084046358, 90438162421185092933918139301194478672339675745891317356483253474711643321844, 133762548920065043331862472866449885598210422839630850706879912597460644558756, 36411162305319515629294416983912480064478122392989570483073800400685436421520, 0, 23825225430371404434909432375536990764782099438306502198805782716313590740092, 60675533025800340381619003455641658067551348682224767020504175363209538801125),
    (4797914412535618882738947140940087705242764452559566386082461003441599140224, 105838660260665446437890837990410086336101320104287192507083520144228039881606, 24561456544072993383315496873610526637852894292574776263639996702194117107969, 18205262204181259529855180261741364811153168255786979508920935762792142018703, 5730537156666068148873757894887196942131763833772003569429878443843849935273, 0, 198804450865354491847780563124319171411019219810729025802669960619695557554, 754345918698727822705249998517026521277930971473705340615958444098382549109),
    (112951658407332170506176284921456356675999696325755187034632101690504236456366, 21861394018429882320677783897291457652496567864133698566012757463155933289781, 86698764271956942780042579191596580153506325953882307619111417556192227849508, 199769355452591812879910501042526202213690895655443808136604393989939204445776, 0, 242304562509810826288833364608407124817225300101834191639997798573443866005747, 110180904619394252535903214610673364403075096676463430035102088650034267951613, 194868925426694518534495232738408255335843424829674960973337326948975471745989),
    (78958329021715360675365274215070779369861825133557785866401314388881280780803, 16443862209501450204889008546716253095867175512655967749723657656279168343797, 68135586143962693133402934175488081140106157453345103729416393623668532373081, 121209621019284680878486222299982778086715535766768045011822731115743862799935, 105857123302851894482502414921532684450280051580472426479066334538741566052368, 0, 53841482301744862213960487079912093008919786019624529629539307742597972548950, 82652530084776600203162632904766777486500662546020850607725790898876446862016),
    (40201561058734740342694473986380290473947912197919163711979199147335432033471, 74025078852793724503955430535500106991328599056903881076074158379393945294358, 40707892411898639418167106048911123295255640696673235495015395654617208001361, 58210872567063974463631024960623719634624719871042400869183130585752320903390, 40305966253917159129606686162684561305985558689858874925462954569183997223578, 0, 13957477774005224399512230257890691267519718786771019230014735030121659411839, 20210084849023941606527035314922637889062694324173048091547380597607221232648),
    (8578755529661953796748470614089319227578155648566987523536869950661964557057, 9053109412564447566022281292259855270473779248682614292427567808763631233130, 60720706138950612821723355218155468760192830942305570379906351907386025651729, 180764058650585525700630596192647825250940963223511580979180221879497411915179, 0, 135939258809230005346077301752483681635588188198756325734047081214314981326585, 635579226004010409168219049938244442831142343510693722990706100119391420053, 13392371433040467004097069761735709260209924514215401507758939440238162926263)]"]; simp only: order_eval)

lemma order_32: "multiple 766247770254538467632466903311147466655836441737509053 96851612396815660928083035787054937053668609194544181653238077381375494040741 108987759992178724467808302027937436813031562835687629951317892835042468535408"
  by (rule sub_cert [OF order_31 multiple_3, where l = 45822010236864610472411528774332989110378745170417024036960291869320228356240 and dx = 149616636769067612506937730551637928284371651348784896065531412631779413333249 and dy = 109708671169747670199493257218667108282732283883570780969479816782778566279611 and ex = 27993586226105035400636692454612491746891313469428746834723121736255235046340 and q = 59207283575157264389341466967426227389280998874011740265732205734395765453099 and r = 18132988500906462751724974465775875357862838864369069402531553087498579689851 and t = 11077806811904492066642624985006979917191001086390086573786808503103733378113]; simp only: order_eval)

lemma order_33: "multiple 49039857296290461928477881811913437865973532271200579392 87095032305428398843965000085577390321853369291254260186121900389756062882362 102984819268680590315645547012274746391123929609179687161213352428583146902359"
  by (rule climb [OF order_32, where ss = "[(48010647134479938007935433085908703970798818921623539899214607654952342884742, 34857598286852321361964883216445240199068286004929491897577780432123332809146, 636104238448760214243348482813609377744817580013974713529138959662778993302, 177786103320319588328815599520017270384686466604905003951193928258119259085546, 0, 152649104254044442306335363077349307060215754440552945462342149489559639834168, 19906560577589003284823523072042644865825267812405265554351218564369193408736, 73715103770341539734610421938503126791086896283577871189435412381488439248522),
    (46433862574256519445569863494464312629114449230491095768503992140657159518285, 102219157061498278837268130374708099475858174817070751896484625058831267588911, 47112217943109027583517335025560545646795907201679376772843195684675860936020, 48430530435710291287394199791144714253296254603149054196626786682159163074186, 0, 30970016568972250721095711355877516120671037307329874930667109145287887801555, 18620474060607086976986362045515381151149778628719000848870067358523347552122, 19421159165413771849929002394482606179257209058470240726028355864486227114088),
    (84556821585041771632558737588999569655279520838178530790960040624240145941009, 77232298230569031587878014273397772323086953301468339087282384858609015772073, 75698798617301969402323320165181099198772759863150229916283464863584485084711, 140778948041285496012087563050717900682857364930892727004735871509089349670789, 0, 201904547679727323269985101421440533379805200868444255482272498759545445379400, 61747362236254694171535206311008814772450918091531583405271647279875046368486, 102803399382763584242964556598489186639308332959080959723579719232912269928870),
    (26160929257075740697504202540136394424257602314180486675452883362664540057094, 13691638993140539701581852857399726123774755136056591693922813224192579318579, 3305864049068204807300011674404289436066989411281643251493050013897418338474, 179332748447784740648993608365405619729398341580702061588893202943283534307445, 0, 120334488599370877995356966738946599383679485082226284851658552561994660814116, 5910543839919855282985370615927586404119230734598755985809496480013569176161, 40516682768341095793502251839931375389187101686413452148677007510714748581395),
    (71557668797842998041737101502136182152182721306778299535010762293895572874033, 17908117687700051405559413546670320875322720138893588529438945698822699080058, 29908471565231077581707325037245955142108552400356971021952679857176995644271, 111575610515796737058719886260136978778538178412453317360017498834236978092472, 0, 770891052543841223135402223855460105421026597844731307578469041925156014236, 44221500783870687029338199784688126927234582309432493436152432697935828177023, 68951952051767865503457183629106482264947991536917545441763938834407222566881),
    (102958021883351539152086857340718607305242694706262836202566068038433699486216, 87095032305428398843965000085577390321853369291254260186121900389756062882362, 102984819268680590315645547012274746391123929609179687161213352428583146902359, 46605174592627901324291860410500504083555494262929642538850676617933734051647, 44878127149354532384318523534326563335493156451597473180856243069019599136633, 0, 91546446241895915688286246994670129057474039242985515897517599045756275748078, 41439588993580780182870184428720848277759239327963627525904619966870705174222)]"]; simp only: order_eval)

lemma order_34: "multiple 49039857296290461928477881811913437865973532271200579389 82675291615989213441001169825910609062397625386583888345540410532371291652204 56452884264725409755683726373660662259281653046497194324917101564265444497273"
  by (rule sub_cert [OF order_33 multiple_3, where l = 71629555600031886603949799261432497849226712526460957521041740582829857525319 and dx = 71574713876203661228995011758320393232992061306213250171837080050786981684017 and dy = 67444558040017692705571065424547830651801185216696664188172816261581445028981 and ex = 120211829899795434165661277209074354789541887319960686036115121166251869084109 and q = 44276469853118133456625530462018452383861966684955463307951265730327132056542 and r = 44310395213070997348763910858662576767393725387043512970598952245831244267617 and t = 74363628917223512599354510927069284182727876525760563884840436688129971129589]; simp only: order_eval)

lemma order_35: "multiple 1569275433481294781711292217981230011711153032678418540448 23886645062542993898820459754289586758444296251172225058913790657430373695012 107324999420266464238131680938353600296734846095474106419430806133705619005602"
  by (rule climb [OF order_34, where ss = "[(38193310340305465208053615396901143808178965853446075577001410605526543297671, 88241900360560708554868797756859394480074503361538127318486695864788339467803, 44623045229550345397025864458125426626753353327387695098625175541365487884866, 110225480465784753648829819018458788112409265440336075222587345976450050038352, 0, 139848642382576963554990980956642714564683830268053837893650109563499956850929, 12597829132358535234149313347588455397962161996703779299748520475321224558530, 36357198592306517465761172082573163752210170220718419293155237948016266744203),
    (57009442585358948283679804494421846286512375799861877656875590261272444077600, 25208062388507171219276832360757216780004031478756640005099973495623750705986, 60516676109974343399024844223946870218108934386381844260202425007321499953961, 178825927182409786098289412345509751230156615298071801508920353678031686615768, 0, 157800322909272640249971119870389556273152364514444222035647926036900431762424, 28068208856556817459358311625742835156006957968403655904709802183551193426808, 88043721276663588367290733174082246640628051507413675952379607012416604822123),
    (6342663167678140050046339311707006532603736078593584660270789761940947605557, 57179566358588289422648169719069256557367123336745772302775024409631035466828, 7420348640963576443376488239812084927201330097302268319498172294449507824350, 83820585240275130559326109591095533752723051557301181897858580394859813093109, 0, 9833706695575240690448137714644391085733752763446859127991801022126291204081, 347427672589422890558500393682723004261636351176616172963219147636772925399, 4591382212051576966122114324629599978847613120400365001051136396769241095502),
    (97131743972107047864310451641136806728140869932903710646063492931157017381045, 87183425208785088458754321293398600724409668518646457417544435485552628837752, 27452155894093954971158365067927818332924020991089483541362657605840488280332, 85788230360159449726591295375078229363043598233389629080764220232945504483027, 0, 72258870836269365225178380571512466263510295897056576760387339101499248667199, 81478585898242358717946905762202612324401825694874520244067312150170063250967, 71963123594956955462658521570915034837199079683461523218968434154924792170683),
    (15893405817092515174714779718425859383547298242482376130008291033589485873319, 23886645062542993898820459754289586758444296251172225058913790657430373695012, 107324999420266464238131680938353600296734846095474106419430806133705619005602, 179088869356598343322631308488516587496051515682764546554164276136989352996691, 0, 189393183373775934363266603646309841190332473111570911255478902818845645636843, 2181499186942712591330918898827485010940880800539974351638855624411085224995, 24581403595178507795388630106827854032488266691726863461833889548341967108745)]"]; simp only: order_eval)

lemma order_36: "multiple 1569275433481294781711292217981230011711153032678418540449 24511577072564652160221856821201128403846713249744008008899853007360331987426 23522751163370214999458758258102733918095228021286387762817202826031773184419"
  by (rule add_cert [OF order_35 multiple_1, where l = 40855092305992633435026348101060346439774943148589808981597675913911554361604 and dx = 140345005441719706622929572447915900974404796690159837132463921368519128794225 and dy = 44601340746839580323150893930641855189962403992801222847980023428729893253458 and ex = 115167157200334590501296049882496031884683726416718531245547568958937139561537 and q = 49518133674832036334453210667471961884379020203017784264647150158506555942542 and r = 14414962012637159860004861007820772378926299516055255213907961441129697751692 and t = 40634596630264547049850853033222004883967281773442305298721997904554800986177]; simp only: order_eval)

lemma order_37: "multiple 100433627742802866029522701950798720749513794091418786588736 69148581893134580540533682868321223129825650830888324328542097667977817670864 70496707487026974747302513766045996592986827888580074750608089875224234583038"
  by (rule climb [OF order_36, where ss = "[(25721172972147193763348371063863201309009625264190974028796506816067020157681, 83311320300845087768172866148298842013740917273774227087611258788760414088636, 12020009141998626972031304188453417264725611644264049564527753450448593207083, 56992345982075813154746437622309859920191939391260095116822225527467015752741, 0, 5115951641299217838784144062854708357888945976875428751505496300468771413597, 5713505504346188279751131505485243295094489975673694010178087289710889163423, 12659845755355121511341582009830202326986722360552032393028453432522819864569),
    (67719677866474259080646649624365071025163027001740620961015898026559041515825, 106263921806070495388747175064299546210600998105917238093375052139264051510643, 75843641357138860801568382366678418957231059867037279265500152881675114344432, 92839487705130841142123138033406869333226062583147303189769837958363460431944, 0, 165765607198292552571731213256099939935439808589790143401081427748495294643785, 39605078391908690202614618787883197945285376277842236651264745926739622563210, 54296111621739821659690843690324176920135449068839790817144511776511471774035),
    (115038705721040549955496299836511775907179382880943666414106641735588680302947, 71474262473603990263360533244011113518749952382901618358729086941105775486381, 104401601988182359323385868037769218002966019805360152999673160237823568580047, 150581748542822753888084088769696006221937189138305933930179596507025373878213, 0, 141859039482282613901781334916718997888770948674632367942836471498597462240936, 114290224005981142342885737975169654097818046776731589558893769315417067271242, 149602011464771099304657813891465005019236883159758008303809876207568681682832),
    (1283204647685219188292467717029721240380761856565861275056197756215554500067, 100619227929726419645780907671675980575098745918697930744703245779250690338691, 102705445729363250514139374826569147596243723355779003777362656383621095513095, 86647123754233819380277072521742706473737349879494001809559472470722183001641, 0, 130041468716294039647633218064819071487567208015495451491208201881351574941282, 14220437501991950538581611187736222376147125609977809034248580766110290836, 960220967323602859350793090336541879588013598475994148943847932017240274555),
    (21367202079992958687003859016954708799546752259135047637640280393730973583727, 76469048439399175566725899187885052731136719070316775328481861498239543636916, 9549552107189850150215661235867388729616784652401198975653762633280839358916, 139942268700683492841752455433198501374048170263671469611755015589878244555726, 0, 224399017562321267609246001162600203033710598623522613877830688525822856770810, 3942906012325595940391985109994867757194465310447574075383769912580050736281, 25823653025449873942351349860990492738672949620898351846800287662192270526841),
    (103587347059373746533016664021969593051307440704348835379966872503351610964820, 69148581893134580540533682868321223129825650830888324328542097667977817670864, 70496707487026974747302513766045996592986827888580074750608089875224234583038, 123112555756620843788889663268971403131397211654718765195473395139128823820003, 0, 134414368693430622096160544327474057814417369222069213825535915667711319186675, 92669011708611985517995316935169185774944605211649801555883940323447974516904, 110136220250415746698708449266233122992983086259227398984656191336055852468806)]"]; simp only: order_eval)

lemma order_38: "multiple 100433627742802866029522701950798720749513794091418786588751 103250995168821581477242335784294258857041396715455389763957768190797245191439 90200241767211082838744234780318191930124485290067052237489765805270080935072"
  by (rule add_cert [OF order_37 multiple_15, where l = 62863025381537158597843479642685063243020129369549451435918056367528922339819 and dx = 155321040213126605086068587411686456455405533839464878540705215179021594318990 and dy = 127491308061457675639724783518188349918789306627429343563973268520374989417271 and ex = 81689675934669247825988794033434537802870397530723248760117960786047670333376 and q = 84323122242544875221728240235624459616766253193557546862132691464529960288989 and r = 34128065112813823314306056598111619381523721757919442520513830328673953724805 and t = 44348972427309560495272935966996452514582893982426581228778922285510037021534]; simp only: order_eval)

lemma order_39: "multiple 6427752175539383425889452924851118127968882821850802341680064 64995095973884809635677008498827994231918076318863900399523221519252841567827 110888310576755797652468609051925738349261019498395654891419372352546946200546"
  by (rule climb [OF order_38, where ss = "[(97931427411243549066540555046649563010001251023341015271444019036481726177659, 51740397409359474833843963678619211485726885187583626117772739782718377936709, 28957469925960003058541974749867795284644675934810350759060802208449308043572, 167302686969818355406095819055082620901400654943162077841718659716945965108681, 0, 123630441850350547589982880865226460667346757885863911971891166903579627826464, 82825731362189641712101849378876626052919601411500675395837739093728489144394, 141496634670146308110832002288270194335062612771712562193360132028449294808385),
    (23916383908504127320814920499247235338071943260790068826695851199774658532161, 21958059874621738559423448075420575724639471583930925624875104650327063071069, 2301446622300396061524261894240348261345347506918116504930623815203782742406, 145574426745093985037117962552606209291173557018943014688431266441258412719591, 0, 57396755529863078464167887404113144184796552704832301232710095349142372522656, 4939831582275285804573117420530419396714680627514352449618715447825703756134, 30067804295085548783720229006629216469834317982083637937898211048009752354323),
    (26313340593335717918581901439133208303068203838844827384304076969757474910972, 23910618473280135248885609974280212437181058211834614114343825261414463805449, 66820077536991094019923693281539000167819983984248997346525175271073338315256, 113839530611697852073235285050547936817544556787386625706064910697779697119571, 0, 11445960529347955947849709637781233674004161296137298696220777311566773277816, 5979613097083345057916712135872990031259926375335109054949473277013567226547, 25869628593791369926875598007262376501688954627789314518888218545375862267850),
    (26423464046405585863681749736663186409094989297588473209285105884257266676310, 63986940301919684520971360747980429361565070775905535370263491559706292300876, 78409651502939205413313014963741294875764977956753292884463849134431479337114, 75715767381716699490611696175707356605702130851219392939613965010575269358524, 15683997221346552913624694288053416665317689845544153712410189359418298211920, 0, 6029768155778666769980434538273229837906854662652324713074371278947553781626, 17278148022031398087780064720543509446536797677269560724276876557461108062570),
    (24128681845186853135553174125936730959511944886690620782680122397500139092037, 34610901757148507899586931130291918065493801927935496126191684773055730046130, 52617099536778794609613055521541808613099496180137576034398900516343539432004, 145168127755127425384081876567096084826157412263260353439605438095517660108697, 0, 73400027377961475128593500157537348988195533458228962353448691688557003255639, 5027919364410079752213563868461012939238810279286032998156905746782164380337, 30250042058586778428548578221325452589695739291955484629020386210759752578721),
    (25993762334086331367133612970993380352720354092189346690715847806559302461128, 64995095973884809635677008498827994231918076318863900399523221519252841567827, 110888310576755797652468609051925738349261019498395654891419372352546946200546, 85407894993619947026607369580871497363661869024361909922202094562669986332254, 0, 7412516753486534184797765485577581876228027442046610628077031754466252248823, 5835249064843144662137031988154873838751818411445951264589045064473682166647, 19172920525560386859312095108306930999853462578636667968871234924297884795062)]"]; simp only: order_eval)

lemma order_40: "multiple 6427752175539383425889452924851118127968882821850802341680079 53871836560249325425644370725008726403409141418314039762166606561958470796283 4270485537046517459803832700280099623114525405584113000818623790309016280863"
  by (rule add_cert [OF order_39 multiple_15, where l = 72356799706864408474419306137322403193873421972081211677853462715803502826428 and dx = 159474526132376375990925261781179685353313108351489302469724091327746570422027 and dy = 87099704971728852734558688232308608162515115017613763423161986043052277799763 and ex = 126915348623991732972730084723226841358595078315840174832890246266161468625495 and q = 99653321953149773715701797714829698857586112202006225484706367191215946554943 and r = 45214716303357263359229906516137694373429726692348488930622717750591069816221 and t = 79307563433199634989524852366722897901937125575950573613007953647626865321501]; simp only: order_eval)

lemma order_41: "multiple 205688069617260269628462493595235780095004250299225674933762528 114606305458837170472420009994275896942929386265318920003182785416667966862365 94628343645700627713907605427184820741269596096433129044575298137590706567245"
  by (rule climb [OF order_40, where ss = "[(94358301436730857297121166118899190997647383067117636083356694297572310016277, 44616756322710556131863545455402036842407560065694518654843350541822662878811, 15425974614520671370720150286208405804326371595937976910291408155477435043809, 125047169447895018056478272219014263091087724767909835302856887329002905771423, 0, 68231023844799586237423901597434434915709832532214502467940576358137826349262, 76892032182356128999213485434236773486788205600183480166225167200720656908952, 101900212605535538562650759133655031829218663846946635224995543345792801128949),
    (17526699076518598286959292747608593549735855217038193351843603580730386822157, 41501304184985509849153148246223055475248084209115984881172597445503156249425, 15590019018388444787587007157228260467092708850676310553963163278119430703346, 118907541348081295045407844158586554897245619271868847969204384405186604483337, 0, 46905035061179286229304096771822469844231680981367713541980941410117342074834, 2652902997205475437847377821698234861637140615295629629864637515842025252702, 17998264901762554664013350646067571231834089826671116708055000525762309807454),
    (59588103269696354061852405776891996202209050943647884514568891443590103185520, 22128830120177475417603180432965876311967882173996290440517705326857175388799, 35969995264591008790739014834959705567872820483540092334845597775119348765321, 135164563275164283194247414762664752693366345450410008636188523427513078714577, 0, 28578078547870298112487612160293109088239310524233631704171288277593046545632, 30664806857655565590938753088392412010300610409281894593578609191480955168801, 69557428402661056147027948129887461225266190699123014079570133434880354240523),
    (5224670922155385347729314521106565369615160780289331522653955826382912470161, 17727092658714511311798958978869882765129756559318829933006619966726201747987, 79420171578820336418600774550398308378775039588525217588759525716790438797176, 120193826671819212868501668403503567076924269029967774703044716668998071494763, 0, 9440995479571131060467930760924304874795485135166281813731874278501352498738, 235743101544924802136720365354602495703332513141419896046389090045910353136, 5423282328847326618228271922182114348222345005298088348044734260240528652646),
    (37835157120457900790339158571734513832314819575175483582783209316756919259681, 114606305458837170472420009994275896942929386265318920003182785416667966862365, 94628343645700627713907605427184820741269596096433129044575298137590706567245, 18912876410233589602076395934001559352286513709290224125357465858925332739573, 43759465198350106566526317642766592714507625219203745096707544223235879713608, 0, 12362667640698422855974303908526872327153447592865887884522677563211740651522, 6179797389103418478499723939477664788080915755172664395593011704790085593392)]"]; simp only: order_eval)

lemma order_42: "multiple 205688069617260269628462493595235780095004250299225674933762525 86074181295274688895643252959508130975996015083632307210600635277678348450126 34267887006266789480013691521820536382780944419482733640493717457068632696477"
  by (rule sub_cert [OF order_41 multiple_3, where l = 30413701805074707819995452241175505540148531320047528899905124591826767443200 and dx = 44063440722794889600540001849621886611916044332148590354776195023875077704014 and dy = 75801033662997655307309007009637756301655518729443222304810870552573885364095 and ex = 144324213373918730339474203984175339497019514596976926988115781447856716266190 and q = 11573608834486856723149263920671408913032259862964335706316280758954138243455 and r = 7988397685852227520691887674517147947994136649948417953622349368682078972631 and t = 37907888343150784556812975589018785085197926998808560836434042494888468691178]; simp only: order_eval)

lemma order_43: "multiple 13164036455504657256221599590095089926080272019150443195760801600 9975966342872051373532678799153826550956623684763738775181020556866455940654 36211505999629487605445500987474344151849489035412330535729358860746886288628"
  by (rule climb [OF order_42, where ss = "[(40855598571423161206456856873444732418140516932401157814002840484563159993596, 35342257638282582610688126664081901917458360954262423227470871390381611129214, 114443592752788087525458069405772125781242510111494607070126968320089427296672, 166524012867348355047652573244833802588623797544660198178663395196163835174863, 0, 167768144772191822709704456786718642169373945496309939792449038600449125040591, 14415319267596267003669274441158262575609564034987400963492945422456973194250, 58755639254865448553443679905252622077114214859460150916671301379241496470649),
    (28898002472127845896461347410569249548530346032757968868529858178512788190871, 55265566814789781736524874055141723799665999535323009151946305330326931701332, 62548514497265262717985965831864303175532251855983122832984649697117974146427, 95868780033849049636860699558347751647878504834229728271058197368921777281833, 24761250506998027566301346705119266254224205205581394073066046277092924367689, 0, 7212017267967366875525956281957471363111482659670478075555172529485396026431, 23925781642864331043363291658603289879189624305470880733816789713161149809644),
    (8507624699838118347836904088627919397636172016402540363350793481020557614633, 98483248527700978092252615648291733391066241846575398272240327024880827951421, 79471312740491063843390224886121805394057919324538637585570002329452989677053, 72574407497445052406969705356257563938685901104037925075239609614313201603862, 0, 69940616043444055727679944335781017348848409695109834835517629597383337738937, 625083099604546363417065032060375008829985891746470917664212708436618494804, 5332279830271495208200112627122769118545324341937685168187849022232172148466),
    (60953970283876741075587786409869333039886752120565850014269360000854550426266, 27127899523910589467843154342805287553515984512405553135840233857250077900945, 16641577528050460091025208331058360152467912664304033420211000297094814264578, 187147438214146637387106908254894019367636400749460159331933724476497847904427, 0, 167616516669272925967358488729404819137646575656403703055319390608761213099724, 32086704011515761737426153452781764004840699949694928091476194995424770018919, 98516051186236786878599284329084269851072379742585870997410083026978084884001),
    (91204206238687935130729912484167347195446163004558289382526643913682510090563, 69107708605827950580640354737067600563394896878926979647906122381606299722636, 76012295317854107906382470991912418792643007124008096694355003108753649845934, 73812280128438887649900246555145260520207231048768887683467742784510876032260, 7148976634913809772493957540984155989886187246953231226513478689627273929556, 0, 71837439779825277311709634738536893634488088998998329630864649166691493965093, 58138603990054353843919473043423872097310047321287232064394569761001785743268),
    (44605654444205941333941751901497166578148795773428277838686401973375454596522, 9975966342872051373532678799153826550956623684763738775181020556866455940654, 36211505999629487605445500987474344151849489035412330535729358860746886288628, 174923831473312147969805122887321347542524416609453555068258733133606941635933, 0, 65172585284443327311665911933568122359741264935886330421530306703858860543339, 17183077202980089446977777999144907240025426264125676440275987446643665551458, 67384499528118251517110360817473247285188631798716831548960071801572238717664)]"]; simp only: order_eval)

lemma order_44: "multiple 13164036455504657256221599590095089926080272019150443195760801593 40287622795387823063724439316926829234651374115730058135342051171962010489141 24135235506239871445443809331946448015711100769458865989336017595864449437882"
  by (rule sub_cert [OF order_43 multiple_7, where l = 95109444910629665783418795790948945432874590932357414404948925336253219489475 and dx = 170191605885201908737799657752047583309095967694037224101978291963349585790068 and dy = 142941280504099505496731765062319886178720828386114396662776580951024731875926 and ex = 85480432757840477072505686431634570846391392984323994835372600693771543305464 and q = 139792185067013057318086512984766094499356546626624887792352572878127686766074 and r = 78121109765752957742020167904270893227873280823667592740356019589691596208509 and t = 70212020231788677155184202151931770857863189242114642393982320889876684424390]; simp only: order_eval)

lemma order_45: "multiple 421249166576149032199091186883042877634568704612814182264345650976 75208134471057395149905509681829042982557783454209804283422289282596053453254 64717443195307848040283473736484127525195751160463217191759763652363109853295"
  by (rule climb [OF order_44, where ss = "[(10524500947819599246738599106857533519075548878864584680076101042506218288116, 59281216737474207186188944410983569344532244341466235127932231988509515450297, 114802835602804194895555803074841798377978137145723891129688549572342040949028, 96798495268269864640232941855350833420205273189554137202943450492319592892795, 0, 37664533590587920991933603938353599753948520138209492155913133942117323259816, 956586248300881315786934553017421099676198034708362123689237489519634254227, 8798147284031398073614835270961680002597992227644700823605038338854849787810),
    (91888230921955245550501605389226550268587232094589727374310301014323294317743, 2982154071659045018764928093066882479904581991493305075994168990936389186981, 88975907331411147471181846623486957356810977605044704297293806073208205958991, 172091151876171410930121463267324260394713805765263244247471694306440224117267, 91157099203295592113477324065739012552258712753292231378659339147431422516184, 0, 72919031339244585696785778023908698765828086403583531792295101666385261389174, 136565041800874672938000324964365220627325735601794678469567361875202874585462),
    (9218543311312068933909930584250467962125948343376055338758047325921822042250, 37458331185423659248426124389311437692073117429279768963587281918849696169451, 68176069460212569847878977607041355449548938454939231131932335644850941063676, 81315912096591634533036250653163018317917607977503850307940518380953790871481, 13936848303537942302486308392683688947048312552421798312478926728100649747420, 0, 733914910440495612928757658738860491041331352179668335175223550478014217937, 6473795081108448780992274606971136030125043265809756458571892384268265529233),
    (15831136600100138928548629391028912207647342235128580272829580081737676689676, 18538247156550678842157757371231429299153503145335768013562890706840862111880, 32802483560854325381943571253008978061731489439000654008852222054438020208661, 134712173239229229168965813967487581923005757699234315145558022520875931911522, 0, 17710798748090551007888836616637778000241215273866549686461339597055020246648, 2164438760541982861795317752994696142535040985502770567131620044136421202894, 18417897377879351808483341987066231449675447443284032532435261702827457873785),
    (109064198877862496810514671861926869788761857255079969928465008341787093616319, 75208134471057395149905509681829042982557783454209804283422289282596053453254, 64717443195307848040283473736484127525195751160463217191759763652363109853295, 59122201895849532454949694638809959846681863106416277925674232733111906512577, 52889220674652536727893360154378486655505502048657951956278494433012406644071, 0, 102727220468927116124601112402491491046804943249398327318936796483649381824597, 55687013073509377520230684321238678181318411222465104748170059343093690701957)]"]; simp only: order_eval)

lemma order_46: "multiple 421249166576149032199091186883042877634568704612814182264345650987 86258371839205005397239299642200741352176754147050400744301846199845714248211 43231142302790357504673379561133791301959018526517798272819113581879006236541"
  by (rule add_cert [OF order_45 multiple_11, where l = 19338235469900997430035799290688189452416014426475810214436942477319753118745 and dx = 68996758469197746671350175488888791974612735704656677289897875406520903800842 and dy = 116478248841229397118934260152150419031490312869656498635759750017180026097360 and ex = 104741851842208638515363656989035875160467172722449717734654074391617437058994 and q = 11523028654516206444528577508394666183453393436262842695812127140960282537430 and r = 3229645078861657183294790575841406974032060650491897427671350693818796196665 and t = 17492754542138055717711655393420394899492931353188845841733338613565922496394]; simp only: order_eval)

lemma order_47: "multiple 26959946660873538060741835960514744168612397095220107664918121663168 8472499098267446919217963245641941455237623168096713493987462183770513141769 95328989427648698031440537360422624305964660633595746238549602875050745324194"
  by (rule climb [OF order_46, where ss = "[(94748858405437480314494716377738013592262933264866181994278424195654017933147, 109226423140752850828259637598918691430373547609984228148321251519175117301356, 33240141981891041346656804648601232035029718523743150464581019529279111930360, 92824037908808403331677108992689623451889349952356486791514225989537694800806, 0, 122023166452058100210852364361323345213207167702887215118696838874645453168806, 77529874712120851825098352562598526494368342859836490912216701304251898445881, 75954857403644125637184453984074250580915877084872999649096964634651913782131),
    (110090688395069473002612821939944391235001290312777969309929959957043898773260, 88396967589000268288749275554774934541191253989688455229663583422775568003766, 106411359589339690160205133574130775455326073632399745183223047614068469679597, 136621544762108831302207808993551330419268437035586087114191299405266647151541, 0, 245892223762980357755362991144708838723453786831642019362715453303101436036755, 104670014626666703479093030355776443811528609523341810866800821963783841044222, 129894537830941382757366850604116086118463073353148492446315824379158887989353),
    (86001537025197276084803175404708590391678700573696975715364854235602973136960, 82957415529298788012321977271257365796919474004894772820197162393001879171153, 94757613594228652912649187284531652394974962756378727650990446542245434381462, 121231641270057729039124745232925142274357923400083996605000052338640786686564, 0, 44381189670117049098026804863443882483197612153668037679534957331972123826775, 63875385798245607252657035847103273165195736803621034300414327076942788511165, 90041621637653381926487470225472444414826204892008572690075841698157169516931),
    (97005571104555948580875596805916334960621595822566663609978083122027239592845, 32836125471242460051804080694905483020000919009268242154746092971252464121549, 37150246521185505055794760715949972984623765069559221616104335276873421148664, 165913379268412576723215343525759456307004698410916844860984700730616512903555, 0, 19532988331934965563472690808557417796506217058897745816448087922638801175644, 81267044143456375883769367076257613636570649804441974082077535191900620233670, 138995005786454781088682292848155702953035046554491810590035653842683058077799),
    (5488572262402578378589535690094257829783448094408686017389464438611864649055, 42818674486291926643003541615621882175112961449843534352104285508124232654546, 19422433123178354999257367361081156786726756479339624419587230709180923604234, 105809540195306782171497986028691174374974100974715021998175438771995329320954, 0, 24412978485593413410453097960101593573673843654694005625507541233939972171160, 260159616127909712035392502233103820802364819605622580657112338203197317931, 5015397091234025341495972693668628495125800665835803790902119708701601466172),
    (105927164420094161336991991577064888688404068277316199541447078870498453583290, 8472499098267446919217963245641941455237623168096713493987462183770513141769, 95328989427648698031440537360422624305964660633595746238549602875050745324194, 150138264598380728486483025319387514249961481697037135053650454633220817366728, 0, 11966189831997293255728102862128483497353221239094126800340611224840814717375, 96902683409551212485497646087548664162155288137920588905468438180565460951689, 137347212130946472431246606405809022136037929439843285297499129417668790643292)]"]; simp only: order_eval)

lemma order_48: "multiple 26959946660873538060741835960514744168612397095220107664918121663171 91525514169129214307071134757674756921655508176095422951825150236949865905969 76712516524272980978519075963232580003370763856964007009230490923781024464191"
  by (rule add_cert [OF order_47 multiple_3, where l = 85387359785748522045654178737892286365845599301054746233175551755147764433105 and dx = 150197247083364613153742048598255842099607807429370796863971518256772531424610 and dy = 81617900894721765235435191050977519241368654786398844998665122361385956306319 and ex = 32739074139494481374844275437374758063668258407291604737695943255687745089751 and q = 110758398634966338732513872729511957797650544476213868923246348164279881072781 and r = 62966315409816174753064127712301736809189581804437610988556093305778107810309 and t = 24142435995975495405533319422752536463961655615181329889124638873096817786970]; simp only: order_eval)

lemma order_49: "multiple 1725436586295906435887477501472943626791193414094086890554759786442944 37596620574587182050563122760093101610029533570752767378663867694524179369252 35971843483012870259983000901973000751914717113644046991627276896382065141127"
  by (rule climb [OF order_48, where ss = "[(79567175105759003875426971602600349970501666480906767124395551431980739299570, 66470663714978430118530798012162966441074929329953159340450451313626293296951, 17069922510895653103578563912996723857628961923565623771521623316692496420756, 140846939664507032951237783694919364010666722261432577806908330232190670462969, 0, 111606611899995610108512021371869349776965810956984206888862678244670246438140, 54675024843962200408745913608809527449893655096352186780862487712759254735061, 96783754294622294298491986190875815999355957086127908641061725888631473458033),
    (4743751772437227868613494312257112933887630918995706424354704407501649451609, 63024747009249442540143461860262640050624945609709909047991058583743852210491, 91318726210278740191692200199056606702220015570296242960218665742394480431866, 119238005916085236341084783101307899920536127135533564487993024038749538940411, 0, 113074187909422149193866433697270231771817934908202270719583740006121044527992, 194341263137764461989565084182011829862277203243043338069644799467714376888, 4884923536345698122625471518482391927728831146333532997216115868306475262027),
    (106962756745837757023005238079482980094163893719476443982773369214794914704272, 13620555251746198371406262304688404755103389683126263245509717755037777936767, 41778555455864338337301768720867180933686528794027175139870564033435851592779, 165196280967859492931434646504981808825607699341873959998014972137573172127675, 65799393042806265223023766792040564902389676695581206001720869113298642077064, 0, 98806675038781441126595737424520931782737343250379828116427728820126410826485, 152599799666641311139187300722500420254058462346434172396212318722168362493205),
    (18521197204006861350846349948746371892786971416080350662994634032573894454883, 66168535001095332636573356699965087366280715022224996979089302077254753546811, 76509471174350695859775116349626734422163140848878843263152395228320788387391, 63244109461007114497530352554130890918908818076191580461954046986650122243907, 8558608447725913022549079941814828885020222138199003643751138779890221060350, 0, 2962505886274579201227567039605854216356115198583531060367450905675098274544, 10116033239465418500801382674965046448550551327970391241297059626259650361761),
    (53819512417777839343250837423019352067144864230886287956071292195363321762600, 65056494986769813839474679445234594097099731198918503134440734128667628250911, 68523710771943052420578182631588574942853076025776287021275205763219149250147, 116904129224681767559796124204138066799267127238596808040182199257454223149851, 0, 42312218719723839506835564697650843032663864350021038968394699136100387913960, 25015006954622608324541446789816030607149465164993586337736638931091844863317, 54336382367773570756953596598537292190012682088338653587400626910033109645162),
    (72469420745907888760141267622746597681660829846520623918862858867015046281768, 37596620574587182050563122760093101610029533570752767378663867694524179369252, 35971843483012870259983000901973000751914717113644046991627276896382065141127, 143251963622538880551609003634549066017156341043456049951310497743010546735610, 0, 23881556889965942422994370512459762371581891961679286661930119218366902696368, 45355576352945802696820738660475768687380713754347770228199730457732246697250, 89655406472368646537110023014795783271074436460519233383640137795688672268506)]"]; simp only: order_eval)

lemma order_50: "multiple 1725436586295906435887477501472943626791193414094086890554759786442943 42527892014892962306516099870095866366508179580854586053306922324460284616196 69044252095325334036465622318811283123898157377102647032959792551657665573850"
  by (rule sub_cert [OF order_49 multiple_1, where l = 43035593185488448574822023415492774794697082692787533019654140098773065040282 and dx = 126635029929675518471186909442112386122819559370579294812713844331425323119985 and dy = 159478083980949831466826765077254264351646463043951566327562787467783716161666 and ex = 110860817770050468506744469839404808773607497405188495520890576678930992607007 and q = 47065509122865427591337101289701275907029757427746971967537785805920419623304 and r = 15994722035477484693758358735587555250592095462843899665104080100248420523290 and t = 41202823839676898710011356108560679324299029216273283066419385605222055420347]; simp only: order_eval)

lemma order_51: "multiple 55213970761469005948399280047134196057318189251010780497752313166174176 98063155804576487496905715418942387433596183608276304925757314849059006907927 90683376489761537487735081616836761371325746007001072433136374119821848160446"
  by (rule climb [OF order_50, where ss = "[(396240271226079312112517465191825215228541380447435716513128138844604463093, 64299763440764514684333873635242857184311113864823411777550649387287555804589, 12721123728999371022620688361904940730499136892613378565394166223497461754299, 94020217784484696384879673184260582712283209131321488471289904246039826665558, 0, 46386144407325334750144920253215638862585979528428410549125862497558797359895, 1355933325083096557764110256076997745872482630780360748562344669114571068, 321736975727071290250934711075749923956908264071378097698302988697810567495),
    (114367016617795868063316635489429699768417660887976604423339920318351359214389, 110636916523278715653933575635704388659877497297628431320178015652265330789657, 64107907618788102244744541240611816377403507337120498561527580583557120093722, 69454936127842047793097744948946042054519759982485294652906265043889322868883, 0, 81988543971643962794743834530177096568755349978670625221749794774230815610038, 112959482631783793175517082455272565793675706340922296309201643532476177489786, 68600142621922931326289658925289093316205916230981530128805575367139195633766),
    (75650478868455130737161608246474597750229468180929629630299859916819150746528, 41377584885150861165458198206805938112735818038419383213967886671695119287580, 48381961745436221507192996444012988771168476592758290519682511160148544964245, 185051420848484103251172824378306024077227822674499362301743760289437309356028, 0, 233366495555795025548112405620704369413812059436006042971414197723338413496112, 49424749065799922379261535206400361848907863522877862916025145133512421997390, 120899697880429784367649679766439172650868383254380368325383562538455210853167),
    (34405168371249009316530766693812821725953528615755956224439171954328966632374, 61220933960252376637627949074290880062497790195298254738742170795122689741735, 11900816171790635840860709385871542472259117880958393443539307864476714037552, 95948740135254733290527696081922631580324171258411442670759347185439527399796, 0, 15606718258053887458967787589666866194818077786908918885133332154551676250287, 10222767537284608255467006272166823498131431824974529250329468452613590161531, 28509137212004020263078419265359569090758431420748788128478184501426923303757),
    (43449632572132143639490449924415791874889366245635966718335326390351019488393, 98063155804576487496905715418942387433596183608276304925757314849059006907927, 90683376489761537487735081616836761371325746007001072433136374119821848160446, 78949867366032137903419680604756066158987750002312264008518487254930780687759, 0, 88173865370053406117625613642143332690484980551986600550983849603918556102800, 16303968462160181553541626933978740425288647087371005750463225813435044805652, 29625018013457334632075178355130518446017272166379666204523876956358869339239)]"]; simp only: order_eval)

lemma order_52: "multiple 55213970761469005948399280047134196057318189251010780497752313166174179 36796993100762528175931249773891835078066733255899969901272379200050456744745 82875900576044240927313264052284635027366758225431195529322047955699440722335"
  by (rule add_cert [OF order_51 multiple_3, where l = 35047730522724289579262013864268381141185407289930394362654369337899825564112 and dx = 60606590377055572576054296424955396121249246989191205432201665591484037658452 and dy = 86263513832608925779140646794563382176007569412993518804078351116614853470067 and ex = 177058251914170208083671912594458125885615593767666649220018566957875648017133 and q = 18344288128158247187743658203512960415305661832464653325156044317362629721907 and r = 10608180776166864820974413356190661887479932548625884590494983298514612489644 and t = 53591656755058022081015404166924817689758295834478378388525608975799944156365]; simp only: order_eval)

lemma order_53: "multiple 7067388257468032761395107846033177095336728224129379903712296085270294912 29545307149459912194133049419864914429541005960514435171535756474880728006807 84982522651320244374085863333992189401916475707020839897180021600478002179041"
  by (rule climb [OF order_52, where ss = "[(70791693820035661909893488112240360301525631271115123675622043088505748150556, 50489912376121234852884833325971134150929188416962196280049315925664427112404, 58471523614626851182879920308068006727720172844037214495901264455547499332692, 102099169934997542085743863397328274457223688254228087816756694583253127486292, 66254911763171075461148308232837625360202190174178531133193429951257383791848, 0, 43279847078374145646361537366062985930829091687220685100887753023089775256342, 62420267451843303779163262933326018221477515694158320942121392031032626427075),
    (115508749928134693825986523708005402895931834873645566053598291406369816586513, 111509757568124604314113971220150130380918388092302123644154480850964625989410, 62301789847599866877818691835975553766822360650676368825184256877821938072112, 54772244018352879301468309055228577300096943739950386831428466383566898976945, 50610119248704072916206485858992288463537766173051258279245029389314863160197, 0, 115226103967446564039248271119042936302236405098385108411851980215640635481001, 54638218210444440975324083838385688956102081777705759748838342349123356590531),
    (22625339349373815971839050908913925059556493830438786052004236675202916178072, 39135782367120914021739659371621343220779577097810210213559068185437439632796, 58374399711399773600620715426906487860323096503115654508724727516498969176588, 188166064411359939055071758797936360690224954409782227626129043974394284210565, 0, 297810325896347423491759560313331012438069023360614350487650191005433039968119, 4420906334493696694423297401773599301021604236533369214327080378987692951968, 36766942287473490299259607235863723075268417667948176760029352520889495110980),
    (77425353538430382319431649294292243780356000259960150359559273403798565258806, 28965829836078140550338132076214475012070069347560946408848463172027100931359, 66297993579182189257670060882703307147958993288845492331979850122976120469158, 125962041741399022234098974244814441738795651165539578000244236322277436555388, 38383353442767725665515179928870149658624146857945225731319176150338812844061, 0, 51771113306890567752129566405811910327498042726727379408891929944849087880435, 84225577764064414750891941934845299759959981035357747629053406117874273427082),
    (95256918702063269990817695897798560094908422742047175422317534905026455650725, 82027873951196017127590489843962232276083150460431476873471439858386403600728, 576657964054686247363914154422530561281879776777560089619742612670607484354, 62730045095238372185445089181659816266073062302419783730910654622507795184582, 87342989867926931088433421902032342363177716163995159412879461095164842651460, 0, 78363561988481149467535701935359585117505109782714392049395789468342643277629, 51605173087069996367464920657379964207739328473520555226825386773871546683338),
    (42337027175182982864880687259223990711914397929806054110098822254664837230501, 98399994828137802596564097628244644755623334581855223199125945964845768291817, 13435634502564063487238935049168440009714506597718526765560729044392361239118, 99419968333414463293723839165125161050545959293866567869879125202407733162862, 0, 173905561980903952053258450594522706228592454394026552960694769165174085352791, 15479674667376767739070035169741418391434273560604587515692176353509031512128, 36350893483241002339369313776079392191474366277176049831870775733118692814890),
    (3084556447849881437754646689680818568666129132018249217385242365240756549140, 29545307149459912194133049419864914429541005960514435171535756474880728006807, 84982522651320244374085863333992189401916475707020839897180021600478002179041, 184646776889034139165128495157787303856168472036631102223123820798832138138961, 0, 250144817301304900455659640606475626047781470034771915432969867774290234202624, 82168726247676327237481302506598520570055702911839714398878905855717243609, 4918759218456426570062785180049081828430969132783470283061825200043388947931)]"]; simp only: order_eval)

lemma order_54: "multiple 7067388257468032761395107846033177095336728224129379903712296085270294925 54057239862412075058117197617698774339268098870763460195484366376054277540153 91026160818570521392230510406392482662141175852624828075060759907005739381606"
  by (rule add_cert [OF order_53 multiple_13, where l = 95185008831291671680898558356194041332555815681577402483122017254760478083721 and dx = 96869974055889734017782127971740991785964784495597907811118247179187602238313 and dy = 75919551858653304960458090497896516951007042160705571793174608120270753059830 and ex = 91280156497404085898713298751573713620359050505041289171585021407693548320605 and q = 79630390978144535543675040373509288834478348147355243504334717177012757495493 and r = 78245292644765112455247076692026711691751299987369165186261151564750981085312 and t = 75035372118927177987713578025403217529210303754357071086659912170060689251458]; simp only: order_eval)

lemma order_55: "multiple 226156424238977048364643451073061667050775303172140156918793474728649437600 91240339439344902360144784153425074105085535373310672969142464017034572178597 105178019408695519270149153353629484921433527725323742919877102009188291830789"
  by (rule climb [OF order_54, where ss = "[(65218937181460708107867835922408475460933513338199851262139216130615617857558, 5568967453240709431037308314000139112839525217916367544866174660674230660922, 42768955079786056018453439825631516780781712431844559041345189476439071062010, 164280361619527614389777336253106208756514717068137406846151823024247144733182, 26830014080848488979710068684184932635296837457484653667653980536920040961672, 0, 36734027307790308771781226003217949969051304270638864621775074959486108884936, 92529555841655555016492149933214078061791659153207187840019593459915647532940),
    (30545786461482308374680474193254598937260438310020994031376803608774982442940, 94437341801462139119676139105974562834376287885307083340497279380110758438422, 609059417704485401607538106496826651544726025178883828373174272091295169284, 26923714862134819074058616157433149808549380747899598399902526589430570076451, 21761266765230968716910976317922227997321588951372421624526648986347119724601, 0, 8057934500650031518402400066992824691575289256619359647668582940671312999034, 7102437226385696514807229587544718187043925577030982296474296375607985487946),
    (8856493988400061287764450220948298825429080263474414142483408460405113328812, 20428533000994343048671554766450332558178938527677635574765200467353657583667, 60767612425539494573629584481271979061223083730456624509687370349231942467320, 189800898010824044833702031288931803806283492772919761961265710221624198708706, 0, 230969546363825607513517497040195946637589072209380895517692291670422869856183, 677399348275608354439842905549937420637634401380410532727764169823955787983, 14517144683105459867721888433438967171545070440829747043872288436402861932068),
    (30084995815537087025914323915253228991993695955393349088796560335996041171907, 37386550684217955753947235952313604455491446524702667080569736909725595302940, 27674008126864146027636678733918936372406626467924207007842159198908211646893, 98834071527132636057421765763544301632773635418265282689729094866495160134678, 20764906011833829389915035387781694657647764549377978038837233951117950824616, 0, 7816656382946865407147437060129460996713703967279223231703378298842332677625, 25678979009736535763930628191654714695439889258883960521562511454858900838883),
    (30151169118910326546612216695273531912970034840947493768349406622493257131143, 91240339439344902360144784153425074105085535373310672969142464017034572178597, 105178019408695519270149153353629484921433527725323742919877102009188291830789, 61938300455229302156499898748296103880492054566682308306960904201558120978294, 0, 21801619911549639671820750215590830843942889498744430701143253497495769899849, 7851080375496186969388214579469621286073753087090558568544114412915614342572, 16128149899522428027014657503929156129755692106252119749087911113313944010360)]"]; simp only: order_eval)

lemma order_56: "multiple 226156424238977048364643451073061667050775303172140156918793474728649437587 74235135718065222957956786592166900062226503906605223673605305964480063464320 77370035497989055418372338659294205170967713153590306154664966522575426732238"
  by (rule sub_cert [OF order_55 multiple_13, where l = 88029610870369623653855932640949015214314835922910007658607834764997472055346 and dx = 35174941766004743851770393238180832110420255082801670013511539637033758066523 and dy = 81296173712399677683399233662704529315901384652820787976369162196664246492193 and ex = 132797292931635928164885444510665747572945174881995763491070789361421606568228 and q = 26741346988083963551863138467466553688555299240985277458858701430866257255515 and r = 66923504384750502888886106316960066668893347289433766813768141465147306732130 and t = 100957622417308064575948458577197979692643007605507227539605850752390370110411]; simp only: order_eval)

lemma order_57: "multiple 7237005575647265547668590434337973345624809701508485021401391191316782002784 88044925160237770324051154688383283269597151786188204453249001392650895322188 103315385228285527148810711877295854434296119536660582544403401769815484766084"
  by (rule climb [OF order_56, where ss = "[(33473838588998393723723775249852113048408782731174368596747380665592489623865, 115591329808373262142132546147605613838306362134185926442553685312224753056033, 89516350364490811609127091191338180495947217550616698651139779268688348846742, 74435895120048209578521687393968859754006285187709611426585251961122408262238, 0, 98044884092598173216076804410609817583052574171689097640136571407066009679807, 9676808472181038587638814061475767101139769564942364206816083203799606903152, 21518353762056981317458250269157137907257846645933989765245285916026703990390),
    (59226775660263078681387295009832453283042032367019836251777108218487975296519, 6557947953232662817845481735679483041650144522948886223863279423865597424284, 54883460227747638334221646929379622024976447809602070760551437683752204997387, 224825471065496848086984511361333704326742361026527354414224037197226253485700, 0, 254598886501835921672678135731184146088793154861649994112355549899593216260468, 30294046674799942691542536526754892327404194903604603148980155906387860390061, 114996523754907923102780042369088010198202868840841387785270331426883290761221),
    (62106665589022286136912027199111505974741523590336316509954326347111075422963, 39452552363955414352782168550184764514908127872519708450169988392725098284807, 67189371699319982645685504852675921455272646741621221761233781141727190632863, 82897484799633497227760760134902292056828160065719491969226922340007596993428, 57760745341108716466919474585938371883432634466982429861658393671288497756747, 0, 33311756760682577894879498561422623939405023114350450092014914434584954124694, 44463196076104859047955311423620373184313917449200829546544165368375298381614),
    (98304913058035945961899333878345766092768738851458293325460956077403506823468, 92069132255237909570035169869770415408794435348389777542238203869738539415995, 110010979509881713068407336601480992350012847332121846568779443658669482712661, 63175509319073753545444445629821922636199835939420245103465415831853656722763, 73757880014100624613038731420584509782752348721071489062145131149629863541224, 0, 83458688734702329723035080452954584224661746933978630525537430453853714884665, 53634604862568035585455636004755551471313216130422126343151802416615652844560),
    (5731371668317488061043699723169083210585667015246467829721703446365249271506, 88044925160237770324051154688383283269597151786188204453249001392650895322188, 103315385228285527148810711877295854434296119536660582544403401769815484766084, 119816296305356388008681462130794705669283426977491887284522833785954741947758, 0, 208728833594637635216377463670814689980702771177125774541691681667627127092140, 283686229555088304048536346129345719495902794516113324199169682395145509758, 5930558216284732051295374143174361954679256153647689273295093573043075415453)]"]; simp only: order_eval)

lemma order_58: "multiple 7237005575647265547668590434337973345624809701508485021401391191316782002773 82139216815509036372436408998101631842574539072297994157795872826024799822344 46622906696993494679584849862514221749408427476705231786570124014787390845847"
  by (rule sub_cert [OF order_57 multiple_11, where l = 21237386774327563380613520510528511757308467879289189743291622807794923164276 and dx = 56159967780017371497204530482334551687573367372678277120071163296466061931908 and dy = 62865190366245973980063895082292319599276246679090644214677978487242672845114 and ex = 121697797555084982714312192639689224957108756129180524490986759875493193353795 and q = 10300280140997151577091555896896711368773360325624240866994221125521998457194 and r = 3895141715450145370717796287804640018769561957401237024060905659795807660949 and t = 22320550686030785554721504022265863263119698166073920690349740019570894581439]; simp only: order_eval)

lemma order_59: "multiple 115792089210356248762697446949407573529996955224135760342422259061068512044368 48439561293906451759052585252797914202762949526041747995844080717082404635286 79657838253606452964112319029819691573475036742305299123656433055298683448842"
  by (rule climb [OF order_58, where ss = "[(36661228441783414426633516774136062458879704552082600183592120886352783423353, 38717867600526141935053265854070383999847490151509220099854957535093527762726, 50415912909403157922524667857808353864950721124130743719398315623506545835222, 159213438425339143200080590093438821372813192336079088253474546599798369913569, 0, 145278031218165525830108249837586909051799825204417950193491041005693493724673, 11607404961999942805448115278907970955783132609938256854505392229976875197445, 50408972468830175469141910113317973779788964705200390740923180277802056103188),
    (84126526462178050181261884823144887717190756184101848216471003771620932292296, 3290935796511107785866225921618007050443348550030606931783418295825287673474, 82658452844047433820019370290033997684156166834431377778116112666500926994673, 151219021014371282911884486881859950479490285016768927363605170548135337943203, 34418685037625810149374706290437714595464632143195268009644884821686293632649, 0, 61120517842410295130369981728978835827038835068367385829781049086229017602190, 109865285786832250698246399516894048784546524064996905072924844619253923679343),
    (53085063961662281017418079401884276428623126487223128912759648345435944464786, 19439240795854216504166878352080480852025048076250165894565412345120149900726, 51606592786353391533604413608440083413253006871618183499369204189696009138844, 99643784211013140044396794518945099728504443889070755232751637259572235626699, 75509197534751280587169406266660323341803390629264792699217578309983692658981, 0, 24336930398538280839079224947483819053609596420680610777378496271316628751222, 45681848339520365621929044073948531281293937238962326426936534468973240962247),
    (59348699254776951351374474789973024249386570196781804898524919173779757720106, 48439561293906451759052585252797914202762949526041747995844080717082404635286, 79657838253606452964112319029819691573475036742305299123656433055298683448842, 86791768712304013507811740048690140179348241965498732094254962936904843119391, 43111028530245925376622655872700053030228173288543680453240331537355270319353, 0, 30418901042843750282765104073491790790599101413992464091091055869214940442398, 44484719243117308833054556065676591213150066059308347589316335353240384335760)]"]; simp only: order_eval)

end
