(* ===== verification/PrimeN256.thy ===== *)
theory PrimeN256
  imports PrimeCert
begin

text \<open>
  The certificate of the prime order of the group, through the largest prime factor of its predecessor.
\<close>

text \<open>The prime 115792089210356248762697446949407573529996955224135760342422259061068512044369, with base 2.\<close>

lemma prime_order_part_0: "pow_is 115792089210356248762697446949407573529996955224135760342422259061068512044369 2 1931 46375711262917254322957564195343265508141134512795234702806228780528506276598"
  by (rule chain_next [OF pow_start, where B = 115792089237316195429848086744074588617105774088848230455559939452377164152832 and A = 26959946667150639794667015087108818864712470113137680391308652108463 and ss = "[(False, 0, 4),
    (True, 0, 8),
    (False, 0, 64),
    (True, 0, 128),
    (False, 0, 16384),
    (True, 0, 32768),
    (False, 0, 1073741824),
    (False, 0, 1152921504606846976),
    (False, 0, 1329227995784915872903807060280344576),
    (False, 0, 1766847064778384329583297500742918515827483896875618958121606201292619776),
    (True, 0, 3533694129556768659166595001485837031654967793751237916243212402585239552),
    (False, 107839786693710966120214783402060550919461639826437404699910127744535, 84805898218736692914433004630171446968611375681317095023053933172101407887289),
    (False, 62111672928028346242613912449041714832409624150726950981582212257024588162585, 92936325464078692155351848309017613096914672765660723869610412216442822035656),
    (True, 1, 70080561717801135548006249668627652663832390307185687396798565371817132026943),
    (False, 42414686220578849395430381863122897974535643434846540725768965892466559936550, 23187855631458627161478782097671632754070567256397617351403114390264253138299),
    (True, 0, 46375711262917254322957564195343265508141134512795234702806228780528506276598)]"]; simp only: chain_eval_dense)

lemma prime_order_part_1: "pow_is 115792089210356248762697446949407573529996955224135760342422259061068512044369 2 7912832 43438381784870964711365017726883746955549344213001231350781791637442293932160"
  by (rule chain_next [OF prime_order_part_0, where B = 115792089237316195429848086744074588617105774088848230455559939452377164152832 and A = 26959946667150639794667015087108818864712470113137680391308652108463 and ss = "[(False, 18573864672519568917857933763027948307732209078547106339462438853746267223352, 15501934633553112009075025968332982850223488603277726350708510937059025548716),
    (True, 0, 31003869267106224018150051936665965700446977206555452701417021874118051097432),
    (False, 8301429882533306562732658648221153037251518364636603933211190036524792555840, 107328097330856275447323926671647265990729277557116713877168732346668566929664),
    (True, 1, 98864105451356302131950406393886958451461599890097667411915205632268621814959),
    (False, 84410873085989011557943841061994671441773480411920216501082540768306697502533, 28976041725041235567352406074161768679402542810457458861125467841464850285004),
    (False, 7251022067025950805241944330258535014777371432005942151501498403411612138145, 37923249927806360154219101168401586684433706149938283275629886572890829924511),
    (True, 0, 75846499855612720308438202336803173368867412299876566551259773145781659849022),
    (False, 49681213799473871084238923630468291598459770076639245542238248970648883022732, 3037769392313456053751577344831693284089633571073649188711520927390214760376),
    (True, 0, 6075538784626912107503154689663386568179267142147298377423041854780429520752),
    (False, 318779735085775566660447846030669812787601034874781946513359235407863991695, 89093893776884687110996861486202580897152130543656444741243353271671111130049),
    (False, 68551504359737172312411367543818449965417445225072087465818168000214133405989, 1372165346051444914958738155790973077718628782557507375637603692642332416460),
    (False, 16260504061585614347846215253392997806287448774942439671900575598953524870, 82026788304567876140328756763573372378524928548727998292707584159480493974570),
    (False, 58107544698836102530714970119622365689412636967214898521043067537109800656955, 32774073019068898659710682177663402839249256803082318736904496969029498248505),
    (False, 9276452904376741307266871940254594970486071289497492847297305342812172191330, 8907941329773637837128512336296672094600749143545803965826271819193817614255),
    (False, 685292227438213200364086997502431194773887094972978626142377987202815804398, 49802204692811693294891210702665732010604319024536002349536246414849777870163),
    (False, 21419939904175118898999739155799443680850280971269346851378532164273269259161, 43438381784870964711365017726883746955549344213001231350781791637442293932160)]"]; simp only: chain_eval_dense)

lemma prime_order_part_2: "pow_is 115792089210356248762697446949407573529996955224135760342422259061068512044369 2 16205480732 31502070157905217542892259560797034729938346959396882620258976392010094367270"
  by (rule chain_next [OF prime_order_part_1, where B = 115792089237316195429848086744074588617105774088848230455559939452377164152832 and A = 26959946667150639794667015087108818864712470113137680391308652108463 and ss = "[(False, 16295526101617735522598256759506977027826375721264403355026492471690646288338, 41064987744363589183292937135452285254554125124087208529037448698656458996878),
    (False, 14563457917934422995146013464571589914644871387297669565585213702492737831146, 108676069881512936776990270032834547894803540744843054335457010176310431630010),
    (True, 1, 101560050552669624791283093116261522259610126265550348328491761291552351215651),
    (False, 89077275819100631034521441630882479525693443896421544461705218477352287170373, 91644544432232851395181800212862611836404300085295694099753676299913069074164),
    (True, 1, 67496999654109454027666153476317650142811644946455627857085093538757626103959),
    (False, 39345045014520600625807951926538155259227936045541266580792750338986745671457, 81825548718685187974008292084336382247048619530765676246604515461312794598048),
    (False, 57822779334696520187496518406670964614555617616748842986450926952448084463748, 53236355177828424554977011131468094326306087718388746054213164246647337375292),
    (False, 24475847460280743807888657044755187814513218589487454650382837043715265767578, 23422987603782151801629503284736265490974482593280898544474491985004874416982),
    (False, 4738115980360627621847494501005168977530930148574607745021623963006391466957, 49114532084312716320711042010269161537096711396217160047434684289173428573191),
    (True, 0, 98229064168625432641422084020538323074193422792434320094869368578346857146382),
    (False, 83329950372645553431434798284731711374093460868673635978161397028745737346529, 106244031747348582221021610700305236188155326121576531282404374814248999544723),
    (True, 1, 96695974284340915679345774451202898846313697019017302222386490567429487045077),
    (False, 80749138447721016636118207248986658853359587340351811756609174553303147132579, 1400450559552659205096507660497952091412168945590059960365679033385456538278),
    (True, 0, 2800901119105318410193015320995904182824337891180119920731358066770913076556),
    (False, 67751148912716718775934083480037310255846354906404456581463633653950183866, 26114530825690545479894190216336125368446022454783924798625266581894016870582),
    (False, 5889596818717280673267027395604375451833989734925149723558205738599424639966, 31502070157905217542892259560797034729938346959396882620258976392010094367270)]"]; simp only: chain_eval_dense)

lemma prime_order_part_3: "pow_is 115792089210356248762697446949407573529996955224135760342422259061068512044369 2 16594412270314 59128082936861332894407766607969598690301115558662605240770120584720298029231"
  by (rule chain_next [OF prime_order_part_2, where B = 115792089237316195429848086744074588617105774088848230455559939452377164152832 and A = 26959946667150639794667015087108818864712470113137680391308652108463 and ss = "[(False, 8570364616452793303446954590535225148307093503701682508924520787447966696362, 19000040411628983189408345708421093741166106972423478399528727268593952367322),
    (True, 0, 38000080823257966378816691416842187482332213944846956799057454537187904734644),
    (False, 12470680444765551176291150965367982326658408343553058644702756016015289933956, 99230219354846551267571285550137347350015133644254128112632155104039502112972),
    (False, 85037211957743107999359854976983778921960678067053251455654458558614224055983, 58245555105094449567864426990673696858169884942116840388186717464238214763057),
    (True, 1, 699020999832650373031407031939820186342814660097920433951175867407917481745),
    (False, 4219894135594678599348681971304747924739836936997761755232200335183913210, 47887822370782790358612593682681887669875360828869486961289054999563843030535),
    (True, 0, 95775644741565580717225187365363775339750721657738973922578109999127686061070),
    (False, 79219350719186810992479142650026965467417997523097565635062943359220764719940, 72790481479774182863882506026755131611704355432015552012827693952932630527040),
    (True, 1, 29788873749192116965067565104102689693411755639895343683233128844796749009711),
    (False, 7663537339180695186464764380917355606255251557891218142348666893245471058075, 32728197194424476517342412908635326117829167513732361851488325529319396573846),
    (False, 9250501471229467043315415027368699822583184001882217674358548476514733996601, 29841912543193145268721874961540213973020859755458746313354938734202924041947),
    (True, 0, 59683825086386290537443749923080427946041719510917492626709877468405848083894),
    (False, 30763405352079613591777685212747266330194343710263767975475514112693689794818, 89086452294651376280203189138985949209742281562657707924274180757537939923394),
    (False, 68540053440346576134003697911077645674277254530918843607311182085652179157631, 45738587772227379492845101429852180032895419485409214885680118456990471549397),
    (True, 0, 91477175544454758985690202859704360065790838970818429771360236913980943098794),
    (False, 72268094501593684577892245014825324294757728507989560686567833892707139649445, 59128082936861332894407766607969598690301115558662605240770120584720298029231)]"]; simp only: chain_eval_dense)

lemma prime_order_part_4: "pow_is 115792089210356248762697446949407573529996955224135760342422259061068512044369 2 8496339082401147 96213290658711167046394175693220305499842925501851947061557194395482431659567"
  by (rule chain_next [OF prime_order_part_3, where B = 115792089237316195429848086744074588617105774088848230455559939452377164152832 and A = 26959946667150639794667015087108818864712470113137680391308652108463 and ss = "[(False, 30193169633868773222429853122839841151770544945328433721301786768008634175189, 95340511660213023098613528639597170268728203281000218415081540807424043490620),
    (True, 1, 74888934110069797434529610329786767007459451337864676487740822553779574936871),
    (False, 48434677104355882355194943283778672093012483612183346158769932487240031615984, 55739241465273798882739425940558138651976569995515232604273182072165057676545),
    (False, 26831392889715867143065815824569117367258384535670074608699358518842631679409, 1390855470746192687947763652537189177780070297143504724499959969039451439104),
    (True, 0, 2781710941492385375895527305074378355560140594287009448999919938078902878208),
    (False, 66825944801472559903600713577533103525489014026377808540579415285702231375, 68817829004181772519983267139702330692667605020703619312721139435220177413889),
    (True, 1, 21843568798007296277269087329997087855338254817271478283020019809371842783409),
    (False, 4120674400877838113205259311229980910447289272790007231734443257173412701666, 47319253889227618189496310615356564578584233963349405032084129165663333442527),
    (True, 0, 94638507778455236378992621230713129157168467926698810064168258331326666885054),
    (False, 77349387299350004162099111881615076501024245913556095989027060454164532444976, 78212863912488799839581532996305498306885962210935323274055358306547485442772),
    (True, 1, 40633638614621350916465619043203423083774969197734886205688457552026458841175),
    (False, 14259113885268566409536678722256153994345540197185850185153257010565394089281, 73364106179035638562615351621779953225451876585066973089432870714533656071936),
    (False, 46482381587147596399231672012862692566805952603073983498687068693290363291277, 73531160295915006561950944850812290420953606524278982652776434413062512118883),
    (True, 1, 31270231381473764361204442752217007311910257824422204963130609765056512193397),
    (False, 8444681992692220826713448740552942401052960939737927483005956919503136525289, 106002689934533707904545811321313939514919940362993853701989726728275471851968),
    (True, 1, 96213290658711167046394175693220305499842925501851947061557194395482431659567)]"]; simp only: chain_eval_dense)

lemma prime_order_part_5: "pow_is 115792089210356248762697446949407573529996955224135760342422259061068512044369 2 4350125610189387455 112612084575810118190255319820676967435907611177668299286285976969014196364102"
  by (rule chain_next [OF prime_order_part_4, where B = 115792089237316195429848086744074588617105774088848230455559939452377164152832 and A = 26959946667150639794667015087108818864712470113137680391308652108463 and ss = "[(False, 79944989010092991075655431037429453752203137738201959821289938366251672550461, 62939379561079617711724424400161985859800046867074297108254420963926359223380),
    (False, 34211020170273850591927950352972860278022703249780679799282352955541555596643, 35180376863933177170314206738028260596138605488503426658135566937711255171133),
    (True, 0, 70360753727866354340628413476056521192277210977006853316271133875422510342266),
    (False, 42754524069081936837030047201430052391753107339270360376974115635670994601664, 3918894166219177917490129031683862873616204747482595024491212082169016784740),
    (False, 132631957768088496773183055039553799654575557456025139466764308144939714252, 92127862028670012207557908700098109253443791593470105892579595726184291220612),
    (True, 1, 68463634846983775652418370450788644976890627962804451442736932391300070396855),
    (False, 40480047716782276640287281494124143552389054534626717777249199251118504244700, 88993138347041774856638448829468051156377133694409413601501541288915960796725),
    (True, 1, 62194187483727300950579450709528528782757312164683066860580823516763409549081),
    (False, 33405710037185025722842789931615688523707869401151246464699414686619135123527, 20907524640392750603796778610599664336386933910180085408585672885567628175098),
    (True, 0, 41815049280785501207593557221199328672773867820360170817171345771135256350196),
    (False, 15100326440937360035044433289172081388720989703943712250444986364100145430423, 16675409349949472379122879407261100698798945155247558645567557208849810800329),
    (True, 0, 33350818699898944758245758814522201397597890310495117291135114417699621600658),
    (False, 9605812586496184880940422650392983261285257205107264856233135018346835909849, 41267910661144077455709900320117722591543979033240309275629914203924853942683),
    (True, 0, 82535821322288154911419800640235445183087958066480618551259828407849707885366),
    (False, 58830977554686074303416980830103718484215694501478808132291528802622862693745, 56306042287905059095127659910338483717953805588834149643142988484507098182051),
    (True, 0, 112612084575810118190255319820676967435907611177668299286285976969014196364102)]"]; simp only: chain_eval_dense)

lemma prime_order_part_6: "pow_is 115792089210356248762697446949407573529996955224135760342422259061068512044369 2 8909057249667865508235 35362127019838517365574812090760536392717657040523298269312209491572503291368"
  by (rule chain_next [OF prime_order_part_5, where B = 115792089237316195429848086744074588617105774088848230455559939452377164152832 and A = 26959946667150639794667015087108818864712470113137680391308652108463 and ss = "[(False, 109519412586738273013614930843970659432512659749002524548070104583950775839397, 103087013386233353062993245588759524273377182729757141180252404591976072060911),
    (False, 91775978837274486782246270174925827078258661230093040755992999561066701445751, 84741736627165633624652001487703252152115984401774844280893678662277935623802),
    (False, 62017724833879536850489112010397501860877785885255172227970809465828886012300, 32977945844945518447175123792708593447258176508149740210715358689665789196504),
    (True, 0, 65955891689891036894350247585417186894516353016299480421430717379331578393008),
    (False, 37568884699072903702565139249183390166523560163236325333486339844117112681414, 29278079630466834363479445614605590318378641377926491256187642858559173630298),
    (True, 0, 58556159260933668726958891229211180636757282755852982512375285717118347260596),
    (False, 29611900180527700957475547551295776920450842621895697491835875375462915537107, 61563825453112355141441947823926110292941970486406881808735209035203284374733),
    (False, 32731982212842776219202919312588717644506494220327517513819717872518430422083, 33268442432239914450039964764160643964252713029385708367732927409596875420662),
    (False, 9558418622679725116567854761397698257703972829140629234507594306694492984580, 51039140974421665900984295083102178873312373154235195479886540838935263688224),
    (False, 22497166509142684564155897080868762739497189423213981201531203777664908758765, 82080082234170152146100689829286336156389941512735024574726490174515078629891),
    (True, 1, 48368075257984055529503932709165098782782927801334288807030721287961645215413),
    (False, 20204063335552728363294061469932999387717353298839345078781055357519207737496, 62040419795996487906173769252707408286303293584429294394524143851661115800545),
    (False, 33240730992175790354911708549447400171112938262286676210949866126338557979101, 110056192713303963157587266178570646053706864512589549632719171379609535564756),
    (True, 1, 104320296216251677552477085407733718577416773801043338923016083698150559085143),
    (False, 93985040574543512184462188748128359379498684668548036077171033628223961868685, 17681063509919258682787406045380268196358828520261649134656104745786251645684),
    (True, 0, 35362127019838517365574812090760536392717657040523298269312209491572503291368)]"]; simp only: chain_eval_dense)

lemma prime_order_part_7: "pow_is 115792089210356248762697446949407573529996955224135760342422259061068512044369 2 9122874623659894280433393 4031307149060174099092706559634304518377665916349350828373956562731730682763"
  by (rule chain_next [OF prime_order_part_6, where B = 115792089237316195429848086744074588617105774088848230455559939452377164152832 and A = 26959946667150639794667015087108818864712470113137680391308652108463 and ss = "[(False, 10799356293636616768859435507797205408332922955410307313747672283020804970679, 43539068032245053318977428063817898456354523333136997973575978082937711254873),
    (True, 0, 87078136064490106637954856127635796912709046666273995947151956165875422509746),
    (False, 65484627077509172957909521834440653976916237254874009369391624621815601779136, 76146483986951327577413468536297210446044628757174275814999033025384494499332),
    (False, 50074984078069868322008040152997833121568770687943071081408606984999764591942, 47871035731021892283531887642581119121689452146944204417588622976879864571626),
    (True, 0, 95742071462043784567063775285162238243378904293888408835177245953759729143252),
    (False, 79163821210536191295177788265968368665787402598184066580841091995460437768821, 32757200368757670466863019692045991935830871438279272627650093335790220316555),
    (True, 0, 65514400737515340933726039384091983871661742876558545255300186671580440633110),
    (False, 37067616045845290744222544510355864691295968380877150741621944421740426812367, 85956847165532481676051859683792917107420073632597837880113104828252486360677),
    (True, 1, 56121605120708714589406272418178260684843192041059915417803950595436460676985),
    (False, 27200774964884739492073060495563440546420862875676263985326508116998251743689, 34776944876286808561354722465741464792729513207235431959532352116152124952984),
    (True, 0, 69553889752573617122709444931482929585459026414470863919064704232304249905968),
    (False, 41779568990456436259433743099125061024678691815132014476855376680305511138016, 23099002635872535461303164926457839155277773917400695827054647894560967385120),
    (False, 4607947973049658780755784783800697851058696843853881644115723562437672383605, 78374537689073000030113240670982610827465009094110872076726634680738649244155),
    (False, 53048253985787340239476842516042665272006130462502025156329035543057761782102, 76006183847349690710949353168445404384149100812088544378194785323548067580387),
    (False, 49890627437789085885742262871397135357737764662986965939687838732484709306987, 59911698179708211430895076754520939024187310570242555585398107811900121363566),
    (True, 1, 4031307149060174099092706559634304518377665916349350828373956562731730682763)]"]; simp only: chain_eval_dense)

lemma prime_order_part_8: "pow_is 115792089210356248762697446949407573529996955224135760342422259061068512044369 2 9341823614627731743163795356 105304164332191819785911605407108348551244619200163721138867846047790459700423"
  by (rule chain_next [OF prime_order_part_7, where B = 115792089237316195429848086744074588617105774088848230455559939452377164152832 and A = 26959946667150639794667015087108818864712470113137680391308652108463 and ss = "[(False, 140350152077661689378336765285109557304965928426724791907918957672023895349, 47355222438205626669321142198400541769843588538661939767245132351627244574388),
    (True, 0, 94710444876411253338642284396801083539687177077323879534490264703254489148776),
    (False, 77467022400745031844608086240739245915798702769802372165430661031132194204475, 96333861772888246687399964113676544523917890003915325056357956284417203946901),
    (True, 1, 76875634335420244612102481277945515517838824783694889770293653507765895849433),
    (False, 51038574351456436645851215587005610964829702191545010400494551233558831237278, 63083503256425744038121214590740984123573465130781705529282471782523103633907),
    (True, 1, 10374917302495239313544982232074394717149975037427650716142684503977695223445),
    (False, 929587761717214537852898054515793088955764488282484454494760142748231037480, 10857903113041981758070227599149093664792309365138013445995310901075815717905),
    (False, 1018152974146894596436179802985314053870345973197835522944343100799828593488, 56312438649882163830850939923664308353966167403185711668972297138805817119953),
    (False, 27386074198349687790038592017480946242579879658282153894851231997325843790881, 54892468667608084924520526633875292271374766465353708093558297945145361123120),
    (True, 0, 109784937335216169849041053267750584542749532930707416187116595890290722246240),
    (False, 104089429147456519569112269407325860758231100364863844149448996953843244884145, 19820620917524137125059519913845093887887510381102662164447605240356689508095),
    (True, 0, 39641241835048274250119039827690187775775020762205324328895210480713379016190),
    (False, 13571117551649077597945777764147417764010557435462232256653172133917141827139, 113273408698663237961603508546078205895550315974385678206600876030599385785809),
    (True, 1, 110754728186970227160509570142748838261103676724635596070779493000130259527249),
    (False, 105936509993228039026839769692018210780131430320755036333156018108367272694330, 95143575415678332405186224659087503234817322718062151886225197327673838780231),
    (False, 78177188136175782507753318647305618149814003369975451757312432318452962041802, 105304164332191819785911605407108348551244619200163721138867846047790459700423)]"]; simp only: chain_eval_dense)

lemma prime_order_part_9: "pow_is 115792089210356248762697446949407573529996955224135760342422259061068512044369 2 9566027381378797304999726446350 49104774856426859992088621095486643274615509539350879371429766720310081356469"
  by (rule chain_next [OF prime_order_part_8, where B = 115792089237316195429848086744074588617105774088848230455559939452377164152832 and A = 26959946667150639794667015087108818864712470113137680391308652108463 and ss = "[(True, 1, 94816239454027390809125763864809123572492283176191681935313433034512407356477),
    (False, 77640185314139744635116705350869688565621446115968818541727092805998540956551, 56075353453988671332298859769608309024435790164661794682352815432261540640210),
    (True, 0, 112150706907977342664597719539216618048871580329323589364705630864523081280420),
    (False, 108623837308171665386772934318744537023657769243719370216928628039344685228435, 5881572099744083277740492073943034261868339296825109916181640095949054943885),
    (True, 0, 11763144199488166555480984147886068523736678593650219832363280191898109887770),
    (False, 1195000128260716969359413429883655519156863047941530822172811941854789075060, 102911198449154253223427340337126749853627381020540209769007222724594804235760),
    (False, 91463197861482174069718358339832281588182049806589924761963008935282162952286, 79893856890280316346352862879702141149372133157920297087573738190731200800066),
    (False, 55124908897780767484869887126967424080799358554460313794319197276201585701312, 78305146347920878442915177099766006255503393564004385544873475708714780092228),
    (False, 52954359718218971081308965004552342709545605046258153920976003180750400164696, 75705384421733525964095225204292468452878797589765478166590921839310926607160),
    (False, 49496518022319740491428016302598886382032141312714903960964157367429640498789, 24001924669251352330861318268021352758220473236619703210458347052277704496459),
    (True, 0, 48003849338502704661722636536042705516440946473239406420916694104555408992918),
    (False, 19900923863005726282354278158825949155942812162796966215415627481701826824465, 17852130664443308660402564137096393095651862502750655945961837967086519467139),
    (True, 0, 35704261328886617320805128274192786191303725005501311891923675934173038934278),
    (False, 11009338252162850784564839824681442725633792959675855598690990013233226229742, 68654398068158330462405130200975450347532303164555614258537119220967511958486),
    (True, 1, 21516706925960412162112813452543327165067651104975468174651979380866511872603),
    (False, 3998275530693729236617193463097349819355909742670765938480168301278240233060, 49104774856426859992088621095486643274615509539350879371429766720310081356469)]"]; simp only: chain_eval_dense)

lemma prime_order_part_10: "pow_is 115792089210356248762697446949407573529996955224135760342422259061068512044369 2 39182448154127553761278879524249953 50815882731736265450351281766301819585171099064927560035069277280970445844178"
  by (rule chain_next [OF prime_order_part_9, where B = 115792089237316195429848086744074588617105774088848230455559939452377164152832 and A = 26959946667150639794667015087108818864712470113137680391308652108463 and ss = "[(False, 20824211136909954272839041759553555810522113884442411944489160930473479937233, 2183287108739275295100792384372273623909693554697201007290371139116417056984),
    (False, 41166392554913627939773777373400609362810714934865848264088883458318476934, 58563284249598957759962309184596382140809431145748970310539916080981192091610),
    (False, 29619106844758290469533744896181585191788353422809127610906517969620745604110, 65312307627555460233285421604179802599230843170206276843563440596360603635510),
    (False, 36839282862295245406365873052363014151666240298284720542246901977249429759643, 27252517073480342811458371344203279509278198078159122396661674367418711359833),
    (True, 0, 54505034146960685622916742688406559018556396156318244793323348734837422719666),
    (False, 25656318731449636332844342267812041775032717644793312871973969071522916765393, 85141367563120574045118853537069276563527942417392804047735533296900843429539),
    (False, 62604039014696845417754512256849353022627747043012455454582726405815625568595, 83640061390854563693936985534601553688070851168360912186303917747515764760966),
    (True, 1, 51488033571352878625176524119795533846144747112586064030185576433963017477563),
    (False, 22894634850475247588827810799173731792894807190106132915870843361705603026407, 49798207721855997598609485108629714800449614984147696278999393761706145766786),
    (True, 0, 99596415443711995197218970217259429600899229968295392557998787523412291533572),
    (False, 85666007383424037418533544749309745206751172313234014764876637412853938808686, 104105392192591045016273883282772302446837726359940908158299322544045368490050),
    (False, 93598213465897721525108243934129965785556158106931404838648415102402805017921, 37015603562936319420748669116420365505901384762085334417707386210557556865651),
    (False, 11832888727306248530622791599800098076441533559152104478724663473844471841079, 21845123470849585099179050405078477527674448437403808221963911254191698819650),
    (False, 4121260983466067556881296626676130758127856492398537129171505660596386611176, 20999110592755884063544743868584595021816737773164727965586959413235562854556),
    (False, 3808227735538201367736843862523837586107310964010458684586345764359987814263, 25407941365868132725175640883150909792585549532463780017534638640485222922089),
    (True, 0, 50815882731736265450351281766301819585171099064927560035069277280970445844178)]"]; simp only: chain_eval_dense)

lemma prime_order_part_11: "pow_is 115792089210356248762697446949407573529996955224135760342422259061068512044369 2 20061413454913307525774786316415976444 59528503786822173307372040169690376813786906749825429330825897490902221963933"
  by (rule chain_next [OF prime_order_part_10, where B = 115792089237316195429848086744074588617105774088848230455559939452377164152832 and A = 26959946667150639794667015087108818864712470113137680391308652108463 and ss = "[(False, 22300780264137591429793070746236755136764603381451510674687870149333453283089, 15527614549482265379787027296405743945693857822406849805903961626368771119843),
    (True, 0, 31055229098964530759574054592811487891387715644813699611807923252737542239686),
    (False, 8328956329971085773788652207982809665462333684106373055982039582494440894786, 13552256530105990493858315373172660534070190004168834877612186839614580618562),
    (True, 0, 27104513060211980987716630746345321068140380008337669755224373679229161237124),
    (False, 6344601200662122418687245946977440498636775932455343344512001768673514059419, 85511738891589373058708027662525392471707699199862368580989975919142325429765),
    (True, 1, 55231388572822497354718608375643211413418443175588976819557692777216138815161),
    (False, 26344686450387280988147264393386893989248072740553249589522546351495103963939, 53560896673644345538984422913971088106638700739246760646219938070544379446430),
    (True, 0, 107121793347288691077968845827942176213277401478493521292439876141088758892860),
    (False, 99100713081467676266500093165324850471417108371943303271559749940310464589898, 58368832280554900353363847084077847713537514881381774724081430185637793795238),
    (True, 1, 945575350753551944030247218748121897078074538627789105740601310207075546107),
    (False, 7721708365831392688071919646215209421265534826956128115456204445945732827, 32300619166391447051936815753742744559335770415570668876336617578902639054286),
    (True, 0, 64601238332782894103873631507485489118671540831141337752673235157805278108572),
    (False, 36041494912035521959665918059585433323178415299829259087504038585649888825451, 99215782147421350080545140360582326780663698728885198164674412333081611443765),
    (True, 1, 82639475084486451398392833771757080031330442233634635986926565605094710843161),
    (False, 58978837749726493992816058832227128791515151151548895686733862211151186923952, 19700775683649096788909359239651944906279261943074304255461804449455487645633),
    (False, 3351874598551994083851179130496190502608664402327739492784632339617315145124, 59528503786822173307372040169690376813786906749825429330825897490902221963933)]"]; simp only: chain_eval_dense)

lemma prime_order_part_12: "pow_is 115792089210356248762697446949407573529996955224135760342422259061068512044369 2 41085774755662453812786762376019919760578 111768804413506557619041002417534344732672588015960397735658458915854156750898"
  by (rule chain_next [OF prime_order_part_11, where B = 115792089237316195429848086744074588617105774088848230455559939452377164152832 and A = 26959946667150639794667015087108818864712470113137680391308652108463 and ss = "[(True, 1, 3264918363288097852046633389973180097576858275515098319229535920735931883497),
    (False, 92058896178742121481753440236228853944308960656344381500900114710122604091, 108487842127888980228552198246492212734619734737362138906431633651529568035430),
    (True, 1, 101183595045421711694406949543576851939242514250588517470441008241990624026491),
    (False, 88418129218798213214449912625199621243911327782440435372727074448567066150901, 72449547051233961465717196607567325604886373895133502657468977959554108446612),
    (False, 45330703537038414180548301197996006820469483985072433221022836949993467743834, 7071764678955963810949465106260387509244103742500208635210144223038320107798),
    (False, 431893543121738138021088091132293962696219545376057586338360666339863695447, 78657758033756187873432334876444963222086744288973571018000990966773173120861),
    (True, 1, 41523426857156126984167222803482352914176533353811381693579722872477834197353),
    (False, 14890438454990633923534462713033557238295849705770694950271236129503688015873, 79764738053537395342295001631056329956182113160428943470398857246361199937472),
    (True, 1, 43737386896718541921892556312705086382367271096722126598375455431653887830575),
    (False, 16520636475243379457380263234855732522287347734674874250971049354976012958726, 104389967897484333735986974293656961603843697705932775125874553579125227116731),
    (False, 94110620785510248560614398818964929698415952810311049503161285799758422529106, 78620545423807239518742363660385501618422149108938663305892068001200034222247),
    (False, 53381800128916771197656603244546164403600736611693072730455644517768204167211, 7495761092919181608767406189982926402693594380060003000325064931551462744150),
    (False, 485235517774004756563649443468233983278443392130762744608066676710253042981, 41723853698940781023615338752732792110373200491918700882859029206516823198511),
    (False, 15034532836936782143291586246146110717845870486849759074177828866212252914243, 95405997621848304996507647443969676886185511618517786542890100596074544569454),
    (True, 1, 75019906033340361230317847938531780242374068012899812743357942131080577094539),
    (False, 48604238334684611157401320712986013451893511525358493786808013067819501798167, 111768804413506557619041002417534344732672588015960397735658458915854156750898)]"]; simp only: chain_eval_dense)

lemma prime_order_part_13: "pow_is 115792089210356248762697446949407573529996955224135760342422259061068512044369 2 168287333399193410817174578692177591339329828 103289889073345162651663859498142169085174720266896142463961605593355866836671"
  by (rule chain_next [OF prime_order_part_12, where B = 115792089237316195429848086744074588617105774088848230455559939452377164152832 and A = 26959946667150639794667015087108818864712470113137680391308652108463 and ss = "[(False, 107885311727386950259571745093069143416928832063307819778727254477468874287196, 69183172489795106963821680363159816985186590765023197281699757507772423207080),
    (True, 1, 22574255769233965164945913776912060440376226305910634220977255954476334369791),
    (False, 4400965791445582309933598631779119393134587875751094546877696522659254063293, 65190744329817351025028379070043859459397681630481145703594826946415583136564),
    (False, 36702275390808953549278944706753689450403485594412494866303393445727244643684, 14108542172337570845261417802641707652821270581437000963425251260176470110700),
    (False, 1719037661260411570020038145121760345495049685064890474535240543843418590204, 14833234754572858587769343649594635235285380075721062594797841285774377728724),
    (True, 0, 29666469509145717175538687299189270470570760151442125189595682571548755457448),
    (False, 7600686878861133160090499845490712700145620447911323325266829784445022499948, 33810156669359927656558182882472928157381674613486350007160913309323062479892),
    (False, 9872234811567976069683406399364069474717333978375920312525359423356008085850, 73191363312059898558509477793973051270621487726606129908637263459490943253014),
    (False, 46263744786106069100622175353860203103659342459558668703797450355339306331939, 104011137454105695639040325167090043944548578059919529053855087789481010282705),
    (True, 1, 92230185697855142515383203384772514359100200895703297765287916517893508521041),
    (False, 73462765996107829120511218301080296179915778973272952615776689891261508756067, 108588907389439548535093991495205110473163848279450084184057599202330837786958),
    (False, 101833820327836891744162971619338235813031172739739390415998209850802954168421, 75575083982278489755308245461571980095441916653814529805635077367133944222415),
    (False, 49326282631902037536948353768540712832038821535486092065512533931503619316801, 84375725481052006519032270011073413931849248632035439163656459950603409288656),
    (True, 1, 52959361751747764275367093072739254333701542039935117984890660840138306532943),
    (False, 24221810110510009975202847195605112740290124184333551661436848618576374266772, 85253315280726205495133132579404769714176511121361569916979668822480037834381),
    (False, 62768776484817541979913684954485513615256694324847879359163142958594349771210, 103289889073345162651663859498142169085174720266896142463961605593355866836671)]"]; simp only: chain_eval_dense)

lemma prime_order_part_14: "pow_is 115792089210356248762697446949407573529996955224135760342422259061068512044369 2 344652458801548105353573537161579707062947490242 74022895576772814658462598548316586490598359053996097381370677758686627056580"
  by (rule chain_next [OF prime_order_part_13, where B = 115792089237316195429848086744074588617105774088848230455559939452377164152832 and A = 26959946667150639794667015087108818864712470113137680391308652108463 and ss = "[(True, 1, 90787688936334076540630272046876764640352485309656524585500952125643221628973),
    (False, 71182794253127355795994452955220150031501916667896052970265703128447322061588, 77129419874882678524203875527567261723406973270429076341807815197930066436757),
    (False, 51376112572152151294230128029871084225698586125296626374619707747327777683998, 45287320443592678122704446400879826023763450951445241738427617289623643369787),
    (False, 17712275570352301687413356580274262086262134279796363340350408698928251355782, 5145596065152582915834566260150760074623624645816665086473787228364035733811),
    (True, 0, 10291192130305165831669132520301520149247249291633330172947574456728071467622),
    (False, 914644827510225870830209465092389922027454933571554185801563814253814997324, 32750758781575961287454388971262606794607026712413097102672588741073490066328),
    (True, 0, 65501517563151922574908777942525213589214053424826194205345177482146980132656),
    (False, 37053039048993765694840820016443901979490061516214502651402198995589385499784, 19278293617259589953729180854041005444469971746996278686256506288928709698040),
    (True, 0, 38556587234519179907458361708082010888939943493992557372513012577857419396080),
    (False, 12838618158727612439687446953189137986820301084872036594624887336929775666959, 15155318651553472108438795124869090772615294543177016972621908863280344062529),
    (False, 1983587004919348425328948353800731147781700702795961472463561031380382233608, 85566927386486733918438055047958428378323153955118392968946511456133242922489),
    (False, 63231427226977204024088419223029166082403377891401019381308014338071858820441, 106166525282080777167687810050320093170538893282855141404019121044051865808392),
    (False, 97341115160245403349343815531213218531899829556376741216269041220086147456148, 74189327540998375469985998118646446173342096515884094279182879030267399795052),
    (False, 47533958135831498288330951582580169823099946682519407819364274337565315306107, 36939923491046618570095685362225325642060095080497168661687418299374003021221),
    (True, 0, 73879846982093237140191370724450651284120190160994337323374836598748006042442),
    (False, 47138209763032206979909895159756971965600055680635410009732008684337466565536, 74022895576772814658462598548316586490598359053996097381370677758686627056580)]"]; simp only: chain_eval_dense)

lemma prime_order_part_15: "pow_is 115792089210356248762697446949407573529996955224135760342422259061068512044369 2 44115514726598157485257412756682202504057278751056 87100853353288773503221377379439407917267979139877395891460378271501865302703"
  by (rule chain_next [OF prime_order_part_14, where B = 115792089237316195429848086744074588617105774088848230455559939452377164152832 and A = 26959946667150639794667015087108818864712470113137680391308652108463 and ss = "[(False, 47320927594764781491217597566154824039683751804996969258040526597602864264284, 57010033494737736407009255419009585695665552749608845731774087267604571279604),
    (True, 0, 114020066989475472814018510838019171391331105499217691463548174535209142559208),
    (False, 112275162879794770070332015827132219056393553341212129060680324901161906716651, 16694331288668296409604808438707049701807115580400651198466929297239362499045),
    (False, 2406906197793024559510849791683065839823381961018502812388809486063853509729, 28231037694492869686957133896223440683403452597493012925767725384398004746024),
    (True, 0, 56462075388985739373914267792446881366806905194986025851535450768796009492048),
    (False, 27531811360964569632179133895277448133229000161897980738077774457335167213537, 12970064373020638506432795499496303542559326301857207120572114763633933811151),
    (False, 1452798468250227462894132892741435976838312094043692823617338782718028825174, 64189692560321102055910574217432640282656167811500809134365878445889699799595),
    (False, 35583748933860915968603464650571272252195703470239789648099320030545387494413, 74480512069252353994040230583034814960441076014526864667394043470861966553628),
    (False, 47907820956752374225679948987970527929470526399853503626549546280340802002449, 87100853353288773503221377379439407917267979139877395891460378271501865302703)]"]; simp only: chain_eval_dense)

lemma prime_order_full_0: "pow_is 115792089210356248762697446949407573529996955224135760342422259061068512044369 87100853353288773503221377379439407917267979139877395891460378271501865302703 2170 29325196105216031250340997569935770673679659227336315563545461291943944939252"
  by (rule chain_next [OF pow_start, where B = 115792089237316195429848086744074588617105774088848230455559939452377164152832 and A = 26959946667150639794667015087108818864712470113137680391308652108463 and ss = "[(False, 65518799311832325030846166508389095140620151955677005097057111205800769661160, 66386774443674632795348814888143091457303300480279567486967123123430803098169),
    (False, 38061355063979262664472905897264701402890066988586732804058302112668825872024, 95407197016289744818123534278275699098734732020118204344815588354765647319705),
    (False, 78611011378927703092370003188206140694909541337628911854422307027940275251144, 15072792665147495272773261688649497362988721726933097232451972839000135278889),
    (False, 1962043178215707730052981471341535040262757455659937107466066144906101627294, 22462966593530157671378121693892731117077545076995050521604181080388179666835),
    (False, 4357679972984913013757104379730550268681552782327805932514952612233000997351, 25182795797145931924795783192040251380499897907971541384767853436598635450706),
    (True, 18942943500814275328691914324361263590401869347274820838032787338472535594551, 46982269703307845198482082548949415639188700493728677447093252558503618424999),
    (False, 19062905605445609732577465094301344245492044403457017210107707620863160617626, 85900729206174939686208652998371430507573489256980312361416213384107432702007),
    (True, 64616044744949930005528626083348360908002726063187189217519893404781489666821, 24960262034937331068011595836533173341208796901717587859379400477788871443972),
    (False, 5380459797395317185258256785086757297826734960949859707212961653347483493944, 76030039897964072075093157835964967968565458253027771947798291306881864335448),
    (True, 57191138019513145926509164229222912531912125188268494685153980020155662590916, 76328958529752053317681275124988212857777331436401751809693002587159964763940),
    (False, 50315267217024453799856359207008205371821454807852810460589558480401519840001, 11343462399800226940244550172605102105190717810197626963035707988197631319231),
    (True, 8532752640887469241850560861444670494168022261117325388001420255748556517437, 49338182828922703239561654018103628459675224400987918749498044927111174019140),
    (False, 21022647587245427399886468171492521376746692929710437243930143723396722559688, 5839988159296725271949422596945436476966843731922178684841015725213579542728),
    (False, 294540515965365435140441598545943236634244913400444990385138327443584027965, 64791250057576908879711193871499369225058948827666091253615096538583760902899),
    (True, 48737121925394324645026677515330812417575884436732363156477951547477164791714, 71578259731726698543705319928322578350348442581176152279545247304349013677531),
    (False, 44246954184537637326348001080589295937793070514356920312477417554105439835861, 29325196105216031250340997569935770673679659227336315563545461291943944939252)]"]; simp only: chain_eval_dense)

lemma prime_order_full_1: "pow_is 115792089210356248762697446949407573529996955224135760342422259061068512044369 87100853353288773503221377379439407917267979139877395891460378271501865302703 2223247 4470361887538435940527919741186225990841324127198991895160442790853219999953"
  by (rule chain_next [OF prime_order_full_0, where B = 115792089237316195429848086744074588617105774088848230455559939452377164152832 and A = 26959946667150639794667015087108818864712470113137680391308652108463 and ss = "[(True, 22058930130163061848146038493918753302307637478321382544955944108660653272429, 30441579961033616360178752637779115132152906666648567663963612203489233995855),
    (False, 8003049231113811383379293204078699755081832640666350106715429066427989424849, 109588736904228842461269163320476422521183286372586641957353273222532678055744),
    (False, 103717718007891009958459309695627572276311622343242766651919070372765828342635, 75262202490422748160560264237733591126936316698821213988095719014561117021221),
    (False, 48918705607073387453906372427438630731180304975236197380812814140787206976127, 79709129703412927751665910077865897481201960910503125347234530008928816551978),
    (True, 59958614310884178804982390999804477768309658726705388267154556690761078669832, 4197459976496321767981671772376286714798453429954765146472899718166217620526),
    (False, 152157806068091204265620581013402101816218611769330132644892562259218416194, 41998099943980458546352763705032873370536354490413109455653819865780100405090),
    (False, 15232822992771569156712868528521240691441098713965461439944592549703480446350, 83647912254145505551825225599927054287439168913508073518811300237526973804950),
    (False, 60427040156137267207444498703118056233371036285588465658395305777543693864639, 21772260984055395703171782099819376850067294022129352110834095534180396334709),
    (False, 4093814625769998327457902751180022337033683100838034404611367878301711640137, 39665624248685355219368130031315023680355590830325869283027225173731652876128),
    (True, 29837182698853982011624919383715642111000741580447598278143747888798301658645, 35999652474967833171114676694543736113797778880171909455483995784566750153979),
    (False, 11192258358548969203029970484214964331758445181201583132472718989032722628542, 20150709529650857609935458520495652661733993320935404601303949925680399752443),
    (True, 15157719388915394336715845057115265481861824308245987524007584037935864546459, 24144510581816682170783088458375648255616358949048885404158195064479388914058),
    (False, 5034518292319740063500172642888924737293844184403164429522949845630036908798, 92026813733562298726396401018432156578945666074978694226452442213032327568902),
    (True, 69224193658132287426841008998733686870407187090612425497240960446006537208269, 9426419490854404535956133687904027725405935891238317451617133847679197654845),
    (False, 767387349373540424499338029129004272333569129159947392286125192349857882890, 43259675999320073375477984006343511205271489716356953853114042843543666027615),
    (True, 32540691864384844237834155658619266596709221852426811519381060955273907572768, 4470361887538435940527919741186225990841324127198991895160442790853219999953)]"]; simp only: chain_eval_dense)

lemma prime_order_full_2: "pow_is 115792089210356248762697446949407573529996955224135760342422259061068512044369 87100853353288773503221377379439407917267979139877395891460378271501865302703 2276605597 30278434011217161816964248652456154951775534494969795595179679019399316904765"
  by (rule chain_next [OF prime_order_full_1, where B = 115792089237316195429848086744074588617105774088848230455559939452377164152832 and A = 26959946667150639794667015087108818864712470113137680391308652108463 and ss = "[(False, 172586361830397481828831425870102426998592106108015893362557829871798913859, 28189363445393036468553017775402736729494621774662182982076478892643502992238),
    (True, 21204536754831594977385786201403972811521974222696135162428515198745553248359, 74798708765071977529022063509109822782279472655545997517961401371786244978843),
    (False, 48318040300301117916187815684248228770368877927737117967363668673636184337797, 75252320655408633706836374752728480541687748011163045681387883729818569903556),
    (False, 48905860518129071299459921499531418650154982017760701772516982763302168111497, 76709198788332740189880367028277383725401818298003932334767076729899738434743),
    (True, 57702013324700168468950583444252553848536667792197010868220823457850948284309, 16482275052545667340921511811785665469495266533326075997908725653516472504308),
    (False, 2346148107011372480477534167222064190706836213148778478009511082540120595605, 23085615794151851872011002547332374096400874850972598358495083580476612160619),
    (False, 4602608522133200094063003697334246349735139473830931511650913832500527556940, 9900047796285449200574969762610028459744185894274866322957812152931000592301),
    (False, 846439053281806108701572343876160703768618864652487115836253409109425647059, 102995292658349255468205003590388924195645804842242950102869756062400078113830),
    (True, 77474877110271443680417975425509750907380972611000002746647792081812269640398, 40945057677820238313859313495625775618610483412054410205904905408598789863628),
    (False, 14478517139408198200630553078722844226186621243245678507103795297367388538872, 35334780884807741958332530584122883207331780186268707771887909570778292110616),
    (True, 26579445876713373204251295656043987864530223904645654191687431157018902441968, 104745509433263536710206640626665123579504065623556283737546476407861536116856),
    (False, 94752774747004195595626581719328692445820869056034228925096250058705458635815, 35324405861489335351525770140258846724391313281339565285512406956863794849001),
    (True, 26571641601043454103278020503259634620363935490933679743291574204463507868036, 39598717393343517800674786886123135572779423167213116406304919613916013260419),
    (False, 13542016815580886420132939531341905877923723033071714827163255064664308549778, 104781154958431572962383709474700787161588346624814645890464579046350330955479),
    (False, 94817275595377185020957714832882912566280877430360891660995867797706782306139, 80515803904812646199095111105636370319710342103929430162322303145409771038150),
    (True, 60565408883804917628780159172364199752448993196851423103302159870165356580365, 30278434011217161816964248652456154951775534494969795595179679019399316904765)]"]; simp only: chain_eval_dense)

lemma prime_order_full_3: "pow_is 115792089210356248762697446949407573529996955224135760342422259061068512044369 87100853353288773503221377379439407917267979139877395891460378271501865302703 9324976525468 12379782852299687213175387756077735944697777402587402117482984147992313006976"
  by (rule chain_next [OF prime_order_full_2, where B = 115792089237316195429848086744074588617105774088848230455559939452377164152832 and A = 26959946667150639794667015087108818864712470113137680391308652108463 and ss = "[(False, 7917497407842232929300514920793914717780996472785926645352664479056138967023, 16310276008659308941611909329602500733684772678513436137930831947590475861738),
    (False, 2297437634062954639510562173767555643176649826133475985332472947327726418498, 60699976806468771109397868950935464115180772088561850797164528321205254042882),
    (False, 31819852370159259945662069924263536247149158744555702205093881409957645034853, 61346044534063074059133431724420090706749987672407418174021636291804607473167),
    (False, 32500814223487241891378136983058850838145730537672132951458970324931817618050, 24262261110516290496401654650869019055524738694068930917992306472527129749439),
    (False, 5083743787759748499753519856839997646260028557953748942554044606368291397812, 44211359318597329441719677323357390864570702114902265537599816426006147294093),
    (True, 33256564855332878887538518370820391558632183676811771679326715027755419588060, 25912019156628040486903024076824072266140121256446527739849781334409386199239),
    (False, 5798606289534041306336386058885656524695933010948538787333373612434603262141, 45708454867613643183617772397485403392214750717692580699842611371637874245092),
    (False, 18043226101475447022390986163974507963185368211273491788037528725330103311680, 31123443683626588171718162507474997910266172118279138938088650074514890158544),
    (False, 8365586572741790310887709584121220606825131812488555561586841424037006779782, 49550185997593811765448988075282374293707817323291440907134883581087260052378),
    (True, 37272524519046313695024605422886174461771289777846559620118094734159851592131, 68087271337998499121119311369954724758772780258561005271079429272030241717395),
    (False, 40036211021569571679285206264720974186480462357610403679997523356729407350692, 108642452824974845897496121540892255159469559727250283604283143001313998732677),
    (True, 81722770665782117588225546048146651478183814439081128856594964048696068470636, 66012899332576610403674197955529978758590945792093245047026009741225376877247),
    (False, 37633856578719955548211044723338325293733076877049879342663237096460980266995, 47011642666002115402855859565873739206328375404717843129221858227014399997854),
    (True, 35362987417126903644751561010844080572827554729276159022678716171551204795415, 19182049422007765349073965903102334909331548967749043135252013483042212631227),
    (False, 3177687029723611959266876846315432133082671136561318811676768613546994568452, 69414960039600043565313898843780261056009262196244683767483523604721263878741),
    (False, 41612831326894463260066288337061927964211514904930562223773080697165567053545, 12379782852299687213175387756077735944697777402587402117482984147992313006976)]"]; simp only: chain_eval_dense)

lemma prime_order_full_4: "pow_is 115792089210356248762697446949407573529996955224135760342422259061068512044369 87100853353288773503221377379439407917267979139877395891460378271501865302703 9548775962080504 111133518242674321799730130500577701925267416417277236777803740773152760183017"
  by (rule chain_next [OF prime_order_full_3, where B = 115792089237316195429848086744074588617105774088848230455559939452377164152832 and A = 26959946667150639794667015087108818864712470113137680391308652108463 and ss = "[(True, 9312291177377544579637333869317012219271863197556609417415322961254394429328, 48708457196044439751179333972364024062669875022040994892736855412788019802096),
    (False, 20489429101748167966114255127887376223360026017147140939996889656861700640655, 88639599890919404687483086019440312734184371234037749471203551055067920771521),
    (False, 67854192133529312346539214164235380185846463248759834681049155117869443085390, 4576190021159035671498035750842984360105547446801305070481312308447948984531),
    (False, 180854454329014400648164535217448840057176490549204383176193025253571377824, 65672062986329177527203509984683015692845054900640921367282624861167726616905),
    (True, 49399684957654308054872216680602314709777175265643351832115087400567003539153, 102656754384656855128260187153462793449201521494184565294355802337547577314758),
    (False, 91011478354509445542430296161560229587148434701356602616758837800144873311844, 92631635522398443636935113763485664624162753150824805954395361076641703392128),
    (True, 69679151283420381741331596506952863953281844737283140033436015575113041506571, 114590067937319070700408389698351708558632731283449014973080564532129670273285),
    (False, 113400524676818734341210622071175227243739044069681295765071410971269521308881, 76018735714622634435470169337421342688256264429883914363217786101360558950136),
    (True, 57182634813273274503526666410473521502488744392708439801620854093299329749108, 111131177299988301208717580940179048362790337529957718626501439554430588844756),
    (False, 106657878377557243073942945525233933709901561618776325451606248280567393877163, 24493081947087995222267887592259374426261534299996323191193537126416276854389),
    (True, 18424128568643109616052077453432215290681552463883328825041279123515916243221, 93274646873052715533313319825685067910985185837094627320117182118943191640918),
    (False, 75136046068633807321491692089773273802419813840100022528554795258137556055600, 34472179441104432097617233855460479955135225009871926489193039759097620966324),
    (True, 25930581844958625518658582851538203374209736841288508255298457483769478328624, 73973096876368191695205966760813416058181919659039204895939831512682178455516),
    (False, 47257278962638713512975285248971689650292144460578082363493015275976677732688, 18912037141841657233564810137687806011210223863360559698468674955060613192384),
    (False, 3088856512508709387447757670721443871232169330960134205569279997159260285571, 104320498804300783568078055470278339261378681117804056503067301055719833103757),
    (False, 93985405609252838090873200624761343316876960347906052892391854912169636891328, 111133518242674321799730130500577701925267416417277236777803740773152760183017)]"]; simp only: chain_eval_dense)

lemma prime_order_full_5: "pow_is 115792089210356248762697446949407573529996955224135760342422259061068512044369 87100853353288773503221377379439407917267979139877395891460378271501865302703 9777946585170437686 25181262817213567177431640690075051032975586413979889387187831686544513766697"
  by (rule chain_next [OF prime_order_full_4, where B = 115792089237316195429848086744074588617105774088848230455559939452377164152832 and A = 26959946667150639794667015087108818864712470113137680391308652108463 and ss = "[(True, 83596594042837873430332912203482676104988158350692562705502196762582445827672, 84032801934682118698653592468299971429948867638464970600900044958789392815983),
    (False, 60984406181367570922934078822728882780427316396381885199217708332940397494804, 98542952281222481013170963479079741272971896034320096549379988913062405297613),
    (True, 74125748090217790464564102150466365349721256891070797148671874765631154982546, 45341749332559287622960932001307514400135422850429957651482836779912075764465),
    (False, 17754876404395739047076566153365907608201312344329062208136814180856614968264, 36927844097584443908439246954725117683418827712794909491510481357561461830809),
    (False, 11776846579028114639677610289131172917599254829092059973341458541450682208992, 79449248738134217122281350223903652045519616725770652921994001441615306828433),
    (False, 54513077431280776139684207965931325787341843583741846917943659888833153262798, 8255404239422577124218840011971270720122797775496867323533720365283604151027),
    (False, 588569561366726651086923408490441239830172482797344649852124447546862163067, 107202160958800132870177419687335385424334614538239249699381910379971808035006),
    (True, 80639357701415306557187621739325684932072384554513816027306617268892524031085, 114104490021635357053169883111218895122274502334732560843385821625399555210853),
    (False, 112441486563427605548457750083675692618429570692993237329083967541009569133831, 96120255340100075202425712098055443469088751251119741810423738528182918039970),
    (True, 72303352688017112542103553287396416897884519540888341132119101529538676355328, 8962122245748700521213114633770724995275955794043501245668164987620357490878),
    (False, 693653907581106834329816753070235519885356707130720200363733064822942761383, 3948990794503477688152483568490244768915604361437700920591944700428377408557),
    (False, 134676974924798746029722975590716325847877917169923686408326542031206904851, 53483577658279706334600233611451113033995771750112028573826804203240023488230),
    (True, 40231291154615484980379875221104738995444038408583644814798459404327602845640, 69196255056698476513023674603740379840592334153176587631870990803480569484530),
    (False, 41351026192931217680985564369623551215746935540127185233912250032867816043075, 21969296503343716242319423129974746143808955010006119723062011011145494126225),
    (True, 16525692610454399415406275370723627243283488396410460845559543570539982780918, 66696077365464612174451174813549163485395849465497491176746393834668093135433),
    (False, 38416844935398113185266652370529698625637007105077758453143464543102373187368, 25181262817213567177431640690075051032975586413979889387187831686544513766697)]"]; simp only: chain_eval_dense)

lemma prime_order_full_6: "pow_is 115792089210356248762697446949407573529996955224135760342422259061068512044369 87100853353288773503221377379439407917267979139877395891460378271501865302703 10012617303214528192202 72126961917174455772256878928054182750773727776407652648103341730386297357900"
  by (rule chain_next [OF prime_order_full_5, where B = 115792089237316195429848086744074588617105774088848230455559939452377164152832 and A = 26959946667150639794667015087108818864712470113137680391308652108463 and ss = "[(True, 18941790366250480842338895088199006082075783243779096310729488682533246134282, 69380183078226958818038384443532428532093647221395175998341310822814509523933),
    (False, 41571145635204320307132782943585518342833186307838821208454071458800833610967, 89029871013628316045891490325856872277487388685395236230003580553804710793666),
    (True, 66969840445081964725946570009914979263032646838974990054579395477002134976331, 95137581028993841031516304103725074940117021886567588801682916499442228249059),
    (False, 78167337559696162794761091749734788536326426527840735574563889313526702593018, 43162669028206646747118212766337862096703885381632892942518237130672368769839),
    (False, 16089320180189687024650926267895871025226931429826353806752491831318812559322, 43498181661867871786519853545379835277576664338160013087128540304146847528103),
    (True, 32720100033623116969838585905388127800968056206272354422415898809385094012662, 21565776281799713870893981403752422955596022919460749685892305782864202562131),
    (False, 4016532647508694234334343175750696855541279986756884937173956211582981824633, 40869318110796250671235381425432645120814643993002569459423499170208242119584),
    (True, 30742622468366301538693811287758542262983025586233728017932253260045697217089, 43311730739660212166970617847856034576555703066506161830775914020797091413711),
    (False, 16200640583113768408805461726352934749041276825405477344928689379943180290658, 114885873838617624720086225292133202154485926777755197272684559341273346586719),
    (False, 113986750715629115840530644735513019369378928473827354952893005002481397174268, 54001352119440749126746504887940227684004509608926476678430860180367346088069),
    (False, 25184328658498828737182932297602149555817524048074029090849655268859471370569, 51532749606353551514094034636814284782229393896259702775049830984288935372800),
    (True, 38763843859838591202510593948549819374938453487398916304889023336839534650308, 45712956705571715780462260709984245537288640206946546072913345900661557162748),
    (False, 18046780440840142876132481600578565018777399973566339717175102494409800340891, 97308113161278746888193290047414952137723801285092977269454567208628241918725),
    (False, 81774747753332275562395786333651679549037222328318819486135654139761164943499, 29778709592936407928201272739754785894962088846837631589298993932138639518494),
    (True, 22400070980605011715447865444323761978698169149781292517801923536398748750529, 30960246357067006791695123178458321045621134556229069726063551844263316468081),
    (False, 8278085843575494868356852397898530267218617805101153136799225616799804932869, 72126961917174455772256878928054182750773727776407652648103341730386297357900)]"]; simp only: chain_eval_dense)

lemma prime_order_full_7: "pow_is 115792089210356248762697446949407573529996955224135760342422259061068512044369 87100853353288773503221377379439407917267979139877395891460378271501865302703 20505840236983353737631046 18219417090205270408698880036961711710817408370869018412074353662400076717034"
  by (rule chain_next [OF prime_order_full_6, where B = 115792089237316195429848086744074588617105774088848230455559939452377164152832 and A = 26959946667150639794667015087108818864712470113137680391308652108463 and ss = "[(False, 44927927899726067355994106258297405815898939463247212740889930164516992482911, 82501915429380609192881476353785657319466294666531337152098917705882786131841),
    (True, 62059397029492497336955881772795419815199701897599361424341971201951952513969, 46874182920210477487703213064529397063862549851106338952096659652168711375662),
    (False, 18975294766862525647971380148260980538781609217473296752367975969482866764254, 10884890410015241356726157816129911436701676371232276430385544293878974752518),
    (False, 1023220498447013451712723503737615269604294080678077338820724680397433875263, 36153039041556815696100338639724887249942228181531659937133332853317079796277),
    (True, 27194954105316602290780801295398153715653906455271146536050561357635227662707, 34386008897566512177212015789689914058992179974352654755724313993764026789848),
    (False, 10211385043372822211935755983937812545209931940735112974441461573797308870964, 50729778386890833951866013197679944790498251102859157685851823749157092061388),
    (False, 22225269728986684185150129377905019939280462471570514739175372388958329536313, 49541950686122636874760396107311543419290775448051559161503141998131707815047),
    (True, 37266329772395993245992635635641685260846469876640668253696486178984337170794, 61353930211111578030147626650361073776718074763300461074646198762418934213055),
    (False, 32509170341606350002224053728702302350558680867581188021760016174600223939408, 109773357683947891170310664097141832174832778290788891782165181425955268839473),
    (False, 104067472479201220668158220298297443939859622711449716004178010282548122977538, 52837375641916230758592613333880675064294668594044260353236134085340396534207),
    (False, 24110354029913036531709350907944004638687541490275594702734256969665109900899, 47279932492910712650917562820810992744823948858782545746793799249483840131118),
    (False, 19305222245996616074322572794064147039846688168194007720635024996758479409845, 101614116939346757483754923987519880551752548910699798912836255195009856517119),
    (True, 76435932355268265199018812238076941714541388341362472674683684750839379605476, 63411204868482185224623092695350567005670153265803915542142553722718809108013),
    (False, 34725868842109025987937197832527286099588518830849240795430773802297753128121, 92320495487095264092594444757292106071056631879162305234980231690610207207520),
    (True, 69445106256924258162725615854402398002212742623597786063840237993862110790322, 18929459760202210432036615344789611412486293155066023212624789127042618129742),
    (False, 3094550320809539319907449774123193681405291240723841687662429801700475837370, 18219417090205270408698880036961711710817408370869018412074353662400076717034)]"]; simp only: chain_eval_dense)

lemma prime_order_full_8: "pow_is 115792089210356248762697446949407573529996955224135760342422259061068512044369 87100853353288773503221377379439407917267979139877395891460378271501865302703 2624747550333869278416773953 1"
  by (rule chain_next [OF prime_order_full_7, where B = 115792089237316195429848086744074588617105774088848230455559939452377164152832 and A = 26959946667150639794667015087108818864712470113137680391308652108463 and ss = "[(False, 2866751618099097995951711074011811329413601090277355535016190277415612777615, 75491740519538286152998158602226688660871310043979178195936135740421095757221),
    (True, 56786219725524566233360786996158198288003188935059090184937971168703253053387, 48749565470566314469336781136437832494204376293959766822752452780381293340560),
    (False, 20524028452856341979093883237742081266521335673450578887397565526542634585409, 99995403161571070765082161145015376585975405803474498309099656320708813101679),
    (False, 86353745939241908247385394576747579468799018363659897256900879324560765608803, 65460144638868422084210726607264581539226157559627882926975896861883959638734),
    (False, 37006245982461540493176839758298482873316422831769877211924503255976972085194, 34789957418082413212757900335657300040418340547650876914784152081658017150170),
    (False, 10452710072042958400120417004134986115402647185968864737281654094062536930761, 80847692928423665565271616758806678296934551281453533806891672375849618094091),
    (False, 56449015614307492191992620930562598047773511189720146040527471151672741585631, 102857856980175377630779231772724905611287751195832211263074225483200844254442),
    (False, 91368407070834496198479742761508233641316240102147360902438459375799541759747, 61159988453688570808009946371296879930437868336924382897965038053708034516721),
    (True, 46005622851453976074134830149988866742550308474722586237623917837568150402398, 1)]"]; simp only: chain_eval_dense)

lemma prime_order_factor: "pprime d \<Longrightarrow> d dvd 115792089210356248762697446949407573529996955224135760342422259061068512044369 \<Longrightarrow> 2624747550333869278416773953 dvd d - 1"
  by (rule pock_factor [OF prime_92 _ _ _ pow_is_mult [OF prime_order_part_15 prime_order_full_8] prime_order_part_15, where h' = 87100853353288773503221377379439407917267979139877395891460378271501865302702 and u = 51921223869577043025896233410665706485550009771255122920941358412934482395187 and v = 39056061057604895623894328425221634065315908529882929548383616334901599789017]; (simp only: chain_eval | simp)?)

lemma prime_order: "pprime 115792089210356248762697446949407573529996955224135760342422259061068512044369"
  by (rule pocklington_third [where F = 2624747550333869278416773953 and s = 16807526773760257686241 and r = 1733344679570029865983470383 and t = 1733344679570029865983470382], erule prime_order_factor, assumption, simp_all)

end
