(* ===== verification/EccOrder.thy ===== *)
theory EccOrder
  imports OrderCert PrimeN256
begin

text \<open>
  The order of the base point, and what it means for the callers of the ladder: a regularised scalar computes the
  multiple by the scalar itself, and the ladder gives up for exactly four scalars below the order.
\<close>

section \<open>The order\<close>

lemma order_numeral: "order = 115792089210356248762697446949407573529996955224135760342422259061068512044369"
  by (simp add: curve_n_def)

lemma pprime_order: "pprime order"
  unfolding order_numeral by (rule prime_order)

lemma times_order: "ec_times order base_point = None"
proof -
  have o: "order = 1 + 115792089210356248762697446949407573529996955224135760342422259061068512044368"
    unfolding order_numeral by simp
  have neg: "(of_nat 79657838253606452964112319029819691573475036742305299123656433055298683448842 :: fp) = - of_nat gy"
  proof -
    have "79657838253606452964112319029819691573475036742305299123656433055298683448842 + gy = 0 + p_nat" by simp
    from shifted [OF this] show ?thesis by simp
  qed
  have one: "ec_times 1 base_point = base_point" using ec_times_simps(2) [of 0 base_point] by simp
  have "ec_times order base_point = ec_add base_point (ec_times 115792089210356248762697446949407573529996955224135760342422259061068512044368 base_point)"
    unfolding o ec_times_add [OF curve_base] one ..
  also have "\<dots> = ec_add base_point (ec_neg base_point)"
    using order_59 unfolding multiple_def neg affine_G by (simp only: neg_simps)
  finally show ?thesis using add_neg [OF curve_base] by (simp only:)
qed

lemma times_mod: "ec_times k base_point = ec_times (k mod order) base_point"
  by (rule ec_times_mod [OF curve_base times_order])

lemma times_regular: "ec_times (regular k) base_point = ec_times k base_point"
  unfolding times_mod [of "regular k"] times_mod [of k] regular_mod ..

section \<open>When the ladder gives up\<close>

text \<open>The prefixes of the scalar that make a formula divide by zero, for a point of prime order.\<close>

definition ordinary :: "nat \<Rightarrow> nat \<Rightarrow> bool" where
  "ordinary n j \<longleftrightarrow> \<not> n dvd j \<and> \<not> n dvd j + 1 \<and> \<not> n dvd 2 * j + 1"

lemma proper_prefix:
  assumes A: "on_ec A" "ec_times n (Some A) = None" "pprime n" "2 < n"
  shows "proper k A \<longleftrightarrow> k \<le> 1 \<or> proper (k div 2) A \<and> ordinary n (k div 2)"
proof -
  have c: "curve (Some A)" "Some A \<noteq> None" using A(1) by simp_all
  note zero = ec_times_prime [OF c A(2,3)] and eq = ec_times_inj [OF c A(2,3)] and opp = ec_times_opposite [OF c A(2,3)]
  have one: "ec_times 1 (Some A) = Some A" by simp
  have n12: "\<not> n dvd 1" "\<not> n dvd 2" using A(4) nat_dvd_not_less by auto
  have two: "n dvd 2 * j \<longleftrightarrow> n dvd j" for j
    using coprime_dvd_mult_right_iff [OF pprime_coprime [OF A(3) n12(2), THEN coprime_commute [THEN iffD1]]] by simp
  have cm: "curve (ec_times j (Some A))" for j by (rule curve_times [OF c(1)])
  have 1: "apart (ec_times j (Some A)) (ec_times (j + 1) (Some A)) \<longleftrightarrow> ordinary n j" for j
    unfolding apart_iff [OF cm cm] ordinary_def zero opp
    using eq [of j "j + 1"] n12(1) by (auto simp: mult_2 add.assoc)
  have 2: "apart (ec_times (2 * j + 1) (Some A)) (Some A)" if "ordinary n j" for j
  proof -
    have "n dvd 2 * j + 1 + 1 \<longleftrightarrow> n dvd j + 1" using two [of "j + 1"] by simp
    then show ?thesis
      using that apart_iff [OF cm c(1), of "2 * j + 1"] zero [of "2 * j + 1"] eq [of 1 "2 * j + 1"] opp [of "2 * j + 1" 1] two [of j]
      unfolding one ordinary_def by simp
  qed
  have "snd A \<noteq> 0" using y_nonzero A(1) by (metis prod.collapse)
  then show ?thesis
    using 1 2 by (subst proper.simps) (auto simp: ec_mul_times [OF c(1)])
qed

lemma between_multiples: "a * n < k \<Longrightarrow> k < (a + 1) * n \<Longrightarrow> \<not> n dvd (k :: nat)"
proof
  assume "a * n < k" "k < (a + 1) * n" "n dvd k"
  then obtain m where "k = m * n" by (metis dvdE mult.commute)
  then have "a < m" "m < a + 1" using \<open>a * n < k\<close> \<open>k < (a + 1) * n\<close> by (simp_all only: mult_less_cancel2)
  then show False by simp
qed

lemma proper_range:
  assumes A: "on_ec A" "ec_times n (Some A) = None" "pprime n" "2 < n"
  shows "k < n - 1 \<Longrightarrow> proper k A"
    "n < k \<Longrightarrow> k < 2 * n - 2 \<Longrightarrow> proper k A"
    "2 * n + 1 < k \<Longrightarrow> k < 3 * n - 1 \<Longrightarrow> proper k A"
    "2 * n - 2 \<le> k \<Longrightarrow> k \<le> 2 * n + 1 \<Longrightarrow> \<not> proper k A"
proof -
  note step = proper_prefix [OF A]
  show low: "proper k A" if "k < n - 1" for k
    using that
  proof (induction k rule: less_induct)
    case (less k)
    show ?case
    proof (cases "k \<le> 1")
      case False
      then have j: "0 < k div 2" "k div 2 < k" by simp_all
      then have "ordinary n (k div 2)"
        using less.prems between_multiples [of 0 n] unfolding ordinary_def by simp
      then show ?thesis using less.IH [OF j(2)] less.prems j step [of k] by simp
    qed (use step [of k] in simp)
  qed
  show mid: "proper k A" if "n < k" "k < 2 * n - 2" for k
  proof -
    have "0 < k div 2" "k div 2 < n - 1" using that A(4) by linarith+
    moreover have "n < 2 * (k div 2) + 1" "2 * (k div 2) + 1 < 2 * n" using that by linarith+
    ultimately have "ordinary n (k div 2)"
      using between_multiples [of 0 n "k div 2"] between_multiples [of 0 n "k div 2 + 1"] between_multiples [of 1 n "2 * (k div 2) + 1"]
      unfolding ordinary_def by simp
    then show ?thesis using low \<open>k div 2 < n - 1\<close> step [of k] by simp
  qed
  show "proper k A" if "2 * n + 1 < k" "k < 3 * n - 1"
  proof -
    have b: "n < k div 2" "k div 2 + 1 < 2 * n" "k div 2 < 2 * n - 2" using that A(4) by linarith+
    moreover have "2 * n < 2 * (k div 2) + 1" "2 * (k div 2) + 1 < 3 * n" using that by linarith+
    ultimately have "ordinary n (k div 2)"
      using between_multiples [of 1 n "k div 2"] between_multiples [of 1 n "k div 2 + 1"] between_multiples [of 2 n "2 * (k div 2) + 1"]
      unfolding ordinary_def by simp
    then show ?thesis using mid b step [of k] by simp
  qed
  show "\<not> proper k A" if "2 * n - 2 \<le> k" "k \<le> 2 * n + 1"
  proof -
    have "k div 2 = n - 1 \<or> k div 2 = n" "\<not> k \<le> 1" using that A(4) by linarith+
    then have "\<not> ordinary n (k div 2)" using A(4) unfolding ordinary_def by auto
    then show ?thesis using step [of k] \<open>\<not> k \<le> 1\<close> by simp
  qed
qed

text \<open>Below the order, the scalars \<open>0\<close>, \<open>1\<close>, \<open>n - 2\<close> and \<open>n - 1\<close>.\<close>

lemma proper_regular:
  assumes "on_ec A" "ec_times order (Some A) = None" "k < order"
  shows "proper (regular k) A \<longleftrightarrow> k \<notin> {0, 1, order - 2, order - 1}"
proof -
  have n: "2 < order" "2 ^ 256 < 2 * order - 2" "order + 1 < 2 ^ 256" unfolding order_numeral by simp_all
  note range = proper_range [OF assms(1,2) pprime_order n(1), of "regular k"]
  show ?thesis
  proof (cases "2 ^ 256 \<le> k + order")
    case True
    then have r: "regular k = k + order" by (simp add: regular_def)
    have "k \<noteq> 0" "k \<noteq> 1" using True n(3) by auto
    then show ?thesis using range(2,4) assms(3) n True unfolding r by (cases "k < order - 2") auto
  next
    case False
    then have r: "regular k = k + 2 * order" by (simp add: regular_def)
    have "k < order - 2" using False n(2) by linarith
    then show ?thesis using range(3,4) n unfolding r by (cases "k \<le> 1") auto
  qed
qed

lemma G_x_nonzero: "felt (fst curve_G_point) \<noteq> 0"
proof -
  have "gx mod p_nat \<noteq> 0 mod p_nat" by simp
  then have "(of_nat gx :: fp) \<noteq> of_nat 0" by (simp only: fp_eq_nat not_False_eq_True)
  then show ?thesis using affine_G by (simp add: affine_def)
qed

lemma computable_G: "k < order \<Longrightarrow> computable k curve_G_point \<longleftrightarrow> 1 < k \<and> k < order - 2"
proof -
  assume k: "k < order"
  have "2 < order" unfolding order_numeral by simp
  then have "k \<notin> {0, 1, order - 2, order - 1} \<longleftrightarrow> 1 < k \<and> k < order - 2" using k by auto
  moreover have "on_ec (affine curve_G_point)" using G_on_curve(1) by (simp only: on_curve_affine)
  note proper_regular [OF this times_order k]
  ultimately show ?thesis using G_x_nonzero by (simp only: computable_def) blast
qed

text \<open>The public key of a scalar below the order.\<close>

lemma public_key_exact:
  assumes "length private_key = 8" "vval private_key < order"
  shows "case EccPoint_compute_public_key g private_key drawn of
      None \<Rightarrow> False
    | Some (None, d, y) \<Rightarrow> y \<le> 15 \<and> (g \<noteq> None \<and> starved g \<or> y = 15 \<and> \<not> (1 < vval private_key \<and> vval private_key < order - 2))
    | Some (Some P, d, y) \<Rightarrow> reduced P \<and> on_curve P \<and> \<not> at_infinity P \<and> y = 15 \<and>
        1 < vval private_key \<and> vval private_key < order - 2 \<and> ec_times (vval private_key) base_point = Some (affine P)"
  using public_key_spec [OF assms(1), of g drawn] unfolding computable_G [OF assms(2)] ec_mul_times [OF curve_base] times_regular conj_assoc .

end
