(* ===== verification/EccKeys.thy ===== *)
theory EccKeys
  imports EccOrder
begin

text \<open>
  Key generation, key agreement and signing as the firmware calls them: every call returns, a generated key
  pair is valid, and a signature satisfies the equation of ECDSA.
\<close>

section \<open>Key pairs\<close>

text \<open>The number of 32 big-endian bytes. A key pair: the public key is the multiple of the base point by the private
  key, which is not \<open>1\<close>, \<open>n - 2\<close> or \<open>n - 1\<close>.\<close>

definition bnat :: "u8 list \<Rightarrow> nat" where
  "bnat bs = vval (uECC_vli_bytesToNative bs 32)"

abbreviation bval :: "u8 list \<Rightarrow> int" where "bval bs \<equiv> int (bnat bs)"

definition key_pair :: "u8 list \<Rightarrow> u8 list \<Rightarrow> bool" where
  "key_pair pub priv \<longleftrightarrow> length pub = 64 \<and> length priv = 32 \<and> uECC_valid_public_key pub = Some True \<and>
    1 < bnat priv \<and> bnat priv < order - 2 \<and> ec_times (bnat priv) base_point = Some (affine (bytes_point pub))"

lemma key_pairI:
  assumes "length w = 8" "ival w \<noteq> 0" "ival w < ival curve_n"
    "EccPoint_compute_public_key g w drawn = Some (Some P, drawn', y)"
  shows "key_pair (point_bytes P) (uECC_vli_nativeToBytes 32 w) \<and> y = 15"
proof -
  have P: "reduced P" "on_curve P" "\<not> at_infinity P" "y = 15" "ec_times (vval w) base_point = Some (affine P)"
    "1 < vval w" "vval w < order - 2"
    using public_key_exact [OF assms(1), where g = g and drawn = drawn] assms(3,4) by simp_all
  then have "length (fst P) = 8" "length (snd P) = 8" by (simp_all add: reduced_def)
  note v = valid_key_bytes [OF this]
  show ?thesis
    using assms(1-3) P v bytes_native_roundtrip [OF assms(1)] by (auto simp: key_pair_def point_bytes_def bnat_def)
qed

lemma make_key_tries_spec:
  "case make_key_tries g tries drawn y of
      None \<Rightarrow> False
    | Some (None, d, y') \<Rightarrow> y' \<le> y + 15 * tries \<and> (starved g \<or> y' = y + 15 * tries)
    | Some (Some (pub, priv), d, y') \<Rightarrow> key_pair pub priv \<and> y' \<le> y + 15 * tries"
proof (induction tries arbitrary: drawn y)
  case (Suc tries)
  obtain wo d where w: "uECC_generate_random_int g curve_n 8 drawn = (wo, d)" by fastforce
  show ?case
  proof (cases wo)
    case None
    then show ?thesis using starvedI [of g drawn d] by (simp add: w)
  next
    case (Some k)
    have k: "length k = 8" "ival k \<noteq> 0" "ival k < ival curve_n"
      using random_int_spec [where limit = curve_n and n = 8 and g = g and drawn = drawn] by (simp_all add: w Some)
    obtain P d' y' where c: "EccPoint_compute_public_key g k d = Some (P, d', y')" "y' \<le> 15"
      "P = None \<Longrightarrow> starved g \<or> y' = 15"
      using public_key_spec [OF k(1), where g = g and drawn = d] by (auto split: option.splits)
    show ?thesis
    proof (cases P)
      case None
      then show ?thesis using Suc.IH [where drawn = d' and y = "y + y'"] c by (auto simp: w Some split: option.splits)
    next
      case P: (Some Q)
      then show ?thesis using key_pairI [OF k] c by (simp add: w Some)
    qed
  qed
qed simp

lemma make_key_spec:
  "case uECC_make_key_p256 g of
      None \<Rightarrow> False
    | Some (None, d, y) \<Rightarrow> y \<le> 960 \<and> (starved g \<or> y = 960)
    | Some (Some (pub, priv), d, y) \<Rightarrow> key_pair pub priv \<and> y \<le> 960"
  using make_key_tries_spec [where g = g and tries = 64 and drawn = 0 and y = 0] by (auto simp: uECC_make_key_p256_def split: option.splits)

section \<open>Key agreement\<close>

text \<open>Whatever bytes the host sends as its key, the call returns; for a host key on the curve the secret is the
  x coordinate of its multiple by the private key.\<close>

definition agreed :: "u8 list \<Rightarrow> u8 list \<Rightarrow> u8 list \<Rightarrow> bool" where
  "agreed pub priv secret \<longleftrightarrow> (\<exists>P. ec_times (regular (bnat priv)) (Some (affine (bytes_point pub))) = Some P \<and>
    bval secret = residue (fst P))"

lemma shared_secret_spec:
  "case uECC_shared_secret_p256 g pub priv of
      None \<Rightarrow> False
    | Some (ok, None, d, y) \<Rightarrow> \<not> ok \<and> y = 0 \<and> g \<noteq> None \<and> starved g
    | Some (ok, Some secret, d, y) \<Rightarrow> length secret = 32 \<and> y = 15 \<and>
        (on_curve (bytes_point pub) \<longrightarrow> ok = computable (bnat priv) (bytes_point pub) \<and>
          (if ok then agreed pub priv secret else bnat secret = 0))"
proof -
  obtain carry k0 k1 where k: "regularize_k (uECC_vli_bytesToNative priv 32) = (carry, k0, k1)" by (rule prod_cases3)
  obtain Zo d where z: "random_Z g 0 = (Zo, d)" by fastforce
  show ?thesis
  proof (cases Zo)
    case None
    then show ?thesis using random_Z_starved [of g 0 d] z by (simp add: uECC_shared_secret_p256_def k)
  next
    case (Some Z)
    then have "z_ok Z" using random_Z_ok z by simp
    from regular_mult [OF _ _ this bytesToNative_length k, of "bytes_point pub", folded bnat_def]
    obtain P where P: "EccPoint_mult (bytes_point pub) (if carry then k0 else k1) Z (256 + 1) = Some (P, 15)" "reduced P"
      "on_curve (bytes_point pub) \<longrightarrow> (if computable (bnat priv) (bytes_point pub)
        then on_curve P \<and> \<not> at_infinity P \<and> ec_mul (regular (bnat priv)) (Some (affine (bytes_point pub))) = Some (affine P)
        else at_infinity P)"
      by (auto simp: bytes_point_def)
    let ?s = "uECC_vli_nativeToBytes 32 (fst P)"
    have "bval ?s = ival (fst P)" using P(2) by (simp add: bnat_def bytes_native_roundtrip reduced_def)
    moreover have "ival (fst P) = residue (fst (affine P))" using P(2) by (simp add: affine_def residue_felt reduced_def)
    moreover have "uECC_shared_secret_p256 g pub priv = Some (\<not> at_infinity P, Some ?s, d, 15)"
      using P(1) by (simp add: uECC_shared_secret_p256_def k z Some isZero_point)
    moreover have "curve (Some (affine (bytes_point pub)))" if "on_curve (bytes_point pub)"
      using that by (simp add: on_curve_affine)
    moreover have "agreed pub priv ?s" if "computable (bnat priv) (bytes_point pub)" "on_curve (bytes_point pub)"
      using that P(3) calculation(1,2) ec_mul_times [OF calculation(4) [OF that(2)]] unfolding agreed_def
      by (intro exI [of _ "affine P"]) simp
    ultimately show ?thesis using P(3) by (cases "computable (bnat priv) (bytes_point pub)") (auto simp: at_infinity_def)
  qed
qed

section \<open>Signatures\<close>

lemma bits2int_length: "length (bits2int bits 32) = 8"
  by (simp add: bits2int_def Let_def)

abbreviation nn :: int where "nn \<equiv> ival curve_n"

lemma nn_facts: "odd nn" "1 < nn" "0 < nn"
  by (simp_all add: curve_n_def)

lemma nmul: "length l = 8 \<Longrightarrow> length r = 8 \<Longrightarrow> ival (uECC_vli_modMult l r curve_n 8) = ival l * ival r mod nn"
  "length l = 8 \<Longrightarrow> length r = 8 \<Longrightarrow> length (uECC_vli_modMult l r curve_n 8) = 8"
  using modMult_correct [of l 8 r curve_n] curve_n_top(1) by simp_all

lemma prime_modulus_n: "prime_modulus nn"
proof -
  have "nn = int 115792089210356248762697446949407573529996955224135760342422259061068512044369" by (simp add: curve_n_def)
  then show ?thesis using pprime_modulus [OF prime_order] by simp
qed

lemma ninv:
  assumes "length x = 8" "0 < ival x" "ival x < nn"
  shows "\<exists>i. uECC_vli_modInv x curve_n 8 = Some i \<and> length i = 8 \<and> ival i * ival x mod nn = 1"
proof -
  have "length x = length curve_n" using assms by simp
  from modInv_correct [OF this nn_facts(1,2)] obtain i where i: "uECC_vli_modInv x curve_n 8 = Some i" "length i = 8"
    "nn dvd ival i * ival x - gcd (ival x) nn" using assms(2) by auto
  have "\<not> nn dvd ival x" using assms(2,3) zdvd_not_zless by blast
  then have "coprime (ival x) nn" using prime_modulus_n unfolding prime_modulus_def by blast
  then have "gcd (ival x) nn = 1" by (simp only: coprime_iff_gcd_eq_1)
  then have "ival i * ival x mod nn = 1 mod nn" using i(3) by (simp only: mod_eq_dvd_iff)
  then show ?thesis using i(1,2) nn_facts(2) by simp
qed

lemma product_nonzero:
  assumes "0 < a" "a < nn" "0 < b" "b < nn"
  shows "0 < a * b mod nn"
proof -
  have "coprime a nn" "coprime b nn"
    using prime_modulus_n assms zdvd_not_zless unfolding prime_modulus_def by blast+
  then have c: "coprime (a * b) nn" by simp
  have "a * b mod nn \<noteq> 0"
  proof
    assume "a * b mod nn = 0"
    then have "nn dvd a * b" by (rule mod_0_imp_dvd)
    with c have "is_unit nn" by (rule coprime_common_divisor) simp
    then show False using nn_facts(2) by simp
  qed
  then show ?thesis using nn_facts(3) pos_mod_sign [of nn "a * b"] by linarith
qed

text \<open>From the inverse of \<open>k t\<close> to the equation.\<close>

lemma ecdsa_arith:
  fixes n k t i e :: int
  assumes "i * (k * t mod n) mod n = 1"
  shows "(E * (i * t mod n) mod n) * k mod n = E mod n"
proof -
  have "(E * (i * t mod n) mod n) * k mod n = (E * (i * t)) * k mod n"
    by (simp add: mod_mult_left_eq mod_mult_right_eq)
  also have "(E * (i * t)) * k = E * (i * (k * t))" by (simp add: algebra_simps)
  also have "E * (i * (k * t)) mod n = E * (i * (k * t mod n) mod n) mod n" by (simp add: mod_mult_right_eq mult.assoc [symmetric])
  finally show ?thesis by (simp only: assms mult_1_right)
qed

text \<open>A signature of ECDSA for the nonce \<open>k\<close>: the x coordinate of the multiple of the base point, and the equation.\<close>

definition ecdsa_signature :: "nat \<Rightarrow> u8 list \<Rightarrow> u8 list \<Rightarrow> u8 list \<Rightarrow> bool" where
  "ecdsa_signature k priv hash sig \<longleftrightarrow> length sig = 64 \<and> 1 < k \<and> k < order - 2 \<and>
    (\<exists>P. ec_times k base_point = Some P \<and> bval (take 32 sig) = residue (fst P)) \<and>
    0 < bnat (take 32 sig) \<and> bnat (drop 32 sig) < order \<and>
    bnat (drop 32 sig) * k mod order = (bnat hash + bnat (take 32 sig) * bnat priv) mod order"

lemma bval_signature:
  assumes "length r = 8" "length s = 8"
  defines "sig \<equiv> uECC_vli_nativeToBytes 32 r @ uECC_vli_nativeToBytes 32 s"
  shows "length sig = 64" "bnat (take 32 sig) = vval r" "bnat (drop 32 sig) = vval s"
  using assms(1,2) by (simp_all add: sig_def bnat_def bytes_native_roundtrip)

lemma bits2int_val: "vval (bits2int hash 32) = bnat hash"
  by (simp add: bits2int_def bnat_def uECC_vli_clear_def Let_def)

text \<open>The last part of a signature: the two multipliers and the sum.\<close>

lemma sign_numbers:
  assumes "length k = 8" "length t = 8" "length d = 8" "length r = 8" "length h = 8"
    and "uECC_vli_modInv (uECC_vli_modMult k t curve_n 8) curve_n 8 = Some i" "length i = 8"
    and "ival i * ival (uECC_vli_modMult k t curve_n 8) mod nn = 1"
  defines "s \<equiv> uECC_vli_modMult (uECC_vli_modAdd h (uECC_vli_modMult d r curve_n 8) curve_n)
    (uECC_vli_modMult i t curve_n 8) curve_n 8"
  shows "length s = 8" "ival s < nn" "(ival s * ival k) mod nn = (ival h + ival r * ival d) mod nn"
proof -
  define m where "m = uECC_vli_modMult d r curve_n 8"
  have m: "length m = 8" "ival m = ival d * ival r mod nn" using assms(3,4) by (simp_all add: m_def nmul)
  have ml: "ival m < nn" using m(2) nn_facts by simp
  have a: "length (uECC_vli_modAdd h m curve_n) = 8" using m(1) assms(5) by (simp add: modAdd_length)
  have kt: "length (uECC_vli_modMult i t curve_n 8) = 8" using assms(2,7) by (simp add: nmul)
  show "length s = 8" unfolding s_def m_def [symmetric] by (rule nmul(2) [OF a kt])
  have s: "ival s = ival (uECC_vli_modAdd h m curve_n) * (ival i * ival t mod nn) mod nn"
    unfolding s_def m_def [symmetric] nmul(1) [OF a kt] by (simp add: nmul assms(2,7))
  then show "ival s < nn" using nn_facts by simp
  have e: "ival (uECC_vli_modAdd h m curve_n) mod nn = (ival h + ival r * ival d) mod nn"
    using modAdd_cong [of h curve_n m] m ml assms(5) by (simp add: mod_add_right_eq mult.commute)
  have "ival i * (ival k * ival t mod nn) mod nn = 1" using assms(8) unfolding nmul(1) [OF assms(1,2)] .
  from ecdsa_arith [OF this] have "(ival s * ival k) mod nn = ival (uECC_vli_modAdd h m curve_n) mod nn" unfolding s .
  then show "(ival s * ival k) mod nn = (ival h + ival r * ival d) mod nn" unfolding e .
qed

lemma sign_with_k_spec:
  assumes "length k = 8"
  shows "case uECC_sign_with_k_internal g priv hash 32 k drawn of
      None \<Rightarrow> False
    | Some (None, d, y) \<Rightarrow> y \<le> 15 \<and> (0 < ival k \<and> ival k < nn \<longrightarrow> starved g \<or> y = 15)
    | Some (Some sig, d, y) \<Rightarrow> ecdsa_signature (vval k) priv hash sig \<and> y = 15"
proof (cases "uECC_vli_isZero k \<or> uECC_vli_cmp curve_n k \<noteq> 1")
  case True
  then show ?thesis using assms by (auto simp: uECC_sign_with_k_internal_def isZero_vval vli_cmp sgn_if split: if_splits)
next
  case False
  then have k: "0 < ival k" "ival k < nn"
    using assms by (auto simp: isZero_vval vli_cmp sgn_if split: if_splits)
  obtain carry k0 k1 where reg: "regularize_k k = (carry, k0, k1)" by (rule prod_cases3)
  obtain Zo d where z: "random_Z g drawn = (Zo, d)" by fastforce
  obtain to d' where t: "(if g = None then (Some vli_one, d) else uECC_generate_random_int g curve_n 8 d) = (to, d')" by fastforce
  note unf = uECC_sign_with_k_internal_def reg z Let_def
  consider (noZ) "Zo = None" | (Z) Z where "Zo = Some Z" by (cases Zo) auto
  then show ?thesis
  proof cases
    case noZ
    then show ?thesis using False random_Z_starved [of g drawn d] z by (auto simp: unf)
  next
    case Z
    then have "z_ok Z" using random_Z_ok z by simp
    from regular_mult [OF G_on_curve(2,3) this assms reg]
    obtain P where P: "EccPoint_mult curve_G_point (if carry then k0 else k1) Z (256 + 1) = Some (P, 15)" "reduced P"
      "if computable (vval k) curve_G_point then on_curve P \<and> \<not> at_infinity P \<and>
        ec_mul (regular (vval k)) base_point = Some (affine P) else at_infinity P"
      using G_on_curve(1) by blast
    then have r: "length (fst P) = 8" "ival (fst P) < pp" by (simp_all add: reduced_def)
    show ?thesis
    proof (cases "uECC_vli_isZero (fst P) \<or> to = None")
      case True
      then show ?thesis using False P(1) t by (auto simp: unf Z)
    next
      case sound: False
      then obtain w where w: "to = Some w" by auto
      have tw: "length w = 8" "0 < ival w" "ival w < nn"
        using t random_int_spec [where limit = curve_n and n = 8 and g = g and drawn = d] one_rep nn_facts
        by (auto simp: w rep_def split: if_splits)
      have x: "ival (fst P) \<noteq> 0" using sound by (simp add: isZero_vval)
      then have c: "computable (vval k) curve_G_point" using P(3) by (auto simp: at_infinity_def split: if_splits)
      then have bm: "ec_times (vval k) base_point = Some (affine P)" using P(3) by (simp add: ec_mul_times [OF curve_base] times_regular)
      have kr: "1 < vval k" "vval k < order - 2" using c computable_G [of "vval k"] k(2) by simp_all
      have rx: "ival (fst P) = residue (fst (affine P))" using r by (simp add: affine_def residue_felt)
      define dk where "dk = uECC_vli_bytesToNative priv 32"
      have dk: "length dk = 8" "vval dk = bnat priv" by (simp_all add: dk_def bnat_def)
      have kw: "length (uECC_vli_modMult k w curve_n 8) = 8" "0 < ival (uECC_vli_modMult k w curve_n 8)"
        "ival (uECC_vli_modMult k w curve_n 8) < nn"
        using nmul [OF assms tw(1)] product_nonzero [OF k tw(2,3)] nn_facts by simp_all
      from ninv [OF kw] obtain i where i:
        "uECC_vli_modInv (uECC_vli_modMult k w curve_n 8) curve_n 8 = Some i" "length i = 8"
        "ival i * ival (uECC_vli_modMult k w curve_n 8) mod nn = 1" by blast
      define s where "s = uECC_vli_modMult (uECC_vli_modAdd (bits2int hash 32) (uECC_vli_modMult dk (fst P) curve_n 8) curve_n)
          (uECC_vli_modMult i w curve_n 8) curve_n 8"
      note s = sign_numbers [OF assms tw(1) dk(1) r(1) bits2int_length i, of hash, folded s_def, unfolded bits2int_val dk(2)]
      have eq: "vval s * vval k mod order = (bnat hash + vval (fst P) * bnat priv) mod order"
        using s(3) by (simp flip: of_nat_mult of_nat_add zmod_int)
      note b = bval_signature [OF r(1) s(1)]
      have "ecdsa_signature (vval k) priv hash (uECC_vli_nativeToBytes 32 (fst P) @ uECC_vli_nativeToBytes 32 s)"
        unfolding ecdsa_signature_def b using kr s(2) x eq rx bm by auto
      moreover have "uECC_sign_with_k_internal g priv hash 32 k drawn = Some (if 256 < uECC_vli_numBits s then None
          else Some (uECC_vli_nativeToBytes 32 (fst P) @ uECC_vli_nativeToBytes 32 s), d', 15)"
        using False P(1) sound i(1) t by (simp add: unf Z w dk_def s_def)
      ultimately show ?thesis by simp
    qed
  qed
qed

lemma sign_tries_spec:
  "case sign_tries g priv hash 32 tries drawn y of
      None \<Rightarrow> False
    | Some (None, d, y') \<Rightarrow> y' \<le> y + 15 * tries \<and> (starved g \<or> y' = y + 15 * tries)
    | Some (Some sig, d, y') \<Rightarrow> (\<exists>k. ecdsa_signature k priv hash sig) \<and> y' \<le> y + 15 * tries"
proof (induction tries arbitrary: drawn y)
  case (Suc tries)
  obtain wo d where w: "uECC_generate_random_int g curve_n 8 drawn = (wo, d)" by fastforce
  show ?case
  proof (cases wo)
    case None
    then show ?thesis using starvedI [of g drawn d] by (simp add: w)
  next
    case (Some k)
    have "ival k \<noteq> 0" "ival k < nn" "length k = 8"
      using random_int_spec [where limit = curve_n and n = 8 and g = g and drawn = drawn] by (simp_all add: w Some)
    then have k: "length k = 8" "0 < ival k" "ival k < nn" by simp_all
    obtain S d' y' where c: "uECC_sign_with_k_internal g priv hash 32 k d = Some (S, d', y')" "y' \<le> 15"
      "S = None \<or> ecdsa_signature (vval k) priv hash (the S)" "S = None \<Longrightarrow> starved g \<or> y' = 15"
      using k(2,3) sign_with_k_spec [OF k(1), where g = g and priv = priv and hash = hash and drawn = d]
      by (cases "uECC_sign_with_k_internal g priv hash 32 k d") (fastforce split: option.splits)+
    show ?thesis
    proof (cases S)
      case None
      then show ?thesis using Suc.IH [where drawn = d' and y = "y + y'"] c by (auto simp: w Some split: option.splits)
    next
      case S: (Some sig)
      then show ?thesis using c by (auto simp: w Some)
    qed
  qed
qed simp

lemma sign_spec:
  "case uECC_sign_p256 g priv hash 32 of
      None \<Rightarrow> False
    | Some (None, d, y) \<Rightarrow> y \<le> 960 \<and> (starved g \<or> y = 960)
    | Some (Some sig, d, y) \<Rightarrow> (\<exists>k. ecdsa_signature k priv hash sig) \<and> y \<le> 960"
  using sign_tries_spec [where g = g and priv = priv and hash = hash and tries = 64 and drawn = 0 and y = 0]
  by (auto simp: uECC_sign_p256_def split: option.splits)

end
