(* ===== verification/EccVerify.thy ===== *)
theory EccVerify
  imports EccKeys
begin

text \<open>
  What the group law adds: the public key that belongs to a private key, the agreement of two key pairs on one
  secret, and the acceptance of a signature by a verifier of ECDSA.
\<close>

section \<open>Public keys\<close>

lemma compute_public_key_spec:
  assumes "length priv = 32"
  shows "case uECC_compute_public_key g priv of
      None \<Rightarrow> False
    | Some (None, d, y) \<Rightarrow> g \<noteq> None \<and> starved g \<or> \<not> (1 < bnat priv \<and> bnat priv < order - 2)
    | Some (Some pub, d, y) \<Rightarrow> key_pair pub priv"
proof -
  let ?k = "uECC_vli_bytesToNative priv 32"
  have v: "vval ?k = bnat priv" by (simp add: bnat_def)
  show ?thesis
  proof (cases "uECC_vli_isZero ?k \<or> uECC_vli_cmp curve_n ?k \<noteq> 1")
    case True
    then have "bnat priv = 0 \<or> order \<le> bnat priv"
      by (auto simp: isZero_vval vli_cmp sgn_if v split: if_splits)
    then show ?thesis using True by (auto simp: uECC_compute_public_key_def Let_def)
  next
    case False
    then have "vval ?k < order" by (auto simp: vli_cmp sgn_if split: if_splits)
    note spec = public_key_exact [OF bytesToNative_length this, of g 0, unfolded v]
    obtain P d y where c: "EccPoint_compute_public_key g ?k 0 = Some (P, d, y)"
      using spec by (cases "EccPoint_compute_public_key g ?k 0") auto
    have "key_pair (point_bytes Q) priv" if "P = Some Q" for Q
    proof -
      have Q: "reduced Q" "on_curve Q" "\<not> at_infinity Q" "1 < bnat priv" "bnat priv < order - 2"
        "ec_times (bnat priv) base_point = Some (affine Q)"
        using spec unfolding c that by simp_all
      then have "length (fst Q) = 8" "length (snd Q) = 8" by (simp_all add: reduced_def)
      from valid_key_bytes [OF this] show ?thesis
        using Q assms by (simp add: key_pair_def point_bytes_def)
    qed
    then show ?thesis
      using spec False by (cases P) (auto simp: uECC_compute_public_key_def Let_def c)
  qed
qed

section \<open>Agreement\<close>

text \<open>The secret of two private keys, the same for both sides.\<close>

definition common_secret :: "u8 list \<Rightarrow> u8 list \<Rightarrow> u8 list \<Rightarrow> bool" where
  "common_secret priv priv' secret \<longleftrightarrow>
    (\<exists>P. ec_times (bnat priv * bnat priv') base_point = Some P \<and> bval secret = residue (fst P))"

lemma common_secret_symmetric: "common_secret priv priv' secret = common_secret priv' priv secret"
  by (simp only: common_secret_def mult.commute)

lemma common_secret_unique:
  assumes "common_secret priv priv' s" "common_secret priv' priv t" "length s = 32" "length t = 32"
  shows "s = t"
proof -
  have "bnat s = bnat t" using assms(1,2) by (auto simp: common_secret_def mult.commute)
  then have "uECC_vli_bytesToNative s 32 = uECC_vli_bytesToNative t 32" by (intro vval_inj) (simp_all add: bnat_def)
  then show ?thesis using native_bytes_roundtrip assms(3,4) by metis
qed

lemma agreed_common:
  assumes "agreed pub priv secret" "key_pair pub priv'"
  shows "common_secret priv priv' secret"
proof -
  have "Some (affine (bytes_point pub)) = ec_times (bnat priv') base_point" using assms(2) by (simp add: key_pair_def)
  then have "ec_times (regular (bnat priv)) (Some (affine (bytes_point pub))) = ec_times (regular (bnat priv) * bnat priv') base_point"
    by (simp only: ec_times_mult [OF curve_base])
  also have "\<dots> = ec_times (bnat priv * bnat priv') base_point"
    unfolding times_mod [of "regular (bnat priv) * bnat priv'"] times_mod [of "bnat priv * bnat priv'"]
    by (metis mod_mult_left_eq regular_mod)
  finally show ?thesis using assms(1) by (simp add: agreed_def common_secret_def)
qed

section \<open>Verification\<close>

text \<open>A verifier of ECDSA: both numbers are in range, and the x coordinate of
  \<open>(hash / s) G + (r / s) Q\<close> is \<open>r\<close> modulo the order.\<close>

definition ecdsa_verifies :: "u8 list \<Rightarrow> u8 list \<Rightarrow> u8 list \<Rightarrow> bool" where
  "ecdsa_verifies pub hash sig \<longleftrightarrow>
    (let r = bnat (take 32 sig); s = bnat (drop 32 sig)
     in 0 < r \<and> r < order \<and> 0 < s \<and> s < order \<and>
       (\<exists>w. w * s mod order = 1 \<and>
         (case ec_add (ec_times (bnat hash * w) base_point) (ec_times (r * w) (Some (affine (bytes_point pub)))) of
            None \<Rightarrow> False
          | Some P \<Rightarrow> residue (fst P) mod int order = int r)))"

lemma order_inverse: "0 < s \<Longrightarrow> s < order \<Longrightarrow> \<exists>w. w * s mod order = 1"
proof -
  assume "0 < s" "s < order"
  then have "\<not> order dvd s" by (rule nat_dvd_not_less)
  from fermat [OF pprime_order this] have "s ^ (order - 1) mod order = 1" .
  moreover have "order - 1 = Suc (order - 2)" unfolding order_numeral by simp
  ultimately have "s ^ (order - 2) * s mod order = 1" by (simp only: power_Suc mult.commute)
  then show ?thesis by blast
qed

theorem signature_verifies:
  assumes "ecdsa_signature k priv hash sig" "key_pair pub priv"
    and "bnat (take 32 sig) < order" "0 < bnat (drop 32 sig)"
  shows "ecdsa_verifies pub hash sig"
proof -
  define r where "r = bnat (take 32 sig)"
  define s where "s = bnat (drop 32 sig)"
  define h where "h = bnat hash"
  define d where "d = bnat priv"
  obtain P where P: "ec_times k base_point = Some P" "int r = residue (fst P)"
    and sig: "0 < r" "s < order" "s * k mod order = (h + r * d) mod order"
    using assms(1) unfolding ecdsa_signature_def r_def s_def h_def d_def by blast
  have Q: "Some (affine (bytes_point pub)) = ec_times d base_point" using assms(2) by (simp add: key_pair_def d_def)
  have rs: "r < order" "0 < s" using assms(3,4) by (simp_all add: r_def s_def)
  obtain w where w: "w * s mod order = 1" using order_inverse [OF rs(2) sig(2)] by blast
  have "(h * w + r * w * d) mod order = w * ((h + r * d) mod order) mod order"
    by (simp only: mod_mult_right_eq distrib_left mult.commute mult.left_commute)
  also have "\<dots> = w * s * k mod order" unfolding sig(3) [symmetric] by (simp only: mod_mult_right_eq mult.assoc)
  also have "\<dots> = (w * s mod order) * k mod order" by (simp only: mod_mult_left_eq)
  finally have m: "(h * w + r * w * d) mod order = k mod order" unfolding w by simp
  have "ec_add (ec_times (h * w) base_point) (ec_times (r * w) (Some (affine (bytes_point pub)))) =
      ec_times (h * w + r * w * d) base_point"
    unfolding Q by (simp only: ec_times_add [OF curve_base] ec_times_mult [OF curve_base])
  also have "\<dots> = ec_times k base_point" unfolding times_mod [of "h * w + r * w * d"] times_mod [of k] m ..
  finally have sum: "ec_add (ec_times (h * w) base_point) (ec_times (r * w) (Some (affine (bytes_point pub)))) = Some P"
    unfolding P(1) .
  have "residue (fst P) mod int order = int r" using rs(1) by (simp flip: P(2) zmod_int)
  then show ?thesis
    unfolding ecdsa_verifies_def Let_def r_def [symmetric] s_def [symmetric] h_def [symmetric]
    using sum w sig rs by auto
qed

text \<open>A verifier with the public key of \<open>priv\<close> accepts.\<close>

definition accepted :: "u8 list \<Rightarrow> u8 list \<Rightarrow> u8 list \<Rightarrow> bool" where
  "accepted priv hash sig \<longleftrightarrow> (\<forall>pub. key_pair pub priv \<longrightarrow> ecdsa_verifies pub hash sig)"

lemma signature_accepted:
  "ecdsa_signature k priv hash sig \<Longrightarrow>
    accepted priv hash sig \<or> order \<le> bnat (take 32 sig) \<or> bnat (drop 32 sig) = 0"
  using signature_verifies [of k priv hash sig] by (auto simp: accepted_def not_less)

end
