(* ===== verification/EccThms.thy ===== *)
theory EccThms
  imports EccVerify
begin

text \<open>
  The properties of the elliptic curve library: field arithmetic, the Montgomery ladder, key pairs and
  signatures, the bounds on what a call draws from the generator and how often it yields.
\<close>

section \<open>How much is drawn\<close>

lemma random_tries_draw:
  "snd (random_tries r limit n b tries drawn) \<le> drawn + tries * (4 * n)"
proof (induction tries arbitrary: drawn)
  case (Suc tries)
  show ?case using Suc.IH [of "drawn + n * 4"] by (simp add: Let_def algebra_simps)
qed simp

lemma random_int_draw: "snd (uECC_generate_random_int g limit 8 drawn) \<le> drawn + 2048"
  using random_tries_draw [of _ limit 8 _ 64 drawn]
  by (simp add: uECC_generate_random_int_def Let_def split: option.split)

lemma random_int_draws: "uECC_generate_random_int g limit 8 drawn = (w, d) \<Longrightarrow> d \<le> drawn + 2048"
  using random_int_draw [of g limit drawn] by simp

lemma random_Z_draw: "random_Z g drawn = (Z, d) \<Longrightarrow> d \<le> drawn + 2048"
  by (auto simp: random_Z_def split: if_splits prod.splits option.splits dest!: random_int_draws)

lemma public_key_draw: "EccPoint_compute_public_key g k drawn = Some (P, d, y) \<Longrightarrow> d \<le> drawn + 2048"
  by (auto simp: EccPoint_compute_public_key_def bind_eq_Some_conv split: prod.splits option.splits dest!: random_Z_draw)

lemma make_key_draw:
  "make_key_tries g tries drawn y = Some (k, d, y') \<Longrightarrow> d \<le> drawn + 4096 * (tries + 1)"
proof (induction tries arbitrary: drawn y)
  case (Suc tries)
  obtain wo d1 where w: "uECC_generate_random_int g curve_n 8 drawn = (wo, d1)" by fastforce
  note d1 = random_int_draws [OF w]
  show ?case
  proof (cases wo)
    case None
    then show ?thesis using Suc.prems d1 by (simp add: w)
  next
    case (Some a)
    then obtain P d2 y2 where c: "EccPoint_compute_public_key g a d1 = Some (P, d2, y2)"
      using Suc.prems by (auto simp: w bind_eq_Some_conv)
    note d2 = public_key_draw [OF c]
    show ?thesis
      using Suc.prems d1 d2 Suc.IH [of d2 "y + y2"] by (cases P) (auto simp: w Some c)
  qed
qed simp

lemma sign_internal_draw:
  assumes "uECC_sign_with_k_internal g priv hash n k drawn = Some (s, d, y)"
  shows "d \<le> drawn + 4096"
proof -
  obtain carry k0 k1 where reg: "regularize_k k = (carry, k0, k1)" by (rule prod_cases3)
  obtain Z d1 where z: "random_Z g drawn = (Z, d1)" by fastforce
  obtain t d2 where t: "(if g = None then (Some vli_one, d1) else uECC_generate_random_int g curve_n 8 d1) = (t, d2)"
    by fastforce
  have "d1 \<le> drawn + 2048" using random_Z_draw [OF z] .
  moreover have "d2 \<le> d1 + 2048" using t random_int_draws by (auto split: if_splits)
  moreover have "d \<in> {drawn, d1, d2}"
    using assms unfolding uECC_sign_with_k_internal_def Let_def reg z prod.case t
    by (auto simp: bind_eq_Some_conv split: prod.splits option.splits if_splits)
  ultimately show ?thesis by auto
qed

lemma sign_draw:
  "sign_tries g priv hash n tries drawn y = Some (s, d, y') \<Longrightarrow> d \<le> drawn + 6144 * (tries + 1)"
proof (induction tries arbitrary: drawn y)
  case (Suc tries)
  obtain wo d1 where w: "uECC_generate_random_int g curve_n 8 drawn = (wo, d1)" by fastforce
  note d1 = random_int_draws [OF w]
  show ?case
  proof (cases wo)
    case None
    then show ?thesis using Suc.prems d1 by (simp add: w)
  next
    case (Some a)
    then obtain S d2 y2 where c: "uECC_sign_with_k_internal g priv hash n a d1 = Some (S, d2, y2)"
      using Suc.prems by (auto simp: w bind_eq_Some_conv)
    note d2 = sign_internal_draw [OF c]
    show ?thesis
      using Suc.prems d1 d2 Suc.IH [of d2 "y + y2"] by (cases S) (auto simp: w Some c)
  qed
qed simp

lemma shared_secret_draw:
  "uECC_shared_secret_p256 g pub priv = Some (ok, s, d, y) \<Longrightarrow> d \<le> 2048"
  by (auto simp: uECC_shared_secret_p256_def Let_def bind_eq_Some_conv split: prod.splits option.splits
      dest!: random_Z_draw)

section \<open>Small multiples of the base point\<close>

text \<open>The double of the base point, as a test of the ladder and of the key derivation.\<close>

abbreviation (input) gx2 :: nat where "gx2 \<equiv> 56515219790691171413109057904011688695424810155802929973526481321309856242040"
abbreviation (input) gy2 :: nat where "gy2 \<equiv> 3377031843712258259223711451491452598088675519751548567112458094635497583569"

abbreviation (input) private_2 :: "u8 list" where
  "private_2 \<equiv> uECC_vli_nativeToBytes 32 [2, 0, 0, 0, 0, 0, 0, 0]"

lemma bytes_2: "bnat private_2 = 2"
  by (simp add: bnat_def bytes_native_roundtrip)

lemma times_2: "ec_times 2 base_point = Some (of_nat gx2, of_nat gy2)"
  using multiple_2 by (simp only: multiple_def)

lemma proper_2: "proper 2 (affine curve_G_point)"
proof -
  have "on_ec (affine curve_G_point)" using G_on_curve(1) by (simp only: on_curve_affine)
  from proper_range(1) [OF this times_order pprime_order, of 2] show ?thesis by (simp add: order_numeral del: curve_n_def)
qed

section \<open>Properties\<close>

text \<open>C13: \<open>uECC_make_key\<close> always returns.  Success gives a key pair: the 32 private bytes are a number
  \<open>d\<close> with \<open>1 < d < n - 2\<close> for the group order \<open>n\<close>, the 64 public bytes are the affine coordinates of \<open>d\<close> times
  the base point, the sum of \<open>d\<close> copies under the chord and tangent law; they are a finite point of the curve
  with reduced coordinates and \<open>uECC_valid_public_key\<close> accepts them.  It fails only if the generator gives up or
  64 candidates in a row (960 yields) fail.\<close>

theorem make_key_valid:
  "case uECC_make_key_p256 g of
     None \<Rightarrow> False
   | Some (None, d, y) \<Rightarrow> starved g \<or> y = 960
   | Some (Some (pub, priv), d, y) \<Rightarrow> key_pair pub priv \<and>
       reduced (bytes_point pub) \<and> on_curve (bytes_point pub) \<and> \<not> at_infinity (bytes_point pub)"
proof -
  have v: "reduced (bytes_point pub) \<and> on_curve (bytes_point pub) \<and> \<not> at_infinity (bytes_point pub)"
    if "key_pair pub priv" for pub priv
  proof -
    have "length (fst (bytes_point pub)) = 8" "length (snd (bytes_point pub)) = 8" by (simp_all add: bytes_point_def)
    from valid_point_spec [OF this] show ?thesis using that by (simp add: key_pair_def uECC_valid_public_key_def)
  qed
  show ?thesis using make_key_spec [of g] v by (auto split: option.splits)
qed

text \<open>C12: \<open>uECC_sign\<close> on a 32-byte hash always returns.  Success gives an ECDSA signature \<open>r || s\<close> for the
  nonce \<open>k\<close> that was drawn and the private key \<open>d\<close>: \<open>r\<close> is the x coordinate of \<open>k\<close> times the base point,
  \<open>s k = hash + r d\<close> modulo the group order \<open>n\<close>.  A verifier of ECDSA accepts it under the public key of \<open>d\<close>,
  except that \<open>r\<close> may be \<open>n\<close> or more and \<open>s\<close> may be zero, which the library does not rule out.  It fails only if
  the generator gives up or 64 attempts in a row fail.\<close>

theorem sign_equation:
  "case uECC_sign_p256 g priv hash 32 of
     None \<Rightarrow> False
   | Some (None, d, y) \<Rightarrow> starved g \<or> y = 960
   | Some (Some sig, d, y) \<Rightarrow> (\<exists>k. ecdsa_signature k priv hash sig) \<and>
       (accepted priv hash sig \<or> order \<le> bnat (take 32 sig) \<or> bnat (drop 32 sig) = 0)"
  using sign_spec [of g priv hash] signature_accepted by (fastforce split: option.splits)

text \<open>C14: \<open>uECC_compute_public_key\<close> returns for every private key.  It derives the public key of the
  number \<open>d\<close>, which is \<open>d\<close> times the base point, exactly if \<open>1 < d < n - 2\<close> for the group order \<open>n\<close>: of the valid
  private keys it refuses \<open>1\<close>, \<open>n - 2\<close> and \<open>n - 1\<close>.  Besides, it fails only if the generator gives up.\<close>

theorem compute_public_key_exact:
  assumes "length priv = 32"
  shows "\<exists>key d y. uECC_compute_public_key g priv = Some (key, d, y) \<and>
    (case key of None \<Rightarrow> g \<noteq> None \<and> starved g \<or> bnat priv \<le> 1 \<or> order - 2 \<le> bnat priv
     | Some pub \<Rightarrow> 1 < bnat priv \<and> bnat priv < order - 2 \<and> key_pair pub priv \<and>
         ec_times (bnat priv) base_point = Some (affine (bytes_point pub)))"
  using compute_public_key_spec [OF assms, of g]
  by (cases "uECC_compute_public_key g priv") (auto simp: key_pair_def not_less split: option.splits)

text \<open>The private key \<open>2\<close>, without a generator: the known double of the base point.\<close>

lemma compute_public_key_exact_witness:
  "\<exists>pub d y. uECC_compute_public_key None private_2 = Some (Some pub, d, y) \<and>
    affine (bytes_point pub) = (of_nat gx2, of_nat gy2)"
proof -
  note v = bytes_2
  show ?thesis
    using compute_public_key_exact [of private_2 None] times_2 unfolding v
    by (auto simp: order_numeral split: option.splits)
qed

text \<open>C17: \<open>uECC_shared_secret\<close> with a host key on the curve always returns.  It reports success exactly if no
  formula of the ladder divides by zero, and then the 32 bytes are the x coordinate of the multiple of the host's
  point by the regularised private key; otherwise they are zero.  If the host's key is the public key of a private
  key \<open>e\<close>, a successful call of the device with \<open>d\<close> gives the x coordinate of \<open>d e\<close> times the base point, so
  both sides agree (\<open>common_secret_symmetric\<close>).  If the generator gives up nothing is written.\<close>

theorem shared_secret_agreed:
  assumes "on_curve (bytes_point pub)"
  shows "\<exists>ok s d y. uECC_shared_secret_p256 g pub priv = Some (ok, s, d, y) \<and>
    (case s of None \<Rightarrow> \<not> ok \<and> g \<noteq> None \<and> starved g
     | Some secret \<Rightarrow> length secret = 32 \<and> ok = computable (bnat priv) (bytes_point pub) \<and>
         (if ok then agreed pub priv secret \<and> (\<forall>priv'. key_pair pub priv' \<longrightarrow> common_secret priv priv' secret)
          else bnat secret = 0))"
proof -
  obtain ok t d y where *: "uECC_shared_secret_p256 g pub priv = Some (ok, t, d, y)"
    using shared_secret_spec [of g pub priv] by (cases "uECC_shared_secret_p256 g pub priv") auto
  have "case t of None \<Rightarrow> \<not> ok \<and> g \<noteq> None \<and> starved g
     | Some secret \<Rightarrow> length secret = 32 \<and> ok = computable (bnat priv) (bytes_point pub) \<and>
         (if ok then agreed pub priv secret \<and> (\<forall>priv'. key_pair pub priv' \<longrightarrow> common_secret priv priv' secret)
          else bnat secret = 0)"
    using shared_secret_spec [of g pub priv] assms agreed_common unfolding * by (cases t) auto
  with * show ?thesis by blast
qed

text \<open>The base point as the host's key, \<open>2\<close> as the private key: the secret is the x coordinate of twice the base point.\<close>

lemma shared_secret_agreed_witness:
  "\<exists>secret d y. uECC_shared_secret_p256 None (point_bytes curve_G_point) private_2 = Some (True, Some secret, d, y) \<and>
    bval secret = residue (of_nat gx2)"
proof -
  let ?G = "point_bytes curve_G_point" and ?d = private_2
  have G: "bytes_point ?G = curve_G_point" by (rule valid_key_bytes(2) [OF G_on_curve(2,3)])
  note v = bytes_2
  have "computable (bnat ?d) (bytes_point ?G)"
    unfolding G v using computable_G [of 2] by (simp add: order_numeral)
  moreover have "ec_times (regular (bnat ?d)) (Some (affine (bytes_point ?G))) = Some (of_nat gx2, of_nat gy2)"
    unfolding G v times_regular by (rule times_2)
  ultimately show ?thesis
    using shared_secret_agreed [of ?G None ?d] G_on_curve(1) by (auto simp: agreed_def G split: option.splits)
qed

text \<open>C19: what a library call may take: key generation draws at most 266240 bytes from the generator and
  yields at most 960 times, signing at most 399360 bytes and 960 yields, key agreement at most 2048 bytes
  and 15 yields; all three return.\<close>

theorem ecc_calls_bounded:
  "(\<exists>k d y. uECC_make_key_p256 g = Some (k, d, y) \<and> d \<le> 266240 \<and> y \<le> 960) \<and>
   (\<exists>s d y. uECC_sign_p256 g priv hash 32 = Some (s, d, y) \<and> d \<le> 399360 \<and> y \<le> 960) \<and>
   (\<exists>ok s d y. uECC_shared_secret_p256 g pub priv = Some (ok, s, d, y) \<and> d \<le> 2048 \<and> y \<le> 15)"
proof (intro conjI)
  obtain k d y where k: "uECC_make_key_p256 g = Some (k, d, y)" "y \<le> 960"
    using make_key_spec [of g] by (auto split: option.splits)
  then show "\<exists>k d y. uECC_make_key_p256 g = Some (k, d, y) \<and> d \<le> 266240 \<and> y \<le> 960"
    using make_key_draw [of g 64 0 0 k d y] by (simp add: uECC_make_key_p256_def)
  obtain s e z where s: "uECC_sign_p256 g priv hash 32 = Some (s, e, z)" "z \<le> 960"
    using sign_spec [of g priv hash] by (auto split: option.splits)
  then show "\<exists>s d y. uECC_sign_p256 g priv hash 32 = Some (s, d, y) \<and> d \<le> 399360 \<and> y \<le> 960"
    using sign_draw [of g priv hash 32 64 0 0 s e z] by (simp add: uECC_sign_p256_def)
  obtain ok x f w where x: "uECC_shared_secret_p256 g pub priv = Some (ok, x, f, w)" "w \<le> 15"
    using shared_secret_spec [of g pub priv] by (auto split: option.splits)
  then show "\<exists>ok s d y. uECC_shared_secret_p256 g pub priv = Some (ok, s, d, y) \<and> d \<le> 2048 \<and> y \<le> 15"
    using shared_secret_draw [OF x(1)] by blast
qed

text \<open>C16: the fast reduction of secp256r1, nine word sums and a corrected carry, computes the same words
  as the generic shift-and-subtract reduction of the library, namely the product modulo the field prime;
  it returns on every 16-word product, its correction loops included.\<close>

theorem fast_reduction_equivalent:
  assumes "length product = 16"
  shows "vli_mmod_fast_secp256r1 product = Some (uECC_vli_mmod product curve_p 8) \<and>
    ival (uECC_vli_mmod product curve_p 8) = ival product mod curve_p_int"
proof -
  from mmod_fast_correct [OF assms] obtain w where w: "vli_mmod_fast_secp256r1 product = Some w" "length w = 8"
    "ival w = ival product mod curve_p_int" by blast
  have l: "length product = 2 * 8" "length curve_p = 8" using assms by (simp_all add: curve_p_def)
  from mmod_correct [OF l curve_n_top(2)] have m: "length (uECC_vli_mmod product curve_p 8) = 8"
    "ival (uECC_vli_mmod product curve_p 8) = ival product mod curve_p_int"
    by (simp_all add: zmod_int flip: curve_p_val)
  then have "w = uECC_vli_mmod product curve_p 8" using w(2,3) by (intro vval_inj) simp_all
  then show ?thesis using w(1) m(2) by simp
qed

lemma fast_reduction_equivalent_witness:
  "vli_mmod_fast_secp256r1 (replicate 16 (- 1)) = Some (uECC_vli_mmod (replicate 16 (- 1)) curve_p 8)"
  using fast_reduction_equivalent [of "replicate 16 (- 1)"] by simp

text \<open>The binary Euclidean loop of \<open>uECC_vli_modInv\<close> ends for every odd modulus greater than one,
  whatever its input, and returns a reduced number; multiplied with the input it is congruent to the greatest
  common divisor, so it is the inverse of every input prime to the modulus.\<close>

theorem modInv_terminates:
  assumes "length x = length m" "odd (ival m)" "1 < ival m"
  shows "\<exists>r. uECC_vli_modInv x m (length m) = Some r \<and> length r = length m \<and> ival r < ival m \<and>
    (ival x = 0 \<longrightarrow> ival r = 0) \<and> (ival x \<noteq> 0 \<longrightarrow> (ival r * ival x) mod ival m = gcd (ival x) (ival m) mod ival m) \<and>
    (coprime (ival x) (ival m) \<longrightarrow> (ival r * ival x) mod ival m = 1)"
proof -
  from modInv_correct [OF assms] obtain r where r: "uECC_vli_modInv x m (length m) = Some r" "length r = length m"
    "ival r < ival m" "ival x \<noteq> 0 \<longrightarrow> ival m dvd ival r * ival x - gcd (ival x) (ival m)" "ival x = 0 \<longrightarrow> ival r = 0" by blast
  have c: "ival x \<noteq> 0 \<longrightarrow> (ival r * ival x) mod ival m = gcd (ival x) (ival m) mod ival m"
    using r(4) by (simp only: mod_eq_dvd_iff)
  have "coprime (ival x) (ival m) \<longrightarrow> (ival r * ival x) mod ival m = 1"
  proof
    assume "coprime (ival x) (ival m)"
    then have g: "gcd (ival x) (ival m) = 1" by (simp only: coprime_iff_gcd_eq_1)
    have "ival x \<noteq> 0"
    proof
      assume "ival x = 0"
      then show False using g assms(3) by simp
    qed
    then show "(ival r * ival x) mod ival m = 1" using c g assms(3) by simp
  qed
  then show ?thesis using r c by blast
qed

lemma modInv_terminates_witness:
  "\<exists>r. uECC_vli_modInv (fst curve_G_point) curve_p 8 = Some r \<and> length r = 8 \<and>
     ival r * ival (fst curve_G_point) mod ival curve_p = 1"
proof -
  have l: "length (fst curve_G_point) = length curve_p" "length curve_p = 8"
    by (simp_all add: G_on_curve(2) curve_p_def)
  have o: "odd (ival curve_p)" "1 < ival curve_p" by (simp_all add: curve_p_val curve_p_int_def)
  have "\<not> pp dvd ival (fst curve_G_point)" by (simp add: curve_G_point_def curve_G_def curve_p_int_def)
  then have "coprime (ival (fst curve_G_point)) (ival curve_p)"
    using prime_modulus_p by (simp add: prime_modulus_def curve_p_val)
  then show ?thesis using modInv_terminates [OF l(1) o] unfolding l(2) by blast
qed

text \<open>C15: the Montgomery ladder \<open>EccPoint_mult\<close> returns for every scalar, every point of two 8-word
  coordinates, also one that is not on the curve, and every random \<open>Z\<close>; it yields once for every sixteenth bit
  position and its result is reduced.  For a point \<open>Q\<close> of the curve the result is the sum of \<open>k\<close> copies of \<open>Q\<close>
  under the chord and tangent law, where \<open>k\<close> is the scalar with its implicit leading bit, unless some step of
  the ladder would add points of equal x coordinate or \<open>Q\<close> has x coordinate zero; exactly then it is the zero
  point.\<close>

theorem ladder_computes_multiple:
  assumes "length (fst Q) = 8" "length (snd Q) = 8" "z_ok initial_Z"
  shows "\<exists>P. EccPoint_mult Q scalar initial_Z num_bits =
      Some (P, length (filter (\<lambda>i. i AND 15 = 0) (rev [1..<num_bits - 1]))) \<and> reduced P \<and>
    (on_curve Q \<longrightarrow>
      (if felt (fst Q) \<noteq> 0 \<and> proper (mult_scalar scalar num_bits) (affine Q)
       then on_curve P \<and> ec_times (mult_scalar scalar num_bits) (Some (affine Q)) = Some (affine P)
       else at_infinity P))"
  using EccPoint_mult_correct [OF assms, of scalar num_bits] ec_mul_times [of "Some (affine Q)"]
  unfolding prod.collapse by (simp add: on_curve_affine cong: if_cong)

text \<open>The base point doubled: no step divides by zero.\<close>

lemma ladder_computes_multiple_witness:
  "\<exists>P. EccPoint_mult curve_G_point [0] None 1 = Some (P, 0) \<and> affine P = (of_nat gx2, of_nat gy2)"
proof -
  have k: "mult_scalar [0] 1 = 2" by (simp add: mult_scalar_def uECC_vli_testBit_def)
  show ?thesis
    using ladder_computes_multiple [OF G_on_curve(2,3), of None "[0]" 1] G_on_curve(1) G_x_nonzero proper_2 times_2
    unfolding k by (auto simp: z_ok_def)
qed

end
