(* ===== verification/EccCompress.thy ===== *)
theory EccCompress
  imports EccThms
begin

text \<open>
  Point compression: the square root by exponentiation with \<open>(p + 1) / 4\<close> is a square root, so decompressing a
  compressed public key gives it back.
\<close>

section \<open>The exponentiation loop\<close>

lemma sqrt_loop_rep:
  assumes "raw a x"
  shows "rep l (x ^ m) \<Longrightarrow> \<exists>w. sqrt_loop a p1 is l = Some w \<and> rep w (x ^ fold (\<lambda>i m. 2 * m + of_bool (uECC_vli_testBit p1 i)) is m)"
proof (induction "is" arbitrary: l m)
  case (Cons i "is")
  have la: "length a = 8" using assms by (simp add: raw_def)
  note len = rep_length [OF Cons.prems]
  have s: "rep (fmul l l) (x ^ (2 * m))" using rep_mul [OF Cons.prems Cons.prems] by (simp add: mult_2 power_add)
  have "rep (fmul (fmul l l) a) (x ^ (2 * m + 1))"
    using raw_mul [OF rep_raw [OF s] assms] by (simp add: power_add mult.commute)
  then show ?case
    using Cons.IH [OF s] Cons.IH [of "fmul (fmul l l) a" "2 * m + 1"] len la by (simp add: rep_length)
qed simp

section \<open>The square root\<close>

abbreviation root_exponent :: nat where
  "root_exponent \<equiv> 28948022302589062190674361737351893382521535853822578548883407827216774463488"

lemma p_plus_one: "fst (uECC_vli_add curve_p vli_one) = [0, 0, 0, 1, 0, 0, 1, 0xFFFFFFFF]"
  unfolding vli_one_eq curve_p_def by code_simp

lemma p_plus_one_bits: "uECC_vli_numBits [0, 0, 0, 1, 0, 0, 1, 0xFFFFFFFF] = 256"
  by code_simp

lemma mod_sqrt_power:
  assumes "raw a x"
  shows "\<exists>w. mod_sqrt_default a = Some w \<and> rep w (x ^ root_exponent)"
proof -
  let ?p1 = "[0, 0, 0, 1, 0, 0, 1, 0xFFFFFFFF] :: vli"
  have "fold (\<lambda>i m. 2 * m + of_bool (uECC_vli_testBit ?p1 i)) (rev [2..<256]) (0 :: nat) =
      fold (\<lambda>i m. 2 * m + of_bool (bit (vval ?p1) i)) (rev [2..<256]) 0"
    by (rule fold_testBit) simp
  also have "\<dots> = (vval ?p1 mod 2 ^ 256) div 2 ^ 2" by (rule fold_bits) simp
  also have "\<dots> = root_exponent" by simp
  finally have e: "fold (\<lambda>i m. 2 * m + of_bool (uECC_vli_testBit ?p1 i)) (rev [2..<256]) 0 = root_exponent" .
  have "rep vli_one (x ^ 0)" using one_rep(1) by simp
  from sqrt_loop_rep [OF assms this, of ?p1 "rev [2..<256]"] show ?thesis
    unfolding mod_sqrt_default_def Let_def p_plus_one p_plus_one_bits e .
qed

lemma root_of_square:
  fixes y :: nat
  assumes "pprime p" "\<not> p dvd y" "4 * e = p + 1"
  shows "((y ^ 2) ^ e) ^ 2 mod p = y ^ 2 mod p"
proof -
  have p: "1 < p" using assms(1) by (simp add: pprime_def)
  have "((y ^ 2) ^ e) ^ 2 = y ^ (4 * e)" by (simp add: power_mult [symmetric] mult.commute mult.assoc)
  also have "\<dots> = y ^ (p - 1) * y ^ 2" unfolding assms(3) using p by (simp flip: power_add)
  also have "y ^ (p - 1) * y ^ 2 mod p = 1 * y ^ 2 mod p"
    using fermat [OF assms(1,2)] p by (intro mod_mult_cong refl) simp
  finally show ?thesis by simp
qed

text \<open>A reduced number whose square is that of \<open>y\<close> is \<open>y\<close> or its negative.\<close>

lemma square_roots:
  assumes "pp dvd w ^ 2 - y ^ 2" "0 \<le> w" "w < pp" "0 \<le> y" "y < pp"
  shows "w = y \<or> w = pp - y \<and> y \<noteq> 0"
proof -
  have d: "pp dvd (w - y) * (w + y)" using assms(1) by (simp add: power2_eq_square algebra_simps)
  have "pp dvd w - y \<or> pp dvd w + y"
  proof (cases "pp dvd w - y")
    case False
    then have "coprime (w - y) pp" using prime_modulus_p by (simp add: prime_modulus_def)
    then show ?thesis using d by (simp add: coprime_dvd_mult_right_iff coprime_commute)
  qed simp
  then show ?thesis
  proof
    assume "pp dvd w - y"
    moreover have "\<bar>w - y\<bar> < pp" using assms(2-5) by simp
    ultimately have "w = y" using zdvd_imp_le [of pp "\<bar>w - y\<bar>"] by fastforce
    then show ?thesis by simp
  next
    assume "pp dvd w + y"
    then obtain k where k: "w + y = pp * k" by (elim dvdE)
    have b: "w + y < 2 * pp" using assms(3,5) by simp
    have "0 \<le> pp * k" using k assms(2,4) by simp
    then have "0 \<le> k" using pp_pos zero_le_mult_iff [of pp k] by simp
    moreover have "pp * k < pp * 2" using b unfolding k by simp
    then have "k < 2" using mult_less_cancel_left_pos [OF pp_pos] by blast
    ultimately have "k = 0 \<or> k = 1" by auto
    then show ?thesis using k assms(2-4) by auto
  qed
qed

lemma sqrt_root:
  assumes "raw a (ival Y ^ 2)" "length Y = 8" "ival Y < pp"
  shows "\<exists>w. mod_sqrt_default a = Some w \<and> length w = 8 \<and> (ival w = ival Y \<or> ival w = pp - ival Y \<and> ival Y \<noteq> 0)"
proof -
  from mod_sqrt_power [OF assms(1)] obtain w where w: "mod_sqrt_default a = Some w" "rep w ((ival Y ^ 2) ^ root_exponent)" by blast
  have p: "pp = int 115792089210356248762697446949407573530086143415290314195533631308867097853951"
    by (simp only: curve_p_int_def of_nat_numeral)
  have "((ival Y ^ 2) ^ root_exponent) ^ 2 mod pp = ival Y ^ 2 mod pp"
  proof (cases "ival Y = 0")
    case False
    then have "\<not> 115792089210356248762697446949407573530086143415290314195533631308867097853951 dvd vval Y"
      using assms(3) by (auto simp: curve_p_int_def dest!: dvd_imp_le)
    from root_of_square [OF prime_256 this, of root_exponent] show ?thesis
      unfolding p by (simp only: flip: of_nat_power zmod_int)
  qed simp
  then have "ival w ^ 2 mod pp = ival Y ^ 2 mod pp" using w(2) by (simp add: rep_def power_mod)
  then have "pp dvd ival w ^ 2 - ival Y ^ 2" by (simp only: mod_eq_dvd_iff)
  from square_roots [OF this] show ?thesis using w rep_lt [OF w(2)] assms(3) by (auto simp: rep_length)
qed

section \<open>The chosen root\<close>

lemma low_bit: "v \<noteq> [] \<Longrightarrow> v ! 0 AND 1 = of_bool (odd (vval v))"
  using EVEN_val [of v] by (cases "EVEN v") (auto simp: and_one_eq mod_2_eq_odd)

lemma y_byte:
  assumes "length pub = 64"
  shows "ucast ((2 + (pub ! 63 AND 1)) AND 1 :: u8) = (of_bool (odd (ival (snd (bytes_point pub)))) :: u32)"
proof -
  have b: "snd (bytes_point pub) ! 0 = be_word (drop 32 pub) 28"
    by (simp add: bytes_point_def bytesToNative_eq)
  have "pub ! 63 = ucast (be_word (drop 32 pub) 28)" using assms by (simp add: be_word_bytes(4))
  then have p: "bit (pub ! 63) 0 = bit (snd (bytes_point pub) ! 0) 0" by (simp add: b bit_ucast_iff)
  have "(2 + (pub ! 63 AND 1)) AND 1 = pub ! 63 AND (1 :: u8)"
    by (simp add: and_one_eq mod_2_eq_odd even_add)
  also have "\<dots> = of_bool (bit (snd (bytes_point pub) ! 0) 0)" unfolding p [symmetric] by (simp add: and_one_eq mod_2_eq_odd bit_0)
  also have "bit (snd (bytes_point pub) ! 0) 0 = odd (ival (snd (bytes_point pub)))"
  proof -
    have "snd (bytes_point pub) \<noteq> []" by (simp add: bytes_point_def bytesToNative_eq)
    from EVEN_val [OF this] show ?thesis by (simp add: and_one_eq mod_2_eq_odd bit_0)
  qed
  finally show ?thesis by simp
qed

text \<open>Selecting by parity among \<open>Y\<close> and \<open>p - Y\<close>.\<close>

lemma parity_diff: "odd (m :: int) \<Longrightarrow> w = m - y \<Longrightarrow> odd w = odd y \<Longrightarrow> False"
  by simp

lemma parity_choice:
  assumes "length w = 8" "length Y = 8" "ival Y < pp" "ival w = ival Y \<or> ival w = pp - ival Y \<and> ival Y \<noteq> 0"
  shows "(if w ! 0 AND 1 \<noteq> of_bool (odd (ival Y)) then fst (uECC_vli_sub curve_p w) else w) = Y"
proof -
  have ne: "w \<noteq> []" using assms(1) by auto
  have o: "odd pp" by (rule pp_odd)
  obtain d b where s: "uECC_vli_sub curve_p w = (d, b)" by fastforce
  show ?thesis
  proof (cases "odd (ival w) = odd (ival Y)")
    case True
    then have "ival w = ival Y" using assms(4) parity_diff [OF o, of "ival w" "ival Y"] by blast
    then have "w = Y" using assms(1,2) by (intro vval_inj) simp_all
    then show ?thesis using low_bit [OF ne] by simp
  next
    case False
    then have v: "ival w = pp - ival Y" using assms(4) by auto
    have l: "length curve_p = length w" using assms(1) by simp
    have c: "int (vval curve_p) = pp" by (simp add: curve_p_val)
    have "0 \<le> ival Y" by simp
    then have "vval w \<le> vval curve_p" using v c by linarith
    then have "vval d = vval curve_p - vval w" "vval w \<le> vval curve_p" using vli_sub_borrow [OF s l] by blast+
    then have "ival d = pp - ival w \<and> length d = 8" using vli_sub(2) [OF s l] c by (simp add: of_nat_diff)
    then have "d = Y" using v assms(2) by (intro vval_inj) simp_all
    then show ?thesis using False low_bit [OF ne] s by (auto split: if_splits)
  qed
qed

section \<open>Property\<close>

text \<open>C18: for every public key that \<open>uECC_valid_public_key\<close> accepts, \<open>uECC_decompress\<close> returns on the
  33 bytes of \<open>uECC_compress\<close> and gives back the key: the exponentiation is a square root modulo the field
  prime, and the parity byte selects the right one of the two roots.\<close>

theorem compression_roundtrip:
  assumes "length pub = 64" "uECC_valid_public_key pub = Some True"
  shows "uECC_decompress (uECC_compress pub) = Some pub"
proof -
  define X Y where "X = fst (bytes_point pub)" and "Y = snd (bytes_point pub)"
  have len: "length X = 8" "length Y = 8" by (simp_all add: X_def Y_def bytes_point_def)
  have v: "reduced (X, Y)" "on_curve (X, Y)"
    using valid_point_spec [of "bytes_point pub"] assms(2) len by (simp_all add: uECC_valid_public_key_def X_def Y_def)
  from x_side_spec [OF len(1)] obtain a where a: "x_side_default X = Some a"
    "rep a (ival X ^ 3 - 3 * ival X + ival curve_b)" by blast
  have "raw a (ival Y ^ 2)"
    using a(2) v(2) by (simp add: raw_def rep_def on_curve_side power2_eq_square)
  from sqrt_root [OF this len(2)] v(1) obtain w where w: "mod_sqrt_default a = Some w" "length w = 8"
    "ival w = ival Y \<or> ival w = pp - ival Y \<and> ival Y \<noteq> 0" by (auto simp: reduced_def)
  have x: "uECC_vli_bytesToNative (take 32 pub) 32 = X"
    using assms(1) by (simp add: X_def bytes_point_def bytesToNative_eq be_word_def)
  have "uECC_decompress (uECC_compress pub) = Some (point_bytes (X, Y))"
    using parity_choice [OF w(2) len(2) _ w(3)] v(1) a(1) w(1) y_byte [OF assms(1), folded Y_def]
    by (simp add: uECC_decompress_def uECC_compress_def x Let_def reduced_def)
  also have "point_bytes (X, Y) = pub"
  proof -
    have d: "uECC_vli_bytesToNative pub 32 = uECC_vli_bytesToNative (take 32 pub) 32"
      using x by (simp add: X_def bytes_point_def)
    show ?thesis using assms(1) native_bytes_roundtrip [of "take 32 pub"] native_bytes_roundtrip [of "drop 32 pub"]
      by (simp add: point_bytes_def X_def Y_def bytes_point_def d)
  qed
  finally show ?thesis .
qed

lemma compression_roundtrip_witness:
  "uECC_decompress (uECC_compress (point_bytes curve_G_point)) = Some (point_bytes curve_G_point)"
proof (rule compression_roundtrip)
  show "length (point_bytes curve_G_point) = 64" by (simp add: point_bytes_def)
  have "reduced curve_G_point" "\<not> at_infinity curve_G_point"
    by (simp_all add: reduced_def at_infinity_def curve_G_point_def curve_G_def curve_p_int_def)
  then show "uECC_valid_public_key (point_bytes curve_G_point) = Some True"
    using valid_key_bytes(1) [OF G_on_curve(2,3)] G_on_curve(1) by simp
qed

end
