(* ===== verification/EccDet.thy ===== *)
theory EccDet
  imports EccKeys Sha256
begin

text \<open>
  Deterministic signatures (\<open>uECC_sign_deterministic\<close> and its HMAC, \<open>micro-ecc/uECC.c\<close>) over a hash
  function the caller passes in, and what they compute with the SHA-256 of the firmware.
\<close>

section \<open>The code\<close>

text \<open>
  \<open>uECC_HashContext\<close>: the three function pointers over the hash state the caller's structure carries. Every
  computation starts with \<open>init_hash\<close>; the \<open>tmp\<close> area is the lists \<open>K\<close>, \<open>V\<close> and the pad.
\<close>

record 'h uECC_HashContext =
  init_hash :: 'h
  update_hash :: "'h \<Rightarrow> u8 list \<Rightarrow> 'h"
  finish_hash :: "'h \<Rightarrow> u8 list"
  block_size :: nat
  result_size :: nat

definition HMAC_pad :: "'h uECC_HashContext \<Rightarrow> u8 list \<Rightarrow> u8 \<Rightarrow> u8 list" where
  "HMAC_pad hc K x = take (block_size hc)
    (map (\<lambda>b. b XOR x) (take (result_size hc) K) @ replicate (block_size hc - result_size hc) x)"

definition HMAC_init :: "'h uECC_HashContext \<Rightarrow> u8 list \<Rightarrow> 'h" where
  "HMAC_init hc K = update_hash hc (init_hash hc) (HMAC_pad hc K 0x36)"

definition HMAC_update :: "'h uECC_HashContext \<Rightarrow> 'h \<Rightarrow> u8 list \<Rightarrow> nat \<Rightarrow> 'h" where
  "HMAC_update hc st message message_size = update_hash hc st (take message_size message)"

definition HMAC_finish :: "'h uECC_HashContext \<Rightarrow> 'h \<Rightarrow> u8 list \<Rightarrow> u8 list" where
  "HMAC_finish hc st K =
    (let pad = HMAC_pad hc K 0x5c;
         result = finish_hash hc st;
         st = update_hash hc (init_hash hc) pad;
         st = update_hash hc st (take (result_size hc) result)
     in finish_hash hc st)"

definition update_V :: "'h uECC_HashContext \<Rightarrow> u8 list \<Rightarrow> u8 list \<Rightarrow> u8 list" where
  "update_V hc K V = HMAC_finish hc (HMAC_update hc (HMAC_init hc K) V (result_size hc)) K"

text \<open>\<open>K = HMAC_K(V || tag || private_key || message_hash)\<close>\<close>

definition det_seed :: "'h uECC_HashContext \<Rightarrow> u8 list \<Rightarrow> u8 list \<Rightarrow> u8 \<Rightarrow> u8 list \<Rightarrow> u8 list \<Rightarrow> nat \<Rightarrow> u8 list" where
  "det_seed hc K V tag private_key message_hash hash_size =
    (let st = HMAC_init hc K;
         V = take (result_size hc) V @ [tag];
         st = HMAC_update hc st V (result_size hc + 1);
         st = HMAC_update hc st private_key num_bytes;
         st = HMAC_update hc st message_hash hash_size
     in HMAC_finish hc st K)"

text \<open>The inner \<open>for (;;)\<close>: \<open>None\<close> if it never fills the 32 bytes of \<open>T\<close>.\<close>

partial_function (option) fill_T ::
  "'h uECC_HashContext \<Rightarrow> u8 list \<Rightarrow> u8 list \<Rightarrow> u8 list \<Rightarrow> (u8 list \<times> u8 list) option" where
  "fill_T hc K V T =
    (let V = update_V hc K V;
         T = T @ take (num_n_words * 4 - length T) (take (result_size hc) V)
     in if num_n_words * 4 \<le> length T then Some (V, T) else fill_T hc K V T)"

definition T_words :: "u8 list \<Rightarrow> vli" where
  "T_words T = map (\<lambda>i. native_word (\<lambda>j. T ! j) (4 * i)) [0..<num_n_words]"

fun det_tries :: "'h uECC_HashContext \<Rightarrow> rng_function \<Rightarrow> u8 list \<Rightarrow> u8 list \<Rightarrow> nat \<Rightarrow> nat \<Rightarrow> u8 list \<Rightarrow> u8 list \<Rightarrow>
    nat \<Rightarrow> nat \<Rightarrow> (u8 list option \<times> nat \<times> nat) option" where
  "det_tries hc g_rng_function private_key message_hash hash_size 0 K V drawn yields = Some (None, drawn, yields)"
| "det_tries hc g_rng_function private_key message_hash hash_size (Suc tries) K V drawn yields = do {
     (V, T) \<leftarrow> fill_T hc K V [];
     (signature, drawn, y) \<leftarrow>
       uECC_sign_with_k_internal g_rng_function private_key message_hash hash_size (T_words T) drawn;
     case signature of
       Some s \<Rightarrow> Some (Some s, drawn, yields + y)
     | None \<Rightarrow>
         (let st = HMAC_init hc K;
              st = HMAC_update hc st (take (result_size hc) V @ [0x00]) (result_size hc + 1);
              K = HMAC_finish hc st K;
              V = update_V hc K V
          in det_tries hc g_rng_function private_key message_hash hash_size tries K V drawn (yields + y))
   }"

definition uECC_sign_deterministic ::
  "'h uECC_HashContext \<Rightarrow> rng_function \<Rightarrow> u8 list \<Rightarrow> u8 list \<Rightarrow> nat \<Rightarrow> (u8 list option \<times> nat \<times> nat) option" where
  "uECC_sign_deterministic hc g_rng_function private_key message_hash hash_size =
    (let K = replicate (result_size hc) 0;
         V = replicate (result_size hc) 0x01;
         K = det_seed hc K V 0x00 private_key message_hash hash_size;
         V = update_V hc K V;
         K = det_seed hc K V 0x01 private_key message_hash hash_size;
         V = update_V hc K V
     in det_tries hc g_rng_function private_key message_hash hash_size uECC_RNG_MAX_TRIES K V 0 0)"

text \<open>The outcome of an attempt and of a whole call.\<close>

lemma sign_with_kE:
  assumes "length k = 8"
  obtains S d y where "uECC_sign_with_k_internal g priv h 32 k drawn = Some (S, d, y)" "y \<le> 15"
    "S = None \<or> ecdsa_signature (vval k) priv h (the S)"
  using sign_with_k_spec [OF assms, where g = g and priv = priv and hash = h and drawn = drawn]
  by (cases "uECC_sign_with_k_internal g priv h 32 k drawn") (fastforce split: option.splits)+

definition signs :: "u8 list \<Rightarrow> u8 list \<Rightarrow> nat \<Rightarrow> (u8 list option \<times> nat \<times> nat) option \<Rightarrow> bool" where
  "signs priv h bound x \<longleftrightarrow> (\<exists>S d y. x = Some (S, d, y) \<and> y \<le> bound \<and> (\<forall>sig. S = Some sig \<longrightarrow> (\<exists>k. ecdsa_signature k priv h sig)))"

section \<open>A hash function that keeps its contract\<close>

definition hmac_of :: "(u8 list \<Rightarrow> u8 list) \<Rightarrow> nat \<Rightarrow> u8 list \<Rightarrow> u8 list \<Rightarrow> u8 list" where
  "hmac_of hash block K d =
    (let pad = (\<lambda>x. map (\<lambda>b. b XOR x) K @ replicate (block - length K) x) in hash (pad 0x5c @ hash (pad 0x36 @ d)))"

locale hash_provider =
  fixes hc :: "'h uECC_HashContext" and hash :: "u8 list \<Rightarrow> u8 list"
  assumes chunks: "finish_hash hc (fold (\<lambda>d st. update_hash hc st d) ds (init_hash hc)) = hash (concat ds)"
    and hash_length: "length (hash d) = result_size hc"
    and sizes: "0 < result_size hc" "result_size hc \<le> block_size hc"
begin

lemma two_chunks: "finish_hash hc (update_hash hc (update_hash hc (init_hash hc) a) b) = hash (a @ b)"
  using chunks [of "[a, b]"] by simp

lemma pad_eq: "length K = result_size hc \<Longrightarrow>
    HMAC_pad hc K x = map (\<lambda>b. b XOR x) K @ replicate (block_size hc - length K) x"
  using sizes by (simp add: HMAC_pad_def)

lemma finish_eq:
  assumes "length K = result_size hc"
  shows "HMAC_finish hc (fold (\<lambda>d st. update_hash hc st d) ds (HMAC_init hc K)) K = hmac_of hash (block_size hc) K (concat ds)"
  using chunks [of "HMAC_pad hc K 0x36 # ds"]
  by (simp add: HMAC_finish_def HMAC_init_def two_chunks hmac_of_def Let_def pad_eq [OF assms] hash_length)

lemma hmac_length: "length (hmac_of hash block K d) = result_size hc"
  by (simp add: hmac_of_def Let_def hash_length)

lemma update_V_eq:
  assumes "length K = result_size hc" "length V = result_size hc"
  shows "update_V hc K V = hmac_of hash (block_size hc) K V"
  using finish_eq [OF assms(1), of "[V]"] assms(2) by (simp add: update_V_def HMAC_update_def)

lemma seed_eq:
  assumes "length K = result_size hc" "length V = result_size hc"
  shows "det_seed hc K V tag priv h n = hmac_of hash (block_size hc) K (V @ tag # take 32 priv @ take n h)"
  using finish_eq [OF assms(1), of "[V @ [tag], take 32 priv, take n h]"] assms(2)
  by (simp add: det_seed_def HMAC_update_def Let_def)

text \<open>Every round adds at least one byte, so \<open>T\<close> gets filled.\<close>

lemma fill_ends:
  assumes "length K = result_size hc" "length V = result_size hc" "length T < 32"
  shows "\<exists>V' T'. fill_T hc K V T = Some (V', T') \<and> length V' = result_size hc \<and> length T' = 32"
  using assms(2,3)
proof (induction "32 - length T" arbitrary: V T rule: less_induct)
  case less
  have words: "(8 :: nat) * 4 = 32" by simp
  define V1 where "V1 = hmac_of hash (block_size hc) K V"
  define T1 where "T1 = T @ take (32 - length T) V1"
  have l: "length V1 = result_size hc" by (simp add: V1_def hmac_length)
  have V1: "update_V hc K V = V1" using update_V_eq [OF assms(1) less.prems(1)] by (simp add: V1_def)
  have s: "fill_T hc K V T = (if 32 \<le> length T1 then Some (V1, T1) else fill_T hc K V1 T1)"
    by (subst fill_T.simps) (simp only: V1 Let_def T1_def l order_refl take_all words)
  have "length T < length T1" using l sizes(1) less.prems(2) by (simp add: T1_def)
  then show ?case
    using s l less.hyps [of T1 V1] less.prems(2) by (cases "32 \<le> length T1") (simp_all add: T1_def)
qed

lemma T_words_length: "length (T_words T) = 8"
  by (simp add: T_words_def)

lemma det_tries_spec:
  assumes "length K = result_size hc" "length V = result_size hc"
  shows "signs priv h (y + 15 * tries) (det_tries hc g priv h 32 tries K V drawn y)"
  using assms
proof (induction tries arbitrary: K V drawn y)
  case (Suc tries)
  obtain V' T where f: "fill_T hc K V [] = Some (V', T)" "length V' = result_size hc"
    using fill_ends [OF Suc.prems, of "[]"] by auto
  obtain S d' y' where c: "uECC_sign_with_k_internal g priv h 32 (T_words T) drawn = Some (S, d', y')" "y' \<le> 15"
    "S = None \<or> ecdsa_signature (vval (T_words T)) priv h (the S)"
    by (rule sign_with_kE [OF T_words_length])
  define K' where "K' = HMAC_finish hc (HMAC_update hc (HMAC_init hc K) (take (result_size hc) V' @ [0x00]) (result_size hc + 1)) K"
  have K': "length K' = result_size hc"
    using finish_eq [OF Suc.prems(1), of "[V' @ [0x00]]"] f(2) by (simp add: K'_def HMAC_update_def hmac_length)
  have V2: "length (update_V hc K' V') = result_size hc" by (simp add: update_V_eq [OF K' f(2)] hmac_length)
  have step: "det_tries hc g priv h 32 (Suc tries) K V drawn y = (case S of
      Some s \<Rightarrow> Some (Some s, d', y + y')
    | None \<Rightarrow> det_tries hc g priv h 32 tries K' (update_V hc K' V') d' (y + y'))"
    by (simp only: det_tries.simps f(1) c(1) bind.bind_lunit prod.case K'_def Let_def)
  show ?case
    using Suc.IH [OF K' V2, where drawn = d' and y = "y + y'"] c(2,3)
    unfolding step signs_def by (cases S) fastforce+
qed (simp add: signs_def)

lemma deterministic_spec:
  "signs priv h 960 (uECC_sign_deterministic hc g priv h 32)"
proof -
  define K V where "K = replicate (result_size hc) (0 :: u8)" and "V = replicate (result_size hc) (0x01 :: u8)"
  define K1 where "K1 = det_seed hc K V 0x00 priv h 32"
  have 1: "length K1 = result_size hc" by (simp add: K1_def seed_eq hmac_length K_def V_def)
  define V1 where "V1 = update_V hc K1 V"
  have 2: "length V1 = result_size hc" using 1 by (simp add: V1_def update_V_eq hmac_length V_def)
  define K2 where "K2 = det_seed hc K1 V1 0x01 priv h 32"
  have 3: "length K2 = result_size hc" using 1 2 by (simp add: K2_def seed_eq hmac_length)
  define V2 where "V2 = update_V hc K2 V1"
  have 4: "length V2 = result_size hc" using 2 3 by (simp add: V2_def update_V_eq hmac_length)
  show ?thesis using det_tries_spec [OF 3 4, where g = g and priv = priv and h = h and tries = 64 and drawn = 0 and y = 0]
    by (simp add: uECC_sign_deterministic_def K2_def V2_def V1_def K1_def K_def V_def Let_def)
qed

end

section \<open>With the SHA-256 of the firmware\<close>

definition sha256_context :: "SHA256_CTX uECC_HashContext" where
  "sha256_context = \<lparr>init_hash = sha256_init uninit_ctx, update_hash = \<lambda>c d. sha256_update c d (length d),
     finish_hash = sha256_final, block_size = 64, result_size = 32\<rparr>"

interpretation sha_det: hash_provider sha256_context sha256_spec
proof unfold_locales
  fix ds d
  show "finish_hash sha256_context (fold (\<lambda>d st. update_hash sha256_context st d) ds (init_hash sha256_context)) =
      sha256_spec (concat ds)"
    using sha256_streaming_lemma [of uninit_ctx ds] by (simp add: sha256_context_def sha256_chunks_def uninit_ctx_def)
  show "length (sha256_spec d) = result_size sha256_context" "0 < result_size sha256_context"
    "result_size sha256_context \<le> block_size sha256_context" by (simp_all add: sha256_context_def)
qed

text \<open>The HMAC of the library over SHA-256 is the RFC 2104 construction, like that of the firmware.\<close>

lemma hmac_of_sha: "length K = 32 \<Longrightarrow> hmac_of sha256_spec 64 K d = hmac_spec sha256_spec K d"
  by (simp add: hmac_of_def hmac_spec_def Let_def)

lemma ecc_hmac_rfc2104:
  assumes "length K = 32"
  shows "HMAC_finish sha256_context (HMAC_update sha256_context (HMAC_init sha256_context K) d (length d)) K =
    hmac_sha256 K 32 d (length d)"
  using sha_det.finish_eq [of K "[d]"] assms hmac_of_sha hmac_sha256_lemma [of 32 K "length d" d]
  by (simp add: sha256_context_def HMAC_update_def)

end
