(* ===== verification/FidoEcc.thy ===== *)
theory FidoEcc
  imports EccThms Fido2Thms System
begin

text \<open>
  The firmware on top of the elliptic curve library: the three functions the firmware calls, whose results
  are parameters of the firmware model, instantiated with the model of \<open>micro-ecc\<close>.
\<close>

section \<open>The library in the environment\<close>

text \<open>
  The firmware ignores the results of the library calls. When a call fails it goes on with what the output
  arrays held before: \<open>left_key\<close>, \<open>left_sig\<close> and \<open>left_secret\<close>. The branch \<open>None\<close>, a call that
  never returns, is unreachable.
\<close>

record leftovers =
  left_key :: "u8 list \<times> u8 list"
  left_sig :: "u8 list"
  left_secret :: "u8 list"

definition p256_make_key :: "leftovers \<Rightarrow> (nat \<Rightarrow> u8) \<Rightarrow> u8 list \<times> u8 list \<times> nat \<times> nat" where
  "p256_make_key l r =
    (case uECC_make_key_p256 (uECC_set_rng r) of
       Some (Some (pub, priv), d, y) \<Rightarrow> (pub, priv, d, y)
     | Some (None, d, y) \<Rightarrow> (fst (left_key l), snd (left_key l), d, y)
     | None \<Rightarrow> (fst (left_key l), snd (left_key l), 0, 0))"

definition p256_sign :: "leftovers \<Rightarrow> u8 list \<Rightarrow> u8 list \<Rightarrow> (nat \<Rightarrow> u8) \<Rightarrow> u8 list \<times> nat \<times> nat" where
  "p256_sign l priv hash r =
    (case uECC_sign_p256 (uECC_set_rng r) priv hash 32 of
       Some (Some sig, d, y) \<Rightarrow> (sig, d, y)
     | Some (None, d, y) \<Rightarrow> (left_sig l, d, y)
     | None \<Rightarrow> (left_sig l, 0, 0))"

definition p256_shared_secret :: "leftovers \<Rightarrow> u8 list \<Rightarrow> u8 list \<Rightarrow> (nat \<Rightarrow> u8) \<Rightarrow> u8 list \<times> nat \<times> nat" where
  "p256_shared_secret l pub priv r =
    (case uECC_shared_secret_p256 (uECC_set_rng r) pub priv of
       Some (ok, Some secret, d, y) \<Rightarrow> (secret, d, y)
     | Some (ok, None, d, y) \<Rightarrow> (left_secret l, d, y)
     | None \<Rightarrow> (left_secret l, 0, 0))"

definition p256_env :: "leftovers \<Rightarrow> env \<Rightarrow> env" where
  "p256_env l e = e\<lparr>ecc_make_key := p256_make_key l, ecc_sign := p256_sign l, ecc_shared_secret := p256_shared_secret l\<rparr>"

definition left_ok :: "leftovers \<Rightarrow> bool" where
  "left_ok l \<longleftrightarrow> length (fst (left_key l)) = 64 \<and> length (snd (left_key l)) = 32 \<and> length (left_sig l) = 64"

text \<open>
  A call that fails: the random stream \<open>r\<close> it draws from runs the library's generator out of tries, or all 64 tries of
  the call are used up (15 yields each).
\<close>

definition gave_up :: "('a option \<times> nat \<times> nat) option \<Rightarrow> (nat \<Rightarrow> u8) \<Rightarrow> bool" where
  "gave_up x r \<longleftrightarrow> (\<exists>d y. x = Some (None, d, y) \<and> (starved (Some r) \<or> y = 960))"

definition key_fails :: "(nat \<Rightarrow> u8) \<Rightarrow> bool" where
  "key_fails r \<longleftrightarrow> gave_up (uECC_make_key_p256 (Some r)) r"

definition sign_fails :: "(nat \<Rightarrow> u8) \<Rightarrow> u8 list \<Rightarrow> u8 list \<Rightarrow> bool" where
  "sign_fails r priv hash \<longleftrightarrow> gave_up (uECC_sign_p256 (Some r) priv hash 32) r"

text \<open>
  What the firmware has after a call that draws from \<open>r\<close>: the library's result, or, when the call failed with this
  very stream, what the arrays held.
\<close>

definition made_key :: "leftovers \<Rightarrow> (nat \<Rightarrow> u8) \<Rightarrow> u8 list \<Rightarrow> u8 list \<Rightarrow> bool" where
  "made_key l r pub priv \<longleftrightarrow> (if key_fails r then (pub, priv) = left_key l else key_pair pub priv)"

definition signed_by :: "leftovers \<Rightarrow> (nat \<Rightarrow> u8) \<Rightarrow> u8 list \<Rightarrow> u8 list \<Rightarrow> u8 list \<Rightarrow> bool" where
  "signed_by l r priv hash sig \<longleftrightarrow>
    (if sign_fails r priv hash then sig = left_sig l else \<exists>k. ecdsa_signature k priv hash sig)"

text \<open>What a relying party finds when it verifies with the public key it was given.\<close>

definition checked_by :: "u8 list \<Rightarrow> u8 list \<Rightarrow> u8 list \<Rightarrow> bool" where
  "checked_by pub hash sig \<longleftrightarrow>
    ecdsa_verifies pub hash sig \<or> order \<le> bnat (take 32 sig) \<or> bnat (drop 32 sig) = 0"

lemma made_and_signed:
  "key_pair pub priv \<Longrightarrow> signed_by l r priv hash sig \<Longrightarrow> \<not> sign_fails r priv hash \<Longrightarrow> checked_by pub hash sig"
  using signature_accepted by (fastforce simp: signed_by_def checked_by_def accepted_def)

lemma p256_key_cases: "made_key l r (fst (p256_make_key l r)) (fst (snd (p256_make_key l r)))"
  using make_key_spec [of "Some r"]
  by (auto simp: p256_make_key_def made_key_def key_fails_def gave_up_def split: option.splits prod.splits)

lemma p256_sign_cases: "signed_by l r priv hash (fst (p256_sign l priv hash r))"
  using sign_spec [of "Some r" priv hash]
  by (auto simp: p256_sign_def signed_by_def sign_fails_def gave_up_def split: option.splits prod.splits)

lemma made_key_length: "made_key l r pub priv \<Longrightarrow> left_ok l \<Longrightarrow> length pub = 64 \<and> length priv = 32"
  by (auto simp: made_key_def key_pair_def left_ok_def prod_eq_iff split: if_splits)

lemma signed_by_length: "signed_by l r priv hash sig \<Longrightarrow> left_ok l \<Longrightarrow> length sig = 64"
  by (auto simp: signed_by_def ecdsa_signature_def left_ok_def split: if_splits)

lemma p256_sizes: "left_ok l \<Longrightarrow> ecc_sizes (p256_env l e)"
  using made_key_length [OF p256_key_cases] signed_by_length [OF p256_sign_cases]
  by (simp add: ecc_sizes_def p256_env_def)

lemma p256_call:
  "fst (uECC_make_key (p256_env l e) d) = fst (p256_make_key l (rng_stream (p256_env l e) d))"
  "fst (snd (uECC_make_key (p256_env l e) d)) = fst (snd (p256_make_key l (rng_stream (p256_env l e) d)))"
  "fst (uECC_sign (p256_env l e) k h d) = fst (p256_sign l k h (rng_stream (p256_env l e) d))"
  by (simp_all add: uECC_make_key_def uECC_sign_def p256_env_def split_beta)

text \<open>Every reachable state of the firmware with this library keeps its flash well-formed.\<close>

lemma p256_hw_ok: "reach (p256_env l e) h d \<Longrightarrow> left_ok l \<Longrightarrow> hw_ok h \<Longrightarrow> hw_ok (chip d)"
  using reach_hw_ok p256_sizes by blast

section \<open>Property\<close>

text \<open>C2: registration with the real library.  When MakeCredential succeeds, the answer attests \<open>authData\<close> made
  of the request's relying party, the flags, the id of a credential now stored for that relying party and a public
  key.  That key and the private key stored in flash are a key pair of secp256r1, and the attestation signature is an
  ECDSA signature under that private key for the hash of \<open>authData\<close> and the request's client data hash, which a
  verifier accepts with the public key in the answer unless its first half is not below the group order or its second
  half is zero.  The exceptions are exact: the key is not one only if \<open>uECC_make_key\<close> fails on the bytes the
  firmware's generator delivers in the state of this call, the signature is none only if \<open>uECC_sign\<close> fails on
  those it delivers later in this run; the firmware does not notice and goes on with what the arrays held.\<close>

theorem registration_with_p256:
  assumes "cmd_make_credential (p256_env l e) n cid d = Some (r, d')" "length r \<noteq> 1"
    and "store_ok (fmem (chip d))" "left_ok l"
  defines "E \<equiv> p256_env l e" and "m \<equiv> req_mem (p256_env l e) d"
  defines "d1 \<equiv> snd (fido2_wait_for_user_presence (p256_env l e) cid d)"
  shows "\<exists>rp cdh flags k pub sig authData hash.
    mc_rp_id E m n = Some rp \<and> get_cbor_map_string (stk E) m 1 (n - 1) 0x01 = Some cdh \<and>
    authData = mc_auth_data (rk_rp_id_hash k) flags (rk_credential_id k) pub \<and>
    hash = sha256_of (authData @ cdh_bytes m cdh) \<and>
    r = 0x00 # enc (mc_response authData (ecdsa_sig_to_der sig)) \<and>
    drop 87 authData = enc (cose_item pub) \<and>
    k \<in> set (creds (fmem (chip d'))) \<and> rk_rp_id_hash k = rp_id_hash_of m rp \<and>
    made_key l (rng_stream E (generating E cid d1)) pub (rk_private_key k) \<and>
    signed_by l (rng_stream E (attesting E cid (chip d') d1)) (rk_private_key k) hash sig \<and>
    (\<not> key_fails (rng_stream E (generating E cid d1)) \<and>
      \<not> sign_fails (rng_stream E (attesting E cid (chip d') d1)) (rk_private_key k) hash \<longrightarrow> checked_by pub hash sig)"
  using assms(1)
proof (rule make_cases)
  assume "length r = 1"
  then show ?thesis using assms(2) by simp
next
  fix x cdh flags rp uid nm ex
  let ?h = "rp_id_hash_of m rp"
  assume w: "fido2_wait_for_user_presence (p256_env l e) cid d = (0x00, x)"
    and rp: "mc_rp_id (p256_env l e) (req_mem (p256_env l e) d) n = Some rp"
    and cdh: "get_cbor_map_string (stk (p256_env l e)) (req_mem (p256_env l e) d) 1 (n - 1) 0x01 = Some cdh"
    and run: "(r, d') = mc_create (p256_env l e) (req_mem (p256_env l e) d) cid cdh flags
      (rp_id_hash_of (req_mem (p256_env l e) d) rp) rp uid nm x"
  have x: "x = d1" by (simp add: d1_def w)
  have sizes: "ecc_sizes E" unfolding E_def by (rule p256_sizes [OF assms(4)])
  have so: "store_ok (fmem (chip d1))"
    using wait_chip [of "p256_env l e" cid d] assms(3) by (simp add: d1_def)
  show ?thesis
  proof (rule create_effect [OF run [symmetric, folded E_def m_def, unfolded x] sizes length_rp_hash so assms(2)])
    fix pub priv cred sig i
    let ?a = "mc_auth_data ?h (flags OR 0x40) cred pub"
    let ?hash = "sha256_of (?a @ cdh_bytes m cdh)"
    let ?k = "new_rk ?h (str_bytes m rp) (length (str_bytes m rp)) (str_bytes m uid) (length (str_bytes m uid))
      (str_bytes m nm) (length (str_bytes m nm)) cred priv"
    assume i: "spec_slot (same_account ?h (str_bytes m uid) (length (str_bytes m uid))) (slots (fmem (chip d1))) = Some i"
      "slots (fmem (chip d')) = (slots (fmem (chip d1)))[i := Some ?k]"
      and len: "length pub = 64" "length priv = 32" "length cred = 32"
      and r: "r = 0x00 # enc (mc_response ?a (ecdsa_sig_to_der sig))"
      and calls: "pub = fst (uECC_make_key E (generating E cid d1))" "priv = fst (snd (uECC_make_key E (generating E cid d1)))"
        "sig = fst (uECC_sign E priv ?hash (attesting E cid (chip d') d1))"
    have k: "rk_private_key ?k = priv" "rk_rp_id_hash ?k = ?h" "rk_credential_id ?k = cred"
      using len by (simp_all add: new_rk_def Let_def)
    have "Some ?k \<in> set (slots (fmem (chip d')))"
      unfolding i(2) by (rule set_update_memI [OF spec_slot_Some(1) [OF i(1)]])
    then have kc: "?k \<in> set (creds (fmem (chip d')))" by (simp add: set_present flip: present_slots)
    have a: "drop 87 ?a = enc (cose_item pub)"
      using len cose_key_enc(1) [OF len(1)] by (simp add: mc_auth_data_def auth_data37_def AAGUID_def)
    have mk: "made_key l (rng_stream E (generating E cid d1)) pub priv"
      unfolding calls(1,2) unfolding E_def p256_call by (rule p256_key_cases)
    have sg: "signed_by l (rng_stream E (attesting E cid (chip d') d1)) priv ?hash sig"
      unfolding calls(3) unfolding E_def p256_call by (rule p256_sign_cases)
    have ck: "\<not> key_fails (rng_stream E (generating E cid d1)) \<and>
        \<not> sign_fails (rng_stream E (attesting E cid (chip d') d1)) priv ?hash \<longrightarrow> checked_by pub ?hash sig"
      using mk made_and_signed [OF _ sg] by (simp add: made_key_def)
    note conjI [OF rp [folded E_def m_def] conjI [OF cdh [folded E_def m_def] conjI [OF refl conjI [OF refl conjI [OF r
      conjI [OF a conjI [OF kc conjI [OF k(2) conjI [OF mk conjI [OF sg ck]]]]]]]]]]
    then show ?thesis
      by (intro exI [of _ rp] exI [of _ cdh] exI [of _ "flags OR 0x40"] exI [of _ ?k] exI [of _ pub] exI [of _ sig]
          exI [of _ ?a] exI [of _ ?hash]) (simp only: k)
  qed
qed

text \<open>A device with a touched pad on which the call succeeds.\<close>

definition some_left :: leftovers where
  "some_left = \<lparr>left_key = (replicate 64 0, replicate 32 0), left_sig = replicate 64 0, left_secret = replicate 32 0\<rparr>"

lemma registration_with_p256_witness:
  "\<exists>r d' k pub rp. cmd_make_credential (p256_env some_left touch_env) 1001 1 (request_dev 1 mc_kvs blank_hw) = Some (r, d') \<and>
     k \<in> set (creds (fmem (chip d'))) \<and> rk_rp_id_hash k = rp_id_hash_of (req_mem (p256_env some_left touch_env) (request_dev 1 mc_kvs blank_hw)) rp \<and>
     made_key some_left (rng_stream (p256_env some_left touch_env) (generating (p256_env some_left touch_env) 1
       (snd (fido2_wait_for_user_presence (p256_env some_left touch_env) 1 (request_dev 1 mc_kvs blank_hw))))) pub (rk_private_key k)"
proof -
  have l: "left_ok some_left" by (simp add: left_ok_def some_left_def)
  have "touch_like (p256_env some_left touch_env)"
    using p256_sizes [OF l] by (simp add: touch_like_def p256_env_def touch_env_sizes)
  then obtain r d' where r: "cmd_make_credential (p256_env some_left touch_env) 1001 1 (request_dev 1 mc_kvs blank_hw) = Some (r, d')"
    "length r \<noteq> 1" by (rule make_run)
  have "store_ok (fmem (chip (request_dev 1 mc_kvs blank_hw)))" by (simp add: blank_store)
  from registration_with_p256 [OF r this l] r(1) show ?thesis by blast
qed

text \<open>C3: a successful GetAssertion with the real library: the answer carries a stored credential of the
  request's relying party.  With an allow list that is not an empty array, the id of that credential occurs somewhere in
  the request: the code compares every 32 bytes of the whole request with the stored ids and does not parse the list.
  The signature is an ECDSA signature by the credential's private key over \<open>rpIdHash || flags || counter\<close> and the client
  data hash; a relying party that verifies it with the public key of the pair accepts it unless its first half is not
  below the group order or its second half is zero.  The only other exception is a call of \<open>uECC_sign\<close> that fails on the
  bytes the firmware's generator delivers in the state of this call.  The user-present bit is set only after a touch, the
  user-verified bit only with a valid \<open>pinUvAuthParam\<close>; nothing in flash changes.\<close>

theorem assertion_with_p256:
  assumes "cmd_get_assertion (p256_env l e) n cid d = Some (r, d')" "length r \<noteq> 1"
    and "sizes_ok (fmem (chip d))" "left_ok l"
  defines "E \<equiv> p256_env l e" and "m \<equiv> req_mem (p256_env l e) d"
  shows "\<exists>rp cdh al pa k flags rk w d1 sig hash.
    get_cbor_map_value (stk E) m 1 (n - 1) 0x01 = Some rp \<and>
    get_cbor_map_string (stk E) m 1 (n - 1) 0x02 = Some cdh \<and>
    get_cbor_map_value (stk E) m 1 (n - 1) 0x03 = Some al \<and>
    get_cbor_map_string (stk E) m 1 (n - 1) 0x06 = Some pa \<and>
    k \<in> set (creds (fmem (chip d))) \<and>
    rk_rp_id_hash k = rp_id_hash_of m (map_option (\<lambda>(p, n, _). (p, n)) rp) \<and>
    (\<forall>a l t. al = Some (a, l, t) \<longrightarrow> (t = 0x80 \<and> l = 0) \<or> (\<exists>j. j + 32 \<le> n \<and> bytes m j 32 = rk_credential_id k)) \<and>
    ga_select m n (rk_rp_id_hash k) cdh al d = (Some (rk, w), d1) \<and>
    hash = sha256_of (auth_data37 (rk_rp_id_hash k) flags @ signed_cdh m cdh) \<and>
    r = 0x00 # enc (ga_response k (auth_data37 (rk_rp_id_hash k) flags) (ecdsa_sig_to_der sig) (unat w)) \<and>
    signed_by l (rng_stream E (asserting E cid flags d1)) (rk_private_key k) hash sig \<and>
    (\<not> sign_fails (rng_stream E (asserting E cid flags d1)) (rk_private_key k) hash \<longrightarrow>
      (\<forall>pub. key_pair pub (rk_private_key k) \<longrightarrow> checked_by pub hash sig)) \<and>
    flags \<in> {0x00, 0x01, 0x04, 0x05} \<and>
    (bit flags 0 \<longrightarrow> user_touched E d) \<and>
    (bit flags 2 \<longrightarrow> (\<exists>a l. pa = Some (a, l) \<and> uv_valid d m cdh a l)) \<and>
    fmem (chip d') = fmem (chip d)"
proof -
  obtain rp cdh al pa k flags rk w d1 where *: "get_cbor_map_value (stk E) m 1 (n - 1) 0x01 = Some rp"
    "get_cbor_map_string (stk E) m 1 (n - 1) 0x02 = Some cdh" "get_cbor_map_value (stk E) m 1 (n - 1) 0x03 = Some al"
    "get_cbor_map_string (stk E) m 1 (n - 1) 0x06 = Some pa" "k \<in> set (creds (fmem (chip d)))"
    "rk_rp_id_hash k = rp_id_hash_of m (map_option (\<lambda>(p, n, _). (p, n)) rp)"
    "\<forall>a l t. al = Some (a, l, t) \<longrightarrow> (t = 0x80 \<and> l = 0) \<or> (\<exists>j. j + 32 \<le> n \<and> bytes m j 32 = rk_credential_id k)"
    "ga_select m n (rk_rp_id_hash k) cdh al d = (Some (rk, w), d1)"
    "r = 0x00 # enc (ga_response k (auth_data37 (rk_rp_id_hash k) flags)
      (ecdsa_sig_to_der (fst (uECC_sign E (rk_private_key k)
        (sha256_of (auth_data37 (rk_rp_id_hash k) flags @ signed_cdh m cdh)) (asserting E cid flags d1)))) (unat w))"
    "flags \<in> {0x00, 0x01, 0x04, 0x05}" "bit flags 0 \<longrightarrow> user_touched E d"
    "bit flags 2 \<longrightarrow> (\<exists>a l. pa = Some (a, l) \<and> uv_valid d m cdh a l)" "fmem (chip d') = fmem (chip d)"
    using get_assertion_proves [OF assms(1,2) p256_sizes [OF assms(4)] assms(3), folded E_def m_def] by blast
  let ?hash = "sha256_of (auth_data37 (rk_rp_id_hash k) flags @ signed_cdh m cdh)"
  have sig: "signed_by l (rng_stream E x) (rk_private_key k) h (fst (uECC_sign E (rk_private_key k) h x))" for h x
    unfolding E_def p256_call by (rule p256_sign_cases)
  have ck: "\<not> sign_fails (rng_stream E x) (rk_private_key k) h \<longrightarrow>
      (\<forall>pub. key_pair pub (rk_private_key k) \<longrightarrow> checked_by pub h (fst (uECC_sign E (rk_private_key k) h x)))" for h x
    using made_and_signed [OF _ sig] by blast
  note conjI [OF *(1) conjI [OF *(2) conjI [OF *(3) conjI [OF *(4) conjI [OF *(5) conjI [OF *(6) conjI [OF *(7)
    conjI [OF *(8) conjI [OF refl [of ?hash] conjI [OF *(9) conjI [OF sig conjI [OF ck conjI [OF *(10) conjI [OF *(11)
    conjI [OF *(12) *(13)]]]]]]]]]]]]]]]
  then show ?thesis by (intro exI)
qed

lemma assertion_with_p256_witness:
  "\<exists>r d' flags count cdh sig x. cmd_get_assertion (p256_env some_left touch_env) 1001 1 (request_dev 2 ga_kvs stored_hw) = Some (r, d') \<and>
     r = 0x00 # enc (ga_response stored_key (auth_data37 (sha256_of (lit ''a.io'')) flags) (ecdsa_sig_to_der sig) count) \<and>
     signed_by some_left (rng_stream (p256_env some_left touch_env) x) (rk_private_key stored_key)
       (sha256_of (auth_data37 (sha256_of (lit ''a.io'')) flags @ cdh)) sig"
proof -
  let ?E = "p256_env some_left touch_env" and ?d = "request_dev 2 ga_kvs stored_hw"
  have l: "left_ok some_left" by (simp add: left_ok_def some_left_def)
  have "touch_like ?E"
    using p256_sizes [OF l] by (simp add: touch_like_def p256_env_def touch_env_sizes)
  then obtain r d' where r: "cmd_get_assertion ?E 1001 1 ?d = Some (r, d')"
    "length r \<noteq> 1" by (rule assertion_run)
  have "sizes_ok (fmem (chip ?d))" by (simp add: stored)
  from assertion_with_p256 [OF r this l] obtain k flags count cdh sig hash x where
    k: "k \<in> set (creds (fmem (chip ?d)))" "hash = sha256_of (auth_data37 (rk_rp_id_hash k) flags @ signed_cdh (req_mem ?E ?d) cdh)"
      "r = 0x00 # enc (ga_response k (auth_data37 (rk_rp_id_hash k) flags) (ecdsa_sig_to_der sig) count)"
      "signed_by some_left (rng_stream ?E x) (rk_private_key k) hash sig"
    by (elim exE conjE) (rule that)
  have "k = stored_key" using k(1) by (simp add: stored)
  then have "r = 0x00 # enc (ga_response stored_key (auth_data37 (sha256_of (lit ''a.io'')) flags) (ecdsa_sig_to_der sig) count)"
    "signed_by some_left (rng_stream ?E x) (rk_private_key stored_key)
       (sha256_of (auth_data37 (sha256_of (lit ''a.io'')) flags @ signed_cdh (req_mem ?E ?d) cdh)) sig"
    using k(3,4) unfolding k(2) by (simp_all only: stored(4))
  then show ?thesis using r(1) by (intro exI conjI)
qed

end
