(* ===== verification/Spec2Isabelle.thy ===== *)
theory Spec2Isabelle
  imports System Vectors Aes UsbSpec EccCompress EccDet FidoEcc
begin

text \<open>
  \<^bold>\<open>A verified model of the unsolo-key FIDO2 security key.\<close> The program is the firmware of a USB security
  key on a CH32X035 microcontroller (\<open>src/usb_hid_fido2\<close>) and the elliptic curve library it links
  (\<open>src/micro-ecc\<close>). This is the root of the development; the other theories hold the model and the
  proofs, one theory per component and one or more for what it promises.

  \<^bold>\<open>How the program works.\<close> The USB interrupt handler puts the 64-byte packets a host sends to endpoint 1
  into a ring of sixteen blocks. The main loop takes them out, reassembles CTAPHID messages, and hands a
  finished one to its command: PING and INIT are answered at once, CBOR goes to the CTAP2 dispatcher, which
  registers and asserts credentials, manages them, resets the device or runs the PIN protocol. Credentials
  and the PIN hash are flash pages. Commands that need consent wait for a touch, measured by the ADC, and
  send keepalives meanwhile; long computations in the curve library do the same through \<open>uECC_yield\<close>. The
  answer goes out in packets over endpoint 2, one each time the host has fetched the previous one.

  \<^bold>\<open>Theories and sources.\<close>

  \<^item> \<open>Prelude\<close>: integer types, byte order, memory as a function from addresses to bytes, generic lemmas.
  \<^item> \<open>Cbor\<close> (\<open>cbor.c\<close>), \<open>CborParse\<close> (the request scanner of \<open>fido2.c\<close>), \<open>CborSpec\<close>: CBOR items as a
    datatype; skipping an encoded item moves by its length, look-ups are \<open>map_of\<close> on the decoded map, reads
    stay inside the request up to two bytes, and one input makes the scanner recurse without end.
  \<^item> \<open>Sha256\<close> (\<open>sha256.c\<close>), \<open>Vectors\<close>, \<open>Aes\<close> (\<open>aes.c\<close>), \<open>Der\<close> (\<open>ecdsa_sig_to_der\<close>): streaming equals
    the one-pass definition, HMAC is RFC 2104, decryption undoes encryption, a strict DER decoder reads the
    signature back.
  \<^item> \<open>Flash\<close>, \<open>FlashSpec\<close> (\<open>flash_passkey.c\<close>): the store as a list of five optional credentials and a PIN
    page; the locales \<open>credential_store\<close> and \<open>pin_store\<close> state the contract, interpreted on the code.
  \<^item> \<open>UsbDesc\<close> (\<open>usb_desc.c\<close>), \<open>Usb\<close> (\<open>ch32x035_usbfs_device.c\<close>), \<open>UsbSpec\<close>: the interrupt handler as a
    step on the record \<open>usb\<close>, bus events as an inductive relation, the ring as a queue (locale
    \<open>packet_queue\<close>). For all events the indices agree and the DMA stays inside the ring (\<open>ring_safe\<close>); the queue
    (\<open>ring_ok\<close>) survives bus resets and CLEAR_FEATURE requests only under the conditions of \<open>tame\<close>, and
    \<open>bus_reset_misplaces_packet\<close> shows what happens without them.
  \<^item> \<open>Device\<close>, \<open>DeviceSpec\<close> (\<open>main.c\<close>, sending): the record \<open>dev\<close> holds every global variable of
    \<open>main.c\<close>, \<open>fido2.c\<close> and \<open>pin.c\<close> next to the driver state \<open>bus\<close> and the flash \<open>chip\<close>; what a host reads
    while the device answers.
  \<^item> \<open>Presence\<close>, \<open>PresenceSpec\<close> (\<open>fido2.c\<close>): calibration, the wait for a touch, the random generator, the
    three library calls; the wait ends and is granted only after a sustained drop of the reading. Each conversion
    of the ADC turns interrupts off and on again (\<open>irq_disable\<close>, \<open>irq_enable\<close>), so a wait leaves them on, also where
    \<open>flash_factory_reset\<close> had left them off.
  \<^item> \<open>PinCrypto\<close>, \<open>Pin\<close>, \<open>PinSpec\<close>, \<open>PinFlow\<close> (\<open>pin.c\<close>): the PIN protocol with the outcome of each
    sub-command as a table, and the evidence behind every token and every change of the PIN page.
  \<^item> \<open>Fido2\<close>, \<open>Fido2Spec\<close>, \<open>Fido2Props\<close>, \<open>Fido2Guard\<close>, \<open>Fido2Thms\<close> (\<open>fido2.c\<close>): the CTAP2 commands, their
    answers as CBOR values, what is signed with which key and from which state of the random generator
    (\<open>generating\<close>, \<open>attesting\<close>, \<open>asserting\<close>), which command may change which credential, and which bytes of the request
    the token authenticates (\<open>token_mac\<close>).
  \<^item> \<open>Hid\<close>, \<open>HidSpec\<close> (\<open>main.c\<close>): reassembly, dispatch and the main loop; reachable states, and messages
    that arrive as they were sent.
  \<^item> \<open>System\<close>: the flash invariant over all reachable states, and a CBOR request from the packets handed to
    \<open>ProcessCTAPHID\<close> (\<open>deliver\<close>; the way through the ring is \<open>ring_is_fifo\<close>) to the packets of the answer, which need
    interrupts on and are lost after a Reset.
  \<^item> \<open>Vli\<close>, \<open>VliSpec\<close>, \<open>VliFast\<close>, \<open>VliMod\<close>, \<open>VliDiv\<close> (\<open>uECC.c\<close>, \<open>curve-specific.inc\<close>): multi-word
    arithmetic and the number (\<open>vval\<close>, \<open>ival\<close>) each routine computes; the fast and the generic reduction and the
    binary inversion end and are correct.
  \<^item> \<open>Ecc\<close>, \<open>EccField\<close>, \<open>EccAlg\<close>: points in co-Z coordinates; \<open>rep\<close> and \<open>raw\<close> relate words to residues.
  \<^item> \<open>Fp\<close>, \<open>EccGroup\<close>, \<open>EccPoint\<close>: the prime field as a type of class \<open>field\<close>, the chord and tangent law and
    multiples by doubling and adding as the reference (\<open>ec_add\<close>, \<open>ec_mul\<close>), and the ladder invariant
    (\<open>linv\<close>, \<open>lmid\<close>): its two points are \<open>j P\<close> and \<open>(j + 1) P\<close> unless a formula divided by zero.
  \<^item> \<open>EccLaw\<close>, \<open>EccAssoc\<close>: the law is a commutative group on the points of the curve: closure, negation,
    cancellation and associativity, the exceptional cases included; \<open>k\<close> times a point (\<open>ec_times\<close>, the sum of
    \<open>k\<close> copies) is what doubling and adding computes. \<open>CubeCert\<close> has the certificate that no point has order two.
  \<^item> \<open>OrderCert\<close>, \<open>EccOrder\<close>: a chain of 256 doublings and 25 additions from the base point to its negative shows
    that its order is \<open>n\<close>; the scalars below \<open>n\<close> for which the ladder gives up are \<open>0\<close>, \<open>1\<close>, \<open>n - 2\<close>, \<open>n - 1\<close>.
  \<^item> \<open>EccSpec\<close>, \<open>EccKeys\<close>, \<open>EccVerify\<close>, \<open>EccThms\<close>, \<open>EccCompress\<close>, \<open>EccDet\<close>: random numbers, byte order, validation,
    key pairs, key agreement, signatures and their acceptance by a verifier, compression, deterministic signatures
    over a hash function with a contract (locale \<open>hash_provider\<close>, interpreted on \<open>Sha256\<close>).
  \<^item> \<open>Digits\<close>, \<open>Primality\<close>, \<open>PrimeCert\<close>, \<open>PrimeP256\<close>, \<open>PrimeN256\<close>: rules that evaluate sums and products of long
    numerals, Pocklington's criterion and the certificate chains that the field modulus and the group order are
    prime, on which inverses and square roots rest.
  \<^item> \<open>FidoEcc\<close>: the firmware with this library in its environment. The firmware ignores failed calls; \<open>key_fails\<close>
    and \<open>sign_fails\<close> name the failures of the very stream of bytes the call draws, and \<open>made_key\<close> and \<open>signed_by\<close>
    allow the earlier contents of the arrays for exactly these.

  \<^bold>\<open>State and effects.\<close> A C function becomes a HOL function from the state before to result and state after,
  with the early returns in the order of the code; a status byte of the code is the one-byte answer. Buffers
  are lists, request memory a total function \<open>mem\<close> so that reads behind a buffer have a value. Length
  counters that the code keeps in 16 bits wrap in the model where that matters (\<open>skip_cbor_item\<close>).

  \<^bold>\<open>What surrounds the code\<close> is the record \<open>env\<close>: the bus events the hardware delivers in each slice of waiting
  time (lost while interrupts are off), the ADC and timer readings, the bytes behind the request buffer, the
  stack depth the scanner may use, what an undefined return value holds, and the results of the three
  library calls with the random bytes they draw and the times they yield. Theorems hold for every
  environment, or name what they need: \<open>ecc_sizes\<close> (the documented lengths of keys and signatures, proved for
  the library model in \<open>FidoEcc\<close>), \<open>calm\<close> and \<open>prompt\<close> (no bus reset, a host that keeps reading).

  \<^bold>\<open>Loops and bounds.\<close> The touch loop runs at most 301 times and reads the pad at most 349 times; sending has a
  measure on the bytes left; the scanner's recursion is bounded by the stack depth, a result \<open>None\<close> means it
  ran out; 64 attempts bound every loop of the curve library that draws numbers, and the remaining loops
  (\<open>while_option\<close>, \<open>partial_function\<close>) are proved to end, so \<open>None\<close> never occurs as a result of a library
  call.

  \<^bold>\<open>What the properties say.\<close> Registration and assertion prove possession of stored keys and need a touch;
  credentials change only through guarded commands; PIN guesses cost retries and tokens need the PIN; the
  flash and the reassembly buffer stay well-formed; messages and reports arrive once, in order and
  unchanged; public keys are multiples of the base point, both sides of a key agreement get the same secret, and
  a relying party that verifies registration and assertion accepts. Others pin down what
  the code does not deliver: a CANCEL behind the request, an acknowledgement of a reset, the standard form of
  deleteCredential, a ring that survives every bus reset, a retry limit on changePIN, an allow list that is parsed (an id
  anywhere in the request counts).

  \<^bold>\<open>Limits.\<close> The library multiplies by the scalar plus once or twice the group order (\<open>regular\<close>). For the base
  point and every public key that belongs to a private key this is the multiple by the scalar itself; for another
  point of the curve that a host sends it is so only if the order of the curve is \<open>n\<close>, which is not proved, so
  \<open>shared_secret_agreed\<close> speaks of \<open>regular\<close> there. The predicate \<open>computable\<close> says for which scalars and points no formula
  of the ladder divides by zero; for the base point it is the range named above.

  \<^bold>\<open>Not modelled.\<close> Clock, GPIO, LED and ADC set-up and the registers of the flash controller (modelled by
  their effect); \<open>uECC_verify\<close>, the optional accessors, other curves and assembly in \<open>micro-ecc\<close>, which
  the build leaves out; the vendored framework \<open>src/ch32fun\<close> (start-up code, register headers, programmer
  and examples for other chips); the Python host tools.
\<close>

end
